(* ===== verification/Prelude.thy ===== *)
theory Prelude
  imports Complex_Main
begin

text \<open>
  Shared ground of the development: the Python idioms the components use (optional dictionary
  keys, list slices, \<open>int()\<close>, \<open>round()\<close>, clamping), date and time values, and the interfaces
  several components implement.  Python floats are modelled by exact real arithmetic, datetimes
  by integers counting microseconds, which is Python's own resolution.

  The interfaces are locales: \<open>invariant_system\<close> and its extension \<open>ratchet\<close> for state that only
  moves one way, \<open>bounded_buffer\<close> for the rolling windows, \<open>timed_gate\<close> for every pause that has
  to end by itself.  Each is interpreted on the definitions of the components that provide it.
\<close>

section \<open>Collections of facts\<close>

named_theorems time_simps \<open>conversions between time units\<close>
named_theorems range_intros \<open>facts that a value lies in its range\<close>

section \<open>Python values\<close>

text \<open>The two option contracts of the exchange; the source writes them \<open>'CE'\<close> and \<open>'PE'\<close>.\<close>

datatype option_type = CE | PE

text \<open>Order sides, \<open>'BUY'\<close> and \<open>'SELL'\<close>.\<close>

datatype side = BUY | SELL

text \<open>Session kind, \<open>'NORMAL'\<close> and \<open>'EXPIRY'\<close>.\<close>

datatype day_type = NORMAL | EXPIRY

text \<open>\<open>d.get(key, default)\<close> on a dictionary whose key may be missing.\<close>

definition get_or :: "'a \<Rightarrow> 'a option \<Rightarrow> 'a" where
  "get_or d v = (case v of None \<Rightarrow> d | Some x \<Rightarrow> x)"

lemma get_or_simps [simp]: "get_or d None = d" "get_or d (Some x) = x"
  by (simp_all add: get_or_def)

text \<open>Truthiness of an optional number: \<open>None\<close> and \<open>0\<close> are false.\<close>

definition truthy :: "real option \<Rightarrow> bool" where
  "truthy v = (case v of None \<Rightarrow> False | Some x \<Rightarrow> x \<noteq> 0)"

lemma truthy_simps [simp]: "\<not> truthy None" "truthy (Some x) \<longleftrightarrow> x \<noteq> 0"
  by (simp_all add: truthy_def)

text \<open>\<open>xs[-n:]\<close>: the last \<open>n\<close> elements, the whole list when it is shorter (or \<open>n\<close> is 0).\<close>

definition last_n :: "nat \<Rightarrow> 'a list \<Rightarrow> 'a list" where
  "last_n n xs = (if n = 0 then xs else drop (length xs - n) xs)"

lemma length_last_n: "0 < n \<Longrightarrow> length (last_n n xs) = min n (length xs)"
  by (simp add: last_n_def)

lemma last_n_short [simp]: "length xs \<le> n \<Longrightarrow> last_n n xs = xs"
  by (simp add: last_n_def)

lemma set_last_n: "set (last_n n xs) \<subseteq> set xs"
  by (simp add: last_n_def set_drop_subset)

lemma last_n_Nil_iff [simp]: "last_n n xs = [] \<longleftrightarrow> xs = []"
  by (cases xs) (auto simp: last_n_def)

lemma last_n_snoc:
  assumes "0 < n" shows "last_n n (last_n n xs @ [x]) = last_n n (xs @ [x])"
proof (cases "length xs \<le> n")
  case True
  then show ?thesis by simp
next
  case False
  with assms have "length (drop (length xs - n) xs) = n" by simp
  with False assms show ?thesis by (simp add: last_n_def Suc_diff_le)
qed

lemma last_n_idem [simp]: "last_n n (last_n n xs) = last_n n xs"
  by (cases "n = 0") (simp_all add: last_n_def)

text \<open>\<open>s.upper()\<close> on ASCII text.\<close>

definition char_upper :: "char \<Rightarrow> char" where
  "char_upper c = (let n = of_char c :: nat in if 97 \<le> n \<and> n \<le> 122 then char_of (n - 32) else c)"

definition py_upper :: "string \<Rightarrow> string" where
  "py_upper s = map char_upper s"

text \<open>\<open>int(x)\<close> truncates towards zero; \<open>round(x, n)\<close> rounds halves to even.\<close>

definition py_int :: "real \<Rightarrow> int" where
  "py_int x = (if 0 \<le> x then \<lfloor>x\<rfloor> else \<lceil>x\<rceil>)"

definition round_half_even :: "real \<Rightarrow> int" where
  "round_half_even x =
     (let lo = \<lfloor>x\<rfloor>; d = x - of_int lo
      in if d < 1/2 then lo
         else if 1/2 < d then lo + 1
         else if even lo then lo else lo + 1)"

definition py_round :: "nat \<Rightarrow> real \<Rightarrow> real" where
  "py_round n x = of_int (round_half_even (x * 10 ^ n)) / 10 ^ n"

lemma py_int_nonneg: "0 \<le> x \<Longrightarrow> 0 \<le> py_int x"
  by (simp add: py_int_def)

lemma py_int_le: "0 \<le> x \<Longrightarrow> of_int (py_int x) \<le> x"
  by (simp add: py_int_def)

lemma py_int_of_int [simp]: "py_int (of_int k) = k"
  by (simp add: py_int_def)

lemma py_int_mono: "0 \<le> x \<Longrightarrow> x \<le> y \<Longrightarrow> py_int x \<le> py_int y"
  by (simp add: py_int_def floor_mono)

lemma round_half_even_error: "\<bar>of_int (round_half_even x) - x\<bar> \<le> 1/2"
  unfolding round_half_even_def Let_def by (auto simp: abs_if not_less split: if_splits; linarith)

lemma round_half_even_of_int [simp]: "round_half_even (of_int k) = k"
  by (simp add: round_half_even_def)

lemma round_half_even_nonneg: "0 \<le> x \<Longrightarrow> 0 \<le> round_half_even x"
  by (auto simp: round_half_even_def Let_def)

lemma py_round_nonneg: "0 \<le> x \<Longrightarrow> 0 \<le> py_round n x"
  by (simp add: py_round_def round_half_even_nonneg)

lemma py_round_error: "\<bar>py_round n x - x\<bar> \<le> 1 / (2 * 10 ^ n)"
proof -
  let ?p = "(10::real) ^ n"
  have "py_round n x - x = (of_int (round_half_even (x * ?p)) - x * ?p) / ?p"
    by (simp add: py_round_def field_simps)
  then have "\<bar>py_round n x - x\<bar> = \<bar>of_int (round_half_even (x * ?p)) - x * ?p\<bar> / ?p"
    by simp
  also have "\<dots> \<le> (1/2) / ?p"
    by (rule divide_right_mono[OF round_half_even_error]) simp
  finally show ?thesis by simp
qed

lemma round_half_even_mono:
  assumes "x \<le> y" shows "round_half_even x \<le> round_half_even y"
proof (cases "\<lfloor>x\<rfloor> = \<lfloor>y\<rfloor>")
  case True
  with assms show ?thesis by (auto simp: round_half_even_def Let_def)
next
  case False
  with assms have "\<lfloor>x\<rfloor> < \<lfloor>y\<rfloor>" by (meson floor_mono le_less)
  then show ?thesis by (auto simp: round_half_even_def Let_def)
qed

lemma py_round_mono: "x \<le> y \<Longrightarrow> py_round n x \<le> py_round n y"
  unfolding py_round_def
  by (intro divide_right_mono) (simp_all add: round_half_even_mono mult_right_mono)

text \<open>\<open>max(lo, min(hi, x))\<close>, written out in many places of the source.\<close>

definition clamp :: "real \<Rightarrow> real \<Rightarrow> real \<Rightarrow> real" where
  "clamp lo hi x = max lo (min hi x)"

lemma clamp_bounds [range_intros]:
  "lo \<le> clamp lo hi x" "lo \<le> hi \<Longrightarrow> clamp lo hi x \<le> hi"
  by (simp_all add: clamp_def)

lemma clamp_mono: "x \<le> y \<Longrightarrow> clamp lo hi x \<le> clamp lo hi y"
  unfolding clamp_def by (intro max.mono min.mono) auto

lemma clamp_id [simp]: "lo \<le> x \<Longrightarrow> x \<le> hi \<Longrightarrow> clamp lo hi x = x"
  by (simp add: clamp_def)

section \<open>Time\<close>

text \<open>A naive local datetime: microseconds since day 0 of the proleptic calendar.\<close>

type_synonym instant = int

definition seconds :: "int \<Rightarrow> int" where
  [time_simps]: "seconds n = n * 1000000"

definition minutes :: "int \<Rightarrow> int" where
  [time_simps]: "minutes n = n * 60000000"

text \<open>\<open>timedelta.total_seconds()\<close>\<close>

definition total_seconds :: "int \<Rightarrow> real" where
  [time_simps]: "total_seconds d = of_int d / 1000000"

lemma total_seconds_less_iff:
  "total_seconds d < of_int n \<longleftrightarrow> d < seconds n"
  "of_int n < total_seconds d \<longleftrightarrow> seconds n < d"
  "total_seconds d \<le> of_int n \<longleftrightarrow> d \<le> seconds n"
  "of_int n \<le> total_seconds d \<longleftrightarrow> seconds n \<le> d"
  unfolding total_seconds_def seconds_def
  by (simp_all add: divide_less_eq less_divide_eq divide_le_eq le_divide_eq, linarith+)

definition hour_of :: "instant \<Rightarrow> int" where
  "hour_of t = (t div 3600000000) mod 24"

definition minute_of :: "instant \<Rightarrow> int" where
  "minute_of t = (t div 60000000) mod 60"

definition microsecond_of :: "instant \<Rightarrow> int" where
  "microsecond_of t = t mod 1000000"

text \<open>Calendar days are Python's proleptic ordinals; ordinal 1 is a Monday.\<close>

definition date_of :: "instant \<Rightarrow> int" where
  "date_of t = t div 86400000000"

definition weekday :: "int \<Rightarrow> int" where
  "weekday d = (d + 6) mod 7"

lemma hour_of_range: "0 \<le> hour_of t \<and> hour_of t < 24"
  by (simp add: hour_of_def)

lemma minute_of_range: "0 \<le> minute_of t \<and> minute_of t < 60"
  by (simp add: minute_of_def)

text \<open>\<open>t.replace(hour=h, minute=m, second=0)\<close> keeps the date and the microseconds.\<close>

definition at_time :: "instant \<Rightarrow> int \<Rightarrow> int \<Rightarrow> instant" where
  "at_time t h m = date_of t * 86400000000 + h * 3600000000 + m * 60000000 + microsecond_of t"

definition minute_of_day :: "instant \<Rightarrow> int" where
  "minute_of_day t = hour_of t * 60 + minute_of t"

section \<open>Interfaces\<close>

text \<open>A component driven by events, with an invariant every admissible event keeps.\<close>

locale invariant_system =
  fixes step :: "'s \<Rightarrow> 'e \<Rightarrow> 's"
    and inv :: "'s \<Rightarrow> bool"
    and ok :: "'e \<Rightarrow> bool"
  assumes inv_step: "inv s \<Longrightarrow> ok e \<Longrightarrow> inv (step s e)"
begin

lemma inv_run: "inv s \<Longrightarrow> list_all ok es \<Longrightarrow> inv (foldl step s es)"
  by (induction es arbitrary: s) (auto intro: inv_step)

end

text \<open>A level the events can only raise: a trailing stop, a peak, a high-water mark.\<close>

locale ratchet = invariant_system step inv ok
  for step :: "'s \<Rightarrow> 'e \<Rightarrow> 's" and inv :: "'s \<Rightarrow> bool" and ok :: "'e \<Rightarrow> bool" +
  fixes level :: "'s \<Rightarrow> 'l::preorder"
  assumes level_step: "inv s \<Longrightarrow> ok e \<Longrightarrow> level s \<le> level (step s e)"
begin

lemma level_run: "inv s \<Longrightarrow> list_all ok es \<Longrightarrow> level s \<le> level (foldl step s es)"
proof (induction es arbitrary: s)
  case (Cons e es)
  then have "level s \<le> level (step s e)" and "inv (step s e)"
    by (auto intro: level_step inv_step)
  with Cons.IH[of "step s e"] Cons.prems show ?case by (auto intro: order_trans)
qed simp

lemma level_between:
  assumes "inv s" "list_all ok (es @ fs)"
  shows "level (foldl step s es) \<le> level (foldl step s (es @ fs))"
  using assms level_run[of "foldl step s es" fs] inv_run[of s es] by simp

end

text \<open>A rolling window that keeps the last \<open>cap\<close> items pushed.\<close>

locale bounded_buffer =
  fixes push :: "'s \<Rightarrow> 'a \<Rightarrow> 's"
    and items :: "'s \<Rightarrow> 'a list"
    and cap :: nat
  assumes cap_pos: "0 < cap"
    and items_push: "length (items s) \<le> cap \<Longrightarrow> items (push s x) = last_n cap (items s @ [x])"
begin

sublocale window: invariant_system push "\<lambda>s. length (items s) \<le> cap" "\<lambda>_. True"
  using cap_pos by unfold_locales (auto simp: items_push length_last_n)

lemma items_run:
  "length (items s) \<le> cap \<Longrightarrow> items (foldl push s xs) = last_n cap (items s @ xs)"
proof (induction xs rule: rev_induct)
  case (snoc x xs)
  have "length (items (foldl push s xs)) \<le> cap"
    using snoc.prems window.inv_run[of s xs] by (simp add: list_all_iff)
  with snoc show ?case
    using cap_pos by (simp add: items_push last_n_snoc flip: append_assoc)
qed simp

lemma length_run: "length (items s) \<le> cap \<Longrightarrow> length (items (foldl push s xs)) \<le> cap"
  using window.inv_run[of s xs] by (simp add: list_all_iff)

end

text \<open>
  A gate that holds while a deadline lies ahead and opens at the first poll after it.
  \<open>poll now s\<close> answers whether the caller may pass and the state after the call.
\<close>

locale timed_gate =
  fixes poll :: "instant \<Rightarrow> 's \<Rightarrow> bool \<times> 's"
    and deadline :: "'s \<Rightarrow> instant option"
    and wf :: "'s \<Rightarrow> bool"
  assumes held: "wf s \<Longrightarrow> deadline s = Some d \<Longrightarrow> now < d \<Longrightarrow> poll now s = (False, s)"
    and released: "wf s \<Longrightarrow> deadline s = Some d \<Longrightarrow> d \<le> now \<Longrightarrow> fst (poll now s)"
begin

fun polls :: "instant list \<Rightarrow> 's \<Rightarrow> bool list \<times> 's" where
  "polls [] s = ([], s)"
| "polls (t # ts) s =
     (let (ok, s') = poll t s; (oks, s'') = polls ts s' in (ok # oks, s''))"

lemma polls_held:
  "wf s \<Longrightarrow> deadline s = Some d \<Longrightarrow> (\<forall>t\<in>set ts. t < d) \<Longrightarrow>
    polls ts s = (replicate (length ts) False, s)"
  by (induction ts) (auto simp: held)

lemma opens_once_expired:
  assumes "wf s" "deadline s = Some d" "\<forall>t\<in>set ts. t < d" "d \<le> now"
  shows "fst (poll now (snd (polls ts s)))"
  using assms by (simp add: polls_held released)

end

end
