(* ===== verification/Market_Tick.thy ===== *)
theory Market_Tick
  imports Prelude
begin

text \<open>
  The tick dictionary every component passes around, and the small helpers of
  \<open>utils/helpers.py\<close> on it.  Keys that a feed may omit are options or carry the default the
  readers use (\<open>spot_price\<close> 0, \<open>symbol\<close> and \<open>data_source\<close> empty).  Tick timestamps are
  milliseconds on the same clock the datetimes are read from.
\<close>

datatype py_error = ZeroDivisionError | KeyError | IndexError | TypeError | ValueError

record tick =
  ltp :: real
  bid :: real
  ask :: real
  tick_timestamp :: int
  original_timestamp :: "int option"
  tick_symbol :: string
  spot_price :: real
  tick_volume :: "int option"
  data_source :: string
  tick_spread_pct :: "real option"
  tick_delta :: "real option"
  tick_atr :: "real option"
  tick_iv :: "real option"
  tick_tte_sec :: "real option"

definition current_time_ms :: "instant \<Rightarrow> int" where
  "current_time_ms now = now div 1000"

definition calc_latency_ms :: "instant \<Rightarrow> tick \<Rightarrow> int" where
  "calc_latency_ms now t = current_time_ms now - tick_timestamp t"

text \<open>The percentage spread divides by the ask; a zero ask raises.\<close>

definition spread_pct :: "tick \<Rightarrow> py_error + real" where
  "spread_pct t =
     (if ask t = 0 then Inl ZeroDivisionError
      else Inr ((ask t - bid t) / ask t * 100))"

text \<open>\<open>calculate_position_size\<close>: the size multiplier the VIX level asks for.\<close>

definition calculate_position_size :: "real \<Rightarrow> real" where
  "calculate_position_size vix =
     (if vix < 12 then 5/4 else if 20 < vix then 1/2 else 1)"

lemma calculate_position_size_antimono:
  "v \<le> w \<Longrightarrow> calculate_position_size w \<le> calculate_position_size v"
  by (auto simp: calculate_position_size_def)

lemma spread_pct_nonneg: "spread_pct t = Inr sp \<Longrightarrow> 0 < ask t \<Longrightarrow> bid t \<le> ask t \<Longrightarrow> 0 \<le> sp"
  by (auto simp: spread_pct_def split: if_splits)

text \<open>A check that may return early: \<open>Some v\<close> is the returned value, \<open>None\<close> falls through.\<close>

definition then_check ::
  "'v option \<times> 's \<Rightarrow> ('s \<Rightarrow> (py_error + 'v) \<times> 's) \<Rightarrow> (py_error + 'v) \<times> 's" where
  "then_check m k = (case fst m of Some v \<Rightarrow> (Inr v, snd m) | None \<Rightarrow> k (snd m))"

lemma then_check_simps [simp]:
  "then_check (Some v, s) k = (Inr v, s)"
  "then_check (None, s) k = k s"
  by (simp_all add: then_check_def)

lemma then_check_None: "fst m = None \<Longrightarrow> then_check m k = k (snd m)"
  by (cases m) simp

lemma then_check_Some: "fst m = Some v \<Longrightarrow> then_check m k = (Inr v, snd m)"
  by (cases m) simp

end
