(* ===== verification/Trade.thy ===== *)
theory Trade
  imports Market_Tick
begin

text \<open>
  The trade dictionary: written by \<open>place_order\<close> when an entry is filled, updated on every tick by
  the exit engine, read by \<open>exit_position\<close>.  The keys of the entry are plain fields; the keys the
  exit engine adds later are options (absent until written).  The descriptive keys copied from the
  signal (score, grades, components) are only logged and are left out.
\<close>

datatype tsl_status = HardSL | StepTSL real | TrailingDisabled | Locked real

record trade =
  order_id :: string
  entry_price :: real
  entry_spread :: "real option"
  entry_time :: instant
  qty :: int
  trade_side :: side
  direction :: option_type
  trade_symbol :: string
  trade_strike :: int
  highest_price :: real
  fixed_sl_price :: real
  trailing_sl_price :: real
  sl_points :: real
  tp_points :: real
  tp_price :: real
  initial_sl_amount :: real
  price_diff :: "real option"
  current_pnl :: "real option"
  max_profit_points :: "real option"
  highest_sl :: "real option"
  mfe_inr :: "real option"
  mae_inr :: "real option"
  current_tsl :: "real option"
  trade_tsl_status :: "tsl_status option"
  min_rsi_seen :: "real option"
  max_rsi_seen :: "real option"
  early_cut_applied :: bool
  soft_time_cut_applied :: bool
  pnl_capped :: bool
  tsl_logged :: bool
  trade_atr :: "real option"

text \<open>The dictionary \<open>place_order\<close> builds for a fill at \<open>price\<close>.\<close>

definition filled_trade ::
  "string \<Rightarrow> real \<Rightarrow> real option \<Rightarrow> instant \<Rightarrow> int \<Rightarrow> side \<Rightarrow> option_type \<Rightarrow> string \<Rightarrow> int \<Rightarrow> real \<Rightarrow> real \<Rightarrow> trade" where
  "filled_trade oid price spread now q sd dir symb strike sl tp =
     (let sl_price = (if sd = BUY then price - sl else price + sl)
      in \<lparr>order_id = oid, entry_price = price, entry_spread = spread, entry_time = now, qty = q,
          trade_side = sd, direction = dir, trade_symbol = symb, trade_strike = strike,
          highest_price = price, fixed_sl_price = sl_price, trailing_sl_price = sl_price,
          sl_points = sl, tp_points = tp,
          tp_price = (if sd = BUY then price + tp else price - tp),
          initial_sl_amount = sl * of_int q,
          price_diff = None, current_pnl = None, max_profit_points = None, highest_sl = None,
          mfe_inr = None, mae_inr = None, current_tsl = None, trade_tsl_status = None,
          min_rsi_seen = None, max_rsi_seen = None, early_cut_applied = False,
          soft_time_cut_applied = False, pnl_capped = False, tsl_logged = False, trade_atr = None\<rparr>)"

text \<open>Points gained per unit at a price, for either side.\<close>

definition points_gained :: "trade \<Rightarrow> real \<Rightarrow> real" where
  "points_gained t price = (if trade_side t = BUY then price - entry_price t else entry_price t - price)"

lemma points_gained_filled [simp]:
  "points_gained (filled_trade oid price spread now q sd dir symb strike sl tp) x
     = (if sd = BUY then x - price else price - x)"
  by (simp add: points_gained_def filled_trade_def Let_def)

end
