(* ===== verification/Trading_State.thy ===== *)
theory Trading_State
  imports Trade
begin

text \<open>
  The state the trading machine keeps and the gates on it, from \<open>core/engines/state_machine.py\<close>:
  \<open>TradingState\<close> with its counters, direction blocks and restart recovery, the execution guard, the
  spike pause, the realised ATR and RSI of the tick buffer, session and trade limits and the
  cooldown durations.  The handlers that move the machine are in \<open>State_Machine\<close>.  The module
  globals of the spike pause are fields of the same record.
\<close>

section \<open>Settings\<close>

record session_window =
  start_min :: int
  end_min :: int

record state_config =
  session_filter_enabled :: bool
  blackout_sessions :: "session_window list"
  expiry_only_sessions :: "session_window list"
  allowed_sessions :: "session_window list"
  trading_start_min :: int
  max_trades_per_hour :: int
  max_trades_per_day :: int
  cooldown_loss_limit :: int
  cooldown_after_consecutive_loss :: int
  cooldown_expiry_after_sl :: int
  cooldown_after_sl_sec :: int
  cooldown_after_profit_sec :: int
  cooldown_expiry_normal :: int
  cooldown_normal_sec :: int
  cooldown_non_trade_block_sec :: int
  require_consecutive_signals :: int
  entry_max_drift_pct :: real
  entry_signal_max_age_ms :: real
  realised_atr_enabled :: bool
  realised_atr_window_sec :: nat

definition session_at :: "int \<Rightarrow> int \<Rightarrow> int \<Rightarrow> int \<Rightarrow> session_window" where
  "session_at h m h' m' = \<lparr>start_min = h * 60 + m, end_min = h' * 60 + m'\<rparr>"

definition default_state_config :: state_config where
  "default_state_config = \<lparr>session_filter_enabled = True, blackout_sessions = [],
     expiry_only_sessions = [session_at 9 20 10 30, session_at 10 30 11 30],
     allowed_sessions = [session_at 9 20 10 30, session_at 10 30 11 30, session_at 11 30 12 30,
       session_at 12 30 14 0, session_at 14 0 15 15],
     trading_start_min = 560, max_trades_per_hour = 10, max_trades_per_day = 30,
     cooldown_loss_limit = 2, cooldown_after_consecutive_loss = 900, cooldown_expiry_after_sl = 180,
     cooldown_after_sl_sec = 120, cooldown_after_profit_sec = 30, cooldown_expiry_normal = 120,
     cooldown_normal_sec = 120, cooldown_non_trade_block_sec = 15, require_consecutive_signals = 1,
     entry_max_drift_pct = 3/4, entry_signal_max_age_ms = 2500, realised_atr_enabled = False,
     realised_atr_window_sec = 60\<rparr>"

section \<open>State\<close>

datatype machine_state = IDLE | ENTRY_READY | IN_TRADE | COOLDOWN | KILL_SWITCH

record trading_state =
  machine :: machine_state
  ts_day_type :: day_type
  current_trade :: "trade option"
  cooldown_until :: "instant option"
  manual_intervention_required :: bool
  daily_pnl_inr :: real
  daily_pnl_pct :: real
  daily_loss_alerted :: bool
  manual_stop :: bool
  trades_this_hour :: int
  total_trades_today :: int
  consecutive_losses :: int
  winning_trades :: int
  losing_trades :: int
  consecutive_ce_losses :: int
  consecutive_pe_losses :: int
  last_trade_direction :: "option_type option"
  ce_blocked_until :: "instant option"
  pe_blocked_until :: "instant option"
  consecutive_entry_signals :: int
  last_signal_time :: "instant option"
  estimated_vix :: real
  loop_count :: int
  last_strike_rotation :: "instant option"
  kill_switch_count :: int
  last_spot_prices :: "(instant \<times> real) list"
  spike_pause_until :: "instant option"

definition initial_trading_state :: trading_state where
  "initial_trading_state = \<lparr>machine = IDLE, ts_day_type = NORMAL, current_trade = None,
     cooldown_until = None, manual_intervention_required = False, daily_pnl_inr = 0,
     daily_pnl_pct = 0, daily_loss_alerted = False, manual_stop = False, trades_this_hour = 0,
     total_trades_today = 0, consecutive_losses = 0, winning_trades = 0, losing_trades = 0,
     consecutive_ce_losses = 0, consecutive_pe_losses = 0, last_trade_direction = None,
     ce_blocked_until = None, pe_blocked_until = None, consecutive_entry_signals = 0,
     last_signal_time = None, estimated_vix = 15, loop_count = 0, last_strike_rotation = None,
     kill_switch_count = 0, last_spot_prices = [], spike_pause_until = None\<rparr>"

definition reset_daily :: "trading_state \<Rightarrow> trading_state" where
  "reset_daily s = s\<lparr>daily_pnl_inr := 0, daily_pnl_pct := 0, total_trades_today := 0,
     trades_this_hour := 0, winning_trades := 0, losing_trades := 0, consecutive_losses := 0,
     consecutive_ce_losses := 0, consecutive_pe_losses := 0, ce_blocked_until := None,
     pe_blocked_until := None, last_trade_direction := None, manual_intervention_required := False\<rparr>"

section \<open>Direction blocks\<close>

definition direction_losses :: "option_type \<Rightarrow> trading_state \<Rightarrow> int" where
  "direction_losses d s = (if d = CE then consecutive_ce_losses s else consecutive_pe_losses s)"

definition blocked_until :: "option_type \<Rightarrow> trading_state \<Rightarrow> instant option" where
  "blocked_until d s = (if d = CE then ce_blocked_until s else pe_blocked_until s)"

definition set_direction :: "option_type \<Rightarrow> int \<Rightarrow> instant option \<Rightarrow> trading_state \<Rightarrow> trading_state" where
  "set_direction d n u s =
     (if d = CE then s\<lparr>consecutive_ce_losses := n, ce_blocked_until := u\<rparr>
      else s\<lparr>consecutive_pe_losses := n, pe_blocked_until := u\<rparr>)"

definition is_direction_blocked :: "instant \<Rightarrow> option_type \<Rightarrow> trading_state \<Rightarrow> bool \<times> trading_state" where
  "is_direction_blocked now d s =
     (if direction_losses d s \<ge> 2
      then if (case blocked_until d s of None \<Rightarrow> False | Some u \<Rightarrow> now < u) then (True, s)
           else (False, set_direction d 1 None s)
      else (False, s))"

text \<open>The two branches of \<open>update_pnl\<close>: what a loss and what anything else does to the counters.\<close>

definition count_loss :: "instant \<Rightarrow> option_type option \<Rightarrow> trading_state \<Rightarrow> trading_state" where
  "count_loss now dir s =
     (let s' = s\<lparr>consecutive_losses := consecutive_losses s + 1, losing_trades := losing_trades s + 1\<rparr>
      in case dir of None \<Rightarrow> s'
         | Some d \<Rightarrow> set_direction d (direction_losses d s' + 1)
                      (if direction_losses d s' + 1 \<ge> 2 then Some (now + minutes 30) else blocked_until d s') s')"

definition count_win :: "option_type option \<Rightarrow> trading_state \<Rightarrow> trading_state" where
  "count_win dir s =
     (let s' = s\<lparr>consecutive_losses := 0, winning_trades := winning_trades s + 1\<rparr>
      in case dir of None \<Rightarrow> s' | Some d \<Rightarrow> set_direction d 0 None s')"

definition update_pnl ::
  "instant \<Rightarrow> real \<Rightarrow> real \<Rightarrow> bool \<Rightarrow> option_type option \<Rightarrow> trading_state
    \<Rightarrow> (py_error + unit) \<times> trading_state" where
  "update_pnl now pnl capital is_loss dir s =
     (let s1 = s\<lparr>daily_pnl_inr := daily_pnl_inr s + pnl\<rparr>
      in if capital = 0 then (Inl ZeroDivisionError, s1)
         else
           let s2 = s1\<lparr>daily_pnl_pct := daily_pnl_inr s1 / capital * 100\<rparr>;
               s3 = (if is_loss then count_loss now dir s2 else count_win dir s2)
           in (Inr (), s3\<lparr>last_trade_direction := dir, total_trades_today := total_trades_today s3 + 1\<rparr>))"

section \<open>Restart\<close>

text \<open>
  A row of the day's \<open>trades.csv\<close>: whether it is an EXIT, the pnl column (absent when empty), the
  amounts the two regular expressions find in the exit reason, and whether the symbol contains CE.
\<close>

record trade_row =
  row_is_exit :: bool
  row_pnl :: "real option"
  row_profit_text :: "real option"
  row_loss_text :: "real option"
  row_is_ce :: bool

definition restored_pnl :: "trade_row \<Rightarrow> real" where
  "restored_pnl r =
     (let csv = get_or 0 (row_pnl r)
      in if csv \<noteq> 0 \<and> \<bar>csv\<bar> < 50000 then csv
         else case row_profit_text r of Some p \<Rightarrow> p
              | None \<Rightarrow> (case row_loss_text r of Some l \<Rightarrow> - l | None \<Rightarrow> csv))"

definition row_direction :: "trade_row \<Rightarrow> option_type" where
  "row_direction r = (if row_is_ce r then CE else PE)"

definition row_is_loss :: "trade_row \<Rightarrow> bool" where
  "row_is_loss r \<longleftrightarrow> \<not> restored_pnl r > 0"

text \<open>The loop over the recent trades: (CE losses, PE losses, last direction).\<close>

fun count_direction_losses ::
  "trade_row list \<Rightarrow> int \<times> int \<times> option_type option \<Rightarrow> int \<times> int \<times> option_type option" where
  "count_direction_losses [] acc = acc"
| "count_direction_losses (r # rs) (ce, pe, ld) =
     count_direction_losses rs
       (if row_is_loss r
        then if row_direction r = CE then (ce + 1, pe, Some CE) else (ce, pe + 1, Some PE)
        else if row_direction r = CE then (0, pe, Some CE) else (ce, 0, Some PE))"

definition restore_from_trades :: "real \<Rightarrow> trade_row list option \<Rightarrow> trading_state \<Rightarrow> bool \<times> trading_state" where
  "restore_from_trades capital file s =
     (case file of
        None \<Rightarrow> (False, s)
      | Some rows \<Rightarrow>
          let exits = filter row_is_exit rows;
              total = sum_list (map restored_pnl exits);
              (ce, pe, ld) = count_direction_losses exits (0, 0, None)
          in if exits = [] then (False, s)
             else if capital = 0 then (False, s\<lparr>daily_pnl_inr := total\<rparr>)
             else (True, s\<lparr>daily_pnl_inr := total, daily_pnl_pct := total / capital * 100,
                           total_trades_today := int (length exits),
                           winning_trades := int (length (filter (\<lambda>r. \<not> row_is_loss r) exits)),
                           losing_trades := int (length (filter row_is_loss exits)),
                           consecutive_ce_losses := ce, consecutive_pe_losses := pe,
                           last_trade_direction := ld,
                           consecutive_losses := int (length (takeWhile row_is_loss (rev exits)))\<rparr>))"

section \<open>Signal guard\<close>

text \<open>A timestamp as it appears in a signal or tick; texts are given by what they parse to.\<close>

datatype raw_stamp = StampDatetime instant | StampNumber real | StampText "instant option"

definition parse_signal_dt :: "raw_stamp option \<Rightarrow> instant option" where
  "parse_signal_dt raw =
     (case raw of
        None \<Rightarrow> None
      | Some (StampDatetime t) \<Rightarrow> Some t
      | Some (StampNumber x) \<Rightarrow>
          let ts = (if x > 10 ^ 15 then x / 1000000 else if x > 10 ^ 12 then x / 1000 else x)
          in Some (round_half_even (ts * 1000000))
      | Some (StampText t) \<Rightarrow> t)"

definition tick_stamp :: "tick \<Rightarrow> raw_stamp option" where
  "tick_stamp t =
     (case original_timestamp t of
        Some n \<Rightarrow> if n \<noteq> 0 then Some (StampNumber (of_int n)) else Some (StampNumber (of_int (tick_timestamp t)))
      | None \<Rightarrow> Some (StampNumber (of_int (tick_timestamp t))))"

datatype guard_verdict = GuardPass | GuardDrift real | GuardFuture real | GuardStale real

definition signal_execution_guard ::
  "state_config \<Rightarrow> real option \<Rightarrow> raw_stamp option \<Rightarrow> tick \<Rightarrow> guard_verdict" where
  "signal_execution_guard cfg signal_ltp signal_stamp t =
     (let sp = get_or 0 signal_ltp; price = ltp t; drift = \<bar>price - sp\<bar> / sp * 100
      in if sp > 0 \<and> price > 0 \<and> drift > entry_max_drift_pct cfg then GuardDrift drift
         else case (parse_signal_dt signal_stamp, parse_signal_dt (tick_stamp t)) of
           (Some a, Some b) \<Rightarrow>
             let age = total_seconds (b - a) * 1000
             in if age < -250 then GuardFuture age
                else if age > entry_signal_max_age_ms cfg then GuardStale age
                else GuardPass
         | _ \<Rightarrow> GuardPass)"

section \<open>Spike pause\<close>

definition push_spot :: "trading_state \<Rightarrow> instant \<times> real \<Rightarrow> trading_state" where
  "push_spot s x =
     (let ps = last_spot_prices s @ [x]
      in s\<lparr>last_spot_prices := (if length ps > 30 then last_n 30 ps else ps)\<rparr>)"

definition spike_move :: "instant \<Rightarrow> real \<Rightarrow> trading_state \<Rightarrow> real option" where
  "spike_move now spot s =
     (if length (last_spot_prices s) < 3 then None
      else case filter (\<lambda>(t, p). t \<ge> now - seconds 10) (last_spot_prices s) of
             (t, oldest) # _ # _ \<Rightarrow>
               if oldest \<le> 0 then None else Some (\<bar>spot - oldest\<bar> / oldest * 100)
           | _ \<Rightarrow> None)"

definition check_intraday_spike :: "instant \<Rightarrow> real \<Rightarrow> trading_state \<Rightarrow> bool \<times> trading_state" where
  "check_intraday_spike now spot s =
     (if (case spike_pause_until s of None \<Rightarrow> False | Some u \<Rightarrow> now < u) then (True, s)
      else
        let s1 = s\<lparr>spike_pause_until := None\<rparr>
        in if spot \<le> 0 then (False, s1)
           else let s2 = push_spot s1 (now, spot)
                in case spike_move now spot s2 of
                     None \<Rightarrow> (False, s2)
                   | Some m \<Rightarrow> if m \<ge> 3/2 then (True, s2\<lparr>spike_pause_until := Some (now + seconds 60)\<rparr>)
                              else (False, s2))"

section \<open>Indicators on the tick buffer\<close>

definition realised_option_atr :: "nat \<Rightarrow> tick list \<Rightarrow> real" where
  "realised_option_atr window ticks =
     (let prices = filter (\<lambda>p. p \<noteq> 0) (map ltp (last_n (max window 1) ticks))
      in if ticks = [] then 0
         else if length prices < 5 then 0
         else py_round 2 (Max (set prices) - Min (set prices)))"

fun changes :: "real list \<Rightarrow> real list" where
  "changes (p # q # ps) = (q - p) # changes (q # ps)"
| "changes _ = []"

definition calculate_rsi :: "nat \<Rightarrow> tick list \<Rightarrow> py_error + real" where
  "calculate_rsi period ticks =
     (let prices = filter (\<lambda>p. p \<noteq> 0) (map ltp ticks);
          gains = map (\<lambda>c. if c > 0 then c else 0) (changes prices);
          losses = map (\<lambda>c. if c > 0 then 0 else \<bar>c\<bar>) (changes prices)
      in if ticks = [] \<or> length ticks < period + 1 then Inr 50
         else if length prices < period + 1 then Inr 50
         else if length gains < period then Inr 50
         else if period = 0 then Inl ZeroDivisionError
         else let avg_gain = sum_list (last_n period gains) / of_nat period;
                  avg_loss = sum_list (last_n period losses) / of_nat period
              in if avg_loss = 0 then Inr (if avg_gain > 0 then 100 else 50)
                 else Inr (100 - 100 / (1 + avg_gain / avg_loss)))"

section \<open>Sessions, limits, cooldowns\<close>

definition in_session :: "int \<Rightarrow> session_window \<Rightarrow> bool" where
  "in_session m w \<longleftrightarrow> start_min w \<le> m \<and> m \<le> end_min w"

definition is_trading_session_allowed :: "state_config \<Rightarrow> instant \<Rightarrow> day_type \<Rightarrow> bool" where
  "is_trading_session_allowed cfg now day =
     (if \<not> session_filter_enabled cfg then True
      else if list_ex (in_session (minute_of_day now)) (blackout_sessions cfg) then False
      else if day = EXPIRY \<and> list_ex (in_session (minute_of_day now)) (expiry_only_sessions cfg) then True
      else list_ex (in_session (minute_of_day now)) (allowed_sessions cfg))"

text \<open>The counters of \<open>check_trade_limits\<close>; the streak check it delegates to is \<open>check_streak_limits\<close>.\<close>

datatype limit_block = HourlyLimit | DailyLimit

definition trade_count_limits :: "state_config \<Rightarrow> trading_state \<Rightarrow> limit_block option" where
  "trade_count_limits cfg s =
     (if trades_this_hour s \<ge> max_trades_per_hour cfg then Some HourlyLimit
      else if total_trades_today s \<ge> max_trades_per_day cfg then Some DailyLimit
      else None)"

definition get_cooldown_duration :: "state_config \<Rightarrow> bool \<Rightarrow> trading_state \<Rightarrow> int" where
  "get_cooldown_duration cfg is_win s =
     (if consecutive_losses s \<ge> cooldown_loss_limit cfg then cooldown_after_consecutive_loss cfg
      else if consecutive_losses s > 0
      then if ts_day_type s = EXPIRY then cooldown_expiry_after_sl cfg else cooldown_after_sl_sec cfg
      else if is_win then cooldown_after_profit_sec cfg
      else if ts_day_type s = EXPIRY then cooldown_expiry_normal cfg else cooldown_normal_sec cfg)"

section \<open>The gates open again\<close>

definition direction_poll :: "option_type \<Rightarrow> instant \<Rightarrow> trading_state \<Rightarrow> bool \<times> trading_state" where
  "direction_poll d now s = (let (b, s') = is_direction_blocked now d s in (\<not> b, s'))"

interpretation direction: timed_gate "direction_poll d" "blocked_until d" "\<lambda>s. 2 \<le> direction_losses d s" for d
  by unfold_locales (auto simp: direction_poll_def is_direction_blocked_def)

lemma direction_losses_set [simp]:
  "direction_losses d (set_direction d n u s) = n" "blocked_until d (set_direction d n u s) = u"
  "c \<noteq> d \<Longrightarrow> direction_losses c (set_direction d n u s) = direction_losses c s"
  "c \<noteq> d \<Longrightarrow> blocked_until c (set_direction d n u s) = blocked_until c s"
  by (cases c; cases d; simp add: direction_losses_def blocked_until_def set_direction_def)+

lemma direction_frame [simp]:
  "direction_losses d (s\<lparr>last_trade_direction := l, total_trades_today := n\<rparr>) = direction_losses d s"
  "blocked_until d (s\<lparr>last_trade_direction := l, total_trades_today := n\<rparr>) = blocked_until d s"
  "direction_losses d (s\<lparr>consecutive_losses := a, losing_trades := b\<rparr>) = direction_losses d s"
  "blocked_until d (s\<lparr>consecutive_losses := a, losing_trades := b\<rparr>) = blocked_until d s"
  "direction_losses d (s\<lparr>daily_pnl_inr := x, daily_pnl_pct := y\<rparr>) = direction_losses d s"
  "blocked_until d (s\<lparr>daily_pnl_inr := x, daily_pnl_pct := y\<rparr>) = blocked_until d s"
  by (simp_all add: direction_losses_def blocked_until_def)

lemma update_pnl_loss:
  assumes "capital \<noteq> 0" "update_pnl now pnl capital True (Some d) s = (Inr (), s1)"
  shows "direction_losses d s1 = direction_losses d s + 1"
    "blocked_until d s1 = (if direction_losses d s + 1 \<ge> 2 then Some (now + minutes 30) else blocked_until d s)"
proof -
  have s1: "s1 = (let u = count_loss now (Some d) (s\<lparr>daily_pnl_inr := daily_pnl_inr s + pnl,
        daily_pnl_pct := (daily_pnl_inr s + pnl) / capital * 100\<rparr>)
      in u\<lparr>last_trade_direction := Some d, total_trades_today := total_trades_today u + 1\<rparr>)"
    using assms by (simp add: update_pnl_def Let_def)
  show "direction_losses d s1 = direction_losses d s + 1"
    "blocked_until d s1 = (if direction_losses d s + 1 \<ge> 2 then Some (now + minutes 30) else blocked_until d s)"
    unfolding s1 by (simp_all add: count_loss_def Let_def)
qed

text \<open>Two losses in a row in one direction close that direction for thirty minutes: the loss that makes
  the count two arms the block, every query before the deadline answers blocked without changing the
  state, and the first query at or after it lets the direction through with the count set back to
  one, so that a single further loss closes it again.\<close>

theorem direction_block_thirty_minutes:
  assumes "capital \<noteq> 0" "1 \<le> direction_losses d s"
    and "update_pnl t0 pnl capital True (Some d) s = (Inr (), s1)"
    and "\<forall>t\<in>set ts. t < t0 + minutes 30" "t0 + minutes 30 \<le> now"
  shows "direction.polls d ts s1 = (replicate (length ts) False, s1)
    \<and> (\<exists>s2. is_direction_blocked now d s1 = (False, s2) \<and> direction_losses d s2 = 1)"
proof -
  have armed: "blocked_until d s1 = Some (t0 + minutes 30)" "2 \<le> direction_losses d s1"
    using update_pnl_loss[OF assms(1,3)] assms(2) by simp_all
  have "direction.polls d ts s1 = (replicate (length ts) False, s1)"
    by (rule direction.polls_held[OF armed(2,1) assms(4)])
  moreover have "fst (direction_poll d now s1)"
    by (rule direction.released[OF armed(2,1) assms(5)])
  moreover have "is_direction_blocked now d s1 = (False, set_direction d 1 None s1)"
    using armed assms(5) by (simp add: is_direction_blocked_def)
  ultimately show ?thesis by simp
qed

lemma default_update:
  "update_pnl 0 (-100) 30000 True (Some CE) (initial_trading_state\<lparr>consecutive_ce_losses := 1\<rparr>)
   = (Inr (), snd (update_pnl 0 (-100) 30000 True (Some CE) (initial_trading_state\<lparr>consecutive_ce_losses := 1\<rparr>)))"
  by (simp add: update_pnl_def Let_def)

theorem direction_block_thirty_minutes_witness:
  "\<exists>s2. is_direction_blocked (minutes 31) CE
     (snd (update_pnl 0 (-100) 30000 True (Some CE) (initial_trading_state\<lparr>consecutive_ce_losses := 1\<rparr>))) = (False, s2)
     \<and> direction_losses CE s2 = 1"
  using direction_block_thirty_minutes[OF _ _ default_update, of "[minutes 10]" "minutes 31"]
  by (simp add: direction_losses_def minutes_def)

lemma push_spot_items:
  "last_spot_prices (push_spot s x) = drop (length (last_spot_prices s) - 29) (last_spot_prices s) @ [x]"
  by (simp add: push_spot_def last_n_def Let_def)

interpretation spot_window: bounded_buffer push_spot last_spot_prices 30
  by unfold_locales (simp_all add: push_spot_items last_n_def)

text \<open>The points in the window are old enough when a pause ends: nothing is pushed during a pause.\<close>

definition spike_wf :: "trading_state \<Rightarrow> bool" where
  "spike_wf s \<longleftrightarrow> length (last_spot_prices s) \<le> 30
     \<and> (\<forall>d. spike_pause_until s = Some d \<longrightarrow> (\<forall>(t, p)\<in>set (last_spot_prices s). t < d - seconds 10))"

definition spike_poll :: "real \<Rightarrow> instant \<Rightarrow> trading_state \<Rightarrow> bool \<times> trading_state" where
  "spike_poll spot now s = (let (b, s') = check_intraday_spike now spot s in (\<not> b, s'))"

lemma spike_move_fresh:
  assumes "\<forall>(t, p)\<in>set (last_spot_prices s). t < now - seconds 10"
  shows "spike_move now spot (push_spot s (now, spot)) = None"
proof -
  have "filter (\<lambda>(t, p). t \<ge> now - seconds 10) (drop k (last_spot_prices s)) = []" for k
    using assms by (fastforce simp: filter_empty_conv dest: in_set_dropD)
  then show ?thesis by (simp add: spike_move_def push_spot_items seconds_def)
qed

interpretation spike: timed_gate "spike_poll spot" spike_pause_until spike_wf for spot
proof
  fix s :: trading_state and d now :: instant
  assume "spike_wf s" and d: "spike_pause_until s = Some d"
  then have old: "\<forall>(t, p)\<in>set (last_spot_prices s). t < d - seconds 10" by (simp add: spike_wf_def)
  show "spike_poll spot now s = (False, s)" if "now < d"
    using d that by (simp add: spike_poll_def check_intraday_spike_def)
  show "fst (spike_poll spot now s)" if "d \<le> now"
  proof -
    have "\<forall>(t, p)\<in>set (last_spot_prices (s\<lparr>spike_pause_until := None\<rparr>)). t < now - seconds 10"
      using old that by fastforce
    from spike_move_fresh[OF this, of spot] show ?thesis
      using d that by (simp add: spike_poll_def check_intraday_spike_def Let_def)
  qed
qed

text \<open>A spot spike pauses entries for sixty seconds and no longer: the detection arms the deadline, every
  later tick before it is held back with the state untouched, and the first tick at or after it is
  let through whatever its price, because the window then holds nothing of the last ten seconds.\<close>

theorem spike_pause_sixty_seconds:
  assumes "check_intraday_spike t0 spot0 s = (True, s1)"
    and "\<forall>u. spike_pause_until s = Some u \<longrightarrow> u \<le> t0"
    and "\<forall>(t, p)\<in>set (last_spot_prices s). t \<le> t0" "length (last_spot_prices s) \<le> 30"
    and "\<forall>t\<in>set ts. t < t0 + seconds 60" "t0 + seconds 60 \<le> now"
  shows "spike.polls spot ts s1 = (replicate (length ts) False, s1)
    \<and> fst (check_intraday_spike now spot s1) = False"
proof -
  let ?s0 = "s\<lparr>spike_pause_until := None\<rparr>"
  have s1: "s1 = (push_spot ?s0 (t0, spot0))\<lparr>spike_pause_until := Some (t0 + seconds 60)\<rparr>"
    using assms(1,2) by (auto simp: check_intraday_spike_def Let_def split: if_splits option.splits)
  have items: "last_spot_prices s1 = last_n 30 (last_spot_prices s @ [(t0, spot0)])"
    using spot_window.items_push[of ?s0 "(t0, spot0)"] assms(4) by (simp add: s1)
  have "t < t0 + seconds 60 - seconds 10" if "(t, p) \<in> set (last_spot_prices s1)" for t p
  proof -
    have "(t, p) \<in> set (last_spot_prices s) \<or> t = t0"
      using that set_last_n[of 30 "last_spot_prices s @ [(t0, spot0)]"] by (auto simp: items)
    with assms(3) show ?thesis by (auto simp: seconds_def)
  qed
  moreover have "length (last_spot_prices s1) \<le> 30" by (simp add: items length_last_n)
  ultimately have "spike_wf s1" by (auto simp: spike_wf_def s1)
  moreover have "spike_pause_until s1 = Some (t0 + seconds 60)" by (simp add: s1)
  ultimately have "spike.polls spot ts s1 = (replicate (length ts) False, s1)" "fst (spike_poll spot now s1)"
    using spike.polls_held[of s1 _ ts spot] spike.released[of s1 _ now spot] assms(5,6) by blast+
  then show ?thesis by (auto simp: spike_poll_def split: prod.splits)
qed

definition spiky :: trading_state where
  "spiky = initial_trading_state\<lparr>last_spot_prices := [(0, 24000), (seconds 1, 24010)]\<rparr>"

theorem spike_pause_sixty_seconds_witness:
  "fst (check_intraday_spike (seconds 70) 26000
     (snd (check_intraday_spike (seconds 2) 24500 spiky))) = False"
proof -
  have "check_intraday_spike (seconds 2) 24500 spiky = (True, snd (check_intraday_spike (seconds 2) 24500 spiky))"
    by (simp add: check_intraday_spike_def spiky_def initial_trading_state_def push_spot_def spike_move_def
        seconds_def Let_def)
  from spike_pause_sixty_seconds[OF this, of "[seconds 30]" "seconds 70" 26000] show ?thesis
    by (simp add: spiky_def initial_trading_state_def seconds_def)
qed

section \<open>Restart against the live counters\<close>

text \<open>The live bot counts the exits one at a time, the loss flag being the sign test of the handler, and between them the
  strategy asks whether a direction is blocked, which clears an expired block and sets its streak back to 1.  The result of
  an exit is taken to be the one its row in the day's file gives back.\<close>

definition live_step :: "real \<Rightarrow> trading_state \<Rightarrow> instant \<times> trade_row \<Rightarrow> trading_state" where
  "live_step capital s x =
     snd (update_pnl (fst x) (restored_pnl (snd x)) capital (restored_pnl (snd x) < 0)
            (Some (row_direction (snd x))) s)"

text \<open>The counters a restart is meant to bring back.\<close>

definition counters :: "trading_state \<Rightarrow> real \<times> int \<times> int \<times> int \<times> int \<times> int \<times> int \<times> option_type option" where
  "counters s = (daily_pnl_inr s, total_trades_today s, winning_trades s, losing_trades s, consecutive_losses s,
     consecutive_ce_losses s, consecutive_pe_losses s, last_trade_direction s)"

lemma live_step_counters:
  assumes "capital \<noteq> 0" "restored_pnl (snd x) \<noteq> 0"
  shows "counters (live_step capital s x) =
     (let r = snd x; l = row_is_loss r; ce = (row_direction r = CE)
      in (daily_pnl_inr s + restored_pnl r, total_trades_today s + 1,
          winning_trades s + (if l then 0 else 1), losing_trades s + (if l then 1 else 0),
          if l then consecutive_losses s + 1 else 0,
          if ce then (if l then consecutive_ce_losses s + 1 else 0) else consecutive_ce_losses s,
          if ce then consecutive_pe_losses s else (if l then consecutive_pe_losses s + 1 else 0),
          Some (row_direction r)))"
proof -
  have l: "restored_pnl (snd x) < 0 \<longleftrightarrow> row_is_loss (snd x)" using assms(2) by (auto simp: row_is_loss_def)
  have d: "row_direction (snd x) \<noteq> CE \<longleftrightarrow> row_direction (snd x) = PE" by (cases "row_direction (snd x)") simp_all
  show ?thesis
    unfolding live_step_def update_pnl_def l using assms(1)
    by (cases "row_is_loss (snd x)"; cases "row_direction (snd x)")
      (simp_all add: counters_def count_loss_def count_win_def set_direction_def direction_losses_def
        blocked_until_def Let_def)
qed

lemma count_direction_losses_snoc:
  "count_direction_losses (rs @ [r]) acc =
     (case count_direction_losses rs acc of (ce, pe, ld) \<Rightarrow>
        (if row_direction r = CE then (if row_is_loss r then ce + 1 else 0) else ce,
         if row_direction r = CE then pe else (if row_is_loss r then pe + 1 else 0),
         Some (row_direction r)))"
proof (induction rs arbitrary: acc)
  case Nil
  obtain ce pe ld where "acc = (ce, pe, ld)" by (rule prod_cases3)
  then show ?case by (cases "row_direction r") simp_all
next
  case (Cons x xs)
  obtain ce pe ld where "acc = (ce, pe, ld)" by (rule prod_cases3)
  with Cons show ?case by simp
qed

text \<open>The counters restart computes, as a function of the exit rows.\<close>

definition restored_counters ::
  "trade_row list \<Rightarrow> real \<times> int \<times> int \<times> int \<times> int \<times> int \<times> int \<times> option_type option" where
  "restored_counters rows =
     (case count_direction_losses rows (0, 0, None) of (ce, pe, ld) \<Rightarrow>
       (sum_list (map restored_pnl rows), int (length rows),
        int (length (filter (\<lambda>r. \<not> row_is_loss r) rows)), int (length (filter row_is_loss rows)),
        int (length (takeWhile row_is_loss (rev rows))), ce, pe, ld))"

datatype live_event = ExitBooked instant trade_row | BlockAsked instant option_type

definition live_event_step :: "real \<Rightarrow> trading_state \<Rightarrow> live_event \<Rightarrow> trading_state" where
  "live_event_step capital s e =
     (case e of ExitBooked now r \<Rightarrow> live_step capital s (now, r) | BlockAsked now d \<Rightarrow> snd (is_direction_blocked now d s))"

definition live_run :: "real \<Rightarrow> live_event list \<Rightarrow> trading_state" where
  "live_run capital es = foldl (live_event_step capital) initial_trading_state es"

fun exit_rows :: "live_event list \<Rightarrow> trade_row list" where
  "exit_rows [] = []"
| "exit_rows (ExitBooked now r # es) = r # exit_rows es"
| "exit_rows (BlockAsked now d # es) = exit_rows es"

lemma exit_rows_append: "exit_rows (es @ fs) = exit_rows es @ exit_rows fs"
  by (induction es rule: exit_rows.induct) simp_all

lemma live_run_snoc: "live_run capital (es @ [e]) = live_event_step capital (live_run capital es) e"
  by (simp add: live_run_def)

text \<open>A question that releases nothing.\<close>

definition unreleased :: "real \<Rightarrow> live_event list \<Rightarrow> bool" where
  "unreleased capital es \<longleftrightarrow> (\<forall>pre now d post. es = pre @ BlockAsked now d # post \<longrightarrow>
     snd (is_direction_blocked now d (live_run capital pre)) = live_run capital pre)"

lemma unreleased_snoc:
  assumes "unreleased capital (es @ [e])"
  shows "unreleased capital es" "e = BlockAsked now d \<Longrightarrow> snd (is_direction_blocked now d (live_run capital es)) = live_run capital es"
  using assms unfolding unreleased_def by force+

text \<open>The live state against the counters a restart computes from the exits so far.\<close>

definition restored_agrees :: "bool \<Rightarrow> trading_state \<Rightarrow> real \<times> int \<times> int \<times> int \<times> int \<times> int \<times> int \<times> option_type option \<Rightarrow> bool" where
  "restored_agrees exact s c \<longleftrightarrow> (case c of (pnl, n, w, l, k, ce, pe, ld) \<Rightarrow>
     (daily_pnl_inr s, total_trades_today s, winning_trades s, losing_trades s, consecutive_losses s, last_trade_direction s)
       = (pnl, n, w, l, k, ld)
   \<and> 0 \<le> consecutive_ce_losses s \<and> consecutive_ce_losses s \<le> ce \<and> (consecutive_ce_losses s = 0 \<longleftrightarrow> ce = 0)
   \<and> 0 \<le> consecutive_pe_losses s \<and> consecutive_pe_losses s \<le> pe \<and> (consecutive_pe_losses s = 0 \<longleftrightarrow> pe = 0)
   \<and> (exact \<longrightarrow> consecutive_ce_losses s = ce \<and> consecutive_pe_losses s = pe))"

lemma restored_agrees_mono: "restored_agrees e s c \<Longrightarrow> restored_agrees False s c"
  by (auto simp: restored_agrees_def)

lemma restored_agrees_asked:
  assumes "restored_agrees e s c" shows "restored_agrees False (snd (is_direction_blocked now d s)) c"
  using assms
  by (cases c; cases d) (auto simp: restored_agrees_def is_direction_blocked_def set_direction_def direction_losses_def split: if_splits)

lemma restored_agrees_exited:
  assumes "capital \<noteq> 0" "restored_pnl r \<noteq> 0" "restored_agrees e s (restored_counters rs)"
  shows "restored_agrees e (live_step capital s (now, r)) (restored_counters (rs @ [r]))"
proof -
  obtain ce pe ld where c: "count_direction_losses rs (0, 0, None) = (ce, pe, ld)" by (rule prod_cases3)
  note step = live_step_counters[OF assms(1), of "(now, r)" s, simplified, OF assms(2), unfolded counters_def]
  show ?thesis
    using assms(3) step
    by (cases "row_is_loss r"; cases "row_direction r = CE")
      (auto simp: restored_agrees_def restored_counters_def c count_direction_losses_snoc Let_def)
qed

lemma live_run_agrees:
  assumes "capital \<noteq> 0" "\<forall>r\<in>set (exit_rows es). restored_pnl r \<noteq> 0"
  shows "restored_agrees (unreleased capital es) (live_run capital es) (restored_counters (exit_rows es))"
  using assms(2)
proof (induction es rule: rev_induct)
  case Nil
  show ?case by (simp add: restored_agrees_def live_run_def restored_counters_def initial_trading_state_def)
next
  case (snoc e es)
  then have IH: "restored_agrees (unreleased capital es) (live_run capital es) (restored_counters (exit_rows es))"
    by (simp add: exit_rows_append)
  have weak: "restored_agrees (unreleased capital (es @ [e])) s c" if "restored_agrees (unreleased capital es) s c" for s c
    using that unreleased_snoc(1)[of capital es e] restored_agrees_mono[OF that] by (cases "unreleased capital (es @ [e])") auto
  show ?case
  proof (cases e)
    case (ExitBooked now r)
    then have "restored_pnl r \<noteq> 0" using snoc.prems by (simp add: exit_rows_append)
    from restored_agrees_exited[OF assms(1) this IH, of now] show ?thesis
      using weak by (simp add: ExitBooked live_run_snoc live_event_step_def exit_rows_append)
  next
    case (BlockAsked now d)
    let ?s = "snd (is_direction_blocked now d (live_run capital es))"
    have "restored_agrees (unreleased capital (es @ [e])) ?s (restored_counters (exit_rows es))"
    proof (cases "unreleased capital (es @ [e])")
      case True
      then show ?thesis using unreleased_snoc(2)[OF True BlockAsked] weak[OF IH] by simp
    next
      case False
      then show ?thesis using restored_agrees_asked[OF IH] by simp
    qed
    then show ?thesis by (simp add: BlockAsked live_run_snoc live_event_step_def exit_rows_append)
  qed
qed


definition row_of :: "real \<Rightarrow> bool \<Rightarrow> trade_row" where
  "row_of p ce = \<lparr>row_is_exit = True, row_pnl = Some p, row_profit_text = None, row_loss_text = None, row_is_ce = ce\<rparr>"

lemma restored_pnl_row_of [simp]: "\<bar>p\<bar> < 50000 \<Longrightarrow> restored_pnl (row_of p ce) = p" "row_is_exit (row_of p ce)"
  by (simp_all add: restored_pnl_def row_of_def)

text \<open>Three losing calls with the block released before the third: the live bot stands at 2, the restarted one at 3.\<close>

definition released_run :: "live_event list" where
  "released_run = [ExitBooked 0 (row_of (-300) True), ExitBooked (minutes 5) (row_of (-200) True), BlockAsked (minutes 36) CE,
     ExitBooked (minutes 40) (row_of (-100) True)]"


text \<open>What a restart does not bring back: after two losing calls the live bot blocks calls for half an
  hour, but the restored state carries no deadline, so the first query finds the streak without a
  block, clears it and lets calls through at once; and a break-even exit, a win to the live
  counters, is restored as a loss.\<close>

theorem restart_forgets_direction_block:
  "fst (is_direction_blocked (minutes 6) CE
      (foldl (live_step 30000) initial_trading_state [(0, row_of (-300) True), (minutes 5, row_of (-200) True)])) = True
   \<and> fst (is_direction_blocked (minutes 6) CE
      (snd (restore_from_trades 30000 (Some [row_of (-300) True, row_of (-200) True]) initial_trading_state))) = False
   \<and> consecutive_losses (live_step 30000 initial_trading_state (0, row_of 0 True)) = 0
   \<and> consecutive_losses (snd (restore_from_trades 30000 (Some [row_of 0 True]) initial_trading_state)) = 1"
proof -
  have dir: "row_direction (row_of p True) = CE" for p by (simp add: row_direction_def row_of_def)
  have live: "blocked_until CE (live_step 30000 s (now, row_of p True))
        = (if direction_losses CE s + 1 \<ge> 2 then Some (now + minutes 30) else blocked_until CE s)"
    "direction_losses CE (live_step 30000 s (now, row_of p True)) = direction_losses CE s + 1"
    if "\<bar>p\<bar> < 50000" "p < 0" for s now p
    using that update_pnl_loss[of 30000 now p CE s "live_step 30000 s (now, row_of p True)"]
    by (simp_all add: live_step_def dir update_pnl_def Let_def)
  have 1: "fst (is_direction_blocked (minutes 6) CE
      (foldl (live_step 30000) initial_trading_state [(0, row_of (-300) True), (minutes 5, row_of (-200) True)])) = True"
    using live[of "-300"] live[of "-200"]
    by (simp add: is_direction_blocked_def direction_losses_def initial_trading_state_def minutes_def)
  have 2: "fst (is_direction_blocked (minutes 6) CE
      (snd (restore_from_trades 30000 (Some [row_of (-300) True, row_of (-200) True]) initial_trading_state))) = False"
    by (simp add: restore_from_trades_def is_direction_blocked_def direction_losses_def blocked_until_def
        initial_trading_state_def dir row_is_loss_def split: option.splits)
  show ?thesis using 1 2
    by (simp add: live_step_def restore_from_trades_def update_pnl_def count_win_def set_direction_def
        initial_trading_state_def dir row_is_loss_def Let_def)
qed

section \<open>Indicators and sessions\<close>

lemma sum_list_last_n_nonneg: "\<forall>x\<in>set xs. 0 \<le> x \<Longrightarrow> 0 \<le> sum_list (last_n n (xs::real list))"
  using set_last_n[of n xs] by (intro sum_list_nonneg) auto

text \<open>The momentum indicator the exits use is total and well scaled: for every tick buffer the 14-period
  RSI is a number between 0 and 100, 50 when there is too little data.\<close>

lemma rsi_total_and_bounded:
  "\<exists>r. calculate_rsi 14 ticks = Inr r \<and> 0 \<le> r \<and> r \<le> 100
     \<and> (length ticks < 15 \<longrightarrow> r = 50)"
proof -
  have rs: "0 \<le> 100 - 100 / (1 + x) \<and> 100 - 100 / (1 + x) \<le> 100" if "0 \<le> x" for x :: real
    using that by (simp add: field_simps)
  define prices where "prices = filter (\<lambda>p. p \<noteq> 0) (map ltp ticks)"
  define gains where "gains = map (\<lambda>c::real. if c > 0 then c else 0) (changes prices)"
  define losses where "losses = map (\<lambda>c::real. if c > 0 then 0 else \<bar>c\<bar>) (changes prices)"
  have pos: "0 \<le> sum_list (last_n 14 gains) / 14" "0 \<le> sum_list (last_n 14 losses) / 14"
    by (auto intro!: sum_list_last_n_nonneg simp: gains_def losses_def)
  have "0 \<le> (sum_list (last_n 14 gains) / 14) / (sum_list (last_n 14 losses) / 14)"
    using pos by (rule divide_nonneg_nonneg)
  from rs[OF this] show ?thesis
    unfolding calculate_rsi_def prices_def[symmetric] gains_def[symmetric] losses_def[symmetric] Let_def
    by auto
qed

text \<open>The default session table has no gap: with the session filter on, entries are allowed exactly from
  9:20 to the end of the minute 15:15, on normal and expiry days alike.\<close>

lemma default_sessions_contiguous:
  "is_trading_session_allowed default_state_config now day
     \<longleftrightarrow> 560 \<le> minute_of_day now \<and> minute_of_day now \<le> 915"
  by (auto simp: is_trading_session_allowed_def default_state_config_def in_session_def session_at_def)

end
