(* ===== verification/Costs.thy ===== *)
theory Costs
  imports Prelude
begin

text \<open>
  \<open>research/costs.py\<close>: the transaction cost of a round trip, which the risk manager charges on
  every recorded trade.  Rates are the fields of \<open>CostModel\<close>.
\<close>

record cost_model =
  brokerage_per_order :: real
  stt_sell_pct :: real
  exchange_txn_pct :: real
  sebi_pct :: real
  stamp_buy_pct :: real
  gst_pct :: real

definition DEFAULT_COSTS :: cost_model where
  "DEFAULT_COSTS = \<lparr>brokerage_per_order = 20, stt_sell_pct = 15/10000,
     exchange_txn_pct = 3553/10000000, sebi_pct = 1/1000000, stamp_buy_pct = 3/100000,
     gst_pct = 18/100\<rparr>"

definition round_trip :: "cost_model \<Rightarrow> real \<Rightarrow> real \<Rightarrow> int \<Rightarrow> real" where
  "round_trip m entry exit_price qty =
     (if qty \<le> 0 \<or> entry \<le> 0 \<or> exit_price \<le> 0 then 0
      else let buy_value = entry * of_int qty; sell_value = exit_price * of_int qty;
               brokerage = brokerage_per_order m * 2;
               exchange = exchange_txn_pct m * (buy_value + sell_value);
               sebi = sebi_pct m * (buy_value + sell_value);
               stt = stt_sell_pct m * sell_value;
               stamp = stamp_buy_pct m * buy_value;
               gst = gst_pct m * (brokerage + exchange + sebi)
           in brokerage + exchange + sebi + stt + stamp + gst)"

definition points :: "cost_model \<Rightarrow> real \<Rightarrow> int \<Rightarrow> int \<Rightarrow> real" where
  "points m premium lots lot_size =
     (if lots \<le> 0 \<or> lot_size \<le> 0 \<or> premium \<le> 0 then 0
      else round_trip m premium premium (lots * lot_size) / of_int lots / of_int lot_size)"

definition net_pnl :: "real \<Rightarrow> real \<Rightarrow> real \<Rightarrow> int \<Rightarrow> cost_model \<Rightarrow> real" where
  "net_pnl gross entry exit_price qty m = gross - round_trip m entry exit_price qty"

definition breakeven_win_rate :: "real \<Rightarrow> real \<Rightarrow> real \<Rightarrow> real option" where
  "breakeven_win_rate avg_win avg_loss cost =
     (if avg_win + avg_loss \<le> 0 then None
      else Some (100 * (avg_loss + cost) / (avg_win + avg_loss)))"

definition wf_costs :: "cost_model \<Rightarrow> bool" where
  "wf_costs m \<longleftrightarrow> 0 \<le> brokerage_per_order m \<and> 0 \<le> stt_sell_pct m \<and> 0 \<le> exchange_txn_pct m
     \<and> 0 \<le> sebi_pct m \<and> 0 \<le> stamp_buy_pct m \<and> 0 \<le> gst_pct m"

lemma wf_DEFAULT_COSTS [simp]: "wf_costs DEFAULT_COSTS"
  by (simp add: wf_costs_def DEFAULT_COSTS_def)

text \<open>The flat part, and the two rates the variable part is made of.\<close>

definition fixed_part :: "cost_model \<Rightarrow> real" where
  "fixed_part m = brokerage_per_order m * 2 * (1 + gst_pct m)"

definition buy_rate :: "cost_model \<Rightarrow> real" where
  "buy_rate m = (exchange_txn_pct m + sebi_pct m) * (1 + gst_pct m) + stamp_buy_pct m"

definition sell_rate :: "cost_model \<Rightarrow> real" where
  "sell_rate m = (exchange_txn_pct m + sebi_pct m) * (1 + gst_pct m) + stt_sell_pct m"

lemma rates_nonneg:
  assumes "wf_costs m" shows "0 \<le> fixed_part m" "0 \<le> buy_rate m" "0 \<le> sell_rate m"
  using assms by (auto simp: wf_costs_def fixed_part_def buy_rate_def sell_rate_def
      intro!: mult_nonneg_nonneg add_nonneg_nonneg)

lemma round_trip_decomposed:
  "0 < qty \<Longrightarrow> 0 < entry \<Longrightarrow> 0 < exit_price \<Longrightarrow>
    round_trip m entry exit_price qty =
      fixed_part m + (buy_rate m * entry + sell_rate m * exit_price) * of_int qty"
  by (simp add: round_trip_def Let_def fixed_part_def buy_rate_def sell_rate_def algebra_simps)

lemma round_trip_nonneg [range_intros]:
  assumes "wf_costs m" shows "0 \<le> round_trip m entry exit_price qty"
proof (cases "qty \<le> 0 \<or> entry \<le> 0 \<or> exit_price \<le> 0")
  case True
  then show ?thesis by (auto simp: round_trip_def)
next
  case False
  with rates_nonneg[OF assms] show ?thesis
    by (auto simp: round_trip_decomposed intro!: add_nonneg_nonneg mult_nonneg_nonneg)
qed

text \<open>the round-trip cost per option point falls as the position grows, because the
  brokerage is flat, but never below the variable rates' share of the premium.\<close>

lemma points_fall_with_size:
  assumes wf: "wf_costs m" and "0 < lots" "lots \<le> lots'" "0 < lot_size" "0 < premium"
  shows "points m premium lots' lot_size \<le> points m premium lots lot_size
    \<and> (buy_rate m + sell_rate m) * premium \<le> points m premium lots' lot_size"
proof -
  let ?v = "(buy_rate m + sell_rate m) * premium"
  have pts: "points m premium n lot_size = fixed_part m / (of_int n * of_int lot_size) + ?v"
    if "0 < n" for n
    using that assms(4,5)
    by (simp add: points_def round_trip_decomposed field_simps)
  have "0 \<le> fixed_part m" by (rule rates_nonneg[OF wf])
  moreover have "of_int lots * of_int lot_size \<le> (of_int lots' * of_int lot_size :: real)"
    using assms(2-4) by (intro mult_right_mono) auto
  ultimately have "fixed_part m / (of_int lots' * of_int lot_size)
      \<le> fixed_part m / (of_int lots * of_int lot_size)"
    using assms(2-4) by (intro divide_left_mono) auto
  with \<open>0 \<le> fixed_part m\<close> assms(2-4) show ?thesis by (simp add: pts)
qed

end
