(* ===== verification/Risk_Manager.thy ===== *)
theory Risk_Manager
  imports Costs Market_Tick
begin

text \<open>
  \<open>core/risk/risk_manager.py\<close>: the settings read from \<open>CONFIG\<close>, the state of \<open>RiskManager\<close>,
  one definition per check, the master check \<open>can_trade\<close>, the risk budget handed to the position
  sizing, trade recording, day and week ends, and the state file.  The value of
  \<open>utils.helpers.fetch_real_vix\<close> is an argument (it comes from the broker).  Block messages are
  the constructors of \<open>block_reason\<close>; their texts are not modelled.
\<close>

section \<open>Settings and state\<close>

record risk_config =
  total_capital :: real
  max_drawdown_amount :: real
  max_drawdown_pct :: real
  drawdown_peak_lookback_sessions :: int
  max_weekly_loss_amount :: real
  risk_per_trade_amount :: real
  rm_max_daily_loss_amount :: real
  profit_lock_threshold :: real
  profit_lock_reduce_pct :: real
  vix_enabled :: bool
  vix_normal_max :: real
  vix_caution_max :: real
  vix_high_max :: real
  vix_extreme_stop :: bool
  size_reduce_pct_caution :: real
  size_reduce_pct_high :: real
  gap_enabled :: bool
  gap_up_threshold_pct :: real
  gap_down_threshold_pct :: real
  wait_after_gap_min :: int
  recovery_enabled :: bool
  trigger_loss_pct :: real
  recovery_threshold_pct :: real
  min_recovery_days :: int
  size_reduction_pct :: real
  equity_curve_enabled :: bool
  sma_period :: nat
  pause_if_below_pct :: real
  ec_size_reduce_pct :: real
  pause_after_consecutive_loss_sec :: int
  consecutive_loss_limit :: int
  consecutive_win_limit :: int
  capital_utilization_pct :: real
  time_based_sizing_enabled :: bool
  opening_15min_size_pct :: real
  closing_30min_size_pct :: real
  costs_enabled :: bool
  cost_brokerage_per_order :: real
  rm_lot_size :: int

text \<open>The defaults of \<open>config/constants.py\<close>.\<close>

definition default_risk_config :: risk_config where
  "default_risk_config = \<lparr>total_capital = 30000, max_drawdown_amount = 3000,
     max_drawdown_pct = 10, drawdown_peak_lookback_sessions = 0, max_weekly_loss_amount = 2400,
     risk_per_trade_amount = 900, rm_max_daily_loss_amount = 3000, profit_lock_threshold = 1000,
     profit_lock_reduce_pct = 50, vix_enabled = True, vix_normal_max = 15, vix_caution_max = 20,
     vix_high_max = 30, vix_extreme_stop = False, size_reduce_pct_caution = 25,
     size_reduce_pct_high = 50, gap_enabled = True, gap_up_threshold_pct = 1,
     gap_down_threshold_pct = 1, wait_after_gap_min = 15, recovery_enabled = True,
     trigger_loss_pct = 8, recovery_threshold_pct = 3, min_recovery_days = 2,
     size_reduction_pct = 50, equity_curve_enabled = False, sma_period = 10,
     pause_if_below_pct = 5, ec_size_reduce_pct = 30, pause_after_consecutive_loss_sec = 900,
     consecutive_loss_limit = 2, consecutive_win_limit = 8, capital_utilization_pct = 80,
     time_based_sizing_enabled = False, opening_15min_size_pct = 50, closing_30min_size_pct = 75,
     costs_enabled = True, cost_brokerage_per_order = 20, rm_lot_size = 65\<rparr>"

text \<open>A completed trade as the exit paths hand it over, and as it is recorded.\<close>

record closed_trade =
  ct_pnl :: real
  ct_direction :: "option_type option"
  ct_entry_price :: "real option"
  ct_exit_price :: "real option"
  ct_qty :: "int option"

record recorded_trade =
  gross_pnl :: real
  rt_cost :: real
  rt_net :: real

record risk_manager =
  daily_pnl :: real
  weekly_pnl :: real
  total_pnl :: real
  peak_equity :: real
  current_equity :: real
  consecutive_wins :: int
  rm_consecutive_losses :: int
  streak_pause_until :: "instant option"
  trades_today :: "recorded_trade list"
  trades_this_week :: "recorded_trade list"
  recovery_mode :: bool
  recovery_start_date :: "instant option"
  vix_value :: "real option"
  equity_history :: "real list"
  previous_close :: "real option"
  gap_wait_until :: "instant option"
  last_active_date :: "int option"

definition initial_risk_manager :: "risk_config \<Rightarrow> risk_manager" where
  "initial_risk_manager cfg = \<lparr>daily_pnl = 0, weekly_pnl = 0, total_pnl = 0,
     peak_equity = total_capital cfg, current_equity = total_capital cfg, consecutive_wins = 0,
     rm_consecutive_losses = 0, streak_pause_until = None, trades_today = [],
     trades_this_week = [], recovery_mode = False, recovery_start_date = None, vix_value = None,
     equity_history = [], previous_close = None, gap_wait_until = None, last_active_date = None\<rparr>"

datatype block_reason =
    DrawdownAmount real real
  | DrawdownPct real real
  | WeeklyLoss real
  | StreakPause int
  | LossStreak int
  | WinStreak int
  | VixExtreme real
  | GapWait int
  | GapUp real
  | GapDown real
  | EquityPaused real

section \<open>The checks\<close>

definition get_vix :: "real option \<Rightarrow> risk_manager \<Rightarrow> real \<times> risk_manager" where
  "get_vix fetched s =
     (let s1 = (case fetched of
                  Some v \<Rightarrow> if v \<noteq> 0 \<and> 5 \<le> v \<and> v \<le> 100 then s\<lparr>vix_value := Some v\<rparr> else s
                | None \<Rightarrow> s)
      in (if truthy (vix_value s1) then get_or 15 (vix_value s1) else 15, s1))"

definition check_vix_filter ::
  "risk_config \<Rightarrow> real option \<Rightarrow> risk_manager \<Rightarrow> (block_reason + real) \<times> risk_manager" where
  "check_vix_filter cfg fetched s =
     (if \<not> vix_enabled cfg then (Inr 1, s)
      else let (vix, s1) = get_vix fetched s
           in if vix \<le> vix_normal_max cfg then (Inr 1, s1)
              else if vix \<le> vix_caution_max cfg then (Inr (1 - size_reduce_pct_caution cfg / 100), s1)
              else if vix \<le> vix_high_max cfg then (Inr (1 - size_reduce_pct_high cfg / 100), s1)
              else if vix_extreme_stop cfg then (Inl (VixExtreme vix), s1)
              else (Inr (1/4), s1))"

definition set_previous_close :: "real \<Rightarrow> risk_manager \<Rightarrow> risk_manager" where
  "set_previous_close p s = s\<lparr>previous_close := Some p\<rparr>"

definition check_gap_protection ::
  "risk_config \<Rightarrow> instant \<Rightarrow> real \<Rightarrow> risk_manager \<Rightarrow> block_reason option \<times> risk_manager" where
  "check_gap_protection cfg now current_open s =
     (if \<not> gap_enabled cfg then (None, s)
      else if (case gap_wait_until s of None \<Rightarrow> False | Some d \<Rightarrow> now < d)
      then (Some (GapWait (get_or 0 (gap_wait_until s) - now)), s)
      else case previous_close s of
        None \<Rightarrow> (None, s)
      | Some pc \<Rightarrow>
          if pc \<noteq> 0 \<and> current_open \<noteq> 0
          then let gap_pct = (current_open - pc) / pc * 100;
                   s1 = s\<lparr>gap_wait_until := Some (now + minutes (wait_after_gap_min cfg))\<rparr>
               in if gap_pct \<ge> gap_up_threshold_pct cfg then (Some (GapUp gap_pct), s1)
                  else if gap_pct \<le> - gap_down_threshold_pct cfg then (Some (GapDown gap_pct), s1)
                  else (None, s)
          else (None, s))"

definition effective_peak_equity :: "risk_config \<Rightarrow> risk_manager \<Rightarrow> real" where
  "effective_peak_equity cfg s =
     (if drawdown_peak_lookback_sessions cfg \<le> 0 then peak_equity s
      else Max (set (last_n (nat (drawdown_peak_lookback_sessions cfg)) (equity_history s)
                     @ [current_equity s])))"

definition check_drawdown ::
  "risk_config \<Rightarrow> risk_manager \<Rightarrow> block_reason option \<times> risk_manager" where
  "check_drawdown cfg s =
     (let s1 = s\<lparr>current_equity := total_capital cfg + total_pnl s\<rparr>;
          s2 = (if current_equity s1 > peak_equity s1 then s1\<lparr>peak_equity := current_equity s1\<rparr> else s1);
          peak = effective_peak_equity cfg s2;
          drawdown = peak - current_equity s2;
          drawdown_pct = (if peak > 0 then drawdown / peak * 100 else 0)
      in if drawdown \<ge> max_drawdown_amount cfg
         then (Some (DrawdownAmount drawdown (drawdown - max_drawdown_amount cfg)), s2)
         else if drawdown_pct \<ge> max_drawdown_pct cfg
         then (Some (DrawdownPct drawdown_pct (drawdown - max_drawdown_pct cfg / 100 * peak)), s2)
         else (None, s2))"

definition check_weekly_loss :: "risk_config \<Rightarrow> risk_manager \<Rightarrow> block_reason option" where
  "check_weekly_loss cfg s =
     (if weekly_pnl s \<le> - max_weekly_loss_amount cfg then Some (WeeklyLoss \<bar>weekly_pnl s\<bar>) else None)"

text \<open>Recovery mode divides by the capital while the total is negative.\<close>

definition check_recovery_mode ::
  "risk_config \<Rightarrow> instant \<Rightarrow> risk_manager \<Rightarrow> (py_error + bool \<times> real) \<times> risk_manager" where
  "check_recovery_mode cfg now s =
     (if \<not> recovery_enabled cfg then (Inr (False, 1), s)
      else if total_pnl s < 0 \<and> total_capital cfg = 0 then (Inl ZeroDivisionError, s)
      else
        let loss_pct = (if total_pnl s < 0 then \<bar>total_pnl s\<bar> / total_capital cfg * 100 else 0);
            s1 = (if \<not> recovery_mode s \<and> loss_pct \<ge> trigger_loss_pct cfg
                  then s\<lparr>recovery_mode := True, recovery_start_date := Some now\<rparr> else s)
        in if recovery_mode s1
           then if loss_pct \<le> recovery_threshold_pct cfg
                   \<and> (case recovery_start_date s1 of None \<Rightarrow> False
                      | Some t \<Rightarrow> (now - t) div 86400000000 \<ge> min_recovery_days cfg)
                then (Inr (False, 1), s1\<lparr>recovery_mode := False\<rparr>)
                else (Inr (True, 1 - size_reduction_pct cfg / 100), s1)
           else (Inr (False, 1), s1))"

definition check_equity_curve ::
  "risk_config \<Rightarrow> risk_manager \<Rightarrow> py_error + (block_reason + real)" where
  "check_equity_curve cfg s =
     (if \<not> equity_curve_enabled cfg then Inr (Inr 1)
      else if length (equity_history s) < sma_period cfg then Inr (Inr 1)
      else if sma_period cfg = 0 then Inl ZeroDivisionError
      else let sma = sum_list (last_n (sma_period cfg) (equity_history s)) / of_nat (sma_period cfg)
           in if current_equity s < sma
              then if sma = 0 then Inl ZeroDivisionError
                   else let pct_below = (sma - current_equity s) / sma * 100
                        in if pct_below \<ge> pause_if_below_pct cfg then Inr (Inl (EquityPaused pct_below))
                           else Inr (Inr (1 - ec_size_reduce_pct cfg / 100))
              else Inr (Inr 1))"

text \<open>The limits proper, and the pause in front of them.\<close>

definition streak_gate ::
  "risk_config \<Rightarrow> instant \<Rightarrow> risk_manager \<Rightarrow> block_reason option \<times> risk_manager" where
  "streak_gate cfg now s =
     (let paused = s\<lparr>streak_pause_until := Some (now + seconds (pause_after_consecutive_loss_sec cfg))\<rparr>
      in if rm_consecutive_losses s \<ge> consecutive_loss_limit cfg
         then (Some (LossStreak (rm_consecutive_losses s)), paused)
         else if consecutive_wins s \<ge> consecutive_win_limit cfg
         then (Some (WinStreak (consecutive_wins s)), paused)
         else (None, s))"

definition check_streak_limits ::
  "risk_config \<Rightarrow> instant \<Rightarrow> risk_manager \<Rightarrow> block_reason option \<times> risk_manager" where
  "check_streak_limits cfg now s =
     (case streak_pause_until s of
        Some d \<Rightarrow>
          if now < d then (Some (StreakPause ((d - now) div 60000000 + 1)), s)
          else streak_gate cfg now (s\<lparr>streak_pause_until := None, rm_consecutive_losses := 0,
                                       consecutive_wins := 0\<rparr>)
      | None \<Rightarrow> streak_gate cfg now s)"

definition update_streak :: "risk_config \<Rightarrow> instant \<Rightarrow> real \<Rightarrow> risk_manager \<Rightarrow> risk_manager" where
  "update_streak cfg now pnl s =
     (let s1 = (if pnl > 0 then s\<lparr>consecutive_wins := consecutive_wins s + 1, rm_consecutive_losses := 0\<rparr>
                else if pnl < 0
                then s\<lparr>rm_consecutive_losses := rm_consecutive_losses s + 1, consecutive_wins := 0\<rparr>
                else s);
          hit_losses = rm_consecutive_losses s1 \<ge> consecutive_loss_limit cfg;
          hit_wins = consecutive_wins s1 \<ge> consecutive_win_limit cfg
      in if (hit_losses \<or> hit_wins) \<and> streak_pause_until s1 = None
         then s1\<lparr>streak_pause_until := Some (now + seconds (pause_after_consecutive_loss_sec cfg))\<rparr>
         else s1)"

definition get_time_based_multiplier :: "risk_config \<Rightarrow> instant \<Rightarrow> real" where
  "get_time_based_multiplier cfg now =
     (if \<not> time_based_sizing_enabled cfg then 1
      else if hour_of now = 9 \<and> minute_of now < 30 then opening_15min_size_pct cfg / 100
      else if hour_of now \<ge> 15 then closing_30min_size_pct cfg / 100
      else 1)"

definition check_profit_lock :: "risk_config \<Rightarrow> risk_manager \<Rightarrow> real option" where
  "check_profit_lock cfg s =
     (if daily_pnl s \<ge> profit_lock_threshold cfg
      then Some (1 - profit_lock_reduce_pct cfg / 100) else None)"

section \<open>Master check and risk budget\<close>

record risk_budget =
  rb_capital :: real
  available_capital :: real
  per_trade_risk_amount :: real
  daily_risk_budget_amount :: real
  daily_risk_budget_pct :: real
  remaining_risk_amount :: real
  remaining_risk_pct :: real
  loss_utilization :: real
  recovery_active :: bool
  recovery_severity :: real
  rb_lot_size :: int
  rb_legacy_size_multiplier :: real

text \<open>
  \<open>get_risk_budget\<close>, with the multiplier \<open>can_trade\<close> stores into the same dictionary.  The
  capital section always has its keys, so the \<open>get\<close> defaults do not occur.
\<close>

definition remaining_risk_raw :: "risk_config \<Rightarrow> risk_manager \<Rightarrow> real" where
  "remaining_risk_raw cfg s =
     (let equity = total_capital cfg + total_pnl s;
          available = max 0 (equity * (capital_utilization_pct cfg / 100));
          consumed = max 0 (- daily_pnl s);
          capacity = (if rm_max_daily_loss_amount cfg > 0
                      then max 0 (rm_max_daily_loss_amount cfg - consumed)
                      else rm_max_daily_loss_amount cfg)
      in max 0 (min (min (risk_per_trade_amount cfg) capacity) available))"

definition get_risk_budget :: "risk_config \<Rightarrow> real \<Rightarrow> risk_manager \<Rightarrow> risk_budget" where
  "get_risk_budget cfg multiplier s =
     (let equity = total_capital cfg + total_pnl s;
          available = max 0 (equity * (capital_utilization_pct cfg / 100));
          consumed = max 0 (- daily_pnl s);
          remaining = remaining_risk_raw cfg s;
          utilization = (if rm_max_daily_loss_amount cfg > 0
                         then consumed / rm_max_daily_loss_amount cfg else 0);
          severity = (if recovery_mode s then size_reduction_pct cfg / 100 else 0)
      in \<lparr>rb_capital = py_round 2 equity,
          available_capital = py_round 2 available,
          per_trade_risk_amount = py_round 2 (risk_per_trade_amount cfg),
          daily_risk_budget_amount = py_round 2 (rm_max_daily_loss_amount cfg),
          daily_risk_budget_pct = (if equity > 0 then py_round 6 (rm_max_daily_loss_amount cfg / equity) else 0),
          remaining_risk_amount = py_round 2 remaining,
          remaining_risk_pct = (if equity > 0 then py_round 6 (remaining / equity) else 0),
          loss_utilization = py_round 4 (min 1 (max 0 utilization)),
          recovery_active = recovery_mode s,
          recovery_severity = py_round 4 (min 1 (max 0 severity)),
          rb_lot_size = rm_lot_size cfg,
          rb_legacy_size_multiplier = py_round 4 multiplier\<rparr>)"

datatype sizing_warning = VixWarning | RecoveryWarning | EquityWarning | TimeWarning | ProfitWarning

record trade_details =
  size_multiplier :: real
  warnings :: "sizing_warning list"
  td_risk_budget :: risk_budget

text \<open>A multiplier below 1 shrinks the size and leaves a warning.\<close>

definition shrink :: "real \<Rightarrow> sizing_warning \<Rightarrow> real \<times> sizing_warning list \<Rightarrow> real \<times> sizing_warning list" where
  "shrink m w acc = (if m < 1 then (fst acc * m, snd acc @ [w]) else acc)"

text \<open>
  \<open>can_trade\<close>: \<open>Inl\<close> is an exception, \<open>Inr (Inl r)\<close> a block with its reason, \<open>Inr (Inr d)\<close> leave to
  trade with the details.  A missing or zero spot price skips the gap check.
\<close>

definition gap_stage ::
  "risk_config \<Rightarrow> instant \<Rightarrow> real option \<Rightarrow> risk_manager \<Rightarrow> block_reason option \<times> risk_manager" where
  "gap_stage cfg now spot s =
     (if truthy spot then check_gap_protection cfg now (get_or 0 spot) s else (None, s))"

definition sizing_stage ::
  "risk_config \<Rightarrow> instant \<Rightarrow> real \<Rightarrow> risk_manager
    \<Rightarrow> (py_error + (block_reason + trade_details)) \<times> risk_manager" where
  "sizing_stage cfg now vix_mult s =
     (let acc0 = shrink vix_mult VixWarning (1, []) in
      case check_recovery_mode cfg now s of
        (Inl e, s1) \<Rightarrow> (Inl e, s1)
      | (Inr (_, rec_mult), s1) \<Rightarrow>
         let acc1 = shrink rec_mult RecoveryWarning acc0 in
         (case check_equity_curve cfg s1 of
            Inl e \<Rightarrow> (Inl e, s1)
          | Inr (Inl r) \<Rightarrow> (Inr (Inl r), s1)
          | Inr (Inr ec_mult) \<Rightarrow>
             let acc2 = shrink ec_mult EquityWarning acc1;
                 acc3 = shrink (get_time_based_multiplier cfg now) TimeWarning acc2;
                 acc4 = (case check_profit_lock cfg s1 of None \<Rightarrow> acc3
                         | Some m \<Rightarrow> (fst acc3 * m, snd acc3 @ [ProfitWarning]))
             in (Inr (Inr \<lparr>size_multiplier = fst acc4, warnings = snd acc4,
                           td_risk_budget = get_risk_budget cfg (fst acc4) s1\<rparr>), s1)))"

definition can_trade ::
  "risk_config \<Rightarrow> instant \<Rightarrow> real option \<Rightarrow> real option \<Rightarrow> risk_manager
    \<Rightarrow> (py_error + (block_reason + trade_details)) \<times> risk_manager" where
  "can_trade cfg now fetched_vix spot s =
     (case check_drawdown cfg s of
        (Some r, s1) \<Rightarrow> (Inr (Inl r), s1)
      | (None, s1) \<Rightarrow>
     (case check_weekly_loss cfg s1 of
        Some r \<Rightarrow> (Inr (Inl r), s1)
      | None \<Rightarrow>
     (case check_streak_limits cfg now s1 of
        (Some r, s2) \<Rightarrow> (Inr (Inl r), s2)
      | (None, s2) \<Rightarrow>
     (case check_vix_filter cfg fetched_vix s2 of
        (Inl r, s3) \<Rightarrow> (Inr (Inl r), s3)
      | (Inr vix_mult, s3) \<Rightarrow>
     (case gap_stage cfg now spot s3 of
        (Some r, s4) \<Rightarrow> (Inr (Inl r), s4)
      | (None, s4) \<Rightarrow> sizing_stage cfg now vix_mult s4)))))"

section \<open>Recording trades\<close>

definition transaction_cost :: "risk_config \<Rightarrow> closed_trade \<Rightarrow> real" where
  "transaction_cost cfg t =
     (if \<not> costs_enabled cfg then 0
      else let entry = get_or 0 (ct_entry_price t); exit_price = get_or 0 (ct_exit_price t);
               qty = get_or 0 (ct_qty t)
           in if entry \<le> 0 \<or> exit_price \<le> 0 \<or> qty \<le> 0 then 0
              else round_trip (DEFAULT_COSTS\<lparr>brokerage_per_order := cost_brokerage_per_order cfg\<rparr>)
                     entry exit_price qty)"

definition record_trade :: "risk_config \<Rightarrow> instant \<Rightarrow> closed_trade \<Rightarrow> risk_manager \<Rightarrow> risk_manager" where
  "record_trade cfg now t s =
     (let gross = ct_pnl t; cost = transaction_cost cfg t; pnl = gross - cost;
          rec = \<lparr>gross_pnl = gross, rt_cost = py_round 2 cost, rt_net = py_round 2 pnl\<rparr>;
          s1 = s\<lparr>daily_pnl := daily_pnl s + pnl, weekly_pnl := weekly_pnl s + pnl,
                 total_pnl := total_pnl s + pnl\<rparr>;
          s2 = s1\<lparr>current_equity := total_capital cfg + total_pnl s1\<rparr>;
          s3 = (if current_equity s2 > peak_equity s2 then s2\<lparr>peak_equity := current_equity s2\<rparr> else s2);
          s4 = update_streak cfg now pnl s3
      in s4\<lparr>trades_today := trades_today s4 @ [rec], trades_this_week := trades_this_week s4 @ [rec]\<rparr>)"

definition end_of_day :: "risk_manager \<Rightarrow> risk_manager" where
  "end_of_day s = s\<lparr>equity_history := equity_history s @ [current_equity s], daily_pnl := 0,
     trades_today := [], previous_close := None, gap_wait_until := None\<rparr>"

definition end_of_week :: "risk_manager \<Rightarrow> risk_manager" where
  "end_of_week s = s\<lparr>weekly_pnl := 0, trades_this_week := []\<rparr>"

section \<open>The state file\<close>

text \<open>The JSON object \<open>logs/risk_state.json\<close>; dates are stored as ISO strings, here as values.\<close>

record risk_state_file =
  f_weekly_pnl :: real
  f_total_pnl :: real
  f_peak_equity :: real
  f_recovery_mode :: bool
  f_recovery_start_date :: "instant option"
  f_equity_history :: "real list"
  f_daily_pnl :: real
  f_daily_date :: int
  f_last_updated :: instant

definition save_state :: "instant \<Rightarrow> risk_manager \<Rightarrow> risk_state_file" where
  "save_state now s = \<lparr>f_weekly_pnl = weekly_pnl s, f_total_pnl = total_pnl s,
     f_peak_equity = peak_equity s, f_recovery_mode = recovery_mode s,
     f_recovery_start_date = recovery_start_date s, f_equity_history = last_n 30 (equity_history s),
     f_daily_pnl = daily_pnl s, f_daily_date = date_of now, f_last_updated = now\<rparr>"

definition load_state :: "instant \<Rightarrow> risk_state_file \<Rightarrow> risk_manager \<Rightarrow> risk_manager" where
  "load_state now f s =
     (let s1 = s\<lparr>weekly_pnl := f_weekly_pnl f, total_pnl := f_total_pnl f,
                 peak_equity := f_peak_equity f, recovery_mode := f_recovery_mode f\<rparr>;
          s2 = (case f_recovery_start_date f of None \<Rightarrow> s1
                | Some t \<Rightarrow> s1\<lparr>recovery_start_date := Some t\<rparr>);
          s3 = (if recovery_mode s2 \<and> recovery_start_date s2 = None
                then s2\<lparr>recovery_start_date := Some now\<rparr> else s2);
          s4 = s3\<lparr>equity_history := last_n 30 (f_equity_history f),
                  last_active_date := Some (date_of (f_last_updated f))\<rparr>
      in if f_daily_date f = date_of now then s4\<lparr>daily_pnl := f_daily_pnl f\<rparr> else s4)"

text \<open>\<open>date.isocalendar()[:2]\<close> names the week; its Monday names the same week.\<close>

definition iso_week :: "int \<Rightarrow> int" where
  "iso_week d = d - weekday d"

text \<open>\<open>__init__\<close>: fresh state, the file when there is one, and the weekly reset on a new week.\<close>

definition new_risk_manager ::
  "risk_config \<Rightarrow> instant \<Rightarrow> risk_state_file option \<Rightarrow> risk_manager" where
  "new_risk_manager cfg now file =
     (let s0 = initial_risk_manager cfg;
          s1 = (case file of None \<Rightarrow> s0 | Some f \<Rightarrow> load_state now f s0)
      in case last_active_date s1 of
           None \<Rightarrow> s1
         | Some d \<Rightarrow> if iso_week d \<noteq> iso_week (date_of now) then end_of_week s1 else s1)"

text \<open>\<open>_warn_if_drawdown_gate_is_a_one_day_gate\<close>: whether the warning is logged.\<close>

definition drawdown_gate_is_one_day :: "risk_config \<Rightarrow> bool" where
  "drawdown_gate_is_one_day cfg \<longleftrightarrow> max_drawdown_amount cfg \<le> rm_max_daily_loss_amount cfg"

text \<open>The module function \<open>calculate_trade_pnl\<close> (the same code is in \<open>utils/helpers.py\<close>).\<close>

definition calculate_trade_pnl :: "side \<Rightarrow> real \<Rightarrow> int \<Rightarrow> int \<Rightarrow> tick \<Rightarrow> real" where
  "calculate_trade_pnl sd entry qty lot_size t =
     (let per_lot = (if sd = BUY then ltp t - entry else entry - ltp t) * of_int lot_size
      in per_lot * of_int qty)"

section \<open>Every operation as an event\<close>

text \<open>The operations that change the state, with the clock reading and inputs of the call.\<close>

datatype risk_event =
    Recorded instant closed_trade
  | Polled instant "real option" "real option"
  | CloseSet real
  | DayEnd
  | WeekEnd

fun risk_step :: "risk_config \<Rightarrow> risk_manager \<Rightarrow> risk_event \<Rightarrow> risk_manager" where
  "risk_step cfg s (Recorded now t) = record_trade cfg now t s"
| "risk_step cfg s (Polled now vix spot) = snd (can_trade cfg now vix spot s)"
| "risk_step cfg s (CloseSet p) = set_previous_close p s"
| "risk_step cfg s DayEnd = end_of_day s"
| "risk_step cfg s WeekEnd = end_of_week s"

fun is_recorded :: "risk_event \<Rightarrow> bool" where
  "is_recorded (Recorded now t) = True"
| "is_recorded _ = False"

section \<open>Lemmas on the single checks\<close>

text \<open>What the checks leave alone.  The money is the accounts and the equity history.\<close>

definition money :: "risk_manager \<Rightarrow> real \<times> real \<times> real \<times> real list" where
  "money s = (daily_pnl s, weekly_pnl s, total_pnl s, equity_history s)"

named_theorems frame \<open>what an operation leaves unchanged\<close>

lemma check_streak_frame [frame]:
  "money (snd (check_streak_limits cfg now s)) = money s"
  "peak_equity (snd (check_streak_limits cfg now s)) = peak_equity s"
  "current_equity (snd (check_streak_limits cfg now s)) = current_equity s"
  by (simp_all add: check_streak_limits_def streak_gate_def money_def Let_def split: option.splits)

lemma check_vix_frame [frame]:
  "money (snd (check_vix_filter cfg v s)) = money s"
  "peak_equity (snd (check_vix_filter cfg v s)) = peak_equity s"
  "current_equity (snd (check_vix_filter cfg v s)) = current_equity s"
  by (simp_all add: check_vix_filter_def get_vix_def money_def Let_def split: option.splits)

lemma gap_stage_frame [frame]:
  "money (snd (gap_stage cfg now sp s)) = money s"
  "peak_equity (snd (gap_stage cfg now sp s)) = peak_equity s"
  "current_equity (snd (gap_stage cfg now sp s)) = current_equity s"
  by (simp_all add: gap_stage_def check_gap_protection_def money_def Let_def split: option.splits)

lemma check_recovery_frame [frame]:
  "money (snd (check_recovery_mode cfg now s)) = money s"
  "peak_equity (snd (check_recovery_mode cfg now s)) = peak_equity s"
  "current_equity (snd (check_recovery_mode cfg now s)) = current_equity s"
  by (simp_all add: check_recovery_mode_def money_def Let_def split: option.splits)

lemma sizing_stage_snd:
  "snd (sizing_stage cfg now m s) = snd (check_recovery_mode cfg now s)"
  by (simp add: sizing_stage_def Let_def split: prod.splits sum.splits)

lemma check_drawdown_frame [frame]: "money (snd (check_drawdown cfg s)) = money s"
  by (simp add: check_drawdown_def money_def Let_def)

lemma check_drawdown_equity:
  "current_equity (snd (check_drawdown cfg s)) = total_capital cfg + total_pnl s"
  "peak_equity (snd (check_drawdown cfg s)) = max (peak_equity s) (total_capital cfg + total_pnl s)"
  by (simp_all add: check_drawdown_def Let_def max_def)

lemma can_trade_frame:
  "money (snd (can_trade cfg now v sp s)) = money s"
  "current_equity (snd (can_trade cfg now v sp s)) = total_capital cfg + total_pnl s"
  "peak_equity (snd (can_trade cfg now v sp s)) = max (peak_equity s) (total_capital cfg + total_pnl s)"
proof -
  let ?P = "\<lambda>s'. money s' = money s \<and> current_equity s' = total_capital cfg + total_pnl s
              \<and> peak_equity s' = max (peak_equity s) (total_capital cfg + total_pnl s)"
  have drawdown: "?P s1" if "check_drawdown cfg s = (r, s1)" for r s1
    using that check_drawdown_frame[of cfg s] check_drawdown_equity[of cfg s] by simp
  have streak: "?P s2" if "check_streak_limits cfg now s1 = (r, s2)" "?P s1" for r s1 s2
    using that check_streak_frame[of cfg now s1] by simp
  have vix: "?P s2" if "check_vix_filter cfg v s1 = (r, s2)" "?P s1" for r s1 s2
    using that check_vix_frame[of cfg v s1] by simp
  have gap: "?P s2" if "gap_stage cfg now sp s1 = (r, s2)" "?P s1" for r s1 s2
    using that gap_stage_frame[of cfg now sp s1] by simp
  have "?P (snd (can_trade cfg now v sp s))"
    unfolding can_trade_def
    by (auto split: prod.splits option.splits sum.splits dest!: drawdown streak vix gap
        simp: sizing_stage_snd frame)
  then show "money (snd (can_trade cfg now v sp s)) = money s"
    and "current_equity (snd (can_trade cfg now v sp s)) = total_capital cfg + total_pnl s"
    and "peak_equity (snd (can_trade cfg now v sp s)) = max (peak_equity s) (total_capital cfg + total_pnl s)"
    by blast+
qed

section \<open>Accounts\<close>

definition net_result :: "risk_config \<Rightarrow> closed_trade \<Rightarrow> real" where
  "net_result cfg t = ct_pnl t - transaction_cost cfg t"

lemma update_streak_frame [frame]:
  "money (update_streak cfg now pnl s) = money s"
  "peak_equity (update_streak cfg now pnl s) = peak_equity s"
  "current_equity (update_streak cfg now pnl s) = current_equity s"
  by (simp_all add: update_streak_def money_def Let_def)

lemma record_trade_money:
  "money (record_trade cfg now t s) = (daily_pnl s + net_result cfg t, weekly_pnl s + net_result cfg t,
     total_pnl s + net_result cfg t, equity_history s)"
  "current_equity (record_trade cfg now t s) = total_capital cfg + total_pnl s + net_result cfg t"
  "peak_equity (record_trade cfg now t s)
     = max (peak_equity s) (total_capital cfg + total_pnl s + net_result cfg t)"
proof -
  have eq: "money r = money u" "current_equity r = current_equity u" "peak_equity r = peak_equity u"
    if "r = (update_streak cfg now p u)\<lparr>trades_today := a, trades_this_week := b\<rparr>" for r p a b u
    using that by (simp_all add: update_streak_def money_def Let_def)
  show "money (record_trade cfg now t s) = (daily_pnl s + net_result cfg t, weekly_pnl s + net_result cfg t,
     total_pnl s + net_result cfg t, equity_history s)"
    "current_equity (record_trade cfg now t s) = total_capital cfg + total_pnl s + net_result cfg t"
    "peak_equity (record_trade cfg now t s)
     = max (peak_equity s) (total_capital cfg + total_pnl s + net_result cfg t)"
    unfolding record_trade_def Let_def
    by (subst eq[OF refl], simp add: money_def net_result_def max_def)+
qed

lemma transaction_cost_nonneg:
  "0 \<le> cost_brokerage_per_order cfg \<Longrightarrow> 0 \<le> transaction_cost cfg t"
  unfolding transaction_cost_def Let_def
  by (auto intro!: round_trip_nonneg simp: wf_costs_def DEFAULT_COSTS_def)

text \<open>Money moves only when a trade is recorded or the day or week is closed.\<close>

fun total_change :: "risk_config \<Rightarrow> risk_event \<Rightarrow> real" where
  "total_change cfg (Recorded now t) = net_result cfg t"
| "total_change cfg _ = 0"

lemma money_eq_simps:
  "money s = money s' \<Longrightarrow> daily_pnl s = daily_pnl s' \<and> weekly_pnl s = weekly_pnl s'
     \<and> total_pnl s = total_pnl s' \<and> equity_history s = equity_history s'"
  by (simp add: money_def)

lemma total_pnl_step: "total_pnl (risk_step cfg s e) = total_pnl s + total_change cfg e"
proof (cases e)
  case (Recorded now t)
  then show ?thesis using record_trade_money(1)[of cfg now t s] by (simp add: money_def)
next
  case (Polled now v sp)
  then show ?thesis using money_eq_simps[OF can_trade_frame(1)[of cfg now v sp s]] by simp
qed (simp_all add: set_previous_close_def end_of_day_def end_of_week_def)

text \<open>The equity invariant: equity is capital plus realised profit and never above the peak.\<close>

definition equity_ok :: "risk_config \<Rightarrow> risk_manager \<Rightarrow> bool" where
  "equity_ok cfg s \<longleftrightarrow> current_equity s = total_capital cfg + total_pnl s
     \<and> current_equity s \<le> peak_equity s"

lemma equity_ok_initial: "equity_ok cfg (initial_risk_manager cfg)"
  by (simp add: equity_ok_def initial_risk_manager_def)

lemma equity_ok_step:
  "equity_ok cfg s \<Longrightarrow> equity_ok cfg (risk_step cfg s e) \<and> peak_equity s \<le> peak_equity (risk_step cfg s e)"
proof (cases e)
  case (Recorded now t)
  then show ?thesis
    using record_trade_money[of cfg now t s] by (simp add: equity_ok_def money_def)
next
  case (Polled now v sp)
  then show ?thesis
    using can_trade_frame[of cfg now v sp s] by (simp add: equity_ok_def money_def)
qed (auto simp: equity_ok_def set_previous_close_def end_of_day_def end_of_week_def)

interpretation equity: ratchet "risk_step cfg" "equity_ok cfg" "\<lambda>_. True" peak_equity for cfg
  by unfold_locales (use equity_ok_step in blast)+

text \<open>C9: From a fresh start, after any sequence of recorded trades, checks, day ends and week ends,
  equity equals the starting capital plus the net result of every recorded trade, the peak is at
  least that, and the peak never falls as more events follow.\<close>

theorem equity_follows_net_results:
  "let s = foldl (risk_step cfg) (initial_risk_manager cfg) es
   in current_equity s = total_capital cfg + sum_list (map (total_change cfg) es)
      \<and> current_equity s \<le> peak_equity s
      \<and> peak_equity s \<le> peak_equity (foldl (risk_step cfg) (initial_risk_manager cfg) (es @ fs))"
proof -
  have total: "total_pnl (foldl (risk_step cfg) s es) = total_pnl s + sum_list (map (total_change cfg) es)"
    for s by (induction es arbitrary: s) (simp_all add: total_pnl_step)
  have "equity_ok cfg (foldl (risk_step cfg) (initial_risk_manager cfg) es)"
    by (rule equity.inv_run) (simp_all add: equity_ok_initial list_all_iff)
  moreover have "peak_equity (foldl (risk_step cfg) (initial_risk_manager cfg) es)
      \<le> peak_equity (foldl (risk_step cfg) (initial_risk_manager cfg) (es @ fs))"
    by (rule equity.level_between) (simp_all add: equity_ok_initial list_all_iff)
  ultimately show ?thesis
    using total[of "initial_risk_manager cfg"] by (simp add: equity_ok_def initial_risk_manager_def)
qed

text \<open>Costs are charged once on every recorded trade: the daily, weekly and total results all move by
  the gross result less the round-trip cost, which is never negative, so the accounts the limits
  are measured on never overstate a trade; the equity history is not touched.\<close>

theorem record_trade_charges_costs:
  assumes "0 \<le> cost_brokerage_per_order cfg"
  shows "\<exists>cost\<ge>0. cost = transaction_cost cfg t
    \<and> daily_pnl (record_trade cfg now t s) = daily_pnl s + ct_pnl t - cost
    \<and> weekly_pnl (record_trade cfg now t s) = weekly_pnl s + ct_pnl t - cost
    \<and> total_pnl (record_trade cfg now t s) = total_pnl s + ct_pnl t - cost
    \<and> equity_history (record_trade cfg now t s) = equity_history s"
  using transaction_cost_nonneg[OF assms, of t] record_trade_money(1)[of cfg now t s]
  by (simp add: money_def net_result_def)

theorem record_trade_charges_costs_witness:
  "\<exists>cost\<ge>0. cost = transaction_cost default_risk_config
       \<lparr>ct_pnl = 500, ct_direction = Some CE, ct_entry_price = Some 100, ct_exit_price = Some 110, ct_qty = Some 50\<rparr>
    \<and> daily_pnl (record_trade default_risk_config 0
       \<lparr>ct_pnl = 500, ct_direction = Some CE, ct_entry_price = Some 100, ct_exit_price = Some 110, ct_qty = Some 50\<rparr>
       (initial_risk_manager default_risk_config)) = 500 - cost"
  using record_trade_charges_costs[of default_risk_config
      "\<lparr>ct_pnl = 500, ct_direction = Some CE, ct_entry_price = Some 100, ct_exit_price = Some 110, ct_qty = Some 50\<rparr>"
      0 "initial_risk_manager default_risk_config"]
  by (auto simp: default_risk_config_def initial_risk_manager_def)

section \<open>The drawdown halt\<close>

definition drawdown_of :: "risk_config \<Rightarrow> risk_manager \<Rightarrow> real" where
  "drawdown_of cfg s = max (peak_equity s) (total_capital cfg + total_pnl s) - (total_capital cfg + total_pnl s)"

text \<open>Without a lookback window the drawdown is measured from the all-time peak.\<close>

lemma check_drawdown_all_time:
  assumes "drawdown_peak_lookback_sessions cfg \<le> 0"
  shows "fst (check_drawdown cfg s) = Some (DrawdownAmount d n) \<longleftrightarrow>
    d = drawdown_of cfg s \<and> n = d - max_drawdown_amount cfg \<and> max_drawdown_amount cfg \<le> d"
  using assms
  by (auto simp: check_drawdown_def effective_peak_equity_def drawdown_of_def Let_def max_def)

lemma drawdown_of_step:
  assumes "\<not> is_recorded e" shows "drawdown_of cfg (risk_step cfg s e) = drawdown_of cfg s"
proof (cases e)
  case (Polled now v sp)
  then show ?thesis using can_trade_frame[of cfg now v sp s]
    by (simp add: drawdown_of_def money_def max_def)
qed (use assms in \<open>auto simp: drawdown_of_def set_previous_close_def end_of_day_def end_of_week_def\<close>)

lemma drawdown_of_run:
  "list_all (\<lambda>e. \<not> is_recorded e) es \<Longrightarrow> drawdown_of cfg (foldl (risk_step cfg) s es) = drawdown_of cfg s"
  by (induction es arbitrary: s) (simp_all add: drawdown_of_step)

lemma can_trade_blocked_by_drawdown:
  "fst (check_drawdown cfg s) = Some r \<Longrightarrow> fst (can_trade cfg now v sp s) = Inr (Inl r)"
  unfolding can_trade_def by (cases "check_drawdown cfg s") simp

text \<open>With an all-time peak (lookback 0) the lifetime drawdown halt has no exit: once it has blocked,
  every later call of \<open>can_trade\<close> blocks with the same drawdown and the same distance to re-opening,
  over any number of checks, day ends and week ends, as long as no trade is recorded; and the
  block itself keeps trades from being opened.\<close>

theorem drawdown_halt_permanent:
  assumes "drawdown_peak_lookback_sessions cfg \<le> 0"
    and "fst (check_drawdown cfg s) = Some (DrawdownAmount d n)"
    and "list_all (\<lambda>e. \<not> is_recorded e) es"
  shows "fst (can_trade cfg now v sp (foldl (risk_step cfg) s es)) = Inr (Inl (DrawdownAmount d n))"
  using assms by (intro can_trade_blocked_by_drawdown) (simp add: check_drawdown_all_time drawdown_of_run)

definition sample_loss_state :: risk_manager where
  "sample_loss_state = (initial_risk_manager default_risk_config)\<lparr>total_pnl := -3100, daily_pnl := -3100\<rparr>"

theorem drawdown_halt_permanent_witness:
  "fst (can_trade default_risk_config (seconds 900) None (Some 24000)
     (foldl (risk_step default_risk_config) sample_loss_state [DayEnd, Polled 5 None None, WeekEnd]))
   = Inr (Inl (DrawdownAmount 3100 100))"
  by (rule drawdown_halt_permanent)
    (simp_all add: default_risk_config_def sample_loss_state_def initial_risk_manager_def
       check_drawdown_def effective_peak_equity_def Let_def)

lemma days_append_equity:
  "foldl (risk_step cfg) s (replicate k DayEnd) =
     (if k = 0 then s else (end_of_day s)\<lparr>equity_history := equity_history s @ replicate k (current_equity s)\<rparr>)"
proof (induction k)
  case (Suc k)
  have "foldl (risk_step cfg) s (replicate (Suc k) DayEnd)
      = end_of_day (foldl (risk_step cfg) s (replicate k DayEnd))"
    by (simp flip: replicate_append_same)
  with Suc show ?case by (cases "k = 0") (simp_all add: end_of_day_def flip: replicate_append_same)
qed simp

text \<open>With a lookback of n sessions the halt lifts by itself: after at least n day ends without a
  trade every old high has left the window, and the drawdown check passes again whatever the loss
  was, provided the two limits are positive.\<close>

theorem drawdown_halt_ages_out:
  assumes "0 < drawdown_peak_lookback_sessions cfg" "drawdown_peak_lookback_sessions cfg \<le> int k"
    and "0 < max_drawdown_amount cfg" "0 < max_drawdown_pct cfg"
    and "current_equity s = total_capital cfg + total_pnl s"
  shows "fst (check_drawdown cfg (foldl (risk_step cfg) s (replicate k DayEnd))) = None"
proof -
  let ?n = "nat (drawdown_peak_lookback_sessions cfg)"
  have n: "0 < ?n" "?n \<le> k" using assms by simp_all
  then have "last_n ?n (equity_history s @ replicate k (current_equity s)) = replicate ?n (current_equity s)"
    by (simp add: last_n_def)
  with n assms show ?thesis
    by (simp add: days_append_equity check_drawdown_def effective_peak_equity_def Let_def end_of_day_def)
qed

theorem drawdown_halt_ages_out_witness:
  "fst (check_drawdown (default_risk_config\<lparr>drawdown_peak_lookback_sessions := 5\<rparr>)
     (foldl (risk_step (default_risk_config\<lparr>drawdown_peak_lookback_sessions := 5\<rparr>))
        (sample_loss_state\<lparr>current_equity := 26900\<rparr>) (replicate 6 DayEnd))) = None"
  by (rule drawdown_halt_ages_out)
    (simp_all add: default_risk_config_def sample_loss_state_def initial_risk_manager_def)

section \<open>The streak pause\<close>

definition streak_poll :: "risk_config \<Rightarrow> instant \<Rightarrow> risk_manager \<Rightarrow> bool \<times> risk_manager" where
  "streak_poll cfg now s = (let (r, s') = check_streak_limits cfg now s in (r = None, s'))"

interpretation streak: timed_gate "streak_poll cfg" streak_pause_until
    "\<lambda>_. 0 < consecutive_loss_limit cfg \<and> 0 < consecutive_win_limit cfg" for cfg
  by unfold_locales (auto simp: streak_poll_def check_streak_limits_def streak_gate_def Let_def)

text \<open>The loss that completes a losing streak arms the pause at that moment: \<open>can_trade\<close>'s streak check
  refuses at every poll before the deadline without moving it, and the first poll at or after the
  deadline passes, so the configured pause is what is served, no shorter and no longer.\<close>

theorem loss_streak_pause_served_once:
  assumes "0 < consecutive_loss_limit cfg" "0 < consecutive_win_limit cfg"
    and "streak_pause_until s = None" "pnl < 0"
    and "consecutive_loss_limit cfg \<le> rm_consecutive_losses s + 1"
    and "d = t0 + seconds (pause_after_consecutive_loss_sec cfg)"
    and "\<forall>t\<in>set ts. t < d" "d \<le> now"
  shows "streak.polls cfg ts (update_streak cfg t0 pnl s)
           = (replicate (length ts) False, update_streak cfg t0 pnl s)
    \<and> fst (check_streak_limits cfg now (update_streak cfg t0 pnl s)) = None"
proof -
  have armed: "streak_pause_until (update_streak cfg t0 pnl s) = Some d"
    using assms by (simp add: update_streak_def)
  from streak.polls_held[OF _ armed, of cfg ts]
  have "streak.polls cfg ts (update_streak cfg t0 pnl s)
      = (replicate (length ts) False, update_streak cfg t0 pnl s)"
    using assms by blast
  moreover have "fst (streak_poll cfg now (update_streak cfg t0 pnl s))"
    using streak.opens_once_expired[OF _ armed, of cfg "[]" now] assms by simp
  ultimately show ?thesis by (auto simp: streak_poll_def split: prod.splits)
qed

theorem loss_streak_pause_served_once_witness:
  "fst (check_streak_limits default_risk_config (seconds 1000)
     (update_streak default_risk_config (seconds 100) (-50)
        ((initial_risk_manager default_risk_config)\<lparr>rm_consecutive_losses := 1\<rparr>))) = None"
  using loss_streak_pause_served_once[of default_risk_config
      "(initial_risk_manager default_risk_config)\<lparr>rm_consecutive_losses := 1\<rparr>" "-50" "seconds 1000"
      "seconds 100" "[seconds 200, seconds 999]" "seconds 1000"]
  by (simp add: default_risk_config_def initial_risk_manager_def seconds_def)

section \<open>Leave to trade\<close>

text \<open>Percentages that describe a reduction, not an increase or a sign change.\<close>

definition wf_reductions :: "risk_config \<Rightarrow> bool" where
  "wf_reductions cfg \<longleftrightarrow>
     (\<forall>p \<in> {size_reduce_pct_caution cfg, size_reduce_pct_high cfg, size_reduction_pct cfg,
             ec_size_reduce_pct cfg, profit_lock_reduce_pct cfg}. 0 \<le> p \<and> p < 100)
     \<and> (\<forall>p \<in> {opening_15min_size_pct cfg, closing_30min_size_pct cfg}. 0 < p \<and> p \<le> 100)"

lemma wf_reductions_default [simp]: "wf_reductions default_risk_config"
  by (simp add: wf_reductions_def default_risk_config_def)

definition fraction :: "real \<Rightarrow> bool" where
  "fraction m \<longleftrightarrow> 0 < m \<and> m \<le> 1"

lemma fraction_mult [range_intros]: "fraction a \<Longrightarrow> fraction b \<Longrightarrow> fraction (a * b)"
  using mult_le_one[of a b] by (simp add: fraction_def)

lemma fraction_reduction [range_intros]: "0 \<le> p \<Longrightarrow> p < 100 \<Longrightarrow> fraction (1 - p / 100)"
  by (simp add: fraction_def)

lemma fraction_shrink [range_intros]: "fraction m \<Longrightarrow> fraction (fst acc) \<Longrightarrow> fraction (fst (shrink m w acc))"
  by (auto simp: shrink_def intro: fraction_mult)

lemma vix_mult_fraction:
  "check_vix_filter cfg v s = (Inr m, s') \<Longrightarrow> wf_reductions cfg \<Longrightarrow> fraction m"
  by (auto simp: check_vix_filter_def wf_reductions_def fraction_def split: prod.splits if_splits)

lemma recovery_mult_fraction:
  "check_recovery_mode cfg now s = (Inr (b, m), s') \<Longrightarrow> wf_reductions cfg \<Longrightarrow> fraction m"
  by (auto simp: check_recovery_mode_def wf_reductions_def fraction_def Let_def split: if_splits)

lemma equity_mult_fraction:
  "check_equity_curve cfg s = Inr (Inr m) \<Longrightarrow> wf_reductions cfg \<Longrightarrow> fraction m"
  by (auto simp: check_equity_curve_def wf_reductions_def fraction_def Let_def split: if_splits)

lemma time_mult_fraction: "wf_reductions cfg \<Longrightarrow> fraction (get_time_based_multiplier cfg now)"
  by (auto simp: get_time_based_multiplier_def wf_reductions_def fraction_def)

lemma lock_mult_fraction: "check_profit_lock cfg s = Some m \<Longrightarrow> wf_reductions cfg \<Longrightarrow> fraction m"
  by (auto simp: check_profit_lock_def wf_reductions_def fraction_def split: if_splits)

lemma sizing_stage_allowed:
  assumes "sizing_stage cfg now vm s = (Inr (Inr d), s')" "wf_reductions cfg" "fraction vm"
  shows "fraction (size_multiplier d) \<and> td_risk_budget d = get_risk_budget cfg (size_multiplier d) s'"
proof -
  from assms(1) obtain b rm em where
    r: "check_recovery_mode cfg now s = (Inr (b, rm), s')" and e: "check_equity_curve cfg s' = Inr (Inr em)"
    by (auto simp: sizing_stage_def Let_def split: prod.splits sum.splits)
  let ?acc = "shrink (get_time_based_multiplier cfg now) TimeWarning
       (shrink em EquityWarning (shrink rm RecoveryWarning (shrink vm VixWarning (1, []))))"
  have "fraction 1" by (simp add: fraction_def)
  with assms(2,3) r e have acc: "fraction (fst ?acc)"
    by (intro range_intros time_mult_fraction) (auto dest: recovery_mult_fraction equity_mult_fraction)
  from assms(1) r e have d: "size_multiplier d = (case check_profit_lock cfg s' of None \<Rightarrow> fst ?acc | Some m \<Rightarrow> fst ?acc * m)"
    "td_risk_budget d = get_risk_budget cfg (size_multiplier d) s'"
    by (auto simp: sizing_stage_def Let_def split: option.splits)
  with acc assms(2) show ?thesis
    by (auto split: option.splits intro: fraction_mult lock_mult_fraction)
qed

lemma can_trade_allowed_stages:
  assumes "can_trade cfg now v sp s = (Inr (Inr d), s')"
  obtains s1 s2 s3 s4 vm where "check_drawdown cfg s = (None, s1)" "check_weekly_loss cfg s1 = None"
    "check_streak_limits cfg now s1 = (None, s2)" "check_vix_filter cfg v s2 = (Inr vm, s3)"
    "gap_stage cfg now sp s3 = (None, s4)" "sizing_stage cfg now vm s4 = (Inr (Inr d), s')"
  using assms unfolding can_trade_def by (auto split: prod.splits option.splits sum.splits)

text \<open>The peak the drawdown is measured from: the highest equity of the configured number of sessions, or of all time.\<close>

definition measured_peak :: "risk_config \<Rightarrow> risk_manager \<Rightarrow> real" where
  "measured_peak cfg s =
     (let equity = total_capital cfg + total_pnl s
      in if drawdown_peak_lookback_sessions cfg \<le> 0 then max (peak_equity s) equity
         else Max (set (last_n (nat (drawdown_peak_lookback_sessions cfg)) (equity_history s) @ [equity])))"

text \<open>What the stages after the first one read.\<close>

definition gate_fields :: "risk_manager \<Rightarrow> real \<times> real option \<times> real list \<times> real option \<times> instant option" where
  "gate_fields s = (current_equity s, vix_value s, equity_history s, previous_close s, gap_wait_until s)"

lemma check_drawdown_passed:
  assumes "check_drawdown cfg s = (None, s1)"
  defines "equity \<equiv> total_capital cfg + total_pnl s" and "peak \<equiv> measured_peak cfg s"
  shows "peak - equity < max_drawdown_amount cfg" "(if 0 < peak then (peak - equity) / peak * 100 else 0) < max_drawdown_pct cfg"
    "gate_fields s1 = gate_fields (s\<lparr>current_equity := equity\<rparr>)" "weekly_pnl s1 = weekly_pnl s"
    "streak_pause_until s1 = streak_pause_until s" "rm_consecutive_losses s1 = rm_consecutive_losses s"
    "consecutive_wins s1 = consecutive_wins s"
  using assms(1) unfolding equity_def peak_def
  by (auto simp: check_drawdown_def effective_peak_equity_def measured_peak_def gate_fields_def Let_def max_def split: if_splits)

lemma check_streak_passed:
  assumes "check_streak_limits cfg now s = (None, s')"
  shows "case streak_pause_until s of
      None \<Rightarrow> rm_consecutive_losses s < consecutive_loss_limit cfg \<and> consecutive_wins s < consecutive_win_limit cfg
    | Some u \<Rightarrow> u \<le> now \<and> 0 < consecutive_loss_limit cfg \<and> 0 < consecutive_win_limit cfg"
    "gate_fields s' = gate_fields s"
  using assms by (auto simp: check_streak_limits_def streak_gate_def gate_fields_def Let_def split: option.splits if_splits)

lemma check_vix_passed:
  assumes "check_vix_filter cfg v s = (Inr m, s')" "vix_enabled cfg" "vix_extreme_stop cfg"
  shows "fst (get_vix v s) \<le> max (vix_normal_max cfg) (max (vix_caution_max cfg) (vix_high_max cfg))"
  using assms by (auto simp: check_vix_filter_def split: prod.splits if_splits)

lemma check_vix_fields:
  assumes "check_vix_filter cfg v s = (r, s')"
  shows "current_equity s' = current_equity s" "equity_history s' = equity_history s" "previous_close s' = previous_close s"
    "gap_wait_until s' = gap_wait_until s"
  using assms by (auto simp: check_vix_filter_def get_vix_def Let_def split: prod.splits if_splits option.splits)

lemma gap_stage_passed:
  assumes "gap_stage cfg now (Some spot) s = (None, s')" "gap_enabled cfg" "spot \<noteq> 0"
  shows "\<forall>u. gap_wait_until s = Some u \<longrightarrow> u \<le> now"
    "\<forall>pc. previous_close s = Some pc \<and> pc \<noteq> 0 \<longrightarrow>
       - gap_down_threshold_pct cfg < (spot - pc) / pc * 100 \<and> (spot - pc) / pc * 100 < gap_up_threshold_pct cfg"
  using assms by (auto simp: gap_stage_def check_gap_protection_def Let_def not_le split: if_splits option.splits)

lemma gap_stage_fields:
  assumes "gap_stage cfg now sp s = (r, s')"
  shows "current_equity s' = current_equity s" "equity_history s' = equity_history s"
  using assms by (auto simp: gap_stage_def check_gap_protection_def Let_def split: if_splits option.splits)

lemma recovery_fields:
  assumes "check_recovery_mode cfg now s = (r, s')"
  shows "current_equity s' = current_equity s" "equity_history s' = equity_history s"
  using assms by (auto simp: check_recovery_mode_def Let_def split: if_splits)

lemma sizing_stage_passed:
  assumes "sizing_stage cfg now vm s = (Inr (Inr d), s')" "equity_curve_enabled cfg" "sma_period cfg \<le> length (equity_history s)"
  defines "sma \<equiv> sum_list (last_n (sma_period cfg) (equity_history s)) / of_nat (sma_period cfg)"
  shows "current_equity s < sma \<longrightarrow> (sma - current_equity s) / sma * 100 < pause_if_below_pct cfg"
proof -
  obtain b rm em where r: "check_recovery_mode cfg now s = (Inr (b, rm), s')" and e: "check_equity_curve cfg s' = Inr (Inr em)"
    using assms(1) by (auto simp: sizing_stage_def Let_def split: prod.splits sum.splits)
  from e show ?thesis
    using assms(2,3) unfolding sma_def by (auto simp: check_equity_curve_def recovery_fields[OF r] Let_def split: if_splits)
qed

text \<open>C4: Leave to trade is given only when every gate agrees: the drawdown from the measured peak is below its amount
  and its percentage limit, the weekly result is above its limit, no streak pause is running and the remaining streaks are
  below their limits, with the extreme stop the VIX is in the tradable range, with gap protection and a spot no gap wait
  runs and the spot is within the gap thresholds of the previous close, with the equity-curve filter the equity is not below
  its average by the pause percentage; and the size multiplier handed to sizing is a fraction in (0, 1], however many of the
  five reductions apply.\<close>

theorem can_trade_allowed:
  assumes "can_trade cfg now v sp s = (Inr (Inr d), s')" "wf_reductions cfg"
  defines "equity \<equiv> total_capital cfg + total_pnl s" and "peak \<equiv> measured_peak cfg s"
    and "sma \<equiv> sum_list (last_n (sma_period cfg) (equity_history s)) / of_nat (sma_period cfg)"
  shows "peak - equity < max_drawdown_amount cfg
    \<and> (if 0 < peak then (peak - equity) / peak * 100 else 0) < max_drawdown_pct cfg
    \<and> - max_weekly_loss_amount cfg < weekly_pnl s
    \<and> (case streak_pause_until s of
         None \<Rightarrow> rm_consecutive_losses s < consecutive_loss_limit cfg \<and> consecutive_wins s < consecutive_win_limit cfg
       | Some u \<Rightarrow> u \<le> now \<and> 0 < consecutive_loss_limit cfg \<and> 0 < consecutive_win_limit cfg)
    \<and> (vix_enabled cfg \<and> vix_extreme_stop cfg \<longrightarrow>
         fst (get_vix v s) \<le> max (vix_normal_max cfg) (max (vix_caution_max cfg) (vix_high_max cfg)))
    \<and> (\<forall>spot. gap_enabled cfg \<and> sp = Some spot \<and> spot \<noteq> 0 \<longrightarrow>
         (\<forall>u. gap_wait_until s = Some u \<longrightarrow> u \<le> now)
       \<and> (\<forall>pc. previous_close s = Some pc \<and> pc \<noteq> 0 \<longrightarrow>
            - gap_down_threshold_pct cfg < (spot - pc) / pc * 100 \<and> (spot - pc) / pc * 100 < gap_up_threshold_pct cfg))
    \<and> (equity_curve_enabled cfg \<and> sma_period cfg \<le> length (equity_history s) \<and> equity < sma \<longrightarrow>
         (sma - equity) / sma * 100 < pause_if_below_pct cfg)
    \<and> 0 < size_multiplier d \<and> size_multiplier d \<le> 1
    \<and> td_risk_budget d = get_risk_budget cfg (size_multiplier d) s'"
proof -
  from assms(1) obtain s1 s2 s3 s4 vm where st:
    "check_drawdown cfg s = (None, s1)" "check_weekly_loss cfg s1 = None"
    "check_streak_limits cfg now s1 = (None, s2)" "check_vix_filter cfg v s2 = (Inr vm, s3)"
    "gap_stage cfg now sp s3 = (None, s4)" "sizing_stage cfg now vm s4 = (Inr (Inr d), s')"
    by (rule can_trade_allowed_stages)
  note dd = check_drawdown_passed[OF st(1)]
  have s2: "gate_fields s2 = gate_fields (s\<lparr>current_equity := equity\<rparr>)"
    using check_streak_passed(2)[OF st(3)] dd(3) by (simp add: equity_def)
  then have f: "vix_value s2 = vix_value s" "previous_close s3 = previous_close s" "gap_wait_until s3 = gap_wait_until s"
    "current_equity s4 = equity" "equity_history s4 = equity_history s"
    using check_vix_fields[OF st(4)] gap_stage_fields[OF st(5)] by (simp_all add: gate_fields_def)
  have weekly: "- max_weekly_loss_amount cfg < weekly_pnl s" using st(2) dd(4) by (auto simp: check_weekly_loss_def split: if_splits)
  have vix: "fst (get_vix v s2) = fst (get_vix v s)" using f(1) by (simp add: get_vix_def Let_def split: option.split)
  have size: "0 < size_multiplier d \<and> size_multiplier d \<le> 1 \<and> td_risk_budget d = get_risk_budget cfg (size_multiplier d) s'"
    using sizing_stage_allowed[OF st(6) assms(2) vix_mult_fraction[OF st(4) assms(2)]] by (simp add: fraction_def)
  show ?thesis
    using dd(1,2) weekly check_streak_passed(1)[OF st(3)] check_vix_passed[OF st(4)]
      gap_stage_passed[of cfg now _ s3 s4] st(5) sizing_stage_passed[OF st(6)] size
    unfolding dd(5-7) f vix equity_def peak_def sma_def by blast
qed

text \<open>A morning on which every gate is active and agrees: VIX 18, spot within the gap thresholds, an equity a little under
  its average.\<close>

definition strict_risk_config :: risk_config where
  "strict_risk_config = default_risk_config\<lparr>vix_extreme_stop := True, equity_curve_enabled := True\<rparr>"

definition sample_morning :: risk_manager where
  "sample_morning = (initial_risk_manager strict_risk_config)\<lparr>daily_pnl := -400, total_pnl := -400,
     previous_close := Some 23900, equity_history := replicate 10 30000\<rparr>"

lemma strict_reductions: "wf_reductions strict_risk_config"
  by (simp add: wf_reductions_def strict_risk_config_def default_risk_config_def)

lemma sample_allowed:
  "\<exists>d s'. can_trade strict_risk_config (seconds 36000) (Some 18) (Some 24000) sample_morning = (Inr (Inr d), s')
     \<and> size_multiplier d = 3/4 * (7/10)"
  by (simp add: can_trade_def check_drawdown_def check_weekly_loss_def check_streak_limits_def
      streak_gate_def check_vix_filter_def get_vix_def gap_stage_def check_gap_protection_def
      sizing_stage_def check_recovery_mode_def check_equity_curve_def get_time_based_multiplier_def
      check_profit_lock_def shrink_def strict_risk_config_def default_risk_config_def initial_risk_manager_def
      sample_morning_def effective_peak_equity_def last_n_def sum_list_replicate Let_def)

theorem can_trade_allowed_witness:
  "\<exists>d s'. can_trade strict_risk_config (seconds 36000) (Some 18) (Some 24000) sample_morning = (Inr (Inr d), s')
     \<and> td_risk_budget d = get_risk_budget strict_risk_config (size_multiplier d) s'"
proof -
  obtain d s' where *: "can_trade strict_risk_config (seconds 36000) (Some 18) (Some 24000) sample_morning = (Inr (Inr d), s')"
    using sample_allowed by blast
  from can_trade_allowed[OF * strict_reductions] * show ?thesis by blast
qed

section \<open>The risk budget\<close>

lemma remaining_risk_bounds:
  assumes "0 < rm_max_daily_loss_amount cfg"
  shows "0 \<le> remaining_risk_raw cfg s"
    and "remaining_risk_raw cfg s \<le> max 0 (risk_per_trade_amount cfg)"
    and "remaining_risk_raw cfg s \<le> max 0 (rm_max_daily_loss_amount cfg - max 0 (- daily_pnl s))"
  using assms by (auto simp: remaining_risk_raw_def Let_def)

text \<open>The budget for the next trade respects the day: it is between 0 and the per-trade risk, and a
  trade that loses all of it leaves the daily loss within the daily ceiling if it was within before.
  The figure published to sizing is this amount to the nearest paisa.\<close>

theorem risk_budget_within_daily_ceiling:
  assumes "0 < rm_max_daily_loss_amount cfg" "0 \<le> risk_per_trade_amount cfg"
    and "- rm_max_daily_loss_amount cfg \<le> daily_pnl s"
  shows "0 \<le> remaining_risk_raw cfg s
    \<and> remaining_risk_raw cfg s \<le> risk_per_trade_amount cfg
    \<and> - rm_max_daily_loss_amount cfg \<le> daily_pnl s - remaining_risk_raw cfg s
    \<and> \<bar>remaining_risk_amount (get_risk_budget cfg m s) - remaining_risk_raw cfg s\<bar> \<le> 1/200"
proof -
  have "\<bar>remaining_risk_amount (get_risk_budget cfg m s) - remaining_risk_raw cfg s\<bar> \<le> 1/200"
    using py_round_error[of 2 "remaining_risk_raw cfg s"] by (simp add: get_risk_budget_def Let_def)
  then show ?thesis
    using remaining_risk_bounds[OF assms(1), of s] assms by (auto simp: max_def split: if_splits)
qed

theorem risk_budget_within_daily_ceiling_witness:
  "-3000 \<le> -2500 - remaining_risk_raw default_risk_config
     ((initial_risk_manager default_risk_config)\<lparr>daily_pnl := -2500\<rparr>)"
  using risk_budget_within_daily_ceiling[of default_risk_config
      "(initial_risk_manager default_risk_config)\<lparr>daily_pnl := -2500\<rparr>" 1]
  by (simp add: default_risk_config_def initial_risk_manager_def)

section \<open>Gap protection\<close>

text \<open>Polls of the gap check at the given times and spot prices, in order.\<close>

fun gap_polls :: "risk_config \<Rightarrow> (instant \<times> real) list \<Rightarrow> risk_manager \<Rightarrow> bool list" where
  "gap_polls cfg [] s = []"
| "gap_polls cfg ((now, spot) # ps) s =
     (let (r, s') = check_gap_protection cfg now spot s in (r = None) # gap_polls cfg ps s')"

definition gapped :: "risk_config \<Rightarrow> real \<Rightarrow> real \<Rightarrow> bool" where
  "gapped cfg pc spot \<longleftrightarrow> spot \<noteq> 0 \<and>
     (let g = (spot - pc) / pc * 100 in gap_up_threshold_pct cfg \<le> g \<or> g \<le> - gap_down_threshold_pct cfg)"

lemma check_gap_gapped:
  assumes "gap_enabled cfg" "previous_close s = Some pc" "pc \<noteq> 0" "gapped cfg pc spot"
  shows "fst (check_gap_protection cfg now spot s) \<noteq> None
    \<and> previous_close (snd (check_gap_protection cfg now spot s)) = Some pc"
  using assms by (auto simp: check_gap_protection_def gapped_def Let_def)

text \<open>The gap wait has no end of its own: the check compares the current spot, not the open, with the
  previous close, so while the spot stays beyond a threshold every poll is refused, the wait being
  armed again each time it runs out, however much later than the configured wait the poll is.\<close>

theorem gap_block_lasts_while_gapped:
  assumes "gap_enabled cfg" "previous_close s = Some pc" "pc \<noteq> 0"
    and "\<forall>(now, spot)\<in>set ps. gapped cfg pc spot"
  shows "gap_polls cfg ps s = replicate (length ps) False"
  using assms
proof (induction ps arbitrary: s)
  case (Cons p ps)
  obtain now spot where p: "p = (now, spot)" by fastforce
  with Cons.prems have g: "gapped cfg pc spot" by simp
  note step = check_gap_gapped[OF Cons.prems(1-3) g, of now]
  obtain r s' where rs: "check_gap_protection cfg now spot s = (r, s')" by fastforce
  with step have "r \<noteq> None" "previous_close s' = Some pc" by simp_all
  with Cons.IH[of s'] Cons.prems rs p show ?case by simp
qed simp

theorem gap_block_lasts_while_gapped_witness:
  "gap_polls default_risk_config
     [(0, 24500), (minutes 16, 24400), (minutes 180, 24300)]
     ((initial_risk_manager default_risk_config)\<lparr>previous_close := Some 24000\<rparr>) = [False, False, False]"
  using gap_block_lasts_while_gapped[of default_risk_config
      "(initial_risk_manager default_risk_config)\<lparr>previous_close := Some 24000\<rparr>" 24000
      "[(0, 24500), (minutes 16, 24400), (minutes 180, 24300)]"]
  by (simp add: default_risk_config_def initial_risk_manager_def gapped_def numeral_3_eq_3 Let_def)

section \<open>Restart\<close>

text \<open>A restart gives back what the limits are measured on: the total and the peak always, the
  recovery mode with a start date (the present when none was saved) so that it can be left
  again, the last 30 equity points, the weekly result within the same week and zero in a new
  one, and the day's result exactly when the file is of the same day.\<close>

theorem restart_restores_limits:
  "let r = new_risk_manager cfg now (Some (save_state saved s))
   in total_pnl r = total_pnl s \<and> peak_equity r = peak_equity s
    \<and> recovery_mode r = recovery_mode s
    \<and> recovery_start_date r = (if recovery_mode s then Some (get_or now (recovery_start_date s))
                               else recovery_start_date s)
    \<and> equity_history r = last_n 30 (equity_history s)
    \<and> weekly_pnl r = (if iso_week (date_of saved) = iso_week (date_of now) then weekly_pnl s else 0)
    \<and> daily_pnl r = (if date_of saved = date_of now then daily_pnl s else 0)"
  unfolding new_risk_manager_def load_state_def save_state_def Let_def
  by (auto simp: initial_risk_manager_def end_of_week_def split: option.splits)

text \<open>A reconnect counts as the end of the day: the loop runs the day-end processing on every way out,
  also when it leaves to reconnect in the middle of a session, so the manager built after the reconnect
  on the same day starts with no loss consumed - its budget for the next trade is the full daily
  ceiling whatever was lost before - and with one more point in the equity history.\<close>

theorem reconnect_renews_daily_budget:
  "let r = new_risk_manager cfg now (Some (save_state saved (end_of_day s)))
   in daily_pnl r = 0 \<and> total_pnl r = total_pnl s
    \<and> equity_history r = last_n 30 (equity_history s @ [current_equity s])
    \<and> remaining_risk_raw cfg r = max 0 (min (min (risk_per_trade_amount cfg) (rm_max_daily_loss_amount cfg))
          (max 0 ((total_capital cfg + total_pnl s) * (capital_utilization_pct cfg / 100))))"
proof -
  let ?r = "new_risk_manager cfg now (Some (save_state saved (end_of_day s)))"
  have f: "daily_pnl ?r = 0" "total_pnl ?r = total_pnl s"
    "equity_history ?r = last_n 30 (equity_history s @ [current_equity s])"
    unfolding new_risk_manager_def load_state_def save_state_def Let_def
    by (auto simp: initial_risk_manager_def end_of_week_def end_of_day_def split: option.splits)
  show ?thesis by (simp only: Let_def f remaining_risk_raw_def) simp
qed

end
