(* ===== verification/Position_Size.thy ===== *)
theory Position_Size
  imports Prelude
begin

text \<open>
  \<open>core/engines/position_size_engine.py\<close>: the allocator that turns a risk budget and the soft
  factors into a number of lots.  The merged configuration (defaults, \<open>strategy.json\<close>, \<open>.env\<close>) is the
  record \<open>size_config\<close>; reading the files is not modelled.  An argument of type
  \<open>Union[Number, Dict]\<close> is a datatype with one constructor per case, a dictionary key that may be
  missing an option.  The reasons of a cap are a list instead of a comma-joined string.
\<close>

section \<open>Configuration\<close>

record clamp_range =
  minimum :: real
  maximum :: real

definition apply_range :: "clamp_range \<Rightarrow> real \<Rightarrow> real" where
  "apply_range r v = clamp (minimum r) (maximum r) v"

record soft_weights =
  w_score :: real
  w_confidence :: real
  w_market_quality :: real
  w_regime :: real
  w_volatility :: real
  w_recovery :: real
  w_daily_loss :: real

record size_config =
  default_risk_budget_pct :: real
  min_risk_budget_pct :: real
  max_risk_budget_pct :: real
  weights :: soft_weights
  final_allocation_clamp :: clamp_range
  range_score :: clamp_range
  range_confidence :: clamp_range
  range_market_quality :: clamp_range
  range_regime :: clamp_range
  range_volatility :: clamp_range
  range_recovery :: clamp_range
  range_daily_loss :: clamp_range
  max_capital_allocation_pct :: real
  max_symbol_daily_risk_pct :: real
  max_lots :: int
  min_executable_quantity :: int
  daily_risk_cap_pct :: real
  recovery_mode_cap_pct :: real
  min_lot_rounding_tolerance_pct :: real
  min_lot_floor_enabled :: bool
  grade_A_plus :: real
  grade_A :: real
  grade_B :: real
  grade_C :: real

definition range_of :: "real \<Rightarrow> real \<Rightarrow> clamp_range" where
  "range_of lo hi = \<lparr>minimum = lo, maximum = hi\<rparr>"

definition DEFAULT_CONFIG :: size_config where
  "DEFAULT_CONFIG = \<lparr>default_risk_budget_pct = 1/100, min_risk_budget_pct = 2/1000,
     max_risk_budget_pct = 2/100,
     weights = \<lparr>w_score = 18/100, w_confidence = 18/100, w_market_quality = 18/100,
       w_regime = 12/100, w_volatility = 14/100, w_recovery = 10/100, w_daily_loss = 10/100\<rparr>,
     final_allocation_clamp = range_of (4/10) (11/10),
     range_score = range_of (8/10) (11/10), range_confidence = range_of (8/10) (11/10),
     range_market_quality = range_of (75/100) (11/10), range_regime = range_of (85/100) (105/100),
     range_volatility = range_of (7/10) 1, range_recovery = range_of (5/10) 1,
     range_daily_loss = range_of (4/10) 1,
     max_capital_allocation_pct = 2/10, max_symbol_daily_risk_pct = 4/10, max_lots = 8,
     min_executable_quantity = 1, daily_risk_cap_pct = 3/100, recovery_mode_cap_pct = 5/10,
     min_lot_rounding_tolerance_pct = 5/100, min_lot_floor_enabled = False,
     grade_A_plus = 102/100, grade_A = 95/100, grade_B = 85/100, grade_C = 70/100\<rparr>"

section \<open>Inputs\<close>

record budget_dict =
  bd_remaining_risk_amount :: "real option"
  bd_remaining_risk_pct :: "real option"
  bd_daily_risk_budget_pct :: "real option"
  bd_daily_risk_budget_amount :: "real option"
  bd_legacy_size_multiplier :: "real option"

datatype budget_input = BudgetNumber real | BudgetDict budget_dict

datatype quality_input = QualityNumber real | QualityDict (quality_score: "real option") (score: "real option")

datatype volatility_input = VolNumber real | VolDict (vix: "real option") (atr: "real option")

datatype recovery_input = RecoveryFlag bool | RecoveryDict (active: bool) (severity: "real option")

datatype loss_input = LossNumber real | LossDict (utilization: "real option")

section \<open>The factors\<close>

definition linear_scale :: "real \<Rightarrow> real \<Rightarrow> real \<Rightarrow> clamp_range \<Rightarrow> real" where
  "linear_scale v in_min in_max r =
     (if in_max \<le> in_min then minimum r
      else apply_range r (minimum r + (maximum r - minimum r) * ((v - in_min) / (in_max - in_min))))"

definition resolve_base_risk_amount :: "size_config \<Rightarrow> real \<Rightarrow> budget_input \<Rightarrow> real" where
  "resolve_base_risk_amount cfg capital rb =
     (let scaled = (\<lambda>pct. capital * max (min_risk_budget_pct cfg) (min (max_risk_budget_pct cfg) pct))
      in case rb of
        BudgetDict d \<Rightarrow>
          (case bd_remaining_risk_amount d of
             Some a \<Rightarrow> max 0 a
           | None \<Rightarrow>
               let pct = get_or (get_or (default_risk_budget_pct cfg) (bd_daily_risk_budget_pct d))
                           (bd_remaining_risk_pct d)
               in scaled (if pct = 0 then default_risk_budget_pct cfg else pct))
      | BudgetNumber v \<Rightarrow> scaled (if v \<le> 1 then v else v / 100))"

definition score_multiplier :: "size_config \<Rightarrow> real \<Rightarrow> real" where
  "score_multiplier cfg v = linear_scale v 0 100 (range_score cfg)"

definition confidence_multiplier :: "size_config \<Rightarrow> real \<Rightarrow> real" where
  "confidence_multiplier cfg v = linear_scale v 0 100 (range_confidence cfg)"

definition market_quality_multiplier :: "size_config \<Rightarrow> quality_input \<Rightarrow> real" where
  "market_quality_multiplier cfg q =
     linear_scale (case q of QualityNumber v \<Rightarrow> v | QualityDict qs sc \<Rightarrow> get_or (get_or 0 sc) qs)
       0 100 (range_market_quality cfg)"

definition regime_multiplier :: "size_config \<Rightarrow> string \<Rightarrow> real" where
  "regime_multiplier cfg regime =
     (let name = py_upper regime
      in apply_range (range_regime cfg)
           (if name = ''BULLISH'' \<or> name = ''BEARISH'' then 103/100
            else if name = ''SIDEWAYS'' then 92/100 else 90/100))"

definition volatility_multiplier :: "size_config \<Rightarrow> volatility_input \<Rightarrow> real" where
  "volatility_multiplier cfg v =
     (let indicator = (case v of VolNumber x \<Rightarrow> x
                       | VolDict vx av \<Rightarrow> if get_or 0 vx > 0 then get_or 0 vx else get_or 0 av);
          r = range_volatility cfg
      in if indicator \<le> 0 then apply_range r (95/100)
         else apply_range r (maximum r - (maximum r - minimum r) * clamp 0 1 ((indicator - 10) / (40 - 10))))"

definition recovery_multiplier :: "size_config \<Rightarrow> recovery_input \<Rightarrow> real" where
  "recovery_multiplier cfg m =
     apply_range (range_recovery cfg)
       (case m of
          RecoveryFlag b \<Rightarrow> if b then 75/100 else 1
        | RecoveryDict act sev \<Rightarrow>
            if act then 1 - min (1/2) (max 0 ((if truthy sev then get_or 1 sev else 1) * (1/2))) else 1)"

definition daily_loss_multiplier :: "size_config \<Rightarrow> loss_input \<Rightarrow> real" where
  "daily_loss_multiplier cfg l =
     (let u = (case l of LossDict uo \<Rightarrow> get_or 0 uo | LossNumber v \<Rightarrow> if v \<le> 1 then v else v / 100)
      in apply_range (range_daily_loss cfg) (1 - min (6/10) (max 0 (u * (8/10)))))"

definition legacy_size_multiplier :: "budget_input \<Rightarrow> real" where
  "legacy_size_multiplier rb =
     (case rb of
        BudgetDict d \<Rightarrow>
          (let v = bd_legacy_size_multiplier d
           in clamp (1/10) 1 (if truthy v then get_or 1 v else 1))
      | BudgetNumber _ \<Rightarrow> 1)"

text \<open>The factors of one calculation, rounded to four places as in \<open>breakdown\<close>.\<close>

record factors =
  f_score :: real
  f_confidence :: real
  f_market_quality :: real
  f_regime :: real
  f_volatility :: real
  f_recovery :: real
  f_daily_loss :: real

definition apply_final_clamp :: "size_config \<Rightarrow> real \<Rightarrow> real" where
  "apply_final_clamp cfg v = apply_range (final_allocation_clamp cfg) v"

definition soft_adjustment_multiplier :: "size_config \<Rightarrow> factors \<Rightarrow> real" where
  "soft_adjustment_multiplier cfg f =
     (let w = weights cfg;
          delta = (f_score f - 1) * w_score w + (f_confidence f - 1) * w_confidence w
                + (f_market_quality f - 1) * w_market_quality w + (f_regime f - 1) * w_regime w
                + (f_volatility f - 1) * w_volatility w + (f_recovery f - 1) * w_recovery w
                + (f_daily_loss f - 1) * w_daily_loss w
      in apply_final_clamp cfg (1 + delta))"

section \<open>Caps\<close>

datatype cap_reason =
    MaxCapitalAllocation | DailyRiskCap | RemainingRisk | SymbolDailyRisk | RecoveryCap
  | RoundedUpMinLot | FlooredToMinLot | HardBudgetBelowOneLot | MaxLots | BelowMinQuantity
  | InvalidInput

text \<open>One cap: an amount above the limit is cut to it and the reason appended.\<close>

definition cap_at :: "real \<Rightarrow> cap_reason \<Rightarrow> real \<times> bool \<times> cap_reason list \<Rightarrow> real \<times> bool \<times> cap_reason list" where
  "cap_at limit why st =
     (case st of (amount, capped, rs) \<Rightarrow> if amount > limit then (limit, True, rs @ [why]) else st)"

definition is_active :: "recovery_input \<Rightarrow> bool" where
  "is_active m = (case m of RecoveryFlag b \<Rightarrow> b | RecoveryDict act _ \<Rightarrow> act)"

definition apply_risk_caps ::
  "size_config \<Rightarrow> real \<Rightarrow> real \<Rightarrow> budget_input \<Rightarrow> recovery_input \<Rightarrow> real \<times> bool \<times> cap_reason list" where
  "apply_risk_caps cfg amount capital rb rec =
     (let st0 = (max 0 amount, False, []);
          st1 = cap_at (capital * max_capital_allocation_pct cfg) MaxCapitalAllocation st0;
          st2 = cap_at (capital * daily_risk_cap_pct cfg) DailyRiskCap st1;
          st3 = (case rb of
                   BudgetDict d \<Rightarrow> (case bd_remaining_risk_amount d of
                       Some a \<Rightarrow> cap_at (max 0 a) RemainingRisk st2 | None \<Rightarrow> st2)
                 | BudgetNumber _ \<Rightarrow> st2);
          st4 = (case rb of
                   BudgetDict d \<Rightarrow> (case bd_daily_risk_budget_amount d of
                       Some a \<Rightarrow> (let limit = max 0 (a * max_symbol_daily_risk_pct cfg)
                                  in if limit > 0 then cap_at limit SymbolDailyRisk st3 else st3)
                     | None \<Rightarrow> st3)
                 | BudgetNumber _ \<Rightarrow> st3)
      in if is_active rec then cap_at (capital * recovery_mode_cap_pct cfg) RecoveryCap st4 else st4)"

section \<open>Grades\<close>

datatype grade = REJECT | Grade_C | Grade_B | Grade_A | Grade_A_plus

fun grade_rank :: "grade \<Rightarrow> nat" where
  "grade_rank REJECT = 0"
| "grade_rank Grade_C = 1"
| "grade_rank Grade_B = 2"
| "grade_rank Grade_A = 3"
| "grade_rank Grade_A_plus = 4"

instantiation grade :: linorder
begin

definition less_eq_grade :: "grade \<Rightarrow> grade \<Rightarrow> bool" where
  "less_eq_grade a b \<longleftrightarrow> grade_rank a \<le> grade_rank b"

definition less_grade :: "grade \<Rightarrow> grade \<Rightarrow> bool" where
  "less_grade a b \<longleftrightarrow> grade_rank a < grade_rank b"

instance
proof
  fix a b :: grade
  show "a \<le> b \<Longrightarrow> b \<le> a \<Longrightarrow> a = b"
    by (cases a; cases b) (simp_all add: less_eq_grade_def)
qed (auto simp: less_eq_grade_def less_grade_def)

end

definition allocation_grade :: "size_config \<Rightarrow> real \<Rightarrow> grade" where
  "allocation_grade cfg m =
     (if m \<ge> grade_A_plus cfg then Grade_A_plus
      else if m \<ge> grade_A cfg then Grade_A
      else if m \<ge> grade_B cfg then Grade_B
      else if m \<ge> grade_C cfg then Grade_C
      else REJECT)"

section \<open>The calculation\<close>

record size_inputs =
  in_capital :: real
  in_risk_budget :: budget_input
  in_weighted_score :: real
  in_confidence :: real
  in_market_quality :: quality_input
  in_regime :: string
  in_volatility :: volatility_input
  in_recovery_mode :: recovery_input
  in_daily_loss_state :: loss_input
  in_sl_points :: real
  in_lot_size :: int

record size_result =
  risk_budget_used :: real
  risk_amount :: real
  position_size :: int
  lots :: int
  sr_grade :: grade
  capped :: bool
  cap_reasons :: "cap_reason list"
  soft_allocation_multiplier :: real
  requested_risk_amount :: real
  actual_risk_amount :: real

definition empty_result :: size_result where
  "empty_result = \<lparr>risk_budget_used = 0, risk_amount = 0, position_size = 0, lots = 0,
     sr_grade = REJECT, capped = True, cap_reasons = [InvalidInput], soft_allocation_multiplier = 0,
     requested_risk_amount = 0, actual_risk_amount = 0\<rparr>"

definition factors_of :: "size_config \<Rightarrow> size_inputs \<Rightarrow> factors" where
  "factors_of cfg i =
     \<lparr>f_score = py_round 4 (score_multiplier cfg (in_weighted_score i)),
      f_confidence = py_round 4 (confidence_multiplier cfg (in_confidence i)),
      f_market_quality = py_round 4 (market_quality_multiplier cfg (in_market_quality i)),
      f_regime = py_round 4 (regime_multiplier cfg (in_regime i)),
      f_volatility = py_round 4 (volatility_multiplier cfg (in_volatility i)),
      f_recovery = py_round 4 (recovery_multiplier cfg (in_recovery_mode i)),
      f_daily_loss = py_round 4 (daily_loss_multiplier cfg (in_daily_loss_state i))\<rparr>"

definition adjusted_multiplier :: "size_config \<Rightarrow> size_inputs \<Rightarrow> real" where
  "adjusted_multiplier cfg i =
     apply_final_clamp cfg (soft_adjustment_multiplier cfg (factors_of cfg i)
                            * legacy_size_multiplier (in_risk_budget i))"

text \<open>
  The lots of a capped amount: whole lots, then the rescue of a near miss, the floor of one lot and
  the ceiling of \<open>max_lots\<close>.  \<open>hard\<close> is the budget with the soft multiplier removed.
\<close>

definition size_lots ::
  "size_config \<Rightarrow> real \<Rightarrow> real \<Rightarrow> real \<times> bool \<times> cap_reason list \<Rightarrow> int \<times> bool \<times> cap_reason list" where
  "size_lots cfg lot_risk hard st =
     (case st of (amount, cap, rs) \<Rightarrow>
        let l0 = (if lot_risk > 0 then \<lfloor>amount / lot_risk\<rfloor> else 0);
            tol = min_lot_rounding_tolerance_pct cfg;
            (l1, rs1) = (if l0 = 0 \<and> lot_risk > 0 \<and> tol > 0 \<and> \<not> cap \<and> amount \<ge> lot_risk * (1 - tol)
                         then (1, rs @ [RoundedUpMinLot]) else (l0, rs));
            (l2, rs2) = (if l1 = 0 \<and> lot_risk > 0 \<and> min_lot_floor_enabled cfg
                         then if hard \<ge> lot_risk then (1, rs1 @ [FlooredToMinLot])
                              else (l1, rs1 @ [HardBudgetBelowOneLot])
                         else (l1, rs1))
        in if l2 > max_lots cfg then (max_lots cfg, True, rs2 @ [MaxLots]) else (l2, cap, rs2))"

definition calculate :: "size_config \<Rightarrow> size_inputs \<Rightarrow> size_result" where
  "calculate cfg i =
     (let capital = max 0 (in_capital i)
      in if capital \<le> 0 \<or> in_lot_size i \<le> 0 \<or> in_sl_points i \<le> 0 then empty_result
         else
           let base = resolve_base_risk_amount cfg capital (in_risk_budget i);
               m = adjusted_multiplier cfg i;
               caps = (\<lambda>a. apply_risk_caps cfg a capital (in_risk_budget i) (in_recovery_mode i));
               st = caps (base * m);
               lot_risk = in_sl_points i * of_int (in_lot_size i);
               (l, cap, rs) = size_lots cfg lot_risk (fst (caps base)) st;
               size = l * in_lot_size i;
               small = 0 < size \<and> size < min_executable_quantity cfg;
               l' = (if small then 0 else l);
               actual = of_int l' * lot_risk
           in \<lparr>risk_budget_used = py_round 4 (if base > 0 then actual / base else 0),
               risk_amount = py_round 2 actual,
               position_size = (if small then 0 else size),
               lots = l',
               sr_grade = allocation_grade cfg m,
               capped = (if small then True else cap),
               cap_reasons = (if small then rs @ [BelowMinQuantity] else rs),
               soft_allocation_multiplier = py_round 4 m,
               requested_risk_amount = py_round 2 (fst st),
               actual_risk_amount = py_round 2 actual\<rparr>)"

section \<open>Well-formed configurations\<close>

definition wf_range :: "clamp_range \<Rightarrow> bool" where
  "wf_range r \<longleftrightarrow> minimum r \<le> maximum r"

definition wf_size_config :: "size_config \<Rightarrow> bool" where
  "wf_size_config cfg \<longleftrightarrow> wf_range (final_allocation_clamp cfg) \<and> 0 < minimum (final_allocation_clamp cfg)
     \<and> 0 \<le> max_capital_allocation_pct cfg \<and> 0 \<le> daily_risk_cap_pct cfg \<and> 0 \<le> recovery_mode_cap_pct cfg
     \<and> 0 \<le> max_lots cfg \<and> 0 \<le> min_lot_rounding_tolerance_pct cfg \<and> min_lot_rounding_tolerance_pct cfg < 1"

lemma wf_DEFAULT_CONFIG [simp]: "wf_size_config DEFAULT_CONFIG"
  by (simp add: wf_size_config_def DEFAULT_CONFIG_def wf_range_def range_of_def)

lemma apply_range_bounds [range_intros]:
  "minimum r \<le> apply_range r v" "wf_range r \<Longrightarrow> apply_range r v \<le> maximum r"
  by (simp_all add: apply_range_def wf_range_def range_intros)

lemma apply_range_mono: "x \<le> y \<Longrightarrow> apply_range r x \<le> apply_range r y"
  by (simp add: apply_range_def clamp_mono)

lemma linear_scale_range [range_intros]:
  "wf_range r \<Longrightarrow> minimum r \<le> linear_scale v a b r \<and> linear_scale v a b r \<le> maximum r"
  by (auto simp: linear_scale_def wf_range_def[symmetric] intro: range_intros)

lemma linear_scale_mono:
  assumes "x \<le> y" "wf_range r" shows "linear_scale x a b r \<le> linear_scale y a b r"
  using assms unfolding linear_scale_def wf_range_def
  by (auto intro!: apply_range_mono mult_left_mono divide_right_mono)

lemma adjusted_multiplier_range:
  "wf_size_config cfg \<Longrightarrow> minimum (final_allocation_clamp cfg) \<le> adjusted_multiplier cfg i
     \<and> adjusted_multiplier cfg i \<le> maximum (final_allocation_clamp cfg)"
  by (simp add: adjusted_multiplier_def apply_final_clamp_def range_intros wf_size_config_def)

section \<open>The caps hold\<close>

lemma cap_at_facts:
  assumes "cap_at limit why (a, c, rs) = (a', c', rs')"
  shows "a' \<le> limit" "a' \<le> a" "0 \<le> a \<Longrightarrow> 0 \<le> limit \<Longrightarrow> 0 \<le> a'" "\<not> c' \<Longrightarrow> \<not> c \<and> a' = a"
    "set rs' \<subseteq> insert why (set rs)"
  using assms by (auto simp: cap_at_def split: if_splits)

text \<open>The hard limits an amount has to respect for the given inputs.\<close>

definition risk_limits :: "size_config \<Rightarrow> real \<Rightarrow> budget_input \<Rightarrow> recovery_input \<Rightarrow> real list" where
  "risk_limits cfg capital rb rec =
     [capital * max_capital_allocation_pct cfg, capital * daily_risk_cap_pct cfg]
     @ (case rb of BudgetDict d \<Rightarrow> (case bd_remaining_risk_amount d of Some a \<Rightarrow> [max 0 a] | None \<Rightarrow> [])
        | BudgetNumber _ \<Rightarrow> [])
     @ (case rb of BudgetDict d \<Rightarrow> (case bd_daily_risk_budget_amount d of
            Some a \<Rightarrow> if 0 < a * max_symbol_daily_risk_pct cfg then [a * max_symbol_daily_risk_pct cfg] else [] | None \<Rightarrow> [])
        | BudgetNumber _ \<Rightarrow> [])
     @ (if is_active rec then [capital * recovery_mode_cap_pct cfg] else [])"

text \<open>A chain of caps from the left: each step can only lower the amount.\<close>

definition capped_by :: "real list \<Rightarrow> real \<times> bool \<times> cap_reason list \<Rightarrow> bool" where
  "capped_by ls st \<longleftrightarrow> (\<forall>l\<in>set ls. fst st \<le> l) \<and> 0 \<le> fst st \<and> RoundedUpMinLot \<notin> set (snd (snd st))"

lemma capped_by_cap_at:
  assumes "capped_by ls st" "0 \<le> limit" "why \<noteq> RoundedUpMinLot"
  shows "capped_by (ls @ [limit]) (cap_at limit why st)"
proof -
  obtain a c rs where st: "st = (a, c, rs)" by (cases st)
  obtain a' c' rs' where st': "cap_at limit why st = (a', c', rs')" by (cases "cap_at limit why st")
  note f = cap_at_facts[OF st'[unfolded st]]
  with assms st have "0 \<le> a'" "\<forall>l\<in>set ls. a' \<le> l" "a' \<le> limit" "RoundedUpMinLot \<notin> set rs'"
    by (auto simp: capped_by_def intro: order_trans)
  then show ?thesis by (simp add: capped_by_def st')
qed

lemma apply_risk_caps_capped:
  assumes "wf_size_config cfg" "0 \<le> capital"
  shows "capped_by (risk_limits cfg capital rb rec) (apply_risk_caps cfg amount capital rb rec)"
proof -
  have pos: "0 \<le> capital * max_capital_allocation_pct cfg" "0 \<le> capital * daily_risk_cap_pct cfg"
    "0 \<le> capital * recovery_mode_cap_pct cfg"
    using assms by (simp_all add: wf_size_config_def)
  define ls0 where "ls0 = [capital * max_capital_allocation_pct cfg, capital * daily_risk_cap_pct cfg]"
  define st2 where "st2 = cap_at (capital * daily_risk_cap_pct cfg) DailyRiskCap
    (cap_at (capital * max_capital_allocation_pct cfg) MaxCapitalAllocation (max 0 amount, False, []))"
  define rem where "rem = (case rb of BudgetDict d \<Rightarrow> (case bd_remaining_risk_amount d of Some a \<Rightarrow> [max 0 a] | None \<Rightarrow> [])
        | BudgetNumber _ \<Rightarrow> [])"
  define st3 where "st3 = (case rb of
       BudgetDict d \<Rightarrow> (case bd_remaining_risk_amount d of
           Some a \<Rightarrow> cap_at (max 0 a) RemainingRisk st2 | None \<Rightarrow> st2)
     | BudgetNumber _ \<Rightarrow> st2)"
  define sym where "sym = (case rb of BudgetDict d \<Rightarrow> (case bd_daily_risk_budget_amount d of
            Some a \<Rightarrow> if 0 < a * max_symbol_daily_risk_pct cfg then [a * max_symbol_daily_risk_pct cfg] else [] | None \<Rightarrow> [])
        | BudgetNumber _ \<Rightarrow> [])"
  define st4 where "st4 = (case rb of
       BudgetDict d \<Rightarrow> (case bd_daily_risk_budget_amount d of
           Some a \<Rightarrow> (let limit = max 0 (a * max_symbol_daily_risk_pct cfg)
                      in if limit > 0 then cap_at limit SymbolDailyRisk st3 else st3)
         | None \<Rightarrow> st3)
     | BudgetNumber _ \<Rightarrow> st3)"
  have 2: "capped_by ls0 st2"
    unfolding st2_def ls0_def
    using capped_by_cap_at[OF capped_by_cap_at[of "[]", OF _ pos(1)] pos(2)] by (simp add: capped_by_def)
  then have 3: "capped_by (ls0 @ rem) st3"
    unfolding st3_def rem_def by (auto split: budget_input.splits option.splits intro: capped_by_cap_at)
  have 4: "capped_by (ls0 @ rem @ sym) st4"
    unfolding st4_def sym_def Let_def append_assoc[symmetric]
    using 3 by (auto simp del: append_assoc split: budget_input.split option.split intro: capped_by_cap_at)
  have out: "apply_risk_caps cfg amount capital rb rec
      = (if is_active rec then cap_at (capital * recovery_mode_cap_pct cfg) RecoveryCap st4 else st4)"
    unfolding apply_risk_caps_def st4_def st3_def st2_def by (simp add: Let_def)
  have lim: "risk_limits cfg capital rb rec
      = (ls0 @ rem @ sym) @ (if is_active rec then [capital * recovery_mode_cap_pct cfg] else [])"
    by (simp add: risk_limits_def ls0_def rem_def sym_def)
  show ?thesis
    unfolding out lim using 4 capped_by_cap_at[OF 4 pos(3)] by auto
qed

lemma whole_lots_le: "0 < r \<Longrightarrow> of_int \<lfloor>a / r\<rfloor> * r \<le> (a::real)"
  by (simp flip: pos_le_divide_eq)

lemma size_lots_bounds:
  assumes "size_lots cfg r hard (a, c, rs) = (l, c', rs')"
    and "wf_size_config cfg" "0 < r" "0 \<le> a" "a \<le> L" "hard \<le> L" "RoundedUpMinLot \<notin> set rs"
  shows "0 \<le> l" "l \<le> max_lots cfg"
    and "(1 - min_lot_rounding_tolerance_pct cfg) * (of_int l * r) \<le> L"
    and "RoundedUpMinLot \<notin> set rs' \<Longrightarrow> of_int l * r \<le> L"
proof -
  let ?tol = "min_lot_rounding_tolerance_pct cfg" and ?l0 = "\<lfloor>a / r\<rfloor>"
  have tol: "0 \<le> ?tol" "?tol < 1" "0 \<le> max_lots cfg" using assms(2) by (simp_all add: wf_size_config_def)
  have l0: "0 \<le> ?l0" using assms by simp
  have whole: "of_int ?l0 * r \<le> L" using whole_lots_le[OF assms(3), of a] assms(5) by linarith
  have near: "r * (1 - ?tol) \<le> a \<Longrightarrow> r * (1 - ?tol) \<le> L" using assms(5) by linarith
  have small: "of_int m * r \<le> of_int n * r" if "m \<le> n" for m n :: int
    using that assms(3) by simp
  obtain l1 where l1: "l = min l1 (max_lots cfg)" "0 \<le> l1"
    and B: "(1 - ?tol) * (of_int l1 * r) \<le> L" "RoundedUpMinLot \<notin> set rs' \<Longrightarrow> of_int l1 * r \<le> L"
  proof -
    have shrink: "(1 - ?tol) * x \<le> L" if "x \<le> L" "0 \<le> x" for x
      using that tol mult_right_mono[of "1 - ?tol" 1 x] by simp
    have cases: "(l1 = ?l0 \<and> of_int l1 * r \<le> L) \<or> (l1 = 1 \<and> r \<le> hard)
        \<or> (l1 = 1 \<and> r * (1 - ?tol) \<le> a \<and> RoundedUpMinLot \<in> set rs')"
      if "l1 = (if ?l0 = 0 \<and> 0 < ?tol \<and> \<not> c \<and> r * (1 - ?tol) \<le> a then 1
                else if ?l0 = 0 \<and> min_lot_floor_enabled cfg \<and> r \<le> hard then 1 else ?l0)" for l1
      using that assms(1,3) whole by (auto simp: size_lots_def Let_def split: if_splits)
    let ?l1 = "if ?l0 = 0 \<and> 0 < ?tol \<and> \<not> c \<and> r * (1 - ?tol) \<le> a then 1
                else if ?l0 = 0 \<and> min_lot_floor_enabled cfg \<and> r \<le> hard then 1 else ?l0"
    have "l = min ?l1 (max_lots cfg)"
      using assms(1,3) by (auto simp: size_lots_def Let_def min_def split: if_splits)
    moreover have "0 \<le> ?l1" using l0 by simp
    moreover have "(1 - ?tol) * (of_int ?l1 * r) \<le> L" "RoundedUpMinLot \<notin> set rs' \<Longrightarrow> of_int ?l1 * r \<le> L"
      using cases[OF refl] shrink[of "of_int ?l0 * r"] shrink[of r] whole near l0 assms(3,6)
      by (auto simp: mult.commute)
    ultimately show thesis by (rule that)
  qed
  show "0 \<le> l" "l \<le> max_lots cfg" using l1 tol by simp_all
  have le: "of_int l * r \<le> of_int l1 * r" by (rule small) (simp add: l1)
  then have "(1 - ?tol) * (of_int l * r) \<le> (1 - ?tol) * (of_int l1 * r)"
    using tol by (intro mult_left_mono) simp_all
  with B(1) show "(1 - ?tol) * (of_int l * r) \<le> L" by linarith
  show "of_int l * r \<le> L" if "RoundedUpMinLot \<notin> set rs'" using le B(2)[OF that] by linarith
qed

section \<open>The result of a calculation\<close>

definition lot_risk_of :: "size_inputs \<Rightarrow> real" where
  "lot_risk_of i = in_sl_points i * of_int (in_lot_size i)"

lemma risk_limits_nonneg:
  "wf_size_config cfg \<Longrightarrow> 0 \<le> capital \<Longrightarrow> L \<in> set (risk_limits cfg capital rb rec) \<Longrightarrow> 0 \<le> L"
  by (auto simp: risk_limits_def wf_size_config_def split: budget_input.splits option.splits if_splits)

lemma calculate_valid:
  assumes "0 < in_capital i" "0 < in_lot_size i" "0 < in_sl_points i"
  obtains l cap rs where
    "size_lots cfg (lot_risk_of i)
       (fst (apply_risk_caps cfg (resolve_base_risk_amount cfg (in_capital i) (in_risk_budget i))
               (in_capital i) (in_risk_budget i) (in_recovery_mode i)))
       (apply_risk_caps cfg (resolve_base_risk_amount cfg (in_capital i) (in_risk_budget i) * adjusted_multiplier cfg i)
               (in_capital i) (in_risk_budget i) (in_recovery_mode i)) = (l, cap, rs)"
    and "let small = 0 < l * in_lot_size i \<and> l * in_lot_size i < min_executable_quantity cfg
         in lots (calculate cfg i) = (if small then 0 else l)
            \<and> position_size (calculate cfg i) = (if small then 0 else l * in_lot_size i)
            \<and> cap_reasons (calculate cfg i) = (if small then rs @ [BelowMinQuantity] else rs)
            \<and> sr_grade (calculate cfg i) = allocation_grade cfg (adjusted_multiplier cfg i)"
proof -
  let ?caps = "\<lambda>a. apply_risk_caps cfg a (in_capital i) (in_risk_budget i) (in_recovery_mode i)"
  let ?base = "resolve_base_risk_amount cfg (in_capital i) (in_risk_budget i)"
  have m: "max 0 (in_capital i) = in_capital i" using assms by simp
  obtain l cap rs where sl: "size_lots cfg (lot_risk_of i) (fst (?caps ?base))
      (?caps (?base * adjusted_multiplier cfg i)) = (l, cap, rs)" by (rule prod_cases3)
  show thesis
    by (rule that[OF sl]) (use assms m sl in \<open>simp add: calculate_def Let_def lot_risk_of_def\<close>)
qed

lemma calculate_invalid:
  "\<not> (0 < in_capital i \<and> 0 < in_lot_size i \<and> 0 < in_sl_points i) \<Longrightarrow> calculate cfg i = empty_result"
  by (auto simp: calculate_def Let_def max_def)

text \<open>C5: Whatever the scores say, the result is between no lot and the configured maximum, is whole lots,
  is never below the minimum executable quantity, and what the stop can lose stays within every
  hard limit - capital allocation, daily cap, remaining risk, the symbol's share of the daily budget,
  recovery cap - except that the
  near-miss rescue may exceed a limit by its tolerance.\<close>

theorem position_within_limits:
  assumes "wf_size_config cfg" "r = calculate cfg i" "0 < min_executable_quantity cfg"
  shows "0 \<le> lots r \<and> lots r \<le> max_lots cfg \<and> position_size r = lots r * in_lot_size i
    \<and> (position_size r = 0 \<or> min_executable_quantity cfg \<le> position_size r)
    \<and> (\<forall>L\<in>set (risk_limits cfg (max 0 (in_capital i)) (in_risk_budget i) (in_recovery_mode i)).
         (1 - min_lot_rounding_tolerance_pct cfg) * (of_int (lots r) * lot_risk_of i) \<le> L
         \<and> (RoundedUpMinLot \<notin> set (cap_reasons r) \<longrightarrow> of_int (lots r) * lot_risk_of i \<le> L))"
proof (cases "0 < in_capital i \<and> 0 < in_lot_size i \<and> 0 < in_sl_points i")
  case False
  with assms have "r = empty_result" "0 \<le> max_lots cfg" by (simp_all add: calculate_invalid wf_size_config_def)
  then show ?thesis using risk_limits_nonneg[OF assms(1), of "max 0 (in_capital i)"]
    by (simp add: empty_result_def)
next
  case True
  then have valid: "0 < in_capital i" "0 < in_lot_size i" "0 < in_sl_points i" by simp_all
  have lr: "0 < lot_risk_of i" using valid by (simp add: lot_risk_of_def)
  let ?caps = "\<lambda>a. apply_risk_caps cfg a (in_capital i) (in_risk_budget i) (in_recovery_mode i)"
  let ?base = "resolve_base_risk_amount cfg (in_capital i) (in_risk_budget i)"
  let ?limits = "risk_limits cfg (in_capital i) (in_risk_budget i) (in_recovery_mode i)"
  obtain l cap rs where sl: "size_lots cfg (lot_risk_of i) (fst (?caps ?base))
       (?caps (?base * adjusted_multiplier cfg i)) = (l, cap, rs)"
    and out: "let small = 0 < l * in_lot_size i \<and> l * in_lot_size i < min_executable_quantity cfg
         in lots (calculate cfg i) = (if small then 0 else l)
            \<and> position_size (calculate cfg i) = (if small then 0 else l * in_lot_size i)
            \<and> cap_reasons (calculate cfg i) = (if small then rs @ [BelowMinQuantity] else rs)
            \<and> sr_grade (calculate cfg i) = allocation_grade cfg (adjusted_multiplier cfg i)"
    by (rule calculate_valid[OF valid])
  obtain a c rs0 where st: "?caps (?base * adjusted_multiplier cfg i) = (a, c, rs0)"
    by (cases "?caps (?base * adjusted_multiplier cfg i)")
  have capped: "capped_by ?limits (?caps x)" for x
    using apply_risk_caps_capped[OF assms(1)] valid by simp
  from capped[of "?base * adjusted_multiplier cfg i"] st
  have a: "0 \<le> a" "\<forall>L\<in>set ?limits. a \<le> L" "RoundedUpMinLot \<notin> set rs0" by (simp_all add: capped_by_def)
  from capped[of ?base] have hard: "\<forall>L\<in>set ?limits. fst (?caps ?base) \<le> L" by (simp add: capped_by_def)
  note bounds = size_lots_bounds[OF sl[unfolded st] assms(1) lr a(1)]
  have some: "capital_limit \<in> set ?limits" if "capital_limit = in_capital i * max_capital_allocation_pct cfg"
    for capital_limit using that by (simp add: risk_limits_def)
  have l: "0 \<le> l" "l \<le> max_lots cfg"
    using bounds(1,2)[of "in_capital i * max_capital_allocation_pct cfg"] a hard some by blast+
  have risk: "(1 - min_lot_rounding_tolerance_pct cfg) * (of_int l * lot_risk_of i) \<le> L
      \<and> (RoundedUpMinLot \<notin> set rs \<longrightarrow> of_int l * lot_risk_of i \<le> L)" if "L \<in> set ?limits" for L
    using bounds(3,4)[of L] a hard that by blast
  have pos: "0 \<le> L" if "L \<in> set ?limits" for L
    using risk_limits_nonneg[OF assms(1)] valid that by (meson less_imp_le)
  have m: "max 0 (in_capital i) = in_capital i" using valid by simp
  show ?thesis
  proof (cases "0 < l * in_lot_size i \<and> l * in_lot_size i < min_executable_quantity cfg")
    case True
    with out assms(2) have "lots r = 0" "position_size r = 0" by (simp_all add: Let_def)
    then show ?thesis using pos m assms(1) by (simp add: wf_size_config_def)
  next
    case False
    with out assms(2) have r: "lots r = l" "position_size r = l * in_lot_size i" "cap_reasons r = rs"
      by (simp_all add: Let_def)
    have "0 < l * in_lot_size i \<or> l = 0" using l valid by (cases "l = 0") simp_all
    with False have "position_size r = 0 \<or> min_executable_quantity cfg \<le> position_size r" using r by auto
    with r l risk m show ?thesis by simp
  qed
qed

text \<open>A day with Rs510 left, a stop of 8 points on a 65-share lot, every score at its best.\<close>

definition near_miss :: "real \<Rightarrow> real \<Rightarrow> size_inputs" where
  "near_miss sc conf = \<lparr>in_capital = 30000,
     in_risk_budget = BudgetDict \<lparr>bd_remaining_risk_amount = Some 510, bd_remaining_risk_pct = Some (17/1000),
       bd_daily_risk_budget_pct = Some (1/10), bd_daily_risk_budget_amount = Some 3000,
       bd_legacy_size_multiplier = Some 1\<rparr>,
     in_weighted_score = sc, in_confidence = conf,
     in_market_quality = QualityDict (Some 100) None, in_regime = ''BULLISH'',
     in_volatility = VolDict (Some 10) None, in_recovery_mode = RecoveryDict False None,
     in_daily_loss_state = LossDict (Some 0), in_sl_points = 8, in_lot_size = 65\<rparr>"

lemmas near_miss_eval =
  near_miss_def DEFAULT_CONFIG_def range_of_def resolve_base_risk_amount_def adjusted_multiplier_def
  factors_of_def score_multiplier_def confidence_multiplier_def market_quality_multiplier_def
  regime_multiplier_def volatility_multiplier_def recovery_multiplier_def daily_loss_multiplier_def
  legacy_size_multiplier_def soft_adjustment_multiplier_def apply_final_clamp_def linear_scale_def
  apply_range_def clamp_def py_upper_def char_upper_def py_round_def round_half_even_def

lemma near_miss_multiplier:
  "adjusted_multiplier DEFAULT_CONFIG (near_miss 20 20) = 9712/10000"
  "adjusted_multiplier DEFAULT_CONFIG (near_miss 100 100) = 10576/10000"
  by (simp_all add: near_miss_eval Let_def)

text \<open>The rescue of a near miss is not bounded by the budget and punishes better signals.  With Rs510
  of risk left and a lot that risks Rs520, mediocre scores leave the amount uncapped, so the lot is
  rounded up and risks more than what is left; perfect scores push the amount over the budget, the
  cap disables the rescue, and nothing is traded.\<close>

theorem rescue_exceeds_budget_and_inverts:
  "lots (calculate DEFAULT_CONFIG (near_miss 20 20)) = 1
   \<and> 510 < of_int (lots (calculate DEFAULT_CONFIG (near_miss 20 20))) * lot_risk_of (near_miss 20 20)
   \<and> lots (calculate DEFAULT_CONFIG (near_miss 100 100)) = 0
   \<and> sr_grade (calculate DEFAULT_CONFIG (near_miss 20 20))
       < sr_grade (calculate DEFAULT_CONFIG (near_miss 100 100))"
proof -
  have a: "calculate DEFAULT_CONFIG (near_miss 20 20) = r \<Longrightarrow> lots r = 1 \<and> sr_grade r = Grade_A" for r
    unfolding calculate_def near_miss_multiplier
    by (auto simp: near_miss_def DEFAULT_CONFIG_def range_of_def resolve_base_risk_amount_def
        apply_risk_caps_def cap_at_def is_active_def size_lots_def allocation_grade_def Let_def)
  have b: "calculate DEFAULT_CONFIG (near_miss 100 100) = r \<Longrightarrow> lots r = 0 \<and> sr_grade r = Grade_A_plus" for r
    unfolding calculate_def near_miss_multiplier
    by (auto simp: near_miss_def DEFAULT_CONFIG_def range_of_def resolve_base_risk_amount_def
        apply_risk_caps_def cap_at_def is_active_def size_lots_def allocation_grade_def Let_def)
  show ?thesis using a[OF refl] b[OF refl] by (simp add: lot_risk_of_def near_miss_def less_grade_def)
qed

theorem position_within_limits_witness:
  "0 \<le> lots (calculate DEFAULT_CONFIG (near_miss 60 70)) \<and> lots (calculate DEFAULT_CONFIG (near_miss 60 70)) \<le> 8"
  using position_within_limits[OF wf_DEFAULT_CONFIG refl, of "near_miss 60 70"]
  by (simp add: DEFAULT_CONFIG_def)

text \<open>The multiplier is monotone in the two signal scores, and so is the grade.\<close>

lemma allocation_grade_mono:
  assumes "grade_C cfg \<le> grade_B cfg" "grade_B cfg \<le> grade_A cfg" "grade_A cfg \<le> grade_A_plus cfg" "x \<le> y"
  shows "allocation_grade cfg x \<le> allocation_grade cfg y"
  using assms by (auto simp: allocation_grade_def less_eq_grade_def)

definition wf_scoring :: "size_config \<Rightarrow> bool" where
  "wf_scoring cfg \<longleftrightarrow> wf_range (range_score cfg) \<and> wf_range (range_confidence cfg)
     \<and> 0 \<le> w_score (weights cfg) \<and> 0 \<le> w_confidence (weights cfg)
     \<and> grade_C cfg \<le> grade_B cfg \<and> grade_B cfg \<le> grade_A cfg \<and> grade_A cfg \<le> grade_A_plus cfg"

lemma adjusted_multiplier_mono:
  assumes "wf_scoring cfg"
    and "j = i\<lparr>in_weighted_score := sc, in_confidence := conf\<rparr>"
    and "in_weighted_score i \<le> sc" "in_confidence i \<le> conf"
  shows "adjusted_multiplier cfg i \<le> adjusted_multiplier cfg j"
proof -
  have s: "f_score (factors_of cfg i) \<le> f_score (factors_of cfg j)"
    "f_confidence (factors_of cfg i) \<le> f_confidence (factors_of cfg j)"
    using assms unfolding factors_of_def score_multiplier_def confidence_multiplier_def wf_scoring_def
    by (auto intro!: py_round_mono linear_scale_mono)
  have same: "f_market_quality (factors_of cfg j) = f_market_quality (factors_of cfg i)"
    "f_regime (factors_of cfg j) = f_regime (factors_of cfg i)"
    "f_volatility (factors_of cfg j) = f_volatility (factors_of cfg i)"
    "f_recovery (factors_of cfg j) = f_recovery (factors_of cfg i)"
    "f_daily_loss (factors_of cfg j) = f_daily_loss (factors_of cfg i)"
    "in_risk_budget j = in_risk_budget i"
    using assms(2) by (simp_all add: factors_of_def)
  have legacy: "0 \<le> legacy_size_multiplier (in_risk_budget i)"
    by (auto simp: legacy_size_multiplier_def clamp_def Let_def split: budget_input.splits)
  have "soft_adjustment_multiplier cfg (factors_of cfg i) \<le> soft_adjustment_multiplier cfg (factors_of cfg j)"
  proof -
    have "(f_score (factors_of cfg i) - 1) * w_score (weights cfg)
        \<le> (f_score (factors_of cfg j) - 1) * w_score (weights cfg)"
      "(f_confidence (factors_of cfg i) - 1) * w_confidence (weights cfg)
        \<le> (f_confidence (factors_of cfg j) - 1) * w_confidence (weights cfg)"
      using s assms(1) by (auto simp: wf_scoring_def intro!: mult_right_mono)
    then show ?thesis
      unfolding soft_adjustment_multiplier_def apply_final_clamp_def Let_def same
      by (intro apply_range_mono) linarith
  qed
  with legacy show ?thesis
    unfolding adjusted_multiplier_def apply_final_clamp_def same
    by (intro apply_range_mono mult_right_mono)
qed

text \<open>A better signal never gets a worse grade: raising the weighted score and the confidence, all else
  equal, never lowers the allocation grade of a valid request.\<close>

lemma grade_monotone_in_scores:
  assumes "wf_scoring cfg"
    and "0 < in_capital i" "0 < in_lot_size i" "0 < in_sl_points i"
    and "in_weighted_score i \<le> sc" "in_confidence i \<le> conf"
  shows "sr_grade (calculate cfg i) \<le> sr_grade (calculate cfg (i\<lparr>in_weighted_score := sc, in_confidence := conf\<rparr>))"
proof -
  let ?j = "i\<lparr>in_weighted_score := sc, in_confidence := conf\<rparr>"
  have grade: "sr_grade (calculate cfg k) = allocation_grade cfg (adjusted_multiplier cfg k)"
    if "0 < in_capital k" "0 < in_lot_size k" "0 < in_sl_points k" for k
    by (rule calculate_valid[OF that, of cfg]) (simp add: Let_def)
  have "allocation_grade cfg (adjusted_multiplier cfg i) \<le> allocation_grade cfg (adjusted_multiplier cfg ?j)"
    using assms adjusted_multiplier_mono[OF assms(1) refl assms(5,6)]
    by (intro allocation_grade_mono) (simp_all add: wf_scoring_def)
  then show ?thesis using assms by (simp add: grade)
qed

end
