(* ===== verification/Exit_Engine.thy ===== *)
theory Exit_Engine
  imports Trade "HOL-Library.Product_Lexorder"
begin

text \<open>
  \<open>core/engines/exit_engine.py\<close>: the trailing stop ladder, the exit rules and their priority order.
  Each rule maps a trade to an optional exit reason and the trade it leaves behind (the source
  mutates the dictionary).  Reasons are constructors with the numbers of the message.  The guards
  \<open>if not trade\<close> are the callers' (they never pass an empty trade) and are not modelled; the greeks
  validation calls the broker and a pricing model, so its answer is a parameter.
\<close>

section \<open>Settings\<close>

datatype profit_mode = Rsi_Profit | Floor_Profit
datatype loss_mode = Static_Loss | Atr_Adaptive | Mfe_Aware

record exit_config =
  HARD_SL_POINTS :: real
  BREAKEVEN_TRIGGER :: real
  BREAKEVEN_BUFFER :: real
  TRAILING_ENABLED :: bool
  TSL_STEP_LEVELS :: "(real \<times> real) list"
  TP_POINTS_FIXED :: real
  MAX_LOSS_CE :: real
  MAX_LOSS_PE :: real
  EXIT_ONLY_SL_TP_TRAILING :: bool
  EARLY_LOSS_CUT_POINTS :: real
  EARLY_LOSS_CUT_TIME_SEC :: int
  EARLY_CUT_ATR_LOW :: real
  EARLY_CUT_ATR_HIGH :: real
  SOFT_LOSS_TIME_SEC :: int
  SOFT_LOSS_POINTS :: real
  RSI_OVERBOUGHT :: real
  RSI_OVERSOLD :: real
  RSI_EXIT_MIN_PROFIT :: real
  RSI_REVERSAL_MIN_PROFIT :: real
  RSI_REVERSAL_CE_EXIT :: real
  RSI_REVERSAL_PE_EXIT :: real
  RSI_REVERSAL_CE_EXTREME :: real
  RSI_REVERSAL_PE_EXTREME :: real
  EXIT_PROFIT_MODE :: profit_mode
  EXIT_PROFIT_FLOOR :: real
  EXIT_LOSS_MODE :: loss_mode
  EXIT_ATR_MULT :: real
  EXIT_ATR_FLOOR :: real
  EXIT_ATR_CAP :: real
  EXIT_MFE_ARM :: real
  EXIT_MFE_TIGHT :: real
  EXIT_MFE_ROOM :: real
  MAX_HOLD_WINNING :: int
  MAX_HOLD_LOSING :: int
  THETA_KILL :: real
  GAMMA_NORMAL :: real
  GAMMA_EXPIRY :: real
  DELTA_KILL :: real

definition default_exit_config :: exit_config where
  "default_exit_config = \<lparr>HARD_SL_POINTS = 7, BREAKEVEN_TRIGGER = 4, BREAKEVEN_BUFFER = 2,
     TRAILING_ENABLED = True,
     TSL_STEP_LEVELS = [(8, 4), (12, 7), (16, 11), (20, 15), (25, 20), (30, 25), (40, 35), (50, 45)],
     TP_POINTS_FIXED = 14, MAX_LOSS_CE = 455, MAX_LOSS_PE = 455, EXIT_ONLY_SL_TP_TRAILING = False,
     EARLY_LOSS_CUT_POINTS = 7/2, EARLY_LOSS_CUT_TIME_SEC = 45, EARLY_CUT_ATR_LOW = 5/2,
     EARLY_CUT_ATR_HIGH = 9/2, SOFT_LOSS_TIME_SEC = 75, SOFT_LOSS_POINTS = 18/10,
     RSI_OVERBOUGHT = 80, RSI_OVERSOLD = 20, RSI_EXIT_MIN_PROFIT = 2, RSI_REVERSAL_MIN_PROFIT = 3/2,
     RSI_REVERSAL_CE_EXIT = 60, RSI_REVERSAL_PE_EXIT = 40, RSI_REVERSAL_CE_EXTREME = 75,
     RSI_REVERSAL_PE_EXTREME = 25, EXIT_PROFIT_MODE = Rsi_Profit, EXIT_PROFIT_FLOOR = 3/2,
     EXIT_LOSS_MODE = Static_Loss, EXIT_ATR_MULT = 3/4, EXIT_ATR_FLOOR = 3/2, EXIT_ATR_CAP = 6,
     EXIT_MFE_ARM = 1, EXIT_MFE_TIGHT = 3/2, EXIT_MFE_ROOM = 4, MAX_HOLD_WINNING = 900,
     MAX_HOLD_LOSING = 900, THETA_KILL = 3/10, GAMMA_NORMAL = 8/100, GAMMA_EXPIRY = 12/100,
     DELTA_KILL = 15/100\<rparr>"

definition max_loss_of :: "exit_config \<Rightarrow> trade \<Rightarrow> real" where
  "max_loss_of cfg t = (if direction t = CE then MAX_LOSS_CE cfg else MAX_LOSS_PE cfg)"

datatype exit_reason =
    TrailingProfit real real
  | BreakevenExit real
  | HardSlHit real real
  | TakeProfit real real
  | EarlyLossCut real real real
  | SoftLoss real real
  | ThetaKill real
  | GammaSpike real
  | DeltaKill real
  | ProfitFloor real
  | RsiExit real
  | RsiReversal real real
  | TimeExit bool
  | MarketClose

section \<open>The stop ladder\<close>

definition effective_levels :: "exit_config \<Rightarrow> (real \<times> real) list" where
  "effective_levels cfg =
     TSL_STEP_LEVELS cfg @ (if BREAKEVEN_TRIGGER cfg > 0 then [(BREAKEVEN_TRIGGER cfg, BREAKEVEN_BUFFER cfg)] else [])"

definition step_ladder :: "(real \<times> real) list \<Rightarrow> real \<Rightarrow> real \<Rightarrow> real" where
  "step_ladder levels max_profit start =
     foldl (\<lambda>sl (trigger, lock). if max_profit \<ge> trigger then max sl lock else sl) start (sort levels)"

definition get_step_trailing_sl :: "exit_config \<Rightarrow> trade \<Rightarrow> real \<Rightarrow> (real \<times> tsl_status) \<times> trade" where
  "get_step_trailing_sl cfg t diff =
     (let seen = get_or 0 (max_profit_points t);
          t1 = (if diff > seen then t\<lparr>max_profit_points := Some diff\<rparr> else t);
          max_profit = (if diff > seen then diff else seen);
          highest = get_or (- HARD_SL_POINTS cfg) (highest_sl t);
          base = - HARD_SL_POINTS cfg;
          (sl, status) =
            (if TRAILING_ENABLED cfg
             then let step = step_ladder (effective_levels cfg) max_profit base
                  in if step > base then (step, StepTSL step) else (base, HardSL)
             else (base, TrailingDisabled))
      in if sl > highest then ((sl, status), t1\<lparr>highest_sl := Some sl\<rparr>)
         else ((highest, if highest > 0 then Locked highest else status), t1))"

section \<open>The rules\<close>

text \<open>The bookkeeping at the top of \<open>check_hard_sl\<close>: result in points and rupees, excursions.\<close>

definition mark_to_market :: "trade \<Rightarrow> real \<Rightarrow> trade" where
  "mark_to_market t diff =
     (let pnl = diff * of_int (qty t);
          t1 = t\<lparr>price_diff := Some diff, current_pnl := Some pnl\<rparr>;
          t2 = (if pnl > get_or 0 (mfe_inr t1) then t1\<lparr>mfe_inr := Some pnl\<rparr> else t1)
      in if pnl < get_or 0 (mae_inr t2) then t2\<lparr>mae_inr := Some pnl\<rparr> else t2)"

definition check_hard_sl :: "exit_config \<Rightarrow> trade \<Rightarrow> tick \<Rightarrow> exit_reason option \<times> trade" where
  "check_hard_sl cfg t tk =
     (let price = ltp tk; diff = points_gained t price;
          ((sl, status), t1) = get_step_trailing_sl cfg (mark_to_market t diff) diff;
          t2 = t1\<lparr>current_tsl := Some sl, trade_tsl_status := Some status\<rparr>
      in if diff \<le> sl
         then if sl > 0 then (Some (TrailingProfit sl (sl * of_int (qty t))), t2)
              else if sl \<ge> 0 then (Some (BreakevenExit price), t2)
              else let loss = min \<bar>diff * of_int (qty t)\<bar> (max_loss_of cfg t)
                   in (Some (HardSlHit price loss), t2\<lparr>current_pnl := Some (- loss)\<rparr>)
         else if \<not> TRAILING_ENABLED cfg \<and> diff \<ge> TP_POINTS_FIXED cfg
         then (Some (TakeProfit diff (diff * of_int (qty t))), t2)
         else (None, t2))"

definition smart_rsi_exit :: "exit_config \<Rightarrow> trade \<Rightarrow> real option \<Rightarrow> exit_reason option" where
  "smart_rsi_exit cfg t rsi =
     (case rsi of None \<Rightarrow> None
      | Some r \<Rightarrow>
          if get_or 0 (price_diff t) < RSI_EXIT_MIN_PROFIT cfg then None
          else if direction t = CE \<and> r > RSI_OVERBOUGHT cfg then Some (RsiExit r)
          else if direction t = PE \<and> r < RSI_OVERSOLD cfg then Some (RsiExit r)
          else None)"

definition rsi_reversal_exit :: "exit_config \<Rightarrow> trade \<Rightarrow> real option \<Rightarrow> exit_reason option \<times> trade" where
  "rsi_reversal_exit cfg t rsi =
     (case rsi of None \<Rightarrow> (None, t)
      | Some r \<Rightarrow>
          let lo = get_or 100 (min_rsi_seen t); hi = get_or 0 (max_rsi_seen t);
              t1 = (if r < lo then t\<lparr>min_rsi_seen := Some r\<rparr> else t);
              lo' = (if r < lo then r else lo);
              t2 = (if r > hi then t1\<lparr>max_rsi_seen := Some r\<rparr> else t1);
              hi' = (if r > hi then r else hi);
              profit = (get_or 0 (price_diff t2) \<ge> RSI_REVERSAL_MIN_PROFIT cfg)
          in if direction t2 = PE \<and> lo' < RSI_REVERSAL_PE_EXTREME cfg \<and> r > RSI_REVERSAL_PE_EXIT cfg \<and> profit
             then (Some (RsiReversal lo' r), t2)
             else if direction t2 = CE \<and> hi' > RSI_REVERSAL_CE_EXTREME cfg \<and> r < RSI_REVERSAL_CE_EXIT cfg \<and> profit
             then (Some (RsiReversal hi' r), t2)
             else (None, t2))"

definition early_cut_threshold :: "exit_config \<Rightarrow> trade \<Rightarrow> tick \<Rightarrow> real" where
  "early_cut_threshold cfg t tk =
     (let atr = (case tick_atr tk of Some a \<Rightarrow> a | None \<Rightarrow> get_or 0 (trade_atr t))
      in if EXIT_LOSS_MODE cfg = Atr_Adaptive \<and> atr > 0
         then min (EXIT_ATR_CAP cfg) (max (EXIT_ATR_FLOOR cfg) (EXIT_ATR_MULT cfg * atr))
         else if EXIT_LOSS_MODE cfg = Mfe_Aware
         then let mfe_pts = (if qty t = 0 then 0 else get_or 0 (mfe_inr t) / of_int (qty t))
              in if mfe_pts \<ge> EXIT_MFE_ARM cfg then EXIT_MFE_ROOM cfg else EXIT_MFE_TIGHT cfg
         else if atr > 6 then EARLY_CUT_ATR_HIGH cfg
         else if atr < 3 then EARLY_CUT_ATR_LOW cfg
         else EARLY_LOSS_CUT_POINTS cfg)"

definition profit_floor_exit :: "exit_config \<Rightarrow> trade \<Rightarrow> exit_reason option" where
  "profit_floor_exit cfg t =
     (if EXIT_PROFIT_MODE cfg \<noteq> Floor_Profit then None
      else if get_or 0 (price_diff t) < EXIT_PROFIT_FLOOR cfg then None
      else Some (ProfitFloor (get_or 0 (price_diff t))))"

definition hold_time :: "instant \<Rightarrow> trade \<Rightarrow> real" where
  "hold_time now t = total_seconds (now - entry_time t)"

definition early_momentum_loss_cut ::
  "exit_config \<Rightarrow> instant \<Rightarrow> trade \<Rightarrow> tick \<Rightarrow> exit_reason option \<times> trade" where
  "early_momentum_loss_cut cfg now t tk =
     (let diff = get_or 0 (price_diff t); cut = early_cut_threshold cfg t tk
      in if hold_time now t > of_int (EARLY_LOSS_CUT_TIME_SEC cfg) then (None, t)
         else if diff \<le> - cut
         then let loss = min \<bar>diff * of_int (qty t)\<bar> (max_loss_of cfg t)
              in (Some (EarlyLossCut diff cut loss),
                  t\<lparr>current_pnl := Some (- loss), early_cut_applied := True\<rparr>)
         else (None, t))"

definition soft_loss_time_exit :: "exit_config \<Rightarrow> instant \<Rightarrow> trade \<Rightarrow> exit_reason option \<times> trade" where
  "soft_loss_time_exit cfg now t =
     (let diff = get_or 0 (price_diff t)
      in if hold_time now t < of_int (SOFT_LOSS_TIME_SEC cfg) then (None, t)
         else if diff \<le> - SOFT_LOSS_POINTS cfg
         then let loss = min \<bar>diff * of_int (qty t)\<bar> (max_loss_of cfg t)
              in (Some (SoftLoss diff loss),
                  t\<lparr>current_pnl := Some (- loss), soft_time_cut_applied := True\<rparr>)
         else (None, t))"

definition time_exit_15min :: "exit_config \<Rightarrow> instant \<Rightarrow> trade \<Rightarrow> exit_reason option" where
  "time_exit_15min cfg now t =
     (let winning = get_or 0 (price_diff t) \<ge> 0;
          max_hold = (if winning then MAX_HOLD_WINNING cfg else MAX_HOLD_LOSING cfg)
      in if \<not> EXIT_ONLY_SL_TP_TRAILING cfg \<and> hold_time now t > of_int max_hold then Some (TimeExit winning)
         else if hour_of now = 15 \<and> minute_of now \<ge> 25 then Some MarketClose
         else None)"

section \<open>Greeks\<close>

text \<open>A greeks dictionary; a missing key raises where it is read with \<open>[]\<close>.\<close>

record greeks =
  g_delta :: "real option"
  g_gamma :: "real option"
  g_theta :: "real option"
  g_vega :: "real option"
  g_theta_sec :: "real option"

definition no_greeks :: greeks where
  "no_greeks = \<lparr>g_delta = None, g_gamma = None, g_theta = None, g_vega = None, g_theta_sec = None\<rparr>"

definition greek_exit :: "exit_config \<Rightarrow> greeks \<Rightarrow> day_type \<Rightarrow> py_error + exit_reason option" where
  "greek_exit cfg g day =
     (case g_theta_sec g of None \<Rightarrow> Inl KeyError
      | Some th \<Rightarrow>
          if th > THETA_KILL cfg then Inr (Some (ThetaKill th))
          else (case g_gamma g of None \<Rightarrow> Inl KeyError
      | Some ga \<Rightarrow>
          if ga > (if day = EXPIRY then GAMMA_EXPIRY cfg else GAMMA_NORMAL cfg) * (3/2)
          then Inr (Some (GammaSpike ga))
          else (case g_delta g of None \<Rightarrow> Inl KeyError
      | Some de \<Rightarrow>
          if \<bar>de\<bar> < DELTA_KILL cfg then Inr (Some (DeltaKill de)) else Inr None)))"

text \<open>
  The request to \<open>validate_greeks\<close>, and its answer: \<open>None\<close> when it raises, otherwise whether the
  verdict is \<open>'OK'\<close> and the broker's greeks.
\<close>

record greeks_query =
  q_spot :: real
  q_strike :: int
  q_tte_sec :: real
  q_iv :: real
  q_option_type :: option_type

type_synonym greeks_validator = "greeks_query \<Rightarrow> (bool \<times> greeks) option"

definition or_default :: "real \<Rightarrow> real option \<Rightarrow> real" where
  "or_default d v = (if truthy v then get_or d v else d)"

definition merge_opt :: "'a option \<Rightarrow> 'a option \<Rightarrow> 'a option" where
  "merge_opt old new = (case new of None \<Rightarrow> old | Some _ \<Rightarrow> new)"

definition validated_greeks_for_exit :: "greeks_validator \<Rightarrow> greeks \<Rightarrow> tick \<Rightarrow> trade \<Rightarrow> greeks" where
  "validated_greeks_for_exit validate g tk t =
     (if g = no_greeks then g
      else if spot_price tk \<le> 0 then g
      else case validate \<lparr>q_spot = spot_price tk,
                          q_strike = round_half_even (spot_price tk / 50) * 50,
                          q_tte_sec = or_default 604800 (tick_tte_sec tk),
                          q_iv = or_default (2/10) (tick_iv tk),
                          q_option_type = direction t\<rparr> of
             Some (True, api) \<Rightarrow>
               g\<lparr>g_delta := merge_opt (g_delta g) (g_delta api), g_gamma := merge_opt (g_gamma g) (g_gamma api),
                 g_theta := merge_opt (g_theta g) (g_theta api), g_vega := merge_opt (g_vega g) (g_vega api)\<rparr>
           | _ \<Rightarrow> g)"

section \<open>The priority order\<close>

definition cap_negative_pnl :: "exit_config \<Rightarrow> trade \<Rightarrow> trade" where
  "cap_negative_pnl cfg t =
     (case current_pnl t of
        Some p \<Rightarrow> if p < 0 then t\<lparr>current_pnl := Some (- min \<bar>p\<bar> (max_loss_of cfg t)), pnl_capped := True\<rparr> else t
      | None \<Rightarrow> t)"

text \<open>A rule's verdict: an exit caps the loss and returns, otherwise the next rule runs.\<close>

definition or_else ::
  "exit_config \<Rightarrow> exit_reason option \<times> trade \<Rightarrow> (trade \<Rightarrow> (py_error + exit_reason option) \<times> trade)
    \<Rightarrow> (py_error + exit_reason option) \<times> trade" where
  "or_else cfg m k = (case m of (Some r, t) \<Rightarrow> (Inr (Some r), cap_negative_pnl cfg t) | (None, t) \<Rightarrow> k t)"

definition log_tsl :: "exit_config \<Rightarrow> trade \<Rightarrow> trade" where
  "log_tsl cfg t =
     (let first = (case TSL_STEP_LEVELS cfg of [] \<Rightarrow> BREAKEVEN_TRIGGER cfg | l # _ \<Rightarrow> fst l)
      in if get_or 0 (max_profit_points t) \<ge> first then t\<lparr>tsl_logged := True\<rparr> else t)"

definition rsi_and_time_exits ::
  "exit_config \<Rightarrow> instant \<Rightarrow> real option \<Rightarrow> trade \<Rightarrow> (py_error + exit_reason option) \<times> trade" where
  "rsi_and_time_exits cfg now rsi t =
     (case profit_floor_exit cfg t of
        Some r \<Rightarrow> (Inr (Some r), t)
      | None \<Rightarrow>
          or_else cfg (smart_rsi_exit cfg t rsi, t) (\<lambda>t1.
          or_else cfg (rsi_reversal_exit cfg t1 rsi) (\<lambda>t2.
          or_else cfg (time_exit_15min cfg now t2, t2) (\<lambda>t3. (Inr None, log_tsl cfg t3)))))"

definition check_exit_conditions ::
  "exit_config \<Rightarrow> greeks_validator \<Rightarrow> instant \<Rightarrow> trade \<Rightarrow> tick \<Rightarrow> greeks \<Rightarrow> day_type \<Rightarrow> real option
    \<Rightarrow> (py_error + exit_reason option) \<times> trade" where
  "check_exit_conditions cfg validate now t tk g day rsi =
     or_else cfg (check_hard_sl cfg t tk) (\<lambda>t1.
       if EXIT_ONLY_SL_TP_TRAILING cfg
       then or_else cfg (time_exit_15min cfg now t1, t1) (\<lambda>t2. (Inr None, t2))
       else
         or_else cfg (early_momentum_loss_cut cfg now t1 tk) (\<lambda>t2.
         or_else cfg (soft_loss_time_exit cfg now t2) (\<lambda>t3.
           (case greek_exit cfg (validated_greeks_for_exit validate g tk t3) day of
              Inl e \<Rightarrow> (Inl e, t3)
            | Inr r \<Rightarrow> or_else cfg (r, t3) (rsi_and_time_exits cfg now rsi)))))"

section \<open>The ladder as a specification\<close>

text \<open>The ladder is the highest lock whose trigger has been reached; the order of the table is immaterial.\<close>

lemma foldl_ladder_le_iff:
  "x \<le> foldl (\<lambda>sl (trigger, lock). if m \<ge> trigger then max sl lock else sl) s ls
     \<longleftrightarrow> x \<le> s \<or> (\<exists>(trigger, lock)\<in>set ls. trigger \<le> m \<and> x \<le> (lock::real))"
  by (induction ls arbitrary: s) (auto simp: le_max_iff_disj split: if_splits)

lemma step_ladder_le_iff:
  "x \<le> step_ladder ls m s \<longleftrightarrow> x \<le> s \<or> (\<exists>(trigger, lock)\<in>set ls. trigger \<le> m \<and> x \<le> lock)"
  by (simp add: step_ladder_def foldl_ladder_le_iff)

lemma step_ladder_mono: "m \<le> n \<Longrightarrow> step_ladder ls m s \<le> step_ladder ls n s"
  using step_ladder_le_iff[of "step_ladder ls m s" ls n s] step_ladder_le_iff[of "step_ladder ls m s" ls m s]
  by fastforce

lemma step_ladder_reached: "(trigger, lock) \<in> set ls \<Longrightarrow> trigger \<le> m \<Longrightarrow> lock \<le> step_ladder ls m s"
  by (auto simp: step_ladder_le_iff)

lemma step_ladder_start: "s \<le> step_ladder ls m s"
  by (simp add: step_ladder_le_iff)

section \<open>What a rule changes\<close>

text \<open>The stop in force and the best result seen.\<close>

definition stop_level :: "exit_config \<Rightarrow> trade \<Rightarrow> real" where
  "stop_level cfg t = get_or (- HARD_SL_POINTS cfg) (highest_sl t)"

definition best_seen :: "trade \<Rightarrow> real" where
  "best_seen t = get_or 0 (max_profit_points t)"

text \<open>What no rule may touch: the entry, and below the stop check also the stop.\<close>

definition entry_part :: "trade \<Rightarrow> real \<times> instant \<times> int \<times> side \<times> option_type \<times> string \<times> string" where
  "entry_part t = (entry_price t, entry_time t, qty t, trade_side t, direction t, trade_symbol t, order_id t)"

definition stop_part :: "trade \<Rightarrow> real option \<times> real option \<times> real option \<times> real \<times> instant \<times> int \<times> side \<times> option_type \<times> string \<times> string" where
  "stop_part t = (highest_sl t, max_profit_points t, price_diff t, entry_part t)"

lemma mark_to_market_facts:
  "entry_part (mark_to_market t d) = entry_part t"
  "highest_sl (mark_to_market t d) = highest_sl t"
  "max_profit_points (mark_to_market t d) = max_profit_points t"
  "price_diff (mark_to_market t d) = Some d"
  "current_pnl (mark_to_market t d) = Some (d * of_int (qty t))"
  "qty (mark_to_market t d) = qty t" "direction (mark_to_market t d) = direction t"
  by (simp_all add: mark_to_market_def entry_part_def Let_def)

lemma get_step_trailing_sl_facts:
  assumes "get_step_trailing_sl cfg t d = ((sl, status), t')"
  shows "stop_level cfg t \<le> sl" "best_seen t' = max (best_seen t) d"
    and "- HARD_SL_POINTS cfg \<le> stop_level cfg t \<Longrightarrow> stop_level cfg t' = sl"
    and "TRAILING_ENABLED cfg \<Longrightarrow>
           sl = max (stop_level cfg t) (step_ladder (effective_levels cfg) (max (best_seen t) d) (- HARD_SL_POINTS cfg))"
    and "entry_part t' = entry_part t" "price_diff t' = price_diff t" "current_pnl t' = current_pnl t"
  using assms step_ladder_start[of "- HARD_SL_POINTS cfg" "effective_levels cfg" "max (best_seen t) d"]
  by (auto simp: get_step_trailing_sl_def stop_level_def best_seen_def entry_part_def Let_def max_def
      split: if_splits)

definition engine_ok :: "exit_config \<Rightarrow> trade \<Rightarrow> bool" where
  "engine_ok cfg t \<longleftrightarrow> - HARD_SL_POINTS cfg \<le> stop_level cfg t"

lemma check_hard_sl_facts:
  fixes d :: real
  assumes "check_hard_sl cfg t tk = (r, t')" "d = points_gained t (ltp tk)"
  shows "engine_ok cfg t \<Longrightarrow> stop_level cfg t \<le> stop_level cfg t' \<and> engine_ok cfg t'"
    and "best_seen t' = max (best_seen t) d" "price_diff t' = Some d" "entry_part t' = entry_part t"
    and "engine_ok cfg t \<Longrightarrow> TRAILING_ENABLED cfg \<Longrightarrow> stop_level cfg t' =
           max (stop_level cfg t) (step_ladder (effective_levels cfg) (max (best_seen t) d) (- HARD_SL_POINTS cfg))"
    and "engine_ok cfg t \<Longrightarrow> d \<le> stop_level cfg t' \<Longrightarrow> r = (if stop_level cfg t' > 0
             then Some (TrailingProfit (stop_level cfg t') (stop_level cfg t' * of_int (qty t)))
             else if stop_level cfg t' = 0 then Some (BreakevenExit (ltp tk))
             else Some (HardSlHit (ltp tk) (min \<bar>d * of_int (qty t)\<bar> (max_loss_of cfg t))))"
    and "r = None \<Longrightarrow> current_pnl t' = Some (d * of_int (qty t))"
proof -
  obtain sl status t1 where g: "get_step_trailing_sl cfg (mark_to_market t d) d = ((sl, status), t1)"
    by (metis surj_pair)
  note f = get_step_trailing_sl_facts[OF g] mark_to_market_facts
  have lvl: "stop_level cfg (mark_to_market t d) = stop_level cfg t" "best_seen (mark_to_market t d) = best_seen t"
    by (simp_all add: stop_level_def best_seen_def f)
  have t': "highest_sl t' = highest_sl t1" "max_profit_points t' = max_profit_points t1"
    "price_diff t' = price_diff t1" "entry_part t' = entry_part t1"
    and pnl: "r = None \<Longrightarrow> current_pnl t' = current_pnl t1"
    using assms g by (auto simp: check_hard_sl_def entry_part_def Let_def split: if_splits)
  have same: "stop_level cfg t' = stop_level cfg t1" "best_seen t' = best_seen t1"
    by (simp_all add: stop_level_def best_seen_def t')
  show "stop_level cfg t \<le> stop_level cfg t' \<and> engine_ok cfg t'" if "engine_ok cfg t"
    using that f(1,3) by (simp add: engine_ok_def same lvl)
  show "best_seen t' = max (best_seen t) d" by (simp add: same f lvl)
  show "price_diff t' = Some d" "entry_part t' = entry_part t" by (simp_all add: t' f)
  show "stop_level cfg t' =
      max (stop_level cfg t) (step_ladder (effective_levels cfg) (max (best_seen t) d) (- HARD_SL_POINTS cfg))"
    if "engine_ok cfg t" "TRAILING_ENABLED cfg"
    using that f(3,4) by (simp add: engine_ok_def same lvl)
  show "r = (if stop_level cfg t' > 0
             then Some (TrailingProfit (stop_level cfg t') (stop_level cfg t' * of_int (qty t)))
             else if stop_level cfg t' = 0 then Some (BreakevenExit (ltp tk))
             else Some (HardSlHit (ltp tk) (min \<bar>d * of_int (qty t)\<bar> (max_loss_of cfg t))))"
    if "engine_ok cfg t" "d \<le> stop_level cfg t'"
  proof -
    have "stop_level cfg t' = sl" using f(3) that(1) by (simp add: engine_ok_def same lvl)
    with that assms g show ?thesis by (auto simp: check_hard_sl_def Let_def split: if_splits)
  qed
  show "current_pnl t' = Some (d * of_int (qty t))" if "r = None"
    using pnl[OF that] by (simp add: f)
qed

text \<open>The rules below the stop leave the stop part alone.\<close>

lemma stop_part_rules [simp]:
  "stop_part (snd (early_momentum_loss_cut cfg now t tk)) = stop_part t"
  "stop_part (snd (soft_loss_time_exit cfg now t)) = stop_part t"
  "stop_part (snd (rsi_reversal_exit cfg t rsi)) = stop_part t"
  by (auto simp: early_momentum_loss_cut_def soft_loss_time_exit_def rsi_reversal_exit_def
      stop_part_def entry_part_def Let_def split: if_splits option.splits)

lemma stop_part_cap [simp]: "stop_part (cap_negative_pnl cfg t) = stop_part t"
  by (simp add: cap_negative_pnl_def stop_part_def entry_part_def split: option.splits)

lemma stop_part_log [simp]: "stop_part (log_tsl cfg t) = stop_part t"
  by (simp add: log_tsl_def stop_part_def entry_part_def)

lemma or_else_stop_part:
  assumes "stop_part (snd m) = p" "\<And>t. stop_part t = p \<Longrightarrow> stop_part (snd (k t)) = p"
  shows "stop_part (snd (or_else cfg m k)) = p"
  using assms by (cases m) (auto simp: or_else_def split: option.splits)

lemma rsi_and_time_stop_part:
  "stop_part t = p \<Longrightarrow> stop_part (snd (rsi_and_time_exits cfg now rsi t)) = p"
  unfolding rsi_and_time_exits_def
  by (auto split: option.splits intro!: or_else_stop_part)

lemma check_exit_stop_part:
  "stop_part (snd (check_exit_conditions cfg validate now t tk g day rsi)) = stop_part (snd (check_hard_sl cfg t tk))"
  unfolding check_exit_conditions_def
  by (auto intro!: or_else_stop_part rsi_and_time_stop_part split: sum.splits)

lemma stop_part_eqD:
  assumes "stop_part t = stop_part u"
  shows "stop_level cfg t = stop_level cfg u" "best_seen t = best_seen u"
    "price_diff t = price_diff u" "entry_part t = entry_part u" "engine_ok cfg t = engine_ok cfg u"
  using assms by (simp_all add: stop_part_def stop_level_def best_seen_def engine_ok_def)

section \<open>Runs of the exit check\<close>

text \<open>One tick of an open trade with everything the check reads besides the trade.\<close>

datatype exit_event =
  ExitEvent (ev_now: instant) (ev_tick: tick) (ev_greeks: greeks) (ev_day: day_type) (ev_rsi: "real option")

definition exit_step :: "exit_config \<Rightarrow> greeks_validator \<Rightarrow> trade \<Rightarrow> exit_event \<Rightarrow> trade" where
  "exit_step cfg validate t e =
     snd (check_exit_conditions cfg validate (ev_now e) t (ev_tick e) (ev_greeks e) (ev_day e) (ev_rsi e))"

lemma exit_step_facts:
  fixes d :: real
  assumes "engine_ok cfg t" "d = points_gained t (ltp (ev_tick e))"
  shows "engine_ok cfg (exit_step cfg validate t e)"
    and "stop_level cfg t \<le> stop_level cfg (exit_step cfg validate t e)"
    and "best_seen (exit_step cfg validate t e) = max (best_seen t) d"
    and "entry_part (exit_step cfg validate t e) = entry_part t"
    and "TRAILING_ENABLED cfg \<Longrightarrow> step_ladder (effective_levels cfg) (max (best_seen t) d) (- HARD_SL_POINTS cfg)
           \<le> stop_level cfg (exit_step cfg validate t e)"
proof -
  obtain r u where h: "check_hard_sl cfg t (ev_tick e) = (r, u)" by fastforce
  have "stop_part (exit_step cfg validate t e) = stop_part u"
    unfolding exit_step_def check_exit_stop_part h by simp
  note eq = stop_part_eqD[OF this] and f = check_hard_sl_facts[OF h assms(2)]
  show "engine_ok cfg (exit_step cfg validate t e)"
    "stop_level cfg t \<le> stop_level cfg (exit_step cfg validate t e)"
    "best_seen (exit_step cfg validate t e) = max (best_seen t) d"
    "entry_part (exit_step cfg validate t e) = entry_part t"
    using eq f assms(1) by simp_all
  show "step_ladder (effective_levels cfg) (max (best_seen t) d) (- HARD_SL_POINTS cfg)
           \<le> stop_level cfg (exit_step cfg validate t e)" if "TRAILING_ENABLED cfg"
    using eq f(5)[OF assms(1) that] by simp
qed

interpretation stop: ratchet "exit_step cfg validate" "engine_ok cfg" "\<lambda>_. True" "stop_level cfg" for cfg validate
  by unfold_locales (simp_all add: exit_step_facts)

lemma fresh_trade_ok: "highest_sl t = None \<Longrightarrow> engine_ok cfg t"
  by (simp add: engine_ok_def stop_level_def)

lemma run_entry_part: "engine_ok cfg t \<Longrightarrow> entry_part (foldl (exit_step cfg validate) t es) = entry_part t"
  by (induction es arbitrary: t) (simp_all add: exit_step_facts(1) exit_step_facts(4)[OF _ refl])

text \<open>C3: The stop of an open trade never loosens: over any sequence of ticks, whatever the prices, greeks,
  RSI values and clock readings, the stop in force after more ticks is at least the stop before
  them, and never below the hard stop.\<close>

theorem stop_never_loosens:
  assumes "highest_sl t = None"
  shows "stop_level cfg (foldl (exit_step cfg validate) t es)
       \<le> stop_level cfg (foldl (exit_step cfg validate) t (es @ fs))
    \<and> - HARD_SL_POINTS cfg \<le> stop_level cfg (foldl (exit_step cfg validate) t es)"
proof -
  have "engine_ok cfg t" using assms by (rule fresh_trade_ok)
  then show ?thesis
    using stop.level_between[of cfg t es fs validate] stop.inv_run[of cfg t es validate]
    by (simp add: list_all_iff engine_ok_def)
qed

text \<open>C6: Profit once reached is locked.  When trailing is on and some tick of the trade's life showed a
  result at or above the trigger of a rung, every later tick whose result has fallen to that rung's
  lock or below exits the trade at once, before any other rule, and a positive lock is reported as a
  trailing-profit exit at a level no lower than the lock.\<close>

theorem reached_rung_locks_profit:
  assumes "TRAILING_ENABLED cfg" "(trigger, lock) \<in> set (effective_levels cfg)" "0 < lock"
    and "highest_sl t = None"
    and "trigger \<le> points_gained t (ltp (ev_tick e))"
    and "t' = foldl (exit_step cfg validate) t (es @ e # fs)"
    and "points_gained t (ltp tk) \<le> lock"
  shows "\<exists>level\<ge>lock. fst (check_exit_conditions cfg validate now t' tk g day rsi)
           = Inr (Some (TrailingProfit level (level * of_int (qty t))))"
proof -
  let ?s = "foldl (exit_step cfg validate) t es"
  have ok: "engine_ok cfg t" using assms(4) by (rule fresh_trade_ok)
  have oks: "engine_ok cfg ?s" using stop.inv_run[OF ok] by (simp add: list_all_iff)
  have pg: "points_gained u = points_gained t \<and> qty u = qty t" if "entry_part u = entry_part t" for u
    using that by (auto simp: points_gained_def entry_part_def)
  have e: "trigger \<le> max (best_seen ?s) (points_gained ?s (ltp (ev_tick e)))"
    using assms(5) pg[OF run_entry_part[OF ok]] by simp
  have "lock \<le> stop_level cfg (exit_step cfg validate ?s e)"
    using step_ladder_reached[OF assms(2) e, of "- HARD_SL_POINTS cfg"] exit_step_facts(5)[OF oks refl assms(1)]
    by (rule order_trans)
  also have "\<dots> \<le> stop_level cfg t'"
    using stop.level_run[of cfg "exit_step cfg validate ?s e" fs] exit_step_facts(1)[OF oks refl] assms(6)
    by (simp add: list_all_iff)
  finally have lock: "lock \<le> stop_level cfg t'" .
  have ok': "engine_ok cfg t'" unfolding assms(6) by (rule stop.inv_run[OF ok]) (simp add: list_all_iff)
  have pg': "points_gained t' = points_gained t" "qty t' = qty t"
    using pg[OF run_entry_part[OF ok]] assms(6) by blast+
  obtain r u where h: "check_hard_sl cfg t' tk = (r, u)" by fastforce
  note f = check_hard_sl_facts[OF h refl]
  have "lock \<le> stop_level cfg u" using f(1)[OF ok'] lock by linarith
  with f(6)[OF ok'] assms(3,7) pg' have "r = Some (TrailingProfit (stop_level cfg u) (stop_level cfg u * of_int (qty t)))"
    by simp
  with h \<open>lock \<le> stop_level cfg u\<close> show ?thesis by (auto simp: check_exit_conditions_def or_else_def)
qed

text \<open>A long call bought at 100, and ticks for it.\<close>

definition sample_trade :: trade where
  "sample_trade = filled_trade ''T1'' 100 (Some (1/10)) (seconds 36000) 65 BUY CE ''NIFTY'' 24000 7 14"

definition sample_tick :: "real \<Rightarrow> tick" where
  "sample_tick p = \<lparr>ltp = p, bid = p - 1/20, ask = p + 1/20, tick_timestamp = 0, original_timestamp = None,
     tick_symbol = ''NIFTY'', spot_price = 0, tick_volume = None, data_source = ''websocket'',
     tick_spread_pct = None, tick_delta = None, tick_atr = None, tick_iv = None, tick_tte_sec = None\<rparr>"

definition calm_greeks :: greeks where
  "calm_greeks = \<lparr>g_delta = Some (1/2), g_gamma = Some (1/100), g_theta = None, g_vega = None, g_theta_sec = Some (1/10)\<rparr>"

definition sample_event :: "real \<Rightarrow> exit_event" where
  "sample_event p = ExitEvent (seconds 36050) (sample_tick p) calm_greeks NORMAL None"

lemma sample_gain [simp]: "points_gained sample_trade (ltp (sample_tick p)) = p - 100"
  by (simp add: sample_trade_def sample_tick_def)

lemma sample_fresh [simp]: "highest_sl sample_trade = None" "qty sample_trade = 65" "price_diff sample_trade = None"
  "entry_time sample_trade = seconds 36000" "direction sample_trade = CE"
  by (simp_all add: sample_trade_def filled_trade_def Let_def)

theorem stop_never_loosens_witness:
  "-7 \<le> stop_level default_exit_config
     (foldl (exit_step default_exit_config (\<lambda>_. None)) sample_trade [sample_event 105, sample_event 103])"
  using stop_never_loosens[of sample_trade default_exit_config "\<lambda>_. None"
      "[sample_event 105, sample_event 103]" "[]"]
  by (simp add: default_exit_config_def)

theorem reached_rung_locks_profit_witness:
  "\<exists>level\<ge>4. fst (check_exit_conditions default_exit_config (\<lambda>_. None) (seconds 36100)
      (foldl (exit_step default_exit_config (\<lambda>_. None)) sample_trade ([] @ sample_event 109 # [sample_event 106]))
      (sample_tick 103) calm_greeks NORMAL None) = Inr (Some (TrailingProfit level (level * of_int (qty sample_trade))))"
proof (rule reached_rung_locks_profit[where es = "[]" and e = "sample_event 109" and fs = "[sample_event 106]" and trigger = 8 and lock = 4])
  show "TRAILING_ENABLED default_exit_config" "(8, 4) \<in> set (effective_levels default_exit_config)"
    by (simp_all add: default_exit_config_def effective_levels_def)
  show "(8::real) \<le> points_gained sample_trade (ltp (ev_tick (sample_event 109)))"
    by (simp add: sample_event_def)
qed simp_all

section \<open>The reported loss\<close>

definition loss_capped :: "exit_config \<Rightarrow> trade \<Rightarrow> bool" where
  "loss_capped cfg t \<longleftrightarrow> (\<exists>p. current_pnl t = Some p \<and> - max_loss_of cfg t \<le> p)"

lemma max_loss_of_entry: "entry_part t = entry_part u \<Longrightarrow> max_loss_of cfg t = max_loss_of cfg u"
  by (simp add: max_loss_of_def entry_part_def)

definition wf_exit_config :: "exit_config \<Rightarrow> bool" where
  "wf_exit_config cfg \<longleftrightarrow> 0 \<le> MAX_LOSS_CE cfg \<and> 0 \<le> MAX_LOSS_PE cfg \<and> 0 \<le> EXIT_PROFIT_FLOOR cfg"

lemma wf_default_exit_config [simp]: "wf_exit_config default_exit_config"
  by (simp add: wf_exit_config_def default_exit_config_def)

lemma max_loss_nonneg: "wf_exit_config cfg \<Longrightarrow> 0 \<le> max_loss_of cfg t"
  by (simp add: wf_exit_config_def max_loss_of_def)

lemma cap_negative_capped:
  "wf_exit_config cfg \<Longrightarrow> current_pnl t \<noteq> None \<Longrightarrow> loss_capped cfg (cap_negative_pnl cfg t)"
  using max_loss_nonneg[of cfg t]
  by (auto simp: cap_negative_pnl_def loss_capped_def max_loss_of_def min_def)

text \<open>A trade whose result is marked to the current price, as \<open>check_hard_sl\<close> leaves it.\<close>

definition marked :: "trade \<Rightarrow> bool" where
  "marked t \<longleftrightarrow> (\<exists>d. price_diff t = Some d \<and> current_pnl t = Some (d * of_int (qty t)))"

lemma check_hard_sl_marks:
  assumes "check_hard_sl cfg t tk = (r, t')"
  shows "current_pnl t' \<noteq> None" "r = None \<Longrightarrow> marked t'" "qty t' = qty t"
proof -
  note f = check_hard_sl_facts[OF assms refl]
  show q: "qty t' = qty t" using f(4) by (simp add: entry_part_def)
  show "marked t'" if "r = None" using f(3) f(7)[OF that] q by (simp add: marked_def)
  obtain sl status t1 where g: "get_step_trailing_sl cfg (mark_to_market t (points_gained t (ltp tk)))
      (points_gained t (ltp tk)) = ((sl, status), t1)"
    by (metis surj_pair)
  show "current_pnl t' \<noteq> None"
    using assms g get_step_trailing_sl_facts(7)[OF g]
    by (auto simp: check_hard_sl_def mark_to_market_facts Let_def split: if_splits)
qed

lemma marked_frame:
  "early_momentum_loss_cut cfg now t tk = (r, t') \<Longrightarrow> marked t \<Longrightarrow> current_pnl t' \<noteq> None \<and> (r = None \<longrightarrow> t' = t)"
  "soft_loss_time_exit cfg now t = (r, t') \<Longrightarrow> marked t \<Longrightarrow> current_pnl t' \<noteq> None \<and> (r = None \<longrightarrow> t' = t)"
  "rsi_reversal_exit cfg t rsi = (r, t') \<Longrightarrow> marked t \<Longrightarrow> marked t' \<and> current_pnl t' \<noteq> None"
  by (auto simp: early_momentum_loss_cut_def soft_loss_time_exit_def rsi_reversal_exit_def marked_def Let_def
      split: if_splits option.splits)

lemma or_else_Some:
  assumes "or_else cfg m k = (Inr (Some r), t')"
  shows "(fst m = Some r \<and> t' = cap_negative_pnl cfg (snd m)) \<or> (fst m = None \<and> k (snd m) = (Inr (Some r), t'))"
  using assms by (cases m) (auto simp: or_else_def split: option.splits)

lemma floor_exit_capped:
  assumes "profit_floor_exit cfg t = Some r" "marked t" "wf_exit_config cfg" "0 \<le> qty t"
  shows "loss_capped cfg t"
proof -
  obtain d where d: "price_diff t = Some d" "current_pnl t = Some (d * of_int (qty t))"
    using assms(2) by (auto simp: marked_def)
  with assms have "0 \<le> d" by (auto simp: profit_floor_exit_def wf_exit_config_def split: if_splits)
  with assms(4) have "0 \<le> d * of_int (qty t)" by simp
  with d max_loss_nonneg[OF assms(3), of t] show ?thesis by (force simp: loss_capped_def)
qed

lemma rsi_and_time_capped:
  assumes "rsi_and_time_exits cfg now rsi t = (Inr (Some r), t')" "marked t" "wf_exit_config cfg" "0 \<le> qty t"
  shows "loss_capped cfg t'"
proof (cases "profit_floor_exit cfg t")
  case (Some r')
  with assms floor_exit_capped[OF Some assms(2-4)] show ?thesis by (simp add: rsi_and_time_exits_def)
next
  case None
  have some: "current_pnl t \<noteq> None" using assms(2) by (auto simp: marked_def)
  obtain r2 t2 where rev: "rsi_reversal_exit cfg t rsi = (r2, t2)" by fastforce
  have some2: "current_pnl t2 \<noteq> None" using marked_frame(3)[OF rev assms(2)] by simp
  from assms(1) None show ?thesis
    by (auto simp: rsi_and_time_exits_def rev dest!: or_else_Some
        intro: cap_negative_capped[OF assms(3) some] cap_negative_capped[OF assms(3) some2])
qed

text \<open>C19: Whatever rule closes a trade, the result it leaves for the exit path is a number no worse than the
  per-trade maximum loss, for any tick, clock, greeks, RSI and validator answer.\<close>

theorem exit_result_loss_capped:
  assumes "check_exit_conditions cfg validate now t tk g day rsi = (Inr (Some r), t')"
    and "wf_exit_config cfg" "0 \<le> qty t"
  shows "\<exists>p. current_pnl t' = Some p \<and> - max_loss_of cfg t' \<le> p"
proof -
  obtain r1 t1 where h: "check_hard_sl cfg t tk = (r1, t1)" by fastforce
  note hm = check_hard_sl_marks[OF h]
  note cap = cap_negative_capped[OF assms(2)]
  have "loss_capped cfg t'"
  proof (cases r1)
    case (Some x)
    with assms(1) h cap[OF hm(1)] show ?thesis by (auto simp: check_exit_conditions_def dest!: or_else_Some)
  next
    case None
    note m1 = hm(2)[OF None]
    obtain r2 t2 where e: "early_momentum_loss_cut cfg now t1 tk = (r2, t2)" by fastforce
    obtain r3 t3 where s: "soft_loss_time_exit cfg now t2 = (r3, t3)" by fastforce
    have e': "current_pnl t2 \<noteq> None" "r2 = None \<longrightarrow> t2 = t1" using marked_frame(1)[OF e m1] by simp_all
    have s': "r2 = None \<longrightarrow> current_pnl t3 \<noteq> None" "r2 = None \<longrightarrow> r3 = None \<longrightarrow> t3 = t1"
      using marked_frame(2)[of cfg now t1 r3 t3] s e'(2) m1 by auto
    have q: "0 \<le> qty t1" using assms(3) hm(3) by simp
    have late: "loss_capped cfg u" if "rsi_and_time_exits cfg now rsi t1 = (Inr (Some x), u)" for x u
      by (rule rsi_and_time_capped[OF that m1 assms(2) q])
    from assms(1) h None show ?thesis
      by (auto simp: check_exit_conditions_def e s split: if_splits sum.splits dest!: or_else_Some
          intro: cap[OF hm(1)] cap[OF e'(1)] late) (use s' e' cap hm(1) late in \<open>auto dest: late\<close>)
  qed
  then show ?thesis by (simp add: loss_capped_def)
qed

theorem exit_result_loss_capped_witness:
  "\<exists>p. current_pnl (snd (check_exit_conditions default_exit_config (\<lambda>_. None) (seconds 36100) sample_trade
        (sample_tick 80) calm_greeks NORMAL None)) = Some p \<and> -455 \<le> p"
proof -
  obtain o1 t' where *: "check_exit_conditions default_exit_config (\<lambda>_. None) (seconds 36100) sample_trade
        (sample_tick 80) calm_greeks NORMAL None = (o1, t')" by fastforce
  obtain r u where h: "check_hard_sl default_exit_config sample_trade (sample_tick 80) = (r, u)" by fastforce
  have ladder: "stop_level default_exit_config u = -7"
    using check_hard_sl_facts(5)[OF h refl fresh_trade_ok]
    by (simp add: stop_level_def best_seen_def default_exit_config_def effective_levels_def step_ladder_def
        sample_tick_def sample_trade_def filled_trade_def points_gained_def Let_def)
  have "r \<noteq> None" using check_hard_sl_facts(6)[OF h refl fresh_trade_ok] ladder by simp
  with * h obtain x where x: "check_exit_conditions default_exit_config (\<lambda>_. None) (seconds 36100) sample_trade
        (sample_tick 80) calm_greeks NORMAL None = (Inr (Some x), t')"
    by (auto simp: check_exit_conditions_def or_else_def)
  have "max_loss_of default_exit_config t' = 455" by (simp add: max_loss_of_def default_exit_config_def)
  with exit_result_loss_capped[OF x] show ?thesis by (simp add: x)
qed

section \<open>Exits that cannot be missed\<close>

definition complete_greeks :: "greeks \<Rightarrow> bool" where
  "complete_greeks g \<longleftrightarrow> g_theta_sec g \<noteq> None \<and> g_gamma g \<noteq> None \<and> g_delta g \<noteq> None"

lemma validated_complete: "complete_greeks g \<Longrightarrow> complete_greeks (validated_greeks_for_exit v g tk t)"
  by (auto simp: complete_greeks_def validated_greeks_for_exit_def merge_opt_def
      split: option.splits bool.splits)

lemma greek_exit_complete: "complete_greeks g \<Longrightarrow> \<exists>r. greek_exit cfg g day = Inr r"
  by (auto simp: complete_greeks_def greek_exit_def)

definition closing_time :: "instant \<Rightarrow> bool" where
  "closing_time now \<longleftrightarrow> hour_of now = 15 \<and> 25 \<le> minute_of now"

lemma or_else_exits:
  assumes "\<And>t. \<exists>r t'. k t = (Inr (Some r), t')"
  shows "\<exists>r t'. or_else cfg m k = (Inr (Some r), t')"
proof (cases m)
  case (Pair o1 t)
  then show ?thesis using assms[of t] by (cases o1) (auto simp: or_else_def)
qed

lemma time_exit_at_close: "closing_time now \<Longrightarrow> time_exit_15min cfg now t \<noteq> None"
  by (simp add: closing_time_def time_exit_15min_def Let_def)

lemma rsi_and_time_exits_at_close:
  "closing_time now \<Longrightarrow> \<exists>r t'. rsi_and_time_exits cfg now rsi t = (Inr (Some r), t')"
  unfolding rsi_and_time_exits_def
proof (cases "profit_floor_exit cfg t")
  case None
  assume "closing_time now"
  then have last: "\<exists>r t'. or_else cfg (time_exit_15min cfg now u, u) k = (Inr (Some r), t')" for u k
    using time_exit_at_close[of now cfg u] by (auto simp: or_else_def)
  show "\<exists>r t'. (case profit_floor_exit cfg t of Some r \<Rightarrow> (Inr (Some r), t)
      | None \<Rightarrow> or_else cfg (smart_rsi_exit cfg t rsi, t) (\<lambda>t1.
          or_else cfg (rsi_reversal_exit cfg t1 rsi) (\<lambda>t2.
          or_else cfg (time_exit_15min cfg now t2, t2) (\<lambda>t3. (Inr None, log_tsl cfg t3)))))
      = (Inr (Some r), t')"
    unfolding None by (simp, intro or_else_exits last)
qed simp

lemma exits_at_close:
  assumes "closing_time now" "complete_greeks g \<or> EXIT_ONLY_SL_TP_TRAILING cfg"
  shows "\<exists>r t'. check_exit_conditions cfg validate now t tk g day rsi = (Inr (Some r), t')"
proof (cases "EXIT_ONLY_SL_TP_TRAILING cfg")
  case True
  have "\<exists>r t'. or_else cfg (time_exit_15min cfg now u, u) k = (Inr (Some r), t')" for u k
    using time_exit_at_close[OF assms(1), of cfg u] by (auto simp: or_else_def)
  with True show ?thesis unfolding check_exit_conditions_def by (simp add: or_else_exits)
next
  case False
  with assms have g: "complete_greeks g" by simp
  have greeks: "\<exists>r t'. (case greek_exit cfg (validated_greeks_for_exit validate g tk u) day of
       Inl e \<Rightarrow> (Inl e, u) | Inr r \<Rightarrow> or_else cfg (r, u) (rsi_and_time_exits cfg now rsi)) = (Inr (Some r), t')" for u
    using greek_exit_complete[OF validated_complete[OF g], of cfg validate tk u day]
    by (auto intro!: or_else_exits rsi_and_time_exits_at_close[OF assms(1)])
  show ?thesis unfolding check_exit_conditions_def using False
    by (simp, intro or_else_exits greeks)
qed

text \<open>No position is carried past the close: from 15:25 to the end of the hour every exit check closes
  the trade, whatever the profit, mode and settings, as long as the greeks dictionary has the three
  keys the greeks rule reads (or the discretionary exits are switched off).\<close>

theorem market_close_always_exits:
  assumes "closing_time now" "complete_greeks g \<or> EXIT_ONLY_SL_TP_TRAILING cfg"
  shows "\<exists>r t'. check_exit_conditions cfg validate now t tk g day rsi = (Inr (Some r), t')"
  using assms by (rule exits_at_close)

theorem market_close_always_exits_witness:
  "\<exists>r t'. check_exit_conditions default_exit_config (\<lambda>_. None) (minutes 925) sample_trade (sample_tick 101)
     calm_greeks NORMAL (Some 50) = (Inr (Some r), t')"
  by (rule market_close_always_exits)
    (simp_all add: closing_time_def hour_of_def minute_of_def minutes_def complete_greeks_def calm_greeks_def)

text \<open>With the discretionary exits switched off, only the stop ladder, the fixed target and the market
  close ever end a trade; with them on, the stop is still decided first.\<close>

theorem only_ladder_exits_when_switched:
  assumes "EXIT_ONLY_SL_TP_TRAILING cfg"
    and "check_exit_conditions cfg validate now t tk g day rsi = (Inr (Some r), t')"
  shows "(\<exists>a b. r = TrailingProfit a b) \<or> (\<exists>p. r = BreakevenExit p) \<or> (\<exists>a b. r = HardSlHit a b)
    \<or> (\<exists>a b. r = TakeProfit a b \<and> \<not> TRAILING_ENABLED cfg) \<or> (r = MarketClose \<and> closing_time now)"
proof -
  have sl: "fst (check_hard_sl cfg t tk) = Some r \<Longrightarrow> ?thesis"
    by (auto simp: check_hard_sl_def Let_def split: prod.splits if_splits)
  have "time_exit_15min cfg now u = Some r \<Longrightarrow> r = MarketClose \<and> closing_time now" for u
    using assms(1) by (auto simp: time_exit_15min_def closing_time_def Let_def split: if_splits)
  then have close: "time_exit_15min cfg now u = Some r \<Longrightarrow> ?thesis" for u by blast
  from assms have "fst (check_hard_sl cfg t tk) = Some r
      \<or> time_exit_15min cfg now (snd (check_hard_sl cfg t tk)) = Some r"
    unfolding check_exit_conditions_def by (auto dest!: or_else_Some)
  then show ?thesis using sl close by blast
qed

theorem only_ladder_exits_when_switched_witness:
  "\<exists>r t'. check_exit_conditions (default_exit_config\<lparr>EXIT_ONLY_SL_TP_TRAILING := True\<rparr>) (\<lambda>_. None) (minutes 925)
      sample_trade (sample_tick 101) no_greeks NORMAL (Some 90) = (Inr (Some r), t') \<and> r = MarketClose"
proof -
  let ?cfg = "default_exit_config\<lparr>EXIT_ONLY_SL_TP_TRAILING := True\<rparr>"
  obtain r t' where *: "check_exit_conditions ?cfg (\<lambda>_. None) (minutes 925) sample_trade (sample_tick 101)
      no_greeks NORMAL (Some 90) = (Inr (Some r), t')"
  proof -
    have "closing_time (minutes 925)" by (simp add: closing_time_def hour_of_def minute_of_def minutes_def)
    then have "\<exists>r t'. check_exit_conditions ?cfg (\<lambda>_. None) (minutes 925) sample_trade (sample_tick 101)
      no_greeks NORMAL (Some 90) = (Inr (Some r), t')" by (rule exits_at_close) simp
    then show thesis using that by blast
  qed
  obtain x u where h: "check_hard_sl ?cfg sample_trade (sample_tick 101) = (x, u)" by fastforce
  have "x = None"
    using h by (auto simp: check_hard_sl_def get_step_trailing_sl_def mark_to_market_def points_gained_def
        sample_trade_def filled_trade_def sample_tick_def default_exit_config_def effective_levels_def
        step_ladder_def Let_def)
  with * h only_ladder_exits_when_switched[OF _ *] show ?thesis
    by (auto simp: check_exit_conditions_def or_else_def time_exit_15min_def Let_def split: option.splits if_splits)
qed

end
