(* ===== verification/Instruments.thy ===== *)
theory Instruments
  imports Prelude
begin

text \<open>
  \<open>utils/instruments.py\<close>: the facts read from the broker's instrument master.  The master is the
  list of contracts \<open>contracts()\<close> returns (parsing and caching the file is not modelled); every
  accessor answers \<open>None\<close> when the list has nothing to say.  Dates are day numbers.
\<close>

section \<open>The master\<close>

record contract =
  c_symbol :: string
  c_token :: string
  c_expiry :: int
  c_strike :: "real option"
  c_lot_size :: "int option"
  c_tick_size :: "real option"
  c_freeze_qty :: "int option"
  c_kind :: string

definition ends_with :: "string \<Rightarrow> string \<Rightarrow> bool" where
  "ends_with suffix s \<longleftrightarrow> length suffix \<le> length s \<and> drop (length s - length suffix) s = suffix"

definition starts_with :: "string \<Rightarrow> string \<Rightarrow> bool" where
  "starts_with p s \<longleftrightarrow> take (length p) s = p"

definition options_of :: "contract list \<Rightarrow> contract list" where
  "options_of rows =
     (let typed = filter (\<lambda>r. starts_with ''OPT'' (c_kind r)) rows
      in if typed \<noteq> [] then typed
         else filter (\<lambda>r. ends_with ''CE'' (c_symbol r) \<or> ends_with ''PE'' (c_symbol r)) rows)"

section \<open>Expiries\<close>

definition expiry_dates :: "contract list \<Rightarrow> int list" where
  "expiry_dates rows = sorted_list_of_set (set (map c_expiry rows))"

definition is_expiry_date :: "contract list \<Rightarrow> int \<Rightarrow> bool" where
  "is_expiry_date rows day \<longleftrightarrow> day \<in> set (expiry_dates rows)"

definition nearest_expiry :: "contract list \<Rightarrow> int \<Rightarrow> int option" where
  "nearest_expiry rows day = find (\<lambda>d. d \<ge> day) (expiry_dates rows)"

definition next_expiry_after :: "contract list \<Rightarrow> int \<Rightarrow> int option" where
  "next_expiry_after rows day = find (\<lambda>d. d > day) (expiry_dates rows)"

definition expiry_datetime :: "contract list \<Rightarrow> int \<Rightarrow> instant option" where
  "expiry_datetime rows day =
     (case nearest_expiry rows day of None \<Rightarrow> None
      | Some d \<Rightarrow> Some (d * 86400000000 + 15 * 3600000000 + 30 * 60000000))"

section \<open>Contract mechanics\<close>

text \<open>\<open>Counter(vals).most_common(1)\<close>: the value counted most often, the first seen among equals.\<close>

fun most_common_from :: "'a list \<Rightarrow> 'a list \<Rightarrow> 'a option \<Rightarrow> 'a option" where
  "most_common_from vals [] best = best"
| "most_common_from vals (x # xs) best =
     most_common_from vals xs
       (case best of None \<Rightarrow> Some x
        | Some b \<Rightarrow> if count_list vals x > count_list vals b then Some x else best)"

definition most_common :: "'a list \<Rightarrow> 'a option" where
  "most_common vals = most_common_from vals vals None"

text \<open>Absent and zero values are dropped first.\<close>

definition modal :: "('a::zero) option list \<Rightarrow> 'a option" where
  "modal vs = most_common (filter (\<lambda>v. v \<noteq> 0) (List.map_filter (\<lambda>v. v) vs))"

definition lot_size :: "contract list \<Rightarrow> int option" where
  "lot_size rows = modal (map c_lot_size (options_of rows))"

definition tick_size :: "contract list \<Rightarrow> real option" where
  "tick_size rows = modal (map c_tick_size (options_of rows))"

definition freeze_quantity :: "contract list \<Rightarrow> int option" where
  "freeze_quantity rows = modal (map c_freeze_qty (options_of rows))"

definition strike_step :: "contract list \<Rightarrow> int \<Rightarrow> int option" where
  "strike_step rows today =
     (case nearest_expiry rows today of None \<Rightarrow> None
      | Some front \<Rightarrow>
          let strikes = sorted_list_of_set
                (set (filter (\<lambda>k. k \<noteq> 0) (List.map_filter c_strike (filter (\<lambda>r. c_expiry r = front) (options_of rows)))));
              gaps = map (\<lambda>(a, b). round_half_even (b - a))
                       (filter (\<lambda>(a, b). b > a) (zip strikes (tl strikes)))
          in most_common gaps)"

definition expiry_weekday :: "contract list \<Rightarrow> int option" where
  "expiry_weekday rows = most_common (map weekday (expiry_dates rows))"

text \<open>\<open>tick\<close> is the explicit argument, \<open>master_tick\<close> what \<open>tick_size()\<close> answers.\<close>

definition round_to_tick :: "real option \<Rightarrow> real option \<Rightarrow> real \<Rightarrow> side \<Rightarrow> real" where
  "round_to_tick master_tick tick price sd =
     (let step = (if truthy tick then get_or 0 tick else get_or 0 master_tick)
      in if step \<le> 0 then py_round 2 price
         else
           let units = price / step
           in if \<bar>units - of_int (round_half_even units)\<bar> < 1 / 10 ^ 9
              then py_round 2 (of_int (round_half_even units) * step)
              else py_round 2 (of_int (if sd = BUY then \<lfloor>units\<rfloor> else \<lceil>units\<rceil>) * step))"

section \<open>Expiry lookups agree\<close>

lemma find_sorted:
  assumes "sorted xs"
  shows "find P xs = Some d \<Longrightarrow> d \<in> set xs \<and> P d \<and> (\<forall>e\<in>set xs. P e \<longrightarrow> d \<le> e)"
  using assms by (induction xs) (auto split: if_splits)

lemma expiry_dates_set [simp]: "set (expiry_dates rows) = c_expiry ` set rows"
  by (simp add: expiry_dates_def)

lemma sorted_expiry_dates [simp]: "sorted (expiry_dates rows)"
  by (simp add: expiry_dates_def)

text \<open>The expiry lookups name real, nearest expiries: the nearest one is a listed expiry on or after the
  day with none in between, it is the day itself exactly on an expiry day, and the one after is
  strictly later.\<close>

theorem nearest_expiry_correct:
  assumes "nearest_expiry rows day = Some d"
  shows "d \<in> c_expiry ` set rows \<and> day \<le> d \<and> (\<forall>e\<in>c_expiry ` set rows. day \<le> e \<longrightarrow> d \<le> e)
    \<and> (d = day \<longleftrightarrow> is_expiry_date rows day)
    \<and> (\<forall>n. next_expiry_after rows day = Some n \<longrightarrow> day < n \<and> d \<le> n)"
proof -
  have d: "d \<in> c_expiry ` set rows" "day \<le> d" "\<forall>e\<in>c_expiry ` set rows. day \<le> e \<longrightarrow> d \<le> e"
    using find_sorted[OF sorted_expiry_dates[of rows] assms[unfolded nearest_expiry_def]] by auto
  moreover have "day < n \<and> d \<le> n" if "next_expiry_after rows day = Some n" for n
  proof -
    have "n \<in> c_expiry ` set rows \<and> day < n"
      using find_sorted[OF sorted_expiry_dates[of rows] that[unfolded next_expiry_after_def]] by simp
    with d(3) show ?thesis by force
  qed
  moreover have "d = day \<longleftrightarrow> is_expiry_date rows day"
    using d by (fastforce simp: is_expiry_date_def)
  ultimately show ?thesis by blast
qed

definition sample_master :: "contract list" where
  "sample_master = map (\<lambda>(e, k). \<lparr>c_symbol = ''NIFTY'', c_token = ''1'', c_expiry = e, c_strike = Some k,
     c_lot_size = Some 65, c_tick_size = Some (1/20), c_freeze_qty = Some 1800, c_kind = ''OPTIDX''\<rparr>)
     [(100, 24000), (107, 24000), (100, 24050), (100, 24100)]"

theorem nearest_expiry_correct_witness: "\<exists>d. nearest_expiry sample_master 101 = Some d \<and> 101 \<le> d"
proof -
  have s: "expiry_dates sample_master = [100, 107]"
    by (simp add: expiry_dates_def sample_master_def insert_commute)
  have *: "nearest_expiry sample_master 101 = Some 107" by (simp add: nearest_expiry_def s)
  from nearest_expiry_correct[OF *] * show ?thesis by simp
qed

section \<open>Limit prices on the grid\<close>

lemma py_round_2_grid: "py_round 2 (of_int n * (of_int k / 100)) = of_int n * (of_int k / 100)"
proof -
  have *: "of_int n * (of_int k / 100) * 10 ^ 2 = (of_int (n * k) :: real)" by simp
  show ?thesis unfolding py_round_def * round_half_even_of_int by simp
qed

text \<open>Rounding a limit price onto the exchange's tick grid never works against the trader: with a tick of a
  whole number of paise the result is a multiple of the tick, less than one tick away, and a buy
  price is not raised nor a sell price lowered beyond the float tolerance of one billionth of a tick.\<close>

theorem round_to_tick_never_worsens:
  assumes "0 < k" "step = of_int k / 100"
  shows "\<exists>n. round_to_tick (Some step) None price sd = of_int n * step
    \<and> \<bar>round_to_tick (Some step) None price sd - price\<bar> < step
    \<and> (sd = BUY \<longrightarrow> round_to_tick (Some step) None price sd \<le> price + step / 10 ^ 9)
    \<and> (sd = SELL \<longrightarrow> price - step / 10 ^ 9 \<le> round_to_tick (Some step) None price sd)"
proof -
  have step: "0 < step" using assms by simp
  let ?u = "price / step" and ?r = "round_half_even (price / step)"
  define n where "n = (if \<bar>?u - of_int ?r\<bar> < 1 / 10 ^ 9 then ?r else if sd = BUY then \<lfloor>?u\<rfloor> else \<lceil>?u\<rceil>)"
  have val: "round_to_tick (Some step) None price sd = of_int n * step"
    using step py_round_2_grid[of _ k] by (auto simp: round_to_tick_def n_def Let_def assms(2))
  have p: "price = ?u * step" using step by simp
  have fl: "of_int \<lfloor>?u\<rfloor> \<le> ?u" "?u < of_int \<lfloor>?u\<rfloor> + 1" "?u \<le> of_int \<lceil>?u\<rceil>" "of_int \<lceil>?u\<rceil> < ?u + 1"
    by linarith+
  have near: "\<bar>of_int n - ?u\<bar> < 1"
  proof (cases "\<bar>?u - of_int ?r\<bar> < 1 / 10 ^ 9")
    case True
    then have "\<bar>?u - of_int ?r\<bar> < 1" by (rule less_trans) simp
    with True show ?thesis by (simp add: n_def abs_minus_commute)
  next
    case False
    then have "of_int n = (of_int \<lfloor>?u\<rfloor> :: real) \<or> of_int n = (of_int \<lceil>?u\<rceil> :: real)" by (simp add: n_def)
    then show ?thesis using fl unfolding abs_less_iff by linarith
  qed
  have "\<bar>of_int n * step - price\<bar> = \<bar>of_int n - ?u\<bar> * step"
  proof -
    have "of_int n * step - price = (of_int n - ?u) * step" using step by (simp add: left_diff_distrib)
    then show ?thesis using step by (simp add: abs_mult)
  qed
  also have "\<dots> < 1 * step" using near step by (rule mult_strict_right_mono)
  finally have close: "\<bar>of_int n * step - price\<bar> < step" by simp
  have buy: "of_int n \<le> ?u + 1 / 10 ^ 9" if "sd = BUY"
  proof (cases "\<bar>?u - of_int ?r\<bar> < 1 / 10 ^ 9")
    case True
    then have "of_int ?r \<le> ?u + 1 / 10 ^ 9" unfolding abs_less_iff by linarith
    with True show ?thesis by (simp add: n_def)
  next
    case False
    have eps: "(0::real) \<le> 1 / 10 ^ 9" by simp
    from False that have "n = \<lfloor>?u\<rfloor>" by (simp add: n_def)
    then have "of_int n \<le> ?u" using fl(1) by simp
    with eps show ?thesis by linarith
  qed
  have sell: "?u - 1 / 10 ^ 9 \<le> of_int n" if "sd = SELL"
  proof (cases "\<bar>?u - of_int ?r\<bar> < 1 / 10 ^ 9")
    case True
    then have "?u - 1 / 10 ^ 9 \<le> of_int ?r" unfolding abs_less_iff by linarith
    with True show ?thesis by (simp add: n_def)
  next
    case False
    have eps: "(0::real) \<le> 1 / 10 ^ 9" by simp
    from False that have "n = \<lceil>?u\<rceil>" by (simp add: n_def)
    then have "?u \<le> of_int n" using fl(3) by simp
    with eps show ?thesis by linarith
  qed
  have "of_int n * step \<le> price + step / 10 ^ 9" if "sd = BUY"
    using mult_right_mono[OF buy[OF that], of step] step by (simp add: distrib_right)
  moreover have "price - step / 10 ^ 9 \<le> of_int n * step" if "sd = SELL"
    using mult_right_mono[OF sell[OF that], of step] step by (simp add: left_diff_distrib)
  ultimately show ?thesis unfolding val using close by (intro exI[of _ n]) simp
qed

theorem round_to_tick_never_worsens_witness:
  "round_to_tick (Some (1/20)) None (12342/100) BUY \<le> 12342/100 + (1/20) / 10 ^ 9"
  using round_to_tick_never_worsens[of 5 "1/20" "12342/100" BUY] by auto

end
