(* ===== verification/Orders.thy ===== *)
theory Orders
  imports Trade Instruments
begin

text \<open>
  \<open>core/trading/order_execution.py\<close>: placing an entry (paper and live, limit orders with price
  chasing, market fallback, status verification) and closing a position.  The broker is a parameter:
  a reply to a call may depend on every call made before, so a \<open>gateway\<close> maps the trace of calls,
  newest last, to the reply.  Every model function returns the extended trace, which makes what the
  code sent to the broker a value the properties can speak about.  Sleeping, logging and alerts are
  not modelled.
\<close>

section \<open>The broker gateway\<close>

datatype order_kind = LimitOrder real | MarketOrder | UnspecifiedOrder

datatype broker_call =
    Place side int order_kind
  | Status string
  | Cancel string

datatype order_status = Complete | Open | Pending | Rejected | Cancelled | OtherStatus

text \<open>A reply without an order id counts as no reply for every reader.\<close>

datatype place_reply = PlaceRaises | NoOrder | Placed string

datatype status_reply =
    StatusRaises
  | NoStatus
  | StatusIs order_status (average_price: "real option") (filled_shares: "int option")

record gateway =
  gw_place :: "broker_call list \<Rightarrow> place_reply"
  gw_status :: "broker_call list \<Rightarrow> status_reply"

section \<open>Settings\<close>

record order_config =
  use_limit_orders :: bool
  limit_order_offset :: real
  order_retry_enabled :: bool
  order_max_retries :: nat
  price_chase_step :: real
  oc_max_loss_ce :: real
  oc_max_loss_pe :: real
  oc_tick_size :: "real option"

definition default_order_config :: order_config where
  "default_order_config = \<lparr>use_limit_orders = True, limit_order_offset = 1/4, order_retry_enabled = True,
     order_max_retries = 3, price_chase_step = 1/2, oc_max_loss_ce = 455, oc_max_loss_pe = 455,
     oc_tick_size = Some (1/20)\<rparr>"

section \<open>Limit orders with price chasing\<close>

definition snap :: "order_config \<Rightarrow> side \<Rightarrow> real \<Rightarrow> real" where
  "snap cfg sd p = round_to_tick None (oc_tick_size cfg) p sd"

definition first_limit :: "order_config \<Rightarrow> side \<Rightarrow> tick \<Rightarrow> real" where
  "first_limit cfg sd tk =
     snap cfg sd (if sd = BUY then ask tk - limit_order_offset cfg else bid tk + limit_order_offset cfg)"

definition chase :: "order_config \<Rightarrow> side \<Rightarrow> real \<Rightarrow> real" where
  "chase cfg sd p = snap cfg sd (if sd = BUY then p + price_chase_step cfg else p - price_chase_step cfg)"

text \<open>
  The retry loop: \<open>n\<close> attempts left, the price of the next attempt, the order id of the last
  reply.  A raised placement leaves the last reply in place; a raised or missing status, or a status
  the code does not name, goes to the next attempt with the order still open.
\<close>

fun limit_loop ::
  "order_config \<Rightarrow> gateway \<Rightarrow> side \<Rightarrow> int \<Rightarrow> nat \<Rightarrow> real \<Rightarrow> string option \<Rightarrow> broker_call list
    \<Rightarrow> string option \<times> broker_call list" where
  "limit_loop cfg gw sd q 0 price last_id tr = (last_id, tr)"
| "limit_loop cfg gw sd q (Suc n) price last_id tr =
     (let tr1 = tr @ [Place sd q (LimitOrder price)] in
      case gw_place gw tr1 of
        PlaceRaises \<Rightarrow> limit_loop cfg gw sd q n price last_id tr1
      | NoOrder \<Rightarrow> limit_loop cfg gw sd q n price None tr1
      | Placed oid \<Rightarrow>
          let tr2 = tr1 @ [Status oid] in
          (case gw_status gw tr2 of
             StatusIs Complete a f \<Rightarrow> (Some oid, tr2)
           | StatusIs Open a f \<Rightarrow> limit_loop cfg gw sd q n (chase cfg sd price) (Some oid) (tr2 @ [Cancel oid])
           | StatusIs Pending a f \<Rightarrow> limit_loop cfg gw sd q n (chase cfg sd price) (Some oid) (tr2 @ [Cancel oid])
           | StatusIs Rejected a f \<Rightarrow> (Some oid, tr2)
           | _ \<Rightarrow> limit_loop cfg gw sd q n price (Some oid) tr2))"

definition limit_attempts :: "order_config \<Rightarrow> nat" where
  "limit_attempts cfg = (if order_retry_enabled cfg then order_max_retries cfg else 1)"

text \<open>The check after the loop; a raised status leaves \<open>place_order\<close> with no trade (\<open>Inl\<close>).\<close>

definition limit_phase ::
  "order_config \<Rightarrow> gateway \<Rightarrow> side \<Rightarrow> int \<Rightarrow> tick \<Rightarrow> broker_call list
    \<Rightarrow> (unit + string option) \<times> broker_call list" where
  "limit_phase cfg gw sd q tk tr =
     (case limit_loop cfg gw sd q (limit_attempts cfg) (first_limit cfg sd tk) None tr of
        (None, tr1) \<Rightarrow> (Inr None, tr1)
      | (Some oid, tr1) \<Rightarrow>
          let tr2 = tr1 @ [Status oid] in
          (case gw_status gw tr2 of
             StatusRaises \<Rightarrow> (Inl (), tr2)
           | NoStatus \<Rightarrow> (Inr (Some oid), tr2)
           | StatusIs Complete a f \<Rightarrow> (Inr (Some oid), tr2)
           | StatusIs _ a f \<Rightarrow> (Inr None, tr2 @ [Cancel oid])))"

section \<open>Verification of the fill\<close>

datatype fill = Filled real "int option" | NotFilled

fun verify_fill :: "gateway \<Rightarrow> string \<Rightarrow> nat \<Rightarrow> broker_call list \<Rightarrow> fill \<times> broker_call list" where
  "verify_fill gw oid 0 tr = (NotFilled, tr)"
| "verify_fill gw oid (Suc n) tr =
     (let tr1 = tr @ [Status oid] in
      case gw_status gw tr1 of
        StatusIs Complete a f \<Rightarrow> (Filled (get_or 0 a) f, tr1)
      | StatusIs Rejected a f \<Rightarrow> (NotFilled, tr1)
      | StatusIs Cancelled a f \<Rightarrow> (NotFilled, tr1)
      | _ \<Rightarrow> verify_fill gw oid n tr1)"

section \<open>Placing an order\<close>

text \<open>
  What \<open>place_order\<close> gets from the rest of the broker object: the contract of the direction, whether
  the re-subscription and the stream synchronisation succeeded, the token, the tick of the feed and
  the REST tick fetched when the feed is still on another symbol.
\<close>

record order_context =
  ox_symbol :: string
  ox_strike :: int
  ox_resubscribed :: bool
  ox_synced :: bool
  ox_token_known :: bool
  ox_tick :: "tick option"
  ox_rest_tick :: "tick option"
  ox_paper_id :: string
  ox_now :: instant
  ox_sl_points :: real
  ox_tp_points :: real

definition paper_order :: "order_context \<Rightarrow> side \<Rightarrow> int \<Rightarrow> option_type \<Rightarrow> trade option" where
  "paper_order x sd q dir =
     (let tick0 = (case ox_tick x of
                     Some t \<Rightarrow> if tick_symbol t \<noteq> ox_symbol x
                              then (case ox_rest_tick x of Some r \<Rightarrow> Some r | None \<Rightarrow> Some t)
                              else Some t
                   | None \<Rightarrow> None)
      in case tick0 of None \<Rightarrow> None
         | Some t \<Rightarrow>
             Some (filled_trade (ox_paper_id x) (if sd = BUY then ask t else bid t)
                     (if ask t \<noteq> 0 \<and> bid t \<noteq> 0 then Some (py_round 2 (ask t - bid t)) else None)
                     (ox_now x) q sd dir (ox_symbol x) (ox_strike x) (ox_sl_points x) (ox_tp_points x)))"

definition market_order ::
  "gateway \<Rightarrow> side \<Rightarrow> int \<Rightarrow> broker_call list \<Rightarrow> string option \<times> broker_call list" where
  "market_order gw sd q tr =
     (let tr1 = tr @ [Place sd q UnspecifiedOrder] in
      case gw_place gw tr1 of Placed oid \<Rightarrow> (Some oid, tr1) | _ \<Rightarrow> (None, tr1))"

text \<open>Verification gives the trade its entry; the trade carries no \<open>entry_spread\<close> here.\<close>

definition verified_trade ::
  "gateway \<Rightarrow> order_context \<Rightarrow> side \<Rightarrow> int \<Rightarrow> option_type \<Rightarrow> string \<Rightarrow> broker_call list
    \<Rightarrow> trade option \<times> broker_call list" where
  "verified_trade gw x sd q dir oid tr =
     (case verify_fill gw oid 5 tr of
        (Filled avg shares, tr1) \<Rightarrow>
          (Some (filled_trade oid avg None (ox_now x) (get_or q shares) sd dir (ox_symbol x) (ox_strike x)
                   (ox_sl_points x) (ox_tp_points x)), tr1)
      | (NotFilled, tr1) \<Rightarrow> (None, tr1))"

definition market_and_verify ::
  "gateway \<Rightarrow> order_context \<Rightarrow> side \<Rightarrow> int \<Rightarrow> option_type \<Rightarrow> string option \<times> broker_call list
    \<Rightarrow> trade option \<times> broker_call list" where
  "market_and_verify gw x sd q dir st =
     (case (case st of (Some oid, tr) \<Rightarrow> (Some oid, tr) | (None, tr) \<Rightarrow> market_order gw sd q tr) of
        (None, tr) \<Rightarrow> (None, tr)
      | (Some oid, tr) \<Rightarrow> verified_trade gw x sd q dir oid tr)"

definition live_order ::
  "order_config \<Rightarrow> gateway \<Rightarrow> order_context \<Rightarrow> side \<Rightarrow> int \<Rightarrow> option_type \<Rightarrow> trade option \<times> broker_call list" where
  "live_order cfg gw x sd q dir =
     (if \<not> ox_token_known x then (None, [])
      else case ox_tick x of
        None \<Rightarrow> (None, [])
      | Some tk \<Rightarrow>
          if use_limit_orders cfg
          then (case limit_phase cfg gw sd q tk [] of
                  (Inl _, tr) \<Rightarrow> (None, tr)
                | (Inr oid, tr) \<Rightarrow> market_and_verify gw x sd q dir (oid, tr))
          else market_and_verify gw x sd q dir (None, []))"

definition place_order ::
  "order_config \<Rightarrow> gateway \<Rightarrow> bool \<Rightarrow> order_context \<Rightarrow> side \<Rightarrow> int \<Rightarrow> option_type
    \<Rightarrow> trade option \<times> broker_call list" where
  "place_order cfg gw paper x sd q dir =
     (if \<not> ox_resubscribed x \<or> \<not> ox_synced x then (None, [])
      else if paper then (paper_order x sd q dir, [])
      else live_order cfg gw x sd q dir)"

section \<open>Closing a position\<close>

record exit_result =
  er_pnl_inr :: real
  er_pnl_pct :: real
  er_hold_time :: real
  er_confirmed :: bool
  er_exit_price :: "real option"

definition opposite :: "side \<Rightarrow> side" where
  "opposite sd = (if sd = BUY then SELL else BUY)"

text \<open>Up to three placements; the first carries no order type, the others ask for MARKET.\<close>

fun exit_attempts ::
  "gateway \<Rightarrow> side \<Rightarrow> int \<Rightarrow> nat \<Rightarrow> bool \<Rightarrow> broker_call list \<Rightarrow> string option \<times> broker_call list" where
  "exit_attempts gw sd q 0 retry tr = (None, tr)"
| "exit_attempts gw sd q (Suc n) retry tr =
     (let tr1 = tr @ [Place sd q (if retry then MarketOrder else UnspecifiedOrder)] in
      case gw_place gw tr1 of Placed oid \<Rightarrow> (Some oid, tr1) | _ \<Rightarrow> exit_attempts gw sd q n True tr1)"

text \<open>Five looks at the order; only a complete one confirms, with its average price if reported.\<close>

fun confirm_exit :: "gateway \<Rightarrow> string \<Rightarrow> nat \<Rightarrow> broker_call list \<Rightarrow> real option option \<times> broker_call list" where
  "confirm_exit gw oid 0 tr = (None, tr)"
| "confirm_exit gw oid (Suc n) tr =
     (let tr1 = tr @ [Status oid] in
      case gw_status gw tr1 of
        StatusIs Complete a f \<Rightarrow> (Some a, tr1)
      | _ \<Rightarrow> confirm_exit gw oid n tr1)"

definition live_exit ::
  "gateway \<Rightarrow> bool \<Rightarrow> trade \<Rightarrow> real option option \<times> broker_call list" where
  "live_exit gw token_known t =
     (if \<not> token_known then (None, [])
      else case exit_attempts gw (opposite (trade_side t)) (qty t) 3 False [] of
        (None, tr) \<Rightarrow> (None, tr)
      | (Some oid, tr) \<Rightarrow> confirm_exit gw oid 5 tr)"

definition exit_max_loss :: "order_config \<Rightarrow> trade \<Rightarrow> real" where
  "exit_max_loss cfg t = (if direction t = CE then oc_max_loss_ce cfg else oc_max_loss_pe cfg)"

text \<open>The result from the tick: the engine's figure when the tick says zero, floored at the maximum loss.\<close>

definition tick_pnl :: "order_config \<Rightarrow> trade \<Rightarrow> real \<Rightarrow> real" where
  "tick_pnl cfg t exit_price =
     (let raw = points_gained t exit_price * of_int (qty t);
          engine = get_or 0 (current_pnl t);
          pnl = (if engine > 0 \<and> \<bar>raw\<bar> < 1 / 100 then engine else raw)
      in if pnl < 0 \<and> pnl < - exit_max_loss cfg t then - exit_max_loss cfg t else pnl)"

text \<open>\<open>live\<close> is the code's \<open>not PAPER_TRADING and self.broker_client\<close>.  The loop passes "not paper" for it: a live bot whose
  connection gave no client never reaches the loop (\<open>Broker_Start\<close>), and nothing takes the client away afterwards.  Called
  with \<open>live\<close> false it also says what the code does in live mode without a client: the exit counts as confirmed unsent.\<close>

definition exit_position ::
  "order_config \<Rightarrow> gateway \<Rightarrow> bool \<Rightarrow> bool \<Rightarrow> instant \<Rightarrow> real \<Rightarrow> tick option \<Rightarrow> trade
    \<Rightarrow> (py_error + exit_result) \<times> broker_call list" where
  "exit_position cfg gw live token_known now capital tk t =
     (case tk of
        None \<Rightarrow> (Inr \<lparr>er_pnl_inr = 0, er_pnl_pct = 0, er_hold_time = 0, er_confirmed = False,
                      er_exit_price = None\<rparr>, [])
      | Some k \<Rightarrow>
          let price = (if trade_side t = BUY then bid k else ask k);
              pnl = tick_pnl cfg t price;
              held = total_seconds (now - entry_time t)
          in if capital = 0 then (Inl ZeroDivisionError, [])
             else if \<not> live
             then (Inr \<lparr>er_pnl_inr = pnl, er_pnl_pct = pnl / capital * 100, er_hold_time = held,
                        er_confirmed = True, er_exit_price = Some price\<rparr>, [])
             else (case live_exit gw token_known t of
                 (None, tr) \<Rightarrow>
                   (Inr \<lparr>er_pnl_inr = pnl, er_pnl_pct = pnl / capital * 100, er_hold_time = held,
                         er_confirmed = False, er_exit_price = Some price\<rparr>, tr)
               | (Some avg, tr) \<Rightarrow>
                   let real_exit = get_or price avg;
                       real_pnl = points_gained t real_exit * of_int (qty t)
                   in (Inr \<lparr>er_pnl_inr = real_pnl, er_pnl_pct = real_pnl / capital * 100, er_hold_time = held,
                            er_confirmed = True, er_exit_price = Some real_exit\<rparr>, tr)))"

section \<open>The position cache\<close>

record position_cache =
  cached_position :: "string option"
  cached_at :: instant

definition clear_position_cache :: "position_cache \<Rightarrow> position_cache" where
  "clear_position_cache c = c\<lparr>cached_position := None, cached_at := 0\<rparr>"

text \<open>\<open>reply\<close>: \<open>None\<close> when the query raises or returns nothing, else the first position.\<close>

definition get_position_cached ::
  "instant \<Rightarrow> bool \<Rightarrow> string option \<Rightarrow> position_cache \<Rightarrow> string option \<times> position_cache" where
  "get_position_cached now force reply c =
     (if \<not> force \<and> cached_position c \<noteq> None \<and> now - cached_at c < seconds 5 then (cached_position c, c)
      else case reply of
        Some p \<Rightarrow> (Some p, c\<lparr>cached_position := Some p, cached_at := now\<rparr>)
      | None \<Rightarrow> (cached_position c, c))"

section \<open>What reaches the broker\<close>

fun is_place :: "broker_call \<Rightarrow> bool" where
  "is_place (Place sd q k) = True"
| "is_place _ = False"

definition placements :: "broker_call list \<Rightarrow> nat" where
  "placements tr = length (filter is_place tr)"

lemma placements_simps [simp]:
  "placements [] = 0" "placements (c # tr) = (if is_place c then 1 else 0) + placements tr"
  "placements (tr @ tr') = placements tr + placements tr'"
  by (simp_all add: placements_def)

text \<open>Every placement in a trace is for the side and quantity asked for.\<close>

definition only_for :: "side \<Rightarrow> int \<Rightarrow> broker_call list \<Rightarrow> bool" where
  "only_for sd q tr \<longleftrightarrow> (\<forall>c\<in>set tr. \<forall>sd' q' k. c = Place sd' q' k \<longrightarrow> sd' = sd \<and> q' = q)"

lemma only_for_simps [simp]:
  "only_for sd q []" "only_for sd q (Place sd' q' k # tr) \<longleftrightarrow> sd' = sd \<and> q' = q \<and> only_for sd q tr"
  "only_for sd q (Status oid # tr) = only_for sd q tr" "only_for sd q (Cancel oid # tr) = only_for sd q tr"
  "only_for sd q (tr @ tr') \<longleftrightarrow> only_for sd q tr \<and> only_for sd q tr'"
  by (auto simp: only_for_def)

text \<open>A trace in which the broker reported the order complete at some look.\<close>

definition seen_complete :: "gateway \<Rightarrow> string \<Rightarrow> real option \<Rightarrow> int option \<Rightarrow> broker_call list \<Rightarrow> bool" where
  "seen_complete gw oid a f tr \<longleftrightarrow>
     (\<exists>pre rest. tr = pre @ Status oid # rest \<and> gw_status gw (pre @ [Status oid]) = StatusIs Complete a f)"

lemma seen_complete_now: "gw_status gw (tr @ [Status oid]) = StatusIs Complete a f \<Longrightarrow> seen_complete gw oid a f (tr @ [Status oid])"
  by (auto simp: seen_complete_def)

lemma limit_loop_trace:
  assumes "limit_loop cfg gw sd q n p last_id tr = (r, tr')" "only_for sd q tr"
  shows "placements tr' \<le> placements tr + n \<and> only_for sd q tr'"
  using assms
proof (induction n arbitrary: p last_id tr)
  case (Suc n)
  show ?case
    using Suc.prems
    by (auto simp: Let_def split: place_reply.splits status_reply.splits order_status.splits
        dest!: Suc.IH)
qed simp

lemma exit_attempts_trace:
  assumes "exit_attempts gw sd q n retry tr = (r, tr')" "only_for sd q tr"
  shows "placements tr' \<le> placements tr + n \<and> only_for sd q tr'"
  using assms
proof (induction n arbitrary: retry tr)
  case (Suc n)
  show ?case using Suc.prems by (auto simp: Let_def split: place_reply.splits dest!: Suc.IH)
qed simp

lemma verify_fill_trace:
  assumes "verify_fill gw oid n tr = (r, tr')"
  shows "placements tr' = placements tr \<and> (only_for sd q tr \<longrightarrow> only_for sd q tr')
    \<and> (\<forall>p f. r = Filled p f \<longrightarrow> (\<exists>a. p = get_or 0 a \<and> seen_complete gw oid a f tr'))"
  using assms
proof (induction n arbitrary: tr)
  case (Suc n)
  show ?case using Suc.prems
    by (auto simp: Let_def split: status_reply.splits order_status.splits dest!: Suc.IH
        intro: seen_complete_now)
qed simp

lemma confirm_exit_trace:
  assumes "confirm_exit gw oid n tr = (r, tr')"
  shows "placements tr' = placements tr \<and> (only_for sd q tr \<longrightarrow> only_for sd q tr')
    \<and> (\<forall>a. r = Some a \<longrightarrow> (\<exists>f. seen_complete gw oid a f tr'))"
  using assms
proof (induction n arbitrary: tr)
  case (Suc n)
  show ?case using Suc.prems
    by (auto simp: Let_def split: status_reply.splits order_status.splits dest!: Suc.IH
        intro: seen_complete_now)
qed simp

lemma limit_phase_trace:
  assumes "limit_phase cfg gw sd q tk [] = (r, tr)"
  shows "placements tr \<le> limit_attempts cfg \<and> only_for sd q tr"
proof -
  obtain l tr1 where l: "limit_loop cfg gw sd q (limit_attempts cfg) (first_limit cfg sd tk) None [] = (l, tr1)"
    by fastforce
  from limit_loop_trace[OF l] have "placements tr1 \<le> limit_attempts cfg \<and> only_for sd q tr1" by simp
  with assms l show ?thesis
    by (auto simp: limit_phase_def Let_def split: option.splits status_reply.splits order_status.splits)
qed

lemma market_and_verify_trace:
  assumes "market_and_verify gw x sd q dir (o1, tr) = (r, tr')" "only_for sd q tr"
  shows "placements tr' \<le> Suc (placements tr) \<and> only_for sd q tr'
    \<and> (\<forall>t. r = Some t \<longrightarrow> (\<exists>a f. seen_complete gw (order_id t) a f tr' \<and> entry_price t = get_or 0 a
          \<and> qty t = get_or q f \<and> trade_side t = sd \<and> direction t = dir))"
proof -
  obtain o2 tr2 where m: "(case o1 of Some oid \<Rightarrow> (Some oid, tr) | None \<Rightarrow> market_order gw sd q tr) = (o2, tr2)"
    by fastforce
  have 2: "placements tr2 \<le> Suc (placements tr)" "only_for sd q tr2"
    using m assms(2) by (auto simp: market_order_def Let_def split: option.splits place_reply.splits)
  have run: "market_and_verify gw x sd q dir (o1, tr)
      = (case o2 of None \<Rightarrow> (None, tr2) | Some oid \<Rightarrow> verified_trade gw x sd q dir oid tr2)"
    using m by (cases o1) (auto simp: market_and_verify_def split: option.splits prod.splits)
  show ?thesis
  proof (cases o2)
    case None
    with run assms 2 show ?thesis by auto
  next
    case (Some oid)
    obtain fl tr3 where v: "verify_fill gw oid 5 tr2 = (fl, tr3)" by fastforce
    have vt: "placements tr3 = placements tr2" "only_for sd q tr3"
      "\<forall>p f. fl = Filled p f \<longrightarrow> (\<exists>a. p = get_or 0 a \<and> seen_complete gw oid a f tr3)"
      using verify_fill_trace[OF v, of sd q] 2 by blast+
    from run Some assms(1) v have r: "tr' = tr3"
      "r = (case fl of Filled avg sh \<Rightarrow> Some (filled_trade oid avg None (ox_now x) (get_or q sh) sd dir
              (ox_symbol x) (ox_strike x) (ox_sl_points x) (ox_tp_points x)) | NotFilled \<Rightarrow> None)"
      by (auto simp: verified_trade_def split: fill.splits)
    show ?thesis using r vt 2 by (fastforce simp: filled_trade_def Let_def split: fill.splits)
  qed
qed

lemma live_exit_trace:
  assumes "live_exit gw token t = (c, tr)"
  shows "placements tr \<le> 3 \<and> only_for (opposite (trade_side t)) (qty t) tr
    \<and> (\<forall>a. c = Some a \<longrightarrow> (\<exists>oid f. seen_complete gw oid a f tr))"
proof (cases token)
  case False
  with assms show ?thesis by (simp add: live_exit_def)
next
  case True
  obtain o1 tr2 where e: "exit_attempts gw (opposite (trade_side t)) (qty t) 3 False [] = (o1, tr2)" by fastforce
  note et = exit_attempts_trace[OF e, simplified]
  show ?thesis
  proof (cases o1)
    case None
    with assms True e et show ?thesis by (simp add: live_exit_def)
  next
    case (Some oid)
    with assms True e have "confirm_exit gw oid 5 tr2 = (c, tr)" by (simp add: live_exit_def)
    from confirm_exit_trace[OF this, of "opposite (trade_side t)" "qty t"] et show ?thesis by fastforce
  qed
qed

text \<open>Calls that can only reduce the position of a trade.\<close>

definition exit_calls :: "trade \<Rightarrow> nat \<Rightarrow> broker_call list \<Rightarrow> bool" where
  "exit_calls t n tr \<longleftrightarrow> placements tr \<le> n \<and> only_for (opposite (trade_side t)) (qty t) tr"

lemma exit_calls_Nil [simp]: "exit_calls t n []"
  by (simp add: exit_calls_def)

lemma exit_calls_append: "exit_calls t n tr \<Longrightarrow> exit_calls t k tr' \<Longrightarrow> exit_calls t (n + k) (tr @ tr')"
  by (simp add: exit_calls_def)

lemma exit_position_calls:
  "exit_position cfg gw live token now capital tk t = (r, tr) \<Longrightarrow> exit_calls t 3 tr"
  using live_exit_trace[of gw token t]
  by (auto simp only: exit_position_def exit_calls_def Let_def placements_simps only_for_simps prod.inject
      split: option.splits if_splits prod.splits)

text \<open>C18: A live entry is bounded and confirmed: whatever the broker answers, at most one placement per limit
  attempt plus one market order is sent, all for the requested side and quantity, and a trade is
  only reported after the broker has called that very order complete, with the price and filled
  quantity it reported.\<close>

theorem live_entry_bounded_and_confirmed:
  assumes "place_order cfg gw False x sd q dir = (r, tr)"
  shows "placements tr \<le> Suc (limit_attempts cfg) \<and> only_for sd q tr
    \<and> (\<forall>t. r = Some t \<longrightarrow> (\<exists>a f. seen_complete gw (order_id t) a f tr \<and> entry_price t = get_or 0 a
          \<and> qty t = get_or q f \<and> trade_side t = sd \<and> direction t = dir))"
proof (cases "ox_resubscribed x \<and> ox_synced x \<and> ox_token_known x \<and> ox_tick x \<noteq> None")
  case False
  with assms show ?thesis by (auto simp: place_order_def live_order_def split: if_splits option.splits)
next
  case True
  then obtain tk where tk: "ox_tick x = Some tk" by auto
  show ?thesis
  proof (cases "use_limit_orders cfg")
    case False
    with assms True tk have "market_and_verify gw x sd q dir (None, []) = (r, tr)"
      by (simp add: place_order_def live_order_def)
    from market_and_verify_trace[OF this] show ?thesis by simp
  next
    case lim: True
    obtain o1 tr1 where l: "limit_phase cfg gw sd q tk [] = (o1, tr1)" by fastforce
    note lt = limit_phase_trace[OF l]
    show ?thesis
    proof (cases o1)
      case (Inl u)
      with assms True tk lim l lt show ?thesis by (simp add: place_order_def live_order_def)
    next
      case (Inr o2)
      with assms True tk lim l have "market_and_verify gw x sd q dir (o2, tr1) = (r, tr)"
        by (simp add: place_order_def live_order_def)
      from market_and_verify_trace[OF this] lt show ?thesis by fastforce
    qed
  qed
qed

text \<open>A live exit is bounded and confirmed: at most three placements are sent, all for the opposite side
  and the full quantity, and the exit counts as confirmed only when the broker has called an exit
  order complete, the result then being computed from the price it reported.\<close>

theorem live_exit_bounded_and_confirmed:
  assumes "exit_position cfg gw True token now capital (Some k) t = (Inr res, tr)"
  shows "placements tr \<le> 3 \<and> only_for (opposite (trade_side t)) (qty t) tr
    \<and> (er_confirmed res \<longrightarrow> (\<exists>oid a f price. seen_complete gw oid a f tr
          \<and> er_exit_price res = Some price
          \<and> price = get_or (if trade_side t = BUY then bid k else ask k) a
          \<and> er_pnl_inr res = points_gained t price * of_int (qty t)))"
proof -
  obtain c tr1 where l: "live_exit gw token t = (c, tr1)" by fastforce
  have tr: "tr = tr1" and c: "er_confirmed res \<longleftrightarrow> c \<noteq> None"
    using assms l by (auto simp: exit_position_def Let_def split: if_splits option.splits)
  note live_exit_trace[OF l]
  moreover have "er_exit_price res = Some (get_or (if trade_side t = BUY then bid k else ask k) a)
      \<and> er_pnl_inr res = points_gained t (get_or (if trade_side t = BUY then bid k else ask k) a) * of_int (qty t)"
    if "c = Some a" for a
    using assms l that by (auto simp: exit_position_def Let_def split: if_splits)
  ultimately show ?thesis using tr c by blast
qed

text \<open>A broker that fills at once at 100, and a context for it.\<close>

definition filling_gateway :: gateway where
  "filling_gateway = \<lparr>gw_place = (\<lambda>_. Placed ''A1''), gw_status = (\<lambda>_. StatusIs Complete (Some 100) None)\<rparr>"

definition quote :: "real \<Rightarrow> real \<Rightarrow> tick" where
  "quote b a = \<lparr>ltp = b, bid = b, ask = a, tick_timestamp = 0, original_timestamp = None,
     tick_symbol = ''NIFTY'', spot_price = 24000, tick_volume = None, data_source = ''websocket'',
     tick_spread_pct = None, tick_delta = None, tick_atr = None, tick_iv = None, tick_tte_sec = None\<rparr>"

definition ready_context :: order_context where
  "ready_context = \<lparr>ox_symbol = ''NIFTY'', ox_strike = 24000, ox_resubscribed = True, ox_synced = True,
     ox_token_known = True, ox_tick = Some (quote 99 100), ox_rest_tick = None, ox_paper_id = ''P'',
     ox_now = 0, ox_sl_points = 7, ox_tp_points = 14\<rparr>"

theorem live_entry_bounded_and_confirmed_witness:
  "\<exists>t tr. place_order default_order_config filling_gateway False ready_context BUY 65 CE = (Some t, tr)
     \<and> placements tr \<le> 4 \<and> trade_side t = BUY"
proof -
  obtain r tr where *: "place_order default_order_config filling_gateway False ready_context BUY 65 CE = (r, tr)"
    by fastforce
  then have "r \<noteq> None"
    by (auto simp: place_order_def live_order_def ready_context_def default_order_config_def limit_phase_def
        limit_attempts_def market_and_verify_def verified_trade_def filling_gateway_def eval_nat_numeral Let_def)
  with live_entry_bounded_and_confirmed[OF *] * show ?thesis
    by (auto simp: limit_attempts_def default_order_config_def)
qed

definition long_call :: trade where
  "long_call = filled_trade ''T'' 100 None 0 65 BUY CE ''NIFTY'' 24000 7 14"

theorem live_exit_bounded_and_confirmed_witness:
  "\<exists>res tr. exit_position default_order_config filling_gateway True True 0 30000 (Some (quote 95 96)) long_call = (Inr res, tr)
     \<and> placements tr \<le> 3"
proof -
  obtain r tr where *: "exit_position default_order_config filling_gateway True True 0 30000 (Some (quote 95 96)) long_call = (r, tr)"
    by fastforce
  then obtain res where "r = Inr res" by (auto simp: exit_position_def Let_def split: option.splits prod.splits)
  with * live_exit_bounded_and_confirmed[of default_order_config filling_gateway True 0 30000 "quote 95 96" long_call res tr]
  show ?thesis by auto
qed

section \<open>Orders left behind\<close>

definition silent :: "status_reply \<Rightarrow> bool" where
  "silent r \<longleftrightarrow> r = StatusRaises \<or> r = NoStatus \<or> (\<exists>st a f. r = StatusIs st a f \<and> st \<in> {Cancelled, OtherStatus})"

text \<open>C35: A missing answer doubles the position: when the status of the first limit order cannot be read, or is
  one the loop does not name, a second order for the full quantity is placed at the same price and the
  first one is not cancelled before it.\<close>

theorem unreadable_status_doubles_order:
  assumes "ox_resubscribed x" "ox_synced x" "ox_token_known x" "ox_tick x = Some tk"
    and "use_limit_orders cfg" "2 \<le> limit_attempts cfg"
    and "p = first_limit cfg sd tk"
    and "gw_place gw [Place sd q (LimitOrder p)] = Placed o1"
    and "silent (gw_status gw [Place sd q (LimitOrder p), Status o1])"
  shows "\<exists>rest. snd (place_order cfg gw False x sd q dir)
    = [Place sd q (LimitOrder p), Status o1, Place sd q (LimitOrder p)] @ rest"
proof -
  have grows: "\<exists>rest. tr' = tr @ rest" if "limit_loop cfg gw sd q n p0 l tr = (r, tr')" for n p0 l tr r tr'
    using that
  proof (induction n arbitrary: p0 l tr)
    case (Suc n)
    show ?case using Suc.prems
      by (auto simp: Let_def split: place_reply.splits status_reply.splits order_status.splits dest!: Suc.IH)
  qed simp
  have vf: "\<exists>rest. tr' = tr @ rest" if "verify_fill gw oid n tr = (r, tr')" for oid n tr r tr'
    using that
  proof (induction n arbitrary: tr)
    case (Suc n)
    show ?case using Suc.prems
      by (auto simp: Let_def split: status_reply.splits order_status.splits dest!: Suc.IH)
  qed simp
  obtain m where m: "limit_attempts cfg = Suc (Suc m)" using assms(6) by (metis add_2_eq_Suc le_Suc_ex)
  let ?pre = "[Place sd q (LimitOrder p), Status o1, Place sd q (LimitOrder p)]"
  obtain l tr1 where l: "limit_loop cfg gw sd q (limit_attempts cfg) p None [] = (l, tr1)" by fastforce
  have first: "limit_loop cfg gw sd q (Suc (Suc m)) p None []
      = limit_loop cfg gw sd q (Suc m) p (Some o1) [Place sd q (LimitOrder p), Status o1]"
    using assms(8,9) by (auto simp: silent_def split: status_reply.splits order_status.splits)
  have tr1: "\<exists>rest. tr1 = ?pre @ rest"
    using l unfolding m first
    by (auto simp: Let_def split: place_reply.splits status_reply.splits order_status.splits dest!: grows)
  obtain o2 tr2 where ph: "limit_phase cfg gw sd q tk [] = (o2, tr2)" by fastforce
  have tr2: "\<exists>rest. tr2 = ?pre @ rest"
    using ph l tr1 assms(7)
    by (auto simp: limit_phase_def Let_def split: option.splits status_reply.splits order_status.splits)
  have mv: "\<exists>rest. snd (market_and_verify gw x sd q dir (o3, tr2)) = ?pre @ rest" for o3
    using tr2 by (auto simp: market_and_verify_def market_order_def verified_trade_def Let_def
        split: option.splits place_reply.splits prod.splits fill.splits dest!: vf)
  show ?thesis using assms(1-5) ph tr2 mv by (cases o2) (simp_all add: place_order_def live_order_def)
qed

definition mute_gateway :: gateway where
  "mute_gateway = \<lparr>gw_place = (\<lambda>tr. Placed ''A1''), gw_status = (\<lambda>_. NoStatus)\<rparr>"

theorem unreadable_status_doubles_order_witness:
  "\<exists>rest. snd (place_order default_order_config mute_gateway False ready_context BUY 65 CE)
    = [Place BUY 65 (LimitOrder (first_limit default_order_config BUY (quote 99 100))), Status ''A1'',
       Place BUY 65 (LimitOrder (first_limit default_order_config BUY (quote 99 100)))] @ rest"
  by (rule unreadable_status_doubles_order[OF _ _ _ _ _ _ refl])
    (simp_all add: ready_context_def default_order_config_def limit_attempts_def mute_gateway_def silent_def)

text \<open>A slow fill is forgotten: a market order that the broker accepts and still reports open at all five
  looks is reported as no trade, and nothing cancels it.\<close>

theorem slow_market_order_abandoned:
  assumes "ox_resubscribed x" "ox_synced x" "ox_token_known x" "ox_tick x = Some tk" "\<not> use_limit_orders cfg"
    and "gw_place gw [Place sd q UnspecifiedOrder] = Placed oid"
    and "\<forall>tr. \<exists>a f. gw_status gw tr = StatusIs Open a f"
  shows "place_order cfg gw False x sd q dir = (None, Place sd q UnspecifiedOrder # replicate 5 (Status oid))"
proof -
  have "verify_fill gw oid n tr = (NotFilled, tr @ replicate n (Status oid))" for n tr
  proof (induction n arbitrary: tr)
    case (Suc n)
    obtain a f where "gw_status gw (tr @ [Status oid]) = StatusIs Open a f" using assms(7) by blast
    with Suc show ?case by (simp add: Let_def)
  qed simp
  then show ?thesis
    using assms(1-6) by (simp add: place_order_def live_order_def market_and_verify_def market_order_def
        verified_trade_def)
qed

theorem slow_market_order_abandoned_witness:
  "place_order (default_order_config\<lparr>use_limit_orders := False\<rparr>)
      \<lparr>gw_place = (\<lambda>_. Placed ''A1''), gw_status = (\<lambda>_. StatusIs Open None None)\<rparr> False ready_context BUY 65 CE
   = (None, Place BUY 65 UnspecifiedOrder # replicate 5 (Status ''A1''))"
  by (rule slow_market_order_abandoned[where tk = "quote 99 100"])
    (simp_all add: ready_context_def default_order_config_def)

section \<open>The booked result\<close>

text \<open>The booked loss depends on the mode: on paper (and before confirmation) a loss is floored at the
  per-trade maximum, so a gap through the stop is booked as the stop; a confirmed live exit books the
  real loss without the floor the comment promises.\<close>

theorem loss_floor_only_on_paper:
  assumes "capital \<noteq> 0" "0 \<le> exit_max_loss cfg t"
    and "exit_position cfg gw live token now capital (Some k) t = (Inr res, tr)"
    and "price = (if trade_side t = BUY then bid k else ask k)"
    and "points_gained t price * of_int (qty t) < - exit_max_loss cfg t" "get_or 0 (current_pnl t) \<le> 0"
  shows "(\<not> live \<or> \<not> er_confirmed res \<longrightarrow> er_pnl_inr res = - exit_max_loss cfg t)
    \<and> (live \<and> er_confirmed res \<and> er_exit_price res = Some price
         \<longrightarrow> er_pnl_inr res < - exit_max_loss cfg t)"
  using assms unfolding exit_position_def tick_pnl_def Let_def
  by (auto split: if_splits option.splits prod.splits)

theorem loss_floor_only_on_paper_witness:
  "\<exists>res. exit_position default_order_config filling_gateway False True 0 30000 (Some (quote 80 81)) long_call = (Inr res, [])
     \<and> er_pnl_inr res = -455"
proof -
  obtain res where *: "exit_position default_order_config filling_gateway False True 0 30000 (Some (quote 80 81)) long_call
      = (Inr res, [])"
    by (simp add: exit_position_def Let_def)
  have "er_pnl_inr res = - exit_max_loss default_order_config long_call"
    using loss_floor_only_on_paper[OF _ _ *]
    by (simp add: exit_max_loss_def default_order_config_def long_call_def quote_def filled_trade_def Let_def
        points_gained_def)
  with * show ?thesis by (simp add: exit_max_loss_def default_order_config_def)
qed

end
