(* ===== verification/Kill_Switch.thy ===== *)
theory Kill_Switch
  imports Market_Tick
begin

text \<open>
  \<open>core/risk/kill_switch.py\<close>: the module's global counters and flags as one record, the
  stale-data kill (\<open>track_rejected_tick\<close>, \<open>reset_rejected_tick_counter\<close>), and
  \<open>emergency_check\<close> split at its early returns into the five checks it runs in order.  The
  lock only serialises the calls; each call is one step here.
\<close>

section \<open>State and settings\<close>

record kill_switch =
  tick_freeze_count :: int
  consecutive_rejected_ticks :: int
  STALE_DATA_WARNED :: bool
  stale_data_cooldown_until :: "instant option"
  consecutive_valid_ticks :: int
  wide_spread_count :: int
  kill_switch_cooldown_until :: "instant option"
  high_latency_count :: int
  high_latency_paused :: bool
  consecutive_low_latency :: int

definition initial_kill_switch :: kill_switch where
  "initial_kill_switch = \<lparr>tick_freeze_count = 0, consecutive_rejected_ticks = 0,
     STALE_DATA_WARNED = False, stale_data_cooldown_until = None, consecutive_valid_ticks = 0,
     wide_spread_count = 0, kill_switch_cooldown_until = None, high_latency_count = 0,
     high_latency_paused = False, consecutive_low_latency = 0\<rparr>"

definition CONSECUTIVE_REJECTED_TICK_LIMIT :: int where
  "CONSECUTIVE_REJECTED_TICK_LIMIT = 100"
definition STALE_DATA_COOLDOWN_SEC :: int where
  "STALE_DATA_COOLDOWN_SEC = 30"
definition CONSECUTIVE_VALID_TICKS_TO_CLEAR :: int where
  "CONSECUTIVE_VALID_TICKS_TO_CLEAR = 5"
definition WIDE_SPREAD_CONSECUTIVE_LIMIT :: int where
  "WIDE_SPREAD_CONSECUTIVE_LIMIT = 10"
definition KILL_SWITCH_SPREAD_COOLDOWN_SEC :: int where
  "KILL_SWITCH_SPREAD_COOLDOWN_SEC = 15"
definition HIGH_LATENCY_CONSECUTIVE_LIMIT :: int where
  "HIGH_LATENCY_CONSECUTIVE_LIMIT = 5"
definition LOW_LATENCY_RECOVERY_COUNT :: int where
  "LOW_LATENCY_RECOVERY_COUNT = 3"

lemmas ks_limits = CONSECUTIVE_REJECTED_TICK_LIMIT_def STALE_DATA_COOLDOWN_SEC_def
  CONSECUTIVE_VALID_TICKS_TO_CLEAR_def WIDE_SPREAD_CONSECUTIVE_LIMIT_def
  KILL_SWITCH_SPREAD_COOLDOWN_SEC_def HIGH_LATENCY_CONSECUTIVE_LIMIT_def
  LOW_LATENCY_RECOVERY_COUNT_def

text \<open>The settings read from the environment, with the defaults of \<open>config/constants.py\<close>.\<close>

record kill_config =
  TICK_TIMEOUT_SEC :: int
  HIGH_LATENCY_THRESHOLD_MS :: int
  KILL_SWITCH_SPREAD :: real
  KILL_SWITCH_DAILY_LOSS :: int
  MAX_DAILY_LOSS_AMOUNT :: int
  MAX_TRADES_PER_DAY :: int

definition default_kill_config :: kill_config where
  "default_kill_config = \<lparr>TICK_TIMEOUT_SEC = 3, HIGH_LATENCY_THRESHOLD_MS = 1500,
     KILL_SWITCH_SPREAD = 6/10, KILL_SWITCH_DAILY_LOSS = 3000,
     MAX_DAILY_LOSS_AMOUNT = 3000, MAX_TRADES_PER_DAY = 30\<rparr>"

section \<open>Stale data\<close>

text \<open>\<open>Some n\<close> is the verdict \<open>(True, "Stale data KILL", n rejected)\<close>.\<close>

definition track_rejected_tick :: "instant \<Rightarrow> kill_switch \<Rightarrow> int option \<times> kill_switch" where
  "track_rejected_tick now s =
     (let s1 = s\<lparr>consecutive_rejected_ticks := consecutive_rejected_ticks s + 1,
                 consecutive_valid_ticks := 0\<rparr>
      in if consecutive_rejected_ticks s1 \<ge> CONSECUTIVE_REJECTED_TICK_LIMIT
            \<and> \<not> STALE_DATA_WARNED s1
         then (Some (consecutive_rejected_ticks s1),
               s1\<lparr>STALE_DATA_WARNED := True,
                  stale_data_cooldown_until := Some (now + seconds STALE_DATA_COOLDOWN_SEC)\<rparr>)
         else (None, s1))"

datatype clear_info = NotStale | Cooldown int int | NeedMoreValid int int | Recovered int

fun can_clear :: "clear_info \<Rightarrow> bool" where
  "can_clear NotStale = True"
| "can_clear (Cooldown _ _) = False"
| "can_clear (NeedMoreValid _ _) = False"
| "can_clear (Recovered _) = True"

definition reset_rejected_tick_counter :: "instant \<Rightarrow> kill_switch \<Rightarrow> clear_info \<times> kill_switch" where
  "reset_rejected_tick_counter now s =
     (let s1 = s\<lparr>consecutive_valid_ticks := consecutive_valid_ticks s + 1,
                 consecutive_rejected_ticks := 0\<rparr>
      in if \<not> STALE_DATA_WARNED s1 then (NotStale, s1)
         else case stale_data_cooldown_until s1 of
           Some d \<Rightarrow>
             if now < d then (Cooldown (d - now) (consecutive_valid_ticks s1), s1)
             else if consecutive_valid_ticks s1 < CONSECUTIVE_VALID_TICKS_TO_CLEAR
             then (NeedMoreValid (consecutive_valid_ticks s1) CONSECUTIVE_VALID_TICKS_TO_CLEAR, s1)
             else (Recovered 0, s1\<lparr>STALE_DATA_WARNED := False,
                     stale_data_cooldown_until := None, consecutive_valid_ticks := 0\<rparr>)
         | None \<Rightarrow>
             if consecutive_valid_ticks s1 < CONSECUTIVE_VALID_TICKS_TO_CLEAR
             then (NeedMoreValid (consecutive_valid_ticks s1) CONSECUTIVE_VALID_TICKS_TO_CLEAR, s1)
             else (Recovered 0, s1\<lparr>STALE_DATA_WARNED := False,
                     stale_data_cooldown_until := None, consecutive_valid_ticks := 0\<rparr>))"

section \<open>Emergency check\<close>

datatype kill_reason =
    SpreadCooldown int
  | FeedFrozen real
  | LatencyPause int int
  | LatencyRecovery int int
  | WideSpreadKill real int
  | KillSwitchDailyLoss real
  | MaxDailyLossHit real
  | MaxDailyTradesHit int

text \<open>
  Each check answers \<open>Some v\<close> when the function returns there, with \<open>v = None\<close> for
  \<open>(False, "", {})\<close> and \<open>v = Some r\<close> for a triggered kill.
\<close>

type_synonym kill_verdict = "kill_reason option"

definition spread_cooldown_check ::
  "instant \<Rightarrow> kill_switch \<Rightarrow> kill_verdict option \<times> kill_switch" where
  "spread_cooldown_check now s =
     (case kill_switch_cooldown_until s of
        None \<Rightarrow> (None, s)
      | Some d \<Rightarrow>
          if now < d then (Some (Some (SpreadCooldown (d - now))), s)
          else (None, s\<lparr>kill_switch_cooldown_until := None, wide_spread_count := 0\<rparr>))"

definition tick_freeze_check ::
  "kill_config \<Rightarrow> instant \<Rightarrow> instant option \<Rightarrow> kill_switch \<Rightarrow> kill_verdict option \<times> kill_switch" where
  "tick_freeze_check cfg now last_tick s =
     (case last_tick of
        None \<Rightarrow> (None, s)
      | Some t \<Rightarrow>
          let idle = total_seconds (now - t)
          in if idle > of_int (TICK_TIMEOUT_SEC cfg)
             then let s1 = s\<lparr>tick_freeze_count := tick_freeze_count s + 1\<rparr>
                  in if tick_freeze_count s1 > 3 then (Some (Some (FeedFrozen idle)), s1)
                     else (None, s1)
             else (None, s))"

definition latency_check ::
  "kill_config \<Rightarrow> int \<Rightarrow> kill_switch \<Rightarrow> kill_verdict option \<times> kill_switch" where
  "latency_check cfg latency s =
     (if latency > HIGH_LATENCY_THRESHOLD_MS cfg
      then let s1 = s\<lparr>high_latency_count := high_latency_count s + 1, consecutive_low_latency := 0\<rparr>
           in if high_latency_count s1 \<ge> HIGH_LATENCY_CONSECUTIVE_LIMIT
              then (Some (Some (LatencyPause latency (high_latency_count s1))),
                    s1\<lparr>high_latency_paused := True\<rparr>)
              else (Some None, s1)
      else let s1 = s\<lparr>high_latency_count := 0,
                      consecutive_low_latency := consecutive_low_latency s + 1\<rparr>
           in if high_latency_paused s1
              then if consecutive_low_latency s1 \<ge> LOW_LATENCY_RECOVERY_COUNT
                   then (None, s1\<lparr>high_latency_paused := False\<rparr>)
                   else (Some (Some (LatencyRecovery latency (consecutive_low_latency s1))), s1)
              else (None, s1))"

definition spread_check ::
  "kill_config \<Rightarrow> instant \<Rightarrow> real \<Rightarrow> kill_switch \<Rightarrow> kill_verdict option \<times> kill_switch" where
  "spread_check cfg now spread s =
     (if spread \<ge> KILL_SWITCH_SPREAD cfg
      then let s1 = s\<lparr>wide_spread_count := wide_spread_count s + 1\<rparr>
           in if wide_spread_count s1 \<ge> WIDE_SPREAD_CONSECUTIVE_LIMIT
              then (Some (Some (WideSpreadKill spread (wide_spread_count s1))),
                    s1\<lparr>kill_switch_cooldown_until :=
                         Some (now + seconds KILL_SWITCH_SPREAD_COOLDOWN_SEC)\<rparr>)
              else (Some None, s1)
      else (None, s\<lparr>wide_spread_count := 0\<rparr>))"

definition limits_check ::
  "kill_config \<Rightarrow> real \<Rightarrow> int \<Rightarrow> kill_switch \<Rightarrow> kill_verdict \<times> kill_switch" where
  "limits_check cfg pnl trades s =
     (if \<bar>pnl\<bar> \<ge> of_int (KILL_SWITCH_DAILY_LOSS cfg) \<and> pnl < 0
      then (Some (KillSwitchDailyLoss pnl), s)
      else if \<bar>pnl\<bar> \<ge> of_int (MAX_DAILY_LOSS_AMOUNT cfg) \<and> pnl < 0
      then (Some (MaxDailyLossHit pnl), s)
      else if trades \<ge> MAX_TRADES_PER_DAY cfg
      then (Some (MaxDailyTradesHit trades), s)
      else (None, s\<lparr>tick_freeze_count := 0\<rparr>))"

definition emergency_check ::
  "kill_config \<Rightarrow> instant \<Rightarrow> tick \<Rightarrow> real \<Rightarrow> int \<Rightarrow> instant option \<Rightarrow> kill_switch
    \<Rightarrow> (py_error + kill_verdict) \<times> kill_switch" where
  "emergency_check cfg now t pnl trades last_tick s =
     then_check (spread_cooldown_check now s) (\<lambda>s.
     then_check (tick_freeze_check cfg now last_tick s) (\<lambda>s.
     then_check (latency_check cfg (calc_latency_ms now t) s) (\<lambda>s.
       case spread_pct t of
         Inl e \<Rightarrow> (Inl e, s)
       | Inr sp \<Rightarrow>
           then_check (spread_check cfg now sp s) (\<lambda>s.
             let (v, s') = limits_check cfg pnl trades s in (Inr v, s')))))"

text \<open>\<open>check_daily_loss_alert\<close>: (continue trading, alerted).\<close>

definition check_daily_loss_alert :: "real \<Rightarrow> real \<Rightarrow> real \<Rightarrow> bool \<Rightarrow> bool \<times> bool" where
  "check_daily_loss_alert max_loss alert_threshold pnl already_alerted =
     (if pnl \<le> - max_loss then (False, already_alerted)
      else if pnl \<le> - alert_threshold \<and> \<not> already_alerted then (True, True)
      else (True, already_alerted))"

section \<open>Runs of the kill switch\<close>

text \<open>
  The main loop drives the module with three calls.  The step relation lists them; a reachable
  state is one the loop can bring the module into.
\<close>

inductive ks_step :: "kill_config \<Rightarrow> kill_switch \<Rightarrow> kill_switch \<Rightarrow> bool" for cfg where
  reject: "ks_step cfg s (snd (track_rejected_tick now s))"
| accept: "ks_step cfg s (snd (reset_rejected_tick_counter now s))"
| check: "ks_step cfg s (snd (emergency_check cfg now t pnl trades last_tick s))"

inductive ks_reachable :: "kill_config \<Rightarrow> kill_switch \<Rightarrow> bool" for cfg where
  start: "ks_reachable cfg initial_kill_switch"
| step: "ks_reachable cfg s \<Longrightarrow> ks_step cfg s s' \<Longrightarrow> ks_reachable cfg s'"

inductive_cases ks_stepE: "ks_step cfg s s'"

definition ks_inv :: "kill_switch \<Rightarrow> bool" where
  "ks_inv s \<longleftrightarrow>
     (STALE_DATA_WARNED s \<longleftrightarrow> stale_data_cooldown_until s \<noteq> None) \<and>
     (\<not> STALE_DATA_WARNED s \<longrightarrow> consecutive_rejected_ticks s < 100) \<and>
     0 \<le> consecutive_rejected_ticks s \<and> 0 \<le> consecutive_valid_ticks s \<and>
     (consecutive_rejected_ticks s = 0 \<or> consecutive_valid_ticks s = 0) \<and>
     0 \<le> wide_spread_count s \<and> wide_spread_count s \<le> 10 \<and>
     (kill_switch_cooldown_until s \<noteq> None \<longleftrightarrow> wide_spread_count s = 10) \<and>
     (5 \<le> high_latency_count s \<longrightarrow> high_latency_paused s) \<and>
     (high_latency_count s = 0 \<or> consecutive_low_latency s = 0)"

lemma ks_inv_initial: "ks_inv initial_kill_switch"
  by (simp add: ks_inv_def initial_kill_switch_def)

lemma ks_inv_reject: "ks_inv s \<Longrightarrow> ks_inv (snd (track_rejected_tick now s))"
  by (auto simp: ks_inv_def track_rejected_tick_def ks_limits Let_def)

lemma ks_inv_accept: "ks_inv s \<Longrightarrow> ks_inv (snd (reset_rejected_tick_counter now s))"
  by (auto simp: ks_inv_def reset_rejected_tick_counter_def ks_limits Let_def split: option.splits)

lemma ks_inv_cooldown: "ks_inv s \<Longrightarrow> ks_inv (snd (spread_cooldown_check now s))"
  by (auto simp: ks_inv_def spread_cooldown_check_def split: option.splits)

lemma ks_inv_freeze: "ks_inv s \<Longrightarrow> ks_inv (snd (tick_freeze_check cfg now lt s))"
  by (auto simp: ks_inv_def tick_freeze_check_def Let_def split: option.splits)

lemma ks_inv_latency: "ks_inv s \<Longrightarrow> ks_inv (snd (latency_check cfg l s))"
  by (auto simp: ks_inv_def latency_check_def ks_limits Let_def)

lemma ks_inv_spread:
  "ks_inv s \<Longrightarrow> kill_switch_cooldown_until s = None \<Longrightarrow> ks_inv (snd (spread_check cfg now sp s))"
  by (auto simp: ks_inv_def spread_check_def ks_limits Let_def)

lemma ks_inv_limits: "ks_inv s \<Longrightarrow> ks_inv (snd (limits_check cfg pnl trades s))"
  by (auto simp: ks_inv_def limits_check_def)

text \<open>What each check leaves of the spread cooldown, and what falling through it means.\<close>

lemma cooldown_fallthrough:
  "fst (spread_cooldown_check now s) = None \<Longrightarrow>
    kill_switch_cooldown_until (snd (spread_cooldown_check now s)) = None"
  by (auto simp: spread_cooldown_check_def split: option.splits if_splits)

lemma freeze_frame [simp]:
  "kill_switch_cooldown_until (snd (tick_freeze_check cfg now lt s)) = kill_switch_cooldown_until s"
  "wide_spread_count (snd (tick_freeze_check cfg now lt s)) = wide_spread_count s"
  "high_latency_paused (snd (tick_freeze_check cfg now lt s)) = high_latency_paused s"
  "high_latency_count (snd (tick_freeze_check cfg now lt s)) = high_latency_count s"
  "consecutive_low_latency (snd (tick_freeze_check cfg now lt s)) = consecutive_low_latency s"
  by (auto simp: tick_freeze_check_def Let_def split: option.splits)

lemma latency_frame [simp]:
  "kill_switch_cooldown_until (snd (latency_check cfg l s)) = kill_switch_cooldown_until s"
  "wide_spread_count (snd (latency_check cfg l s)) = wide_spread_count s"
  by (auto simp: latency_check_def Let_def)

text \<open>The state after a call is one of the intermediate states of its five checks.\<close>

lemma emergency_check_cases:
  assumes "P (snd (spread_cooldown_check now s))"
    and "\<And>s. P s \<Longrightarrow> kill_switch_cooldown_until s = None \<Longrightarrow> P (snd (tick_freeze_check cfg now lt s))"
    and "\<And>s l. P s \<Longrightarrow> kill_switch_cooldown_until s = None \<Longrightarrow> P (snd (latency_check cfg l s))"
    and "\<And>s sp. P s \<Longrightarrow> kill_switch_cooldown_until s = None \<Longrightarrow> P (snd (spread_check cfg now sp s))"
    and "\<And>s. P s \<Longrightarrow> P (snd (limits_check cfg pnl trades s))"
  shows "P (snd (emergency_check cfg now t pnl trades lt s))"
proof -
  let ?a = "spread_cooldown_check now s"
  let ?b = "tick_freeze_check cfg now lt (snd ?a)"
  let ?c = "latency_check cfg (calc_latency_ms now t) (snd ?b)"
  show ?thesis
  proof (cases "fst ?a")
    case None
    then have n: "kill_switch_cooldown_until (snd ?a) = None" by (rule cooldown_fallthrough)
    with assms(1,2,3) have "P (snd ?b)" "P (snd ?c)" by auto
    then show ?thesis
      using n assms(4,5)
      by (auto simp: emergency_check_def then_check_def None split: option.splits sum.splits prod.splits)
         (metis latency_frame(1) freeze_frame(1) snd_conv)+
  next
    case (Some v)
    with assms(1) show ?thesis by (simp add: emergency_check_def then_check_def)
  qed
qed

lemma ks_inv_emergency: "ks_inv s \<Longrightarrow> ks_inv (snd (emergency_check cfg now t pnl trades lt s))"
  by (rule emergency_check_cases)
     (simp_all add: ks_inv_cooldown ks_inv_freeze ks_inv_latency ks_inv_spread ks_inv_limits)

lemma ks_step_inv: "ks_step cfg s s' \<Longrightarrow> ks_inv s \<Longrightarrow> ks_inv s'"
  by (auto elim!: ks_stepE intro: ks_inv_reject ks_inv_accept ks_inv_emergency)

lemma ks_reachable_inv: "ks_reachable cfg s \<Longrightarrow> ks_inv s"
  by (induction rule: ks_reachable.induct) (auto intro: ks_inv_initial ks_step_inv)

section \<open>Properties\<close>

subsection \<open>The counters and the deadlines agree\<close>

text \<open>in every reachable state of the module the stale-data flag is up exactly while a
  stale-data deadline is stored, at most 99 rejected ticks pass without raising it, the
  wide-spread counter never exceeds its limit of 10 and stands at 10 exactly while the spread
  cooldown runs, and five high-latency ticks in a row imply the latency pause.\<close>

theorem ks_reachable_consistent:
  assumes "ks_reachable cfg s"
  shows "(STALE_DATA_WARNED s \<longleftrightarrow> stale_data_cooldown_until s \<noteq> None)
    \<and> (STALE_DATA_WARNED s \<or> consecutive_rejected_ticks s < CONSECUTIVE_REJECTED_TICK_LIMIT)
    \<and> wide_spread_count s \<le> WIDE_SPREAD_CONSECUTIVE_LIMIT
    \<and> (kill_switch_cooldown_until s \<noteq> None \<longleftrightarrow> wide_spread_count s = WIDE_SPREAD_CONSECUTIVE_LIMIT)
    \<and> (high_latency_count s < HIGH_LATENCY_CONSECUTIVE_LIMIT \<or> high_latency_paused s)"
  using ks_reachable_inv[OF assms] by (auto simp: ks_inv_def ks_limits)

definition quiet_tick :: tick where
  "quiet_tick = \<lparr>ltp = 100, bid = 99, ask = 100, tick_timestamp = 0, original_timestamp = None,
     tick_symbol = [], spot_price = 0, tick_volume = None, data_source = [],
     tick_spread_pct = None, tick_delta = None, tick_atr = None,
     tick_iv = None, tick_tte_sec = None\<rparr>"

theorem ks_reachable_consistent_witness:
  "wide_spread_count (snd (emergency_check default_kill_config 0 quiet_tick 0 0 None
      initial_kill_switch)) \<le> WIDE_SPREAD_CONSECUTIVE_LIMIT"
proof -
  have "ks_reachable default_kill_config
      (snd (emergency_check default_kill_config 0 quiet_tick 0 0 None initial_kill_switch))"
    by (rule ks_reachable.step[OF ks_reachable.start ks_step.check])
  from ks_reachable_consistent[OF this] show ?thesis by simp
qed

subsection \<open>What a passed check guarantees\<close>

lemma limits_pass:
  assumes "limits_check cfg pnl trades s = (None, s')"
    and "0 < KILL_SWITCH_DAILY_LOSS cfg" "0 < MAX_DAILY_LOSS_AMOUNT cfg"
  shows "- of_int (KILL_SWITCH_DAILY_LOSS cfg) < pnl \<and> - of_int (MAX_DAILY_LOSS_AMOUNT cfg) < pnl
    \<and> trades < MAX_TRADES_PER_DAY cfg \<and> s' = s\<lparr>tick_freeze_count := 0\<rparr>"
proof (cases "pnl < 0")
  case True
  with assms show ?thesis by (auto simp: limits_check_def split: if_splits)
next
  case False
  then have "- of_int (KILL_SWITCH_DAILY_LOSS cfg) < pnl" "- of_int (MAX_DAILY_LOSS_AMOUNT cfg) < pnl"
    using assms(2,3) by (simp_all add: not_less)
  with False assms show ?thesis by (auto simp: limits_check_def split: if_splits)
qed

lemma latency_fallthrough:
  "fst (latency_check cfg l s) = None \<Longrightarrow>
     l \<le> HIGH_LATENCY_THRESHOLD_MS cfg \<and> \<not> high_latency_paused (snd (latency_check cfg l s))
     \<and> high_latency_count (snd (latency_check cfg l s)) = 0"
  by (auto simp: latency_check_def Let_def split: if_splits)

lemma latency_pass:
  "fst (latency_check cfg l s) = Some None \<Longrightarrow>
     HIGH_LATENCY_THRESHOLD_MS cfg < l
     \<and> high_latency_count (snd (latency_check cfg l s)) < HIGH_LATENCY_CONSECUTIVE_LIMIT"
  by (auto simp: latency_check_def Let_def split: if_splits)

lemma spread_fallthrough:
  "fst (spread_check cfg now sp s) = None \<Longrightarrow>
     sp < KILL_SWITCH_SPREAD cfg \<and> snd (spread_check cfg now sp s) = s\<lparr>wide_spread_count := 0\<rparr>"
  by (auto simp: spread_check_def Let_def split: if_splits)

lemma spread_pass:
  "fst (spread_check cfg now sp s) = Some None \<Longrightarrow>
     KILL_SWITCH_SPREAD cfg \<le> sp
     \<and> snd (spread_check cfg now sp s) = s\<lparr>wide_spread_count := wide_spread_count s + 1\<rparr>
     \<and> wide_spread_count s + 1 < WIDE_SPREAD_CONSECUTIVE_LIMIT"
  by (auto simp: spread_check_def Let_def split: if_splits)

lemma no_early_pass [simp]:
  "fst (spread_cooldown_check now s) \<noteq> Some None"
  "fst (tick_freeze_check cfg now lt s) \<noteq> Some None"
  by (auto simp: spread_cooldown_check_def tick_freeze_check_def Let_def split: option.splits)

text \<open>C36: a tick passes the emergency check in exactly one of three ways: its latency is
  too high but fewer than five such ticks came in a row; its latency is fine and its spread is
  too wide but for fewer than ten ticks in a row; or latency and spread are fine, and then the
  day's loss is inside both loss limits, the trade count is below the maximum, no latency pause
  and no spread cooldown is left in force, and the freeze counter is cleared.\<close>

theorem emergency_pass_cases:
  assumes pass: "emergency_check cfg now t pnl trades lt s = (Inr None, s')"
    and pos: "0 < KILL_SWITCH_DAILY_LOSS cfg" "0 < MAX_DAILY_LOSS_AMOUNT cfg"
  shows "(HIGH_LATENCY_THRESHOLD_MS cfg < calc_latency_ms now t
            \<and> high_latency_count s' < HIGH_LATENCY_CONSECUTIVE_LIMIT)
    \<or> (calc_latency_ms now t \<le> HIGH_LATENCY_THRESHOLD_MS cfg
            \<and> (\<exists>sp. spread_pct t = Inr sp \<and> KILL_SWITCH_SPREAD cfg \<le> sp)
            \<and> wide_spread_count s' < WIDE_SPREAD_CONSECUTIVE_LIMIT)
    \<or> (calc_latency_ms now t \<le> HIGH_LATENCY_THRESHOLD_MS cfg
            \<and> (\<exists>sp. spread_pct t = Inr sp \<and> sp < KILL_SWITCH_SPREAD cfg)
            \<and> - of_int (KILL_SWITCH_DAILY_LOSS cfg) < pnl
            \<and> - of_int (MAX_DAILY_LOSS_AMOUNT cfg) < pnl \<and> trades < MAX_TRADES_PER_DAY cfg
            \<and> \<not> high_latency_paused s' \<and> kill_switch_cooldown_until s' = None
            \<and> wide_spread_count s' = 0 \<and> tick_freeze_count s' = 0)"
proof -
  let ?a = "spread_cooldown_check now s"
  let ?b = "tick_freeze_check cfg now lt (snd ?a)"
  let ?l = "calc_latency_ms now t"
  let ?c = "latency_check cfg ?l (snd ?b)"
  have a: "fst ?a = None" and b: "fst ?b = None"
    using pass no_early_pass by (auto simp: emergency_check_def then_check_def split: option.splits)
  have cd: "kill_switch_cooldown_until (snd ?c) = None"
    using cooldown_fallthrough[OF a] by simp
  show ?thesis
  proof (cases "fst ?c")
    case (Some v)
    then have "fst ?c = Some None" "s' = snd ?c"
      using pass a b by (auto simp: emergency_check_def then_check_def)
    with latency_pass show ?thesis by blast
  next
    case None
    note lat = latency_fallthrough[OF None]
    obtain sp where sp: "spread_pct t = Inr sp"
      using pass a b None by (cases "spread_pct t") (auto simp: emergency_check_def then_check_def)
    let ?d = "spread_check cfg now sp (snd ?c)"
    show ?thesis
    proof (cases "fst ?d")
      case (Some v)
      then have "fst ?d = Some None" "s' = snd ?d"
        using pass a b None sp by (auto simp: emergency_check_def then_check_def)
      with spread_pass[OF this(1)] sp lat show ?thesis by auto
    next
      case d: None
      have "limits_check cfg pnl trades (snd ?d) = (None, s')"
        using pass a b None sp d
        by (auto simp: emergency_check_def then_check_def split: prod.splits)
      from limits_pass[OF this pos] spread_fallthrough[OF d] sp lat cd show ?thesis by simp
    qed
  qed
qed

theorem emergency_pass_cases_witness:
  "emergency_check default_kill_config 0 (quiet_tick\<lparr>bid := 995/10\<rparr>) (-100) 3 None initial_kill_switch
     = (Inr None, initial_kill_switch\<lparr>consecutive_low_latency := 1\<rparr>)
   \<and> 0 < KILL_SWITCH_DAILY_LOSS default_kill_config \<and> 0 < MAX_DAILY_LOSS_AMOUNT default_kill_config
   \<and> 3 < MAX_TRADES_PER_DAY default_kill_config
   \<and> kill_switch_cooldown_until (initial_kill_switch\<lparr>consecutive_low_latency := 1\<rparr>) = None"
proof -
  have pass: "emergency_check default_kill_config 0 (quiet_tick\<lparr>bid := 995/10\<rparr>) (-100) 3 None
      initial_kill_switch = (Inr None, initial_kill_switch\<lparr>consecutive_low_latency := 1\<rparr>)"
    by (simp add: emergency_check_def spread_cooldown_check_def tick_freeze_check_def
        latency_check_def spread_check_def limits_check_def spread_pct_def calc_latency_ms_def
        current_time_ms_def default_kill_config_def quiet_tick_def initial_kill_switch_def)
  have pos: "0 < KILL_SWITCH_DAILY_LOSS default_kill_config" "0 < MAX_DAILY_LOSS_AMOUNT default_kill_config"
    by (simp_all add: default_kill_config_def)
  have "3 < MAX_TRADES_PER_DAY default_kill_config
     \<and> kill_switch_cooldown_until (initial_kill_switch\<lparr>consecutive_low_latency := 1\<rparr>) = None"
    using emergency_pass_cases[OF pass pos]
    by (simp add: default_kill_config_def spread_pct_def quiet_tick_def calc_latency_ms_def current_time_ms_def initial_kill_switch_def)
  with pass pos show ?thesis by blast
qed

subsection \<open>Consecutive wide spreads\<close>

text \<open>One loop iteration's input: time, tick, day's P\&L, trades today, last valid tick time.\<close>

type_synonym loop_input = "instant \<times> tick \<times> real \<times> int \<times> instant option"

fun emergency_run ::
  "kill_config \<Rightarrow> loop_input list \<Rightarrow> kill_switch \<Rightarrow> (py_error + kill_verdict) list \<times> kill_switch" where
  "emergency_run cfg [] s = ([], s)"
| "emergency_run cfg ((now, t, pnl, trades, lt) # es) s =
     (let (v, s1) = emergency_check cfg now t pnl trades lt s;
          (vs, s2) = emergency_run cfg es s1
      in (v # vs, s2))"

fun feed_fresh :: "kill_config \<Rightarrow> loop_input \<Rightarrow> bool" where
  "feed_fresh cfg (now, t, pnl, trades, lt) =
     (case lt of None \<Rightarrow> True | Some u \<Rightarrow> total_seconds (now - u) \<le> of_int (TICK_TIMEOUT_SEC cfg))"

fun wide_input :: "kill_config \<Rightarrow> loop_input \<Rightarrow> bool" where
  "wide_input cfg (now, t, pnl, trades, lt) =
     (feed_fresh cfg (now, t, pnl, trades, lt)
      \<and> calc_latency_ms now t \<le> HIGH_LATENCY_THRESHOLD_MS cfg
      \<and> (case spread_pct t of Inl _ \<Rightarrow> False | Inr sp \<Rightarrow> KILL_SWITCH_SPREAD cfg \<le> sp))"

text \<open>A state in which only the wide-spread counter can matter.\<close>

definition counting :: "int \<Rightarrow> kill_switch \<Rightarrow> bool" where
  "counting n s \<longleftrightarrow>
     wide_spread_count s = n \<and> kill_switch_cooldown_until s = None \<and> \<not> high_latency_paused s"

lemma freeze_fresh:
  "feed_fresh cfg (now, t, pnl, trades, lt) \<Longrightarrow> tick_freeze_check cfg now lt s = (None, s)"
  by (auto simp: tick_freeze_check_def Let_def split: option.splits)

lemma emergency_check_wide:
  assumes "wide_input cfg (now, t, pnl, trades, lt)" and "counting n s"
  shows "fst (emergency_check cfg now t pnl trades lt s) =
           (if n + 1 < WIDE_SPREAD_CONSECUTIVE_LIMIT then Inr None
            else case spread_pct t of Inl e \<Rightarrow> Inl e | Inr sp \<Rightarrow> Inr (Some (WideSpreadKill sp (n + 1))))"
    and "n + 1 < WIDE_SPREAD_CONSECUTIVE_LIMIT \<Longrightarrow>
           counting (n + 1) (snd (emergency_check cfg now t pnl trades lt s))"
    and "WIDE_SPREAD_CONSECUTIVE_LIMIT \<le> n + 1 \<Longrightarrow>
           kill_switch_cooldown_until (snd (emergency_check cfg now t pnl trades lt s))
             = Some (now + seconds KILL_SWITCH_SPREAD_COOLDOWN_SEC)"
  using assms freeze_fresh[of cfg now t pnl trades lt s]
  by (auto simp: emergency_check_def spread_cooldown_check_def latency_check_def spread_check_def
      counting_def Let_def split: sum.splits)

lemma emergency_run_wide:
  assumes "list_all (wide_input cfg) es" "counting n s"
    and "n + int (length es) < WIDE_SPREAD_CONSECUTIVE_LIMIT"
  shows "fst (emergency_run cfg es s) = replicate (length es) (Inr None)
    \<and> counting (n + int (length es)) (snd (emergency_run cfg es s))"
  using assms
proof (induction es arbitrary: n s)
  case Nil
  then show ?case by simp
next
  case (Cons e es)
  obtain now t pnl trades lt where e: "e = (now, t, pnl, trades, lt)" by (cases e)
  let ?r = "emergency_check cfg now t pnl trades lt s"
  from Cons.prems have w: "wide_input cfg (now, t, pnl, trades, lt)"
    and lim: "n + 1 < WIDE_SPREAD_CONSECUTIVE_LIMIT" by (auto simp: e)
  note one = emergency_check_wide[OF w Cons.prems(2)]
  have "fst ?r = Inr None" "counting (n + 1) (snd ?r)"
    using one(1) one(2) lim by auto
  with Cons.IH[of "n + 1" "snd ?r"] Cons.prems show ?case
    by (simp add: e split_beta Let_def algebra_simps)
qed

text \<open>the wide-spread kill fires on the tenth wide tick in a row and not before.  From a
  state with no wide tick counted and no pause in force, any shorter run of wide, fresh ticks
  passes the check on every tick - whatever the day's loss and trade count are meanwhile,
  because those limits are only looked at after the spread - and the tenth one kills and arms
  the 15 second cooldown.\<close>

theorem wide_spread_kill_on_tenth:
  assumes "list_all (wide_input cfg) es" and "length es = 9" and "counting 0 s"
    and "wide_input cfg (now, t, pnl, trades, lt)" and "spread_pct t = Inr sp"
  shows "fst (emergency_run cfg es s) = replicate 9 (Inr None)
    \<and> fst (emergency_check cfg now t pnl trades lt (snd (emergency_run cfg es s)))
        = Inr (Some (WideSpreadKill sp 10))
    \<and> kill_switch_cooldown_until
          (snd (emergency_check cfg now t pnl trades lt (snd (emergency_run cfg es s))))
        = Some (now + seconds 15)"
proof -
  have c: "counting 9 (snd (emergency_run cfg es s))"
    and r: "fst (emergency_run cfg es s) = replicate 9 (Inr None)"
    using emergency_run_wide[OF assms(1,3)] assms(2)
    by (auto simp: WIDE_SPREAD_CONSECUTIVE_LIMIT_def)
  from emergency_check_wide(1,3)[OF assms(4) c] assms(5) r show ?thesis
    by (simp add: ks_limits)
qed

lemmas ks_eval = spread_pct_def calc_latency_ms_def current_time_ms_def default_kill_config_def
  quiet_tick_def initial_kill_switch_def counting_def

text \<open>At the default settings: nine ticks with a loss far beyond the daily limit all pass.\<close>

theorem wide_spread_kill_on_tenth_witness:
  "fst (emergency_run default_kill_config
      (replicate 9 (0, quiet_tick, -50000, 99, None)) initial_kill_switch) = replicate 9 (Inr None)"
proof -
  have "wide_input default_kill_config (0, quiet_tick, -50000, 99, None)"
    "counting 0 initial_kill_switch" "spread_pct quiet_tick = Inr 1"
    by (simp_all add: ks_eval)
  then have "list_all (wide_input default_kill_config) (replicate 9 (0, quiet_tick, -50000, 99, None))"
    by (simp add: list_all_iff)
  from wide_spread_kill_on_tenth[OF this _ \<open>counting 0 _\<close> \<open>wide_input _ _\<close> \<open>spread_pct _ = _\<close>]
  show ?thesis by simp
qed

text \<open>the daily-loss and trade-count kills are skipped on a tick whose spread is too wide
  until ten such ticks came in a row: however large the loss, the check passes, so the loop goes
  on to its entry and exit logic.\<close>

theorem daily_loss_masked_by_wide_spread:
  assumes "wide_input cfg (now, t, pnl, trades, lt)" and "counting n s"
    and "n + 1 < WIDE_SPREAD_CONSECUTIVE_LIMIT"
  shows "fst (emergency_check cfg now t pnl trades lt s) = Inr None"
  using emergency_check_wide(1)[OF assms(1,2)] assms(3) by simp

theorem daily_loss_masked_by_wide_spread_witness:
  "fst (emergency_check default_kill_config 0 quiet_tick (-1000000) 1000 None
     initial_kill_switch) = Inr None"
  by (rule daily_loss_masked_by_wide_spread[where n = 0])
     (simp_all add: ks_eval WIDE_SPREAD_CONSECUTIVE_LIMIT_def)

subsection \<open>The latency pause\<close>

text \<open>while trading is paused for high latency, one tick of low latency clears the
  high-latency counter, and the next high-latency tick then passes the check although the pause
  was never lifted: the early return for "not enough consecutive" high ticks does not look at
  the pause flag.\<close>

theorem latency_pause_bypassed:
  assumes "high_latency_paused s" and "consecutive_low_latency s + 1 < LOW_LATENCY_RECOVERY_COUNT"
    and "kill_switch_cooldown_until s = None"
    and "feed_fresh cfg (now, t, pnl, trades, lt)" and "feed_fresh cfg (now', t', pnl', trades', lt')"
    and "calc_latency_ms now t \<le> HIGH_LATENCY_THRESHOLD_MS cfg"
    and "HIGH_LATENCY_THRESHOLD_MS cfg < calc_latency_ms now' t'"
  shows "\<exists>k s'. emergency_run cfg [(now, t, pnl, trades, lt), (now', t', pnl', trades', lt')] s
      = ([Inr (Some (LatencyRecovery (calc_latency_ms now t) k)), Inr None], s')
    \<and> high_latency_paused s'"
  using assms freeze_fresh[OF assms(4)] freeze_fresh[OF assms(5)]
  by (simp add: emergency_check_def spread_cooldown_check_def latency_check_def ks_limits)

theorem latency_pause_bypassed_witness:
  "\<exists>k s'. emergency_run default_kill_config
      [(2000000, quiet_tick\<lparr>tick_timestamp := 2000\<rparr>, 0, 0, None), (2000000, quiet_tick, 0, 0, None)]
      (snd (emergency_run default_kill_config
         (replicate 5 (2000000, quiet_tick, 0, 0, None)) initial_kill_switch))
      = ([Inr (Some (LatencyRecovery 0 k)), Inr None], s') \<and> high_latency_paused s'"
proof -
  let ?s = "snd (emergency_run default_kill_config
      (replicate 5 (2000000, quiet_tick, 0, 0, None)) initial_kill_switch)"
  have s: "?s = initial_kill_switch\<lparr>high_latency_count := 5, high_latency_paused := True\<rparr>"
    by (simp add: eval_nat_numeral ks_eval emergency_check_def spread_cooldown_check_def
        tick_freeze_check_def latency_check_def ks_limits)
  have z: "calc_latency_ms 2000000 (quiet_tick\<lparr>tick_timestamp := 2000\<rparr>) = 0"
    by (simp add: ks_eval)
  show ?thesis
    using latency_pause_bypassed[of ?s default_kill_config 2000000
        "quiet_tick\<lparr>tick_timestamp := 2000\<rparr>" 0 0 None 2000000 quiet_tick 0 0 None]
    unfolding s z by (simp add: ks_eval ks_limits)
qed

subsection \<open>Recovery from the stale-data kill\<close>

datatype feed_event = Rejected instant | Valid instant

fun feed_step :: "kill_switch \<Rightarrow> feed_event \<Rightarrow> kill_switch" where
  "feed_step s (Rejected now) = snd (track_rejected_tick now s)"
| "feed_step s (Valid now) = snd (reset_rejected_tick_counter now s)"

fun is_valid_event :: "feed_event \<Rightarrow> bool" where
  "is_valid_event (Valid _) = True"
| "is_valid_event (Rejected _) = False"

text \<open>How many valid ticks in a row end the history.\<close>

definition valid_tail :: "feed_event list \<Rightarrow> nat" where
  "valid_tail es = length (takeWhile is_valid_event (rev es))"

lemma valid_tail_simps [simp]:
  "valid_tail [] = 0" "valid_tail (es @ [Valid t]) = Suc (valid_tail es)"
  "valid_tail (es @ [Rejected t]) = 0"
  by (simp_all add: valid_tail_def)

lemma stale_run:
  assumes "STALE_DATA_WARNED s" "stale_data_cooldown_until s = Some d" "consecutive_valid_ticks s = 0"
  shows "(\<exists>pre t post. es = pre @ Valid t # post \<and> d \<le> t \<and> 5 \<le> valid_tail (pre @ [Valid t]))
    \<or> (let s' = foldl feed_step s es
       in STALE_DATA_WARNED s' \<and> stale_data_cooldown_until s' = Some d
          \<and> consecutive_valid_ticks s' = int (valid_tail es))"
proof (induction es rule: rev_induct)
  case Nil
  then show ?case using assms by simp
next
  case (snoc e es)
  show ?case
  proof (cases "\<exists>pre t post. es = pre @ Valid t # post \<and> d \<le> t \<and> 5 \<le> valid_tail (pre @ [Valid t])")
    case True
    then obtain pre t post where "es = pre @ Valid t # post" "d \<le> t" "5 \<le> valid_tail (pre @ [Valid t])"
      by blast
    then show ?thesis by (intro disjI1 exI[of _ pre] exI[of _ t] exI[of _ "post @ [e]"]) simp
  next
    case False
    with snoc have s': "STALE_DATA_WARNED (foldl feed_step s es)"
      "stale_data_cooldown_until (foldl feed_step s es) = Some d"
      "consecutive_valid_ticks (foldl feed_step s es) = int (valid_tail es)" by (auto simp: Let_def)
    show ?thesis
    proof (cases e)
      case (Rejected t)
      with s' show ?thesis by (simp add: track_rejected_tick_def Let_def)
    next
      case (Valid t)
      show ?thesis
      proof (cases "d \<le> t \<and> 5 \<le> valid_tail (es @ [Valid t])")
        case True
        with Valid show ?thesis by (intro disjI1 exI[of _ es] exI[of _ t] exI[of _ "[]"]) simp
      next
        case False
        with Valid s' show ?thesis
          by (auto simp: reset_rejected_tick_counter_def ks_limits Let_def)
      qed
    qed
  qed
qed

text \<open>once the stale-data kill is up it comes down only through a tick that is at or after
  the cooldown's deadline and ends a run of at least five valid ticks in a row; whatever the
  feed does meanwhile, nothing else clears it.\<close>

theorem stale_kill_clears_only_after_recovery:
  assumes "STALE_DATA_WARNED s" "stale_data_cooldown_until s = Some d" "consecutive_valid_ticks s = 0"
    and "\<not> STALE_DATA_WARNED (foldl feed_step s es)"
  shows "\<exists>pre t post. es = pre @ Valid t # post \<and> d \<le> t \<and> 5 \<le> valid_tail (pre @ [Valid t])"
  using stale_run[OF assms(1,2,3), of es] assms(4) by (auto simp: Let_def)

definition stale_example :: kill_switch where
  "stale_example = initial_kill_switch\<lparr>STALE_DATA_WARNED := True,
     stale_data_cooldown_until := Some 30, consecutive_rejected_ticks := 100\<rparr>"

theorem stale_kill_clears_only_after_recovery_witness:
  "\<exists>pre t post. [Valid 10, Valid 20, Valid 28, Valid 29, Valid 30] = pre @ Valid t # post
     \<and> (30::int) \<le> t \<and> 5 \<le> valid_tail (pre @ [Valid t])"
  by (rule stale_kill_clears_only_after_recovery[where s = stale_example])
     (simp_all add: stale_example_def initial_kill_switch_def reset_rejected_tick_counter_def ks_limits)

text \<open>The spread cooldown is a pause that ends by itself.\<close>

definition spread_cooldown_poll :: "instant \<Rightarrow> kill_switch \<Rightarrow> bool \<times> kill_switch" where
  "spread_cooldown_poll now s = (let m = spread_cooldown_check now s in (fst m = None, snd m))"

interpretation spread_gate: timed_gate spread_cooldown_poll kill_switch_cooldown_until "\<lambda>_. True"
  by unfold_locales (auto simp: spread_cooldown_poll_def spread_cooldown_check_def)

end
