(* ===== verification/State_Machine.thy ===== *)
theory State_Machine
  imports Trading_State Risk_Manager Position_Size Exit_Engine Orders Kill_Switch
begin

text \<open>
  The four handlers of \<open>core/engines/state_machine.py\<close> and the closing of a trade in
  \<open>core/main.py\<close>, composed from the risk manager, the position sizing, the exit engine and the
  order execution.  A handler maps the bot's state and its inputs to the next machine state and the
  bot it leaves.  Inputs that come from components outside this theory are arguments: whether the
  strategy signals, whether the strike rotation call succeeded, the signal parameters, the order
  context and the broker gateway.  Database, log and Telegram calls are not modelled; nor is an exception out of the
  strike rotation that follows an exit (\<open>state_machine.py:1163\<close>): \<open>check_and_rotate_strike\<close>, modelled in \<open>Strikes\<close>, catches the
  exceptions of the broker calls it makes, and what it changes is the subscription, not the state here.
\<close>

record bot =
  b_state :: trading_state
  b_risk :: risk_manager
  b_kill :: kill_switch

record machine_config =
  mc_state :: state_config
  mc_risk :: risk_config
  mc_size :: size_config
  mc_exit :: exit_config
  mc_order :: order_config
  mc_paper :: bool
  mc_sl_points :: real
  mc_stop_loss_amount :: real

definition default_machine_config :: machine_config where
  "default_machine_config = \<lparr>mc_state = default_state_config, mc_risk = default_risk_config,
     mc_size = DEFAULT_CONFIG, mc_exit = default_exit_config, mc_order = default_order_config,
     mc_paper = True, mc_sl_points = 7, mc_stop_loss_amount = 455\<rparr>"

section \<open>IDLE\<close>

text \<open>The strike rotation happens at most once a minute and only with a spot price.\<close>

definition rotate_strike :: "instant \<Rightarrow> tick \<Rightarrow> bool \<Rightarrow> trading_state \<Rightarrow> trading_state" where
  "rotate_strike now tk rotation_ok s =
     (let due = (case last_strike_rotation s of None \<Rightarrow> True
                 | Some t \<Rightarrow> total_seconds (now - t) \<ge> 60)
      in if due \<and> spot_price tk \<noteq> 0 \<and> rotation_ok then s\<lparr>last_strike_rotation := Some now\<rparr> else s)"

definition check_trade_limits ::
  "machine_config \<Rightarrow> instant \<Rightarrow> trading_state \<Rightarrow> risk_manager \<Rightarrow> bool \<times> risk_manager" where
  "check_trade_limits cfg now s rm =
     (case trade_count_limits (mc_state cfg) s of
        Some _ \<Rightarrow> (False, rm)
      | None \<Rightarrow> (case check_streak_limits (mc_risk cfg) now rm of (r, rm') \<Rightarrow> (r = None, rm')))"

text \<open>Counting consecutive signals: more than five seconds apart starts again at one.\<close>

definition count_signal :: "machine_config \<Rightarrow> instant \<Rightarrow> bool \<Rightarrow> trading_state \<Rightarrow> machine_state \<times> trading_state" where
  "count_signal cfg now has_signal s =
     (if has_signal
      then let recent = (case last_signal_time s of None \<Rightarrow> False
                         | Some t \<Rightarrow> total_seconds (now - t) < 5);
               s1 = s\<lparr>consecutive_entry_signals := (if recent then consecutive_entry_signals s + 1 else 1),
                      last_signal_time := Some now\<rparr>
           in if consecutive_entry_signals s1 < require_consecutive_signals (mc_state cfg)
              then (IDLE, s1) else (ENTRY_READY, s1)
      else (IDLE, s\<lparr>consecutive_entry_signals := 0, last_signal_time := None\<rparr>))"

definition state_idle ::
  "machine_config \<Rightarrow> instant \<Rightarrow> tick \<Rightarrow> bool \<Rightarrow> bool \<Rightarrow> bot \<Rightarrow> machine_state \<times> bot" where
  "state_idle cfg now tk rotation_ok has_signal b =
     (let s = rotate_strike now tk rotation_ok (b_state b); b1 = b\<lparr>b_state := s\<rparr>
      in if \<not> is_trading_session_allowed (mc_state cfg) now (ts_day_type s) then (IDLE, b1)
         else case check_trade_limits cfg now s (b_risk b) of
           (False, rm) \<Rightarrow> (IDLE, b1\<lparr>b_risk := rm\<rparr>)
         | (True, rm) \<Rightarrow>
             let b2 = b1\<lparr>b_risk := rm\<rparr>
             in if minute_of_day now < trading_start_min (mc_state cfg) then (IDLE, b2)
                else case check_intraday_spike now (spot_price tk) s of
                  (True, s1) \<Rightarrow> (IDLE, b2\<lparr>b_state := s1\<rparr>)
                | (False, s1) \<Rightarrow>
                    (case count_signal cfg now has_signal s1 of (m, s2) \<Rightarrow> (m, b2\<lparr>b_state := s2\<rparr>)))"

section \<open>ENTRY\_READY\<close>

text \<open>The keys of the signal parameters the handler reads; \<open>sizing_inputs\<close> may be missing altogether.\<close>

record sizing_inputs =
  si_weighted_score :: "real option"
  si_confidence :: "real option"

record signal_params =
  sg_direction :: option_type
  sg_ltp :: "real option"
  sg_stamp :: "raw_stamp option"
  sg_sizing_inputs :: "sizing_inputs option"
  sg_score :: "real option"
  sg_details_score :: "real option"
  sg_confidence :: "real option"
  sg_market_quality :: "quality_input option"
  sg_market_quality_score :: "real option"
  sg_regime :: "string option"
  sg_details_regime :: "string option"
  sg_sl_points :: "real option"

definition signal_weighted_score :: "signal_params \<Rightarrow> real" where
  "signal_weighted_score p =
     (let fallback = get_or (get_or 0 (sg_details_score p)) (sg_score p)
      in case sg_sizing_inputs p of Some si \<Rightarrow> get_or fallback (si_weighted_score si) | None \<Rightarrow> fallback)"

definition signal_confidence :: "signal_params \<Rightarrow> real" where
  "signal_confidence p =
     (let fallback = get_or 0 (sg_confidence p)
      in case sg_sizing_inputs p of Some si \<Rightarrow> get_or fallback (si_confidence si) | None \<Rightarrow> fallback)"

definition signal_sl_points :: "machine_config \<Rightarrow> signal_params \<Rightarrow> real" where
  "signal_sl_points cfg p =
     get_or (mc_stop_loss_amount cfg / of_int (max 1 (rm_lot_size (mc_risk cfg)))) (sg_sl_points p)"

text \<open>The budget handed to sizing: the risk manager's, or an empty dictionary when \<open>can_trade\<close> raised.\<close>

definition budget_of :: "risk_budget option \<Rightarrow> budget_input" where
  "budget_of rb = BudgetDict (case rb of
       None \<Rightarrow> \<lparr>bd_remaining_risk_amount = None, bd_remaining_risk_pct = None,
                bd_daily_risk_budget_pct = None, bd_daily_risk_budget_amount = None,
                bd_legacy_size_multiplier = None\<rparr>
     | Some r \<Rightarrow> \<lparr>bd_remaining_risk_amount = Some (remaining_risk_amount r),
                bd_remaining_risk_pct = Some (remaining_risk_pct r),
                bd_daily_risk_budget_pct = Some (daily_risk_budget_pct r),
                bd_daily_risk_budget_amount = Some (daily_risk_budget_amount r),
                bd_legacy_size_multiplier = Some (rb_legacy_size_multiplier r)\<rparr>)"

definition size_request :: "machine_config \<Rightarrow> trading_state \<Rightarrow> signal_params \<Rightarrow> risk_budget option \<Rightarrow> size_inputs" where
  "size_request cfg s p rb =
     \<lparr>in_capital = (case rb of None \<Rightarrow> total_capital (mc_risk cfg) | Some r \<Rightarrow> rb_capital r),
      in_risk_budget = budget_of rb,
      in_weighted_score = signal_weighted_score p,
      in_confidence = signal_confidence p,
      in_market_quality = (case sg_market_quality p of Some q \<Rightarrow> q
                           | None \<Rightarrow> QualityNumber (get_or 0 (sg_market_quality_score p))),
      in_regime = get_or (get_or ''UNKNOWN'' (sg_details_regime p)) (sg_regime p),
      in_volatility = VolDict (Some (estimated_vix s)) None,
      in_recovery_mode = (case rb of None \<Rightarrow> RecoveryDict False None
                          | Some r \<Rightarrow> RecoveryDict (recovery_active r) (Some (recovery_severity r))),
      in_daily_loss_state = LossDict (Some (case rb of None \<Rightarrow> 0 | Some r \<Rightarrow> loss_utilization r)),
      in_sl_points = signal_sl_points cfg p,
      in_lot_size = rm_lot_size (mc_risk cfg)\<rparr>"

text \<open>A block without a trade sets the short cooldown.\<close>

definition to_cooldown :: "machine_config \<Rightarrow> instant \<Rightarrow> trading_state \<Rightarrow> trading_state" where
  "to_cooldown cfg now s = s\<lparr>cooldown_until := Some (now + seconds (cooldown_non_trade_block_sec (mc_state cfg)))\<rparr>"

text \<open>
  The handler after the risk check: guard, sizing, order.  \<open>guard_tick\<close> is the tick of the traded
  contract when the subscribed one is of the other direction.
\<close>

definition enter_trade ::
  "machine_config \<Rightarrow> gateway \<Rightarrow> instant \<Rightarrow> tick \<Rightarrow> signal_params \<Rightarrow> order_context \<Rightarrow> risk_budget option
    \<Rightarrow> bot \<Rightarrow> (machine_state \<times> bot) \<times> broker_call list" where
  "enter_trade cfg gw now guard_tick p x rb b =
     (let s = b_state b; cool = (COOLDOWN, b\<lparr>b_state := to_cooldown cfg now s\<rparr>)
      in if signal_execution_guard (mc_state cfg) (sg_ltp p) (sg_stamp p) guard_tick \<noteq> GuardPass then (cool, [])
         else
           let q = position_size (calculate (mc_size cfg) (size_request cfg s p rb))
           in if q \<le> 0 then (cool, [])
              else case place_order (mc_order cfg) gw (mc_paper cfg) x BUY q (sg_direction p) of
                (None, tr) \<Rightarrow> (cool, tr)
              | (Some t, tr) \<Rightarrow>
                  ((IN_TRADE, b\<lparr>b_state := s\<lparr>current_trade := Some t, trades_this_hour := trades_this_hour s + 1\<rparr>\<rparr>), tr))"

definition state_entry_ready ::
  "machine_config \<Rightarrow> gateway \<Rightarrow> instant \<Rightarrow> real option \<Rightarrow> tick \<Rightarrow> tick \<Rightarrow> signal_params \<Rightarrow> order_context
    \<Rightarrow> bot \<Rightarrow> (machine_state \<times> bot) \<times> broker_call list" where
  "state_entry_ready cfg gw now fetched_vix tk guard_tick p x b =
     (let s = (b_state b)\<lparr>consecutive_entry_signals := 0\<rparr>
      in case can_trade (mc_risk cfg) now fetched_vix (Some (spot_price tk)) (b_risk b) of
           (Inl _, rm) \<Rightarrow> enter_trade cfg gw now guard_tick p x None (b\<lparr>b_state := s, b_risk := rm\<rparr>)
         | (Inr (Inl _), rm) \<Rightarrow> ((COOLDOWN, b\<lparr>b_state := to_cooldown cfg now s, b_risk := rm\<rparr>), [])
         | (Inr (Inr d), rm) \<Rightarrow>
             enter_trade cfg gw now guard_tick p x (Some (td_risk_budget d)) (b\<lparr>b_state := s, b_risk := rm\<rparr>))"

section \<open>Closing a trade\<close>

text \<open>The accounting shared by every exit path: the state's counters, then the risk manager.\<close>

definition account_exit ::
  "machine_config \<Rightarrow> instant \<Rightarrow> trade \<Rightarrow> exit_result \<Rightarrow> bot \<Rightarrow> (py_error + unit) \<times> bot" where
  "account_exit cfg now t res b =
     (let pnl = er_pnl_inr res;
          (r, s) = update_pnl now pnl (total_capital (mc_risk cfg)) (pnl < 0) (Some (direction t)) (b_state b)
      in case r of
           Inl e \<Rightarrow> (Inl e, b\<lparr>b_state := s\<rparr>)
         | Inr _ \<Rightarrow>
             (Inr (), b\<lparr>b_state := s\<lparr>current_trade := None\<rparr>,
                        b_risk := record_trade (mc_risk cfg) now
                          \<lparr>ct_pnl = pnl, ct_direction = Some (direction t), ct_entry_price = Some (entry_price t),
                           ct_exit_price = er_exit_price res, ct_qty = Some (qty t)\<rparr> (b_risk b)\<rparr>))"

text \<open>An exit that was not confirmed keeps the trade and asks for manual intervention.\<close>

definition hold_unconfirmed :: "bot \<Rightarrow> bot" where
  "hold_unconfirmed b =
     b\<lparr>b_state := (b_state b)\<lparr>machine := KILL_SWITCH, manual_intervention_required := True,
                             kill_switch_count := kill_switch_count (b_state b) + 1\<rparr>\<rparr>"

text \<open>\<open>close_current_trade\<close> of \<open>core/main.py\<close>; \<open>tk\<close> is the tick the exit is priced with.\<close>

definition close_current_trade ::
  "machine_config \<Rightarrow> gateway \<Rightarrow> bool \<Rightarrow> instant \<Rightarrow> tick option \<Rightarrow> bot
    \<Rightarrow> ((py_error + bool) \<times> bot) \<times> broker_call list" where
  "close_current_trade cfg gw token now tk b =
     (case current_trade (b_state b) of
        None \<Rightarrow> ((Inr True, b), [])
      | Some t \<Rightarrow>
          (case exit_position (mc_order cfg) gw (\<not> mc_paper cfg) token now (total_capital (mc_risk cfg)) tk t of
             (Inl e, tr) \<Rightarrow> ((Inl e, b), tr)
           | (Inr res, tr) \<Rightarrow>
               if \<not> er_confirmed res then ((Inr False, hold_unconfirmed b), tr)
               else (case account_exit cfg now t res b of
                       (Inl e, b1) \<Rightarrow> ((Inl e, b1), tr)
                     | (Inr _, b1) \<Rightarrow>
                         ((Inr True, b1\<lparr>b_state := (b_state b1)\<lparr>manual_intervention_required := False\<rparr>\<rparr>), tr))))"

section \<open>IN\_TRADE\<close>

text \<open>Ticks that are not used for the exit check: another symbol, or more than half away from the entry.\<close>

definition tick_unusable :: "trade \<Rightarrow> tick \<Rightarrow> bool" where
  "tick_unusable t tk \<longleftrightarrow>
     (tick_symbol tk \<noteq> '''' \<and> trade_symbol t \<noteq> '''' \<and> tick_symbol tk \<noteq> trade_symbol t)
     \<or> (entry_price t > 0 \<and> ltp tk > 0 \<and> \<bar>ltp tk - entry_price t\<bar> / entry_price t * 100 > 50)"

definition with_atr :: "machine_config \<Rightarrow> tick list \<Rightarrow> tick \<Rightarrow> tick" where
  "with_atr cfg recent tk =
     (if realised_atr_enabled (mc_state cfg) \<and> recent \<noteq> []
      then tk\<lparr>tick_atr := Some (realised_option_atr (realised_atr_window_sec (mc_state cfg)) recent)\<rparr> else tk)"

definition momentum_rsi :: "tick list \<Rightarrow> py_error + real option" where
  "momentum_rsi recent =
     (if recent = [] then Inr None
      else case calculate_rsi 14 recent of Inl e \<Rightarrow> Inl e | Inr r \<Rightarrow> Inr (Some r))"

definition exit_trade ::
  "machine_config \<Rightarrow> gateway \<Rightarrow> bool \<Rightarrow> instant \<Rightarrow> tick \<Rightarrow> trade \<Rightarrow> bot
    \<Rightarrow> ((py_error + machine_state) \<times> bot) \<times> broker_call list" where
  "exit_trade cfg gw token now tk t b =
     (case exit_position (mc_order cfg) gw (\<not> mc_paper cfg) token now (total_capital (mc_risk cfg)) (Some tk) t of
        (Inl e, tr) \<Rightarrow> ((Inl e, b), tr)
      | (Inr res, tr) \<Rightarrow>
          if \<not> er_confirmed res then ((Inr KILL_SWITCH, hold_unconfirmed b), tr)
          else (case account_exit cfg now t res b of
                  (Inl e, b1) \<Rightarrow> ((Inl e, b1), tr)
                | (Inr _, b1) \<Rightarrow>
                    let wait = get_cooldown_duration (mc_state cfg) (\<not> er_pnl_inr res < 0) (b_state b1)
                    in ((Inr COOLDOWN, b1\<lparr>b_state := (b_state b1)\<lparr>cooldown_until := Some (now + seconds wait)\<rparr>\<rparr>), tr)))"

definition state_in_trade ::
  "machine_config \<Rightarrow> greeks_validator \<Rightarrow> gateway \<Rightarrow> bool \<Rightarrow> instant \<Rightarrow> tick \<Rightarrow> greeks \<Rightarrow> tick list \<Rightarrow> bot
    \<Rightarrow> ((py_error + machine_state) \<times> bot) \<times> broker_call list" where
  "state_in_trade cfg validate gw token now tk g recent b =
     (case current_trade (b_state b) of
        None \<Rightarrow> ((Inl TypeError, b), [])
      | Some t \<Rightarrow>
          if tick_unusable t tk then ((Inr IN_TRADE, b), [])
          else case momentum_rsi recent of
            Inl e \<Rightarrow> ((Inl e, b), [])
          | Inr rsi \<Rightarrow>
              let tk1 = with_atr cfg recent tk;
                  (r, t1) = check_exit_conditions (mc_exit cfg) validate now t tk1 g (ts_day_type (b_state b)) rsi;
                  b1 = b\<lparr>b_state := (b_state b)\<lparr>current_trade := Some t1\<rparr>\<rparr>
              in case r of
                   Inl e \<Rightarrow> ((Inl e, b1), [])
                 | Inr None \<Rightarrow> ((Inr IN_TRADE, b1), [])
                 | Inr (Some _) \<Rightarrow> exit_trade cfg gw token now tk1 t1 b1)"

section \<open>COOLDOWN\<close>

definition state_cooldown :: "machine_config \<Rightarrow> instant \<Rightarrow> trading_state \<Rightarrow> machine_state \<times> trading_state" where
  "state_cooldown cfg now s =
     (let s1 = (case cooldown_until s of
                  None \<Rightarrow> s\<lparr>cooldown_until := Some (now + seconds (get_cooldown_duration (mc_state cfg) False s))\<rparr>
                | Some _ \<Rightarrow> s)
      in (if now \<ge> get_or 0 (cooldown_until s1) then IDLE else COOLDOWN, s1))"

section \<open>What a handler does to the position\<close>

text \<open>The fields that say whether a position is held and who may touch it.\<close>

definition pos :: "trading_state \<Rightarrow> trade option \<times> bool \<times> machine_state \<times> bool" where
  "pos s = (current_trade s, manual_intervention_required s, machine s, manual_stop s)"

definition bpos :: "bot \<Rightarrow> trade option \<times> bool \<times> machine_state \<times> bool" where
  "bpos b = pos (b_state b)"

lemma pos_frames [simp]:
  "pos (set_direction d n u s) = pos s"
  "pos (rotate_strike now tk r s) = pos s"
  "pos (push_spot s x) = pos s"
  "pos (to_cooldown cfg now s) = pos s"
  by (simp_all add: pos_def set_direction_def rotate_strike_def push_spot_def to_cooldown_def Let_def)

lemma spike_pos [simp]: "pos (snd (check_intraday_spike now p s)) = pos s"
proof -
  have "pos (s\<lparr>spike_pause_until := u\<rparr>) = pos s" "pos ((push_spot s' x)\<lparr>spike_pause_until := u\<rparr>) = pos s'" for u s' x
    by (simp_all add: pos_def push_spot_def Let_def)
  then show ?thesis by (auto simp: check_intraday_spike_def Let_def split: option.splits)
qed

lemma count_signal_pos [simp]: "pos (snd (count_signal cfg now sig s)) = pos s"
  by (simp add: count_signal_def pos_def Let_def)

lemma count_signal_state: "fst (count_signal cfg now sig s) = IDLE \<or> fst (count_signal cfg now sig s) = ENTRY_READY \<and> sig"
  by (simp add: count_signal_def Let_def)

lemma state_idle_pos: "bpos (snd (state_idle cfg now tk r sig b)) = bpos b"
proof -
  have sp: "pos s1 = pos s" if "check_intraday_spike now p s = (x, s1)" for p s x s1
    using spike_pos[of now p s] that by simp
  have cs: "pos s1 = pos s" if "count_signal cfg now sig s = (x, s1)" for s x s1
    using count_signal_pos[of cfg now sig s] that by simp
  show ?thesis
    by (auto simp: state_idle_def bpos_def Let_def split: prod.splits bool.splits dest!: sp cs)
qed

lemma state_idle_state: "fst (state_idle cfg now tk r sig b) = IDLE \<or> fst (state_idle cfg now tk r sig b) = ENTRY_READY"
  using count_signal_state by (auto simp: state_idle_def Let_def split: prod.splits bool.splits) (metis fst_conv)+

lemma update_pnl_pos: "pos (snd (update_pnl now p c l dir s)) = pos s"
proof -
  have f: "pos (s'\<lparr>last_trade_direction := dir, total_trades_today := n\<rparr>) = pos s'"
    "pos (s'\<lparr>daily_pnl_inr := x\<rparr>) = pos s'" "pos (s'\<lparr>daily_pnl_pct := x\<rparr>) = pos s'" for s' n x
    by (simp_all add: pos_def)
  have g: "pos (count_loss now dir s') = pos s'" "pos (count_win dir s') = pos s'" for s'
    by (simp_all add: count_loss_def count_win_def Let_def split: option.splits) (simp_all add: pos_def)
  show ?thesis unfolding update_pnl_def Let_def by (simp add: f g)
qed

lemma account_exit_facts:
  assumes "account_exit cfg now t res b = (r, b')"
  shows "(\<exists>e. r = Inl e \<and> bpos b' = bpos b)
    \<or> (r = Inr () \<and> bpos b' = (None, manual_intervention_required (b_state b), machine (b_state b), manual_stop (b_state b)))"
proof -
  obtain r1 s where u: "update_pnl now (er_pnl_inr res) (total_capital (mc_risk cfg)) (er_pnl_inr res < 0)
      (Some (direction t)) (b_state b) = (r1, s)" by fastforce
  have "pos s = pos (b_state b)" using update_pnl_pos[of now "er_pnl_inr res" _ _ _ "b_state b"] u by (metis snd_conv)
  with assms u show ?thesis
    by (cases r1) (auto simp: account_exit_def bpos_def pos_def Let_def)
qed

lemma hold_unconfirmed_pos:
  "bpos (hold_unconfirmed b) = (current_trade (b_state b), True, KILL_SWITCH, manual_stop (b_state b))"
  by (simp add: hold_unconfirmed_def bpos_def pos_def)

lemma close_current_trade_facts:
  assumes "close_current_trade cfg gw token now tk b = ((r, b'), tr)"
  shows "(\<exists>e. r = Inl e \<and> bpos b' = bpos b)
    \<or> (r = Inr False \<and> bpos b' = (current_trade (b_state b), True, KILL_SWITCH, manual_stop (b_state b)))
    \<or> (r = Inr True \<and> (\<exists>mi. bpos b' = (None, mi, machine (b_state b), manual_stop (b_state b))))"
proof (cases "current_trade (b_state b)")
  case None
  with assms show ?thesis by (auto simp: close_current_trade_def bpos_def pos_def)
next
  case (Some t)
  obtain er tr1 where e: "exit_position (mc_order cfg) gw (\<not> mc_paper cfg) token now (total_capital (mc_risk cfg)) tk t = (er, tr1)"
    by fastforce
  show ?thesis
  proof (cases er)
    case (Inl x)
    with assms Some e show ?thesis by (auto simp: close_current_trade_def)
  next
    case (Inr res)
    show ?thesis
    proof (cases "er_confirmed res")
      case False
      with assms Some e Inr show ?thesis by (auto simp: close_current_trade_def hold_unconfirmed_pos)
    next
      case True
      obtain ar b1 where a: "account_exit cfg now t res b = (ar, b1)" by fastforce
      with assms Some e Inr True account_exit_facts[OF a] show ?thesis
        by (cases ar) (auto simp: close_current_trade_def bpos_def pos_def)
    qed
  qed
qed

lemma place_order_Some_trade: "place_order cfg gw paper x sd q dir = (Some t, tr) \<Longrightarrow> current_pnl t = None \<and> highest_sl t = None"
proof -
  have "current_pnl (filled_trade a b c d e f g h i j k) = None \<and> highest_sl (filled_trade a b c d e f g h i j k) = None"
    for a b c d e f g h i j k by (simp add: filled_trade_def Let_def)
  then show "place_order cfg gw paper x sd q dir = (Some t, tr) \<Longrightarrow> ?thesis"
    by (auto simp: place_order_def paper_order_def live_order_def market_and_verify_def verified_trade_def Let_def
        split: if_splits option.splits prod.splits sum.splits fill.splits)
qed

lemma enter_trade_facts:
  assumes "enter_trade cfg gw now gt p x rb b = ((m, b'), tr)"
  shows "(m = COOLDOWN \<and> bpos b' = bpos b)
    \<or> (\<exists>t. m = IN_TRADE \<and> bpos b' = (Some t, manual_intervention_required (b_state b), machine (b_state b), manual_stop (b_state b)))"
proof -
  have c: "pos (to_cooldown cfg now (b_state b)) = pos (b_state b)" by simp
  show ?thesis using assms c
    by (auto simp: enter_trade_def bpos_def Let_def split: if_splits option.splits prod.splits) (simp add: pos_def)
qed

lemma state_entry_ready_facts:
  assumes "state_entry_ready cfg gw now v tk gt p x b = ((m, b'), tr)"
  shows "(m = COOLDOWN \<and> bpos b' = bpos b)
    \<or> (\<exists>t. m = IN_TRADE \<and> bpos b' = (Some t, manual_intervention_required (b_state b), machine (b_state b), manual_stop (b_state b)))"
proof -
  have c: "bpos (b\<lparr>b_state := (b_state b)\<lparr>consecutive_entry_signals := 0\<rparr>, b_risk := rm\<rparr>) = bpos b"
    "pos (to_cooldown cfg now ((b_state b)\<lparr>consecutive_entry_signals := 0\<rparr>)) = bpos b" for rm
    by (simp_all add: bpos_def pos_def to_cooldown_def)
  show ?thesis using assms c
    by (auto simp: state_entry_ready_def Let_def bpos_def split: prod.splits sum.splits
        dest!: enter_trade_facts)
qed

lemma state_in_trade_facts:
  assumes "state_in_trade cfg validate gw token now tk g recent b = ((r, b'), tr)" "current_trade (b_state b) \<noteq> None"
  shows "\<exists>o1 mi m. bpos b' = (o1, mi, m, manual_stop (b_state b)) \<and>
     ((r = Inr IN_TRADE \<and> o1 \<noteq> None \<and> mi = manual_intervention_required (b_state b) \<and> m = machine (b_state b))
      \<or> (r = Inr COOLDOWN \<and> o1 = None \<and> mi = manual_intervention_required (b_state b))
      \<or> (r = Inr KILL_SWITCH \<and> o1 \<noteq> None \<and> mi)
      \<or> (\<exists>e. r = Inl e \<and> o1 \<noteq> None \<and> mi = manual_intervention_required (b_state b) \<and> m = machine (b_state b)))"
proof -
  obtain t where t: "current_trade (b_state b) = Some t" using assms(2) by blast
  have exit: "\<exists>o1 mi m. bpos b2 = (o1, mi, m, manual_stop (b_state b)) \<and>
     ((r2 = Inr COOLDOWN \<and> o1 = None \<and> mi = manual_intervention_required (b_state b))
      \<or> (r2 = Inr KILL_SWITCH \<and> o1 \<noteq> None \<and> mi)
      \<or> (\<exists>e. r2 = Inl e \<and> o1 \<noteq> None \<and> mi = manual_intervention_required (b_state b) \<and> m = machine (b_state b)))"
    if e: "exit_trade cfg gw token now tk1 t1 b1 = ((r2, b2), tr2)"
      and b1: "b1 = b\<lparr>b_state := (b_state b)\<lparr>current_trade := Some t1\<rparr>\<rparr>" for tk1 t1 b1 r2 b2 tr2
  proof -
    obtain er tr1 where x: "exit_position (mc_order cfg) gw (\<not> mc_paper cfg) token now
        (total_capital (mc_risk cfg)) (Some tk1) t1 = (er, tr1)" by fastforce
    show ?thesis
    proof (cases er)
      case (Inl y)
      with e x b1 show ?thesis by (auto simp: exit_trade_def bpos_def pos_def)
    next
      case (Inr res)
      show ?thesis
      proof (cases "er_confirmed res")
        case False
        with e x b1 Inr show ?thesis by (auto simp: exit_trade_def bpos_def pos_def hold_unconfirmed_def)
      next
        case True
        obtain ar b3 where a: "account_exit cfg now t1 res b1 = (ar, b3)" by fastforce
        with e x b1 Inr True account_exit_facts[OF a] show ?thesis
          by (cases ar) (auto simp: exit_trade_def bpos_def pos_def Let_def)
      qed
    qed
  qed
  show ?thesis
    using assms(1) t
    by (auto simp: state_in_trade_def bpos_def pos_def Let_def split: if_splits sum.splits prod.splits option.splits
        dest!: exit[OF _ refl])
qed

lemma state_cooldown_facts:
  "pos (snd (state_cooldown cfg now s)) = pos s"
  "fst (state_cooldown cfg now s) = IDLE \<or> fst (state_cooldown cfg now s) = COOLDOWN"
  by (simp_all add: state_cooldown_def pos_def Let_def split: option.splits)

lemma update_pnl_ok: "c \<noteq> 0 \<Longrightarrow> \<exists>s'. update_pnl now p c l dir s = (Inr (), s') \<and> daily_pnl_inr s' = daily_pnl_inr s + p"
  by (simp add: update_pnl_def count_loss_def count_win_def set_direction_def Let_def split: option.splits)

lemma paper_close:
  assumes "mc_paper cfg" "total_capital (mc_risk cfg) \<noteq> 0" "current_trade (b_state b) = Some t"
  shows "\<exists>b' res. close_current_trade cfg gw token now (Some tk) b = ((Inr True, b'), [])
    \<and> exit_position (mc_order cfg) gw False token now (total_capital (mc_risk cfg)) (Some tk) t = (Inr res, [])
    \<and> current_trade (b_state b') = None \<and> \<not> manual_intervention_required (b_state b')
    \<and> daily_pnl_inr (b_state b') = daily_pnl_inr (b_state b) + er_pnl_inr res"
proof -
  obtain res where x: "exit_position (mc_order cfg) gw False token now (total_capital (mc_risk cfg)) (Some tk) t = (Inr res, [])"
    and c: "er_confirmed res" using assms(2) by (simp add: exit_position_def Let_def)
  obtain s' where u: "update_pnl now (er_pnl_inr res) (total_capital (mc_risk cfg)) (er_pnl_inr res < 0)
      (Some (direction t)) (b_state b) = (Inr (), s')" "daily_pnl_inr s' = daily_pnl_inr (b_state b) + er_pnl_inr res"
    using update_pnl_ok[OF assms(2)] by blast
  show ?thesis using assms x c u
    by (simp add: close_current_trade_def account_exit_def Let_def)
qed


section \<open>What a handler does to the trade it holds\<close>

text \<open>The same trade or none, its stop no looser.\<close>

definition guarded :: "machine_config \<Rightarrow> trade \<Rightarrow> trade option \<Rightarrow> bool" where
  "guarded cfg t o1 \<longleftrightarrow> (case o1 of None \<Rightarrow> True
     | Some t' \<Rightarrow> entry_part t' = entry_part t \<and> stop_level (mc_exit cfg) t \<le> stop_level (mc_exit cfg) t'
                 \<and> engine_ok (mc_exit cfg) t')"

lemma guarded_simps [simp]:
  "guarded cfg t None" "guarded cfg t (Some t) \<longleftrightarrow> engine_ok (mc_exit cfg) t"
  by (simp_all add: guarded_def)

lemma exit_calls_entry: "entry_part t' = entry_part t \<Longrightarrow> exit_calls t' n tr = exit_calls t n tr"
  by (simp add: entry_part_def exit_calls_def)

lemma account_exit_trade:
  "account_exit cfg now t res b = (r, b') \<Longrightarrow> current_trade (b_state b') = None \<or> current_trade (b_state b') = current_trade (b_state b)"
  using account_exit_facts[of cfg now t res b r b'] by (auto simp: bpos_def pos_def)

lemma close_current_trade_held:
  assumes "close_current_trade cfg gw token now tk b = ((r, b'), tr)" "current_trade (b_state b) = Some t"
  shows "exit_calls t 3 tr \<and> (current_trade (b_state b') = None \<or> current_trade (b_state b') = Some t)"
proof -
  have "current_trade (b_state b') = None \<or> current_trade (b_state b') = Some t"
    using close_current_trade_facts[OF assms(1)] assms(2) by (auto simp: bpos_def pos_def)
  moreover have "exit_calls t 3 tr"
    using assms exit_position_calls
    by (auto simp: close_current_trade_def split: prod.splits sum.splits if_splits)
  ultimately show ?thesis by simp
qed

lemma exit_trade_held:
  assumes "exit_trade cfg gw token now tk t b = ((r, b'), tr)" "current_trade (b_state b) = Some t"
  shows "exit_calls t 3 tr \<and> (current_trade (b_state b') = None \<or> current_trade (b_state b') = Some t)"
  using assms
  by (auto simp: exit_trade_def hold_unconfirmed_def Let_def dest!: exit_position_calls account_exit_trade
      split: prod.splits sum.splits if_splits)

lemma state_in_trade_held:
  assumes "state_in_trade cfg validate gw token now tk g recent b = ((r, b'), tr)"
    and "current_trade (b_state b) = Some t" "engine_ok (mc_exit cfg) t"
  shows "exit_calls t 3 tr \<and> guarded cfg t (current_trade (b_state b'))"
proof (cases "tick_unusable t tk \<or> (\<exists>e. momentum_rsi recent = Inl e)")
  case True
  with assms show ?thesis by (auto simp: state_in_trade_def split: if_splits)
next
  case False
  then obtain rsi where rsi: "momentum_rsi recent = Inr rsi" by (cases "momentum_rsi recent") auto
  define e where "e = ExitEvent now (with_atr cfg recent tk) g (ts_day_type (b_state b)) rsi"
  obtain r1 t1 where c: "check_exit_conditions (mc_exit cfg) validate now t (with_atr cfg recent tk) g
      (ts_day_type (b_state b)) rsi = (r1, t1)" by fastforce
  have "exit_step (mc_exit cfg) validate t e = t1" using c by (simp add: exit_step_def e_def)
  with exit_step_facts(1,2,4)[OF assms(3) refl, where e = e and validate = validate]
  have t1: "entry_part t1 = entry_part t" "guarded cfg t (Some t1)" by (auto simp: guarded_def)
  let ?b1 = "b\<lparr>b_state := (b_state b)\<lparr>current_trade := Some t1\<rparr>\<rparr>"
  have "exit_calls t 3 tr \<and> (current_trade (b_state b') = None \<or> current_trade (b_state b') = Some t1)"
    using assms(1,2) False rsi c exit_trade_held[of cfg gw token now "with_atr cfg recent tk" t1 ?b1 r b' tr]
    by (auto simp: state_in_trade_def Let_def exit_calls_entry[OF t1(1)] split: sum.splits option.splits)
  with t1 show ?thesis by auto
qed

lemma state_entry_ready_trade:
  assumes "state_entry_ready cfg gw now v tk gt p x b = ((m, b'), tr)" "current_trade (b_state b) = None"
    and "current_trade (b_state b') = Some t"
  shows "engine_ok (mc_exit cfg) t"
proof -
  have "highest_sl t = None"
    using assms
    by (auto simp: state_entry_ready_def enter_trade_def to_cooldown_def Let_def
        split: prod.splits sum.splits if_splits option.splits dest!: place_order_Some_trade)
  then show ?thesis by (rule fresh_trade_ok)
qed

section \<open>Ticks the exit check ignores\<close>

text \<open>A crash suspends the stop: on a tick less than half the entry price - where the exit engine's own stop
  check demands the exit and the open loss is beyond the per-trade maximum - the handler skips the exit
  check as a "wrong symbol" tick, sends nothing and stays in the trade, at any time of day.\<close>

theorem crash_suspends_stop:
  assumes "current_trade (b_state b) = Some t" "trade_side t = BUY" "0 < qty t" "engine_ok (mc_exit cfg) t"
    and "0 < ltp tk" "ltp tk < entry_price t / 2" "HARD_SL_POINTS (mc_exit cfg) \<le> entry_price t / 2"
    and "exit_max_loss (mc_order cfg) t \<le> entry_price t / 2 * of_int (qty t)"
  shows "state_in_trade cfg validate gw token now tk g recent b = ((Inr IN_TRADE, b), [])
    \<and> fst (check_hard_sl (mc_exit cfg) t tk) \<noteq> None
    \<and> points_gained t (ltp tk) * of_int (qty t) < - exit_max_loss (mc_order cfg) t"
proof -
  define d where "d = points_gained t (ltp tk)"
  have d: "d < - (entry_price t / 2)" using assms(2,6) by (simp add: d_def points_gained_def)
  have "tick_unusable t tk"
    using assms(5,6) by (auto simp: tick_unusable_def field_simps)
  then have "state_in_trade cfg validate gw token now tk g recent b = ((Inr IN_TRADE, b), [])"
    using assms(1) by (simp add: state_in_trade_def)
  moreover have "fst (check_hard_sl (mc_exit cfg) t tk) \<noteq> None"
  proof -
    obtain r t' where c: "check_hard_sl (mc_exit cfg) t tk = (r, t')" by fastforce
    note f = check_hard_sl_facts[OF c d_def]
    have "- HARD_SL_POINTS (mc_exit cfg) \<le> stop_level (mc_exit cfg) t'"
      using f(1)[OF assms(4)] by (simp add: engine_ok_def)
    with d assms(7) have "d \<le> stop_level (mc_exit cfg) t'" by linarith
    with f(6)[OF assms(4)] c show ?thesis by auto
  qed
  moreover have "d * of_int (qty t) < - exit_max_loss (mc_order cfg) t"
  proof -
    have "d * of_int (qty t) < - (entry_price t / 2) * of_int (qty t)"
      using d assms(3) by (intro mult_strict_right_mono) auto
    with assms(8) show ?thesis by simp
  qed
  ultimately show ?thesis by (simp add: d_def)
qed

theorem crash_suspends_stop_witness:
  "state_in_trade default_machine_config (\<lambda>_. None) filling_gateway True (seconds 55200) (quote 40 41) no_greeks []
      \<lparr>b_state = initial_trading_state\<lparr>current_trade := Some long_call, machine := IN_TRADE\<rparr>,
       b_risk = initial_risk_manager default_risk_config, b_kill = initial_kill_switch\<rparr>
   = ((Inr IN_TRADE, \<lparr>b_state = initial_trading_state\<lparr>current_trade := Some long_call, machine := IN_TRADE\<rparr>,
       b_risk = initial_risk_manager default_risk_config, b_kill = initial_kill_switch\<rparr>), [])"
  by (rule crash_suspends_stop[where t = long_call, THEN conjunct1])
    (simp_all add: long_call_def filled_trade_def engine_ok_def stop_level_def default_machine_config_def
      default_exit_config_def default_order_config_def exit_max_loss_def quote_def Let_def)


end
