(* ===== verification/Main_Loop.thy ===== *)
theory Main_Loop
  imports State_Machine
begin

text \<open>
  The trading loop of \<open>core/main.py\<close> as a function from one pass's inputs and the bot to the bot and
  the calls sent to the broker, and the operator's stop and resume of \<open>telegram_bot.py\<close>.  The pass
  keeps the order of the code: hourly reset, network circuit breaker, tick validation and stale-data
  kill, manual-intervention hold, emergency check, manual stop, kill handling, recovery, then the
  handler of the machine state.  What a pass reads from elsewhere - the tick, whether it validates,
  greeks, day type, VIX, the strategy's signal, the mode's permission - is its \<open>loop_input\<close>.
\<close>

record loop_config =
  lc_machine :: machine_config
  lc_kill :: kill_config
  lc_max_loss :: real
  lc_alert_threshold :: real
  lc_tick_delta_enabled :: bool

definition default_loop_config :: loop_config where
  "default_loop_config = \<lparr>lc_machine = default_machine_config, lc_kill = default_kill_config,
     lc_max_loss = 3000, lc_alert_threshold = 1500, lc_tick_delta_enabled = False\<rparr>"

record main_state =
  ms_bot :: bot
  network_sleep_count :: int
  network_backoff :: int
  last_hour_reset :: instant
  running :: bool

record loop_input =
  li_now :: instant
  li_tick :: "tick option"
  li_retry_tick :: "tick option"
  li_internet_ok :: bool
  li_valid :: bool
  li_last_valid :: "instant option"
  li_greeks :: greeks
  li_day_type :: day_type
  li_vix_feed :: "real option"
  li_vix_estimate :: real
  li_fetched_vix :: "real option"
  li_entries_allowed :: bool
  li_has_signal :: bool
  li_rotation_ok :: bool
  li_guard_tick :: tick
  li_signal :: signal_params
  li_order :: order_context
  li_token_known :: bool
  li_recent :: "tick list"
  li_gateway :: gateway

section \<open>Parts of a pass\<close>

definition set_machine :: "machine_state \<Rightarrow> bot \<Rightarrow> bot" where
  "set_machine m b = b\<lparr>b_state := (b_state b)\<lparr>machine := m\<rparr>\<rparr>"

text \<open>Entering the kill state counts it, unless the machine is there already.\<close>

definition enter_kill :: "bot \<Rightarrow> bot" where
  "enter_kill b =
     (if machine (b_state b) \<noteq> KILL_SWITCH
      then b\<lparr>b_state := (b_state b)\<lparr>machine := KILL_SWITCH,
                                  kill_switch_count := kill_switch_count (b_state b) + 1\<rparr>\<rparr>
      else b)"

definition hourly_reset :: "instant \<Rightarrow> main_state \<Rightarrow> main_state" where
  "hourly_reset now m =
     (let hour = now - now mod 3600000000
      in if hour > last_hour_reset m
         then m\<lparr>ms_bot := (ms_bot m)\<lparr>b_state := (b_state (ms_bot m))\<lparr>trades_this_hour := 0\<rparr>\<rparr>,
                last_hour_reset := hour\<rparr>
         else m)"

text \<open>A closing whose error ends the loop, or whose outcome the caller ignores.\<close>

type_synonym pass_result = "((py_error + unit) \<times> main_state) \<times> broker_call list"

definition closing ::
  "loop_config \<Rightarrow> loop_input \<Rightarrow> tick option \<Rightarrow> (bool \<Rightarrow> bot \<Rightarrow> bot) \<Rightarrow> main_state \<Rightarrow> pass_result" where
  "closing cfg inp tk k m =
     (case close_current_trade (lc_machine cfg) (li_gateway inp) (li_token_known inp) (li_now inp) tk (ms_bot m) of
        ((Inl e, b), tr) \<Rightarrow> ((Inl e, m\<lparr>ms_bot := b\<rparr>), tr)
      | ((Inr ok, b), tr) \<Rightarrow> ((Inr (), m\<lparr>ms_bot := k ok b\<rparr>), tr))"

text \<open>The backoff bookkeeping at the end of an outage pass.\<close>

definition outage_backoff :: "bool \<Rightarrow> main_state \<Rightarrow> main_state" where
  "outage_backoff internet m =
     (let back = (if network_sleep_count m mod 3 = 0 \<and> internet then 5 else network_backoff m);
          doubled = min 60 (back * 2)
      in if network_sleep_count m \<ge> 10 then m\<lparr>network_sleep_count := 0, network_backoff := 5\<rparr>
         else m\<lparr>network_backoff := doubled\<rparr>)"

definition outage_pass :: "loop_config \<Rightarrow> loop_input \<Rightarrow> main_state \<Rightarrow> pass_result" where
  "outage_pass cfg inp m =
     (let m1 = m\<lparr>network_sleep_count := network_sleep_count m + 1\<rparr>
      in if network_sleep_count m1 = 1
         then let m2 = m1\<lparr>network_backoff := 5\<rparr>
              in if current_trade (b_state (ms_bot m2)) \<noteq> None
                 then (case closing cfg inp (li_retry_tick inp) (\<lambda>ok b. if ok then set_machine COOLDOWN b else b) m2 of
                         ((Inl e, m3), tr) \<Rightarrow> ((Inl e, m3), tr)
                       | ((Inr u, m3), tr) \<Rightarrow> ((Inr u, outage_backoff (li_internet_ok inp) m3), tr))
                 else ((Inr (), outage_backoff (li_internet_ok inp) m2), [])
         else ((Inr (), outage_backoff (li_internet_ok inp) m1), []))"

definition with_kill :: "kill_switch \<Rightarrow> main_state \<Rightarrow> main_state" where
  "with_kill ks m = m\<lparr>ms_bot := (ms_bot m)\<lparr>b_kill := ks\<rparr>\<rparr>"

definition invalid_pass :: "loop_config \<Rightarrow> loop_input \<Rightarrow> tick \<Rightarrow> main_state \<Rightarrow> pass_result" where
  "invalid_pass cfg inp tk m =
     (case track_rejected_tick (li_now inp) (b_kill (ms_bot m)) of (fired, ks) \<Rightarrow>
        let m1 = with_kill ks m
        in if fired = None then ((Inr (), m1), [])
           else if current_trade (b_state (ms_bot m1)) \<noteq> None
           then closing cfg inp (Some tk) (\<lambda>ok b. enter_kill b) m1
           else ((Inr (), m1\<lparr>ms_bot := enter_kill (ms_bot m1)\<rparr>), []))"

text \<open>
  What a triggered kill does to the machine.  The last branch of the spread case is the code's: a
  wide-spread kill that finds the machine already killed sets it to IDLE.
\<close>

definition kill_machine :: "kill_reason \<Rightarrow> bot \<Rightarrow> bot" where
  "kill_machine r b =
     (case r of
        WideSpreadKill _ _ \<Rightarrow> if machine (b_state b) \<noteq> KILL_SWITCH then enter_kill b else set_machine IDLE b
      | _ \<Rightarrow> enter_kill b)"

definition kill_pass :: "loop_config \<Rightarrow> loop_input \<Rightarrow> tick \<Rightarrow> kill_reason \<Rightarrow> main_state \<Rightarrow> pass_result" where
  "kill_pass cfg inp tk r m =
     (if current_trade (b_state (ms_bot m)) \<noteq> None
      then closing cfg inp (Some tk) (\<lambda>ok b. kill_machine r b) m
      else ((Inr (), m\<lparr>ms_bot := kill_machine r (ms_bot m)\<rparr>), []))"

definition manual_stop_pass :: "loop_config \<Rightarrow> loop_input \<Rightarrow> tick \<Rightarrow> main_state \<Rightarrow> pass_result" where
  "manual_stop_pass cfg inp tk m =
     (if current_trade (b_state (ms_bot m)) \<noteq> None
      then closing cfg inp (Some tk) (\<lambda>ok b. set_machine KILL_SWITCH b) m
      else ((Inr (), m\<lparr>ms_bot := set_machine KILL_SWITCH (ms_bot m)\<rparr>), []))"

text \<open>The inputs refreshed before the handlers run: tick delta, day type, VIX.\<close>

definition refreshed_vix :: "loop_input \<Rightarrow> real" where
  "refreshed_vix inp =
     (case li_vix_feed inp of
        Some v \<Rightarrow> if 5 \<le> v \<and> v \<le> 100 then v else li_vix_estimate inp
      | None \<Rightarrow> li_vix_estimate inp)"

definition refreshed_tick :: "loop_config \<Rightarrow> loop_input \<Rightarrow> tick \<Rightarrow> tick" where
  "refreshed_tick cfg inp tk =
     (if lc_tick_delta_enabled cfg \<and> li_greeks inp \<noteq> no_greeks
      then tk\<lparr>tick_delta := Some (get_or 0 (g_delta (li_greeks inp)))\<rparr> else tk)"

definition refresh :: "loop_input \<Rightarrow> bot \<Rightarrow> bot" where
  "refresh inp b = b\<lparr>b_state := (b_state b)\<lparr>ts_day_type := li_day_type inp, estimated_vix := refreshed_vix inp\<rparr>\<rparr>"

definition dispatch ::
  "loop_config \<Rightarrow> greeks_validator \<Rightarrow> loop_input \<Rightarrow> tick \<Rightarrow> bot \<Rightarrow> ((py_error + unit) \<times> bot) \<times> broker_call list" where
  "dispatch cfg validate inp tk b =
     (let mc = lc_machine cfg; now = li_now inp in
      case machine (b_state b) of
        IDLE \<Rightarrow>
          if li_entries_allowed inp
          then (case state_idle mc now tk (li_rotation_ok inp) (li_has_signal inp) b of
                  (s, b1) \<Rightarrow> ((Inr (), set_machine s b1), []))
          else ((Inr (), b), [])
      | ENTRY_READY \<Rightarrow>
          (case state_entry_ready mc (li_gateway inp) now (li_fetched_vix inp) tk (li_guard_tick inp)
                  (li_signal inp) (li_order inp) b of
             ((s, b1), tr) \<Rightarrow> ((Inr (), set_machine s b1), tr))
      | IN_TRADE \<Rightarrow>
          (case state_in_trade mc validate (li_gateway inp) (li_token_known inp) now tk (li_greeks inp)
                  (li_recent inp) b of
             ((Inl e, b1), tr) \<Rightarrow> ((Inl e, b1), tr)
           | ((Inr s, b1), tr) \<Rightarrow> ((Inr (), set_machine s b1), tr))
      | COOLDOWN \<Rightarrow>
          (case state_cooldown mc now (b_state b) of
             (s, st) \<Rightarrow> ((Inr (), set_machine s (b\<lparr>b_state := st\<rparr>)), []))
      | KILL_SWITCH \<Rightarrow> ((Inr (), b), []))"

text \<open>The part of a pass after the kill checks: recovery from the kill state, refresh, handler.\<close>

definition trading_pass :: "loop_config \<Rightarrow> greeks_validator \<Rightarrow> loop_input \<Rightarrow> tick \<Rightarrow> main_state \<Rightarrow> pass_result" where
  "trading_pass cfg validate inp tk m =
     (let b0 = ms_bot m;
          b1 = (if machine (b_state b0) = KILL_SWITCH \<and> \<not> manual_stop (b_state b0) then set_machine IDLE b0 else b0)
      in case dispatch cfg validate inp (refreshed_tick cfg inp tk) (refresh inp b1) of
           ((r, b2), tr) \<Rightarrow> ((r, m\<lparr>ms_bot := b2\<rparr>), tr))"

definition stale_hold :: "kill_switch \<Rightarrow> clear_info \<Rightarrow> bot \<Rightarrow> bool" where
  "stale_hold ks info b \<longleftrightarrow> \<not> can_clear info \<and> machine (b_state b) = KILL_SWITCH \<and> STALE_DATA_WARNED ks"

definition alert_pass :: "loop_config \<Rightarrow> main_state \<Rightarrow> main_state" where
  "alert_pass cfg m =
     (let s = b_state (ms_bot m);
          alerted = snd (check_daily_loss_alert (lc_max_loss cfg) (lc_alert_threshold cfg)
                           (daily_pnl_inr s) (daily_loss_alerted s))
      in m\<lparr>ms_bot := (ms_bot m)\<lparr>b_state := s\<lparr>daily_loss_alerted := alerted\<rparr>\<rparr>\<rparr>)"

text \<open>The operator's stop comes before the kill verdict, and the kill verdict before any handler.\<close>

definition checked_pass ::
  "loop_config \<Rightarrow> greeks_validator \<Rightarrow> loop_input \<Rightarrow> tick \<Rightarrow> kill_reason option \<Rightarrow> main_state \<Rightarrow> pass_result" where
  "checked_pass cfg validate inp tk verdict m =
     (if manual_stop (b_state (ms_bot m)) then manual_stop_pass cfg inp tk m
      else case verdict of
        Some r \<Rightarrow> kill_pass cfg inp tk r m
      | None \<Rightarrow> trading_pass cfg validate inp tk m)"

definition valid_pass :: "loop_config \<Rightarrow> greeks_validator \<Rightarrow> loop_input \<Rightarrow> tick \<Rightarrow> main_state \<Rightarrow> pass_result" where
  "valid_pass cfg validate inp tk m =
     (case reset_rejected_tick_counter (li_now inp) (b_kill (ms_bot m)) of (info, ks) \<Rightarrow>
        if manual_intervention_required (b_state (ms_bot m)) then ((Inr (), with_kill ks m), [])
        else if stale_hold ks info (ms_bot m) then ((Inr (), with_kill ks m), [])
        else case emergency_check (lc_kill cfg) (li_now inp) tk (daily_pnl_inr (b_state (ms_bot m)))
                    (total_trades_today (b_state (ms_bot m))) (li_last_valid inp) ks of
          (Inl e, ks2) \<Rightarrow> ((Inl e, with_kill ks2 m), [])
        | (Inr verdict, ks2) \<Rightarrow> checked_pass cfg validate inp tk verdict (alert_pass cfg (with_kill ks2 m)))"

text \<open>The bookkeeping before the branches of a pass: the hourly counter and the loop counter.\<close>

definition pass_start :: "loop_input \<Rightarrow> main_state \<Rightarrow> main_state" where
  "pass_start inp m =
     (let m0 = hourly_reset (li_now inp) m
      in m0\<lparr>ms_bot := (ms_bot m0)\<lparr>b_state := (b_state (ms_bot m0))\<lparr>loop_count := loop_count (b_state (ms_bot m)) + 1\<rparr>\<rparr>\<rparr>)"

definition loop_pass :: "loop_config \<Rightarrow> greeks_validator \<Rightarrow> loop_input \<Rightarrow> main_state \<Rightarrow> pass_result" where
  "loop_pass cfg validate inp m =
     (case li_tick inp of
        None \<Rightarrow> outage_pass cfg inp (pass_start inp m)
      | Some tk \<Rightarrow>
          if \<not> li_valid inp then invalid_pass cfg inp tk ((pass_start inp m)\<lparr>network_sleep_count := 0\<rparr>)
          else valid_pass cfg validate inp tk ((pass_start inp m)\<lparr>network_sleep_count := 0\<rparr>))"

section \<open>Runs\<close>

text \<open>An uncaught exception closes the trade with a tick of its own and ends the loop.\<close>

datatype main_event = Pass loop_input | OperatorStop | OperatorResume

definition set_manual_stop :: "bool \<Rightarrow> main_state \<Rightarrow> main_state" where
  "set_manual_stop v m = m\<lparr>ms_bot := (ms_bot m)\<lparr>b_state := (b_state (ms_bot m))\<lparr>manual_stop := v\<rparr>\<rparr>\<rparr>"

definition error_shutdown :: "loop_config \<Rightarrow> loop_input \<Rightarrow> main_state \<Rightarrow> main_state \<times> broker_call list" where
  "error_shutdown cfg inp m =
     (case close_current_trade (lc_machine cfg) (li_gateway inp) (li_token_known inp) (li_now inp)
             (li_retry_tick inp) (ms_bot m) of
        ((_, b), tr) \<Rightarrow> (m\<lparr>ms_bot := b, running := False\<rparr>, tr))"

definition main_step_calls ::
  "loop_config \<Rightarrow> greeks_validator \<Rightarrow> main_state \<Rightarrow> main_event \<Rightarrow> main_state \<times> broker_call list" where
  "main_step_calls cfg validate m e =
     (case e of
        OperatorStop \<Rightarrow> (set_manual_stop True m, [])
      | OperatorResume \<Rightarrow> (set_manual_stop False m, [])
      | Pass inp \<Rightarrow>
          if \<not> running m then (m, [])
          else (case loop_pass cfg validate inp m of
                  ((Inr _, m1), tr) \<Rightarrow> (m1, tr)
                | ((Inl _, m1), tr) \<Rightarrow> (case error_shutdown cfg inp m1 of (m2, tr2) \<Rightarrow> (m2, tr @ tr2))))"

definition main_step :: "loop_config \<Rightarrow> greeks_validator \<Rightarrow> main_state \<Rightarrow> main_event \<Rightarrow> main_state" where
  "main_step cfg validate m e = fst (main_step_calls cfg validate m e)"

definition initial_main :: "loop_config \<Rightarrow> instant \<Rightarrow> main_state" where
  "initial_main cfg now = \<lparr>ms_bot = \<lparr>b_state = initial_trading_state,
       b_risk = initial_risk_manager (mc_risk (lc_machine cfg)), b_kill = initial_kill_switch\<rparr>,
     network_sleep_count = 0, network_backoff = 5, last_hour_reset = now - now mod 3600000000,
     running = True\<rparr>"

section \<open>One position at a time\<close>

text \<open>
  The position invariant: in IN\_TRADE there is a trade, and a trade held in any other state is one
  whose exit was not confirmed, flagged for manual intervention.
\<close>

fun position_ok :: "trade option \<times> bool \<times> machine_state \<times> bool \<Rightarrow> bool" where
  "position_ok (t, manual, m, stop) \<longleftrightarrow> (m = IN_TRADE \<longrightarrow> t \<noteq> None) \<and> (t \<noteq> None \<longrightarrow> m = IN_TRADE \<or> manual)"

definition mpos :: "main_state \<Rightarrow> trade option \<times> bool \<times> machine_state \<times> bool" where
  "mpos m = bpos (ms_bot m)"

lemma mpos_def': "mpos m = (current_trade (b_state (ms_bot m)), manual_intervention_required (b_state (ms_bot m)),
    machine (b_state (ms_bot m)), manual_stop (b_state (ms_bot m)))"
  by (simp add: mpos_def bpos_def pos_def)

lemma machine_ops_pos:
  "bpos (set_machine x b) = (current_trade (b_state b), manual_intervention_required (b_state b), x, manual_stop (b_state b))"
  "bpos (enter_kill b) = (current_trade (b_state b), manual_intervention_required (b_state b), KILL_SWITCH, manual_stop (b_state b))"
  by (auto simp: set_machine_def enter_kill_def bpos_def pos_def)

lemma kill_machine_pos:
  "\<exists>x. x \<noteq> IN_TRADE \<and> x \<noteq> ENTRY_READY \<and> bpos (kill_machine r b)
     = (current_trade (b_state b), manual_intervention_required (b_state b), x, manual_stop (b_state b))"
  by (cases r) (auto simp: kill_machine_def machine_ops_pos)

lemma mpos_frames [simp]:
  "mpos (with_kill ks m) = mpos m"
  "mpos (alert_pass cfg m) = mpos m"
  by (simp_all add: with_kill_def alert_pass_def mpos_def bpos_def pos_def Let_def)

lemma outage_backoff_bot [simp]: "ms_bot (outage_backoff i m) = ms_bot m"
  by (simp add: outage_backoff_def Let_def)

text \<open>Closing with a follow-up that leaves the trade alone and never enters IN\_TRADE on its own.\<close>

lemma closing_ok:
  assumes "closing cfg inp tk k m = ((r, m'), tr)" "position_ok (mpos m)"
    and "\<And>ok b. \<exists>x. bpos (k ok b) = (current_trade (b_state b), manual_intervention_required (b_state b), x, manual_stop (b_state b))
           \<and> (x = IN_TRADE \<longrightarrow> \<not> ok \<and> machine (b_state b) = IN_TRADE)"
  shows "position_ok (mpos m')"
proof -
  obtain cr b tr1 where c: "close_current_trade (lc_machine cfg) (li_gateway inp) (li_token_known inp) (li_now inp) tk (ms_bot m)
      = ((cr, b), tr1)" by (metis prod.collapse)
  show ?thesis
  proof (cases cr)
    case (Inl e)
    with c assms(1,2) close_current_trade_facts[OF c] show ?thesis by (auto simp: closing_def mpos_def)
  next
    case (Inr ok)
    with c assms(1) have m': "ms_bot m' = k ok b" by (auto simp: closing_def)
    obtain x where x: "bpos (k ok b) = (current_trade (b_state b), manual_intervention_required (b_state b), x, manual_stop (b_state b))"
      "x = IN_TRADE \<longrightarrow> \<not> ok \<and> machine (b_state b) = IN_TRADE" using assms(3) by blast
    from close_current_trade_facts[OF c] Inr show ?thesis
      using x by (cases ok) (auto simp: mpos_def m' bpos_def pos_def)
  qed
qed

lemma outage_pass_ok:
  assumes "outage_pass cfg inp m = ((r, m'), tr)" "position_ok (mpos m)"
  shows "position_ok (mpos m')"
proof -
  have k: "\<exists>x. bpos (if ok then set_machine COOLDOWN b else b)
      = (current_trade (b_state b), manual_intervention_required (b_state b), x, manual_stop (b_state b))
      \<and> (x = IN_TRADE \<longrightarrow> \<not> ok \<and> machine (b_state b) = IN_TRADE)" for ok b
    by (cases ok) (auto simp: machine_ops_pos, auto simp: bpos_def pos_def)
  have close: "position_ok (bpos (ms_bot m3))"
    if "closing cfg inp (li_retry_tick inp) (\<lambda>ok b. if ok then set_machine COOLDOWN b else b) m2 = ((r3, m3), tr3)"
      and "ms_bot m2 = ms_bot m" for r3 m2 m3 tr3
    using closing_ok[OF that(1) _ k] that(2) assms(2) by (simp add: mpos_def)
  show ?thesis using assms unfolding mpos_def
    by (auto simp: outage_pass_def Let_def split: if_splits prod.splits sum.splits dest: close)
qed

lemma enter_kill_close:
  "\<exists>x. bpos (enter_kill b) = (current_trade (b_state b), manual_intervention_required (b_state b), x, manual_stop (b_state b))
     \<and> (x = IN_TRADE \<longrightarrow> \<not> ok \<and> machine (b_state b) = IN_TRADE)"
  by (simp add: machine_ops_pos)

lemma invalid_pass_ok:
  assumes "invalid_pass cfg inp tk m = ((r, m'), tr)" "position_ok (mpos m)"
  shows "position_ok (mpos m')"
proof -
  have close: "position_ok (mpos m3)"
    if "closing cfg inp t (\<lambda>ok b. enter_kill b) (with_kill ks m) = ((r3, m3), tr3)" for r3 m3 tr3 ks t
    by (rule closing_ok[OF that _ enter_kill_close]) (simp add: assms(2))
  have none: "position_ok (mpos (with_kill ks m\<lparr>ms_bot := enter_kill (ms_bot (with_kill ks m))\<rparr>))"
    if "current_trade (b_state (ms_bot (with_kill ks m))) = None" for ks
    using that by (simp add: mpos_def machine_ops_pos)
  show ?thesis using assms
    by (auto simp: invalid_pass_def Let_def none split: if_splits prod.splits dest!: close)
qed

lemma kill_pass_ok:
  assumes "kill_pass cfg inp tk rs m = ((r, m'), tr)" "position_ok (mpos m)"
  shows "position_ok (mpos m')"
proof -
  have k: "\<exists>x. bpos (kill_machine rs b) = (current_trade (b_state b), manual_intervention_required (b_state b), x, manual_stop (b_state b))
     \<and> (x = IN_TRADE \<longrightarrow> \<not> ok \<and> machine (b_state b) = IN_TRADE)" for b ok
    using kill_machine_pos[of rs b] by blast
  have close: "position_ok (mpos m3)"
    if "closing cfg inp t (\<lambda>ok b. kill_machine rs b) m = ((r3, m3), tr3)" for r3 m3 tr3 t
    by (rule closing_ok[OF that assms(2) k])
  show ?thesis using assms kill_machine_pos[of rs "ms_bot m"]
    by (auto simp: kill_pass_def split: if_splits dest!: close) (auto simp: mpos_def)
qed

lemma manual_stop_pass_ok:
  assumes "manual_stop_pass cfg inp tk m = ((r, m'), tr)" "position_ok (mpos m)"
  shows "position_ok (mpos m')"
proof -
  have k: "\<exists>x. bpos (set_machine KILL_SWITCH b) = (current_trade (b_state b), manual_intervention_required (b_state b), x, manual_stop (b_state b))
     \<and> (x = IN_TRADE \<longrightarrow> \<not> ok \<and> machine (b_state b) = IN_TRADE)" for b ok
    by (simp add: machine_ops_pos)
  have close: "position_ok (mpos m3)"
    if "closing cfg inp t (\<lambda>ok b. set_machine KILL_SWITCH b) m = ((r3, m3), tr3)" for r3 m3 tr3 t
    by (rule closing_ok[OF that assms(2) k])
  show ?thesis using assms
    by (auto simp: manual_stop_pass_def split: if_splits dest!: close) (simp add: mpos_def machine_ops_pos)
qed

lemma dispatch_ok:
  assumes "dispatch cfg validate inp tk b = ((r, b'), tr)"
    and "machine (b_state b) = IN_TRADE \<longleftrightarrow> current_trade (b_state b) \<noteq> None"
  shows "position_ok (bpos b')"
proof (cases "machine (b_state b)")
  case IDLE
  have "bpos b1 = bpos b \<and> s \<noteq> IN_TRADE"
    if "state_idle (lc_machine cfg) (li_now inp) tk ro sg b = (s, b1)" for ro sg s b1
    using that state_idle_pos[of "lc_machine cfg" "li_now inp" tk ro sg b]
      state_idle_state[of "lc_machine cfg" "li_now inp" tk ro sg b] by auto
  with IDLE assms show ?thesis
    by (auto simp: dispatch_def bpos_def pos_def set_machine_def split: if_splits prod.splits)
next
  case ENTRY_READY
  with assms show ?thesis
    by (auto simp: dispatch_def Let_def machine_ops_pos split: prod.splits dest!: state_entry_ready_facts)
      (auto simp: bpos_def pos_def)
next
  case IN_TRADE
  with assms show ?thesis
    by (auto simp: dispatch_def Let_def machine_ops_pos split: prod.splits sum.splits dest!: state_in_trade_facts)
      (auto simp: bpos_def pos_def)
next
  case COOLDOWN
  with assms show ?thesis
    using state_cooldown_facts[of "lc_machine cfg" "li_now inp" "b_state b"]
    by (auto simp: dispatch_def Let_def machine_ops_pos split: prod.splits) (auto simp: bpos_def pos_def)
next
  case KILL_SWITCH
  with assms show ?thesis by (simp add: dispatch_def bpos_def pos_def)
qed

lemma trading_pass_ok:
  assumes "trading_pass cfg validate inp tk m = ((r, m'), tr)" "position_ok (mpos m)"
    and "\<not> manual_intervention_required (b_state (ms_bot m))"
  shows "position_ok (mpos m')"
proof -
  let ?b1 = "if machine (b_state (ms_bot m)) = KILL_SWITCH \<and> \<not> manual_stop (b_state (ms_bot m))
             then set_machine IDLE (ms_bot m) else ms_bot m"
  obtain b2 where d: "dispatch cfg validate inp (refreshed_tick cfg inp tk) (refresh inp ?b1) = ((r, b2), tr)"
    and m': "ms_bot m' = b2"
    using assms(1) by (auto simp: trading_pass_def Let_def split: prod.splits)
  have "machine (b_state (refresh inp ?b1)) = IN_TRADE \<longleftrightarrow> current_trade (b_state (refresh inp ?b1)) \<noteq> None"
    using assms(2,3) by (auto simp: mpos_def' refresh_def set_machine_def)
  from dispatch_ok[OF d this] show ?thesis by (simp add: mpos_def m')
qed

lemma valid_pass_ok:
  assumes v: "valid_pass cfg validate inp tk m = ((r, m'), tr)" and ok: "position_ok (mpos m)"
  shows "position_ok (mpos m')"
proof -
  have checked: "position_ok (mpos m')"
    if c: "checked_pass cfg validate inp tk verdict (alert_pass cfg (with_kill ks2 m)) = ((r, m'), tr)"
      and no: "\<not> manual_intervention_required (b_state (ms_bot m))" for verdict ks2
  proof -
    let ?m2 = "alert_pass cfg (with_kill ks2 m)"
    have "mpos ?m2 = mpos m" by simp
    then have ok2: "position_ok (mpos ?m2)" and man: "\<not> manual_intervention_required (b_state (ms_bot ?m2))"
      using ok no by (simp_all only: mpos_def' prod.inject not_False_eq_True)
    then show ?thesis using c manual_stop_pass_ok[OF _ ok2] kill_pass_ok[OF _ ok2] trading_pass_ok[OF _ ok2 man]
      by (auto simp only: checked_pass_def split: if_splits option.splits)
  qed
  show ?thesis using v ok
    by (auto simp: valid_pass_def split: if_splits prod.splits sum.splits dest: checked)
qed

section \<open>A held trade\<close>

text \<open>
  What a pass may do to the position: a held trade is only exited or carried on with its stop no
  looser, and a new trade starts with the hard stop.
\<close>

abbreviation held :: "main_state \<Rightarrow> trade option" where
  "held m \<equiv> current_trade (b_state (ms_bot m))"

definition tracked :: "loop_config \<Rightarrow> nat \<Rightarrow> trade option \<Rightarrow> trade option \<Rightarrow> broker_call list \<Rightarrow> bool" where
  "tracked cfg n o1 o2 tr \<longleftrightarrow>
     (case o1 of
        Some t \<Rightarrow> exit_calls t n tr \<and> guarded (lc_machine cfg) t o2
      | None \<Rightarrow> (\<forall>t. o2 = Some t \<longrightarrow> engine_ok (mc_exit (lc_machine cfg)) t))"

definition main_ok :: "loop_config \<Rightarrow> main_state \<Rightarrow> bool" where
  "main_ok cfg m \<longleftrightarrow> position_ok (mpos m) \<and> (\<forall>t. held m = Some t \<longrightarrow> engine_ok (mc_exit (lc_machine cfg)) t)"

lemma tracked_same: "\<forall>t. o1 = Some t \<longrightarrow> engine_ok (mc_exit (lc_machine cfg)) t \<Longrightarrow> tracked cfg n o1 o1 []"
  by (simp add: tracked_def split: option.splits)

lemma tracked_engine_ok:
  "tracked cfg n o1 (Some t) tr \<Longrightarrow> engine_ok (mc_exit (lc_machine cfg)) t"
  by (auto simp: tracked_def guarded_def split: option.splits)

lemma held_ops [simp]:
  "current_trade (b_state (set_machine x b)) = current_trade (b_state b)"
  "current_trade (b_state (enter_kill b)) = current_trade (b_state b)"
  "current_trade (b_state (kill_machine r b)) = current_trade (b_state b)"
  "current_trade (b_state (refresh inp b)) = current_trade (b_state b)"
  "held (with_kill ks m) = held m" "held (alert_pass cfg m) = held m"
  by (auto simp: set_machine_def enter_kill_def kill_machine_def refresh_def with_kill_def alert_pass_def Let_def
      split: kill_reason.splits)

lemma closing_tracked:
  assumes "closing cfg inp tk k m = ((r, m'), tr)" "main_ok cfg m" "held m \<noteq> None"
    and "\<And>ok b. current_trade (b_state (k ok b)) = current_trade (b_state b)"
  shows "tracked cfg 3 (held m) (held m') tr"
proof -
  obtain t where t: "held m = Some t" using assms(3) by blast
  show ?thesis using assms(1,2,4) t
    by (auto simp: closing_def tracked_def main_ok_def dest!: close_current_trade_held[OF _ t]
        split: prod.splits sum.splits)
qed

lemma outage_pass_tracked:
  assumes "outage_pass cfg inp m = ((r, m'), tr)" "main_ok cfg m"
  shows "tracked cfg 3 (held m) (held m') tr"
proof -
  have "main_ok cfg m2" "held m2 = held m" if "ms_bot m2 = ms_bot m" for m2
    using that assms(2) by (simp_all add: main_ok_def mpos_def)
  note same = this
  have close: "tracked cfg 3 (held m) (held m3) tr3"
    if "closing cfg inp (li_retry_tick inp) (\<lambda>ok b. if ok then set_machine COOLDOWN b else b) m2 = ((r3, m3), tr3)"
      and "held m2 \<noteq> None" and "ms_bot m2 = ms_bot m" for r3 m2 m3 tr3
    using closing_tracked[OF that(1) same(1)[OF that(3)] that(2)] same(2)[OF that(3)] by simp
  have idle: "tracked cfg 3 (held m) (held m) []"
    using assms(2) by (intro tracked_same) (simp add: main_ok_def)
  show ?thesis using assms(1) idle
    by (auto simp: outage_pass_def Let_def split: if_splits prod.splits sum.splits dest: close)
qed

lemma idle_tracked: "main_ok cfg m \<Longrightarrow> held m' = held m \<Longrightarrow> tracked cfg 3 (held m) (held m') []"
  by (simp add: tracked_same main_ok_def)

lemma main_ok_frames [simp]:
  "main_ok cfg (with_kill ks m) = main_ok cfg m" "main_ok cfg (alert_pass c m) = main_ok cfg m"
  by (simp_all add: main_ok_def)

text \<open>The passes that close what is held and then set the machine share one shape.\<close>

lemma close_or_set_tracked:
  assumes "(if held m \<noteq> None then closing cfg inp tk (\<lambda>ok. f) m else ((Inr (), m\<lparr>ms_bot := f (ms_bot m)\<rparr>), []))
             = ((r, m'), tr)"
    and "main_ok cfg m" "\<And>b. current_trade (b_state (f b)) = current_trade (b_state b)"
  shows "tracked cfg 3 (held m) (held m') tr"
proof (cases "held m = None")
  case True
  with assms(1,3) have "held m' = held m" "tr = []" by auto
  with idle_tracked[OF assms(2)] show ?thesis by simp
next
  case False
  with assms(1) have "closing cfg inp tk (\<lambda>ok. f) m = ((r, m'), tr)" by simp
  from closing_tracked[OF this assms(2) False assms(3)] show ?thesis .
qed

lemma invalid_pass_tracked:
  assumes "invalid_pass cfg inp tk m = ((r, m'), tr)" "main_ok cfg m"
  shows "tracked cfg 3 (held m) (held m') tr"
proof -
  obtain fired ks where f: "track_rejected_tick (li_now inp) (b_kill (ms_bot m)) = (fired, ks)" by fastforce
  show ?thesis
  proof (cases fired)
    case None
    with assms f idle_tracked show ?thesis by (auto simp: invalid_pass_def)
  next
    case (Some x)
    with assms f have "(if held (with_kill ks m) \<noteq> None then closing cfg inp (Some tk) (\<lambda>ok. enter_kill) (with_kill ks m)
        else ((Inr (), with_kill ks m\<lparr>ms_bot := enter_kill (ms_bot (with_kill ks m))\<rparr>), [])) = ((r, m'), tr)"
      by (simp add: invalid_pass_def Let_def)
    from close_or_set_tracked[OF this] assms(2) show ?thesis by simp
  qed
qed

lemma kill_pass_tracked:
  assumes "kill_pass cfg inp tk rs m = ((r, m'), tr)" "main_ok cfg m"
  shows "tracked cfg 3 (held m) (held m') tr"
  by (rule close_or_set_tracked[OF assms(1)[unfolded kill_pass_def] assms(2)]) simp

lemma manual_stop_pass_tracked:
  assumes "manual_stop_pass cfg inp tk m = ((r, m'), tr)" "main_ok cfg m"
  shows "tracked cfg 3 (held m) (held m') tr"
  by (rule close_or_set_tracked[OF assms(1)[unfolded manual_stop_pass_def] assms(2)]) simp

lemma state_idle_trade:
  "state_idle cfg now tk ro sg b = (s, b1) \<Longrightarrow> current_trade (b_state b1) = current_trade (b_state b)"
  using state_idle_pos[of cfg now tk ro sg b] by (simp add: bpos_def pos_def)

lemma state_cooldown_trade:
  "state_cooldown cfg now s = (x, s1) \<Longrightarrow> current_trade s1 = current_trade s"
  using state_cooldown_facts(1)[of cfg now s] by (simp add: pos_def)

lemma dispatch_tracked:
  assumes "dispatch cfg validate inp tk b = ((r, b'), tr)"
    and "machine (b_state b) = IN_TRADE \<longleftrightarrow> current_trade (b_state b) \<noteq> None"
    and "\<And>t. current_trade (b_state b) = Some t \<Longrightarrow> engine_ok (mc_exit (lc_machine cfg)) t"
  shows "tracked cfg 3 (current_trade (b_state b)) (current_trade (b_state b')) tr"
proof (cases "machine (b_state b)")
  case IN_TRADE
  with assms(2) obtain t where t: "current_trade (b_state b) = Some t" by auto
  with IN_TRADE assms(1) show ?thesis
    by (auto simp: dispatch_def tracked_def Let_def split: prod.splits sum.splits
        dest!: state_in_trade_held[OF _ t assms(3)[OF t]])
next
  case ENTRY_READY
  with assms(2) have n: "current_trade (b_state b) = None" by auto
  with ENTRY_READY assms(1) show ?thesis
    by (auto simp: dispatch_def tracked_def Let_def split: prod.splits dest: state_entry_ready_trade[OF _ n])
next
  case IDLE
  with assms show ?thesis
    by (auto simp: dispatch_def tracked_def Let_def split: prod.splits if_splits dest: state_idle_trade)
next
  case COOLDOWN
  with assms show ?thesis
    by (auto simp: dispatch_def tracked_def Let_def split: prod.splits dest: state_cooldown_trade)
next
  case KILL_SWITCH
  with assms show ?thesis by (auto simp: dispatch_def intro: tracked_same)
qed

lemma trading_pass_tracked:
  assumes "trading_pass cfg validate inp tk m = ((r, m'), tr)" "main_ok cfg m"
    and "\<not> manual_intervention_required (b_state (ms_bot m))"
  shows "tracked cfg 3 (held m) (held m') tr"
proof -
  let ?b1 = "if machine (b_state (ms_bot m)) = KILL_SWITCH \<and> \<not> manual_stop (b_state (ms_bot m))
             then set_machine IDLE (ms_bot m) else ms_bot m"
  obtain b2 where d: "dispatch cfg validate inp (refreshed_tick cfg inp tk) (refresh inp ?b1) = ((r, b2), tr)"
    and m': "ms_bot m' = b2"
    using assms(1) by (auto simp: trading_pass_def Let_def split: prod.splits)
  have h: "current_trade (b_state (refresh inp ?b1)) = held m" by simp
  have "machine (b_state (refresh inp ?b1)) = IN_TRADE \<longleftrightarrow> current_trade (b_state (refresh inp ?b1)) \<noteq> None"
    using assms(2,3) by (auto simp: main_ok_def mpos_def' refresh_def set_machine_def)
  from dispatch_tracked[OF d this] assms(2) show ?thesis unfolding h m' main_ok_def by blast
qed

lemma main_ok_checked:
  assumes "main_ok cfg m" "\<not> manual_intervention_required (b_state (ms_bot m))"
  shows "main_ok cfg (alert_pass c (with_kill ks m))"
    and "\<not> manual_intervention_required (b_state (ms_bot (alert_pass c (with_kill ks m))))"
proof -
  show "main_ok cfg (alert_pass c (with_kill ks m))" using assms(1) by simp
  have "mpos (alert_pass c (with_kill ks m)) = mpos m" by simp
  then show "\<not> manual_intervention_required (b_state (ms_bot (alert_pass c (with_kill ks m))))"
    using assms(2) by (simp only: mpos_def' prod.inject not_False_eq_True)
qed

lemma checked_pass_tracked:
  assumes "checked_pass cfg validate inp tk verdict m = ((r, m'), tr)" "main_ok cfg m"
    and "\<not> manual_intervention_required (b_state (ms_bot m))"
  shows "tracked cfg 3 (held m) (held m') tr"
  using assms(1) manual_stop_pass_tracked[OF _ assms(2)] kill_pass_tracked[OF _ assms(2)]
    trading_pass_tracked[OF _ assms(2,3)]
  by (auto simp only: checked_pass_def split: if_splits option.splits)

lemma valid_pass_tracked:
  assumes "valid_pass cfg validate inp tk m = ((r, m'), tr)" "main_ok cfg m"
  shows "tracked cfg 3 (held m) (held m') tr"
proof -
  have checked: "tracked cfg 3 (held m) (held m') tr"
    if "checked_pass cfg validate inp tk verdict (alert_pass cfg (with_kill ks2 m)) = ((r, m'), tr)"
      "\<not> manual_intervention_required (b_state (ms_bot m))" for verdict ks2
    using checked_pass_tracked[OF that(1) main_ok_checked[OF assms(2) that(2)]] by simp
  show ?thesis using assms
    by (auto simp: valid_pass_def intro: idle_tracked split: if_splits prod.splits sum.splits dest: checked)
qed

section \<open>Runs of the loop\<close>

lemma pass_start_pos [simp]: "mpos (pass_start inp m) = mpos m"
  by (simp add: pass_start_def hourly_reset_def mpos_def' Let_def)

lemma pass_start_held [simp]: "held (pass_start inp m) = held m"
  by (simp add: pass_start_def hourly_reset_def Let_def)

lemma sleep_count_frames [simp]:
  "mpos (m\<lparr>network_sleep_count := n\<rparr>) = mpos m" "held (m\<lparr>network_sleep_count := n\<rparr>) = held m"
  by (simp_all add: mpos_def)

lemma loop_pass_sound:
  assumes "loop_pass cfg validate inp m = ((r, m'), tr)" "main_ok cfg m"
  shows "tracked cfg 3 (held m) (held m') tr \<and> position_ok (mpos m')"
proof -
  have ok: "main_ok cfg (pass_start inp m)" "main_ok cfg ((pass_start inp m)\<lparr>network_sleep_count := 0\<rparr>)"
    using assms(2) by (simp_all add: main_ok_def)
  note pos = ok[unfolded main_ok_def, THEN conjunct1]
  show ?thesis
  proof (cases "li_tick inp")
    case None
    with assms(1) have "outage_pass cfg inp (pass_start inp m) = ((r, m'), tr)" by (simp add: loop_pass_def)
    from outage_pass_tracked[OF this ok(1)] outage_pass_ok[OF this pos(1)] show ?thesis by simp
  next
    case (Some tk)
    show ?thesis
    proof (cases "li_valid inp")
      case True
      with Some assms(1) have "valid_pass cfg validate inp tk ((pass_start inp m)\<lparr>network_sleep_count := 0\<rparr>) = ((r, m'), tr)"
        by (simp add: loop_pass_def)
      from valid_pass_tracked[OF this ok(2)] valid_pass_ok[OF this pos(2)] show ?thesis by simp
    next
      case False
      with Some assms(1) have "invalid_pass cfg inp tk ((pass_start inp m)\<lparr>network_sleep_count := 0\<rparr>) = ((r, m'), tr)"
        by (simp add: loop_pass_def)
      from invalid_pass_tracked[OF this ok(2)] invalid_pass_ok[OF this pos(2)] show ?thesis by simp
    qed
  qed
qed

lemma error_shutdown_tracked:
  assumes "error_shutdown cfg inp m = (m', tr)" "main_ok cfg m"
  shows "tracked cfg 3 (held m) (held m') tr" "held m = None \<Longrightarrow> held m' = None" "\<not> running m'"
proof -
  obtain r b where c: "close_current_trade (lc_machine cfg) (li_gateway inp) (li_token_known inp) (li_now inp)
      (li_retry_tick inp) (ms_bot m) = ((r, b), tr)" and m': "ms_bot m' = b" and run: "\<not> running m'"
    using assms(1) by (auto simp: error_shutdown_def split: prod.splits)
  show "\<not> running m'" by (rule run)
  have none: "held m' = None \<and> tr = []" if "held m = None"
    using c that by (simp add: close_current_trade_def m')
  then show "held m = None \<Longrightarrow> held m' = None" by simp
  show "tracked cfg 3 (held m) (held m') tr"
  proof (cases "held m")
    case None
    with none show ?thesis by (simp add: tracked_def)
  next
    case (Some t)
    with close_current_trade_held[OF c Some] assms(2) show ?thesis
      by (auto simp: tracked_def m' main_ok_def)
  qed
qed

lemma tracked_append:
  assumes "tracked cfg n o1 o2 tr" "tracked cfg k o2 o3 tr'" "o2 = None \<longrightarrow> o3 = None \<and> tr' = []"
  shows "tracked cfg (n + k) o1 o3 (tr @ tr')"
proof (cases o1)
  case None
  have "\<forall>t. o3 = Some t \<longrightarrow> engine_ok (mc_exit (lc_machine cfg)) t" using tracked_engine_ok assms(2) by blast
  with None show ?thesis by (simp add: tracked_def)
next
  case (Some t)
  show ?thesis
  proof (cases o2)
    case None
    with Some assms(1,3) show ?thesis by (simp add: tracked_def exit_calls_def)
  next
    case (Some t2)
    with \<open>o1 = Some t\<close> assms(1,2)
    have 1: "exit_calls t n tr" "guarded (lc_machine cfg) t (Some t2)" "exit_calls t2 k tr'"
      "guarded (lc_machine cfg) t2 o3" by (simp_all add: tracked_def)
    then have "entry_part t2 = entry_part t" by (simp add: guarded_def)
    with 1 have "exit_calls t (n + k) (tr @ tr')" by (simp add: exit_calls_append exit_calls_entry[of t2 t])
    moreover have "guarded (lc_machine cfg) t o3" using 1(2,4) by (cases o3) (auto simp: guarded_def)
    ultimately show ?thesis using \<open>o1 = Some t\<close> by (simp add: tracked_def)
  qed
qed

lemma tracked_more: "tracked cfg n o1 o2 tr \<Longrightarrow> n \<le> k \<Longrightarrow> tracked cfg k o1 o2 tr"
  by (auto simp: tracked_def exit_calls_def split: option.splits)

text \<open>What holds of the bot as long as its loop runs, and of a trade it still holds afterwards.\<close>

definition loop_ok :: "loop_config \<Rightarrow> main_state \<Rightarrow> bool" where
  "loop_ok cfg m \<longleftrightarrow> (running m \<longrightarrow> main_ok cfg m) \<and> (\<forall>t. held m = Some t \<longrightarrow> engine_ok (mc_exit (lc_machine cfg)) t)"

lemma set_manual_stop_frames:
  "held (set_manual_stop v m) = held m" "running (set_manual_stop v m) = running m"
  "position_ok (mpos (set_manual_stop v m)) = position_ok (mpos m)"
  by (simp_all add: set_manual_stop_def mpos_def')

lemma main_step_sound:
  assumes "main_step_calls cfg validate m e = (m', tr)" "loop_ok cfg m"
  shows "tracked cfg 6 (held m) (held m') tr" "loop_ok cfg m'"
proof -
  have "tracked cfg 6 (held m) (held m') tr \<and> (running m' \<longrightarrow> position_ok (mpos m'))"
  proof (cases e)
    case (Pass inp)
    show ?thesis
    proof (cases "running m")
      case False
      with assms Pass show ?thesis by (auto simp: main_step_calls_def loop_ok_def intro: tracked_same)
    next
      case True
      then have ok: "main_ok cfg m" using assms(2) by (simp add: loop_ok_def)
      obtain r m1 tr1 where p: "loop_pass cfg validate inp m = ((r, m1), tr1)" by (metis surj_pair)
      note s = loop_pass_sound[OF p ok]
      then have ok1: "main_ok cfg m1" using tracked_engine_ok unfolding main_ok_def by metis
      show ?thesis
      proof (cases r)
        case (Inr u)
        with assms Pass True p s show ?thesis by (auto simp: main_step_calls_def intro: tracked_more)
      next
        case (Inl x)
        obtain m2 tr2 where sh: "error_shutdown cfg inp m1 = (m2, tr2)" by fastforce
        note e = error_shutdown_tracked[OF sh ok1]
        have "m' = m2" "tr = tr1 @ tr2" using assms(1) Pass True p Inl sh by (simp_all add: main_step_calls_def)
        moreover have "held m1 = None \<longrightarrow> held m2 = None \<and> tr2 = []"
          using e(2) sh by (auto simp: error_shutdown_def close_current_trade_def)
        ultimately show ?thesis using tracked_append[of cfg 3 "held m" "held m1" tr1 3 "held m2" tr2] s e(1,3) by simp
      qed
    qed
  qed (use assms in \<open>auto simp: main_step_calls_def set_manual_stop_frames loop_ok_def main_ok_def intro: tracked_same\<close>)
  then show "tracked cfg 6 (held m) (held m') tr" "loop_ok cfg m'"
    unfolding loop_ok_def main_ok_def using tracked_engine_ok by metis+
qed

interpretation main: invariant_system "main_step cfg validate" "loop_ok cfg" "\<lambda>_. True" for cfg validate
proof unfold_locales
  show "loop_ok cfg (main_step cfg validate m e)" if "loop_ok cfg m" for m e
    using main_step_sound(2)[OF _ that] unfolding main_step_def by (metis prod.collapse)
qed

lemma initial_main_ok: "loop_ok cfg (initial_main cfg now)"
  by (simp add: loop_ok_def main_ok_def initial_main_def mpos_def' initial_trading_state_def)

lemma reachable_ok: "loop_ok cfg (foldl (main_step cfg validate) (initial_main cfg now) es)"
  using main.inv_run[OF initial_main_ok] by (simp add: list_all_iff)

text \<open>A run with the calls of all its steps.\<close>

fun main_run ::
  "loop_config \<Rightarrow> greeks_validator \<Rightarrow> main_state \<Rightarrow> main_event list \<Rightarrow> main_state \<times> broker_call list" where
  "main_run cfg validate m [] = (m, [])"
| "main_run cfg validate m (e # es) =
     (case main_step_calls cfg validate m e of (m1, tr) \<Rightarrow>
        (case main_run cfg validate m1 es of (m2, tr2) \<Rightarrow> (m2, tr @ tr2)))"

section \<open>A run that enters a trade\<close>

text \<open>
  Two passes of the default configuration at ten in the morning, on paper: the first counts the
  signal, the second passes the risk gates, sizes one lot and enters.
\<close>

definition entry_quote :: tick where
  "entry_quote = (quote (999/10) 100)\<lparr>ltp := 100, tick_timestamp := 36000000\<rparr>"

definition entry_input :: loop_input where
  "entry_input = \<lparr>li_now = seconds 36000,
     li_tick = Some entry_quote, li_retry_tick = None,
     li_internet_ok = True, li_valid = True, li_last_valid = None, li_greeks = no_greeks, li_day_type = NORMAL,
     li_vix_feed = Some 15, li_vix_estimate = 15, li_fetched_vix = Some 15, li_entries_allowed = True,
     li_has_signal = True, li_rotation_ok = True, li_guard_tick = entry_quote,
     li_signal = \<lparr>sg_direction = CE, sg_ltp = None, sg_stamp = None, sg_sizing_inputs = None,
        sg_score = Some 90, sg_details_score = None, sg_confidence = Some 90, sg_market_quality = None,
        sg_market_quality_score = Some 90, sg_regime = None, sg_details_regime = None, sg_sl_points = None\<rparr>,
     li_order = ready_context, li_token_known = True, li_recent = [], li_gateway = filling_gateway\<rparr>"


lemmas entry_defs = main_step_calls_def loop_pass_def pass_start_def hourly_reset_def valid_pass_def checked_pass_def
    trading_pass_def dispatch_def set_machine_def refresh_def refreshed_vix_def refreshed_tick_def with_kill_def alert_pass_def stale_hold_def
    emergency_check_def spread_cooldown_check_def tick_freeze_check_def latency_check_def
    calc_latency_ms_def current_time_ms_def spread_pct_def spread_check_def limits_check_def initial_kill_switch_def
    default_kill_config_def entry_quote_def quote_def reset_rejected_tick_counter_def check_daily_loss_alert_def
    initial_main_def default_loop_config_def initial_trading_state_def entry_input_def
    state_idle_def rotate_strike_def is_trading_session_allowed_def check_trade_limits_def default_machine_config_def
    default_state_config_def session_at_def in_session_def minute_of_day_def hour_of_def minute_of_def trade_count_limits_def check_streak_limits_def streak_gate_def
    count_signal_def check_intraday_spike_def push_spot_def spike_move_def last_n_def default_risk_config_def initial_risk_manager_def

definition signalled :: "bot \<Rightarrow> bot" where
  "signalled b = b\<lparr>b_state := (b_state b)\<lparr>machine := ENTRY_READY, loop_count := 1, consecutive_entry_signals := 1,
     last_signal_time := Some (seconds 36000), last_strike_rotation := Some (seconds 36000),
     last_spot_prices := [(seconds 36000, 24000)]\<rparr>,
   b_kill := (b_kill b)\<lparr>consecutive_valid_ticks := 1, consecutive_low_latency := 1\<rparr>\<rparr>"

lemma first_pass:
  "main_step_calls default_loop_config v (initial_main default_loop_config (seconds 36000)) (Pass entry_input)
    = ((initial_main default_loop_config (seconds 36000))
         \<lparr>ms_bot := signalled (ms_bot (initial_main default_loop_config (seconds 36000)))\<rparr>, [])"
  by (simp add: entry_defs signalled_def ks_limits time_simps Let_def)


lemma entry_allowed:
  "\<exists>d rm. can_trade default_risk_config (seconds 36000) (Some 15) (Some 24000) (initial_risk_manager default_risk_config)
     = (Inr (Inr d), rm) \<and> td_risk_budget d = get_risk_budget default_risk_config 1 (initial_risk_manager default_risk_config)"
  by (simp add: can_trade_def check_drawdown_def check_weekly_loss_def check_streak_limits_def
      streak_gate_def check_vix_filter_def get_vix_def gap_stage_def check_gap_protection_def
      sizing_stage_def check_recovery_mode_def check_equity_curve_def get_time_based_multiplier_def
      check_profit_lock_def shrink_def default_risk_config_def initial_risk_manager_def
      effective_peak_equity_def get_risk_budget_def remaining_risk_raw_def Let_def)

lemma entry_size: "position_size (calculate DEFAULT_CONFIG (size_request default_machine_config s (li_signal entry_input)
    (Some (get_risk_budget default_risk_config 1 (initial_risk_manager default_risk_config))))) = 65"
  if "estimated_vix s = 15"
  using that
  apply (simp add: size_request_def entry_input_def default_machine_config_def default_risk_config_def
   budget_of_def signal_sl_points_def signal_weighted_score_def signal_confidence_def get_risk_budget_def remaining_risk_raw_def initial_risk_manager_def Let_def
   py_round_def round_half_even_def)
  apply (simp add: calculate_def near_miss_eval
        apply_risk_caps_def cap_at_def is_active_def size_lots_def allocation_grade_def Let_def)
  done

lemma entry_handler:
  assumes "b_risk b = initial_risk_manager default_risk_config" "estimated_vix (b_state b) = 15"
  shows "\<exists>b' t. state_entry_ready default_machine_config filling_gateway (seconds 36000) (Some 15) entry_quote entry_quote
     (li_signal entry_input) ready_context b = ((IN_TRADE, b'), []) \<and> current_trade (b_state b') = Some t \<and> qty t = 65 \<and> trade_side t = BUY"
proof -
  obtain d rm where c: "can_trade default_risk_config (seconds 36000) (Some 15) (Some 24000) (initial_risk_manager default_risk_config)
     = (Inr (Inr d), rm)" "td_risk_budget d = get_risk_budget default_risk_config 1 (initial_risk_manager default_risk_config)"
    using entry_allowed by blast
  have cfg: "mc_risk default_machine_config = default_risk_config" "mc_size default_machine_config = DEFAULT_CONFIG"
    "mc_paper default_machine_config"
    by (simp_all add: default_machine_config_def)
  have g: "signal_execution_guard (mc_state default_machine_config) (sg_ltp (li_signal entry_input))
     (sg_stamp (li_signal entry_input)) entry_quote = GuardPass"
    by (simp add: signal_execution_guard_def entry_input_def parse_signal_dt_def)
  have sp: "spot_price entry_quote = 24000" by (simp add: entry_quote_def quote_def)
  show ?thesis using assms
    by (simp add: state_entry_ready_def cfg c sp enter_trade_def g entry_size place_order_def ready_context_def paper_order_def
      filled_trade_def quote_def Let_def)
qed


lemma second_pass:
  "\<exists>m t. main_step_calls default_loop_config v ((initial_main default_loop_config (seconds 36000))
         \<lparr>ms_bot := signalled (ms_bot (initial_main default_loop_config (seconds 36000)))\<rparr>) (Pass entry_input) = (m, [])
     \<and> held m = Some t \<and> qty t = 65 \<and> trade_side t = BUY \<and> running m \<and> network_sleep_count m = 0"
  (is "\<exists>m t. main_step_calls _ _ ?m1 _ = _ \<and> _ m t")
proof -
  obtain b2 where v: "loop_pass default_loop_config v entry_input ?m1
      = (case dispatch default_loop_config v entry_input entry_quote b2 of ((r, b3), tr) \<Rightarrow> ((r, ?m1\<lparr>ms_bot := b3\<rparr>), tr))"
    and b2: "machine (b_state b2) = ENTRY_READY" "b_risk b2 = initial_risk_manager default_risk_config" "estimated_vix (b_state b2) = 15"
    by (simp add: loop_pass_def pass_start_def hourly_reset_def valid_pass_def checked_pass_def
    trading_pass_def set_machine_def refresh_def refreshed_vix_def refreshed_tick_def with_kill_def alert_pass_def stale_hold_def
    emergency_check_def spread_cooldown_check_def tick_freeze_check_def latency_check_def
    calc_latency_ms_def current_time_ms_def spread_pct_def spread_check_def limits_check_def initial_kill_switch_def
    default_kill_config_def entry_quote_def quote_def reset_rejected_tick_counter_def check_daily_loss_alert_def
    initial_main_def default_loop_config_def initial_trading_state_def entry_input_def default_machine_config_def signalled_def ks_limits time_simps Let_def)
  have i: "li_gateway entry_input = filling_gateway" "li_now entry_input = seconds 36000" "li_fetched_vix entry_input = Some 15"
    "li_guard_tick entry_input = entry_quote" "li_order entry_input = ready_context"
    "lc_machine default_loop_config = default_machine_config"
    by (simp_all add: entry_input_def default_loop_config_def)
  from entry_handler[OF b2(2,3)] obtain b' t where h: "state_entry_ready default_machine_config filling_gateway (seconds 36000) (Some 15) entry_quote entry_quote
     (li_signal entry_input) ready_context b2 = ((IN_TRADE, b'), [])" "current_trade (b_state b') = Some t" "qty t = 65" "trade_side t = BUY" by blast
  have "running ?m1" "network_sleep_count ?m1 = 0" by (simp_all add: initial_main_def)
  then show ?thesis using h
    by (simp add: main_step_calls_def v dispatch_def b2(1) i Let_def)
qed

lemma sample_run:
  "\<exists>t. held (foldl (main_step default_loop_config v) (initial_main default_loop_config (seconds 36000))
          [Pass entry_input, Pass entry_input]) = Some t \<and> qty t = 65 \<and> trade_side t = BUY"
  "running (foldl (main_step default_loop_config v) (initial_main default_loop_config (seconds 36000))
          [Pass entry_input, Pass entry_input])"
  "network_sleep_count (foldl (main_step default_loop_config v) (initial_main default_loop_config (seconds 36000))
          [Pass entry_input, Pass entry_input]) = 0"
  using second_pass[of v] by (auto simp: main_step_def first_pass)

section \<open>Properties of the loop\<close>

text \<open>C1: While a trade is held nothing else is opened: in every state the loop can reach with a trade held,
  whatever the next event is, the calls it sends are at most six placements, all for the opposite side
  and the exact quantity of that trade, and a trade held afterwards is the same one with its stop no
  looser.\<close>

theorem held_position_only_exited:
  assumes "m = foldl (main_step cfg validate) (initial_main cfg now) es"
    and "current_trade (b_state (ms_bot m)) = Some t"
    and "main_step_calls cfg validate m e = (m', tr)"
  shows "placements tr \<le> 6 \<and> only_for (opposite (trade_side t)) (qty t) tr
    \<and> (\<forall>t'. current_trade (b_state (ms_bot m')) = Some t' \<longrightarrow> entry_part t' = entry_part t
          \<and> stop_level (mc_exit (lc_machine cfg)) t \<le> stop_level (mc_exit (lc_machine cfg)) t')"
proof -
  have "loop_ok cfg m" unfolding assms(1) by (rule reachable_ok)
  from main_step_sound(1)[OF assms(3) this] show ?thesis
    using assms(2) by (auto simp: tracked_def exit_calls_def guarded_def)
qed

theorem held_position_only_exited_witness:
  "\<exists>m t. m = foldl (main_step default_loop_config (\<lambda>_. None)) (initial_main default_loop_config (seconds 36000))
       [Pass entry_input, Pass entry_input]
     \<and> current_trade (b_state (ms_bot m)) = Some t
     \<and> placements (snd (main_step_calls default_loop_config (\<lambda>_. None) m (Pass entry_input))) \<le> 6"
  using sample_run(1)[of "\<lambda>_. None"] held_position_only_exited[OF refl _ surjective_pairing] by blast

text \<open>C8: The machine state and the position agree: as long as the loop runs, IN\_TRADE means that a trade is
  held, and a trade held in any other state is one whose exit was not confirmed and that is flagged
  for manual intervention.\<close>

theorem position_matches_machine:
  assumes "m = foldl (main_step cfg validate) (initial_main cfg now) es" "running m"
  shows "(machine (b_state (ms_bot m)) = IN_TRADE \<longrightarrow> current_trade (b_state (ms_bot m)) \<noteq> None)
    \<and> (current_trade (b_state (ms_bot m)) \<noteq> None
         \<longrightarrow> machine (b_state (ms_bot m)) = IN_TRADE \<or> manual_intervention_required (b_state (ms_bot m)))"
  using reachable_ok[of cfg validate now es] assms by (simp add: loop_ok_def main_ok_def mpos_def')

theorem position_matches_machine_witness:
  "machine (b_state (ms_bot (foldl (main_step default_loop_config (\<lambda>_. None))
      (initial_main default_loop_config (seconds 36000)) [Pass entry_input, Pass entry_input]))) = IN_TRADE
   \<or> manual_intervention_required (b_state (ms_bot (foldl (main_step default_loop_config (\<lambda>_. None))
      (initial_main default_loop_config (seconds 36000)) [Pass entry_input, Pass entry_input])))"
  using sample_run[of "\<lambda>_. None"] position_matches_machine[OF refl, of default_loop_config "\<lambda>_. None"
      "seconds 36000" "[Pass entry_input, Pass entry_input]"] by blast

text \<open>With the operator's stop set and nothing held, no event but the resume changes either.\<close>

definition halted :: "main_state \<Rightarrow> bool" where
  "halted m \<longleftrightarrow> held m = None \<and> manual_stop (b_state (ms_bot m))"

lemma halted_frames [simp]:
  "halted (with_kill ks m) = halted m" "halted (alert_pass cfg m) = halted m"
  "halted (pass_start inp m) = halted m" "halted (m\<lparr>network_sleep_count := n\<rparr>) = halted m"
  "halted (m\<lparr>ms_bot := enter_kill (ms_bot m)\<rparr>) = halted m"
  "halted (m\<lparr>ms_bot := set_machine x (ms_bot m)\<rparr>) = halted m"
  "halted (outage_backoff i m) = halted m"
  by (simp_all add: halted_def with_kill_def alert_pass_def pass_start_def hourly_reset_def enter_kill_def
      set_machine_def Let_def)

lemma halted_passes:
  assumes "halted m"
  shows "outage_pass cfg inp m = ((r, m'), tr) \<Longrightarrow> halted m' \<and> tr = []"
    and "invalid_pass cfg inp tk m = ((r, m'), tr) \<Longrightarrow> halted m' \<and> tr = []"
    and "manual_stop_pass cfg inp tk m = ((r, m'), tr) \<Longrightarrow> halted m' \<and> tr = []"
proof -
  have h: "held m = None" "manual_stop (b_state (ms_bot m))" using assms by (simp_all add: halted_def)
  show "outage_pass cfg inp m = ((r, m'), tr) \<Longrightarrow> halted m' \<and> tr = []"
    using h by (auto simp: outage_pass_def halted_def Let_def split: if_splits)
  show "manual_stop_pass cfg inp tk m = ((r, m'), tr) \<Longrightarrow> halted m' \<and> tr = []"
    using assms h by (auto simp: manual_stop_pass_def)
  have "halted (with_kill ks m\<lparr>ms_bot := enter_kill (ms_bot (with_kill ks m))\<rparr>)" for ks
    using assms by (simp only: halted_frames)
  then show "invalid_pass cfg inp tk m = ((r, m'), tr) \<Longrightarrow> halted m' \<and> tr = []"
    using assms h by (auto simp: invalid_pass_def Let_def split: prod.splits if_splits)
qed

lemma halted_valid_pass:
  assumes "halted m" "valid_pass cfg validate inp tk m = ((r, m'), tr)"
  shows "halted m' \<and> tr = []"
proof -
  have stop: "manual_stop (b_state (ms_bot (alert_pass cfg (with_kill ks m))))"
    and h: "halted (alert_pass cfg (with_kill ks m))" for ks
    using assms(1) halted_frames(1,2) by (auto simp only: halted_def)
  then have "checked_pass cfg validate inp tk v (alert_pass cfg (with_kill ks m)) = ((r, m'), tr) \<Longrightarrow> ?thesis" for v ks
    using halted_passes(3)[OF h] by (simp add: checked_pass_def)
  then show ?thesis using assms by (auto simp: valid_pass_def split: prod.splits if_splits sum.splits)
qed

lemma halted_step:
  assumes "halted m" "e \<noteq> OperatorResume" "main_step_calls cfg validate m e = (m', tr)"
  shows "halted m' \<and> tr = []"
proof (cases e)
  case (Pass inp)
  obtain r m1 tr1 where p: "loop_pass cfg validate inp m = ((r, m1), tr1)" by (metis surj_pair)
  then have "halted m1 \<and> tr1 = []"
    using assms(1) by (auto simp: loop_pass_def split: option.splits if_splits
        dest!: halted_passes(1,2)[rotated] halted_valid_pass[rotated])
  with assms(3) Pass p show ?thesis using assms(1)
    by (auto simp: main_step_calls_def error_shutdown_def close_current_trade_def halted_def
        split: if_splits sum.splits)
qed (use assms in \<open>auto simp: main_step_calls_def set_manual_stop_def halted_def\<close>)

text \<open>C11: The operator's stop holds until the operator resumes: once it is set and no trade is held, no sequence
  of ticks, outages, signals or errors opens a trade or sends the broker a call.\<close>

theorem operator_stop_holds:
  assumes "manual_stop (b_state (ms_bot m))" "current_trade (b_state (ms_bot m)) = None"
    and "OperatorResume \<notin> set es"
  shows "\<exists>m'. main_run cfg validate m es = (m', []) \<and> current_trade (b_state (ms_bot m')) = None
    \<and> manual_stop (b_state (ms_bot m'))"
proof -
  have "\<exists>m'. main_run cfg validate m es = (m', []) \<and> halted m'" if "halted m" "OperatorResume \<notin> set es" for m
    using that
  proof (induction es arbitrary: m)
    case (Cons e es)
    obtain m1 tr where s: "main_step_calls cfg validate m e = (m1, tr)" by fastforce
    from halted_step[OF _ _ s] Cons.prems have "halted m1" "tr = []" by auto
    with Cons s show ?case by fastforce
  qed simp
  then show ?thesis using assms by (simp add: halted_def)
qed

theorem operator_stop_holds_witness:
  "\<exists>m'. main_run default_loop_config (\<lambda>_. None)
        (set_manual_stop True (initial_main default_loop_config (seconds 36000))) [Pass entry_input, Pass entry_input] = (m', [])
     \<and> current_trade (b_state (ms_bot m')) = None"
  using operator_stop_holds[of "set_manual_stop True (initial_main default_loop_config (seconds 36000))"
      "[Pass entry_input, Pass entry_input]" default_loop_config "\<lambda>_. None"]
  by (auto simp: set_manual_stop_def initial_main_def initial_trading_state_def)

section \<open>Emergencies\<close>

text \<open>What the bookkeeping of a pass leaves alone.\<close>

definition booked :: "main_state \<Rightarrow> trade option \<times> real \<times> int \<times> bool \<times> bool \<times> machine_state \<times> kill_switch \<times> bool" where
  "booked m = (let s = b_state (ms_bot m) in (current_trade s, daily_pnl_inr s, total_trades_today s,
     manual_intervention_required s, manual_stop s, machine s, b_kill (ms_bot m), running m))"

lemma booked_frames:
  "booked ((pass_start inp m)\<lparr>network_sleep_count := n\<rparr>) = booked m"
  "booked (alert_pass cfg (with_kill ks m)) = booked (with_kill ks m)"
  by (simp_all add: booked_def pass_start_def hourly_reset_def alert_pass_def Let_def)

lemma kill_machine_frames:
  "daily_pnl_inr (b_state (kill_machine r b)) = daily_pnl_inr (b_state b)"
  "machine (b_state (kill_machine r b)) \<in> {KILL_SWITCH, IDLE}"
  by (auto simp: kill_machine_def enter_kill_def set_machine_def split: kill_reason.splits)

lemma checked_pass_flattens:
  assumes "mc_paper (lc_machine cfg)" "total_capital (mc_risk (lc_machine cfg)) \<noteq> 0" "held m = Some t"
    and "v \<noteq> None \<or> manual_stop (b_state (ms_bot m))"
  shows "\<exists>res m'. checked_pass cfg validate inp tk v m = ((Inr (), m'), [])
    \<and> exit_position (mc_order (lc_machine cfg)) (li_gateway inp) False (li_token_known inp) (li_now inp)
        (total_capital (mc_risk (lc_machine cfg))) (Some tk) t = (Inr res, [])
    \<and> held m' = None \<and> machine (b_state (ms_bot m')) \<in> {KILL_SWITCH, IDLE}
    \<and> (manual_stop (b_state (ms_bot m)) \<longrightarrow> machine (b_state (ms_bot m')) = KILL_SWITCH)
    \<and> daily_pnl_inr (b_state (ms_bot m')) = daily_pnl_inr (b_state (ms_bot m)) + er_pnl_inr res"
proof -
  from paper_close[OF assms(1-3), of "li_gateway inp" "li_token_known inp" "li_now inp" tk]
  obtain b' res where c: "close_current_trade (lc_machine cfg) (li_gateway inp) (li_token_known inp) (li_now inp)
      (Some tk) (ms_bot m) = ((Inr True, b'), [])"
    "exit_position (mc_order (lc_machine cfg)) (li_gateway inp) False (li_token_known inp) (li_now inp)
        (total_capital (mc_risk (lc_machine cfg))) (Some tk) t = (Inr res, [])"
    "current_trade (b_state b') = None"
    "daily_pnl_inr (b_state b') = daily_pnl_inr (b_state (ms_bot m)) + er_pnl_inr res" by blast
  have cl: "closing cfg inp (Some tk) k m = ((Inr (), m\<lparr>ms_bot := k True b'\<rparr>), [])" for k
    using c(1) by (simp add: closing_def)
  show ?thesis
  proof (cases "manual_stop (b_state (ms_bot m))")
    case True
    with c cl assms(3) show ?thesis
      by (simp add: checked_pass_def manual_stop_pass_def) (simp add: set_machine_def)
  next
    case False
    with assms(4) obtain r where "v = Some r" by auto
    with False c cl assms(3) kill_machine_frames[of r b'] show ?thesis
      by (simp add: checked_pass_def kill_pass_def)
  qed
qed

text \<open>C12: An emergency flattens the book: on paper, whenever the emergency check of a valid tick returns a kill
  or the operator has pressed stop, and the pass is not held back by a manual intervention or a stale-data
  hold, that very pass closes the open trade at that tick, books its result on the day, and leaves
  the machine killed or idle - killed if the operator asked for it.\<close>

theorem emergency_flattens:
  assumes "mc_paper (lc_machine cfg)" "total_capital (mc_risk (lc_machine cfg)) \<noteq> 0"
    and "running m" "current_trade (b_state (ms_bot m)) = Some t"
    and "li_tick inp = Some tk" "li_valid inp"
    and "\<not> manual_intervention_required (b_state (ms_bot m))"
    and "reset_rejected_tick_counter (li_now inp) (b_kill (ms_bot m)) = (info, ks)" "can_clear info"
    and "emergency_check (lc_kill cfg) (li_now inp) tk (daily_pnl_inr (b_state (ms_bot m)))
           (total_trades_today (b_state (ms_bot m))) (li_last_valid inp) ks = (Inr v, ks2)"
    and "v \<noteq> None \<or> manual_stop (b_state (ms_bot m))"
  shows "\<exists>res m'. main_step_calls cfg validate m (Pass inp) = (m', [])
    \<and> exit_position (mc_order (lc_machine cfg)) (li_gateway inp) False (li_token_known inp) (li_now inp)
        (total_capital (mc_risk (lc_machine cfg))) (Some tk) t = (Inr res, [])
    \<and> current_trade (b_state (ms_bot m')) = None
    \<and> machine (b_state (ms_bot m')) \<in> {KILL_SWITCH, IDLE}
    \<and> (manual_stop (b_state (ms_bot m)) \<longrightarrow> machine (b_state (ms_bot m')) = KILL_SWITCH)
    \<and> daily_pnl_inr (b_state (ms_bot m')) = daily_pnl_inr (b_state (ms_bot m)) + er_pnl_inr res"
proof -
  define m1 where "m1 = (pass_start inp m)\<lparr>network_sleep_count := 0\<rparr>"
  define m2 where "m2 = alert_pass cfg (with_kill ks2 m1)"
  have m1: "booked m1 = booked m" by (simp only: m1_def booked_frames)
  have m2: "booked m2 = booked (with_kill ks2 m1)" by (simp only: m2_def booked_frames)
  have f2: "held m2 = Some t" "manual_stop (b_state (ms_bot m2)) = manual_stop (b_state (ms_bot m))"
    "daily_pnl_inr (b_state (ms_bot m2)) = daily_pnl_inr (b_state (ms_bot m))"
    using m1 m2 assms(4) by (simp_all add: booked_def with_kill_def Let_def)
  have v: "valid_pass cfg validate inp tk m1 = checked_pass cfg validate inp tk v m2"
    using assms(7-10) m1 by (simp add: valid_pass_def booked_def stale_hold_def m2_def Let_def)
  from checked_pass_flattens[OF assms(1,2) f2(1), of v validate inp tk] assms(11) f2(2)
  obtain res m' where c: "checked_pass cfg validate inp tk v m2 = ((Inr (), m'), [])"
    "exit_position (mc_order (lc_machine cfg)) (li_gateway inp) False (li_token_known inp) (li_now inp)
        (total_capital (mc_risk (lc_machine cfg))) (Some tk) t = (Inr res, [])"
    "held m' = None" "machine (b_state (ms_bot m')) \<in> {KILL_SWITCH, IDLE}"
    "manual_stop (b_state (ms_bot m2)) \<longrightarrow> machine (b_state (ms_bot m')) = KILL_SWITCH"
    "daily_pnl_inr (b_state (ms_bot m')) = daily_pnl_inr (b_state (ms_bot m2)) + er_pnl_inr res" by auto
  have "main_step_calls cfg validate m (Pass inp) = (m', [])"
    using assms(3,5,6) v c(1) by (simp add: main_step_calls_def loop_pass_def m1_def[symmetric])
  with c f2 show ?thesis by auto
qed

theorem emergency_flattens_witness:
  "\<exists>m'. main_step_calls default_loop_config (\<lambda>_. None)
      ((initial_main default_loop_config 0)\<lparr>ms_bot := (ms_bot (initial_main default_loop_config 0))
         \<lparr>b_state := initial_trading_state\<lparr>current_trade := Some long_call, machine := IN_TRADE, manual_stop := True\<rparr>\<rparr>\<rparr>)
      (Pass entry_input) = (m', []) \<and> current_trade (b_state (ms_bot m')) = None
    \<and> machine (b_state (ms_bot m')) = KILL_SWITCH"
proof -
  let ?m = "(initial_main default_loop_config 0)\<lparr>ms_bot := (ms_bot (initial_main default_loop_config 0))
         \<lparr>b_state := initial_trading_state\<lparr>current_trade := Some long_call, machine := IN_TRADE, manual_stop := True\<rparr>\<rparr>\<rparr>"
  have m: "running ?m" "current_trade (b_state (ms_bot ?m)) = Some long_call" "daily_pnl_inr (b_state (ms_bot ?m)) = 0"
    "\<not> manual_intervention_required (b_state (ms_bot ?m))" "manual_stop (b_state (ms_bot ?m))"
    "total_trades_today (b_state (ms_bot ?m)) = 0" "b_kill (ms_bot ?m) = initial_kill_switch"
    by (simp_all add: initial_main_def initial_trading_state_def)
  have p: "mc_paper (lc_machine default_loop_config)" "total_capital (mc_risk (lc_machine default_loop_config)) \<noteq> 0"
    by (simp_all add: default_loop_config_def default_machine_config_def default_risk_config_def)
  have r: "reset_rejected_tick_counter (seconds 36000) initial_kill_switch
      = (NotStale, initial_kill_switch\<lparr>consecutive_valid_ticks := 1\<rparr>)"
    by (simp add: reset_rejected_tick_counter_def initial_kill_switch_def Let_def)
  have e: "\<exists>ks2. emergency_check (lc_kill default_loop_config) (seconds 36000) entry_quote 0 0 None
      (initial_kill_switch\<lparr>consecutive_valid_ticks := 1\<rparr>) = (Inr None, ks2)"
    by (simp add: emergency_check_def spread_cooldown_check_def tick_freeze_check_def latency_check_def
        calc_latency_ms_def current_time_ms_def spread_pct_def spread_check_def limits_check_def
        initial_kill_switch_def default_loop_config_def default_kill_config_def entry_quote_def quote_def
        ks_limits time_simps Let_def)
  then obtain ks2 where e: "emergency_check (lc_kill default_loop_config) (seconds 36000) entry_quote 0 0 None
      (initial_kill_switch\<lparr>consecutive_valid_ticks := 1\<rparr>) = (Inr None, ks2)" by blast
  have i: "li_tick entry_input = Some entry_quote" "li_valid entry_input" "li_now entry_input = seconds 36000"
    "li_last_valid entry_input = None" by (simp_all add: entry_input_def)
  show ?thesis
    using emergency_flattens[OF p m(1,2) i(1,2) m(4), of NotStale _ None] r e m(3,5,6,7) i(3,4) by fastforce
qed

section \<open>A position nobody watches\<close>

text \<open>A pass on a valid tick while manual intervention is required does nothing but count the tick.\<close>

definition stranded :: "trade \<Rightarrow> main_state \<Rightarrow> bool" where
  "stranded t m \<longleftrightarrow> held m = Some t \<and> manual_intervention_required (b_state (ms_bot m)) \<and> running m"

definition healthy :: "loop_input \<Rightarrow> bool" where
  "healthy inp \<longleftrightarrow> li_valid inp \<and> li_tick inp \<noteq> None"

lemma stranded_step:
  assumes "stranded t m" "healthy inp"
  shows "\<exists>m'. main_step_calls cfg validate m (Pass inp) = (m', []) \<and> stranded t m'"
proof -
  obtain tk where tk: "li_tick inp = Some tk" using assms(2) by (auto simp: healthy_def)
  let ?m1 = "(pass_start inp m)\<lparr>network_sleep_count := 0\<rparr>"
  have 1: "stranded t ?m1" and man: "manual_intervention_required (b_state (ms_bot ?m1))"
    using assms(1) by (simp_all add: stranded_def pass_start_def hourly_reset_def Let_def)
  then have 2: "stranded t (with_kill ks ?m1)" for ks by (simp add: stranded_def with_kill_def)
  have "running m" using assms(1) by (simp add: stranded_def)
  with 2 man tk assms(2) show ?thesis
    by (auto simp: main_step_calls_def loop_pass_def valid_pass_def healthy_def split: prod.splits)
qed

lemma stranded_run:
  assumes "stranded t m" "\<forall>inp\<in>set inps. healthy inp"
  shows "\<exists>m'. main_run cfg validate m (map Pass inps) = (m', []) \<and> stranded t m'"
  using assms
proof (induction inps arbitrary: m)
  case (Cons inp inps)
  from stranded_step[OF Cons.prems(1), of inp cfg validate] Cons.prems(2)
  obtain m1 where s: "main_step_calls cfg validate m (Pass inp) = (m1, [])" "stranded t m1" by auto
  from Cons.IH[OF s(2)] Cons.prems(2) s show ?case by fastforce
qed simp

lemma outage_strands:
  assumes "running m" "held m = Some t" "network_sleep_count m = 0" "li_tick inp = None" "li_retry_tick inp = None"
  shows "\<exists>m'. main_step_calls cfg validate m (Pass inp) = (m', []) \<and> stranded t m'"
proof -
  have c: "closing cfg inp None k n = ((Inr (), n\<lparr>ms_bot := k False (hold_unconfirmed (ms_bot n))\<rparr>), [])"
    if "held n = Some t" for k n
    using that by (simp add: closing_def close_current_trade_def exit_position_def)
  have count: "network_sleep_count (pass_start inp m) = 0"
    using assms(3) by (simp add: pass_start_def hourly_reset_def Let_def)
  have run: "running (outage_backoff i n) = running n" "running (pass_start inp m)" for i n
    using assms(1) by (simp_all add: outage_backoff_def pass_start_def hourly_reset_def Let_def)
  have hold: "stranded t (outage_backoff i (n\<lparr>ms_bot := hold_unconfirmed (ms_bot n)\<rparr>))"
    if "held n = Some t" "running n" for i n
    using that by (simp add: stranded_def hold_unconfirmed_def run)
  have h: "held (pass_start inp m\<lparr>network_sleep_count := 1, network_backoff := 5\<rparr>) = Some t"
    "running (pass_start inp m\<lparr>network_sleep_count := 1, network_backoff := 5\<rparr>)"
    using assms(2) run(2) by simp_all
  have "outage_pass cfg inp (pass_start inp m)
      = ((Inr (), outage_backoff (li_internet_ok inp) ((pass_start inp m\<lparr>network_sleep_count := 1, network_backoff := 5\<rparr>)
            \<lparr>ms_bot := hold_unconfirmed (ms_bot (pass_start inp m\<lparr>network_sleep_count := 1, network_backoff := 5\<rparr>))\<rparr>)), [])"
    using c[OF h(1)] h(1) count assms(5) by (simp add: outage_pass_def Let_def)
  with hold[OF h] assms(1,4) show ?thesis
    by (simp add: main_step_calls_def loop_pass_def)
qed

text \<open>An exit that cannot be priced abandons the position: when the feed returns nothing while a trade is open, and
  nothing again for the tick the emergency exit asks for - \<open>get_tick\<close> answers so twice only when its cached tick belongs to
  another contract and REST has no price; a refresh that fails on a quiet stream is followed by the simulator, see
  \<open>Feed_Outage\<close> - no exit is sent, on paper or live, and from then on every healthy tick is skipped: however many follow,
  whatever their prices and the time of day, no stop is checked and no call reaches the broker while the position stays
  open.\<close>

theorem outage_strands_position:
  assumes "running m" "current_trade (b_state (ms_bot m)) = Some t" "network_sleep_count m = 0"
    and "li_tick out = None" "li_retry_tick out = None"
    and "\<forall>inp\<in>set inps. li_valid inp \<and> li_tick inp \<noteq> None"
  shows "\<exists>m'. main_run cfg validate m (Pass out # map Pass inps) = (m', [])
    \<and> current_trade (b_state (ms_bot m')) = Some t"
proof -
  obtain m1 where s: "main_step_calls cfg validate m (Pass out) = (m1, [])" "stranded t m1"
    using outage_strands[OF assms(1-5)] by blast
  have "\<forall>inp\<in>set inps. healthy inp" using assms(6) by (simp add: healthy_def)
  from stranded_run[OF s(2) this] s(1) show ?thesis by (auto simp: stranded_def)
qed

theorem outage_strands_position_witness:
  "\<exists>m t. m = foldl (main_step default_loop_config (\<lambda>_. None)) (initial_main default_loop_config (seconds 36000))
       [Pass entry_input, Pass entry_input]
    \<and> current_trade (b_state (ms_bot m)) = Some t
    \<and> (\<exists>m'. main_run default_loop_config (\<lambda>_. None) m
          (Pass (entry_input\<lparr>li_tick := None\<rparr>) # map Pass (replicate 100 entry_input)) = (m', [])
        \<and> current_trade (b_state (ms_bot m')) = Some t)"
proof -
  obtain m t where m: "m = foldl (main_step default_loop_config (\<lambda>_. None))
      (initial_main default_loop_config (seconds 36000)) [Pass entry_input, Pass entry_input]"
    "current_trade (b_state (ms_bot m)) = Some t" using sample_run(1) by blast
  moreover have "running m" using sample_run(2) m(1) by simp
  moreover have "network_sleep_count m = 0" using sample_run(3) m(1) by simp
  ultimately show ?thesis
    using outage_strands_position[of m t "entry_input\<lparr>li_tick := None\<rparr>" "replicate 100 entry_input"]
    by (fastforce simp: entry_input_def)
qed

end
