(* ===== verification/Py_Dict.thy ===== *)
theory Py_Dict
  imports Prelude
begin

text \<open>
  Insertion-ordered dictionaries of lists, as the source builds them with \<open>setdefault(k, []).append(v)\<close> to
  group rows, and lists with duplicates dropped in order.
\<close>

text \<open>\<open>setdefault(k, []).append(v)\<close> on a dictionary, which keeps the order of first insertion.\<close>

fun append_at :: "'k \<Rightarrow> 'v \<Rightarrow> ('k \<times> 'v list) list \<Rightarrow> ('k \<times> 'v list) list" where
  "append_at k v [] = [(k, [v])]"
| "append_at k v ((k', vs) # rest) = (if k = k' then (k', vs @ [v]) # rest else (k', vs) # append_at k v rest)"

definition group_by :: "('v \<Rightarrow> 'k option) \<Rightarrow> 'v list \<Rightarrow> ('k \<times> 'v list) list" where
  "group_by key vs = fold (\<lambda>v g. case key v of None \<Rightarrow> g | Some k \<Rightarrow> append_at k v g) vs []"

lemma map_of_append_at:
  "map_of (append_at k v g) = (map_of g)(k \<mapsto> get_or [] (map_of g k) @ [v])"
  by (induction k v g rule: append_at.induct) auto

lemma keys_append_at:
  "distinct (map fst g) \<Longrightarrow> distinct (map fst (append_at k v g))
     \<and> set (map fst (append_at k v g)) = insert k (set (map fst g))"
  by (induction k v g rule: append_at.induct) auto

lemma group_by_snoc:
  "group_by key (vs @ [v]) = (case key v of None \<Rightarrow> group_by key vs | Some k \<Rightarrow> append_at k v (group_by key vs))"
  by (simp add: group_by_def split: option.split)

lemma group_by_keys: "distinct (map fst (group_by key vs))"
  by (induction vs rule: rev_induct)
    (auto simp: group_by_snoc keys_append_at split: option.splits, simp add: group_by_def)

lemma group_by_map_of:
  "map_of (group_by key vs) k =
     (let own = filter (\<lambda>v. key v = Some k) vs in if own = [] then None else Some own)"
proof (induction vs rule: rev_induct)
  case Nil
  then show ?case by (simp add: group_by_def)
next
  case (snoc v vs)
  then show ?case by (auto simp: group_by_snoc map_of_append_at Let_def split: option.splits)
qed

lemma set_group_by:
  "k \<in> set (map fst (group_by key vs)) \<longleftrightarrow> (\<exists>v\<in>set vs. key v = Some k)"
proof -
  have "k \<in> set (map fst (group_by key vs)) \<longleftrightarrow> map_of (group_by key vs) k \<noteq> None"
    by (simp add: map_of_eq_None_iff)
  also have "\<dots> \<longleftrightarrow> (\<exists>v\<in>set vs. key v = Some k)"
    by (auto simp: group_by_map_of Let_def filter_empty_conv)
  finally show ?thesis .
qed

text \<open>\<open>seen\<close>-filtering keeps the first occurrence of each element.\<close>

definition unique :: "'a list \<Rightarrow> 'a list" where
  "unique xs = foldl (\<lambda>acc x. if x \<in> set acc then acc else acc @ [x]) [] xs"

lemma unique_snoc: "unique (xs @ [x]) = (if x \<in> set (unique xs) then unique xs else unique xs @ [x])"
  by (simp add: unique_def)

lemma unique: "set (unique xs) = set xs \<and> distinct (unique xs)"
  by (induction xs rule: rev_induct) (auto simp: unique_snoc, simp_all add: unique_def)

lemma unique_Nil [simp]: "unique xs = [] \<longleftrightarrow> xs = []"
  using unique[of xs] by (metis empty_set set_empty2)

end
