(* ===== verification/Runtime_State.thy ===== *)
theory Runtime_State
  imports Market_Tick Py_Dict
begin

text \<open>
  The shared state of the loop (\<open>core/runtime/state.py\<close>): the rolling tick buffer and the candles the indicators are
  computed from.  A candle's label is a fixed-width local timestamp (\<open>%Y-%m-%dT%H:%M:%S+05:30\<close>, to which the code
  completes the 16-character form); it is modelled by the instant it names, whose order is the order of the labels.  Outside
  the model: a historical label in any other text form, which the code would keep as a key of its own.  Ticks carry epoch
  milliseconds (or seconds), which the code shifts to IST.
\<close>

record candle =
  cd_label :: instant
  cd_open :: real
  cd_high :: real
  cd_low :: real
  cd_close :: real
  cd_volume :: int
  cd_live :: bool

record minute_candle = candle +
  cd_count :: nat

record runtime_state =
  rt_ticks :: "tick list"
  rt_historical :: "(instant option \<times> candle) list"
  rt_history :: "minute_candle list"
  rt_counters :: "string \<rightharpoonup> int"

definition new_runtime :: runtime_state where
  "new_runtime = \<lparr>rt_ticks = [], rt_historical = [], rt_history = [], rt_counters = Map.empty\<rparr>"

definition extend_ticks :: "nat \<Rightarrow> runtime_state \<Rightarrow> tick list \<Rightarrow> runtime_state" where
  "extend_ticks n s ts =
     (let all = rt_ticks s @ ts in s\<lparr>rt_ticks := (if n < length all then last_n n all else all)\<rparr>)"

definition add_tick :: "nat \<Rightarrow> runtime_state \<Rightarrow> tick \<Rightarrow> runtime_state" where
  "add_tick n s t =
     (let all = rt_ticks s @ [t] in s\<lparr>rt_ticks := (if n < length all then last_n n all else all)\<rparr>)"

definition get_recent_ticks :: "nat option \<Rightarrow> runtime_state \<Rightarrow> tick list" where
  "get_recent_ticks n s = (case n of None \<Rightarrow> rt_ticks s | Some k \<Rightarrow> last_n k (rt_ticks s))"

definition clear_ticks :: "runtime_state \<Rightarrow> runtime_state" where
  "clear_ticks s = s\<lparr>rt_ticks := [], rt_history := []\<rparr>"

definition set_historical_candles :: "(instant option \<times> candle) list \<Rightarrow> runtime_state \<Rightarrow> runtime_state" where
  "set_historical_candles cs s = s\<lparr>rt_historical := cs\<rparr>"

definition increment_counter :: "string \<Rightarrow> int \<Rightarrow> runtime_state \<Rightarrow> runtime_state" where
  "increment_counter name v s = s\<lparr>rt_counters := (rt_counters s)(name \<mapsto> get_or 0 (rt_counters s name) + v)\<rparr>"

lemma add_tick_window: "0 < n \<Longrightarrow> length (rt_ticks s) \<le> n \<Longrightarrow> rt_ticks (add_tick n s t) = last_n n (rt_ticks s @ [t])"
  by (simp add: add_tick_def Let_def)

text \<open>The loop keeps \<open>2 * MAX_RECENT_TICKS = 240\<close> ticks.\<close>

interpretation tick_window: bounded_buffer "add_tick 240" rt_ticks 240
  by unfold_locales (simp_all add: add_tick_window)

section \<open>Live candles\<close>

definition candle_price :: "tick \<Rightarrow> real" where
  "candle_price t = (if spot_price t \<noteq> 0 then spot_price t else ltp t)"

definition stamp_ms :: "tick \<Rightarrow> int" where
  "stamp_ms t = (case original_timestamp t of Some ms \<Rightarrow> if ms \<noteq> 0 then ms else tick_timestamp t
                 | None \<Rightarrow> tick_timestamp t)"

definition ist_time :: "tick \<Rightarrow> instant" where
  "ist_time t = (if 10000000000 < stamp_ms t then stamp_ms t * 1000 else stamp_ms t * 1000000) + seconds 19800"

definition bucket_label :: "int \<Rightarrow> instant \<Rightarrow> instant" where
  "bucket_label interval dt =
     dt div 3600000000 * 3600000000 + (minute_of dt - minute_of dt mod interval) * 60000000"

definition tick_size_traded :: "tick \<Rightarrow> int" where
  "tick_size_traded t = get_or 0 (tick_volume t)"

definition open_candle :: "instant \<Rightarrow> tick \<Rightarrow> candle" where
  "open_candle l t = \<lparr>cd_label = l, cd_open = candle_price t, cd_high = candle_price t, cd_low = candle_price t,
     cd_close = candle_price t, cd_volume = tick_size_traded t, cd_live = True\<rparr>"

definition grow_candle :: "tick \<Rightarrow> candle \<Rightarrow> candle" where
  "grow_candle t c = c\<lparr>cd_high := max (cd_high c) (candle_price t), cd_low := min (cd_low c) (candle_price t),
     cd_close := candle_price t, cd_volume := cd_volume c + tick_size_traded t\<rparr>"

definition candle_tick :: "(tick \<Rightarrow> instant) \<Rightarrow> tick \<Rightarrow> (instant \<rightharpoonup> candle) \<Rightarrow> (instant \<rightharpoonup> candle)" where
  "candle_tick label t m =
     (if candle_price t \<le> 0 then m
      else m(label t \<mapsto> (case m (label t) of None \<Rightarrow> open_candle (label t) t | Some c \<Rightarrow> grow_candle t c)))"

definition live_candles :: "(tick \<Rightarrow> instant) \<Rightarrow> tick list \<Rightarrow> (instant \<rightharpoonup> candle)" where
  "live_candles label ts = fold (candle_tick label) ts Map.empty"

text \<open>The labels that occur, for the final sort.\<close>

definition labels_of :: "(tick \<Rightarrow> instant) \<Rightarrow> tick list \<Rightarrow> instant list" where
  "labels_of label ts = map label (filter (\<lambda>t. 0 < candle_price t) ts)"

section \<open>Merging\<close>

definition historical_map :: "(instant option \<times> candle) list \<Rightarrow> (instant \<rightharpoonup> candle)" where
  "historical_map cs = fold (\<lambda>(l, c) m. case l of None \<Rightarrow> m
     | Some k \<Rightarrow> m(k \<mapsto> c\<lparr>cd_label := k, cd_live := False\<rparr>)) cs Map.empty"

definition get_canonical_candles :: "int \<Rightarrow> runtime_state \<Rightarrow> candle list" where
  "get_canonical_candles interval s =
     (let label = (\<lambda>t. bucket_label interval (ist_time t));
          m = historical_map (rt_historical s) ++ live_candles label (rt_ticks s);
          keys = unique (List.map_filter fst (rt_historical s) @ labels_of label (rt_ticks s))
      in map (\<lambda>k. the (m k)) (sort keys))"

text \<open>\<open>rebuild_candles\<close>: one-minute candles with the number of ticks in them.\<close>

definition minute_label :: "tick \<Rightarrow> instant" where
  "minute_label t = ist_time t div 60000000 * 60000000"

definition rebuild_candles :: "tick list option \<Rightarrow> runtime_state \<Rightarrow> runtime_state" where
  "rebuild_candles source s =
     (let ts = get_or (rt_ticks s) source; m = live_candles minute_label ts
      in s\<lparr>rt_history := map (\<lambda>k. candle.extend (the (m k))
                (minute_candle.fields (length (filter (\<lambda>t. minute_label t = k \<and> 0 < candle_price t) ts))))
                (sort (unique (labels_of minute_label ts)))\<rparr>)"

section \<open>What a candle is\<close>

definition in_bucket :: "(tick \<Rightarrow> instant) \<Rightarrow> instant \<Rightarrow> tick list \<Rightarrow> tick list" where
  "in_bucket label k ts = filter (\<lambda>t. label t = k \<and> 0 < candle_price t) ts"

definition candle_of :: "instant \<Rightarrow> tick list \<Rightarrow> candle" where
  "candle_of k ts =
     \<lparr>cd_label = k, cd_open = candle_price (hd ts), cd_high = Max (candle_price ` set ts),
      cd_low = Min (candle_price ` set ts), cd_close = candle_price (last ts),
      cd_volume = sum_list (map tick_size_traded ts), cd_live = True\<rparr>"

lemma candle_of_fields [simp]:
  "cd_label (candle_of k ts) = k" "cd_live (candle_of k ts)"
  "cd_volume (candle_of k ts) = sum_list (map tick_size_traded ts)" "cd_high (candle_of k ts) = Max (candle_price ` set ts)"
  by (simp_all add: candle_of_def)

lemma candle_of_single: "candle_of k [t] = open_candle k t"
  by (simp add: candle_of_def open_candle_def)

lemma candle_of_grow: "ts \<noteq> [] \<Longrightarrow> candle_of k (ts @ [t]) = grow_candle t (candle_of k ts)"
  by (simp add: candle_of_def grow_candle_def max.commute min.commute)

lemma live_candles_snoc: "live_candles label (ts @ [t]) = candle_tick label t (live_candles label ts)"
  by (simp add: live_candles_def)

lemma live_candles_exact:
  "live_candles label ts k = (if in_bucket label k ts = [] then None else Some (candle_of k (in_bucket label k ts)))"
proof (induction ts arbitrary: k rule: rev_induct)
  case Nil
  then show ?case by (simp add: live_candles_def in_bucket_def)
next
  case (snoc t ts)
  have "in_bucket label k (ts @ [t]) =
      in_bucket label k ts @ (if label t = k \<and> 0 < candle_price t then [t] else [])" for k by (simp add: in_bucket_def)
  then show ?case using snoc
    by (auto simp: live_candles_snoc candle_tick_def candle_of_grow candle_of_single[of _ t] not_le split: option.splits)
qed

lemma live_candles_dom: "k \<in> set (labels_of label ts) \<longleftrightarrow> live_candles label ts k \<noteq> None"
  by (auto simp: live_candles_exact in_bucket_def labels_of_def filter_empty_conv)

lemma historical_map_snoc:
  "historical_map (cs @ [(l, c)]) = (case l of None \<Rightarrow> historical_map cs
     | Some k \<Rightarrow> (historical_map cs)(k \<mapsto> c\<lparr>cd_label := k, cd_live := False\<rparr>))"
  by (simp add: historical_map_def split: option.split)

lemma historical_map_dom:
  "(k \<in> set (List.map_filter fst cs) \<longleftrightarrow> historical_map cs k \<noteq> None)
   \<and> (\<forall>c. historical_map cs k = Some c \<longrightarrow> cd_label c = k \<and> \<not> cd_live c)"
proof (induction cs rule: rev_induct)
  case Nil
  then show ?case by (simp add: historical_map_def map_filter_def)
next
  case (snoc x cs)
  then show ?case by (cases x) (auto simp: historical_map_snoc map_filter_def split: option.splits if_splits)
qed

definition merged_candles :: "int \<Rightarrow> runtime_state \<Rightarrow> (instant \<rightharpoonup> candle)" where
  "merged_candles i s =
     historical_map (rt_historical s) ++ live_candles (\<lambda>t. bucket_label i (ist_time t)) (rt_ticks s)"

definition merged_labels :: "int \<Rightarrow> runtime_state \<Rightarrow> instant list" where
  "merged_labels i s = sort (unique (List.map_filter fst (rt_historical s)
     @ labels_of (\<lambda>t. bucket_label i (ist_time t)) (rt_ticks s)))"

lemma canonical_merged: "get_canonical_candles i s = map (\<lambda>k. the (merged_candles i s k)) (merged_labels i s)"
  by (simp add: get_canonical_candles_def Let_def merged_candles_def merged_labels_def)

lemma merged_candle:
  assumes "k \<in> set (merged_labels i s)"
  defines "own \<equiv> in_bucket (\<lambda>t. bucket_label i (ist_time t)) k (rt_ticks s)"
  shows "cd_label (the (merged_candles i s k)) = k"
    and "if own = [] then \<not> cd_live (the (merged_candles i s k)) else the (merged_candles i s k) = candle_of k own"
proof -
  let ?h = "historical_map (rt_historical s)" and ?l = "live_candles (\<lambda>t. bucket_label i (ist_time t)) (rt_ticks s)"
  have "?h k \<noteq> None \<or> ?l k \<noteq> None"
    using assms(1) historical_map_dom[of k "rt_historical s"] live_candles_dom[of k _ "rt_ticks s"]
    by (auto simp: merged_labels_def unique)
  then have "cd_label (the (merged_candles i s k)) = k
      \<and> (if own = [] then \<not> cd_live (the (merged_candles i s k)) else the (merged_candles i s k) = candle_of k own)"
    using historical_map_dom[of k "rt_historical s"]
    by (auto simp: merged_candles_def map_add_def live_candles_exact own_def candle_of_def split: option.splits if_splits)
  then show "cd_label (the (merged_candles i s k)) = k"
    "if own = [] then \<not> cd_live (the (merged_candles i s k)) else the (merged_candles i s k) = candle_of k own"
    by blast+
qed

lemma canonical_labels: "map cd_label (get_canonical_candles i s) = merged_labels i s"
  by (simp add: canonical_merged map_idI merged_candle(1))

lemma historical_map_exact:
  "historical_map cs k =
     (let past = filter (\<lambda>h. fst h = Some k) cs
      in if past = [] then None else Some ((snd (last past))\<lparr>cd_label := k, cd_live := False\<rparr>))"
proof (induction cs rule: rev_induct)
  case Nil
  then show ?case by (simp add: historical_map_def)
next
  case (snoc x cs)
  then show ?case by (cases x) (auto simp: historical_map_snoc Let_def split: option.splits)
qed

lemma merged_labels_set:
  "set (merged_labels i s) = {k. Some k \<in> fst ` set (rt_historical s)}
     \<union> (\<lambda>t. bucket_label i (ist_time t)) ` {t \<in> set (rt_ticks s). 0 < candle_price t}"
  by (force simp: merged_labels_def unique labels_of_def map_filter_def image_iff)

text \<open>C28: The canonical candles are what the buffer says. There is exactly one candle per label, in ascending order: the
  labels are those of the historical candles and of the intervals the buffered ticks fall in, no more and no fewer. A
  candle with ticks in its interval is the reference candle of exactly those ticks - first, highest, lowest and last price
  and the summed volumes - and replaces a historical candle of the same label; any other candle is the last historical
  one of its label.\<close>

theorem canonical_candles_exact:
  "sorted_wrt (<) (map cd_label (get_canonical_candles i s))
   \<and> set (map cd_label (get_canonical_candles i s)) = {k. Some k \<in> fst ` set (rt_historical s)}
        \<union> (\<lambda>t. bucket_label i (ist_time t)) ` {t \<in> set (rt_ticks s). 0 < candle_price t}
   \<and> (\<forall>c\<in>set (get_canonical_candles i s).
        let own = in_bucket (\<lambda>t. bucket_label i (ist_time t)) (cd_label c) (rt_ticks s);
            past = filter (\<lambda>h. fst h = Some (cd_label c)) (rt_historical s)
        in if own \<noteq> [] then c = candle_of (cd_label c) own
           else past \<noteq> [] \<and> c = (snd (last past))\<lparr>cd_label := cd_label c, cd_live := False\<rparr>)"
proof (intro conjI ballI)
  show "sorted_wrt (<) (map cd_label (get_canonical_candles i s))"
    by (simp add: canonical_labels merged_labels_def strict_sorted_iff unique)
  show "set (map cd_label (get_canonical_candles i s)) = {k. Some k \<in> fst ` set (rt_historical s)}
        \<union> (\<lambda>t. bucket_label i (ist_time t)) ` {t \<in> set (rt_ticks s). 0 < candle_price t}"
    by (simp only: canonical_labels merged_labels_set)
  fix c assume "c \<in> set (get_canonical_candles i s)"
  then obtain k where k: "k \<in> set (merged_labels i s)" "c = the (merged_candles i s k)" by (auto simp: canonical_merged)
  let ?own = "in_bucket (\<lambda>t. bucket_label i (ist_time t)) k (rt_ticks s)"
  note m = merged_candle[OF k(1)]
  have label: "cd_label c = k" using m(1) k(2) by simp
  have past: "filter (\<lambda>h. fst h = Some k) (rt_historical s) \<noteq> []" if "?own = []"
    using k(1) that by (force simp: merged_labels_set in_bucket_def filter_empty_conv)
  have "c = the (historical_map (rt_historical s) k)" if "?own = []"
    using that k(2) by (simp add: merged_candles_def map_add_def live_candles_exact)
  with past have "?own = [] \<Longrightarrow> c = (snd (last (filter (\<lambda>h. fst h = Some k) (rt_historical s))))\<lparr>cd_label := k, cd_live := False\<rparr>"
    by (simp add: historical_map_exact Let_def)
  then show "let own = in_bucket (\<lambda>t. bucket_label i (ist_time t)) (cd_label c) (rt_ticks s);
            past = filter (\<lambda>h. fst h = Some (cd_label c)) (rt_historical s)
        in if own \<noteq> [] then c = candle_of (cd_label c) own
           else past \<noteq> [] \<and> c = (snd (last past))\<lparr>cd_label := cd_label c, cd_live := False\<rparr>"
    using m(2) k(2) past by (auto simp: label Let_def split: if_splits)
qed

definition nine_fifteen_tick :: "real \<Rightarrow> tick" where
  "nine_fifteen_tick p =
     \<lparr>ltp = 100, bid = 99, ask = 101, tick_timestamp = 1700000000000, original_timestamp = None,
      tick_symbol = ''NIFTY'', spot_price = p, tick_volume = Some 5000, data_source = ''WEBSOCKET'',
      tick_spread_pct = None, tick_delta = None, tick_atr = None, tick_iv = None, tick_tte_sec = None\<rparr>"

definition sample_runtime :: runtime_state where
  "sample_runtime = add_tick 240 (add_tick 240 new_runtime (nine_fifteen_tick 25000)) (nine_fifteen_tick 25010)"

lemma sample_candle:
  "\<exists>c\<in>set (get_canonical_candles 5 sample_runtime). in_bucket (\<lambda>t. bucket_label 5 (ist_time t)) (cd_label c)
       (rt_ticks sample_runtime) = [nine_fifteen_tick 25000, nine_fifteen_tick 25010]"
proof -
  have label: "bucket_label 5 (ist_time (nine_fifteen_tick p)) = 1700019600000000" for p
    by (simp add: bucket_label_def ist_time_def stamp_ms_def nine_fifteen_tick_def minute_of_def seconds_def)
  have "rt_ticks sample_runtime = [nine_fifteen_tick 25000, nine_fifteen_tick 25010]"
    by (simp add: sample_runtime_def add_tick_def new_runtime_def)
  then have "1700019600000000 \<in> set (map cd_label (get_canonical_candles 5 sample_runtime))"
    by (simp add: canonical_labels merged_labels_def unique labels_of_def label)
      (simp add: nine_fifteen_tick_def candle_price_def)
  then show ?thesis
    using \<open>rt_ticks sample_runtime = _\<close>
    by (auto simp: in_bucket_def label) (auto simp: nine_fifteen_tick_def candle_price_def)
qed

theorem canonical_candles_exact_witness:
  "\<exists>c\<in>set (get_canonical_candles 5 sample_runtime). cd_live c \<and> cd_high c = 25010"
proof -
  obtain c where c: "c \<in> set (get_canonical_candles 5 sample_runtime)"
    and own: "in_bucket (\<lambda>t. bucket_label 5 (ist_time t)) (cd_label c) (rt_ticks sample_runtime) =
      [nine_fifteen_tick 25000, nine_fifteen_tick 25010]"
    using sample_candle by blast
  have "c = candle_of (cd_label c) [nine_fifteen_tick 25000, nine_fifteen_tick 25010]"
    using canonical_candles_exact[of 5 sample_runtime] c own unfolding Let_def by force
  then have "cd_live c" "cd_high c = Max (candle_price ` {nine_fifteen_tick 25000, nine_fifteen_tick 25010})"
    by (metis candle_of_fields(2), metis candle_of_fields(4) list.set(1,2))
  then show ?thesis using c by (auto simp: candle_price_def nine_fifteen_tick_def intro!: bexI[of _ c])
qed

text \<open>A live candle's volume counts a running total once per tick. The ticks carry the day's cumulative volume, and the
  candle adds it up: while nothing trades at all, \<open>n\<close> ticks give a candle of \<open>n\<close> times the day's volume.\<close>

theorem candle_volume_multiplied:
  assumes "own = in_bucket (\<lambda>t. bucket_label i (ist_time t)) (cd_label c) (rt_ticks s)" "own \<noteq> []"
    and "c \<in> set (get_canonical_candles i s)" "\<forall>t\<in>set own. tick_volume t = Some v"
  shows "cd_volume c = int (length own) * v"
proof -
  have "c = candle_of (cd_label c) own"
    using merged_candle[of _ i s] assms(1-3) by (auto simp: canonical_merged split: if_splits)
  moreover have "map tick_size_traded own = replicate (length own) v"
    using assms(4) by (induction own) (auto simp: tick_size_traded_def)
  ultimately have "cd_volume c = sum_list (replicate (length own) v)" by (metis candle_of_fields(3))
  then show ?thesis by (simp add: sum_list_replicate)
qed

theorem candle_volume_multiplied_witness: "\<exists>c\<in>set (get_canonical_candles 5 sample_runtime). cd_volume c = 2 * 5000"
proof -
  obtain c where c: "c \<in> set (get_canonical_candles 5 sample_runtime)"
    and own: "[nine_fifteen_tick 25000, nine_fifteen_tick 25010]
         = in_bucket (\<lambda>t. bucket_label 5 (ist_time t)) (cd_label c) (rt_ticks sample_runtime)"
    using sample_candle by metis
  have "cd_volume c = int (length [nine_fifteen_tick 25000, nine_fifteen_tick 25010]) * 5000"
    by (rule candle_volume_multiplied[OF own _ c]) (simp_all add: nine_fifteen_tick_def)
  with c show ?thesis by (intro bexI[of _ c]) simp_all
qed

text \<open>The live candle forgets. The buffer holds 240 ticks, so once 240 more have come the candles are computed from those
  alone: an open, a high or a low of the same five minutes that came earlier is gone, and so is every earlier live
  candle, since the historical ones are loaded only at start.\<close>

theorem candles_forget_older_ticks:
  assumes "length (rt_ticks s) \<le> 240" "240 \<le> length ts"
  shows "live_candles label (rt_ticks (foldl (add_tick 240) s ts)) = live_candles label (last_n 240 ts)"
proof -
  have "last_n 240 (rt_ticks s @ ts) = last_n 240 ts" using assms(2) by (simp add: last_n_def)
  then show ?thesis by (simp add: tick_window.items_run[OF assms(1)])
qed

theorem candles_forget_older_ticks_witness:
  "live_candles minute_label (rt_ticks (foldl (add_tick 240) sample_runtime (replicate 240 (nine_fifteen_tick 24000))))
     = live_candles minute_label (last_n 240 (replicate 240 (nine_fifteen_tick 24000)))"
  by (rule candles_forget_older_ticks) (simp_all add: sample_runtime_def add_tick_def new_runtime_def)

end
