(* ===== verification/Indicators.thy ===== *)
theory Indicators
  imports Runtime_State
begin

text \<open>
  The indicators (\<open>strategies/market_context.py\<close>): averages, RSI, MACD, bands, ATR, volume and VWAP, computed from
  the canonical candles when there are fifteen of them and from the raw ticks otherwise.  A dictionary without keys
  (too little data) is \<open>None\<close>; the momentum divides by an old price and raises when that is zero.
\<close>

section \<open>Building blocks\<close>

definition ema_step :: "real \<Rightarrow> real \<Rightarrow> real \<Rightarrow> real" where
  "ema_step m r p = (p - r) * m + r"

definition ema_factor_of :: "nat \<Rightarrow> real" where
  "ema_factor_of n = 2 / (of_nat n + 1)"

definition ema_of :: "real list \<Rightarrow> nat \<Rightarrow> real" where
  "ema_of xs n =
     (if length xs < n then if xs = [] then 0 else last xs
      else foldl (ema_step (ema_factor_of n)) (sum_list (take n xs) / of_nat n) (drop n xs))"

definition changes :: "real list \<Rightarrow> real list" where
  "changes xs = map2 (-) (tl xs) xs"

definition smooth :: "nat \<Rightarrow> real \<Rightarrow> real \<Rightarrow> real" where
  "smooth n avg x = (avg * (of_nat n - 1) + x) / of_nat n"

definition wilder :: "nat \<Rightarrow> real list \<Rightarrow> real" where
  "wilder n xs = foldl (smooth n) (sum_list (take n xs) / of_nat n) (drop n xs)"

definition rsi_of :: "real list \<Rightarrow> nat \<Rightarrow> real" where
  "rsi_of xs n =
     (if length xs < n + 1 then 50
      else let cs = changes xs;
               gain = wilder n (map (\<lambda>c. max c 0) cs); loss = wilder n (map (\<lambda>c. \<bar>min c 0\<bar>) cs)
           in if loss = 0 then if 0 < gain then 100 else 50
              else 100 - 100 / (1 + gain / loss))"

definition std_of :: "real list \<Rightarrow> real" where
  "std_of xs =
     (if length xs < 2 then 0
      else let m = sum_list xs / of_nat (length xs)
           in sqrt (sum_list (map (\<lambda>x. (x - m)\<^sup>2) xs) / of_nat (length xs)))"

record indicator_config =
  ic_ema_fast :: nat
  ic_ema_signal :: nat
  ic_ema_medium :: nat
  ic_ema_slow :: nat
  ic_rsi_period :: nat
  ic_macd_fast :: nat
  ic_macd_slow :: nat
  ic_macd_signal :: nat
  ic_bb_period :: nat
  ic_bb_std :: real
  ic_atr_period :: nat
  ic_kc_period :: nat
  ic_kc_atr_mult :: real
  ic_vol_sma :: nat
  ic_spike :: real

definition default_indicator_config :: indicator_config where
  "default_indicator_config =
     \<lparr>ic_ema_fast = 5, ic_ema_signal = 9, ic_ema_medium = 21, ic_ema_slow = 50, ic_rsi_period = 14, ic_macd_fast = 12,
      ic_macd_slow = 26, ic_macd_signal = 9, ic_bb_period = 20, ic_bb_std = 2, ic_atr_period = 14, ic_kc_period = 20,
      ic_kc_atr_mult = 3/2, ic_vol_sma = 20, ic_spike = 3/2\<rparr>"

record series =
  se_prices :: "real list"
  se_highs :: "real list"
  se_lows :: "real list"
  se_volumes :: "real list"
  se_chunk :: nat

record indicators =
  in_ema5 :: real
  in_ema9 :: real
  in_ema21 :: real
  in_ema50 :: real
  in_rsi :: real
  in_macd :: real
  in_macd_signal :: real
  in_macd_hist :: real
  in_macd_hist_prev :: real
  in_bb_mid :: real
  in_bb_upper :: real
  in_bb_lower :: real
  in_atr :: real
  in_kc_mid :: real
  in_kc_upper :: real
  in_kc_lower :: real
  in_squeeze :: bool
  in_vol_sma :: real
  in_vol_ratio :: real
  in_volume_spike :: bool
  in_vwap :: real
  in_above_vwap :: bool
  in_below_vwap :: bool
  in_vwap_distance :: real
  in_mom :: real
  in_close :: real
  in_prev_close :: real
  in_high :: real
  in_low :: real

section \<open>The price series\<close>

fun chunks :: "nat \<Rightarrow> real list \<Rightarrow> nat \<Rightarrow> real list list" where
  "chunks k xs 0 = []"
| "chunks k xs (Suc fuel) = (if xs = [] then [] else take k xs # chunks k (drop k xs) fuel)"

definition candle_series :: "candle list \<Rightarrow> series" where
  "candle_series cs =
     \<lparr>se_prices = map cd_close cs, se_highs = map cd_high cs, se_lows = map cd_low cs,
      se_volumes = map (\<lambda>c. of_int (cd_volume c)) cs, se_chunk = 1\<rparr>"

definition tick_series :: "tick list \<Rightarrow> series option" where
  "tick_series ts =
     (if length ts < 60 then None
      else let spots = map spot_price ts;
               prices = (if last spots < 1000 then map ltp ts else spots);
               k = max 1 (length prices div 60); cs = chunks k prices (length prices)
           in if length cs < 30 then None
              else Some \<lparr>se_prices = prices, se_highs = map (\<lambda>c. Max (set c)) cs, se_lows = map (\<lambda>c. Min (set c)) cs,
                         se_volumes = map (\<lambda>t. of_int (get_or 10000 (tick_volume t))) ts, se_chunk = k\<rparr>)"

definition price_series :: "candle list \<Rightarrow> tick list \<Rightarrow> series option" where
  "price_series canonical ts = (if 15 \<le> length canonical then Some (candle_series canonical) else tick_series ts)"

section \<open>The indicators of a series\<close>

definition macd_line :: "indicator_config \<Rightarrow> real list \<Rightarrow> real" where
  "macd_line cfg xs = ema_of xs (ic_macd_fast cfg) - ema_of xs (ic_macd_slow cfg)"

text \<open>The MACD of the prefixes \<open>prices[:idx + 1]\<close>, \<open>idx = len - i\<close> for \<open>i = lookback, ..., 1\<close>, and then the line.\<close>

definition macd_lookback :: "indicator_config \<Rightarrow> real list \<Rightarrow> nat" where
  "macd_lookback cfg xs = min (length xs - ic_macd_slow cfg) (ic_macd_signal cfg * 3)"

definition macd_values :: "indicator_config \<Rightarrow> real list \<Rightarrow> real list" where
  "macd_values cfg xs =
     map (\<lambda>i. macd_line cfg (take (length xs - i + 1) xs)) (rev [1..<macd_lookback cfg xs + 1]) @ [macd_line cfg xs]"

text \<open>MACD, signal line, histogram and previous histogram.\<close>

definition macd_block :: "indicator_config \<Rightarrow> real list \<Rightarrow> real \<times> real \<times> real \<times> real" where
  "macd_block cfg xs =
     (if length xs < ic_macd_slow cfg then (0, 0, 0, 0)
      else let line = macd_line cfg xs
           in if macd_lookback cfg xs < ic_macd_signal cfg then (line, line, 0, 0)
              else let vs = macd_values cfg xs; signal = ema_of vs (ic_macd_signal cfg)
                   in (line, signal, line - signal,
                       if 1 < length vs then vs ! (length vs - 2) - ema_of (butlast vs) (ic_macd_signal cfg)
                       else line - signal))"

definition true_range :: "series \<Rightarrow> nat \<Rightarrow> real" where
  "true_range s i =
     (let p = se_prices s ! min (i * se_chunk s) (length (se_prices s) - 1); h = se_highs s ! i; l = se_lows s ! i
      in max (h - l) (max \<bar>h - p\<bar> \<bar>l - p\<bar>))"

definition atr_of :: "indicator_config \<Rightarrow> series \<Rightarrow> real" where
  "atr_of cfg s =
     (let rs = map (true_range s) [1..<min (min (length (se_highs s)) (length (se_lows s))) (ic_atr_period cfg + 1)]
      in if rs = [] then 50 else sum_list rs / of_nat (length rs))"

definition sma_of :: "real list \<Rightarrow> nat \<Rightarrow> real" where
  "sma_of xs n = (if n \<le> length xs then sum_list (last_n n xs) / of_nat n else last xs)"

definition volume_sma :: "real list \<Rightarrow> nat \<Rightarrow> real" where
  "volume_sma vs n =
     (if n \<le> length vs then sum_list (last_n n vs) / of_nat n else sum_list vs / of_nat (length vs))"

definition series_vwap :: "series \<Rightarrow> real" where
  "series_vwap s =
     (let ps = se_prices s; vs = se_volumes s
      in if 20 \<le> length ps \<and> 20 \<le> length vs
         then let total = sum_list (if 60 \<le> length vs then last_n 60 vs else vs)
              in if 0 < total
                 then sum_list (if 60 \<le> length ps then map2 (*) (last_n 60 ps) (last_n 60 vs) else map2 (*) ps vs) / total
                 else last ps
         else last ps)"

definition indicators_of :: "indicator_config \<Rightarrow> series \<Rightarrow> indicators" where
  "indicators_of cfg s =
     (let ps = se_prices s; vs = se_volumes s; close = last ps;
          (m, sig, hist, prev) = macd_block cfg ps;
          mid = sma_of ps (ic_bb_period cfg);
          dev = (if ic_bb_period cfg \<le> length ps then std_of (last_n (ic_bb_period cfg) ps) else 0);
          upper = mid + ic_bb_std cfg * dev; lower = mid - ic_bb_std cfg * dev;
          atr = atr_of cfg s; kc = ema_of ps (ic_kc_period cfg);
          kc_upper = kc + ic_kc_atr_mult cfg * atr; kc_lower = kc - ic_kc_atr_mult cfg * atr;
          vsma = volume_sma vs (ic_vol_sma cfg); ratio = (if 0 < vsma then last vs / vsma else 1);
          vwap = series_vwap s
      in \<lparr>in_ema5 = ema_of ps (ic_ema_fast cfg), in_ema9 = ema_of ps (ic_ema_signal cfg),
          in_ema21 = ema_of ps (ic_ema_medium cfg), in_ema50 = ema_of ps (ic_ema_slow cfg),
          in_rsi = rsi_of ps (ic_rsi_period cfg), in_macd = m, in_macd_signal = sig, in_macd_hist = hist,
          in_macd_hist_prev = prev, in_bb_mid = mid, in_bb_upper = upper, in_bb_lower = lower, in_atr = atr,
          in_kc_mid = kc, in_kc_upper = kc_upper, in_kc_lower = kc_lower,
          in_squeeze = (kc_lower < lower \<and> upper < kc_upper), in_vol_sma = vsma, in_vol_ratio = ratio,
          in_volume_spike = (ic_spike cfg < ratio), in_vwap = vwap, in_above_vwap = (vwap < close),
          in_below_vwap = (close < vwap), in_vwap_distance = (if 0 < vwap then (close - vwap) / vwap * 100 else 0),
          in_mom = (if 6 \<le> length ps then (close - ps ! (length ps - 6)) / ps ! (length ps - 6) * 100 else 0),
          in_close = close, in_prev_close = (if 2 \<le> length ps then ps ! (length ps - 2) else close),
          in_high = (if 0 < se_chunk s then Max (set (last_n (se_chunk s) ps)) else close),
          in_low = (if 0 < se_chunk s then Min (set (last_n (se_chunk s) ps)) else close)\<rparr>)"

definition compute_indicators ::
    "indicator_config \<Rightarrow> candle list \<Rightarrow> tick list \<Rightarrow> py_error + indicators option" where
  "compute_indicators cfg canonical ts =
     (case price_series canonical ts of
        None \<Rightarrow> Inr None
      | Some s \<Rightarrow>
          if 6 \<le> length (se_prices s) \<and> se_prices s ! (length (se_prices s) - 6) = 0 then Inl ZeroDivisionError
          else Inr (Some (indicators_of cfg s)))"

text \<open>\<open>candle_structure\<close>: direction, range and position of the close in it.\<close>

datatype candle_direction = BullishCandle | BearishCandle | NeutralCandle

definition candle_structure :: "indicators \<Rightarrow> candle_direction \<times> real \<times> real" where
  "candle_structure i =
     (let r = in_high i - in_low i
      in (if in_prev_close i < in_close i then BullishCandle else if in_close i < in_prev_close i then BearishCandle
          else NeutralCandle,
          r, if 0 < r then (in_close i - in_low i) / r else 1/2))"

section \<open>Ranges\<close>

lemma foldl_step_between:
  fixes f :: "real \<Rightarrow> real \<Rightarrow> real"
  assumes step: "\<And>r p. lo \<le> r \<Longrightarrow> r \<le> hi \<Longrightarrow> lo \<le> p \<Longrightarrow> p \<le> hi \<Longrightarrow> lo \<le> f r p \<and> f r p \<le> hi"
    and "lo \<le> r" "r \<le> hi" "\<forall>p\<in>set ps. lo \<le> p \<and> p \<le> hi"
  shows "lo \<le> foldl f r ps \<and> foldl f r ps \<le> hi"
  using assms(2-4)
proof (induction ps arbitrary: r)
  case (Cons p ps)
  have "lo \<le> f r p \<and> f r p \<le> hi" by (rule step) (use Cons.prems in simp_all)
  with Cons.IH[of "f r p"] Cons.prems(3) show ?case by simp
qed simp

lemma mean_between:
  fixes xs :: "real list"
  assumes "xs \<noteq> []" "\<forall>x\<in>set xs. lo \<le> x \<and> x \<le> hi"
  shows "lo \<le> sum_list xs / of_nat (length xs)" "sum_list xs / of_nat (length xs) \<le> hi"
proof -
  have "of_nat (length xs) * lo \<le> sum_list xs \<and> sum_list xs \<le> of_nat (length xs) * hi"
    using assms(2) by (induction xs) (auto simp: algebra_simps)
  moreover have "(0::real) < of_nat (length xs)" using assms(1) by simp
  ultimately show "lo \<le> sum_list xs / of_nat (length xs)" "sum_list xs / of_nat (length xs) \<le> hi"
    by (simp_all add: field_simps)
qed

lemma ema_of_between:
  assumes "xs \<noteq> []" "0 < n" "\<forall>x\<in>set xs. lo \<le> x \<and> x \<le> hi"
  shows "lo \<le> ema_of xs n \<and> ema_of xs n \<le> hi"
proof (cases "length xs < n")
  case True
  then show ?thesis using assms by (simp add: ema_of_def)
next
  case False
  let ?m = "ema_factor_of n"
  have m: "0 \<le> ?m" "?m \<le> 1" using assms(2) by (simp_all add: ema_factor_of_def field_simps)
  have step: "lo \<le> ema_step ?m r p \<and> ema_step ?m r p \<le> hi" if "lo \<le> r" "r \<le> hi" "lo \<le> p" "p \<le> hi" for r p
  proof -
    have eq: "ema_step ?m r p = p * ?m + r * (1 - ?m)" by (simp add: ema_step_def algebra_simps)
    have "lo * ?m + lo * (1 - ?m) \<le> p * ?m + r * (1 - ?m)" "p * ?m + r * (1 - ?m) \<le> hi * ?m + hi * (1 - ?m)"
      using that m by (intro add_mono mult_right_mono; simp)+
    then show ?thesis by (simp add: eq algebra_simps)
  qed
  have "lo \<le> sum_list (take n xs) / of_nat n \<and> sum_list (take n xs) / of_nat n \<le> hi"
    using mean_between[of "take n xs" lo hi] False assms by (auto dest: in_set_takeD)
  with False assms(3) step show ?thesis
    using foldl_step_between[of lo hi "ema_step ?m" "sum_list (take n xs) / of_nat n" "drop n xs"]
    by (auto simp: ema_of_def dest: in_set_dropD)
qed

lemma wilder_nonneg: "\<forall>x\<in>set xs. 0 \<le> x \<Longrightarrow> 0 < n \<Longrightarrow> 0 \<le> wilder n xs"
proof -
  assume a: "\<forall>x\<in>set xs. 0 \<le> x" "0 < n"
  have "0 \<le> foldl (smooth n) r ys" if "0 \<le> r" "\<forall>y\<in>set ys. 0 \<le> y" for r ys
    using that a(2) by (induction ys arbitrary: r) (auto simp: smooth_def)
  moreover have "0 \<le> sum_list (take n xs) / of_nat n" using a by (auto intro!: divide_nonneg_nonneg sum_list_nonneg dest: in_set_takeD)
  ultimately show ?thesis using a by (auto simp: wilder_def dest: in_set_dropD)
qed

text \<open>The RSI is an index. For every price history it lies between 0 and 100, and it is 50 while there are not enough
  prices or nothing has moved.\<close>

theorem rsi_range: "0 < n \<Longrightarrow> 0 \<le> rsi_of xs n \<and> rsi_of xs n \<le> 100"
proof -
  assume n: "0 < n"
  let ?g = "wilder n (map (\<lambda>c. max c 0) (changes xs))" and ?l = "wilder n (map (\<lambda>c. \<bar>min c 0\<bar>) (changes xs))"
  have "0 \<le> ?g" "0 \<le> ?l" using n by (auto intro!: wilder_nonneg)
  then have "?l \<noteq> 0 \<Longrightarrow> 1 \<le> 1 + ?g / ?l" by simp
  then have "?l \<noteq> 0 \<Longrightarrow> 0 \<le> 100 / (1 + ?g / ?l) \<and> 100 / (1 + ?g / ?l) \<le> 100"
    using divide_left_mono[of 1 "1 + ?g / ?l" 100] by fastforce
  then show ?thesis by (auto simp: rsi_of_def Let_def)
qed

section \<open>The MACD histogram\<close>

lemma ema_of_snoc:
  assumes "n \<le> length xs" "0 < n"
  shows "ema_of (xs @ [x]) n = ema_step (ema_factor_of n) (ema_of xs n) x"
  using assms by (simp add: ema_of_def)

lemma macd_values_twice:
  assumes "0 < macd_lookback cfg xs"
  shows "\<exists>vs. macd_values cfg xs = vs @ [macd_line cfg xs, macd_line cfg xs] \<and> Suc (length vs) = macd_lookback cfg xs"
proof -
  let ?f = "\<lambda>i. macd_line cfg (take (length xs - i + 1) xs)"
  obtain k where k: "macd_lookback cfg xs = Suc k" using assms not0_implies_Suc by blast
  have "rev [1..<Suc k + 1] = rev [2..<Suc k + 1] @ [1]" by (simp add: upt_conv_Cons numeral_2_eq_2)
  moreover have "?f 1 = macd_line cfg xs" by (cases xs) simp_all
  ultimately have "macd_values cfg xs = map ?f (rev [2..<Suc k + 1]) @ [macd_line cfg xs, macd_line cfg xs]"
    by (simp add: macd_values_def k)
  then show ?thesis using k by (intro exI[of _ "map ?f (rev [2..<Suc k + 1])"]) auto
qed

lemma macd_block_cases:
  assumes "0 < ic_macd_signal cfg" "macd_block cfg xs = (line, sig, hist, prev)"
  shows "hist = (1 - ema_factor_of (ic_macd_signal cfg)) * prev"
proof (cases "length xs < ic_macd_slow cfg \<or> macd_lookback cfg xs < ic_macd_signal cfg")
  case True
  with assms(2) show ?thesis by (auto simp: macd_block_def Let_def split: if_splits)
next
  case False
  let ?n = "ic_macd_signal cfg" and ?line = "macd_line cfg xs"
  obtain vs where vs: "macd_values cfg xs = vs @ [?line, ?line]" "Suc (length vs) = macd_lookback cfg xs"
    using macd_values_twice[of cfg xs] False assms(1) by auto
  let ?prev_signal = "ema_of (vs @ [?line]) ?n"
  have "prev = ?line - ?prev_signal"
    using False assms(2) by (auto simp: macd_block_def Let_def vs(1) nth_append butlast_append)
  moreover have "hist = ?line - ema_of ((vs @ [?line]) @ [?line]) ?n"
    using False assms(2) by (auto simp: macd_block_def Let_def vs(1))
  moreover have "ema_of ((vs @ [?line]) @ [?line]) ?n = ema_step (ema_factor_of ?n) ?prev_signal ?line"
    using False vs(2) assms(1) by (intro ema_of_snoc) auto
  ultimately have "hist = prev - prev * ema_factor_of ?n" by (simp add: ema_step_def)
  then show ?thesis by (simp add: algebra_simps)
qed

lemma scaled_never_grows:
  fixes hist prev m :: real
  assumes "0 \<le> m" "m \<le> 1" "hist = m * prev"
  shows "\<not> (0 < hist \<and> prev < hist)" "\<not> (hist < 0 \<and> hist < prev)"
proof -
  have "\<not> (0 < hist \<and> prev < hist) \<and> \<not> (hist < 0 \<and> hist < prev)"
  proof (cases "0 \<le> prev")
    case True
    then have "0 \<le> hist" "hist \<le> prev" unfolding assms(3)
      by (rule mult_nonneg_nonneg[OF assms(1)], rule mult_left_le_one_le[OF _ assms(1,2)])
    then show ?thesis by linarith
  next
    case False
    then have p: "0 \<le> - prev" by simp
    have "0 \<le> m * (- prev)" "m * (- prev) \<le> - prev"
      by (rule mult_nonneg_nonneg[OF assms(1) p], rule mult_left_le_one_le[OF p assms(1,2)])
    then have "hist \<le> 0 \<and> prev \<le> hist" unfolding assms(3) by (simp add: mult.commute)
    then show ?thesis by linarith
  qed
  then show "\<not> (0 < hist \<and> prev < hist)" "\<not> (hist < 0 \<and> hist < prev)" by blast+
qed

text \<open>The previous MACD histogram is the current one in disguise. The line is appended to a history that already ends in
  it, so for every price series the histogram is the same fraction (four fifths with the default signal period 9) of
  what is called the previous one: it can never be positive and rising nor negative and falling.\<close>

theorem macd_histogram_never_grows:
  assumes "0 < ic_macd_signal cfg"
  shows "in_macd_hist (indicators_of cfg s) =
           (1 - 2 / (of_nat (ic_macd_signal cfg) + 1)) * in_macd_hist_prev (indicators_of cfg s)
       \<and> \<not> (0 < in_macd_hist (indicators_of cfg s) \<and> in_macd_hist_prev (indicators_of cfg s) < in_macd_hist (indicators_of cfg s))
       \<and> \<not> (in_macd_hist (indicators_of cfg s) < 0 \<and> in_macd_hist (indicators_of cfg s) < in_macd_hist_prev (indicators_of cfg s))"
proof -
  let ?m = "1 - 2 / (of_nat (ic_macd_signal cfg) + 1) :: real"
  obtain line sig hist prev where b: "macd_block cfg (se_prices s) = (line, sig, hist, prev)" by (metis prod_cases4)
  have h: "in_macd_hist (indicators_of cfg s) = hist" "in_macd_hist_prev (indicators_of cfg s) = prev"
    by (simp_all add: indicators_of_def b Let_def)
  have e: "hist = ?m * prev" using macd_block_cases[OF assms b] by (simp add: ema_factor_of_def)
  have m: "0 \<le> ?m" "?m \<le> 1" using assms by (simp_all add: field_simps)
  with e scaled_never_grows[OF _ _ e] show ?thesis unfolding h by blast
qed

theorem macd_histogram_never_grows_witness:
  "in_macd_hist (indicators_of default_indicator_config (candle_series []))
     = 4/5 * in_macd_hist_prev (indicators_of default_indicator_config (candle_series []))"
  using macd_histogram_never_grows[of default_indicator_config "candle_series []"]
  by (simp add: default_indicator_config_def)

theorem rsi_range_witness: "rsi_of [100, 101, 99, 102, 98] 2 \<le> 100"
  using rsi_range[of 2 "[100, 101, 99, 102, 98]"] by simp

section \<open>Averages stay among the prices\<close>

lemma indicators_of_fields:
  "in_ema5 (indicators_of cfg s) = ema_of (se_prices s) (ic_ema_fast cfg)"
  "in_ema9 (indicators_of cfg s) = ema_of (se_prices s) (ic_ema_signal cfg)"
  "in_ema21 (indicators_of cfg s) = ema_of (se_prices s) (ic_ema_medium cfg)"
  "in_ema50 (indicators_of cfg s) = ema_of (se_prices s) (ic_ema_slow cfg)"
  "in_kc_mid (indicators_of cfg s) = ema_of (se_prices s) (ic_kc_period cfg)"
  "in_bb_mid (indicators_of cfg s) = sma_of (se_prices s) (ic_bb_period cfg)"
  "in_vwap (indicators_of cfg s) = series_vwap s" "in_close (indicators_of cfg s) = last (se_prices s)"
  "in_high (indicators_of cfg s) =
     (if 0 < se_chunk s then Max (set (last_n (se_chunk s) (se_prices s))) else last (se_prices s))"
  "in_low (indicators_of cfg s) =
     (if 0 < se_chunk s then Min (set (last_n (se_chunk s) (se_prices s))) else last (se_prices s))"
  by (cases "macd_block cfg (se_prices s)"; simp add: indicators_of_def Let_def)+

lemma set_last_nD: "x \<in> set (last_n n xs) \<Longrightarrow> x \<in> set xs"
  using set_last_n by fast

lemma weighted_between:
  fixes ps vs :: "real list"
  assumes "length ps = length vs" "\<forall>p\<in>set ps. lo \<le> p \<and> p \<le> hi" "\<forall>v\<in>set vs. 0 \<le> v"
  shows "lo * sum_list vs \<le> sum_list (map2 (*) ps vs) \<and> sum_list (map2 (*) ps vs) \<le> hi * sum_list vs"
  using assms
proof (induction ps vs rule: list_induct2)
  case (Cons p ps v vs)
  then have "lo * v \<le> p * v" "p * v \<le> hi * v" by (auto intro: mult_right_mono)
  with Cons show ?case by (simp add: distrib_left add_mono)
qed simp

lemma sma_between:
  assumes "xs \<noteq> []" "0 < n" "\<forall>x\<in>set xs. lo \<le> x \<and> x \<le> hi"
  shows "lo \<le> sma_of xs n \<and> sma_of xs n \<le> hi"
proof (cases "n \<le> length xs")
  case True
  then have "length (last_n n xs) = n" using assms(2) by (simp add: length_last_n)
  moreover have "last_n n xs \<noteq> []" using assms(1) by simp
  ultimately show ?thesis
    using True mean_between[of "last_n n xs" lo hi] assms(3) by (auto simp: sma_of_def dest: set_last_nD)
next
  case False
  then show ?thesis using assms by (simp add: sma_of_def)
qed

lemma vwap_between:
  assumes "se_prices s \<noteq> []" "length (se_volumes s) = length (se_prices s)"
    and "\<forall>p\<in>set (se_prices s). lo \<le> p \<and> p \<le> hi" "\<forall>v\<in>set (se_volumes s). 0 \<le> v"
  shows "lo \<le> series_vwap s \<and> series_vwap s \<le> hi"
proof -
  define ps vs where "ps = (if 60 \<le> length (se_prices s) then last_n 60 (se_prices s) else se_prices s)"
    and "vs = (if 60 \<le> length (se_volumes s) then last_n 60 (se_volumes s) else se_volumes s)"
  have "length ps = length vs" using assms(2) by (simp add: ps_def vs_def length_last_n)
  moreover have "\<forall>p\<in>set ps. lo \<le> p \<and> p \<le> hi" "\<forall>v\<in>set vs. 0 \<le> v"
    using assms(3,4) by (auto simp: ps_def vs_def dest: set_last_nD)
  ultimately have w: "lo * sum_list vs \<le> sum_list (map2 (*) ps vs)" "sum_list (map2 (*) ps vs) \<le> hi * sum_list vs"
    using weighted_between by blast+
  have "series_vwap s = sum_list (map2 (*) ps vs) / sum_list vs \<and> 0 < sum_list vs \<or> series_vwap s = last (se_prices s)"
    using assms(2) by (auto simp: series_vwap_def Let_def ps_def vs_def)
  then show ?thesis
  proof
    assume v: "series_vwap s = sum_list (map2 (*) ps vs) / sum_list vs \<and> 0 < sum_list vs"
    with w show ?thesis by (simp add: le_divide_eq divide_le_eq)
  next
    assume "series_vwap s = last (se_prices s)"
    then show ?thesis using assms(1,3) by simp
  qed
qed

text \<open>Every average is among the prices it averages: the four EMAs, the Keltner and Bollinger middles and the VWAP of a
  series lie between any bounds of its prices, provided no volume is negative.\<close>

theorem averages_within_prices:
  assumes "se_prices s \<noteq> []" "length (se_volumes s) = length (se_prices s)"
    and "\<forall>p\<in>set (se_prices s). lo \<le> p \<and> p \<le> hi" "\<forall>v\<in>set (se_volumes s). 0 \<le> v"
    and "cfg = default_indicator_config" "x \<in> {in_ema5, in_ema9, in_ema21, in_ema50, in_kc_mid, in_bb_mid, in_vwap}"
  shows "lo \<le> x (indicators_of cfg s) \<and> x (indicators_of cfg s) \<le> hi"
proof -
  show ?thesis
    using assms(6) ema_of_between[OF assms(1) _ assms(3)] sma_between[OF assms(1) _ assms(3)] vwap_between[OF assms(1-4)]
    by (auto simp: indicators_of_fields assms(5) default_indicator_config_def)
qed

definition three_candles :: series where
  "three_candles = \<lparr>se_prices = [100, 102, 101], se_highs = [101, 103, 102], se_lows = [99, 100, 100],
     se_volumes = [10, 0, 5], se_chunk = 1\<rparr>"

theorem averages_within_prices_witness:
  "100 \<le> in_vwap (indicators_of default_indicator_config three_candles)
   \<and> in_ema9 (indicators_of default_indicator_config three_candles) \<le> 102"
  using averages_within_prices[of three_candles 100 102 default_indicator_config in_vwap]
    averages_within_prices[of three_candles 100 102 default_indicator_config in_ema9]
  by (simp add: three_candles_def)

section \<open>What the candle mode looks at\<close>

text \<open>With candles there are no wicks. Once fifteen canonical candles exist the high and the low the strategy tests for
  a touch of the average are both the last close: only one entry of the price list is looked at.\<close>

theorem candle_mode_has_no_wick:
  assumes "15 \<le> length canonical" "compute_indicators cfg canonical ts = Inr (Some i)"
  shows "in_high i = in_close i \<and> in_low i = in_close i"
proof -
  have "last_n 1 xs = [last xs]" if "xs \<noteq> []" for xs :: "real list"
    using that by (cases xs rule: rev_cases) (simp_all add: last_n_def)
  moreover have "map cd_close canonical \<noteq> []" using assms(1) by auto
  moreover have "i = indicators_of cfg (candle_series canonical)"
    using assms by (auto simp: compute_indicators_def price_series_def split: if_splits)
  ultimately show ?thesis by (simp add: indicators_of_fields candle_series_def)
qed

definition flat_candle :: candle where
  "flat_candle = \<lparr>cd_label = 0, cd_open = 100, cd_high = 110, cd_low = 90, cd_close = 105, cd_volume = 10, cd_live = False\<rparr>"

theorem candle_mode_has_no_wick_witness:
  "\<exists>i. compute_indicators default_indicator_config (replicate 15 flat_candle) [] = Inr (Some i) \<and> in_high i = in_close i"
proof -
  have "\<exists>i. compute_indicators default_indicator_config (replicate 15 flat_candle) [] = Inr (Some i)"
    by (simp add: compute_indicators_def price_series_def candle_series_def flat_candle_def)
  then obtain i where i: "compute_indicators default_indicator_config (replicate 15 flat_candle) [] = Inr (Some i)" by blast
  have "in_high i = in_close i \<and> in_low i = in_close i" by (rule candle_mode_has_no_wick[OF _ i]) simp
  with i show ?thesis by blast
qed

definition candle_range :: "candle \<Rightarrow> real" where
  "candle_range c = max (cd_high c - cd_low c) (max \<bar>cd_high c - cd_close c\<bar> \<bar>cd_low c - cd_close c\<bar>)"

lemma candle_true_range:
  assumes "i < length cs" shows "true_range (candle_series cs) i = candle_range (cs ! i)"
proof -
  have "min (i * 1) (length (map cd_close cs) - 1) = i" using assms by simp
  with assms show ?thesis by (simp add: true_range_def candle_series_def candle_range_def Let_def)
qed

text \<open>The ATR measures the oldest candles. It averages the ranges of the candles 1 to 14 of the list, which starts with the
  oldest: two histories that agree on their first fifteen candles have the same ATR, whatever the market does now.\<close>

theorem atr_measures_oldest_candles:
  assumes "take (Suc (ic_atr_period cfg)) cs = take (Suc (ic_atr_period cfg)) ds"
    and "Suc (ic_atr_period cfg) \<le> length cs" "Suc (ic_atr_period cfg) \<le> length ds"
  shows "atr_of cfg (candle_series cs) = atr_of cfg (candle_series ds)"
proof -
  have nth: "cs ! i = ds ! i" if "i < Suc (ic_atr_period cfg)" for i using assms(1) that by (metis nth_take)
  have "true_range (candle_series cs) i = true_range (candle_series ds) i" if "i < Suc (ic_atr_period cfg)" for i
    using that assms(2,3) nth[OF that] candle_true_range[of i cs] candle_true_range[of i ds] by simp
  then have "map (true_range (candle_series cs)) [1..<ic_atr_period cfg + 1]
      = map (true_range (candle_series ds)) [1..<ic_atr_period cfg + 1]" by (intro map_cong) auto
  moreover have "atr_of cfg (candle_series xs) =
      (let rs = map (true_range (candle_series xs)) [1..<ic_atr_period cfg + 1]
       in if rs = [] then 50 else sum_list rs / of_nat (length rs))" if "Suc (ic_atr_period cfg) \<le> length xs" for xs
  proof -
    have "min (min (length (se_highs (candle_series xs))) (length (se_lows (candle_series xs)))) (ic_atr_period cfg + 1)
        = ic_atr_period cfg + 1" using that by (simp add: candle_series_def)
    then show ?thesis unfolding atr_of_def by (simp only:)
  qed
  ultimately show ?thesis using assms(2,3) by (simp only:)
qed

theorem atr_measures_oldest_candles_witness:
  "atr_of default_indicator_config (candle_series (replicate 15 flat_candle))
     = atr_of default_indicator_config (candle_series (replicate 15 flat_candle @ replicate 80 (flat_candle\<lparr>cd_high := 400\<rparr>)))"
  by (rule atr_measures_oldest_candles) (simp_all add: default_indicator_config_def)

end
