(* ===== verification/Scoring.thy ===== *)
theory Scoring
  imports Indicators
begin

text \<open>
  The two scores of a signal (\<open>core/engines/weighted_score_engine.py\<close>, \<open>adaptive_confidence_engine.py\<close>) and the
  range position of a price (\<open>range_position.py\<close>).  The keys \<open>Delta\<close> and \<open>VIX\<close> of the indicators are never set, so
  the readers' defaults apply.
\<close>

datatype market_regime = RegimeUnknown | RegimeBullish | RegimeBearish | RegimeSideways

datatype oi_flow = Long_Buildup | Short_Covering | Short_Buildup | Long_Unwinding | Neutral_Flow

text \<open>\<open>get_market_regime\<close> of \<open>smart_scalp_v3.py\<close>\<close>

definition get_market_regime :: "indicators \<Rightarrow> market_regime" where
  "get_market_regime i =
     (if in_ema50 i = 0 then RegimeUnknown
      else if \<bar>in_ema21 i - in_ema50 i\<bar> / in_ema50 i < 0.002 then RegimeSideways
      else if in_ema50 i < in_ema21 i then RegimeBullish else RegimeBearish)"

text \<open>The spread both engines use: of the bid, 2 when there is no usable quote.\<close>

definition bid_spread_pct :: "tick \<Rightarrow> real" where
  "bid_spread_pct t =
     (case tick_spread_pct t of Some s \<Rightarrow> s
      | None \<Rightarrow> if 0 < bid t \<and> bid t < ask t then (ask t - bid t) / bid t * 100 else 2)"

definition abs_delta :: "tick \<Rightarrow> real" where
  "abs_delta t = \<bar>get_or 0 (tick_delta t)\<bar>"

definition flow_supports :: "option_type \<Rightarrow> oi_flow \<Rightarrow> bool" where
  "flow_supports d f \<longleftrightarrow>
     (case d of CE \<Rightarrow> f \<in> {Long_Buildup, Short_Covering} | PE \<Rightarrow> f \<in> {Short_Buildup, Long_Unwinding})"

definition regime_supports :: "option_type \<Rightarrow> market_regime \<Rightarrow> bool" where
  "regime_supports d r \<longleftrightarrow> (case d of CE \<Rightarrow> r = RegimeBullish | PE \<Rightarrow> r = RegimeBearish)"

section \<open>The weighted score\<close>

datatype score_factor = EmaTrend | Vwap | VolumeRatio | DeltaZone | OpenInterest | RsiZone | MacdTurn | AtrZone
  | PremiumQuality | GreekQuality | RegimeFit | SpreadQuality

definition score_factors :: "score_factor list" where
  "score_factors = [EmaTrend, Vwap, VolumeRatio, DeltaZone, OpenInterest, RsiZone, MacdTurn, AtrZone, PremiumQuality,
     GreekQuality, RegimeFit, SpreadQuality]"

type_synonym score_weights = "score_factor \<Rightarrow> int"

definition default_weights :: score_weights where
  "default_weights f =
     (case f of EmaTrend \<Rightarrow> 20 | Vwap \<Rightarrow> 15 | VolumeRatio \<Rightarrow> 10 | DeltaZone \<Rightarrow> 10 | OpenInterest \<Rightarrow> 10 | RsiZone \<Rightarrow> 8
      | MacdTurn \<Rightarrow> 8 | AtrZone \<Rightarrow> 5 | PremiumQuality \<Rightarrow> 5 | GreekQuality \<Rightarrow> 5 | RegimeFit \<Rightarrow> 4 | SpreadQuality \<Rightarrow> 5)"

definition part_of :: "int \<Rightarrow> real \<Rightarrow> int" where
  "part_of w x = py_int (of_int w * x)"

definition delta_part :: "int \<Rightarrow> real \<Rightarrow> int" where
  "delta_part w d =
     (if 0.35 \<le> d \<and> d \<le> 0.65 then w else if 0.30 \<le> d \<and> d \<le> 0.70 then part_of w 0.5 else 0)"

definition contribution ::
    "score_weights \<Rightarrow> indicators \<Rightarrow> tick \<Rightarrow> option_type \<Rightarrow> oi_flow \<Rightarrow> market_regime \<Rightarrow> score_factor \<Rightarrow> int" where
  "contribution ws i t d flow regime f =
     (let w = ws f
      in case f of
           EmaTrend \<Rightarrow> if (d = CE \<and> in_ema21 i < in_ema9 i) \<or> (d = PE \<and> in_ema9 i < in_ema21 i) then w else 0
         | Vwap \<Rightarrow> if (d = CE \<and> in_vwap i < in_close i) \<or> (d = PE \<and> in_close i < in_vwap i) then w else 0
         | VolumeRatio \<Rightarrow> if 1.3 \<le> in_vol_ratio i then w else if 1 \<le> in_vol_ratio i then part_of w 0.5 else 0
         | DeltaZone \<Rightarrow> delta_part w (abs_delta t)
         | GreekQuality \<Rightarrow> delta_part w (abs_delta t)
         | OpenInterest \<Rightarrow> if flow_supports d flow then w else 0
         | RsiZone \<Rightarrow>
             (case d of
                CE \<Rightarrow> if 50 < in_rsi i \<and> in_rsi i < 70 then w else if 45 \<le> in_rsi i then part_of w 0.5 else 0
              | PE \<Rightarrow> if 30 < in_rsi i \<and> in_rsi i < 50 then w else if in_rsi i \<le> 55 then part_of w 0.5 else 0)
         | MacdTurn \<Rightarrow>
             if (d = CE \<and> 0 < in_macd_hist i \<and> in_macd_hist_prev i < in_macd_hist i)
              \<or> (d = PE \<and> in_macd_hist i < 0 \<and> in_macd_hist i < in_macd_hist_prev i) then w else 0
         | AtrZone \<Rightarrow> if 4 \<le> in_atr i \<and> in_atr i \<le> 18 then w else if 0 < in_atr i then part_of w 0.5 else 0
         | PremiumQuality \<Rightarrow> if 0 < ltp t then if ltp t \<le> 300 then w else part_of w 0.6 else 0
         | RegimeFit \<Rightarrow> if regime_supports d regime then w else if regime = RegimeSideways then part_of w 0.5 else 0
         | SpreadQuality \<Rightarrow>
             if bid_spread_pct t \<le> 1 then w else if bid_spread_pct t \<le> 2 then part_of w 0.6 else 0)"

definition raw_score ::
    "score_weights \<Rightarrow> indicators \<Rightarrow> tick \<Rightarrow> option_type \<Rightarrow> oi_flow \<Rightarrow> market_regime \<Rightarrow> int" where
  "raw_score ws i t d flow regime = sum_list (map (contribution ws i t d flow regime) score_factors)"

definition total_weight :: "score_weights \<Rightarrow> int" where
  "total_weight ws = sum_list (map ws score_factors)"

definition weighted_score ::
    "score_weights \<Rightarrow> indicators \<Rightarrow> tick \<Rightarrow> option_type \<Rightarrow> oi_flow \<Rightarrow> market_regime \<Rightarrow> int" where
  "weighted_score ws i t d flow regime =
     (if total_weight ws = 0 then 0
      else min 100 (py_int (of_int (raw_score ws i t d flow regime) / of_int (total_weight ws) * 100)))"

section \<open>Adaptive confidence\<close>

definition to_multiplier :: "real \<Rightarrow> real" where
  "to_multiplier s = 0.5 + min 100 (max 0 s) / 100 * (1.2 - 0.5)"

text \<open>\<open>_normalize_timestamp\<close> on the integer stamps ticks carry: nano-, micro-, milliseconds or seconds.\<close>

definition normalize_timestamp :: "int \<Rightarrow> instant option" where
  "normalize_timestamp ts =
     (if ts \<le> 0 then None
      else Some (if 10 ^ 17 < ts then ts div 1000 else if 10 ^ 14 < ts then ts
                 else if 10 ^ 11 < ts then ts * 1000 else ts * 1000000))"

definition stamp_of :: "tick \<Rightarrow> int option" where
  "stamp_of t = (if tick_timestamp t \<noteq> 0 then Some (tick_timestamp t) else original_timestamp t)"

definition is_session_primary :: "instant \<Rightarrow> tick \<Rightarrow> bool" where
  "is_session_primary now t =
     (let n = get_or now (Option.bind (stamp_of t) normalize_timestamp)
      in hour_of n = 9 \<and> 45 \<le> minute_of n \<or> 10 \<le> hour_of n \<and> hour_of n < 15 \<or> hour_of n = 15 \<and> minute_of n \<le> 25)"

definition freshness_score :: "instant \<Rightarrow> tick \<Rightarrow> real" where
  "freshness_score now t =
     (case stamp_of t of
        None \<Rightarrow> 50
      | Some ts \<Rightarrow>
          if ts = 0 then 50
          else case normalize_timestamp ts of
                 None \<Rightarrow> 50
               | Some dt \<Rightarrow> let age = max 0 (total_seconds (now - dt))
                           in if age \<le> 5 then 100 else if age \<le> 15 then 80 else if age \<le> 30 then 50 else 20)"

definition regime_score :: "option_type \<Rightarrow> market_regime \<Rightarrow> real" where
  "regime_score d r = (if regime_supports d r then 100 else if r = RegimeSideways then 50 else 20)"

definition market_quality_score :: "indicators \<Rightarrow> real" where
  "market_quality_score i =
     (if \<not> in_squeeze i \<and> 1.1 \<le> in_vol_ratio i then 100 else if 0.9 \<le> in_vol_ratio i then 60 else 30)"

definition session_score :: "instant \<Rightarrow> tick \<Rightarrow> real" where
  "session_score now t = (if is_session_primary now t then 100 else 65)"

definition execution_quality :: "instant \<Rightarrow> indicators \<Rightarrow> tick \<Rightarrow> option_type \<Rightarrow> oi_flow \<Rightarrow> real" where
  "execution_quality now i t d flow =
     (let sp = bid_spread_pct t; v = in_vol_ratio i; g = abs_delta t;
          spread = (if sp \<le> 1 then 100 else if sp \<le> 2 then 60 else 20);
          vol = (if 1.3 \<le> v then 100 else if 1 \<le> v then 70 else 35);
          greeks = (if 0.35 \<le> g \<and> g \<le> 0.65 then 100 else if 0.30 \<le> g \<and> g \<le> 0.70 then 50 else 10);
          oi = (if flow_supports d flow then 100 else if flow = Neutral_Flow then 50 else 20);
          vwap = (case d of CE \<Rightarrow> if in_vwap i < in_close i then 100 else 30
                  | PE \<Rightarrow> if in_close i < in_vwap i then 100 else 30)
      in spread * 0.25 + vol * 0.20 + greeks * 0.20 + oi * 0.15 + vwap * 0.10 + freshness_score now t * 0.10)"

definition confidence_factor ::
    "instant \<Rightarrow> indicators \<Rightarrow> tick \<Rightarrow> option_type \<Rightarrow> oi_flow \<Rightarrow> market_regime \<Rightarrow> real" where
  "confidence_factor now i t d flow regime =
     to_multiplier (regime_score d regime) * to_multiplier (market_quality_score i)
       * to_multiplier (session_score now t) * to_multiplier (execution_quality now i t d flow)"

definition adaptive_confidence ::
    "instant \<Rightarrow> indicators \<Rightarrow> tick \<Rightarrow> int \<Rightarrow> option_type \<Rightarrow> oi_flow \<Rightarrow> market_regime \<Rightarrow> int" where
  "adaptive_confidence now i t score_pct d flow regime =
     min 100 (max 0 (py_int (of_int score_pct * confidence_factor now i t d flow regime)))"

section \<open>Range position\<close>

datatype range_answer = NoSymbol | NoTicks | NoTicksForSymbol | TooFewTicks nat | FlatRange real | Position real

definition range_rows :: "string \<Rightarrow> tick list \<Rightarrow> (int \<times> real) list" where
  "range_rows symbol ts =
     sort_key fst (map (\<lambda>t. (tick_timestamp t, ltp t))
       (filter (\<lambda>t. tick_symbol t = symbol \<and> 0 < ltp t \<and> 0 < tick_timestamp t) ts))"

definition range_position :: "tick list \<Rightarrow> string \<Rightarrow> real option \<Rightarrow> real \<Rightarrow> nat \<Rightarrow> range_answer" where
  "range_position ts symbol now_ms window_sec min_ticks =
     (if symbol = '''' then NoSymbol
      else if ts = [] then NoTicks
      else let rows = range_rows symbol ts
           in if rows = [] then NoTicksForSymbol
              else let latest = get_or (of_int (fst (last rows))) now_ms;
                       window = map snd (filter (\<lambda>r. latest - window_sec * 1000 \<le> of_int (fst r)) rows)
                   in if length window < min_ticks then TooFewTicks (length window)
                      else let hi = Max (set window); lo = Min (set window)
                           in if hi \<le> lo then FlatRange lo else Position ((last window - lo) / (hi - lo)))"

section \<open>Ranges of the scores\<close>

lemma part_of_range: "0 \<le> w \<Longrightarrow> 0 \<le> x \<Longrightarrow> x \<le> 1 \<Longrightarrow> 0 \<le> part_of w x \<and> part_of w x \<le> w"
proof -
  assume a: "0 \<le> w" "0 \<le> x" "x \<le> 1"
  have "of_int (part_of w x) \<le> of_int w * x" using a by (simp add: part_of_def py_int_le)
  also have "\<dots> \<le> of_int w" using a mult_left_le[of x "of_int w :: real"] by simp
  finally show ?thesis using a by (simp add: part_of_def py_int_nonneg)
qed

lemma contribution_range:
  assumes "0 \<le> ws f"
  shows "0 \<le> contribution ws i t d flow regime f \<and> contribution ws i t d flow regime f \<le> ws f"
  using assms part_of_range[OF assms, of "0.5"] part_of_range[OF assms, of "0.6"]
  by (cases f; cases d) (simp_all add: contribution_def delta_part_def Let_def)

lemma raw_score_range:
  assumes "\<forall>f. 0 \<le> ws f"
  shows "0 \<le> raw_score ws i t d flow regime" "raw_score ws i t d flow regime \<le> total_weight ws"
  using contribution_range assms unfolding raw_score_def total_weight_def
  by (auto intro!: sum_list_nonneg sum_list_mono)

text \<open>The score of a raw total, and the part a factor that gives nothing is worth.\<close>

lemma score_le:
  assumes "raw_score ws i t d flow regime \<le> k" "0 \<le> k" "0 < total_weight ws"
  shows "weighted_score ws i t d flow regime \<le> \<lfloor>of_int k / of_int (total_weight ws) * (100::real)\<rfloor>"
proof -
  have "of_int (raw_score ws i t d flow regime) / of_int (total_weight ws) * (100::real)
      \<le> of_int k / of_int (total_weight ws) * 100" using assms by (intro mult_right_mono divide_right_mono) simp_all
  moreover have "0 \<le> of_int k / of_int (total_weight ws) * (100::real)" using assms by simp
  ultimately have "py_int (of_int (raw_score ws i t d flow regime) / of_int (total_weight ws) * (100::real))
      \<le> \<lfloor>of_int k / of_int (total_weight ws) * (100::real)\<rfloor>"
    by (auto simp: py_int_def floor_mono ceiling_le_zero intro: order_trans[of _ 0])
  with assms show ?thesis by (simp add: weighted_score_def)
qed

text \<open>Both scores are percentages: with non-negative weights the weighted score lies between 0 and 100 for every market,
  and so does the confidence for every score between 0 and 100; a higher score never lowers the confidence.\<close>

theorem scores_are_percentages:
  assumes "\<forall>f. 0 \<le> ws f"
  shows "0 \<le> weighted_score ws i t d flow regime \<and> weighted_score ws i t d flow regime \<le> 100
       \<and> 0 \<le> adaptive_confidence now i t a d flow regime \<and> adaptive_confidence now i t a d flow regime \<le> 100
       \<and> (0 \<le> a \<and> a \<le> b \<longrightarrow> adaptive_confidence now i t a d flow regime \<le> adaptive_confidence now i t b d flow regime)"
proof -
  have "0 \<le> total_weight ws" using raw_score_range[OF assms, of i t d flow regime] by linarith
  with raw_score_range(1)[OF assms] have s: "0 \<le> weighted_score ws i t d flow regime"
    by (simp add: weighted_score_def py_int_nonneg)
  have "0 \<le> to_multiplier x" for x by (simp add: to_multiplier_def)
  then have f: "0 \<le> confidence_factor now i t d flow regime" by (simp add: confidence_factor_def)
  have "adaptive_confidence now i t a d flow regime \<le> adaptive_confidence now i t b d flow regime" if "0 \<le> a" "a \<le> b"
  proof -
    have "of_int a * confidence_factor now i t d flow regime \<le> of_int b * confidence_factor now i t d flow regime"
      using that f by (intro mult_right_mono) simp_all
    then have "py_int (of_int a * confidence_factor now i t d flow regime) \<le> py_int (of_int b * confidence_factor now i t d flow regime)"
      using that f by (intro py_int_mono) simp_all
    then show ?thesis unfolding adaptive_confidence_def by (intro min.mono max.mono) simp_all
  qed
  with s show ?thesis by (simp add: weighted_score_def adaptive_confidence_def)
qed

definition plain_tick :: tick where
  "plain_tick =
     \<lparr>ltp = 100, bid = 99.9, ask = 100.1, tick_timestamp = 36000000, original_timestamp = None, tick_symbol = ''NIFTY'',
      spot_price = 25000, tick_volume = Some 1000, data_source = ''WEBSOCKET'', tick_spread_pct = None,
      tick_delta = None, tick_atr = None, tick_iv = None, tick_tte_sec = None\<rparr>"

lemma default_weights_nonneg: "\<forall>f. 0 \<le> default_weights f"
  by (auto simp: default_weights_def split: score_factor.split)

lemma default_total: "total_weight default_weights = 105"
  by (simp add: total_weight_def score_factors_def default_weights_def)

theorem scores_are_percentages_witness:
  "weighted_score default_weights (indicators_of default_indicator_config three_candles) plain_tick CE Neutral_Flow
     RegimeBullish \<le> 100"
  using scores_are_percentages[OF default_weights_nonneg] by blast

text \<open>What the live path can reach.\<close>

lemma macd_never_scores:
  assumes "0 < ic_macd_signal cfg"
  shows "contribution ws (indicators_of cfg s) t d flow regime MacdTurn = 0"
proof -
  obtain line sig hist prev where b: "macd_block cfg (se_prices s) = (line, sig, hist, prev)" by (metis prod_cases4)
  have h: "in_macd_hist (indicators_of cfg s) = hist" "in_macd_hist_prev (indicators_of cfg s) = prev"
    by (simp_all add: indicators_of_def b Let_def)
  have e: "hist = (1 - 2 / (of_nat (ic_macd_signal cfg) + 1)) * prev" 
    using macd_block_cases[OF assms b] by (simp add: ema_factor_of_def)
  show ?thesis
    using scaled_never_grows[OF _ _ e] assms by (auto simp: contribution_def h)
qed

text \<open>A signal of the live feed cannot score more than 78. The MACD turn is never credited for indicators the program
  computes, and without a delta on the tick (the default) neither are the delta zone and the Greeks: 23 of the 105
  points are out of reach for every market, while the comment calls the score a percentage of all factors.\<close>

theorem live_score_ceiling:
  assumes "tick_delta t = None" "0 < ic_macd_signal cfg"
  shows "weighted_score default_weights (indicators_of cfg s) t d flow regime \<le> 78"
proof -
  let ?c = "contribution default_weights (indicators_of cfg s) t d flow regime"
  have r: "?c f \<le> default_weights f" for f using contribution_range default_weights_nonneg by blast
  have z: "?c MacdTurn = 0" "?c DeltaZone = 0" "?c GreekQuality = 0"
    using assms macd_never_scores by (simp_all add: contribution_def Let_def delta_part_def abs_delta_def)
  have "raw_score default_weights (indicators_of cfg s) t d flow regime \<le> 82"
    using r[of EmaTrend] r[of Vwap] r[of VolumeRatio] r[of OpenInterest] r[of RsiZone] r[of AtrZone] r[of PremiumQuality]
      r[of RegimeFit] r[of SpreadQuality]
    by (simp add: raw_score_def score_factors_def z default_weights_def)
  then have "weighted_score default_weights (indicators_of cfg s) t d flow regime \<le> \<lfloor>82 / 105 * (100::real)\<rfloor>"
    using score_le[of default_weights "indicators_of cfg s" t d flow regime 82] by (simp add: default_total)
  then show ?thesis by linarith
qed

theorem live_score_ceiling_witness:
  "weighted_score default_weights (indicators_of default_indicator_config three_candles) plain_tick CE Long_Buildup
     RegimeBullish \<le> 78"
  by (rule live_score_ceiling) (simp_all add: plain_tick_def default_indicator_config_def)

lemma range_position_unit:
  assumes "range_position ts symbol now_ms w n = Position p" "0 < n"
  shows "0 \<le> p \<and> p \<le> 1"
proof -
  define window where "window = map snd (filter (\<lambda>r. get_or (of_int (fst (last (range_rows symbol ts)))) now_ms - w * 1000
      \<le> of_int (fst r)) (range_rows symbol ts))"
  have p: "p = (last window - Min (set window)) / (Max (set window) - Min (set window))" "n \<le> length window"
    "Min (set window) < Max (set window)"
    using assms(1) by (auto simp: range_position_def Let_def window_def split: if_splits)
  then have "last window \<in> set window" using assms(2) by (cases window) (simp, metis last_in_set list.distinct(1))
  then have "Min (set window) \<le> last window" "last window \<le> Max (set window)" by simp_all
  with p(3) show ?thesis by (simp add: p(1))
qed

end
