(* ===== verification/Market_Quality.thy ===== *)
theory Market_Quality
  imports Scoring
begin

text \<open>
  The market-quality gate (\<open>core/engines/market_quality_engine.py\<close>): staged freshness, hard rejects, seven component
  scores, grade and action.  The dictionaries of the caller are records whose fields carry the readers' defaults.
\<close>

record quality_config =
  qc_minimum_pct :: int
  qc_max_spread_pct :: real
  qc_max_stale_ms :: int

definition default_quality_config :: quality_config where
  "default_quality_config = \<lparr>qc_minimum_pct = 70, qc_max_spread_pct = 0.60, qc_max_stale_ms = 500\<rparr>"

record broker_status =
  bs_max_stale_ms :: "int option"
  bs_evaluation_time :: "instant option"
  bs_max_spread_pct :: "real option"
  bs_min_liquidity :: int
  bs_market_open :: bool
  bs_kill_switch :: bool
  bs_ws_connected :: bool
  bs_api_healthy :: bool
  bs_exchange_healthy :: bool
  bs_circuit_open :: bool
  bs_recent_reconnects :: int
  bs_latency_ms :: real
  bs_queue_depth :: int

definition healthy_status :: "instant option \<Rightarrow> broker_status" where
  "healthy_status evaluated =
     \<lparr>bs_max_stale_ms = None, bs_evaluation_time = evaluated, bs_max_spread_pct = None, bs_min_liquidity = 1,
      bs_market_open = True, bs_kill_switch = False, bs_ws_connected = True, bs_api_healthy = True,
      bs_exchange_healthy = True, bs_circuit_open = False, bs_recent_reconnects = 0, bs_latency_ms = 0,
      bs_queue_depth = 0\<rparr>"

record quality_greeks =
  qg_delta :: "real option"
  qg_gamma :: "real option"
  qg_theta :: "real option"

datatype freshness_state = FreshNormal | FreshWarn | FreshReject | FreshHardReject

datatype quality_reject = TickStale real | InvalidTick | MarketClosed | KillSwitchActive | WebSocketDown | Unhealthy
  | CircuitOpen | SpreadTooHigh real | LiquidityBelowMinimum int | QualityBelowThreshold int

datatype quality_grade = QualityA_plus | QualityA | QualityB | QualityC | QualityReject

datatype quality_action = AllowAction | SmallSize | RejectAction

datatype component = SpreadPoints | LiquidityPoints | FreshnessPoints | VolatilityPoints | SessionPoints | GreeksPoints
  | ExecutionPoints

definition components :: "component list" where
  "components = [SpreadPoints, LiquidityPoints, FreshnessPoints, VolatilityPoints, SessionPoints, GreeksPoints,
     ExecutionPoints]"

definition component_weight :: "component \<Rightarrow> int" where
  "component_weight c =
     (case c of SpreadPoints \<Rightarrow> 25 | LiquidityPoints \<Rightarrow> 20 | FreshnessPoints \<Rightarrow> 15 | VolatilityPoints \<Rightarrow> 15
      | ExecutionPoints \<Rightarrow> 10 | GreeksPoints \<Rightarrow> 10 | SessionPoints \<Rightarrow> 5)"

record quality_result =
  qr_passed :: bool
  qr_score :: int
  qr_grade :: quality_grade
  qr_hard_reject :: bool
  qr_components :: "component \<Rightarrow> int"
  qr_reason :: "quality_reject option"
  qr_action :: quality_action

section \<open>Freshness\<close>

text \<open>\<open>_normalize_timestamp_ms\<close> on a number, and on a datetime of the exchange's zone.\<close>

definition number_ms :: "int \<Rightarrow> int" where
  "number_ms ts = (if 10000000000 < ts then ts else ts * 1000)"

definition datetime_ms :: "instant \<Rightarrow> int" where
  "datetime_ms dt = dt div 1000"

definition first_stamp :: "tick \<Rightarrow> int option" where
  "first_stamp t =
     (case original_timestamp t of
        Some ms \<Rightarrow> if ms \<noteq> 0 then Some ms else if tick_timestamp t \<noteq> 0 then Some (tick_timestamp t) else None
      | None \<Rightarrow> if tick_timestamp t \<noteq> 0 then Some (tick_timestamp t) else None)"

definition quality_age_ms :: "instant \<Rightarrow> tick \<Rightarrow> int option \<Rightarrow> real" where
  "quality_age_ms now t reference =
     (case first_stamp t of
        None \<Rightarrow> 999999
      | Some ts \<Rightarrow> of_int (max 0 (get_or (current_time_ms now) reference - number_ms ts)))"

definition freshness_state :: "real \<Rightarrow> int \<Rightarrow> freshness_state" where
  "freshness_state age max_stale =
     (if age \<le> of_int max_stale then FreshNormal
      else if age \<le> of_int (max_stale + 300) then FreshWarn
      else if age \<le> of_int (max_stale + 700) then FreshReject else FreshHardReject)"

definition freshness_points :: "quality_config \<Rightarrow> instant \<Rightarrow> tick \<Rightarrow> int option \<Rightarrow> int" where
  "freshness_points cfg now t reference =
     (let age = quality_age_ms now t reference
      in case freshness_state age (qc_max_stale_ms cfg) of
           FreshWarn \<Rightarrow> 4 | FreshReject \<Rightarrow> 0 | FreshHardReject \<Rightarrow> 0
         | FreshNormal \<Rightarrow> if age < 150 then 15 else if age \<le> 300 then 12 else if age \<le> 500 then 7 else 0)"

section \<open>The components\<close>

definition quality_spread_pct :: "tick \<Rightarrow> real" where
  "quality_spread_pct t =
     (case tick_spread_pct t of Some s \<Rightarrow> s
      | None \<Rightarrow> if bid t \<noteq> 0 \<and> ask t \<noteq> 0 \<and> bid t < ask t then (ask t - bid t) / bid t * 100 else 99)"

definition hard_reject :: "quality_config \<Rightarrow> tick \<Rightarrow> broker_status \<Rightarrow> bool \<Rightarrow> quality_reject option" where
  "hard_reject cfg t bs is_valid =
     (let spread = quality_spread_pct t; volume = get_or 0 (tick_volume t)
      in if \<not> is_valid then Some InvalidTick
         else if \<not> bs_market_open bs then Some MarketClosed
         else if bs_kill_switch bs then Some KillSwitchActive
         else if \<not> bs_ws_connected bs then Some WebSocketDown
         else if \<not> bs_api_healthy bs \<or> \<not> bs_exchange_healthy bs then Some Unhealthy
         else if bs_circuit_open bs then Some CircuitOpen
         else if get_or (qc_max_spread_pct cfg) (bs_max_spread_pct bs) < spread then Some (SpreadTooHigh spread)
         else if volume < bs_min_liquidity bs then Some (LiquidityBelowMinimum volume)
         else None)"

definition spread_points :: "real \<Rightarrow> int" where
  "spread_points s = (if s \<le> 0.20 then 25 else if s \<le> 0.40 then 18 else if s \<le> 0.60 then 10 else 0)"

definition liquidity_points :: "indicators \<Rightarrow> tick \<Rightarrow> int" where
  "liquidity_points i t =
     (let ratio = (if in_vol_ratio i \<noteq> 0 then in_vol_ratio i else 1); v = get_or 0 (tick_volume t)
      in if 1.8 \<le> ratio \<or> 100000 \<le> v then 20 else if 1.3 \<le> ratio \<or> 50000 \<le> v then 16
         else if 1 \<le> ratio \<or> 15000 \<le> v then 10 else if 0.7 \<le> ratio \<or> 5000 \<le> v then 4 else 0)"

text \<open>The indicators carry no \<open>VIX\<close>, so its default 0 applies.\<close>

definition volatility_points :: "indicators \<Rightarrow> int" where
  "volatility_points i =
     (let a = in_atr i
      in if 4 \<le> a \<and> a \<le> 18 then 15 else if 2 \<le> a \<and> a < 4 then 10 else if 18 < a \<and> a \<le> 25 then 8 else 0)"

definition session_points :: "instant \<Rightarrow> int" where
  "session_points n =
     (let hhmm = hour_of n * 100 + minute_of n
      in if 920 \<le> hhmm \<and> hhmm < 1030 then 5 else if 1030 \<le> hhmm \<and> hhmm < 1300 then 4
         else if 1300 \<le> hhmm \<and> hhmm < 1430 then 3 else if 1430 \<le> hhmm \<and> hhmm < 1515 then 4 else 1)"

definition greeks_points :: "quality_greeks \<Rightarrow> tick \<Rightarrow> int" where
  "greeks_points g t =
     (let d = (if truthy (qg_delta g) then the (qg_delta g) else get_or 0 (tick_delta t));
          gamma = get_or 0 (qg_gamma g); theta = get_or 0 (qg_theta g)
      in min 10 ((if 0.35 \<le> \<bar>d\<bar> \<and> \<bar>d\<bar> \<le> 0.65 then 5 else 0) + (if gamma = 0 \<or> gamma \<le> 0.08 then 3 else 0)
                 + (if theta = 0 \<or> \<bar>theta\<bar> \<le> 1.5 then 2 else 0)))"

definition execution_points :: "broker_status \<Rightarrow> int" where
  "execution_points bs =
     (let ok = bs_ws_connected bs \<and> bs_api_healthy bs
      in if ok \<and> bs_recent_reconnects bs = 0 \<and> bs_latency_ms bs \<le> 80 \<and> bs_queue_depth bs \<le> 5 then 10
         else if ok \<and> bs_recent_reconnects bs \<le> 1 \<and> bs_latency_ms bs \<le> 150 \<and> bs_queue_depth bs \<le> 10 then 8
         else if ok \<and> bs_latency_ms bs \<le> 250 then 5
         else if bs_ws_connected bs then 3 else 0)"

definition quality_grade_of :: "int \<Rightarrow> quality_grade" where
  "quality_grade_of s =
     (if 90 \<le> s then QualityA_plus else if 80 \<le> s then QualityA else if 70 \<le> s then QualityB
      else if 60 \<le> s then QualityC else QualityReject)"

definition quality_action_of :: "int \<Rightarrow> quality_action" where
  "quality_action_of s = (if 70 \<le> s then AllowAction else if 60 \<le> s then SmallSize else RejectAction)"

section \<open>The decision\<close>

definition rejected_quality :: "bool \<Rightarrow> quality_reject \<Rightarrow> quality_result" where
  "rejected_quality hard r =
     \<lparr>qr_passed = False, qr_score = 0, qr_grade = QualityReject, qr_hard_reject = hard, qr_components = (\<lambda>_. 0),
      qr_reason = Some r, qr_action = RejectAction\<rparr>"

definition component_points ::
    "quality_config \<Rightarrow> instant \<Rightarrow> tick \<Rightarrow> indicators \<Rightarrow> quality_greeks \<Rightarrow> broker_status \<Rightarrow> component \<Rightarrow> int" where
  "component_points cfg now t i g bs c =
     (let reference = map_option datetime_ms (bs_evaluation_time bs)
      in case c of
           SpreadPoints \<Rightarrow> spread_points (quality_spread_pct t)
         | LiquidityPoints \<Rightarrow> liquidity_points i t
         | FreshnessPoints \<Rightarrow> freshness_points cfg now t reference
         | VolatilityPoints \<Rightarrow> volatility_points i
         | SessionPoints \<Rightarrow> session_points (case reference of None \<Rightarrow> now | Some ms \<Rightarrow> ms * 1000)
         | GreeksPoints \<Rightarrow> greeks_points g t
         | ExecutionPoints \<Rightarrow> execution_points bs)"

definition evaluate_quality ::
    "quality_config \<Rightarrow> instant \<Rightarrow> tick \<Rightarrow> indicators \<Rightarrow> quality_greeks \<Rightarrow> broker_status \<Rightarrow> bool \<Rightarrow> quality_result" where
  "evaluate_quality cfg now t i g bs is_valid =
     (let age = quality_age_ms now t (map_option datetime_ms (bs_evaluation_time bs))
      in case freshness_state age (get_or (qc_max_stale_ms cfg) (bs_max_stale_ms bs)) of
           FreshHardReject \<Rightarrow> rejected_quality True (TickStale age)
         | FreshReject \<Rightarrow> rejected_quality False (TickStale age)
         | _ \<Rightarrow>
             (case hard_reject cfg t bs is_valid of
                Some r \<Rightarrow> rejected_quality True r
              | None \<Rightarrow>
                  let points = component_points cfg now t i g bs; score = sum_list (map points components)
                  in \<lparr>qr_passed = (qc_minimum_pct cfg \<le> score), qr_score = score, qr_grade = quality_grade_of score,
                      qr_hard_reject = False, qr_components = points,
                      qr_reason = (if qc_minimum_pct cfg \<le> score then None else Some (QualityBelowThreshold score)),
                      qr_action = quality_action_of score\<rparr>))"

definition quality_score_legacy :: "quality_config \<Rightarrow> instant \<Rightarrow> indicators \<Rightarrow> tick \<Rightarrow> bool \<times> quality_result" where
  "quality_score_legacy cfg now i t =
     (let r = evaluate_quality cfg now t i \<lparr>qg_delta = None, qg_gamma = None, qg_theta = None\<rparr> (healthy_status None) True
      in (qr_passed r, r))"

section \<open>What a pass guarantees\<close>

lemma component_points_range:
  "0 \<le> component_points cfg now t i g bs c \<and> component_points cfg now t i g bs c \<le> component_weight c"
  by (cases c)
    (simp_all add: component_points_def component_weight_def spread_points_def liquidity_points_def freshness_points_def
      volatility_points_def session_points_def greeks_points_def execution_points_def Let_def split: freshness_state.split)

lemma component_sum: "sum_list (map component_weight components) = 100"
  by (simp add: components_def component_weight_def)

text \<open>A market that passes the gate is tradable: its tick is at most 300 ms past the freshness limit, its spread within
  the limit, its volume at least the minimum and no veto is set; the score is between the minimum and 100 and is the sum
  of components that never exceed their weights.\<close>

theorem quality_pass_means_tradable:
  assumes "qr_passed (evaluate_quality cfg now t i g bs is_valid)"
  defines "r \<equiv> evaluate_quality cfg now t i g bs is_valid"
  shows "quality_age_ms now t (map_option datetime_ms (bs_evaluation_time bs))
           \<le> of_int (get_or (qc_max_stale_ms cfg) (bs_max_stale_ms bs) + 300)
       \<and> quality_spread_pct t \<le> get_or (qc_max_spread_pct cfg) (bs_max_spread_pct bs)
       \<and> bs_min_liquidity bs \<le> get_or 0 (tick_volume t)
       \<and> is_valid \<and> bs_market_open bs \<and> \<not> bs_kill_switch bs \<and> bs_ws_connected bs \<and> bs_api_healthy bs
       \<and> bs_exchange_healthy bs \<and> \<not> bs_circuit_open bs
       \<and> qc_minimum_pct cfg \<le> qr_score r \<and> qr_score r \<le> 100 \<and> qr_score r = sum_list (map (qr_components r) components)
       \<and> (\<forall>c. 0 \<le> qr_components r c \<and> qr_components r c \<le> component_weight c)"
proof -
  have "sum_list (map (component_points cfg now t i g bs) components) \<le> sum_list (map component_weight components)"
    using component_points_range by (intro sum_list_mono) blast
  then show ?thesis
    using assms(1) component_points_range[of cfg now t i g bs]
    by (auto simp: r_def evaluate_quality_def hard_reject_def freshness_state_def rejected_quality_def component_sum Let_def
        split: if_splits)
qed

definition calm_indicators :: indicators where
  "calm_indicators =
     \<lparr>in_ema5 = 25010, in_ema9 = 25005, in_ema21 = 24990, in_ema50 = 24900, in_rsi = 60, in_macd = 5, in_macd_signal = 4,
      in_macd_hist = 1, in_macd_hist_prev = 5/4, in_bb_mid = 25000, in_bb_upper = 25050, in_bb_lower = 24950,
      in_atr = 10, in_kc_mid = 25000, in_kc_upper = 25015, in_kc_lower = 24985, in_squeeze = False, in_vol_sma = 100,
      in_vol_ratio = 3/2, in_volume_spike = False, in_vwap = 24980, in_above_vwap = True, in_below_vwap = False,
      in_vwap_distance = 1/10, in_mom = 1/10, in_close = 25010, in_prev_close = 25000, in_high = 25010, in_low = 25010\<rparr>"

definition liquid_tick :: tick where
  "liquid_tick = plain_tick\<lparr>tick_spread_pct := Some (1/10), tick_volume := Some 200000, tick_delta := Some (1/2),
     tick_timestamp := 1700000000000\<rparr>"

definition no_greeks :: quality_greeks where
  "no_greeks = \<lparr>qg_delta = None, qg_gamma = None, qg_theta = None\<rparr>"

lemma liquid_tick_passes:
  "qr_passed (evaluate_quality default_quality_config (seconds 1700000000) liquid_tick calm_indicators no_greeks
                (healthy_status None) True)"
  by (simp add: evaluate_quality_def component_points_def components_def spread_points_def liquidity_points_def
      freshness_points_def volatility_points_def session_points_def greeks_points_def execution_points_def
      quality_age_ms_def first_stamp_def number_ms_def current_time_ms_def freshness_state_def hard_reject_def
      quality_spread_pct_def liquid_tick_def plain_tick_def calm_indicators_def no_greeks_def healthy_status_def
      default_quality_config_def seconds_def Let_def)

theorem quality_pass_means_tradable_witness:
  "qr_score (evaluate_quality default_quality_config (seconds 1700000000) liquid_tick calm_indicators no_greeks
               (healthy_status None) True) \<le> 100"
  using quality_pass_means_tradable[OF liquid_tick_passes] by blast

section \<open>The call of the strategy\<close>

text \<open>\<open>_resolve_tick_time\<close> of \<open>smart_scalp_v3.py\<close>, the evaluation time it passes.\<close>

definition resolve_tick_time :: "tick \<Rightarrow> instant" where
  "resolve_tick_time t =
     (case original_timestamp t of
        Some ms \<Rightarrow> if ms \<noteq> 0 then (if 10000000000 < ms then ms * 1000 else ms * 1000000)
                   else (if 10000000000 < tick_timestamp t then tick_timestamp t * 1000 else tick_timestamp t * 1000000)
      | None \<Rightarrow> if 10000000000 < tick_timestamp t then tick_timestamp t * 1000 else tick_timestamp t * 1000000)"

definition strategy_status :: "tick \<Rightarrow> broker_status" where
  "strategy_status t = healthy_status (Some (resolve_tick_time t))"

lemma strategy_age:
  assumes "first_stamp t = Some ts"
  shows "quality_age_ms now t (Some (datetime_ms (resolve_tick_time t))) = 0"
  using assms
  by (auto simp: first_stamp_def quality_age_ms_def resolve_tick_time_def datetime_ms_def number_ms_def
      split: option.splits if_splits)

text \<open>The freshness stage never fires. The strategy hands the gate the tick's own timestamp as the time of evaluation, so
  every stamped tick has age zero and full freshness points: the verdict is the same at whatever time it is made, and no
  tick is ever rejected as stale.\<close>

theorem freshness_gate_vacuous:
  assumes "first_stamp t = Some ts" "0 \<le> qc_max_stale_ms cfg"
  shows "evaluate_quality cfg now t i g (strategy_status t) v = evaluate_quality cfg later t i g (strategy_status t) v
       \<and> component_points cfg now t i g (strategy_status t) FreshnessPoints = 15
       \<and> (\<forall>age. qr_reason (evaluate_quality cfg now t i g (strategy_status t) v) \<noteq> Some (TickStale age))"
proof -
  let ?ref = "Some (datetime_ms (resolve_tick_time t))"
  have age: "quality_age_ms n t ?ref = 0" for n
    using strategy_age[OF assms(1)] assms(1) by (simp add: quality_age_ms_def)
  have st: "bs_evaluation_time (strategy_status t) = Some (resolve_tick_time t)"
    "bs_max_stale_ms (strategy_status t) = None" by (simp_all add: strategy_status_def healthy_status_def)
  have fresh: "freshness_state 0 (qc_max_stale_ms cfg) = FreshNormal" using assms(2) by (simp add: freshness_state_def)
  have points: "component_points cfg n t i g (strategy_status t) = component_points cfg now t i g (strategy_status t)" for n
    by (rule ext) (simp add: component_points_def st freshness_points_def age Let_def split: component.split)
  have hard: "hard_reject cfg t bs v \<noteq> Some (TickStale a)" for bs a by (simp add: hard_reject_def Let_def)
  show ?thesis
    using hard points[of later]
    by (auto simp: evaluate_quality_def st age fresh component_points_def freshness_points_def rejected_quality_def Let_def
        split: option.splits)
qed

theorem freshness_gate_vacuous_witness:
  "qr_reason (evaluate_quality default_quality_config (seconds 1700009999) liquid_tick calm_indicators no_greeks
     (strategy_status liquid_tick) True) \<noteq> Some (TickStale 9999000)"
  using freshness_gate_vacuous[of liquid_tick 1700000000000 default_quality_config]
  by (simp add: liquid_tick_def plain_tick_def first_stamp_def default_quality_config_def)

end
