(* ===== verification/Pullback.thy ===== *)
theory Pullback
  imports Market_Quality
begin

text \<open>
  The pullback strategy (\<open>strategies/pullback_strategy.py\<close>), the chop gate (\<open>market_gate.py\<close>) and the selection of a
  candidate (\<open>selector.py\<close>).
\<close>

datatype pullback_factor = EmaAligned | EmaTouch | CandleFits | CloseBeyondEma | RsiFits | VwapFits | VolumeSpike | OiFits

record pullback_side =
  pb_trend :: bool
  pb_trigger :: bool
  pb_candle :: bool
  pb_rsi :: bool
  pb_vwap :: bool
  pb_volume :: bool
  pb_oi :: bool
  pb_factors :: "pullback_factor list"
  pb_score :: int
  pb_signal :: bool

definition no_trend :: pullback_side where
  "no_trend = \<lparr>pb_trend = False, pb_trigger = False, pb_candle = False, pb_rsi = False, pb_vwap = False,
     pb_volume = False, pb_oi = False, pb_factors = [], pb_score = 0, pb_signal = False\<rparr>"

record pullback_config =
  pc_min_score :: int
  pc_vwap_enabled :: bool
  pc_oi_enabled :: bool

definition default_pullback :: pullback_config where
  "default_pullback = \<lparr>pc_min_score = 4, pc_vwap_enabled = True, pc_oi_enabled = True\<rparr>"

definition if_factor :: "bool \<Rightarrow> pullback_factor \<Rightarrow> pullback_factor list" where
  "if_factor b f = (if b then [f] else [])"

definition points :: "bool \<Rightarrow> int" where
  "points b = (if b then 1 else 0)"

text \<open>The score and the factors of a side whose trend holds; \<open>strong\<close> is the extra point of the RSI.\<close>

definition scored_side ::
    "pullback_config \<Rightarrow> bool \<Rightarrow> bool \<Rightarrow> bool \<Rightarrow> bool \<Rightarrow> bool \<Rightarrow> bool \<Rightarrow> bool \<Rightarrow> bool \<Rightarrow> pullback_side" where
  "scored_side cfg trigger candle beyond rsi strong vwap volume oi =
     (let score = 2 + 2 * points trigger + points candle + points (candle \<and> beyond) + points rsi
                  + points (rsi \<and> strong) + points vwap + points volume + points oi
      in \<lparr>pb_trend = True, pb_trigger = trigger, pb_candle = candle, pb_rsi = rsi, pb_vwap = vwap, pb_volume = volume,
          pb_oi = oi,
          pb_factors = EmaAligned # if_factor trigger EmaTouch @ if_factor candle CandleFits
            @ if_factor (candle \<and> beyond) CloseBeyondEma @ if_factor rsi RsiFits @ if_factor vwap VwapFits
            @ if_factor volume VolumeSpike @ if_factor oi OiFits,
          pb_score = score, pb_signal = (pc_min_score cfg \<le> score)\<rparr>)"

definition ema_proximity :: "real \<Rightarrow> real \<Rightarrow> real" where
  "ema_proximity price ema9 = (if 0 < ema9 then \<bar>price - ema9\<bar> / ema9 * 100 else 999)"

definition pullback_ce :: "pullback_config \<Rightarrow> indicators \<Rightarrow> oi_flow \<Rightarrow> pullback_side" where
  "pullback_ce cfg i flow =
     (if \<not> in_ema21 i < in_ema9 i then no_trend
      else let up = in_prev_close i < in_close i
           in scored_side cfg
                (ema_proximity (in_low i) (in_ema9 i) < 0.5 \<or> (in_low i \<le> in_ema9 i \<and> in_ema9 i \<le> in_close i))
                up (in_ema9 i < in_close i) (45 < in_rsi i) (55 < in_rsi i)
                (pc_vwap_enabled cfg \<and> in_above_vwap i) (in_volume_spike i \<and> up)
                (pc_oi_enabled cfg \<and> flow \<in> {Long_Buildup, Short_Covering}))"

definition pullback_pe :: "pullback_config \<Rightarrow> indicators \<Rightarrow> oi_flow \<Rightarrow> pullback_side" where
  "pullback_pe cfg i flow =
     (if \<not> in_ema9 i < in_ema21 i then no_trend
      else let down = in_close i < in_prev_close i
           in scored_side cfg
                (ema_proximity (in_high i) (in_ema9 i) < 0.5 \<or> (in_close i \<le> in_ema9 i \<and> in_ema9 i \<le> in_high i))
                down (in_close i < in_ema9 i) (in_rsi i < 45) (in_rsi i < 35)
                (pc_vwap_enabled cfg \<and> in_below_vwap i) (in_volume_spike i \<and> down)
                (pc_oi_enabled cfg \<and> flow \<in> {Short_Buildup, Long_Unwinding}))"

record pullback_result =
  pr_ce :: pullback_side
  pr_pe :: pullback_side

definition evaluate_pullback :: "pullback_config \<Rightarrow> indicators \<Rightarrow> oi_flow \<Rightarrow> pullback_result" where
  "evaluate_pullback cfg i flow = \<lparr>pr_ce = pullback_ce cfg i flow, pr_pe = pullback_pe cfg i flow\<rparr>"

datatype pullback_reason = FailedTrend | FailedTrigger | FailedScore

definition pullback_reason :: "pullback_side \<Rightarrow> pullback_reason option" where
  "pullback_reason s =
     (if \<not> pb_trend s then Some FailedTrend else if \<not> pb_trigger s then Some FailedTrigger
      else if \<not> pb_signal s then Some FailedScore else None)"

record candidate =
  ca_direction :: option_type
  ca_passed :: bool
  ca_score :: int
  ca_reason :: "pullback_reason option"

definition side_of :: "pullback_result \<Rightarrow> option_type \<Rightarrow> pullback_side" where
  "side_of r d = (case d of CE \<Rightarrow> pr_ce r | PE \<Rightarrow> pr_pe r)"

definition candidate_of :: "pullback_result \<Rightarrow> option_type \<Rightarrow> candidate" where
  "candidate_of r d =
     \<lparr>ca_direction = d, ca_passed = pb_signal (side_of r d), ca_score = pb_score (side_of r d),
      ca_reason = pullback_reason (side_of r d)\<rparr>"

definition as_candidates :: "pullback_result \<Rightarrow> candidate list" where
  "as_candidates r = map (candidate_of r) (filter (\<lambda>d. pb_trend (side_of r d)) [CE, PE])"

definition select_strategy :: "candidate list \<Rightarrow> py_error + candidate option" where
  "select_strategy cs =
     (let passed = filter ca_passed cs
      in if passed = [] then Inr None else if 1 < length passed then Inl ValueError else Inr (Some (hd passed)))"

definition select_direction :: "pullback_result \<Rightarrow> option_type option" where
  "select_direction r = (if pb_signal (pr_ce r) then Some CE else if pb_signal (pr_pe r) then Some PE else None)"

section \<open>The chop gate\<close>

datatype chop_reason = EmaSqueeze | LowAtr | MacdFlat

definition evaluate_chop :: "indicators \<Rightarrow> bool \<times> chop_reason list" where
  "evaluate_chop i =
     (let reasons =
        (if \<bar>in_ema9 i - in_ema21 i\<bar> < 0.8 then [EmaSqueeze] else [])
        @ (if in_atr i < 3 then [LowAtr] else [])
        @ (if \<bar>in_macd_hist i\<bar> < 0.25 \<and> \<bar>in_macd_hist i - in_macd_hist_prev i\<bar> < 0.2 then [MacdFlat] else [])
      in (3 \<le> length reasons, reasons))"

section \<open>Properties\<close>

lemma scored_side_simps [simp]:
  "pb_trend (scored_side cfg a b c d e f g h)" "pb_trigger (scored_side cfg a b c d e f g h) = a"
  "pb_signal (scored_side cfg a b c d e f g h) \<longleftrightarrow> pc_min_score cfg \<le> pb_score (scored_side cfg a b c d e f g h)"
  by (simp_all add: scored_side_def Let_def)

lemma no_trend_simps [simp]: "\<not> pb_trend no_trend" "\<not> pb_signal no_trend" "pb_score no_trend = 0"
  by (simp_all add: no_trend_def)

lemma side_signal_trend:
  "pb_signal (pullback_ce cfg i flow) \<Longrightarrow> in_ema21 i < in_ema9 i"
  "pb_signal (pullback_pe cfg i flow) \<Longrightarrow> in_ema9 i < in_ema21 i"
  "pb_signal (pullback_ce cfg i flow) \<Longrightarrow> pb_trend (pullback_ce cfg i flow)"
  "pb_signal (pullback_pe cfg i flow) \<Longrightarrow> pb_trend (pullback_pe cfg i flow)"
  by (auto simp: pullback_ce_def pullback_pe_def Let_def split: if_splits)

text \<open>There is never a conflict to resolve. The call and the put side cannot both pass, so \<open>select_strategy\<close> on the
  candidates of any evaluation does not raise, and it chooses the direction the code's own call-first test chooses.\<close>

theorem selector_agrees:
  "select_strategy (as_candidates (evaluate_pullback cfg i flow))
     = Inr (map_option (candidate_of (evaluate_pullback cfg i flow)) (select_direction (evaluate_pullback cfg i flow)))"
  using side_signal_trend[of cfg i flow]
  by (cases "pb_signal (pullback_ce cfg i flow)"; cases "pb_signal (pullback_pe cfg i flow)")
    (auto simp: as_candidates_def select_strategy_def select_direction_def evaluate_pullback_def side_of_def
      candidate_of_def Let_def)

lemma scored_side_range: "2 \<le> pb_score (scored_side cfg a b c d e f g h) \<and> pb_score (scored_side cfg a b c d e f g h) \<le> 11"
  by (simp add: scored_side_def points_def)

text \<open>A side scores at most eleven, not the "12 possible" its comment announces, and it scores nothing unless its trend
  holds.\<close>

theorem pullback_score_range:
  "pb_score (pullback_ce cfg i flow) \<in> {0} \<union> {2..11} \<and> pb_score (pullback_pe cfg i flow) \<in> {0} \<union> {2..11}
   \<and> (pb_score (pullback_ce cfg i flow) = 0 \<or> pb_score (pullback_pe cfg i flow) = 0)"
  using scored_side_range[of cfg] by (simp add: pullback_ce_def pullback_pe_def Let_def)

text \<open>A pullback is not needed for a pullback signal. With the default threshold a rising close above an average that lies
  more than half a percent below the low is a call signal: the trend and a green candle alone give the four points, while
  the record of the same evaluation says that the trigger failed.\<close>

theorem pullback_not_required:
  assumes "in_ema21 i < in_ema9 i" "0 < in_ema9 i" "in_prev_close i < in_close i"
    and "201/200 * in_ema9 i \<le> in_low i" "in_low i \<le> in_close i"
  shows "select_direction (evaluate_pullback default_pullback i flow) = Some CE
       \<and> pullback_reason (pullback_ce default_pullback i flow) = Some FailedTrigger"
proof -
  have "0.5 \<le> (in_low i - in_ema9 i) / in_ema9 i * 100" using assms(2,4) by (simp add: field_simps)
  moreover have "in_ema9 i < in_low i" using assms(2,4) by linarith
  ultimately have t: "\<not> (ema_proximity (in_low i) (in_ema9 i) < 0.5 \<or> (in_low i \<le> in_ema9 i \<and> in_ema9 i \<le> in_close i))"
    using assms(2) by (simp add: ema_proximity_def)
  have p: "0 \<le> points b" for b by (simp add: points_def)
  have "4 \<le> pb_score (pullback_ce default_pullback i flow)"
    using assms(1-3,5) \<open>in_ema9 i < in_low i\<close> p unfolding pullback_ce_def scored_side_def Let_def
    by (simp add: points_def)
  then have "pb_signal (pullback_ce default_pullback i flow)"
    using assms(1) by (simp add: pullback_ce_def default_pullback_def Let_def)
  moreover have "pb_trend (pullback_ce default_pullback i flow)" "\<not> pb_trigger (pullback_ce default_pullback i flow)"
    using assms(1) t unfolding pullback_ce_def Let_def by simp_all
  ultimately show ?thesis
    by (simp add: select_direction_def evaluate_pullback_def pullback_reason_def)
qed

theorem pullback_not_required_witness:
  "select_direction (evaluate_pullback default_pullback (calm_indicators\<lparr>in_ema9 := 24800, in_ema21 := 24700\<rparr>) Neutral_Flow) = Some CE"
  using pullback_not_required[of "calm_indicators\<lparr>in_ema9 := 24800, in_ema21 := 24700\<rparr>" Neutral_Flow]
  by (simp add: calm_indicators_def)

end
