(* ===== verification/Greeks.thy ===== *)
theory Greeks
  imports Market_Tick
begin

text \<open>
  Black-Scholes Greeks (\<open>utils/greeks.py\<close>), their cache and the implied-volatility solver, and the cross-check of
  \<open>core/risk/greeks_validator.py\<close>.  \<open>math.erf\<close> is its power series; arithmetic is exact, so the \<open>except\<close> branches
  that answer overflow are not reached.
\<close>

section \<open>The normal distribution\<close>

definition erf_term :: "real \<Rightarrow> nat \<Rightarrow> real" where
  "erf_term x n = x ^ (2 * n + 1) / (fact n * of_nat (2 * n + 1))"

definition erf :: "real \<Rightarrow> real" where
  "erf x = 2 / sqrt pi * (\<Sum>n. (- 1) ^ n * erf_term x n)"

definition norm_cdf :: "real \<Rightarrow> real" where
  "norm_cdf x = (1 + erf (x / sqrt 2)) / 2"

definition norm_pdf :: "real \<Rightarrow> real" where
  "norm_pdf x = exp (- 0.5 * x * x) / sqrt (2 * pi)"

section \<open>The Greeks\<close>

record greeks =
  gk_delta :: real
  gk_gamma :: real
  gk_theta :: real
  gk_vega :: real
  gk_theta_sec :: real
  gk_tte :: real

definition year_seconds :: real where
  "year_seconds = 365 * 24 * 3600"

definition d1_of :: "real \<Rightarrow> real \<Rightarrow> real \<Rightarrow> real \<Rightarrow> real \<Rightarrow> real" where
  "d1_of s k t r sigma = (ln (s / k) + (r + 0.5 * sigma\<^sup>2) * t) / (sigma * sqrt t)"

definition d2_of :: "real \<Rightarrow> real \<Rightarrow> real \<Rightarrow> real \<Rightarrow> real \<Rightarrow> real" where
  "d2_of s k t r sigma = d1_of s k t r sigma - sigma * sqrt t"

definition calculate_greeks :: "real \<Rightarrow> real \<Rightarrow> real \<Rightarrow> real \<Rightarrow> real \<Rightarrow> option_type \<Rightarrow> greeks" where
  "calculate_greeks s k tte vol r ty =
     (let t = (if tte \<le> 0 then 1 / (365 * 24) else tte);
          sigma = (if vol \<le> 0 then 0.15 else vol)
      in if s \<le> 0 \<or> k \<le> 0
         then \<lparr>gk_delta = (if ty = CE then 0.5 else - 0.5), gk_gamma = 0.001, gk_theta = - 50, gk_vega = 5,
               gk_theta_sec = 0.0005, gk_tte = t * year_seconds\<rparr>
         else let d1 = d1_of s k t r sigma; d2 = d2_of s k t r sigma;
                  decay = - (s * norm_pdf d1 * sigma) / (2 * sqrt t);
                  theta = (case ty of CE \<Rightarrow> decay - r * k * exp (- r * t) * norm_cdf d2
                           | PE \<Rightarrow> decay + r * k * exp (- r * t) * norm_cdf (- d2)) / 365
              in \<lparr>gk_delta = (case ty of CE \<Rightarrow> norm_cdf d1 | PE \<Rightarrow> norm_cdf d1 - 1),
                  gk_gamma = norm_pdf d1 / (s * sigma * sqrt t), gk_theta = theta,
                  gk_vega = s * norm_pdf d1 * sqrt t / 100, gk_theta_sec = \<bar>theta / (24 * 60 * 60)\<bar>,
                  gk_tte = t * year_seconds\<rparr>)"

section \<open>The cache\<close>

record greek_args =
  ga_spot :: real
  ga_strike :: real
  ga_tte :: real
  ga_vol :: real
  ga_rate :: real
  ga_type :: option_type

definition greeks_at :: "greek_args \<Rightarrow> greeks" where
  "greeks_at a = calculate_greeks (ga_spot a) (ga_strike a) (ga_tte a) (ga_vol a) (ga_rate a) (ga_type a)"

text \<open>The arguments as the key rounds them.\<close>

definition cache_key :: "greek_args \<Rightarrow> greek_args" where
  "cache_key a =
     \<lparr>ga_spot = py_round 1 (ga_spot a), ga_strike = py_round 0 (ga_strike a), ga_tte = py_round 6 (ga_tte a),
      ga_vol = py_round 4 (ga_vol a), ga_rate = py_round 4 (ga_rate a), ga_type = ga_type a\<rparr>"

type_synonym greeks_cache = "greek_args \<rightharpoonup> greeks \<times> instant \<times> real"

definition is_cache_valid :: "instant \<Rightarrow> greeks \<times> instant \<times> real \<Rightarrow> real \<Rightarrow> bool" where
  "is_cache_valid now entry spot \<longleftrightarrow>
     (case entry of (g, stored, cached_spot) \<Rightarrow>
        now - stored \<le> seconds 5 \<and> \<not> (0 < cached_spot \<and> 0.01 < \<bar>spot - cached_spot\<bar> / cached_spot))"

definition calculate_cached :: "instant \<Rightarrow> greek_args \<Rightarrow> greeks_cache \<Rightarrow> greeks \<times> greeks_cache" where
  "calculate_cached now a cache =
     (case cache (cache_key a) of
        Some entry \<Rightarrow>
          if is_cache_valid now entry (ga_spot a) then (fst entry, cache)
          else (greeks_at a, cache(cache_key a \<mapsto> (greeks_at a, now, ga_spot a)))
      | None \<Rightarrow> (greeks_at a, cache(cache_key a \<mapsto> (greeks_at a, now, ga_spot a))))"

definition clear_cache :: greeks_cache where
  "clear_cache = Map.empty"

section \<open>Implied volatility\<close>

definition initial_iv :: "real \<Rightarrow> option_type \<Rightarrow> real" where
  "initial_iv moneyness ty =
     (case ty of CE \<Rightarrow> if 1.05 < moneyness then 0.20 else if moneyness < 0.95 then 0.35 else 0.25
      | PE \<Rightarrow> if moneyness < 0.95 then 0.20 else if 1.05 < moneyness then 0.35 else 0.25)"

definition option_price :: "real \<Rightarrow> real \<Rightarrow> real \<Rightarrow> real \<Rightarrow> real \<Rightarrow> option_type \<Rightarrow> real" where
  "option_price s k t r iv ty =
     (let d1 = d1_of s k t r iv; d2 = d2_of s k t r iv
      in case ty of CE \<Rightarrow> s * norm_cdf d1 - k * exp (- r * t) * norm_cdf d2
         | PE \<Rightarrow> k * exp (- r * t) * norm_cdf (- d2) - s * norm_cdf (- d1))"

fun solve_iv :: "nat \<Rightarrow> real \<Rightarrow> real \<Rightarrow> real \<Rightarrow> real \<Rightarrow> real \<Rightarrow> real \<Rightarrow> option_type \<Rightarrow> real \<Rightarrow> real" where
  "solve_iv 0 price s k t r tol ty iv = clamp 0.10 0.80 iv"
| "solve_iv (Suc n) price s k t r tol ty iv =
     (let diff = price - option_price s k t r iv ty; vega = s * norm_pdf (d1_of s k t r iv) * sqrt t
      in if \<bar>diff\<bar> < tol then clamp 0.05 1.5 iv
         else if 0.001 < vega then solve_iv n price s k t r tol ty (clamp 0.01 2.0 (iv + diff / vega))
         else clamp 0.10 0.80 iv)"

definition solve_iv_newton :: "real \<Rightarrow> real \<Rightarrow> real \<Rightarrow> real \<Rightarrow> option_type \<Rightarrow> real \<Rightarrow> real" where
  "solve_iv_newton price s k tte ty r =
     solve_iv 50 price s k (max tte (1 / (365 * 24 * 60))) r 0.0001 ty (initial_iv (s / k) ty)"

definition calculate_from_ltp :: "real \<Rightarrow> real \<Rightarrow> real \<Rightarrow> real \<Rightarrow> option_type \<Rightarrow> real \<Rightarrow> greeks" where
  "calculate_from_ltp price s k tte_sec ty r =
     (let t = tte_sec / year_seconds
      in if t \<le> 0 \<or> price \<le> 0
         then \<lparr>gk_delta = 0, gk_gamma = 0, gk_theta = 0, gk_vega = 0, gk_theta_sec = 0, gk_tte = 0\<rparr>
         else if s \<le> 0 \<or> k \<le> 0
         then \<lparr>gk_delta = 0.5, gk_gamma = 0.001, gk_theta = - 50, gk_vega = 5, gk_theta_sec = 0.0005, gk_tte = tte_sec\<rparr>
         else calculate_greeks s k t (solve_iv_newton price s k t ty r) r ty)"

definition time_to_expiry_seconds :: "instant \<Rightarrow> instant \<Rightarrow> real" where
  "time_to_expiry_seconds now expiry = max 0 (total_seconds (expiry - now))"

text \<open>\<open>_calculate_greeks_bsm\<close> of \<open>greeks_calc.py\<close>; the strike step comes from the instrument master.\<close>

definition calculate_greeks_bsm ::
    "instant \<Rightarrow> tick \<Rightarrow> real \<Rightarrow> int \<Rightarrow> int \<Rightarrow> instant \<Rightarrow> option_type \<Rightarrow> greeks" where
  "calculate_greeks_bsm now t spot strike step expiry ty =
     (let s = (if spot \<le> 0 then spot_price t else spot);
          k = (if strike \<le> 0 then round_half_even (s / of_int step) * step else strike);
          tte = time_to_expiry_seconds now expiry
      in calculate_from_ltp (ltp t) s (of_int k) (if tte \<le> 0 then 3600 else tte) ty 0.05)"

section \<open>Cross-check against the broker\<close>

definition relative_gap :: "real \<Rightarrow> real \<Rightarrow> real \<Rightarrow> real" where
  "relative_gap floor_value model api = \<bar>model - api\<bar> / max \<bar>model\<bar> floor_value"

definition greek_gaps :: "greeks \<Rightarrow> greeks \<Rightarrow> (real \<times> bool) list" where
  "greek_gaps m a =
     map (\<lambda>(gap, limit). (gap, limit < gap))
       [(relative_gap 0.01 (gk_delta m) (gk_delta a), 0.05), (relative_gap 0.001 (gk_gamma m) (gk_gamma a), 0.10),
        (relative_gap 1 (gk_theta m) (gk_theta a), 0.20), (relative_gap 0.1 (gk_vega m) (gk_vega a), 0.15)]"

datatype greek_check = GreekCheckOk | GreekCheckWarning | GreekCheckError | ApiUnavailable

definition validate_greeks :: "greeks \<Rightarrow> greeks option \<Rightarrow> greek_check" where
  "validate_greeks m api =
     (case api of
        None \<Rightarrow> ApiUnavailable
      | Some a \<Rightarrow> let n = length (filter snd (greek_gaps m a))
                 in if n = 0 then GreekCheckOk else if n = 1 then GreekCheckWarning else GreekCheckError)"

definition get_reliable_greeks :: "greeks \<Rightarrow> greeks option \<Rightarrow> greeks \<times> real" where
  "get_reliable_greeks m api =
     (case validate_greeks m api of
        GreekCheckOk \<Rightarrow> (the api, 0.95) | GreekCheckWarning \<Rightarrow> (m, 0.70) | GreekCheckError \<Rightarrow> (m, 0.50)
      | ApiUnavailable \<Rightarrow> (m, 0.80))"

section \<open>The distribution near the money\<close>

lemma erf_term_pos: "0 \<le> x \<Longrightarrow> 0 \<le> erf_term x n"
  by (simp add: erf_term_def)

lemma erf_term_step:
  assumes "0 \<le> x" "x \<le> 1" shows "erf_term x (Suc n) \<le> erf_term x n"
proof -
  have "x ^ (2 * n + 3) \<le> x ^ (2 * n + 1)" using assms by (intro power_decreasing) simp_all
  moreover have "fact n * real (2 * n + 1) \<le> fact (Suc n) * real (2 * Suc n + 1)"
    by (intro mult_mono fact_mono) simp_all
  ultimately have "x ^ (2 * n + 3) / (fact (Suc n) * real (2 * Suc n + 1)) \<le> x ^ (2 * n + 1) / (fact n * real (2 * n + 1))"
    using assms(1) by (intro frac_le mult_pos_pos) simp_all
  then show ?thesis by (simp add: erf_term_def eval_nat_numeral)
qed

lemma erf_term_lim:
  assumes "0 \<le> x" "x \<le> 1" shows "erf_term x \<longlonglongrightarrow> 0"
proof (rule tendsto_sandwich[of "\<lambda>_. 0" _ _ "\<lambda>n. 1 / real (Suc n)"])
  show "\<forall>\<^sub>F n in sequentially. 0 \<le> erf_term x n" using erf_term_pos assms(1) by simp
  have "erf_term x n \<le> 1 / real (Suc n)" for n
  proof -
    have "(1::real) * real (Suc n) \<le> fact n * real (2 * n + 1)" by (intro mult_mono fact_ge_1) simp_all
    then have "x ^ (2 * n + 1) / (fact n * real (2 * n + 1)) \<le> 1 / real (Suc n)"
      using assms by (intro frac_le power_le_one) simp_all
    then show ?thesis by (simp add: erf_term_def)
  qed
  then show "\<forall>\<^sub>F n in sequentially. erf_term x n \<le> 1 / real (Suc n)" by simp
  show "(\<lambda>n. 1 / real (Suc n)) \<longlonglongrightarrow> 0" using LIMSEQ_inverse_real_of_nat by (simp add: inverse_eq_divide)
qed simp

lemma erf_small:
  assumes "0 \<le> x" "x \<le> 1"
  shows "0 \<le> erf x" "erf x \<le> 2 / sqrt pi * x"
proof -
  note leibniz = summable_Leibniz'[OF erf_term_lim[OF assms] erf_term_pos[OF assms(1)] erf_term_step[OF assms]]
  have "0 \<le> (\<Sum>n. (- 1) ^ n * erf_term x n)" using leibniz(2)[of 0] by simp
  moreover have "(\<Sum>n. (- 1) ^ n * erf_term x n) \<le> x" using leibniz(4)[of 0] by (simp add: erf_term_def)
  ultimately show "0 \<le> erf x" "erf x \<le> 2 / sqrt pi * x" unfolding erf_def
    by (intro mult_nonneg_nonneg mult_left_mono; simp)+
qed

lemma erf_odd:
  assumes "0 \<le> x" "x \<le> 1" shows "erf (- x) = - erf x"
proof -
  have s: "summable (\<lambda>n. (- 1) ^ n * erf_term x n)"
    by (rule summable_Leibniz'(1)[OF erf_term_lim[OF assms] erf_term_pos[OF assms(1)] erf_term_step[OF assms]])
  have "(- 1) ^ n * erf_term (- x) n = - ((- 1) ^ n * erf_term x n)" for n by (simp add: erf_term_def)
  then show ?thesis by (simp add: erf_def suminf_minus[OF s])
qed

lemma pi_ge: "2.8224 \<le> pi"
proof -
  have "\<bar>sin (pi / 4)\<bar> \<le> \<bar>pi / 4\<bar>" by (rule abs_sin_x_le_abs_x)
  then have "(sin (pi / 4))\<^sup>2 \<le> (pi / 4)\<^sup>2" by (rule abs_le_square_iff[THEN iffD1])
  moreover have "cos (2 * (pi / 4)) = 1 - 2 * (sin (pi / 4))\<^sup>2" by (rule cos_double_sin)
  ultimately have "8 \<le> pi\<^sup>2" by (simp add: power2_eq_square)
  then show ?thesis by (intro power2_le_imp_le[of "2.8224" pi]) (simp_all add: power2_eq_square)
qed

lemma norm_cdf_near:
  assumes "\<bar>z\<bar> \<le> 1" shows "\<bar>norm_cdf z - 1/2\<bar> \<le> 0.43 * \<bar>z\<bar>"
proof -
  have r: "1.4 \<le> sqrt 2" "1.68 \<le> sqrt pi"
    by (rule real_le_rsqrt, simp add: power2_eq_square)
      (rule real_le_rsqrt, use pi_ge in \<open>simp add: power2_eq_square\<close>)
  let ?y = "\<bar>z\<bar> / sqrt 2"
  have y: "0 \<le> ?y" "?y \<le> 1" using assms r(1) by (simp_all add: divide_le_eq)
  have "erf ?y \<le> 2 / sqrt pi * ?y" by (rule erf_small(2)[OF y])
  also have "\<dots> = (2 * \<bar>z\<bar>) / (sqrt pi * sqrt 2)" by simp
  also have "\<dots> \<le> (2 * \<bar>z\<bar>) / (1.68 * 1.4)" using r by (intro divide_left_mono mult_mono) simp_all
  also have "\<dots> \<le> 0.86 * \<bar>z\<bar>" by simp
  finally have "erf ?y \<le> 0.86 * \<bar>z\<bar>" .
  moreover have "0 \<le> erf ?y" by (rule erf_small(1)[OF y])
  moreover have "erf (z / sqrt 2) = erf ?y \<or> erf (z / sqrt 2) = - erf ?y"
  proof (cases "0 \<le> z")
    case False
    then have "z / sqrt 2 = - ?y" by simp
    then show ?thesis using erf_odd[OF y] by metis
  qed simp
  moreover have "norm_cdf z - 1/2 = erf (z / sqrt 2) / 2" by (simp add: norm_cdf_def add_divide_distrib)
  ultimately show ?thesis by (auto simp only: abs_le_iff)
qed

section \<open>Properties of the Greeks\<close>

text \<open>Calls and puts agree: for a quoted contract the call delta exceeds the put delta by exactly one, gamma, vega and
  time to expiry are the same, and gamma and vega are positive.\<close>

theorem call_put_greeks:
  assumes "0 < s" "0 < k"
  shows "gk_delta (calculate_greeks s k tte vol r CE) - gk_delta (calculate_greeks s k tte vol r PE) = 1
       \<and> gk_gamma (calculate_greeks s k tte vol r CE) = gk_gamma (calculate_greeks s k tte vol r PE)
       \<and> gk_vega (calculate_greeks s k tte vol r CE) = gk_vega (calculate_greeks s k tte vol r PE)
       \<and> gk_tte (calculate_greeks s k tte vol r CE) = gk_tte (calculate_greeks s k tte vol r PE)
       \<and> 0 < gk_gamma (calculate_greeks s k tte vol r CE) \<and> 0 < gk_vega (calculate_greeks s k tte vol r CE)"
proof -
  have "0 < norm_pdf x" for x by (simp add: norm_pdf_def)
  with assms show ?thesis by (simp add: calculate_greeks_def Let_def not_le)
qed

theorem call_put_greeks_witness:
  "gk_delta (calculate_greeks 25000 25000 0.01 0.15 0.07 CE) - gk_delta (calculate_greeks 25000 25000 0.01 0.15 0.07 PE) = 1"
  using call_put_greeks[of 25000 25000] by simp

text \<open>The implied-volatility search always ends with a usable volatility: for any price, spot, strike, expiry and rate
  the result lies between 5 and 150 percent.\<close>

theorem implied_volatility_range:
  "0.05 \<le> solve_iv_newton price s k tte ty r \<and> solve_iv_newton price s k tte ty r \<le> 1.5"
proof -
  have "0.05 \<le> solve_iv n price s k t r tol ty iv \<and> solve_iv n price s k t r tol ty iv \<le> 1.5" for n t tol iv
    by (induction n arbitrary: iv) (auto simp: Let_def clamp_def)
  then show ?thesis by (simp add: solve_iv_newton_def)
qed

text \<open>What the cache holds.\<close>

definition cache_ok :: "greeks_cache \<Rightarrow> bool" where
  "cache_ok c \<longleftrightarrow> (\<forall>k g stored spot. c k = Some (g, stored, spot) \<longrightarrow>
     (\<exists>a. cache_key a = k \<and> g = greeks_at a \<and> spot = ga_spot a))"

interpretation cache: invariant_system "\<lambda>c (now, a). snd (calculate_cached now a c)" cache_ok "\<lambda>_. True"
  by unfold_locales (auto simp: cache_ok_def calculate_cached_def split: option.splits if_splits)

definition run_cache :: "(instant \<times> greek_args) list \<Rightarrow> greeks_cache" where
  "run_cache reqs = foldl (\<lambda>c (now, a). snd (calculate_cached now a c)) clear_cache reqs"

text \<open>A cached answer is the exact answer to a request with the same rounded arguments. After any requests the cache
  returns Greeks computed for arguments that agree with the asked ones in every rounded position: their spots differ by at
  most a tenth of a point - so the advertised one percent invalidation never comes into play for a spot above ten.\<close>

theorem cached_greeks_exact:
  "\<exists>b. cache_key b = cache_key a \<and> fst (calculate_cached now a (run_cache reqs)) = greeks_at b
     \<and> \<bar>ga_spot b - ga_spot a\<bar> \<le> 1/10"
proof -
  have "cache_ok clear_cache" by (simp add: cache_ok_def clear_cache_def)
  from cache.inv_run[OF this, of reqs] have ok: "cache_ok (run_cache reqs)" by (simp add: run_cache_def list_all_iff)
  have close: "\<bar>ga_spot b - ga_spot a\<bar> \<le> 1/10" if "cache_key b = cache_key a" for b
  proof -
    have "py_round 1 (ga_spot b) = py_round 1 (ga_spot a)" using that by (simp add: cache_key_def)
    moreover have "\<bar>py_round 1 x - x\<bar> \<le> 1/20" for x using py_round_error[of 1 x] by simp
    from this[of "ga_spot a"] this[of "ga_spot b"] calculation show ?thesis by (simp only: abs_le_iff) linarith
  qed
  have "\<exists>b. cache_key b = cache_key a \<and> fst (calculate_cached now a (run_cache reqs)) = greeks_at b"
    using ok unfolding cache_ok_def calculate_cached_def by (fastforce split: option.splits prod.splits)
  with close show ?thesis by blast
qed

end
