(* ===== verification/Smart_Scalp.thy ===== *)
theory Smart_Scalp
  imports Pullback Greeks Trading_State
begin

text \<open>
  The live strategy (\<open>strategies/smart_scalp_v3.py\<close>): its filters and state, \<open>generate_signal\<close> with the record of where
  each direction failed, and the entry parameters.  The open interest of the latest tick and the monotonic clock are
  inputs; messages are constructors.
\<close>

record scalp_config =
  sc_no_trade_before :: int
  sc_premium_min :: real
  sc_premium_max :: real
  sc_delta_enabled :: bool
  sc_delta_min :: real
  sc_delta_max :: real
  sc_oi_window_sec :: real
  sc_indicators :: indicator_config
  sc_quality :: quality_config
  sc_pullback :: pullback_config
  sc_weights :: score_weights
  sc_min_weighted_pct :: int
  sc_min_confidence :: int
  sc_grade_adjustment :: "quality_grade \<Rightarrow> int"
  sc_exhaustion_enabled :: bool
  sc_ce_exhaustion_rsi :: real
  sc_pe_exhaustion_rsi :: real
  sc_sl_points :: real
  sc_tp_points :: real
  sc_tp_multiplier :: real
  sc_atr_high :: real
  sc_atr_low :: real
  sc_atr_high_sl :: real
  sc_atr_high_tp :: real
  sc_atr_low_sl :: real
  sc_atr_low_tp :: real
  sc_atr_sl_min :: real
  sc_atr_tp_min :: real

definition default_adjustment :: "quality_grade \<Rightarrow> int" where
  "default_adjustment g =
     (case g of QualityA_plus \<Rightarrow> - 3 | QualityA \<Rightarrow> - 3 | QualityB \<Rightarrow> - 1 | QualityC \<Rightarrow> 4 | QualityReject \<Rightarrow> 8)"

text \<open>The constants with the values of \<open>config/strategy.json\<close>.\<close>

definition default_scalp_config :: scalp_config where
  "default_scalp_config =
     \<lparr>sc_no_trade_before = 585, sc_premium_min = 70, sc_premium_max = 350, sc_delta_enabled = True,
      sc_delta_min = 0.35, sc_delta_max = 0.65, sc_oi_window_sec = 0, sc_indicators = default_indicator_config,
      sc_quality = default_quality_config, sc_pullback = default_pullback, sc_weights = default_weights,
      sc_min_weighted_pct = 42, sc_min_confidence = 72, sc_grade_adjustment = default_adjustment,
      sc_exhaustion_enabled = True, sc_ce_exhaustion_rsi = 70, sc_pe_exhaustion_rsi = 30, sc_sl_points = 7,
      sc_tp_points = 14, sc_tp_multiplier = 2, sc_atr_high = 8, sc_atr_low = 4, sc_atr_high_sl = 1, sc_atr_high_tp = 2,
      sc_atr_low_sl = 1, sc_atr_low_tp = 2, sc_atr_sl_min = 4, sc_atr_tp_min = 10\<rparr>"

record scalp_state =
  ss_last_delta :: "real option"
  ss_last_oi :: "int option"
  ss_prev_oi :: "int option"
  ss_last_price :: "real option"
  ss_oi_change_pct :: real
  ss_oi_history :: "(instant \<times> int \<times> real) list"
  ss_premiums :: "real list"

definition new_scalp :: scalp_state where
  "new_scalp = \<lparr>ss_last_delta = None, ss_last_oi = None, ss_prev_oi = None, ss_last_price = None,
     ss_oi_change_pct = 0, ss_oi_history = [], ss_premiums = []\<rparr>"

section \<open>The filters\<close>

text \<open>\<open>get_option_delta\<close>: the delta of an at-the-money contract six hours from expiry at 20 percent volatility. The
  source reads the type with \<open>tick.get('option_type', 'CE')\<close>; no feed puts that key on a tick (the broker, the simulator and
  the recorder do not), and the research harness sets it to \<open>'CE'\<close>, so the type is CE. Outside the model: a caller of its own
  that passes a tick with another \<open>option_type\<close>.\<close>

definition delta_spot :: "tick \<Rightarrow> real" where
  "delta_spot t = (if spot_price t < 10000 then 23500 else spot_price t)"

definition delta_strike :: "real \<Rightarrow> real" where
  "delta_strike spot = of_int (round_half_even (spot / 50) * 50)"

definition option_delta :: "tick \<Rightarrow> real" where
  "option_delta t =
     \<bar>gk_delta (calculate_greeks (delta_spot t) (delta_strike (delta_spot t)) (6 / (365 * 24)) 0.20 0.07 CE)\<bar>"

datatype delta_verdict = DeltaOk | DeltaTooLow | DeltaTooHigh

definition check_delta :: "scalp_config \<Rightarrow> tick \<Rightarrow> scalp_state \<Rightarrow> delta_verdict \<times> scalp_state" where
  "check_delta cfg t s =
     (if \<not> sc_delta_enabled cfg then (DeltaOk, s)
      else let d = option_delta t
           in (if d < sc_delta_min cfg then DeltaTooLow else if sc_delta_max cfg < d then DeltaTooHigh else DeltaOk,
               s\<lparr>ss_last_delta := Some d\<rparr>))"

definition oi_base :: "scalp_config \<Rightarrow> instant \<Rightarrow> scalp_state \<Rightarrow> int \<Rightarrow> real \<Rightarrow> (int \<times> real) \<times> (instant \<times> int \<times> real) list" where
  "oi_base cfg mt s oi price =
     (let base = (the (ss_last_oi s), get_or price (ss_last_price s))
      in if sc_oi_window_sec cfg \<le> 0 then (base, ss_oi_history s)
         else let hist = last_n 4000 (ss_oi_history s @ [(mt, oi, price)]);
                  older = filter (\<lambda>h. total_seconds (fst h) \<le> total_seconds mt - sc_oi_window_sec cfg) hist
              in (snd (if older \<noteq> [] then last older else hd hist), hist))"

definition update_oi_data ::
    "scalp_config \<Rightarrow> instant \<Rightarrow> int \<Rightarrow> real \<Rightarrow> scalp_state \<Rightarrow> (real \<times> oi_flow) \<times> scalp_state" where
  "update_oi_data cfg mt oi price s =
     (if oi \<le> 0 then ((0, Neutral_Flow), s)
      else case ss_last_oi s of
             None \<Rightarrow> ((0, Neutral_Flow), s\<lparr>ss_last_oi := Some oi, ss_prev_oi := Some oi, ss_last_price := Some price\<rparr>)
           | Some seen \<Rightarrow>
               let ((base, prev_price), hist) = oi_base cfg mt s oi price;
                   pct = (if 0 < base then of_int (oi - base) / of_int base * 100 else 0);
                   up = prev_price < price;
                   flow = (if 1 < pct then if up then Long_Buildup else Short_Buildup
                           else if pct < - 1 then if up then Short_Covering else Long_Unwinding else Neutral_Flow)
               in ((pct, flow), s\<lparr>ss_oi_change_pct := pct, ss_oi_history := hist, ss_prev_oi := Some seen,
                                  ss_last_oi := Some oi, ss_last_price := Some price\<rparr>))"

definition median_of :: "real list \<Rightarrow> real" where
  "median_of xs =
     (let ys = sort xs; n = length ys
      in if odd n then ys ! (n div 2) else (ys ! (n div 2 - 1) + ys ! (n div 2)) / 2)"

datatype premium_verdict = PremiumOk | InvalidQuote | NonPositivePremium | PremiumAnomaly | PremiumTooLow | PremiumTooHigh

definition effective_premium :: "tick \<Rightarrow> real" where
  "effective_premium t =
     (if ltp t \<le> 0 \<and> 0 < bid t \<and> 0 < ask t then py_round 2 ((bid t + ask t) / 2) else ltp t)"

definition check_premium :: "scalp_config \<Rightarrow> tick \<Rightarrow> scalp_state \<Rightarrow> premium_verdict \<times> scalp_state" where
  "check_premium cfg t s =
     (if bid t \<noteq> 0 \<and> ask t \<noteq> 0 \<and> ask t < bid t then (InvalidQuote, s)
      else let p = effective_premium t
           in if p \<le> 0 then (NonPositivePremium, s)
              else let s1 = (if sc_premium_min cfg \<le> p then s\<lparr>ss_premiums := last_n 30 (ss_premiums s @ [p])\<rparr> else s)
                   in (if 10 \<le> length (ss_premiums s1) \<and> sc_premium_min cfg \<le> median_of (ss_premiums s1)
                          \<and> p < 0.35 * median_of (ss_premiums s1) then PremiumAnomaly
                       else if p < sc_premium_min cfg then PremiumTooLow
                       else if sc_premium_max cfg < p then PremiumTooHigh else PremiumOk, s1))"

definition required_confidence :: "scalp_config \<Rightarrow> quality_grade \<Rightarrow> int" where
  "required_confidence cfg g = max 0 (min 100 (sc_min_confidence cfg + sc_grade_adjustment cfg g))"

section \<open>The signal\<close>

datatype stage = AtTrigger | AtWeightedScore | AtExhaustion | AtConfidence

datatype signal_reason = TimeFilter | WarmingUp | PremiumRejected premium_verdict | DeltaRejected delta_verdict
  | NoIndicators | QualityRejected quality_reject | ChopFilter "chop_reason list" | SignalBlocked | LowConfidence int int
  | NoPullback int int | PullbackSignal int int

record signal_details =
  sd_indicators :: indicators
  sd_regime :: market_regime
  sd_quality :: quality_result
  sd_flow :: oi_flow
  sd_pullback :: pullback_result
  sd_weighted :: "int option"

text \<open>\<open>so_failed_at\<close> is empty for a direction that passed and for one that was not judged.\<close>

record signal_outcome =
  so_direction :: "option_type option"
  so_confidence :: int
  so_reason :: signal_reason
  so_details :: "signal_details option"
  so_failed_at :: "option_type \<Rightarrow> stage option"

definition no_signal :: "signal_reason \<Rightarrow> signal_outcome" where
  "no_signal r = \<lparr>so_direction = None, so_confidence = 0, so_reason = r, so_details = None,
     so_failed_at = (\<lambda>_. None)\<rparr>"

definition exhausted :: "scalp_config \<Rightarrow> indicators \<Rightarrow> option_type \<Rightarrow> bool \<Rightarrow> bool" where
  "exhausted cfg i d blocked \<longleftrightarrow>
     blocked
   \<or> (case d of
        CE \<Rightarrow> sc_exhaustion_enabled cfg \<and> sc_ce_exhaustion_rsi cfg < in_rsi i \<and> in_macd_hist i < in_macd_hist_prev i
      | PE \<Rightarrow> sc_exhaustion_enabled cfg \<and> in_rsi i < sc_pe_exhaustion_rsi cfg \<and> in_macd_hist_prev i < in_macd_hist i)"

text \<open>What becomes of one direction: its weighted score, and the stage it fails at.\<close>

record side_verdict =
  sv_weighted :: int
  sv_live :: bool
  sv_exhausted :: bool
  sv_confidence :: int

definition judge_side ::
    "scalp_config \<Rightarrow> instant \<Rightarrow> tick \<Rightarrow> indicators \<Rightarrow> oi_flow \<Rightarrow> market_regime \<Rightarrow> bool \<Rightarrow> pullback_side \<Rightarrow> option_type
      \<Rightarrow> side_verdict" where
  "judge_side cfg now t i flow regime blocked side d =
     (let w = (if pb_signal side then weighted_score (sc_weights cfg) i t d flow regime else 0);
          live = (pb_signal side \<and> sc_min_weighted_pct cfg \<le> w)
      in \<lparr>sv_weighted = w, sv_live = live, sv_exhausted = (live \<and> exhausted cfg i d blocked),
          sv_confidence = adaptive_confidence now i t w d flow regime\<rparr>)"

text \<open>The attribution of a direction the function did not return on.\<close>

definition backfill :: "pullback_side \<Rightarrow> stage" where
  "backfill side = (if \<not> pb_signal side then AtTrigger else AtWeightedScore)"

definition decided ::
    "scalp_config \<Rightarrow> signal_details \<Rightarrow> quality_grade \<Rightarrow> option_type \<Rightarrow> side_verdict \<Rightarrow> signal_outcome" where
  "decided cfg det grade d v =
     (let other = (case d of CE \<Rightarrow> PE | PE \<Rightarrow> CE);
          attributed = (\<lambda>own x. if x = d then own else Some (backfill (side_of (sd_pullback det) other)));
          det' = det\<lparr>sd_weighted := Some (sv_weighted v)\<rparr>
      in if sv_exhausted v
         then \<lparr>so_direction = None, so_confidence = 0, so_reason = SignalBlocked, so_details = Some det,
               so_failed_at = attributed (Some AtExhaustion)\<rparr>
         else if sv_confidence v < required_confidence cfg grade
         then \<lparr>so_direction = None, so_confidence = sv_confidence v,
               so_reason = LowConfidence (sv_confidence v) (required_confidence cfg grade), so_details = Some det',
               so_failed_at = attributed (Some AtConfidence)\<rparr>
         else \<lparr>so_direction = Some d, so_confidence = sv_confidence v,
               so_reason = PullbackSignal (sv_weighted v) (sv_confidence v), so_details = Some det',
               so_failed_at = attributed None\<rparr>)"

text \<open>\<open>ce_blocked\<close> and \<open>pe_blocked\<close> are asked one after the other, whatever the scores.\<close>

definition ask_blocks :: "instant \<Rightarrow> trading_state \<Rightarrow> (option_type \<Rightarrow> bool) \<times> trading_state" where
  "ask_blocks now ts =
     (let (ce, ts1) = is_direction_blocked now CE ts; (pe, ts2) = is_direction_blocked now PE ts1
      in (case_option_type ce pe, ts2))"

definition conclude ::
    "scalp_config \<Rightarrow> instant \<Rightarrow> tick \<Rightarrow> (option_type \<Rightarrow> bool) \<Rightarrow> signal_details \<Rightarrow> signal_outcome" where
  "conclude cfg now t blocked det =
     (let p = sd_pullback det; grade = qr_grade (sd_quality det);
          judge = (\<lambda>d. judge_side cfg now t (sd_indicators det) (sd_flow det) (sd_regime det) (blocked d) (side_of p d) d)
      in if sv_live (judge CE) then decided cfg det grade CE (judge CE)
         else if sv_live (judge PE) then decided cfg det grade PE (judge PE)
         else \<lparr>so_direction = None, so_confidence = 0, so_reason = NoPullback (pb_score (pr_ce p)) (pb_score (pr_pe p)),
               so_details = Some det, so_failed_at = (\<lambda>d. Some (backfill (side_of p d)))\<rparr>)"

record signal_inputs =
  sx_ticks :: "tick list"
  sx_oi :: int
  sx_mono :: instant
  sx_candles :: "candle list"

definition generate_signal ::
    "scalp_config \<Rightarrow> instant \<Rightarrow> signal_inputs \<Rightarrow> trading_state \<Rightarrow> scalp_state
      \<Rightarrow> (py_error + signal_outcome) \<times> trading_state \<times> scalp_state" where
  "generate_signal cfg now x ts s =
     (let ticks = sx_ticks x; t = last ticks; clock = (if ticks = [] then now else resolve_tick_time t)
      in if minute_of_day clock < sc_no_trade_before cfg then (Inr (no_signal TimeFilter), ts, s)
         else if length ticks < 5 then (Inr (no_signal WarmingUp), ts, s)
         else case check_premium cfg t s of (pv, s1) \<Rightarrow>
           if pv \<noteq> PremiumOk then (Inr (no_signal (PremiumRejected pv)), ts, s1)
           else case check_delta cfg t s1 of (dv, s2) \<Rightarrow>
             if dv \<noteq> DeltaOk then (Inr (no_signal (DeltaRejected dv)), ts, s2)
             else case update_oi_data cfg (sx_mono x) (sx_oi x) (ltp t) s2 of ((pct, flow), s3) \<Rightarrow>
               (case compute_indicators (sc_indicators cfg) (sx_candles x) ticks of
                  Inl e \<Rightarrow> (Inl e, ts, s3)
                | Inr None \<Rightarrow> (Inr (no_signal NoIndicators), ts, s3)
                | Inr (Some i) \<Rightarrow>
                    let q = evaluate_quality (sc_quality cfg) now t i
                              \<lparr>qg_delta = ss_last_delta s3, qg_gamma = None, qg_theta = None\<rparr> (strategy_status t) True;
                        det = \<lparr>sd_indicators = i, sd_regime = get_market_regime i, sd_quality = q, sd_flow = flow,
                               sd_pullback = evaluate_pullback (sc_pullback cfg) i flow, sd_weighted = None\<rparr>
                    in if \<not> qr_passed q
                       then (Inr ((no_signal (QualityRejected (the (qr_reason q))))\<lparr>so_details := Some det\<rparr>), ts, s3)
                       else if fst (evaluate_chop i)
                       then (Inr ((no_signal (ChopFilter (snd (evaluate_chop i))))\<lparr>so_details := Some det\<rparr>), ts, s3)
                       else case ask_blocks now ts of (blocked, ts1) \<Rightarrow>
                              (Inr (conclude cfg now t blocked det), ts1, s3)))"

section \<open>Entry parameters\<close>

definition adjusted_points :: "scalp_config \<Rightarrow> real \<Rightarrow> real \<times> real" where
  "adjusted_points cfg atr =
     (if atr = 0 then (sc_sl_points cfg, sc_tp_points cfg)
      else if sc_atr_high cfg < atr then (sc_sl_points cfg + sc_atr_high_sl cfg, sc_tp_points cfg + sc_atr_high_tp cfg)
      else if atr < sc_atr_low cfg
        then (max (sc_atr_sl_min cfg) (sc_sl_points cfg - sc_atr_low_sl cfg),
              max (sc_atr_tp_min cfg) (sc_tp_points cfg - sc_atr_low_tp cfg))
      else (sc_sl_points cfg, sc_tp_points cfg))"

definition entry_points :: "scalp_config \<Rightarrow> indicators \<Rightarrow> real \<times> real" where
  "entry_points cfg i =
     (let (sl, tp) = adjusted_points cfg (in_atr i);
          tp1 = (if sc_tp_multiplier cfg \<noteq> 0 \<and> 0 < sl then max tp (of_int (round_half_even (sl * sc_tp_multiplier cfg))) else tp);
          tp2 = (if get_market_regime i = RegimeSideways then max tp1 (of_int (round_half_even (sl * 1.8))) else tp1)
      in (sl, tp2))"

record scalp_params =
  sp_direction :: option_type
  sp_score :: "int option"
  sp_confidence :: int
  sp_sl_points :: real
  sp_tp_points :: real
  sp_regime :: market_regime
  sp_details :: signal_details

text \<open>\<open>smart_scalp_signal\<close>: the parameters of a signal.\<close>

definition smart_scalp_signal :: "scalp_config \<Rightarrow> signal_outcome \<Rightarrow> scalp_params option" where
  "smart_scalp_signal cfg o1 =
     (case (so_direction o1, so_details o1) of
        (Some d, Some det) \<Rightarrow>
          (case entry_points cfg (sd_indicators det) of (sl, tp) \<Rightarrow>
             Some \<lparr>sp_direction = d, sp_score = sd_weighted det, sp_confidence = so_confidence o1, sp_sl_points = sl,
                   sp_tp_points = tp, sp_regime = get_market_regime (sd_indicators det), sp_details = det\<rparr>)
      | _ \<Rightarrow> None)"

section \<open>What a signal guarantees\<close>

lemma decided_signal:
  "so_direction (decided cfg det grade d v) = Some d' \<Longrightarrow>
     d' = d \<and> \<not> sv_exhausted v \<and> required_confidence cfg grade \<le> sv_confidence v \<and> so_confidence (decided cfg det grade d v) = sv_confidence v"
  by (auto simp: decided_def Let_def split: if_splits)

lemma conclude_signal:
  assumes "so_direction (conclude cfg now t blocked det) = Some d"
  defines "v \<equiv> judge_side cfg now t (sd_indicators det) (sd_flow det) (sd_regime det) (blocked d) (side_of (sd_pullback det) d) d"
  shows "sv_live v" "\<not> sv_exhausted v" "required_confidence cfg (qr_grade (sd_quality det)) \<le> so_confidence (conclude cfg now t blocked det)"
    "so_confidence (conclude cfg now t blocked det) = sv_confidence v"
  using assms decided_signal by (fastforce simp: conclude_def Let_def split: if_splits)+

lemma conclude_details:
  "so_direction (conclude cfg now t blocked det) = Some d \<Longrightarrow>
     \<exists>w. so_details (conclude cfg now t blocked det) = Some (det\<lparr>sd_weighted := w\<rparr>)"
  by (auto simp: conclude_def decided_def Let_def split: if_splits)

lemma live_side:
  "sv_live (judge_side cfg now t i flow regime b side d) \<Longrightarrow>
     pb_signal side \<and> sc_min_weighted_pct cfg \<le> weighted_score (sc_weights cfg) i t d flow regime"
  by (auto simp: judge_side_def Let_def)

lemma judged_confidence:
  assumes "sv_live (judge_side cfg now t i flow regime b side d)" "\<not> sv_exhausted (judge_side cfg now t i flow regime b side d)"
  shows "\<not> b"
    "sc_exhaustion_enabled cfg \<longrightarrow>
       (case d of CE \<Rightarrow> in_rsi i \<le> sc_ce_exhaustion_rsi cfg \<or> in_macd_hist_prev i \<le> in_macd_hist i
                | PE \<Rightarrow> sc_pe_exhaustion_rsi cfg \<le> in_rsi i \<or> in_macd_hist i \<le> in_macd_hist_prev i)"
    "sv_confidence (judge_side cfg now t i flow regime b side d)
       = adaptive_confidence now i t (weighted_score (sc_weights cfg) i t d flow regime) d flow regime"
  using assms by (auto simp: judge_side_def exhausted_def Let_def not_less split: option_type.splits)

lemma check_premium_ok:
  "fst (check_premium cfg t s) = PremiumOk \<Longrightarrow>
     (let p = effective_premium t; seen = last_n 30 (ss_premiums s @ [p]) in
        \<not> (bid t \<noteq> 0 \<and> ask t \<noteq> 0 \<and> ask t < bid t)
      \<and> 0 < p \<and> sc_premium_min cfg \<le> p \<and> p \<le> sc_premium_max cfg
      \<and> \<not> (10 \<le> length seen \<and> sc_premium_min cfg \<le> median_of seen \<and> p < 0.35 * median_of seen))"
  by (auto simp: check_premium_def Let_def split: if_splits)

text \<open>What a signal has passed, in the order of the code. The flow is the one \<open>update_oi_data\<close> answers on the state the
  call starts from, and the quality is that of \<open>evaluate_quality\<close> on the tick, the indicators and the delta of the call.\<close>

definition signal_flow :: "scalp_config \<Rightarrow> signal_inputs \<Rightarrow> scalp_state \<Rightarrow> oi_flow" where
  "signal_flow cfg x s = snd (fst (update_oi_data cfg (sx_mono x) (sx_oi x) (ltp (last (sx_ticks x))) s))"

definition signal_quality :: "scalp_config \<Rightarrow> instant \<Rightarrow> tick \<Rightarrow> scalp_state \<Rightarrow> indicators \<Rightarrow> quality_result" where
  "signal_quality cfg now t s i =
     evaluate_quality (sc_quality cfg) now t i
       \<lparr>qg_delta = (if sc_delta_enabled cfg then Some (option_delta t) else ss_last_delta s), qg_gamma = None, qg_theta = None\<rparr>
       (strategy_status t) True"

definition tick_gates :: "scalp_config \<Rightarrow> signal_inputs \<Rightarrow> scalp_state \<Rightarrow> bool" where
  "tick_gates cfg x s \<longleftrightarrow>
     (let t = last (sx_ticks x); p = effective_premium t; seen = last_n 30 (ss_premiums s @ [p]) in
        5 \<le> length (sx_ticks x) \<and> sc_no_trade_before cfg \<le> minute_of_day (resolve_tick_time t)
      \<and> \<not> (bid t \<noteq> 0 \<and> ask t \<noteq> 0 \<and> ask t < bid t)
      \<and> 0 < p \<and> sc_premium_min cfg \<le> p \<and> p \<le> sc_premium_max cfg
      \<and> \<not> (10 \<le> length seen \<and> sc_premium_min cfg \<le> median_of seen \<and> p < 0.35 * median_of seen)
      \<and> (sc_delta_enabled cfg \<longrightarrow> sc_delta_min cfg \<le> option_delta t \<and> option_delta t \<le> sc_delta_max cfg))"

definition signal_gates ::
    "scalp_config \<Rightarrow> instant \<Rightarrow> signal_inputs \<Rightarrow> trading_state \<Rightarrow> scalp_state \<Rightarrow> option_type \<Rightarrow> int \<Rightarrow> indicators \<Rightarrow> bool" where
  "signal_gates cfg now x ts s d conf i \<longleftrightarrow>
     (let t = last (sx_ticks x); flow = signal_flow cfg x s; q = signal_quality cfg now t s i; regime = get_market_regime i;
          w = weighted_score (sc_weights cfg) i t d flow regime in
        tick_gates cfg x s
      \<and> compute_indicators (sc_indicators cfg) (sx_candles x) (sx_ticks x) = Inr (Some i)
      \<and> qr_passed q \<and> \<not> fst (evaluate_chop i)
      \<and> pb_signal (side_of (evaluate_pullback (sc_pullback cfg) i flow) d) \<and> sc_min_weighted_pct cfg \<le> w
      \<and> \<not> fst (ask_blocks now ts) d
      \<and> (sc_exhaustion_enabled cfg \<longrightarrow>
           (case d of CE \<Rightarrow> in_rsi i \<le> sc_ce_exhaustion_rsi cfg \<or> in_macd_hist_prev i \<le> in_macd_hist i
                    | PE \<Rightarrow> sc_pe_exhaustion_rsi cfg \<le> in_rsi i \<or> in_macd_hist i \<le> in_macd_hist_prev i))
      \<and> conf = adaptive_confidence now i t w d flow regime \<and> required_confidence cfg (qr_grade q) \<le> conf)"

lemma oi_reads_its_own:
  "fst (update_oi_data cfg mt oi price (s\<lparr>ss_premiums := ps\<rparr>)) = fst (update_oi_data cfg mt oi price s)"
  "fst (update_oi_data cfg mt oi price (s\<lparr>ss_last_delta := dl\<rparr>)) = fst (update_oi_data cfg mt oi price s)"
  by (simp_all add: update_oi_data_def oi_base_def case_prod_beta Let_def split: option.split)

lemma oi_keeps_delta: "ss_last_delta (snd (update_oi_data cfg mt oi price s)) = ss_last_delta s"
  by (simp add: update_oi_data_def case_prod_beta Let_def split: option.split)

lemma check_premium_frame:
  "fst (update_oi_data cfg mt oi price (snd (check_premium cfg t s))) = fst (update_oi_data cfg mt oi price s)"
  "ss_last_delta (snd (check_premium cfg t s)) = ss_last_delta s"
  by (simp_all add: check_premium_def Let_def oi_reads_its_own)

lemma check_delta_frame:
  "fst (update_oi_data cfg mt oi price (snd (check_delta cfg t s))) = fst (update_oi_data cfg mt oi price s)"
  "ss_last_delta (snd (check_delta cfg t s)) = (if sc_delta_enabled cfg then Some (option_delta t) else ss_last_delta s)"
  by (simp_all add: check_delta_def Let_def oi_reads_its_own)

lemma check_delta_ok:
  "fst (check_delta cfg t s) = DeltaOk \<Longrightarrow> sc_delta_enabled cfg \<Longrightarrow>
     sc_delta_min cfg \<le> option_delta t \<and> option_delta t \<le> sc_delta_max cfg"
  by (auto simp: check_delta_def Let_def split: if_splits)

lemma generate_signal_gates:
  assumes "fst (generate_signal cfg now x ts s) = Inr r" "so_direction r = Some d"
  shows "\<exists>det. so_details r = Some det \<and> signal_gates cfg now x ts s d (so_confidence r) (sd_indicators det)"
proof -
  let ?t = "last (sx_ticks x)"
  obtain pv s1 where p: "check_premium cfg ?t s = (pv, s1)" by fastforce
  obtain dv s2 where dl: "check_delta cfg ?t s1 = (dv, s2)" by fastforce
  obtain pct flow s3 where oi: "update_oi_data cfg (sx_mono x) (sx_oi x) (ltp ?t) s2 = ((pct, flow), s3)"
    by (metis prod.exhaust)
  have none: "so_direction (no_signal y) = None" "so_direction ((no_signal y)\<lparr>so_details := z\<rparr>) = None" for y z
    by (simp_all add: no_signal_def)
  have clock: "5 \<le> length (sx_ticks x)" "sc_no_trade_before cfg \<le> minute_of_day (resolve_tick_time ?t)" "pv = PremiumOk"
    using assms none by (auto simp: generate_signal_def Let_def p split: if_splits)
  have delta: "dv = DeltaOk" using assms none clock by (auto simp: generate_signal_def Let_def p dl split: if_splits)
  obtain i where i: "compute_indicators (sc_indicators cfg) (sx_candles x) (sx_ticks x) = Inr (Some i)"
    using assms none clock
    by (auto simp: generate_signal_def Let_def p dl oi split: if_splits sum.splits option.splits)
  define q where "q = evaluate_quality (sc_quality cfg) now ?t i
    \<lparr>qg_delta = ss_last_delta s3, qg_gamma = None, qg_theta = None\<rparr> (strategy_status ?t) True"
  define det where "det = \<lparr>sd_indicators = i, sd_regime = get_market_regime i, sd_quality = q, sd_flow = flow,
    sd_pullback = evaluate_pullback (sc_pullback cfg) i flow, sd_weighted = None\<rparr>"
  have flow: "flow = signal_flow cfg x s"
    using check_delta_frame(1)[of cfg "sx_mono x" "sx_oi x" "ltp ?t" ?t s1]
      check_premium_frame(1)[of cfg "sx_mono x" "sx_oi x" "ltp ?t" ?t s]
    by (simp add: signal_flow_def p dl oi flip: fst_conv) (metis fst_conv snd_conv)
  have "ss_last_delta s3 = (if sc_delta_enabled cfg then Some (option_delta ?t) else ss_last_delta s)"
    using oi_keeps_delta[of cfg "sx_mono x" "sx_oi x" "ltp ?t" s2] check_delta_frame(2)[of cfg ?t s1]
      check_premium_frame(2)[of cfg ?t s] by (simp add: p dl oi)
  then have q: "q = signal_quality cfg now ?t s i" by (simp add: q_def signal_quality_def)
  obtain blocked ts1 where b: "ask_blocks now ts = (blocked, ts1)" by fastforce
  have r: "r = conclude cfg now ?t blocked det" "qr_passed q" "\<not> fst (evaluate_chop i)"
    using assms none clock
    by (auto simp: generate_signal_def Let_def p dl oi i b q_def det_def split: if_splits)
  note c = conclude_signal[OF assms(2)[unfolded r(1)]]
  have gates: "tick_gates cfg x s"
    using clock p dl check_premium_ok[of cfg ?t s] check_delta_ok[of cfg ?t s1] delta by (simp add: tick_gates_def Let_def)
  have details: "\<exists>w. so_details r = Some (det\<lparr>sd_weighted := w\<rparr>)"
    using conclude_details[OF assms(2)[unfolded r(1)]] r(1) by simp
  have di: "sd_indicators det = i" by (simp add: det_def)
  have "signal_gates cfg now x ts s d (so_confidence r) i"
    using gates live_side[OF c(1)] judged_confidence[OF c(1,2), unfolded di] c(3,4) i r(2,3) b
    by (simp add: signal_gates_def Let_def r(1) det_def flow q)
  with details show ?thesis by (auto simp: det_def)
qed

text \<open>A signal has passed every gate. When \<open>generate_signal\<close> returns a direction, the session time, the history, the
  quote, the premium band, the course of the premium, the delta band, the market quality and the chop test were in order,
  the direction's own pullback side signalled, its weighted score and its confidence reached their thresholds, and the
  direction was neither blocked by its losses nor exhausted.\<close>

theorem signal_passed_every_gate:
  assumes "fst (generate_signal cfg now x ts s) = Inr r" "so_direction r = Some d"
  shows "\<exists>det. so_details r = Some det \<and> signal_gates cfg now x ts s d (so_confidence r) (sd_indicators det)"
  by (rule generate_signal_gates[OF assms])

text \<open>A market of fifteen rising candles and a configuration with short averages and no thresholds, on which a call signal is
  given.\<close>

definition rising_candle :: "nat \<Rightarrow> candle" where
  "rising_candle n = flat_candle\<lparr>cd_high := 110 + of_nat n, cd_close := 105 + of_nat n\<rparr>"

definition lenient_config :: scalp_config where
  "lenient_config = default_scalp_config\<lparr>sc_delta_enabled := False, sc_exhaustion_enabled := False, sc_min_weighted_pct := 0,
     sc_min_confidence := 0, sc_grade_adjustment := (\<lambda>_. 0), sc_quality := default_quality_config\<lparr>qc_minimum_pct := 0\<rparr>,
     sc_indicators := default_indicator_config\<lparr>ic_ema_signal := 1, ic_ema_medium := 2\<rparr>\<rparr>"

definition rising_inputs :: signal_inputs where
  "rising_inputs = \<lparr>sx_ticks = replicate 10 liquid_tick, sx_oi = 0, sx_mono = 0,
     sx_candles = map rising_candle [0..<15]\<rparr>"

definition rising_indicators :: indicators where
  "rising_indicators = indicators_of (sc_indicators lenient_config) (candle_series (map rising_candle [0..<15]))"

lemma rising_closes: "se_prices (candle_series (map rising_candle [0..<15])) = map real [105..<120]"
  by (simp add: candle_series_def rising_candle_def flat_candle_def upt_rec)

lemma rising_fields:
  "in_ema9 rising_indicators = 119" "in_ema21 rising_indicators < 119" "in_close rising_indicators = 119"
  "in_prev_close rising_indicators = 118" "in_low rising_indicators = 119" "3 \<le> in_atr rising_indicators"
  by (simp_all add: rising_indicators_def indicators_of_def rising_closes lenient_config_def default_scalp_config_def
      default_indicator_config_def ema_of_def ema_step_def ema_factor_of_def upt_rec Let_def last_n_def candle_series_def atr_of_def true_range_def rising_candle_def flat_candle_def
      macd_block_def split: prod.split)

lemma rising_side: "pb_signal (pullback_ce default_pullback rising_indicators flow)"
proof -
  have p: "0 \<le> points b" for b by (simp add: points_def)
  show ?thesis
    using rising_fields p by (simp add: pullback_ce_def scored_side_def default_pullback_def points_def Let_def)
qed

lemma rising_quality:
  "qr_passed (evaluate_quality (sc_quality lenient_config) now liquid_tick i g (strategy_status liquid_tick) True)"
proof -
  have "first_stamp liquid_tick = Some 1700000000000" by (simp add: first_stamp_def liquid_tick_def plain_tick_def)
  note age = strategy_age[OF this, of now]
  have st: "bs_evaluation_time (strategy_status liquid_tick) = Some (resolve_tick_time liquid_tick)"
    "bs_max_stale_ms (strategy_status liquid_tick) = None" by (simp_all add: strategy_status_def healthy_status_def)
  have "0 \<le> sum_list (map (component_points cfg now liquid_tick i g (strategy_status liquid_tick)) components)" for cfg
    using component_points_range by (intro sum_list_nonneg) auto
  moreover have "hard_reject (sc_quality lenient_config) liquid_tick (strategy_status liquid_tick) True = None"
    by (simp add: hard_reject_def lenient_config_def default_quality_config_def strategy_status_def healthy_status_def
        quality_spread_pct_def liquid_tick_def plain_tick_def Let_def)
  moreover have "qc_minimum_pct (sc_quality lenient_config) = 0" "qc_max_stale_ms (sc_quality lenient_config) = 500"
    by (simp_all add: lenient_config_def default_quality_config_def)
  ultimately show ?thesis by (simp add: evaluate_quality_def age st freshness_state_def Let_def)
qed

lemma rising_signal:
  "\<exists>r sc. generate_signal lenient_config 0 rising_inputs initial_trading_state new_scalp = (Inr r, initial_trading_state, sc)
     \<and> so_direction r = Some CE \<and> so_details r \<noteq> None \<and> 0 \<le> so_confidence r"
proof -
  let ?c = lenient_config
  have t: "last (sx_ticks rising_inputs) = liquid_tick" "length (sx_ticks rising_inputs) = 10" "sx_ticks rising_inputs \<noteq> []"
    by (simp_all add: rising_inputs_def numeral_eq_Suc)
  have clock: "\<not> minute_of_day (resolve_tick_time liquid_tick) < sc_no_trade_before ?c"
    by (simp add: minute_of_day_def hour_of_def minute_of_def resolve_tick_time_def liquid_tick_def plain_tick_def
        lenient_config_def default_scalp_config_def)
  have premium: "fst (check_premium ?c liquid_tick new_scalp) = PremiumOk"
    by (simp add: check_premium_def effective_premium_def liquid_tick_def plain_tick_def lenient_config_def
        default_scalp_config_def new_scalp_def last_n_def Let_def)
  have delta: "check_delta ?c liquid_tick s = (DeltaOk, s)" for s
    by (simp add: check_delta_def lenient_config_def default_scalp_config_def)
  have oi: "update_oi_data ?c m 0 p s = ((0, Neutral_Flow), s)" for m p s by (simp add: update_oi_data_def)
  have ind: "compute_indicators (sc_indicators ?c) (sx_candles rising_inputs) (sx_ticks rising_inputs) = Inr (Some rising_indicators)"
    by (simp add: compute_indicators_def price_series_def rising_closes rising_indicators_def rising_inputs_def nth_append)
  have chop: "\<not> fst (evaluate_chop rising_indicators)"
    using rising_fields by (simp add: evaluate_chop_def Let_def)
  have blocks: "ask_blocks 0 initial_trading_state = ((\<lambda>_. False), initial_trading_state)"
    by (auto simp: ask_blocks_def is_direction_blocked_def direction_losses_def initial_trading_state_def fun_eq_iff
        split: option_type.split)
  obtain s1 where p: "check_premium ?c liquid_tick new_scalp = (PremiumOk, s1)" using premium by (metis prod.collapse)
  let ?q = "evaluate_quality (sc_quality ?c) 0 liquid_tick rising_indicators
    \<lparr>qg_delta = ss_last_delta s1, qg_gamma = None, qg_theta = None\<rparr> (strategy_status liquid_tick) True"
  define det where "det = \<lparr>sd_indicators = rising_indicators, sd_regime = get_market_regime rising_indicators, sd_quality = ?q,
    sd_flow = Neutral_Flow, sd_pullback = evaluate_pullback (sc_pullback ?c) rising_indicators Neutral_Flow, sd_weighted = None\<rparr>"
  have g: "generate_signal ?c 0 rising_inputs initial_trading_state new_scalp
      = (Inr (conclude ?c 0 liquid_tick (\<lambda>_. False) det), initial_trading_state, s1)"
    using clock chop rising_quality
    by (simp add: generate_signal_def t p delta oi[of "sx_mono rising_inputs"] ind blocks det_def Let_def
        rising_inputs_def[THEN arg_cong, of sx_oi])
  have nonneg: "0 \<le> total_weight default_weights" "0 \<le> weighted_score default_weights i t d flow regime" for i t d flow regime
    using default_total raw_score_range(1)[OF default_weights_nonneg, of i t d flow regime]
    by (simp_all add: weighted_score_def py_int_nonneg)
  have c: "sc_weights ?c = default_weights" "sc_min_weighted_pct ?c = 0" "sc_pullback ?c = default_pullback"
    "\<not> sc_exhaustion_enabled ?c" "required_confidence ?c grade = 0" for grade
    by (simp_all add: lenient_config_def default_scalp_config_def required_confidence_def)
  have "0 \<le> adaptive_confidence 0 rising_indicators liquid_tick w CE flow regime" for w flow regime
    by (simp add: adaptive_confidence_def)
  then have "so_direction (conclude ?c 0 liquid_tick (\<lambda>_. False) det) = Some CE
      \<and> so_details (conclude ?c 0 liquid_tick (\<lambda>_. False) det) \<noteq> None
      \<and> 0 \<le> so_confidence (conclude ?c 0 liquid_tick (\<lambda>_. False) det)"
    by (simp add: conclude_def judge_side_def det_def side_of_def evaluate_pullback_def rising_side c nonneg exhausted_def
        decided_def not_less Let_def)
  with g show ?thesis by blast
qed

theorem signal_passed_every_gate_witness:
  "\<exists>r det. fst (generate_signal lenient_config 0 rising_inputs initial_trading_state new_scalp) = Inr r
     \<and> so_direction r = Some CE \<and> so_details r = Some det
     \<and> signal_gates lenient_config 0 rising_inputs initial_trading_state new_scalp CE (so_confidence r) (sd_indicators det)"
proof -
  obtain r where r: "fst (generate_signal lenient_config 0 rising_inputs initial_trading_state new_scalp) = Inr r"
    "so_direction r = Some CE" using rising_signal by auto
  from signal_passed_every_gate[OF this] r show ?thesis by blast
qed

section \<open>The delta filter\<close>

lemma strike_close: "\<bar>spot - delta_strike spot\<bar> \<le> 25"
  using round_half_even_error[of "spot / 50"] by (simp add: delta_strike_def abs_if split: if_splits)

lemma sqrt_six_hours: "0.0261 \<le> sqrt (6 / (365 * 24))"
  by (rule real_le_rsqrt) (simp add: power2_eq_square)

lemma ln_near_money:
  fixes s k lo :: real
  assumes "0 < lo" "lo \<le> s" "lo \<le> k" "\<bar>s - k\<bar> \<le> 25" shows "\<bar>ln (s / k)\<bar> \<le> 25 / lo"
proof -
  have step: "ln (a / b) \<le> 25 / lo" if "lo \<le> a" "lo \<le> b" "a - b \<le> 25" for a b :: real
  proof -
    have "ln (a / b) \<le> a / b - 1" using that assms(1) by (intro ln_le_minus_one) simp
    also have "\<dots> = (a - b) / b" using that assms(1) by (simp add: diff_divide_distrib)
    also have "\<dots> \<le> 25 / lo" using that assms(1) by (intro frac_le) simp_all
    finally show ?thesis .
  qed
  have "ln (k / s) = - ln (s / k)" using assms(1-3) by (simp add: ln_div)
  with step[of s k] step[of k s] assms show ?thesis by (auto simp: abs_le_iff)
qed

lemma d1_near_money:
  assumes "15000 \<le> s" "\<bar>s - k\<bar> \<le> 25"
  shows "\<bar>d1_of s k (6 / (365 * 24)) 0.07 0.20\<bar> \<le> 0.335"
proof -
  let ?t = "6 / (365 * 24) :: real"
  have "\<bar>ln (s / k)\<bar> \<le> 25 / 14975" using assms by (intro ln_near_money) (auto simp: abs_le_iff)
  then have up: "ln (s / k) \<le> 25 / 14975" and low: "- ln (s / k) \<le> 25 / 14975" by (simp_all add: abs_le_iff)
  have "\<bar>ln (s / k) + 9 / 146000\<bar> \<le> 87 / 50000" unfolding abs_le_iff using up low by linarith
  then have n: "\<bar>ln (s / k) + (0.07 + 0.5 * 0.20\<^sup>2) * ?t\<bar> \<le> 0.00174" by (simp add: power2_eq_square)
  have d: "0.00522 \<le> 0.20 * sqrt ?t" using sqrt_six_hours by simp
  have "\<bar>d1_of s k ?t 0.07 0.20\<bar> = \<bar>ln (s / k) + (0.07 + 0.5 * 0.20\<^sup>2) * ?t\<bar> / (0.20 * sqrt ?t)"
    using d unfolding d1_of_def abs_divide by simp
  also have "\<dots> \<le> 0.00174 / 0.00522" using n d by (intro frac_le) simp_all
  also have "\<dots> \<le> 0.335" by simp
  finally show ?thesis .
qed

text \<open>The delta filter lets everything through. The delta is that of an at-the-money call with fixed volatility and
  expiry, not of the contract in the tick: for every spot the hygiene check accepts it lies inside the 0.35 - 0.65 band,
  so neither branch of the filter is ever taken, however deep in or out of the money the option is.\<close>

theorem delta_filter_never_rejects:
  assumes "15000 \<le> spot_price t"
  shows "0.35 \<le> option_delta t \<and> option_delta t \<le> 0.65 \<and> fst (check_delta default_scalp_config t s) = DeltaOk"
proof -
  let ?s = "spot_price t" and ?k = "delta_strike (spot_price t)"
  have k: "0 < ?k" using strike_close[of ?s] assms by (auto simp: abs_le_iff)
  have z: "\<bar>d1_of ?s ?k (6 / (365 * 24)) 0.07 0.20\<bar> \<le> 0.335" by (rule d1_near_money[OF assms strike_close])
  define n where "n = norm_cdf (d1_of ?s ?k (6 / (365 * 24)) 0.07 0.20)"
  have "\<bar>n - 1/2\<bar> \<le> 2881 / 20000" using z norm_cdf_near[of "d1_of ?s ?k (6 / (365 * 24)) 0.07 0.20"] by (simp add: n_def)
  then have "7/20 \<le> \<bar>n\<bar>" "\<bar>n\<bar> \<le> 13/20" unfolding abs_le_iff by linarith+
  moreover have "delta_spot t = ?s" using assms by (simp add: delta_spot_def)
  then have "option_delta t = \<bar>n\<bar>"
    unfolding n_def using assms k by (simp add: option_delta_def calculate_greeks_def Let_def)
  ultimately have "0.35 \<le> option_delta t \<and> option_delta t \<le> 0.65" by simp
  then show ?thesis by (simp add: check_delta_def default_scalp_config_def Let_def)
qed

theorem delta_filter_never_rejects_witness:
  "fst (check_delta default_scalp_config liquid_tick new_scalp) = DeltaOk"
  using delta_filter_never_rejects[of liquid_tick new_scalp] by (simp add: liquid_tick_def plain_tick_def)

section \<open>Exhaustion and targets\<close>

text \<open>The exhaustion test reads the sign of the MACD, not its course. For indicators the program computes the histogram
  "declines" exactly when it is positive and "rises" exactly when it is negative: an overbought call is refused while the
  momentum is up and allowed once it has turned down.\<close>

theorem exhaustion_reads_the_sign:
  assumes "1 < ic_macd_signal (sc_indicators cfg)" "i = indicators_of (sc_indicators cfg) ser" "sc_exhaustion_enabled cfg"
  shows "(exhausted cfg i CE False \<longleftrightarrow> sc_ce_exhaustion_rsi cfg < in_rsi i \<and> 0 < in_macd_hist i)
       \<and> (exhausted cfg i PE False \<longleftrightarrow> in_rsi i < sc_pe_exhaustion_rsi cfg \<and> in_macd_hist i < 0)"
proof -
  let ?m = "1 - ema_factor_of (ic_macd_signal (sc_indicators cfg))"
  obtain line sig hist prev where b: "macd_block (sc_indicators cfg) (se_prices ser) = (line, sig, hist, prev)"
    by (metis prod_cases4)
  have h: "in_macd_hist i = hist" "in_macd_hist_prev i = prev"
    using assms(2) by (simp_all add: indicators_of_def b Let_def)
  have e: "hist = ?m * prev" using macd_block_cases[OF _ b] assms(1) by simp
  have m: "0 < ?m" "0 < 1 - ?m" using assms(1) by (simp_all add: ema_factor_of_def field_simps)
  have d: "prev - hist = (1 - ?m) * prev" unfolding e by (simp add: algebra_simps)
  have "hist < prev \<longleftrightarrow> 0 < prev" "prev < hist \<longleftrightarrow> prev < 0"
    using m(2) zero_less_mult_iff[of "1 - ?m" prev] mult_less_0_iff[of "1 - ?m" prev] d by (smt (verit))+
  moreover have "0 < hist \<longleftrightarrow> 0 < prev" "hist < 0 \<longleftrightarrow> prev < 0"
    using m(1) unfolding e by (simp_all add: zero_less_mult_iff mult_less_0_iff)
  ultimately show ?thesis using assms(3) by (simp add: exhausted_def h)
qed

theorem exhaustion_reads_the_sign_witness:
  "exhausted default_scalp_config (indicators_of default_indicator_config three_candles) CE False
     \<longleftrightarrow> 70 < in_rsi (indicators_of default_indicator_config three_candles)
       \<and> 0 < in_macd_hist (indicators_of default_indicator_config three_candles)"
  using exhaustion_reads_the_sign[of default_scalp_config "indicators_of default_indicator_config three_candles" three_candles]
  by (simp add: default_scalp_config_def default_indicator_config_def)

lemma round_twice: "round_half_even (of_int k * 2) = k * 2"
  using round_half_even_of_int[of "k * 2"] by simp

text \<open>The target is always twice the stop. With the configured values the stop is 6, 7 or 8 points and the target exactly
  double, for every market: the wider target meant for a sideways market (1.8 times the stop) never applies.\<close>

theorem target_is_twice_the_stop:
  "\<exists>sl\<in>{6, 7, 8}. entry_points default_scalp_config i = (sl, 2 * sl)"
proof -
  have r: "round_half_even 16 = 16" "round_half_even 14 = 14" "round_half_even 12 = 12"
    using round_half_even_of_int[of 16] round_half_even_of_int[of 14] round_half_even_of_int[of 12] by simp_all
  have w: "of_int (round_half_even x) \<le> x + 1/2" for x :: real
    using round_half_even_error[of x] by (simp add: abs_if split: if_splits)
  show ?thesis
    using w[of "8 * 1.8"] w[of "7 * 1.8"] w[of "6 * 1.8"]
    by (simp add: entry_points_def adjusted_points_def default_scalp_config_def Let_def r)
qed

end
