(* ===== verification/Session_Trend.thy ===== *)
theory Session_Trend
  imports Prelude
begin

text \<open>
  The session trend (\<open>core/risk/session_trend.py\<close>): three exponential averages, the displacement from the opening
  price, and the two gates \<open>can_trade_ce\<close> and \<open>can_trade_pe\<close> the entry engine asks.
\<close>

section \<open>The averages\<close>

record simple_ema =
  ema_period :: nat
  ema_value :: "real option"

definition new_ema :: "nat \<Rightarrow> simple_ema" where
  "new_ema n = \<lparr>ema_period = n, ema_value = None\<rparr>"

definition ema_multiplier :: "simple_ema \<Rightarrow> real" where
  "ema_multiplier e = 2 / (of_nat (ema_period e) + 1)"

definition update_ema :: "real \<Rightarrow> simple_ema \<Rightarrow> simple_ema" where
  "update_ema p e =
     e\<lparr>ema_value := Some (case ema_value e of None \<Rightarrow> p
                          | Some v \<Rightarrow> p * ema_multiplier e + v * (1 - ema_multiplier e))\<rparr>"

text \<open>An average stays in any interval its prices stay in.\<close>

definition ema_within :: "real \<Rightarrow> real \<Rightarrow> simple_ema \<Rightarrow> bool" where
  "ema_within lo hi e \<longleftrightarrow> 0 < ema_period e \<and> (\<forall>v. ema_value e = Some v \<longrightarrow> lo \<le> v \<and> v \<le> hi)"

lemma blend_between:
  fixes m p v :: real
  assumes "0 \<le> m" "m \<le> 1" "lo \<le> p" "p \<le> hi" "lo \<le> v" "v \<le> hi"
  shows "lo \<le> p * m + v * (1 - m)" "p * m + v * (1 - m) \<le> hi"
proof -
  have "lo * m + lo * (1 - m) \<le> p * m + v * (1 - m)" "p * m + v * (1 - m) \<le> hi * m + hi * (1 - m)"
    using assms by (intro add_mono mult_right_mono; simp)+
  then show "lo \<le> p * m + v * (1 - m)" "p * m + v * (1 - m) \<le> hi" by (simp_all add: algebra_simps)
qed

interpretation ema: invariant_system "\<lambda>e p. update_ema p e" "ema_within lo hi" "\<lambda>p. lo \<le> p \<and> p \<le> hi"
proof
  fix e p assume "ema_within lo hi e" and p: "lo \<le> p \<and> p \<le> hi"
  moreover have "0 \<le> ema_multiplier e" "0 < ema_period e \<Longrightarrow> ema_multiplier e \<le> 1"
    by (simp_all add: ema_multiplier_def field_simps)
  ultimately show "ema_within lo hi (update_ema p e)"
    using blend_between[of "ema_multiplier e" lo p hi]
    by (auto simp: ema_within_def update_ema_def split: option.splits)
qed

section \<open>The tracker\<close>

datatype trend = Bullish | Bearish | Sideways | Neutral

datatype ema_regime = Regime_Bullish | Regime_Bullish_Weak | Regime_Bearish | Regime_Bearish_Weak
  | Regime_Sideways | Regime_Neutral

record trend_tracker =
  opening_price :: "real option"
  session_started :: bool
  price_history :: "real list"
  current_trend :: trend
  trend_confidence :: int
  short_term_trend :: trend
  last_rsi :: real
  ema_fast :: simple_ema
  ema_medium :: simple_ema
  ema_slow :: simple_ema
  tracked_regime :: ema_regime
  opening_factor :: real
  ema_factor :: real
  rsi_factor :: real

definition new_tracker :: trend_tracker where
  "new_tracker =
     \<lparr>opening_price = None, session_started = False, price_history = [], current_trend = Neutral,
      trend_confidence = 0, short_term_trend = Neutral, last_rsi = 50, ema_fast = new_ema 9, ema_medium = new_ema 21,
      ema_slow = new_ema 50, tracked_regime = Regime_Neutral, opening_factor = 0, ema_factor = 0, rsi_factor = 0\<rparr>"

definition start_session :: "real \<Rightarrow> trend_tracker \<Rightarrow> trend_tracker" where
  "start_session p s =
     s\<lparr>opening_price := Some p, session_started := True, price_history := [p],
       ema_fast := update_ema p (new_ema 9), ema_medium := update_ema p (new_ema 21),
       ema_slow := update_ema p (new_ema 50), current_trend := Neutral, short_term_trend := Neutral,
       trend_confidence := 0, last_rsi := 50\<rparr>"

definition calculate_ema_regime :: "real \<Rightarrow> trend_tracker \<Rightarrow> ema_regime" where
  "calculate_ema_regime p s =
     (if \<not> (truthy (ema_value (ema_fast s)) \<and> truthy (ema_value (ema_medium s)) \<and> truthy (ema_value (ema_slow s)))
      then Regime_Neutral
      else let f = the (ema_value (ema_fast s)); m = the (ema_value (ema_medium s)); l = the (ema_value (ema_slow s))
           in if f < p \<and> m < f \<and> l < m then Regime_Bullish
              else if p < f \<and> f < m \<and> m < l then Regime_Bearish
              else if m < p \<and> l < m then Regime_Bullish_Weak
              else if p < m \<and> m < l then Regime_Bearish_Weak
              else Regime_Sideways)"

definition combine_trend_factors :: "trend \<Rightarrow> ema_regime \<Rightarrow> trend \<Rightarrow> trend \<times> int" where
  "combine_trend_factors opening regime rsi =
     (let bull = (if opening = Bullish then 50 else 0)
               + (case regime of Regime_Bullish \<Rightarrow> 30 | Regime_Bullish_Weak \<Rightarrow> 15 | _ \<Rightarrow> 0)
               + (if rsi = Bullish then 15 else 0);
          bear = (if opening = Bearish then 50 else 0)
               + (case regime of Regime_Bearish \<Rightarrow> 30 | Regime_Bearish_Weak \<Rightarrow> 15 | _ \<Rightarrow> 0)
               + (if rsi = Bearish then 15 else 0);
          flat = (if opening = Bullish \<or> opening = Bearish then 0 else 50)
               + (case regime of Regime_Sideways \<Rightarrow> 20 | Regime_Neutral \<Rightarrow> 20 | _ \<Rightarrow> 0)
               + (if rsi = Bullish \<or> rsi = Bearish then 0 else 10)
      in if bear \<le> bull \<and> flat \<le> bull then (Bullish, min 100 bull)
         else if flat \<le> bear then (Bearish, min 100 bear) else (Sideways, min 100 flat))"

definition opening_signal :: "real \<Rightarrow> trend" where
  "opening_signal diff = (if 100 < diff then Bullish else if diff < - 100 then Bearish else Sideways)"

definition rsi_signal :: "real \<Rightarrow> trend" where
  "rsi_signal r = (if r < 35 then Bullish else if 65 < r then Bearish else Sideways)"

definition short_term :: "real \<Rightarrow> real list \<Rightarrow> trend \<Rightarrow> trend" where
  "short_term p hist old =
     (if length hist < 20 then old
      else let d = p - hist ! (length hist - 20)
           in if 25 < d then Bullish else if d < - 25 then Bearish else Sideways)"

definition update_price :: "real \<Rightarrow> trend_tracker \<Rightarrow> trend \<times> trend_tracker" where
  "update_price p s =
     (case opening_price s of
        None \<Rightarrow> (Neutral, s)
      | Some base \<Rightarrow>
          if \<not> session_started s then (Neutral, s)
          else let hist = last_n 200 (price_history s @ [p]);
                   s1 = s\<lparr>price_history := hist, ema_fast := update_ema p (ema_fast s),
                          ema_medium := update_ema p (ema_medium s), ema_slow := update_ema p (ema_slow s)\<rparr>;
                   diff = p - base; regime = calculate_ema_regime p s1;
                   (tr, conf) = combine_trend_factors (opening_signal diff) regime (rsi_signal (last_rsi s))
               in (tr, s1\<lparr>opening_factor := (if opening_signal diff = Sideways then 50 else min 100 (\<bar>diff\<bar> / 150 * 100)),
                          tracked_regime := regime,
                          ema_factor := (case regime of Regime_Bullish \<Rightarrow> 80 | Regime_Bearish \<Rightarrow> 80
                             | Regime_Bullish_Weak \<Rightarrow> 50 | Regime_Bearish_Weak \<Rightarrow> 50 | _ \<Rightarrow> 30),
                          rsi_factor := (if rsi_signal (last_rsi s) = Sideways then 40 else 70),
                          current_trend := tr, trend_confidence := conf,
                          short_term_trend := short_term p hist (short_term_trend s)\<rparr>))"

definition update_rsi :: "real \<Rightarrow> trend_tracker \<Rightarrow> trend_tracker" where
  "update_rsi r s = s\<lparr>last_rsi := r\<rparr>"

definition with_rsi :: "real option \<Rightarrow> trend_tracker \<Rightarrow> trend_tracker" where
  "with_rsi r s = (case r of None \<Rightarrow> s | Some x \<Rightarrow> update_rsi x s)"

definition ce_ok :: "trend_tracker \<Rightarrow> bool" where
  "ce_ok s \<longleftrightarrow>
     current_trend s = Bullish \<and> 30 < trend_confidence s
   \<or> tracked_regime s \<in> {Regime_Bullish, Regime_Bullish_Weak} \<and> 60 < ema_factor s
   \<or> last_rsi s < 40 \<or> short_term_trend s = Bullish \<or> current_trend s = Sideways"

definition pe_ok :: "trend_tracker \<Rightarrow> bool" where
  "pe_ok s \<longleftrightarrow>
     current_trend s = Bearish \<and> 30 < trend_confidence s
   \<or> tracked_regime s \<in> {Regime_Bearish, Regime_Bearish_Weak} \<and> 60 < ema_factor s
   \<or> 60 < last_rsi s \<or> short_term_trend s = Bearish \<or> current_trend s = Sideways"

datatype gate_message = ReversalOk | TrendOk | TrendSkip

definition can_trade_ce :: "real option \<Rightarrow> trend_tracker \<Rightarrow> (bool \<times> gate_message) \<times> trend_tracker" where
  "can_trade_ce r s0 =
     (let s = with_rsi r s0
      in if ce_ok s
         then ((True, if current_trend s \<notin> {Bullish, Sideways} \<and> truthy r \<and> the r < 40 then ReversalOk else TrendOk), s)
         else ((False, TrendSkip), s))"

definition can_trade_pe :: "real option \<Rightarrow> trend_tracker \<Rightarrow> (bool \<times> gate_message) \<times> trend_tracker" where
  "can_trade_pe r s0 =
     (let s = with_rsi r s0
      in if pe_ok s
         then ((True, if current_trend s \<notin> {Bearish, Sideways} \<and> truthy r \<and> 60 < the r then ReversalOk else TrendOk), s)
         else ((False, TrendSkip), s))"

definition get_trend :: "trend_tracker \<Rightarrow> trend \<times> int" where
  "get_trend s = (current_trend s, trend_confidence s)"

definition get_opening_price :: "trend_tracker \<Rightarrow> real option" where
  "get_opening_price s = (if session_started s then opening_price s else Some 0)"

section \<open>What decides the trend\<close>

text \<open>The opening displacement alone decides the session trend. Whatever the EMA regime and the RSI say, the
  combined trend is the displacement's signal - the fifty points of the first factor exceed anything the other two can
  add to one side - and the confidence is at least fifty, so the gates' test for more than thirty never matters.\<close>

theorem opening_decides_trend:
  "fst (combine_trend_factors (opening_signal d) regime (rsi_signal r)) = opening_signal d
   \<and> 50 \<le> snd (combine_trend_factors (opening_signal d) regime (rsi_signal r))
   \<and> snd (combine_trend_factors (opening_signal d) regime (rsi_signal r)) \<le> 95"
  by (cases regime) (simp_all add: combine_trend_factors_def opening_signal_def rsi_signal_def Let_def)

lemma combined:
  "combine_trend_factors (opening_signal d) g (rsi_signal r) = (tr, conf) \<Longrightarrow> tr = opening_signal d \<and> 50 \<le> conf \<and> conf \<le> 95"
  by (cases g) (auto simp: combine_trend_factors_def opening_signal_def rsi_signal_def Let_def split: if_splits)

definition opened_at :: "real \<Rightarrow> trend_tracker \<Rightarrow> bool" where
  "opened_at base s \<longleftrightarrow> session_started s \<and> opening_price s = Some base"

lemma update_price_trend:
  assumes "opened_at base s"
  shows "opened_at base (snd (update_price p s))"
    "current_trend (snd (update_price p s)) = opening_signal (p - base)"
    "50 \<le> trend_confidence (snd (update_price p s))"
  using assms combined
  by (fastforce simp: opened_at_def update_price_def Let_def split: prod.splits)+

definition run_prices :: "real list \<Rightarrow> trend_tracker \<Rightarrow> trend_tracker" where
  "run_prices ps s = foldl (\<lambda>s p. snd (update_price p s)) s ps"

interpretation opened: invariant_system "\<lambda>s p. snd (update_price p s)" "opened_at base" "\<lambda>_. True"
  by unfold_locales (rule update_price_trend)

lemma run_prices_trend:
  assumes "opened_at base s" "ps \<noteq> []"
  shows "current_trend (run_prices ps s) = opening_signal (last ps - base) \<and> 50 \<le> trend_confidence (run_prices ps s)"
proof -
  obtain qs p where ps: "ps = qs @ [p]" using assms(2) by (metis rev_exhaust)
  have "opened_at base (run_prices qs s)"
    unfolding run_prices_def by (rule opened.inv_run[OF assms(1)]) (simp add: list_all_iff)
  then show ?thesis using update_price_trend[of base] by (simp add: ps run_prices_def)
qed

lemma start_session_opened: "opened_at p (start_session p s)"
  by (simp add: opened_at_def start_session_def)

text \<open>What the two other factors leave behind: the strength of the regime, and the confidence of the combination.\<close>

definition regime_strength :: "ema_regime \<Rightarrow> real" where
  "regime_strength g = (case g of Regime_Bullish \<Rightarrow> 80 | Regime_Bearish \<Rightarrow> 80
     | Regime_Bullish_Weak \<Rightarrow> 50 | Regime_Bearish_Weak \<Rightarrow> 50 | _ \<Rightarrow> 30)"

lemma update_price_factors:
  fixes p :: real
  assumes "opened_at base s"
  defines "s' \<equiv> snd (update_price p s)"
  shows "ema_factor s' = regime_strength (tracked_regime s')" "last_rsi s' = last_rsi s"
    "trend_confidence s' = snd (combine_trend_factors (opening_signal (p - base)) (tracked_regime s') (rsi_signal (last_rsi s)))"
  using assms(1) unfolding s'_def
  by (simp_all add: opened_at_def update_price_def regime_strength_def Let_def case_prod_beta)

lemma run_prices_rsi:
  "opened_at base s \<Longrightarrow> last_rsi (run_prices ps s) = last_rsi s"
  unfolding run_prices_def
  by (induction ps arbitrary: s) (simp_all add: update_price_factors(2) update_price_trend(1))

lemma run_prices_factors:
  fixes ps :: "real list"
  assumes "opened_at base s" "ps \<noteq> []"
  defines "t \<equiv> run_prices ps s"
  shows "ema_factor t = regime_strength (tracked_regime t)"
    "trend_confidence t = snd (combine_trend_factors (opening_signal (last ps - base)) (tracked_regime t) (rsi_signal (last_rsi s)))"
proof -
  obtain qs p where ps: "ps = qs @ [p]" using assms(2) by (metis rev_exhaust)
  have o: "opened_at base (run_prices qs s)"
    unfolding run_prices_def by (rule opened.inv_run[OF assms(1)]) (simp add: list_all_iff)
  have t: "t = snd (update_price p (run_prices qs s))" by (simp add: t_def ps run_prices_def)
  show "ema_factor t = regime_strength (tracked_regime t)"
    "trend_confidence t = snd (combine_trend_factors (opening_signal (last ps - base)) (tracked_regime t) (rsi_signal (last_rsi s)))"
    using update_price_factors(1,3)[OF o, of p] run_prices_rsi[OF assms(1), of qs] by (simp_all add: t ps)
qed

text \<open>C13: The gate compares an option premium with the index. The loop opens the session at the NIFTY spot, but the entry
  engine feeds \<open>update_market_price\<close> the option's price: after any premiums, all of them more than a hundred points below the
  spot, the trend is BEARISH with a confidence of 50, 65 or 80 (by the alignment of the averages), well over the 30 the gate
  asks for. So puts are always allowed, and calls exactly on an oversold RSI, a short burst of the premium or a full bullish
  alignment - however strongly the index rises.\<close>

theorem session_gate_mixes_spot_and_premium:
  fixes ps :: "real list" and spot :: real and s :: trend_tracker
  assumes "ps \<noteq> []" "\<forall>p\<in>set ps. p < spot - 100"
  defines "t \<equiv> run_prices ps (start_session spot s)"
  shows "current_trend t = Bearish
       \<and> trend_confidence t = 50 + (case tracked_regime t of Regime_Bearish \<Rightarrow> 30 | Regime_Bearish_Weak \<Rightarrow> 15 | _ \<Rightarrow> 0)
       \<and> fst (fst (can_trade_pe r t))
       \<and> (fst (fst (can_trade_ce (Some x) t)) \<longleftrightarrow>
            x < 40 \<or> short_term_trend t = Bullish \<or> tracked_regime t = Regime_Bullish)"
proof -
  note open_session = start_session_opened[of spot s]
  have "last ps - spot < - 100" using assms(1,2) by (fastforce dest: last_in_set)
  then have sig: "opening_signal (last ps - spot) = Bearish" by (simp add: opening_signal_def)
  have trend: "current_trend t = Bearish" and c: "50 \<le> trend_confidence t"
    using run_prices_trend[OF open_session assms(1)] sig by (simp_all add: t_def)
  have "rsi_signal (last_rsi (start_session spot s)) = Sideways" by (simp add: start_session_def rsi_signal_def)
  then have conf: "trend_confidence t = 50 + (case tracked_regime t of Regime_Bearish \<Rightarrow> 30 | Regime_Bearish_Weak \<Rightarrow> 15 | _ \<Rightarrow> 0)"
    using run_prices_factors(2)[OF open_session assms(1)] sig
    by (cases "tracked_regime t") (simp_all add: t_def combine_trend_factors_def Let_def)
  have full: "tracked_regime t \<in> {Regime_Bullish, Regime_Bullish_Weak} \<and> 60 < ema_factor t \<longleftrightarrow> tracked_regime t = Regime_Bullish"
    using run_prices_factors(1)[OF open_session assms(1)]
    by (cases "tracked_regime t") (simp_all add: t_def regime_strength_def)
  have pe: "fst (fst (can_trade_pe r t))"
    using trend c by (cases r) (simp_all add: can_trade_pe_def pe_ok_def with_rsi_def update_rsi_def Let_def)
  have ce: "fst (fst (can_trade_ce (Some x) t)) \<longleftrightarrow>
      x < 40 \<or> short_term_trend t = Bullish \<or> tracked_regime t = Regime_Bullish"
    using trend full by (auto simp: can_trade_ce_def ce_ok_def with_rsi_def update_rsi_def Let_def)
  show ?thesis using trend conf pe ce by blast
qed

theorem session_gate_mixes_spot_and_premium_witness:
  "let t = run_prices [110, 112, 115] (start_session 25000 new_tracker)
   in current_trend t = Bearish \<and> fst (fst (can_trade_pe None t))"
  using session_gate_mixes_spot_and_premium[of "[110, 112, 115]" 25000 new_tracker None 50] by (simp add: Let_def)

text \<open>While the price stays within a hundred points of the opening the gate refuses nothing.\<close>

lemma sideways_gates_open:
  assumes "opened_at base s" "ps \<noteq> []" "\<bar>last ps - base\<bar> \<le> 100"
  shows "fst (fst (can_trade_ce r (run_prices ps s))) \<and> fst (fst (can_trade_pe r (run_prices ps s)))"
  using run_prices_trend[OF assms(1,2)] assms(3)
  by (cases r) (auto simp: opening_signal_def can_trade_pe_def can_trade_ce_def pe_ok_def ce_ok_def Let_def
      with_rsi_def update_rsi_def abs_le_iff)

end
