(* ===== verification/Validators.thy ===== *)
theory Validators
  imports Market_Tick
begin

text \<open>
  \<open>core/risk/validators.py\<close>: the data-hygiene check every tick passes before the loop uses it, the three PTQ
  validations of an entry, the Greeks filter, and the detection of an expiry session.  A rejection's message is a
  constructor; the counters group the messages the way the source does by their wording.
\<close>

section \<open>Data hygiene\<close>

record hygiene_config =
  min_option_price :: real
  max_option_price :: real
  min_spot_price :: real
  max_spot_price :: real
  stale_ms_websocket :: int
  stale_ms_rest :: int
  stale_ms_unknown :: int
  spread_limit_pct :: real
  min_volume :: int
  hygiene_market_open :: "int \<times> int"

definition default_hygiene :: hygiene_config where
  "default_hygiene =
     \<lparr>min_option_price = 1, max_option_price = 500, min_spot_price = 15000, max_spot_price = 35000,
      stale_ms_websocket = 10000, stale_ms_rest = 5000, stale_ms_unknown = 2000, spread_limit_pct = 2.5,
      min_volume = 100, hygiene_market_open = (9, 15)\<rparr>"

datatype rejection =
  TickIsNone | InvalidBidAsk | InvertedMarket | InvalidPrice | InvalidSpot | StaleTick int | WideSpread real | LowVolume

record validation_stats =
  vs_stale :: nat
  vs_spread :: nat
  vs_bid_ask :: nat
  vs_price :: nat
  vs_volume :: nat
  vs_other :: nat

definition reset_validation_stats :: validation_stats where
  "reset_validation_stats =
     \<lparr>vs_stale = 0, vs_spread = 0, vs_bid_ask = 0, vs_price = 0, vs_volume = 0, vs_other = 0\<rparr>"

text \<open>The first category whose word occurs in the message; "Invalid spot" and "Tick is None" match none.\<close>

definition record_validation_rejection :: "rejection \<Rightarrow> validation_stats \<Rightarrow> validation_stats" where
  "record_validation_rejection r s =
     (case r of
        StaleTick _ \<Rightarrow> s\<lparr>vs_stale := vs_stale s + 1\<rparr>
      | WideSpread _ \<Rightarrow> s\<lparr>vs_spread := vs_spread s + 1\<rparr>
      | InvalidBidAsk \<Rightarrow> s\<lparr>vs_bid_ask := vs_bid_ask s + 1\<rparr>
      | InvertedMarket \<Rightarrow> s\<lparr>vs_bid_ask := vs_bid_ask s + 1\<rparr>
      | InvalidPrice \<Rightarrow> s\<lparr>vs_price := vs_price s + 1\<rparr>
      | LowVolume \<Rightarrow> s\<lparr>vs_volume := vs_volume s + 1\<rparr>
      | _ \<Rightarrow> s\<lparr>vs_other := vs_other s + 1\<rparr>)"

definition stats_total :: "validation_stats \<Rightarrow> nat" where
  "stats_total s = vs_stale s + vs_spread s + vs_bid_ask s + vs_price s + vs_volume s + vs_other s"

definition starts_with :: "string \<Rightarrow> string \<Rightarrow> bool" where
  "starts_with s pre \<longleftrightarrow> take (length pre) s = pre"

definition strip_blanks :: "string \<Rightarrow> string" where
  "strip_blanks s = (let blank = (\<lambda>c. c = CHR '' '' \<or> c = CHR 0x09 \<or> c = CHR 0x0A \<or> c = CHR 0x0D)
     in rev (dropWhile blank (rev (dropWhile blank s))))"

definition normal_source :: "string \<Rightarrow> string" where
  "normal_source s = py_upper (strip_blanks s)"

definition stale_threshold_ms :: "hygiene_config \<Rightarrow> string \<Rightarrow> int" where
  "stale_threshold_ms cfg source =
     (if starts_with source ''WEBSOCKET'' \<or> source \<in> set [''WS'', ''WEBSOCKET_REFRESH'', ''WS_REFRESH'']
      then stale_ms_websocket cfg
      else if source \<in> set [''REST'', ''REST_REFRESH''] then stale_ms_rest cfg
      else stale_ms_unknown cfg)"

definition tick_age_ms :: "instant \<Rightarrow> tick \<Rightarrow> int" where
  "tick_age_ms now t = current_time_ms now - get_or (tick_timestamp t) (original_timestamp t)"

definition too_little_volume :: "hygiene_config \<Rightarrow> instant \<Rightarrow> tick \<Rightarrow> bool" where
  "too_little_volume cfg now t \<longleftrightarrow>
     get_or (- 1) (tick_volume t) = 0 \<and> 0 < min_volume cfg \<and> \<not> starts_with (normal_source (data_source t)) ''REST''
   \<and> 1800 < total_seconds (now - at_time now (fst (hygiene_market_open cfg)) (snd (hygiene_market_open cfg)))"

text \<open>The checks in the source's order; \<open>Inl\<close> is the rejection.  The spread division can raise.\<close>

definition hygiene_check :: "hygiene_config \<Rightarrow> instant \<Rightarrow> tick option \<Rightarrow> py_error + rejection option" where
  "hygiene_check cfg now tk =
     (case tk of
        None \<Rightarrow> Inr (Some TickIsNone)
      | Some t \<Rightarrow>
          if bid t \<le> 0 \<or> ask t \<le> 0 then Inr (Some InvalidBidAsk)
          else if ask t \<le> bid t then Inr (Some InvertedMarket)
          else if ltp t < min_option_price cfg \<or> max_option_price cfg < ltp t then Inr (Some InvalidPrice)
          else if 0 < spot_price t \<and> (spot_price t < min_spot_price cfg \<or> max_spot_price cfg < spot_price t)
            then Inr (Some InvalidSpot)
          else if stale_threshold_ms cfg (normal_source (data_source t)) < tick_age_ms now t
            then Inr (Some (StaleTick (tick_age_ms now t)))
          else case spread_pct t of
                 Inl e \<Rightarrow> Inl e
               | Inr sp \<Rightarrow> if spread_limit_pct cfg < sp then Inr (Some (WideSpread sp))
                           else if too_little_volume cfg now t then Inr (Some LowVolume) else Inr None)"

definition is_data_valid ::
    "hygiene_config \<Rightarrow> instant \<Rightarrow> tick option \<Rightarrow> validation_stats
      \<Rightarrow> (py_error + (rejection option)) \<times> validation_stats" where
  "is_data_valid cfg now tk st =
     (let r = hygiene_check cfg now tk
      in (r, case r of Inr (Some rej) \<Rightarrow> record_validation_rejection rej st | _ \<Rightarrow> st))"

lemma hygiene_check_total: "\<exists>r. hygiene_check cfg now tk = Inr r"
  by (auto simp: hygiene_check_def spread_pct_def split: option.splits)

lemma hygiene_ok:
  "hygiene_check cfg now (Some t) = Inr None \<longleftrightarrow>
     0 < bid t \<and> bid t < ask t \<and> min_option_price cfg \<le> ltp t \<and> ltp t \<le> max_option_price cfg
   \<and> (0 < spot_price t \<longrightarrow> min_spot_price cfg \<le> spot_price t \<and> spot_price t \<le> max_spot_price cfg)
   \<and> tick_age_ms now t \<le> stale_threshold_ms cfg (normal_source (data_source t))
   \<and> (ask t - bid t) / ask t * 100 \<le> spread_limit_pct cfg \<and> \<not> too_little_volume cfg now t"
  by (auto simp: hygiene_check_def spread_pct_def)

fun validate_ticks ::
    "hygiene_config \<Rightarrow> (instant \<times> tick option) list \<Rightarrow> validation_stats \<Rightarrow> rejection list \<times> validation_stats" where
  "validate_ticks cfg [] st = ([], st)"
| "validate_ticks cfg ((now, tk) # xs) st =
     (case is_data_valid cfg now tk st of
        (r, st1) \<Rightarrow> case validate_ticks cfg xs st1 of
          (rs, st2) \<Rightarrow> ((case r of Inr (Some rej) \<Rightarrow> [rej] | _ \<Rightarrow> []) @ rs, st2))"

lemma stats_total_record: "stats_total (record_validation_rejection r s) = Suc (stats_total s)"
  by (simp add: stats_total_def record_validation_rejection_def split: rejection.split)

text \<open>The rules of the check in their order: what has to hold, and the reason given when it does not.\<close>

definition hygiene_rules :: "hygiene_config \<Rightarrow> instant \<Rightarrow> tick \<Rightarrow> (bool \<times> rejection) list" where
  "hygiene_rules cfg now t =
     [(0 < bid t \<and> 0 < ask t, InvalidBidAsk),
      (bid t < ask t, InvertedMarket),
      (min_option_price cfg \<le> ltp t \<and> ltp t \<le> max_option_price cfg, InvalidPrice),
      (0 < spot_price t \<longrightarrow> min_spot_price cfg \<le> spot_price t \<and> spot_price t \<le> max_spot_price cfg, InvalidSpot),
      (tick_age_ms now t \<le> stale_threshold_ms cfg (normal_source (data_source t)), StaleTick (tick_age_ms now t)),
      ((ask t - bid t) / ask t * 100 \<le> spread_limit_pct cfg, WideSpread ((ask t - bid t) / ask t * 100)),
      (\<not> too_little_volume cfg now t, LowVolume)]"

lemma hygiene_first_violated:
  "hygiene_check cfg now (Some t) = Inr (map_option snd (find (\<lambda>rule. \<not> fst rule) (hygiene_rules cfg now t)))"
  by (auto simp: hygiene_check_def hygiene_rules_def spread_pct_def)

text \<open>C26: The hygiene check never raises and says exactly what it means: for every tick dictionary it accepts precisely the
  ticks with a positive, uncrossed quote, a price and spot in range, an age within the threshold of its source, a spread
  within the limit and no missing volume; any other tick is rejected with the reason of the first of these rules, in this
  order, that it violates, and that reason is what is counted. A tick it accepted can be given to every later user of the
  spread without a division by zero; a missing tick is rejected as such.\<close>

theorem data_hygiene_exact:
  "fst (is_data_valid cfg now None st) = Inr (Some TickIsNone)
   \<and> (\<exists>r. is_data_valid cfg now (Some t) st
            = (Inr r, case r of None \<Rightarrow> st | Some reason \<Rightarrow> record_validation_rejection reason st)
     \<and> r = map_option snd (find (\<lambda>rule. \<not> fst rule) (hygiene_rules cfg now t))
     \<and> (r = None \<longleftrightarrow>
          0 < bid t \<and> bid t < ask t \<and> min_option_price cfg \<le> ltp t \<and> ltp t \<le> max_option_price cfg
        \<and> (0 < spot_price t \<longrightarrow> min_spot_price cfg \<le> spot_price t \<and> spot_price t \<le> max_spot_price cfg)
        \<and> tick_age_ms now t \<le> stale_threshold_ms cfg (normal_source (data_source t))
        \<and> (ask t - bid t) / ask t * 100 \<le> spread_limit_pct cfg \<and> \<not> too_little_volume cfg now t)
     \<and> (r = None \<longrightarrow> (\<exists>sp. spread_pct t = Inr sp \<and> 0 \<le> sp \<and> sp \<le> spread_limit_pct cfg)))"
proof -
  obtain r where r: "hygiene_check cfg now (Some t) = Inr r" using hygiene_check_total by blast
  have first: "r = map_option snd (find (\<lambda>rule. \<not> fst rule) (hygiene_rules cfg now t))"
    using hygiene_first_violated[of cfg now t] by (simp add: r)
  have "r = None \<longleftrightarrow> hygiene_check cfg now (Some t) = Inr None" by (simp add: r)
  note ok = this[unfolded hygiene_ok]
  then have spread: "r = None \<longrightarrow> (\<exists>sp. spread_pct t = Inr sp \<and> 0 \<le> sp \<and> sp \<le> spread_limit_pct cfg)"
    by (auto simp: spread_pct_def)
  have "is_data_valid cfg now (Some t) st
      = (Inr r, case r of None \<Rightarrow> st | Some reason \<Rightarrow> record_validation_rejection reason st)"
    by (simp add: is_data_valid_def Let_def r)
  moreover have "fst (is_data_valid cfg now None st) = Inr (Some TickIsNone)"
    by (simp add: is_data_valid_def hygiene_check_def Let_def)
  ultimately show ?thesis using ok spread first by blast
qed

definition stale_example :: tick where
  "stale_example =
     \<lparr>ltp = 100, bid = 99, ask = 100, tick_timestamp = 9000, original_timestamp = Some 3000, tick_symbol = ''NIFTY'',
      spot_price = 25000, tick_volume = Some 1000, data_source = '' rest '', tick_spread_pct = None, tick_delta = None,
      tick_atr = None, tick_iv = None, tick_tte_sec = None\<rparr>"

lemma stale_example_limit: "stale_threshold_ms default_hygiene (normal_source (data_source stale_example)) = 5000"
  by code_simp

theorem data_hygiene_exact_witness:
  "fst (is_data_valid default_hygiene (seconds 8) (Some stale_example) reset_validation_stats) = Inr None
   \<and> fst (is_data_valid default_hygiene (seconds 9) (Some stale_example) reset_validation_stats) = Inr (Some (StaleTick 6000))"
proof -
  note exact = data_hygiene_exact[of default_hygiene _ reset_validation_stats stale_example, unfolded hygiene_rules_def stale_example_limit]
  have age: "tick_age_ms (seconds n) stale_example = n * 1000 - 3000" for n
    by (simp add: tick_age_ms_def current_time_ms_def stale_example_def seconds_def)
  have vol: "\<not> too_little_volume default_hygiene now stale_example" for now
    by (simp add: too_little_volume_def stale_example_def)
  show ?thesis
    using exact[of "seconds 8"] exact[of "seconds 9"]
    by (elim exE conjE) (simp add: age vol, simp add: default_hygiene_def stale_example_def)
qed

text \<open>The rejection counters account for every rejected tick: after any sequence of checks their sum has grown by
  exactly the number of rejections.\<close>

theorem rejections_accounted:
  "stats_total (snd (validate_ticks cfg xs st)) = stats_total st + length (fst (validate_ticks cfg xs st))"
proof (induction xs arbitrary: st)
  case (Cons x xs)
  obtain now tk where x: "x = (now, tk)" by fastforce
  obtain r st1 where v: "is_data_valid cfg now tk st = (r, st1)" by fastforce
  obtain rs st2 where w: "validate_ticks cfg xs st1 = (rs, st2)" by fastforce
  have "stats_total st1 = stats_total st + (case r of Inr (Some rej) \<Rightarrow> 1 | _ \<Rightarrow> 0)"
    using v by (auto simp: is_data_valid_def Let_def stats_total_record split: sum.splits option.splits)
  with Cons.IH[of st1] show ?case by (auto simp: x v w split: sum.splits option.splits)
qed simp

section \<open>Candle quality and VWAP\<close>

definition vwap_of :: "(real \<times> real) list \<Rightarrow> real" where
  "vwap_of xs = (\<Sum>x\<leftarrow>xs. fst x * snd x) / (\<Sum>x\<leftarrow>xs. snd x)"

definition volume_of :: "tick \<Rightarrow> real" where
  "volume_of t = of_int (get_or 0 (tick_volume t))"

definition calculate_vwap :: "nat \<Rightarrow> tick list \<Rightarrow> real" where
  "calculate_vwap period ticks =
     (if ticks = [] then 0
      else let recent = (if period < length ticks then last_n period ticks else ticks);
               priced = map (\<lambda>t. (ltp t, volume_of t)) (filter (\<lambda>t. 0 < volume_of t) recent)
           in if priced = [] then (\<Sum>t\<leftarrow>recent. ltp t) / of_nat (length recent) else vwap_of priced)"

lemma weighted_mean_bounds:
  assumes "xs \<noteq> []" "\<forall>x\<in>set xs. 0 < snd x \<and> lo \<le> fst x \<and> fst x \<le> hi"
  shows "lo \<le> vwap_of xs \<and> vwap_of xs \<le> (hi::real)"
proof -
  obtain y ys where "xs = y # ys" using assms(1) by (cases xs) auto
  have "\<forall>z\<in>set ys. 0 \<le> snd z" using assms(2) \<open>xs = y # ys\<close> by force
  then have "0 \<le> sum_list (map snd ys)" by (intro sum_list_nonneg) auto
  then have s: "0 < (\<Sum>x\<leftarrow>xs. snd x)" using assms(2) \<open>xs = y # ys\<close> by auto
  have "(\<Sum>x\<leftarrow>xs. lo * snd x) \<le> (\<Sum>x\<leftarrow>xs. fst x * snd x)" "(\<Sum>x\<leftarrow>xs. fst x * snd x) \<le> (\<Sum>x\<leftarrow>xs. hi * snd x)"
    using assms(2) by (auto intro!: sum_list_mono mult_right_mono)
  then have "lo * (\<Sum>x\<leftarrow>xs. snd x) \<le> (\<Sum>x\<leftarrow>xs. fst x * snd x)" "(\<Sum>x\<leftarrow>xs. fst x * snd x) \<le> hi * (\<Sum>x\<leftarrow>xs. snd x)"
    by (simp_all add: sum_list_const_mult)
  with s show ?thesis by (simp add: vwap_of_def pos_le_divide_eq pos_divide_le_eq)
qed

lemma vwap_bounds:
  assumes "ticks \<noteq> []" "0 < period" "\<forall>t\<in>set ticks. lo \<le> ltp t \<and> ltp t \<le> hi"
  shows "lo \<le> calculate_vwap period ticks \<and> calculate_vwap period ticks \<le> hi"
proof -
  let ?recent = "if period < length ticks then last_n period ticks else ticks"
  have r: "set ?recent \<subseteq> set ticks" "?recent \<noteq> []" using assms(1) set_last_n[of period ticks] by auto
  have mean: "vwap_of (map (\<lambda>t. (ltp t, 1)) ?recent) = (\<Sum>t\<leftarrow>?recent. ltp t) / of_nat (length ?recent)"
    by (simp add: vwap_of_def comp_def sum_list_triv)
  have "lo \<le> vwap_of (map (\<lambda>t. (ltp t, 1)) ?recent) \<and> vwap_of (map (\<lambda>t. (ltp t, 1)) ?recent) \<le> hi"
    using r assms(3) by (intro weighted_mean_bounds) auto
  moreover have "lo \<le> vwap_of priced \<and> vwap_of priced \<le> hi"
    if "priced = map (\<lambda>t. (ltp t, volume_of t)) (filter (\<lambda>t. 0 < volume_of t) ?recent)" "priced \<noteq> []" for priced
    using r assms(3) that by (intro weighted_mean_bounds) auto
  ultimately show ?thesis using assms(1) by (simp add: calculate_vwap_def Let_def mean)
qed

record candle_quality =
  body_pct :: real
  wick_pct :: real
  candle_direction :: int

definition no_candle :: candle_quality where
  "no_candle = \<lparr>body_pct = 0, wick_pct = 0, candle_direction = 0\<rparr>"

definition analyze_candle_quality :: "tick list \<Rightarrow> candle_quality" where
  "analyze_candle_quality ticks =
     (if length ticks < 60 then no_candle
      else let m = last_n 60 ticks; prices = map ltp m;
               op = hd prices; cl = last prices; range = Max (set prices) - Min (set prices)
           in if range = 0 then no_candle
              else let body = \<bar>cl - op\<bar> / range * 100
                   in \<lparr>body_pct = body, wick_pct = 100 - body, candle_direction = (if op < cl then 1 else - 1)\<rparr>)"

lemma share_le_100: "0 \<le> a \<Longrightarrow> a \<le> r \<Longrightarrow> a / r * 100 \<le> (100::real)"
  by (cases "r = 0") (auto simp: divide_le_eq)

lemma candle_quality_range:
  "0 \<le> body_pct (analyze_candle_quality ticks) \<and> body_pct (analyze_candle_quality ticks) \<le> 100
   \<and> 0 \<le> wick_pct (analyze_candle_quality ticks) \<and> wick_pct (analyze_candle_quality ticks) \<le> 100"
proof (cases "length ticks < 60")
  case True
  then show ?thesis by (simp add: analyze_candle_quality_def no_candle_def)
next
  case False
  let ?p = "map ltp (last_n 60 ticks)"
  have p: "?p \<noteq> []" using False by auto
  have m: "Min (set ?p) \<le> x" "x \<le> Max (set ?p)" if "x \<in> set ?p" for x using that by (auto intro: Min_le Max_ge)
  have "hd ?p \<in> set ?p" "last ?p \<in> set ?p" using p by (rule hd_in_set, rule last_in_set)
  with m have "\<bar>last ?p - hd ?p\<bar> \<le> Max (set ?p) - Min (set ?p)" by (smt (verit))
  from share_le_100[OF _ this] this show ?thesis using False
    by (auto simp: analyze_candle_quality_def no_candle_def Let_def)
qed

section \<open>The PTQ validations\<close>

datatype ptq_verdict =
    PaperOk | InsufficientHistory | ChopMarket | BreakAbove | BreakBelow | RejectionBullish | RejectionBearish
  | AboveVwap | BelowVwap | MinorDeviation | NoSetup | LateSession | ThetaDominance | TimeValid
  | NoVolumeData | VolumeTooLow | WideSpreadPct | VolumeConfirmed

definition validate_price_ptq :: "bool \<Rightarrow> tick \<Rightarrow> tick list \<Rightarrow> py_error + (bool \<times> ptq_verdict)" where
  "validate_price_ptq paper t ticks =
     (if paper then Inr (True, PaperOk)
      else if length ticks < 30 then Inr (False, InsufficientHistory)
      else let vwap = calculate_vwap 60 ticks; q = analyze_candle_quality ticks;
               recent = map ltp (last_n 30 ticks); p = ltp t
           in if Max (set recent) - Min (set recent) < p * 0.0001 then Inr (False, ChopMarket)
              else if vwap < p \<and> 10 < body_pct q then Inr (True, BreakAbove)
              else if p < vwap \<and> 10 < body_pct q then Inr (True, BreakBelow)
              else if 25 < wick_pct q \<and> p < vwap \<and> candle_direction q = 1 then Inr (True, RejectionBullish)
              else if 25 < wick_pct q \<and> vwap < p \<and> candle_direction q = - 1 then Inr (True, RejectionBearish)
              else if vwap = 0 then Inl ZeroDivisionError
              else if 0.001 < \<bar>p - vwap\<bar> / vwap \<and> vwap < p then Inr (True, AboveVwap)
              else if 0.001 < \<bar>p - vwap\<bar> / vwap \<and> p < vwap then Inr (True, BelowVwap)
              else if 0.0005 < \<bar>p - vwap\<bar> / vwap then Inr (True, MinorDeviation)
              else Inr (False, NoSetup))"

definition validate_time_ptq :: "bool \<Rightarrow> instant \<Rightarrow> real \<Rightarrow> bool \<times> ptq_verdict" where
  "validate_time_ptq paper now theta_sec =
     (if paper then (True, PaperOk)
      else if 15 \<le> hour_of now \<or> (hour_of now = 14 \<and> 30 \<le> minute_of now) then (False, LateSession)
      else if 0.0005 < theta_sec then (False, ThetaDominance)
      else (True, TimeValid))"

text \<open>\<open>get_threshold(k) or default\<close>: a zero threshold falls back to the configured one.\<close>

definition threshold_or :: "real \<Rightarrow> real \<Rightarrow> real" where
  "threshold_or th d = (if th = 0 then d else th)"

definition validate_quantity_ptq :: "bool \<Rightarrow> real \<Rightarrow> real \<Rightarrow> tick \<Rightarrow> tick list \<Rightarrow> py_error + (bool \<times> ptq_verdict)" where
  "validate_quantity_ptq paper min_ratio max_spread t ticks =
     (if paper then Inr (True, PaperOk)
      else if length ticks < 60 then Inr (False, InsufficientHistory)
      else let vols = map volume_of (last_n 60 ticks); avg = sum_list vols / of_nat (length vols)
           in if avg = 0 then Inr (False, NoVolumeData)
              else if volume_of t / avg < min_ratio then Inr (False, VolumeTooLow)
              else if ltp t = 0 then Inl ZeroDivisionError
              else if max_spread < (ask t - bid t) / ltp t * 100 then Inr (False, WideSpreadPct)
              else Inr (True, VolumeConfirmed))"

section \<open>Greeks\<close>

record greek_values =
  gv_delta :: real
  gv_gamma :: real
  gv_theta_sec :: real

record greek_limits =
  gl_delta_min :: real
  gl_delta_max :: real
  gl_gamma_normal_max :: real
  gl_gamma_expiry_max :: real
  gl_theta_sec_limit :: real

datatype greek_verdict = DeltaOutOfRange | GammaTooHigh | ThetaTooHigh | GreeksOk

definition greek_gate :: "greek_limits \<Rightarrow> greek_values \<Rightarrow> day_type \<Rightarrow> bool \<times> greek_verdict" where
  "greek_gate ls g d =
     (if \<not> (gl_delta_min ls \<le> \<bar>gv_delta g\<bar> \<and> \<bar>gv_delta g\<bar> \<le> gl_delta_max ls) then (False, DeltaOutOfRange)
      else if (if d = EXPIRY then gl_gamma_expiry_max ls else gl_gamma_normal_max ls) < gv_gamma g
        then (False, GammaTooHigh)
      else if gl_theta_sec_limit ls < gv_theta_sec g then (False, ThetaTooHigh)
      else (True, GreeksOk))"

definition THETA_SEC_LIMIT :: real where
  "THETA_SEC_LIMIT = 0.2"

definition detect_day_type :: "bool \<Rightarrow> greek_values \<Rightarrow> real \<Rightarrow> day_type" where
  "detect_day_type is_expiry g time_to_expiry_sec =
     (if is_expiry \<or> time_to_expiry_sec \<le> 3600 \<or> 2 * THETA_SEC_LIMIT < gv_theta_sec g
       \<or> (0.10 < gv_gamma g \<and> time_to_expiry_sec < 5400) then EXPIRY else NORMAL)"

text \<open>A stricter set of limits passes only what a looser one passes.\<close>

definition looser :: "greek_limits \<Rightarrow> greek_limits \<Rightarrow> bool" where
  "looser a b \<longleftrightarrow> gl_delta_min a \<le> gl_delta_min b \<and> gl_delta_max b \<le> gl_delta_max a
     \<and> gl_gamma_normal_max b \<le> gl_gamma_normal_max a \<and> gl_gamma_expiry_max b \<le> gl_gamma_expiry_max a
     \<and> gl_theta_sec_limit b \<le> gl_theta_sec_limit a"

lemma greek_gate_mono: "looser a b \<Longrightarrow> fst (greek_gate b g d) \<Longrightarrow> fst (greek_gate a g d)"
  by (auto simp: looser_def greek_gate_def split: if_splits)

text \<open>With positive prices in the history the price validation cannot raise.\<close>

lemma validate_price_raises:
  "validate_price_ptq paper t ticks = Inl e \<Longrightarrow> calculate_vwap 60 ticks = 0 \<and> 30 \<le> length ticks"
  unfolding validate_price_ptq_def Let_def by (auto split: if_splits)

lemma validate_price_total:
  assumes "\<forall>s\<in>set ticks. 0 < ltp s"
  shows "validate_price_ptq paper t ticks \<noteq> Inl e"
proof (cases "length ticks < 30")
  case False
  then have ne: "ticks \<noteq> []" by auto
  have "Min (set (map ltp ticks)) \<in> set (map ltp ticks)" using ne by (intro Min_in) auto
  then have pos: "0 < Min (set (map ltp ticks))" using assms by auto
  have "\<forall>t\<in>set ticks. Min (set (map ltp ticks)) \<le> ltp t \<and> ltp t \<le> Max (set (map ltp ticks))"
    by (auto intro: Min_le Max_ge)
  with vwap_bounds[OF ne, of 60] pos have "calculate_vwap 60 ticks \<noteq> 0" by fastforce
  then show ?thesis using validate_price_raises by blast
qed (use validate_price_raises in fastforce)

end
