(* ===== verification/Mode_Switch.thy ===== *)
theory Mode_Switch
  imports Validators
begin

text \<open>
  The adaptive trading mode (\<open>core/services/mode_switch.py\<close>): AGGRESSIVE, SAFE or LOCKDOWN, switched once
  per loop on rolling observations, with the thresholds the entry filters read.  \<open>now\<close> and the recent ticks of the
  runtime state are inputs.
\<close>

datatype trading_mode = Aggressive | Safe | Lockdown

record mode_thresholds =
  mt_min_volume_ratio :: real
  mt_delta_min :: real
  mt_delta_max :: real
  mt_gamma_normal_max :: real
  mt_gamma_expiry_max :: real
  mt_theta_sec_limit :: real
  mt_spread_limit_pct :: real
  mt_chop_threshold :: real

definition AGGRESSIVE_THRESHOLDS :: "bool \<Rightarrow> mode_thresholds" where
  "AGGRESSIVE_THRESHOLDS paper =
     (if paper
      then \<lparr>mt_min_volume_ratio = 0.5, mt_delta_min = 0.15, mt_delta_max = 0.90, mt_gamma_normal_max = 0.15,
            mt_gamma_expiry_max = 0.20, mt_theta_sec_limit = 0.35, mt_spread_limit_pct = 2.5,
            mt_chop_threshold = 0.00005\<rparr>
      else \<lparr>mt_min_volume_ratio = 0.8, mt_delta_min = 0.20, mt_delta_max = 0.85, mt_gamma_normal_max = 0.10,
            mt_gamma_expiry_max = 0.15, mt_theta_sec_limit = 0.25, mt_spread_limit_pct = 1.5,
            mt_chop_threshold = 0.0001\<rparr>)"

definition SAFE_THRESHOLDS :: "bool \<Rightarrow> mode_thresholds" where
  "SAFE_THRESHOLDS paper =
     (if paper
      then \<lparr>mt_min_volume_ratio = 0.6, mt_delta_min = 0.20, mt_delta_max = 0.80, mt_gamma_normal_max = 0.12,
            mt_gamma_expiry_max = 0.18, mt_theta_sec_limit = 0.30, mt_spread_limit_pct = 2.0,
            mt_chop_threshold = 0.0001\<rparr>
      else \<lparr>mt_min_volume_ratio = 1.1, mt_delta_min = 0.35, mt_delta_max = 0.65, mt_gamma_normal_max = 0.07,
            mt_gamma_expiry_max = 0.10, mt_theta_sec_limit = 0.15, mt_spread_limit_pct = 1.0,
            mt_chop_threshold = 0.00015\<rparr>)"

record mode_config =
  md_paper :: bool
  md_consecutive_loss_trigger :: nat
  md_volume_deterioration :: real
  md_chop_detection :: real
  md_theta_deterioration :: real
  md_safe_hour :: int
  md_volume_recovery :: real
  md_range_recovery :: real
  md_theta_recovery :: real
  md_lockdown_loss :: real
  md_switch_cooldown :: int

definition default_mode_config :: "bool \<Rightarrow> mode_config" where
  "default_mode_config paper =
     \<lparr>md_paper = paper, md_consecutive_loss_trigger = 1, md_volume_deterioration = 0.9, md_chop_detection = 0.0002,
      md_theta_deterioration = 0.30, md_safe_hour = 13, md_volume_recovery = 1.1, md_range_recovery = 0.0004,
      md_theta_recovery = 0.20, md_lockdown_loss = - 3000 * 0.9, md_switch_cooldown = 60\<rparr>"

section \<open>Rolling observations\<close>

record mode_state =
  ms_consecutive_losses :: nat
  ms_volume_ratios :: "real list"
  ms_ranges :: "real list"
  ms_last_switch :: "instant option"
  ms_history :: "(instant \<times> trading_mode) list"

definition new_mode_state :: mode_state where
  "new_mode_state = \<lparr>ms_consecutive_losses = 0, ms_volume_ratios = [], ms_ranges = [], ms_last_switch = None,
     ms_history = []\<rparr>"

definition push_ten :: "real list \<Rightarrow> real \<Rightarrow> real list" where
  "push_ten xs x = (let ys = xs @ [x] in if 10 < length ys then tl ys else ys)"

definition add_volume_ratio :: "mode_state \<Rightarrow> real \<Rightarrow> mode_state" where
  "add_volume_ratio s r = s\<lparr>ms_volume_ratios := push_ten (ms_volume_ratios s) r\<rparr>"

definition add_range :: "mode_state \<Rightarrow> real \<Rightarrow> mode_state" where
  "add_range s r = s\<lparr>ms_ranges := push_ten (ms_ranges s) r\<rparr>"

lemma push_ten: "length xs \<le> 10 \<Longrightarrow> push_ten xs x = last_n 10 (xs @ [x])"
  by (cases xs; cases "length xs = 10") (auto simp: push_ten_def last_n_def Let_def)

interpretation volume_window: bounded_buffer add_volume_ratio ms_volume_ratios 10
  by unfold_locales (auto simp: add_volume_ratio_def push_ten)

interpretation range_window: bounded_buffer add_range ms_ranges 10
  by unfold_locales (auto simp: add_range_def push_ten)

definition mean :: "real \<Rightarrow> real list \<Rightarrow> real" where
  "mean d xs = (if xs = [] then d else sum_list xs / of_nat (length xs))"

definition avg_volume_ratio :: "mode_state \<Rightarrow> real" where
  "avg_volume_ratio s = mean 0 (ms_volume_ratios s)"

definition avg_range :: "mode_state \<Rightarrow> real" where
  "avg_range s = mean 0.001 (ms_ranges s)"

definition record_trade_result :: "bool \<Rightarrow> mode_state \<Rightarrow> mode_state" where
  "record_trade_result is_win s =
     s\<lparr>ms_consecutive_losses := (if is_win then 0 else ms_consecutive_losses s + 1)\<rparr>"

definition can_switch :: "mode_config \<Rightarrow> instant \<Rightarrow> mode_state \<Rightarrow> bool" where
  "can_switch cfg now s =
     (case ms_last_switch s of None \<Rightarrow> True | Some t \<Rightarrow> seconds (md_switch_cooldown cfg) \<le> now - t)"

definition record_switch :: "instant \<Rightarrow> trading_mode \<Rightarrow> mode_state \<Rightarrow> mode_state" where
  "record_switch now m s = s\<lparr>ms_last_switch := Some now, ms_history := ms_history s @ [(now, m)]\<rparr>"

section \<open>Switching\<close>

definition should_go_safe :: "mode_config \<Rightarrow> instant \<Rightarrow> tick \<Rightarrow> real \<Rightarrow> day_type \<Rightarrow> mode_state \<Rightarrow> bool" where
  "should_go_safe cfg now t theta_sec d s \<longleftrightarrow>
     \<not> md_paper cfg
   \<and> (md_consecutive_loss_trigger cfg \<le> ms_consecutive_losses s
      \<or> (0 < avg_volume_ratio s \<and> avg_volume_ratio s < md_volume_deterioration cfg)
      \<or> (0 < spot_price t \<and> avg_range s < spot_price t * md_chop_detection cfg)
      \<or> md_theta_deterioration cfg < theta_sec
      \<or> (md_safe_hour cfg \<le> hour_of now \<and> d = NORMAL))"

definition should_go_aggressive :: "mode_config \<Rightarrow> tick \<Rightarrow> real \<Rightarrow> mode_state \<Rightarrow> bool" where
  "should_go_aggressive cfg t theta_sec s \<longleftrightarrow>
     ms_consecutive_losses s = 0 \<and> md_volume_recovery cfg \<le> avg_volume_ratio s
   \<and> \<not> (0 < spot_price t \<and> avg_range s \<le> spot_price t * md_range_recovery cfg)
   \<and> theta_sec < md_theta_recovery cfg"

definition should_lockdown :: "mode_config \<Rightarrow> real \<Rightarrow> bool" where
  "should_lockdown cfg daily_pnl \<longleftrightarrow> daily_pnl \<le> md_lockdown_loss cfg"

record mode_system =
  sy_mode :: trading_mode
  sy_thresholds :: mode_thresholds
  sy_state :: mode_state

definition initial_mode :: "mode_config \<Rightarrow> mode_system" where
  "initial_mode cfg = \<lparr>sy_mode = Aggressive, sy_thresholds = AGGRESSIVE_THRESHOLDS (md_paper cfg), sy_state = new_mode_state\<rparr>"

text \<open>\<open>reset_mode\<close>\<close>

definition reset_mode :: "mode_config \<Rightarrow> mode_system" where
  "reset_mode cfg = initial_mode cfg"

definition observe :: "tick \<Rightarrow> tick list \<Rightarrow> mode_state \<Rightarrow> mode_state" where
  "observe t recent s =
     (if length recent \<le> 5 then s
      else let last60 = last_n 60 recent;
               avg = sum_list (map volume_of last60) / of_nat (length last60);
               s1 = (if 0 < avg then add_volume_ratio s (volume_of t / avg) else s);
               prices = map ltp last60
           in add_range s1 (Max (set prices) - Min (set prices)))"

definition switch_to :: "instant \<Rightarrow> trading_mode \<Rightarrow> mode_thresholds \<Rightarrow> mode_system \<Rightarrow> mode_system" where
  "switch_to now m th s = s\<lparr>sy_mode := m, sy_thresholds := th, sy_state := record_switch now m (sy_state s)\<rparr>"

definition update_trading_mode ::
    "mode_config \<Rightarrow> instant \<Rightarrow> tick \<Rightarrow> tick list \<Rightarrow> real \<Rightarrow> day_type \<Rightarrow> real \<Rightarrow> mode_system \<Rightarrow> mode_system" where
  "update_trading_mode cfg now t recent theta_sec d daily_pnl s0 =
     (let s = s0\<lparr>sy_state := observe t recent (sy_state s0)\<rparr>
      in if \<not> can_switch cfg now (sy_state s) then s
         else if should_lockdown cfg daily_pnl \<and> sy_mode s \<noteq> Lockdown
           then switch_to now Lockdown (sy_thresholds s) s
         else case sy_mode s of
                Lockdown \<Rightarrow> s
              | Aggressive \<Rightarrow> if should_go_safe cfg now t theta_sec d (sy_state s)
                              then switch_to now Safe (SAFE_THRESHOLDS (md_paper cfg)) s else s
              | Safe \<Rightarrow> if should_go_aggressive cfg t theta_sec (sy_state s)
                        then switch_to now Aggressive (AGGRESSIVE_THRESHOLDS (md_paper cfg)) s else s)"

definition is_entries_allowed :: "mode_system \<Rightarrow> bool" where
  "is_entries_allowed s \<longleftrightarrow> sy_mode s \<noteq> Lockdown"

text \<open>The limits the Greeks filter reads; no threshold of either mode is zero, so the fall-backs are unused.\<close>

definition greek_limits_of :: "mode_thresholds \<Rightarrow> greek_limits" where
  "greek_limits_of th =
     \<lparr>gl_delta_min = mt_delta_min th, gl_delta_max = mt_delta_max th, gl_gamma_normal_max = mt_gamma_normal_max th,
      gl_gamma_expiry_max = mt_gamma_expiry_max th, gl_theta_sec_limit = mt_theta_sec_limit th\<rparr>"

section \<open>The mode as a system\<close>

datatype mode_event =
    UpdateMode instant tick "tick list" real day_type real
  | TradeResult bool

definition mode_step :: "mode_config \<Rightarrow> mode_system \<Rightarrow> mode_event \<Rightarrow> mode_system" where
  "mode_step cfg s e =
     (case e of
        UpdateMode now t recent th d pnl \<Rightarrow> update_trading_mode cfg now t recent th d pnl s
      | TradeResult w \<Rightarrow> s\<lparr>sy_state := record_trade_result w (sy_state s)\<rparr>)"

lemma observe_frame [simp]:
  "ms_last_switch (observe t recent s) = ms_last_switch s" "ms_history (observe t recent s) = ms_history s"
  "ms_consecutive_losses (observe t recent s) = ms_consecutive_losses s"
  by (simp_all add: observe_def add_volume_ratio_def add_range_def Let_def)

interpretation lockdown: invariant_system "mode_step cfg" "\<lambda>s. sy_mode s = Lockdown" "\<lambda>_. True"
  by unfold_locales
    (auto simp: mode_step_def update_trading_mode_def Let_def split: mode_event.splits)

text \<open>The thresholds in force belong to the mode, and on paper the mode never becomes SAFE.\<close>

definition mode_wf :: "mode_config \<Rightarrow> mode_system \<Rightarrow> bool" where
  "mode_wf cfg s \<longleftrightarrow>
     (sy_mode s = Aggressive \<longrightarrow> sy_thresholds s = AGGRESSIVE_THRESHOLDS (md_paper cfg))
   \<and> (sy_mode s = Safe \<longrightarrow> sy_thresholds s = SAFE_THRESHOLDS (md_paper cfg) \<and> \<not> md_paper cfg)
   \<and> sy_thresholds s \<in> {AGGRESSIVE_THRESHOLDS (md_paper cfg), SAFE_THRESHOLDS (md_paper cfg)}
   \<and> length (ms_volume_ratios (sy_state s)) \<le> 10 \<and> length (ms_ranges (sy_state s)) \<le> 10"

lemma observe_windows:
  "length (ms_volume_ratios s) \<le> 10 \<Longrightarrow> length (ms_ranges s) \<le> 10 \<Longrightarrow>
     length (ms_volume_ratios (observe t recent s)) \<le> 10 \<and> length (ms_ranges (observe t recent s)) \<le> 10"
  by (auto simp: observe_def Let_def add_volume_ratio_def add_range_def push_ten_def)

lemma mode_step_wf:
  assumes "mode_wf cfg s" shows "mode_wf cfg (mode_step cfg s e)"
proof (cases e)
  case (UpdateMode now t recent th d pnl)
  let ?s = "s\<lparr>sy_state := observe t recent (sy_state s)\<rparr>"
  have w: "mode_wf cfg ?s" using assms observe_windows[of "sy_state s" t recent] by (simp add: mode_wf_def)
  have safe: "should_go_safe cfg now t th d st \<Longrightarrow> \<not> md_paper cfg" for st by (simp add: should_go_safe_def)
  show ?thesis unfolding UpdateMode mode_step_def mode_event.case update_trading_mode_def Let_def
    using w safe by (auto simp: mode_wf_def switch_to_def record_switch_def split: trading_mode.split)
next
  case (TradeResult w)
  then show ?thesis using assms by (simp add: mode_step_def mode_wf_def record_trade_result_def)
qed

interpretation mode_wf: invariant_system "mode_step cfg" "mode_wf cfg" "\<lambda>_. True"
  by unfold_locales (rule mode_step_wf)

lemma looser_thresholds: "looser (greek_limits_of (AGGRESSIVE_THRESHOLDS p)) (greek_limits_of (SAFE_THRESHOLDS p))"
  by (simp add: looser_def greek_limits_of_def AGGRESSIVE_THRESHOLDS_def SAFE_THRESHOLDS_def)

text \<open>C34: Lockdown is final for the day: once the mode is LOCKDOWN, no sequence of updates and trade results - a
  recovered result of the day included - allows entries again; only \<open>reset_mode\<close> does.\<close>

theorem lockdown_blocks_entries:
  assumes "sy_mode s = Lockdown"
  shows "\<not> is_entries_allowed (foldl (mode_step cfg) s es)"
  using lockdown.inv_run[OF assms, of es cfg] by (simp add: is_entries_allowed_def list_all_iff)

definition locked_system :: mode_system where
  "locked_system = switch_to (seconds 100) Lockdown (AGGRESSIVE_THRESHOLDS False) (initial_mode (default_mode_config False))"

theorem lockdown_blocks_entries_witness:
  "\<not> is_entries_allowed (foldl (mode_step (default_mode_config False)) locked_system [TradeResult True])"
  by (rule lockdown_blocks_entries) (simp add: locked_system_def switch_to_def)

text \<open>The thresholds in force are those of the mode, and the safer mode is the stricter one: in every state reached
  from the start the limits are the AGGRESSIVE or the SAFE set and match an AGGRESSIVE or SAFE mode, SAFE is never
  entered on paper, and Greeks that pass the limits in force also pass the AGGRESSIVE ones.\<close>

theorem mode_thresholds_consistent:
  "mode_wf cfg (foldl (mode_step cfg) (initial_mode cfg) es)
   \<and> (fst (greek_gate (greek_limits_of (sy_thresholds (foldl (mode_step cfg) (initial_mode cfg) es))) g d)
        \<longrightarrow> fst (greek_gate (greek_limits_of (AGGRESSIVE_THRESHOLDS (md_paper cfg))) g d))"
proof -
  have "mode_wf cfg (initial_mode cfg)" by (simp add: mode_wf_def initial_mode_def new_mode_state_def)
  from mode_wf.inv_run[OF this, of es] have w: "mode_wf cfg (foldl (mode_step cfg) (initial_mode cfg) es)"
    by (simp add: list_all_iff)
  then have "sy_thresholds (foldl (mode_step cfg) (initial_mode cfg) es)
      \<in> {AGGRESSIVE_THRESHOLDS (md_paper cfg), SAFE_THRESHOLDS (md_paper cfg)}" by (simp add: mode_wf_def)
  with w greek_gate_mono[OF looser_thresholds] show ?thesis by auto
qed

theorem mode_thresholds_consistent_witness:
  "fst (greek_gate (greek_limits_of (AGGRESSIVE_THRESHOLDS False)) \<lparr>gv_delta = 1 / 2, gv_gamma = 0, gv_theta_sec = 0\<rparr> NORMAL)"
proof -
  let ?g = "\<lparr>gv_delta = 1 / 2, gv_gamma = 0, gv_theta_sec = 0\<rparr>"
  have "fst (greek_gate (greek_limits_of (sy_thresholds (foldl (mode_step (default_mode_config False))
                (initial_mode (default_mode_config False)) []))) ?g NORMAL)"
    by (simp add: greek_gate_def greek_limits_of_def initial_mode_def AGGRESSIVE_THRESHOLDS_def default_mode_config_def)
  then show ?thesis
    using mode_thresholds_consistent[of "default_mode_config False" "[]" ?g NORMAL] by (simp add: default_mode_config_def)
qed

text \<open>A recent switch delays the lockdown. Within the cool-down after any mode switch the update returns before it
  looks at the day's loss, so with the lockdown limit already broken entries stay allowed until the cool-down ends.\<close>

theorem lockdown_waits_for_cooldown:
  assumes "ms_last_switch (sy_state s) = Some switched" "now - switched < seconds (md_switch_cooldown cfg)"
    and "sy_mode s \<noteq> Lockdown" "should_lockdown cfg daily_pnl"
  shows "is_entries_allowed (update_trading_mode cfg now t recent theta d daily_pnl s)"
  using assms by (simp add: update_trading_mode_def Let_def can_switch_def is_entries_allowed_def)

definition calm_tick :: tick where
  "calm_tick =
     \<lparr>ltp = 100, bid = 99, ask = 100, tick_timestamp = 0, original_timestamp = None, tick_symbol = ''NIFTY'',
      spot_price = 25000, tick_volume = Some 1000, data_source = ''REST'', tick_spread_pct = None, tick_delta = None,
      tick_atr = None, tick_iv = None, tick_tte_sec = None\<rparr>"

theorem lockdown_waits_for_cooldown_witness:
  "is_entries_allowed
     (update_trading_mode (default_mode_config False) (seconds 130) calm_tick [] 0 NORMAL (- 50000)
        (switch_to (seconds 100) Safe (SAFE_THRESHOLDS False) (initial_mode (default_mode_config False))))"
  by (rule lockdown_waits_for_cooldown[where switched = "seconds 100"])
    (simp_all add: switch_to_def record_switch_def default_mode_config_def should_lockdown_def seconds_def)

end
