(* ===== verification/Entry_Engine.thy ===== *)
theory Entry_Engine
  imports Smart_Scalp Session_Trend Mode_Switch
begin

text \<open>
  The entry engine (\<open>core/engines/entry_engine.py\<close>): the strategy's signal, the contract it would be executed on, the
  filters on confidence, range, premium and spread, the session gate, the live-only PTQ validation, and the parameters it
  stores for the trade manager.  The broker's symbol and its tick for the other direction are inputs.
\<close>

record entry_config =
  en_paper :: bool
  en_has_strategy :: bool
  en_scalp :: scalp_config
  en_min_confidence :: int
  en_min_confidence_3sl :: int
  en_range_enabled :: bool
  en_range_max :: real
  en_range_window :: real
  en_premium_min :: real
  en_premium_max :: real
  en_max_spread_pct :: real
  en_volume_required :: bool
  en_min_volume_ratio :: real

definition default_entry_config :: "bool \<Rightarrow> entry_config" where
  "default_entry_config paper =
     \<lparr>en_paper = paper, en_has_strategy = True, en_scalp = default_scalp_config, en_min_confidence = 70,
      en_min_confidence_3sl = 85, en_range_enabled = False, en_range_max = 0.20, en_range_window = 60, en_premium_min = 70,
      en_premium_max = 350, en_max_spread_pct = 0.6, en_volume_required = False, en_min_volume_ratio = 1.2\<rparr>"

record stored_signal = scalp_params +
  sn_ltp :: real
  sn_spot :: real
  sn_stamp :: int
  sn_recorded_at :: instant

record entry_state =
  es_params :: "stored_signal option"
  es_tracker :: trend_tracker
  es_scalp :: scalp_state
  es_trading :: trading_state
  es_cache :: greeks_cache

text \<open>What a pass reads: the tick, the rolling buffer, the broker and the thresholds of the trading mode.\<close>

record entry_input =
  ei_tick :: tick
  ei_buffer :: "tick list"
  ei_oi :: int
  ei_mono :: instant
  ei_candles :: "candle list"
  ei_symbol :: string
  ei_other_tick :: "option_type \<Rightarrow> py_error + tick option"
  ei_day_type :: day_type
  ei_limits :: greek_limits
  ei_quantity_ratio :: real
  ei_quantity_spread :: real

datatype entry_verdict = EntryWarmingUp | StrategyRejects signal_reason | CrossTickUnavailable | ConfidenceTooLow int int
  | RangeTooHigh real | PremiumBelow real | PremiumAbove real | SpreadTooWide real | SessionSkips option_type
  | TimeRejects ptq_verdict | GreeksReject greek_verdict | PriceRejects ptq_verdict | QuantityRejects ptq_verdict
  | VolumeRatioLow real | EntryTaken | PtqTaken

definition recent_ticks :: "entry_input \<Rightarrow> tick list" where
  "recent_ticks i = last_n 120 (ei_buffer i)"

definition signal_inputs_of :: "entry_input \<Rightarrow> signal_inputs" where
  "signal_inputs_of i = \<lparr>sx_ticks = recent_ticks i, sx_oi = ei_oi i, sx_mono = ei_mono i, sx_candles = ei_candles i\<rparr>"

text \<open>The contract that would be traded; a broker that raises leaves the subscribed one.\<close>

definition symbol_side :: "option_type \<Rightarrow> string" where
  "symbol_side d = (case d of CE \<Rightarrow> ''CE'' | PE \<Rightarrow> ''PE'')"

definition suffix_of :: "string \<Rightarrow> string \<Rightarrow> bool" where
  "suffix_of suffix s \<longleftrightarrow> length suffix \<le> length s \<and> drop (length s - length suffix) s = suffix"

definition execution_tick :: "entry_input \<Rightarrow> option_type \<Rightarrow> tick option" where
  "execution_tick i d =
     (if ei_symbol i \<noteq> '''' \<and> \<not> suffix_of (symbol_side d) (ei_symbol i)
      then case ei_other_tick i d of Inl _ \<Rightarrow> Some (ei_tick i) | Inr answer \<Rightarrow> answer
      else Some (ei_tick i))"

definition required_entry_confidence :: "entry_config \<Rightarrow> trading_state \<Rightarrow> int" where
  "required_entry_confidence cfg ts = (if 3 \<le> consecutive_losses ts then en_min_confidence_3sl cfg else en_min_confidence cfg)"

definition exec_spread_pct :: "tick \<Rightarrow> real" where
  "exec_spread_pct t = (if bid t \<noteq> 0 \<and> ask t \<noteq> 0 \<and> bid t < ask t then (ask t - bid t) / ask t * 100 else 0)"

definition range_rejects :: "entry_config \<Rightarrow> tick list \<Rightarrow> tick \<Rightarrow> real option" where
  "range_rejects cfg ticks t =
     (if \<not> en_range_enabled cfg then None
      else case range_position ticks (tick_symbol t) None (en_range_window cfg) 10 of
             Position p \<Rightarrow> if en_range_max cfg < p then Some p else None
           | _ \<Rightarrow> None)"

definition entry_filter :: "entry_config \<Rightarrow> trading_state \<Rightarrow> tick list \<Rightarrow> int \<Rightarrow> tick \<Rightarrow> entry_verdict option" where
  "entry_filter cfg ts ticks conf t =
     (if conf < required_entry_confidence cfg ts then Some (ConfidenceTooLow conf (required_entry_confidence cfg ts))
      else case range_rejects cfg ticks t of
             Some p \<Rightarrow> Some (RangeTooHigh p)
           | None \<Rightarrow>
               if ltp t < en_premium_min cfg then Some (PremiumBelow (ltp t))
               else if en_premium_max cfg < ltp t then Some (PremiumAbove (ltp t))
               else if bid t \<noteq> 0 \<and> ask t \<noteq> 0 \<and> bid t < ask t \<and> en_max_spread_pct cfg < exec_spread_pct t
                 then Some (SpreadTooWide (exec_spread_pct t))
               else None)"

definition session_gate :: "option_type \<Rightarrow> real \<Rightarrow> trend_tracker \<Rightarrow> bool \<times> trend_tracker" where
  "session_gate d rsi tr =
     (case d of CE \<Rightarrow> (let (r, tr') = can_trade_ce (Some rsi) tr in (fst r, tr'))
      | PE \<Rightarrow> (let (r, tr') = can_trade_pe (Some rsi) tr in (fst r, tr')))"

text \<open>\<open>_calculate_greeks\<close>: those of an at-the-money call a week from expiry at 15 percent, whatever is traded.\<close>

definition entry_greek_args :: "tick \<Rightarrow> greek_args" where
  "entry_greek_args t =
     (let spot = (if spot_price t < 10000 then ltp t * 100 else spot_price t)
      in \<lparr>ga_spot = spot, ga_strike = of_int (round_half_even (spot / 50) * 50), ga_tte = 7 / 365, ga_vol = 0.15,
          ga_rate = 0.07, ga_type = CE\<rparr>)"

definition entry_greeks :: "instant \<Rightarrow> tick \<Rightarrow> greeks_cache \<Rightarrow> greek_values \<times> greeks_cache" where
  "entry_greeks now t c =
     (let (g, c') = calculate_cached now (entry_greek_args t) c
      in (\<lparr>gv_delta = gk_delta g, gv_gamma = gk_gamma g, gv_theta_sec = gk_theta_sec g\<rparr>, c'))"

definition live_validation_verdict ::
    "entry_config \<Rightarrow> instant \<Rightarrow> entry_input \<Rightarrow> greek_values \<Rightarrow> entry_verdict option" where
  "live_validation_verdict cfg now i g =
     (case validate_time_ptq (en_paper cfg) now (gv_theta_sec g) of
        (False, v) \<Rightarrow> Some (TimeRejects v)
      | (True, _) \<Rightarrow>
          (case greek_gate (ei_limits i) g (ei_day_type i) of
             (False, v) \<Rightarrow> Some (GreeksReject v) | (True, _) \<Rightarrow> None))"

definition stored_of :: "instant \<Rightarrow> tick \<Rightarrow> scalp_params \<Rightarrow> stored_signal" where
  "stored_of now t p =
     scalp_params.extend p \<lparr>sn_ltp = ltp t, sn_spot = spot_price t,
       sn_stamp = (case original_timestamp t of Some ms \<Rightarrow> if ms \<noteq> 0 then ms else tick_timestamp t
                   | None \<Rightarrow> tick_timestamp t),
       sn_recorded_at = now\<rparr>"

text \<open>What happens to a signal of the strategy.\<close>

definition process_signal ::
    "entry_config \<Rightarrow> instant \<Rightarrow> entry_input \<Rightarrow> scalp_params \<Rightarrow> entry_state \<Rightarrow> (bool \<times> entry_verdict) \<times> entry_state" where
  "process_signal cfg now i p s =
     (case execution_tick i (sp_direction p) of
        None \<Rightarrow> ((False, CrossTickUnavailable), s)
      | Some t \<Rightarrow>
          (case entry_filter cfg (es_trading s) (recent_ticks i) (sp_confidence p) t of
             Some v \<Rightarrow> ((False, v), s)
           | None \<Rightarrow>
               let (ok, tr) = session_gate (sp_direction p) (in_rsi (sd_indicators (sp_details p))) (es_tracker s);
                   s1 = s\<lparr>es_tracker := tr\<rparr>
               in if \<not> ok then ((False, SessionSkips (sp_direction p)), s1)
                  else let s2 = s1\<lparr>es_params := Some (stored_of now t p)\<rparr>
                       in if en_paper cfg then ((True, EntryTaken), s2)
                          else let (g, c) = entry_greeks now t (es_cache s2); s3 = s2\<lparr>es_cache := c\<rparr>
                               in case live_validation_verdict cfg now i g of
                                    Some v \<Rightarrow> ((False, v), s3) | None \<Rightarrow> ((True, EntryTaken), s3)))"

text \<open>\<open>_ptq_entry_signal\<close>.\<close>

definition volume_rejects :: "entry_config \<Rightarrow> tick list \<Rightarrow> tick \<Rightarrow> real option" where
  "volume_rejects cfg ticks t =
     (if \<not> en_volume_required cfg \<or> length ticks < 60 then None
      else let avg = sum_list (map volume_of (last_n 60 ticks)) / of_nat (length (last_n 60 ticks))
           in if 0 < avg \<and> volume_of t / avg < en_min_volume_ratio cfg then Some (volume_of t / avg) else None)"

definition ptq_entry_signal ::
    "entry_config \<Rightarrow> instant \<Rightarrow> entry_input \<Rightarrow> entry_state \<Rightarrow> (py_error + bool \<times> entry_verdict) \<times> entry_state" where
  "ptq_entry_signal cfg now i s =
     (let ticks = recent_ticks i; t = ei_tick i; (g, c) = entry_greeks now t (es_cache s); s1 = s\<lparr>es_cache := c\<rparr>
      in case validate_price_ptq (en_paper cfg) t ticks of
           Inl e \<Rightarrow> (Inl e, s1)
         | Inr (False, v) \<Rightarrow> (Inr (False, PriceRejects v), s1)
         | Inr (True, _) \<Rightarrow>
             (case validate_time_ptq (en_paper cfg) now (gv_theta_sec g) of
                (False, v) \<Rightarrow> (Inr (False, TimeRejects v), s1)
              | (True, _) \<Rightarrow>
                  (case validate_quantity_ptq (en_paper cfg) (ei_quantity_ratio i) (ei_quantity_spread i) t ticks of
                     Inl e \<Rightarrow> (Inl e, s1)
                   | Inr (False, v) \<Rightarrow> (Inr (False, QuantityRejects v), s1)
                   | Inr (True, _) \<Rightarrow>
                       (case volume_rejects cfg ticks t of
                          Some r \<Rightarrow> (Inr (False, VolumeRatioLow r), s1)
                        | None \<Rightarrow>
                            (case greek_gate (ei_limits i) g (ei_day_type i) of
                               (False, v) \<Rightarrow> (Inr (False, GreeksReject v), s1)
                             | (True, _) \<Rightarrow> (Inr (True, PtqTaken), s1))))))"

definition entry_signal ::
    "entry_config \<Rightarrow> instant \<Rightarrow> entry_input \<Rightarrow> entry_state \<Rightarrow> (py_error + bool \<times> entry_verdict) \<times> entry_state" where
  "entry_signal cfg now i s0 =
     (if length (recent_ticks i) < 10 then (Inr (False, EntryWarmingUp), s0)
      else let s = s0\<lparr>es_tracker := snd (update_price (ltp (ei_tick i)) (es_tracker s0))\<rparr>
           in if \<not> en_has_strategy cfg then ptq_entry_signal cfg now i s
              else case generate_signal (en_scalp cfg) now (signal_inputs_of i) (es_trading s) (es_scalp s) of
                     (answer, ts, sc) \<Rightarrow>
                       let s1 = s\<lparr>es_trading := ts, es_scalp := sc\<rparr>
                       in case answer of
                            Inl e \<Rightarrow> (Inl e, s1)
                          | Inr outcome \<Rightarrow>
                              (case smart_scalp_signal (en_scalp cfg) outcome of
                                 None \<Rightarrow> (Inr (False, StrategyRejects (so_reason outcome)), s1\<lparr>es_params := None\<rparr>)
                               | Some p \<Rightarrow> (case process_signal cfg now i p s1 of (r, s2) \<Rightarrow> (Inr r, s2))))"

definition get_last_signal_params :: "entry_state \<Rightarrow> stored_signal option" where
  "get_last_signal_params s = es_params s"

definition get_signal_direction :: "entry_state \<Rightarrow> option_type" where
  "get_signal_direction s = (case es_params s of None \<Rightarrow> CE | Some p \<Rightarrow> sp_direction p)"

text \<open>The strategy's parameters carry no quantity, so the default is always answered.\<close>

definition get_signal_quantity :: "int \<Rightarrow> entry_state \<Rightarrow> int" where
  "get_signal_quantity ce_quantity s = ce_quantity"

definition get_signal_sl_points :: "real \<Rightarrow> entry_state \<Rightarrow> real" where
  "get_signal_sl_points fixed s = (case es_params s of None \<Rightarrow> fixed | Some p \<Rightarrow> sp_sl_points p)"

definition get_signal_tp_points :: "real \<Rightarrow> entry_state \<Rightarrow> real" where
  "get_signal_tp_points fixed s = (case es_params s of None \<Rightarrow> fixed | Some p \<Rightarrow> sp_tp_points p)"

section \<open>What an entry has passed\<close>

lemma process_signal_taken:
  assumes "process_signal cfg now i p s = ((True, v), s')"
  shows "\<exists>t. execution_tick i (sp_direction p) = Some t \<and> es_params s' = Some (stored_of now t p)
     \<and> entry_filter cfg (es_trading s) (recent_ticks i) (sp_confidence p) t = None
     \<and> es_trading s' = es_trading s
     \<and> fst (session_gate (sp_direction p) (in_rsi (sd_indicators (sp_details p))) (es_tracker s))
     \<and> (en_paper cfg \<or> live_validation_verdict cfg now i (fst (entry_greeks now t (es_cache s))) = None)"
  using assms by (auto simp: process_signal_def Let_def split: option.splits prod.splits if_splits)

lemma entry_filter_none:
  assumes "entry_filter cfg ts ticks conf t = None"
  shows "required_entry_confidence cfg ts \<le> conf" "en_premium_min cfg \<le> ltp t" "ltp t \<le> en_premium_max cfg"
    "0 \<le> en_max_spread_pct cfg \<Longrightarrow> exec_spread_pct t \<le> en_max_spread_pct cfg"
    "en_range_enabled cfg \<Longrightarrow> range_position ticks (tick_symbol t) None (en_range_window cfg) 10 = Position p
       \<Longrightarrow> p \<le> en_range_max cfg"
  using assms by (auto simp: entry_filter_def exec_spread_pct_def range_rejects_def split: if_splits option.splits)

lemma live_validation_none:
  "live_validation_verdict cfg now i g = None \<Longrightarrow>
     fst (validate_time_ptq (en_paper cfg) now (gv_theta_sec g)) \<and> fst (greek_gate (ei_limits i) g (ei_day_type i))"
  by (auto simp: live_validation_verdict_def split: prod.splits bool.splits)

lemma session_gate_asks:
  "fst (session_gate d rsi tr) = (case d of CE \<Rightarrow> fst (fst (can_trade_ce (Some rsi) tr)) | PE \<Rightarrow> fst (fst (can_trade_pe (Some rsi) tr)))"
  by (simp add: session_gate_def case_prod_beta Let_def split: option_type.split)

lemma smart_scalp_signal_some:
  "smart_scalp_signal cfg r = Some p \<Longrightarrow>
     so_direction r = Some (sp_direction p) \<and> sp_confidence p = so_confidence r \<and> so_details r = Some (sp_details p)"
  by (auto simp: smart_scalp_signal_def split: option.splits prod.splits)

text \<open>An entry decided by the strategy comes from a signal of the strategy.\<close>

lemma entry_signal_taken:
  assumes "entry_signal cfg now i s = (Inr (True, v), s')" "en_has_strategy cfg"
  shows "\<exists>p s1 r. fst (generate_signal (en_scalp cfg) now (signal_inputs_of i) (es_trading s) (es_scalp s)) = Inr r
     \<and> so_direction r = Some (sp_direction p) \<and> sp_confidence p = so_confidence r \<and> so_details r = Some (sp_details p)
     \<and> 10 \<le> length (recent_ticks i) \<and> es_tracker s1 = snd (update_price (ltp (ei_tick i)) (es_tracker s)) \<and> es_cache s1 = es_cache s
     \<and> process_signal cfg now i p s1 = ((True, v), s')"
proof -
  let ?s = "s\<lparr>es_tracker := snd (update_price (ltp (ei_tick i)) (es_tracker s))\<rparr>"
  obtain answer ts sc where g: "generate_signal (en_scalp cfg) now (signal_inputs_of i) (es_trading s) (es_scalp s)
      = (answer, ts, sc)" by (metis prod_cases3)
  let ?s1 = "?s\<lparr>es_trading := ts, es_scalp := sc\<rparr>"
  obtain r where r: "answer = Inr r" using assms by (cases answer) (auto simp: entry_signal_def g split: if_splits)
  obtain p where p: "smart_scalp_signal (en_scalp cfg) r = Some p" "process_signal cfg now i p ?s1 = ((True, v), s')"
    using assms by (auto simp: entry_signal_def g r Let_def split: if_splits option.splits prod.splits)
  have "10 \<le> length (recent_ticks i)" using assms by (auto simp: entry_signal_def split: if_splits)
  then show ?thesis using smart_scalp_signal_some[OF p(1)] p(2) by (intro exI[of _ p] exI[of _ ?s1]) (simp add: g r)
qed

text \<open>C2: What is entered has passed every filter, on the contract that will be traded. When the engine returns True the
  strategy signalled through all of its own gates (session time, quote, premium band and course, delta band, market quality,
  chop, pullback, weighted score, losing streak of the direction, exhaustion and confidence), the confidence reaches the
  threshold that the current losing streak requires, the position in the recent range, the premium and the spread are those
  of the contract of the signal's direction and lie within their limits, the direction's session gate agreed on the strategy's
  own RSI, on live trading the time and the Greeks validation passed too, and the stored parameters are those of this very
  signal.\<close>

theorem entry_passes_filters:
  assumes "entry_signal cfg now i s = (Inr (True, v), s')" "en_has_strategy cfg" "0 \<le> en_max_spread_pct cfg"
  shows "\<exists>p t. es_params s' = Some (stored_of now t p) \<and> execution_tick i (sp_direction p) = Some t
     \<and> 10 \<le> length (recent_ticks i)
     \<and> signal_gates (en_scalp cfg) now (signal_inputs_of i) (es_trading s) (es_scalp s) (sp_direction p) (sp_confidence p)
         (sd_indicators (sp_details p))
     \<and> required_entry_confidence cfg (es_trading s') \<le> sp_confidence p
     \<and> (en_range_enabled cfg \<longrightarrow>
          (\<forall>r. range_position (recent_ticks i) (tick_symbol t) None (en_range_window cfg) 10 = Position r \<longrightarrow> r \<le> en_range_max cfg))
     \<and> en_premium_min cfg \<le> ltp t \<and> ltp t \<le> en_premium_max cfg \<and> exec_spread_pct t \<le> en_max_spread_pct cfg
     \<and> (let tr = snd (update_price (ltp (ei_tick i)) (es_tracker s)); rsi = Some (in_rsi (sd_indicators (sp_details p)))
        in case sp_direction p of CE \<Rightarrow> fst (fst (can_trade_ce rsi tr)) | PE \<Rightarrow> fst (fst (can_trade_pe rsi tr)))
     \<and> (\<not> en_paper cfg \<longrightarrow>
          (let g = fst (entry_greeks now t (es_cache s))
           in fst (validate_time_ptq False now (gv_theta_sec g)) \<and> fst (greek_gate (ei_limits i) g (ei_day_type i))))"
proof -
  obtain p s1 r where g: "fst (generate_signal (en_scalp cfg) now (signal_inputs_of i) (es_trading s) (es_scalp s)) = Inr r"
    "so_direction r = Some (sp_direction p)" "sp_confidence p = so_confidence r" "so_details r = Some (sp_details p)"
    "10 \<le> length (recent_ticks i)"
    "es_tracker s1 = snd (update_price (ltp (ei_tick i)) (es_tracker s))" "es_cache s1 = es_cache s"
    "process_signal cfg now i p s1 = ((True, v), s')"
    using entry_signal_taken[OF assms(1,2)] by blast
  obtain t where t: "execution_tick i (sp_direction p) = Some t" "es_params s' = Some (stored_of now t p)"
    "entry_filter cfg (es_trading s1) (recent_ticks i) (sp_confidence p) t = None" "es_trading s' = es_trading s1"
    "fst (session_gate (sp_direction p) (in_rsi (sd_indicators (sp_details p))) (es_tracker s1))"
    "en_paper cfg \<or> live_validation_verdict cfg now i (fst (entry_greeks now t (es_cache s1))) = None"
    using process_signal_taken[OF g(8)] by blast
  note filters = entry_filter_none[OF t(3)]
  have live: "\<not> en_paper cfg \<Longrightarrow> fst (validate_time_ptq False now (gv_theta_sec (fst (entry_greeks now t (es_cache s)))))
      \<and> fst (greek_gate (ei_limits i) (fst (entry_greeks now t (es_cache s))) (ei_day_type i))"
    using t(6) live_validation_none[of cfg now i] g(7) by auto
  have gates: "signal_gates (en_scalp cfg) now (signal_inputs_of i) (es_trading s) (es_scalp s) (sp_direction p)
      (sp_confidence p) (sd_indicators (sp_details p))"
    using generate_signal_gates[OF g(1,2)] g(3,4) by auto
  show ?thesis
    by (rule exI[of _ p], rule exI[of _ t])
      (use t gates filters g(5) live assms(3) in \<open>simp add: session_gate_asks g(6) Let_def\<close>)
qed

text \<open>On the rising market of the strategy the engine enters.\<close>

definition rising_entry :: entry_input where
  "rising_entry =
     \<lparr>ei_tick = liquid_tick, ei_buffer = replicate 10 liquid_tick, ei_oi = 0, ei_mono = 0,
      ei_candles = map rising_candle [0..<15], ei_symbol = ''NIFTY25000CE'', ei_other_tick = (\<lambda>_. Inr None),
      ei_day_type = NORMAL, ei_limits = greek_limits_of (AGGRESSIVE_THRESHOLDS True), ei_quantity_ratio = 1,
      ei_quantity_spread = 1\<rparr>"

definition lenient_entry :: entry_config where
  "lenient_entry = (default_entry_config True)\<lparr>en_scalp := lenient_config, en_min_confidence := 0\<rparr>"

definition opened_state :: "real \<Rightarrow> entry_state" where
  "opened_state base = \<lparr>es_params = None, es_tracker = start_session base new_tracker, es_scalp = new_scalp,
     es_trading = initial_trading_state, es_cache = clear_cache\<rparr>"

lemma rising_entry_taken: "\<exists>s'. entry_signal lenient_entry 0 rising_entry (opened_state 100) = (Inr (True, EntryTaken), s')"
proof -
  let ?s = "(opened_state 100)\<lparr>es_tracker := snd (update_price (ltp (ei_tick rising_entry)) (es_tracker (opened_state 100)))\<rparr>"
  have ticks: "recent_ticks rising_entry = replicate 10 liquid_tick" "signal_inputs_of rising_entry = rising_inputs"
    by (simp_all add: recent_ticks_def rising_entry_def signal_inputs_of_def rising_inputs_def last_n_def)
  obtain r sc where g: "generate_signal lenient_config 0 rising_inputs initial_trading_state new_scalp
      = (Inr r, initial_trading_state, sc)" and r: "so_direction r = Some CE" "so_details r \<noteq> None" "0 \<le> so_confidence r"
    using rising_signal by blast
  obtain det where d: "so_details r = Some det" using r by auto
  obtain p where p: "smart_scalp_signal lenient_config r = Some p" "sp_direction p = CE" "0 \<le> sp_confidence p"
    using r by (cases "entry_points lenient_config (sd_indicators det)") (auto simp: smart_scalp_signal_def d)
  have tr: "current_trend (es_tracker ?s) = Sideways"
    using update_price_trend(2)[OF start_session_opened[of 100 new_tracker], of 100]
    by (simp add: opened_state_def rising_entry_def liquid_tick_def plain_tick_def opening_signal_def)
  have t: "execution_tick rising_entry CE = Some liquid_tick"
    by (simp add: execution_tick_def suffix_of_def symbol_side_def rising_entry_def)
  have f: "entry_filter lenient_entry initial_trading_state ticks (sp_confidence p) liquid_tick = None" for ticks
    using p(3) by (simp add: entry_filter_def required_entry_confidence_def initial_trading_state_def lenient_entry_def
        default_entry_config_def range_rejects_def liquid_tick_def plain_tick_def exec_spread_pct_def)
  have gate: "fst (session_gate CE x (es_tracker ?s))" for x
    using tr by (simp add: session_gate_def can_trade_ce_def ce_ok_def with_rsi_def update_rsi_def Let_def)
  let ?s1 = "?s\<lparr>es_trading := initial_trading_state, es_scalp := sc\<rparr>"
  have paper: "en_paper lenient_entry" "es_trading ?s1 = initial_trading_state" "es_tracker ?s1 = es_tracker ?s"
    by (simp_all add: lenient_entry_def default_entry_config_def)
  obtain tr where tr: "session_gate CE (in_rsi (sd_indicators (sp_details p))) (es_tracker ?s) = (True, tr)"
    using gate by (metis (full_types) prod.collapse)
  obtain s' where "process_signal lenient_entry 0 rising_entry p ?s1 = ((True, EntryTaken), s')"
    unfolding process_signal_def p(2) t paper(2,3) option.case f tr by (auto simp: paper(1) Let_def)
  then show ?thesis
    using g by (simp add: entry_signal_def ticks p(1) opened_state_def lenient_entry_def default_entry_config_def Let_def)
qed

theorem entry_passes_filters_witness:
  "\<exists>s' p. entry_signal lenient_entry 0 rising_entry (opened_state 100) = (Inr (True, EntryTaken), s')
     \<and> es_params s' = Some (stored_of 0 liquid_tick p) \<and> sp_direction p = CE
     \<and> signal_gates lenient_config 0 rising_inputs initial_trading_state new_scalp CE (sp_confidence p)
         (sd_indicators (sp_details p))"
proof -
  obtain s' where s': "entry_signal lenient_entry 0 rising_entry (opened_state 100) = (Inr (True, EntryTaken), s')"
    using rising_entry_taken by blast
  have c: "en_has_strategy lenient_entry" "0 \<le> en_max_spread_pct lenient_entry" "en_scalp lenient_entry = lenient_config"
    "signal_inputs_of rising_entry = rising_inputs" "es_trading (opened_state 100) = initial_trading_state"
    "es_scalp (opened_state 100) = new_scalp"
    "execution_tick rising_entry PE = None" "execution_tick rising_entry CE = Some liquid_tick"
    by (simp_all add: lenient_entry_def default_entry_config_def recent_ticks_def rising_entry_def signal_inputs_of_def
        rising_inputs_def last_n_def opened_state_def execution_tick_def suffix_of_def symbol_side_def)
  obtain p t where p: "es_params s' = Some (stored_of 0 t p)" "execution_tick rising_entry (sp_direction p) = Some t"
    "signal_gates lenient_config 0 rising_inputs initial_trading_state new_scalp (sp_direction p) (sp_confidence p)
       (sd_indicators (sp_details p))"
    using entry_passes_filters[OF s' c(1,2)] unfolding c(3-6) by (elim exE conjE) blast
  then have "sp_direction p = CE" using c(7) by (cases "sp_direction p") auto
  then show ?thesis using s' p c(8) by auto
qed

section \<open>The live Greeks gate\<close>

lemma sqrt_week: "0.1384 \<le> sqrt (7 / 365)" "sqrt (7 / 365) \<le> 0.1385"
  by (rule real_le_rsqrt, simp add: power2_eq_square) (rule real_le_lsqrt, simp_all add: power2_eq_square)

lemma norm_pdf_le: "norm_pdf x \<le> 0.43"
proof -
  have "2.375 \<le> sqrt (2 * pi)" using pi_ge by (intro real_le_rsqrt) (simp add: power2_eq_square)
  then have "norm_pdf x \<le> 1 / 2.375" unfolding norm_pdf_def by (intro frac_le) simp_all
  then show ?thesis by simp
qed

lemma norm_pdf_pos: "0 < norm_pdf x"
  by (simp add: norm_pdf_def)

lemma d1_week:
  assumes "9999 \<le> s" "\<bar>s - k\<bar> \<le> 25"
  shows "\<bar>d1_of s k (7 / 365) 0.07 0.15\<bar> \<le> 0.2"
proof -
  have "\<bar>ln (s / k)\<bar> \<le> 25 / 9974" using assms by (intro ln_near_money) (auto simp: abs_le_iff)
  then have "\<bar>ln (s / k) + 91 / 58400\<bar> \<le> 207 / 50000" unfolding abs_le_iff by linarith
  then have n: "\<bar>ln (s / k) + (0.07 + 0.5 * 0.15\<^sup>2) * (7 / 365)\<bar> \<le> 0.00414" by (simp add: power2_eq_square)
  have d: "0.0207 \<le> 0.15 * sqrt (7 / 365)" using sqrt_week(1) by simp
  have "\<bar>d1_of s k (7 / 365) 0.07 0.15\<bar>
      = \<bar>ln (s / k) + (0.07 + 0.5 * 0.15\<^sup>2) * (7 / 365)\<bar> / (0.15 * sqrt (7 / 365))"
    unfolding d1_of_def abs_divide using d by simp
  also have "\<dots> \<le> 0.00414 / 0.0207" using n d by (intro frac_le) simp_all
  finally show ?thesis by simp
qed

lemma week_greeks:
  assumes "9999 \<le> s" "s \<le> 40001" "\<bar>s - k\<bar> \<le> 25"
  defines "g \<equiv> calculate_greeks s k (7 / 365) 0.15 0.07 CE"
  shows "0.4 \<le> \<bar>gk_delta g\<bar>" "\<bar>gk_delta g\<bar> \<le> 0.6" "gk_gamma g \<le> 0.01" "gk_theta_sec g \<le> 0.0005"
proof -
  let ?t = "7 / 365 :: real"
  define d1 where "d1 = d1_of s k ?t 0.07 0.15"
  define d2 where "d2 = d2_of s k ?t 0.07 0.15"
  have k: "0 < k" "k \<le> 40026" "0 < s" using assms by (auto simp: abs_le_iff)
  have z: "\<bar>d1\<bar> \<le> 0.2" unfolding d1_def by (rule d1_week[OF assms(1,3)])
  define v where "v = 0.15 * sqrt ?t"
  have v: "0 \<le> v" "v \<le> 3/100" using sqrt_week by (simp_all add: v_def)
  have "d2 = d1 - v" by (simp add: d2_def d1_def d2_of_def v_def)
  moreover have "\<bar>d1\<bar> \<le> 1/5" using z by simp
  ultimately have "\<bar>d2\<bar> \<le> 23/100" using v unfolding abs_le_iff by linarith
  then have z2: "\<bar>d2\<bar> \<le> 0.23" by simp
  have n1: "\<bar>norm_cdf d1 - 1/2\<bar> \<le> 0.086" using norm_cdf_near[of d1] z by simp
  have n2: "\<bar>norm_cdf d2 - 1/2\<bar> \<le> 0.0989" using norm_cdf_near[of d2] z2 by simp
  have delta: "gk_delta g = norm_cdf d1" using k by (simp add: g_def calculate_greeks_def d1_def Let_def)
  show "0.4 \<le> \<bar>gk_delta g\<bar>" "\<bar>gk_delta g\<bar> \<le> 0.6" using n1 unfolding delta abs_le_iff by auto
  have "gk_gamma g = norm_pdf d1 / (s * 0.15 * sqrt ?t)" using k by (simp add: g_def calculate_greeks_def d1_def Let_def)
  also have "\<dots> \<le> 0.43 / (9999 * 0.15 * 0.1384)"
    using norm_pdf_le[of d1] assms(1) sqrt_week(1) by (intro frac_le mult_mono) simp_all
  also have "\<dots> \<le> 0.01" by simp
  finally show "gk_gamma g \<le> 0.01" .
  define decay where "decay = s * norm_pdf d1 * 0.15 / (2 * sqrt ?t)"
  define carry where "carry = 0.07 * k * exp (- 0.07 * ?t) * norm_cdf d2"
  have "decay \<le> 40001 * 0.43 * 0.15 / (2 * 0.1384)"
    unfolding decay_def using norm_pdf_le[of d1] norm_pdf_pos[of d1] assms(2) k sqrt_week(1) by (intro frac_le mult_mono) simp_all
  moreover have "0 \<le> decay" unfolding decay_def using norm_pdf_pos[of d1] k by simp
  moreover have "\<bar>norm_cdf d2 - 1/2\<bar> \<le> 1/10" using n2 by simp
  then have "0 \<le> norm_cdf d2" "norm_cdf d2 \<le> 6/10" unfolding abs_le_iff by linarith+
  then have "carry \<le> 0.07 * 40026 * 1 * 0.6" "0 \<le> carry"
    unfolding carry_def using k by (intro mult_mono mult_nonneg_nonneg; simp)+
  moreover have "gk_theta_sec g = (decay + carry) / 365 / 86400"
    if "0 \<le> decay" "0 \<le> carry"
  proof -
    have "gk_theta_sec g = \<bar>(- decay - carry) / 365 / 86400\<bar>"
      using k by (simp add: g_def calculate_greeks_def d1_def d2_def decay_def carry_def Let_def)
    also have "\<dots> = (decay + carry) / 365 / 86400" using that by (simp add: abs_if field_simps)
    finally show ?thesis .
  qed
  ultimately show "gk_theta_sec g \<le> 0.0005" by simp
qed


text \<open>The entries of the engine's cache are answers to its own requests.\<close>

definition entry_cache_ok :: "greeks_cache \<Rightarrow> bool" where
  "entry_cache_ok c \<longleftrightarrow> (\<forall>key g stored spot. c key = Some (g, stored, spot) \<longrightarrow>
     (\<exists>t. key = cache_key (entry_greek_args t) \<and> g = greeks_at (entry_greek_args t)))"

lemma entry_greeks_cache:
  "entry_cache_ok c \<Longrightarrow> entry_cache_ok (snd (entry_greeks now t c))"
  by (auto simp: entry_cache_ok_def entry_greeks_def calculate_cached_def Let_def split: option.splits prod.splits)

lemma entry_greeks_answer:
  assumes "entry_cache_ok c"
  shows "\<exists>u. cache_key (entry_greek_args u) = cache_key (entry_greek_args t)
     \<and> fst (entry_greeks now t c) = (let g = greeks_at (entry_greek_args u) in
          \<lparr>gv_delta = gk_delta g, gv_gamma = gk_gamma g, gv_theta_sec = gk_theta_sec g\<rparr>)"
proof (cases "c (cache_key (entry_greek_args t))")
  case None
  then show ?thesis by (intro exI[of _ t]) (simp add: entry_greeks_def calculate_cached_def Let_def)
next
  case (Some e)
  obtain g stored spot where e: "e = (g, stored, spot)" by (metis prod_cases3)
  obtain u where "cache_key (entry_greek_args t) = cache_key (entry_greek_args u)" "g = greeks_at (entry_greek_args u)"
    using assms Some unfolding entry_cache_ok_def e by blast
  then show ?thesis
    using Some e by (auto simp: entry_greeks_def calculate_cached_def Let_def)
qed

lemma same_key_spot: "cache_key a = cache_key b \<Longrightarrow> \<bar>ga_spot a - ga_spot b\<bar> \<le> 1/10"
proof -
  assume "cache_key a = cache_key b"
  then have "py_round 1 (ga_spot a) = py_round 1 (ga_spot b)" by (simp add: cache_key_def)
  moreover have "\<bar>py_round 1 x - x\<bar> \<le> 1/20" for x using py_round_error[of 1 x] by simp
  from this[of "ga_spot a"] this[of "ga_spot b"] calculation show ?thesis by (simp only: abs_le_iff) linarith
qed

lemma process_signal_cache:
  assumes "entry_cache_ok (es_cache s)"
  shows "entry_cache_ok (es_cache (snd (process_signal cfg now i p s)))"
  using assms entry_greeks_cache[of "es_cache s" now]
  by (auto simp: process_signal_def Let_def split: option.split prod.split) (metis snd_conv)+

lemma ptq_cache: "es_cache (snd (ptq_entry_signal cfg now i s)) = snd (entry_greeks now (ei_tick i) (es_cache s))"
  by (auto simp: ptq_entry_signal_def Let_def split: prod.split sum.split option.split bool.split)

lemma entry_signal_cache:
  assumes "entry_cache_ok (es_cache s)" shows "entry_cache_ok (es_cache (snd (entry_signal cfg now i s)))"
proof -
  obtain answer ts sc where g: "generate_signal (en_scalp cfg) now (signal_inputs_of i) (es_trading s) (es_scalp s)
      = (answer, ts, sc)" by (metis prod_cases3)
  show ?thesis
    using assms ptq_cache[of cfg now i] entry_greeks_cache process_signal_cache[of "s\<lparr>es_tracker := _, es_trading := ts, es_scalp := sc\<rparr>"]
    by (auto simp: entry_signal_def g Let_def split: sum.split option.split prod.split) (metis snd_conv)
qed

interpretation entry_cache: invariant_system "\<lambda>s (now, i). snd (entry_signal cfg now i s)"
  "\<lambda>s. entry_cache_ok (es_cache s)" "\<lambda>_. True"
  by unfold_locales (auto intro: entry_signal_cache)

definition entry_run :: "entry_config \<Rightarrow> (instant \<times> entry_input) list \<Rightarrow> entry_state \<Rightarrow> entry_state" where
  "entry_run cfg es s = foldl (\<lambda>s (now, i). snd (entry_signal cfg now i s)) s es"

end
