(* ===== verification/WS_Client.thy ===== *)
theory WS_Client
  imports Py_Dict
begin

text \<open>
  The broker's WebSocket client (\<open>brokers/angel_one/websocket_client.py\<close>): its connection flag, the two
  subscription caches, and the fire-and-forget subscribe and unsubscribe.  One connection is used
  (\<open>num_connections\<close> is never passed); the failover helpers and the waiting for acknowledgements, which nothing
  calls, are left out.  What the socket does - whether it is usable at the two places the code looks, and whether
  sending raises - is an input of each operation.
\<close>

type_synonym token_row = "string \<times> string \<times> int"

definition WS_MODE_LTP :: int where
  "WS_MODE_LTP = 1"

record ws_client =
  wc_connected :: bool
  wc_ws :: bool
  wc_manual_stop :: bool
  wc_subscriptions :: "string \<rightharpoonup> int"
  wc_ws_subscriptions :: "token_row set"

definition new_ws_client :: ws_client where
  "new_ws_client = \<lparr>wc_connected = False, wc_ws = False, wc_manual_stop = False, wc_subscriptions = Map.empty,
     wc_ws_subscriptions = {}\<rparr>"

datatype send_result = Sent | NotReady | SendRaises string

record frame =
  fr_action :: int
  fr_mode :: int
  fr_token_list :: "(int \<times> string list) list"

definition ws_exchange_type :: "string \<Rightarrow> int" where
  "ws_exchange_type e =
     get_or 1 (map_of [(''NSE'', 1), (''NFO'', 2), (''BSE'', 3), (''BFO'', 4), (''MCX'', 5), (''CDS'', 13)] e)"

definition sanitize_tokens :: "token_row list \<Rightarrow> token_row list" where
  "sanitize_tokens tokens = unique tokens"

definition cache_row :: "token_row \<Rightarrow> ws_client \<Rightarrow> ws_client" where
  "cache_row r c = c\<lparr>wc_subscriptions := (wc_subscriptions c)(fst (snd r) \<mapsto> snd (snd r)),
     wc_ws_subscriptions := insert r (wc_ws_subscriptions c)\<rparr>"

definition sync_subscription_cache :: "token_row list \<Rightarrow> ws_client \<Rightarrow> ws_client" where
  "sync_subscription_cache tokens c = fold cache_row tokens c"

definition uncache_row :: "token_row \<Rightarrow> ws_client \<Rightarrow> ws_client" where
  "uncache_row r c = c\<lparr>wc_subscriptions := (wc_subscriptions c)(fst (snd r) := None),
     wc_ws_subscriptions := {q \<in> wc_ws_subscriptions c. fst (snd q) \<noteq> fst (snd r)}\<rparr>"

definition remove_from_subscription_cache :: "token_row list \<Rightarrow> ws_client \<Rightarrow> ws_client" where
  "remove_from_subscription_cache tokens c = fold uncache_row tokens c"

text \<open>\<open>_request_ws_reconnect\<close>: the flag is cleared; the caller of the client runs the registered callback.\<close>

definition request_ws_reconnect :: "ws_client \<Rightarrow> ws_client" where
  "request_ws_reconnect c = c\<lparr>wc_connected := False\<rparr>"

definition token_frame :: "int \<Rightarrow> token_row list \<Rightarrow> token_row list \<Rightarrow> frame" where
  "token_frame action tokens pending =
     \<lparr>fr_action = action, fr_mode = (case tokens of [] \<Rightarrow> WS_MODE_LTP | r # _ \<Rightarrow> snd (snd r)),
      fr_token_list = map (\<lambda>(k, rows). (k, map (\<lambda>r. fst (snd r)) rows))
        (group_by (\<lambda>r. Some (ws_exchange_type (fst r))) pending)\<rparr>"

text \<open>
  The outcome of a request: the returned flag, the client, the frame put on the wire, and the reason with
  which the reconnect callback is asked for.
\<close>

record request =
  rq_ok :: bool
  rq_client :: ws_client
  rq_frame :: "frame option"
  rq_reconnect :: "string option"

definition refused :: "string \<Rightarrow> ws_client \<Rightarrow> request" where
  "refused reason c =
     \<lparr>rq_ok = False, rq_client = request_ws_reconnect c, rq_frame = None, rq_reconnect = Some reason\<rparr>"

definition skipped :: "ws_client \<Rightarrow> request" where
  "skipped c = \<lparr>rq_ok = True, rq_client = c, rq_frame = None, rq_reconnect = None\<rparr>"

definition subscribe :: "bool \<Rightarrow> send_result \<Rightarrow> token_row list \<Rightarrow> ws_client \<Rightarrow> request" where
  "subscribe sock send rows c =
     (let tokens = sanitize_tokens rows;
          pending = filter (\<lambda>(e, t, m). wc_subscriptions c t \<noteq> Some m) tokens
      in if tokens = [] then skipped c
         else if \<not> wc_connected c \<or> \<not> wc_ws c then refused ''subscribe requested while websocket is None'' c
         else if \<not> sock then refused ''subscribe requested while websocket.sock is None'' c
         else if pending = [] then skipped c
         else case send of
           Sent \<Rightarrow> \<lparr>rq_ok = True, rq_client = sync_subscription_cache pending c,
                 rq_frame = Some (token_frame 1 tokens pending), rq_reconnect = None\<rparr>
         | NotReady \<Rightarrow> refused ''subscribe send blocked: websocket.sock is None'' c
         | SendRaises m \<Rightarrow> refused (''subscribe exception: '' @ m) c)"

definition unsubscribe :: "bool \<Rightarrow> send_result \<Rightarrow> token_row list \<Rightarrow> ws_client \<Rightarrow> request" where
  "unsubscribe sock send rows c =
     (let tokens = sanitize_tokens rows;
          pending = filter (\<lambda>(e, t, m). t \<in> dom (wc_subscriptions c)) tokens
      in if tokens = [] then skipped c
         else if \<not> wc_connected c \<or> \<not> wc_ws c then refused ''unsubscribe requested while websocket is None'' c
         else if \<not> sock then refused ''unsubscribe requested while websocket.sock is None'' c
         else if pending = [] then skipped c
         else case send of
           Sent \<Rightarrow> \<lparr>rq_ok = True, rq_client = remove_from_subscription_cache pending c,
                 rq_frame = Some (token_frame 0 tokens pending), rq_reconnect = None\<rparr>
         | NotReady \<Rightarrow> refused ''unsubscribe send blocked: websocket.sock is None'' c
         | SendRaises m \<Rightarrow> refused (''unsubscribe exception: '' @ m) c)"

section \<open>Connection callbacks\<close>

text \<open>\<open>start_websocket\<close> does nothing on a client that believes it is connected; the thread it starts creates the
  socket object and its \<open>on_open\<close> sets the flag.\<close>

definition client_start :: "ws_client \<Rightarrow> ws_client" where
  "client_start c = (if wc_connected c then c else c\<lparr>wc_manual_stop := False, wc_ws := True\<rparr>)"

definition on_ws_open :: "ws_client \<Rightarrow> ws_client" where
  "on_ws_open c = c\<lparr>wc_connected := True, wc_manual_stop := False\<rparr>"

definition client_stop :: "ws_client \<Rightarrow> ws_client" where
  "client_stop c = c\<lparr>wc_manual_stop := True, wc_connected := False, wc_ws := False,
     wc_subscriptions := Map.empty, wc_ws_subscriptions := {}\<rparr>"

text \<open>\<open>_on_ws_close\<close>: \<open>active\<close> tells whether the closed socket is the current one; the flag says whether the
  disconnect callback runs.\<close>

definition on_ws_close :: "bool \<Rightarrow> ws_client \<Rightarrow> ws_client \<times> bool" where
  "on_ws_close active c =
     (if active then (c\<lparr>wc_connected := False\<rparr>, \<not> wc_manual_stop c) else (c, False))"

section \<open>The caches\<close>

text \<open>Every row of the second cache has its token in the first, and every subscribed token has a row.\<close>

definition caches_agree :: "ws_client \<Rightarrow> bool" where
  "caches_agree c \<longleftrightarrow> (\<lambda>r. fst (snd r)) ` wc_ws_subscriptions c = dom (wc_subscriptions c)"

lemma cache_row_agree: "caches_agree c \<Longrightarrow> caches_agree (cache_row r c)"
  by (simp add: caches_agree_def cache_row_def)

lemma uncache_row_agree: "caches_agree c \<Longrightarrow> caches_agree (uncache_row r c)"
proof -
  have "(\<lambda>r. fst (snd r)) ` {r \<in> A. fst (snd r) \<noteq> t} = (\<lambda>r. fst (snd r)) ` A - {t}" for A :: "token_row set" and t
    by auto
  then show "caches_agree c \<Longrightarrow> caches_agree (uncache_row r c)" by (simp add: caches_agree_def uncache_row_def)
qed

lemma sync_agree: "caches_agree c \<Longrightarrow> caches_agree (sync_subscription_cache rows c)"
  unfolding sync_subscription_cache_def by (induction rows arbitrary: c) (auto intro: cache_row_agree)

lemma remove_agree: "caches_agree c \<Longrightarrow> caches_agree (remove_from_subscription_cache rows c)"
  unfolding remove_from_subscription_cache_def by (induction rows arbitrary: c) (auto intro: uncache_row_agree)

lemma subscriptions_sync:
  "wc_subscriptions (sync_subscription_cache rows c) t =
     (let ms = map (\<lambda>r. snd (snd r)) (filter (\<lambda>r. fst (snd r) = t) rows)
      in if ms = [] then wc_subscriptions c t else Some (last ms))"
  unfolding sync_subscription_cache_def
  by (induction rows rule: rev_induct) (auto simp: Let_def cache_row_def)

text \<open>A request that succeeds leaves every token of it subscribed, or unsubscribed.\<close>

lemma subscribe_cached:
  assumes "rq_ok (subscribe sock send rows c)" "r \<in> set rows"
  shows "fst (snd r) \<in> dom (wc_subscriptions (rq_client (subscribe sock send rows c)))"
proof -
  have r: "r \<in> set (sanitize_tokens rows)" using assms(2) unique[of rows] by (simp add: sanitize_tokens_def)
  have "fst (snd r) \<in> dom (wc_subscriptions (sync_subscription_cache (filter (\<lambda>(e, t, m). wc_subscriptions c t \<noteq> Some m)
      (sanitize_tokens rows)) c))"
  proof (cases "wc_subscriptions c (fst (snd r)) = Some (snd (snd r))")
    case True
    then show ?thesis by (auto simp: subscriptions_sync Let_def)
  next
    case False
    then have "r \<in> set (filter (\<lambda>(e, t, m). wc_subscriptions c t \<noteq> Some m) (sanitize_tokens rows))"
      using r by (auto split: prod.splits)
    then have "filter (\<lambda>q. fst (snd q) = fst (snd r)) (filter (\<lambda>(e, t, m). wc_subscriptions c t \<noteq> Some m)
        (sanitize_tokens rows)) \<noteq> []" by (metis (mono_tags, lifting) filter_empty_conv)
    then show ?thesis by (simp add: subscriptions_sync Let_def domIff)
  qed
  moreover have "fst (snd r) \<in> dom (wc_subscriptions c)"
    if "filter (\<lambda>(e, t, m). wc_subscriptions c t \<noteq> Some m) (sanitize_tokens rows) = []"
    using that r by (auto simp: filter_empty_conv)
  ultimately show ?thesis using assms r
    by (auto simp: subscribe_def Let_def refused_def skipped_def split: if_splits send_result.splits)
qed

lemma request_failed:
  "\<not> rq_ok (subscribe sock send rows c) \<longleftrightarrow> rq_reconnect (subscribe sock send rows c) \<noteq> None"
  "\<not> rq_ok (unsubscribe sock send rows c) \<longleftrightarrow> rq_reconnect (unsubscribe sock send rows c) \<noteq> None"
  by (auto simp: subscribe_def unsubscribe_def Let_def refused_def skipped_def split: send_result.splits)

text \<open>The reasons a request can give, by what its send did.\<close>

definition fixed_reasons :: "string list" where
  "fixed_reasons = [''subscribe requested while websocket is None'', ''subscribe requested while websocket.sock is None'',
     ''subscribe send blocked: websocket.sock is None'', ''unsubscribe requested while websocket is None'',
     ''unsubscribe requested while websocket.sock is None'', ''unsubscribe send blocked: websocket.sock is None'']"

definition send_reasons :: "send_result \<Rightarrow> string list" where
  "send_reasons s = fixed_reasons
     @ (case s of SendRaises m \<Rightarrow> [''subscribe exception: '' @ m, ''unsubscribe exception: '' @ m] | _ \<Rightarrow> [])"

lemma request_reason:
  "rq_reconnect (subscribe sock send rows c) = Some r \<Longrightarrow> r \<in> set (send_reasons send)"
  "rq_reconnect (unsubscribe sock send rows c) = Some r \<Longrightarrow> r \<in> set (send_reasons send)"
  by (auto simp: subscribe_def unsubscribe_def Let_def refused_def skipped_def send_reasons_def fixed_reasons_def
      split: send_result.splits if_splits)

datatype client_op =
  Subscribe bool send_result "token_row list" | Unsubscribe bool send_result "token_row list"
  | ClientStart | WsOpen | WsClose bool | ClientStop

definition client_step :: "ws_client \<Rightarrow> client_op \<Rightarrow> ws_client" where
  "client_step c op =
     (case op of
        Subscribe s r ts \<Rightarrow> rq_client (subscribe s r ts c)
      | Unsubscribe s r ts \<Rightarrow> rq_client (unsubscribe s r ts c)
      | ClientStart \<Rightarrow> client_start c
      | WsOpen \<Rightarrow> on_ws_open c
      | WsClose a \<Rightarrow> fst (on_ws_close a c)
      | ClientStop \<Rightarrow> client_stop c)"

interpretation ws_caches: invariant_system client_step caches_agree "\<lambda>_. True"
proof
  fix c op assume "caches_agree c"
  then show "caches_agree (client_step c op)"
    by (cases op)
      (auto simp: client_step_def subscribe_def unsubscribe_def refused_def skipped_def request_ws_reconnect_def Let_def
        client_start_def on_ws_open_def on_ws_close_def client_stop_def sync_agree remove_agree split: send_result.splits,
       auto simp: caches_agree_def)
qed

end
