(* ===== verification/Tick_Pipeline.thy ===== *)
theory Tick_Pipeline
  imports Prelude
begin

text \<open>
  The broker-agnostic tick path of \<open>core/market_data\<close>: the canonical tick, the validator with its
  per-token sequence tracker, the enricher, the router and the latest-tick cache.  A missing key and a key
  whose value is \<open>None\<close> read the same through \<open>dict.get\<close>, so every key is an option.
\<close>

record wire_tick =
  wt_source_broker :: "string option"
  wt_token :: "string option"
  wt_exchange :: "string option"
  wt_symbol :: "string option"
  wt_mode :: "int option"
  wt_sequence :: "int option"
  wt_timestamp_ms :: "int option"
  wt_ltp :: "real option"
  wt_volume :: "int option"
  wt_open :: "real option"
  wt_high :: "real option"
  wt_low :: "real option"
  wt_close :: "real option"
  wt_oi :: "int option"
  wt_best_bid :: "real option"
  wt_best_ask :: "real option"
  wt_bid_qty :: "int option"
  wt_ask_qty :: "int option"

text \<open>\<open>not token\<close> holds for a missing and for an empty token.\<close>

definition token_of :: "wire_tick \<Rightarrow> string" where
  "token_of t = get_or '''' (wt_token t)"

section \<open>Sequence numbers and validation\<close>

type_synonym sequence_tracker = "string \<rightharpoonup> int"

definition check_sequence :: "string \<Rightarrow> int option \<Rightarrow> sequence_tracker \<Rightarrow> bool \<times> sequence_tracker" where
  "check_sequence token sequence st =
     (case sequence of
        None \<Rightarrow> (True, st)
      | Some s \<Rightarrow> (case st token of
                     Some seen \<Rightarrow> if s \<le> seen then (False, st) else (True, st(token \<mapsto> s))
                   | None \<Rightarrow> (True, st(token \<mapsto> s))))"

definition reset_sequence :: "string option \<Rightarrow> sequence_tracker \<Rightarrow> sequence_tracker" where
  "reset_sequence token st = (case token of None \<Rightarrow> Map.empty | Some k \<Rightarrow> st(k := None))"

datatype tick_fault = MissingToken | MissingLtp | NonPositiveLtp | CrossedBook | StaleSequence

definition price_faults :: "wire_tick \<Rightarrow> tick_fault list" where
  "price_faults t =
     (case wt_ltp t of None \<Rightarrow> [MissingLtp] | Some p \<Rightarrow> if p \<le> 0 then [NonPositiveLtp] else [])
   @ (case (wt_best_bid t, wt_best_ask t) of
        (Some b, Some a) \<Rightarrow> if a < b then [CrossedBook] else [] | _ \<Rightarrow> [])"

text \<open>The verdict is the list of reasons; the tick is fine when it is empty.\<close>

definition validate_tick ::
    "wire_tick \<Rightarrow> sequence_tracker option \<Rightarrow> tick_fault list \<times> sequence_tracker option" where
  "validate_tick t tracker =
     (let faults = (if token_of t = '''' then [MissingToken] else []) @ price_faults t
      in case tracker of
           None \<Rightarrow> (faults, None)
         | Some st \<Rightarrow>
             if token_of t = '''' then (faults, Some st)
             else let (in_order, st') = check_sequence (token_of t) (wt_sequence t) st
                  in (faults @ (if in_order then [] else [StaleSequence]), Some st'))"

fun validate_all :: "sequence_tracker \<Rightarrow> wire_tick list \<Rightarrow> (wire_tick \<times> tick_fault list) list" where
  "validate_all st [] = []"
| "validate_all st (t # ts) =
     (case validate_tick t (Some st) of
        (faults, st') \<Rightarrow> (t, faults) # validate_all (get_or Map.empty st') ts)"

text \<open>The specification: of the numbers seen so far, a new one counts only if it is larger than all of them.\<close>

fun records_above :: "int option \<Rightarrow> int list \<Rightarrow> int list" where
  "records_above m [] = []"
| "records_above m (x # xs) =
     (if m = None \<or> the m < x then x # records_above (Some x) xs else records_above m xs)"

definition in_order :: "string \<Rightarrow> wire_tick \<times> tick_fault list \<Rightarrow> bool" where
  "in_order token v \<longleftrightarrow> token_of (fst v) = token \<and> wt_sequence (fst v) \<noteq> None \<and> StaleSequence \<notin> set (snd v)"

definition accepted_numbers :: "string \<Rightarrow> wire_tick list \<Rightarrow> int list" where
  "accepted_numbers token ts =
     map (\<lambda>v. the (wt_sequence (fst v))) (filter (in_order token) (validate_all Map.empty ts))"

definition sequences_of :: "string \<Rightarrow> wire_tick list \<Rightarrow> int list" where
  "sequences_of token ts =
     map (\<lambda>t. the (wt_sequence t)) (filter (\<lambda>t. token_of t = token \<and> wt_sequence t \<noteq> None) ts)"

lemma records_above_sorted:
  "sorted_wrt (<) (records_above m xs) \<and> (\<forall>x\<in>set (records_above m xs). m = None \<or> the m < x)"
  by (induction m xs rule: records_above.induct) (auto dest!: bspec intro: less_trans)

lemma records_above_complete:
  "sorted_wrt (<) xs \<Longrightarrow> m = None \<or> (\<forall>x\<in>set xs. the m < x) \<Longrightarrow> records_above m xs = xs"
  by (induction m xs rule: records_above.induct) auto

lemma no_price_fault_stale: "StaleSequence \<notin> set (price_faults t)"
  by (auto simp: price_faults_def split: option.splits)

lemma validate_tick_tracker:
  "validate_tick t (Some st) = (faults, st') \<Longrightarrow>
     st' = Some (if token_of t = '''' then st else snd (check_sequence (token_of t) (wt_sequence t) st))
   \<and> (StaleSequence \<in> set faults \<longleftrightarrow>
        token_of t \<noteq> '''' \<and> \<not> fst (check_sequence (token_of t) (wt_sequence t) st))"
  using no_price_fault_stale[of t] by (auto simp: validate_tick_def Let_def split: if_splits prod.splits)

lemma validate_all_records:
  assumes "token \<noteq> ''''"
  shows "map (\<lambda>v. the (wt_sequence (fst v))) (filter (in_order token) (validate_all st ts)) =
           records_above (st token) (sequences_of token ts)"
proof (induction ts arbitrary: st)
  case (Cons t ts)
  obtain faults st' where v: "validate_tick t (Some st) = (faults, st')" by fastforce
  note st' = validate_tick_tracker[OF v]
  show ?case
    using v st' assms Cons.IH[of "the st'"]
    by (auto simp: sequences_of_def in_order_def check_sequence_def split: option.splits if_splits)
qed (simp add: sequences_of_def)

section \<open>Enrichment\<close>

record enriched =
  en_mid_price :: "real option"
  en_spread :: "real option"
  en_spread_bps :: "real option"
  en_change_pct :: "real option"

definition enrich_tick :: "wire_tick \<Rightarrow> real option \<Rightarrow> enriched" where
  "enrich_tick t prev_close =
     (let book = (case (wt_best_bid t, wt_best_ask t) of
                    (Some b, Some a) \<Rightarrow> if 0 < b \<and> 0 < a then Some (b, a) else None
                  | _ \<Rightarrow> None);
          reference = (case prev_close of Some p \<Rightarrow> Some p | None \<Rightarrow> wt_close t)
      in \<lparr>en_mid_price = map_option (\<lambda>(b, a). py_round 2 ((b + a) / 2)) book,
          en_spread = map_option (\<lambda>(b, a). py_round 2 (a - b)) book,
          en_spread_bps =
            Option.bind book (\<lambda>(b, a). let mid = (b + a) / 2
               in if mid \<noteq> 0 then Some (py_round 2 ((a - b) / mid * 10000)) else None),
          en_change_pct =
            (case (wt_ltp t, reference) of
               (Some p, Some r) \<Rightarrow> if r \<noteq> 0 then Some (py_round 4 ((p - r) / r * 100)) else None
             | _ \<Rightarrow> None)\<rparr>)"

text \<open>A tick without a price fault and with both sides of the book is enriched with a non-negative spread.\<close>

lemma enriched_spread_nonneg:
  assumes "CrossedBook \<notin> set (price_faults t)" "wt_best_bid t = Some b" "wt_best_ask t = Some a" "0 < b"
  shows "\<exists>s bps. en_spread (enrich_tick t pc) = Some s \<and> 0 \<le> s
           \<and> en_spread_bps (enrich_tick t pc) = Some bps \<and> 0 \<le> bps"
  using assms
  by (auto simp: price_faults_def enrich_tick_def Let_def intro!: py_round_nonneg mult_nonneg_nonneg divide_nonneg_pos
      split: if_splits option.splits)

section \<open>Router and cache\<close>

record 'h tick_router =
  rt_handlers :: "string \<rightharpoonup> 'h"
  rt_default :: "'h option"

definition new_router :: "'h tick_router" where
  "new_router = \<lparr>rt_handlers = Map.empty, rt_default = None\<rparr>"

definition register :: "string \<Rightarrow> 'h \<Rightarrow> 'h tick_router \<Rightarrow> 'h tick_router" where
  "register token h r = r\<lparr>rt_handlers := (rt_handlers r)(token \<mapsto> h)\<rparr>"

definition unregister :: "string \<Rightarrow> 'h tick_router \<Rightarrow> 'h tick_router" where
  "unregister token r = r\<lparr>rt_handlers := (rt_handlers r)(token := None)\<rparr>"

definition set_default :: "'h option \<Rightarrow> 'h tick_router \<Rightarrow> 'h tick_router" where
  "set_default h r = r\<lparr>rt_default := h\<rparr>"

text \<open>The handler the tick is delivered to; \<open>None\<close> is the result \<open>False\<close>.\<close>

definition route :: "wire_tick \<Rightarrow> 'h tick_router \<Rightarrow> 'h option" where
  "route t r =
     (let own = (if token_of t = '''' then None else rt_handlers r (token_of t))
      in case own of Some h \<Rightarrow> Some h | None \<Rightarrow> rt_default r)"

type_synonym tick_cache = "string \<rightharpoonup> wire_tick"

definition update_cache :: "wire_tick \<Rightarrow> tick_cache \<Rightarrow> tick_cache" where
  "update_cache t c = (if token_of t = '''' then c else c(token_of t \<mapsto> t))"

definition cached :: "tick_cache \<Rightarrow> string \<Rightarrow> wire_tick option" where
  "cached c token = c token"

definition clear_cache :: "string option \<Rightarrow> tick_cache \<Rightarrow> tick_cache" where
  "clear_cache token c = (case token of None \<Rightarrow> Map.empty | Some k \<Rightarrow> c(k := None))"

lemma cached_latest:
  "token \<noteq> '''' \<Longrightarrow>
     cached (fold update_cache ts c) token =
       (let own = filter (\<lambda>t. token_of t = token) ts in if own = [] then cached c token else Some (last own))"
  by (induction ts rule: rev_induct) (auto simp: cached_def update_cache_def Let_def)

lemma route_registered:
  "token_of t \<noteq> '''' \<Longrightarrow> route t (register (token_of t) h r) = Some h"
  "token_of t \<noteq> k \<Longrightarrow> route t (register k h r) = route t r"
  "route t (unregister (token_of t) r) = rt_default r"
  by (auto simp: route_def register_def unregister_def Let_def split: option.splits)

section \<open>Properties\<close>

text \<open>The sequence check is the left-to-right record filter: of the sequence numbers a connection delivers for a
  token, in any interleaving with other tokens, exactly those larger than all before them pass, so the accepted
  numbers strictly increase and a number repeated or out of order never passes.\<close>

theorem accepted_sequences_are_records:
  assumes "token \<noteq> ''''"
  shows "accepted_numbers token ts = records_above None (sequences_of token ts)
       \<and> sorted_wrt (<) (accepted_numbers token ts)"
  using records_above_sorted[of None] by (simp add: accepted_numbers_def validate_all_records[OF assms])

definition sample_wire_tick :: wire_tick where
  "sample_wire_tick =
     \<lparr>wt_source_broker = Some ''angel_one'', wt_token = Some ''4711'', wt_exchange = Some ''NFO'',
      wt_symbol = None, wt_mode = Some 3, wt_sequence = Some 5, wt_timestamp_ms = Some 1700000000000,
      wt_ltp = Some 100, wt_volume = Some 1000, wt_open = Some 90, wt_high = Some 110, wt_low = Some 85,
      wt_close = Some 95, wt_oi = None, wt_best_bid = Some 99, wt_best_ask = Some 101, wt_bid_qty = Some 75,
      wt_ask_qty = Some 75\<rparr>"

theorem accepted_sequences_are_records_witness:
  "accepted_numbers ''4711'' (map (\<lambda>s. sample_wire_tick\<lparr>wt_sequence := s\<rparr>)
     [Some 5, Some 3, None, Some 7, Some 7]) = [5, 7]"
  by (subst accepted_sequences_are_records[THEN conjunct1])
    (simp_all add: sequences_of_def sample_wire_tick_def token_of_def)

end
