(* ===== verification/Wire_Format.thy ===== *)
theory Wire_Format
  imports Tick_Pipeline "HOL-Library.Word"
begin

text \<open>
  The binary tick of the broker's WebSocket (\<open>brokers/angel_one/message_parser.py\<close>) and its mapping to the
  canonical tick (\<open>normalizer.py\<close>).  A message is a list of bytes; \<open>struct.unpack('<q')\<close> reads eight of them as
  a signed little-endian number.  A Python string is represented by its UTF-8 bytes, as characters, so that
  \<open>decode('utf-8')\<close> is a test.  The two doubles of a Quote packet, which nothing reads, stay raw bits.
\<close>

type_synonym bytes = "8 word list"

definition slice :: "nat \<Rightarrow> nat \<Rightarrow> 'a list \<Rightarrow> 'a list" where
  "slice i j xs = take (j - i) (drop i xs)"

fun le_nat :: "bytes \<Rightarrow> nat" where
  "le_nat [] = 0"
| "le_nat (b # bs) = unat b + 256 * le_nat bs"

definition unpack_q :: "bytes \<Rightarrow> int" where
  "unpack_q bs = sint (word_of_nat (le_nat bs) :: 64 word)"

definition unpack_H :: "bytes \<Rightarrow> int" where
  "unpack_H bs = uint (word_of_nat (le_nat bs) :: 16 word)"

definition unpack_bits :: "bytes \<Rightarrow> 64 word" where
  "unpack_bits bs = word_of_nat (le_nat bs)"

definition paise :: "int \<Rightarrow> real" where
  "paise n = of_int n / 100"

section \<open>UTF-8\<close>

definition continuation :: "int \<Rightarrow> bool" where
  "continuation b \<longleftrightarrow> 0x80 \<le> b \<and> b \<le> 0xBF"

fun utf8_valid :: "int list \<Rightarrow> bool" where
  "utf8_valid [] \<longleftrightarrow> True"
| "utf8_valid (a # bs) \<longleftrightarrow>
     (if a < 0x80 then utf8_valid bs
      else case bs of
        [] \<Rightarrow> False
      | b # cs \<Rightarrow>
          if \<not> continuation b then False
          else if 0xC2 \<le> a \<and> a \<le> 0xDF then utf8_valid cs
          else case cs of
            [] \<Rightarrow> False
          | c # ds \<Rightarrow>
              if \<not> continuation c then False
              else if 0xE0 \<le> a \<and> a \<le> 0xEF
                then (a = 0xE0 \<longrightarrow> 0xA0 \<le> b) \<and> (a = 0xED \<longrightarrow> b \<le> 0x9F) \<and> utf8_valid ds
              else case ds of
                [] \<Rightarrow> False
              | d # es \<Rightarrow> continuation d \<and> 0xF0 \<le> a \<and> a \<le> 0xF4
                  \<and> (a = 0xF0 \<longrightarrow> 0x90 \<le> b) \<and> (a = 0xF4 \<longrightarrow> b \<le> 0x8F) \<and> utf8_valid es)"

definition decode_utf8 :: "bytes \<Rightarrow> string option" where
  "decode_utf8 bs = (if utf8_valid (map uint bs) then Some (map (\<lambda>b. char_of (unat b)) bs) else None)"

definition rstrip_nul :: "string \<Rightarrow> string" where
  "rstrip_nul s = rev (dropWhile (\<lambda>c. c = CHR 0x00) (rev s))"

section \<open>Best-5 depth\<close>

type_synonym level = "real \<times> int"

fun max_level :: "level list \<Rightarrow> level" where
  "max_level [] = (0, 0)"
| "max_level [x] = x"
| "max_level (x # y # zs) = (let m = max_level (y # zs) in if fst x < fst m then m else x)"

fun min_level :: "level list \<Rightarrow> level" where
  "min_level [] = (0, 0)"
| "min_level [x] = x"
| "min_level (x # y # zs) = (let m = min_level (y # zs) in if fst m < fst x then m else x)"

record depth =
  best_bid_price :: real
  best_ask_price :: real
  best_bid_qty :: int
  best_ask_qty :: int

definition level_of :: "bytes \<Rightarrow> nat \<Rightarrow> int \<times> level" where
  "level_of block i =
     (let r = slice (20 * i) (20 * i + 20) block
      in (unpack_H (slice 0 2 r), (paise (unpack_q (slice 10 18 r)), unpack_q (slice 2 10 r))))"

definition quoted :: "int \<times> level \<Rightarrow> bool" where
  "quoted l \<longleftrightarrow> 0 < fst (snd l) \<and> 0 < snd (snd l)"

definition book_levels :: "bytes \<Rightarrow> (int \<times> level) list" where
  "book_levels block = filter quoted (map (level_of block) [0..<10])"

text \<open>One assignment of the sides; \<open>None\<close> when it is crossed.\<close>

definition assignment :: "real \<Rightarrow> level list \<Rightarrow> level list \<Rightarrow> (real \<times> depth) option" where
  "assignment ltp bids asks =
     (let (b, bq) = max_level bids; (a, aq) = min_level asks
      in if a < b then None
         else Some (\<bar>(b + a) / 2 - ltp\<bar>,
                    \<lparr>best_bid_price = b, best_ask_price = a, best_bid_qty = bq, best_ask_qty = aq\<rparr>))"

definition closer :: "(real \<times> depth) option \<Rightarrow> (real \<times> depth) option \<Rightarrow> depth option" where
  "closer x y =
     (case (x, y) of
        (None, _) \<Rightarrow> map_option snd y
      | (Some p, None) \<Rightarrow> Some (snd p)
      | (Some p, Some q) \<Rightarrow> if fst q < fst p then Some (snd q) else Some (snd p))"

definition implausible :: "real \<Rightarrow> depth \<Rightarrow> bool" where
  "implausible ltp d \<longleftrightarrow>
     0 < ltp \<and> (0.10 * ltp < best_ask_price d - best_bid_price d
                 \<or> 0.05 * ltp < \<bar>(best_bid_price d + best_ask_price d) / 2 - ltp\<bar>)"

definition choose_book :: "real \<Rightarrow> level list \<Rightarrow> level list \<Rightarrow> depth option" where
  "choose_book ltp side_a side_b =
     (if side_a = [] \<or> side_b = [] then None
      else case closer (assignment ltp side_a side_b) (assignment ltp side_b side_a) of
             None \<Rightarrow> None
           | Some d \<Rightarrow> if implausible ltp d then None else Some d)"

definition parse_best5 :: "bytes \<Rightarrow> real \<Rightarrow> depth option" where
  "parse_best5 block ltp =
     (if length block < 200 then None
      else let ls = book_levels block
           in choose_book ltp (map snd (filter (\<lambda>l. fst l = 0) ls)) (map snd (filter (\<lambda>l. fst l \<noteq> 0) ls)))"

section \<open>The packet\<close>

record quote_part =
  last_trade_qty :: int
  avg_price :: real
  q_volume :: int
  total_buy_bits :: "64 word"
  total_sell_bits :: "64 word"
  q_open :: real
  q_high :: real
  q_low :: real
  q_close :: real

record snap_part =
  last_trade_time :: int
  open_interest :: int
  oi_change_pct :: real
  snap_book :: "depth option"
  upper_circuit :: real
  lower_circuit :: real
  week_52_high :: real
  week_52_low :: real

record parsed_tick =
  pt_mode :: int
  pt_exchange_type :: int
  pt_token :: string
  pt_sequence :: int
  pt_timestamp :: int
  pt_ltp :: real
  pt_quote :: "quote_part option"
  pt_snap :: "snap_part option"

definition parse_quote :: "bytes \<Rightarrow> quote_part" where
  "parse_quote data =
     \<lparr>last_trade_qty = unpack_q (slice 51 59 data), avg_price = paise (unpack_q (slice 59 67 data)),
      q_volume = unpack_q (slice 67 75 data), total_buy_bits = unpack_bits (slice 75 83 data),
      total_sell_bits = unpack_bits (slice 83 91 data), q_open = paise (unpack_q (slice 91 99 data)),
      q_high = paise (unpack_q (slice 99 107 data)), q_low = paise (unpack_q (slice 107 115 data)),
      q_close = paise (unpack_q (slice 115 123 data))\<rparr>"

definition parse_snap :: "bytes \<Rightarrow> real \<Rightarrow> snap_part" where
  "parse_snap data ltp =
     \<lparr>last_trade_time = unpack_q (slice 123 131 data), open_interest = unpack_q (slice 131 139 data),
      oi_change_pct = paise (unpack_q (slice 139 147 data)), snap_book = parse_best5 (slice 147 347 data) ltp,
      upper_circuit = paise (unpack_q (slice 347 355 data)), lower_circuit = paise (unpack_q (slice 355 363 data)),
      week_52_high = paise (unpack_q (slice 363 371 data)), week_52_low = paise (unpack_q (slice 371 379 data))\<rparr>"

definition parse_ws_binary :: "bytes \<Rightarrow> parsed_tick option" where
  "parse_ws_binary data =
     (if length data < 51 then None
      else case decode_utf8 (slice 2 27 data) of
             None \<Rightarrow> None
           | Some text \<Rightarrow>
               let mode = uint (data ! 0); ltp = paise (unpack_q (slice 43 51 data))
               in Some \<lparr>pt_mode = mode, pt_exchange_type = uint (data ! 1), pt_token = rstrip_nul text,
                        pt_sequence = unpack_q (slice 27 35 data), pt_timestamp = unpack_q (slice 35 43 data),
                        pt_ltp = ltp,
                        pt_quote = (if 2 \<le> mode \<and> 123 \<le> length data then Some (parse_quote data) else None),
                        pt_snap = (if 3 \<le> mode \<and> 379 \<le> length data then Some (parse_snap data ltp) else None)\<rparr>)"

section \<open>Normalisation\<close>

definition exchange_name :: "int \<Rightarrow> string option" where
  "exchange_name e = map_of [(1, ''NSE''), (2, ''NFO''), (3, ''BSE''), (4, ''BFO''), (5, ''MCX''), (13, ''CDS'')] e"

definition normalize_tick :: "parsed_tick \<Rightarrow> string option \<Rightarrow> wire_tick" where
  "normalize_tick raw symbol =
     (let book = Option.bind (pt_snap raw) snap_book
      in \<lparr>wt_source_broker = Some ''angel_one'', wt_token = Some (pt_token raw),
          wt_exchange = exchange_name (pt_exchange_type raw), wt_symbol = symbol, wt_mode = Some (pt_mode raw),
          wt_sequence = Some (pt_sequence raw), wt_timestamp_ms = Some (pt_timestamp raw),
          wt_ltp = Some (pt_ltp raw), wt_volume = map_option q_volume (pt_quote raw),
          wt_open = map_option q_open (pt_quote raw), wt_high = map_option q_high (pt_quote raw),
          wt_low = map_option q_low (pt_quote raw), wt_close = map_option q_close (pt_quote raw),
          wt_oi = map_option open_interest (pt_snap raw),
          wt_best_bid = map_option best_bid_price book, wt_best_ask = map_option best_ask_price book,
          wt_bid_qty = map_option best_bid_qty book, wt_ask_qty = map_option best_ask_qty book\<rparr>)"

section \<open>The depth that is reported\<close>

lemma max_level_greatest:
  "xs \<noteq> [] \<Longrightarrow> max_level xs \<in> set xs \<and> (\<forall>x\<in>set xs. fst x \<le> fst (max_level xs))"
  by (induction xs rule: max_level.induct) (fastforce simp: Let_def)+

lemma min_level_least:
  "xs \<noteq> [] \<Longrightarrow> min_level xs \<in> set xs \<and> (\<forall>x\<in>set xs. fst (min_level xs) \<le> fst x)"
  by (induction xs rule: min_level.induct) (fastforce simp: Let_def)+

lemma assignment_Some:
  "assignment ltp bids asks = Some (gap, d) \<longleftrightarrow>
     fst (max_level bids) \<le> fst (min_level asks)
   \<and> gap = \<bar>(fst (max_level bids) + fst (min_level asks)) / 2 - ltp\<bar>
   \<and> d = \<lparr>best_bid_price = fst (max_level bids), best_ask_price = fst (min_level asks),
          best_bid_qty = snd (max_level bids), best_ask_qty = snd (min_level asks)\<rparr>"
  by (auto simp: assignment_def split: prod.splits)

lemma choose_book_Some:
  assumes "choose_book ltp sa sb = Some d"
  shows "\<not> implausible ltp d \<and> (\<exists>bids asks gap. {bids, asks} = {sa, sb} \<and> bids \<noteq> [] \<and> asks \<noteq> []
           \<and> assignment ltp bids asks = Some (gap, d))"
proof -
  have ne: "sa \<noteq> []" "sb \<noteq> []" and c: "closer (assignment ltp sa sb) (assignment ltp sb sa) = Some d"
    and p: "\<not> implausible ltp d"
    using assms by (auto simp: choose_book_def split: if_splits option.splits)
  from c consider gap where "assignment ltp sa sb = Some (gap, d)" | gap where "assignment ltp sb sa = Some (gap, d)"
    by (auto simp: closer_def split: option.splits if_splits prod.splits)
  then show ?thesis using ne p by cases blast+
qed

lemma choose_book_levels:
  assumes "choose_book ltp sa sb = Some d"
  shows "\<not> implausible ltp d \<and> best_bid_price d \<le> best_ask_price d
    \<and> (best_bid_price d, best_bid_qty d) \<in> set sa \<union> set sb \<and> (best_ask_price d, best_ask_qty d) \<in> set sa \<union> set sb"
proof -
  from choose_book_Some[OF assms] obtain bids asks gap where
    p: "\<not> implausible ltp d" and s: "{bids, asks} = {sa, sb}" "bids \<noteq> []" "asks \<noteq> []"
    and a: "assignment ltp bids asks = Some (gap, d)" by blast
  have "set bids \<union> set asks = set sa \<union> set sb" using s(1) by (auto simp: doubleton_eq_iff)
  then have "max_level bids \<in> set sa \<union> set sb" "min_level asks \<in> set sa \<union> set sb"
    using max_level_greatest[OF s(2)] min_level_least[OF s(3)] by blast+
  with a p show ?thesis by (simp add: assignment_Some)
qed

definition prices :: "depth \<Rightarrow> real \<times> real" where
  "prices d = (best_bid_price d, best_ask_price d)"

lemma implausible_prices: "prices d = prices e \<Longrightarrow> implausible ltp d = implausible ltp e"
  by (simp add: prices_def implausible_def)

text \<open>When both assignments form a book all levels have one price, so the choice does not matter.\<close>

lemma both_assignments:
  assumes "sa \<noteq> []" "sb \<noteq> []" "assignment ltp sa sb = Some (x, d)" "assignment ltp sb sa = Some (y, e)"
  shows "prices d = prices e"
  using assms max_level_greatest[of sa] min_level_least[of sa] max_level_greatest[of sb] min_level_least[of sb]
  by (fastforce simp: assignment_Some prices_def)

lemma choose_book_sym: "map_option prices (choose_book ltp sa sb) = map_option prices (choose_book ltp sb sa)"
proof (cases "sa = [] \<or> sb = []")
  case True
  then show ?thesis by (auto simp: choose_book_def)
next
  case False
  let ?x = "assignment ltp sa sb" and ?y = "assignment ltp sb sa"
  show ?thesis
  proof (cases "?x = None \<or> ?y = None")
    case True
    then have "closer ?x ?y = closer ?y ?x" by (auto simp: closer_def split: option.splits)
    with False show ?thesis by (simp add: choose_book_def)
  next
    case False: False
    then obtain a d b e where xy: "?x = Some (a, d)" "?y = Some (b, e)" by (metis option.exhaust surj_pair)
    with \<open>\<not> (sa = [] \<or> sb = [])\<close> have "prices d = prices e" using both_assignments by blast
    then show ?thesis using \<open>\<not> (sa = [] \<or> sb = [])\<close> xy implausible_prices[of d e ltp]
      by (auto simp: choose_book_def closer_def)
  qed
qed

text \<open>Two blocks with the same levels whose side flags are swapped.\<close>

definition flags_swapped :: "bytes \<Rightarrow> bytes \<Rightarrow> bool" where
  "flags_swapped a b \<longleftrightarrow> length a = length b
     \<and> list_all2 (\<lambda>l m. snd l = snd m \<and> (fst l = 0 \<longleftrightarrow> fst m \<noteq> 0))
          (map (level_of a) [0..<10]) (map (level_of b) [0..<10])"

lemma flags_swapped_sides:
  assumes "flags_swapped a b"
  shows "map snd (filter (\<lambda>l. fst l = 0) (book_levels a)) = map snd (filter (\<lambda>l. fst l \<noteq> 0) (book_levels b))"
    and "map snd (filter (\<lambda>l. fst l \<noteq> 0) (book_levels a)) = map snd (filter (\<lambda>l. fst l = 0) (book_levels b))"
proof -
  have sides: "map snd (filter (\<lambda>l. fst l = 0) (filter quoted xs)) = map snd (filter (\<lambda>l. fst l \<noteq> 0) (filter quoted ys))
    \<and> map snd (filter (\<lambda>l. fst l \<noteq> 0) (filter quoted xs)) = map snd (filter (\<lambda>l. fst l = 0) (filter quoted ys))"
    if "list_all2 (\<lambda>l m. snd l = snd m \<and> (fst l = 0 \<longleftrightarrow> fst m \<noteq> 0)) xs ys" for xs ys
    using that by (induction rule: list_all2_induct) (auto simp: quoted_def)
  then show "map snd (filter (\<lambda>l. fst l = 0) (book_levels a)) = map snd (filter (\<lambda>l. fst l \<noteq> 0) (book_levels b))"
    "map snd (filter (\<lambda>l. fst l \<noteq> 0) (book_levels a)) = map snd (filter (\<lambda>l. fst l = 0) (book_levels b))"
    using assms unfolding flags_swapped_def book_levels_def by blast+
qed

text \<open>The reported best quote does not depend on which flag value means "buy": swapping the side flag of every
  level of the depth block never changes the best bid and ask, nor whether a book is reported at all.\<close>

theorem depth_ignores_flag_meaning:
  assumes "flags_swapped a b"
  shows "map_option prices (parse_best5 a ltp) = map_option prices (parse_best5 b ltp)"
  using flags_swapped_sides[OF assms] assms
  by (simp add: parse_best5_def Let_def flags_swapped_def choose_book_sym)

text \<open>A depth that is reported is a book: it is not crossed, both sides are positive prices with positive
  quantities, and for a positive last price the spread is within a tenth of it and the middle within a twentieth,
  whatever the bytes of the block.\<close>

theorem reported_depth_plausible:
  assumes "parse_best5 block ltp = Some d"
  shows "0 < best_bid_price d \<and> best_bid_price d \<le> best_ask_price d \<and> 0 < best_bid_qty d \<and> 0 < best_ask_qty d
       \<and> (0 < ltp \<longrightarrow> best_ask_price d - best_bid_price d \<le> ltp / 10
             \<and> \<bar>(best_bid_price d + best_ask_price d) / 2 - ltp\<bar> \<le> ltp / 20)"
proof -
  let ?sa = "map snd (filter (\<lambda>l. fst l = 0) (book_levels block))"
  let ?sb = "map snd (filter (\<lambda>l. fst l \<noteq> 0) (book_levels block))"
  have "choose_book ltp ?sa ?sb = Some d"
    using assms by (auto simp: parse_best5_def Let_def split: if_splits)
  note d = choose_book_levels[OF this]
  have "l \<in> set ?sa \<union> set ?sb \<Longrightarrow> 0 < fst l \<and> 0 < snd l" for l by (auto simp: book_levels_def quoted_def)
  from d this[of "(best_bid_price d, best_bid_qty d)"] this[of "(best_ask_price d, best_ask_qty d)"]
  have "0 < best_bid_price d" "0 < best_bid_qty d" "0 < best_ask_qty d" by auto
  with d show ?thesis by (auto simp: implausible_def)
qed

section \<open>The documented layout\<close>

text \<open>
  The packet as the parser's documentation lays it out: mode and exchange, the token padded with NUL bytes to
  25, then eight-byte little-endian numbers, then whatever follows.
\<close>

fun le_bytes :: "nat \<Rightarrow> 64 word \<Rightarrow> bytes" where
  "le_bytes 0 w = []"
| "le_bytes (Suc n) w = ucast w # le_bytes n (drop_bit 8 w)"

definition number_fields :: "64 word list \<Rightarrow> bytes" where
  "number_fields ws = concat (map (le_bytes 8) ws)"

definition packet_bytes :: "8 word \<Rightarrow> 8 word \<Rightarrow> bytes \<Rightarrow> 64 word list \<Rightarrow> bytes \<Rightarrow> bytes" where
  "packet_bytes mode exchange token ws rest =
     [mode, exchange] @ token @ replicate (25 - length token) 0 @ number_fields ws @ rest"

lemma length_le_bytes [simp]: "length (le_bytes n w) = n"
  by (induction n arbitrary: w) auto

lemma le_nat_le_bytes: "le_nat (le_bytes n w) = unat w mod 256 ^ n"
proof (induction n arbitrary: w)
  case (Suc n)
  have "unat (ucast w :: 8 word) = unat w mod 256" by (simp add: unsigned_ucast_eq take_bit_eq_mod)
  moreover have "unat (drop_bit 8 w) = unat w div 256" 
    using drop_bit_eq_div[of 8 "unat w"] by (simp add: unat_drop_bit_eq del: drop_bit_eq_div)
  ultimately show ?case using Suc by (simp add: mod_mult2_eq)
qed simp

lemma unpack_le_bytes: "unpack_q (le_bytes 8 w) = sint w" "unpack_bits (le_bytes 8 w) = w"
proof -
  have "unat w mod 256 ^ 8 = unat w" using unsigned_less[of w, where ?'a = nat] by simp
  then show "unpack_q (le_bytes 8 w) = sint w" "unpack_bits (le_bytes 8 w) = w"
    by (simp_all add: unpack_q_def unpack_bits_def le_nat_le_bytes)
qed

lemma slice_field:
  assumes "length pre = k" "i < length ws"
  shows "slice (k + 8 * i) (k + 8 * i + 8) (pre @ number_fields ws @ rest) = le_bytes 8 (ws ! i)"
  using assms
proof (induction ws arbitrary: pre k i)
  case (Cons w ws)
  show ?case
  proof (cases i)
    case 0
    then show ?thesis using Cons.prems by (simp add: slice_def number_fields_def)
  next
    case (Suc j)
    have "slice (k + 8 + 8 * j) (k + 8 + 8 * j + 8) ((pre @ le_bytes 8 w) @ number_fields ws @ rest) = le_bytes 8 (ws ! j)"
      using Cons.IH[of "pre @ le_bytes 8 w" "k + 8" j] Cons.prems Suc by simp
    then show ?thesis using Suc by (simp add: number_fields_def ac_simps)
  qed
qed simp

lemma ascii_valid: "list_all (\<lambda>b. b < 0x80) bs \<Longrightarrow> utf8_valid bs"
  by (induction bs) auto

definition token_bytes :: "bytes \<Rightarrow> bool" where
  "token_bytes bs \<longleftrightarrow> length bs \<le> 25 \<and> list_all (\<lambda>b. 0 < uint b \<and> uint b < 0x80) bs"

lemma decode_token:
  assumes "token_bytes bs"
  shows "map_option rstrip_nul (decode_utf8 (bs @ replicate n 0)) = Some (map (\<lambda>b. char_of (unat b)) bs)"
proof -
  have "utf8_valid (map uint (bs @ replicate n 0))"
    using assms by (intro ascii_valid) (auto simp: token_bytes_def list_all_iff)
  moreover have "rstrip_nul (map (\<lambda>b. char_of (unat b)) bs @ replicate n (CHR 0x00)) = map (\<lambda>b. char_of (unat b)) bs"
  proof -
    have "char_of (unat b) \<noteq> CHR 0x00" if "b \<in> set bs" for b
    proof
      assume "char_of (unat b) = CHR 0x00"
      then have "of_char (char_of (unat b) :: char) = (of_char CHR 0x00 :: nat)" by simp
      then have "unat b mod 256 = 0" by simp
      then have "unat b = 0" using unsigned_less[of b, where ?'a = nat] by simp
      then show False using that assms by (auto simp: token_bytes_def list_all_iff unat_eq_zero)
    qed
    then have "dropWhile (\<lambda>c. c = CHR 0x00) (rev (map (\<lambda>b. char_of (unat b)) bs)) = rev (map (\<lambda>b. char_of (unat b)) bs)"
      by (auto simp: dropWhile_eq_self_iff hd_rev last_map)
    then show ?thesis by (simp add: rstrip_nul_def dropWhile_append)
  qed
  moreover have "char_of (0::nat) = CHR 0x00" by code_simp
  ultimately show ?thesis by (simp add: decode_utf8_def)
qed


lemma digits_4711:
  "char_of (52::nat) = CHR ''4''" "char_of (55::nat) = CHR ''7''" "char_of (49::nat) = CHR ''1''"
  by code_simp+


definition level_bytes :: "64 word \<Rightarrow> 64 word \<Rightarrow> 64 word \<Rightarrow> bytes" where
  "level_bytes flag qty price = le_bytes 2 flag @ le_bytes 8 qty @ le_bytes 8 price @ [0, 0]"

definition block_bytes :: "(64 word \<times> 64 word \<times> 64 word) list \<Rightarrow> bytes" where
  "block_bytes ls = concat (map (\<lambda>(f, q, p). level_bytes f q p) ls)"

lemma slice_concat:
  assumes "\<forall>x\<in>set xs. length (g x) = k" "i < length xs"
  shows "slice (k * i) (k * i + k) (concat (map g xs)) = g (xs ! i)"
  using assms
proof (induction xs arbitrary: i)
  case (Cons x xs)
  then show ?case by (cases i) (auto simp: slice_def)
qed simp

lemma unpack_H_le_bytes: "unpack_H (le_bytes 2 w) = uint w mod 65536"
  unfolding unpack_H_def le_nat_le_bytes unsigned_of_nat take_bit_eq_mod by (simp add: zmod_int)

lemma level_of_block:
  assumes "i < length ls"
  shows "level_of (block_bytes ls) i = (case ls ! i of (f, q, p) \<Rightarrow> (uint f mod 65536, paise (sint p), sint q))"
proof -
  obtain f q p where l: "ls ! i = (f, q, p)" by (metis prod_cases3)
  have "slice (20 * i) (20 * i + 20) (block_bytes ls) = level_bytes f q p"
    unfolding block_bytes_def using assms l by (subst slice_concat) (auto simp: level_bytes_def)
  moreover have "slice 0 2 (level_bytes f q p) = le_bytes 2 f" "slice 2 10 (level_bytes f q p) = le_bytes 8 q"
    "slice 10 18 (level_bytes f q p) = le_bytes 8 p" by (simp_all add: slice_def level_bytes_def)
  ultimately show ?thesis by (simp add: level_of_def Let_def l unpack_le_bytes unpack_H_le_bytes)
qed

definition sample_block :: "64 word \<Rightarrow> 64 word \<Rightarrow> bytes" where
  "sample_block f g = block_bytes [(f, 75, 9900), (g, 150, 10100), (f, 0, 0), (f, 0, 0), (f, 0, 0), (f, 0, 0),
     (g, 0, 0), (g, 0, 0), (g, 0, 0), (g, 0, 0)]"

lemma map_upto_10: "map h [0..<10] = [h 0, h 1, h 2, h 3, h 4, h 5, h 6, h 7, h 8, h (9::nat)]"
  by (simp add: upt_rec eval_nat_numeral)

lemma sample_block_eval:
  "map (level_of (sample_block 0 1)) [0..<10] =
     [(0, 99, 75), (1, 101, 150), (0, 0, 0), (0, 0, 0), (0, 0, 0), (0, 0, 0), (1, 0, 0), (1, 0, 0), (1, 0, 0), (1, 0, 0)]"
  "map (level_of (sample_block 1 0)) [0..<10] =
     [(1, 99, 75), (0, 101, 150), (1, 0, 0), (1, 0, 0), (1, 0, 0), (1, 0, 0), (0, 0, 0), (0, 0, 0), (0, 0, 0), (0, 0, 0)]"
  unfolding sample_block_def map_upto_10 by (simp_all add: level_of_block paise_def)

lemma sample_block_length: "length (sample_block f g) = 200"
  by (simp add: sample_block_def block_bytes_def level_bytes_def)

lemma sample_block_parse:
  "parse_best5 (sample_block 0 1) 100 =
     Some \<lparr>best_bid_price = 99, best_ask_price = 101, best_bid_qty = 75, best_ask_qty = 150\<rparr>"
  unfolding parse_best5_def book_levels_def sample_block_eval sample_block_length
  by (simp add: quoted_def choose_book_def assignment_def closer_def implausible_def)

theorem reported_depth_plausible_witness:
  "parse_best5 (sample_block 0 1) 100 \<noteq> None
   \<and> (\<forall>d\<in>set_option (parse_best5 (sample_block 0 1) 100). best_ask_price d - best_bid_price d \<le> 10)"
  using reported_depth_plausible[OF sample_block_parse] by (simp add: sample_block_parse)

theorem depth_ignores_flag_meaning_witness:
  "map_option prices (parse_best5 (sample_block 1 0) 100) = Some (99, 101)"
proof -
  have "flags_swapped (sample_block 1 0) (sample_block 0 1)"
    unfolding flags_swapped_def sample_block_eval sample_block_length by simp
  from depth_ignores_flag_meaning[OF this, of 100] show ?thesis by (simp add: sample_block_parse prices_def)
qed

end
