(* ===== verification/Candles.thy ===== *)
theory Candles
  imports Tick_Pipeline
begin

text \<open>
  \<open>core/market_data/ohlcv_aggregator.py\<close>: one rolling candle per token, closed when a tick of another
  bucket arrives or on \<open>flush\<close>.  The callback only hands the record to the batched writer; here the
  closed records are those in \<open>completed\<close>.  The abstract specification groups a token's ticks into
  runs of one bucket and computes each candle from its run.
\<close>

definition FIVE_MIN_MS :: int where
  "FIVE_MIN_MS = 5 * 60 * 1000"

definition bucket_start_ms :: "int \<Rightarrow> int \<Rightarrow> int" where
  "bucket_start_ms width timestamp_ms = (timestamp_ms div width) * width"

record candle =
  cd_token :: string
  cd_bucket :: int
  cd_open :: real
  cd_high :: real
  cd_low :: real
  cd_close :: real
  cd_first_volume :: "int option"
  cd_last_volume :: "int option"
  cd_tick_count :: int

definition candle_volume :: "candle \<Rightarrow> int" where
  "candle_volume c =
     (case (cd_first_volume c, cd_last_volume c) of (Some f, Some l) \<Rightarrow> max 0 (l - f) | _ \<Rightarrow> 0)"

record candle_dict =
  k_token :: string
  k_bucket :: int
  k_open :: real
  k_high :: real
  k_low :: real
  k_close :: real
  k_volume :: int
  k_tick_count :: int

definition as_dict :: "candle \<Rightarrow> candle_dict" where
  "as_dict c = \<lparr>k_token = cd_token c, k_bucket = cd_bucket c, k_open = cd_open c, k_high = cd_high c,
     k_low = cd_low c, k_close = cd_close c, k_volume = candle_volume c, k_tick_count = cd_tick_count c\<rparr>"

record aggregator =
  ag_current :: "string \<rightharpoonup> candle"
  ag_completed :: "string \<rightharpoonup> candle_dict list"

definition new_aggregator :: aggregator where
  "new_aggregator = \<lparr>ag_current = Map.empty, ag_completed = Map.empty\<rparr>"

definition completed :: "aggregator \<Rightarrow> string \<Rightarrow> candle_dict list" where
  "completed a token = get_or [] (ag_completed a token)"

definition close_candle :: "candle \<Rightarrow> aggregator \<Rightarrow> aggregator" where
  "close_candle c a =
     a\<lparr>ag_completed := (ag_completed a)(cd_token c \<mapsto> completed a (cd_token c) @ [as_dict c])\<rparr>"

definition new_candle :: "string \<Rightarrow> int \<Rightarrow> real \<Rightarrow> int option \<Rightarrow> candle" where
  "new_candle token bucket price volume =
     \<lparr>cd_token = token, cd_bucket = bucket, cd_open = price, cd_high = price, cd_low = price, cd_close = price,
      cd_first_volume = volume, cd_last_volume = volume, cd_tick_count = 0\<rparr>"

definition extend_candle :: "real \<Rightarrow> int option \<Rightarrow> candle \<Rightarrow> candle" where
  "extend_candle price volume c =
     c\<lparr>cd_high := max (cd_high c) price, cd_low := min (cd_low c) price, cd_close := price,
       cd_tick_count := cd_tick_count c + 1,
       cd_last_volume := (case volume of None \<Rightarrow> cd_last_volume c | Some v \<Rightarrow> Some v)\<rparr>"

definition add_tick :: "int \<Rightarrow> wire_tick \<Rightarrow> aggregator \<Rightarrow> aggregator" where
  "add_tick width t a =
     (case (wt_ltp t, wt_timestamp_ms t) of
        (Some price, Some ts) \<Rightarrow>
          if token_of t = '''' then a
          else let token = token_of t; bucket = bucket_start_ms width ts;
                   (c, a1) =
                     (case ag_current a token of
                        None \<Rightarrow> (new_candle token bucket price (wt_volume t), a)
                      | Some c \<Rightarrow> if cd_bucket c \<noteq> bucket
                                  then (new_candle token bucket price (wt_volume t), close_candle c a) else (c, a))
               in a1\<lparr>ag_current := (ag_current a1)(token \<mapsto> extend_candle price (wt_volume t) c)\<rparr>
      | _ \<Rightarrow> a)"

definition flush_token :: "string \<Rightarrow> aggregator \<Rightarrow> aggregator" where
  "flush_token token a =
     (case ag_current a token of
        None \<Rightarrow> a
      | Some c \<Rightarrow> close_candle c (a\<lparr>ag_current := (ag_current a)(token := None)\<rparr>))"

text \<open>A missing or empty token flushes them all; each candle is stored under its own token.\<close>
definition flush :: "string option \<Rightarrow> aggregator \<Rightarrow> aggregator" where
  "flush token a =
     (if get_or '''' token \<noteq> '''' then flush_token (get_or '''' token) a
      else a\<lparr>ag_current := Map.empty,
              ag_completed := (\<lambda>tok. case ag_current a tok of None \<Rightarrow> ag_completed a tok
                                             | Some c \<Rightarrow> Some (completed a tok @ [as_dict c]))\<rparr>)"

definition current_candle :: "aggregator \<Rightarrow> string \<Rightarrow> candle_dict option" where
  "current_candle a token = map_option as_dict (ag_current a token)"

section \<open>The specification: runs of one bucket\<close>

fun runs :: "('a \<Rightarrow> 'b) \<Rightarrow> 'a list \<Rightarrow> 'a list list" where
  "runs f [] = []"
| "runs f (x # xs) =
     (case runs f xs of
        [] \<Rightarrow> [[x]]
      | ys # yss \<Rightarrow> if f x = f (hd ys) then (x # ys) # yss else [x] # ys # yss)"

lemma runs_eq_Nil [simp]: "runs f xs = [] \<longleftrightarrow> xs = []"
  by (cases xs) (auto split: list.splits)

lemma runs_nonempty: "ys \<in> set (runs f xs) \<Longrightarrow> ys \<noteq> []"
  by (induction xs) (auto split: list.splits if_splits)

lemma concat_runs: "concat (runs f xs) = xs"
  by (induction xs) (auto split: list.splits)

lemma runs_same: "ys \<in> set (runs f xs) \<Longrightarrow> y \<in> set ys \<Longrightarrow> f y = f (hd ys)"
  by (induction xs arbitrary: ys y) (auto split: list.splits if_splits)

lemma hd_runs: "runs f xs = ys # yss \<Longrightarrow> hd ys = hd xs"
  by (cases xs) (auto split: list.splits if_splits)

lemma runs_snoc:
  "runs f (xs @ [x]) = (if xs = [] then [[x]]
     else if f (last xs) = f x then butlast (runs f xs) @ [last (runs f xs) @ [x]] else runs f xs @ [[x]])"
proof (induction xs)
  case (Cons y ys)
  show ?case
  proof (cases ys)
    case Nil
    then show ?thesis by simp
  next
    case (Cons z zs)
    obtain r rs where r: "runs f ys = r # rs" by (metis Cons list.exhaust runs_eq_Nil list.distinct(1))
    have "r \<noteq> []" "hd r = z" using runs_nonempty[of r f ys] hd_runs[OF r] r Cons by auto
    moreover have "runs f (ys @ [x]) = (if f (last ys) = f x then butlast (r # rs) @ [last (r # rs) @ [x]]
      else (r # rs) @ [[x]])" using Cons.IH r \<open>ys = z # zs\<close> by simp
    ultimately show ?thesis using r \<open>ys = z # zs\<close> by (cases rs) (simp_all del: runs.simps add: runs.simps(2)[of f y])
  qed
qed simp

text \<open>What the aggregator accepts: a token, a price and a time.\<close>

definition accepted :: "wire_tick \<Rightarrow> bool" where
  "accepted t \<longleftrightarrow> token_of t \<noteq> '''' \<and> wt_ltp t \<noteq> None \<and> wt_timestamp_ms t \<noteq> None"

definition tick_bucket :: "int \<Rightarrow> wire_tick \<Rightarrow> int" where
  "tick_bucket width t = bucket_start_ms width (the (wt_timestamp_ms t))"

definition last_volume_of :: "wire_tick list \<Rightarrow> int option" where
  "last_volume_of ts = 
     (let vs = filter (\<lambda>t. wt_volume t \<noteq> None) ts in if vs = [] then None else wt_volume (last vs))"

definition candle_of :: "int \<Rightarrow> wire_tick list \<Rightarrow> candle" where
  "candle_of width ts =
     (let prices = map (\<lambda>t. the (wt_ltp t)) ts
      in \<lparr>cd_token = token_of (hd ts), cd_bucket = tick_bucket width (hd ts),
          cd_open = hd prices, cd_high = Max (set prices), cd_low = Min (set prices), cd_close = last prices,
          cd_first_volume = wt_volume (hd ts), cd_last_volume = last_volume_of ts,
          cd_tick_count = int (length ts)\<rparr>)"

definition mine :: "string \<Rightarrow> wire_tick list \<Rightarrow> wire_tick list" where
  "mine token ts = filter (\<lambda>t. accepted t \<and> token_of t = token) ts"

lemma last_volume_of_snoc:
  "last_volume_of (ts @ [t]) = (case wt_volume t of None \<Rightarrow> last_volume_of ts | Some v \<Rightarrow> Some v)"
  by (auto simp: last_volume_of_def split: option.splits)

lemma candle_of_snoc:
  assumes "ts \<noteq> []"
  shows "candle_of width (ts @ [t]) = extend_candle (the (wt_ltp t)) (wt_volume t) (candle_of width ts)"
  unfolding candle_of_def extend_candle_def last_volume_of_snoc Let_def using assms
  by (simp add: max.commute min.commute hd_append hd_map split: option.split)

lemma run_candle_single:
  "candle_of width [t] =
     extend_candle (the (wt_ltp t)) (wt_volume t)
       (new_candle (token_of t) (tick_bucket width t) (the (wt_ltp t)) (wt_volume t))"
  by (auto simp: candle_of_def extend_candle_def new_candle_def last_volume_of_def split: option.splits)

lemma candle_of_sel:
  assumes "ys \<in> set (runs (tick_bucket width) (mine token ts))"
  shows "cd_token (candle_of width ys) = token" "y \<in> set ys \<Longrightarrow> cd_bucket (candle_of width ys) = tick_bucket width y"
proof -
  have "hd ys \<in> set (concat (runs (tick_bucket width) (mine token ts)))"
    using assms runs_nonempty[OF assms] by (auto simp del: concat_eq_Nil_conv intro!: bexI[of _ ys])
  then have "token_of (hd ys) = token" by (simp add: concat_runs mine_def)
  then show "cd_token (candle_of width ys) = token" by (simp add: candle_of_def Let_def)
  show "y \<in> set ys \<Longrightarrow> cd_bucket (candle_of width ys) = tick_bucket width y"
    using runs_same[OF assms] by (simp add: candle_of_def Let_def)
qed

text \<open>The simulation relation between the aggregator and the ticks it has read.\<close>

definition aggregates :: "int \<Rightarrow> wire_tick list \<Rightarrow> aggregator \<Rightarrow> bool" where
  "aggregates width ts a \<longleftrightarrow>
     (\<forall>token. let rs = runs (tick_bucket width) (mine token ts)
              in completed a token = map (as_dict \<circ> candle_of width) (butlast rs)
               \<and> ag_current a token = (if rs = [] then None else Some (candle_of width (last rs))))"

lemma aggregates_new: "aggregates width [] new_aggregator"
  by (simp add: aggregates_def new_aggregator_def completed_def mine_def)

lemma add_tick_rejected: "\<not> accepted t \<Longrightarrow> add_tick width t a = a"
  by (auto simp: add_tick_def accepted_def split: option.splits)

lemma add_tick_accepted:
  fixes width :: int
  assumes "accepted t"
  defines "price \<equiv> the (wt_ltp t)" and "token \<equiv> token_of t" and "bucket \<equiv> tick_bucket width t"
  shows "add_tick width t a =
    (case ag_current a token of
       Some c \<Rightarrow> if cd_bucket c = bucket
                 then a\<lparr>ag_current := (ag_current a)(token \<mapsto> extend_candle price (wt_volume t) c)\<rparr>
                 else (close_candle c a)\<lparr>ag_current := (ag_current a)(token \<mapsto> candle_of width [t])\<rparr>
     | None \<Rightarrow> a\<lparr>ag_current := (ag_current a)(token \<mapsto> candle_of width [t])\<rparr>)"
  using assms unfolding run_candle_single
  by (auto simp: add_tick_def accepted_def close_candle_def tick_bucket_def Let_def split: option.splits)

lemma completed_simps [simp]:
  "completed (a\<lparr>ag_current := m\<rparr>) = completed a"
  "completed (close_candle c a) token =
     (if cd_token c = token then completed a token @ [as_dict c] else completed a token)"
  "ag_current (close_candle c a) = ag_current a"
  by (auto simp: completed_def close_candle_def)

lemma aggregates_add_tick:
  assumes "aggregates width ts a"
  shows "aggregates width (ts @ [t]) (add_tick width t a)"
proof (cases "accepted t")
  case False
  then show ?thesis using assms by (simp add: add_tick_rejected aggregates_def mine_def)
next
  case True
  define token where "token = token_of t"
  define f where "f = tick_bucket width"
  define ms where "ms = mine token ts"
  have other: "mine tok (ts @ [t]) = mine tok ts" if "tok \<noteq> token" for tok using that by (simp add: mine_def token_def)
  have own: "mine token (ts @ [t]) = ms @ [t]" using True by (simp add: mine_def ms_def token_def)
  have abs: "completed a token = map (as_dict \<circ> candle_of width) (butlast (runs f ms))"
    "ag_current a token = (if ms = [] then None else Some (candle_of width (last (runs f ms))))"
    using assms by (auto simp: aggregates_def ms_def f_def Let_def)
  have cd: "cd_token (candle_of width (last (runs f ms))) = token"
    "cd_bucket (candle_of width (last (runs f ms))) = f (last ms)" "last (runs f ms) \<noteq> []" if "ms \<noteq> []"
  proof -
    have l: "last (runs f ms) \<in> set (runs f ms)" using that by simp
    have "last (last (runs f ms)) = last ms" using that runs_nonempty[OF l]
      by (metis append_butlast_last_id concat_append concat_runs concat.simps last_append append_Nil2 runs_eq_Nil)
    moreover have "last (last (runs f ms)) \<in> set (last (runs f ms))" using runs_nonempty[OF l] by simp
    ultimately show "cd_token (candle_of width (last (runs f ms))) = token"
      "cd_bucket (candle_of width (last (runs f ms))) = f (last ms)" "last (runs f ms) \<noteq> []"
      using candle_of_sel[OF l[unfolded f_def ms_def]] runs_nonempty[OF l] by (auto simp: f_def ms_def)
  qed
  show ?thesis unfolding aggregates_def Let_def
  proof (intro allI)
    fix tok
    let ?rs = "runs (tick_bucket width) (mine tok (ts @ [t]))"
    show "completed (add_tick width t a) tok = map (as_dict \<circ> candle_of width) (butlast ?rs)
        \<and> ag_current (add_tick width t a) tok = (if ?rs = [] then None else Some (candle_of width (last ?rs)))"
    proof (cases "tok = token")
      case True
      then show ?thesis using \<open>accepted t\<close> abs cd
        by (cases "ms = []")
          (auto simp: own add_tick_accepted runs_snoc candle_of_snoc f_def token_def[symmetric]
            snoc_eq_iff_butlast map_butlast[symmetric] last_map)
    next
      case False
      then show ?thesis using assms \<open>accepted t\<close> cd abs
        by (cases "ms = []")
          (auto simp: other add_tick_accepted aggregates_def Let_def f_def token_def[symmetric])
    qed
  qed
qed

lemma aggregates_fold: "aggregates width ts (fold (add_tick width) ts new_aggregator)"
  by (induction ts rule: rev_induct) (auto simp: aggregates_new aggregates_add_tick)

lemma runs_separated:
  "successively (\<lambda>ys zs. f (last ys) \<noteq> f (hd zs)) (runs f xs)"
proof (induction xs)
  case (Cons x xs)
  then show ?case
    using runs_nonempty[of _ f xs] by (cases "runs f xs"; cases "tl (runs f xs)") force+
qed simp

lemma completed_flush:
  "completed (flush_token token (fold (add_tick width) ts new_aggregator)) token =
     map (as_dict \<circ> candle_of width) (runs (tick_bucket width) (mine token ts))"
proof -
  let ?a = "fold (add_tick width) ts new_aggregator" and ?rs = "runs (tick_bucket width) (mine token ts)"
  have a: "completed ?a token = map (as_dict \<circ> candle_of width) (butlast ?rs)"
    "ag_current ?a token = (if ?rs = [] then None else Some (candle_of width (last ?rs)))"
    using aggregates_fold[of width ts] by (auto simp: aggregates_def Let_def)
  show ?thesis
  proof (cases "?rs = []")
    case True
    with a show ?thesis by (simp add: flush_token_def)
  next
    case False
    then have "cd_token (candle_of width (last ?rs)) = token" using candle_of_sel(1) last_in_set by blast
    with a False show ?thesis
      by (simp add: flush_token_def snoc_eq_iff_butlast map_butlast[symmetric] last_map)
  qed
qed

text \<open>C10: The aggregator refines its specification. Whatever ticks arrive, interleaved over any tokens, the candles
  closed for a token after a final \<open>flush\<close> are the ones computed from the runs of its accepted ticks that
  share one bucket: first, highest, lowest and last price, volume span and number of ticks of each run.\<close>

theorem candles_of_runs:
  "completed (flush_token token (fold (add_tick width) ts new_aggregator)) token =
     map (as_dict \<circ> candle_of width) (runs (tick_bucket width) (mine token ts))"
  by (rule completed_flush)

definition candle_wf :: "int \<Rightarrow> string \<Rightarrow> candle_dict \<Rightarrow> bool" where
  "candle_wf width token k \<longleftrightarrow>
     k_token k = token \<and> width dvd k_bucket k \<and> 1 \<le> k_tick_count k \<and> 0 \<le> k_volume k
   \<and> k_low k \<le> min (k_open k) (k_close k) \<and> max (k_open k) (k_close k) \<le> k_high k"

lemma candle_of_wf:
  assumes "ys \<in> set (runs (tick_bucket width) (mine token ts))"
  shows "candle_wf width token (as_dict (candle_of width ys))"
proof -
  have "ys \<noteq> []" using runs_nonempty[OF assms] .
  moreover from this have "token_of (hd ys) = token" using candle_of_sel(1)[OF assms] by (simp add: candle_of_def Let_def)
  moreover have "1 \<le> int (length ys)" using \<open>ys \<noteq> []\<close> by (cases ys) auto
  ultimately show ?thesis
    by (auto simp: candle_wf_def as_dict_def candle_of_def Let_def candle_volume_def tick_bucket_def bucket_start_ms_def
        hd_map last_map intro!: Min_le Max_ge split: option.splits)
qed

text \<open>Every candle the aggregator hands on is well formed, for every stream of ticks: it carries its token, starts
  on a bucket boundary, counts at least one tick, has a volume of at least 0 even when the exchange's cumulative
  volume was reset inside the bucket, and its low and high enclose open and close.\<close>

theorem completed_candles_wf:
  "list_all (candle_wf width token) (completed (fold (add_tick width) ts new_aggregator) token)"
proof -
  have "completed (fold (add_tick width) ts new_aggregator) token =
      map (as_dict \<circ> candle_of width) (butlast (runs (tick_bucket width) (mine token ts)))"
    using aggregates_fold[of width ts] by (simp add: aggregates_def Let_def)
  then show ?thesis by (auto simp: list_all_iff dest!: in_set_butlastD intro!: candle_of_wf)
qed

end
