(* ===== verification/Civil_Date.thy ===== *)
theory Civil_Date
  imports Prelude
begin

text \<open>
  The part of Python's \<open>datetime\<close> the data stores rely on: the month a UTC day falls in.  Days are
  counted from 1970-01-01; a month is numbered \<open>12 * year + (month - 1)\<close>, so that the order of the
  numbers is the order of the \<open>YYYY-MM\<close> keys.
\<close>

definition leap_year :: "int \<Rightarrow> bool" where
  "leap_year y \<longleftrightarrow> y mod 4 = 0 \<and> (y mod 100 \<noteq> 0 \<or> y mod 400 = 0)"

text \<open>Days from 1970-01-01 to the first of January of year \<open>y\<close>.\<close>

definition year_start :: "int \<Rightarrow> int" where
  "year_start y = 365 * y + (y - 1) div 4 - (y - 1) div 100 + (y - 1) div 400 - 719162 - 365"

definition month_length :: "int \<Rightarrow> nat \<Rightarrow> int" where
  "month_length y m =
     (if m = 1 then if leap_year y then 29 else 28
      else if m \<in> {3, 5, 8, 10} then 30 else 31)"

fun month_at :: "int \<Rightarrow> nat \<Rightarrow> nat \<Rightarrow> int \<Rightarrow> nat" where
  "month_at y m 0 d = m"
| "month_at y m (Suc n) d = (if d < month_length y m then m else month_at y (Suc m) n (d - month_length y m))"

definition year_of_day :: "int \<Rightarrow> int" where
  "year_of_day d =
     (let y = (d + 719528) * 400 div 146097
      in if d < year_start y then y - 1 else if year_start (y + 1) \<le> d then y + 1 else y)"

definition month_number :: "int \<Rightarrow> int" where
  "month_number d = (let y = year_of_day d in 12 * y + int (month_at y 0 11 (d - year_start y)))"

lemma div_pred:
  assumes "0 < (k::int)"
  shows "y div k = (y - 1) div k + (if y mod k = 0 then 1 else 0)"
proof -
  define q r where "q = (y - 1) div k" and "r = (y - 1) mod k"
  have y: "y = k * q + (r + 1)" "0 \<le> r" "r < k"
    using assms mult_div_mod_eq[of k "y - 1"] by (simp_all add: q_def r_def)
  show ?thesis
  proof (cases "r + 1 = k")
    case True
    then have "y = k * (q + 1)" using y by (simp add: algebra_simps)
    then have "y div k = q + 1" "y mod k = 0" using assms by simp_all
    then show ?thesis by (simp add: q_def)
  next
    case False
    then have "(r + 1) div k = 0" "(r + 1) mod k = r + 1" using y by (auto intro: div_pos_pos_trivial mod_pos_pos_trivial)
    then have "y div k = q" "y mod k = r + 1" using y assms by simp_all
    then show ?thesis using y(2) unfolding q_def[symmetric] by simp
  qed
qed

lemma year_start_step: "year_start (y + 1) = year_start y + (if leap_year y then 366 else 365)"
proof -
  obtain q4 q100 q400 where q: "q4 = (y - 1) div 4" "q100 = (y - 1) div 100" "q400 = (y - 1) div 400" by blast
  have ys: "year_start (y + 1) = 365 * y + 365 + y div 4 - y div 100 + y div 400 - 719527"
    "year_start y = 365 * y + q4 - q100 + q400 - 719527" by (simp_all add: year_start_def q)
  have d: "y div 4 = q4 + (if y mod 4 = 0 then 1 else 0)" "y div 100 = q100 + (if y mod 100 = 0 then 1 else 0)"
    "y div 400 = q400 + (if y mod 400 = 0 then 1 else 0)" unfolding q by (rule div_pred, simp)+
  have m: "y mod 100 = 0 \<Longrightarrow> y mod 4 = 0" "y mod 400 = 0 \<Longrightarrow> y mod 100 = 0"
    using mod_mod_cancel[of 4 100 y] mod_mod_cancel[of 100 400 y] by simp_all
  have "y div 4 - y div 100 + y div 400 = q4 - q100 + q400 + (if leap_year y then 1 else 0)"
    unfolding d leap_year_def using m by (cases "y mod 4 = 0"; cases "y mod 100 = 0"; cases "y mod 400 = 0") simp_all
  then show ?thesis unfolding ys by (cases "leap_year y") simp_all
qed

lemma div_times_bounds:
  assumes "0 < (k::int)" shows "x - k < k * (x div k)" "k * (x div k) \<le> x"
  using assms mult_div_mod_eq[of k x] pos_mod_bound[of k x] pos_mod_sign[of k x] by linarith+

lemma year_start_bounds:
  "146097 * y - 400 * 719528 - 1200 \<le> 400 * year_start y
   \<and> 400 * year_start y \<le> 146097 * y - 400 * 719528 + 1200"
proof -
  have "400 * year_start y = 146000 * y + 100 * (4 * ((y - 1) div 4)) - 4 * (100 * ((y - 1) div 100))
      + 400 * ((y - 1) div 400) - 400 * 719527" by (simp add: year_start_def)
  then show ?thesis
    using div_times_bounds[of 4 "y - 1", simplified] div_times_bounds[of 100 "y - 1", simplified]
      div_times_bounds[of 400 "y - 1", simplified] by linarith
qed

lemma year_of_day: "year_start (year_of_day d) \<le> d \<and> d < year_start (year_of_day d + 1)"
proof -
  define y where "y = (d + 719528) * 400 div 146097"
  have y: "146097 * y \<le> (d + 719528) * 400" "(d + 719528) * 400 < 146097 * y + 146097"
    using div_times_bounds[of 146097 "(d + 719528) * 400"] by (auto simp: y_def)
  have "400 * year_start (y - 1) \<le> 146097 * y - 146097 - 400 * 719528 + 1200"
    using year_start_bounds[of "y - 1"] by (simp add: algebra_simps)
  with y have "year_start (y - 1) \<le> d" by (simp add: algebra_simps)
  have "146097 * y + 2 * 146097 - 400 * 719528 - 1200 \<le> 400 * year_start (y + 2)"
    using year_start_bounds[of "y + 2"] by (simp add: algebra_simps)
  with y have "d < year_start (y + 2)" by (simp add: algebra_simps)
  note \<open>year_start (y - 1) \<le> d\<close>
  then show ?thesis 
    unfolding year_of_day_def Let_def y_def[symmetric] using \<open>d < year_start (y + 2)\<close>
    by (cases "d < year_start y"; cases "year_start (y + 1) \<le> d") (simp_all add: add.commute)
qed

lemma year_start_mono: "x \<le> y \<Longrightarrow> year_start x \<le> year_start y"
proof (induction y rule: int_ge_induct)
  case (step i)
  then show ?case using year_start_step[of i] by (auto split: if_splits)
qed simp

lemma month_at_range: "m \<le> month_at y m n d \<and> month_at y m n d \<le> m + n"
  by (induction y m n d rule: month_at.induct) auto

lemma month_at_mono: "d \<le> e \<Longrightarrow> month_at y m n d \<le> month_at y m n e"
proof (induction n arbitrary: m d e)
  case (Suc n)
  then show ?case using month_at_range[of "Suc m" y n "e - month_length y m"] by auto
qed simp

lemma month_number_mono: assumes "d \<le> e" shows "month_number d \<le> month_number e"
proof (cases "year_of_day d = year_of_day e")
  case True
  then show ?thesis using assms by (simp add: month_number_def Let_def month_at_mono)
next
  case False
  have "year_of_day d < year_of_day e"
  proof (rule ccontr)
    assume "\<not> ?thesis"
    with False have "year_of_day e + 1 \<le> year_of_day d" by simp
    from year_start_mono[OF this] year_of_day[of d] year_of_day[of e] assms show False by linarith
  qed
  then show ?thesis
    using month_at_range[of 0 "year_of_day d" 11 "d - year_start (year_of_day d)"]
    by (simp add: month_number_def Let_def)
qed

lemma month_number_samples:
  "month_number 0 = 12 * 1970" "month_number 30 = 12 * 1970" "month_number 31 = 12 * 1970 + 1"
  "month_number 19782 = 12 * 2024 + 1" "month_number 19783 = 12 * 2024 + 2"
  by code_simp+

end
