(* ===== verification/Tick_Store.thy ===== *)
theory Tick_Store
  imports Candles Civil_Date Py_Dict "HOL-Library.Multiset"
begin

text \<open>
  The long-term store (\<open>tick_store.py\<close>) and the batched writer in front of it (\<open>tick_writer.py\<close>).  A
  monthly SQLite file is the list of its rows in rowid order; the two statements used on it,
  \<open>INSERT OR IGNORE\<close> and \<open>INSERT OR REPLACE\<close>, are written out with their constraints.  A row of a table is
  the tick or candle itself, since every column is a key of it.  A failing write of a whole batch (the
  \<open>except\<close> of the writer) is an input of the flush.
\<close>

record month_db =
  db_ticks :: "wire_tick list"
  db_candles :: "candle_dict list"

type_synonym tick_store = "int \<rightharpoonup> month_db"

definition month_key :: "int \<Rightarrow> int" where
  "month_key timestamp_ms = month_number (timestamp_ms div 86400000)"

definition month_db_of :: "tick_store \<Rightarrow> int \<Rightarrow> month_db" where
  "month_db_of st k = get_or \<lparr>db_ticks = [], db_candles = []\<rparr> (st k)"

section \<open>Writing\<close>

text \<open>\<open>UNIQUE(token, timestamp_ms, sequence)\<close>; SQL never finds two \<open>NULL\<close>s equal.\<close>

definition same_tick :: "wire_tick \<Rightarrow> wire_tick \<Rightarrow> bool" where
  "same_tick s t \<longleftrightarrow> wt_token s = wt_token t \<and> wt_timestamp_ms s = wt_timestamp_ms t
     \<and> wt_sequence s = wt_sequence t \<and> wt_sequence s \<noteq> None"

definition tick_not_null :: "wire_tick \<Rightarrow> bool" where
  "tick_not_null t \<longleftrightarrow>
     wt_source_broker t \<noteq> None \<and> wt_token t \<noteq> None \<and> wt_timestamp_ms t \<noteq> None \<and> wt_ltp t \<noteq> None"

text \<open>\<open>INSERT OR IGNORE\<close> skips a row that violates a constraint; \<open>rowcount\<close> tells whether it was stored.\<close>

definition insert_tick :: "wire_tick \<Rightarrow> wire_tick list \<Rightarrow> wire_tick list \<times> nat" where
  "insert_tick t rows =
     (if tick_not_null t \<and> \<not> list_ex (same_tick t) rows then (rows @ [t], 1) else (rows, 0))"

fun insert_ticks :: "wire_tick list \<Rightarrow> wire_tick list \<Rightarrow> nat \<Rightarrow> wire_tick list \<times> nat" where
  "insert_ticks [] rows rowcount = (rows, rowcount)"
| "insert_ticks (t # ts) rows rowcount = (case insert_tick t rows of (rows', n) \<Rightarrow> insert_ticks ts rows' n)"

text \<open>One month: the rows are inserted one by one and the cursor's row count is read after the last.\<close>

definition write_month :: "int \<times> wire_tick list \<Rightarrow> tick_store \<times> nat \<Rightarrow> tick_store \<times> nat" where
  "write_month g s =
     (let db = month_db_of (fst s) (fst g);
          (rows, rowcount) = insert_ticks (snd g) (db_ticks db) 0
      in ((fst s)(fst g \<mapsto> db\<lparr>db_ticks := rows\<rparr>), snd s + rowcount))"

definition tick_month :: "wire_tick \<Rightarrow> int option" where
  "tick_month t = map_option month_key (wt_timestamp_ms t)"

definition write_ticks :: "wire_tick list \<Rightarrow> tick_store \<Rightarrow> tick_store \<times> nat" where
  "write_ticks ticks st = fold write_month (group_by tick_month ticks) (st, 0)"

text \<open>\<open>INSERT OR REPLACE\<close>: rows of the same token and bucket are deleted, the new row is appended.\<close>

definition same_candle :: "candle_dict \<Rightarrow> candle_dict \<Rightarrow> bool" where
  "same_candle c d \<longleftrightarrow> k_token c = k_token d \<and> k_bucket c = k_bucket d"

definition replace_candle :: "candle_dict \<Rightarrow> candle_dict list \<Rightarrow> candle_dict list" where
  "replace_candle c rows = filter (\<lambda>d. \<not> same_candle c d) rows @ [c]"

definition write_candle_month :: "int \<times> candle_dict list \<Rightarrow> tick_store \<times> nat \<Rightarrow> tick_store \<times> nat" where
  "write_candle_month g s =
     (let db = month_db_of (fst s) (fst g)
      in ((fst s)(fst g \<mapsto> db\<lparr>db_candles := fold replace_candle (snd g) (db_candles db)\<rparr>),
          snd s + (if snd g = [] then 0 else 1)))"

definition write_candles :: "candle_dict list \<Rightarrow> tick_store \<Rightarrow> tick_store \<times> nat" where
  "write_candles candles st =
     fold write_candle_month (group_by (\<lambda>c. Some (month_key (k_bucket c))) candles) (st, 0)"

section \<open>Reading\<close>

text \<open>The files of the store directory in the order of their names; the months are given by \<open>files\<close>.\<close>

definition months_available :: "int set \<Rightarrow> int list" where
  "months_available files = sorted_list_of_set files"

definition query_ticks :: "tick_store \<Rightarrow> string \<Rightarrow> int \<Rightarrow> int \<Rightarrow> wire_tick list" where
  "query_ticks st token start_ms end_ms =
     concat (map (\<lambda>k. sort_key (\<lambda>t. the (wt_timestamp_ms t))
                       (filter (\<lambda>t. wt_token t = Some token
                                  \<and> (case wt_timestamp_ms t of None \<Rightarrow> False
                                     | Some ts \<Rightarrow> start_ms \<le> ts \<and> ts \<le> end_ms))
                          (db_ticks (month_db_of st k))))
              (months_available (dom st)))"

definition query_candles :: "tick_store \<Rightarrow> string \<Rightarrow> int \<Rightarrow> int \<Rightarrow> candle_dict list" where
  "query_candles st token start_ms end_ms =
     concat (map (\<lambda>k. sort_key k_bucket
                       (filter (\<lambda>c. k_token c = token \<and> start_ms \<le> k_bucket c \<and> k_bucket c \<le> end_ms)
                          (db_candles (month_db_of st k))))
              (months_available (dom st)))"

section \<open>What a batch leaves in a month\<close>

lemma insert_ticks_rows:
  "fst (insert_ticks ts rows n) = fold (\<lambda>t rows. fst (insert_tick t rows)) ts rows"
  by (induction ts rows n rule: insert_ticks.induct) (auto split: prod.splits)

lemma write_month_at:
  "db_ticks (month_db_of (fst (write_month g s)) k) =
     (if k = fst g then fold (\<lambda>t rows. fst (insert_tick t rows)) (snd g) (db_ticks (month_db_of (fst s) k))
      else db_ticks (month_db_of (fst s) k))"
  "dom (fst (write_month g s)) = insert (fst g) (dom (fst s))"
  using insert_ticks_rows[of "snd g" "db_ticks (month_db_of (fst s) (fst g))" 0]
  by (auto simp: write_month_def Let_def month_db_of_def split: prod.splits)

lemma write_months_at:
  "distinct (map fst g) \<Longrightarrow>
     db_ticks (month_db_of (fst (fold write_month g s)) k) =
       (case map_of g k of None \<Rightarrow> db_ticks (month_db_of (fst s) k)
        | Some ts \<Rightarrow> fold (\<lambda>t rows. fst (insert_tick t rows)) ts (db_ticks (month_db_of (fst s) k)))
   \<and> dom (fst (fold write_month g s)) = dom (fst s) \<union> set (map fst g)"
proof (induction g arbitrary: s)
  case (Cons a g)
  have "fst a \<notin> set (map fst g)" using Cons.prems by simp
  then have "map_of g (fst a) = None" by (simp add: map_of_eq_None_iff)
  then show ?case
    using Cons.IH[of "write_month a s"] Cons.prems by (auto simp: write_month_at split: option.splits)
qed simp

text \<open>The effect of a batch, month by month.\<close>

lemma write_ticks_month:
  "db_ticks (month_db_of (fst (write_ticks ts st)) k) =
     fold (\<lambda>t rows. fst (insert_tick t rows)) (filter (\<lambda>t. tick_month t = Some k) ts) (db_ticks (month_db_of st k))"
  using write_months_at[OF group_by_keys, of tick_month ts "(st, 0)" k]
  by (auto simp: write_ticks_def group_by_map_of Let_def)

lemma write_ticks_dom:
  "dom (fst (write_ticks ts st)) = dom st \<union> {k. \<exists>t\<in>set ts. tick_month t = Some k}"
proof -
  have "set (map fst (group_by tick_month ts)) = {k. \<exists>t\<in>set ts. tick_month t = Some k}"
    using set_group_by[of _ tick_month ts] by blast
  then show ?thesis using write_months_at[OF group_by_keys, of tick_month ts "(st, 0)"] by (simp add: write_ticks_def)
qed

lemma insert_tick_all:
  assumes "list_all tick_not_null ts" "sorted_wrt (\<lambda>s t. \<not> same_tick s t) (rows @ ts)"
  shows "fold (\<lambda>t rows. fst (insert_tick t rows)) ts rows = rows @ ts"
  using assms
proof (induction ts arbitrary: rows)
  case (Cons t ts)
  have "\<not> list_ex (same_tick t) rows"
    using Cons.prems(2) by (auto simp: sorted_wrt_append list_ex_iff same_tick_def)
  then show ?case using Cons.IH[of "rows @ [t]"] Cons.prems by (simp add: insert_tick_def)
qed simp

section \<open>Reading back across months\<close>

lemma sort_key_split:
  assumes mono: "\<And>x y. x \<in> set xs \<Longrightarrow> y \<in> set xs \<Longrightarrow> f x \<le> f y \<Longrightarrow> g x \<le> (g y :: 'k::linorder)"
    and "sorted_wrt (<) ks"
  shows "concat (map (\<lambda>k. sort_key f (filter (\<lambda>x. g x = k) xs)) ks) = sort_key f (filter (\<lambda>x. g x \<in> set ks) xs)"
  using assms(2)
proof (induction ks)
  case (Cons k ks)
  let ?A = "filter (\<lambda>x. g x = k) xs" and ?B = "filter (\<lambda>x. g x \<in> set ks) xs"
    and ?C = "filter (\<lambda>x. g x \<in> set (k # ks)) xs"
  have k: "k \<notin> set ks" using Cons.prems by auto
  have "sort_key f ?C = sort_key f ?A @ sort_key f ?B"
  proof (rule properties_for_sort_key)
    have "mset (filter (\<lambda>x. g x \<in> set (k # ks)) ys) = mset (filter (\<lambda>x. g x = k) ys) + mset (filter (\<lambda>x. g x \<in> set ks) ys)" for ys
      using k by (induction ys) auto
    then show "mset (sort_key f ?A @ sort_key f ?B) = mset ?C" by simp
    have lt: "f a < f b" if "a \<in> set ?A" "b \<in> set ?B" for a b
      using that Cons.prems mono[of b a] by (fastforce simp: not_le[symmetric])
    then show "sorted (map f (sort_key f ?A @ sort_key f ?B))" by (fastforce simp: sorted_append)
    fix y assume "y \<in> set (sort_key f ?A @ sort_key f ?B)"
    then have y: "y \<in> set ?A \<or> y \<in> set ?B" by simp
    have "filter (\<lambda>x. f y = f x) ?A = [] \<or> filter (\<lambda>x. f y = f x) ?B = []"
    proof (rule ccontr)
      assume "\<not> ?thesis"
      then obtain a b where "a \<in> set ?A" "f y = f a" "b \<in> set ?B" "f y = f b"
        by (fastforce simp: filter_empty_conv)
      with lt[of a b] show False by simp
    qed
    moreover have "filter (\<lambda>x. f y = f x) (sort_key f zs) = filter (\<lambda>x. f y = f x) zs" for zs
      using sort_key_stable[of f "f y" zs] by (simp add: eq_commute)
    moreover have "filter p (filter (\<lambda>x. g x \<in> set (k # ks)) ys)
        = filter p (filter (\<lambda>x. g x = k) ys) @ filter p (filter (\<lambda>x. g x \<in> set ks) ys)"
      if "filter p (filter (\<lambda>x. g x = k) ys) = [] \<or> filter p (filter (\<lambda>x. g x \<in> set ks) ys) = []" for p ys
      using that k by (induction ys) (auto split: if_splits)
    ultimately show "filter (\<lambda>x. f y = f x) (sort_key f ?A @ sort_key f ?B) = filter (\<lambda>x. f y = f x) ?C"
      by (simp only: filter_append)
  qed
  with Cons.IH Cons.prems show ?case by simp
qed simp

definition tick_in_range :: "string \<Rightarrow> int \<Rightarrow> int \<Rightarrow> wire_tick \<Rightarrow> bool" where
  "tick_in_range token start_ms end_ms t \<longleftrightarrow> wt_token t = Some token
     \<and> (case wt_timestamp_ms t of None \<Rightarrow> False | Some ts \<Rightarrow> start_ms \<le> ts \<and> ts \<le> end_ms)"

lemma month_key_mono: "a \<le> b \<Longrightarrow> month_key a \<le> month_key b"
  unfolding month_key_def by (intro month_number_mono zdiv_mono1) auto

text \<open>What is written is read back. A batch of complete ticks with no key twice, written to an empty store however
  many months it spans, is returned by a query as exactly its ticks of that token and period, each with every field
  as it was, in the order of their times over the borders of the monthly files.\<close>

theorem written_ticks_read_back:
  assumes "list_all tick_not_null ts" "sorted_wrt (\<lambda>s t. \<not> same_tick s t) ts"
  shows "query_ticks (fst (write_ticks ts Map.empty)) token start_ms end_ms =
           sort_key (\<lambda>t. the (wt_timestamp_ms t)) (filter (tick_in_range token start_ms end_ms) ts)"
proof -
  let ?st = "fst (write_ticks ts Map.empty)" and ?f = "\<lambda>t. the (wt_timestamp_ms t)"
    and ?own = "filter (tick_in_range token start_ms end_ms) ts"
  let ?g = "\<lambda>t. month_key (?f t)" and ?ks = "months_available (dom ?st)"
  have rows: "db_ticks (month_db_of ?st k) = filter (\<lambda>t. tick_month t = Some k) ts" for k
  proof -
    have "list_all tick_not_null (filter (\<lambda>t. tick_month t = Some k) ts)"
      using assms(1) by (auto simp: list_all_iff)
    moreover have "sorted_wrt (\<lambda>s t. \<not> same_tick s t) ([] @ filter (\<lambda>t. tick_month t = Some k) ts)"
      using assms(2) by (simp add: sorted_wrt_filter)
    ultimately show ?thesis unfolding write_ticks_month using insert_tick_all[of _ "[]"] by (simp add: month_db_of_def)
  qed
  have finite: "finite (dom ?st)"
    unfolding write_ticks_dom by (rule finite_subset[of _ "(the \<circ> tick_month) ` set ts"], force, simp)
  have "query_ticks ?st token start_ms end_ms = concat (map (\<lambda>k. sort_key ?f (filter (\<lambda>t. ?g t = k) ?own)) ?ks)"
    unfolding query_ticks_def rows
    by (rule arg_cong[where f = concat], rule map_cong, rule refl, rule arg_cong[where f = "sort_key ?f"])
      (auto simp: tick_in_range_def tick_month_def intro!: filter_cong split: option.splits)
  also have "\<dots> = sort_key ?f (filter (\<lambda>t. ?g t \<in> set ?ks) ?own)"
    by (rule sort_key_split) (auto simp: months_available_def month_key_mono)
  also have "filter (\<lambda>t. ?g t \<in> set ?ks) ?own = ?own"
  proof (rule filter_True, rule ballI)
    fix t assume "t \<in> set ?own"
    then have "\<exists>u\<in>set ts. tick_month u = Some (?g t)"
      by (intro bexI[of _ t]) (auto simp: tick_in_range_def tick_month_def split: option.splits)
    then have "?g t \<in> dom ?st" unfolding write_ticks_dom by simp
    then show "?g t \<in> set ?ks" using finite by (simp add: months_available_def)
  qed
  finally show ?thesis .
qed

theorem written_ticks_read_back_witness:
  "let ts = map (\<lambda>(q, ms). sample_wire_tick\<lparr>wt_sequence := Some q, wt_timestamp_ms := Some ms\<rparr>)
              [(2, 1709251200000), (1, 1709251199000)]
   in query_ticks (fst (write_ticks ts Map.empty)) ''4711'' 0 2000000000000 = rev ts"
  unfolding Let_def
  by (subst written_ticks_read_back)
    (simp_all add: sample_wire_tick_def tick_not_null_def same_tick_def tick_in_range_def)

text \<open>Two complete ticks of one month: both are stored, the result counts one.\<close>

lemma insert_ticks_count: "snd (insert_ticks ts rows n) \<le> max n 1"
  by (induction ts rows n rule: insert_ticks.induct) (auto simp: insert_tick_def split: prod.splits if_splits)

lemma write_months_count: "snd (fold write_month g s) \<le> snd s + length g"
proof (induction g arbitrary: s)
  case (Cons a g)
  have "snd (write_month a s) \<le> Suc (snd s)"
    using insert_ticks_count[of "snd a" "db_ticks (month_db_of (fst s) (fst a))" 0]
    by (auto simp: write_month_def Let_def split: prod.splits)
  then show ?case using Cons.IH[of "write_month a s"] by simp
qed simp

text \<open>\<open>write_ticks\<close> does not return how many ticks it wrote: it reads the cursor's row count only after the last
  insert of a month, so a batch of one month reports at most 1 - while every complete tick of it is stored.\<close>

theorem write_ticks_miscounts:
  assumes "list_all tick_not_null ts" "sorted_wrt (\<lambda>s t. \<not> same_tick s t) ts"
    and "\<forall>t\<in>set ts. tick_month t = Some k"
  shows "snd (write_ticks ts Map.empty) \<le> 1 \<and> db_ticks (month_db_of (fst (write_ticks ts Map.empty)) k) = ts"
proof
  have "set (map fst (group_by tick_month ts)) \<subseteq> {k}" using assms(3) set_group_by[of _ tick_month ts] by fastforce
  from card_mono[OF _ this] have "card (set (map fst (group_by tick_month ts))) \<le> 1" by simp
  then have "length (group_by tick_month ts) \<le> 1"
    using distinct_card[OF group_by_keys[of tick_month ts]] by simp
  then show "snd (write_ticks ts Map.empty) \<le> 1"
    using write_months_count[of "group_by tick_month ts" "(Map.empty, 0)"] by (simp add: write_ticks_def)
  have "filter (\<lambda>t. tick_month t = Some k) ts = ts" using assms(3) by simp
  then show "db_ticks (month_db_of (fst (write_ticks ts Map.empty)) k) = ts"
    unfolding write_ticks_month using insert_tick_all[of ts "[]"] assms by (simp add: month_db_of_def)
qed

theorem write_ticks_miscounts_witness:
  "let ts = map (\<lambda>q. sample_wire_tick\<lparr>wt_sequence := Some q\<rparr>) [1, 2, 3]
   in snd (write_ticks ts Map.empty) \<le> 1
    \<and> length (db_ticks (month_db_of (fst (write_ticks ts Map.empty)) (month_key 1700000000000))) = 3"
  unfolding Let_def using write_ticks_miscounts[of "map (\<lambda>q. sample_wire_tick\<lparr>wt_sequence := Some q\<rparr>) [1, 2, 3]"
    "month_key 1700000000000"]
  by (simp add: sample_wire_tick_def tick_not_null_def same_tick_def tick_month_def)

section \<open>Candles in the store\<close>

definition at_bucket :: "string \<Rightarrow> int \<Rightarrow> candle_dict \<Rightarrow> bool" where
  "at_bucket token b c \<longleftrightarrow> k_token c = token \<and> k_bucket c = b"

lemma replace_candle_at:
  "filter (at_bucket token b) (replace_candle c rows) =
     (if at_bucket token b c then [c] else filter (at_bucket token b) rows)"
  by (auto simp: replace_candle_def same_candle_def at_bucket_def filter_empty_conv intro!: filter_cong)

lemma replace_candles_last:
  "filter (at_bucket token b) (fold replace_candle cs rows) =
     (let own = filter (at_bucket token b) cs
      in if own = [] then filter (at_bucket token b) rows else [last own])"
  by (induction cs rule: rev_induct) (simp_all add: replace_candle_at Let_def)

lemma write_candle_month_at:
  "db_candles (month_db_of (fst (write_candle_month g s)) k) =
     (if k = fst g then fold replace_candle (snd g) (db_candles (month_db_of (fst s) k))
      else db_candles (month_db_of (fst s) k))"
  "dom (fst (write_candle_month g s)) = insert (fst g) (dom (fst s))"
  by (auto simp: write_candle_month_def Let_def month_db_of_def)

lemma write_candle_months_at:
  "distinct (map fst g) \<Longrightarrow>
     db_candles (month_db_of (fst (fold write_candle_month g s)) k) =
       fold replace_candle (get_or [] (map_of g k)) (db_candles (month_db_of (fst s) k))"
proof (induction g arbitrary: s)
  case (Cons a g)
  have "fst a \<notin> set (map fst g)" using Cons.prems by simp
  then have "map_of g (fst a) = None" by (simp add: map_of_eq_None_iff)
  then show ?case
    using Cons.IH[of "write_candle_month a s"] Cons.prems by (auto simp: write_candle_month_at)
qed simp

lemma write_candles_month:
  "db_candles (month_db_of (fst (write_candles cs st)) k) =
     fold replace_candle (filter (\<lambda>c. month_key (k_bucket c) = k) cs) (db_candles (month_db_of st k))"
  using write_candle_months_at[OF group_by_keys, of "\<lambda>c. Some (month_key (k_bucket c))" cs "(st, 0)" k]
  by (auto simp: write_candles_def group_by_map_of Let_def get_or_def filter_empty_conv split: if_splits)

lemma stored_candles:
  assumes "filter (at_bucket token b) cs \<noteq> []"
  shows "filter (at_bucket token b) (db_candles (month_db_of (fst (write_candles cs st)) (month_key b))) =
         [last (filter (at_bucket token b) cs)]"
proof -
  have "filter (at_bucket token b) (filter (\<lambda>c. month_key (k_bucket c) = month_key b) cs) = filter (at_bucket token b) cs"
    by (auto simp: at_bucket_def intro!: filter_cong)
  with assms show ?thesis unfolding write_candles_month replace_candles_last Let_def by simp
qed

text \<open>A late tick destroys a stored candle. When a tick of an already closed bucket arrives after ticks of another
  bucket, the aggregator opens a second candle for it, and after the flush the store holds only that one: its
  count is 1, however many ticks the bucket's first candle was built from.\<close>

theorem late_tick_destroys_candle:
  assumes "list_all (\<lambda>t. accepted t \<and> token_of t = token) (ps @ qs @ [late])"
    and "qs \<noteq> []" "\<forall>t\<in>set qs. tick_bucket width t \<noteq> tick_bucket width late"
  defines "agg \<equiv> flush_token token (fold (add_tick width) (ps @ qs @ [late]) new_aggregator)"
  shows "map k_tick_count (filter (at_bucket token (tick_bucket width late))
      (db_candles (month_db_of (fst (write_candles (completed agg token) st)) (month_key (tick_bucket width late)))))
    = [1]"
proof -
  have "filter (\<lambda>t. accepted t \<and> token_of t = token) (ps @ qs @ [late]) = ps @ qs @ [late]"
    using assms(1) by (intro filter_True) (simp add: list_all_iff)
  then have m: "mine token (ps @ qs @ [late]) = (ps @ qs) @ [late]" by (simp add: mine_def)
  have "tick_bucket width (last (ps @ qs)) \<noteq> tick_bucket width late" using assms(2,3) by simp
  then have "runs (tick_bucket width) (mine token (ps @ qs @ [late])) = runs (tick_bucket width) (ps @ qs) @ [[late]]"
    using assms(2) unfolding m runs_snoc by simp
  then have c: "completed agg token =
      map (as_dict \<circ> candle_of width) (runs (tick_bucket width) (ps @ qs)) @ [as_dict (candle_of width [late])]"
    unfolding agg_def completed_flush by simp
  have "at_bucket token (tick_bucket width late) (as_dict (candle_of width [late]))"
    using assms(1) by (simp add: at_bucket_def as_dict_def candle_of_def)
  then show ?thesis unfolding c by (subst stored_candles) (simp_all add: as_dict_def candle_of_def)
qed

theorem late_tick_destroys_candle_witness:
  "let tk = (\<lambda>ms. sample_wire_tick\<lparr>wt_timestamp_ms := Some ms\<rparr>);
       agg = flush_token ''4711'' (fold (add_tick FIVE_MIN_MS) ([tk 0, tk 1000] @ [tk 300000] @ [tk 2000]) new_aggregator)
   in map k_tick_count (filter (at_bucket ''4711'' (tick_bucket FIVE_MIN_MS (tk 2000)))
        (db_candles (month_db_of (fst (write_candles (completed agg ''4711'') Map.empty))
           (month_key (tick_bucket FIVE_MIN_MS (tk 2000)))))) = [1]"
  unfolding Let_def
  by (rule late_tick_destroys_candle)
    (simp_all add: sample_wire_tick_def accepted_def token_of_def tick_bucket_def bucket_start_ms_def FIVE_MIN_MS_def)

section \<open>The batched writer\<close>

record tick_writer =
  tw_tick_queue :: "wire_tick list"
  tw_candle_queue :: "candle_dict list"
  tw_dropped_ticks :: nat
  tw_dropped_candles :: nat
  tw_stop :: bool
  tw_alive :: bool

definition DEFAULT_MAX_QUEUE_SIZE :: nat where
  "DEFAULT_MAX_QUEUE_SIZE = 20000"

definition new_writer :: tick_writer where
  "new_writer = \<lparr>tw_tick_queue = [], tw_candle_queue = [], tw_dropped_ticks = 0, tw_dropped_candles = 0,
     tw_stop = False, tw_alive = False\<rparr>"

definition enqueue_tick :: "nat \<Rightarrow> wire_tick \<Rightarrow> tick_writer \<Rightarrow> tick_writer" where
  "enqueue_tick limit t w =
     (if length (tw_tick_queue w) < limit then w\<lparr>tw_tick_queue := tw_tick_queue w @ [t]\<rparr>
      else w\<lparr>tw_dropped_ticks := tw_dropped_ticks w + 1\<rparr>)"

definition enqueue_candle :: "nat \<Rightarrow> candle_dict \<Rightarrow> tick_writer \<Rightarrow> tick_writer" where
  "enqueue_candle limit c w =
     (if length (tw_candle_queue w) < limit then w\<lparr>tw_candle_queue := tw_candle_queue w @ [c]\<rparr>
      else w\<lparr>tw_dropped_candles := tw_dropped_candles w + 1\<rparr>)"

text \<open>
  \<open>_flush_once\<close>: both queues are drained; a write that raises (\<open>ok\<close> false) loses its batch.
\<close>

definition flush_once :: "bool \<Rightarrow> bool \<Rightarrow> tick_writer \<times> tick_store \<Rightarrow> tick_writer \<times> tick_store" where
  "flush_once ticks_ok candles_ok s =
     (let (w, st) = s;
          st1 = (if tw_tick_queue w \<noteq> [] \<and> ticks_ok then fst (write_ticks (tw_tick_queue w) st) else st);
          st2 = (if tw_candle_queue w \<noteq> [] \<and> candles_ok then fst (write_candles (tw_candle_queue w) st1) else st1)
      in (w\<lparr>tw_tick_queue := [], tw_candle_queue := []\<rparr>, st2))"

text \<open>The thread: \<open>start\<close>, one period of \<open>_run\<close>, and \<open>stop\<close> with its own flush (\<open>joined\<close>: the thread ended in time).\<close>

definition start_writer :: "tick_writer \<Rightarrow> tick_writer" where
  "start_writer w = (if tw_alive w then w else w\<lparr>tw_stop := False, tw_alive := True\<rparr>)"

definition run_period :: "bool \<Rightarrow> bool \<Rightarrow> tick_writer \<times> tick_store \<Rightarrow> tick_writer \<times> tick_store" where
  "run_period ticks_ok candles_ok s =
     (if \<not> tw_alive (fst s) then s
      else if tw_stop (fst s) then ((fst s)\<lparr>tw_alive := False\<rparr>, snd s)
      else flush_once ticks_ok candles_ok s)"

definition stop_writer :: "bool \<Rightarrow> bool \<Rightarrow> bool \<Rightarrow> bool \<Rightarrow> tick_writer \<times> tick_store \<Rightarrow> tick_writer \<times> tick_store" where
  "stop_writer flushing joined ticks_ok candles_ok s =
     (let w = (fst s)\<lparr>tw_stop := True\<rparr>;
          w1 = (if tw_alive w \<and> joined then w\<lparr>tw_alive := False\<rparr> else w)
      in if flushing then flush_once ticks_ok candles_ok (w1, snd s) else (w1, snd s))"

datatype writer_event =
  EnqueueTick wire_tick | EnqueueCandle candle_dict | StartWriter | RunPeriod bool bool | StopWriter bool bool bool bool

definition writer_step :: "nat \<Rightarrow> tick_writer \<times> tick_store \<Rightarrow> writer_event \<Rightarrow> tick_writer \<times> tick_store" where
  "writer_step limit s e =
     (case e of
        EnqueueTick t \<Rightarrow> (enqueue_tick limit t (fst s), snd s)
      | EnqueueCandle c \<Rightarrow> (enqueue_candle limit c (fst s), snd s)
      | StartWriter \<Rightarrow> (start_writer (fst s), snd s)
      | RunPeriod a b \<Rightarrow> run_period a b s
      | StopWriter f j a b \<Rightarrow> stop_writer f j a b s)"

text \<open>The events after which a write can lose ticks: a failed tick write with a non-empty queue.\<close>

fun tick_write_ok :: "writer_event \<Rightarrow> bool" where
  "tick_write_ok (RunPeriod a b) = a"
| "tick_write_ok (StopWriter f j a b) = a"
| "tick_write_ok _ = True"

fun enqueued_tick :: "writer_event \<Rightarrow> wire_tick list" where
  "enqueued_tick (EnqueueTick t) = [t]"
| "enqueued_tick _ = []"

text \<open>The rows a month's table gets from a list of ticks, one insert after the other.\<close>

definition rows_after :: "int \<Rightarrow> wire_tick list \<Rightarrow> wire_tick list" where
  "rows_after k ts = fold (\<lambda>t rows. fst (insert_tick t rows)) (filter (\<lambda>t. tick_month t = Some k) ts) []"

lemma rows_after_append:
  "rows_after k (xs @ ys) =
     fold (\<lambda>t rows. fst (insert_tick t rows)) (filter (\<lambda>t. tick_month t = Some k) ys) (rows_after k xs)"
  by (simp add: rows_after_def)

text \<open>What the writer owes: the store holds the accepted ticks but those still queued, in their order.\<close>

definition writer_owes :: "nat \<Rightarrow> wire_tick list \<Rightarrow> tick_writer \<times> tick_store \<Rightarrow> bool" where
  "writer_owes limit ts s \<longleftrightarrow>
     (\<exists>flushed. ts = flushed @ tw_tick_queue (fst s)
        \<and> (\<forall>k. db_ticks (month_db_of (snd s) k) = rows_after k flushed))
     \<and> length (tw_tick_queue (fst s)) \<le> limit \<and> length (tw_candle_queue (fst s)) \<le> limit"

lemma db_ticks_write_candles: "db_ticks (month_db_of (fst (write_candles cs st)) k) = db_ticks (month_db_of st k)"
proof -
  have "db_ticks (month_db_of (fst (fold write_candle_month g s)) k) = db_ticks (month_db_of (fst s) k)" for g s
    by (induction g arbitrary: s) (auto simp: write_candle_month_def Let_def month_db_of_def)
  then show ?thesis by (simp add: write_candles_def)
qed

lemma flush_owes: "writer_owes limit ts s \<Longrightarrow> writer_owes limit ts (flush_once True b s)"
  unfolding writer_owes_def
  by (cases s) (auto simp: flush_once_def Let_def db_ticks_write_candles write_ticks_month rows_after_append)

lemma writer_owes_cong:
  "tw_tick_queue (fst s) = tw_tick_queue (fst s') \<Longrightarrow> tw_candle_queue (fst s) = tw_candle_queue (fst s') \<Longrightarrow>
     snd s = snd s' \<Longrightarrow> writer_owes limit ts s = writer_owes limit ts s'"
  by (simp add: writer_owes_def)

lemma writer_step_owes:
  assumes "writer_owes limit ts s" "tick_write_ok e" "tw_dropped_ticks (fst (writer_step limit s e)) = tw_dropped_ticks (fst s)"
  shows "writer_owes limit (ts @ enqueued_tick e) (writer_step limit s e)"
proof (cases e)
  case (EnqueueTick t)
  then show ?thesis using assms by (auto simp: writer_step_def enqueue_tick_def writer_owes_def split: if_splits)
next
  case (EnqueueCandle c)
  then show ?thesis using assms by (auto simp: writer_step_def enqueue_candle_def writer_owes_def)
next
  case StartWriter
  then show ?thesis using assms by (auto simp: writer_step_def start_writer_def writer_owes_def)
next
  case (RunPeriod a b)
  then show ?thesis using assms flush_owes[OF assms(1)]
    by (auto simp: writer_step_def run_period_def elim: writer_owes_cong[THEN iffD1, rotated -1])
next
  case (StopWriter f j a b)
  let ?w = "(if tw_alive (fst s) \<and> j then (fst s)\<lparr>tw_stop := True, tw_alive := False\<rparr> else (fst s)\<lparr>tw_stop := True\<rparr>, snd s)"
  have "writer_owes limit ts ?w" using assms(1) by (simp add: writer_owes_def)
  from flush_owes[OF this, of b] this show ?thesis using StopWriter assms(2)
    by (auto simp: writer_step_def stop_writer_def Let_def split: if_splits)
qed

lemma dropped_ticks_mono: "tw_dropped_ticks (fst s) \<le> tw_dropped_ticks (fst (writer_step limit s e))"
  by (cases e)
    (auto simp: writer_step_def enqueue_tick_def enqueue_candle_def start_writer_def run_period_def stop_writer_def
      flush_once_def Let_def split: prod.splits)

text \<open>The writer loses and reorders nothing. Over any interleaving of enqueued ticks and candles, starts, flush
  periods and stops - with a thread that ends late or never - as long as no tick was dropped and no write failed,
  the ticks handed over are, in order, those the store's tables were built from followed by those still queued, and
  no queue is ever longer than its limit.\<close>

theorem writer_conserves_ticks:
  assumes "list_all tick_write_ok es"
    and "tw_dropped_ticks (fst (foldl (writer_step limit) (new_writer, Map.empty) es)) = 0"
  shows "writer_owes limit (concat (map enqueued_tick es)) (foldl (writer_step limit) (new_writer, Map.empty) es)"
  using assms
proof (induction es rule: rev_induct)
  case Nil
  show ?case by (simp add: writer_owes_def new_writer_def rows_after_def month_db_of_def)
next
  case (snoc e es)
  let ?s = "foldl (writer_step limit) (new_writer, Map.empty) es"
  have d: "tw_dropped_ticks (fst ?s) = 0" "tw_dropped_ticks (fst (writer_step limit ?s e)) = 0"
    using snoc.prems(2) dropped_ticks_mono[of ?s limit e] by simp_all
  then show ?case using snoc.IH snoc.prems(1) writer_step_owes[of limit _ ?s e] by simp
qed

theorem writer_conserves_ticks_witness:
  "writer_owes 2 [sample_wire_tick, sample_wire_tick\<lparr>wt_sequence := Some 6\<rparr>]
     (foldl (writer_step 2) (new_writer, Map.empty)
       [StartWriter, EnqueueTick sample_wire_tick, RunPeriod True True,
        EnqueueTick (sample_wire_tick\<lparr>wt_sequence := Some 6\<rparr>), StopWriter True False True True])"
  using writer_conserves_ticks[of "[StartWriter, EnqueueTick sample_wire_tick, RunPeriod True True,
        EnqueueTick (sample_wire_tick\<lparr>wt_sequence := Some 6\<rparr>), StopWriter True False True True]" 2]
  by (simp add: writer_step_def enqueue_tick_def start_writer_def run_period_def stop_writer_def flush_once_def
      new_writer_def Let_def)

end
