(* ===== verification/Broker_Feed.thy ===== *)
theory Broker_Feed
  imports Market_Tick WS_Client Wire_Format Tick_Store
begin

text \<open>
  The part of \<open>BrokerInterface\<close> that the feed shares: its state (\<open>core/trading/broker.py\<close>, \<open>__init__\<close>) and the
  WebSocket callback \<open>_on_ws_tick\<close> (\<open>tick_feed.py\<close>), which turns a parsed packet into the tick the trading
  loop reads.  \<open>time.time()\<close> and \<open>datetime.now()\<close> are instants; the empty string stands for a symbol, token or
  expiry that is not set.  Counters that are only logged are left out.
\<close>

datatype quote_source = RealQuote | EstimatedQuote

record feed_tick = tick +
  ft_token :: string
  ft_strike :: int
  ft_direction :: option_type
  ft_quote_source :: "quote_source option"
  ft_oi :: "int option"
  ft_enriched :: "enriched option"

datatype worker_phase = AtTop | Attempting | Finishing

record broker =
  br_client :: "ws_client option"
  br_spot_price :: real
  br_symbol :: string
  br_strike :: int
  br_option_token :: string
  br_last_tick :: "feed_tick option"
  br_tick_buffer :: "feed_tick list"
  br_last_valid_tick_time :: "instant option"
  br_original_tick_time :: "instant option"
  br_cached_option_tick :: "feed_tick option"
  br_last_spot_fetch :: instant
  br_last_option_fetch :: instant
  br_last_rest_refresh :: instant
  br_quotes_real :: int
  br_quotes_estimated :: int
  br_stale_token_ticks :: int
  br_tick_cache :: tick_cache
  br_sequence_tracker :: sequence_tracker
  br_ohlcv :: aggregator
  br_writer :: "tick_writer option"
  br_network_errors :: int
  br_network_until :: "instant option"
  br_ws_connected :: bool
  br_ws_last_tick :: instant
  br_ws_last_option_tick :: instant
  br_heartbeat_alive :: bool
  br_heartbeat_stop :: bool
  br_attempts :: nat
  br_delay :: real
  br_circuit_open :: bool
  br_circuit_until :: "instant option"
  br_premarket_done :: bool
  br_reconnect_running :: bool
  br_workers :: "worker_phase list"
  br_shutdown :: bool
  br_last_rotation :: instant
  br_last_reconnect :: instant
  br_last_ack_timeout :: instant

definition NIFTY_SPOT_TOKEN :: string where
  "NIFTY_SPOT_TOKEN = ''99926000''"

record feed_config =
  fc_option_type :: option_type
  fc_exchange :: string
  fc_sub_mode :: int
  fc_tick_oi :: bool
  fc_use_tick_buffer :: bool
  fc_buffer_max :: nat
  fc_queue_limit :: nat
  fc_use_live_data :: bool
  fc_enable_websocket :: bool
  fc_paper_trading :: bool
  fc_stale_rest_ms :: int
  fc_heartbeat_timeout :: int
  fc_max_attempts :: nat
  fc_max_delay :: real
  fc_circuit_cooldown :: int
  fc_limit_cooldown :: int
  fc_market_open :: "int \<times> int"
  fc_premarket_margin :: int
  fc_rotation_cooldown :: int
  fc_reconnect_stress :: int
  fc_ack_stress :: int
  fc_premium_min :: real
  fc_premium_max :: real
  fc_cross_strike :: bool
  fc_cross_strike_ttl :: real

definition default_feed_config :: feed_config where
  "default_feed_config =
     \<lparr>fc_option_type = CE, fc_exchange = ''NFO'', fc_sub_mode = 2, fc_tick_oi = False, fc_use_tick_buffer = True,
      fc_buffer_max = 10, fc_queue_limit = DEFAULT_MAX_QUEUE_SIZE, fc_use_live_data = False,
      fc_enable_websocket = True, fc_paper_trading = True, fc_stale_rest_ms = 5000, fc_heartbeat_timeout = 30,
      fc_max_attempts = 15, fc_max_delay = 30, fc_circuit_cooldown = 180, fc_limit_cooldown = 900,
      fc_market_open = (9, 15), fc_premarket_margin = 120, fc_rotation_cooldown = 180, fc_reconnect_stress = 180,
      fc_ack_stress = 180, fc_premium_min = 70, fc_premium_max = 350, fc_cross_strike = False,
      fc_cross_strike_ttl = 60\<rparr>"

definition new_broker :: broker where
  "new_broker =
     \<lparr>br_client = None, br_spot_price = 0, br_symbol = '''', br_strike = 0, br_option_token = '''',
      br_last_tick = None, br_tick_buffer = [], br_last_valid_tick_time = None, br_original_tick_time = None,
      br_cached_option_tick = None, br_last_spot_fetch = 0, br_last_option_fetch = 0, br_last_rest_refresh = 0,
      br_quotes_real = 0, br_quotes_estimated = 0, br_stale_token_ticks = 0, br_tick_cache = Map.empty,
      br_sequence_tracker = Map.empty, br_ohlcv = new_aggregator, br_writer = None, br_network_errors = 0,
      br_network_until = None, br_ws_connected = False, br_ws_last_tick = 0, br_ws_last_option_tick = 0,
      br_heartbeat_alive = False, br_heartbeat_stop = False, br_attempts = 0, br_delay = 1,
      br_circuit_open = False, br_circuit_until = None, br_premarket_done = False, br_reconnect_running = False,
      br_workers = [], br_shutdown = False, br_last_rotation = 0, br_last_reconnect = 0, br_last_ack_timeout = 0\<rparr>"

section \<open>From a packet to a tick\<close>

text \<open>\<open>tick_data.get('best_bid_price', 0) or ltp\<close>: a missing or zero side falls back to the price.\<close>

definition or_price :: "real option \<Rightarrow> real \<Rightarrow> real" where
  "or_price side price = (if truthy side then the side else price)"

definition packet_book :: "parsed_tick \<Rightarrow> depth option" where
  "packet_book p = Option.bind (pt_snap p) snap_book"

text \<open>Bid, ask and where they come from.\<close>

definition quote_of :: "parsed_tick \<Rightarrow> (real \<times> real) \<times> quote_source" where
  "quote_of p =
     (let price = pt_ltp p;
          b = or_price (map_option best_bid_price (packet_book p)) price;
          a = or_price (map_option best_ask_price (packet_book p)) price
      in if b \<le> 0 \<or> a \<le> 0 \<or> a \<le> b
         then let spread = max 0.05 (price * 0.003)
              in ((py_round 2 (price - spread / 2), py_round 2 (price + spread / 2)), EstimatedQuote)
         else ((b, a), RealQuote))"

definition build_tick :: "feed_config \<Rightarrow> instant \<Rightarrow> parsed_tick \<Rightarrow> broker \<Rightarrow> feed_tick" where
  "build_tick cfg now p br =
     (case quote_of p of ((b, a), src) \<Rightarrow>
        \<lparr>ltp = py_round 2 (pt_ltp p), bid = py_round 2 b, ask = py_round 2 a,
         tick_timestamp = current_time_ms now, original_timestamp = Some (current_time_ms now),
         tick_symbol = br_symbol br, spot_price = br_spot_price br,
         tick_volume = Some (case pt_quote p of None \<Rightarrow> 0 | Some q \<Rightarrow> q_volume q), data_source = '''',
         tick_spread_pct = None, tick_delta = None, tick_atr = None, tick_iv = None, tick_tte_sec = None,
         ft_token = pt_token p, ft_strike = br_strike br, ft_direction = fc_option_type cfg,
         ft_quote_source = Some src,
         ft_oi = (if fc_tick_oi cfg then Some (case pt_snap p of None \<Rightarrow> 0 | Some s \<Rightarrow> open_interest s) else None),
         ft_enriched = None\<rparr>)"

text \<open>
  The keys of that tick as the pipeline of \<open>core/market_data\<close> reads them: it asks for \<open>sequence\<close>,
  \<open>best_bid_price\<close>, \<open>best_ask_price\<close> and \<open>close\<close>, and this dictionary has none of them.
\<close>

definition tick_keys :: "feed_tick \<Rightarrow> wire_tick" where
  "tick_keys t =
     \<lparr>wt_source_broker = None, wt_token = Some (ft_token t), wt_exchange = None, wt_symbol = Some (tick_symbol t),
      wt_mode = None, wt_sequence = None, wt_timestamp_ms = Some (tick_timestamp t), wt_ltp = Some (ltp t),
      wt_volume = tick_volume t, wt_open = None, wt_high = None, wt_low = None, wt_close = None, wt_oi = ft_oi t,
      wt_best_bid = None, wt_best_ask = None, wt_bid_qty = None, wt_ask_qty = None\<rparr>"

text \<open>The candles a tick closes, which the aggregator's callback hands to the writer.\<close>

definition closed_candles :: "wire_tick \<Rightarrow> aggregator \<Rightarrow> candle_dict list" where
  "closed_candles t a =
     drop (length (completed a (token_of t))) (completed (add_tick FIVE_MIN_MS t a) (token_of t))"

definition aggregate_tick :: "feed_config \<Rightarrow> wire_tick \<Rightarrow> broker \<Rightarrow> broker" where
  "aggregate_tick cfg t br =
     br\<lparr>br_writer := map_option (fold (enqueue_candle (fc_queue_limit cfg)) (closed_candles t (br_ohlcv br))) (br_writer br),
        br_ohlcv := add_tick FIVE_MIN_MS t (br_ohlcv br)\<rparr>"

definition record_tick :: "feed_config \<Rightarrow> parsed_tick \<Rightarrow> string \<Rightarrow> broker \<Rightarrow> broker" where
  "record_tick cfg p symbol br =
     br\<lparr>br_writer := map_option (enqueue_tick (fc_queue_limit cfg) (normalize_tick p (Some symbol))) (br_writer br)\<rparr>"

definition push_buffer :: "feed_config \<Rightarrow> feed_tick \<Rightarrow> broker \<Rightarrow> broker" where
  "push_buffer cfg t br =
     (if fc_use_tick_buffer cfg
      then let b = br_tick_buffer br @ [t]
           in br\<lparr>br_tick_buffer := (if fc_buffer_max cfg < length b then tl b else b)\<rparr>
      else br)"

section \<open>The callback\<close>

definition tick_heartbeat :: "instant \<Rightarrow> broker \<Rightarrow> broker" where
  "tick_heartbeat now br =
     (let b = br\<lparr>br_ws_last_tick := now\<rparr>
      in if 0 < br_attempts br then b\<lparr>br_attempts := 0, br_delay := 1\<rparr> else b)"

definition spot_tick :: "feed_config \<Rightarrow> parsed_tick \<Rightarrow> broker \<Rightarrow> broker" where
  "spot_tick cfg p br =
     (if 10000 < pt_ltp p
      then record_tick cfg p ''NIFTY'' (aggregate_tick cfg (normalize_tick p None) (br\<lparr>br_spot_price := pt_ltp p\<rparr>))
      else br)"

definition count_quote :: "quote_source \<Rightarrow> broker \<Rightarrow> broker" where
  "count_quote src br =
     (case src of RealQuote \<Rightarrow> br\<lparr>br_quotes_real := br_quotes_real br + 1\<rparr>
      | EstimatedQuote \<Rightarrow> br\<lparr>br_quotes_estimated := br_quotes_estimated br + 1\<rparr>)"

text \<open>Accepting an option tick: the pipeline sees it, it is recorded, buffered and becomes \<open>last_tick\<close>.\<close>

definition accept_tick :: "feed_config \<Rightarrow> instant \<Rightarrow> parsed_tick \<Rightarrow> broker \<Rightarrow> broker" where
  "accept_tick cfg now p br =
     (let t = build_tick cfg now p br;
          (faults, tracker) = validate_tick (tick_keys t) (Some (br_sequence_tracker br));
          t1 = t\<lparr>ft_enriched := Some (enrich_tick (tick_keys t) None)\<rparr>;
          b1 = br\<lparr>br_sequence_tracker := get_or Map.empty tracker,
                  br_tick_cache := update_cache (tick_keys t) (br_tick_cache br)\<rparr>;
          b2 = record_tick cfg p (br_symbol br) (aggregate_tick cfg (tick_keys t) b1)
      in (push_buffer cfg t1 b2)
           \<lparr>br_last_tick := Some t1, br_last_valid_tick_time := Some now, br_original_tick_time := Some now,
            br_ws_last_option_tick := now\<rparr>)"

definition option_tick :: "feed_config \<Rightarrow> instant \<Rightarrow> parsed_tick \<Rightarrow> broker \<Rightarrow> broker" where
  "option_tick cfg now p br =
     (if pt_ltp p \<le> 0 then br
      else let b = count_quote (snd (quote_of p)) br
           in if br_option_token br \<noteq> '''' \<and> pt_token p \<noteq> br_option_token br
              then b\<lparr>br_stale_token_ticks := br_stale_token_ticks b + 1\<rparr>
              else accept_tick cfg now p b)"

definition on_ws_tick :: "feed_config \<Rightarrow> instant \<Rightarrow> parsed_tick \<Rightarrow> broker \<Rightarrow> broker" where
  "on_ws_tick cfg now p br =
     (let b = tick_heartbeat now br
      in if pt_token p = NIFTY_SPOT_TOKEN then spot_tick cfg p b else option_tick cfg now p b)"

end
