(* ===== verification/Stream.thy ===== *)
theory Stream
  imports Broker_Feed
begin

text \<open>
  The session of the WebSocket stream (\<open>core/trading/reconnect_manager.py\<close>): subscribing with retry and
  first-tick check, starting the stream, and the layers that bring it back - the reconnect worker with back-off
  and circuit breaker, the heartbeat monitor and the pre-market refresh.  The worker, the heartbeat thread and
  the socket's callbacks interleave; each takes the steps written here.  What the socket does and which ticks a
  waiting thread sees are inputs (\<open>attempt_env\<close>, \<open>start_env\<close>).
\<close>

section \<open>Text of a disconnect reason\<close>

definition char_lower :: "char \<Rightarrow> char" where
  "char_lower c = (let n = of_char c :: nat in if 65 \<le> n \<and> n \<le> 90 then char_of (n + 32) else c)"

fun contains :: "string \<Rightarrow> string \<Rightarrow> bool" where
  "contains pat [] \<longleftrightarrow> pat = []"
| "contains pat (c # cs) \<longleftrightarrow> take (length pat) (c # cs) = pat \<or> contains pat cs"

definition is_conn_limit :: "string \<Rightarrow> bool" where
  "is_conn_limit reason \<longleftrightarrow>
     (let t = map char_lower reason
      in contains ''429'' t \<or> contains ''connection limit exceeded'' t \<or> contains ''too many requests'' t)"

definition is_ack_timeout :: "string \<Rightarrow> bool" where
  "is_ack_timeout reason \<longleftrightarrow> contains ''ack timeout'' (map char_lower reason)"

section \<open>Disconnects and the trigger\<close>

text \<open>\<open>_trigger_ws_reconnect\<close> starts a worker unless one is recorded as running.\<close>

definition trigger_reconnect :: "broker \<Rightarrow> broker" where
  "trigger_reconnect br =
     (if br_shutdown br \<or> br_reconnect_running br then br
      else br\<lparr>br_reconnect_running := True, br_workers := br_workers br @ [AtTop]\<rparr>)"

definition on_ws_disconnect :: "feed_config \<Rightarrow> instant \<Rightarrow> string \<Rightarrow> broker \<Rightarrow> broker" where
  "on_ws_disconnect cfg now reason br =
     (if br_shutdown br then br
      else let b = (if is_ack_timeout reason then br\<lparr>br_last_ack_timeout := now\<rparr> else br)
           in if is_conn_limit reason
              then b\<lparr>br_ws_connected := False, br_circuit_open := True,
                     br_circuit_until := Some (now + seconds (fc_limit_cooldown cfg))\<rparr>
              else let b1 = b\<lparr>br_ws_connected := False, br_sequence_tracker := Map.empty\<rparr>
                   in if br_ws_connected b then trigger_reconnect b1 else b1)"

section \<open>Subscribing\<close>

definition clear_rest_cache :: "broker \<Rightarrow> broker" where
  "clear_rest_cache br =
     br\<lparr>br_cached_option_tick := None, br_last_option_fetch := 0, br_last_rest_refresh := 0,
        br_last_tick := None, br_tick_buffer := []\<rparr>"

definition verify_subscriptions :: "token_row list \<Rightarrow> broker \<Rightarrow> bool" where
  "verify_subscriptions tokens br =
     (case br_client br of
        None \<Rightarrow> False
      | Some c \<Rightarrow> list_all (\<lambda>r. fst (snd r) = '''' \<or> wc_subscriptions c (fst (snd r)) \<noteq> None) tokens)"

text \<open>
  One look of a waiting thread: the tick it finds and whether a disconnect has come since the wait began.  The
  list of looks ends where the time-out does.
\<close>

record look =
  lk_tick :: "feed_tick option"
  lk_dropped :: bool

definition matches_token :: "string \<Rightarrow> feed_tick option \<Rightarrow> bool" where
  "matches_token token t = (case t of None \<Rightarrow> False | Some x \<Rightarrow> ft_token x = token \<and> 0 < ltp x)"

fun wait_first_tick :: "bool \<Rightarrow> string \<Rightarrow> look list \<Rightarrow> bool" where
  "wait_first_tick up token [] = False"
| "wait_first_tick up token (l # ls) =
     (if matches_token token (lk_tick l) then True
      else if \<not> up \<or> lk_dropped l then False
      else wait_first_tick up token ls)"

text \<open>A request of the client; when it asks for a reconnect the registered callback runs.\<close>

definition with_request ::
    "feed_config \<Rightarrow> instant \<Rightarrow> (ws_client \<Rightarrow> request) \<Rightarrow> broker \<Rightarrow> bool \<times> broker" where
  "with_request cfg now req br =
     (case br_client br of
        None \<Rightarrow> (False, br)
      | Some c \<Rightarrow>
          let r = req c; b = br\<lparr>br_client := Some (rq_client r)\<rparr>
          in (rq_ok r, case rq_reconnect r of None \<Rightarrow> b | Some reason \<Rightarrow> on_ws_disconnect cfg now reason b))"

type_synonym socket_env = "bool \<times> send_result"

fun unsubscribe_with_verify ::
    "feed_config \<Rightarrow> instant \<Rightarrow> token_row list \<Rightarrow> socket_env list \<Rightarrow> broker \<Rightarrow> bool \<times> broker" where
  "unsubscribe_with_verify cfg now tokens [] br = (False, br)"
| "unsubscribe_with_verify cfg now tokens (e # es) br =
     (case with_request cfg now (unsubscribe (fst e) (snd e) tokens) br of
        (ok, b) \<Rightarrow>
          if \<not> ok then unsubscribe_with_verify cfg now tokens es b
          else if list_ex (\<lambda>r. case br_client b of None \<Rightarrow> False
                               | Some c \<Rightarrow> wc_subscriptions c (fst (snd r)) \<noteq> None) tokens
          then unsubscribe_with_verify cfg now tokens es b
          else (True, b))"

record attempt_env =
  ae_socket :: socket_env
  ae_looks :: "look list"
  ae_unsubscribe :: "socket_env list"

fun subscribe_with_retry ::
    "feed_config \<Rightarrow> instant \<Rightarrow> token_row list \<Rightarrow> attempt_env list \<Rightarrow> broker \<Rightarrow> bool \<times> broker" where
  "subscribe_with_retry cfg now tokens [] br = (False, br)"
| "subscribe_with_retry cfg now tokens (e # es) br =
     (if br_client br = None then (False, br)
      else case with_request cfg now (subscribe (fst (ae_socket e)) (snd (ae_socket e)) tokens) br of
        (ok, b) \<Rightarrow>
          if \<not> ok \<or> \<not> verify_subscriptions tokens b then subscribe_with_retry cfg now tokens es b
          else if br_option_token b \<noteq> '''' \<and> list_ex (\<lambda>r. fst (snd r) = br_option_token b) tokens
                 \<and> \<not> wait_first_tick (br_ws_connected b) (br_option_token b) (ae_looks e)
          then subscribe_with_retry cfg now tokens es
                 (snd (unsubscribe_with_verify cfg now tokens (take 2 (ae_unsubscribe e)) b))
          else (True, clear_rest_cache b))"

section \<open>Starting the stream\<close>

record start_env =
  se_raises :: bool
  se_opens :: bool
  se_spot :: "attempt_env list"
  se_option :: "attempt_env list"

definition spot_rows :: "token_row list" where
  "spot_rows = [(''NSE'', NIFTY_SPOT_TOKEN, 1)]"

definition option_rows :: "feed_config \<Rightarrow> broker \<Rightarrow> token_row list" where
  "option_rows cfg br = (if br_option_token br = '''' then [] else [(fc_exchange cfg, br_option_token br, fc_sub_mode cfg)])"

definition mark_connected :: "instant \<Rightarrow> broker \<Rightarrow> broker" where
  "mark_connected now br =
     br\<lparr>br_ws_connected := True, br_ws_last_tick := now, br_ws_last_option_tick := now, br_attempts := 0\<rparr>"

definition start_heartbeat :: "broker \<Rightarrow> broker" where
  "start_heartbeat br =
     (if br_heartbeat_alive br then br else br\<lparr>br_heartbeat_stop := False, br_heartbeat_alive := True\<rparr>)"

definition subscribe_all :: "feed_config \<Rightarrow> instant \<Rightarrow> start_env \<Rightarrow> broker \<Rightarrow> broker" where
  "subscribe_all cfg now e br =
     (let (spot_ok, b1) = subscribe_with_retry cfg now spot_rows (take 3 (se_spot e)) br;
          rows = option_rows cfg b1;
          (option_ok, b2) = (if spot_ok \<and> rows \<noteq> [] then subscribe_with_retry cfg now rows (take 3 (se_option e)) b1
                             else (True, b1))
      in if spot_ok \<and> option_ok then start_heartbeat (mark_connected now b2) else b2\<lparr>br_ws_connected := False\<rparr>)"

definition create_writer :: "broker \<Rightarrow> broker" where
  "create_writer br =
     (case br_writer br of None \<Rightarrow> br\<lparr>br_writer := Some (start_writer new_writer)\<rparr> | Some w \<Rightarrow> br)"

definition start_websocket :: "feed_config \<Rightarrow> instant \<Rightarrow> start_env \<Rightarrow> broker \<Rightarrow> broker" where
  "start_websocket cfg now e br =
     (case br_client br of
        None \<Rightarrow> br
      | Some c \<Rightarrow>
          if br_shutdown br then br
          else let b = create_writer br;
                   c1 = client_start c;
                   c2 = (if wc_connected c \<or> \<not> se_opens e then c1 else on_ws_open c1)
               in if se_raises e
                  then let b' = b\<lparr>br_ws_connected := False\<rparr>
                       in if br_attempts b' < fc_max_attempts cfg then trigger_reconnect b' else b'
                  else if \<not> wc_connected c2 then b\<lparr>br_client := Some c2\<rparr>
                  else subscribe_all cfg now e (b\<lparr>br_client := Some c2\<rparr>))"

section \<open>The reconnect worker\<close>

text \<open>The delay before an attempt; \<open>u\<close> in \<open>[-1, 1]\<close> is the random draw.\<close>

definition reconnect_delay :: "feed_config \<Rightarrow> real \<Rightarrow> real \<Rightarrow> nat \<Rightarrow> real" where
  "reconnect_delay cfg u delay attempts =
     (let raw = min (delay * 2 ^ (attempts - 1)) (fc_max_delay cfg);
          jitter = u * min 3 (raw / 10)
      in max 1 (min (fc_max_delay cfg) (raw + jitter)))"

definition stop_client :: "broker \<Rightarrow> broker" where
  "stop_client br = br\<lparr>br_client := map_option client_stop (br_client br)\<rparr>"

text \<open>The top of the loop: the checks and the count, up to the sleep before an attempt.\<close>

definition worker_top :: "feed_config \<Rightarrow> instant \<Rightarrow> broker \<Rightarrow> broker \<times> worker_phase" where
  "worker_top cfg now br =
     (if br_shutdown br \<or> br_ws_connected br then (br, Finishing)
      else if br_circuit_open br \<and> (\<exists>u. br_circuit_until br = Some u \<and> now < u) then (br, AtTop)
      else let b = (if br_circuit_open br then br\<lparr>br_circuit_open := False, br_attempts := 0, br_delay := 1\<rparr> else br);
               b1 = b\<lparr>br_attempts := br_attempts b + 1\<rparr>
           in if fc_max_attempts cfg < br_attempts b1
              then (b1\<lparr>br_circuit_open := True, br_circuit_until := Some (now + seconds (fc_circuit_cooldown cfg))\<rparr>,
                    Finishing)
              else (b1, Attempting))"

definition worker_attempt :: "feed_config \<Rightarrow> instant \<Rightarrow> start_env \<Rightarrow> broker \<Rightarrow> broker \<times> worker_phase" where
  "worker_attempt cfg now e br =
     (let b = start_websocket cfg now e (stop_client (br\<lparr>br_last_reconnect := now\<rparr>))
      in if br_ws_connected b then (b\<lparr>br_attempts := 0\<rparr>, Finishing) else (b, AtTop))"

definition set_worker :: "nat \<Rightarrow> broker \<times> worker_phase \<Rightarrow> broker" where
  "set_worker i r = (fst r)\<lparr>br_workers := (br_workers (fst r))[i := snd r]\<rparr>"

text \<open>One step of worker \<open>i\<close>; the last one is its \<open>finally\<close>.\<close>

definition worker_step :: "feed_config \<Rightarrow> instant \<Rightarrow> nat \<Rightarrow> start_env \<Rightarrow> broker \<Rightarrow> broker" where
  "worker_step cfg now i e br =
     (if length (br_workers br) \<le> i then br
      else case br_workers br ! i of
             AtTop \<Rightarrow> set_worker i (worker_top cfg now br)
           | Attempting \<Rightarrow> set_worker i (worker_attempt cfg now e br)
           | Finishing \<Rightarrow> br\<lparr>br_reconnect_running := False,
                             br_workers := take i (br_workers br) @ drop (Suc i) (br_workers br)\<rparr>)"

section \<open>Heartbeat, pre-market refresh, shutdown\<close>

definition check_premarket_reconnect :: "feed_config \<Rightarrow> instant \<Rightarrow> start_env \<Rightarrow> broker \<Rightarrow> broker" where
  "check_premarket_reconnect cfg now e br =
     (let market_open = date_of now * 86400000000 + fst (fc_market_open cfg) * 3600000000
                          + snd (fc_market_open cfg) * 60000000
      in if br_premarket_done br then br
         else if market_open - seconds (fc_premarket_margin cfg) \<le> now \<and> now < market_open
           then let b = br\<lparr>br_premarket_done := True\<rparr>
                in if br_client b = None then b else start_websocket cfg now e (stop_client b)
         else br)"

definition last_stream_tick :: "broker \<Rightarrow> instant" where
  "last_stream_tick br = (if br_option_token br \<noteq> '''' then br_ws_last_option_tick br else br_ws_last_tick br)"

definition quiet_too_long :: "feed_config \<Rightarrow> instant \<Rightarrow> broker \<Rightarrow> bool" where
  "quiet_too_long cfg now br \<longleftrightarrow>
     (if 0 < last_stream_tick br then seconds (fc_heartbeat_timeout cfg) < now - last_stream_tick br
      else fc_heartbeat_timeout cfg < 999)"

definition tolerated_quiet :: "instant \<Rightarrow> broker \<Rightarrow> bool" where
  "tolerated_quiet now br \<longleftrightarrow>
     (br_last_tick br \<noteq> None
        \<and> (case br_original_tick_time br of None \<Rightarrow> False | Some t \<Rightarrow> t \<noteq> 0 \<and> now - t < seconds 120))
   \<or> minute_of_day now < 9 * 60 + 15 \<or> 5 \<le> weekday (date_of now)"

definition heartbeat_step :: "feed_config \<Rightarrow> instant \<Rightarrow> start_env \<Rightarrow> broker \<Rightarrow> broker" where
  "heartbeat_step cfg now e br =
     (if \<not> br_heartbeat_alive br then br
      else if br_shutdown br \<or> br_heartbeat_stop br then br\<lparr>br_heartbeat_alive := False\<rparr>
      else if br_circuit_open br then br
      else let b = check_premarket_reconnect cfg now e br
           in if br_ws_connected b \<and> quiet_too_long cfg now b \<and> \<not> tolerated_quiet now b
              then on_ws_disconnect cfg now ''Heartbeat timeout'' b else b)"

text \<open>The stream's share of \<open>connect()\<close> and \<open>logout()\<close>.\<close>

definition connect_stream :: "feed_config \<Rightarrow> instant \<Rightarrow> start_env \<Rightarrow> broker \<Rightarrow> broker" where
  "connect_stream cfg now e br =
     (let b = br\<lparr>br_shutdown := False, br_heartbeat_stop := False, br_client := Some new_ws_client\<rparr>
      in if fc_use_live_data cfg \<and> fc_enable_websocket cfg then start_websocket cfg now e b else b)"

definition logout_stream :: "broker \<Rightarrow> broker" where
  "logout_stream br =
     stop_client (br\<lparr>br_shutdown := True, br_heartbeat_stop := True, br_ws_connected := False\<rparr>)"

section \<open>The stream as a system\<close>

datatype stream_event =
    Ticked instant parsed_tick
  | Disconnected instant string
  | WorkerStep instant nat start_env
  | HeartbeatStep instant start_env
  | Resubscribe instant "token_row list" "attempt_env list"
  | Unsubscribe_rows instant "token_row list" "socket_env list"
  | AckTimeout instant
  | ConnectBroker instant start_env
  | LogoutBroker

definition stream_step :: "feed_config \<Rightarrow> broker \<Rightarrow> stream_event \<Rightarrow> broker" where
  "stream_step cfg br ev =
     (case ev of
        Ticked now p \<Rightarrow> on_ws_tick cfg now p br
      | Disconnected now r \<Rightarrow> on_ws_disconnect cfg now r br
      | WorkerStep now i e \<Rightarrow> worker_step cfg now i e br
      | HeartbeatStep now e \<Rightarrow> heartbeat_step cfg now e br
      | Resubscribe now rows es \<Rightarrow> snd (subscribe_with_retry cfg now rows es br)
      | Unsubscribe_rows now rows es \<Rightarrow> snd (unsubscribe_with_verify cfg now rows es br)
      | AckTimeout now \<Rightarrow> br\<lparr>br_last_ack_timeout := now\<rparr>
      | ConnectBroker now e \<Rightarrow> connect_stream cfg now e br
      | LogoutBroker \<Rightarrow> logout_stream br)"

subsection \<open>One worker\<close>

definition one_worker :: "broker \<Rightarrow> bool" where
  "one_worker br \<longleftrightarrow> length (br_workers br) = (if br_reconnect_running br then 1 else 0)"

lemma trigger_one_worker: "one_worker br \<Longrightarrow> one_worker (trigger_reconnect br)"
  by (auto simp: one_worker_def trigger_reconnect_def)

lemma one_worker_cong:
  "br_workers a = br_workers b \<Longrightarrow> br_reconnect_running a = br_reconnect_running b \<Longrightarrow> one_worker a = one_worker b"
  by (simp add: one_worker_def)

lemma disconnect_one_worker: "one_worker br \<Longrightarrow> one_worker (on_ws_disconnect cfg now r br)"
  by (auto simp: on_ws_disconnect_def Let_def intro!: trigger_one_worker cong: one_worker_cong)

text \<open>
  A predicate on the broker that a disconnect for an admissible reason keeps and that does not look at the client
  or the cached ticks is kept by subscribing and unsubscribing, however often they retry.
\<close>

definition reasons_in :: "(string \<Rightarrow> bool) \<Rightarrow> attempt_env list \<Rightarrow> bool" where
  "reasons_in R es \<longleftrightarrow>
     list_all (\<lambda>e. list_all (\<lambda>s. list_all R (send_reasons (snd s))) (ae_socket e # ae_unsubscribe e)) es"

locale disconnect_stable =
  fixes cfg :: feed_config and R :: "string \<Rightarrow> bool" and P :: "broker \<Rightarrow> bool"
  assumes client: "P br \<Longrightarrow> P (br\<lparr>br_client := c\<rparr>)"
    and cache: "P br \<Longrightarrow> P (clear_rest_cache br)"
    and disconnect: "R r \<Longrightarrow> P br \<Longrightarrow> P (on_ws_disconnect cfg now r br)"
begin

lemma request:
  assumes "P br" "\<And>c r. rq_reconnect (req c) = Some r \<Longrightarrow> R r"
  shows "P (snd (with_request cfg now req br))"
  using assms by (auto simp: with_request_def Let_def client disconnect split: option.splits)

lemma request_subscribe:
  "P br \<Longrightarrow> list_all R (send_reasons send) \<Longrightarrow> P (snd (with_request cfg now (subscribe sock send tokens) br))"
  "P br \<Longrightarrow> list_all R (send_reasons send) \<Longrightarrow> P (snd (with_request cfg now (unsubscribe sock send tokens) br))"
  by (rule request; auto dest!: request_reason simp: list_all_iff)+

lemma unsubscribe:
  "P br \<Longrightarrow> list_all (\<lambda>s. list_all R (send_reasons (snd s))) es \<Longrightarrow>
     P (snd (unsubscribe_with_verify cfg now tokens es br))"
proof (induction es arbitrary: br)
  case (Cons e es)
  obtain ok b where w: "with_request cfg now (unsubscribe (fst e) (snd e) tokens) br = (ok, b)" by (metis surj_pair)
  from request_subscribe(2)[OF Cons.prems(1), of "snd e" now "fst e" tokens] Cons.prems(2) have "P b" by (simp add: w)
  with Cons.IH[OF this] Cons.prems(2) show ?case by (simp add: w)
qed simp

lemma subscribe:
  "P br \<Longrightarrow> reasons_in R es \<Longrightarrow> P (snd (subscribe_with_retry cfg now tokens es br))"
proof (induction es arbitrary: br)
  case (Cons e es)
  obtain ok b where w: "with_request cfg now (subscribe (fst (ae_socket e)) (snd (ae_socket e)) tokens) br = (ok, b)"
    by (metis surj_pair)
  have r: "list_all R (send_reasons (snd (ae_socket e)))" "reasons_in R es"
    "list_all (\<lambda>s. list_all R (send_reasons (snd s))) (take 2 (ae_unsubscribe e))"
    using Cons.prems(2) by (auto simp: reasons_in_def list_all_iff dest: in_set_takeD)
  from request_subscribe(1)[OF Cons.prems(1) r(1), of now "fst (ae_socket e)" tokens] have "P b" by (simp add: w)
  with Cons.IH[OF this r(2)] Cons.IH[OF unsubscribe[OF this r(3)] r(2)] cache[OF this] Cons.prems
  show ?case by (simp add: w)
qed simp

lemma subscribed: "P br \<Longrightarrow> reasons_in R es \<Longrightarrow> subscribe_with_retry cfg now tokens es br = (ok, b) \<Longrightarrow> P b"
  using subscribe[of br es now tokens] by simp

end

lemma reasons_in_True [simp]: "reasons_in (\<lambda>_. True) es"
  by (simp add: reasons_in_def list_all_iff)

lemma reasons_in_take: "reasons_in R es \<Longrightarrow> reasons_in R (take n es)"
  by (auto simp: reasons_in_def list_all_iff dest: in_set_takeD)

interpretation one_worker: disconnect_stable cfg "\<lambda>_. True" one_worker
  by unfold_locales (simp_all add: one_worker_def clear_rest_cache_def disconnect_one_worker[unfolded one_worker_def])

lemma subscribe_all_one_worker: "one_worker br \<Longrightarrow> one_worker (subscribe_all cfg now e br)"
proof -
  assume br: "one_worker br"
  have k: "one_worker (start_heartbeat (mark_connected now b)) = one_worker b"
    "one_worker (b\<lparr>br_ws_connected := False\<rparr>) = one_worker b" for b
    by (auto simp: one_worker_def start_heartbeat_def mark_connected_def)
  show ?thesis using br one_worker.subscribed
    by (auto simp: subscribe_all_def Let_def k split: prod.splits if_splits) (metis reasons_in_True)+
qed

lemma start_one_worker: "one_worker br \<Longrightarrow> one_worker (start_websocket cfg now e br)"
proof -
  assume br: "one_worker br"
  have "one_worker ((create_writer br)\<lparr>br_client := c\<rparr>)" "one_worker ((create_writer br)\<lparr>br_ws_connected := False\<rparr>)" for c
    using br by (auto simp: one_worker_def create_writer_def split: option.splits)
  then show ?thesis using br
    by (auto simp: start_websocket_def Let_def trigger_one_worker subscribe_all_one_worker split: option.splits)
qed

text \<open>A tick touches neither the connection, nor the workers, nor the circuit breaker.\<close>

lemma aggregate_tick_frame:
  "br_ws_connected (aggregate_tick cfg t br) = br_ws_connected br" "br_workers (aggregate_tick cfg t br) = br_workers br"
  "br_reconnect_running (aggregate_tick cfg t br) = br_reconnect_running br"
  "br_circuit_open (aggregate_tick cfg t br) = br_circuit_open br" "br_shutdown (aggregate_tick cfg t br) = br_shutdown br"
  by (simp_all add: aggregate_tick_def)

lemma record_tick_frame:
  "br_ws_connected (record_tick cfg p s br) = br_ws_connected br" "br_workers (record_tick cfg p s br) = br_workers br"
  "br_reconnect_running (record_tick cfg p s br) = br_reconnect_running br"
  "br_circuit_open (record_tick cfg p s br) = br_circuit_open br" "br_shutdown (record_tick cfg p s br) = br_shutdown br"
  by (simp_all add: record_tick_def)

lemma push_buffer_frame:
  "br_ws_connected (push_buffer cfg t br) = br_ws_connected br" "br_workers (push_buffer cfg t br) = br_workers br"
  "br_reconnect_running (push_buffer cfg t br) = br_reconnect_running br"
  "br_circuit_open (push_buffer cfg t br) = br_circuit_open br" "br_shutdown (push_buffer cfg t br) = br_shutdown br"
  by (simp_all add: push_buffer_def Let_def)

lemma accept_tick_frame:
  "br_ws_connected (accept_tick cfg now p br) = br_ws_connected br" "br_workers (accept_tick cfg now p br) = br_workers br"
  "br_reconnect_running (accept_tick cfg now p br) = br_reconnect_running br"
  "br_circuit_open (accept_tick cfg now p br) = br_circuit_open br" "br_shutdown (accept_tick cfg now p br) = br_shutdown br"
  by (simp_all add: accept_tick_def Let_def push_buffer_frame record_tick_frame aggregate_tick_frame split: prod.splits)

lemma on_ws_tick_frame:
  "br_ws_connected (on_ws_tick cfg now p br) = br_ws_connected br" "br_workers (on_ws_tick cfg now p br) = br_workers br"
  "br_reconnect_running (on_ws_tick cfg now p br) = br_reconnect_running br"
  "br_circuit_open (on_ws_tick cfg now p br) = br_circuit_open br" "br_shutdown (on_ws_tick cfg now p br) = br_shutdown br"
  by (simp_all add: on_ws_tick_def tick_heartbeat_def spot_tick_def option_tick_def count_quote_def Let_def
      accept_tick_frame record_tick_frame aggregate_tick_frame split: quote_source.splits)

lemma worker_step_one_worker:
  assumes "one_worker br" shows "one_worker (worker_step cfg now i e br)"
proof (cases "length (br_workers br) \<le> i")
  case True
  with assms show ?thesis by (simp add: worker_step_def)
next
  case False
  with assms have i: "i = 0" "length (br_workers br) = 1" "br_reconnect_running br"
    by (auto simp: one_worker_def split: if_splits)
  have up: "one_worker (set_worker 0 r) = one_worker (fst r)" for r by (simp add: one_worker_def set_worker_def)
  have top: "one_worker (fst (worker_top cfg now br))" using assms by (auto simp: worker_top_def Let_def one_worker_def)
  have "one_worker (stop_client (br\<lparr>br_last_reconnect := now\<rparr>))" using assms by (simp add: one_worker_def stop_client_def)
  from start_one_worker[OF this, of cfg now e] have att: "one_worker (fst (worker_attempt cfg now e br))"
    by (auto simp: worker_attempt_def Let_def one_worker_def)
  have "one_worker (br\<lparr>br_reconnect_running := False, br_workers := []\<rparr>)" by (simp add: one_worker_def)
  then show ?thesis using False i top att by (simp add: worker_step_def up split: worker_phase.split)
qed

lemma heartbeat_one_worker: "one_worker br \<Longrightarrow> one_worker (heartbeat_step cfg now e br)"
proof -
  assume br: "one_worker br"
  have c: "one_worker (b\<lparr>br_premarket_done := v\<rparr>) = one_worker b" "one_worker (stop_client b) = one_worker b"
    "one_worker (b\<lparr>br_heartbeat_alive := v\<rparr>) = one_worker b" for b v by (simp_all add: one_worker_def stop_client_def)
  have "one_worker (check_premarket_reconnect cfg now e br)"
    using br by (simp add: check_premarket_reconnect_def Let_def c start_one_worker)
  then show ?thesis using br by (simp add: heartbeat_step_def Let_def c disconnect_one_worker)
qed

lemma one_worker_simps:
  "one_worker (logout_stream br) = one_worker br" "one_worker (on_ws_tick cfg now p br) = one_worker br"
  "one_worker (br\<lparr>br_last_ack_timeout := now\<rparr>) = one_worker br"
  "one_worker (br\<lparr>br_shutdown := v, br_heartbeat_stop := w, br_client := c\<rparr>) = one_worker br"
  by (simp_all add: one_worker_def logout_stream_def stop_client_def on_ws_tick_frame)

lemma stream_step_one_worker: "one_worker br \<Longrightarrow> one_worker (stream_step cfg br ev)"
  by (cases ev)
    (simp_all add: stream_step_def one_worker_simps disconnect_one_worker worker_step_one_worker heartbeat_one_worker
      one_worker.subscribe one_worker.unsubscribe connect_stream_def Let_def start_one_worker list_all_iff)

interpretation stream_workers: invariant_system "stream_step cfg" one_worker "\<lambda>_. True"
  by unfold_locales (rule stream_step_one_worker)

text \<open>C16: There is never a second reconnect worker: over every interleaving of socket callbacks, worker steps, heartbeat
  and pre-market refreshes, re-subscriptions, connects and log-outs, the number of worker threads is 1 while one is
  recorded as running and 0 otherwise.\<close>

theorem at_most_one_worker:
  "length (br_workers (foldl (stream_step cfg) new_broker es)) =
     (if br_reconnect_running (foldl (stream_step cfg) new_broker es) then 1 else 0)"
  using stream_workers.inv_run[of new_broker es cfg] by (simp add: one_worker_def new_broker_def list_all_iff)

subsection \<open>A stream that nothing brings back\<close>

definition stream_down :: "broker \<Rightarrow> bool" where
  "stream_down br \<longleftrightarrow> \<not> br_ws_connected br \<and> br_workers br = [] \<and> \<not> br_reconnect_running br"

definition in_premarket_window :: "feed_config \<Rightarrow> instant \<Rightarrow> bool" where
  "in_premarket_window cfg now \<longleftrightarrow>
     (let market_open = date_of now * 86400000000 + fst (fc_market_open cfg) * 3600000000
                          + snd (fc_market_open cfg) * 60000000
      in market_open - seconds (fc_premarket_margin cfg) \<le> now \<and> now < market_open)"

text \<open>Everything that happens within a session: no new \<open>connect()\<close>, no heartbeat in the pre-market window.\<close>

fun within_session :: "feed_config \<Rightarrow> stream_event \<Rightarrow> bool" where
  "within_session cfg (ConnectBroker now e) = False"
| "within_session cfg (HeartbeatStep now e) = (\<not> in_premarket_window cfg now)"
| "within_session cfg _ = True"

lemma disconnect_down: "stream_down br \<Longrightarrow> stream_down (on_ws_disconnect cfg now r br)"
  by (auto simp: on_ws_disconnect_def stream_down_def Let_def)

interpretation down: disconnect_stable cfg "\<lambda>_. True" stream_down
  by unfold_locales (auto simp: disconnect_down, auto simp: stream_down_def clear_rest_cache_def)

lemma stream_down_simps:
  "stream_down br \<Longrightarrow> stream_down (logout_stream br)" "stream_down (on_ws_tick cfg now p br) = stream_down br"
  "stream_down (br\<lparr>br_last_ack_timeout := now\<rparr>) = stream_down br"
  "stream_down br \<Longrightarrow> worker_step cfg now i e br = br"
  by (auto simp: stream_down_def logout_stream_def stop_client_def on_ws_tick_frame worker_step_def)

lemma heartbeat_down:
  "stream_down br \<Longrightarrow> \<not> in_premarket_window cfg now \<Longrightarrow> stream_down (heartbeat_step cfg now e br)"
  by (auto simp: heartbeat_step_def check_premarket_reconnect_def in_premarket_window_def Let_def stream_down_def)

lemma stream_step_down: "stream_down br \<Longrightarrow> within_session cfg ev \<Longrightarrow> stream_down (stream_step cfg br ev)"
  by (cases ev)
    (auto simp: stream_step_def stream_down_simps disconnect_down heartbeat_down down.subscribe down.unsubscribe list_all_iff)

interpretation down_session: invariant_system "stream_step cfg" stream_down "within_session cfg"
  by unfold_locales (rule stream_step_down)

text \<open>A stream that is down stays down. When it is not connected and no reconnect worker runs, then whatever ticks,
  disconnects, heartbeats, re-subscriptions and time-outs follow in the session, no worker is started and the
  stream is not connected again - only a new \<open>connect()\<close> of the whole bot brings it back.\<close>

theorem down_stream_stays_down:
  assumes "stream_down br" "list_all (within_session cfg) es"
  shows "stream_down (foldl (stream_step cfg) br es)"
  using down_session.inv_run[OF assms] .

text \<open>C17: The pause for the broker's connection limit never ends. A disconnect whose reason names HTTP 429 opens the
  circuit breaker "for 900 seconds" but starts no worker to close it: from a broker with no worker running the stream
  is down at once and is not connected at any later point of the session, however long it lasts.\<close>

theorem connection_limit_never_resumes:
  fixes now :: instant
  assumes "one_worker br" "\<not> br_reconnect_running br" "\<not> br_shutdown br" "is_conn_limit reason"
    and "list_all (within_session cfg) es"
  defines "after \<equiv> stream_step cfg br (Disconnected now reason)"
  shows "br_circuit_until after = Some (now + seconds (fc_limit_cooldown cfg))
       \<and> \<not> br_ws_connected (foldl (stream_step cfg) after es) \<and> br_workers (foldl (stream_step cfg) after es) = []"
proof -
  have "stream_down after" "br_circuit_until after = Some (now + seconds (fc_limit_cooldown cfg))"
    using assms(1-4) by (auto simp: after_def stream_step_def on_ws_disconnect_def Let_def stream_down_def one_worker_def)
  with down_session.inv_run[OF this(1) assms(5)] show ?thesis by (simp add: stream_down_def)
qed

text \<open>A disconnect that comes between a worker's success and its clean-up is lost: the trigger sees a worker still
  recorded as running and starts none, the clean-up then clears the record, and the stream is down for the session.\<close>

theorem disconnect_during_cleanup_lost:
  assumes "br_workers br = [Finishing]" "br_reconnect_running br" "\<not> br_shutdown br" "\<not> is_conn_limit reason"
    and "list_all (within_session cfg) es"
  shows "\<not> br_ws_connected
     (foldl (stream_step cfg) br (Disconnected now reason # WorkerStep later 0 env # es))"
proof -
  have "stream_down (foldl (stream_step cfg) br [Disconnected now reason, WorkerStep later 0 env])"
    using assms(1-4)
    by (auto simp: stream_step_def on_ws_disconnect_def Let_def stream_down_def worker_step_def trigger_reconnect_def)
  from down_session.inv_run[OF this assms(5)] show ?thesis by (simp add: stream_down_def)
qed

subsection \<open>The worker ends\<close>

definition quiet_env :: "start_env \<Rightarrow> bool" where
  "quiet_env e \<longleftrightarrow> reasons_in (\<lambda>r. \<not> is_conn_limit r) (se_spot e) \<and> reasons_in (\<lambda>r. \<not> is_conn_limit r) (se_option e)"

text \<open>What a failed attempt leaves as it was.\<close>

definition attempt_frame :: "nat \<Rightarrow> worker_phase list \<Rightarrow> broker \<Rightarrow> bool" where
  "attempt_frame a ws br \<longleftrightarrow>
     \<not> br_ws_connected br \<and> \<not> br_circuit_open br \<and> br_attempts br = a \<and> br_workers br = ws \<and> br_reconnect_running br"

lemma disconnect_frame: "\<not> is_conn_limit r \<Longrightarrow> attempt_frame a ws br \<Longrightarrow> attempt_frame a ws (on_ws_disconnect cfg now r br)"
  by (auto simp: on_ws_disconnect_def attempt_frame_def Let_def)

interpretation attempt: disconnect_stable cfg "\<lambda>r. \<not> is_conn_limit r" "attempt_frame a ws"
  by unfold_locales (auto simp: disconnect_frame, auto simp: attempt_frame_def clear_rest_cache_def)

definition attempt_done :: "worker_phase list \<Rightarrow> broker \<Rightarrow> bool" where
  "attempt_done ws br \<longleftrightarrow> br_ws_connected br \<and> br_workers br = ws \<and> br_reconnect_running br"

lemma subscribe_all_outcome:
  assumes "attempt_frame a ws br" "quiet_env e"
  shows "attempt_done ws (subscribe_all cfg now e br) \<or> attempt_frame a ws (subscribe_all cfg now e br)"
proof -
  obtain ok1 b1 where w1: "subscribe_with_retry cfg now spot_rows (take 3 (se_spot e)) br = (ok1, b1)" by (metis surj_pair)
  have f1: "attempt_frame a ws b1"
    using attempt.subscribed[OF assms(1) _ w1] assms(2) by (simp add: quiet_env_def reasons_in_take)
  obtain ok2 b2 where w2: "(if ok1 \<and> option_rows cfg b1 \<noteq> [] then subscribe_with_retry cfg now (option_rows cfg b1)
      (take 3 (se_option e)) b1 else (True, b1)) = (ok2, b2)" by (metis surj_pair)
  have "reasons_in (\<lambda>r. \<not> is_conn_limit r) (take 3 (se_option e))" using assms(2) by (simp add: quiet_env_def reasons_in_take)
  then have f2: "attempt_frame a ws b2"
    using attempt.subscribed[OF f1, of _ cfg] w2 f1 by (auto split: if_splits)
  have "subscribe_all cfg now e br =
      (if ok1 \<and> ok2 then start_heartbeat (mark_connected now b2) else b2\<lparr>br_ws_connected := False\<rparr>)"
    by (simp add: subscribe_all_def w1 w2 Let_def)
  then show ?thesis using f2
    by (auto simp: attempt_frame_def attempt_done_def start_heartbeat_def mark_connected_def)
qed

lemma start_outcome:
  assumes "attempt_frame a ws br" "quiet_env e"
  shows "attempt_done ws (start_websocket cfg now e br) \<or> attempt_frame a ws (start_websocket cfg now e br)"
proof -
  have c: "attempt_frame a ws ((create_writer br)\<lparr>br_client := c\<rparr>)"
    "attempt_frame a ws ((create_writer br)\<lparr>br_ws_connected := False\<rparr>)" for c
    using assms(1) by (auto simp: attempt_frame_def create_writer_def split: option.splits)
  have t: "attempt_frame a ws b \<Longrightarrow> attempt_frame a ws (trigger_reconnect b)" for b
    by (simp add: attempt_frame_def trigger_reconnect_def)
  show ?thesis using assms(1) c t subscribe_all_outcome[OF c(1) assms(2)]
    by (simp add: start_websocket_def Let_def split: option.split)
qed

definition worker_run :: "feed_config \<Rightarrow> (instant \<times> start_env) list \<Rightarrow> broker \<Rightarrow> broker" where
  "worker_run cfg steps br = foldl (\<lambda>b (now, e). worker_step cfg now 0 e b) br steps"

text \<open>The steps a worker in a given phase still needs, at most.\<close>

fun steps_left :: "feed_config \<Rightarrow> worker_phase \<Rightarrow> nat \<Rightarrow> nat" where
  "steps_left cfg AtTop a = 2 * (fc_max_attempts cfg - a) + 2"
| "steps_left cfg Attempting a = 2 * (fc_max_attempts cfg - a) + 3"
| "steps_left cfg Finishing a = 1"

definition worker_resolved :: "broker \<Rightarrow> bool" where
  "worker_resolved br \<longleftrightarrow> br_shutdown br \<or> br_ws_connected br \<or> br_circuit_open br"

definition worker_at :: "feed_config \<Rightarrow> worker_phase \<Rightarrow> broker \<Rightarrow> bool" where
  "worker_at cfg ph br \<longleftrightarrow> br_workers br = [ph] \<and> br_reconnect_running br
     \<and> (ph \<noteq> Finishing \<longrightarrow> br_attempts br \<le> fc_max_attempts cfg) \<and> (ph = Finishing \<longrightarrow> worker_resolved br) \<and> (ph = AtTop \<longrightarrow> \<not> br_circuit_open br)
     \<and> (ph = Attempting \<longrightarrow> attempt_frame (br_attempts br) [Attempting] br)"

definition progressed :: "feed_config \<Rightarrow> worker_phase \<Rightarrow> broker \<Rightarrow> broker \<Rightarrow> bool" where
  "progressed cfg ph br b \<longleftrightarrow> (br_workers b = [] \<and> worker_resolved b)
     \<or> (\<exists>ph'. worker_at cfg ph' b \<and> steps_left cfg ph' (br_attempts b) < steps_left cfg ph (br_attempts br))"

lemma worker_top_progress:
  assumes "worker_at cfg AtTop br"
  shows "progressed cfg AtTop br (set_worker 0 (worker_top cfg now br))"
proof -
  let ?b = "set_worker 0 (worker_top cfg now br)"
  from assms have w: "br_workers br = [AtTop]" "br_reconnect_running br" "br_attempts br \<le> fc_max_attempts cfg"
    "\<not> br_circuit_open br" by (auto simp: worker_at_def)
  consider "br_shutdown br \<or> br_ws_connected br" | "\<not> (br_shutdown br \<or> br_ws_connected br)" "fc_max_attempts cfg = br_attempts br"
    | "\<not> (br_shutdown br \<or> br_ws_connected br)" "br_attempts br < fc_max_attempts cfg" using w(3) by linarith
  then show ?thesis
  proof cases
    case 1
    then have "worker_at cfg Finishing ?b"
      using w by (auto simp: worker_top_def set_worker_def worker_at_def worker_resolved_def)
    then show ?thesis by (fastforce simp: progressed_def)
  next
    case 2
    then have "worker_at cfg Finishing ?b"
      using w by (auto simp: worker_top_def set_worker_def worker_at_def worker_resolved_def Let_def)
    then show ?thesis by (fastforce simp: progressed_def)
  next
    case 3
    then have "worker_at cfg Attempting ?b" "br_attempts ?b = Suc (br_attempts br)"
      using w by (auto simp: worker_top_def set_worker_def worker_at_def attempt_frame_def Let_def)
    with 3 show ?thesis by (fastforce simp: progressed_def)
  qed
qed

lemma worker_attempt_progress:
  assumes "worker_at cfg Attempting br" "quiet_env e"
  shows "progressed cfg Attempting br (set_worker 0 (worker_attempt cfg now e br))"
proof -
  let ?b = "set_worker 0 (worker_attempt cfg now e br)" and ?s = "stop_client (br\<lparr>br_last_reconnect := now\<rparr>)"
  have "attempt_frame (br_attempts br) [Attempting] ?s"
    using assms(1) by (auto simp: worker_at_def attempt_frame_def stop_client_def)
  from start_outcome[OF this assms(2), of cfg now]
  have "worker_at cfg Finishing ?b \<or> worker_at cfg AtTop ?b \<and> br_attempts ?b = br_attempts br"
    using assms(1)
    by (auto simp: worker_attempt_def set_worker_def Let_def worker_at_def attempt_done_def attempt_frame_def worker_resolved_def)
  then show ?thesis by (fastforce simp: progressed_def)
qed

lemma worker_step_progress:
  assumes "worker_at cfg ph br" "quiet_env e"
  shows "progressed cfg ph br (worker_step cfg now 0 e br)"
proof (cases ph)
  case AtTop
  then show ?thesis using assms worker_top_progress[of cfg br now] by (simp add: worker_step_def worker_at_def)
next
  case Attempting
  then show ?thesis using assms worker_attempt_progress[of cfg br e now] by (simp add: worker_step_def worker_at_def)
next
  case Finishing
  then show ?thesis using assms by (simp add: worker_step_def worker_at_def progressed_def worker_resolved_def)
qed

lemma worker_run_ends:
  assumes "worker_at cfg ph br" "list_all (\<lambda>s. quiet_env (snd s)) steps"
    and "steps_left cfg ph (br_attempts br) \<le> length steps"
  shows "br_workers (worker_run cfg steps br) = [] \<and> worker_resolved (worker_run cfg steps br)"
  using assms
proof (induction steps arbitrary: ph br)
  case Nil
  then show ?case by (cases ph) auto
next
  case (Cons s steps)
  let ?b = "worker_step cfg (fst s) 0 (snd s) br"
  have run: "worker_run cfg (s # steps) br = worker_run cfg steps ?b" by (simp add: worker_run_def split_beta)
  have "worker_step cfg now 0 e b = b" if "br_workers b = []" for now e b using that by (simp add: worker_step_def)
  then have idle: "worker_run cfg steps b = b" if "br_workers b = []" for b
    using that unfolding worker_run_def by (induction steps) auto
  have "progressed cfg ph br ?b" using worker_step_progress[OF Cons.prems(1), of "snd s"] Cons.prems(2) by simp
  then consider "br_workers ?b = []" "worker_resolved ?b"
    | ph' where "worker_at cfg ph' ?b" "steps_left cfg ph' (br_attempts ?b) < steps_left cfg ph (br_attempts br)"
    by (auto simp: progressed_def)
  then show ?case
  proof cases
    case 1
    then show ?thesis by (simp add: run idle)
  next
    case 2
    then show ?thesis using Cons.IH[OF 2(1)] Cons.prems by (simp add: run)
  qed
qed

text \<open>C15: The reconnect worker ends. Started with the circuit closed and run by itself, whatever the socket does and
  the waits see, as long as no send fails with a connection-limit text, it is gone after at most twice the attempts left
  plus two of its steps - 32 with the default of 15 attempts - and then the bot is shutting down, the stream is connected, or
  the circuit breaker is open.\<close>

theorem reconnect_worker_ends:
  assumes "br_workers br = [AtTop]" "br_reconnect_running br" "\<not> br_circuit_open br"
    and "br_attempts br \<le> fc_max_attempts cfg" "list_all (\<lambda>s. quiet_env (snd s)) steps"
    and "2 * (fc_max_attempts cfg - br_attempts br) + 2 \<le> length steps"
  shows "br_workers (worker_run cfg steps br) = [] \<and> worker_resolved (worker_run cfg steps br)"
  using assms by (intro worker_run_ends[of cfg AtTop]) (simp_all add: worker_at_def)

text \<open>The delay before an attempt, whatever the jitter, the base delay and the number of attempts.\<close>

lemma reconnect_delay_bounds:
  assumes "1 \<le> fc_max_delay cfg"
  shows "1 \<le> reconnect_delay cfg u delay attempts \<and> reconnect_delay cfg u delay attempts \<le> fc_max_delay cfg"
  using assms by (simp add: reconnect_delay_def Let_def)

subsection \<open>The wait for the first tick\<close>

lemma first_look_decides:
  "wait_first_tick False token ls = (ls \<noteq> [] \<and> matches_token token (lk_tick (hd ls)))"
  by (cases ls) auto

definition down_with_token :: "string \<Rightarrow> broker \<Rightarrow> bool" where
  "down_with_token token br \<longleftrightarrow> \<not> br_ws_connected br \<and> br_option_token br = token"

lemma disconnect_down_with_token: "down_with_token k br \<Longrightarrow> down_with_token k (on_ws_disconnect cfg now r br)"
  by (auto simp: down_with_token_def on_ws_disconnect_def Let_def)

interpretation token_down: disconnect_stable cfg "\<lambda>_. True" "down_with_token k"
  by unfold_locales (auto simp: disconnect_down_with_token, auto simp: down_with_token_def clear_rest_cache_def)

lemma option_subscribe_fails:
  assumes "down_with_token k br" "k \<noteq> ''''" "list_ex (\<lambda>r. fst (snd r) = k) tokens"
    and "list_all (\<lambda>e. ae_looks e \<noteq> [] \<longrightarrow> \<not> matches_token k (lk_tick (hd (ae_looks e)))) es"
  shows "\<not> fst (subscribe_with_retry cfg now tokens es br)"
  using assms(1,4)
proof (induction es arbitrary: br)
  case (Cons e es)
  obtain ok b where w: "with_request cfg now (subscribe (fst (ae_socket e)) (snd (ae_socket e)) tokens) br = (ok, b)"
    by (metis surj_pair)
  have b: "down_with_token k b"
    using token_down.request[OF Cons.prems(1), of "subscribe (fst (ae_socket e)) (snd (ae_socket e)) tokens" cfg now]
    by (simp add: w)
  have u: "down_with_token k (snd (unsubscribe_with_verify cfg now tokens (take 2 (ae_unsubscribe e)) b))"
    by (rule token_down.unsubscribe[OF b]) (simp add: list_all_iff)
  have "\<not> wait_first_tick (br_ws_connected b) (br_option_token b) (ae_looks e)"
    using b Cons.prems(2) by (auto simp: down_with_token_def first_look_decides)
  moreover have "br_option_token b = k" using b by (simp add: down_with_token_def)
  ultimately show ?case using Cons.IH[OF b] Cons.IH[OF u] Cons.prems(2) assms(2,3) by (simp add: w)
qed simp

text \<open>The start of the stream does not wait for the first option tick. The wait of up to ten seconds gives up as
  soon as the stream is not marked connected, and it is only marked so after the wait: unless the matching tick is
  already there at the first look of one of the three attempts, the start fails - whatever ticks would have come
  during the wait.\<close>

theorem start_never_waits_for_tick:
  assumes "\<not> br_ws_connected br" "br_option_token br = k" "k \<noteq> ''''"
    and "list_all (\<lambda>e. ae_looks e \<noteq> [] \<longrightarrow> \<not> matches_token k (lk_tick (hd (ae_looks e)))) (take 3 (se_option e))"
  shows "\<not> br_ws_connected (start_websocket cfg now e br)"
proof -
  have all: "\<not> br_ws_connected (subscribe_all cfg now e b)" if "down_with_token k b" for b
  proof -
    obtain ok1 b1 where w1: "subscribe_with_retry cfg now spot_rows (take 3 (se_spot e)) b = (ok1, b1)" by (metis surj_pair)
    have f1: "down_with_token k b1" using token_down.subscribed[OF that _ w1] by simp
    then have rows: "option_rows cfg b1 = [(fc_exchange cfg, k, fc_sub_mode cfg)]"
      using assms(3) by (simp add: down_with_token_def option_rows_def)
    have "\<not> fst (subscribe_with_retry cfg now (option_rows cfg b1) (take 3 (se_option e)) b1)"
      by (rule option_subscribe_fails[OF f1 assms(3) _ assms(4)]) (simp add: rows)
    then obtain b2 where "subscribe_with_retry cfg now (option_rows cfg b1) (take 3 (se_option e)) b1 = (False, b2)"
      by (metis surj_pair fst_conv)
    then show ?thesis by (simp add: subscribe_all_def w1 Let_def rows)
  qed
  have c: "down_with_token k ((create_writer br)\<lparr>br_client := c\<rparr>)" for c
    using assms(1,2) by (auto simp: down_with_token_def create_writer_def split: option.splits)
  have n: "\<not> br_ws_connected (create_writer br)" using assms(1) by (simp add: create_writer_def split: option.split)
  show ?thesis using assms(1) all[OF c] n
    by (auto simp: start_websocket_def Let_def trigger_reconnect_def split: option.split)
qed

section \<open>Witnesses\<close>

definition sample_broker :: broker where
  "sample_broker = new_broker\<lparr>br_client := Some new_ws_client, br_ws_connected := True, br_option_token := ''4711''\<rparr>"

definition sample_attempt :: "look list \<Rightarrow> attempt_env" where
  "sample_attempt ls = \<lparr>ae_socket = (True, Sent), ae_looks = ls, ae_unsubscribe = [(True, Sent)]\<rparr>"

definition sample_start :: start_env where
  "sample_start = \<lparr>se_raises = False, se_opens = True, se_spot = [sample_attempt []],
     se_option = replicate 3 (sample_attempt [\<lparr>lk_tick = None, lk_dropped = False\<rparr>])\<rparr>"

theorem down_stream_stays_down_witness:
  "stream_down (foldl (stream_step default_feed_config) new_broker
     [Disconnected 5 ''WS closed: 1006'', HeartbeatStep 6 sample_start, WorkerStep 7 0 sample_start])"
  by (rule down_stream_stays_down)
    (simp_all add: stream_down_def new_broker_def in_premarket_window_def default_feed_config_def date_of_def seconds_def)

lemma http_429: "is_conn_limit ''WS error: HTTP 429''"
  by code_simp

theorem connection_limit_never_resumes_witness:
  "\<not> br_ws_connected (foldl (stream_step default_feed_config)
      (stream_step default_feed_config sample_broker (Disconnected 5 ''WS error: HTTP 429''))
      [Disconnected 6 ''WS closed: 1006'', WorkerStep 7 0 sample_start])"
  using connection_limit_never_resumes[of sample_broker "''WS error: HTTP 429''" default_feed_config
    "[Disconnected 6 ''WS closed: 1006'', WorkerStep 7 0 sample_start]" 5]
  by (simp add: sample_broker_def new_broker_def one_worker_def http_429)

lemma closed_1006: "\<not> is_conn_limit ''WS closed: 1006 - None''"
  by code_simp

theorem disconnect_during_cleanup_lost_witness:
  "\<not> br_ws_connected (foldl (stream_step default_feed_config)
      (sample_broker\<lparr>br_workers := [Finishing], br_reconnect_running := True\<rparr>)
      [Disconnected 5 ''WS closed: 1006 - None'', WorkerStep 6 0 sample_start, WorkerStep 7 0 sample_start])"
  by (rule disconnect_during_cleanup_lost) (simp_all add: sample_broker_def new_broker_def closed_1006)

lemma fixed_reasons_quiet: "list_all (\<lambda>r. \<not> is_conn_limit r) fixed_reasons"
  by code_simp

theorem reconnect_worker_ends_witness:
  "br_workers (worker_run default_feed_config (replicate 32 (5, sample_start))
     (sample_broker\<lparr>br_ws_connected := False, br_workers := [AtTop], br_reconnect_running := True\<rparr>)) = []"
proof -
  have "quiet_env sample_start"
    using fixed_reasons_quiet
    by (simp add: quiet_env_def reasons_in_def sample_start_def sample_attempt_def send_reasons_def list_all_iff)
  then show ?thesis
    using reconnect_worker_ends[of "sample_broker\<lparr>br_ws_connected := False, br_workers := [AtTop],
      br_reconnect_running := True\<rparr>" default_feed_config "replicate 32 (5, sample_start)"]
    by (simp add: sample_broker_def new_broker_def default_feed_config_def list_all_iff)
qed

theorem start_never_waits_for_tick_witness:
  "\<not> br_ws_connected (start_websocket default_feed_config 5 sample_start (sample_broker\<lparr>br_ws_connected := False\<rparr>))"
  by (rule start_never_waits_for_tick[of _ "''4711''"])
    (simp_all add: sample_broker_def sample_start_def sample_attempt_def matches_token_def list_all_iff)

end
