(* ===== verification/Strikes.thy ===== *)
theory Strikes
  imports Stream
begin

text \<open>
  Which contract to be in (\<open>core/trading/strike_selector.py\<close> and \<open>resolve_strike_for_direction\<close>,
  \<open>_setup_market_data\<close> of \<open>broker.py\<close>): the symbol of a contract, the search for a strike whose premium lies in
  the configured band, and the rotation to it with its guards.  The broker's answers are inputs: a token for a
  symbol (empty when there is none) and a price for the i-th lookup of a search.
\<close>

section \<open>Symbols\<close>

fun decimal :: "nat \<Rightarrow> string" where
  "decimal n = (if n < 10 then [char_of (48 + n)] else decimal (n div 10) @ [char_of (48 + n mod 10)])"

declare decimal.simps [simp del]

definition show_int :: "int \<Rightarrow> string" where
  "show_int k = (if k < 0 then CHR ''-'' # decimal (nat (- k)) else decimal (nat k))"

definition show_type :: "option_type \<Rightarrow> string" where
  "show_type t = (case t of CE \<Rightarrow> ''CE'' | PE \<Rightarrow> ''PE'')"

definition build_option_symbol :: "string \<Rightarrow> int \<Rightarrow> option_type \<Rightarrow> string" where
  "build_option_symbol expiry strike t =
     (if expiry = '''' then '''' else ''NIFTY'' @ expiry @ show_int strike @ show_type t)"

lemma decimal_snoc: "\<exists>xs. decimal n = xs @ [char_of (48 + n mod 10)]"
  by (subst decimal.simps) auto

lemma digit_inj: "m < 10 \<Longrightarrow> n < 10 \<Longrightarrow> (char_of (48 + m) :: char) = char_of (48 + n) \<Longrightarrow> m = (n::nat)"
  by (drule arg_cong[where f = "of_char :: char \<Rightarrow> nat"]) simp

lemma decimal_ne: "decimal n \<noteq> []"
  using decimal_snoc[of n] by auto

lemma decimal_inj: "decimal m = decimal n \<Longrightarrow> m = n"
proof (induction m arbitrary: n rule: less_induct)
  case (less m)
  have l: "char_of (48 + m mod 10) = (char_of (48 + n mod 10) :: char)"
    using less.prems decimal_snoc[of m] decimal_snoc[of n] by (metis last_snoc)
  then have r: "m mod 10 = n mod 10" by (intro digit_inj) auto
  have b: "(if m < 10 then [] else decimal (m div 10)) = (if n < 10 then [] else decimal (n div 10))"
    using less.prems by (subst (asm) (1 2) decimal.simps) (auto split: if_splits simp: decimal_ne)
  show ?case
  proof (cases "m < 10")
    case True
    with b r decimal_ne[THEN not_sym] show ?thesis by (cases "n < 10") auto
  next
    case False
    with b decimal_ne have n: "\<not> n < 10" "decimal (m div 10) = decimal (n div 10)" by (auto split: if_splits)
    have "m div 10 = n div 10" using less.IH[OF _ n(2)] False by simp
    with r show ?thesis by (metis div_mult_mod_eq)
  qed
qed

lemma decimal_digits: "c \<in> set (decimal n) \<Longrightarrow> c \<noteq> CHR ''-''"
proof (induction n rule: less_induct)
  case (less n)
  have d: "(char_of (48 + k) :: char) \<noteq> CHR ''-''" if "k < 10" for k :: nat
    using that by (auto dest: arg_cong[where f = "of_char :: char \<Rightarrow> nat"])
  show ?case using less.prems less.IH[of "n div 10"] d[of n] d[of "n mod 10"]
    by (subst (asm) decimal.simps) (auto split: if_splits)
qed

lemma show_int_inj: "show_int j = show_int k \<Longrightarrow> j = k"
proof -
  assume e: "show_int j = show_int k"
  have h: "hd (decimal n) \<noteq> CHR ''-''" for n using decimal_digits[of "hd (decimal n)" n] decimal_ne[of n] by simp
  show "j = k" using e h[of "nat j"] h[of "nat k"]
    by (auto simp: show_int_def split: if_splits dest!: decimal_inj dest: arg_cong[where f = hd])
qed

text \<open>Contracts of one expiry have different symbols, so comparing symbols compares contracts.\<close>

lemma build_option_symbol_inj:
  assumes "build_option_symbol e j s = build_option_symbol e k t" "e \<noteq> ''''"
  shows "j = k \<and> s = t"
proof -
  have "show_int j @ show_type s = show_int k @ show_type t" using assms by (simp add: build_option_symbol_def)
  moreover have "length (show_type s) = length (show_type t)" by (simp add: show_type_def split: option_type.split)
  ultimately have "show_int j = show_int k" "show_type s = show_type t" by (simp_all add: append_eq_append_conv)
  then show ?thesis using show_int_inj[of j k] by (auto simp: show_type_def split: option_type.splits)
qed

section \<open>The search by premium\<close>

datatype ltp_reply = LtpRaises | LtpNone | Ltp real

record market_view =
  mv_expiry :: string
  mv_token :: "string \<Rightarrow> string"
  mv_ltp :: "nat \<Rightarrow> string \<Rightarrow> ltp_reply"

definition atm_strike :: "real \<Rightarrow> int" where
  "atm_strike spot = round_half_even (spot / 50) * 50"

definition strikes_to_check :: "int \<Rightarrow> option_type \<Rightarrow> int list" where
  "strikes_to_check atm t =
     atm # (case t of CE \<Rightarrow> [atm + 50, atm + 100, atm - 50, atm - 100] | PE \<Rightarrow> [atm - 50, atm - 100, atm + 50, atm + 100])"

definition mid_premium :: "feed_config \<Rightarrow> real" where
  "mid_premium cfg = (fc_premium_min cfg + fc_premium_max cfg) / 2"

text \<open>The price of the i-th strike looked at, when it has a token, a positive price, and a premium in the band.  \<open>_get_token\<close>
  catches the exceptions of its client and answers nothing (\<open>broker.py\<close>), so \<open>mv_token\<close> is total although the search calls it
  outside its own \<open>try\<close>.\<close>

definition in_band :: "feed_config \<Rightarrow> market_view \<Rightarrow> option_type \<Rightarrow> nat \<Rightarrow> int \<Rightarrow> real option" where
  "in_band cfg mv t i strike =
     (if strike \<le> 0 then None
      else let symbol = build_option_symbol (mv_expiry mv) strike t
           in if mv_token mv symbol = '''' then None
              else case mv_ltp mv i symbol of
                     Ltp p \<Rightarrow> if 0 < p \<and> fc_premium_min cfg \<le> p \<and> p \<le> fc_premium_max cfg then Some p else None
                   | _ \<Rightarrow> None)"

fun search_strikes ::
    "feed_config \<Rightarrow> market_view \<Rightarrow> option_type \<Rightarrow> nat \<Rightarrow> int list \<Rightarrow> (int \<times> real) option \<Rightarrow> (int \<times> real) option" where
  "search_strikes cfg mv t i [] best = best"
| "search_strikes cfg mv t i (k # ks) best =
     search_strikes cfg mv t (Suc i) ks
       (case in_band cfg mv t i k of
          None \<Rightarrow> best
        | Some p \<Rightarrow> (case best of
            None \<Rightarrow> Some (k, p)
          | Some b \<Rightarrow> if \<bar>p - mid_premium cfg\<bar> < \<bar>snd b - mid_premium cfg\<bar> then Some (k, p) else Some b))"

definition find_strike_by_premium :: "feed_config \<Rightarrow> market_view \<Rightarrow> real \<Rightarrow> option_type \<Rightarrow> (int \<times> real) option" where
  "find_strike_by_premium cfg mv spot t =
     (if spot < 10000 then None
      else let atm = atm_strike spot
           in case search_strikes cfg mv t 0 (strikes_to_check atm t) None of
                Some b \<Rightarrow> Some b
              | None \<Rightarrow>
                  let symbol = build_option_symbol (mv_expiry mv) atm t
                  in Some (atm, if mv_token mv symbol = '''' then 0
                                else case mv_ltp mv 5 symbol of Ltp p \<Rightarrow> p | _ \<Rightarrow> 0))"

definition better :: "feed_config \<Rightarrow> real \<Rightarrow> real \<Rightarrow> bool" where
  "better cfg p q \<longleftrightarrow> \<bar>p - mid_premium cfg\<bar> \<le> \<bar>q - mid_premium cfg\<bar>"

definition strictly_better :: "feed_config \<Rightarrow> real \<Rightarrow> real \<Rightarrow> bool" where
  "strictly_better cfg p q \<longleftrightarrow> \<bar>p - mid_premium cfg\<bar> < \<bar>q - mid_premium cfg\<bar>"

text \<open>The winner of a search beats every strike looked at before it, and none looked at after it beats the winner.\<close>

definition search_winner :: "feed_config \<Rightarrow> market_view \<Rightarrow> option_type \<Rightarrow> nat \<Rightarrow> int list \<Rightarrow> nat \<Rightarrow> real \<Rightarrow> bool" where
  "search_winner cfg mv t i ks n p \<longleftrightarrow> n < length ks \<and> in_band cfg mv t (i + n) (ks ! n) = Some p
     \<and> (\<forall>j<n. \<forall>q. in_band cfg mv t (i + j) (ks ! j) = Some q \<longrightarrow> strictly_better cfg p q)
     \<and> (\<forall>j<length ks. \<forall>q. in_band cfg mv t (i + j) (ks ! j) = Some q \<longrightarrow> better cfg p q)"

lemma all_Suc: "(\<forall>j<Suc n. Q j) \<longleftrightarrow> Q 0 \<and> (\<forall>j<n. Q (Suc j))"
  using less_Suc_eq_0_disj by auto

lemma search_winner_Cons_0:
  "search_winner cfg mv t i (k # ks) 0 p \<longleftrightarrow> in_band cfg mv t i k = Some p
     \<and> (\<forall>j<length ks. \<forall>q. in_band cfg mv t (Suc i + j) (ks ! j) = Some q \<longrightarrow> better cfg p q)"
  by (auto simp: search_winner_def all_Suc better_def)

lemma search_winner_Cons_Suc:
  "search_winner cfg mv t i (k # ks) (Suc n) p \<longleftrightarrow> search_winner cfg mv t (Suc i) ks n p
     \<and> (\<forall>q. in_band cfg mv t i k = Some q \<longrightarrow> strictly_better cfg p q)"
  by (auto simp: search_winner_def all_Suc strictly_better_def better_def)

lemma search_strikes_best:
  "(case search_strikes cfg mv t i ks best of
      None \<Rightarrow> best = None \<and> (\<forall>j<length ks. in_band cfg mv t (i + j) (ks ! j) = None)
    | Some (k, p) \<Rightarrow>
        (best = Some (k, p) \<and> (\<forall>j<length ks. \<forall>q. in_band cfg mv t (i + j) (ks ! j) = Some q \<longrightarrow> better cfg p q))
      \<or> (\<exists>n. search_winner cfg mv t i ks n p \<and> ks ! n = k \<and> (\<forall>b. best = Some b \<longrightarrow> strictly_better cfg p (snd b))))"
proof (induction ks arbitrary: i best)
  case Nil
  then show ?case by (auto split: option.split)
next
  case (Cons k ks)
  define best' where "best' = (case in_band cfg mv t i k of None \<Rightarrow> best | Some p \<Rightarrow> (case best of None \<Rightarrow> Some (k, p)
      | Some b \<Rightarrow> if \<bar>p - mid_premium cfg\<bar> < \<bar>snd b - mid_premium cfg\<bar> then Some (k, p) else Some b))"
  have s: "search_strikes cfg mv t i (k # ks) best = search_strikes cfg mv t (Suc i) ks best'" by (simp add: best'_def)
  note IH = Cons.IH[where i = "Suc i" and best = best', folded s]
  show ?case
  proof (cases "search_strikes cfg mv t i (k # ks) best")
    case None
    with IH have "best' = None" "\<forall>j<length ks. in_band cfg mv t (Suc i + j) (ks ! j) = None" by simp_all
    then show ?thesis using None by (auto simp: best'_def all_Suc split: option.splits if_splits)
  next
    case (Some w)
    obtain k' p where w: "w = (k', p)" by fastforce
    from IH consider
      (kept) "best' = Some (k', p)" "\<forall>j<length ks. \<forall>q. in_band cfg mv t (Suc i + j) (ks ! j) = Some q \<longrightarrow> better cfg p q"
    | (later) n where "search_winner cfg mv t (Suc i) ks n p" "ks ! n = k'" "\<forall>b. best' = Some b \<longrightarrow> strictly_better cfg p (snd b)"
      unfolding Some w by auto
    then show ?thesis
    proof cases
      case kept
      consider "best = Some (k', p)" "\<forall>q. in_band cfg mv t i k = Some q \<longrightarrow> better cfg p q"
        | "in_band cfg mv t i k = Some p" "k' = k" "\<forall>b. best = Some b \<longrightarrow> strictly_better cfg p (snd b)"
        using kept(1) by (auto simp: best'_def better_def strictly_better_def split: option.splits if_splits)
      then show ?thesis
      proof cases
        case 1
        then show ?thesis unfolding Some w using kept(2) by (simp add: all_Suc)
      next
        case 2
        then have "search_winner cfg mv t i (k # ks) 0 p" using kept(2) by (simp add: search_winner_Cons_0)
        then show ?thesis unfolding Some w using 2 by (auto intro!: exI[of _ 0])
      qed
    next
      case later
      have "\<forall>q. in_band cfg mv t i k = Some q \<longrightarrow> strictly_better cfg p q" "\<forall>b. best = Some b \<longrightarrow> strictly_better cfg p (snd b)"
        using later(3) by (auto simp: best'_def strictly_better_def split: option.splits if_splits)
      then show ?thesis unfolding Some w using later(1,2) by (auto simp: search_winner_Cons_Suc intro!: exI[of _ "Suc n"])
    qed
  qed
qed

lemma atm_strike_near: "50 dvd atm_strike spot \<and> \<bar>of_int (atm_strike spot) - spot\<bar> \<le> 25"
proof -
  have "\<bar>of_int (round_half_even (spot / 50)) - spot / 50\<bar> \<le> 1 / 2" by (rule round_half_even_error)
  then have "\<bar>of_int (round_half_even (spot / 50)) * 50 - spot\<bar> \<le> 25" unfolding abs_le_iff by (simp; linarith)
  then show ?thesis by (simp add: atm_strike_def)
qed

text \<open>C32: The strike search is an optimal choice: of the at-the-money strike and its two neighbours on either side it
  returns one that has a contract and a premium in the configured band, none of the others in the band is closer to the
  band's middle, and a tie goes to the strike looked at first - it is strictly closer than every earlier one. When no
  strike is in the band it returns the at-the-money strike, a multiple of 50 within 25 points of the spot, with its price or
  0.\<close>

theorem strike_search_optimal:
  assumes "find_strike_by_premium cfg mv spot t = Some (k, p)"
  shows "(\<exists>i<5. strikes_to_check (atm_strike spot) t ! i = k \<and> in_band cfg mv t i k = Some p
            \<and> (\<forall>j<5. \<forall>q. in_band cfg mv t j (strikes_to_check (atm_strike spot) t ! j) = Some q \<longrightarrow> better cfg p q)
            \<and> (\<forall>j<i. \<forall>q. in_band cfg mv t j (strikes_to_check (atm_strike spot) t ! j) = Some q \<longrightarrow> strictly_better cfg p q))
       \<or> ((\<forall>j<5. in_band cfg mv t j (strikes_to_check (atm_strike spot) t ! j) = None)
            \<and> k = atm_strike spot \<and> 50 dvd k \<and> \<bar>of_int k - spot\<bar> \<le> 25
            \<and> (p = 0 \<or> mv_ltp mv 5 (build_option_symbol (mv_expiry mv) k t) = Ltp p))"
proof -
  let ?ks = "strikes_to_check (atm_strike spot) t"
  have len: "length ?ks = 5" by (simp add: strikes_to_check_def split: option_type.split)
  note best = search_strikes_best[where cfg = cfg and mv = mv and t = t and i = 0 and ks = ?ks and best = None, unfolded search_winner_def len]
  show ?thesis
  proof (cases "search_strikes cfg mv t 0 ?ks None")
    case None
    then have "k = atm_strike spot" "p = 0 \<or> mv_ltp mv 5 (build_option_symbol (mv_expiry mv) k t) = Ltp p"
      using assms by (auto simp: find_strike_by_premium_def Let_def split: if_splits ltp_reply.splits)
    with None best atm_strike_near[of spot] show ?thesis by auto
  next
    case (Some b)
    then have "b = (k, p)" using assms by (auto simp: find_strike_by_premium_def Let_def split: if_splits)
    with Some best show ?thesis by auto
  qed
qed

definition sample_view :: market_view where
  "sample_view = \<lparr>mv_expiry = ''26MAR26'', mv_token = (\<lambda>s. ''4711''),
     mv_ltp = (\<lambda>i s. [Ltp 400, Ltp 300, Ltp 220, LtpNone, LtpRaises] ! i)\<rparr>"

lemma sample_search: "find_strike_by_premium default_feed_config sample_view 25210 CE = Some (25300, 220)"
proof -
  have "atm_strike 25210 = 25200" by (simp add: atm_strike_def round_half_even_def)
  then show ?thesis
    by (simp add: find_strike_by_premium_def strikes_to_check_def in_band_def sample_view_def default_feed_config_def
        mid_premium_def Let_def)
qed

theorem strike_search_optimal_witness:
  "\<exists>i<5. strikes_to_check 25200 CE ! i = 25300 \<and> in_band default_feed_config sample_view CE i 25300 = Some 220"
proof -
  have atm: "atm_strike 25210 = 25200" by (simp add: atm_strike_def round_half_even_def)
  have "in_band default_feed_config sample_view CE 1 25250 = Some 300"
    by (simp add: in_band_def sample_view_def default_feed_config_def Let_def)
  then have "\<not> (\<forall>j<5. in_band default_feed_config sample_view CE j (strikes_to_check 25200 CE ! j) = None)"
    by (intro notI) (drule spec[of _ 1], simp add: strikes_to_check_def)
  with strike_search_optimal[OF sample_search] show ?thesis unfolding atm by blast
qed

section \<open>Rotation\<close>

definition recent :: "instant \<Rightarrow> instant \<Rightarrow> int \<Rightarrow> bool" where
  "recent now since cooldown \<longleftrightarrow> since \<noteq> 0 \<and> now - since < seconds cooldown"

definition rotation_blocked :: "feed_config \<Rightarrow> instant \<Rightarrow> broker \<Rightarrow> bool" where
  "rotation_blocked cfg now br \<longleftrightarrow>
     br_spot_price br < 10000 \<or> br_circuit_open br
   \<or> recent now (br_last_rotation br) (fc_rotation_cooldown cfg)
   \<or> recent now (br_last_ack_timeout br) (fc_ack_stress cfg)
   \<or> recent now (br_last_reconnect br) (fc_reconnect_stress cfg)"

definition current_premium :: "broker \<Rightarrow> real" where
  "current_premium br = (case br_last_tick br of None \<Rightarrow> 0 | Some t \<Rightarrow> ltp t)"

definition need_rotation :: "feed_config \<Rightarrow> broker \<Rightarrow> bool" where
  "need_rotation cfg br \<longleftrightarrow>
     (0 < current_premium br \<and> (current_premium br < fc_premium_min cfg \<or> fc_premium_max cfg < current_premium br))
   \<or> 50 \<le> \<bar>br_spot_price br - of_int (br_strike br)\<bar>"

definition switch_contract :: "market_view \<Rightarrow> int \<Rightarrow> option_type \<Rightarrow> broker \<Rightarrow> broker" where
  "switch_contract mv strike t br =
     (let symbol = build_option_symbol (mv_expiry mv) strike t
      in br\<lparr>br_strike := strike, br_symbol := symbol, br_option_token := mv_token mv symbol\<rparr>)"

text \<open>Make before break: the new token is subscribed, then the old one given up.\<close>

definition rotate_subscription ::
    "feed_config \<Rightarrow> instant \<Rightarrow> string \<Rightarrow> attempt_env list \<Rightarrow> socket_env list \<Rightarrow> broker \<Rightarrow> broker" where
  "rotate_subscription cfg now old es us br =
     (if br_ws_connected br \<and> br_client br \<noteq> None \<and> br_option_token br \<noteq> '''' then
        let b = snd (subscribe_with_retry cfg now [(fc_exchange cfg, br_option_token br, fc_sub_mode cfg)] (take 3 es) br)
        in if old \<noteq> '''' \<and> old \<noteq> br_option_token br
           then snd (unsubscribe_with_verify cfg now [(fc_exchange cfg, old, fc_sub_mode cfg)] (take 2 us) b) else b
      else br)"

definition check_and_rotate_strike ::
    "feed_config \<Rightarrow> instant \<Rightarrow> market_view \<Rightarrow> option_type option \<Rightarrow> attempt_env list \<Rightarrow> socket_env list \<Rightarrow> broker
      \<Rightarrow> bool \<times> broker" where
  "check_and_rotate_strike cfg now mv direction es us br =
     (let t = get_or (fc_option_type cfg) direction
      in if rotation_blocked cfg now br \<or> \<not> need_rotation cfg br then (False, br)
         else case find_strike_by_premium cfg mv (br_spot_price br) t of
                None \<Rightarrow> (False, br)
              | Some (k, p) \<Rightarrow>
                  if k = br_strike br then (False, br)
                  else let b = (switch_contract mv k t br)\<lparr>br_last_rotation := now\<rparr>;
                           b1 = rotate_subscription cfg now (br_option_token br) es us b
                       in (True, b1\<lparr>br_cached_option_tick := None, br_last_tick := None\<rparr>))"

section \<open>The strike of the other direction\<close>

record strike_entry =
  se_strike :: int
  se_atm :: int
  se_at :: instant

definition ends_with :: "string \<Rightarrow> string \<Rightarrow> bool" where
  "ends_with s suffix \<longleftrightarrow> length suffix \<le> length s \<and> drop (length s - length suffix) s = suffix"

definition fresh_entry :: "feed_config \<Rightarrow> instant \<Rightarrow> int \<Rightarrow> strike_entry option \<Rightarrow> bool" where
  "fresh_entry cfg now atm e \<longleftrightarrow>
     (case e of None \<Rightarrow> False | Some x \<Rightarrow> se_atm x = atm \<and> total_seconds (now - se_at x) < fc_cross_strike_ttl cfg)"

definition resolve_strike_for_direction ::
    "feed_config \<Rightarrow> instant \<Rightarrow> market_view \<Rightarrow> option_type \<Rightarrow> broker \<Rightarrow> (option_type \<rightharpoonup> strike_entry)
      \<Rightarrow> int \<times> (option_type \<rightharpoonup> strike_entry)" where
  "resolve_strike_for_direction cfg now mv t br cache =
     (if \<not> fc_cross_strike cfg \<or> (br_symbol br \<noteq> '''' \<and> ends_with (br_symbol br) (show_type t)) \<or> br_spot_price br < 10000
      then (br_strike br, cache)
      else let atm = atm_strike (br_spot_price br)
           in if fresh_entry cfg now atm (cache t) then (se_strike (the (cache t)), cache)
              else case find_strike_by_premium cfg mv (br_spot_price br) t of
                     None \<Rightarrow> (br_strike br, cache)
                   | Some (k, p) \<Rightarrow>
                       if k = 0 then (br_strike br, cache)
                       else (k, cache(t \<mapsto> \<lparr>se_strike = k, se_atm = atm, se_at = now\<rparr>)))"

section \<open>What a rotation does\<close>

definition contract_is :: "string \<Rightarrow> int \<Rightarrow> string \<Rightarrow> instant \<Rightarrow> broker \<Rightarrow> bool" where
  "contract_is symbol strike token rotated br \<longleftrightarrow>
     br_symbol br = symbol \<and> br_strike br = strike \<and> br_option_token br = token \<and> br_last_rotation br = rotated"

interpretation contract: disconnect_stable cfg "\<lambda>_. True" "contract_is s k t r"
  by unfold_locales
    (auto simp: contract_is_def clear_rest_cache_def on_ws_disconnect_def trigger_reconnect_def Let_def)

lemma rotate_subscription_contract:
  "contract_is s k t r br \<Longrightarrow> contract_is s k t r (rotate_subscription cfg now old es us br)"
  by (auto simp: rotate_subscription_def Let_def contract.subscribe contract.unsubscribe list_all_iff)

lemma rotation_result:
  assumes "check_and_rotate_strike cfg now mv d es us br = (True, b)"
  defines "t \<equiv> get_or (fc_option_type cfg) d"
  shows "\<exists>k p. find_strike_by_premium cfg mv (br_spot_price br) t = Some (k, p) \<and> k \<noteq> br_strike br
     \<and> contract_is (build_option_symbol (mv_expiry mv) k t) k (mv_token mv (build_option_symbol (mv_expiry mv) k t)) now b
     \<and> br_last_tick b = None \<and> br_cached_option_tick b = None"
proof -
  obtain k p where f: "find_strike_by_premium cfg mv (br_spot_price br) t = Some (k, p)" "k \<noteq> br_strike br"
    and b: "b = (rotate_subscription cfg now (br_option_token br) es us
        ((switch_contract mv k t br)\<lparr>br_last_rotation := now\<rparr>))\<lparr>br_cached_option_tick := None, br_last_tick := None\<rparr>"
    using assms by (auto simp: check_and_rotate_strike_def Let_def split: if_splits option.splits)
  have "contract_is (build_option_symbol (mv_expiry mv) k t) k (mv_token mv (build_option_symbol (mv_expiry mv) k t)) now
      ((switch_contract mv k t br)\<lparr>br_last_rotation := now\<rparr>)"
    by (simp add: contract_is_def switch_contract_def Let_def)
  from rotate_subscription_contract[OF this] f show ?thesis by (simp add: b contract_is_def)
qed

text \<open>Rotations do not churn. A rotation leaves strike, symbol and token of one and the same contract, drops the old
  contract's ticks, and for the whole cool-down after it - whatever premium, spot or direction is asked for - a further
  call changes nothing.\<close>

theorem rotation_switches_and_holds:
  assumes "check_and_rotate_strike cfg now mv d es us br = (True, b)" "now \<noteq> 0"
    and "later - now < seconds (fc_rotation_cooldown cfg)"
  shows "br_symbol b = build_option_symbol (mv_expiry mv) (br_strike b) (get_or (fc_option_type cfg) d)
       \<and> br_option_token b = mv_token mv (br_symbol b) \<and> br_strike b \<noteq> br_strike br \<and> br_last_tick b = None
       \<and> check_and_rotate_strike cfg later mv' d' es' us' b = (False, b)"
  using rotation_result[OF assms(1)] assms(2,3)
  by (auto simp: contract_is_def check_and_rotate_strike_def rotation_blocked_def recent_def Let_def)

text \<open>A rotation to a contract without a token mislabels prices. When the search falls back to a strike no token is
  found for, the token filter of the WebSocket callback is off: the next tick of any other contract still subscribed
  becomes the current tick under the new contract's symbol, with the other contract's price.\<close>

theorem tokenless_rotation_mislabels:
  assumes "check_and_rotate_strike cfg now mv d es us br = (True, b)" "br_option_token b = ''''"
    and "pt_token p \<noteq> NIFTY_SPOT_TOKEN" "0 < pt_ltp p"
  shows "\<exists>t. br_last_tick (on_ws_tick cfg later p b) = Some t \<and> tick_symbol t = br_symbol b
           \<and> ltp t = py_round 2 (pt_ltp p) \<and> ft_token t = pt_token p"
proof -
  have h: "br_option_token (tick_heartbeat later b) = ''''" "br_symbol (tick_heartbeat later b) = br_symbol b"
    using assms(2) by (simp_all add: tick_heartbeat_def Let_def)
  have c: "br_symbol (count_quote src c) = br_symbol c" for src c by (simp add: count_quote_def split: quote_source.split)
  have "\<exists>t. br_last_tick (accept_tick cfg later p c) = Some t \<and> tick_symbol t = br_symbol c
      \<and> ltp t = py_round 2 (pt_ltp p) \<and> ft_token t = pt_token p" for c
    by (simp add: accept_tick_def Let_def build_tick_def split: prod.split)
  from this[of "count_quote (snd (quote_of p)) (tick_heartbeat later b)"] show ?thesis
    using assms(3,4) h c by (simp add: on_ws_tick_def option_tick_def Let_def)
qed

definition rotating_broker :: broker where
  "rotating_broker = new_broker\<lparr>br_spot_price := 25210, br_strike := 25000\<rparr>"

lemma rotating_need: "need_rotation default_feed_config rotating_broker" "\<not> rotation_blocked default_feed_config 5 rotating_broker"
  by (simp_all add: need_rotation_def rotation_blocked_def rotating_broker_def new_broker_def recent_def)

lemma rotating_broker_rotates: "fst (check_and_rotate_strike default_feed_config 5 sample_view None es us rotating_broker)"
  using sample_search rotating_need
  by (simp add: check_and_rotate_strike_def rotating_broker_def new_broker_def default_feed_config_def)

theorem rotation_switches_and_holds_witness:
  "let (ok, b) = check_and_rotate_strike default_feed_config 5 sample_view None [] [] rotating_broker
   in ok \<and> check_and_rotate_strike default_feed_config 6 sample_view (Some PE) [] [] b = (False, b)"
proof -
  obtain b where "check_and_rotate_strike default_feed_config 5 sample_view None [] [] rotating_broker = (True, b)"
    using rotating_broker_rotates[of "[]" "[]"] by (metis prod.collapse)
  with rotation_switches_and_holds[OF this, of 6 sample_view "Some PE" "[]" "[]"] show ?thesis
    by (simp add: default_feed_config_def seconds_def)
qed

lemma digit_chars: "char_of (48::nat) = CHR ''0''" "char_of (50::nat) = CHR ''2''" "char_of (53::nat) = CHR ''5''"
  by code_simp+

lemma decimal_25200: "decimal 25200 = ''25200''"
  by (simp add: decimal.simps digit_chars)

definition tokenless_view :: market_view where
  "tokenless_view = sample_view\<lparr>mv_token := (\<lambda>s. '''')\<rparr>"

definition old_contract_packet :: parsed_tick where
  "old_contract_packet = \<lparr>pt_mode = 2, pt_exchange_type = 2, pt_token = ''4711'', pt_sequence = 1,
     pt_timestamp = 1700000000000, pt_ltp = 201/2, pt_quote = None, pt_snap = None\<rparr>"

theorem tokenless_rotation_mislabels_witness:
  "\<exists>b t. check_and_rotate_strike default_feed_config 5 tokenless_view None [] [] rotating_broker = (True, b)
     \<and> br_last_tick (on_ws_tick default_feed_config 6 old_contract_packet b) = Some t
     \<and> tick_symbol t = ''NIFTY26MAR2625200CE'' \<and> ft_token t = ''4711''"
proof -
  have atm: "atm_strike 25210 = 25200" by (simp add: atm_strike_def round_half_even_def)
  then have "find_strike_by_premium default_feed_config tokenless_view 25210 CE = Some (25200, 0)"
    by (simp add: find_strike_by_premium_def strikes_to_check_def in_band_def tokenless_view_def Let_def)
  then have "fst (check_and_rotate_strike default_feed_config 5 tokenless_view None [] [] rotating_broker)"
    using rotating_need by (simp add: check_and_rotate_strike_def rotating_broker_def new_broker_def default_feed_config_def)
  then obtain b where r: "check_and_rotate_strike default_feed_config 5 tokenless_view None [] [] rotating_broker = (True, b)"
    by (metis prod.collapse)
  have "br_symbol b = ''NIFTY26MAR2625200CE'' \<and> br_option_token b = ''''"
    using rotation_result[OF r] \<open>find_strike_by_premium default_feed_config tokenless_view 25210 CE = Some (25200, 0)\<close>
    by (simp add: contract_is_def rotating_broker_def new_broker_def default_feed_config_def tokenless_view_def
        sample_view_def build_option_symbol_def show_int_def show_type_def decimal_25200)
  with r tokenless_rotation_mislabels[OF r, of old_contract_packet 6] show ?thesis
    by (auto simp: old_contract_packet_def NIFTY_SPOT_TOKEN_def)
qed

end
