(* ===== verification/Tick_Feed.thy ===== *)
theory Tick_Feed
  imports Strikes
begin

text \<open>
  Where the trading loop's tick comes from (\<open>tick_feed.py\<close>, \<open>get_tick\<close> of \<open>broker.py\<close>): the cached WebSocket
  tick, the REST fallback with its own circuit breaker and cache, and the simulator.  The broker's REST answer,
  the simulator's random walk and what a rotation on the way sees are inputs.
\<close>

section \<open>REST\<close>

text \<open>\<open>get_market_tick\<close>: nothing, a price, a network error with its text, or another exception.\<close>

datatype rest_reply = RestNothing | RestPrice real | RestNetworkError string | RestOtherError

text \<open>The tick built from a price (\<open>brokers/angel_one/market_data_rest.py\<close>) with the keys the caller sets.\<close>

definition rest_tick :: "feed_config \<Rightarrow> instant \<Rightarrow> real \<Rightarrow> broker \<Rightarrow> feed_tick" where
  "rest_tick cfg now p br =
     \<lparr>ltp = p, bid = py_round 2 (p - p * 0.001 / 2), ask = py_round 2 (p + p * 0.001 / 2),
      tick_timestamp = current_time_ms now, original_timestamp = Some (current_time_ms now),
      tick_symbol = br_symbol br, spot_price = br_spot_price br, tick_volume = Some 0, data_source = '''',
      tick_spread_pct = None, tick_delta = None, tick_atr = None, tick_iv = None, tick_tte_sec = None,
      ft_token = '''', ft_strike = br_strike br, ft_direction = fc_option_type cfg, ft_quote_source = None,
      ft_oi = None, ft_enriched = None\<rparr>"

definition network_words :: "string list" where
  "network_words = [''name resolution'', ''connection'', ''network'', ''timeout'', ''unreachable'', ''reset'',
     ''refused'', ''dns'']"

definition is_network_error :: "string \<Rightarrow> bool" where
  "is_network_error m \<longleftrightarrow> list_ex (\<lambda>w. contains w (map char_lower m)) network_words"

definition stamped :: "instant \<Rightarrow> feed_tick \<Rightarrow> feed_tick" where
  "stamped now t = t\<lparr>tick_timestamp := current_time_ms now\<rparr>"

definition request_rest_tick ::
    "feed_config \<Rightarrow> instant \<Rightarrow> rest_reply \<Rightarrow> broker \<Rightarrow> feed_tick option \<times> broker" where
  "request_rest_tick cfg now reply br =
     (case reply of
        RestNothing \<Rightarrow> (None, br)
      | RestOtherError \<Rightarrow> (None, br)
      | RestPrice p \<Rightarrow>
          let t = rest_tick cfg now p br
          in (Some t, br\<lparr>br_cached_option_tick := Some t, br_last_option_fetch := now,
                         br_last_valid_tick_time := Some now, br_network_errors := 0\<rparr>)
      | RestNetworkError m \<Rightarrow>
          let b = br\<lparr>br_network_errors := br_network_errors br + 1\<rparr>
          in (None, if is_network_error m \<and> 10 \<le> br_network_errors b
                    then b\<lparr>br_network_until := Some (now + seconds 300)\<rparr> else b))"

definition fetch_option_tick_rest ::
    "feed_config \<Rightarrow> instant \<Rightarrow> rest_reply \<Rightarrow> broker \<Rightarrow> feed_tick option \<times> broker" where
  "fetch_option_tick_rest cfg now reply br =
     (if br_client br = None \<or> br_symbol br = '''' then (None, br)
      else case br_network_until br of
             None \<Rightarrow> request_rest_tick cfg now reply br
           | Some u \<Rightarrow>
               if now < u then (map_option (stamped now) (br_cached_option_tick br), br)
               else request_rest_tick cfg now reply (br\<lparr>br_network_until := None, br_network_errors := 0\<rparr>))"

definition poll_interval :: "feed_config \<Rightarrow> real" where
  "poll_interval cfg = max 1 (min 10 (max 1 (of_int (fc_stale_rest_ms cfg) / 1000) - 1))"

text \<open>The strike follows the spot on the REST path, every 30 seconds.\<close>

record feed_env =
  fe_spot :: ltp_reply
  fe_view :: market_view
  fe_attempts :: "attempt_env list"
  fe_unsubscribe :: "socket_env list"
  fe_option :: rest_reply

definition follow_subscription :: "feed_config \<Rightarrow> instant \<Rightarrow> string \<Rightarrow> feed_env \<Rightarrow> broker \<Rightarrow> broker" where
  "follow_subscription cfg now old e br =
     (if br_ws_connected br \<and> br_client br \<noteq> None \<and> br_option_token br \<noteq> '''' \<and> br_option_token br \<noteq> old then
        let b = br\<lparr>br_last_tick := None, br_tick_buffer := []\<rparr>;
            b1 = (if old \<noteq> '''' then snd (unsubscribe_with_verify cfg now [(fc_exchange cfg, old, fc_sub_mode cfg)]
                                           (take 2 (fe_unsubscribe e)) b) else b)
        in snd (subscribe_with_retry cfg now [(fc_exchange cfg, br_option_token b1, fc_sub_mode cfg)]
                  (take 3 (fe_attempts e)) b1)
      else br)"

definition follow_spot :: "feed_config \<Rightarrow> instant \<Rightarrow> feed_env \<Rightarrow> broker \<Rightarrow> broker" where
  "follow_spot cfg now e br =
     (if now - br_last_spot_fetch br \<le> seconds 30 then br
      else case fe_spot e of
             Ltp s \<Rightarrow>
               if 10000 < s then
                 let b = br\<lparr>br_spot_price := s, br_last_spot_fetch := now\<rparr>
                 in if 50 \<le> \<bar>s - of_int (br_strike b)\<bar>
                    then follow_subscription cfg now (br_option_token b) e
                           (switch_contract (fe_view e) (atm_strike s) (fc_option_type cfg) b)
                    else b
               else br
           | _ \<Rightarrow> br)"

text \<open>\<open>_get_rest_tick\<close>: a fresh tick when the interval has passed, else the cached one stamped as new.\<close>

definition get_rest_tick :: "feed_config \<Rightarrow> instant \<Rightarrow> feed_env \<Rightarrow> broker \<Rightarrow> feed_tick option \<times> broker" where
  "get_rest_tick cfg now e br =
     (if br_client br = None then (None, br)
      else let b = follow_spot cfg now e br;
               (t, b1) = (if poll_interval cfg < total_seconds (now - br_last_option_fetch b)
                          then fetch_option_tick_rest cfg now (fe_option e) b else (None, b))
           in case t of
                Some x \<Rightarrow> (Some x, b1)
              | None \<Rightarrow>
                  (case br_cached_option_tick b1 of
                     None \<Rightarrow> (None, b1)
                   | Some c \<Rightarrow> (Some (c\<lparr>spot_price := br_spot_price b1, tick_timestamp := current_time_ms now,
                                       original_timestamp := Some (current_time_ms now)\<rparr>),
                                b1\<lparr>br_last_valid_tick_time := Some now\<rparr>)))"

section \<open>The simulator\<close>

text \<open>The state of the simulated market; the draws of one tick are inputs, the sine values among them.\<close>

record sim_state =
  sm_premium :: "real option"
  sm_base_price :: real
  sm_amplitude :: real
  sm_random_walk :: real
  sm_trend :: real
  sm_strike_known :: bool

record sim_draw =
  sd_spot :: ltp_reply
  sd_spot_due :: bool
  sd_sin_wave :: real
  sd_sin_trend :: real
  sd_walk :: real
  sd_jitter :: real
  sd_flip :: bool
  sd_noise :: real
  sd_volume :: real

definition sim_spot :: "sim_draw \<Rightarrow> sim_state \<Rightarrow> sim_state \<times> real" where
  "sim_spot d s =
     (let base = (case sd_spot d of Ltp x \<Rightarrow> if sd_spot_due d \<and> 10000 < x then x else sm_base_price s
                  | _ \<Rightarrow> sm_base_price s);
          walk = clamp (- 50) 50 (sm_random_walk s + sd_walk d);
          wave = sd_sin_wave d * sm_amplitude s; trend = sd_sin_trend d * 30
      in (s\<lparr>sm_base_price := base, sm_random_walk := walk\<rparr>,
          py_round 2 (base + wave + trend + walk + sd_jitter d)))"

definition sim_step_premium :: "real \<Rightarrow> real \<Rightarrow> real" where
  "sim_step_premium premium target =
     (let diff = target - premium
      in clamp 40 300 (if 2 < \<bar>diff\<bar> then (if 0 < diff then premium + 2 else premium - 2) else target))"

definition simulated_tick :: "feed_config \<Rightarrow> instant \<Rightarrow> sim_draw \<Rightarrow> sim_state \<Rightarrow> broker \<Rightarrow> feed_tick \<times> sim_state \<times> broker" where
  "simulated_tick cfg now d s br =
     (let (s1, spot) = sim_spot d s;
          wave = sd_sin_wave d * sm_amplitude s;
          strike = (if \<not> sm_strike_known s \<or> 150 \<le> \<bar>spot - of_int (br_strike br)\<bar> then atm_strike spot else br_strike br);
          spot_change = spot - (sm_base_price s1 + wave + sd_sin_trend d * 30);
          direction = (if sd_flip d then - sm_trend s else sm_trend s);
          target = clamp 40 300 (125 + spot_change * 0.5 + direction * 10 + sd_noise d);
          premium = sim_step_premium (get_or 125 (sm_premium s)) target;
          p = py_round 2 premium;
          b = br\<lparr>br_spot_price := spot, br_strike := strike, br_last_valid_tick_time := Some now,
                 br_last_spot_fetch := (case sd_spot d of
                     Ltp x \<Rightarrow> if sd_spot_due d \<and> 10000 < x then now else br_last_spot_fetch br
                   | _ \<Rightarrow> br_last_spot_fetch br)\<rparr>
      in (\<lparr>ltp = p, bid = py_round 2 (p - 1/4), ask = py_round 2 (p + 1/4), tick_timestamp = current_time_ms now,
           original_timestamp = None, tick_symbol = br_symbol br, spot_price = spot,
           tick_volume = Some (py_int (400000 + \<bar>wave\<bar> / sm_amplitude s * 200000 + sd_volume d)),
           data_source = ''SIMULATION'', tick_spread_pct = None, tick_delta = None, tick_atr = None, tick_iv = None,
           tick_tte_sec = None, ft_token = '''', ft_strike = strike, ft_direction = fc_option_type cfg,
           ft_quote_source = None, ft_oi = None, ft_enriched = None\<rparr>,
          s1\<lparr>sm_premium := Some premium, sm_trend := direction, sm_strike_known := True\<rparr>, b))"

section \<open>The unified entry point\<close>

definition tagged :: "string \<Rightarrow> feed_tick \<Rightarrow> feed_tick" where
  "tagged source t = t\<lparr>data_source := source\<rparr>"

definition refreshed :: "instant \<Rightarrow> feed_tick \<Rightarrow> broker \<Rightarrow> broker" where
  "refreshed now t br =
     br\<lparr>br_last_tick := Some t, br_original_tick_time := Some now, br_last_valid_tick_time := Some now\<rparr>"

text \<open>Path 1, the cached WebSocket tick.  \<open>original_age\<close> is 999 when no tick time is known.\<close>

definition quiet_age :: "instant \<Rightarrow> broker \<Rightarrow> int" where
  "quiet_age now br =
     (case br_original_tick_time br of Some t \<Rightarrow> if t \<noteq> 0 then now - t else seconds 999 | None \<Rightarrow> seconds 999)"

definition refresh_due :: "instant \<Rightarrow> broker \<Rightarrow> bool" where
  "refresh_due now br \<longleftrightarrow> seconds 60 < quiet_age now br \<and> seconds 60 < now - br_last_rest_refresh br"

definition rest_refresh :: "feed_config \<Rightarrow> instant \<Rightarrow> rest_reply \<Rightarrow> broker \<Rightarrow> feed_tick option \<times> broker" where
  "rest_refresh cfg now reply br =
     (let (t, b) = fetch_option_tick_rest cfg now reply (clear_rest_cache br)
      in case t of
           Some x \<Rightarrow> (Some (tagged ''REST_REFRESH'' x),
                      refreshed now x (b\<lparr>br_last_rest_refresh := now, br_last_option_fetch := now\<rparr>))
         | None \<Rightarrow> (None, on_ws_disconnect cfg now ''WS stale and REST refresh failed'' b))"

definition serve_ws_tick :: "feed_config \<Rightarrow> instant \<Rightarrow> rest_reply \<Rightarrow> feed_tick \<Rightarrow> broker \<Rightarrow> feed_tick option \<times> broker" where
  "serve_ws_tick cfg now reply t br =
     (if tick_symbol t \<noteq> '''' \<and> br_symbol br \<noteq> '''' \<and> tick_symbol t \<noteq> br_symbol br
      then let (r, b) = fetch_option_tick_rest cfg now reply br
           in case r of
                Some x \<Rightarrow> (Some (tagged ''REST_REFRESH'' x), refreshed now x b)
              | None \<Rightarrow> (None, b)
      else (Some (tagged ''WEBSOCKET'' (stamped now t)), br\<lparr>br_last_valid_tick_time := Some now\<rparr>))"

definition get_tick_uncached ::
    "feed_config \<Rightarrow> instant \<Rightarrow> feed_env \<Rightarrow> sim_draw \<Rightarrow> sim_state \<Rightarrow> broker \<Rightarrow> feed_tick option \<times> sim_state \<times> broker" where
  "get_tick_uncached cfg now e d s br =
     (case (if fc_use_live_data cfg \<and> br_ws_connected br then br_last_tick br else None) of
        Some t \<Rightarrow>
          if refresh_due now br then (case rest_refresh cfg now (fe_option e) br of (r, b) \<Rightarrow> (r, s, b))
          else (case serve_ws_tick cfg now (fe_option e) t br of (r, b) \<Rightarrow> (r, s, b))
      | None \<Rightarrow>
          (case (if fc_use_live_data cfg then get_rest_tick cfg now e br else (None, br)) of
             (Some x, b) \<Rightarrow> (Some (tagged ''REST'' x), s, b)
           | (None, b) \<Rightarrow> (case simulated_tick cfg now d s b of (t, s1, b1) \<Rightarrow> (Some t, s1, b1))))"

text \<open>\<open>_persist_tick\<close>: a row per price change; \<open>written\<close> is false when the database call raises.\<close>

record tick_log =
  tl_last :: "(string \<times> real \<times> real \<times> real) option"
  tl_rows :: "feed_tick list"

definition log_key :: "feed_tick \<Rightarrow> string \<times> real \<times> real \<times> real" where
  "log_key t = (tick_symbol t, ltp t, bid t, ask t)"

definition persist_tick :: "bool \<Rightarrow> feed_tick \<Rightarrow> tick_log \<Rightarrow> tick_log" where
  "persist_tick written t l =
     (if tick_symbol t = '''' \<or> tl_last l = Some (log_key t) then l
      else l\<lparr>tl_last := Some (log_key t), tl_rows := (if written then tl_rows l @ [t] else tl_rows l)\<rparr>)"

definition get_tick ::
    "feed_config \<Rightarrow> instant \<Rightarrow> feed_env \<Rightarrow> sim_draw \<Rightarrow> bool \<Rightarrow> sim_state \<Rightarrow> broker \<Rightarrow> tick_log
      \<Rightarrow> feed_tick option \<times> sim_state \<times> broker \<times> tick_log" where
  "get_tick cfg now e d written s br l =
     (case get_tick_uncached cfg now e d s br of
        (r, s1, b) \<Rightarrow>
          (r, s1, b, case r of Some t \<Rightarrow> if data_source t \<noteq> ''SIMULATION'' then persist_tick written t l else l
                     | None \<Rightarrow> l))"

text \<open>
  The tick of the contract an entry in \<open>direction\<close> would trade; a contract that is not the subscribed one is
  asked for by REST.  The reply is the one for that contract.
\<close>

definition get_tick_for_direction ::
    "feed_config \<Rightarrow> instant \<Rightarrow> market_view \<Rightarrow> feed_env \<Rightarrow> sim_draw \<Rightarrow> bool \<Rightarrow> rest_reply \<Rightarrow> option_type
      \<Rightarrow> (option_type \<rightharpoonup> strike_entry) \<Rightarrow> sim_state \<Rightarrow> broker \<Rightarrow> tick_log
      \<Rightarrow> feed_tick option \<times> (option_type \<rightharpoonup> strike_entry) \<times> sim_state \<times> broker \<times> tick_log" where
  "get_tick_for_direction cfg now mv e d written reply direction cache s br l =
     (case resolve_strike_for_direction cfg now mv direction br cache of
        (strike, cache1) \<Rightarrow>
          let symbol = build_option_symbol (mv_expiry mv) strike direction
          in if symbol = br_symbol br
             then (case get_tick cfg now e d written s br l of (r, s1, b, l1) \<Rightarrow> (r, cache1, s1, b, l1))
             else if br_client br = None then (None, cache1, s, br, l)
             else (case reply of
                     RestPrice p \<Rightarrow>
                       (Some ((rest_tick cfg now p br)\<lparr>tick_symbol := symbol, ft_strike := strike,
                                                        ft_direction := direction\<rparr>), cache1, s, br, l)
                   | _ \<Rightarrow> (None, cache1, s, br, l)))"

section \<open>Smoothing\<close>

definition volume_weight :: "feed_tick \<Rightarrow> real" where
  "volume_weight t = (let v = get_or 0 (tick_volume t) in if v = 0 then 1 else of_int v)"

definition smoothing_weights :: "feed_tick list \<Rightarrow> real list" where
  "smoothing_weights ts =
     (let ws = map volume_weight ts in if sum_list ws \<le> 0 then map (\<lambda>_. 1) ts else ws)"

definition weighted :: "real list \<Rightarrow> real list \<Rightarrow> real" where
  "weighted ws xs = sum_list (map2 (*) xs ws) / sum_list ws"

definition get_smoothed_tick ::
    "feed_config \<Rightarrow> instant \<Rightarrow> feed_env \<Rightarrow> sim_draw \<Rightarrow> bool \<Rightarrow> sim_state \<Rightarrow> broker \<Rightarrow> tick_log
      \<Rightarrow> feed_tick option \<times> sim_state \<times> broker \<times> tick_log" where
  "get_smoothed_tick cfg now e d written s br l =
     (let ts = br_tick_buffer br; ws = smoothing_weights ts
      in if length ts < 2 then get_tick cfg now e d written s br l
         else (Some ((last ts)\<lparr>ltp := py_round 2 (weighted ws (map ltp ts)),
                               bid := py_round 2 (weighted ws (map bid ts)),
                               ask := py_round 2 (weighted ws (map ask ts)),
                               tick_volume := Some (let v = get_or 0 (tick_volume (last ts)) in if v = 0 then 1 else v),
                               data_source := ''WEBSOCKET_SMOOTHED_VWAP''\<rparr>), s, br, l))"

definition clear_tick_buffer :: "broker \<Rightarrow> broker" where
  "clear_tick_buffer br = br\<lparr>br_tick_buffer := []\<rparr>"

text \<open>\<open>get_quote_source_stats\<close>: real, estimated, total and the estimated percentage.\<close>

definition quote_source_stats :: "broker \<Rightarrow> int \<times> int \<times> int \<times> real option" where
  "quote_source_stats br =
     (let total = br_quotes_real br + br_quotes_estimated br
      in (br_quotes_real br, br_quotes_estimated br, total,
          if total \<noteq> 0 then Some (py_round 2 (100 * of_int (br_quotes_estimated br) / of_int total)) else None))"

section \<open>Before an order\<close>

definition matches_symbol :: "string \<Rightarrow> string \<Rightarrow> feed_tick option \<Rightarrow> bool" where
  "matches_symbol symbol token t =
     (case t of None \<Rightarrow> False | Some x \<Rightarrow> tick_symbol x = symbol \<and> ft_token x = token \<and> 0 < ltp x)"

fun wait_symbol_tick :: "bool \<Rightarrow> string \<Rightarrow> string \<Rightarrow> look list \<Rightarrow> bool" where
  "wait_symbol_tick up symbol token [] = False"
| "wait_symbol_tick up symbol token (l # ls) =
     (if matches_symbol symbol token (lk_tick l) then True
      else if \<not> up \<or> lk_dropped l then False
      else wait_symbol_tick up symbol token ls)"

definition ensure_symbol_sync ::
    "feed_config \<Rightarrow> instant \<Rightarrow> string \<Rightarrow> string \<Rightarrow> look list \<Rightarrow> attempt_env list \<Rightarrow> look list \<Rightarrow> broker \<Rightarrow> bool \<times> broker" where
  "ensure_symbol_sync cfg now symbol token before es after br =
     (if \<not> (fc_use_live_data cfg \<and> fc_enable_websocket cfg \<and> br_ws_connected br \<and> br_client br \<noteq> None \<and> token \<noteq> '''')
      then (True, br)
      else if wait_symbol_tick (br_ws_connected br) symbol token before then (True, br)
      else case subscribe_with_retry cfg now [(fc_exchange cfg, token, fc_sub_mode cfg)] (take 1 es) br of
             (ok, b) \<Rightarrow> if \<not> ok then (False, b)
                       else (wait_symbol_tick (br_ws_connected b) symbol token after, b))"

section \<open>Setting the contract up at connect\<close>

text \<open>The simulator takes the spot over when it has not started yet.\<close>

definition setup_market_data ::
    "feed_config \<Rightarrow> instant \<Rightarrow> market_view \<Rightarrow> ltp_reply \<Rightarrow> rest_reply \<Rightarrow> sim_state \<Rightarrow> broker
      \<Rightarrow> bool \<times> sim_state \<times> broker" where
  "setup_market_data cfg now mv spot reply s br =
     (case spot of
        LtpRaises \<Rightarrow> (False, s, br)
      | _ \<Rightarrow>
          let found = (case spot of Ltp x \<Rightarrow> if 10000 < x then Some x else None | _ \<Rightarrow> None);
              b = (case found of Some x \<Rightarrow> br\<lparr>br_spot_price := x\<rparr> | None \<Rightarrow> br);
              s1 = (case found of Some x \<Rightarrow> if sm_premium s = None then s\<lparr>sm_base_price := x\<rparr> else s | None \<Rightarrow> s);
              atm = (case found of Some x \<Rightarrow> atm_strike x | None \<Rightarrow> 25200);
              strike = (case find_strike_by_premium cfg mv (br_spot_price b) (fc_option_type cfg) of
                          Some (k, p) \<Rightarrow> if k \<noteq> 0 then k else atm | None \<Rightarrow> atm);
              b1 = snd (fetch_option_tick_rest cfg now reply (switch_contract mv strike (fc_option_type cfg) b))
          in (True, s1, b1\<lparr>br_last_spot_fetch := now\<rparr>))"

end
