(* ===== verification/Feed_Quality.thy ===== *)
theory Feed_Quality
  imports Tick_Feed Validators
begin

text \<open>
  What the trading loop can rely on when \<open>get_tick\<close> and \<open>is_data_valid\<close> are put together: which tick reaches the
  decisions, from which source, with which quote and how old it can be.
\<close>

section \<open>Quotes\<close>

lemma estimated_quote:
  assumes "snd (quote_of p) = EstimatedQuote"
  shows "fst (quote_of p) = (py_round 2 (pt_ltp p - max (1/20) (pt_ltp p * 3/1000) / 2),
                             py_round 2 (pt_ltp p + max (1/20) (pt_ltp p * 3/1000) / 2))"
  using assms by (auto simp: quote_of_def Let_def split: if_splits)

lemma py_round_twice [simp]: "py_round 2 (py_round 2 x) = py_round 2 x"
  by (simp add: py_round_def)

lemma round2_bounds: "x - 1/200 \<le> py_round 2 x" "py_round 2 x \<le> x + 1/200"
  using py_round_error[of 2 x] by (simp_all add: abs_if split: if_splits)

lemma build_tick_book:
  "bid (build_tick cfg now p br) = py_round 2 (fst (fst (quote_of p)))"
  "ask (build_tick cfg now p br) = py_round 2 (snd (fst (quote_of p)))"
  by (cases "quote_of p"; cases "fst (quote_of p)"; simp add: build_tick_def)+

text \<open>The dictionary as the validators and filters read it.\<close>

abbreviation as_tick :: "feed_tick \<Rightarrow> tick" where
  "as_tick \<equiv> tick.truncate"

lemma as_tick_simps [simp]:
  "ltp (as_tick t) = ltp t" "bid (as_tick t) = bid t" "ask (as_tick t) = ask t"
  "tick_timestamp (as_tick t) = tick_timestamp t" "original_timestamp (as_tick t) = original_timestamp t"
  "tick_symbol (as_tick t) = tick_symbol t" "spot_price (as_tick t) = spot_price t"
  "tick_volume (as_tick t) = tick_volume t" "data_source (as_tick t) = data_source t"
  by (simp_all add: tick.truncate_def)

definition sample_packet :: parsed_tick where
  "sample_packet = old_contract_packet\<lparr>pt_ltp := 100, pt_snap := None\<rparr>"

text \<open>Without a book the spread filters filter nothing. For every packet whose quote is estimated and whose price
  is at least 40, the tick carries an uncrossed positive quote whose percentage spread is below 0.35 - under the
  tightest limit any filter of the program uses - whatever the real book was.\<close>

theorem estimated_spread_inert:
  assumes "snd (quote_of p) = EstimatedQuote" "40 \<le> pt_ltp p"
  shows "0 < bid (build_tick cfg now p br) \<and> bid (build_tick cfg now p br) < ask (build_tick cfg now p br)
       \<and> (\<exists>sp. spread_pct (as_tick (build_tick cfg now p br)) = Inr sp \<and> 0 < sp \<and> sp < 35/100)"
proof -
  let ?h = "max (1/20) (pt_ltp p * 3/1000) / 2 :: real"
  let ?t = "build_tick cfg now p br"
  have h: "?h = pt_ltp p * 3/2000" using assms(2) by simp
  have t: "bid ?t = py_round 2 (pt_ltp p - ?h)" "ask ?t = py_round 2 (pt_ltp p + ?h)"
    by (simp_all only: build_tick_book estimated_quote[OF assms(1)] fst_conv snd_conv py_round_twice)
  have b: "0 < bid ?t" "bid ?t < ask ?t" and w: "ask ?t - bid ?t \<le> pt_ltp p * 3/1000 + 1/100" "pt_ltp p \<le> ask ?t"
    using round2_bounds[of "pt_ltp p - ?h"] round2_bounds[of "pt_ltp p + ?h"] assms(2) unfolding t h by linarith+
  then have "ask ?t * 6500 < bid ?t * 6500 + bid ?t * 35 + (ask ?t - bid ?t) * 35" if "ask ?t * 9965 < bid ?t * 10000"
    using that by simp
  moreover have "ask ?t * 9965 < bid ?t * 10000" using b w assms(2) by argo
  ultimately have "(ask ?t - bid ?t) / ask ?t * 100 < 35/100" using b by (simp add: field_simps)
  with b show ?thesis by (simp add: spread_pct_def)
qed

theorem estimated_spread_inert_witness:
  "bid (build_tick default_feed_config 0 sample_packet new_broker)
     < ask (build_tick default_feed_config 0 sample_packet new_broker)"
  using estimated_spread_inert[of sample_packet default_feed_config 0 new_broker]
  by (simp add: sample_packet_def quote_of_def packet_book_def or_price_def truthy_def)

section \<open>The live feed is not validated\<close>

text \<open>The sequence tracker and the book check of \<open>tick_validator.py\<close> have nothing to look at on the live path.\<close>

lemma live_validation:
  "validate_tick (tick_keys (build_tick cfg now p br)) (Some st)
     = ((if pt_token p = '''' then [MissingToken] else [])
        @ (if py_round 2 (pt_ltp p) \<le> 0 then [NonPositiveLtp] else []), Some st)"
proof -
  have k: "token_of (tick_keys (build_tick cfg now p br)) = pt_token p"
    by (cases "quote_of p"; cases "fst (quote_of p)") (simp add: token_of_def tick_keys_def build_tick_def)
  have l: "ltp (build_tick cfg now p br) = py_round 2 (pt_ltp p)"
    by (cases "quote_of p"; cases "fst (quote_of p)") (simp add: build_tick_def)
  show ?thesis
    by (simp add: validate_tick_def k Let_def price_faults_def check_sequence_def) (simp add: tick_keys_def l)
qed

section \<open>The simulator behind a live feed\<close>

lemma sim_step_range: "40 \<le> sim_step_premium p x" "sim_step_premium p x \<le> 300"
  unfolding sim_step_premium_def Let_def by (auto intro: clamp_bounds)

lemma sim_step_small:
  assumes "40 \<le> p" "p \<le> 300" "40 \<le> x" "x \<le> 300"
  shows "\<bar>sim_step_premium p x - p\<bar> \<le> 2"
  using assms by (auto simp: sim_step_premium_def Let_def clamp_def)

lemma round2_sub_quarter: "py_round 2 (py_round 2 x - 1/4) = py_round 2 x - 1/4"
proof -
  have "(py_round 2 x - 1/4) * 10^2 = of_int (round_half_even (x * 100) - 25)" by (simp add: py_round_def field_simps)
  then have "py_round 2 (py_round 2 x - 1/4) = of_int (round_half_even (x * 100) - 25) / 10^2"
    by (simp only: py_round_def[of 2 "py_round 2 x - 1/4"] round_half_even_of_int)
  then show ?thesis by (simp add: py_round_def field_simps)
qed

lemma round2_add_quarter: "py_round 2 (py_round 2 x + 1/4) = py_round 2 x + 1/4"
proof -
  have "(py_round 2 x + 1/4) * 10^2 = of_int (round_half_even (x * 100) + 25)" by (simp add: py_round_def field_simps)
  then have "py_round 2 (py_round 2 x + 1/4) = of_int (round_half_even (x * 100) + 25) / 10^2"
    by (simp only: py_round_def[of 2 "py_round 2 x + 1/4"] round_half_even_of_int)
  then show ?thesis by (simp add: py_round_def field_simps)
qed

definition sim_volume :: "sim_draw \<Rightarrow> sim_state \<Rightarrow> int" where
  "sim_volume d s = py_int (400000 + \<bar>sd_sin_wave d * sm_amplitude s\<bar> / sm_amplitude s * 200000 + sd_volume d)"

lemma simulated_tick_fields:
  assumes "simulated_tick cfg now d s br = (t, s1, b)"
  shows "tick_symbol t = br_symbol br" "data_source t = ''SIMULATION''" "original_timestamp t = None"
    "tick_timestamp t = current_time_ms now" "spot_price t = snd (sim_spot d s)" "tick_volume t = Some (sim_volume d s)"
    "bid t = ltp t - 1/4" "ask t = ltp t + 1/4" "40 \<le> ltp t" "ltp t \<le> 300"
proof -
  obtain s0 spot where sp: "sim_spot d s = (s0, spot)" by fastforce
  obtain target where p: "ltp t = py_round 2 (sim_step_premium (get_or 125 (sm_premium s)) target)"
    and q: "bid t = py_round 2 (ltp t - 1/4)" "ask t = py_round 2 (ltp t + 1/4)"
    using assms by (auto simp: simulated_tick_def sp Let_def)
  let ?x = "sim_step_premium (get_or 125 (sm_premium s)) target"
  show "tick_symbol t = br_symbol br" "data_source t = ''SIMULATION''" "original_timestamp t = None"
    "tick_timestamp t = current_time_ms now" "spot_price t = snd (sim_spot d s)" "tick_volume t = Some (sim_volume d s)"
    using assms by (auto simp: simulated_tick_def sp Let_def sim_volume_def)
  show "bid t = ltp t - 1/4" "ask t = ltp t + 1/4" by (simp_all only: q p round2_sub_quarter round2_add_quarter)
  have "py_round 2 40 = 40" "py_round 2 300 = 300"
    using round_half_even_of_int[of 4000] round_half_even_of_int[of 30000] by (simp_all add: py_round_def)
  then show "40 \<le> ltp t" "ltp t \<le> 300"
    using py_round_mono[OF sim_step_range(1), of 2] py_round_mono[OF sim_step_range(2), of 2] by (simp_all add: p)
qed

lemma sim_volume_pos: "0 \<le> sm_amplitude s \<Longrightarrow> - 50000 \<le> sd_volume d \<Longrightarrow> 0 < sim_volume d s"
proof -
  assume a: "0 \<le> sm_amplitude s" "- 50000 \<le> sd_volume d"
  then have "0 \<le> \<bar>sd_sin_wave d * sm_amplitude s\<bar> / sm_amplitude s * 200000" by simp
  with a(2) have "1 \<le> 400000 + \<bar>sd_sin_wave d * sm_amplitude s\<bar> / sm_amplitude s * 200000 + sd_volume d"
    by linarith
  then show ?thesis unfolding sim_volume_def py_int_def by (auto simp: le_floor_iff)
qed

lemma simulated_tick_valid:
  assumes "simulated_tick cfg now d s br = (t, s1, b)" "0 \<le> sm_amplitude s" "- 50000 \<le> sd_volume d"
    and "15000 \<le> snd (sim_spot d s)" "snd (sim_spot d s) \<le> 35000"
  shows "hygiene_check default_hygiene now (Some (as_tick t)) = Inr None"
proof -
  note f = simulated_tick_fields[OF assms(1)]
  have v: "sim_volume d s \<noteq> 0" using sim_volume_pos[OF assms(2,3)] by simp
  have limit: "stale_threshold_ms default_hygiene x \<ge> 2000" for x
    by (simp add: stale_threshold_ms_def default_hygiene_def)
  have "(ltp t + 1/4 - (ltp t - 1/4)) / (ltp t + 1/4) * 100 \<le> 5/2" using f(9) by (simp add: field_simps)
  then show ?thesis
    unfolding hygiene_ok using f assms(4,5) v limit[of "normal_source ''SIMULATION''"]
    by (simp add: tick_age_ms_def too_little_volume_def, simp add: default_hygiene_def)
qed

text \<open>What the REST path does while the stream is down.\<close>

lemma follow_spot_frame:
  assumes "\<not> br_ws_connected br"
  shows "br_client (follow_spot cfg now e br) = br_client br"
    "br_cached_option_tick (follow_spot cfg now e br) = br_cached_option_tick br"
    "br_network_until (follow_spot cfg now e br) = br_network_until br"
    "br_ws_connected (follow_spot cfg now e br) = br_ws_connected br"
  using assms
  by (auto simp: follow_spot_def follow_subscription_def switch_contract_def Let_def split: ltp_reply.splits)

definition rest_fails :: "rest_reply \<Rightarrow> bool" where
  "rest_fails r \<longleftrightarrow> (\<forall>p. r \<noteq> RestPrice p)"

lemma fetch_fails:
  assumes "rest_fails r" "br_network_until br = None"
  shows "fst (fetch_option_tick_rest cfg now r br) = None"
    "br_cached_option_tick (snd (fetch_option_tick_rest cfg now r br)) = br_cached_option_tick br"
  using assms by (auto simp: rest_fails_def fetch_option_tick_rest_def request_rest_tick_def Let_def split: rest_reply.splits)

lemma get_rest_tick_fails:
  assumes "\<not> br_ws_connected br" "rest_fails (fe_option e)" "br_network_until br = None"
  shows "fst (get_rest_tick cfg now e br) =
           (if br_client br = None then None
            else map_option (\<lambda>c. c\<lparr>spot_price := br_spot_price (snd (get_rest_tick cfg now e br)),
                                    tick_timestamp := current_time_ms now,
                                    original_timestamp := Some (current_time_ms now)\<rparr>) (br_cached_option_tick br))"
proof -
  note f = follow_spot_frame[OF assms(1), of cfg now e]
  note r = fetch_fails[OF assms(2), of "follow_spot cfg now e br" cfg now, unfolded f, OF assms(3)]
  show ?thesis
    using r f by (auto simp: get_rest_tick_def Let_def split: prod.splits option.splits if_splits)
qed

text \<open>A live feed that dries up is replaced by invented prices, and they pass. With live data configured, the stream
  down, REST giving no price and nothing cached - even in live trading - \<open>get_tick\<close> returns the simulator's random
  premium under the real contract's symbol, and the data-hygiene check accepts it.\<close>

theorem simulator_fabricates_live_ticks:
  assumes "fc_use_live_data cfg" "\<not> br_ws_connected br" "br_cached_option_tick br = None"
    and "rest_fails (fe_option e)" "br_network_until br = None"
    and "0 \<le> sm_amplitude s" "- 50000 \<le> sd_volume d"
    and "15000 \<le> snd (sim_spot d s)" "snd (sim_spot d s) \<le> 35000"
  shows "\<exists>t s1 b. get_tick_uncached cfg now e d s br = (Some t, s1, b)
           \<and> data_source t = ''SIMULATION'' \<and> tick_symbol t = br_symbol b \<and> 40 \<le> ltp t \<and> ltp t \<le> 300
           \<and> fst (is_data_valid default_hygiene now (Some (as_tick t)) st) = Inr None"
proof -
  obtain b0 where g: "get_rest_tick cfg now e br = (None, b0)"
    using get_rest_tick_fails[OF assms(2,4,5), of cfg now] assms(3)
    by (cases "get_rest_tick cfg now e br") (auto split: if_splits)
  obtain t s1 b where sim: "simulated_tick cfg now d s b0 = (t, s1, b)" by (metis prod_cases3)
  then have "br_symbol b = br_symbol b0" by (auto simp: simulated_tick_def Let_def split: prod.splits)
  with simulated_tick_fields[OF sim] simulated_tick_valid[OF sim assms(6-9)] show ?thesis
    using assms(1,2) by (simp add: get_tick_uncached_def g sim is_data_valid_def)
qed

definition live_config :: feed_config where
  "live_config = default_feed_config\<lparr>fc_use_live_data := True, fc_paper_trading := False\<rparr>"

definition dead_feed :: broker where
  "dead_feed = new_broker\<lparr>br_symbol := ''NIFTY30DEC2525200CE'', br_client := Some new_ws_client,
     br_last_spot_fetch := seconds 100\<rparr>"

definition silent_env :: feed_env where
  "silent_env = \<lparr>fe_spot = LtpNone, fe_view = sample_view, fe_attempts = [], fe_unsubscribe = [], fe_option = RestNothing\<rparr>"

definition flat_draw :: sim_draw where
  "flat_draw = \<lparr>sd_spot = LtpNone, sd_spot_due = False, sd_sin_wave = 0, sd_sin_trend = 0, sd_walk = 0, sd_jitter = 0,
     sd_flip = False, sd_noise = 0, sd_volume = 0\<rparr>"

definition flat_sim :: sim_state where
  "flat_sim = \<lparr>sm_premium = None, sm_base_price = 25200, sm_amplitude = 20, sm_random_walk = 0, sm_trend = 1,
     sm_strike_known = False\<rparr>"

lemma flat_spot: "snd (sim_spot flat_draw flat_sim) = 25200"
  by (simp add: sim_spot_def flat_draw_def flat_sim_def clamp_def py_round_def
      round_half_even_of_int[of 2520000, simplified])

lemma example_simps:
  "fc_use_live_data live_config" "\<not> br_ws_connected dead_feed" "br_cached_option_tick dead_feed = None"
  "br_network_until dead_feed = None" "rest_fails (fe_option silent_env)" "0 \<le> sm_amplitude flat_sim"
  "- 50000 \<le> sd_volume flat_draw" "15000 \<le> snd (sim_spot flat_draw flat_sim)"
  "snd (sim_spot flat_draw flat_sim) \<le> 35000"
  by (simp_all add: live_config_def dead_feed_def new_broker_def silent_env_def rest_fails_def flat_spot,
      simp_all add: flat_sim_def flat_draw_def)

theorem simulator_fabricates_live_ticks_witness:
  "\<exists>t s1 b. get_tick_uncached live_config (seconds 101) silent_env flat_draw flat_sim dead_feed = (Some t, s1, b)
      \<and> data_source t = ''SIMULATION''"
  using simulator_fabricates_live_ticks[OF example_simps(1-3,5,4,6-9)] by blast

lemma not_stale:
  "tick_age_ms now t \<le> stale_threshold_ms hc (normal_source (data_source t)) \<Longrightarrow>
     hygiene_check hc now (Some t) \<noteq> Inr (Some (StaleTick age))"
  by (auto simp: hygiene_check_def spread_pct_def)

text \<open>A frozen REST price never looks old. While the stream is down and REST fails without tripping its breaker, every
  read hands out the cached price stamped as captured now: its age is zero at any later time, so the staleness check
  cannot reject it however long the price has stood still.\<close>

theorem frozen_rest_price_always_fresh:
  assumes "fc_use_live_data cfg" "\<not> br_ws_connected br" "br_client br \<noteq> None" "br_cached_option_tick br = Some c"
    and "rest_fails (fe_option e)" "br_network_until br = None" "0 \<le> stale_threshold_ms hc ''REST''"
  shows "\<exists>t b. get_tick_uncached cfg now e d s br = (Some t, s, b)
           \<and> ltp t = ltp c \<and> bid t = bid c \<and> ask t = ask c \<and> tick_age_ms now (as_tick t) = 0
           \<and> (\<forall>age. fst (is_data_valid hc now (Some (as_tick t)) st) \<noteq> Inr (Some (StaleTick age)))"
proof -
  obtain sp b where g: "get_rest_tick cfg now e br = (Some (c\<lparr>spot_price := sp, tick_timestamp := current_time_ms now,
      original_timestamp := Some (current_time_ms now)\<rparr>), b)"
    using get_rest_tick_fails[OF assms(2,5,6), of cfg now] assms(3,4) by (metis option.simps(9) prod.collapse)
  let ?t = "tagged ''REST'' (c\<lparr>spot_price := sp, tick_timestamp := current_time_ms now,
      original_timestamp := Some (current_time_ms now)\<rparr>)"
  have "normal_source ''REST'' = ''REST''" by code_simp
  then have "fst (is_data_valid hc now (Some (as_tick ?t)) st) \<noteq> Inr (Some (StaleTick age))" for age
    using not_stale[of now "as_tick ?t" hc age] assms(7)
    by (simp add: is_data_valid_def Let_def tick_age_ms_def tagged_def)
  moreover have "get_tick_uncached cfg now e d s br = (Some ?t, s, b)"
    using assms(1,2) by (simp add: get_tick_uncached_def g)
  moreover have "tick_age_ms now (as_tick ?t) = 0" by (simp add: tick_age_ms_def tagged_def)
  ultimately show ?thesis by (intro exI[of _ ?t] exI[of _ b]) (simp add: tagged_def)
qed

definition old_rest_tick :: feed_tick where
  "old_rest_tick = rest_tick live_config (seconds 10) 100 dead_feed"

definition frozen_feed :: broker where
  "frozen_feed = dead_feed\<lparr>br_cached_option_tick := Some old_rest_tick\<rparr>"

definition quiet_feed :: broker where
  "quiet_feed = dead_feed\<lparr>br_ws_connected := True, br_last_tick := Some old_rest_tick,
     br_original_tick_time := Some (seconds 10)\<rparr>"

lemma limits:
  "stale_threshold_ms default_hygiene ''REST'' = 5000" "stale_threshold_ms default_hygiene ''WEBSOCKET'' = 10000"
  by code_simp+

lemma feed_examples:
  "\<not> br_ws_connected frozen_feed" "br_client frozen_feed \<noteq> None"
  "br_cached_option_tick frozen_feed = Some old_rest_tick" "br_network_until frozen_feed = None"
  "br_ws_connected quiet_feed" "br_last_tick quiet_feed = Some old_rest_tick"
  "original_timestamp old_rest_tick = Some 10000" "br_original_tick_time quiet_feed = Some (seconds 10)"
  "seconds 10 \<noteq> 0" "tick_symbol old_rest_tick = br_symbol quiet_feed"
  by (simp_all add: frozen_feed_def quiet_feed_def dead_feed_def new_broker_def old_rest_tick_def rest_tick_def
      current_time_ms_def seconds_def)

theorem frozen_rest_price_always_fresh_witness:
  "\<exists>t b. get_tick_uncached live_config (seconds 36000) silent_env flat_draw flat_sim frozen_feed = (Some t, flat_sim, b)
        \<and> tick_age_ms (seconds 36000) (as_tick t) = 0"
  using frozen_rest_price_always_fresh[OF example_simps(1) feed_examples(1-3) example_simps(5) feed_examples(4),
      where hc = default_hygiene and now = "seconds 36000" and d = flat_draw and s = flat_sim] by (simp add: limits) blast

text \<open>A quiet stream is discarded, the refresh notwithstanding. Between the staleness limit (10 s) and the minute after
  which REST is asked, the cached WebSocket tick is served with a refreshed \<open>timestamp\<close> "to prevent stale tick
  rejection", but the hygiene check reads \<open>original_timestamp\<close>: the tick is never accepted.\<close>

theorem quiet_stream_rejected:
  assumes "fc_use_live_data cfg" "br_ws_connected br" "br_last_tick br = Some t" "original_timestamp t = Some ms"
    and "br_original_tick_time br = Some arrived" "arrived \<noteq> 0" "now - arrived \<le> seconds 60"
    and "tick_symbol t = br_symbol br" "stale_threshold_ms hc ''WEBSOCKET'' < current_time_ms now - ms"
  shows "\<exists>x b. get_tick_uncached cfg now e d s br = (Some x, s, b) \<and> calc_latency_ms now (as_tick x) = 0
           \<and> fst (is_data_valid hc now (Some (as_tick x)) st) \<noteq> Inr None"
proof -
  let ?x = "tagged ''WEBSOCKET'' (stamped now t)"
  have "get_tick_uncached cfg now e d s br = (Some ?x, s, br\<lparr>br_last_valid_tick_time := Some now\<rparr>)"
    using assms(1-3,5-8) by (simp add: get_tick_uncached_def refresh_due_def quiet_age_def serve_ws_tick_def)
  moreover have "normal_source ''WEBSOCKET'' = ''WEBSOCKET''" by code_simp
  then have "hygiene_check hc now (Some (as_tick ?x)) \<noteq> Inr None"
    using assms(4,9) unfolding hygiene_ok by (simp add: tick_age_ms_def tagged_def stamped_def)
  ultimately show ?thesis
    by (auto simp: is_data_valid_def Let_def calc_latency_ms_def tagged_def stamped_def)
qed

theorem quiet_stream_rejected_witness:
  "\<exists>x b. get_tick_uncached live_config (seconds 21) silent_env flat_draw flat_sim quiet_feed = (Some x, flat_sim, b)
      \<and> fst (is_data_valid default_hygiene (seconds 21) (Some (as_tick x)) reset_validation_stats) \<noteq> Inr None"
  using quiet_stream_rejected[OF example_simps(1) feed_examples(5-9),
      where hc = default_hygiene and now = "seconds 21" and d = flat_draw and s = flat_sim and e = silent_env
        and st = reset_validation_stats] by (auto simp: limits feed_examples current_time_ms_def seconds_def)

section \<open>A strike change\<close>

text \<open>The REST cache survives a strike change. When the spot moved on by fifty points while the stream is down,
  \<open>_get_rest_tick\<close> switches to the new contract but keeps the cached tick of the old one: if the new contract
  cannot be fetched, it serves the old contract's price and symbol, freshly stamped and with the new spot.\<close>

theorem rest_cache_survives_strike_change:
  assumes "\<not> br_ws_connected br" "br_client br \<noteq> None" "br_cached_option_tick br = Some c" "br_network_until br = None"
    and "seconds 30 < now - br_last_spot_fetch br" "fe_spot e = Ltp spot" "10000 < spot"
    and "50 \<le> \<bar>spot - of_int (br_strike br)\<bar>" "rest_fails (fe_option e)"
  shows "\<exists>t b. get_rest_tick cfg now e br = (Some t, b) \<and> ltp t = ltp c \<and> tick_symbol t = tick_symbol c
           \<and> original_timestamp t = Some (current_time_ms now) \<and> spot_price t = spot \<and> br_strike b = atm_strike spot
           \<and> br_symbol b = build_option_symbol (mv_expiry (fe_view e)) (atm_strike spot) (fc_option_type cfg)"
proof -
  let ?b = "switch_contract (fe_view e) (atm_strike spot) (fc_option_type cfg)
              (br\<lparr>br_spot_price := spot, br_last_spot_fetch := now\<rparr>)"
  have f: "follow_spot cfg now e br = ?b"
    using assms(1,5-8) by (simp add: follow_spot_def follow_subscription_def Let_def switch_contract_def)
  have b: "br_client ?b \<noteq> None" "br_cached_option_tick ?b = Some c" "br_network_until ?b = None" "br_spot_price ?b = spot"
    "br_strike ?b = atm_strike spot"
    "br_symbol ?b = build_option_symbol (mv_expiry (fe_view e)) (atm_strike spot) (fc_option_type cfg)"
    using assms(2-4) by (simp_all add: switch_contract_def Let_def)
  have frame: "br_spot_price (snd (fetch_option_tick_rest cfg now r x)) = br_spot_price x
      \<and> br_strike (snd (fetch_option_tick_rest cfg now r x)) = br_strike x
      \<and> br_symbol (snd (fetch_option_tick_rest cfg now r x)) = br_symbol x" for r x
    by (simp add: fetch_option_tick_rest_def request_rest_tick_def Let_def split: rest_reply.split option.split)
  show ?thesis
    using fetch_fails[OF assms(9) b(3), of cfg now] frame[of "fe_option e" ?b] assms(2) b
    unfolding get_rest_tick_def Let_def f by (auto split: prod.split)
qed

definition moved_env :: feed_env where
  "moved_env = silent_env\<lparr>fe_spot := Ltp 25300\<rparr>"

theorem rest_cache_survives_strike_change_witness:
  "\<exists>t b. get_rest_tick live_config (seconds 200) moved_env (frozen_feed\<lparr>br_strike := 25200\<rparr>) = (Some t, b)
        \<and> tick_symbol t = ''NIFTY30DEC2525200CE'' \<and> br_strike b = 25300"
proof -
  let ?b = "frozen_feed\<lparr>br_strike := 25200\<rparr>"
  have a: "\<not> br_ws_connected ?b" "br_client ?b \<noteq> None" "br_cached_option_tick ?b = Some old_rest_tick"
    "br_network_until ?b = None" by (simp_all add: feed_examples)
  have m: "fe_spot moved_env = Ltp 25300" "rest_fails (fe_option moved_env)" "br_last_spot_fetch ?b = seconds 100"
    by (simp_all add: moved_env_def silent_env_def rest_fails_def frozen_feed_def dead_feed_def)
  have k: "atm_strike 25300 = 25300" using round_half_even_of_int[of 506] by (simp add: atm_strike_def)
  have "tick_symbol old_rest_tick = ''NIFTY30DEC2525200CE''"
    by (simp add: old_rest_tick_def rest_tick_def dead_feed_def)
  with rest_cache_survives_strike_change[OF a _ m(1) _ _ m(2), of "seconds 200" live_config] m(3) k
  show ?thesis by (auto simp: seconds_def)
qed

section \<open>Before an order\<close>

lemma wait_symbol_tick_seen: "wait_symbol_tick up symbol token ls \<Longrightarrow> \<exists>l\<in>set ls. matches_symbol symbol token (lk_tick l)"
  by (induction ls) (auto split: if_splits)

text \<open>No order is priced on another contract's stream. With the stream up, \<open>_ensure_symbol_sync_before_order\<close> lets
  an order through only after a tick with the order's own symbol, its token and a positive price was seen, before or
  after the forced re-subscription.\<close>

theorem order_waits_for_own_contract:
  assumes "fst (ensure_symbol_sync cfg now symbol token before es after br)"
    and "fc_use_live_data cfg" "fc_enable_websocket cfg" "br_ws_connected br" "br_client br \<noteq> None" "token \<noteq> ''''"
  shows "\<exists>l\<in>set (before @ after). matches_symbol symbol token (lk_tick l)"
  using assms wait_symbol_tick_seen by (fastforce simp: ensure_symbol_sync_def split: if_splits prod.splits)

definition own_look :: look where
  "own_look = \<lparr>lk_tick = Some (old_rest_tick\<lparr>ft_token := ''41001''\<rparr>), lk_dropped = False\<rparr>"

theorem order_waits_for_own_contract_witness:
  "\<exists>l\<in>set ([own_look] @ []). matches_symbol ''NIFTY30DEC2525200CE'' ''41001'' (lk_tick l)"
proof (rule order_waits_for_own_contract)
  have "matches_symbol ''NIFTY30DEC2525200CE'' ''41001'' (lk_tick own_look)"
    by (simp add: matches_symbol_def own_look_def old_rest_tick_def rest_tick_def dead_feed_def)
  then show "fst (ensure_symbol_sync live_config 0 ''NIFTY30DEC2525200CE'' ''41001'' [own_look] [] [] quiet_feed)"
    by (simp add: ensure_symbol_sync_def)
qed (simp_all add: live_config_def default_feed_config_def quiet_feed_def dead_feed_def)

text \<open>A match is all it asks for: the age of the tick plays no part.\<close>

lemma order_sync_ignores_age:
  assumes "tick_symbol t = symbol" "ft_token t = token" "0 < ltp t"
  shows "ensure_symbol_sync cfg now symbol token (\<lparr>lk_tick = Some t, lk_dropped = d\<rparr> # ls) es after br = (True, br)"
  using assms by (simp add: ensure_symbol_sync_def matches_symbol_def)

section \<open>Smoothing\<close>

lemma smoothing_weights_pos:
  assumes "ts \<noteq> []" shows "0 < sum_list (smoothing_weights ts)"
  using assms by (auto simp: smoothing_weights_def Let_def sum_list_triv not_le)

end
