(* ===== verification/Feed_Outage.thy ===== *)
theory Feed_Outage
  imports Main_Loop Feed_Quality
begin

text \<open>
  The outage pass of the trading loop put together with the feed it reads: what \<open>core/main.py\<close> does with an open
  position when \<open>broker.get_tick\<close> returns nothing, the tick the emergency exit asks for being a second call of
  \<open>get_tick\<close> on the broker the first call left behind (\<open>order_execution.py\<close>, \<open>exit_position\<close> without a tick).
  The two calls run one after the other; no reconnect worker completes in between.
\<close>

section \<open>The failed refresh\<close>

text \<open>A refresh that fails leaves a feed without stream, without cached tick and with the REST breaker closed.\<close>

lemma fetch_fails_broker:
  assumes "rest_fails r" "br_network_until br = None" "br_network_errors br < 9"
  shows "br_network_until (snd (fetch_option_tick_rest cfg now r br)) = None"
  using assms
  by (auto simp: rest_fails_def fetch_option_tick_rest_def request_rest_tick_def Let_def split: rest_reply.splits)

lemma refresh_disconnect:
  "\<not> br_ws_connected (on_ws_disconnect cfg now ''WS stale and REST refresh failed'' br) \<or> br_shutdown br"
  "br_network_until (on_ws_disconnect cfg now why br) = br_network_until br"
  "br_cached_option_tick (on_ws_disconnect cfg now why br) = br_cached_option_tick br"
  "br_last_tick (on_ws_disconnect cfg now why br) = br_last_tick br"
  by (auto simp: on_ws_disconnect_def trigger_reconnect_def Let_def)

lemma fetch_keeps_tick:
  assumes "rest_fails r" "br_network_until br = None"
  shows "br_last_tick (snd (fetch_option_tick_rest cfg now r br)) = br_last_tick br"
    "br_shutdown (snd (fetch_option_tick_rest cfg now r br)) = br_shutdown br"
  using assms by (auto simp: rest_fails_def fetch_option_tick_rest_def request_rest_tick_def Let_def split: rest_reply.splits)

lemma failed_refresh:
  assumes "rest_fails reply" "br_network_until br = None" "br_network_errors br < 9" "rest_refresh cfg now reply br = (r, b)"
  shows "r = None" "br_network_until b = None" "br_cached_option_tick b = None" "br_last_tick b = None"
    "\<not> br_shutdown br \<Longrightarrow> \<not> br_ws_connected b"
proof -
  let ?c = "clear_rest_cache br"
  have c: "br_network_until ?c = None" "br_network_errors ?c < 9" "br_cached_option_tick ?c = None" "br_last_tick ?c = None"
    "br_shutdown ?c = br_shutdown br" using assms(2,3) by (simp_all add: clear_rest_cache_def)
  note f = fetch_fails[OF assms(1) c(1), of cfg now] fetch_fails_broker[OF assms(1) c(1,2), of cfg now]
    fetch_keeps_tick[OF assms(1) c(1), of cfg now]
  let ?d = "snd (fetch_option_tick_rest cfg now reply ?c)"
  have rb: "r = None" "b = on_ws_disconnect cfg now ''WS stale and REST refresh failed'' ?d"
    using assms(4) f(1) by (auto simp: rest_refresh_def split: prod.splits option.splits)
  show "r = None" by (rule rb)
  show "br_network_until b = None" "br_cached_option_tick b = None" "br_last_tick b = None"
    unfolding rb(2) refresh_disconnect using f c by simp_all
  show "\<not> br_ws_connected b" if "\<not> br_shutdown br"
    unfolding rb(2) using refresh_disconnect(1)[of cfg now ?d] f(5) c(5) that by simp
qed

text \<open>The next call finds nothing to serve but the simulator.\<close>

lemma next_tick_simulated:
  assumes "\<not> br_ws_connected b" "br_network_until b = None" "br_cached_option_tick b = None" "rest_fails (fe_option e)"
    and "get_tick_uncached cfg now e d s b = (r, s2, b2)"
  shows "\<exists>x. r = Some x \<and> data_source x = ''SIMULATION'' \<and> bid x = ltp x - 1/4 \<and> ask x = ltp x + 1/4
     \<and> 40 \<le> ltp x \<and> ltp x \<le> 300"
proof -
  obtain b0 where g: "(if fc_use_live_data cfg then get_rest_tick cfg now e b else (None, b)) = (None, b0)"
    using get_rest_tick_fails[OF assms(1,4,2), of cfg now] assms(3)
    by (cases "fc_use_live_data cfg"; cases "get_rest_tick cfg now e b") (auto split: if_splits)
  obtain t s1 b1 where sim: "simulated_tick cfg now d s b0 = (t, s1, b1)" by (metis prod_cases3)
  have "r = Some t" using assms(1,5) by (simp add: get_tick_uncached_def g sim)
  then show ?thesis using simulated_tick_fields[OF sim] by simp
qed

section \<open>What becomes of the position\<close>

lemma outage_pass_closes:
  assumes "mc_paper (lc_machine cfg)" "total_capital (mc_risk (lc_machine cfg)) \<noteq> 0"
    and "held m = Some t" "network_sleep_count m = 0" "li_retry_tick inp = Some tk"
  shows "\<exists>m' res. outage_pass cfg inp m = ((Inr (), m'), [])
     \<and> exit_position (mc_order (lc_machine cfg)) (li_gateway inp) False (li_token_known inp) (li_now inp)
         (total_capital (mc_risk (lc_machine cfg))) (Some tk) t = (Inr res, [])
     \<and> held m' = None \<and> machine (b_state (ms_bot m')) = COOLDOWN
     \<and> daily_pnl_inr (b_state (ms_bot m')) = daily_pnl_inr (b_state (ms_bot m)) + er_pnl_inr res"
proof -
  have h: "current_trade (b_state (ms_bot m)) = Some t" using assms(3) by simp
  obtain b' res where c: "close_current_trade (lc_machine cfg) (li_gateway inp) (li_token_known inp) (li_now inp) (Some tk) (ms_bot m)
      = ((Inr True, b'), [])"
    and x: "exit_position (mc_order (lc_machine cfg)) (li_gateway inp) False (li_token_known inp) (li_now inp)
         (total_capital (mc_risk (lc_machine cfg))) (Some tk) t = (Inr res, [])"
    "current_trade (b_state b') = None"
    "daily_pnl_inr (b_state b') = daily_pnl_inr (b_state (ms_bot m)) + er_pnl_inr res"
    using paper_close[OF assms(1,2) h] by blast
  let ?m2 = "m\<lparr>network_sleep_count := 1, network_backoff := 5\<rparr>"
  have "outage_pass cfg inp m = ((Inr (), outage_backoff (li_internet_ok inp) (?m2\<lparr>ms_bot := set_machine COOLDOWN b'\<rparr>)), [])"
    using assms(3-5) c by (simp add: outage_pass_def closing_def Let_def)
  then show ?thesis
    using x by (intro exI conjI) (assumption | simp add: outage_backoff_def set_machine_def Let_def)+
qed

lemma paper_exit_result:
  assumes "exit_position cfg gw False token now capital (Some k) t = (Inr res, tr)"
  shows "er_pnl_inr res = tick_pnl cfg t (if trade_side t = BUY then bid k else ask k)"
  using assms by (auto simp: exit_position_def Let_def split: if_splits)

lemma pass_start_frame:
  "held (pass_start inp m) = held m" "network_sleep_count (pass_start inp m) = network_sleep_count m"
  "daily_pnl_inr (b_state (ms_bot (pass_start inp m))) = daily_pnl_inr (b_state (ms_bot m))"
  by (simp_all add: pass_start_def hourly_reset_def Let_def)

text \<open>C14: A feed that fails in the middle of a trade sells the position to the simulator. When the stream has been quiet for
  over a minute and the REST refresh gives no price, \<open>get_tick\<close> returns nothing, so the loop exits the open paper trade for
  a network failure - with a tick of its own, and that second call, the refresh having cleared every cache and marked the
  stream as down, is answered by the simulator. The pass closes the trade, books on the day the result at the invented price
  (a quarter point off a random premium between 40 and 300, whatever the contract is worth) and goes to COOLDOWN.\<close>

theorem failed_refresh_exits_at_simulated_price:
  assumes "mc_paper (lc_machine cfg)" "total_capital (mc_risk (lc_machine cfg)) \<noteq> 0"
    and "running m" "current_trade (b_state (ms_bot m)) = Some t" "network_sleep_count m = 0"
    and "fc_use_live_data fc" "br_ws_connected br" "\<not> br_shutdown br" "br_last_tick br = Some w" "refresh_due now1 br"
    and "rest_fails (fe_option e1)" "rest_fails (fe_option e2)" "br_network_until br = None" "br_network_errors br < 9"
    and "get_tick fc now1 e1 d1 w1 s br l = (r1, s1, br1, l1)" "get_tick fc now2 e2 d2 w2 s1 br1 l1 = (r2, s2, br2, l2)"
    and "li_tick inp = map_option as_tick r1" "li_retry_tick inp = map_option as_tick r2"
  shows "r1 = None \<and> (\<exists>x m'. r2 = Some x \<and> data_source x = ''SIMULATION'' \<and> 40 \<le> ltp x \<and> ltp x \<le> 300
       \<and> main_step_calls cfg validate m (Pass inp) = (m', [])
       \<and> current_trade (b_state (ms_bot m')) = None \<and> machine (b_state (ms_bot m')) = COOLDOWN
       \<and> daily_pnl_inr (b_state (ms_bot m')) = daily_pnl_inr (b_state (ms_bot m))
            + tick_pnl (mc_order (lc_machine cfg)) t (if trade_side t = BUY then ltp x - 1/4 else ltp x + 1/4))"
proof -
  have "get_tick_uncached fc now1 e1 d1 s br = (r1, s1, br1)" using assms(15) by (auto simp: get_tick_def split: prod.splits)
  then have "rest_refresh fc now1 (fe_option e1) br = (r1, br1)"
    using assms(6,7,9,10) by (auto simp: get_tick_uncached_def split: prod.splits)
  note b = failed_refresh[OF assms(11,13,14) this]
  have "get_tick_uncached fc now2 e2 d2 s1 br1 = (r2, s2, br2)" using assms(16) by (auto simp: get_tick_def split: prod.splits)
  from next_tick_simulated[OF b(5)[OF assms(8)] b(2,3) assms(12) this]
  obtain x where x: "r2 = Some x" "data_source x = ''SIMULATION''" "bid x = ltp x - 1/4" "ask x = ltp x + 1/4"
    "40 \<le> ltp x" "ltp x \<le> 300" by blast
  have i: "li_tick inp = None" "li_retry_tick inp = Some (as_tick x)" using assms(17,18) b(1) x(1) by simp_all
  have h: "held (pass_start inp m) = Some t" "network_sleep_count (pass_start inp m) = 0"
    using assms(4,5) by (simp_all add: pass_start_frame)
  obtain m' res where m': "outage_pass cfg inp (pass_start inp m) = ((Inr (), m'), [])"
    "exit_position (mc_order (lc_machine cfg)) (li_gateway inp) False (li_token_known inp) (li_now inp)
         (total_capital (mc_risk (lc_machine cfg))) (Some (as_tick x)) t = (Inr res, [])"
    "held m' = None" "machine (b_state (ms_bot m')) = COOLDOWN"
    "daily_pnl_inr (b_state (ms_bot m')) = daily_pnl_inr (b_state (ms_bot m)) + er_pnl_inr res"
    using outage_pass_closes[OF assms(1,2) h i(2)] pass_start_frame(3) by metis
  have "main_step_calls cfg validate m (Pass inp) = (m', [])"
    using assms(3) i(1) m'(1) by (simp add: main_step_calls_def loop_pass_def)
  then show ?thesis using b(1) x m'(3-5) paper_exit_result[OF m'(2)] by simp
qed

text \<open>A quiet feed with a trade open.\<close>

definition outage_feed :: broker where
  "outage_feed = dead_feed\<lparr>br_ws_connected := True, br_last_tick := Some old_rest_tick, br_original_tick_time := Some (seconds 10)\<rparr>"

definition trading_main :: main_state where
  "trading_main = (initial_main default_loop_config 0)\<lparr>ms_bot := (ms_bot (initial_main default_loop_config 0))
     \<lparr>b_state := initial_trading_state\<lparr>current_trade := Some long_call, machine := IN_TRADE\<rparr>\<rparr>\<rparr>"

theorem failed_refresh_exits_at_simulated_price_witness:
  "\<exists>x m' inp. fst (get_tick live_config (seconds 36000) silent_env flat_draw True flat_sim outage_feed \<lparr>tl_last = None, tl_rows = []\<rparr>) = None
     \<and> li_tick inp = None \<and> li_retry_tick inp = Some (as_tick x) \<and> data_source x = ''SIMULATION''
     \<and> main_step_calls default_loop_config (\<lambda>_. None) trading_main (Pass inp) = (m', [])
     \<and> current_trade (b_state (ms_bot m')) = None \<and> machine (b_state (ms_bot m')) = COOLDOWN"
proof -
  let ?l = "\<lparr>tl_last = None, tl_rows = []\<rparr>"
  obtain r1 s1 br1 l1 where 1: "get_tick live_config (seconds 36000) silent_env flat_draw True flat_sim outage_feed ?l
      = (r1, s1, br1, l1)" by (metis prod_cases4)
  obtain r2 s2 br2 l2 where 2: "get_tick live_config (seconds 36001) silent_env flat_draw True s1 br1 l1 = (r2, s2, br2, l2)"
    by (metis prod_cases4)
  let ?inp = "entry_input\<lparr>li_tick := map_option as_tick r1, li_retry_tick := map_option as_tick r2\<rparr>"
  have p: "mc_paper (lc_machine default_loop_config)" "total_capital (mc_risk (lc_machine default_loop_config)) \<noteq> 0"
    by (simp_all add: default_loop_config_def default_machine_config_def default_risk_config_def)
  have m: "running trading_main" "current_trade (b_state (ms_bot trading_main)) = Some long_call"
    "network_sleep_count trading_main = 0" by (simp_all add: trading_main_def initial_main_def)
  have f: "br_ws_connected outage_feed" "\<not> br_shutdown outage_feed" "br_last_tick outage_feed = Some old_rest_tick"
    "refresh_due (seconds 36000) outage_feed" "br_network_until outage_feed = None" "br_network_errors outage_feed < 9"
    by (simp_all add: outage_feed_def dead_feed_def new_broker_def refresh_due_def quiet_age_def seconds_def)
  note t = failed_refresh_exits_at_simulated_price[OF p m example_simps(1) f(1-4) example_simps(5,5) f(5,6) 1 2,
      of ?inp "\<lambda>_. None"]
  then obtain x m' where "r1 = None" "r2 = Some x" "data_source x = ''SIMULATION''"
    "main_step_calls default_loop_config (\<lambda>_. None) trading_main (Pass ?inp) = (m', [])"
    "current_trade (b_state (ms_bot m')) = None" "machine (b_state (ms_bot m')) = COOLDOWN" by auto
  then show ?thesis using 1 by (intro exI[of _ x] exI[of _ m'] exI[of _ ?inp]) simp
qed

end
