(* ===== verification/Iso_Date.thy ===== *)
theory Iso_Date
  imports Civil_Date
begin

text \<open>
  Calendar dates and their ISO 8601 text, as \<open>date.isoformat\<close> writes and \<open>date.fromisoformat\<close> reads it.  A date is
  its proleptic ordinal, 1 for 0001-01-01; \<open>Civil_Date\<close> counts from 1970-01-01, which is ordinal 719163.
\<close>

section \<open>Year, month and day\<close>

definition days_before :: "int \<Rightarrow> nat \<Rightarrow> int" where
  "days_before y m = (\<Sum>k<m. month_length y k)"

definition UNIX_ORDINAL :: int where
  "UNIX_ORDINAL = 719163"

definition civil :: "int \<Rightarrow> int \<times> nat \<times> int" where
  "civil d =
     (let u = d - UNIX_ORDINAL; y = year_of_day u; r = u - year_start y; m = month_at y 0 11 r
      in (y, Suc m, r - days_before y m + 1))"

definition ordinal_of :: "int \<Rightarrow> nat \<Rightarrow> int \<Rightarrow> int" where
  "ordinal_of y m d = year_start y + days_before y (m - 1) + (d - 1) + UNIX_ORDINAL"

definition valid_date :: "int \<Rightarrow> nat \<Rightarrow> int \<Rightarrow> bool" where
  "valid_date y m d \<longleftrightarrow> 1 \<le> y \<and> y \<le> 9999 \<and> 1 \<le> m \<and> m \<le> 12 \<and> 1 \<le> d \<and> d \<le> month_length y (m - 1)"

text \<open>\<open>date.min\<close> and \<open>date.max\<close>.\<close>

definition date_ok :: "int \<Rightarrow> bool" where
  "date_ok d \<longleftrightarrow> 1 \<le> d \<and> d \<le> 3652059"

lemma days_before_Suc: "days_before y (Suc m) = days_before y m + month_length y m"
  by (simp add: days_before_def)

lemma month_length_pos: "28 \<le> month_length y m \<and> month_length y m \<le> 31"
  by (simp add: month_length_def)

lemma days_before_year: "days_before y 12 = (if leap_year y then 366 else 365)"
  by (simp add: days_before_def month_length_def eval_nat_numeral)

lemma month_at_days:
  assumes "days_before y m \<le> d"
  shows "days_before y (month_at y m n (d - days_before y m)) \<le> d
    \<and> (month_at y m n (d - days_before y m) < m + n \<longrightarrow> d < days_before y (Suc (month_at y m n (d - days_before y m))))"
  using assms
proof (induction n arbitrary: m)
  case (Suc n)
  show ?case
  proof (cases "d - days_before y m < month_length y m")
    case False
    then have "days_before y (Suc m) \<le> d" by (simp add: days_before_Suc)
    from Suc.IH[OF this] False show ?thesis by (simp add: days_before_Suc algebra_simps)
  qed (use Suc.prems in \<open>auto simp: days_before_Suc\<close>)
qed simp

lemma civil_ordinal:
  assumes "civil d = (y, m, k)"
  shows "ordinal_of y m k = d" "1 \<le> m" "m \<le> 12" "1 \<le> k" "k \<le> month_length y (m - 1)"
proof -
  define u where "u = d - UNIX_ORDINAL"
  define r where "r = u - year_start y"
  define e where "e = month_at y 0 11 r"
  have y: "y = year_of_day u" and m: "m = Suc e" and k: "k = r - days_before y e + 1"
    using assms unfolding civil_def Let_def u_def r_def e_def by auto
  have r: "0 \<le> r" "r < days_before y 12"
    using year_of_day[of u] year_start_step[of y] by (simp_all add: y r_def days_before_year)
  have "days_before y e \<le> r \<and> (e < 11 \<longrightarrow> r < days_before y (Suc e))"
    using month_at_days[of y 0 r 11] r by (simp add: e_def days_before_def)
  moreover have e: "e \<le> 11" using month_at_range[of 0 y 11 r] by (simp add: e_def)
  ultimately have "days_before y e \<le> r" "r < days_before y (Suc e)"
    using r by (cases "e = 11"; force simp: numeral_eq_Suc)+
  then show "ordinal_of y m k = d" "1 \<le> m" "m \<le> 12" "1 \<le> k" "k \<le> month_length y (m - 1)"
    using e by (simp_all add: m k ordinal_of_def r_def u_def days_before_Suc)
qed

lemma civil_year:
  assumes "date_ok d" "civil d = (y, m, k)"
  shows "1 \<le> y" "y \<le> 9999"
proof -
  have y: "y = year_of_day (d - UNIX_ORDINAL)" using assms(2) by (auto simp: civil_def Let_def)
  have s: "year_start 1 = 1 - UNIX_ORDINAL" "year_start 10000 = 3652060 - UNIX_ORDINAL"
    by (simp_all add: year_start_def UNIX_ORDINAL_def)
  show "1 \<le> y"
  proof (rule ccontr)
    assume "\<not> 1 \<le> y"
    then have "year_start (y + 1) \<le> year_start 1" by (intro year_start_mono) simp
    then show False using year_of_day[of "d - UNIX_ORDINAL"] assms(1) s by (simp add: y date_ok_def)
  qed
  show "y \<le> 9999"
  proof (rule ccontr)
    assume "\<not> y \<le> 9999"
    then have "year_start 10000 \<le> year_start y" by (intro year_start_mono) simp
    then show False using year_of_day[of "d - UNIX_ORDINAL"] assms(1) s by (simp add: y date_ok_def)
  qed
qed

lemma valid_civil: "date_ok d \<Longrightarrow> civil d = (y, m, k) \<Longrightarrow> valid_date y m k"
  using civil_year[of d y m k] civil_ordinal[of d y m k] by (simp add: valid_date_def)

section \<open>Text\<close>

definition digit :: "nat \<Rightarrow> char" where
  "digit n = char_of (48 + n mod 10)"

fun padded :: "nat \<Rightarrow> nat \<Rightarrow> string" where
  "padded 0 n = []"
| "padded (Suc k) n = padded k (n div 10) @ [digit n]"

definition isoformat :: "int \<Rightarrow> string" where
  "isoformat d = (case civil d of (y, m, k) \<Rightarrow> padded 4 (nat y) @ ''-'' @ padded 2 m @ ''-'' @ padded 2 (nat k))"

definition is_digit :: "char \<Rightarrow> bool" where
  "is_digit c \<longleftrightarrow> 48 \<le> (of_char c :: nat) \<and> (of_char c :: nat) \<le> 57"

fun parse_digits :: "nat \<Rightarrow> nat \<Rightarrow> string \<Rightarrow> (nat \<times> string) option" where
  "parse_digits 0 acc s = Some (acc, s)"
| "parse_digits (Suc k) acc [] = None"
| "parse_digits (Suc k) acc (c # s) = (if is_digit c then parse_digits k (10 * acc + (of_char c - 48)) s else None)"

text \<open>One dash when the text uses dashes, nothing otherwise.\<close>

definition skip_dash :: "bool \<Rightarrow> string \<Rightarrow> string option" where
  "skip_dash sep s = (if \<not> sep then Some s else case s of c # r \<Rightarrow> if c = CHR ''-'' then Some r else None | [] \<Rightarrow> None)"

text \<open>The Monday of ISO week 1, and the date of a week and weekday (1 for Monday).\<close>

definition week1_monday :: "int \<Rightarrow> int" where
  "week1_monday y =
     (let first = ordinal_of y 1 1 in first - weekday first + (if 3 < weekday first then 7 else 0))"

definition iso_week_date :: "int \<Rightarrow> nat \<Rightarrow> nat \<Rightarrow> int option" where
  "iso_week_date y week wd =
     (let first = weekday (ordinal_of y 1 1); d = week1_monday y + (int week - 1) * 7 + int wd - 1
      in if 1 \<le> y \<and> 1 \<le> week \<and> (week \<le> 52 \<or> week = 53 \<and> (first = 3 \<or> first = 2 \<and> leap_year y))
            \<and> 1 \<le> wd \<and> wd \<le> 7 \<and> date_ok d
         then Some d else None)"

definition parse_week :: "bool \<Rightarrow> nat \<Rightarrow> string \<Rightarrow> int option" where
  "parse_week sep y s =
     (case parse_digits 2 0 s of None \<Rightarrow> None
      | Some (w, []) \<Rightarrow> iso_week_date (int y) w 1
      | Some (w, r) \<Rightarrow>
          (case skip_dash sep r of None \<Rightarrow> None
           | Some r' \<Rightarrow> (case parse_digits 1 0 r' of None \<Rightarrow> None | Some (k, _) \<Rightarrow> iso_week_date (int y) w k)))"

definition parse_month_day :: "bool \<Rightarrow> nat \<Rightarrow> string \<Rightarrow> int option" where
  "parse_month_day sep y s =
     (case parse_digits 2 0 s of None \<Rightarrow> None
      | Some (m, r) \<Rightarrow>
          (case skip_dash sep r of None \<Rightarrow> None
           | Some r' \<Rightarrow>
               (case parse_digits 2 0 r' of None \<Rightarrow> None
                | Some (k, _) \<Rightarrow> if valid_date (int y) m (int k) then Some (ordinal_of (int y) m (int k)) else None)))"

text \<open>\<open>date.fromisoformat\<close>: \<open>None\<close> where it raises.\<close>

definition fromisoformat :: "string \<Rightarrow> int option" where
  "fromisoformat s =
     (if length s \<noteq> 7 \<and> length s \<noteq> 8 \<and> length s \<noteq> 10 then None
      else case parse_digits 4 0 s of
             None \<Rightarrow> None
           | Some (y, r) \<Rightarrow>
               (let sep = (r \<noteq> [] \<and> hd r = CHR ''-''); r1 = (if sep then tl r else r)
                in case r1 of
                     c # r2 \<Rightarrow> if c = CHR ''W'' then parse_week sep y r2 else parse_month_day sep y r1
                   | [] \<Rightarrow> None))"

lemma digit_value: "is_digit (digit n) \<and> (of_char (digit n) :: nat) = 48 + n mod 10"
proof -
  have "(48 + n mod 10) mod 256 = 48 + n mod 10" by (rule mod_less) linarith
  then show ?thesis by (simp add: digit_def is_digit_def)
qed

lemma length_padded [simp]: "length (padded k n) = k"
  by (induction k arbitrary: n) simp_all

lemma parse_digits_snoc:
  "parse_digits k acc s = Some (a, c # r) \<Longrightarrow> is_digit c \<Longrightarrow> parse_digits (Suc k) acc s = Some (10 * a + (of_char c - 48), r)"
proof (induction k acc s rule: parse_digits.induct)
  case (1 acc s)
  then show ?case by simp
next
  case (3 k acc d s)
  then show ?case by (cases "is_digit d") simp_all
qed simp

lemma parse_padded: "parse_digits k 0 (padded k n @ r) = Some (n mod 10 ^ k, r)"
proof (induction k arbitrary: n r)
  case (Suc k)
  have "parse_digits k 0 (padded (Suc k) n @ r) = Some (n div 10 mod 10 ^ k, digit n # r)"
    using Suc[of "n div 10" "digit n # r"] by simp
  then have "parse_digits (Suc k) 0 (padded (Suc k) n @ r) = Some (10 * (n div 10 mod 10 ^ k) + n mod 10, r)"
    using parse_digits_snoc[of k 0 "padded (Suc k) n @ r" "n div 10 mod 10 ^ k" "digit n" r] digit_value[of n]
    by simp
  moreover have "10 * (n div 10 mod 10 ^ k) + n mod 10 = n mod 10 ^ Suc k"
    by (simp add: mod_mult2_eq)
  ultimately show ?case by simp
qed simp

lemma parse_padded': "n < 10 ^ k \<Longrightarrow> parse_digits k 0 (padded k n @ r) = Some (n, r)"
  by (simp add: parse_padded)

lemma digit_not_W: "is_digit c \<Longrightarrow> c \<noteq> CHR ''W''"
  by (auto simp: is_digit_def)

lemma iso_round_trip:
  assumes "date_ok d"
  shows "fromisoformat (isoformat d) = Some d"
proof -
  obtain y m k where c: "civil d = (y, m, k)" by (metis prod_cases3)
  have y: "1 \<le> y" "y \<le> 9999" and v: "valid_date y m k" and o: "ordinal_of y m k = d"
    and b: "1 \<le> m" "m \<le> 12" "1 \<le> k" "k \<le> 31"
    using civil_year[OF assms c] valid_civil[OF assms c] civil_ordinal[OF c] month_length_pos[of y "m - 1"] by auto
  let ?r = "padded 2 m @ ''-'' @ padded 2 (nat k)"
  have month: "parse_digits 2 0 ?r = Some (m, ''-'' @ padded 2 (nat k))"
    and day: "parse_digits 2 0 (padded 2 (nat k)) = Some (nat k, [])"
    using b parse_padded'[of m 2 "''-'' @ padded 2 (nat k)"] parse_padded'[of "nat k" 2 "[]"] by simp_all
  have year: "parse_digits 4 0 (padded 4 (nat y) @ ''-'' @ ?r) = Some (nat y, ''-'' @ ?r)"
    using y parse_padded'[of "nat y" 4 "''-'' @ ?r"] by (simp add: nat_less_iff)
  obtain c0 r0 where r0: "?r = c0 # r0" "is_digit c0"
    using digit_value[of "m div 10"] by (simp add: numeral_2_eq_2)
  from arg_cong[OF r0(1), of length] have l: "length r0 = 4" by simp
  have "parse_month_day True (nat y) ?r = Some d"
    using month day v o y b by (simp add: parse_month_day_def skip_dash_def)
  then show ?thesis
    using year r0 l digit_not_W[OF r0(2)] by (simp add: isoformat_def c fromisoformat_def Let_def)
qed

end
