(* ===== verification/Trading_Calendar.thy ===== *)
theory Trading_Calendar
  imports Iso_Date Instruments Strikes "HOL-Library.AList"
begin

text \<open>
  Which days the exchange is open (\<open>utils/trading_calendar.py\<close>), and what follows from it for the start of a
  session (\<open>market_open\<close> and \<open>wait_for_market_open\<close> of \<open>utils/helpers.py\<close>, the standby of \<open>core/main.py\<close>).  The
  declared holidays are a JSON file, here the parsed value or \<open>None\<close> when the file cannot be read; the expiries
  come from the instrument master; the broker's daily candles are their time stamps.  Dates are ordinals.
\<close>

section \<open>JSON values\<close>

text \<open>A number with a fraction is kept as the (non-empty) text Python prints for it; the keys of an object are distinct.\<close>

datatype json = JNull | JBool bool | JInt int | JFloat char string | JStr string | JArr "json list" | JObj "(string \<times> json) list"

definition jget :: "string \<Rightarrow> (string \<times> json) list \<Rightarrow> json" where
  "jget k kvs = (case map_of kvs k of None \<Rightarrow> JNull | Some v \<Rightarrow> v)"

definition falsy :: "json \<Rightarrow> bool" where
  "falsy v = (case v of JNull \<Rightarrow> True | JBool b \<Rightarrow> \<not> b | JInt n \<Rightarrow> n = 0 | JFloat c t \<Rightarrow> c # t = ''0.0'' \<or> c # t = ''-0.0''
                | JStr s \<Rightarrow> s = '''' | JArr xs \<Rightarrow> xs = [] | JObj kvs \<Rightarrow> kvs = [])"

text \<open>\<open>repr\<close>, in single quotes unless the text has single quotes and no double ones.\<close>

definition hex_digit :: "nat \<Rightarrow> char" where
  "hex_digit n = (if n < 10 then char_of (48 + n) else char_of (87 + n))"

definition repr_char :: "char \<Rightarrow> char \<Rightarrow> string" where
  "repr_char q c =
     (if c = q \<or> c = CHR 0x5C then [CHR 0x5C, c]
      else if c = CHR 0x0A then [CHR 0x5C, CHR ''n''] else if c = CHR 0x0D then [CHR 0x5C, CHR ''r'']
      else if c = CHR 0x09 then [CHR 0x5C, CHR ''t'']
      else if (of_char c :: nat) < 32 \<or> (of_char c :: nat) = 127
        then [CHR 0x5C, CHR ''x'', hex_digit (of_char c div 16), hex_digit (of_char c mod 16)]
      else [c])"

definition repr_str :: "string \<Rightarrow> string" where
  "repr_str s =
     (let q = (if CHR 0x27 \<in> set s \<and> CHR 0x22 \<notin> set s then CHR 0x22 else CHR 0x27)
      in [q] @ concat (map (repr_char q) s) @ [q])"

fun join_comma :: "string list \<Rightarrow> string" where
  "join_comma [] = []"
| "join_comma [x] = x"
| "join_comma (x # y # xs) = x @ '', '' @ join_comma (y # xs)"

fun py_repr :: "json \<Rightarrow> string" where
  "py_repr JNull = ''None''"
| "py_repr (JBool b) = (if b then ''True'' else ''False'')"
| "py_repr (JInt n) = show_int n"
| "py_repr (JFloat c t) = c # t"
| "py_repr (JStr s) = repr_str s"
| "py_repr (JArr xs) = ''['' @ join_comma (map py_repr xs) @ '']''"
| "py_repr (JObj kvs) = ''{'' @ join_comma (map (\<lambda>(k, v). repr_str k @ '': '' @ py_repr v) kvs) @ ''}''"

definition py_str :: "json \<Rightarrow> string" where
  "py_str v = (case v of JStr s \<Rightarrow> s | _ \<Rightarrow> py_repr v)"

definition is_space :: "char \<Rightarrow> bool" where
  "is_space c \<longleftrightarrow> (of_char c :: nat) \<in> {9..13} \<union> {28..32}"

definition strip :: "string \<Rightarrow> string" where
  "strip s = rev (dropWhile is_space (rev (dropWhile is_space s)))"

definition parse_date :: "json \<Rightarrow> int option" where
  "parse_date v = fromisoformat (strip (py_str v))"

section \<open>Holidays\<close>

datatype holiday_source = Declared | Inferred

record calendar_files =
  cf_contracts :: "contract list"
  cf_declared :: "json option"

definition holiday_name :: "json \<Rightarrow> string" where
  "holiday_name v = py_str (if falsy v then JStr ''holiday'' else v)"

definition entry_of :: "json \<Rightarrow> int option \<times> string" where
  "entry_of item =
     (case item of JObj kvs \<Rightarrow> (parse_date (jget ''date'' kvs), holiday_name (jget ''name'' kvs))
      | _ \<Rightarrow> (parse_date item, ''holiday''))"

definition add_entry :: "(int \<times> string) list \<Rightarrow> json \<Rightarrow> (int \<times> string) list" where
  "add_entry out item = (case entry_of item of (Some day, name) \<Rightarrow> AList.update day name out | _ \<Rightarrow> out)"

definition declared_holidays :: "json option \<Rightarrow> (int \<times> string) list" where
  "declared_holidays file =
     (case file of None \<Rightarrow> []
      | Some blob \<Rightarrow>
          (case (case blob of JObj kvs \<Rightarrow> jget ''holidays'' kvs | _ \<Rightarrow> blob) of
             JArr items \<Rightarrow> foldl add_entry [] items | _ \<Rightarrow> []))"

text \<open>The day an expiry moved away from: the usual weekday, at most three days later.\<close>

definition vacated_day :: "int \<Rightarrow> int \<Rightarrow> int option" where
  "vacated_day usual d =
     (let shift = (usual - weekday d) mod 7 in if 0 < shift \<and> shift \<le> 3 then Some (d + shift) else None)"

definition inferred_holidays :: "contract list \<Rightarrow> (int \<times> string) list" where
  "inferred_holidays rows =
     (let dates = expiry_dates rows
      in if length dates < 3 then []
         else case most_common (map weekday dates) of
                None \<Rightarrow> []
              | Some usual \<Rightarrow>
                  foldl (\<lambda>out d. case vacated_day usual d of
                                   Some h \<Rightarrow> AList.update h (''expiry moved to '' @ isoformat d) out | None \<Rightarrow> out)
                        [] dates)"

definition holidays :: "calendar_files \<Rightarrow> (int \<times> holiday_source \<times> string) list" where
  "holidays cal =
     foldl (\<lambda>out (d, name). AList.update d (Declared, name) out)
           (map (\<lambda>(d, why). (d, Inferred, why)) (inferred_holidays (cf_contracts cal)))
           (declared_holidays (cf_declared cal))"

definition is_holiday :: "calendar_files \<Rightarrow> int \<Rightarrow> bool" where
  "is_holiday cal day \<longleftrightarrow> map_of (holidays cal) day \<noteq> None"

definition holiday_reason :: "calendar_files \<Rightarrow> int \<Rightarrow> string option" where
  "holiday_reason cal day =
     (case map_of (holidays cal) day of None \<Rightarrow> None
      | Some (src, why) \<Rightarrow> Some ((case src of Declared \<Rightarrow> ''declared'' | Inferred \<Rightarrow> ''inferred'') @ '': '' @ why))"

definition is_trading_day :: "calendar_files \<Rightarrow> int \<Rightarrow> bool" where
  "is_trading_day cal day = (if 5 \<le> weekday day then False else \<not> is_holiday cal day)"

definition unknown_calendar :: "calendar_files \<Rightarrow> bool" where
  "unknown_calendar cal \<longleftrightarrow> declared_holidays (cf_declared cal) = []"

fun next_open :: "calendar_files \<Rightarrow> nat \<Rightarrow> int \<Rightarrow> int" where
  "next_open cal 0 day = day"
| "next_open cal (Suc n) day = (if is_trading_day cal day then day else next_open cal n (day + 1))"

definition next_trading_day :: "calendar_files \<Rightarrow> int \<Rightarrow> int" where
  "next_trading_day cal after = next_open cal 30 (after + 1)"

text \<open>The rows of the trade store: the day and its counts, as they come (\<open>None\<close> for a null).\<close>

record session_row =
  sr_day :: json
  sr_n_ticks :: "int option"
  sr_n_signals :: "int option"
  sr_n_trades :: "int option"

definition observed_trading_days :: "session_row list \<Rightarrow> int list" where
  "observed_trading_days rows =
     sort (List.map_filter (\<lambda>r. if get_or 0 (sr_n_ticks r) \<noteq> 0 \<or> get_or 0 (sr_n_signals r) \<noteq> 0 \<or> get_or 0 (sr_n_trades r) \<noteq> 0
                                  then parse_date (sr_day r) else None) rows)"

section \<open>Filling the declared file\<close>

text \<open>\<open>stamps\<close>: the time stamps of the broker's daily candles, \<open>None\<close> when it cannot be reached.\<close>

definition candle_days :: "string list \<Rightarrow> int list" where
  "candle_days stamps = List.map_filter (\<lambda>s. parse_date (JStr (take 10 s))) stamps"

definition fetch_from_broker :: "int \<Rightarrow> int \<Rightarrow> string list option \<Rightarrow> int list" where
  "fetch_from_broker start stop stamps =
     (case stamps of None \<Rightarrow> []
      | Some ss \<Rightarrow>
          let traded = set (candle_days ss)
          in if candle_days ss = [] then []
             else filter (\<lambda>d. weekday d < 5 \<and> d \<notin> traded) [max start (Min traded)..min stop (Max traded)])"

definition NO_CANDLE :: string where
  "NO_CANDLE = ''no NIFTY candle on a weekday''"

definition NOTE :: string where
  "NOTE = ''NSE trading holidays. Dates here are treated as authoritative: market_open() returns '' @
     ''False on them and next_trading_day() skips them. Anything not listed is 'unknown', '' @
     ''not 'trading' - utils/trading_calendar.py never invents a date. Populate it from the '' @
     ''broker with: ./venv/bin/python -m utils.trading_calendar fetch 2026-01-01 2026-12-31 '' @
     ''(asks for NIFTY spot candles and records the weekdays that produced none), or add '' @
     ''entries by hand from the NSE circular.''"

definition stamp_text :: "instant \<Rightarrow> string" where
  "stamp_text now =
     isoformat (date_of now) @ ''T'' @ padded 2 (nat (hour_of now)) @ '':'' @ padded 2 (nat (minute_of now)) @ '':'' @
     padded 2 (nat (now div 1000000 mod 60))"

definition set_default :: "'v \<Rightarrow> ('k \<times> 'v) list \<Rightarrow> 'k \<Rightarrow> ('k \<times> 'v) list" where
  "set_default v d k = (if map_of d k = None then d @ [(k, v)] else d)"

definition entry_json :: "(int \<times> string) list \<Rightarrow> int \<Rightarrow> json" where
  "entry_json d day = JObj [(''date'', JStr (isoformat day)), (''name'', JStr (the (map_of d day)))]"

definition write_declared :: "int list \<Rightarrow> string \<Rightarrow> instant \<Rightarrow> json option \<Rightarrow> json" where
  "write_declared days source now file =
     (let known = foldl (set_default NO_CANDLE) (declared_holidays file) days
      in JObj [(''note'', JStr NOTE), (''source'', JStr source), (''updated'', JStr (stamp_text now)),
               (''holidays'', JArr (map (entry_json known) (sorted_list_of_set (fst ` set known))))])"

text \<open>The command line: the exit code and the file afterwards.\<close>

definition calendar_main :: "string list \<Rightarrow> instant \<Rightarrow> string list option \<Rightarrow> json option \<Rightarrow> int \<times> json option" where
  "calendar_main argv now stamps file =
     (case argv of
        cmd # args \<Rightarrow>
          if cmd \<noteq> ''fetch'' then (0, file)
          else (case args of
                  [a, b] \<Rightarrow>
                    (case (parse_date (JStr a), parse_date (JStr b)) of
                       (Some start, Some stop) \<Rightarrow>
                         if stop < start then (2, file)
                         else let found = fetch_from_broker start stop stamps
                              in if found = [] then (1, file)
                                 else (0, Some (write_declared found
                                        (''broker candles '' @ isoformat start @ ''..'' @ isoformat stop) now file))
                     | _ \<Rightarrow> (2, file))
                | _ \<Rightarrow> (2, file))
      | [] \<Rightarrow> (0, file))"

section \<open>The start of a session\<close>

type_synonym market_hours = "(int \<times> int) \<times> (int \<times> int)"

definition market_open :: "bool \<Rightarrow> market_hours \<Rightarrow> calendar_files \<Rightarrow> instant \<Rightarrow> bool" where
  "market_open test hrs cal now =
     (if test then True
      else if \<not> is_trading_day cal (date_of now) then False
      else case hrs of ((oh, om), (ch, cm)) \<Rightarrow> at_time now oh om \<le> now \<and> now \<le> at_time now ch cm)"

text \<open>\<open>datetime.combine\<close> of a day and a clock time.\<close>

definition on_day :: "int \<Rightarrow> int \<times> int \<Rightarrow> instant" where
  "on_day d hm = (case hm of (h, m) \<Rightarrow> d * 86400000000 + h * 3600000000 + m * 60000000)"

text \<open>What \<open>wait_for_market_open\<close> waits for; \<open>None\<close> when it returns at once.\<close>

definition open_target :: "market_hours \<Rightarrow> calendar_files \<Rightarrow> instant \<Rightarrow> instant option" where
  "open_target hrs cal now =
     (case hrs of (o_hm, c_hm) \<Rightarrow>
        if on_day (date_of now) c_hm < now then Some (on_day (next_trading_day cal (date_of now)) o_hm)
        else if now < on_day (date_of now) o_hm then Some (on_day (date_of now) o_hm) else None)"

text \<open>The waiting loops, with a sleep that takes the time it is given.\<close>

function wait_loop :: "instant \<Rightarrow> instant \<Rightarrow> instant" where
  "wait_loop target now =
     (if target \<le> now then now
      else if seconds 3600 < target - now then wait_loop target (now + seconds 600)
      else if seconds 60 < target - now then wait_loop target (now + seconds 60)
      else target)"
  by pat_completeness auto
termination by (relation "measure (\<lambda>(target, now). nat (target - now))") (auto simp: seconds_def)

function standby_loop :: "instant \<Rightarrow> instant \<Rightarrow> instant" where
  "standby_loop target now =
     (if target \<le> now then now
      else if seconds 3600 < target - now then standby_loop target (now + seconds 1800)
      else if seconds 300 < target - now then standby_loop target (now + seconds 300)
      else target)"
  by pat_completeness auto
termination by (relation "measure (\<lambda>(target, now). nat (target - now))") (auto simp: seconds_def)

definition wait_for_market_open :: "market_hours \<Rightarrow> calendar_files \<Rightarrow> instant \<Rightarrow> instant" where
  "wait_for_market_open hrs cal now =
     (case open_target hrs cal now of None \<Rightarrow> now | Some t \<Rightarrow> wait_loop t now)"

text \<open>The standby of the start-up: five minutes before the open, of today or after the close of the next trading day.\<close>

definition pre_market_time :: "market_hours \<Rightarrow> calendar_files \<Rightarrow> instant \<Rightarrow> instant" where
  "pre_market_time hrs cal now =
     (case hrs of (o_hm, c_hm) \<Rightarrow>
        on_day (if on_day (date_of now) c_hm < now then next_trading_day cal (date_of now) else date_of now) o_hm - minutes 5)"

definition standby :: "market_hours \<Rightarrow> calendar_files \<Rightarrow> instant \<Rightarrow> instant" where
  "standby hrs cal now =
     (if now < pre_market_time hrs cal now then standby_loop (pre_market_time hrs cal now) now else now)"

text \<open>From the start of the process to the trading loop; \<open>startup\<close> is the time connecting and warming up take.\<close>

definition session_start :: "bool \<Rightarrow> market_hours \<Rightarrow> calendar_files \<Rightarrow> int \<Rightarrow> instant \<Rightarrow> instant" where
  "session_start test hrs cal startup now =
     (let t = standby hrs cal now + startup
      in if market_open test hrs cal t then t else wait_for_market_open hrs cal t)"

declare wait_loop.simps [simp del] standby_loop.simps [simp del]

section \<open>What the calendar promises\<close>

lemma next_open_first:
  "day \<le> next_open cal n day \<and> next_open cal n day \<le> day + int n
   \<and> (\<forall>d. day \<le> d \<and> d < next_open cal n day \<longrightarrow> \<not> is_trading_day cal d)
   \<and> (next_open cal n day < day + int n \<longrightarrow> is_trading_day cal (next_open cal n day))"
proof (induction n arbitrary: day)
  case (Suc n)
  show ?case
  proof (cases "is_trading_day cal day")
    case False
    then have "\<not> is_trading_day cal d" if "day \<le> d" "d < next_open cal (Suc n) day" for d
      using Suc[of "day + 1"] that by (cases "d = day") auto
    then show ?thesis using Suc[of "day + 1"] False by auto
  qed auto
qed auto

lemma map_of_updates:
  "map_of (foldl (\<lambda>out (d, v). AList.update d (f v) out) xs ys) k =
     (if k \<in> fst ` set ys then map_option f (map_of (rev ys) k) else map_of xs k)"
  by (induction ys rule: rev_induct) (auto simp: update_conv' split: prod.splits)

lemma holidays_declared_first:
  "map_of (holidays cal) d =
     (case map_of (rev (declared_holidays (cf_declared cal))) d of
        Some name \<Rightarrow> Some (Declared, name)
      | None \<Rightarrow> map_option (Pair Inferred) (map_of (inferred_holidays (cf_contracts cal)) d))"
proof -
  have "map_of (map (\<lambda>(d, why). (d, Inferred, why)) xs) d = map_option (Pair Inferred) (map_of xs d)" for xs :: "(int \<times> string) list"
    by (induction xs) auto
  then show ?thesis
    unfolding holidays_def map_of_updates
    by (auto split: option.splits simp: map_of_eq_None_iff dest!: map_of_SomeD)
      (metis (no_types, lifting) fst_conv image_eqI map_of_SomeD set_rev)+
qed

lemma fold_distinct:
  "distinct (map fst xs) \<Longrightarrow> distinct (map fst (foldl add_entry xs items))"
  by (induction items arbitrary: xs) (auto simp: add_entry_def distinct_update split: prod.splits option.splits)

lemma distinct_declared: "distinct (map fst (declared_holidays file))"
  by (auto simp: declared_holidays_def fold_distinct split: option.splits json.splits)

lemma is_trading_day_iff:
  "is_trading_day cal d \<longleftrightarrow> weekday d < 5 \<and> d \<notin> fst ` set (declared_holidays (cf_declared cal))
     \<and> d \<notin> fst ` set (inferred_holidays (cf_contracts cal))"
  by (auto simp: is_trading_day_def is_holiday_def holidays_declared_first map_of_eq_None_iff image_iff split: option.splits
      dest!: map_of_SomeD) force+

subsection \<open>The declared file\<close>

lemma days_before_mono: "a \<le> b \<Longrightarrow> days_before y a \<le> days_before y b"
proof (induction rule: dec_induct)
  case (step n)
  then show ?case using month_length_pos[of y n] by (simp add: days_before_Suc)
qed simp

lemma valid_date_ok:
  assumes "valid_date y m d"
  shows "date_ok (ordinal_of y m d)"
proof -
  have "days_before y (m - 1) + month_length y (m - 1) \<le> days_before y 12"
    using assms days_before_mono[of m 12 y] days_before_Suc[of y "m - 1"] by (auto simp: valid_date_def)
  moreover have "0 \<le> days_before y (m - 1)" using days_before_mono[of 0 "m - 1" y] by (simp add: days_before_def)
  moreover have "year_start 1 \<le> year_start y" "year_start (y + 1) \<le> year_start 10000"
    using assms by (auto simp: valid_date_def intro!: year_start_mono)
  moreover have "year_start 1 = 1 - UNIX_ORDINAL" "year_start 10000 = 3652060 - UNIX_ORDINAL"
    by (simp_all add: year_start_def UNIX_ORDINAL_def)
  ultimately show ?thesis
    using assms year_start_step[of y] by (auto simp: valid_date_def date_ok_def ordinal_of_def days_before_year split: if_splits)
qed

lemma parse_month_day_ok: "parse_month_day sep y s = Some d \<Longrightarrow> date_ok d"
  by (auto simp: parse_month_day_def valid_date_ok split: if_splits option.splits)

lemma iso_week_date_ok: "iso_week_date y w k = Some d \<Longrightarrow> date_ok d"
  by (auto simp: iso_week_date_def Let_def split: if_splits)

lemma parse_week_ok: "parse_week sep y s = Some d \<Longrightarrow> date_ok d"
  by (auto simp: parse_week_def dest: iso_week_date_ok split: option.splits list.splits)

lemma fromisoformat_ok: "fromisoformat s = Some d \<Longrightarrow> date_ok d"
  unfolding fromisoformat_def Let_def
  by (auto dest: parse_month_day_ok parse_week_ok split: if_split_asm option.split_asm list.split_asm)

lemma py_repr_ne: "py_repr v \<noteq> []"
  by (cases v) (auto simp: show_int_def decimal_ne repr_str_def Let_def)

lemma holiday_name_ne: "holiday_name v \<noteq> []"
  using py_repr_ne[of v] by (cases v) (auto simp: holiday_name_def py_str_def falsy_def)

lemma entry_of_ok: "entry_of item = (Some d, name) \<Longrightarrow> date_ok d \<and> name \<noteq> []"
  by (auto simp: entry_of_def parse_date_def holiday_name_ne dest: fromisoformat_ok split: json.splits)

definition entries_ok :: "(int \<times> string) list \<Rightarrow> bool" where
  "entries_ok out \<longleftrightarrow> (\<forall>d name. map_of out d = Some name \<longrightarrow> date_ok d \<and> name \<noteq> [])"

lemma declared_ok: "entries_ok (declared_holidays file)"
proof -
  have step: "entries_ok (add_entry out item)" if "entries_ok out" for out item
    using that entry_of_ok[of item] by (auto simp: add_entry_def entries_ok_def update_conv' split: prod.splits option.splits)
  have "entries_ok (foldl add_entry out items)" if "entries_ok out" for out items
    using that by (induction items arbitrary: out) (auto intro: step)
  moreover have "entries_ok []" by (simp add: entries_ok_def)
  ultimately show ?thesis unfolding declared_holidays_def by (simp split: option.split json.split)
qed

lemma map_of_set_default: "map_of (set_default v xs k) = (\<lambda>j. if j = k \<and> map_of xs k = None then Some v else map_of xs j)"
  by (auto simp: set_default_def map_add_def fun_eq_iff split: option.splits)

lemma map_of_set_defaults:
  "map_of (foldl (set_default v) xs ks) j =
     (case map_of xs j of Some x \<Rightarrow> Some x | None \<Rightarrow> if j \<in> set ks then Some v else None)"
  by (induction ks rule: rev_induct) (auto simp: map_of_set_default split: option.splits)

lemma strip_isoformat: "strip (isoformat d) = isoformat d"
proof -
  have d: "\<not> is_space (digit n)" for n
    using digit_value[of n] by (auto simp: is_digit_def is_space_def)
  obtain y m k where c: "civil d = (y, m, k)" by (metis prod_cases3)
  have "\<exists>a as. padded (Suc i) n = digit a # as" for i n
  proof (induction i arbitrary: n)
    case (Suc i)
    obtain a as where "padded (Suc i) (n div 10) = digit a # as" using Suc[of "n div 10"] by blast
    then show ?case by (metis append_Cons padded.simps(2))
  qed auto
  then obtain a as where "padded (Suc 3) (nat y) = digit a # as" by blast
  moreover have four: "padded 4 n = padded (Suc 3) n" for n by (rule arg_cong[of _ _ "\<lambda>k. padded k n"]) simp
  ultimately have a: "isoformat d = digit a # as @ ''-'' @ padded 2 m @ ''-'' @ padded 2 (nat k)"
    unfolding isoformat_def c four by simp
  have b: "isoformat d = (padded 4 (nat y) @ ''-'' @ padded 2 m @ ''-'' @ padded 1 (nat k div 10)) @ [digit (nat k)]"
    using padded.simps(2)[of 1 "nat k"] by (simp add: isoformat_def c numeral_2_eq_2)
  have "dropWhile is_space (isoformat d) = isoformat d" unfolding a by (simp add: d)
  moreover have "dropWhile is_space (rev (isoformat d)) = rev (isoformat d)" unfolding b by (simp add: d)
  ultimately show ?thesis by (simp add: strip_def)
qed

lemma add_entry_json:
  assumes "date_ok d" "map_of known d = Some name" "name \<noteq> []"
  shows "add_entry out (entry_json known d) = AList.update d name out"
  using assms
  by (simp add: add_entry_def entry_of_def entry_json_def jget_def parse_date_def py_str_def strip_isoformat iso_round_trip
      holiday_name_def falsy_def)

lemma read_entries:
  assumes "entries_ok known" "set ks \<subseteq> dom (map_of known)"
  shows "map_of (foldl add_entry out (map (entry_json known) ks)) = (\<lambda>d. if d \<in> set ks then map_of known d else map_of out d)"
  using assms(2)
proof (induction ks rule: rev_induct)
  case (snoc k ks)
  then obtain name where "map_of known k = Some name" by auto
  with snoc assms(1) show ?case by (auto simp: add_entry_json entries_ok_def update_conv' fun_eq_iff)
qed simp

lemma written_file:
  assumes "\<forall>d\<in>set days. date_ok d"
  shows "map_of (declared_holidays (Some (write_declared days source now file))) d =
    (case map_of (declared_holidays file) d of
       Some name \<Rightarrow> Some name | None \<Rightarrow> if d \<in> set days then Some NO_CANDLE else None)"
proof -
  define known where "known = foldl (set_default NO_CANDLE) (declared_holidays file) days"
  have known: "map_of known j = (case map_of (declared_holidays file) j of
       Some name \<Rightarrow> Some name | None \<Rightarrow> if j \<in> set days then Some NO_CANDLE else None)" for j
    by (simp add: known_def map_of_set_defaults)
  have ok: "entries_ok known"
    using declared_ok assms by (auto simp: entries_ok_def known NO_CANDLE_def split: option.splits if_splits)
  have ks: "set (sorted_list_of_set (fst ` set known)) = dom (map_of known)"
    by (simp add: dom_map_of_conv_image_fst)
  have "declared_holidays (Some (write_declared days source now file)) =
      foldl add_entry [] (map (entry_json known) (sorted_list_of_set (fst ` set known)))"
    by (simp add: declared_holidays_def write_declared_def known_def Let_def jget_def)
  then show ?thesis using read_entries[OF ok, of "sorted_list_of_set (fst ` set known)" "[]"] ks
    by (auto simp: known split: option.splits)
qed

text \<open>Writing the declared file and reading it back loses nothing: every holiday already declared keeps its name, the
  days handed over are added under the generic name unless they were declared, and no other day appears.\<close>

theorem declared_file_round_trip:
  assumes "\<forall>d\<in>set days. date_ok d"
  shows "map_of (declared_holidays (Some (write_declared days source now file))) d =
    (case map_of (declared_holidays file) d of
       Some name \<Rightarrow> Some name | None \<Rightarrow> if d \<in> set days then Some NO_CANDLE else None)"
  using written_file[OF assms] .

subsection \<open>What the broker's candles prove\<close>

lemma candle_days_ok: "d \<in> set (candle_days ss) \<Longrightarrow> date_ok d"
  by (auto simp: candle_days_def List.map_filter_def parse_date_def intro: fromisoformat_ok)

lemma fetched_days:
  "d \<in> set (fetch_from_broker start stop (Some ss)) \<longleftrightarrow>
     start \<le> d \<and> d \<le> stop \<and> weekday d < 5 \<and> d \<notin> set (candle_days ss)
     \<and> (\<exists>a\<in>set (candle_days ss). a < d) \<and> (\<exists>b\<in>set (candle_days ss). d < b)"
proof (cases "candle_days ss = []")
  case False
  let ?T = "set (candle_days ss)"
  have "Min ?T \<le> d \<longleftrightarrow> (\<exists>a\<in>?T. a \<le> d)" "d \<le> Max ?T \<longleftrightarrow> (\<exists>b\<in>?T. d \<le> b)"
    using False by (simp_all add: Min_le_iff Max_ge_iff)
  moreover have "(\<exists>a\<in>?T. a \<le> d) \<longleftrightarrow> (\<exists>a\<in>?T. a < d)" "(\<exists>b\<in>?T. d \<le> b) \<longleftrightarrow> (\<exists>b\<in>?T. d < b)" if "d \<notin> ?T"
    using that by (metis order_le_less)+
  ultimately show ?thesis using False by (auto simp: fetch_from_broker_def Let_def simp del: Min_le_iff Max_ge_iff)
qed (simp add: fetch_from_broker_def)

lemma fetched_ok: "d \<in> set (fetch_from_broker start stop (Some ss)) \<Longrightarrow> date_ok d"
  by (auto simp: fetched_days date_ok_def dest!: candle_days_ok)

lemma calendar_main_fetch:
  assumes "calendar_main [''fetch'', a, b] now (Some ss) file = (0, Some f)"
  obtains start stop where "parse_date (JStr a) = Some start" "parse_date (JStr b) = Some stop"
    "f = write_declared (fetch_from_broker start stop (Some ss)) (''broker candles '' @ isoformat start @ ''..'' @ isoformat stop)
           now file"
  using assms by (auto simp: calendar_main_def Let_def split: option.splits if_splits)

text \<open>A fetch closes exactly the days the broker's candles prove: after a successful run a day that counted as a trading
  day is one no longer just when it is a weekday of the range without a candle, with a traded day before it and one after
  it; every other day reads as before.\<close>

theorem fetch_closes_proven_days:
  assumes "calendar_main [''fetch'', a, b] now (Some ss) file = (0, Some f)"
    and "parse_date (JStr a) = Some start" "parse_date (JStr b) = Some stop"
  shows "is_trading_day \<lparr>cf_contracts = rows, cf_declared = Some f\<rparr> d \<longleftrightarrow>
    is_trading_day \<lparr>cf_contracts = rows, cf_declared = file\<rparr> d
    \<and> \<not> (start \<le> d \<and> d \<le> stop \<and> d \<notin> set (candle_days ss)
          \<and> (\<exists>t\<in>set (candle_days ss). t < d) \<and> (\<exists>t\<in>set (candle_days ss). d < t))"
proof -
  from calendar_main_fetch[OF assms(1)] assms(2,3) obtain src where
    f: "f = write_declared (fetch_from_broker start stop (Some ss)) src now file" by (metis option.inject)
  have dom: "fst ` set xs = dom (map_of xs)" for xs :: "(int \<times> string) list" by (simp add: dom_map_of_conv_image_fst)
  have "map_of (declared_holidays (Some f)) k =
    (case map_of (declared_holidays file) k of
       Some name \<Rightarrow> Some name | None \<Rightarrow> if k \<in> set (fetch_from_broker start stop (Some ss)) then Some NO_CANDLE else None)" for k
    using written_file[of "fetch_from_broker start stop (Some ss)" src now "file" k] fetched_ok by (simp add: f)
  then have "fst ` set (declared_holidays (Some f)) =
      fst ` set (declared_holidays file) \<union> set (fetch_from_broker start stop (Some ss))"
    unfolding dom by (auto split: option.splits if_splits)
  then show ?thesis by (simp add: is_trading_day_iff fetched_days) blast
qed

subsection \<open>When a session starts\<close>

lemma wait_loop_reaches: "now < target \<Longrightarrow> wait_loop target now = target"
  by (induction target now rule: wait_loop.induct) (subst wait_loop.simps, auto simp: seconds_def)

lemma standby_loop_reaches: "now < target \<Longrightarrow> standby_loop target now = target"
  by (induction target now rule: standby_loop.induct) (subst standby_loop.simps, auto simp: seconds_def)

definition NSE_HOURS :: market_hours where
  "NSE_HOURS = ((9, 15), (15, 30))"

lemma on_day_date: "on_day d (9, 15) \<le> t \<Longrightarrow> t \<le> on_day d (15, 30) \<Longrightarrow> date_of t = d"
  by (simp add: on_day_def date_of_def)

lemma market_open_at:
  assumes "on_day d (9, 15) \<le> t" "t \<le> on_day d (15, 30)"
  shows "market_open False NSE_HOURS cal t \<longleftrightarrow> is_trading_day cal d"
proof -
  have d: "date_of t = d" using on_day_date[OF assms] .
  have m: "0 \<le> microsecond_of t" "microsecond_of t \<le> t - on_day d (9, 15)"
  proof -
    have "on_day d (9, 15) mod 1000000 = 0" by (simp add: on_day_def mod_add_eq mod_mult_eq)
    then have "t mod 1000000 = (t - on_day d (9, 15)) mod 1000000" by (simp add: mod_diff_right_eq[symmetric])
    then show "microsecond_of t \<le> t - on_day d (9, 15)"
      using assms(1) zmod_le_nonneg_dividend[of "t - on_day d (9, 15)" 1000000] by (simp add: microsecond_of_def)
  qed (simp add: microsecond_of_def)
  then show ?thesis using assms by (simp add: market_open_def NSE_HOURS_def at_time_def d on_day_def)
qed

lemma next_trading_day_later: "d < next_trading_day cal d"
  using next_open_first[of "d + 1" cal 30] by (simp add: next_trading_day_def)

text \<open>The day a start-up at \<open>now\<close> aims at.\<close>

definition aimed_day :: "calendar_files \<Rightarrow> instant \<Rightarrow> int" where
  "aimed_day cal now =
     (if on_day (date_of now) (15, 30) < now then next_trading_day cal (date_of now) else date_of now)"

lemma standby_reaches:
  "standby NSE_HOURS cal now = max now (on_day (aimed_day cal now) (9, 15) - minutes 5)"
  using standby_loop_reaches by (simp add: standby_def pre_market_time_def NSE_HOURS_def aimed_day_def max_def)

text \<open>C33: When the process is started, the session begins on the day it aims at - today until the close, then the next
  trading day - at 09:15 or when it is ready, provided it is ready before the close. The market is open at that moment
  exactly when the day is a trading day: on a weekend or holiday before the close the wait ends the same day, at a
  closed market, where the loop over \<open>market_open\<close> ends at once.\<close>

theorem session_begins_on_aimed_day:
  assumes "0 \<le> startup" "standby NSE_HOURS cal now + startup \<le> on_day (aimed_day cal now) (15, 30)"
  shows "session_start False NSE_HOURS cal startup now =
      (if standby NSE_HOURS cal now + startup < on_day (aimed_day cal now) (9, 15)
       then on_day (aimed_day cal now) (9, 15) else standby NSE_HOURS cal now + startup)
    \<and> market_open False NSE_HOURS cal (session_start False NSE_HOURS cal startup now) = is_trading_day cal (aimed_day cal now)"
proof -
  define d where "d = aimed_day cal now"
  define t where "t = standby NSE_HOURS cal now + startup"
  have lo: "on_day d (9, 15) - minutes 5 \<le> t" and hi: "t \<le> on_day d (15, 30)"
    using assms by (auto simp: t_def d_def standby_reaches)
  then have day: "date_of t = d" by (simp add: on_day_def date_of_def minutes_def)
  have early: "\<not> market_open False NSE_HOURS cal t" if "t < on_day d (9, 15)"
  proof -
    have "t < at_time t 9 15" using that day pos_mod_sign[of 1000000 t] by (simp add: at_time_def on_day_def microsecond_of_def)
    then show ?thesis by (simp add: market_open_def NSE_HOURS_def)
  qed
  have "open_target NSE_HOURS cal t = (if t < on_day d (9, 15) then Some (on_day d (9, 15)) else None)"
    using hi by (simp add: open_target_def NSE_HOURS_def day)
  then have start: "session_start False NSE_HOURS cal startup now = max t (on_day d (9, 15))"
    using early wait_loop_reaches[of t "on_day d (9, 15)"]
    by (auto simp: session_start_def t_def[symmetric] wait_for_market_open_def max_def)
  moreover have "market_open False NSE_HOURS cal (max t (on_day d (9, 15))) = is_trading_day cal d"
    using hi by (intro market_open_at) (auto simp: on_day_def)
  ultimately show ?thesis by (simp add: d_def[symmetric] t_def[symmetric] max_def)
qed

subsection \<open>Examples\<close>

definition bare_calendar :: calendar_files where
  "bare_calendar = \<lparr>cf_contracts = [], cf_declared = None\<rparr>"

lemma bare_trading_day: "is_trading_day bare_calendar d \<longleftrightarrow> weekday d < 5"
  by (simp add: bare_calendar_def is_trading_day_iff declared_holidays_def inferred_holidays_def expiry_dates_def)

theorem declared_file_round_trip_witness:
  "map_of (declared_holidays (Some (write_declared [739642] ''by hand'' 0 None))) 739642 = Some NO_CANDLE"
  using declared_file_round_trip[of "[739642]" "''by hand''" 0 None 739642]
  by (simp add: date_ok_def declared_holidays_def[of None])

lemma fetch_texts:
  "fromisoformat (strip ''2026-01-19'') = Some 739635" "fromisoformat (strip ''2026-01-30'') = Some 739646"
  "fromisoformat (strip ''2026-01-23'') = Some 739639" "fromisoformat (strip ''2026-01-27'') = Some 739643"
  by code_simp+

lemma fetch_example:
  "parse_date (JStr ''2026-01-19'') = Some 739635" "parse_date (JStr ''2026-01-30'') = Some 739646"
  "candle_days [''2026-01-23T00:00:00+05:30'', ''2026-01-27T00:00:00+05:30''] = [739639, 739643]"
  "739642 \<in> set (fetch_from_broker 739635 739646 (Some [''2026-01-23T00:00:00+05:30'', ''2026-01-27T00:00:00+05:30'']))"
  unfolding fetched_days by (simp_all add: parse_date_def py_str_def candle_days_def List.map_filter_simps fetch_texts weekday_def)

theorem fetch_closes_proven_days_witness:
  "\<exists>f. calendar_main [''fetch'', ''2026-01-19'', ''2026-01-30''] 0
          (Some [''2026-01-23T00:00:00+05:30'', ''2026-01-27T00:00:00+05:30'']) None = (0, Some f)
     \<and> \<not> is_trading_day \<lparr>cf_contracts = [], cf_declared = Some f\<rparr> 739642"
proof -
  let ?ss = "[''2026-01-23T00:00:00+05:30'', ''2026-01-27T00:00:00+05:30'']"
  obtain f where f: "calendar_main [''fetch'', ''2026-01-19'', ''2026-01-30''] 0 (Some ?ss) None = (0, Some f)"
    using fetch_example(1,2,4) by (fastforce simp: calendar_main_def Let_def)
  then show ?thesis
    using fetch_closes_proven_days[OF f fetch_example(1,2), of "[]" 739642] unfolding fetch_example(3) by auto
qed

theorem session_begins_on_aimed_day_witness:
  "\<not> market_open False NSE_HOURS bare_calendar
       (session_start False NSE_HOURS bare_calendar (seconds 40) (on_day 739640 (8, 0)))
   \<and> session_start False NSE_HOURS bare_calendar (seconds 40) (on_day 739640 (8, 0)) = on_day 739640 (9, 15)"
proof -
  have d: "aimed_day bare_calendar (on_day 739640 (8, 0)) = 739640"
    by (simp add: aimed_day_def date_of_def on_day_def)
  have s: "standby NSE_HOURS bare_calendar (on_day 739640 (8, 0)) = on_day 739640 (9, 10)"
    unfolding standby_reaches d by (simp add: on_day_def minutes_def)
  have t: "on_day 739640 (9, 10) + seconds 40 \<le> on_day 739640 (15, 30)" "on_day 739640 (9, 10) + seconds 40 < on_day 739640 (9, 15)"
    "0 \<le> seconds 40" "weekday 739640 = 5" by (simp_all add: on_day_def seconds_def weekday_def)
  then show ?thesis
    using session_begins_on_aimed_day[of "seconds 40" bare_calendar "on_day 739640 (8, 0)", unfolded d s]
    by (simp only: bare_trading_day if_True) auto
qed

end
