(* ===== verification/Vix.thy ===== *)
theory Vix
  imports Market_Tick "HOL-Library.Sublist"
begin

text \<open>
  India VIX (\<open>utils/helpers.py\<close>): the cached fetch with its two retry intervals, the estimate from recent spot
  prices, and the refresh the trading loop makes of them.  The broker's answer to a request is an input.
\<close>

section \<open>The cached fetch\<close>

text \<open>The value the broker returns, if any, or the text of the exception it raises.\<close>

datatype vix_reply = Ltp "real option" | Raised string

record vix_cache =
  vx_value :: real
  vx_last_fetch :: "instant option"
  vx_client :: bool
  vx_error :: "string option"
  vx_error_at :: "instant option"
  vx_attempt :: "instant option"

definition new_vix_cache :: vix_cache where
  "new_vix_cache =
     \<lparr>vx_value = 15, vx_last_fetch = None, vx_client = False, vx_error = None, vx_error_at = None, vx_attempt = None\<rparr>"

definition set_vix_broker_client :: "bool \<Rightarrow> vix_cache \<Rightarrow> vix_cache" where
  "set_vix_broker_client present c = c\<lparr>vx_client := present\<rparr>"

datatype vix_source = Real_Vix | Cache_Vix | Error_Vix

definition VIX_FETCH_INTERVAL_SEC :: int where
  "VIX_FETCH_INTERVAL_SEC = 60"

definition VIX_ERROR_RETRY_SEC :: int where
  "VIX_ERROR_RETRY_SEC = 300"

definition retry_wait :: "vix_cache \<Rightarrow> int" where
  "retry_wait c = (if get_or '''' (vx_error c) \<noteq> '''' then VIX_ERROR_RETRY_SEC else VIX_FETCH_INTERVAL_SEC)"

definition throttled :: "instant \<Rightarrow> vix_cache \<Rightarrow> bool" where
  "throttled now c = (case vx_attempt c of None \<Rightarrow> False | Some a \<Rightarrow> total_seconds (now - a) < of_int (retry_wait c))"

text \<open>Whether this call asks the broker.\<close>

definition asks_broker :: "instant \<Rightarrow> vix_cache \<Rightarrow> bool" where
  "asks_broker now c \<longleftrightarrow>
     \<not> throttled now c \<and> vx_client c
     \<and> (case vx_last_fetch c of None \<Rightarrow> True
        | Some f \<Rightarrow> of_int VIX_FETCH_INTERVAL_SEC < total_seconds (now - f))"

definition plausible_vix :: "real \<Rightarrow> bool" where
  "plausible_vix v \<longleftrightarrow> v \<noteq> 0 \<and> 5 \<le> v \<and> v \<le> 100"

definition vix_answer :: "instant \<Rightarrow> vix_reply \<Rightarrow> vix_cache \<Rightarrow> vix_cache" where
  "vix_answer now reply c =
     (case reply of
        Ltp (Some v) \<Rightarrow>
          if plausible_vix v
          then c\<lparr>vx_value := v, vx_last_fetch := Some now, vx_error := None, vx_error_at := None\<rparr>
          else c\<lparr>vx_error := Some (if get_or '''' (vx_error c) \<noteq> '''' then get_or '''' (vx_error c) else ''NO_DATA''), vx_error_at := Some now\<rparr>
      | Ltp None \<Rightarrow> c\<lparr>vx_error := Some (if get_or '''' (vx_error c) \<noteq> '''' then get_or '''' (vx_error c) else ''NO_DATA''), vx_error_at := Some now\<rparr>
      | Raised txt \<Rightarrow> c\<lparr>vx_error := (if sublist ''AB4046'' txt then Some ''AB4046'' else None), vx_error_at := Some now\<rparr>)"

definition cached_or_error :: "vix_cache \<Rightarrow> real option \<times> vix_source \<times> string option" where
  "cached_or_error c =
     (if vx_last_fetch c \<noteq> None then (Some (vx_value c), Cache_Vix, vx_error c) else (None, Error_Vix, vx_error c))"

definition accepts :: "vix_reply \<Rightarrow> real option" where
  "accepts reply = (case reply of Ltp (Some v) \<Rightarrow> if plausible_vix v then Some v else None | _ \<Rightarrow> None)"

definition fetch_real_vix_with_meta ::
    "instant \<Rightarrow> vix_reply \<Rightarrow> vix_cache \<Rightarrow> (real option \<times> vix_source \<times> string option) \<times> vix_cache" where
  "fetch_real_vix_with_meta now reply c =
     (if asks_broker now c
      then let c' = vix_answer now reply (c\<lparr>vx_attempt := Some now\<rparr>)
           in (case accepts reply of Some v \<Rightarrow> ((Some v, Real_Vix, None), c') | None \<Rightarrow> (cached_or_error c', c'))
      else (cached_or_error c, c))"

definition fetch_real_vix :: "instant \<Rightarrow> vix_reply \<Rightarrow> vix_cache \<Rightarrow> real \<times> vix_cache" where
  "fetch_real_vix now reply c =
     (let ((v, _), c') = fetch_real_vix_with_meta now reply c in (get_or (vx_value c') v, c'))"

section \<open>The estimate\<close>

definition mean_of :: "real list \<Rightarrow> real" where
  "mean_of xs = sum_list xs / of_nat (length xs)"

text \<open>\<open>statistics.stdev\<close>: the sample standard deviation.\<close>

definition stdev :: "real list \<Rightarrow> real" where
  "stdev xs = sqrt (sum_list (map (\<lambda>x. (x - mean_of xs)\<^sup>2) xs) / of_nat (length xs - 1))"

fun price_returns :: "real list \<Rightarrow> py_error + real list" where
  "price_returns (p # q # ps) =
     (if p = 0 then Inl ZeroDivisionError
      else case price_returns (q # ps) of Inl e \<Rightarrow> Inl e | Inr rs \<Rightarrow> Inr ((q - p) / p # rs))"
| "price_returns ps = Inr []"

definition estimate_vix_from_ticks :: "tick list \<Rightarrow> real \<Rightarrow> py_error + real" where
  "estimate_vix_from_ticks ticks current =
     (if length ticks < 30 then Inr current
      else let prices = map spot_price (last_n 30 ticks)
           in if prices \<noteq> [] \<and> last prices < 1000 then Inr current
              else case price_returns prices of
                     Inl e \<Rightarrow> Inl e
                   | Inr rs \<Rightarrow>
                       if rs = [] then Inr current
                       else let vol = (if 1 < length rs then stdev rs else 0);
                                est = vol * sqrt 252 * 100;
                                moves = map abs (last_n 5 rs);
                                est' = (if moves \<noteq> [] \<and> 0.01 < Max (set moves) then est * (1 + Max (set moves) * 2) else est)
                            in Inr (max 10 (min 40 est')))"

section \<open>The refresh in the loop\<close>

datatype shown_source = Shown vix_source | Estimate

definition refresh_vix ::
    "instant \<Rightarrow> vix_reply \<Rightarrow> tick list \<Rightarrow> real \<Rightarrow> vix_cache \<Rightarrow> (py_error + real \<times> shown_source) \<times> vix_cache" where
  "refresh_vix now reply ticks current c =
     (let ((v, src, err), c') = fetch_real_vix_with_meta now reply c
      in (case v of
            Some x \<Rightarrow>
              if 5 \<le> x \<and> x \<le> 100 \<and> (src = Real_Vix \<or> src = Cache_Vix) then Inr (x, Shown src)
              else map_sum id (\<lambda>e. (e, Estimate)) (estimate_vix_from_ticks ticks current)
          | None \<Rightarrow> map_sum id (\<lambda>e. (e, Estimate)) (estimate_vix_from_ticks ticks current), c'))"

section \<open>What can be relied on\<close>

text \<open>A run of calls and the times of the requests the broker sees.\<close>

fun vix_run :: "(instant \<times> vix_reply) list \<Rightarrow> vix_cache \<Rightarrow> instant list \<times> vix_cache" where
  "vix_run [] c = ([], c)"
| "vix_run ((now, reply) # es) c =
     (let (ts, c') = vix_run es (snd (fetch_real_vix_with_meta now reply c))
      in (if asks_broker now c then now # ts else ts, c'))"

definition vix_ok :: "vix_cache \<Rightarrow> bool" where
  "vix_ok c \<longleftrightarrow> 5 \<le> vx_value c \<and> vx_value c \<le> 100"

lemma vix_answer_attempt [simp]: "vx_attempt (vix_answer now reply c) = vx_attempt c"
  by (auto simp: vix_answer_def split: vix_reply.splits option.splits)

lemma fetch_attempt:
  "vx_attempt (snd (fetch_real_vix_with_meta now reply c)) = (if asks_broker now c then Some now else vx_attempt c)"
  by (simp add: fetch_real_vix_with_meta_def Let_def split: option.split)

lemma vix_answer_ok: "vix_ok c \<Longrightarrow> vix_ok (vix_answer now reply c)"
  by (auto simp: vix_ok_def vix_answer_def plausible_vix_def split: vix_reply.splits option.splits)

lemma fetch_ok: "vix_ok c \<Longrightarrow> vix_ok (snd (fetch_real_vix_with_meta now reply c))"
  using vix_answer_ok[of "c\<lparr>vx_attempt := Some now\<rparr>" now reply]
  by (auto simp: fetch_real_vix_with_meta_def Let_def vix_ok_def split: option.splits)

interpretation vix: invariant_system "\<lambda>c (now, reply). snd (fetch_real_vix_with_meta now reply c)" vix_ok "\<lambda>_. True"
  by unfold_locales (auto intro: fetch_ok)

lemma asks_after:
  assumes "asks_broker now c" "vx_attempt c = Some a"
  shows "a + seconds 60 \<le> now"
proof -
  have "\<not> total_seconds (now - a) < of_int (retry_wait c)" using assms by (simp add: asks_broker_def throttled_def)
  then have "seconds (retry_wait c) \<le> now - a" by (simp add: total_seconds_less_iff)
  then show ?thesis by (auto simp: retry_wait_def VIX_ERROR_RETRY_SEC_def VIX_FETCH_INTERVAL_SEC_def seconds_def split: if_splits)
qed

lemma vix_run_later:
  assumes "sorted (map fst es)" "vx_attempt c = Some a" "t \<in> set (fst (vix_run es c))" 
  shows "a + seconds 60 \<le> t"
  using assms
proof (induction es arbitrary: c a)
  case (Cons e es)
  obtain now reply where e: "e = (now, reply)" by (cases e)
  let ?c = "snd (fetch_real_vix_with_meta now reply c)"
  show ?case
  proof (cases "asks_broker now c")
    case True
    then have "a + seconds 60 \<le> now" using asks_after Cons.prems(2) by blast
    moreover have "now + seconds 60 \<le> t \<or> t = now"
      using Cons.IH[of ?c now] Cons.prems True by (auto simp: e fetch_attempt split: prod.splits)
    ultimately show ?thesis by (auto simp: seconds_def)
  next
    case False
    then show ?thesis using Cons.IH[of ?c a] Cons.prems by (auto simp: e fetch_attempt split: prod.splits)
  qed
qed simp

text \<open>The broker is never asked for the VIX twice within a minute, whatever it answers and however often the loop
  refreshes.\<close>

theorem vix_requests_spaced:
  assumes "sorted (map fst es)"
  shows "sorted_wrt (\<lambda>s t. s + seconds 60 \<le> t) (fst (vix_run es c))"
  using assms
proof (induction es arbitrary: c)
  case (Cons e es)
  obtain now reply where e: "e = (now, reply)" by (cases e)
  let ?c = "snd (fetch_real_vix_with_meta now reply c)"
  have "sorted_wrt (\<lambda>s t. s + seconds 60 \<le> t) (fst (vix_run es ?c))" using Cons by simp
  moreover have "now + seconds 60 \<le> t" if "asks_broker now c" "t \<in> set (fst (vix_run es ?c))" for t
    using vix_run_later[of es ?c now t] Cons.prems that by (simp add: fetch_attempt)
  ultimately show ?case by (auto simp: e split: prod.splits)
qed simp

theorem vix_requests_spaced_witness:
  "sorted_wrt (\<lambda>s t. s + seconds 60 \<le> t)
     (fst (vix_run [(0, Raised ''timeout''), (seconds 30, Ltp None), (seconds 60, Ltp None)]
             (set_vix_broker_client True new_vix_cache)))"
  by (rule vix_requests_spaced) (simp add: seconds_def)

text \<open>An exception whose text does not name AB4046 leaves no error code behind, so the failure is retried after the short
  interval; an empty answer is retried after the long one.\<close>

lemma asks_again:
  assumes "vx_client c" "vx_last_fetch c = None" "vx_attempt c = Some a"
  shows "asks_broker t c \<longleftrightarrow> a + seconds (retry_wait c) \<le> t"
  using assms by (simp add: asks_broker_def throttled_def total_seconds_less_iff) linarith

lemma unnamed_exception_retries_early:
  assumes "vx_client c" "vx_last_fetch c = None" "asks_broker now c" "\<not> sublist ''AB4046'' txt"
  shows "asks_broker t (snd (fetch_real_vix_with_meta now (Raised txt) c)) \<longleftrightarrow> now + seconds 60 \<le> t"
    and "asks_broker t (snd (fetch_real_vix_with_meta now (Ltp None) c)) \<longleftrightarrow> now + seconds 300 \<le> t"
proof -
  have "vx_error (snd (fetch_real_vix_with_meta now (Raised txt) c)) = None"
    "get_or '''' (vx_error (snd (fetch_real_vix_with_meta now (Ltp None) c))) \<noteq> ''''"
    using assms by (auto simp: fetch_real_vix_with_meta_def vix_answer_def accepts_def Let_def get_or_def split: option.splits)
  moreover have "vx_client (snd (fetch_real_vix_with_meta now r c))" "vx_last_fetch (snd (fetch_real_vix_with_meta now r c)) = None"
    if "r = Raised txt \<or> r = Ltp None" for r
    using assms that by (auto simp: fetch_real_vix_with_meta_def vix_answer_def accepts_def Let_def)
  ultimately show "asks_broker t (snd (fetch_real_vix_with_meta now (Raised txt) c)) \<longleftrightarrow> now + seconds 60 \<le> t"
    "asks_broker t (snd (fetch_real_vix_with_meta now (Ltp None) c)) \<longleftrightarrow> now + seconds 300 \<le> t"
    using assms(3) by (simp_all add: asks_again fetch_attempt retry_wait_def VIX_FETCH_INTERVAL_SEC_def VIX_ERROR_RETRY_SEC_def)
qed

lemma estimate_range:
  "estimate_vix_from_ticks ticks current = Inr v \<Longrightarrow> v = current \<or> 10 \<le> v \<and> v \<le> 40"
  by (auto simp: estimate_vix_from_ticks_def Let_def split: if_splits sum.splits)

lemma fetched_in_range:
  "5 \<le> fst (fetch_real_vix now reply (foldl (\<lambda>c (t, r). snd (fetch_real_vix_with_meta t r c)) new_vix_cache es))
   \<and> fst (fetch_real_vix now reply (foldl (\<lambda>c (t, r). snd (fetch_real_vix_with_meta t r c)) new_vix_cache es)) \<le> 100"
proof -
  have "vix_ok (foldl (\<lambda>c (t, r). snd (fetch_real_vix_with_meta t r c)) new_vix_cache es)" (is "vix_ok ?c")
    using vix.inv_run[of new_vix_cache es] by (simp add: vix_ok_def new_vix_cache_def list_all_iff)
  then show ?thesis
    using fetch_ok[of ?c now reply]
    by (auto simp: fetch_real_vix_def fetch_real_vix_with_meta_def Let_def cached_or_error_def accepts_def plausible_vix_def vix_ok_def
        split: vix_reply.splits option.splits prod.splits if_splits)
qed

text \<open>The VIX the loop trades on is always sane: whatever the broker answers, a refresh yields a value between 5 and 100
  if the previous one was, unless it raises because a spot price in the window was zero.\<close>

theorem refreshed_vix_in_range:
  assumes "5 \<le> current" "current \<le> 100" "fst (refresh_vix now reply ticks current c) = Inr (v, src)"
  shows "5 \<le> v \<and> v \<le> 100"
proof (cases "v = current \<or> 10 \<le> v \<and> v \<le> 40")
  case False
  have "estimate_vix_from_ticks ticks current \<noteq> Inr v" using estimate_range[of ticks current v] False by blast
  then show ?thesis
    using assms(3) by (auto simp: refresh_vix_def map_sum_def split: prod.splits option.splits if_splits sum.splits)
qed (use assms in auto)

theorem refreshed_vix_in_range_witness:
  "\<exists>v src. fst (refresh_vix 0 (Raised ''timeout'') [] 15 new_vix_cache) = Inr (v, src) \<and> 5 \<le> v \<and> v \<le> 100"
proof -
  have "fst (refresh_vix 0 (Raised ''timeout'') [] 15 new_vix_cache) = Inr (15, Estimate)"
    by (simp add: refresh_vix_def fetch_real_vix_with_meta_def new_vix_cache_def asks_broker_def cached_or_error_def
        estimate_vix_from_ticks_def)
  with refreshed_vix_in_range[of 15 0 "Raised ''timeout''" "[]" new_vix_cache 15 Estimate] show ?thesis by auto
qed

end
