(* ===== verification/Sql_Table.thy ===== *)
theory Sql_Table
  imports Iso_Date "HOL-Library.Char_ord" "HOL-Library.List_Lexorder"
begin

text \<open>
  What \<open>core/services/database.py\<close> uses of SQLite: tables with AUTOINCREMENT ids, defaults, NOT NULL and UNIQUE
  columns, INSERT, INSERT OR REPLACE, UPDATE, DELETE with a LIMIT, and selections ordered by a text column.  Times are
  stored as text; the section at the end shows that the text order is the order in time.  A cell keeps the type it was
  bound with; SQLite's column affinity - a number written to a TEXT column is stored as its text - is not modelled.  It
  matters only for an order id given as a number, and the ids are strings (the broker's \<open>orderid\<close>, or \<open>PAPER_...\<close>).
\<close>

section \<open>Values\<close>

text \<open>Python values as they are handed to a statement, and the cells of a row. \<open>Json v\<close> is the text \<open>json.dumps\<close> makes of
  \<open>v\<close>; no statement looks into it.\<close>

datatype pyval = PNone | PBool bool | PNum real | PStr string | PTime instant | PList "pyval list" | PDict "(string \<times> pyval) list"

datatype cell = Null | Num real | Text string | Json pyval

type_synonym pydict = "(string \<times> pyval) list"

definition dict_get :: "pydict \<Rightarrow> string \<Rightarrow> pyval \<Rightarrow> pyval" where
  "dict_get d k dflt = (case map_of d k of None \<Rightarrow> dflt | Some v \<Rightarrow> v)"

definition py_true :: "pyval \<Rightarrow> bool" where
  "py_true v = (case v of PNone \<Rightarrow> False | PBool b \<Rightarrow> b | PNum x \<Rightarrow> x \<noteq> 0 | PStr s \<Rightarrow> s \<noteq> '''' | PTime _ \<Rightarrow> True
                  | PList xs \<Rightarrow> xs \<noteq> [] | PDict kvs \<Rightarrow> kvs \<noteq> [])"

text \<open>\<open>value.isoformat(sep=' ', timespec='seconds')\<close>.\<close>

definition second_of :: "instant \<Rightarrow> int" where
  "second_of t = t div 1000000 mod 60"

definition db_text :: "instant \<Rightarrow> string" where
  "db_text t = isoformat (date_of t) @ '' '' @ padded 2 (nat (hour_of t)) @ '':'' @ padded 2 (nat (minute_of t)) @ '':''
     @ padded 2 (nat (second_of t))"

definition db_timestamp :: "pyval \<Rightarrow> pyval" where
  "db_timestamp v = (case v of PTime t \<Rightarrow> PStr (db_text t) | _ \<Rightarrow> v)"

text \<open>Binding a parameter; lists and dictionaries are refused.\<close>

definition bind :: "pyval \<Rightarrow> cell option" where
  "bind v = (case v of PNone \<Rightarrow> Some Null | PBool b \<Rightarrow> Some (Num (if b then 1 else 0)) | PNum x \<Rightarrow> Some (Num x)
               | PStr s \<Rightarrow> Some (Text s) | PTime t \<Rightarrow> Some (Text (db_text t)) | PList _ \<Rightarrow> None | PDict _ \<Rightarrow> None)"

definition dumps :: "pyval \<Rightarrow> cell option" where
  "dumps v = Some (Json v)"

section \<open>Tables\<close>

datatype db_error = Integrity_Error | Interface_Error | Type_Error | Locked_Error | Operational_Error

datatype col_default = No_Default | Default cell | Current_Timestamp

record column =
  co_name :: string
  co_not_null :: bool
  co_unique :: bool
  co_default :: col_default

type_synonym row = "string \<Rightarrow> cell"

record table =
  tb_columns :: "column list"
  tb_rows :: "row list"
  tb_last :: int

text \<open>The local clock and SQLite's, which is UTC.\<close>

record clock =
  ck_local :: instant
  ck_utc :: instant

definition new_table :: "column list \<Rightarrow> table" where
  "new_table cols = \<lparr>tb_columns = cols, tb_rows = [], tb_last = 0\<rparr>"

definition column_of :: "table \<Rightarrow> string \<Rightarrow> column option" where
  "column_of tb c = find (\<lambda>co. co_name co = c) (tb_columns tb)"

definition default_cell :: "clock \<Rightarrow> table \<Rightarrow> string \<Rightarrow> cell" where
  "default_cell clk tb c =
     (case column_of tb c of None \<Rightarrow> Null
      | Some co \<Rightarrow> (case co_default co of No_Default \<Rightarrow> Null | Default v \<Rightarrow> v | Current_Timestamp \<Rightarrow> Text (db_text (ck_utc clk))))"

definition new_row :: "clock \<Rightarrow> (string \<times> cell option) list \<Rightarrow> table \<Rightarrow> row" where
  "new_row clk vals tb =
     (\<lambda>c. if c = ''id'' then Num (of_int (tb_last tb + 1))
          else case map_of vals c of Some v \<Rightarrow> (case v of Some x \<Rightarrow> x | None \<Rightarrow> Null) | None \<Rightarrow> default_cell clk tb c)"

definition violates_not_null :: "table \<Rightarrow> row \<Rightarrow> bool" where
  "violates_not_null tb r \<longleftrightarrow> list_ex (\<lambda>co. co_not_null co \<and> r (co_name co) = Null) (tb_columns tb)"

definition conflicts :: "table \<Rightarrow> row \<Rightarrow> row \<Rightarrow> bool" where
  "conflicts tb r r' \<longleftrightarrow>
     list_ex (\<lambda>co. co_unique co \<and> r (co_name co) \<noteq> Null \<and> r (co_name co) = r' (co_name co)) (tb_columns tb)"

definition append_row :: "row \<Rightarrow> table \<Rightarrow> table" where
  "append_row r tb = tb\<lparr>tb_rows := tb_rows tb @ [r], tb_last := tb_last tb + 1\<rparr>"

text \<open>INSERT: the new id, or the error that leaves the table alone.\<close>

definition insert_row :: "clock \<Rightarrow> (string \<times> cell option) list \<Rightarrow> table \<Rightarrow> db_error + int \<times> table" where
  "insert_row clk vals tb =
     (let r = new_row clk vals tb
      in if list_ex (\<lambda>(_, v). v = None) vals then Inl Interface_Error
         else if violates_not_null tb r \<or> list_ex (conflicts tb r) (tb_rows tb) then Inl Integrity_Error
         else Inr (tb_last tb + 1, append_row r tb))"

text \<open>INSERT OR REPLACE: rows that conflict are deleted; a missing value takes the default of its column.\<close>

definition replace_row :: "clock \<Rightarrow> (string \<times> cell option) list \<Rightarrow> table \<Rightarrow> db_error + int \<times> table" where
  "replace_row clk vals tb =
     (let r0 = new_row clk vals tb;
          r = (\<lambda>c. if r0 c = Null \<and> list_ex (\<lambda>co. co_name co = c \<and> co_not_null co) (tb_columns tb) then default_cell clk tb c else r0 c)
      in if list_ex (\<lambda>(_, v). v = None) vals then Inl Interface_Error
         else if violates_not_null tb r then Inl Integrity_Error
         else Inr (tb_last tb + 1, append_row r (tb\<lparr>tb_rows := filter (\<lambda>r'. \<not> conflicts tb r r') (tb_rows tb)\<rparr>)))"

definition set_cells :: "(string \<times> cell option) list \<Rightarrow> row \<Rightarrow> row" where
  "set_cells vals r = (\<lambda>c. case map_of vals c of Some (Some x) \<Rightarrow> x | _ \<Rightarrow> r c)"

text \<open>UPDATE of columns that are neither UNIQUE nor NOT NULL: the number of rows changed.\<close>

definition update_rows :: "(row \<Rightarrow> bool) \<Rightarrow> (string \<times> cell option) list \<Rightarrow> table \<Rightarrow> db_error + int \<times> table" where
  "update_rows p vals tb =
     (if list_ex (\<lambda>(_, v). v = None) vals then Inl Interface_Error
      else Inr (int (length (filter p (tb_rows tb))),
                tb\<lparr>tb_rows := map (\<lambda>r. if p r then set_cells vals r else r) (tb_rows tb)\<rparr>))"

text \<open>DELETE of the first \<open>n\<close> rows that satisfy \<open>p\<close>.\<close>

fun delete_some :: "nat \<Rightarrow> ('r \<Rightarrow> bool) \<Rightarrow> 'r list \<Rightarrow> 'r list" where
  "delete_some 0 p rs = rs"
| "delete_some (Suc n) p [] = []"
| "delete_some (Suc n) p (r # rs) = (if p r then delete_some n p rs else r # delete_some (Suc n) p rs)"

text \<open>Comparisons with a text; a null satisfies none of them.\<close>

definition is_text :: "string \<Rightarrow> cell \<Rightarrow> bool" where
  "is_text s c \<longleftrightarrow> c = Text s"

definition text_less :: "cell \<Rightarrow> string \<Rightarrow> bool" where
  "text_less c s = (case c of Text t \<Rightarrow> t < s | Num _ \<Rightarrow> True | _ \<Rightarrow> False)"

text \<open>\<open>date(x)\<close> for a text that begins with a date, as \<open>YYYY-MM-DD\<close>.\<close>

definition sql_date :: "cell \<Rightarrow> string option" where
  "sql_date c =
     (case c of
        Text s \<Rightarrow> (case fromisoformat (take 10 s) of
                     Some d \<Rightarrow> if isoformat d = take 10 s then Some (take 10 s) else None
                   | None \<Rightarrow> None)
      | _ \<Rightarrow> None)"

definition text_key :: "cell \<Rightarrow> string" where
  "text_key c = (case c of Text s \<Rightarrow> s | _ \<Rightarrow> '''')"

text \<open>ORDER BY a text column; equal keys stay in the order of the table.\<close>

definition order_asc :: "string \<Rightarrow> row list \<Rightarrow> row list" where
  "order_asc c rs = sort_key (\<lambda>r. text_key (r c)) rs"

definition order_desc :: "string \<Rightarrow> row list \<Rightarrow> row list" where
  "order_desc c rs = rev (sort_key (\<lambda>r. text_key (r c)) (rev rs))"

definition first_row :: "row list \<Rightarrow> row option" where
  "first_row rs = (case rs of [] \<Rightarrow> None | r # _ \<Rightarrow> Some r)"

text \<open>\<open>ROUND(x, 2)\<close>: halves away from zero.\<close>

definition sql_round2 :: "real \<Rightarrow> real" where
  "sql_round2 x = (if x < 0 then - of_int \<lfloor>- x * 100 + 1/2\<rfloor> / 100 else of_int \<lfloor>x * 100 + 1/2\<rfloor> / 100)"

definition cell_num :: "cell \<Rightarrow> real" where
  "cell_num c = (case c of Num x \<Rightarrow> x | _ \<Rightarrow> 0)"

section \<open>Schema changes\<close>

definition open_table :: "column list \<Rightarrow> table option \<Rightarrow> table" where
  "open_table cols old = (case old of None \<Rightarrow> new_table cols | Some tb \<Rightarrow> tb)"

text \<open>\<open>ALTER TABLE ADD COLUMN name type\<close>: nullable and without a default.\<close>

definition plain_column :: "string \<Rightarrow> column" where
  "plain_column name = \<lparr>co_name = name, co_not_null = False, co_unique = False, co_default = No_Default\<rparr>"

definition ensure_table_columns :: "string list \<Rightarrow> table \<Rightarrow> table" where
  "ensure_table_columns names tb =
     foldl (\<lambda>tb' name. tb'\<lparr>tb_columns := tb_columns tb' @ [plain_column name]\<rparr>) tb
       (filter (\<lambda>name. name \<noteq> ''id'' \<and> \<not> list_ex (\<lambda>co. co_name co = name) (tb_columns tb)) names)"

section \<open>Lemmas\<close>

lemma delete_some_count:
  "length (delete_some n p rs) + min n (length (filter p rs)) = length rs"
  by (induction n p rs rule: delete_some.induct) auto

lemma delete_some_keeps: "filter (\<lambda>r. \<not> p r) (delete_some n p rs) = filter (\<lambda>r. \<not> p r) rs"
  by (induction n p rs rule: delete_some.induct) auto

lemma delete_some_rest: "length (filter p (delete_some n p rs)) = length (filter p rs) - n"
  by (induction n p rs rule: delete_some.induct) auto

lemma update_rows_conv:
  "update_rows p vals tb = Inr (n, tb') \<longleftrightarrow> \<not> list_ex (\<lambda>(_, v). v = None) vals
     \<and> n = int (length (filter p (tb_rows tb)))
     \<and> tb' = tb\<lparr>tb_rows := map (\<lambda>r. if p r then set_cells vals r else r) (tb_rows tb)\<rparr>"
  by (auto simp: update_rows_def)

lemma ensure_keeps_rows [simp]: "tb_rows (ensure_table_columns names tb) = tb_rows tb"
proof -
  have "tb_rows (foldl (\<lambda>tb' name. tb'\<lparr>tb_columns := tb_columns tb' @ [plain_column name]\<rparr>) tb xs) = tb_rows tb" for xs
    by (induction xs arbitrary: tb) simp_all
  then show ?thesis by (simp add: ensure_table_columns_def)
qed

section \<open>The order of time stamps\<close>

lemma append_less_iff:
  fixes xs ys us vs :: "'a::linorder list"
  assumes "length xs = length ys"
  shows "xs @ us < ys @ vs \<longleftrightarrow> xs < ys \<or> xs = ys \<and> us < vs"
  using assms by (induction xs ys rule: list_induct2) auto

lemma digit_less: "digit m < digit n \<longleftrightarrow> m mod 10 < n mod 10"
  using digit_value[of m] digit_value[of n] by (simp add: less_char_def)

lemma padded_less: "m < 10 ^ k \<Longrightarrow> n < 10 ^ k \<Longrightarrow> m < n \<Longrightarrow> padded k m < padded k n"
proof (induction k arbitrary: m n)
  case (Suc k)
  have lt: "m div 10 < 10 ^ k" "n div 10 < 10 ^ k" using Suc.prems by auto
  show ?case
  proof (cases "m div 10 < n div 10")
    case True
    then show ?thesis using Suc.IH[OF lt True] by (simp add: append_less_iff)
  next
    case False
    then have "m div 10 = n div 10" using Suc.prems by (simp add: div_le_mono le_antisym)
    moreover have "m mod 10 < n mod 10" using calculation Suc.prems by (metis add_less_cancel_left div_mult_mod_eq)
    ultimately show ?thesis by (simp add: append_less_iff digit_less)
  qed
qed simp

lemma padded_cmp:
  assumes "m < 10 ^ k" "n < 10 ^ k"
  shows "padded k m @ us < padded k n @ vs \<longleftrightarrow> m < n \<or> m = n \<and> us < vs"
  using padded_less[of m k n] padded_less[of n k m] assms
  by (cases m n rule: linorder_cases) (auto simp: append_less_iff)

lemma year_of_day_mono: "d \<le> e \<Longrightarrow> year_of_day d \<le> year_of_day e"
  using year_of_day[of d] year_of_day[of e] year_start_mono[of "year_of_day e + 1" "year_of_day d"] by linarith

lemma days_before_le: "a \<le> b \<Longrightarrow> days_before y a \<le> days_before y b"
proof (induction rule: dec_induct)
  case (step n)
  then show ?case using month_length_pos[of y n] by (simp add: days_before_Suc)
qed simp

lemma civil_less:
  assumes "d < e" "civil d = (y, m, k)" "civil e = (y', m', k')"
  shows "y < y' \<or> y = y' \<and> (m < m' \<or> m = m' \<and> k < k')"
proof -
  have y: "y \<le> y'" using year_of_day_mono[of "d - UNIX_ORDINAL" "e - UNIX_ORDINAL"] assms by (auto simp: civil_def Let_def)
  note D = civil_ordinal[OF assms(2)] and E = civil_ordinal[OF assms(3)]
  have "m < m' \<or> m = m' \<and> k < k'" if "y = y'"
  proof (rule ccontr)
    assume n: "\<not> ?thesis"
    then have "ordinal_of y m' k' \<le> ordinal_of y m k"
    proof (cases "m' < m")
      case True
      then have "days_before y (Suc (m' - 1)) \<le> days_before y (m - 1)" using E(2) by (intro days_before_le) simp
      then show ?thesis using D(4) E(5) that by (simp add: ordinal_of_def days_before_Suc)
    qed (use n in \<open>auto simp: ordinal_of_def\<close>)
    then show False using D(1) E(1) assms(1) that by simp
  qed
  then show ?thesis using y by auto
qed

lemma isoformat_less:
  assumes "date_ok d" "date_ok e" "d < e"
  shows "isoformat d < isoformat e"
proof -
  obtain y m k y' m' k' where c: "civil d = (y, m, k)" "civil e = (y', m', k')" by (metis prod_cases3)
  have b: "1 \<le> y" "y \<le> 9999" "1 \<le> y'" "y' \<le> 9999" "m \<le> 12" "m' \<le> 12" "1 \<le> k" "k \<le> 31" "1 \<le> k'" "k' \<le> 31"
    using civil_year[OF assms(1) c(1)] civil_year[OF assms(2) c(2)] civil_ordinal[OF c(1)] civil_ordinal[OF c(2)]
      month_length_pos[of y "m - 1"] month_length_pos[of y' "m' - 1"] by auto
  have n: "nat y < 10 ^ 4" "nat y' < 10 ^ 4" "m < 10 ^ 2" "m' < 10 ^ 2" "nat k < 10 ^ 2" "nat k' < 10 ^ 2"
    using b by (auto simp: nat_less_iff)
  show ?thesis
    using civil_less[OF assms(3) c] b padded_cmp[OF n(5,6), of "[]" "[]"]
    by (auto simp: isoformat_def c padded_cmp[OF n(1,2)] padded_cmp[OF n(3,4)] append_less_iff)
qed

lemma length_isoformat [simp]: "length (isoformat d) = 10"
  by (simp add: isoformat_def split: prod.split)

definition time_ok :: "instant \<Rightarrow> bool" where
  "time_ok t \<longleftrightarrow> date_ok (date_of t)"

lemma clock_parts:
  "date_of x = x div 1000000 div 60 div 60 div 24" "hour_of x = x div 1000000 div 60 div 60 mod 24"
  "minute_of x = x div 1000000 div 60 mod 60"
  by (simp_all add: date_of_def hour_of_def minute_of_def flip: zdiv_zmult2_eq)

text \<open>Clock texts are ordered like the times they were written at, to the second.\<close>

lemma db_text_less:
  assumes "time_ok s" "time_ok t" "s div 1000000 < t div 1000000"
  shows "db_text s < db_text t"
proof -
  have parts: "x div 1000000 = date_of x * 86400 + hour_of x * 3600 + minute_of x * 60 + second_of x" for x
    using mult_div_mod_eq[of 60 "x div 1000000"] mult_div_mod_eq[of 60 "x div 1000000 div 60"]
      mult_div_mod_eq[of 24 "x div 1000000 div 60 div 60"]
    unfolding clock_parts second_of_def by linarith
  have range: "0 \<le> hour_of x" "hour_of x < 24" "0 \<le> minute_of x" "minute_of x < 60" "0 \<le> second_of x" "second_of x < 60" for x
    by (simp_all add: hour_of_def minute_of_def second_of_def)
  have n: "nat (hour_of x) < 10 ^ 2" "nat (minute_of x) < 10 ^ 2" "nat (second_of x) < 10 ^ 2" for x
    using range[of x] by (auto simp: nat_less_iff)
  have "date_of s < date_of t \<or> date_of s = date_of t \<and> (hour_of s < hour_of t \<or> hour_of s = hour_of t
      \<and> (minute_of s < minute_of t \<or> minute_of s = minute_of t \<and> second_of s < second_of t))"
    using assms(3) range[of s] range[of t] unfolding parts by arith
  then show ?thesis
    using isoformat_less[of "date_of s" "date_of t"] assms range[of s] range[of t] padded_cmp[OF n(3)[of s] n(3)[of t], of "[]" "[]"]
    by (auto simp: db_text_def append_less_iff padded_cmp[OF n(1) n(1)] padded_cmp[OF n(2) n(2)] time_ok_def nat_less_eq_zless)
qed

lemma db_text_cmp:
  assumes "time_ok s" "time_ok t"
  shows "db_text s < db_text t \<longleftrightarrow> s div 1000000 < t div 1000000"
proof -
  have "db_text s = db_text t" if "s div 1000000 = t div 1000000"
  proof -
    have "date_of s = date_of t" "hour_of s = hour_of t" "minute_of s = minute_of t" "second_of s = second_of t"
      using that unfolding clock_parts second_of_def by simp_all
    then show ?thesis by (simp add: db_text_def)
  qed
  then show ?thesis using db_text_less[OF assms] db_text_less[OF assms(2,1)]
    by (metis less_asym linorder_cases order_less_irrefl)
qed

lemma sql_date_db_text: "time_ok t \<Longrightarrow> sql_date (Text (db_text t)) = Some (isoformat (date_of t))"
  by (simp add: sql_date_def db_text_def iso_round_trip time_ok_def)

end
