(* ===== verification/Db_Schema.thy ===== *)
theory Db_Schema
  imports Sql_Table
begin

text \<open>
  The schema of the trade database (\<open>DatabaseManager._init_schema\<close>): the tables it creates, the columns it adds to
  tables of an older file, and the retries while the file is locked.  A database maps table names to tables; the
  indexes only affect speed.
\<close>

definition col :: "string \<Rightarrow> bool \<Rightarrow> bool \<Rightarrow> col_default \<Rightarrow> column" where
  "col name nn u d = \<lparr>co_name = name, co_not_null = nn, co_unique = u, co_default = d\<rparr>"

section \<open>Tables\<close>

definition trades_columns :: "column list" where
  "trades_columns =
     [col ''order_id'' False True No_Default, col ''symbol'' True False No_Default,
      col ''direction'' True False No_Default, col ''side'' True False No_Default, col ''qty'' True False No_Default,
      plain_column ''entry_price'', plain_column ''exit_price'', plain_column ''entry_time'',
      plain_column ''exit_time'', plain_column ''entry_reason'', plain_column ''exit_reason'',
      col ''pnl'' False False (Default (Num 0)), col ''pnl_pct'' False False (Default (Num 0)),
      col ''hold_time_sec'' False False (Default (Num 0)), col ''mfe'' False False (Default (Num 0)),
      col ''mae'' False False (Default (Num 0)), plain_column ''score'', plain_column ''confidence'',
      plain_column ''market_quality_score'', plain_column ''market_quality_grade'',
      plain_column ''market_quality_components'', plain_column ''hard_reject_reason'',
      plain_column ''risk_budget_used'', plain_column ''risk_amount'', plain_column ''allocation_grade'',
      plain_column ''position_size_breakdown'', plain_column ''factors'', plain_column ''greeks'',
      col ''status'' False False (Default (Text ''OPEN'')), col ''created_at'' False False Current_Timestamp]"

definition daily_summary_columns :: "column list" where
  "daily_summary_columns =
     [col ''date'' True True No_Default, col ''total_trades'' False False (Default (Num 0)),
      col ''winning_trades'' False False (Default (Num 0)), col ''losing_trades'' False False (Default (Num 0)),
      col ''total_pnl'' False False (Default (Num 0)), col ''max_profit'' False False (Default (Num 0)),
      col ''max_loss'' False False (Default (Num 0)), col ''win_rate'' False False (Default (Num 0)),
      col ''profit_factor'' False False (Default (Num 0)), col ''avg_win'' False False (Default (Num 0)),
      col ''avg_loss'' False False (Default (Num 0)), col ''best_trade_pnl'' False False (Default (Num 0)),
      col ''worst_trade_pnl'' False False (Default (Num 0)), col ''avg_hold_time_sec'' False False (Default (Num 0)),
      col ''ce_trades'' False False (Default (Num 0)), col ''pe_trades'' False False (Default (Num 0)),
      col ''ce_pnl'' False False (Default (Num 0)), col ''pe_pnl'' False False (Default (Num 0)),
      col ''kill_switch_triggered'' False False (Default (Num 0)), col ''created_at'' False False Current_Timestamp]"

definition ticks_columns :: "column list" where
  "ticks_columns =
     [col ''timestamp'' True False No_Default, plain_column ''symbol'', col ''ltp'' True False No_Default,
      plain_column ''bid'', plain_column ''ask'', plain_column ''volume'', plain_column ''spot_price'',
      plain_column ''oi'', col ''created_at'' False False Current_Timestamp]"

definition bot_state_columns :: "column list" where
  "bot_state_columns =
     [col ''date'' True False No_Default, col ''daily_pnl'' False False (Default (Num 0)),
      col ''total_trades'' False False (Default (Num 0)), col ''winning_trades'' False False (Default (Num 0)),
      col ''losing_trades'' False False (Default (Num 0)), col ''consecutive_losses'' False False (Default (Num 0)),
      col ''state'' False False (Default (Text ''IDLE'')), col ''last_update'' False False Current_Timestamp]"

definition signals_columns :: "column list" where
  "signals_columns =
     [col ''timestamp'' True False No_Default, plain_column ''direction'', plain_column ''weighted_score'',
      plain_column ''score'', plain_column ''confidence'', plain_column ''market_quality_pass'',
      plain_column ''market_quality_pct'', plain_column ''market_quality_score'',
      plain_column ''market_quality_grade'', plain_column ''market_quality_components'',
      plain_column ''hard_reject_reason'', plain_column ''bull_score'', plain_column ''bear_score'',
      plain_column ''factors'', plain_column ''regime'', plain_column ''rsi'', plain_column ''macd_hist'',
      plain_column ''score_breakdown'', plain_column ''confidence_breakdown'',
      col ''was_taken'' False False (Default (Num 0)), plain_column ''result'',
      col ''created_at'' False False Current_Timestamp]"

definition dvf_signals_columns :: "column list" where
  "dvf_signals_columns =
     [col ''decision_id'' False True No_Default, plain_column ''parent_decision_id'',
      col ''timestamp'' True False No_Default, plain_column ''direction'', plain_column ''session_type'',
      plain_column ''strategy_name'', plain_column ''strategy_version'', plain_column ''engine_version'',
      plain_column ''config_hash'', plain_column ''weighted_score'', plain_column ''confidence'',
      plain_column ''market_quality_score'', plain_column ''market_quality_grade'',
      plain_column ''position_size_recommendation'', plain_column ''allocation_grade'', plain_column ''regime'',
      plain_column ''regime_snapshot'', plain_column ''spread'', plain_column ''volume'', plain_column ''greeks'',
      plain_column ''indicators_snapshot'', plain_column ''score_breakdown'', plain_column ''confidence_breakdown'',
      plain_column ''market_quality_components'', plain_column ''position_size_breakdown'',
      col ''accepted'' False False (Default (Num 0)), col ''rejected'' False False (Default (Num 0)),
      plain_column ''reject_reason'', col ''hard_reject'' False False (Default (Num 0)),
      plain_column ''hard_reject_reason'', plain_column ''result'', col ''created_at'' False False Current_Timestamp]"

definition dvf_trades_columns :: "column list" where
  "dvf_trades_columns =
     [col ''decision_id'' True False No_Default, col ''status'' False False (Default (Text ''OPEN'')),
      plain_column ''direction'', plain_column ''session_type'', plain_column ''strategy_version'',
      plain_column ''engine_version'', plain_column ''config_hash'', plain_column ''position_size'',
      plain_column ''allocation_grade'', plain_column ''market_quality_grade'',
      col ''risk_amount'' False False (Default (Num 0)), plain_column ''virtual_entry_time'',
      plain_column ''virtual_entry_price'', plain_column ''virtual_exit_time'', plain_column ''virtual_exit_price'',
      col ''pnl'' False False (Default (Num 0)), col ''pnl_pct'' False False (Default (Num 0)),
      col ''hold_time_sec'' False False (Default (Num 0)), col ''mfe'' False False (Default (Num 0)),
      col ''mae'' False False (Default (Num 0)), plain_column ''slippage_model'', plain_column ''exit_reason'',
      plain_column ''notes'', col ''created_at'' False False Current_Timestamp]"

definition dvf_reports_columns :: "column list" where
  "dvf_reports_columns =
     [col ''report_type'' True False No_Default, col ''report_date'' True False No_Default,
      col ''payload'' True False No_Default, col ''created_at'' False False Current_Timestamp]"

definition dvf_calibration_columns :: "column list" where
  "dvf_calibration_columns =
     [col ''calibration_type'' True False No_Default, col ''as_of_date'' True False No_Default,
      col ''payload'' True False No_Default, col ''created_at'' False False Current_Timestamp]"

definition active_positions_columns :: "column list" where
  "active_positions_columns =
     [col ''order_id'' False True No_Default, col ''symbol'' True False No_Default,
      col ''direction'' True False No_Default, col ''side'' True False No_Default, col ''qty'' True False No_Default,
      col ''entry_price'' True False No_Default, col ''entry_time'' True False No_Default,
      plain_column ''stop_loss'', plain_column ''take_profit'', plain_column ''current_price'',
      col ''unrealized_pnl'' False False (Default (Num 0)), plain_column ''session_id'',
      plain_column ''broker_order_id'', col ''last_update'' False False Current_Timestamp,
      col ''status'' False False (Default (Text ''ACTIVE''))]"

section \<open>Columns added to older files\<close>

definition trades_added :: "string list" where
  "trades_added = [''market_quality_score'', ''market_quality_grade'', ''market_quality_components'',
      ''hard_reject_reason'', ''risk_budget_used'', ''risk_amount'', ''allocation_grade'',
      ''position_size_breakdown'', ''mfe'', ''mae'']"

definition signals_added :: "string list" where
  "signals_added = [''weighted_score'', ''market_quality_pass'', ''market_quality_pct'', ''market_quality_score'',
      ''market_quality_grade'', ''market_quality_components'', ''hard_reject_reason'', ''score_breakdown'',
      ''confidence_breakdown'']"

definition dvf_signals_added :: "string list" where
  "dvf_signals_added = [''decision_id'', ''parent_decision_id'', ''session_type'', ''strategy_name'',
      ''strategy_version'', ''engine_version'', ''config_hash'', ''weighted_score'', ''confidence'',
      ''market_quality_score'', ''market_quality_grade'', ''position_size_recommendation'', ''allocation_grade'',
      ''regime'', ''regime_snapshot'', ''spread'', ''volume'', ''greeks'', ''indicators_snapshot'',
      ''score_breakdown'', ''confidence_breakdown'', ''market_quality_components'', ''position_size_breakdown'',
      ''accepted'', ''rejected'', ''reject_reason'', ''hard_reject'', ''hard_reject_reason'', ''result'']"

definition dvf_trades_added :: "string list" where
  "dvf_trades_added = [''decision_id'', ''status'', ''direction'', ''session_type'', ''strategy_version'',
      ''engine_version'', ''config_hash'', ''position_size'', ''allocation_grade'', ''market_quality_grade'',
      ''risk_amount'', ''virtual_entry_time'', ''virtual_entry_price'', ''virtual_exit_time'', ''virtual_exit_price'',
      ''pnl'', ''pnl_pct'', ''hold_time_sec'', ''mfe'', ''mae'', ''slippage_model'', ''exit_reason'', ''notes'']"

definition dvf_reports_added :: "string list" where
  "dvf_reports_added = [''report_type'', ''report_date'', ''payload'']"

definition dvf_calibration_added :: "string list" where
  "dvf_calibration_added = [''calibration_type'', ''as_of_date'', ''payload'']"

section \<open>Creating and migrating\<close>

type_synonym database = "string \<Rightarrow> table"

definition schema :: "(string \<times> column list \<times> string list) list" where
  "schema =
     [(''trades'', trades_columns, trades_added), (''daily_summary'', daily_summary_columns, []),
      (''ticks'', ticks_columns, []), (''bot_state'', bot_state_columns, []), (''signals'', signals_columns, signals_added),
      (''dvf_signals'', dvf_signals_columns, dvf_signals_added), (''dvf_trades'', dvf_trades_columns, dvf_trades_added),
      (''dvf_reports'', dvf_reports_columns, dvf_reports_added),
      (''dvf_calibration'', dvf_calibration_columns, dvf_calibration_added),
      (''active_positions'', active_positions_columns, [])]"

text \<open>The file before: \<open>None\<close> where it has no such table.\<close>

definition init_schema :: "(string \<Rightarrow> table option) \<Rightarrow> database" where
  "init_schema old =
     (\<lambda>name. case map_of schema name of
        Some (cols, added) \<Rightarrow> ensure_table_columns added (open_table cols (old name))
      | None \<Rightarrow> open_table [] (old name))"

definition SCHEMA_INIT_MAX_RETRIES :: nat where
  "SCHEMA_INIT_MAX_RETRIES = 8"

text \<open>What SQLite does at each attempt: \<open>None\<close> when it succeeds.\<close>

fun init_attempts :: "nat \<Rightarrow> (nat \<Rightarrow> db_error option) \<Rightarrow> nat \<Rightarrow> db_error + nat" where
  "init_attempts 0 outcome k = Inl Locked_Error"
| "init_attempts (Suc n) outcome k =
     (case outcome k of
        None \<Rightarrow> Inr k
      | Some e \<Rightarrow> if e \<noteq> Locked_Error then Inl e else if n = 0 then Inl Locked_Error else init_attempts n outcome (Suc k))"

definition init_schema_with_retry :: "(nat \<Rightarrow> db_error option) \<Rightarrow> (string \<Rightarrow> table option) \<Rightarrow> db_error + database" where
  "init_schema_with_retry outcome old =
     (case init_attempts SCHEMA_INIT_MAX_RETRIES outcome 1 of Inl e \<Rightarrow> Inl e | Inr _ \<Rightarrow> Inr (init_schema old))"

lemma init_keeps_rows: "old name = Some tb \<Longrightarrow> tb_rows (init_schema old name) = tb_rows tb"
  by (simp add: init_schema_def open_table_def split: option.split)

lemma init_attempts_locked:
  "(\<forall>j<n. outcome (k + j) = Some Locked_Error) \<Longrightarrow> init_attempts n outcome k = Inl Locked_Error"
proof (induction n arbitrary: k)
  case (Suc n)
  have "\<forall>j<n. outcome (Suc k + j) = Some Locked_Error" using Suc.prems by force
  then show ?case using Suc.IH[of "Suc k"] Suc.prems by auto
qed simp

lemma init_attempts_wait:
  assumes "j < n" "outcome (k + j) = None" "\<forall>i<j. outcome (k + i) = Some Locked_Error"
  shows "init_attempts n outcome k = Inr (k + j)"
  using assms
proof (induction n arbitrary: j k)
  case (Suc n)
  show ?case
  proof (cases j)
    case 0
    then show ?thesis using Suc.prems by simp
  next
    case (Suc i)
    then have "init_attempts n outcome (Suc k) = Inr (Suc k + i)"
      using Suc.prems by (intro Suc.IH) force+
    then show ?thesis using Suc Suc.prems by (cases n) auto
  qed
qed simp

definition new_database :: database where
  "new_database = init_schema (\<lambda>_. None)"

end
