(* ===== verification/Trade_Database.thy ===== *)
theory Trade_Database
  imports Db_Schema Prelude
begin

text \<open>
  The operations of \<open>DatabaseManager\<close> (\<open>core/services/database.py\<close>): the trade log, the summary of the day, the signal
  and tick logs with their pruning, the decision-validation (DVF) tables, the position records a restart reads, and
  the win-rate queries.  A write returns the new database or the error that leaves it as it was.
\<close>

type_synonym 'a db_result = "db_error + 'a \<times> database"

definition on_table :: "string \<Rightarrow> (table \<Rightarrow> db_error + 'a \<times> table) \<Rightarrow> database \<Rightarrow> 'a db_result" where
  "on_table name f db = (case f (db name) of Inl e \<Rightarrow> Inl e | Inr (x, tb) \<Rightarrow> Inr (x, db(name := tb)))"

text \<open>Parameters taken from a Python dictionary: \<open>d.get(k)\<close>, \<open>d.get(k, dflt)\<close>, its JSON text, its time.\<close>

definition arg :: "pydict \<Rightarrow> string \<Rightarrow> string \<times> cell option" where
  "arg d k = (k, bind (dict_get d k PNone))"

definition arg_or :: "pyval \<Rightarrow> pydict \<Rightarrow> string \<Rightarrow> string \<times> cell option" where
  "arg_or dflt d k = (k, bind (dict_get d k dflt))"

definition json_arg :: "pyval \<Rightarrow> pydict \<Rightarrow> string \<Rightarrow> string \<times> cell option" where
  "json_arg dflt d k = (k, dumps (dict_get d k dflt))"

definition time_arg :: "clock \<Rightarrow> pydict \<Rightarrow> string \<Rightarrow> string \<times> cell option" where
  "time_arg clk d k = (k, bind (db_timestamp (dict_get d k (PTime (ck_local clk)))))"

definition flag_arg :: "pydict \<Rightarrow> string \<Rightarrow> string \<times> cell option" where
  "flag_arg d k = (k, Some (Num (if py_true (dict_get d k PNone) then 1 else 0)))"

definition text_arg :: "string \<Rightarrow> string \<Rightarrow> string \<times> cell option" where
  "text_arg k s = (k, Some (Text s))"

definition num_arg :: "string \<Rightarrow> real \<Rightarrow> string \<times> cell option" where
  "num_arg k x = (k, Some (Num x))"

text \<open>\<open>int(v)\<close>: refused for what is not a number.\<close>

definition int_arg :: "pyval \<Rightarrow> pydict \<Rightarrow> string \<Rightarrow> string \<times> cell option" where
  "int_arg dflt d k =
     (k, case dict_get d k dflt of PBool b \<Rightarrow> Some (Num (if b then 1 else 0)) | PNum x \<Rightarrow> Some (Num (of_int (py_int x))) | _ \<Rightarrow> None)"

definition sql_limit :: "int \<Rightarrow> 'a list \<Rightarrow> 'a list" where
  "sql_limit n xs = (if n < 0 then xs else take (nat n) xs)"

section \<open>The trade log\<close>

definition log_entry :: "clock \<Rightarrow> pydict \<Rightarrow> database \<Rightarrow> int db_result" where
  "log_entry clk trade = on_table ''trades'' (insert_row clk
     [arg trade ''order_id'', arg trade ''symbol'', arg_or (PStr ''CE'') trade ''direction'', arg_or (PStr ''BUY'') trade ''side'',
      arg trade ''qty'', arg trade ''entry_price'', time_arg clk trade ''entry_time'', arg trade ''entry_reason'',
      arg trade ''score'', arg trade ''confidence'', arg trade ''market_quality_score'', arg trade ''market_quality_grade'',
      json_arg (PDict []) trade ''market_quality_components'', arg trade ''hard_reject_reason'',
      arg trade ''risk_budget_used'', arg trade ''risk_amount'', arg trade ''allocation_grade'',
      json_arg (PDict []) trade ''position_size_breakdown'', json_arg (PList []) trade ''factors'',
      json_arg (PDict []) trade ''greeks'', text_arg ''status'' ''OPEN''])"

text \<open>\<open>WHERE order_id = ?\<close>: a null parameter matches no row.\<close>

definition has_order :: "string option \<Rightarrow> row \<Rightarrow> bool" where
  "has_order oid r \<longleftrightarrow> (case oid of None \<Rightarrow> False | Some s \<Rightarrow> r ''order_id'' = Text s)"

definition changed :: "int db_result \<Rightarrow> bool db_result" where
  "changed r = (case r of Inl e \<Rightarrow> Inl e | Inr (n, db) \<Rightarrow> Inr (0 < n, db))"

definition log_exit :: "clock \<Rightarrow> string option \<Rightarrow> pydict \<Rightarrow> database \<Rightarrow> bool db_result" where
  "log_exit clk oid d db = changed (on_table ''trades'' (update_rows (has_order oid)
     [arg d ''exit_price'', time_arg clk d ''exit_time'', arg d ''exit_reason'', arg_or (PNum 0) d ''pnl'',
      arg_or (PNum 0) d ''pnl_pct'', arg_or (PNum 0) d ''hold_time_sec'', arg_or (PNum 0) d ''mfe'', arg_or (PNum 0) d ''mae'',
      text_arg ''status'' ''CLOSED'']) db)"

definition get_trade :: "string option \<Rightarrow> database \<Rightarrow> row option" where
  "get_trade oid db = find (has_order oid) (tb_rows (db ''trades''))"

definition with_status :: "string \<Rightarrow> row list \<Rightarrow> row list" where
  "with_status s rs = filter (\<lambda>r. r ''status'' = Text s) rs"

definition get_open_trade :: "database \<Rightarrow> row option" where
  "get_open_trade db = first_row (order_desc ''entry_time'' (with_status ''OPEN'' (tb_rows (db ''trades''))))"

definition today_text :: "clock \<Rightarrow> string" where
  "today_text clk = isoformat (date_of (ck_local clk))"

definition get_todays_trades :: "clock \<Rightarrow> database \<Rightarrow> row list" where
  "get_todays_trades clk db =
     order_desc ''entry_time'' (filter (\<lambda>r. sql_date (r ''entry_time'') = Some (today_text clk)) (tb_rows (db ''trades'')))"

section \<open>The summary of the day\<close>

record day_summary =
  dm_total :: nat
  dm_wins :: nat
  dm_losses :: nat
  dm_pnl :: real
  dm_max_profit :: real
  dm_max_loss :: real
  dm_win_rate :: real
  dm_profit_factor :: real
  dm_avg_win :: real
  dm_avg_loss :: real
  dm_best :: real
  dm_worst :: real
  dm_avg_hold :: int
  dm_ce_trades :: nat
  dm_pe_trades :: nat
  dm_ce_pnl :: real
  dm_pe_pnl :: real

definition row_pnl :: "row \<Rightarrow> real" where
  "row_pnl r = cell_num (r ''pnl'')"

definition mean_or_0 :: "real list \<Rightarrow> real" where
  "mean_or_0 xs = (if xs = [] then 0 else sum_list xs / of_nat (length xs))"

definition summarise :: "row list \<Rightarrow> day_summary" where
  "summarise rs =
     (let winners = filter (\<lambda>r. 0 < row_pnl r) rs; losers = filter (\<lambda>r. row_pnl r < 0) rs;
          ce = filter (\<lambda>r. r ''direction'' = Text ''CE'') rs; pe = filter (\<lambda>r. r ''direction'' = Text ''PE'') rs;
          win_pnls = map row_pnl winners; loss_pnls = map (\<lambda>r. \<bar>row_pnl r\<bar>) losers
      in \<lparr>dm_total = length rs, dm_wins = length winners, dm_losses = length losers,
          dm_pnl = sum_list (map row_pnl rs), dm_max_profit = Max (row_pnl ` set rs), dm_max_loss = Min (row_pnl ` set rs),
          dm_win_rate = of_nat (length winners) / of_nat (length rs) * 100,
          dm_profit_factor = (if loss_pnls \<noteq> [] \<and> 0 < sum_list loss_pnls then sum_list win_pnls / sum_list loss_pnls else 0),
          dm_avg_win = mean_or_0 win_pnls, dm_avg_loss = mean_or_0 loss_pnls,
          dm_best = (if win_pnls \<noteq> [] then Max (set win_pnls) else 0),
          dm_worst = (if losers \<noteq> [] then Min (row_pnl ` set losers) else 0),
          dm_avg_hold = \<lfloor>sum_list (map (\<lambda>r. cell_num (r ''hold_time_sec'')) rs) / of_nat (length rs)\<rfloor>,
          dm_ce_trades = length ce, dm_pe_trades = length pe,
          dm_ce_pnl = sum_list (map row_pnl ce), dm_pe_pnl = sum_list (map row_pnl pe)\<rparr>)"

definition summary_values :: "string \<Rightarrow> day_summary \<Rightarrow> (string \<times> cell option) list" where
  "summary_values day s =
     [text_arg ''date'' day, num_arg ''total_trades'' (dm_total s), num_arg ''winning_trades'' (dm_wins s),
      num_arg ''losing_trades'' (dm_losses s), num_arg ''total_pnl'' (dm_pnl s), num_arg ''max_profit'' (dm_max_profit s),
      num_arg ''max_loss'' (dm_max_loss s), num_arg ''win_rate'' (dm_win_rate s), num_arg ''profit_factor'' (dm_profit_factor s),
      num_arg ''avg_win'' (dm_avg_win s), num_arg ''avg_loss'' (dm_avg_loss s), num_arg ''best_trade_pnl'' (dm_best s),
      num_arg ''worst_trade_pnl'' (dm_worst s), num_arg ''avg_hold_time_sec'' (dm_avg_hold s),
      num_arg ''ce_trades'' (dm_ce_trades s), num_arg ''pe_trades'' (dm_pe_trades s), num_arg ''ce_pnl'' (dm_ce_pnl s),
      num_arg ''pe_pnl'' (dm_pe_pnl s)]"

text \<open>A null in the sums raises; an empty day gives no summary.\<close>

definition update_daily_summary :: "clock \<Rightarrow> database \<Rightarrow> day_summary option db_result" where
  "update_daily_summary clk db =
     (let rows = with_status ''CLOSED'' (get_todays_trades clk db)
      in if rows = [] then Inr (None, db)
         else if list_ex (\<lambda>r. r ''pnl'' = Null \<or> r ''hold_time_sec'' = Null) rows then Inl Type_Error
         else case on_table ''daily_summary'' (replace_row clk (summary_values (today_text clk) (summarise rows))) db of
                Inl e \<Rightarrow> Inl e | Inr (_, db') \<Rightarrow> Inr (Some (summarise rows), db'))"

section \<open>Signals and ticks\<close>

definition log_signal :: "clock \<Rightarrow> pydict \<Rightarrow> database \<Rightarrow> int db_result" where
  "log_signal clk s = on_table ''signals'' (insert_row clk
     [time_arg clk s ''timestamp'', arg s ''direction'', arg s ''weighted_score'', arg s ''score'', arg s ''confidence'',
      int_arg (PBool False) s ''market_quality_pass'', arg s ''market_quality_pct'',
      arg_or (dict_get s ''market_quality_pct'' PNone) s ''market_quality_score'', arg s ''market_quality_grade'',
      json_arg (PDict []) s ''market_quality_components'', arg s ''hard_reject_reason'', arg s ''bull_score'', arg s ''bear_score'',
      json_arg (PList []) s ''factors'', arg s ''regime'', arg s ''rsi'', arg s ''macd_hist'',
      json_arg (PDict []) s ''score_breakdown'', json_arg (PDict []) s ''confidence_breakdown'', flag_arg s ''was_taken'',
      arg s ''result''])"

text \<open>A tick stamp in milliseconds is turned into the local time; \<open>None\<close> when there is no symbol or price.\<close>

definition tick_time :: "clock \<Rightarrow> pyval \<Rightarrow> pyval" where
  "tick_time clk v =
     (let t = (case v of PNum x \<Rightarrow> PTime \<lfloor>x * 1000\<rfloor> | PBool b \<Rightarrow> PTime (if b then 1000 else 0) | _ \<Rightarrow> v)
      in if py_true t then t else PTime (ck_local clk))"

definition log_tick :: "clock \<Rightarrow> pydict \<Rightarrow> database \<Rightarrow> int option db_result" where
  "log_tick clk tick db =
     (if \<not> py_true (dict_get tick ''symbol'' PNone) \<or> dict_get tick ''ltp'' PNone = PNone then Inr (None, db)
      else case on_table ''ticks'' (insert_row clk
             [(''timestamp'', bind (db_timestamp (tick_time clk (dict_get tick ''timestamp'' PNone)))), arg tick ''symbol'', arg tick ''ltp'',
              arg tick ''bid'', arg tick ''ask'', arg tick ''volume'', arg tick ''spot_price'', arg tick ''oi'']) db of
             Inl e \<Rightarrow> Inl e | Inr (i, db') \<Rightarrow> Inr (Some i, db'))"

text \<open>One batch: the rows before the cutoff, at most \<open>batch\<close> of them (a negative LIMIT is none).\<close>

definition older_than :: "string \<Rightarrow> row \<Rightarrow> bool" where
  "older_than cutoff r \<longleftrightarrow> text_less (r ''timestamp'') cutoff"

definition delete_batch :: "int \<Rightarrow> string \<Rightarrow> row list \<Rightarrow> row list" where
  "delete_batch batch cutoff rs = delete_some (if batch < 0 then length rs else nat batch) (older_than cutoff) rs"

function prune_rows :: "int \<Rightarrow> string \<Rightarrow> row list \<Rightarrow> nat \<times> row list" where
  "prune_rows batch cutoff rs =
     (let rest = delete_batch batch cutoff rs; n = length rs - length rest
      in if n = 0 then (0, rest) else let (m, rest') = prune_rows batch cutoff rest in (n + m, rest'))"
  by pat_completeness auto
termination by (relation "measure (\<lambda>(_, _, rs). length rs)") auto

declare prune_rows.simps [simp del]

definition prune_table :: "int \<Rightarrow> string \<Rightarrow> string \<Rightarrow> database \<Rightarrow> nat \<times> database" where
  "prune_table batch cutoff name db =
     (let (n, rs) = prune_rows batch cutoff (tb_rows (db name)) in (n, db(name := (db name)\<lparr>tb_rows := rs\<rparr>)))"

definition prune_old_signal_rows :: "clock \<Rightarrow> int \<Rightarrow> int \<Rightarrow> database \<Rightarrow> (nat \<times> nat \<times> nat) \<times> database" where
  "prune_old_signal_rows clk days batch db =
     (let cutoff = db_text (ck_local clk - days * 86400000000);
          (a, db1) = prune_table batch cutoff ''signals'' db;
          (b, db2) = prune_table batch cutoff ''dvf_signals'' db1;
          (c, db3) = prune_table batch cutoff ''ticks'' db2
      in ((a, b, c), db3))"

section \<open>Decision validation\<close>

definition row_id :: "row \<Rightarrow> int" where
  "row_id r = \<lfloor>cell_num (r ''id'')\<rfloor>"

text \<open>The rows a column equals a bound Python value in.\<close>

definition matching :: "string \<Rightarrow> pyval \<Rightarrow> row list \<Rightarrow> row list" where
  "matching c v rs = filter (\<lambda>r. r c \<noteq> Null \<and> Some (r c) = bind v) rs"

definition existing_or :: "row option \<Rightarrow> (database \<Rightarrow> int db_result) \<Rightarrow> database \<Rightarrow> int db_result" where
  "existing_or r f db = (case r of Some r \<Rightarrow> Inr (row_id r, db) | None \<Rightarrow> f db)"

definition last_row :: "row list \<Rightarrow> row option" where
  "last_row rs = (if rs = [] then None else Some (last rs))"

definition log_dvf_signal :: "clock \<Rightarrow> pydict \<Rightarrow> database \<Rightarrow> int db_result" where
  "log_dvf_signal clk s db =
     existing_or (if py_true (dict_get s ''decision_id'' PNone)
                  then first_row (matching ''decision_id'' (dict_get s ''decision_id'' PNone) (tb_rows (db ''dvf_signals''))) else None)
       (on_table ''dvf_signals'' (insert_row clk
         [arg s ''decision_id'', arg s ''parent_decision_id'', time_arg clk s ''timestamp'', arg s ''direction'', arg s ''session_type'',
          arg s ''strategy_name'', arg s ''strategy_version'', arg s ''engine_version'', arg s ''config_hash'',
          arg s ''weighted_score'', arg s ''confidence'', arg s ''market_quality_score'', arg s ''market_quality_grade'',
          arg s ''position_size_recommendation'', arg s ''allocation_grade'', arg s ''regime'',
          json_arg (PDict []) s ''regime_snapshot'', arg s ''spread'', arg s ''volume'', json_arg (PDict []) s ''greeks'',
          json_arg (PDict []) s ''indicators_snapshot'', json_arg (PDict []) s ''score_breakdown'',
          json_arg (PDict []) s ''confidence_breakdown'', json_arg (PDict []) s ''market_quality_components'',
          json_arg (PDict []) s ''position_size_breakdown'', flag_arg s ''accepted'', flag_arg s ''rejected'',
          arg s ''reject_reason'', flag_arg s ''hard_reject'', arg s ''hard_reject_reason'', arg s ''result''])) db"

definition get_dvf_signals :: "int \<Rightarrow> database \<Rightarrow> row list" where
  "get_dvf_signals limit db = sql_limit limit (order_desc ''timestamp'' (tb_rows (db ''dvf_signals'')))"

definition get_dvf_signal_by_decision_id :: "string \<Rightarrow> database \<Rightarrow> row option" where
  "get_dvf_signal_by_decision_id did db = first_row (matching ''decision_id'' (PStr did) (tb_rows (db ''dvf_signals'')))"

definition log_dvf_trade_entry :: "clock \<Rightarrow> pydict \<Rightarrow> database \<Rightarrow> int db_result" where
  "log_dvf_trade_entry clk t db =
     existing_or (if py_true (dict_get t ''decision_id'' PNone)
                  then last_row (with_status ''OPEN''
                         (matching ''decision_id'' (dict_get t ''decision_id'' PNone) (tb_rows (db ''dvf_trades'')))) else None)
       (on_table ''dvf_trades'' (insert_row clk
         [arg t ''decision_id'', arg_or (PStr ''OPEN'') t ''status'', arg t ''direction'', arg t ''session_type'',
          arg t ''strategy_version'', arg t ''engine_version'', arg t ''config_hash'', arg t ''position_size'',
          arg t ''allocation_grade'', arg t ''market_quality_grade'', arg_or (PNum 0) t ''risk_amount'',
          time_arg clk t ''virtual_entry_time'', arg t ''virtual_entry_price'', arg t ''slippage_model'', arg t ''notes''])) db"

definition log_dvf_trade_exit :: "clock \<Rightarrow> int \<Rightarrow> pydict \<Rightarrow> database \<Rightarrow> bool db_result" where
  "log_dvf_trade_exit clk trade_id t db = changed (on_table ''dvf_trades'' (update_rows (\<lambda>r. r ''id'' = Num (of_int trade_id))
     [arg_or (PStr ''CLOSED'') t ''status'', time_arg clk t ''virtual_exit_time'', arg t ''virtual_exit_price'',
      arg_or (PNum 0) t ''pnl'', arg_or (PNum 0) t ''pnl_pct'', arg_or (PNum 0) t ''hold_time_sec'', arg_or (PNum 0) t ''mfe'',
      arg_or (PNum 0) t ''mae'', arg t ''exit_reason'', arg t ''notes'']) db)"

definition get_dvf_trade :: "int \<Rightarrow> database \<Rightarrow> row option" where
  "get_dvf_trade trade_id db = find (\<lambda>r. r ''id'' = Num (of_int trade_id)) (tb_rows (db ''dvf_trades''))"

definition get_dvf_trade_by_decision_id :: "string \<Rightarrow> database \<Rightarrow> row option" where
  "get_dvf_trade_by_decision_id did db = last_row (matching ''decision_id'' (PStr did) (tb_rows (db ''dvf_trades'')))"

definition get_dvf_trades :: "int \<Rightarrow> database \<Rightarrow> row list" where
  "get_dvf_trades limit db = sql_limit limit (order_desc ''created_at'' (tb_rows (db ''dvf_trades'')))"

definition get_open_dvf_trades :: "int \<Rightarrow> database \<Rightarrow> row list" where
  "get_open_dvf_trades limit db = sql_limit limit (with_status ''OPEN'' (tb_rows (db ''dvf_trades'')))"

text \<open>A report or calibration of a type and date is written once and then updated.\<close>

definition save_payload ::
    "string \<Rightarrow> string \<Rightarrow> string \<Rightarrow> clock \<Rightarrow> string \<Rightarrow> string \<Rightarrow> pyval \<Rightarrow> database \<Rightarrow> int db_result" where
  "save_payload table type_col date_col clk ty day payload db =
     (case last_row (filter (\<lambda>r. r type_col = Text ty \<and> r date_col = Text day) (tb_rows (db table))) of
        Some r \<Rightarrow>
          (case on_table table (update_rows (\<lambda>r'. r' ''id'' = Num (of_int (row_id r)))
                  [(''payload'', dumps payload), text_arg ''created_at'' (db_text (ck_utc clk))]) db of
             Inl e \<Rightarrow> Inl e | Inr (_, db') \<Rightarrow> Inr (row_id r, db'))
      | None \<Rightarrow>
          on_table table (insert_row clk [text_arg type_col ty, text_arg date_col day, (''payload'', dumps payload)]) db)"

definition save_dvf_report :: "clock \<Rightarrow> string \<Rightarrow> string \<Rightarrow> pyval \<Rightarrow> database \<Rightarrow> int db_result" where
  "save_dvf_report = save_payload ''dvf_reports'' ''report_type'' ''report_date''"

definition save_dvf_calibration :: "clock \<Rightarrow> string \<Rightarrow> string \<Rightarrow> pyval \<Rightarrow> database \<Rightarrow> int db_result" where
  "save_dvf_calibration = save_payload ''dvf_calibration'' ''calibration_type'' ''as_of_date''"

definition get_dvf_reports :: "string option \<Rightarrow> int \<Rightarrow> database \<Rightarrow> row list" where
  "get_dvf_reports ty limit db =
     sql_limit limit (order_desc ''created_at''
       (if get_or '''' ty \<noteq> '''' then filter (\<lambda>r. r ''report_type'' = Text (get_or '''' ty)) (tb_rows (db ''dvf_reports''))
        else tb_rows (db ''dvf_reports'')))"

section \<open>Queries for analysis\<close>

text \<open>Rows whose day is on or after the start of the window.\<close>

definition recent :: "clock \<Rightarrow> int \<Rightarrow> string \<Rightarrow> row list \<Rightarrow> row list" where
  "recent clk days c rs =
     filter (\<lambda>r. case sql_date (r c) of None \<Rightarrow> False
                 | Some d \<Rightarrow> isoformat (date_of (ck_local clk - days * 86400000000)) \<le> d) rs"

text \<open>GROUP BY a text: the groups in the order of their keys.\<close>

definition groups :: "(row \<Rightarrow> string) \<Rightarrow> row list \<Rightarrow> (string \<times> row list) list" where
  "groups key rs = map (\<lambda>k. (k, filter (\<lambda>r. key r = k) rs)) (sort (remdups (map key rs)))"

definition grade_key :: "row \<Rightarrow> string" where
  "grade_key r = (case r ''market_quality_grade'' of Null \<Rightarrow> ''UNKNOWN'' | c \<Rightarrow> text_key c)"

definition get_market_quality_distribution :: "clock \<Rightarrow> int \<Rightarrow> database \<Rightarrow> (string \<times> nat) list" where
  "get_market_quality_distribution clk days db =
     map (\<lambda>(k, rs). (k, length rs))
       (groups grade_key (filter (\<lambda>r. r ''market_quality_score'' \<noteq> Null) (recent clk days ''timestamp'' (tb_rows (db ''signals'')))))"

definition get_hard_reject_stats :: "clock \<Rightarrow> int \<Rightarrow> database \<Rightarrow> (string \<times> nat) list" where
  "get_hard_reject_stats clk days db =
     sort_key (\<lambda>(_, n). - int n) (map (\<lambda>(k, rs). (k, length rs))
       (groups (\<lambda>r. text_key (r ''hard_reject_reason''))
         (filter (\<lambda>r. r ''hard_reject_reason'' \<noteq> Null \<and> r ''hard_reject_reason'' \<noteq> Text '''')
           (recent clk days ''timestamp'' (tb_rows (db ''signals''))))))"

definition wins :: "row list \<Rightarrow> nat" where
  "wins rs = length (filter (\<lambda>r. 0 < row_pnl r) rs)"

definition win_pct :: "row list \<Rightarrow> real" where
  "win_pct rs = 100 * of_nat (wins rs) / of_nat (length rs)"

definition avg_of :: "string \<Rightarrow> row list \<Rightarrow> real" where
  "avg_of c rs = sum_list (map (\<lambda>r. cell_num (r c)) rs) / of_nat (length rs)"

record band_stat =
  bd_key :: string
  bd_trades :: nat
  bd_wins :: nat
  bd_win_rate :: real

definition stat_of :: "string \<times> row list \<Rightarrow> band_stat" where
  "stat_of g = (case g of (k, rs) \<Rightarrow> \<lparr>bd_key = k, bd_trades = length rs, bd_wins = wins rs, bd_win_rate = sql_round2 (win_pct rs)\<rparr>)"

definition closed_trades :: "clock \<Rightarrow> int \<Rightarrow> string \<Rightarrow> database \<Rightarrow> row list" where
  "closed_trades clk days c db =
     filter (\<lambda>r. r c \<noteq> Null) (with_status ''CLOSED'' (recent clk days ''entry_time'' (tb_rows (db ''trades''))))"

text \<open>CASE over thresholds: the first one reached.\<close>

fun band_of :: "(real \<times> string) list \<Rightarrow> string \<Rightarrow> real \<Rightarrow> string" where
  "band_of [] other x = other"
| "band_of ((lo, name) # bs) other x = (if lo \<le> x then name else band_of bs other x)"

fun rank_in :: "string list \<Rightarrow> string \<Rightarrow> nat" where
  "rank_in [] k = 1"
| "rank_in (x # xs) k = (if k = x then 1 else Suc (rank_in xs k))"

definition banded :: "string \<Rightarrow> (real \<times> string) list \<Rightarrow> string \<Rightarrow> row list \<Rightarrow> (string \<times> row list) list" where
  "banded c bs other rs =
     sort_key (\<lambda>(k, _). rank_in (map snd bs) k) (groups (\<lambda>r. band_of bs other (cell_num (r c))) rs)"

definition QUALITY_BANDS :: "(real \<times> string) list" where
  "QUALITY_BANDS = [(90, ''90+''), (80, ''80-89''), (70, ''70-79''), (60, ''60-69'')]"

definition get_market_quality_win_rate_bands :: "clock \<Rightarrow> int \<Rightarrow> database \<Rightarrow> band_stat list" where
  "get_market_quality_win_rate_bands clk days db =
     map stat_of (banded ''market_quality_score'' QUALITY_BANDS ''<60'' (closed_trades clk days ''market_quality_score'' db))"

definition graded :: "clock \<Rightarrow> int \<Rightarrow> database \<Rightarrow> (string \<times> row list) list" where
  "graded clk days db =
     sort_key (\<lambda>(k, _). rank_in [''A+'', ''A'', ''B'', ''C'', ''REJECT''] k)
       (groups grade_key (filter (\<lambda>r. r ''market_quality_grade'' \<noteq> Text '''') (closed_trades clk days ''market_quality_grade'' db)))"

definition get_market_quality_grade_win_rate :: "clock \<Rightarrow> int \<Rightarrow> database \<Rightarrow> band_stat list" where
  "get_market_quality_grade_win_rate clk days db = map stat_of (graded clk days db)"

definition get_confidence_win_rate_bands :: "clock \<Rightarrow> int \<Rightarrow> database \<Rightarrow> band_stat list" where
  "get_confidence_win_rate_bands clk days db =
     map stat_of (banded ''confidence'' [(90, ''90+''), (80, ''80-89''), (70, ''70-79'')] ''<70'' (closed_trades clk days ''confidence'' db))"

record calibration = band_stat +
  cb_avg_confidence :: real
  cb_error :: real

definition calibration_of :: "string \<times> row list \<Rightarrow> calibration" where
  "calibration_of g = (case g of (k, rs) \<Rightarrow>
     \<lparr>bd_key = k, bd_trades = length rs, bd_wins = wins rs, bd_win_rate = sql_round2 (win_pct rs),
      cb_avg_confidence = sql_round2 (avg_of ''confidence'' rs), cb_error = sql_round2 (avg_of ''confidence'' rs - win_pct rs)\<rparr>)"

definition get_confidence_calibration :: "clock \<Rightarrow> int \<Rightarrow> database \<Rightarrow> calibration list" where
  "get_confidence_calibration clk days db =
     map calibration_of (banded ''confidence'' QUALITY_BANDS ''<60'' (closed_trades clk days ''confidence'' db))"

definition get_market_quality_grade_avg_pnl :: "clock \<Rightarrow> int \<Rightarrow> database \<Rightarrow> (string \<times> nat \<times> real \<times> real) list" where
  "get_market_quality_grade_avg_pnl clk days db =
     map (\<lambda>(k, rs). (k, length rs, sql_round2 (avg_of ''pnl'' rs), sql_round2 (sum_list (map row_pnl rs)))) (graded clk days db)"

section \<open>Positions for recovery\<close>

definition iso_now :: "instant \<Rightarrow> string" where
  "iso_now t = isoformat (date_of t) @ ''T'' @ drop 11 (db_text t)
     @ (if microsecond_of t = 0 then '''' else ''.'' @ padded 6 (nat (microsecond_of t)))"

definition save_active_position :: "clock \<Rightarrow> pydict \<Rightarrow> database \<Rightarrow> int db_result" where
  "save_active_position clk p = on_table ''active_positions'' (replace_row clk
     [arg p ''order_id'', arg p ''symbol'', arg p ''direction'', arg_or (PStr ''BUY'') p ''side'', arg_or (PNum 1) p ''qty'',
      arg p ''entry_price'',
      (''entry_time'', bind (db_timestamp (dict_get p ''entry_time'' (PStr (iso_now (ck_local clk)))))),
      arg p ''stop_loss'', arg p ''take_profit'', arg p ''current_price'', arg_or (PNum 0) p ''unrealized_pnl'', arg p ''session_id'',
      arg p ''broker_order_id'', text_arg ''last_update'' (db_text (ck_utc clk)), text_arg ''status'' ''ACTIVE''])"

definition active_rows :: "database \<Rightarrow> row list" where
  "active_rows db = with_status ''ACTIVE'' (tb_rows (db ''active_positions''))"

definition get_active_positions :: "database \<Rightarrow> row list" where
  "get_active_positions db = order_desc ''entry_time'' (active_rows db)"

definition close_position_in_db :: "clock \<Rightarrow> string option \<Rightarrow> database \<Rightarrow> bool db_result" where
  "close_position_in_db clk oid db = changed (on_table ''active_positions'' (update_rows (has_order oid)
     [text_arg ''status'' ''CLOSED'', text_arg ''last_update'' (db_text (ck_utc clk))]) db)"

text \<open>\<open>date('now')\<close> is the day in UTC.\<close>

definition check_orphan_positions :: "clock \<Rightarrow> database \<Rightarrow> row list" where
  "check_orphan_positions clk db =
     order_asc ''entry_time''
       (filter (\<lambda>r. case sql_date (r ''entry_time'') of None \<Rightarrow> False | Some d \<Rightarrow> d < isoformat (date_of (ck_utc clk))) (active_rows db))"

definition get_positions_from_last_session :: "clock \<Rightarrow> database \<Rightarrow> row list" where
  "get_positions_from_last_session clk db =
     order_desc ''entry_time'' (filter (\<lambda>r. sql_date (r ''entry_time'') = Some (today_text clk)) (active_rows db))"

definition clear_all_active_positions :: "clock \<Rightarrow> database \<Rightarrow> int db_result" where
  "clear_all_active_positions clk = on_table ''active_positions'' (update_rows (\<lambda>r. r ''status'' = Text ''ACTIVE'')
     [text_arg ''status'' ''CLEARED'', text_arg ''last_update'' (db_text (ck_utc clk))])"

definition update_position_price :: "clock \<Rightarrow> string option \<Rightarrow> real \<Rightarrow> real \<Rightarrow> database \<Rightarrow> bool db_result" where
  "update_position_price clk oid price pnl db =
     changed (on_table ''active_positions'' (update_rows (\<lambda>r. has_order oid r \<and> r ''status'' = Text ''ACTIVE'')
       [num_arg ''current_price'' price, num_arg ''unrealized_pnl'' pnl, text_arg ''last_update'' (db_text (ck_utc clk))]) db)"

section \<open>Pruning\<close>

lemma delete_some_none: "filter p rs = [] \<Longrightarrow> delete_some n p rs = rs"
  by (induction n p rs rule: delete_some.induct) (auto split: if_splits)

lemma prune_rows_exact:
  assumes "batch \<noteq> 0"
  shows "snd (prune_rows batch cutoff rs) = filter (\<lambda>r. \<not> older_than cutoff r) rs
    \<and> fst (prune_rows batch cutoff rs) = length (filter (older_than cutoff) rs)"
  using assms
proof (induction batch cutoff rs rule: prune_rows.induct)
  case (1 batch cutoff rs)
  let ?p = "older_than cutoff" and ?rest = "delete_batch batch cutoff rs"
  have len: "length ?rest + min (if batch < 0 then length rs else nat batch) (length (filter ?p rs)) = length rs"
    unfolding delete_batch_def by (rule delete_some_count)
  have keep: "filter (\<lambda>r. \<not> ?p r) ?rest = filter (\<lambda>r. \<not> ?p r) rs" by (simp add: delete_batch_def delete_some_keeps)
  have part: "length (filter ?p xs) + length (filter (\<lambda>r. \<not> ?p r) xs) = length xs" for xs by (rule sum_length_filter_compl)
  show ?case
  proof (cases "length rs - length ?rest = 0")
    case True
    then have "min (if batch < 0 then length rs else nat batch) (length (filter ?p rs)) = 0" using len by linarith
    then have none: "filter ?p rs = []" using "1.prems" by (auto simp: min_def split: if_splits)
    moreover from this have "?rest = rs" by (simp add: delete_batch_def delete_some_none)
    ultimately show ?thesis using True by (subst (1 2) prune_rows.simps) (auto simp: Let_def filter_empty_conv filter_id_conv)
  next
    case False
    then have "snd (prune_rows batch cutoff ?rest) = filter (\<lambda>r. \<not> ?p r) rs"
      and "fst (prune_rows batch cutoff ?rest) = length (filter ?p ?rest)"
      using "1.IH"[OF refl refl] "1.prems" keep by auto
    moreover have "length rs - length ?rest + length (filter ?p ?rest) = length (filter ?p rs)"
    proof -
      have "length ?rest \<le> length rs" using len by linarith
      then show ?thesis using part[of rs] part[of ?rest, unfolded keep] by linarith
    qed
    ultimately show ?thesis using False by (subst (1 2) prune_rows.simps) (simp add: Let_def case_prod_unfold)
  qed
qed

lemma older_than_stamp:
  assumes "r ''timestamp'' = Text (db_text t)" "time_ok t" "time_ok edge"
  shows "older_than (db_text edge) r \<longleftrightarrow> t div 1000000 < edge div 1000000"
  using assms by (simp add: older_than_def text_less_def db_text_cmp)

definition pruned_tables :: "string list" where
  "pruned_tables = [''signals'', ''dvf_signals'', ''ticks'']"

lemma prune_table_exact:
  assumes "batch \<noteq> 0"
  shows "prune_table batch cutoff name db =
    (length (filter (older_than cutoff) (tb_rows (db name))),
     db(name := (db name)\<lparr>tb_rows := filter (\<lambda>r. \<not> older_than cutoff r) (tb_rows (db name))\<rparr>))"
  using prune_rows_exact[OF assms, of cutoff "tb_rows (db name)"]
  by (simp add: prune_table_def case_prod_unfold)

text \<open>Pruning ends and removes exactly the old rows: with any non-zero batch size the loop over DELETE statements
  terminates, the three per-tick tables keep just the rows not stamped before the cutoff (the comparison of texts is the
  comparison of the times, to the second), every other table and row is left alone, and the counts returned are the
  numbers of rows removed.\<close>

theorem prune_removes_exactly_the_old:
  assumes "batch \<noteq> 0"
  shows "prune_old_signal_rows clk days batch db =
    (let cutoff = db_text (ck_local clk - days * 86400000000);
         old = (\<lambda>name. length (filter (older_than cutoff) (tb_rows (db name))))
     in ((old ''signals'', old ''dvf_signals'', old ''ticks''),
         \<lambda>name. if name \<in> set pruned_tables
                 then (db name)\<lparr>tb_rows := filter (\<lambda>r. \<not> older_than cutoff r) (tb_rows (db name))\<rparr> else db name))
    \<and> (\<forall>r t. r ''timestamp'' = Text (db_text t) \<and> time_ok t \<and> time_ok (ck_local clk - days * 86400000000) \<longrightarrow>
        older_than (db_text (ck_local clk - days * 86400000000)) r = (t div 1000000 < (ck_local clk - days * 86400000000) div 1000000))"
  using older_than_stamp
  by (simp add: prune_old_signal_rows_def Let_def prune_table_exact[OF assms] pruned_tables_def fun_eq_iff)

theorem prune_removes_exactly_the_old_witness:
  "fst (prune_old_signal_rows \<lparr>ck_local = 739642 * 86400000000, ck_utc = 739642 * 86400000000\<rparr> 7 5000 new_database) = (0, 0, 0)"
  using prune_removes_exactly_the_old[of 5000 "\<lparr>ck_local = 739642 * 86400000000, ck_utc = 739642 * 86400000000\<rparr>" 7 new_database]
  by (simp add: Let_def new_database_def init_schema_def schema_def open_table_def new_table_def)

section \<open>What a restart sees\<close>

datatype position_op =
    SavePosition clock pydict
  | ClosePosition clock "string option"
  | UpdatePosition clock "string option" real real
  | ClearPositions clock

text \<open>A failing statement leaves the database alone; the callers swallow the exception.\<close>

definition kept :: "'a db_result \<Rightarrow> database \<Rightarrow> database" where
  "kept r db = (case r of Inl _ \<Rightarrow> db | Inr (_, db') \<Rightarrow> db')"

definition position_step :: "database \<Rightarrow> position_op \<Rightarrow> database" where
  "position_step db op =
     (case op of
        SavePosition clk p \<Rightarrow> kept (save_active_position clk p db) db
      | ClosePosition clk oid \<Rightarrow> kept (close_position_in_db clk oid db) db
      | UpdatePosition clk oid price pnl \<Rightarrow> kept (update_position_price clk oid price pnl db) db
      | ClearPositions clk \<Rightarrow> kept (clear_all_active_positions clk db) db)"

text \<open>The orders a restart finds active, and the specification on them.\<close>

definition active_orders :: "database \<Rightarrow> string set" where
  "active_orders db = {s. \<exists>r\<in>set (get_active_positions db). r ''order_id'' = Text s}"

definition usable :: "cell option \<Rightarrow> bool" where
  "usable v \<longleftrightarrow> v \<noteq> None \<and> v \<noteq> Some Null"

definition position_complete :: "pydict \<Rightarrow> bool" where
  "position_complete p \<longleftrightarrow>
     usable (bind (dict_get p ''symbol'' PNone)) \<and> usable (bind (dict_get p ''direction'' PNone))
   \<and> usable (bind (dict_get p ''entry_price'' PNone)) \<and> usable (bind (dict_get p ''side'' (PStr ''BUY'')))
   \<and> usable (bind (dict_get p ''qty'' (PNum 1))) \<and> usable (bind (db_timestamp (dict_get p ''entry_time'' (PStr ''now''))))
   \<and> list_all (\<lambda>k. bind (dict_get p k PNone) \<noteq> None)
       [''order_id'', ''stop_loss'', ''take_profit'', ''current_price'', ''session_id'', ''broker_order_id'']
   \<and> bind (dict_get p ''unrealized_pnl'' (PNum 0)) \<noteq> None"

definition spec_step :: "string set \<Rightarrow> position_op \<Rightarrow> string set" where
  "spec_step S op =
     (case op of
        SavePosition _ p \<Rightarrow>
          if position_complete p then (case bind (dict_get p ''order_id'' PNone) of Some (Text s) \<Rightarrow> insert s S | _ \<Rightarrow> S) else S
      | ClosePosition _ oid \<Rightarrow> (case oid of Some s \<Rightarrow> S - {s} | None \<Rightarrow> S)
      | UpdatePosition _ _ _ _ \<Rightarrow> S
      | ClearPositions _ \<Rightarrow> {})"

definition positions_ok :: "database \<Rightarrow> bool" where
  "positions_ok db \<longleftrightarrow> tb_columns (db ''active_positions'') = active_positions_columns"

lemma active_orders_rows:
  "s \<in> active_orders db \<longleftrightarrow>
     (\<exists>r\<in>set (tb_rows (db ''active_positions'')). r ''status'' = Text ''ACTIVE'' \<and> r ''order_id'' = Text s)"
  by (auto simp: active_orders_def get_active_positions_def order_desc_def active_rows_def with_status_def)

definition position_values :: "clock \<Rightarrow> pydict \<Rightarrow> (string \<times> cell option) list" where
  "position_values clk p =
     [arg p ''order_id'', arg p ''symbol'', arg p ''direction'', arg_or (PStr ''BUY'') p ''side'', arg_or (PNum 1) p ''qty'',
      arg p ''entry_price'',
      (''entry_time'', bind (db_timestamp (dict_get p ''entry_time'' (PStr (iso_now (ck_local clk)))))),
      arg p ''stop_loss'', arg p ''take_profit'', arg p ''current_price'', arg_or (PNum 0) p ''unrealized_pnl'', arg p ''session_id'',
      arg p ''broker_order_id'', text_arg ''last_update'' (db_text (ck_utc clk)), text_arg ''status'' ''ACTIVE'']"

lemma time_default:
  "usable (bind (db_timestamp (dict_get p k (PStr s)))) = usable (bind (db_timestamp (dict_get p k (PStr t))))"
  by (simp add: dict_get_def usable_def bind_def db_timestamp_def split: option.split)

definition required_columns :: "string list" where
  "required_columns = [''symbol'', ''direction'', ''side'', ''qty'', ''entry_price'', ''entry_time'']"

lemma position_complete_values:
  "position_complete p \<longleftrightarrow>
     \<not> list_ex (\<lambda>(_, v). v = None) (position_values clk p)
     \<and> list_all (\<lambda>k. new_row clk (position_values clk p) tb k \<noteq> Null) required_columns"
  using time_default[of p "''entry_time''" "''now''" "iso_now (ck_local clk)"]
  by (simp add: position_complete_def required_columns_def position_values_def arg_def arg_or_def text_arg_def usable_def new_row_def
      split: option.split) blast

lemma position_not_null:
  assumes "tb_columns tb = active_positions_columns"
  shows "violates_not_null tb r \<longleftrightarrow>
    \<not> list_all (\<lambda>k. r k \<noteq> Null) required_columns"
  using assms by (simp add: required_columns_def violates_not_null_def active_positions_columns_def col_def plain_column_def)

lemma position_conflicts:
  assumes "tb_columns tb = active_positions_columns"
  shows "conflicts tb r r' \<longleftrightarrow> r ''order_id'' \<noteq> Null \<and> r ''order_id'' = r' ''order_id''"
  using assms by (simp add: conflicts_def active_positions_columns_def col_def plain_column_def)

definition position_row :: "clock \<Rightarrow> pydict \<Rightarrow> table \<Rightarrow> row" where
  "position_row clk p tb =
     (\<lambda>c. if new_row clk (position_values clk p) tb c = Null
               \<and> list_ex (\<lambda>co. co_name co = c \<and> co_not_null co) (tb_columns tb)
          then default_cell clk tb c else new_row clk (position_values clk p) tb c)"

lemma position_row_plain: "default_cell clk tb k = Null \<Longrightarrow> position_row clk p tb k = new_row clk (position_values clk p) tb k"
  by (simp add: position_row_def)

lemma position_defaults:
  assumes "tb_columns tb = active_positions_columns"
  shows "list_all (\<lambda>k. default_cell clk tb k = Null) (''order_id'' # required_columns)"
  using assms by (simp add: required_columns_def default_cell_def column_of_def active_positions_columns_def col_def plain_column_def)

lemma position_row_violates:
  assumes "tb_columns tb = active_positions_columns"
  shows "violates_not_null tb (position_row clk p tb) \<longleftrightarrow>
    \<not> list_all (\<lambda>k. new_row clk (position_values clk p) tb k \<noteq> Null) required_columns"
  unfolding position_not_null[OF assms] using position_defaults[OF assms, of clk]
  by (auto simp: list_all_iff position_row_plain)

lemma position_row_key:
  assumes "tb_columns tb = active_positions_columns"
  shows "position_row clk p tb ''status'' = Text ''ACTIVE''"
    "position_row clk p tb ''order_id'' = (case bind (dict_get p ''order_id'' PNone) of None \<Rightarrow> Null | Some x \<Rightarrow> x)"
proof -
  show "position_row clk p tb ''order_id'' = (case bind (dict_get p ''order_id'' PNone) of None \<Rightarrow> Null | Some x \<Rightarrow> x)"
    using position_defaults[OF assms, of clk] by (simp add: position_row_plain new_row_def position_values_def arg_def)
  show "position_row clk p tb ''status'' = Text ''ACTIVE''"
    by (simp add: position_row_def new_row_def position_values_def arg_def arg_or_def text_arg_def)
qed

lemma save_active_position_cases:
  assumes "positions_ok db"
  shows "save_active_position clk p db =
    (if position_complete p
     then let tb = db ''active_positions''; r = position_row clk p tb
          in Inr (tb_last tb + 1, db(''active_positions'' := append_row r (tb\<lparr>tb_rows := filter (\<lambda>r'. \<not> conflicts tb r r') (tb_rows tb)\<rparr>)))
     else if list_ex (\<lambda>(_, v). v = None) (position_values clk p) then Inl Interface_Error else Inl Integrity_Error)"
proof -
  let ?tb = "db ''active_positions''"
  have cols: "tb_columns ?tb = active_positions_columns" using assms by (simp add: positions_ok_def)
  have "save_active_position clk p db = on_table ''active_positions'' (replace_row clk (position_values clk p)) db"
    by (simp add: save_active_position_def position_values_def)
  then show ?thesis
    unfolding on_table_def replace_row_def Let_def position_row_def[symmetric] position_row_violates[OF cols]
      position_complete_values[of p clk ?tb] by simp
qed

lemma kept_changed: "kept (changed r) db = kept r db"
  by (auto simp: kept_def changed_def split: sum.split)

lemma kept_update:
  assumes "\<not> list_ex (\<lambda>(_, v). v = None) vals"
  shows "kept (on_table name (update_rows p vals) db) db =
    db(name := (db name)\<lparr>tb_rows := map (\<lambda>r. if p r then set_cells vals r else r) (tb_rows (db name))\<rparr>)"
  using assms by (simp add: kept_def on_table_def update_rows_def)

lemma active_orders_update:
  assumes "\<And>r. set_cells vals r ''order_id'' = r ''order_id''"
  shows "s \<in> active_orders (db(''active_positions'' := (db ''active_positions'')
      \<lparr>tb_rows := map (\<lambda>r. if p r then set_cells vals r else r) (tb_rows (db ''active_positions''))\<rparr>)) \<longleftrightarrow>
    (\<exists>r\<in>set (tb_rows (db ''active_positions'')). r ''order_id'' = Text s
        \<and> (if p r then set_cells vals r else r) ''status'' = Text ''ACTIVE'')"
proof -
  let ?rows = "tb_rows (db ''active_positions'')" and ?f = "\<lambda>r. if p r then set_cells vals r else r"
  let ?db = "db(''active_positions'' := (db ''active_positions'')\<lparr>tb_rows := map ?f ?rows\<rparr>)"
  have e: "(\<exists>x\<in>set (map f xs). P x) \<longleftrightarrow> (\<exists>r\<in>set xs. P (f r))" for f :: "row \<Rightarrow> row" and xs P by simp
  have "tb_rows (?db ''active_positions'') = map ?f ?rows" by simp
  then have "s \<in> active_orders ?db \<longleftrightarrow> (\<exists>r\<in>set ?rows. ?f r ''status'' = Text ''ACTIVE'' \<and> ?f r ''order_id'' = Text s)"
    by (simp only: active_orders_rows e)
  then show ?thesis by (auto simp: assms)
qed

lemma active_orders_same:
  assumes "\<And>r. set_cells vals r ''order_id'' = r ''order_id''" "\<And>r. set_cells vals r ''status'' = r ''status''"
  shows "s \<in> active_orders (db(''active_positions'' := (db ''active_positions'')
      \<lparr>tb_rows := map (\<lambda>r. if p r then set_cells vals r else r) (tb_rows (db ''active_positions''))\<rparr>)) \<longleftrightarrow> s \<in> active_orders db"
proof -
  have "(if p r then set_cells vals r else r) ''status'' = r ''status''" for r by (simp add: assms(2))
  then show ?thesis by (simp only: active_orders_update[OF assms(1)]) (auto simp: active_orders_rows)
qed

lemma position_step_ok: "positions_ok db \<Longrightarrow> positions_ok (position_step db op)"
proof (cases op)
  case (SavePosition clk p)
  then show "positions_ok db \<Longrightarrow> ?thesis"
    by (simp add: position_step_def save_active_position_cases kept_def Let_def) (simp add: positions_ok_def append_row_def)
qed (simp_all add: position_step_def close_position_in_db_def update_position_price_def clear_all_active_positions_def kept_changed
    kept_update text_arg_def num_arg_def positions_ok_def)

lemma active_orders_step:
  assumes "positions_ok db"
  shows "active_orders (position_step db op) = spec_step (active_orders db) op"
proof (cases op)
  case (SavePosition clk p)
  let ?tb = "db ''active_positions''" and ?r = "position_row clk p (db ''active_positions'')"
  have cols: "tb_columns ?tb = active_positions_columns" using assms by (simp add: positions_ok_def)
  show ?thesis
  proof (cases "position_complete p")
    case True
    then have "s \<in> active_orders (position_step db op) \<longleftrightarrow>
        ?r ''order_id'' = Text s \<or> (s \<in> active_orders db)" for s
      using position_row_key[OF cols, of clk p]
      by (auto simp: SavePosition position_step_def save_active_position_cases[OF assms] kept_def Let_def active_orders_rows append_row_def
          position_conflicts[OF cols])
    then show ?thesis using True position_row_key(2)[OF cols, of clk p]
      by (auto simp: SavePosition spec_step_def split: option.splits cell.splits)
  qed (simp add: SavePosition position_step_def save_active_position_cases[OF assms] kept_def spec_step_def)
next
  case (ClosePosition clk oid)
  let ?vals = "[(''status'', Some (Text ''CLOSED'')), (''last_update'', Some (Text (db_text (ck_utc clk))))]"
  have c: "set_cells ?vals r ''status'' = Text ''CLOSED''" "set_cells ?vals r ''order_id'' = r ''order_id''" for r
    by (simp_all add: set_cells_def text_arg_def)
  have d: "(if p r then set_cells ?vals r else r) ''status'' = Text ''ACTIVE'' \<longleftrightarrow> \<not> p r \<and> r ''status'' = Text ''ACTIVE''" for p r
    by (simp add: c)
  have "position_step db op = db(''active_positions'' := (db ''active_positions'')
      \<lparr>tb_rows := map (\<lambda>r. if has_order oid r then set_cells ?vals r else r) (tb_rows (db ''active_positions''))\<rparr>)"
    by (simp add: ClosePosition position_step_def close_position_in_db_def kept_changed kept_update text_arg_def)
  then have "s \<in> active_orders (position_step db op) \<longleftrightarrow> s \<in> active_orders db \<and> oid \<noteq> Some s" for s
    unfolding active_orders_rows[of s db]
    by (simp only: active_orders_update[OF c(2)] d) (cases oid; auto simp: has_order_def)
  then show ?thesis by (auto simp: ClosePosition spec_step_def split: option.splits)
next
  case (UpdatePosition clk oid price pnl)
  have "s \<in> active_orders (position_step db op) \<longleftrightarrow> s \<in> active_orders db" for s
    unfolding UpdatePosition position_step_def position_op.case update_position_price_def kept_changed
    by (subst kept_update, simp add: text_arg_def num_arg_def, rule active_orders_same)
      (simp_all add: set_cells_def text_arg_def num_arg_def)
  then show ?thesis by (auto simp: UpdatePosition spec_step_def)
next
  case (ClearPositions clk)
  let ?vals = "[(''status'', Some (Text ''CLEARED'')), (''last_update'', Some (Text (db_text (ck_utc clk))))]"
  have c: "set_cells ?vals r ''status'' = Text ''CLEARED''" "set_cells ?vals r ''order_id'' = r ''order_id''" for r
    by (simp_all add: set_cells_def text_arg_def)
  have d: "(if p r then set_cells ?vals r else r) ''status'' = Text ''ACTIVE'' \<longleftrightarrow> \<not> p r \<and> r ''status'' = Text ''ACTIVE''" for p r
    by (simp add: c)
  have "position_step db op = db(''active_positions'' := (db ''active_positions'')
      \<lparr>tb_rows := map (\<lambda>r. if r ''status'' = Text ''ACTIVE'' then set_cells ?vals r else r) (tb_rows (db ''active_positions''))\<rparr>)"
    by (simp add: ClearPositions position_step_def clear_all_active_positions_def kept_update text_arg_def)
  then have "s \<notin> active_orders (position_step db op)" for s
    using active_orders_update[OF c(2), where p = "\<lambda>r. r ''status'' = Text ''ACTIVE''"] d[of "\<lambda>r. r ''status'' = Text ''ACTIVE''"]
    by (simp only:) blast
  then show ?thesis by (auto simp: ClearPositions spec_step_def)
qed

interpretation recovery: invariant_system position_step positions_ok "\<lambda>_. True"
  by unfold_locales (rule position_step_ok)

lemma new_database_positions: "positions_ok new_database" "tb_rows (new_database ''active_positions'') = []"
  by (simp_all add: positions_ok_def new_database_def init_schema_def schema_def open_table_def new_table_def ensure_table_columns_def)

text \<open>C7: What a restart sees is what is still open: over any sequence of saved, updated, closed and cleared positions,
  failing statements included, the orders the start-up check finds active are those saved with complete data and neither
  closed nor cleared since. In particular saving a closed order again makes it active again.\<close>

theorem recovery_set_exact:
  "active_orders (foldl position_step new_database ops) = foldl spec_step {} ops"
proof (induction ops rule: rev_induct)
  case Nil
  then show ?case by (simp add: active_orders_def get_active_positions_def order_desc_def active_rows_def with_status_def new_database_positions)
next
  case (snoc op ops)
  have "positions_ok (foldl position_step new_database ops)"
    using recovery.inv_run[OF new_database_positions(1), of ops] by (simp add: list_all_iff)
  then show ?case using snoc by (simp add: active_orders_step)
qed

section \<open>Virtual trades\<close>

text \<open>Entries, and exits that close.\<close>

datatype dvf_op = VirtualEntry clock pydict | VirtualExit clock int pydict

definition dvf_step :: "database \<Rightarrow> dvf_op \<Rightarrow> database" where
  "dvf_step db op =
     (case op of VirtualEntry clk t \<Rightarrow> kept (log_dvf_trade_entry clk t db) db
      | VirtualExit clk i t \<Rightarrow> kept (log_dvf_trade_exit clk i t db) db)"

definition closes :: "dvf_op \<Rightarrow> bool" where
  "closes op \<longleftrightarrow> (case op of VirtualEntry _ _ \<Rightarrow> True | VirtualExit _ _ t \<Rightarrow> bind (dict_get t ''status'' (PStr ''CLOSED'')) \<noteq> Some (Text ''OPEN''))"

definition open_for :: "string \<Rightarrow> database \<Rightarrow> row list" where
  "open_for did db = filter (\<lambda>r. r ''decision_id'' = Text did \<and> r ''status'' = Text ''OPEN'') (tb_rows (db ''dvf_trades''))"

definition one_open :: "database \<Rightarrow> bool" where
  "one_open db \<longleftrightarrow> (\<forall>did. did \<noteq> '''' \<longrightarrow> length (open_for did db) \<le> 1)"

lemma kept_insert:
  "kept (on_table name (insert_row clk vals) db) db = db
   \<or> kept (on_table name (insert_row clk vals) db) db = db(name := append_row (new_row clk vals (db name)) (db name))"
  by (auto simp: kept_def on_table_def insert_row_def Let_def)

lemma open_for_append:
  "open_for did (db(''dvf_trades'' := append_row r (db ''dvf_trades''))) =
    open_for did db @ (if r ''decision_id'' = Text did \<and> r ''status'' = Text ''OPEN'' then [r] else [])"
  by (simp add: open_for_def append_row_def)

definition virtual_values :: "clock \<Rightarrow> pydict \<Rightarrow> (string \<times> cell option) list" where
  "virtual_values clk t =
     [arg t ''decision_id'', arg_or (PStr ''OPEN'') t ''status'', arg t ''direction'', arg t ''session_type'',
      arg t ''strategy_version'', arg t ''engine_version'', arg t ''config_hash'', arg t ''position_size'',
      arg t ''allocation_grade'', arg t ''market_quality_grade'', arg_or (PNum 0) t ''risk_amount'',
      time_arg clk t ''virtual_entry_time'', arg t ''virtual_entry_price'', arg t ''slippage_model'', arg t ''notes'']"

lemma one_open_entry:
  assumes "one_open db"
  shows "one_open (kept (log_dvf_trade_entry clk t db) db)"
proof -
  let ?d = "dict_get t ''decision_id'' PNone" and ?r = "new_row clk (virtual_values clk t) (db ''dvf_trades'')"
  let ?ex = "if py_true ?d then last_row (with_status ''OPEN'' (matching ''decision_id'' ?d (tb_rows (db ''dvf_trades'')))) else None"
  show ?thesis
  proof (cases ?ex)
    case None
    then have k: "kept (log_dvf_trade_entry clk t db) db = kept (on_table ''dvf_trades'' (insert_row clk (virtual_values clk t)) db) db"
      by (simp add: log_dvf_trade_entry_def existing_or_def virtual_values_def)
    have id: "?r ''decision_id'' = (case bind ?d of Some x \<Rightarrow> x | None \<Rightarrow> Null)"
      by (simp add: new_row_def virtual_values_def arg_def)
    have "open_for did db = []" if did: "did \<noteq> ''''" "?r ''decision_id'' = Text did" for did
    proof -
      have b: "bind ?d = Some (Text did)" using did id by (auto split: option.splits)
      then have "py_true ?d" using did(1) by (auto simp: bind_def py_true_def split: pyval.splits)
      then have e: "with_status ''OPEN'' (matching ''decision_id'' ?d (tb_rows (db ''dvf_trades''))) = []"
        using None by (simp add: last_row_def split: if_splits)
      show ?thesis using e by (simp add: with_status_def matching_def b open_for_def filter_empty_conv)
    qed
    then have "one_open (db(''dvf_trades'' := append_row ?r (db ''dvf_trades'')))"
      using assms by (simp add: one_open_def open_for_append)
    then show ?thesis unfolding k using kept_insert[of "''dvf_trades''" clk "virtual_values clk t" db] assms by auto
  next
    case (Some r)
    then have "log_dvf_trade_entry clk t db = Inr (row_id r, db)"
      unfolding log_dvf_trade_entry_def existing_or_def by simp
    then show ?thesis using assms by (simp add: kept_def)
  qed
qed

lemma length_filter_map_le:
  "(\<And>r. P (f r) \<Longrightarrow> P r) \<Longrightarrow> length (filter P (map f rs)) \<le> length (filter P rs)"
  by (induction rs) auto

lemma one_open_exit:
  assumes "one_open db" "closes (VirtualExit clk i t)"
  shows "one_open (kept (log_dvf_trade_exit clk i t db) db)"
proof -
  let ?vals = "[arg_or (PStr ''CLOSED'') t ''status'', time_arg clk t ''virtual_exit_time'', arg t ''virtual_exit_price'',
      arg_or (PNum 0) t ''pnl'', arg_or (PNum 0) t ''pnl_pct'', arg_or (PNum 0) t ''hold_time_sec'', arg_or (PNum 0) t ''mfe'',
      arg_or (PNum 0) t ''mae'', arg t ''exit_reason'', arg t ''notes'']"
  show ?thesis
  proof (cases "list_ex (\<lambda>(_, v). v = None) ?vals")
    case True
    then show ?thesis using assms(1)
      unfolding log_dvf_trade_exit_def kept_changed by (simp add: kept_def on_table_def update_rows_def)
  next
    case False
    have st: "set_cells ?vals r ''status'' = Text ''OPEN'' \<Longrightarrow> r ''status'' = Text ''OPEN''"
      "set_cells ?vals r ''decision_id'' = r ''decision_id''" for r
      using assms(2) by (auto simp: closes_def set_cells_def arg_or_def arg_def time_arg_def split: option.splits)
    define vals where "vals = ?vals"
    define f where "f = (\<lambda>r. if r ''id'' = Num (of_int i) then set_cells vals r else r)"
    have k: "kept (log_dvf_trade_exit clk i t db) db = db(''dvf_trades'' := (db ''dvf_trades'')\<lparr>tb_rows := map f (tb_rows (db ''dvf_trades''))\<rparr>)"
      unfolding log_dvf_trade_exit_def kept_changed kept_update[OF False] f_def vals_def ..
    have sel: "f r ''decision_id'' = Text did \<and> f r ''status'' = Text ''OPEN'' \<Longrightarrow>
        r ''decision_id'' = Text did \<and> r ''status'' = Text ''OPEN''" for r did
      using st[of r, folded vals_def] unfolding f_def by (simp split: if_splits)
    have "length (open_for did (kept (log_dvf_trade_exit clk i t db) db)) \<le> length (open_for did db)" for did
    proof -
      have "tb_rows (kept (log_dvf_trade_exit clk i t db) db ''dvf_trades'') = map f (tb_rows (db ''dvf_trades''))" by (simp add: k)
      then show ?thesis unfolding open_for_def
      by (simp only:, intro length_filter_map_le) (rule sel)
    qed
    then show ?thesis using assms(1) unfolding one_open_def by (meson le_trans)
  qed
qed

interpretation virtual: invariant_system dvf_step one_open closes
  by unfold_locales (auto simp: dvf_step_def one_open_entry one_open_exit split: dvf_op.splits)

text \<open>A decision is never held twice: over any sequence of virtual entries and closing exits, retried or failing ones
  included, a decision id has at most one open virtual trade.\<close>

theorem one_open_virtual_trade:
  assumes "list_all closes ops" "did \<noteq> ''''"
  shows "length (open_for did (foldl dvf_step new_database ops)) \<le> 1"
proof -
  have "one_open new_database"
    by (simp add: one_open_def open_for_def new_database_def init_schema_def schema_def open_table_def new_table_def)
  from virtual.inv_run[OF this assms(1)] show ?thesis using assms(2) by (simp add: one_open_def)
qed

theorem one_open_virtual_trade_witness:
  "length (open_for ''d1'' (foldl dvf_step new_database
     [VirtualEntry \<lparr>ck_local = 0, ck_utc = 0\<rparr> [(''decision_id'', PStr ''d1'')],
      VirtualEntry \<lparr>ck_local = 0, ck_utc = 0\<rparr> [(''decision_id'', PStr ''d1'')]])) \<le> 1"
  by (rule one_open_virtual_trade) (simp_all add: closes_def)

section \<open>Trades, summaries and bands\<close>

lemma order_unique_conflict:
  assumes "\<exists>co\<in>set (tb_columns tb). co_name co = ''order_id'' \<and> co_unique co" "r ''order_id'' = Text s" "r' ''order_id'' = Text s"
  shows "conflicts tb r r'"
  using assms by (auto simp: conflicts_def list_ex_iff)

text \<open>A logged trade is found again: after a successful \<open>log_entry\<close> the trade of that order is the new row, open, with
  the fields of the call; \<open>log_exit\<close> then reports a change, and the trade is closed with the exit's price and result and
  everything else as logged.\<close>

theorem logged_trade_round_trip:
  assumes "\<exists>co\<in>set (tb_columns (db ''trades'')). co_name co = ''order_id'' \<and> co_unique co"
    and "dict_get t ''order_id'' PNone = PStr s" and "log_entry clk t db = Inr (i, db1)"
    and "log_exit clk' (Some s) e db1 = Inr (b, db2)"
  shows "\<exists>r r'. get_trade (Some s) db1 = Some r \<and> r ''id'' = Num (of_int i) \<and> r ''status'' = Text ''OPEN''
      \<and> Some (r ''entry_price'') = bind (dict_get t ''entry_price'' PNone) \<and> Some (r ''qty'') = bind (dict_get t ''qty'' PNone)
      \<and> b \<and> get_trade (Some s) db2 = Some r' \<and> r' ''status'' = Text ''CLOSED''
      \<and> Some (r' ''exit_price'') = bind (dict_get e ''exit_price'' PNone) \<and> Some (r' ''pnl'') = bind (dict_get e ''pnl'' (PNum 0))
      \<and> r' ''id'' = r ''id'' \<and> r' ''entry_price'' = r ''entry_price''"
proof -
  define vals where "vals = [arg t ''order_id'', arg t ''symbol'', arg_or (PStr ''CE'') t ''direction'', arg_or (PStr ''BUY'') t ''side'',
      arg t ''qty'', arg t ''entry_price'', time_arg clk t ''entry_time'', arg t ''entry_reason'',
      arg t ''score'', arg t ''confidence'', arg t ''market_quality_score'', arg t ''market_quality_grade'',
      json_arg (PDict []) t ''market_quality_components'', arg t ''hard_reject_reason'',
      arg t ''risk_budget_used'', arg t ''risk_amount'', arg t ''allocation_grade'',
      json_arg (PDict []) t ''position_size_breakdown'', json_arg (PList []) t ''factors'',
      json_arg (PDict []) t ''greeks'', text_arg ''status'' ''OPEN'']"
  define r where "r = new_row clk vals (db ''trades'')"
  define evals where "evals = [arg e ''exit_price'', time_arg clk' e ''exit_time'', arg e ''exit_reason'', arg_or (PNum 0) e ''pnl'',
      arg_or (PNum 0) e ''pnl_pct'', arg_or (PNum 0) e ''hold_time_sec'', arg_or (PNum 0) e ''mfe'', arg_or (PNum 0) e ''mae'',
      text_arg ''status'' ''CLOSED'']"
  have "on_table ''trades'' (insert_row clk vals) db = Inr (i, db1)" using assms(3) by (simp add: log_entry_def vals_def)
  then have ok: "\<not> list_ex (\<lambda>(_, v). v = None) vals" "\<not> list_ex (conflicts (db ''trades'') r) (tb_rows (db ''trades''))"
    and i: "i = tb_last (db ''trades'') + 1" and db1: "db1 = db(''trades'' := append_row r (db ''trades''))"
    by (auto simp: on_table_def insert_row_def Let_def r_def split: if_splits)
  have bound: "bind (dict_get t ''entry_price'' PNone) \<noteq> None" "bind (dict_get t ''qty'' PNone) \<noteq> None"
    using ok(1) by (auto simp: vals_def arg_def)
  have r: "r ''order_id'' = Text s" "r ''id'' = Num (of_int i)" "r ''status'' = Text ''OPEN''"
    "Some (r ''entry_price'') = bind (dict_get t ''entry_price'' PNone)" "Some (r ''qty'') = bind (dict_get t ''qty'' PNone)"
    using bound assms(2) i
    by (auto simp: r_def new_row_def vals_def arg_def arg_or_def time_arg_def json_arg_def text_arg_def bind_def[of "PStr s"])
  have others: "\<not> has_order (Some s) r'" if "r' \<in> set (tb_rows (db ''trades''))" for r'
    using order_unique_conflict[where r = r and r' = r' and s = s, OF assms(1) r(1)] ok(2) that
    by (auto simp: has_order_def list_ex_iff)
  then have none: "filter (has_order (Some s)) (tb_rows (db ''trades'')) = []" by (auto simp: filter_empty_conv)
  have "find p (xs @ [y]) = (if \<exists>x\<in>set xs. p x then find p xs else if p y then Some y else None)" for p and xs :: "row list" and y
    by (induction xs) auto
  note find = this
  have g1: "get_trade (Some s) db1 = Some r"
    using others r(1) by (auto simp: get_trade_def db1 append_row_def find has_order_def)
  have "changed (on_table ''trades'' (update_rows (has_order (Some s)) evals) db1) = Inr (b, db2)"
    using assms(4) by (simp add: log_exit_def evals_def)
  then have eok: "\<not> list_ex (\<lambda>(_, v). v = None) evals"
    and b: "b = (0 < length (filter (has_order (Some s)) (tb_rows (db1 ''trades''))))"
    and db2: "tb_rows (db2 ''trades'') = map (\<lambda>r. if has_order (Some s) r then set_cells evals r else r) (tb_rows (db1 ''trades''))"
    by (auto simp: changed_def on_table_def update_rows_def split: if_splits)
  have eb: "bind (dict_get e ''exit_price'' PNone) \<noteq> None" "bind (dict_get e ''pnl'' (PNum 0)) \<noteq> None"
    using eok by (auto simp: evals_def arg_def arg_or_def)
  have r': "set_cells evals r ''order_id'' = Text s" "set_cells evals r ''status'' = Text ''CLOSED''"
    "Some (set_cells evals r ''exit_price'') = bind (dict_get e ''exit_price'' PNone)"
    "Some (set_cells evals r ''pnl'') = bind (dict_get e ''pnl'' (PNum 0))"
    "set_cells evals r ''id'' = r ''id''" "set_cells evals r ''entry_price'' = r ''entry_price''"
    using eb r(1) by (auto simp: set_cells_def evals_def arg_def arg_or_def time_arg_def text_arg_def)
  have "tb_rows (db2 ''trades'') = tb_rows (db ''trades'') @ [set_cells evals r]"
    using others r(1) by (auto simp: db2 db1 append_row_def has_order_def intro!: map_idI)
  then have "get_trade (Some s) db2 = Some (set_cells evals r)"
    using others r'(1) by (auto simp: get_trade_def find has_order_def)
  moreover have "b" using r(1) by (simp add: b db1 append_row_def has_order_def)
  ultimately show ?thesis using g1 r r' by blast
qed

text \<open>The summary of a day is consistent.\<close>

lemma summary_consistent:
  assumes "rs \<noteq> []"
  shows "dm_wins (summarise rs) + dm_losses (summarise rs) \<le> dm_total (summarise rs)"
    and "0 \<le> dm_win_rate (summarise rs) \<and> dm_win_rate (summarise rs) \<le> 100"
    and "\<forall>r\<in>set rs. r ''direction'' = Text ''CE'' \<or> r ''direction'' = Text ''PE'' \<Longrightarrow>
      dm_ce_pnl (summarise rs) + dm_pe_pnl (summarise rs) = dm_pnl (summarise rs)"
proof -
  show "dm_wins (summarise rs) + dm_losses (summarise rs) \<le> dm_total (summarise rs)"
    unfolding summarise_def Let_def by (simp, induction rs) auto
  have "length (filter (\<lambda>r. 0 < row_pnl r) rs) \<le> length rs" by simp
  then show "0 \<le> dm_win_rate (summarise rs) \<and> dm_win_rate (summarise rs) \<le> 100"
    using assms by (simp add: summarise_def Let_def divide_le_eq)
  show "\<forall>r\<in>set rs. r ''direction'' = Text ''CE'' \<or> r ''direction'' = Text ''PE'' \<Longrightarrow>
      dm_ce_pnl (summarise rs) + dm_pe_pnl (summarise rs) = dm_pnl (summarise rs)"
    unfolding summarise_def Let_def by (simp, induction rs) auto
qed

text \<open>The bands split the trades: no trade is lost or counted twice, and wins never exceed trades.\<close>

lemma groups_total: "sum_list (map (\<lambda>(k, g). length g) (groups key rs)) = length rs"
proof -
  have "sum_list (map (\<lambda>k. length (filter (\<lambda>r. key r = k) rs)) ks) = length (filter (\<lambda>r. key r \<in> set ks) rs)"
    if "distinct ks" for ks
    using that
  proof (induction ks)
    case (Cons k ks)
    have "length (filter (\<lambda>r. key r = k \<or> key r \<in> set ks) rs) =
        length (filter (\<lambda>r. key r = k) rs) + length (filter (\<lambda>r. key r \<in> set ks) rs)"
      using Cons.prems by (induction rs) auto
    then show ?case using Cons by simp
  qed simp
  moreover have "distinct (sort (remdups (map key rs)))" "filter (\<lambda>r. key r \<in> set (sort (remdups (map key rs)))) rs = rs"
    by (auto simp: filter_id_conv)
  ultimately show ?thesis unfolding groups_def map_map o_def prod.case by presburger
qed

lemma sum_list_sort_key: "sum_list (map g (sort_key f xs)) = (sum_list (map g xs) :: nat)"
proof (induction xs)
  case (Cons x xs)
  have "sum_list (map g (insort_key f x ys)) = g x + sum_list (map g ys)" for ys by (induction ys) auto
  then show ?case using Cons by simp
qed simp

lemma banded_total: "sum_list (map (\<lambda>(k, g). length g) (banded c bs other rs)) = length rs"
  by (simp add: banded_def sum_list_sort_key groups_total)

lemma bands_count_every_trade:
  "sum_list (map bd_trades (get_market_quality_win_rate_bands clk days db)) = length (closed_trades clk days ''market_quality_score'' db)"
  "list_all (\<lambda>b. bd_wins b \<le> bd_trades b) (get_market_quality_win_rate_bands clk days db)"
proof -
  have "map bd_trades (map stat_of gs) = map (\<lambda>(k, g). length g) gs" for gs
    by (auto simp: stat_of_def)
  then show "sum_list (map bd_trades (get_market_quality_win_rate_bands clk days db)) =
      length (closed_trades clk days ''market_quality_score'' db)"
    unfolding get_market_quality_win_rate_bands_def by (simp only: banded_total)
  show "list_all (\<lambda>b. bd_wins b \<le> bd_trades b) (get_market_quality_win_rate_bands clk days db)"
    by (auto simp: get_market_quality_win_rate_bands_def list_all_iff stat_of_def wins_def)
qed

text \<open>The orphan check compares local entry days with the day in UTC: in the first hours of a local day a position of the
  day before is not reported.\<close>

lemma orphan_check_lags:
  assumes "date_of (ck_utc clk) < date_of (ck_local clk)" "time_ok t" "date_of t = date_of (ck_utc clk)"
    and "r ''entry_time'' = Text (db_text t)"
  shows "r \<notin> set (check_orphan_positions clk db)"
  using assms sql_date_db_text[OF assms(2)] by (auto simp: check_orphan_positions_def order_asc_def)

definition sample_entry :: pydict where
  "sample_entry = [(''order_id'', PStr ''T1''), (''symbol'', PStr ''NIFTY''), (''qty'', PNum 65), (''entry_price'', PNum 120)]"

theorem logged_trade_round_trip_witness:
  "\<exists>db1 db2 r'. log_entry \<lparr>ck_local = 0, ck_utc = 0\<rparr> sample_entry new_database = Inr (1, db1)
     \<and> log_exit \<lparr>ck_local = 0, ck_utc = 0\<rparr> (Some ''T1'') [(''pnl'', PNum 650)] db1 = Inr (True, db2)
     \<and> get_trade (Some ''T1'') db2 = Some r' \<and> r' ''pnl'' = Num 650 \<and> r' ''entry_price'' = Num 120"
proof -
  have tb: "new_database ''trades'' = new_table trades_columns"
    by (simp add: new_database_def init_schema_def schema_def open_table_def new_table_def ensure_table_columns_def trades_added_def
        trades_columns_def col_def plain_column_def)
  have u: "\<exists>co\<in>set (tb_columns (new_database ''trades'')). co_name co = ''order_id'' \<and> co_unique co"
    by (simp add: tb new_table_def trades_columns_def col_def)
  let ?c = "\<lparr>ck_local = 0, ck_utc = 0\<rparr> :: clock"
  obtain db1 where 1: "log_entry ?c sample_entry new_database = Inr (1, db1)"
    by (simp add: log_entry_def on_table_def insert_row_def Let_def tb new_table_def violates_not_null_def trades_columns_def col_def
        plain_column_def new_row_def sample_entry_def arg_def arg_or_def time_arg_def json_arg_def text_arg_def dict_get_def bind_def
        dumps_def db_timestamp_def)
  obtain b db2 where 2: "log_exit ?c (Some ''T1'') [(''pnl'', PNum 650)] db1 = Inr (b, db2)"
    by (simp add: log_exit_def changed_def on_table_def update_rows_def arg_def arg_or_def time_arg_def text_arg_def dict_get_def bind_def
        db_timestamp_def)
  have o: "dict_get sample_entry ''order_id'' PNone = PStr ''T1''" by (simp add: sample_entry_def dict_get_def)
  from logged_trade_round_trip[OF u o 1 2] obtain r r' where
    "b" "get_trade (Some ''T1'') db2 = Some r'" "Some (r' ''pnl'') = bind (PNum 650)" "r' ''entry_price'' = r ''entry_price''"
    "Some (r ''entry_price'') = bind (PNum 120)"
    by (auto simp: sample_entry_def dict_get_def)
  then show ?thesis using 1 2 by (auto simp: bind_def)
qed

end
