(* ===== verification/Paper_Executor.thy ===== *)
theory Paper_Executor
  imports Trade_Database
begin

text \<open>
  Decision validation on paper (\<open>core/validation/paper_executor.py\<close>): virtual entries and exits, the observer the entry
  engine calls for accepted decisions and on every tick, and the sweep at start-up; with the excursions
  \<open>core/validation/analytics.py\<close> computes from ticks.  A Python exception is \<open>None\<close>; the observers swallow it.
\<close>

section \<open>Conversions\<close>

text \<open>\<open>float(v)\<close> of what a market context holds: numbers and flags, anything else raises.\<close>

definition py_float :: "pyval \<Rightarrow> real option" where
  "py_float v = (case v of PNum x \<Rightarrow> Some x | PBool b \<Rightarrow> Some (if b then 1 else 0) | _ \<Rightarrow> None)"

definition py_or :: "pyval \<Rightarrow> pyval \<Rightarrow> pyval" where
  "py_or v w = (if py_true v then v else w)"

definition upper_char :: "char \<Rightarrow> char" where
  "upper_char c = (if 97 \<le> (of_char c :: nat) \<and> (of_char c :: nat) \<le> 122 then char_of ((of_char c :: nat) - 32) else c)"

text \<open>\<open>str(v).upper() == "PE"\<close>.\<close>

definition is_put :: "pyval \<Rightarrow> bool" where
  "is_put v \<longleftrightarrow> (case v of PStr s \<Rightarrow> map upper_char s = ''PE'' | _ \<Rightarrow> False)"

text \<open>\<open>datetime.fromisoformat\<close> on the texts the database holds: a date, or date and time to the second or microsecond.\<close>

definition skip_char :: "char \<Rightarrow> string \<Rightarrow> string option" where
  "skip_char c s = (case s of x # r \<Rightarrow> if x = c then Some r else None | [] \<Rightarrow> None)"

definition parse_clock :: "string \<Rightarrow> int option" where
  "parse_clock s =
     (case parse_digits 2 0 s of None \<Rightarrow> None | Some (h, r1) \<Rightarrow>
      (case skip_char CHR '':'' r1 of None \<Rightarrow> None | Some r2 \<Rightarrow>
      (case parse_digits 2 0 r2 of None \<Rightarrow> None | Some (m, r3) \<Rightarrow>
      (case skip_char CHR '':'' r3 of None \<Rightarrow> None | Some r4 \<Rightarrow>
      (case parse_digits 2 0 r4 of None \<Rightarrow> None | Some (sec, r5) \<Rightarrow>
         if h < 24 \<and> m < 60 \<and> sec < 60
         then (let t = (int h * 3600 + int m * 60 + int sec) * 1000000
               in if r5 = [] then Some t
                  else case skip_char CHR ''.'' r5 of None \<Rightarrow> None
                       | Some r6 \<Rightarrow> (case parse_digits 6 0 r6 of Some (us, []) \<Rightarrow> Some (t + int us) | _ \<Rightarrow> None))
         else None)))))"

definition parse_datetime :: "string \<Rightarrow> instant option" where
  "parse_datetime s =
     (case fromisoformat (take 10 s) of None \<Rightarrow> None
      | Some d \<Rightarrow> if length s = 10 then Some (d * 86400000000)
                  else map_option (\<lambda>t. d * 86400000000 + t) (parse_clock (drop 11 s)))"

definition to_datetime :: "instant \<Rightarrow> pyval \<Rightarrow> instant" where
  "to_datetime now v =
     (case v of PTime t \<Rightarrow> t
      | PStr s \<Rightarrow> if s \<noteq> '''' then (case parse_datetime s of Some t \<Rightarrow> t | None \<Rightarrow> now) else now
      | _ \<Rightarrow> now)"

section \<open>Virtual trades\<close>

definition simulate_entry :: "clock \<Rightarrow> pydict \<Rightarrow> pydict \<Rightarrow> database \<Rightarrow> (pydict \<times> database) option" where
  "simulate_entry clk decision ctx db =
     (case (py_float (py_or (dict_get ctx ''entry_price'' (py_or (dict_get decision ''premium'' PNone) (PNum 0))) (PNum 0)),
            py_float (py_or (dict_get ctx ''entry_slippage_pct'' (PNum 0)) (PNum 0))) of
        (Some entry_price, Some slippage) \<Rightarrow>
          let fill = (if 0 < entry_price then py_round 2 (entry_price * (1 + slippage / 100)) else 0);
              trade = [(''decision_id'', dict_get decision ''decision_id'' PNone), (''status'', PStr ''OPEN''),
                       (''direction'', dict_get decision ''direction'' PNone), (''session_type'', dict_get decision ''session_type'' PNone),
                       (''strategy_version'', dict_get decision ''strategy_version'' PNone),
                       (''engine_version'', dict_get decision ''engine_version'' PNone),
                       (''config_hash'', dict_get decision ''config_hash'' PNone),
                       (''position_size'', py_or (dict_get decision ''position_size_recommendation'' PNone) (PNum 0)),
                       (''allocation_grade'', dict_get decision ''allocation_grade'' PNone),
                       (''market_quality_grade'', dict_get decision ''market_quality_grade'' PNone),
                       (''risk_amount'', dict_get ctx ''risk_amount'' (PNum 0)),
                       (''virtual_entry_time'', dict_get ctx ''entry_time'' (PTime (ck_local clk))),
                       (''virtual_entry_price'', PNum fill), (''slippage_model'', dict_get ctx ''slippage_model'' (PStr ''none'')),
                       (''notes'', dict_get ctx ''notes'' PNone)]
          in (case log_dvf_trade_entry clk trade db of
                Inl _ \<Rightarrow> None | Inr (i, db') \<Rightarrow> Some (trade @ [(''id'', PNum (of_int i))], db'))
      | _ \<Rightarrow> None)"

text \<open>The result in money: bought for a call, the other way round for a put.\<close>

definition virtual_pnl :: "bool \<Rightarrow> real \<Rightarrow> real \<Rightarrow> int \<Rightarrow> real" where
  "virtual_pnl put entry fill qty =
     (if put then py_round 2 ((entry - fill) * of_int qty) else py_round 2 ((fill - entry) * of_int qty))"

text \<open>The realised figures of an exit.\<close>

definition exit_fill :: "real \<Rightarrow> real \<Rightarrow> real" where
  "exit_fill price slippage = (if 0 < price then py_round 2 (price * (1 - slippage / 100)) else 0)"

definition exit_payload :: "instant \<Rightarrow> pydict \<Rightarrow> pydict \<Rightarrow> real \<Rightarrow> real \<Rightarrow> real \<Rightarrow> pydict option" where
  "exit_payload now position ctx fill pnl risk =
     (let t0 = to_datetime now (dict_get position ''virtual_entry_time'' PNone);
          t1 = to_datetime now (dict_get ctx ''exit_time'' (PTime now));
          held = max 0 (py_int (total_seconds (t1 - t0)));
          pnl_pct = (if 0 < risk then py_round 2 (pnl / risk * 100) else 0)
      in case (py_float (py_or (dict_get ctx ''mfe'' (PNum (max 0 pnl))) (PNum 0)),
               py_float (py_or (dict_get ctx ''mae'' (PNum (min 0 pnl))) (PNum 0))) of
           (Some mfe, Some mae) \<Rightarrow>
             Some [(''status'', PStr ''CLOSED''), (''virtual_exit_time'', PTime t1), (''virtual_exit_price'', PNum fill),
                   (''pnl'', PNum pnl), (''pnl_pct'', PNum pnl_pct), (''hold_time_sec'', PNum (of_int held)),
                   (''mfe'', PNum mfe), (''mae'', PNum mae), (''exit_reason'', dict_get ctx ''exit_reason'' PNone),
                   (''notes'', dict_get ctx ''notes'' PNone)]
         | _ \<Rightarrow> None)"

definition simulate_exit :: "clock \<Rightarrow> pydict \<Rightarrow> pydict \<Rightarrow> database \<Rightarrow> (pydict \<times> database) option" where
  "simulate_exit clk position ctx db =
     (case (py_float (py_or (dict_get position ''virtual_entry_price'' (PNum 0)) (PNum 0)),
            py_float (py_or (dict_get ctx ''exit_slippage_pct'' (PNum 0)) (PNum 0)),
            py_float (py_or (dict_get position ''position_size'' PNone) (PNum 0)),
            py_float (py_or (dict_get position ''risk_amount'' (PNum 0)) (PNum 0)),
            py_float (dict_get position ''id'' PNone)) of
        (Some entry_price, Some slippage, Some sz, Some risk, Some pid) \<Rightarrow>
          (case py_float (py_or (dict_get ctx ''exit_price'' (PNum entry_price)) (PNum 0)) of None \<Rightarrow> None
           | Some exit_price \<Rightarrow>
               let fill = exit_fill exit_price slippage;
                   pnl = virtual_pnl (is_put (dict_get position ''direction'' (PStr ''CE''))) entry_price fill (py_int sz)
               in (case exit_payload (ck_local clk) position ctx fill pnl risk of None \<Rightarrow> None
                   | Some payload \<Rightarrow>
                       (case log_dvf_trade_exit clk (py_int pid) payload db of
                          Inl _ \<Rightarrow> None | Inr (_, db') \<Rightarrow> Some (payload @ position, db'))))
      | _ \<Rightarrow> None)"

definition row_dict :: "string list \<Rightarrow> row \<Rightarrow> pydict" where
  "row_dict cols r = map (\<lambda>c. (c, case r c of Null \<Rightarrow> PNone | Num x \<Rightarrow> PNum x | Text s \<Rightarrow> PStr s | Json v \<Rightarrow> v)) cols"

definition dvf_dict :: "row \<Rightarrow> pydict" where
  "dvf_dict = row_dict (''id'' # map co_name dvf_trades_columns)"

definition simulate_entry_by_decision_id :: "clock \<Rightarrow> string \<Rightarrow> pydict \<Rightarrow> database \<Rightarrow> (pydict \<times> database) option option" where
  "simulate_entry_by_decision_id clk did ctx db =
     map_option (\<lambda>r. simulate_entry clk (row_dict (''id'' # map co_name dvf_signals_columns) r) ctx db)
       (get_dvf_signal_by_decision_id did db)"

definition simulate_exit_by_decision_id :: "clock \<Rightarrow> string \<Rightarrow> pydict \<Rightarrow> database \<Rightarrow> (pydict \<times> database) option option" where
  "simulate_exit_by_decision_id clk did ctx db =
     map_option (\<lambda>r. simulate_exit clk (dvf_dict r) ctx db) (get_dvf_trade_by_decision_id did db)"

section \<open>The observer\<close>

record virtual_position =
  vp_trade :: pydict
  vp_symbol :: pyval
  vp_direction :: string
  vp_sl :: real
  vp_tp :: real
  vp_opened :: instant

record executor =
  ex_open :: "(string \<times> virtual_position) list"
  ex_db :: database

definition MAX_OPEN_VIRTUAL_POSITIONS :: nat where
  "MAX_OPEN_VIRTUAL_POSITIONS = 200"

definition MAX_VIRTUAL_HOLD_SEC :: int where
  "MAX_VIRTUAL_HOLD_SEC = 1800"

record executor_config =
  xc_sl_points :: real
  xc_tp_points :: real
  xc_lot_size :: real

definition details_of :: "pydict \<Rightarrow> pydict" where
  "details_of decision = (case dict_get decision ''details'' (PDict []) of PDict d \<Rightarrow> d | _ \<Rightarrow> [])"

text \<open>The fields of the decision \<open>simulate_entry\<close> is given.\<close>

definition observed_decision :: "executor_config \<Rightarrow> string \<Rightarrow> string \<Rightarrow> pydict \<Rightarrow> pydict" where
  "observed_decision cfg did direction decision =
     [(''decision_id'', PStr did), (''direction'', PStr direction), (''session_type'', dict_get decision ''session_type'' PNone),
      (''strategy_version'', dict_get decision ''strategy_version'' PNone),
      (''engine_version'', dict_get decision ''engine_version'' PNone), (''config_hash'', dict_get decision ''config_hash'' PNone),
      (''position_size_recommendation'', py_or (dict_get decision ''position_size_recommendation'' PNone) (PNum (xc_lot_size cfg))),
      (''allocation_grade'', dict_get decision ''allocation_grade'' PNone),
      (''market_quality_grade'', dict_get (details_of decision) ''market_quality_grade'' PNone)]"

definition points_or :: "pydict \<Rightarrow> string \<Rightarrow> real \<Rightarrow> real option" where
  "points_or decision k dflt =
     py_float (py_or (dict_get decision k PNone) (py_or (dict_get (details_of decision) k PNone) (PNum dflt)))"

definition put_levels :: "string \<Rightarrow> real \<Rightarrow> real \<Rightarrow> real \<Rightarrow> real \<times> real" where
  "put_levels direction price sl tp = (if direction = ''CE'' then (price - sl, price + tp) else (price + sl, price - tp))"

definition record_decision :: "executor_config \<Rightarrow> clock \<Rightarrow> pydict \<Rightarrow> bool \<Rightarrow> pydict \<Rightarrow> executor \<Rightarrow> executor" where
  "record_decision cfg clk decision was_taken tick ex =
     (if \<not> was_taken then ex
      else case (py_float (py_or (dict_get tick ''ltp'' (PNum 0)) (PNum 0)), dict_get decision ''decision_id'' PNone,
                 dict_get decision ''direction'' PNone) of
             (Some price, PStr did, PStr direction) \<Rightarrow>
               if did = '''' \<or> direction \<notin> {''CE'', ''PE''} \<or> \<not> py_true (dict_get tick ''symbol'' PNone) \<or> price \<le> 0
                  \<or> map_of (ex_open ex) did \<noteq> None \<or> MAX_OPEN_VIRTUAL_POSITIONS \<le> length (ex_open ex)
               then ex
               else (case (points_or decision ''sl_points'' (xc_sl_points cfg), points_or decision ''tp_points'' (xc_tp_points cfg),
                           simulate_entry clk (observed_decision cfg did direction decision)
                             [(''entry_price'', PNum price), (''entry_time'', PTime (ck_local clk)),
                              (''risk_amount'', py_or (dict_get decision ''risk_amount'' PNone) (PNum 0))] (ex_db ex)) of
                       (Some sl, Some tp, Some (trade, db')) \<Rightarrow>
                         ex\<lparr>ex_open := ex_open ex @
                              [(did, \<lparr>vp_trade = trade, vp_symbol = dict_get tick ''symbol'' PNone, vp_direction = direction,
                                      vp_sl = fst (put_levels direction price sl tp), vp_tp = snd (put_levels direction price sl tp),
                                      vp_opened = ck_local clk\<rparr>)],
                            ex_db := db'\<rparr>
                     | _ \<Rightarrow> ex)
           | _ \<Rightarrow> ex)"

text \<open>Why and at which price a position is closed on a tick of \<open>symb\<close> at \<open>ltp\<close>.\<close>

definition level_hit :: "virtual_position \<Rightarrow> real \<Rightarrow> string option" where
  "level_hit p ltp =
     (if vp_direction p = ''CE''
      then if ltp \<le> vp_sl p then Some ''SL (virtual)'' else if vp_tp p \<le> ltp then Some ''TP (virtual)'' else None
      else if vp_sl p \<le> ltp then Some ''SL (virtual)'' else if ltp \<le> vp_tp p then Some ''TP (virtual)'' else None)"

definition virtual_exit :: "instant \<Rightarrow> pyval \<Rightarrow> real \<Rightarrow> virtual_position \<Rightarrow> (string \<times> pyval) option" where
  "virtual_exit now symb ltp p =
     (case (if py_true symb \<and> symb = vp_symbol p \<and> 0 < ltp then level_hit p ltp else None) of
        Some reason \<Rightarrow> Some (reason, PNum ltp)
      | None \<Rightarrow>
          if of_int MAX_VIRTUAL_HOLD_SEC \<le> total_seconds (now - vp_opened p)
          then Some (''Virtual max hold'',
                 if symb = vp_symbol p \<and> 0 < ltp then PNum ltp else dict_get (vp_trade p) ''virtual_entry_price'' (PNum 0))
          else None)"

text \<open>The loop over the positions open at its start; an exception ends it.\<close>

fun update_positions :: "clock \<Rightarrow> pyval \<Rightarrow> real \<Rightarrow> (string \<times> virtual_position) list \<Rightarrow> executor \<Rightarrow> executor" where
  "update_positions clk symb ltp [] ex = ex"
| "update_positions clk symb ltp ((did, p) # ps) ex =
     (case virtual_exit (ck_local clk) symb ltp p of
        None \<Rightarrow> update_positions clk symb ltp ps ex
      | Some (reason, price) \<Rightarrow>
          (case simulate_exit clk (vp_trade p)
                  [(''exit_price'', price), (''exit_time'', PTime (ck_local clk)), (''exit_reason'', PStr reason)] (ex_db ex) of
             None \<Rightarrow> ex
           | Some (_, db') \<Rightarrow>
               update_positions clk symb ltp ps (ex\<lparr>ex_open := filter (\<lambda>(d, _). d \<noteq> did) (ex_open ex), ex_db := db'\<rparr>)))"

definition update_open_positions :: "clock \<Rightarrow> pydict \<Rightarrow> executor \<Rightarrow> executor" where
  "update_open_positions clk tick ex =
     (case py_float (py_or (dict_get tick ''ltp'' (PNum 0)) (PNum 0)) of
        None \<Rightarrow> ex
      | Some ltp \<Rightarrow> update_positions clk (dict_get tick ''symbol'' PNone) ltp (ex_open ex) ex)"

text \<open>The sweep at start-up: stale open rows are closed at their entry price; an exception ends it.\<close>

fun reconcile_rows :: "clock \<Rightarrow> int \<Rightarrow> row list \<Rightarrow> database \<Rightarrow> nat \<times> database" where
  "reconcile_rows clk max_age [] db = (0, db)"
| "reconcile_rows clk max_age (r # rs) db =
     (if total_seconds (ck_local clk - to_datetime (ck_local clk) (dict_get (dvf_dict r) ''virtual_entry_time'' PNone)) < of_int max_age
      then reconcile_rows clk max_age rs db
      else case simulate_exit clk (dvf_dict r)
                  [(''exit_price'', dict_get (dvf_dict r) ''virtual_entry_price'' PNone), (''exit_time'', PTime (ck_local clk)),
                   (''exit_reason'', PStr ''Virtual max hold (reconciled on restart)'')] db of
             None \<Rightarrow> (0, db)
           | Some (_, db') \<Rightarrow> (let (n, db'') = reconcile_rows clk max_age rs db' in (Suc n, db'')))"

definition reconcile_stale_open_positions :: "clock \<Rightarrow> int \<Rightarrow> database \<Rightarrow> nat \<times> database" where
  "reconcile_stale_open_positions clk max_age db = reconcile_rows clk max_age (get_open_dvf_trades 500 db) db"

section \<open>Excursions\<close>

text \<open>\<open>compute_trade_mfe_mae_from_ticks\<close>: prices are the positive ones of the ticks.\<close>

definition excursions :: "real \<Rightarrow> bool \<Rightarrow> int \<Rightarrow> real list \<Rightarrow> real \<times> real" where
  "excursions entry put qty prices =
     (if entry \<le> 0 then (0, 0)
      else let q = (if qty \<le> 0 then 1 else qty);
               moves = map (\<lambda>p. (if put then entry - p else p - entry) * of_int q) (filter (\<lambda>p. 0 < p) prices);
               (best, worst) = foldl (\<lambda>(b, w) m. (if b < m then m else b, if m < w then m else w)) (0, 0) moves
           in (py_round 2 best, py_round 2 worst))"

section \<open>What the observer keeps\<close>

definition observer_ok :: "executor \<Rightarrow> bool" where
  "observer_ok ex \<longleftrightarrow> distinct (map fst (ex_open ex)) \<and> length (ex_open ex) \<le> MAX_OPEN_VIRTUAL_POSITIONS"

datatype observer_event = Decision clock pydict bool pydict | Observed clock pydict

definition observer_step :: "executor_config \<Rightarrow> executor \<Rightarrow> observer_event \<Rightarrow> executor" where
  "observer_step cfg ex e =
     (case e of Decision clk d taken tick \<Rightarrow> record_decision cfg clk d taken tick ex
      | Observed clk tick \<Rightarrow> update_open_positions clk tick ex)"

lemma record_decision_cases:
  "record_decision cfg clk d taken tick ex = ex
   \<or> (\<exists>did p db'. map_of (ex_open ex) did = None \<and> length (ex_open ex) < MAX_OPEN_VIRTUAL_POSITIONS
        \<and> record_decision cfg clk d taken tick ex = ex\<lparr>ex_open := ex_open ex @ [(did, p)], ex_db := db'\<rparr>)"
  unfolding record_decision_def
  by (simp split: option.split pyval.split prod.split) (metis not_le)

lemma record_decision_ok: "observer_ok ex \<Longrightarrow> observer_ok (record_decision cfg clk d taken tick ex)"
  using record_decision_cases[of cfg clk d taken tick ex]
  by (auto simp: observer_ok_def map_of_eq_None_iff)

lemma update_positions_sub:
  "\<exists>f. ex_open (update_positions clk symb ltp ps ex) = filter f (ex_open ex)"
proof (induction clk symb ltp ps ex rule: update_positions.induct)
  case (1 clk symb ltp ex)
  show ?case by (rule exI[of _ "\<lambda>_. True"]) simp
next
  case (2 clk symb ltp did p ps ex)
  show ?case
  proof (cases "virtual_exit (ck_local clk) symb ltp p")
    case None
    then show ?thesis using 2(1) by simp
  next
    case (Some e)
    obtain reason price where e: "e = (reason, price)" by (cases e)
    let ?r = "simulate_exit clk (vp_trade p)
      [(''exit_price'', price), (''exit_time'', PTime (ck_local clk)), (''exit_reason'', PStr reason)] (ex_db ex)"
    show ?thesis
    proof (cases ?r)
      case None
      then show ?thesis using Some e by (intro exI[of _ "\<lambda>_. True"]) simp
    next
      case r: (Some x)
      obtain t db' where x: "x = (t, db')" by (cases x)
      obtain f where "ex_open (update_positions clk symb ltp ps (ex\<lparr>ex_open := filter (\<lambda>(d, _). d \<noteq> did) (ex_open ex), ex_db := db'\<rparr>)) =
          filter f (filter (\<lambda>(d, _). d \<noteq> did) (ex_open ex))"
        using 2(2)[OF Some e[symmetric] r x[symmetric]] by auto
      then show ?thesis using Some e r x by (auto simp: filter_filter)
    qed
  qed
qed

lemma update_open_positions_ok: "observer_ok ex \<Longrightarrow> observer_ok (update_open_positions clk tick ex)"
proof -
  assume ok: "observer_ok ex"
  have sub: "distinct (map fst (filter f xs)) \<and> length (filter f xs) \<le> length xs" if "distinct (map fst xs)"
    for f and xs :: "(string \<times> virtual_position) list"
    using that by (simp add: distinct_map_filter)
  show ?thesis
  proof (cases "py_float (py_or (dict_get tick ''ltp'' (PNum 0)) (PNum 0))")
    case (Some ltp)
    obtain f where "ex_open (update_open_positions clk tick ex) = filter f (ex_open ex)"
      using update_positions_sub[of clk "dict_get tick ''symbol'' PNone" ltp "ex_open ex" ex] Some
      by (auto simp: update_open_positions_def)
    then show ?thesis using ok sub[of "ex_open ex" f] by (auto simp: observer_ok_def intro: le_trans[OF length_filter_le])
  qed (use ok in \<open>simp add: update_open_positions_def\<close>)
qed

interpretation observer: invariant_system "observer_step cfg" observer_ok "\<lambda>_. True" for cfg
  by unfold_locales (auto simp: observer_step_def record_decision_ok update_open_positions_ok split: observer_event.splits)

lemma observer_bounded:
  "observer_ok (foldl (observer_step cfg) \<lparr>ex_open = [], ex_db = db\<rparr> es)"
  using observer.inv_run[of "\<lparr>ex_open = [], ex_db = db\<rparr>" es cfg] by (simp add: observer_ok_def list_all_iff)

section \<open>Puts are scored the wrong way round\<close>

lemma round_half_even_minus: "round_half_even (- x) = - round_half_even x"
proof (cases "x \<in> \<int>")
  case True
  then obtain k where "x = of_int k" by (elim Ints_cases)
  then show ?thesis by (simp add: round_half_even_def Let_def)
next
  case False
  then have "\<lceil>x\<rceil> = \<lfloor>x\<rfloor> + 1" by (metis Ints_of_int ceiling_altdef)
  then have f: "\<lfloor>- x\<rfloor> = - \<lfloor>x\<rfloor> - 1" by (simp add: floor_minus)
  have "even (- \<lfloor>x\<rfloor> - 1) = odd \<lfloor>x\<rfloor>" by simp
  then show ?thesis unfolding round_half_even_def Let_def f by auto
qed

lemma py_round_minus: "py_round n (- x) = - py_round n x"
  by (simp add: py_round_def round_half_even_minus)

lemma virtual_pnl_put: "virtual_pnl True entry fill qty = - virtual_pnl False entry fill qty"
  using py_round_minus[of 2 "(fill - entry) * of_int qty"] by (simp add: virtual_pnl_def algebra_simps)

lemma py_float_or: "py_float (py_or (PNum x) (PNum 0)) = Some x"
  by (simp add: py_float_def py_or_def py_true_def)

lemma simulate_entry_trade:
  assumes "simulate_entry clk decision ctx db = Some (trade, db')" "map_of ctx ''entry_price'' = Some (PNum x)" "0 < x"
    and "map_of ctx ''entry_slippage_pct'' = None"
  shows "map_of trade ''virtual_entry_price'' = Some (PNum (py_round 2 x))"
    and "map_of trade ''direction'' = Some (dict_get decision ''direction'' PNone)"
    and "map_of trade ''position_size'' = Some (py_or (dict_get decision ''position_size_recommendation'' PNone) (PNum 0))"
  using assms
  by (auto simp: simulate_entry_def py_float_or Let_def dict_get_def split: sum.splits)

lemma exit_payload_pnl:
  "exit_payload now position ctx fill pnl risk = Some payload \<Longrightarrow> map_of payload ''pnl'' = Some (PNum pnl)"
  by (auto simp: exit_payload_def Let_def split: option.splits)

lemma simulate_exit_pnl:
  assumes "simulate_exit clk position ctx db = Some (res, db')"
    and "map_of position ''virtual_entry_price'' = Some (PNum e)" "map_of ctx ''exit_price'' = Some (PNum x)" "0 < x"
    and "map_of ctx ''exit_slippage_pct'' = None" "py_float (py_or (dict_get position ''position_size'' PNone) (PNum 0)) = Some q"
  shows "map_of res ''pnl'' = Some (PNum (virtual_pnl (is_put (dict_get position ''direction'' (PStr ''CE''))) e (py_round 2 x) (py_int q)))"
proof -
  have 1: "py_float (py_or (dict_get position ''virtual_entry_price'' (PNum 0)) (PNum 0)) = Some e"
    "py_float (py_or (dict_get ctx ''exit_slippage_pct'' (PNum 0)) (PNum 0)) = Some 0"
    "py_float (py_or (dict_get ctx ''exit_price'' (PNum e)) (PNum 0)) = Some x" "exit_fill x 0 = py_round 2 x"
    using assms by (simp_all add: dict_get_def py_float_or exit_fill_def)
  from assms(1) obtain payload risk where
    "exit_payload (ck_local clk) position ctx (py_round 2 x)
       (virtual_pnl (is_put (dict_get position ''direction'' (PStr ''CE''))) e (py_round 2 x) (py_int q)) risk = Some payload"
    "res = payload @ position"
    unfolding simulate_exit_def 1 assms(6) by (auto simp: Let_def 1 split: option.splits sum.splits)
  with exit_payload_pnl show ?thesis by (fastforce simp: map_add_def split: option.splits)
qed

definition exit_context :: "instant \<Rightarrow> real \<Rightarrow> string \<Rightarrow> pydict" where
  "exit_context now price reason = [(''exit_price'', PNum price), (''exit_time'', PTime now), (''exit_reason'', PStr reason)]"

lemma record_decision_put:
  assumes "dict_get decision ''direction'' PNone = PStr ''PE''" "dict_get tick ''ltp'' (PNum 0) = PNum p0"
    and "points_or decision ''sl_points'' (xc_sl_points cfg) = Some sl" "points_or decision ''tp_points'' (xc_tp_points cfg) = Some tp"
    and "ex_open (record_decision cfg clk decision True tick ex) = ex_open ex @ [(did, p)]"
  shows "0 < p0" "py_true (vp_symbol p)" "vp_direction p = ''PE''" "vp_sl p = p0 + sl" "vp_tp p = p0 - tp"
    "map_of (vp_trade p) ''virtual_entry_price'' = Some (PNum (py_round 2 p0))"
    "is_put (dict_get (vp_trade p) ''direction'' (PStr ''CE''))"
proof -
  have f: "py_float (py_or (dict_get tick ''ltp'' (PNum 0)) (PNum 0)) = Some p0" unfolding assms(2) by (rule py_float_or)
  obtain d where d: "dict_get decision ''decision_id'' PNone = PStr d"
    using assms(5) f assms(1) by (auto simp: record_decision_def split: pyval.splits)
  let ?ctx = "[(''entry_price'', PNum p0), (''entry_time'', PTime (ck_local clk)),
    (''risk_amount'', py_or (dict_get decision ''risk_amount'' PNone) (PNum 0))]"
  let ?dec = "observed_decision cfg d ''PE'' decision"
  have g: "0 < p0 \<and> py_true (dict_get tick ''symbol'' PNone)"
    using assms(5) by (auto simp: record_decision_def f d assms(1) split: if_splits)
  obtain trade db' where s: "simulate_entry clk ?dec ?ctx (ex_db ex) = Some (trade, db')"
    using assms(5) by (auto simp: record_decision_def f d assms(1,3,4) split: if_splits option.splits)
  have p: "p = \<lparr>vp_trade = trade, vp_symbol = dict_get tick ''symbol'' PNone, vp_direction = ''PE'', vp_sl = p0 + sl, vp_tp = p0 - tp,
      vp_opened = ck_local clk\<rparr>"
    using assms(5) s by (auto simp: record_decision_def f d assms(1,3,4) put_levels_def split: if_splits)
  have e: "map_of ?ctx ''entry_price'' = Some (PNum p0)" "map_of ?ctx ''entry_slippage_pct'' = None" by simp_all
  note t = simulate_entry_trade[OF s e(1) conjunct1[OF g] e(2)]
  show "0 < p0" "py_true (vp_symbol p)" "vp_direction p = ''PE''" "vp_sl p = p0 + sl" "vp_tp p = p0 - tp" using g p by simp_all
  show "map_of (vp_trade p) ''virtual_entry_price'' = Some (PNum (py_round 2 p0))" using t p by simp
  show "is_put (dict_get (vp_trade p) ''direction'' (PStr ''CE''))"
    using t(2) p by (simp add: dict_get_def observed_decision_def is_put_def upper_char_def)
qed

text \<open>The validation scores puts backwards. The tick a decision is recorded on is that of the option to be bought, for a
  put as for a call; but for a put the observer sets the stop above and the target below the premium and books entry
  minus exit. So a put whose premium rises by the stop distance - a winning trade - is closed as a stop loss, one whose
  premium falls by the target distance is closed as a target, and the booked result is always the negative of the
  result of having bought the option.\<close>

theorem puts_scored_backwards:
  assumes "dict_get decision ''direction'' PNone = PStr ''PE''" "dict_get tick ''ltp'' (PNum 0) = PNum p0"
    and "points_or decision ''sl_points'' (xc_sl_points cfg) = Some sl" "points_or decision ''tp_points'' (xc_tp_points cfg) = Some tp"
    and "ex_open (record_decision cfg clk decision True tick ex) = ex_open ex @ [(did, p)]"
    and "0 < p1" "py_float (py_or (dict_get (vp_trade p) ''position_size'' PNone) (PNum 0)) = Some q"
  shows "(p0 + sl \<le> p1 \<longrightarrow> virtual_exit now (vp_symbol p) p1 p = Some (''SL (virtual)'', PNum p1))
    \<and> (p1 < p0 + sl \<and> p1 \<le> p0 - tp \<longrightarrow> virtual_exit now (vp_symbol p) p1 p = Some (''TP (virtual)'', PNum p1))
    \<and> (\<forall>clk' reason res db db'. simulate_exit clk' (vp_trade p) (exit_context now p1 reason) db = Some (res, db') \<longrightarrow>
         map_of res ''pnl'' = Some (PNum (- virtual_pnl False (py_round 2 p0) (py_round 2 p1) (py_int q))))"
proof -
  note r = record_decision_put[OF assms(1-5)]
  have "map_of res ''pnl'' = Some (PNum (- virtual_pnl False (py_round 2 p0) (py_round 2 p1) (py_int q)))"
    if "simulate_exit clk' (vp_trade p) (exit_context now p1 reason) db = Some (res, db')" for clk' reason res db db'
    using simulate_exit_pnl[OF that r(6) _ assms(6) _ assms(7)] r(7) virtual_pnl_put by (simp add: exit_context_def)
  then show ?thesis using r assms(6) by (auto simp: virtual_exit_def level_hit_def)
qed

definition small_executor :: executor_config where
  "small_executor = \<lparr>xc_sl_points = 7, xc_tp_points = 14, xc_lot_size = 65\<rparr>"

theorem puts_scored_backwards_witness:
  "\<exists>p. ex_open (record_decision small_executor \<lparr>ck_local = 0, ck_utc = 0\<rparr>
         [(''decision_id'', PStr ''d1''), (''direction'', PStr ''PE'')] True [(''symbol'', PStr ''NIFTY25000PE''), (''ltp'', PNum 100)]
         \<lparr>ex_open = [], ex_db = new_database\<rparr>) = [(''d1'', p)]
     \<and> virtual_exit 0 (vp_symbol p) 110 p = Some (''SL (virtual)'', PNum 110)"
proof -
  let ?c = "\<lparr>ck_local = 0, ck_utc = 0\<rparr> :: clock" and ?ex = "\<lparr>ex_open = [], ex_db = new_database\<rparr> :: executor"
  let ?d = "[(''decision_id'', PStr ''d1''), (''direction'', PStr ''PE'')]"
  let ?t = "[(''symbol'', PStr ''NIFTY25000PE''), (''ltp'', PNum 100)]"
  let ?ctx = "[(''entry_price'', PNum 100), (''entry_time'', PTime 0), (''risk_amount'', PNum 0)]"
  have tb: "tb_rows (new_database ''dvf_trades'') = []" "tb_last (new_database ''dvf_trades'') = 0"
    "tb_columns (new_database ''dvf_trades'') = dvf_trades_columns"
    by (simp_all add: new_database_def init_schema_def schema_def open_table_def new_table_def ensure_table_columns_def dvf_trades_added_def
        dvf_trades_columns_def col_def plain_column_def)
  have pts: "points_or ?d ''sl_points'' (xc_sl_points small_executor) = Some 7" "points_or ?d ''tp_points'' (xc_tp_points small_executor) = Some 14"
    by (simp_all add: points_or_def dict_get_def details_of_def py_or_def py_true_def py_float_def small_executor_def)
  have e: "py_float (py_or (dict_get ?ctx ''entry_price'' u) (PNum 0)) = Some 100"
    "py_float (py_or (dict_get ?ctx ''entry_slippage_pct'' (PNum 0)) (PNum 0)) = Some 0" for u
    by (simp_all add: dict_get_def py_or_def py_true_def py_float_def)
  have "\<exists>tr db'. simulate_entry ?c (observed_decision small_executor ''d1'' ''PE'' ?d) ?ctx new_database = Some (tr, db')
      \<and> dict_get tr ''position_size'' PNone = PNum 65"
    unfolding simulate_entry_def e log_dvf_trade_entry_def existing_or_def tb
    by (simp add: Let_def on_table_def insert_row_def tb matching_def with_status_def last_row_def violates_not_null_def
        dvf_trades_columns_def col_def plain_column_def new_row_def arg_def arg_or_def time_arg_def dict_get_def bind_def db_timestamp_def
        observed_decision_def details_of_def py_or_def py_true_def small_executor_def)
  then obtain tr db' where s: "simulate_entry ?c (observed_decision small_executor ''d1'' ''PE'' ?d) ?ctx new_database = Some (tr, db')"
    and size: "dict_get tr ''position_size'' PNone = PNum 65" by blast
  obtain p where p: "ex_open (record_decision small_executor ?c ?d True ?t ?ex) = [(''d1'', p)]" "vp_trade p = tr"
    using s by (simp add: record_decision_def pts dict_get_def[of ?t] dict_get_def[of ?d] py_or_def py_true_def py_float_def
        MAX_OPEN_VIRTUAL_POSITIONS_def)
  have "virtual_exit 0 (vp_symbol p) 110 p = Some (''SL (virtual)'', PNum 110)"
    using puts_scored_backwards[of ?d ?t 100 small_executor 7 14 ?c ?ex "''d1''" p 110 65 0] p size pts
    by (simp add: dict_get_def[of ?t] dict_get_def[of ?d] py_or_def py_true_def py_float_def)
  then show ?thesis using p(1) by blast
qed

end
