(* ===== verification/History_Row.thy ===== *)
theory History_Row
  imports Strikes Sql_Table "HOL-Library.Monad_Syntax"
begin

text \<open>
  The rows of the historical data set (\<open>core/historical/schema.py\<close>), and the reading of their time stamps and expiries
  by \<open>datetime.strptime\<close>, as \<open>quality_checks.py\<close> and \<open>gate.py\<close> call it.  A key that is absent from a row and one that
  holds \<open>None\<close> are both \<open>None\<close>, as \<open>row.get\<close> reads them.
\<close>

section \<open>The canonical row\<close>

record hrow =
  hr_timestamp :: "string option"
  hr_type :: "string option"
  hr_symbol :: "string option"
  hr_expiry :: "string option"
  hr_strike :: "real option"
  hr_ltp :: "real option"
  hr_bid :: "real option"
  hr_ask :: "real option"
  hr_volume :: "int option"
  hr_oi :: "int option"
  hr_delta :: "real option"
  hr_gamma :: "real option"
  hr_theta :: "real option"
  hr_vega :: "real option"
  hr_iv :: "real option"
  hr_spot_ref :: "real option"

definition is_option :: "hrow \<Rightarrow> bool" where
  "is_option r \<longleftrightarrow> hr_type r = Some ''CE'' \<or> hr_type r = Some ''PE''"

section \<open>\<open>strptime\<close>\<close>

text \<open>\<open>\\s\<close> of a format's blank.\<close>

definition py_space :: "char \<Rightarrow> bool" where
  "py_space c \<longleftrightarrow> (let k = (of_char c :: nat) in k \<in> {9, 10, 11, 12, 13, 28, 29, 30, 31, 32, 133, 160})"

text \<open>One to \<open>k\<close> digits with a value between \<open>lo\<close> and \<open>hi\<close>.\<close>

definition number :: "nat \<Rightarrow> nat \<Rightarrow> nat \<Rightarrow> string \<Rightarrow> (nat \<times> string) option" where
  "number k lo hi s =
     (let p = takeWhile is_digit (take k s)
      in if p = [] then None
         else case parse_digits (length p) 0 s of
                Some (n, r) \<Rightarrow> if lo \<le> n \<and> n \<le> hi then Some (n, r) else None
              | None \<Rightarrow> None)"

definition literal :: "char \<Rightarrow> string \<Rightarrow> string option" where
  "literal c s = (case s of x # r \<Rightarrow> if x = c then Some r else None | [] \<Rightarrow> None)"

text \<open>\<open>%d\<close> takes two digits, or a blank and one.\<close>

definition day_field :: "string \<Rightarrow> (nat \<times> string) option" where
  "day_field s = (case literal CHR '' '' s of Some r \<Rightarrow> number 1 1 9 r | None \<Rightarrow> number 2 1 31 s)"

text \<open>\<open>%Y-%m-%d\<close>, and what is left of the text.\<close>

definition date_field :: "string \<Rightarrow> (int \<times> string) option" where
  "date_field s =
     do { (y, s) \<leftarrow> parse_digits 4 0 s; s \<leftarrow> literal CHR ''-'' s;
          (m, s) \<leftarrow> number 2 1 12 s; s \<leftarrow> literal CHR ''-'' s;
          (d, s) \<leftarrow> day_field s;
          if valid_date (int y) m (int d) then Some (ordinal_of (int y) m (int d), s) else None }"

text \<open>The blank of a format, or its \<open>T\<close>, in either case.\<close>

definition separator :: "string \<Rightarrow> string option" where
  "separator s =
     (case s of
        [] \<Rightarrow> None
      | c # r \<Rightarrow> if c = CHR ''T'' \<or> c = CHR ''t'' then Some r else if py_space c then Some (dropWhile py_space r) else None)"

text \<open>\<open>.%f\<close> or nothing, up to the end: the microseconds.\<close>

definition fraction_field :: "string \<Rightarrow> nat option" where
  "fraction_field s =
     (case s of
        [] \<Rightarrow> Some 0
      | c # r \<Rightarrow> if c = CHR ''.'' \<and> r \<noteq> [] \<and> length r \<le> 6 \<and> list_all is_digit r
                 then map_option fst (parse_digits 6 0 (r @ replicate (6 - length r) CHR ''0'')) else None)"

definition clock_field :: "string \<Rightarrow> int option" where
  "clock_field s =
     do { (h, s) \<leftarrow> number 2 0 23 s; s \<leftarrow> literal CHR '':'' s;
          (m, s) \<leftarrow> number 2 0 59 s; s \<leftarrow> literal CHR '':'' s;
          (sec, s) \<leftarrow> number 2 0 59 s; us \<leftarrow> fraction_field s;
          Some (((int h * 60 + int m) * 60 + int sec) * 1000000 + int us) }"

text \<open>\<open>_parse_ts\<close> tries four formats; they differ in the separator and the fraction, so at most one can match.\<close>

definition parse_ts :: "string option \<Rightarrow> instant option" where
  "parse_ts ts =
     (case ts of
        None \<Rightarrow> None
      | Some s \<Rightarrow> do { (d, s) \<leftarrow> date_field (take 26 s); s \<leftarrow> separator s; t \<leftarrow> clock_field s; Some (d * 86400000000 + t) })"

definition date_str :: "string option \<Rightarrow> string" where
  "date_str ts = (case parse_ts ts of Some t \<Rightarrow> isoformat (date_of t) | None \<Rightarrow> ''UNPARSEABLE'')"

text \<open>\<open>datetime.strptime(s, '%Y-%m-%d')\<close>.\<close>

definition strp_date :: "string \<Rightarrow> int option" where
  "strp_date s = (case date_field s of Some (d, []) \<Rightarrow> Some d | _ \<Rightarrow> None)"

section \<open>Symbols\<close>

definition MONTHS :: "string list" where
  "MONTHS = [''JAN'', ''FEB'', ''MAR'', ''APR'', ''MAY'', ''JUN'', ''JUL'', ''AUG'', ''SEP'', ''OCT'', ''NOV'', ''DEC'']"

text \<open>\<open>strftime('%d%b%y').upper()\<close>.\<close>

definition expiry_token :: "int \<Rightarrow> string" where
  "expiry_token d = (case civil d of (y, m, k) \<Rightarrow> padded 2 (nat k) @ MONTHS ! (m - 1) @ padded 2 (nat y mod 100))"

definition expiry_to_symbol_token :: "string \<Rightarrow> string option" where
  "expiry_to_symbol_token expiry_iso = map_option expiry_token (strp_date expiry_iso)"

definition schema_option_symbol :: "string \<Rightarrow> real \<Rightarrow> string \<Rightarrow> string option" where
  "schema_option_symbol expiry_iso strike itype =
     map_option (\<lambda>token. ''NIFTY'' @ token @ show_int (py_int strike) @ itype) (expiry_to_symbol_token expiry_iso)"

section \<open>Lemmas\<close>

lemma parse_digits_app:
  "list_all is_digit p \<Longrightarrow> parse_digits (length p) acc (p @ r) = map_option (\<lambda>(n, s). (n, s @ r)) (parse_digits (length p) acc p)"
  by (induction p arbitrary: acc) simp_all

lemma padded_digits: "list_all is_digit (padded k n)"
  by (induction k arbitrary: n) (simp_all add: digit_value)

lemma number_padded:
  assumes "0 < k" "n < 10 ^ k" "lo \<le> n" "n \<le> hi"
  shows "number k lo hi (padded k n @ r) = Some (n, r)"
proof -
  have t: "takeWhile is_digit (padded k n) = padded k n"
    using padded_digits[of k n] by (simp add: list_all_iff takeWhile_eq_all_conv)
  have "padded k n \<noteq> []" using assms(1) by (cases k) simp_all
  then show ?thesis using assms parse_padded'[of n k r] by (simp add: number_def t)
qed

lemma digit_not_blank: "is_digit c \<Longrightarrow> c \<noteq> CHR '' ''"
  by (auto simp: is_digit_def)

lemma day_field_padded:
  assumes "1 \<le> n" "n \<le> 31"
  shows "day_field (padded 2 n @ r) = Some (n, r)"
proof -
  obtain c p where p: "padded 2 n = c # p" "is_digit c" using padded_digits[of 2 n] length_padded[of 2 n]
    by (cases "padded 2 n") auto
  then have "literal CHR '' '' (padded 2 n @ r) = None" using digit_not_blank[of c] by (simp add: literal_def)
  then show ?thesis using assms number_padded[of 2 n 1 31 r] by (simp add: day_field_def)
qed

lemma literal_Cons [simp]: "literal c (c # r) = Some r"
  by (simp add: literal_def)

lemma date_field_isoformat:
  assumes "date_ok d"
  shows "date_field (isoformat d @ r) = Some (d, r)"
proof -
  obtain y m k where c: "civil d = (y, m, k)" by (metis prod_cases3)
  have y: "1 \<le> y" "y \<le> 9999" and v: "valid_date y m k" and o: "ordinal_of y m k = d"
    and b: "1 \<le> m" "m \<le> 12" "1 \<le> k" "k \<le> 31"
    using civil_year[OF assms c] valid_civil[OF assms c] civil_ordinal[OF c] month_length_pos[of y "m - 1"] by auto
  have "parse_digits 4 0 (padded 4 (nat y) @ s) = Some (nat y, s)" for s
    using y parse_padded'[of "nat y" 4 s] by (simp add: nat_less_iff)
  moreover have "number 2 1 12 (padded 2 m @ s) = Some (m, s)" for s using b number_padded[of 2 m 1 12 s] by simp
  moreover have "day_field (padded 2 (nat k) @ s) = Some (nat k, s)" for s using b by (intro day_field_padded) simp_all
  ultimately show ?thesis using y v o b by (simp add: date_field_def isoformat_def c)
qed

lemma strp_date_isoformat: "date_ok d \<Longrightarrow> strp_date (isoformat d) = Some d"
  using date_field_isoformat[of d "[]"] by (simp add: strp_date_def)

lemma ordinal_range:
  assumes "valid_date y m k"
  shows "date_ok (ordinal_of y m k)"
proof -
  have v: "1 \<le> y" "y \<le> 9999" "1 \<le> k" "k \<le> month_length y (m - 1)" "1 \<le> m" "m \<le> 12" using assms by (simp_all add: valid_date_def)
  have s: "year_start 1 = 1 - UNIX_ORDINAL" "year_start 10000 = 3652060 - UNIX_ORDINAL"
    by (simp_all add: year_start_def UNIX_ORDINAL_def)
  have d0: "0 \<le> days_before y (m - 1)" unfolding days_before_def
    by (intro sum_nonneg) (use month_length_pos[of y] in \<open>auto intro: order_trans[of 0 28]\<close>)
  have "days_before y (Suc (m - 1)) \<le> days_before y 12" using v by (intro days_before_le) simp
  then have "days_before y (m - 1) + k \<le> days_before y 12"
    using v days_before_Suc[of y "m - 1"] by linarith
  then have "days_before y (m - 1) + k \<le> year_start (y + 1) - year_start y"
    by (simp add: days_before_year year_start_step)
  moreover have "year_start 1 \<le> year_start y" "year_start (y + 1) \<le> year_start 10000"
    using v by (auto intro: year_start_mono)
  ultimately show ?thesis using v d0 by (simp add: date_ok_def ordinal_of_def s)
qed

lemma date_field_ok: "date_field s = Some (d, r) \<Longrightarrow> date_ok d"
  by (auto simp: date_field_def bind_eq_Some_conv ordinal_range split: if_splits)

lemma strp_date_ok: "strp_date s = Some d \<Longrightarrow> date_ok d"
  by (auto simp: strp_date_def dest: date_field_ok split: option.splits list.splits)

end
