(* ===== verification/History_Store.thy ===== *)
theory History_Store
  imports History_Row Py_Dict
begin

text \<open>
  The store of historical rows (\<open>core/historical/storage.py\<close>), one SQLite file per calendar month, and the data source a
  backtest reads it through (\<open>data_interface.py\<close>).  A file is the list of its rows in order of insertion; the directory
  is a list of files with their month keys.
\<close>

section \<open>Files\<close>

type_synonym history = "(string \<times> hrow list) list"

definition file_month :: "string \<Rightarrow> string" where
  "file_month d = take 7 d"

definition months_available :: "history \<Rightarrow> string list" where
  "months_available st = sort (map fst st)"

definition rows_of :: "history \<Rightarrow> string \<Rightarrow> hrow list" where
  "rows_of st k = get_or [] (map_of st k)"

text \<open>Opening a file creates it.\<close>

fun put_file :: "string \<Rightarrow> hrow list \<Rightarrow> history \<Rightarrow> history" where
  "put_file k rs [] = [(k, rs)]"
| "put_file k rs ((k', rs') # st) = (if k = k' then (k, rs) # st else (k', rs') # put_file k rs st)"

section \<open>Writing\<close>

definition row_key :: "hrow \<Rightarrow> string option \<times> string option" where
  "row_key r = (hr_timestamp r, hr_symbol r)"

definition row_complete :: "hrow \<Rightarrow> bool" where
  "row_complete r \<longleftrightarrow> hr_timestamp r \<noteq> None \<and> hr_type r \<noteq> None \<and> hr_symbol r \<noteq> None \<and> hr_ltp r \<noteq> None"

text \<open>\<open>INSERT OR IGNORE\<close> skips a row that breaks NOT NULL or UNIQUE(timestamp, symbol); the second component is
  \<open>cursor.rowcount\<close>.\<close>

definition insert_or_ignore :: "hrow \<Rightarrow> hrow list \<Rightarrow> hrow list \<times> int" where
  "insert_or_ignore r rs =
     (if row_complete r \<and> row_key r \<notin> row_key ` set rs then (rs @ [r], 1) else (rs, 0))"

text \<open>The inserts into one file and the \<open>rowcount\<close> after the last of them.\<close>

definition insert_month :: "hrow list \<Rightarrow> hrow list \<Rightarrow> hrow list \<times> int" where
  "insert_month new rs = foldl (\<lambda>(rs', _) r. insert_or_ignore r rs') (rs, -1) new"

definition write_file :: "string \<times> hrow list \<Rightarrow> int \<times> history \<Rightarrow> int \<times> history" where
  "write_file m ws =
     (case (m, ws) of
        ((k, new), (written, st)) \<Rightarrow>
          (let (rs, rowcount) = insert_month new (rows_of st k)
           in (written + (if 0 < rowcount then rowcount else 0), put_file k rs st)))"

text \<open>A row without a time stamp raises before anything is written.\<close>

definition write_rows :: "hrow list \<Rightarrow> history \<Rightarrow> py_error + int \<times> history" where
  "write_rows rows st =
     (if list_ex (\<lambda>r. hr_timestamp r = None) rows then Inl TypeError
      else Inr (fold write_file (group_by (\<lambda>r. map_option file_month (hr_timestamp r)) rows) (0, st)))"

definition stored :: "hrow list \<Rightarrow> history \<Rightarrow> history" where
  "stored rows st = (case write_rows rows st of Inl _ \<Rightarrow> st | Inr (_, st') \<Rightarrow> st')"

section \<open>Reading\<close>

definition row_date :: "hrow \<Rightarrow> string option" where
  "row_date r = (case hr_timestamp r of None \<Rightarrow> None | Some t \<Rightarrow> sql_date (Text t))"

definition in_range :: "string \<Rightarrow> string \<Rightarrow> hrow \<Rightarrow> bool" where
  "in_range a b r \<longleftrightarrow> (case row_date r of None \<Rightarrow> False | Some d \<Rightarrow> a \<le> d \<and> d \<le> b)"

definition wanted :: "string list \<Rightarrow> hrow \<Rightarrow> bool" where
  "wanted symbols r \<longleftrightarrow> symbols = [] \<or> hr_symbol r \<in> Some ` set symbols"

definition by_time :: "hrow list \<Rightarrow> hrow list" where
  "by_time rs = sort_key (\<lambda>r. get_or '''' (hr_timestamp r)) rs"

definition query_range :: "history \<Rightarrow> string \<Rightarrow> string \<Rightarrow> string list \<Rightarrow> hrow list" where
  "query_range st start_date end_date symbols =
     concat (map (\<lambda>k. if k < file_month start_date \<or> file_month end_date < k then []
                      else by_time (filter (\<lambda>r. in_range start_date end_date r \<and> wanted symbols r) (rows_of st k)))
               (months_available st))"

definition coverage_dates :: "history \<Rightarrow> string list" where
  "coverage_dates st = sort (remdups (List.map_filter row_date (concat (map (rows_of st) (months_available st)))))"

definition row_count :: "history \<Rightarrow> nat" where
  "row_count st = sum_list (map (\<lambda>k. length (rows_of st k)) (months_available st))"

section \<open>The data source of a backtest\<close>

datatype data_mode = Real | Synthetic

datatype data_error = Real_Data_Missing | Invalid_Data_Mode | Resolver_Error py_error

record provenanced =
  pt_timestamp :: string
  pt_symbol :: string
  pt_ltp :: "real option"
  pt_bid :: "real option"
  pt_ask :: "real option"
  pt_mode :: data_mode

text \<open>What the injected resolver of synthetic mode returns: \<open>None\<close> for a dictionary without \<open>ltp\<close>.\<close>

record quote =
  qt_ltp :: "real option"
  qt_bid :: "real option"
  qt_ask :: "real option"

type_synonym resolver = "string \<Rightarrow> string \<Rightarrow> quote"

record data_source =
  ds_mode :: data_mode
  ds_resolver :: "resolver option"
  ds_cache :: "(string \<times> string) \<rightharpoonup> (string \<rightharpoonup> hrow)"

definition mode_named :: "string \<Rightarrow> data_mode option" where
  "mode_named m = (if m = ''real'' then Some Real else if m = ''synthetic'' then Some Synthetic else None)"

definition new_data_source :: "string \<Rightarrow> resolver option \<Rightarrow> data_error + data_source" where
  "new_data_source mode res =
     (case mode_named mode of
        None \<Rightarrow> Inl Invalid_Data_Mode
      | Some m \<Rightarrow> if m = Synthetic \<and> res = None then Inl Invalid_Data_Mode
                  else Inr \<lparr>ds_mode = m, ds_resolver = res, ds_cache = Map.empty\<rparr>)"

text \<open>\<open>{r['timestamp']: r for r in rows}\<close>: a later row replaces an earlier one.\<close>

definition day_rows :: "history \<Rightarrow> string \<Rightarrow> string \<Rightarrow> (string \<rightharpoonup> hrow)" where
  "day_rows st day symbol = map_of (rev (map (\<lambda>r. (get_or '''' (hr_timestamp r), r)) (query_range st day day [symbol])))"

definition lookup_real :: "history \<Rightarrow> string \<Rightarrow> string \<Rightarrow> data_source \<Rightarrow> hrow option \<times> data_source" where
  "lookup_real st timestamp symbol ds =
     (let key = (take 10 timestamp, symbol);
          ds = (if ds_cache ds key = None then ds\<lparr>ds_cache := (ds_cache ds)(key \<mapsto> day_rows st (take 10 timestamp) symbol)\<rparr> else ds)
      in (the (ds_cache ds key) timestamp, ds))"

definition resolve_tick :: "history \<Rightarrow> string \<Rightarrow> string \<Rightarrow> data_source \<Rightarrow> (data_error + provenanced) \<times> data_source" where
  "resolve_tick st timestamp symbol ds =
     (case ds_mode ds of
        Real \<Rightarrow>
          (let (found, ds) = lookup_real st timestamp symbol ds
           in (case found of
                 None \<Rightarrow> Inl Real_Data_Missing
               | Some r \<Rightarrow> Inr \<lparr>pt_timestamp = get_or '''' (hr_timestamp r), pt_symbol = get_or '''' (hr_symbol r),
                                pt_ltp = hr_ltp r, pt_bid = hr_bid r, pt_ask = hr_ask r, pt_mode = Real\<rparr>, ds))
      | Synthetic \<Rightarrow>
          (case ds_resolver ds of
             None \<Rightarrow> (Inl (Resolver_Error TypeError), ds)
           | Some f \<Rightarrow>
               (let q = f timestamp symbol
                in (if qt_ltp q = None then Inl (Resolver_Error KeyError)
                    else Inr \<lparr>pt_timestamp = timestamp, pt_symbol = symbol, pt_ltp = qt_ltp q, pt_bid = qt_bid q,
                              pt_ask = qt_ask q, pt_mode = Synthetic\<rparr>, ds))))"

section \<open>The files as one table\<close>

text \<open>The row of each key.  Writing adds the first complete row of a key and never changes one.\<close>

definition table_of :: "hrow list \<Rightarrow> (string option \<times> string option \<rightharpoonup> hrow)" where
  "table_of rs = (\<lambda>key. find (\<lambda>r. row_key r = key) rs)"

definition history_table :: "history \<Rightarrow> (string option \<times> string option \<rightharpoonup> hrow)" where
  "history_table st = (\<lambda>key. case fst key of None \<Rightarrow> None | Some t \<Rightarrow> table_of (rows_of st (file_month t)) key)"

definition add_row :: "(string option \<times> string option \<rightharpoonup> hrow) \<Rightarrow> hrow \<Rightarrow> (string option \<times> string option \<rightharpoonup> hrow)" where
  "add_row m r = (if row_complete r \<and> m (row_key r) = None then m(row_key r \<mapsto> r) else m)"

definition file_ok :: "string \<Rightarrow> hrow list \<Rightarrow> bool" where
  "file_ok k rs \<longleftrightarrow> distinct (map row_key rs) \<and> list_all (\<lambda>r. row_complete r \<and> map_option file_month (hr_timestamp r) = Some k) rs"

definition store_ok :: "history \<Rightarrow> bool" where
  "store_ok st \<longleftrightarrow> distinct (map fst st) \<and> list_all (\<lambda>(k, rs). file_ok k rs) st"

lemma find_append: "find p (xs @ ys) = (case find p xs of Some x \<Rightarrow> Some x | None \<Rightarrow> find p ys)"
  by (induction xs) simp_all

lemma table_of_None: "table_of rs key = None \<longleftrightarrow> key \<notin> row_key ` set rs"
  by (auto simp: table_of_def find_None_iff)

lemma table_of_Some: "distinct (map row_key rs) \<Longrightarrow> table_of rs key = Some r \<longleftrightarrow> r \<in> set rs \<and> row_key r = key"
  by (induction rs) (auto simp: table_of_def)

lemma table_of_insert: "table_of (fst (insert_or_ignore r rs)) = add_row (table_of rs) r"
  by (rule ext) (auto simp: insert_or_ignore_def add_row_def table_of_None[symmetric], auto simp: table_of_def find_append split: option.split)

lemma insert_month_fst:
  "fst (insert_month new rs) = foldl (\<lambda>rs' r. fst (insert_or_ignore r rs')) rs new"
  unfolding insert_month_def by (induction new rule: rev_induct) (simp_all add: case_prod_beta)

lemma table_of_insert_month: "table_of (fst (insert_month new rs)) = foldl add_row (table_of rs) new"
  unfolding insert_month_fst by (induction new rule: rev_induct) (simp_all add: table_of_insert)

lemma file_ok_insert_month:
  assumes "file_ok k rs" "\<forall>r\<in>set new. map_option file_month (hr_timestamp r) = Some k"
  shows "file_ok k (fst (insert_month new rs))"
  using assms unfolding insert_month_fst
  by (induction new rule: rev_induct) (auto simp: insert_or_ignore_def file_ok_def)

lemma map_of_put_file: "map_of (put_file k rs st) = (map_of st)(k \<mapsto> rs)"
  by (induction k rs st rule: put_file.induct) auto

lemma rows_of_put_file: "rows_of (put_file k rs st) k' = (if k' = k then rs else rows_of st k')"
  by (simp add: rows_of_def map_of_put_file)

lemma keys_put_file: "set (map fst (put_file k rs st)) = insert k (set (map fst st))"
  by (induction k rs st rule: put_file.induct) auto

lemma distinct_put_file: "distinct (map fst st) \<Longrightarrow> distinct (map fst (put_file k rs st))"
  by (induction k rs st rule: put_file.induct) (use keys_put_file in auto)

lemma store_ok_file: "store_ok st \<Longrightarrow> file_ok k (rows_of st k)"
  by (cases "map_of st k") (auto simp: store_ok_def rows_of_def list_all_iff file_ok_def dest: map_of_SomeD)

lemma store_ok_put_file: "store_ok st \<Longrightarrow> file_ok k rs \<Longrightarrow> store_ok (put_file k rs st)"
  unfolding store_ok_def
proof (intro conjI)
  assume h: "distinct (map fst st) \<and> list_all (\<lambda>(k, rs). file_ok k rs) st" "file_ok k rs"
  then show "list_all (\<lambda>(k, rs). file_ok k rs) (put_file k rs st)" by (induction k rs st rule: put_file.induct) auto
qed (simp add: distinct_put_file)

lemma write_file_snd: "snd (write_file (k, new) ws) = put_file k (fst (insert_month new (rows_of (snd ws) k))) (snd ws)"
  by (simp add: write_file_def case_prod_beta)

lemma write_months_ok:
  assumes "store_ok (snd ws)" "\<forall>(k, new)\<in>set gs. \<forall>r\<in>set new. map_option file_month (hr_timestamp r) = Some k"
  shows "store_ok (snd (fold write_file gs ws))"
  using assms
proof (induction gs arbitrary: ws)
  case (Cons g gs)
  obtain k new where g: "g = (k, new)" by fastforce
  have "store_ok (snd (write_file g ws))" unfolding g write_file_snd
    using Cons.prems by (auto simp: g intro!: store_ok_put_file file_ok_insert_month store_ok_file)
  then show ?case using Cons by simp
qed simp

lemma group_rows:
  assumes "(k, new) \<in> set (group_by key rows)"
  shows "new = filter (\<lambda>r. key r = Some k) rows"
proof -
  have "map_of (group_by key rows) k = Some new" using assms group_by_keys[of key rows] by simp
  then show ?thesis by (auto simp: group_by_map_of Let_def split: if_splits)
qed

definition month_of_row :: "hrow \<Rightarrow> string option" where
  "month_of_row r = map_option file_month (hr_timestamp r)"

lemma stored_conv:
  "stored rows st = (if list_ex (\<lambda>r. hr_timestamp r = None) rows then st
                     else snd (fold write_file (group_by month_of_row rows) (0, st)))"
  by (simp add: stored_def write_rows_def month_of_row_def[abs_def] case_prod_beta)

lemma store_ok_stored: "store_ok st \<Longrightarrow> store_ok (stored rows st)"
  unfolding stored_conv using write_months_ok[of "(0, st)" "group_by month_of_row rows"]
  by (force dest: group_rows simp: month_of_row_def)

interpretation historical_files: invariant_system "\<lambda>st rows. stored rows st" store_ok "\<lambda>_. True"
  by unfold_locales (rule store_ok_stored)

lemma add_rows_at:
  assumes "m key = m' key" "\<forall>r\<in>set rows. row_key r = key \<longrightarrow> P r"
  shows "foldl add_row m rows key = foldl add_row m' (filter P rows) key"
  using assms
proof (induction rows arbitrary: m m')
  case (Cons r rows)
  show ?case
  proof (cases "P r")
    case True
    have "add_row m r key = add_row m' r key" using Cons.prems(1) by (auto simp: add_row_def)
    then show ?thesis using True Cons.prems Cons.IH[of "add_row m r" "add_row m' r"] by simp
  next
    case False
    then have "add_row m r key = m' key" using Cons.prems by (auto simp: add_row_def)
    then show ?thesis using False Cons.prems Cons.IH[of "add_row m r" m'] by simp
  qed
qed simp

lemma history_table_months:
  assumes "distinct (map fst gs)" "\<forall>(k, new)\<in>set gs. \<forall>r\<in>set new. month_of_row r = Some k" "fst key = Some t"
  shows "history_table (snd (fold write_file gs ws)) key
       = foldl add_row (history_table (snd ws)) (get_or [] (map_of gs (file_month t))) key"
  using assms(1,2)
proof (induction gs arbitrary: ws)
  case (Cons g gs)
  obtain k new where g: "g = (k, new)" by fastforce
  let ?ws = "write_file g ws"
  have IH: "history_table (snd (fold write_file gs ?ws)) key
      = foldl add_row (history_table (snd ?ws)) (get_or [] (map_of gs (file_month t))) key"
    using Cons.prems by (intro Cons.IH) auto
  have at: "history_table (snd ?ws) key
      = (if file_month t = k then foldl add_row (table_of (rows_of (snd ws) k)) new key else history_table (snd ws) key)"
    using assms(3) by (simp add: history_table_def g write_file_snd rows_of_put_file table_of_insert_month)
  show ?case
  proof (cases "file_month t = k")
    case True
    then have none: "map_of gs k = None" using Cons.prems by (auto simp: g map_of_eq_None_iff)
    have "foldl add_row (table_of (rows_of (snd ws) k)) new key = foldl add_row (history_table (snd ws)) new key"
      using add_rows_at[of "table_of (rows_of (snd ws) k)" key "history_table (snd ws)" new "\<lambda>_. True"] assms(3) True
      by (simp add: history_table_def)
    then show ?thesis using IH at True none by (simp add: g)
  next
    case False
    then show ?thesis
      using IH at add_rows_at[of "history_table (snd ?ws)" key "history_table (snd ws)" "get_or [] (map_of gs (file_month t))" "\<lambda>_. True"]
      by (simp add: g)
  qed
qed simp

lemma stored_refines:
  assumes "\<forall>r\<in>set rows. hr_timestamp r \<noteq> None"
  shows "history_table (stored rows st) = foldl add_row (history_table st) rows"
proof
  fix key
  have h: "stored rows st = snd (fold write_file (group_by month_of_row rows) (0, st))"
    using assms by (auto simp: stored_conv list_ex_iff)
  show "history_table (stored rows st) key = foldl add_row (history_table st) rows key"
  proof (cases "fst key")
    case None
    then have "foldl add_row (history_table st) (filter (\<lambda>_. False) rows) key = foldl add_row (history_table st) rows key"
      using assms by (intro add_rows_at[symmetric]) (auto simp: row_key_def)
    then show ?thesis using None by (simp add: history_table_def)
  next
    case (Some t)
    let ?own = "filter (\<lambda>r. month_of_row r = Some (file_month t)) rows"
    have "get_or [] (map_of (group_by month_of_row rows) (file_month t)) = ?own" by (simp add: group_by_map_of Let_def)
    moreover have "\<forall>(k, new)\<in>set (group_by month_of_row rows). \<forall>r\<in>set new. month_of_row r = Some k"
      by (auto dest: group_rows)
    moreover have "foldl add_row (history_table st) ?own key = foldl add_row (history_table st) rows key"
      using Some by (intro add_rows_at[symmetric]) (auto simp: row_key_def month_of_row_def)
    ultimately show ?thesis
      unfolding h using history_table_months[of "group_by month_of_row rows" key t "(0, st)"] Some
      by (simp add: group_by_keys)
  qed
qed

section \<open>Queries\<close>

lemma take_mono: "(xs :: 'a::linorder list) \<le> ys \<Longrightarrow> take n xs \<le> take n ys"
proof (induction n arbitrary: xs ys)
  case (Suc n)
  then show ?case by (cases xs; cases ys) auto
qed simp

lemma sql_date_take: "sql_date (Text t) = Some d \<Longrightarrow> d = take 10 t"
  by (auto simp: sql_date_def split: option.splits if_splits)

lemma set_rows_of: "store_ok st \<Longrightarrow> r \<in> set (rows_of st k) \<longleftrightarrow> history_table st (row_key r) = Some r \<and> month_of_row r = Some k"
proof -
  assume st: "store_ok st"
  have ok: "file_ok k (rows_of st k)" by (rule store_ok_file[OF st])
  have "r \<in> set (rows_of st k) \<longleftrightarrow> table_of (rows_of st k) (row_key r) = Some r"
    using ok table_of_Some[of "rows_of st k" "row_key r" r] by (simp add: file_ok_def)
  moreover have "r \<in> set (rows_of st k) \<Longrightarrow> month_of_row r = Some k"
    using ok by (auto simp: file_ok_def list_all_iff month_of_row_def)
  ultimately show ?thesis
    by (auto simp: history_table_def month_of_row_def row_key_def split: option.splits)
qed

lemma in_available: "r \<in> set (rows_of st k) \<Longrightarrow> k \<in> set (months_available st)"
  by (auto simp: rows_of_def months_available_def get_or_def map_of_eq_None_iff split: option.splits dest: map_of_SomeD)
     (metis domI domIff map_of_eq_None_iff fst_conv image_iff map_of_SomeD)

lemma query_range_rows:
  assumes "store_ok st"
  shows "r \<in> set (query_range st a b symbols) \<longleftrightarrow>
           history_table st (row_key r) = Some r \<and> in_range a b r \<and> wanted symbols r"
proof -
  have month: "\<not> k < file_month a \<and> \<not> file_month b < k" if k: "month_of_row r = Some k" and r: "in_range a b r" for k
  proof -
    obtain t d where t: "hr_timestamp r = Some t" "sql_date (Text t) = Some d" "a \<le> d" "d \<le> b"
      using r by (auto simp: in_range_def row_date_def split: option.splits)
    have "k = take 7 d" using k t sql_date_take[OF t(2)] by (simp add: month_of_row_def file_month_def)
    then show ?thesis using take_mono[OF t(3), of 7] take_mono[OF t(4), of 7] by (simp add: file_month_def not_less)
  qed
  have "r \<in> set (query_range st a b symbols) \<longleftrightarrow>
      (\<exists>k\<in>set (months_available st). \<not> k < file_month a \<and> \<not> file_month b < k \<and> r \<in> set (rows_of st k)
         \<and> in_range a b r \<and> wanted symbols r)"
    by (auto simp: query_range_def by_time_def split: if_splits)
  also have "\<dots> \<longleftrightarrow> history_table st (row_key r) = Some r \<and> in_range a b r \<and> wanted symbols r"
    using month set_rows_of[OF assms] in_available by (auto simp: in_range_def row_date_def month_of_row_def split: option.splits) blast+
  finally show ?thesis .
qed

lemma query_range_sorted:
  assumes "store_ok st"
  shows "sorted (map (\<lambda>r. get_or '''' (hr_timestamp r)) (query_range st a b symbols))"
proof -
  let ?t = "\<lambda>r. get_or '''' (hr_timestamp r)"
  define part where "part k = (if k < file_month a \<or> file_month b < k then []
                   else by_time (filter (\<lambda>r. in_range a b r \<and> wanted symbols r) (rows_of st k)))" for k
  have mem: "file_month (?t r) = k" if "r \<in> set (part k)" for r k
    using that set_rows_of[OF assms, of r k] by (auto simp: part_def by_time_def month_of_row_def split: if_splits)
  have step: "sorted (map ?t (concat (map part ks)))" if "sorted ks" "distinct ks" for ks
    using that
  proof (induction ks)
    case (Cons k ks)
    have "?t r \<le> ?t r'" if r: "r \<in> set (part k)" "r' \<in> set (concat (map part ks))" for r r'
    proof -
      obtain k' where k': "k' \<in> set ks" "r' \<in> set (part k')" using r(2) by auto
      have "k < k'" using Cons.prems k'(1) by (cases "k = k'") (auto simp: order_less_le)
      then have "\<not> ?t r' \<le> ?t r" using mem[OF r(1)] mem[OF k'(2)] take_mono[of "?t r'" "?t r" 7] by (auto simp: file_month_def)
      then show ?thesis by simp
    qed
    moreover have "sorted (map ?t (part k))" by (simp add: part_def by_time_def)
    ultimately show ?case using Cons by (auto simp: sorted_append)
  qed simp
  have "sorted (months_available st)" "distinct (months_available st)" using assms by (auto simp: months_available_def store_ok_def)
  from step[OF this] show ?thesis by (simp add: query_range_def part_def[abs_def])
qed

section \<open>Properties\<close>

text \<open>C39: The months are invisible to a reader: a query after a write returns exactly the rows of one flat table, in which the
  first complete row of a key wins and every later one is ignored, whose date lies in the range and whose symbol is
  wanted; and they come in the order of their time stamps.\<close>

theorem store_reads_as_one_table:
  assumes "store_ok st" "\<forall>r\<in>set rows. hr_timestamp r \<noteq> None"
  shows "set (query_range (stored rows st) a b symbols)
           = {r. foldl add_row (history_table st) rows (row_key r) = Some r \<and> in_range a b r \<and> wanted symbols r}
       \<and> sorted (map (\<lambda>r. get_or '''' (hr_timestamp r)) (query_range (stored rows st) a b symbols))"
  using query_range_rows[OF store_ok_stored[OF assms(1)]] query_range_sorted[OF store_ok_stored[OF assms(1)]]
    stored_refines[OF assms(2)] by (auto simp: set_eq_iff)

definition sample_row :: "string \<Rightarrow> real \<Rightarrow> hrow" where
  "sample_row t p = \<lparr>hr_timestamp = Some t, hr_type = Some ''CE'', hr_symbol = Some ''NIFTY14AUG2624000CE'',
     hr_expiry = Some ''2026-08-14'', hr_strike = Some 24000, hr_ltp = Some p, hr_bid = Some (p - 1), hr_ask = Some (p + 1),
     hr_volume = Some 100, hr_oi = Some 1000, hr_delta = None, hr_gamma = None, hr_theta = None, hr_vega = None,
     hr_iv = None, hr_spot_ref = Some 24000\<rparr>"

lemma sample_row_sel [simp]:
  "hr_timestamp (sample_row t p) = Some t" "hr_symbol (sample_row t p) = Some ''NIFTY14AUG2624000CE''"
  "row_complete (sample_row t p)" "hr_ltp (sample_row t p) = Some p" "hr_bid (sample_row t p) = Some (p - 1)"
  "hr_ask (sample_row t p) = Some (p + 1)"
  by (simp_all add: sample_row_def row_complete_def)

theorem store_reads_as_one_table_witness:
  "set (query_range (stored [sample_row ''2026-08-14 09:15:00'' 100, sample_row ''2026-08-14 09:15:00'' 999] [])
          ''2026-08-01'' ''2026-08-31'' [])
     = {r. foldl add_row (history_table []) [sample_row ''2026-08-14 09:15:00'' 100, sample_row ''2026-08-14 09:15:00'' 999] (row_key r)
             = Some r \<and> in_range ''2026-08-01'' ''2026-08-31'' r \<and> wanted [] r}"
  using store_reads_as_one_table[of "[]" "[sample_row ''2026-08-14 09:15:00'' 100, sample_row ''2026-08-14 09:15:00'' 999]"
      "''2026-08-01''" "''2026-08-31''" "[]"] by (simp add: store_ok_def)

lemma write_file_count: "fst (write_file g ws) \<le> fst ws + 1"
proof -
  have "snd (insert_month new rs) \<le> 1" for new rs
    by (induction new rule: rev_induct) (auto simp: insert_month_def insert_or_ignore_def case_prod_beta)
  then show ?thesis by (auto simp: write_file_def split: prod.split) (metis snd_conv)
qed

lemma write_files_count: "fst (fold write_file gs ws) \<le> fst ws + int (length gs)"
proof (induction gs arbitrary: ws)
  case (Cons g gs)
  have "fst (fold write_file gs (write_file g ws)) \<le> fst (write_file g ws) + int (length gs)" by (rule Cons.IH)
  then show ?case using write_file_count[of g ws] by simp
qed simp

text \<open>The count \<open>write_rows\<close> returns is not the number of rows written: \<open>rowcount\<close> is read once per file, after its last
  insert, so the result is at most the number of months.\<close>

theorem write_count_counts_months:
  assumes "write_rows rows st = Inr (n, st')"
  shows "n \<le> int (card (month_of_row ` set rows))"
proof -
  let ?gs = "group_by month_of_row rows"
  have "(n, st') = fold write_file ?gs (0, st)"
    using assms by (simp add: write_rows_def month_of_row_def[abs_def] split: if_splits)
  then have "n = fst (fold write_file ?gs (0, st))" by (metis fst_conv)
  then have "n \<le> int (length ?gs)" using write_files_count[of ?gs "(0, st)"] by simp
  moreover have "length ?gs = card (set (map fst ?gs))"
    using distinct_card[OF group_by_keys[of month_of_row rows]] by (simp only: length_map)
  moreover have "set (map fst ?gs) = {k. Some k \<in> month_of_row ` set rows}"
    by (rule set_eqI) (simp only: set_group_by mem_Collect_eq image_iff eq_commute)
  moreover have "card {k. Some k \<in> month_of_row ` set rows} \<le> card (month_of_row ` set rows)"
    by (rule card_inj_on_le[of Some]) auto
  ultimately show ?thesis by simp
qed

theorem write_count_counts_months_witness:
  "fst (projr (write_rows [sample_row ''2026-08-14 09:15:00'' 100, sample_row ''2026-08-14 09:15:01'' 101] [])) = 1
     \<and> fst (projr (write_rows [sample_row ''2026-08-14 09:15:00'' 100, sample_row ''2026-08-14 09:15:01'' 101] []))
         \<le> int (card (month_of_row ` set [sample_row ''2026-08-14 09:15:00'' 100, sample_row ''2026-08-14 09:15:01'' 101]))
     \<and> row_count (stored [sample_row ''2026-08-14 09:15:00'' 100, sample_row ''2026-08-14 09:15:01'' 101] []) = 2"
proof (intro conjI)
  let ?rows = "[sample_row ''2026-08-14 09:15:00'' 100, sample_row ''2026-08-14 09:15:01'' 101]"
  have w: "write_rows ?rows [] = Inr (1, [(''2026-08'', ?rows)])"
    by (simp add: write_rows_def group_by_def file_month_def write_file_def insert_month_def insert_or_ignore_def
        rows_of_def row_key_def)
  show "fst (projr (write_rows ?rows [])) = 1" by (simp add: w)
  show "fst (projr (write_rows ?rows [])) \<le> int (card (month_of_row ` set ?rows))"
    using write_count_counts_months[OF w] by (simp only: w sum.sel fst_conv)
  show "row_count (stored ?rows []) = 2"
    by (simp add: stored_def w row_count_def months_available_def rows_of_def)
qed

text \<open>A run of a data source: lookups between writes to the store.\<close>

datatype source_event = Resolve string string | Write "hrow list"

definition source_step :: "history \<times> data_source \<Rightarrow> source_event \<Rightarrow> history \<times> data_source" where
  "source_step s e =
     (case (s, e) of
        ((st, ds), Resolve t symbol) \<Rightarrow> (st, snd (resolve_tick st t symbol ds))
      | ((st, ds), Write rows) \<Rightarrow> (stored rows st, ds))"

definition source_ok :: "history \<times> data_source \<Rightarrow> bool" where
  "source_ok s \<longleftrightarrow>
     (case s of (st, ds) \<Rightarrow>
        store_ok st \<and> ds_mode ds = Real
        \<and> (\<forall>day symbol rows t r. ds_cache ds (day, symbol) = Some rows \<longrightarrow> rows t = Some r
             \<longrightarrow> history_table st (Some t, Some symbol) = Some r))"

lemma add_rows_keep: "m key = Some r \<Longrightarrow> foldl add_row m rows key = Some r"
proof (induction rows arbitrary: m)
  case (Cons r' rows)
  have "add_row m r' key = Some r" using Cons.prems by (auto simp: add_row_def)
  then show ?case using Cons.IH by simp
qed simp

lemma stored_keeps: "history_table st key = Some r \<Longrightarrow> history_table (stored rows st) key = Some r"
  using stored_refines[of rows st] by (cases "\<forall>r\<in>set rows. hr_timestamp r \<noteq> None") (auto simp: add_rows_keep stored_conv list_ex_iff)

lemma history_table_complete:
  assumes "store_ok st" "history_table st key = Some r"
  shows "row_complete r \<and> row_key r = key"
proof -
  obtain t where t: "fst key = Some t" "table_of (rows_of st (file_month t)) key = Some r"
    using assms(2) by (auto simp: history_table_def split: option.splits)
  then show ?thesis using store_ok_file[OF assms(1), of "file_month t"] table_of_Some[of "rows_of st (file_month t)" key r]
    by (auto simp: file_ok_def list_all_iff)
qed

lemma day_rows_stored:
  assumes "store_ok st" "day_rows st day symbol t = Some r"
  shows "history_table st (Some t, Some symbol) = Some r"
proof -
  have "(t, r) \<in> set (map (\<lambda>r. (get_or '''' (hr_timestamp r), r)) (query_range st day day [symbol]))"
    using assms(2) by (auto simp: day_rows_def dest: map_of_SomeD)
  then have "r \<in> set (query_range st day day [symbol])" "get_or '''' (hr_timestamp r) = t" by auto
  then show ?thesis using history_table_complete[OF assms(1), of "row_key r" r]
    by (auto simp: query_range_rows[OF assms(1)] row_key_def wanted_def row_complete_def)
qed

lemma lookup_real_step:
  assumes "source_ok (st, ds)"
  shows "source_ok (st, snd (lookup_real st t symbol ds))"
    and "fst (lookup_real st t symbol ds) = Some r \<Longrightarrow> history_table st (Some t, Some symbol) = Some r"
  using assms day_rows_stored[of st "take 10 t" symbol]
  by (auto simp: source_ok_def lookup_real_def Let_def split: if_splits)

lemma source_ok_step: "source_ok s \<Longrightarrow> source_ok (source_step s e)"
proof (cases s; cases e)
  fix st ds t symbol
  assume h: "source_ok s" "s = (st, ds)" "e = Resolve t symbol"
  then have "ds_mode ds = Real" by (simp add: source_ok_def)
  then show ?thesis using h lookup_real_step(1)[of st ds t symbol] by (simp add: source_step_def resolve_tick_def case_prod_beta)
next
  fix st ds rows
  assume "source_ok s" "s = (st, ds)" "e = Write rows"
  then show ?thesis by (auto simp: source_ok_def source_step_def store_ok_stored intro: stored_keeps)
qed

interpretation real_source: invariant_system source_step source_ok "\<lambda>_. True"
  by unfold_locales (rule source_ok_step)

text \<open>In real mode nothing is ever substituted: whatever was looked up or written before, a resolved tick is labelled real
  and carries the prices of the row stored for exactly this time stamp and symbol; the alternative is the error.\<close>

theorem real_mode_never_substitutes:
  assumes "new_data_source ''real'' res = Inr ds" "foldl source_step ([], ds) es = (st, ds')"
  shows "(case fst (resolve_tick st t symbol ds') of
            Inl e \<Rightarrow> e = Real_Data_Missing
          | Inr p \<Rightarrow> pt_mode p = Real \<and> (\<exists>r. history_table st (Some t, Some symbol) = Some r \<and> hr_ltp r \<noteq> None
              \<and> p = \<lparr>pt_timestamp = t, pt_symbol = symbol, pt_ltp = hr_ltp r, pt_bid = hr_bid r, pt_ask = hr_ask r, pt_mode = Real\<rparr>))"
proof -
  have "source_ok ([], ds)" using assms(1) by (auto simp: new_data_source_def mode_named_def source_ok_def store_ok_def)
  then have ok: "source_ok (st, ds')" using real_source.inv_run[of "([], ds)" es] assms(2) by (simp add: list_all_iff)
  then have st: "store_ok st" "ds_mode ds' = Real" by (simp_all add: source_ok_def)
  show ?thesis
  proof (cases "fst (lookup_real st t symbol ds')")
    case None
    then show ?thesis using st(2) by (simp add: resolve_tick_def case_prod_beta)
  next
    case (Some r)
    have h: "history_table st (Some t, Some symbol) = Some r" by (rule lookup_real_step(2)[OF ok Some])
    then have "row_complete r" "row_key r = (Some t, Some symbol)" using history_table_complete[OF st(1) h] by auto
    then show ?thesis using Some st(2) h by (simp add: resolve_tick_def case_prod_beta row_key_def row_complete_def)
  qed
qed

definition sample_day :: "source_event list" where
  "sample_day = [Resolve ''2026-08-14 09:15:00'' ''NIFTY14AUG2624000CE'', Write [sample_row ''2026-08-15 09:15:00'' 100]]"

theorem real_mode_never_substitutes_witness:
  "(case foldl source_step ([], \<lparr>ds_mode = Real, ds_resolver = None, ds_cache = Map.empty\<rparr>) sample_day of
      (st, ds) \<Rightarrow>
        (case fst (resolve_tick st ''2026-08-15 09:15:00'' ''NIFTY14AUG2624000CE'' ds) of
            Inl e \<Rightarrow> e = Real_Data_Missing
          | Inr p \<Rightarrow> pt_mode p = Real \<and> (\<exists>r. history_table st (Some ''2026-08-15 09:15:00'', Some ''NIFTY14AUG2624000CE'') = Some r
              \<and> hr_ltp r \<noteq> None \<and> p = \<lparr>pt_timestamp = ''2026-08-15 09:15:00'', pt_symbol = ''NIFTY14AUG2624000CE'', pt_ltp = hr_ltp r,
                      pt_bid = hr_bid r, pt_ask = hr_ask r, pt_mode = Real\<rparr>)))"
proof -
  have "new_data_source ''real'' None = Inr \<lparr>ds_mode = Real, ds_resolver = None, ds_cache = Map.empty\<rparr>"
    by (simp add: new_data_source_def mode_named_def)
  from real_mode_never_substitutes[OF this, of sample_day _ _ "''2026-08-15 09:15:00''" "''NIFTY14AUG2624000CE''"]
  show ?thesis by (simp split: prod.split)
qed

end
