(* ===== verification/Data_Quality.thy ===== *)
theory Data_Quality
  imports History_Store
begin

text \<open>
  The quality checks on historical rows (\<open>core/historical/quality_checks.py\<close>).  Each is a function of the list of rows.
  A check walks the rows and notes issues; an issue is the messages and the dates it adds, and the number of issues is
  the number of failures.
\<close>

section \<open>Results\<close>

datatype check_name = Timestamp_Integrity | Duplicate_Ticks | Missing_Ticks | Contract_Identity | Expiry_Strike_Consistency
  | Bid_Ask_Validity | Session_Boundaries | Option_Chain_Coverage | Spot_Option_Alignment | Resolution | Quote_Authenticity

datatype detail =
    Unparseable_Timestamp "string option" "string option"
  | Out_Of_Order "string option" instant instant
  | Duplicate_Key "string option \<times> string option"
  | Gap "string option" instant instant
  | No_Tick_Pairs
  | Missing_Contract string
  | Symbol_Mismatch string "string option"
  | Invalid_Strike "real option"
  | Missing_Expiry "string option"
  | Unparseable_Expiry string
  | Spread_Outlier "string option" real real
  | Invalid_Quote "string option" "real option" "real option" "real option"
  | Outside_Session "string option" instant
  | No_Atm_Reference
  | Missing_Strikes string string int "int list"
  | No_Spot_Ref "string option" "string option"
  | No_Spot_Row "string option" instant
  | Spot_Ref_Mismatch "string option" real real
  | Too_Sparse "string option" string nat
  | Too_Coarse "string option" string real
  | No_Rows
  | Few_Quotes nat
  | Midpoint_Share real

record check_result =
  cr_name :: check_name
  cr_passed :: bool
  cr_checked :: nat
  cr_failed :: nat
  cr_details :: "detail list"
  cr_dates :: "string list"

type_synonym issue = "detail list \<times> string list"

definition verdict :: "check_name \<Rightarrow> nat \<Rightarrow> issue list \<Rightarrow> check_result" where
  "verdict name checked issues =
     \<lparr>cr_name = name, cr_passed = (length issues = 0), cr_checked = checked, cr_failed = length issues,
      cr_details = concat (map fst issues), cr_dates = concat (map snd issues)\<rparr>"

definition sorted_set :: "'a::linorder list \<Rightarrow> 'a list" where
  "sorted_set xs = sort (remdups xs)"

lemma sorted_set_simps [simp]: "set (sorted_set xs) = set xs" "sorted_set xs = [] \<longleftrightarrow> xs = []"
proof -
  show "set (sorted_set xs) = set xs" by (simp add: sorted_set_def)
  then show "sorted_set xs = [] \<longleftrightarrow> xs = []" by (metis set_empty)
qed

definition has_time :: "hrow \<Rightarrow> bool" where
  "has_time r \<longleftrightarrow> hr_timestamp r \<noteq> None \<and> hr_timestamp r \<noteq> Some ''''"

definition dates_of :: "hrow list \<Rightarrow> string list" where
  "dates_of rows = sorted_set (map (\<lambda>r. date_str (hr_timestamp r)) (filter has_time rows))"

definition row_time :: "hrow \<Rightarrow> instant option" where
  "row_time r = parse_ts (hr_timestamp r)"

definition row_day :: "hrow \<Rightarrow> string" where
  "row_day r = date_str (hr_timestamp r)"

section \<open>Time stamps and duplicates\<close>

fun timestamp_issues :: "(string option \<rightharpoonup> instant) \<Rightarrow> hrow list \<Rightarrow> issue list" where
  "timestamp_issues last_ts [] = []"
| "timestamp_issues last_ts (r # rows) =
     (case row_time r of
        None \<Rightarrow> ([Unparseable_Timestamp (hr_timestamp r) (hr_symbol r)], []) # timestamp_issues last_ts rows
      | Some t \<Rightarrow>
          (case last_ts (hr_symbol r) of
             None \<Rightarrow> []
           | Some prev \<Rightarrow> if t \<le> prev then [([Out_Of_Order (hr_symbol r) prev t], [row_day r])] else [])
          @ timestamp_issues (last_ts(hr_symbol r \<mapsto> t)) rows)"

definition check_timestamp_integrity :: "hrow list \<Rightarrow> check_result" where
  "check_timestamp_integrity rows = verdict Timestamp_Integrity (length rows) (timestamp_issues Map.empty rows)"

fun duplicate_issues :: "(string option \<times> string option) list \<Rightarrow> hrow list \<Rightarrow> issue list" where
  "duplicate_issues seen [] = []"
| "duplicate_issues seen (r # rows) =
     (if row_key r \<in> set seen then ([Duplicate_Key (row_key r)], [row_day r]) # duplicate_issues seen rows
      else duplicate_issues (row_key r # seen) rows)"

definition check_duplicate_ticks :: "hrow list \<Rightarrow> check_result" where
  "check_duplicate_ticks rows = verdict Duplicate_Ticks (length rows) (duplicate_issues [] rows)"

section \<open>Gaps\<close>

definition MAX_GAP_SEC :: real where
  "MAX_GAP_SEC = 5"

text \<open>The parsed times of each group of rows, sorted.\<close>

definition times_by :: "(hrow \<Rightarrow> 'k) \<Rightarrow> hrow list \<Rightarrow> ('k \<times> instant list) list" where
  "times_by key rows =
     map (\<lambda>(k, rs). (k, sort (List.map_filter row_time rs)))
       (group_by (\<lambda>r. if row_time r = None then None else Some (key r)) rows)"

definition consecutive :: "'a list \<Rightarrow> ('a \<times> 'a) list" where
  "consecutive xs = zip xs (tl xs)"

definition day_pairs :: "instant list \<Rightarrow> (instant \<times> instant) list" where
  "day_pairs ts = filter (\<lambda>(p, c). date_of p = date_of c) (consecutive ts)"

definition gap_issues :: "real \<Rightarrow> string option \<times> instant list \<Rightarrow> issue list" where
  "gap_issues max_gap_sec g =
     map (\<lambda>(p, c). ([Gap (fst g) p c], [isoformat (date_of c)]))
       (filter (\<lambda>(p, c). max_gap_sec < total_seconds (c - p)) (day_pairs (snd g)))"

definition check_missing_ticks :: "real \<Rightarrow> hrow list \<Rightarrow> check_result" where
  "check_missing_ticks max_gap_sec rows =
     (let by_symbol = times_by hr_symbol rows; checked = sum_list (map (\<lambda>g. length (day_pairs (snd g))) by_symbol)
      in if checked = 0
         then \<lparr>cr_name = Missing_Ticks, cr_passed = False, cr_checked = 0, cr_failed = 1, cr_details = [No_Tick_Pairs],
               cr_dates = dates_of rows\<rparr>
         else verdict Missing_Ticks checked (concat (map (gap_issues max_gap_sec) by_symbol)))"

section \<open>Contracts\<close>

definition STRIKE_STEP :: int where
  "STRIKE_STEP = 50"

definition contract_issue :: "hrow \<Rightarrow> issue option" where
  "contract_issue r =
     (let symbol = get_or '''' (hr_symbol r)
      in case (hr_expiry r, hr_strike r) of
           (Some expiry, Some strike) \<Rightarrow>
             (let expected = schema_option_symbol expiry strike (get_or '''' (hr_type r))
              in if expected \<noteq> Some symbol then Some ([Symbol_Mismatch symbol expected], [row_day r]) else None)
         | _ \<Rightarrow> Some ([Missing_Contract symbol], [row_day r]))"

definition check_contract_identity :: "hrow list \<Rightarrow> check_result" where
  "check_contract_identity rows =
     (let opts = filter is_option rows
      in verdict Contract_Identity (length opts) (List.map_filter contract_issue opts))"

definition strike_ok :: "real option \<Rightarrow> bool" where
  "strike_ok k = (case k of None \<Rightarrow> False | Some x \<Rightarrow> 0 < x \<and> py_int x mod STRIKE_STEP = 0)"

definition expiry_details :: "hrow \<Rightarrow> detail list" where
  "expiry_details r =
     (case hr_expiry r of
        None \<Rightarrow> [Missing_Expiry (hr_symbol r)]
      | Some e \<Rightarrow> if e = '''' then [Missing_Expiry (hr_symbol r)] else if strp_date e = None then [Unparseable_Expiry e] else [])"

definition expiry_strike_issue :: "hrow \<Rightarrow> issue option" where
  "expiry_strike_issue r =
     (let ds = (if strike_ok (hr_strike r) then [] else [Invalid_Strike (hr_strike r)]) @ expiry_details r
      in if ds = [] then None else Some (ds, [row_day r]))"

definition check_expiry_strike_consistency :: "hrow list \<Rightarrow> check_result" where
  "check_expiry_strike_consistency rows =
     (let opts = filter is_option rows
      in verdict Expiry_Strike_Consistency (length opts) (List.map_filter expiry_strike_issue opts))"

section \<open>Quotes\<close>

definition SPREAD_SANITY_MULTIPLE :: real where
  "SPREAD_SANITY_MULTIPLE = 10"

definition upper_median :: "real list \<Rightarrow> real" where
  "upper_median xs = (if xs = [] then 0 else sort xs ! (length xs div 2))"

definition row_spread :: "hrow \<Rightarrow> real option" where
  "row_spread r =
     (case (hr_bid r, hr_ask r) of (Some b, Some a) \<Rightarrow> if 0 < b \<and> 0 < a then Some (a - b) else None | _ \<Rightarrow> None)"

definition median_spreads :: "hrow list \<Rightarrow> (string option \<rightharpoonup> real)" where
  "median_spreads opts =
     map_of (map (\<lambda>(s, rs). (s, upper_median (List.map_filter row_spread rs)))
               (group_by (\<lambda>r. if row_spread r = None then None else Some (hr_symbol r)) opts))"

definition quote_issue :: "(string option \<rightharpoonup> real) \<Rightarrow> hrow \<Rightarrow> issue option" where
  "quote_issue medians r =
     (case (hr_bid r, hr_ltp r, hr_ask r) of
        (Some b, Some p, Some a) \<Rightarrow>
          (if 0 < b \<and> b \<le> p \<and> p \<le> a
           then (let median = get_or 0 (medians (hr_symbol r))
                 in if 0 < median \<and> median * SPREAD_SANITY_MULTIPLE < a - b
                    then Some ([Spread_Outlier (hr_symbol r) (a - b) median], [row_day r]) else None)
           else Some ([Invalid_Quote (hr_symbol r) (Some b) (Some p) (Some a)], [row_day r]))
      | (b, p, a) \<Rightarrow> Some ([Invalid_Quote (hr_symbol r) b p a], [row_day r]))"

definition check_bid_ask_validity :: "hrow list \<Rightarrow> check_result" where
  "check_bid_ask_validity rows =
     (let opts = filter is_option rows
      in verdict Bid_Ask_Validity (length opts)
           (List.map_filter (quote_issue (median_spreads opts)) opts))"

section \<open>Session hours\<close>

definition time_of_day :: "instant \<Rightarrow> int" where
  "time_of_day t = t mod 86400000000"

definition SESSION_START :: int where
  "SESSION_START = minutes (9 * 60 + 15)"

definition SESSION_END :: int where
  "SESSION_END = minutes (15 * 60 + 30)"

definition session_issue :: "hrow \<Rightarrow> issue option" where
  "session_issue r =
     (case row_time r of
        None \<Rightarrow> None
      | Some t \<Rightarrow> if SESSION_START \<le> time_of_day t \<and> time_of_day t \<le> SESSION_END then None
                  else Some ([Outside_Session (hr_symbol r) t], [isoformat (date_of t)]))"

definition check_session_boundaries :: "hrow list \<Rightarrow> check_result" where
  "check_session_boundaries rows = verdict Session_Boundaries (length rows) (List.map_filter session_issue rows)"

section \<open>Coverage of the option chain\<close>

definition COVERAGE_BAND_POINTS :: int where
  "COVERAGE_BAND_POINTS = 200"

text \<open>The reference prices a row contributes to its date.\<close>

definition spot_entries :: "hrow \<Rightarrow> (string \<times> real) list" where
  "spot_entries r =
     (if hr_type r = Some ''SPOT'' \<and> truthy (hr_ltp r) then [(row_day r, get_or 0 (hr_ltp r))] else [])
     @ (if truthy (hr_spot_ref r) then [(row_day r, get_or 0 (hr_spot_ref r))] else [])"

definition spot_by_date :: "hrow list \<Rightarrow> (string \<times> real list) list" where
  "spot_by_date rows =
     map (\<lambda>(d, es). (d, map snd es)) (group_by (\<lambda>e. Some (fst e)) (concat (map spot_entries rows)))"

text \<open>\<open>by_date_type[d][itype]\<close>.\<close>

definition strikes_on :: "hrow list \<Rightarrow> string \<Rightarrow> string \<Rightarrow> int list" where
  "strikes_on rows d itype =
     map (\<lambda>r. py_int (get_or 0 (hr_strike r)))
       (filter (\<lambda>r. hr_type r = Some itype \<and> hr_strike r \<noteq> None \<and> row_day r = d) rows)"

definition coverage_atm :: "real list \<Rightarrow> int" where
  "coverage_atm spots = round_half_even (sum_list spots / real (length spots) / 50) * STRIKE_STEP"

definition required_strikes :: "int \<Rightarrow> int \<Rightarrow> int list" where
  "required_strikes low high = filter (\<lambda>k. (k - low) mod STRIKE_STEP = 0) [low..high]"

definition coverage_issue :: "hrow list \<Rightarrow> int \<Rightarrow> string \<Rightarrow> int \<Rightarrow> string \<Rightarrow> issue option" where
  "coverage_issue rows band_points d atm itype =
     (let missing = filter (\<lambda>k. k \<notin> set (strikes_on rows d itype)) (required_strikes (atm - band_points) (atm + band_points))
      in if missing = [] then None else Some ([Missing_Strikes d itype atm (take 5 missing)], [d]))"

definition check_option_chain_coverage :: "int \<Rightarrow> hrow list \<Rightarrow> check_result" where
  "check_option_chain_coverage band_points rows =
     (let spots = spot_by_date rows; option_dates = dates_of (filter is_option rows)
      in if spots = [] \<and> option_dates \<noteq> []
         then \<lparr>cr_name = Option_Chain_Coverage, cr_passed = False, cr_checked = 0, cr_failed = length option_dates,
               cr_details = [No_Atm_Reference], cr_dates = option_dates\<rparr>
         else verdict Option_Chain_Coverage (length spots)
                (concat (map (\<lambda>(d, ps). List.map_filter (coverage_issue rows band_points d (coverage_atm ps)) [''CE'', ''PE'']) spots)))"

section \<open>Alignment with the spot\<close>

definition SPOT_ALIGN_TOLERANCE_SEC :: real where
  "SPOT_ALIGN_TOLERANCE_SEC = 1"

definition SPOT_ALIGN_PRICE_EPSILON :: real where
  "SPOT_ALIGN_PRICE_EPSILON = 1 / 100"

type_synonym spot_point = "instant \<times> real option"

definition spot_point_of :: "hrow \<Rightarrow> spot_point option" where
  "spot_point_of r = (if hr_type r = Some ''SPOT'' then map_option (\<lambda>t. (t, hr_ltp r)) (row_time r) else None)"

text \<open>The points of one day, sorted as pairs.  Comparing a price with \<open>None\<close> raises, which happens when two points of the
  same time differ in this.\<close>

definition spot_points :: "hrow list \<Rightarrow> string \<Rightarrow> spot_point list" where
  "spot_points rows d =
     sort_key fst (sort_key (\<lambda>p. get_or 0 (snd p)) (filter (\<lambda>p. isoformat (date_of (fst p)) = d) (List.map_filter spot_point_of rows)))"

definition incomparable :: "spot_point list \<Rightarrow> bool" where
  "incomparable ps \<longleftrightarrow> list_ex (\<lambda>p. list_ex (\<lambda>q. fst p = fst q \<and> snd p = None \<and> snd q \<noteq> None) ps) ps"

definition spot_distance :: "instant \<Rightarrow> spot_point \<Rightarrow> real" where
  "spot_distance t p = \<bar>total_seconds (fst p - t)\<bar>"

text \<open>\<open>min(candidates, key=...)\<close>: the first of the nearest.\<close>

definition nearest_spot :: "instant \<Rightarrow> spot_point list \<Rightarrow> spot_point option" where
  "nearest_spot t ps =
     foldl (\<lambda>best p. case best of None \<Rightarrow> Some p
                     | Some b \<Rightarrow> if spot_distance t p < spot_distance t b then Some p else Some b) None ps"

definition alignment_issue :: "real \<Rightarrow> hrow list \<Rightarrow> hrow \<Rightarrow> issue option" where
  "alignment_issue tolerance_sec rows r =
     (case hr_spot_ref r of
        None \<Rightarrow> Some ([No_Spot_Ref (hr_symbol r) (hr_timestamp r)], [row_day r])
      | Some ref \<Rightarrow>
          (case row_time r of
             None \<Rightarrow> Some ([], [])
           | Some t \<Rightarrow>
               (let d = isoformat (date_of t)
                in case nearest_spot t (spot_points rows d) of
                     None \<Rightarrow> Some ([No_Spot_Row (hr_symbol r) t], [d])
                   | Some p \<Rightarrow>
                       if tolerance_sec < spot_distance t p then Some ([No_Spot_Row (hr_symbol r) t], [d])
                       else (case snd p of
                               None \<Rightarrow> None
                             | Some price \<Rightarrow> if SPOT_ALIGN_PRICE_EPSILON < \<bar>price - ref\<bar>
                                             then Some ([Spot_Ref_Mismatch (hr_symbol r) ref price], [d]) else None))))"

definition check_spot_option_alignment :: "real \<Rightarrow> hrow list \<Rightarrow> py_error + check_result" where
  "check_spot_option_alignment tolerance_sec rows =
     (let opts = filter is_option rows
      in if incomparable (List.map_filter spot_point_of rows) then Inl TypeError
         else Inr (verdict Spot_Option_Alignment (length opts) (List.map_filter (alignment_issue tolerance_sec rows) opts)))"

section \<open>Resolution\<close>

definition MAX_MEDIAN_SPACING_SEC :: real where
  "MAX_MEDIAN_SPACING_SEC = 2"

definition MIN_ROWS_FOR_RESOLUTION_CHECK :: nat where
  "MIN_ROWS_FOR_RESOLUTION_CHECK = 10"

definition symbol_date :: "hrow \<Rightarrow> string option \<times> string" where
  "symbol_date r = (hr_symbol r, row_day r)"

definition median_spacing :: "instant list \<Rightarrow> real" where
  "median_spacing ts = upper_median (map (\<lambda>(a, b). total_seconds (b - a)) (consecutive ts))"

definition sparse :: "instant list \<Rightarrow> bool" where
  "sparse ts \<longleftrightarrow> length ts < MIN_ROWS_FOR_RESOLUTION_CHECK"

definition resolution_issue :: "real \<Rightarrow> (string option \<times> string) \<times> instant list \<Rightarrow> issue option" where
  "resolution_issue max_median g =
     (case g of
        ((symbol, d), ts) \<Rightarrow>
          if sparse ts then Some ([Too_Sparse symbol d (length ts)], [d])
          else if max_median < median_spacing ts then Some ([Too_Coarse symbol d (median_spacing ts)], [d]) else None)"

definition check_resolution :: "real \<Rightarrow> hrow list \<Rightarrow> check_result" where
  "check_resolution max_median rows =
     (let groups = times_by symbol_date rows; issues = List.map_filter (resolution_issue max_median) groups;
          checked = length (filter (\<lambda>g. \<not> sparse (snd g)) groups)
      in if checked = 0 \<and> issues = []
         then \<lparr>cr_name = Resolution, cr_passed = False, cr_checked = 0, cr_failed = 1, cr_details = [No_Rows], cr_dates = []\<rparr>
         else verdict Resolution checked issues)"

section \<open>Authenticity of the quotes\<close>

definition SYNTHETIC_MIDPOINT_FRACTION_LIMIT :: real where
  "SYNTHETIC_MIDPOINT_FRACTION_LIMIT = 95 / 100"

definition MIN_ROWS_FOR_AUTHENTICITY_CHECK :: nat where
  "MIN_ROWS_FOR_AUTHENTICITY_CHECK = 100"

definition MIDPOINT_EPSILON :: real where
  "MIDPOINT_EPSILON = 5 / 1000"

definition quoted_row :: "hrow \<Rightarrow> bool" where
  "quoted_row r \<longleftrightarrow> is_option r \<and> hr_bid r \<noteq> None \<and> hr_ask r \<noteq> None \<and> hr_ltp r \<noteq> None"

definition at_midpoint :: "hrow \<Rightarrow> bool" where
  "at_midpoint r \<longleftrightarrow> \<bar>(get_or 0 (hr_bid r) + get_or 0 (hr_ask r)) / 2 - get_or 0 (hr_ltp r)\<bar> < MIDPOINT_EPSILON"

definition check_quote_authenticity :: "hrow list \<Rightarrow> check_result" where
  "check_quote_authenticity rows =
     (let quoted = filter quoted_row rows; n = length quoted; exact = length (filter at_midpoint quoted);
          fraction = real exact / real n
      in if n < MIN_ROWS_FOR_AUTHENTICITY_CHECK
         then \<lparr>cr_name = Quote_Authenticity, cr_passed = True, cr_checked = n, cr_failed = 0, cr_details = [Few_Quotes n],
               cr_dates = []\<rparr>
         else if SYNTHETIC_MIDPOINT_FRACTION_LIMIT \<le> fraction
         then \<lparr>cr_name = Quote_Authenticity, cr_passed = False, cr_checked = n, cr_failed = exact,
               cr_details = [Midpoint_Share fraction], cr_dates = dates_of quoted\<rparr>
         else \<lparr>cr_name = Quote_Authenticity, cr_passed = True, cr_checked = n, cr_failed = 0,
               cr_details = [Midpoint_Share fraction], cr_dates = []\<rparr>)"

section \<open>All checks\<close>

record quality_report =
  rp_checks :: "check_result list"
  rp_row_count :: nat
  rp_date_range :: "(string \<times> string) option"

definition all_passed :: "quality_report \<Rightarrow> bool" where
  "all_passed rp \<longleftrightarrow> list_all cr_passed (rp_checks rp)"

definition run_all_checks :: "hrow list \<Rightarrow> py_error + quality_report" where
  "run_all_checks rows =
     (case check_spot_option_alignment SPOT_ALIGN_TOLERANCE_SEC rows of
        Inl e \<Rightarrow> Inl e
      | Inr alignment \<Rightarrow>
          (let dates = dates_of rows
           in Inr \<lparr>rp_checks =
                     [check_timestamp_integrity rows, check_duplicate_ticks rows, check_missing_ticks MAX_GAP_SEC rows,
                      check_contract_identity rows, check_expiry_strike_consistency rows, check_bid_ask_validity rows,
                      check_session_boundaries rows, check_option_chain_coverage COVERAGE_BAND_POINTS rows, alignment,
                      check_resolution MAX_MEDIAN_SPACING_SEC rows, check_quote_authenticity rows],
                   rp_row_count = length rows,
                   rp_date_range = (if dates = [] then None else Some (hd dates, last dates))\<rparr>))"

section \<open>What a pass means\<close>

lemma verdict_sel [simp]:
  "cr_passed (verdict name n xs) \<longleftrightarrow> xs = []" "cr_failed (verdict name n xs) = length xs" "cr_name (verdict name n xs) = name"
  by (simp_all add: verdict_def)

lemma map_filter_Nil_iff: "List.map_filter f xs = [] \<longleftrightarrow> (\<forall>x\<in>set xs. f x = None)"
  by (induction xs) (auto simp: map_filter_simps split: option.splits)

definition symbol_times :: "string option \<Rightarrow> hrow list \<Rightarrow> instant list" where
  "symbol_times s rows = List.map_filter row_time (filter (\<lambda>r. hr_symbol r = s) rows)"

lemma symbol_times_Cons:
  "symbol_times s (r # rows)
     = (if hr_symbol r = s then (case row_time r of None \<Rightarrow> [] | Some t \<Rightarrow> [t]) else []) @ symbol_times s rows"
  by (simp add: symbol_times_def map_filter_simps split: option.split)

lemma timestamp_issues_Nil:
  "timestamp_issues last_ts rows = [] \<longleftrightarrow>
     (\<forall>r\<in>set rows. row_time r \<noteq> None)
     \<and> (\<forall>s. sorted_wrt (<) ((case last_ts s of None \<Rightarrow> [] | Some p \<Rightarrow> [p]) @ symbol_times s rows))"
proof (induction last_ts rows rule: timestamp_issues.induct)
  case (1 last_ts)
  then show ?case by (simp add: symbol_times_def map_filter_simps split: option.split)
next
  case (2 last_ts r rows)
  show ?case
  proof (cases "row_time r")
    case (Some t)
    let ?pre = "\<lambda>s. case last_ts s of None \<Rightarrow> [] | Some p \<Rightarrow> [p]"
    have own: "sorted_wrt (<) (?pre (hr_symbol r) @ t # symbol_times (hr_symbol r) rows)
        \<longleftrightarrow> (\<forall>p. last_ts (hr_symbol r) = Some p \<longrightarrow> p < t) \<and> sorted_wrt (<) (t # symbol_times (hr_symbol r) rows)"
      by (auto split: option.splits)
    have "timestamp_issues last_ts (r # rows) = [] \<longleftrightarrow>
        (\<forall>p. last_ts (hr_symbol r) = Some p \<longrightarrow> p < t) \<and> timestamp_issues (last_ts(hr_symbol r \<mapsto> t)) rows = []"
      by (auto simp: Some split: option.splits)
    also have "\<dots> \<longleftrightarrow> (\<forall>r\<in>set rows. row_time r \<noteq> None)
        \<and> (\<forall>s. sorted_wrt (<) (?pre s @ symbol_times s (r # rows)))"
      unfolding 2(2)[OF Some] symbol_times_Cons
      using own by (auto simp: Some)
    finally show ?thesis using Some by simp
  qed simp
qed

lemma duplicate_issues_Nil:
  "duplicate_issues seen rows = [] \<longleftrightarrow> distinct (map row_key rows) \<and> set seen \<inter> row_key ` set rows = {}"
  by (induction seen rows rule: duplicate_issues.induct) auto

text \<open>The time stamps pass exactly when every one can be read and those of each symbol strictly increase; the keys pass
  exactly when no two rows share one.\<close>

theorem timestamp_checks_exact:
  "(cr_passed (check_timestamp_integrity rows) \<longleftrightarrow>
      list_all (\<lambda>r. row_time r \<noteq> None) rows \<and> (\<forall>s. sorted_wrt (<) (symbol_times s rows)))
   \<and> (cr_passed (check_duplicate_ticks rows) \<longleftrightarrow> distinct (map row_key rows))"
  by (simp add: list_all_iff check_timestamp_integrity_def check_duplicate_ticks_def timestamp_issues_Nil duplicate_issues_Nil)

lemma times_by_map_of:
  "map_of (times_by key rows) k =
     (let own = filter (\<lambda>r. row_time r \<noteq> None \<and> key r = k) rows
      in if own = [] then None else Some (sort (List.map_filter row_time own)))"
proof -
  have "filter (\<lambda>r. (if row_time r = None then None else Some (key r)) = Some k) rows
      = filter (\<lambda>r. row_time r \<noteq> None \<and> key r = k) rows"
    by (rule filter_cong) auto
  then show ?thesis
    by (simp add: times_by_def map_of_map group_by_map_of Let_def)
qed

lemma times_by_distinct: "distinct (map fst (times_by key rows))"
proof -
  have "map fst (times_by key rows) = map fst (group_by (\<lambda>r. if row_time r = None then None else Some (key r)) rows)"
    by (simp add: times_by_def case_prod_beta)
  then show ?thesis using group_by_keys by simp
qed

lemma times_by_set:
  "(k, ts) \<in> set (times_by key rows) \<longleftrightarrow>
     (\<exists>r\<in>set rows. row_time r \<noteq> None \<and> key r = k)
     \<and> ts = sort (List.map_filter row_time (filter (\<lambda>r. key r = k) rows))"
proof -
  have f: "List.map_filter row_time (filter (\<lambda>r. row_time r \<noteq> None \<and> key r = k) rows)
      = List.map_filter row_time (filter (\<lambda>r. key r = k) rows)"
    by (induction rows) (auto simp: map_filter_simps)
  have "(k, ts) \<in> set (times_by key rows) \<longleftrightarrow> map_of (times_by key rows) k = Some ts"
    by (simp add: times_by_distinct)
  then show ?thesis unfolding times_by_map_of Let_def f by (auto simp: filter_empty_conv)
qed

lemma ball_times_by:
  "(\<forall>x\<in>set (times_by key rows). Q (fst x) (snd x)) \<longleftrightarrow>
     (\<forall>r\<in>set rows. row_time r \<noteq> None \<longrightarrow> Q (key r) (sort (List.map_filter row_time (filter (\<lambda>r'. key r' = key r) rows))))"
proof -
  have "(\<forall>x\<in>set (times_by key rows). Q (fst x) (snd x)) \<longleftrightarrow> (\<forall>k ts. (k, ts) \<in> set (times_by key rows) \<longrightarrow> Q k ts)"
    by force
  also have "\<dots> \<longleftrightarrow> (\<forall>r\<in>set rows. row_time r \<noteq> None
      \<longrightarrow> Q (key r) (sort (List.map_filter row_time (filter (\<lambda>r'. key r' = key r) rows))))"
    unfolding times_by_set by blast
  finally show ?thesis .
qed

definition consistent :: "check_result \<Rightarrow> bool" where
  "consistent c \<longleftrightarrow> (cr_passed c \<longleftrightarrow> cr_failed c = 0)"

lemma consistent_verdict: "consistent (verdict name n xs)"
  by (simp add: consistent_def)

lemma consistent_authenticity: "consistent (check_quote_authenticity rows)"
proof -
  have "0 < length (filter at_midpoint qs)" if "SYNTHETIC_MIDPOINT_FRACTION_LIMIT \<le> real (length (filter at_midpoint qs)) / real (length qs)" for qs
    using that by (cases "filter at_midpoint qs = []") (auto simp: SYNTHETIC_MIDPOINT_FRACTION_LIMIT_def)
  from this[of "filter quoted_row rows"] show ?thesis
    by (simp add: check_quote_authenticity_def Let_def consistent_def del: filter_filter)
qed

lemma consistent_checks:
  "consistent (check_timestamp_integrity rows)" "consistent (check_duplicate_ticks rows)" "consistent (check_missing_ticks g rows)"
  "consistent (check_contract_identity rows)" "consistent (check_expiry_strike_consistency rows)"
  "consistent (check_bid_ask_validity rows)" "consistent (check_session_boundaries rows)"
  "consistent (check_option_chain_coverage band rows)" "consistent (check_resolution m rows)"
  by (simp_all add: check_timestamp_integrity_def check_duplicate_ticks_def check_missing_ticks_def check_contract_identity_def
      check_expiry_strike_consistency_def check_bid_ask_validity_def check_session_boundaries_def
      check_option_chain_coverage_def check_resolution_def Let_def consistent_verdict)
     (simp_all add: consistent_def)

lemma result_consistent:
  assumes "run_all_checks rows = Inr rp" "c \<in> set (rp_checks rp)"
  shows "cr_passed c \<longleftrightarrow> cr_failed c = 0"
proof -
  have "consistent a" if "check_spot_option_alignment tol rows = Inr a" for tol a
    using that by (auto simp: check_spot_option_alignment_def Let_def consistent_verdict split: if_splits)
  then have "consistent c"
    using assms consistent_checks consistent_authenticity
    by (auto simp: run_all_checks_def Let_def split: sum.splits)
  then show ?thesis by (simp add: consistent_def)
qed

lemma symbol_times_alt: "List.map_filter row_time (filter (\<lambda>r. hr_symbol r = s) rows) = symbol_times s rows"
  by (simp add: symbol_times_def)

lemma day_pairs_Nil [simp]: "day_pairs [] = []"
  by (simp add: day_pairs_def consecutive_def)

lemma symbol_times_no_row: "\<not> (\<exists>r\<in>set rows. row_time r \<noteq> None \<and> hr_symbol r = s) \<Longrightarrow> symbol_times s rows = []"
  by (auto simp: symbol_times_def map_filter_Nil_iff)

text \<open>The gap check passes exactly when some symbol has two rows on one day - so that end-of-day data cannot pass with
  nothing to compare - and no two neighbours of a symbol on one day are further apart than the limit.\<close>

theorem missing_ticks_exact:
  "cr_passed (check_missing_ticks g rows) \<longleftrightarrow>
     (\<exists>s. day_pairs (sort (symbol_times s rows)) \<noteq> [])
     \<and> (\<forall>s. list_all (\<lambda>(p, c). total_seconds (c - p) \<le> g) (day_pairs (sort (symbol_times s rows))))"
proof -
  let ?G = "times_by hr_symbol rows"
  have all: "(\<forall>x\<in>set ?G. P (snd x)) \<longleftrightarrow> (\<forall>s. P (sort (symbol_times s rows)))" if "P []" for P :: "instant list \<Rightarrow> bool"
  proof -
    have "(\<forall>x\<in>set ?G. P (snd x)) \<longleftrightarrow> (\<forall>r\<in>set rows. row_time r \<noteq> None \<longrightarrow> P (sort (symbol_times (hr_symbol r) rows)))"
      unfolding ball_times_by[of hr_symbol rows "\<lambda>_. P"] symbol_times_alt ..
    then show ?thesis using symbol_times_no_row[of rows] that by (metis sort_key_simps(1))
  qed
  have zero: "sum_list (map (\<lambda>g. length (day_pairs (snd g))) ?G) = 0 \<longleftrightarrow> (\<forall>s. day_pairs (sort (symbol_times s rows)) = [])"
    using all[of "\<lambda>ts. day_pairs ts = []"] by (simp add: sum_list_eq_0_iff)
  have gaps: "concat (map (gap_issues g) ?G) = [] \<longleftrightarrow>
      (\<forall>s. list_all (\<lambda>(p, c). total_seconds (c - p) \<le> g) (day_pairs (sort (symbol_times s rows))))"
  proof -
    have "concat (map (gap_issues g) ?G) = [] \<longleftrightarrow> (\<forall>x\<in>set ?G. list_all (\<lambda>(p, c). total_seconds (c - p) \<le> g) (day_pairs (snd x)))"
      by (simp add: gap_issues_def filter_empty_conv list_all_iff case_prod_beta not_less)
    then show ?thesis using all[of "\<lambda>ts. list_all (\<lambda>(p, c). total_seconds (c - p) \<le> g) (day_pairs ts)"] by simp
  qed
  show ?thesis
    unfolding check_missing_ticks_def Let_def using zero gaps by auto
qed

text \<open>The resolution check passes exactly when there are rows, and every symbol on every day it appears has at least ten
  and a median spacing within the limit.\<close>

theorem resolution_exact:
  "cr_passed (check_resolution m rows) \<longleftrightarrow>
     (\<exists>r\<in>set rows. row_time r \<noteq> None)
     \<and> list_all (\<lambda>r. row_time r = None
          \<or> (let ts = sort (List.map_filter row_time (filter (\<lambda>r'. symbol_date r' = symbol_date r) rows))
             in MIN_ROWS_FOR_RESOLUTION_CHECK \<le> length ts \<and> median_spacing ts \<le> m)) rows"
proof -
  let ?G = "times_by symbol_date rows"
  let ?own = "\<lambda>k. sort (List.map_filter row_time (filter (\<lambda>r. symbol_date r = k) rows))"
  have no_issue: "List.map_filter (resolution_issue m) ?G = [] \<longleftrightarrow>
      (\<forall>r\<in>set rows. row_time r = None \<or> (\<not> sparse (?own (symbol_date r)) \<and> median_spacing (?own (symbol_date r)) \<le> m))"
  proof -
    have "List.map_filter (resolution_issue m) ?G = [] \<longleftrightarrow> (\<forall>x\<in>set ?G. \<not> sparse (snd x) \<and> median_spacing (snd x) \<le> m)"
      by (simp add: map_filter_Nil_iff resolution_issue_def case_prod_beta not_less) blast
    then show ?thesis unfolding ball_times_by[of symbol_date rows "\<lambda>_ ts. \<not> sparse ts \<and> median_spacing ts \<le> m"] by auto
  qed
  have some: "filter (\<lambda>g. \<not> sparse (snd g)) ?G \<noteq> [] \<longleftrightarrow> (\<exists>r\<in>set rows. row_time r \<noteq> None)"
    if "List.map_filter (resolution_issue m) ?G = []"
    using that ball_times_by[of symbol_date rows "\<lambda>_ ts. sparse ts"] unfolding no_issue filter_empty_conv by simp (metis option.distinct(1))
  show ?thesis
    using no_issue some unfolding check_resolution_def Let_def
    by (auto simp: list_all_iff sparse_def not_less)
qed

end
