(* ===== verification/Backtest_Gate.thy ===== *)
theory Backtest_Gate
  imports Data_Quality
begin

text \<open>
  The gate in front of a backtest on real data (\<open>core/historical/gate.py\<close>): the store is read month by month, every
  month is checked, the results are merged, and every weekday of the range must have a row.
\<close>

section \<open>The gate\<close>

record gate_result =
  ga_ready :: bool
  ga_range :: "string \<times> string"
  ga_row_count :: nat
  ga_missing :: "string list"
  ga_failing :: "check_result list"
  ga_checks :: "check_result list"

definition required_weekdays :: "string \<Rightarrow> string \<Rightarrow> py_error + string list" where
  "required_weekdays start_date end_date =
     (case (strp_date start_date, strp_date end_date) of
        (Some a, Some b) \<Rightarrow> Inr (map isoformat (filter (\<lambda>d. weekday d < 5) [a..b]))
      | _ \<Rightarrow> Inl ValueError)"

definition merge_results :: "check_result list \<Rightarrow> check_result list" where
  "merge_results results =
     map (\<lambda>(name, rs).
            let failed = sum_list (map cr_failed rs)
            in \<lparr>cr_name = name, cr_passed = (failed = 0), cr_checked = sum_list (map cr_checked rs), cr_failed = failed,
                cr_details = take 20 (concat (map cr_details rs)), cr_dates = sorted_set (concat (map cr_dates rs))\<rparr>)
       (group_by (\<lambda>r. Some (cr_name r)) results)"

text \<open>The first day of the next month and the day before it.\<close>

definition next_month_start :: "nat \<Rightarrow> nat \<Rightarrow> string" where
  "next_month_start year mon =
     (if mon = 12 then decimal (year + 1) @ ''-01-01'' else decimal year @ ''-'' @ padded 2 (mon + 1) @ ''-01'')"

definition month_end :: "string \<Rightarrow> py_error + string" where
  "month_end k =
     (case (parse_digits 4 0 (take 4 k), parse_digits 2 0 (take 2 (drop 5 k))) of
        (Some (year, _), Some (mon, _)) \<Rightarrow>
          (case strp_date (next_month_start year mon) of None \<Rightarrow> Inl ValueError | Some d \<Rightarrow> Inr (isoformat (d - 1)))
      | _ \<Rightarrow> Inl ValueError)"

definition month_rows :: "history \<Rightarrow> string \<Rightarrow> string \<Rightarrow> string \<Rightarrow> py_error + hrow list" where
  "month_rows st start_date end_date k =
     (case month_end k of
        Inl e \<Rightarrow> Inl e
      | Inr last_day \<Rightarrow> Inr (query_range st (max (k @ ''-01'') start_date) (min last_day end_date) []))"

text \<open>The loop over the months: the rows read and the results of the checks on each month that has any.\<close>

fun check_months :: "history \<Rightarrow> string \<Rightarrow> string \<Rightarrow> string list \<Rightarrow> py_error + hrow list \<times> check_result list" where
  "check_months st start_date end_date [] = Inr ([], [])"
| "check_months st start_date end_date (k # ks) =
     (case month_rows st start_date end_date k of
        Inl e \<Rightarrow> Inl e
      | Inr rows \<Rightarrow>
          (case (if rows = [] then Inr [] else map_sum id rp_checks (run_all_checks rows)) of
             Inl e \<Rightarrow> Inl e
           | Inr results \<Rightarrow>
               (case check_months st start_date end_date ks of
                  Inl e \<Rightarrow> Inl e
                | Inr (rows', results') \<Rightarrow> Inr (rows @ rows', results @ results'))))"

definition gate_months :: "string \<Rightarrow> string list \<Rightarrow> string list" where
  "gate_months start_date required =
     (let months = sorted_set (map (take 7) required) in if months = [] then [take 7 start_date] else months)"

definition present_date :: "hrow \<Rightarrow> string option" where
  "present_date r = (if has_time r then map_option (take 10) (hr_timestamp r) else None)"

definition check_backtest_ready :: "history \<Rightarrow> string \<Rightarrow> string \<Rightarrow> py_error + gate_result" where
  "check_backtest_ready st start_date end_date =
     (case required_weekdays start_date end_date of
        Inl e \<Rightarrow> Inl e
      | Inr required \<Rightarrow>
          (case check_months st start_date end_date (gate_months start_date required) of
             Inl e \<Rightarrow> Inl e
           | Inr (rows, results) \<Rightarrow>
               (let present = List.map_filter present_date rows;
                    missing = sorted_set (filter (\<lambda>d. d \<notin> set present) required);
                    checks = merge_results results;
                    failing = filter (\<lambda>c. \<not> cr_passed c) checks
                in Inr \<lparr>ga_ready = (missing = [] \<and> failing = [] \<and> 0 < length rows), ga_range = (start_date, end_date),
                        ga_row_count = length rows, ga_missing = missing, ga_failing = failing, ga_checks = checks\<rparr>)))"

section \<open>Months\<close>

lemma parse_digits_stops:
  "list_all is_digit p \<Longrightarrow> length p < k \<Longrightarrow> \<not> is_digit c \<Longrightarrow> parse_digits k acc (p @ c # r) = None"
proof (induction p arbitrary: k acc)
  case Nil
  then show ?case by (cases k) simp_all
next
  case (Cons x p)
  then show ?case by (cases k) simp_all
qed

lemma decimal_digit: "decimal n = (if n < 10 then [digit n] else decimal (n div 10) @ [digit n])"
  by (subst decimal.simps) (simp add: digit_def)

lemma decimal_all_digits: "list_all is_digit (decimal n)"
proof (induction n rule: less_induct)
  case (less n)
  then show ?case by (subst decimal_digit) (simp add: digit_value)
qed

lemma decimal_short: "n < 1000 \<Longrightarrow> length (decimal n) < 4"
proof -
  assume n: "n < 1000"
  then have "n div 10 < 100" "n div 10 div 10 < 10" by linarith+
  then show ?thesis using n by (subst decimal_digit, subst decimal_digit, subst decimal_digit) simp
qed

lemma decimal_padded: "1000 \<le> n \<Longrightarrow> n < 10000 \<Longrightarrow> decimal n = padded 4 n"
proof -
  assume n: "1000 \<le> n" "n < 10000"
  then have "\<not> n < 10" "\<not> n div 10 < 10" "\<not> n div 10 div 10 < 10" "n div 10 div 10 div 10 < 10" by linarith+
  then have "decimal n = [digit (n div 10 div 10 div 10), digit (n div 10 div 10), digit (n div 10), digit n]"
    using decimal_digit[of n] decimal_digit[of "n div 10"] decimal_digit[of "n div 10 div 10"]
      decimal_digit[of "n div 10 div 10 div 10"] by (simp del: div_mult2_eq[symmetric])
  moreover have two: "padded 2 m = [digit (m div 10), digit m]" for m by (simp add: numeral_2_eq_2)
  have "padded 4 n = [digit (n div 10 div 10 div 10), digit (n div 10 div 10), digit (n div 10), digit n]"
    using padded.simps(2)[of 3 n] padded.simps(2)[of 2 "n div 10"] by (simp add: two)
  ultimately show ?thesis by simp
qed

lemma char_01: "char_of (48::nat) = CHR ''0''" "char_of (49::nat) = CHR ''1''"
  by (simp_all add: char_of_eq_iff)

lemma date_field_parts:
  assumes "1 \<le> y" "y \<le> 9999" "1 \<le> m" "m \<le> 12"
  shows "date_field (padded 4 (nat y) @ ''-'' @ padded 2 m @ ''-01'') = Some (ordinal_of y m 1, [])"
proof -
  have "parse_digits 4 0 (padded 4 (nat y) @ s) = Some (nat y, s)" for s
    using assms parse_padded'[of "nat y" 4 s] by (simp add: nat_less_iff)
  moreover have "number 2 1 12 (padded 2 m @ s) = Some (m, s)" for s using assms number_padded[of 2 m 1 12 s] by simp
  moreover have "day_field ''01'' = Some (1, [])" by (simp add: day_field_def literal_def number_def is_digit_def)
  moreover have "valid_date y m 1" using assms month_length_pos[of y "m - 1"] by (simp add: valid_date_def)
  ultimately show ?thesis using assms by (simp add: date_field_def)
qed

lemma strp_decimal_year:
  assumes "1 \<le> y" "y \<le> 9999" "1 \<le> m" "m \<le> 12" "strp_date (decimal (nat y) @ ''-'' @ padded 2 m @ ''-01'') = Some d"
  shows "d = ordinal_of y m 1"
proof (cases "y < 1000")
  case True
  then have "parse_digits 4 0 (decimal (nat y) @ CHR ''-'' # padded 2 m @ ''-01'') = None"
    by (intro parse_digits_stops decimal_all_digits decimal_short) (auto simp: is_digit_def)
  then show ?thesis using assms(5) by (simp add: strp_date_def date_field_def)
next
  case False
  then show ?thesis using assms date_field_parts[of y m] decimal_padded[of "nat y"] by (simp add: strp_date_def)
qed

text \<open>The last day of a month is no earlier than any of its days.\<close>

lemma month_end_after:
  assumes "date_ok d" "month_end (take 7 (isoformat d)) = Inr e"
  shows "isoformat d \<le> e"
proof -
  obtain y m k where c: "civil d = (y, m, k)" by (metis prod_cases3)
  have y: "1 \<le> y" "y \<le> 9999" and o: "ordinal_of y m k = d" and b: "1 \<le> m" "m \<le> 12" "1 \<le> k" "k \<le> month_length y (m - 1)"
    using civil_year[OF assms(1) c] civil_ordinal[OF c] by auto
  have k7: "take 7 (isoformat d) = padded 4 (nat y) @ ''-'' @ padded 2 m" by (simp add: isoformat_def c)
  have "parse_digits 4 0 (take 4 (take 7 (isoformat d))) = Some (nat y, [])"
    using y parse_padded'[of "nat y" 4 "[]"] by (simp add: k7 nat_less_iff)
  moreover have "parse_digits 2 0 (take 2 (drop 5 (take 7 (isoformat d)))) = Some (m, [])"
    using b parse_padded'[of m 2 "[]"] by (simp add: k7)
  ultimately obtain f where f: "strp_date (next_month_start (nat y) m) = Some f" "e = isoformat (f - 1)"
    using assms(2) by (auto simp: month_end_def split: option.splits)
  have "f = ordinal_of y m 1 + month_length y (m - 1)"
  proof (cases "m = 12")
    case True
    have "y \<noteq> 9999"
    proof
      assume "y = 9999"
      then have "next_month_start (nat y) m = ''10000-01-01''" using True
        by (simp add: next_month_start_def decimal.simps char_01)
      then show False using f by (simp add: strp_date_def date_field_def eval_nat_numeral is_digit_def literal_def)
    qed
    then have "f = ordinal_of (y + 1) 1 1"
      using f True y strp_decimal_year[of "y + 1" 1 f] by (simp add: next_month_start_def nat_add_distrib numeral_2_eq_2 digit_def char_01)
    then show ?thesis using True days_before_Suc[of y 11] days_before_year[of y]
      by (simp add: ordinal_of_def year_start_step days_before_def[of _ 0] eval_nat_numeral)
  next
    case False
    then have "f = ordinal_of y (m + 1) 1" using f y b strp_decimal_year[of y "m + 1" f] by (simp add: next_month_start_def)
    then show ?thesis using b days_before_Suc[of y "m - 1"] by (simp add: ordinal_of_def)
  qed
  then have "d \<le> f - 1" using o b by (simp add: ordinal_of_def)
  moreover have "date_ok f" using f(1) by (rule strp_date_ok)
  ultimately show ?thesis using isoformat_less[of d "f - 1"] assms(1) f(2) by (cases "d = f - 1") (auto simp: date_ok_def)
qed

lemma month_start_before:
  assumes "date_ok d"
  shows "take 7 (isoformat d) @ ''-01'' \<le> isoformat d"
proof -
  obtain y m k where c: "civil d = (y, m, k)" by (metis prod_cases3)
  have b: "1 \<le> k" "k \<le> 31" using civil_ordinal[OF c] month_length_pos[of y "m - 1"] by auto
  have "padded 2 1 = ''01''" by (simp add: numeral_2_eq_2 digit_def char_01)
  then have "\<not> padded 2 (nat k) < ''01''" using b padded_cmp[of "nat k" 2 1 "[]" "[]"] by (simp add: nat_less_iff)
  then show ?thesis by (simp add: isoformat_def c append_less_iff flip: not_less)
qed

section \<open>Rows that may be trusted\<close>

text \<open>What the gate promises of an option row, and of any row: the time is in the session, the symbol is the contract's, the
  quotes bracket the price, and the spot reference is the price of a stored spot row at most a second away.\<close>

definition near_spot :: "history \<Rightarrow> instant \<Rightarrow> real \<Rightarrow> hrow \<Rightarrow> bool" where
  "near_spot st t ref s \<longleftrightarrow> history_table st (row_key s) = Some s \<and> hr_type s = Some ''SPOT''
     \<and> (\<exists>u p. row_time s = Some u \<and> hr_ltp s = Some p \<and> \<bar>total_seconds (u - t)\<bar> \<le> 1 \<and> \<bar>p - ref\<bar> \<le> 1 / 100)"

definition sound_option :: "history \<Rightarrow> instant \<Rightarrow> hrow \<Rightarrow> bool" where
  "sound_option st t r \<longleftrightarrow>
     (\<exists>expiry strike b p a ref s. hr_expiry r = Some expiry \<and> hr_strike r = Some strike \<and> 0 < strike \<and> py_int strike mod 50 = 0
        \<and> hr_symbol r = schema_option_symbol expiry strike (get_or '''' (hr_type r))
        \<and> hr_bid r = Some b \<and> hr_ltp r = Some p \<and> hr_ask r = Some a \<and> 0 < b \<and> b \<le> p \<and> p \<le> a
        \<and> hr_spot_ref r = Some ref \<and> near_spot st t ref s)"

definition sound_row :: "history \<Rightarrow> hrow \<Rightarrow> bool" where
  "sound_row st r \<longleftrightarrow>
     (\<exists>t. row_time r = Some t \<and> SESSION_START \<le> time_of_day t \<and> time_of_day t \<le> SESSION_END
        \<and> (is_option r \<longrightarrow> sound_option st t r))"

lemma nearest_spot_in: "nearest_spot t ps = Some p \<Longrightarrow> p \<in> set ps"
  by (induction ps arbitrary: p rule: rev_induct) (auto simp: nearest_spot_def split: option.splits if_splits)

lemma map_filter_mem: "y \<in> set (List.map_filter f xs) \<longleftrightarrow> (\<exists>x\<in>set xs. f x = Some y)"
  by (induction xs) (auto simp: map_filter_simps split: option.splits)

lemma spot_points_mem:
  "p \<in> set (spot_points rows d) \<Longrightarrow> \<exists>s\<in>set rows. hr_type s = Some ''SPOT'' \<and> row_time s = Some (fst p) \<and> hr_ltp s = snd p"
  by (auto simp: spot_points_def map_filter_mem spot_point_of_def split: if_splits)

lemma all_passed_checks:
  assumes "run_all_checks rows = Inr rp" "all_passed rp"
  shows "timestamp_issues Map.empty rows = []" "List.map_filter session_issue rows = []"
    "List.map_filter contract_issue (filter is_option rows) = []" "List.map_filter expiry_strike_issue (filter is_option rows) = []"
    "List.map_filter (quote_issue (median_spreads (filter is_option rows))) (filter is_option rows) = []"
    "List.map_filter (alignment_issue 1 rows) (filter is_option rows) = []"
  using assms
  by (auto simp: run_all_checks_def all_passed_def Let_def check_timestamp_integrity_def check_session_boundaries_def
      check_contract_identity_def check_expiry_strike_consistency_def check_bid_ask_validity_def
      check_spot_option_alignment_def SPOT_ALIGN_TOLERANCE_SEC_def split: sum.splits if_splits)

lemma passed_alignment:
  assumes "alignment_issue 1 rows r = None" "row_time r = Some t"
    and "\<forall>s\<in>set rows. history_table st (row_key s) = Some s \<and> row_complete s"
  shows "\<exists>ref s. hr_spot_ref r = Some ref \<and> near_spot st t ref s"
proof -
  obtain ref p where ref: "hr_spot_ref r = Some ref" "nearest_spot t (spot_points rows (isoformat (date_of t))) = Some p"
    "spot_distance t p \<le> 1" "\<forall>q. snd p = Some q \<longrightarrow> \<bar>q - ref\<bar> \<le> 1 / 100"
    using assms(1,2) by (auto simp: alignment_issue_def Let_def SPOT_ALIGN_PRICE_EPSILON_def not_less split: option.splits if_splits)
  obtain s where s: "s \<in> set rows" "hr_type s = Some ''SPOT''" "row_time s = Some (fst p)" "hr_ltp s = snd p"
    using spot_points_mem[OF nearest_spot_in[OF ref(2)]] by auto
  have "row_complete s" using s(1) assms(3) by blast
  then obtain q where "snd p = Some q" using s(4) by (auto simp: row_complete_def)
  then show ?thesis using ref s assms(3) by (auto simp: near_spot_def spot_distance_def)
qed

lemma passed_row:
  assumes "run_all_checks rows = Inr rp" "all_passed rp" "r \<in> set rows"
    and rows: "\<forall>s\<in>set rows. history_table st (row_key s) = Some s \<and> row_complete s"
  shows "sound_row st r"
proof -
  note P = all_passed_checks[OF assms(1,2)]
  obtain t where t: "row_time r = Some t" using P(1) assms(3) by (auto simp: timestamp_issues_Nil)
  have hours: "SESSION_START \<le> time_of_day t \<and> time_of_day t \<le> SESSION_END"
    using P(2) assms(3) t by (auto simp: map_filter_Nil_iff session_issue_def split: if_splits)
  have "sound_option st t r" if o: "is_option r"
  proof -
    have i: "contract_issue r = None" "expiry_strike_issue r = None"
      "quote_issue (median_spreads (filter is_option rows)) r = None" "alignment_issue 1 rows r = None"
      using P assms(3) o by (auto simp: map_filter_Nil_iff)
    obtain symbol where symbol: "hr_symbol r = Some symbol" using rows assms(3) by (auto simp: row_complete_def)
    obtain expiry strike where c: "hr_expiry r = Some expiry" "hr_strike r = Some strike"
      "hr_symbol r = schema_option_symbol expiry strike (get_or '''' (hr_type r))"
      using i(1) symbol by (auto simp: contract_issue_def Let_def split: option.splits if_splits)
    have k: "0 < strike" "py_int strike mod 50 = 0"
      using i(2) c by (auto simp: expiry_strike_issue_def Let_def strike_ok_def STRIKE_STEP_def split: if_splits)
    obtain b p a where q: "hr_bid r = Some b" "hr_ltp r = Some p" "hr_ask r = Some a" "0 < b" "b \<le> p" "p \<le> a"
      using i(3) by (auto simp: quote_issue_def split: option.splits if_splits)
    obtain ref s where "hr_spot_ref r = Some ref" "near_spot st t ref s" using passed_alignment[OF i(4) t rows] by auto
    then show ?thesis using c k q by (auto simp: sound_option_def)
  qed
  then show ?thesis using t hours by (auto simp: sound_row_def)
qed

section \<open>What a ready gate has seen\<close>

lemma merge_passed:
  assumes "filter (\<lambda>c. \<not> cr_passed c) (merge_results results) = []" "c \<in> set results"
  shows "cr_failed c = 0"
proof -
  have "cr_name c \<in> set (map fst (group_by (\<lambda>r. Some (cr_name r)) results))" using assms(2) unfolding set_group_by by blast
  then obtain rs where rs: "(cr_name c, rs) \<in> set (group_by (\<lambda>r. Some (cr_name r)) results)" by auto
  then have "c \<in> set rs" using group_rows[OF rs] assms(2) by simp
  moreover have "sum_list (map cr_failed rs) = 0"
    using assms(1) rs by (auto simp: merge_results_def filter_empty_conv Let_def)
  ultimately show ?thesis by (simp add: sum_list_eq_0_iff)
qed

lemma check_months_results:
  assumes "check_months st a b ks = Inr (rows, results)" "\<forall>c\<in>set results. cr_failed c = 0" "k \<in> set ks"
  shows "\<exists>rs. month_rows st a b k = Inr rs \<and> set rs \<subseteq> set rows \<and> (rs \<noteq> [] \<longrightarrow> (\<exists>rp. run_all_checks rs = Inr rp \<and> all_passed rp))"
  using assms
proof (induction st a b ks arbitrary: rows results rule: check_months.induct)
  case (2 st a b j js)
  obtain rs res rows' res' where s: "month_rows st a b j = Inr rs"
    "(if rs = [] then Inr [] else map_sum id rp_checks (run_all_checks rs)) = Inr res"
    "check_months st a b js = Inr (rows', res')" "rows = rs @ rows'" "results = res @ res'"
    using 2(2) by (auto split: sum.splits)
  show ?case
  proof (cases "k = j")
    case True
    have "\<exists>rp. run_all_checks rs = Inr rp \<and> all_passed rp" if ne: "rs \<noteq> []"
    proof -
      obtain rp where rp: "run_all_checks rs = Inr rp" "res = rp_checks rp"
        using s(2) ne by (cases "run_all_checks rs") simp_all
      then show ?thesis using 2(3) s(5) result_consistent[OF rp(1)] by (auto simp: all_passed_def list_all_iff)
    qed
    then show ?thesis using True s by auto
  next
    case False
    have "\<exists>rs. month_rows st a b k = Inr rs \<and> set rs \<subseteq> set rows' \<and> (rs \<noteq> [] \<longrightarrow> (\<exists>rp. run_all_checks rs = Inr rp \<and> all_passed rp))"
    proof (cases "rs = []")
      case True
      then show ?thesis using 2(1)[OF s(1), of "[]" rows' res'] s 2(3,4) False by auto
    next
      case nonempty: False
      then show ?thesis using 2(1)[OF s(1), of res rows' res'] s 2(3,4) False by auto
    qed
    then show ?thesis using s(4) by auto
  qed
qed simp

lemma check_months_rows:
  assumes "check_months st a b ks = Inr (rows, results)" "r \<in> set rows"
  shows "\<exists>k\<in>set ks. \<exists>rs. month_rows st a b k = Inr rs \<and> r \<in> set rs"
  using assms
  by (induction st a b ks arbitrary: rows results rule: check_months.induct) (fastforce split: sum.splits)+

lemma required_dates:
  assumes "required_weekdays (isoformat da) (isoformat db) = Inr required" "date_ok da" "date_ok db"
  shows "isoformat d \<in> set required \<longleftrightarrow> isoformat d \<in> isoformat ` {e. da \<le> e \<and> e \<le> db \<and> weekday e < 5}"
  using assms by (auto simp: required_weekdays_def strp_date_isoformat)

lemma month_rows_at:
  assumes "month_rows st a b (take 7 (isoformat d)) = Inr rs" "store_ok st" "date_ok d" "a \<le> isoformat d" "isoformat d \<le> b"
    and "history_table st (row_key r) = Some r" "row_date r = Some (isoformat d)"
  shows "r \<in> set rs"
proof -
  obtain e where e: "month_end (take 7 (isoformat d)) = Inr e" "rs = query_range st (max (take 7 (isoformat d) @ ''-01'') a) (min e b) []"
    using assms(1) by (auto simp: month_rows_def split: sum.splits)
  have "in_range (max (take 7 (isoformat d) @ ''-01'') a) (min e b) r"
    using assms(4,5,7) month_start_before[OF assms(3)] month_end_after[OF assms(3) e(1)] by (simp add: in_range_def)
  then show ?thesis using assms(6) by (simp add: e(2) query_range_rows[OF assms(2)] wanted_def)
qed

lemma month_rows_stored:
  assumes "month_rows st a b k = Inr rs" "store_ok st" "r \<in> set rs"
  shows "history_table st (row_key r) = Some r \<and> row_complete r \<and> in_range a b r"
proof -
  obtain e where "rs = query_range st (max (k @ ''-01'') a) (min e b) []"
    using assms(1) by (cases "month_end k") (auto simp: month_rows_def)
  then have "history_table st (row_key r) = Some r" "in_range (max (k @ ''-01'') a) (min e b) r"
    using assms(3) by (auto simp: query_range_rows[OF assms(2)])
  then show ?thesis using history_table_complete[OF assms(2), of "row_key r" r] by (simp add: in_range_def split: option.splits)
qed


definition inverted_row :: hrow where
  "inverted_row = (sample_row ''2026-08-14 09:15:00'' 100)\<lparr>hr_bid := Some 101, hr_ask := Some 99\<rparr>"

lemma inverted_date: "isoformat 739842 = ''2026-08-14''" "date_ok 739842" "weekday 739842 < 5"
  by code_simp+


section \<open>The duplicate check behind the store\<close>

lemma query_range_distinct:
  assumes "store_ok st"
  shows "distinct (map row_key (query_range st a b symbols))"
proof -
  define part where "part k = (if k < file_month a \<or> file_month b < k then []
                   else by_time (filter (\<lambda>r. in_range a b r \<and> wanted symbols r) (rows_of st k)))" for k
  have mem: "month_of_row r = Some k" if "r \<in> set (part k)" for r k
    using that set_rows_of[OF assms, of r k] by (auto simp: part_def by_time_def split: if_splits)
  have same: "k = k'" if "r \<in> set (part k)" "r' \<in> set (part k')" "row_key r = row_key r'" for r r' k k'
    using mem[OF that(1)] mem[OF that(2)] that(3) by (auto simp: month_of_row_def row_key_def)
  have one: "distinct (map row_key (part k))" for k
  proof -
    have "distinct (map row_key (rows_of st k))" using store_ok_file[OF assms, of k] by (simp add: file_ok_def)
    then have "distinct (map row_key (filter P (rows_of st k)))" for P by (rule distinct_map_filter)
    then show ?thesis by (simp add: part_def by_time_def distinct_map inj_on_def)
  qed
  have "distinct (map row_key (concat (map part ks)))" if "distinct ks" for ks
    using that
  proof (induction ks)
    case (Cons k ks)
    have "row_key ` set (part k) \<inter> row_key ` set (concat (map part ks)) = {}" using Cons.prems same by fastforce
    then show ?case using Cons one[of k] by simp
  qed simp
  moreover have "distinct (months_available st)" using assms by (simp add: months_available_def store_ok_def)
  ultimately show ?thesis by (simp add: query_range_def part_def[abs_def])
qed

text \<open>The gate's duplicate check is empty: whatever was written, in whatever order and however often, a query never returns
  two rows of one key - the second was dropped by the insert - so a feed that sends conflicting ticks passes.\<close>

theorem duplicates_never_reported:
  "cr_passed (check_duplicate_ticks (query_range (foldl (\<lambda>st rows. stored rows st) [] batches) a b symbols))"
proof -
  have "store_ok (foldl (\<lambda>st rows. stored rows st) [] batches)"
    using historical_files.inv_run[of "[]" batches] by (simp add: store_ok_def list_all_iff)
  then show ?thesis
    using query_range_distinct by (simp add: check_duplicate_ticks_def duplicate_issues_Nil)
qed

end
