(* ===== verification/History_Collector.thy ===== *)
theory History_Collector
  imports Backtest_Gate Wire_Format "HOL-Library.AList"
begin

text \<open>
  The collector of historical data (\<open>core/historical/collector.py\<close>): its own parser of the binary tick, the rows it makes,
  and the buffer it writes to the store from.  The clock is an argument; a fault of the database is an input of the
  write, namely the number of monthly files that were written before it.
\<close>

section \<open>Parsing\<close>

text \<open>The instant in India of an epoch time in milliseconds, and its text.\<close>

definition epoch_instant :: "int \<Rightarrow> instant" where
  "epoch_instant ms = UNIX_ORDINAL * 86400000000 + ms * 1000 + minutes (5 * 60 + 30)"

definition epoch_ms_to_ist_string :: "int \<Rightarrow> string" where
  "epoch_ms_to_ist_string ms =
     (let t = epoch_instant ms in db_text t @ ''.'' @ padded 3 (nat (microsecond_of t div 1000)))"

record packet =
  pk_flag :: int
  pk_quantity :: int
  pk_price :: real
  pk_orders :: int

definition packet_of :: "bytes \<Rightarrow> packet" where
  "packet_of chunk =
     \<lparr>pk_flag = unpack_H (slice 0 2 chunk), pk_quantity = unpack_q (slice 2 10 chunk),
      pk_price = paise (unpack_q (slice 10 18 chunk)), pk_orders = unpack_H (slice 18 20 chunk)\<rparr>"

definition parse_best_5 :: "bytes \<Rightarrow> packet list" where
  "parse_best_5 block = map (\<lambda>i. packet_of (slice (20 * i) (20 * i + 20) block)) [0..<min (length block div 20) 10]"

definition derive_bid_ask :: "packet list \<Rightarrow> (real \<times> real) option" where
  "derive_bid_ask packets =
     (let live = filter (\<lambda>p. 0 < pk_price p \<and> 0 < pk_quantity p) packets;
          a = map pk_price (filter (\<lambda>p. pk_flag p = 0) live); b = map pk_price (filter (\<lambda>p. pk_flag p \<noteq> 0) live)
      in if a = [] \<or> b = [] then None
         else if Max (set a) < Min (set b) then Some (py_round 2 (Max (set a)), py_round 2 (Min (set b)))
         else if Max (set b) < Min (set a) then Some (py_round 2 (Max (set b)), py_round 2 (Min (set a)))
         else None)"

text \<open>\<open>decode('utf-8', errors='ignore')\<close>: a byte that does not begin a valid sequence is dropped.\<close>

definition sequence_length :: "bytes \<Rightarrow> nat option" where
  "sequence_length bs = find (\<lambda>n. n \<le> length bs \<and> utf8_valid (map uint (take n bs))) [1, 2, 3, 4]"

lemma sequence_length_pos: "sequence_length bs = Some n \<Longrightarrow> 1 \<le> n \<and> n \<le> length bs"
  by (auto simp: sequence_length_def find_Some_iff nth_Cons' split: if_splits)

function decode_ignore :: "bytes \<Rightarrow> string" where
  "decode_ignore [] = []"
| "decode_ignore (b # bs) =
     (case sequence_length (b # bs) of
        None \<Rightarrow> decode_ignore bs
      | Some n \<Rightarrow> map (\<lambda>b. char_of (unat b)) (take n (b # bs)) @ decode_ignore (drop n (b # bs)))"
  by pat_completeness auto

termination
  by (relation "measure length") (auto dest: sequence_length_pos)

record snapquote =
  sq_mode :: int
  sq_token :: string
  sq_time :: int
  sq_ltp :: real
  sq_volume :: "int option"
  sq_oi :: "int option"
  sq_bid :: "real option"
  sq_ask :: "real option"

definition parse_snapquote :: "bytes \<Rightarrow> snapquote option" where
  "parse_snapquote data =
     (if length data < 51 then None
      else let mode = uint (data ! 0); snap = (3 \<le> mode \<and> 379 \<le> length data);
               book = (if snap then derive_bid_ask (parse_best_5 (slice 147 347 data)) else None)
           in Some \<lparr>sq_mode = mode, sq_token = rstrip_nul (decode_ignore (slice 2 27 data)),
                sq_time = unpack_q (slice 35 43 data), sq_ltp = paise (unpack_q (slice 43 51 data)),
                sq_volume = (if 2 \<le> mode \<and> 123 \<le> length data then Some (unpack_q (slice 67 75 data)) else None),
                sq_oi = (if snap then Some (unpack_q (slice 131 139 data)) else None),
                sq_bid = map_option fst book, sq_ask = map_option snd book\<rparr>)"

section \<open>The chain\<close>

record descriptor =
  de_symbol :: string
  de_type :: string
  de_expiry :: "string option"
  de_strike :: "int option"

definition build_chain :: "real \<Rightarrow> string \<Rightarrow> int \<Rightarrow> int \<Rightarrow> descriptor list" where
  "build_chain spot expiry_iso band_points strike_step =
     (let atm = round_half_even (spot / of_int strike_step) * strike_step
      in concat (map (\<lambda>strike. List.map_filter
             (\<lambda>itype. map_option (\<lambda>symbol. \<lparr>de_symbol = symbol, de_type = itype, de_expiry = Some expiry_iso, de_strike = Some strike\<rparr>)
                        (schema_option_symbol expiry_iso (of_int strike) itype)) [''CE'', ''PE''])
           (filter (\<lambda>k. (k - (atm - band_points)) mod strike_step = 0) [atm - band_points..atm + band_points])))"

definition to_canonical_row :: "snapquote \<Rightarrow> descriptor \<Rightarrow> real option \<Rightarrow> hrow" where
  "to_canonical_row q d spot_ref =
     \<lparr>hr_timestamp = Some (epoch_ms_to_ist_string (sq_time q)), hr_type = Some (de_type d), hr_symbol = Some (de_symbol d),
      hr_expiry = de_expiry d, hr_strike = map_option of_int (de_strike d), hr_ltp = Some (py_round 2 (sq_ltp q)),
      hr_bid = sq_bid q, hr_ask = sq_ask q, hr_volume = sq_volume q, hr_oi = sq_oi q,
      hr_delta = None, hr_gamma = None, hr_theta = None, hr_vega = None, hr_iv = None, hr_spot_ref = spot_ref\<rparr>"

datatype oi_reason = Oi_Fine | Oi_No_Rows | Oi_Missing real | Oi_All_Zero

record oi_report =
  or_ok :: bool
  or_reason :: oi_reason
  or_checked :: nat
  or_present :: nat
  or_nonzero :: nat

definition validate_oi_populated :: "hrow list \<Rightarrow> real \<Rightarrow> oi_report" where
  "validate_oi_populated rows min_fraction =
     (let opts = filter is_option rows; present = filter (\<lambda>r. hr_oi r \<noteq> None) opts;
          nonzero = filter (\<lambda>r. 0 < get_or 0 (hr_oi r)) present;
          fraction_present = real (length present) / real (length opts);
          fraction_nonzero = (if present = [] then 0 else real (length nonzero) / real (length present))
      in if opts = [] then \<lparr>or_ok = False, or_reason = Oi_No_Rows, or_checked = 0, or_present = 0, or_nonzero = 0\<rparr>
         else \<lparr>or_ok = (min_fraction \<le> fraction_present \<and> 0 < fraction_nonzero),
               or_reason = (if fraction_present < min_fraction then Oi_Missing fraction_present
                            else if fraction_nonzero = 0 then Oi_All_Zero else Oi_Fine),
               or_checked = length opts, or_present = length present, or_nonzero = length nonzero\<rparr>)"

section \<open>The collector\<close>

record collector_config =
  hc_flush_interval :: int
  hc_max_buffer :: nat

definition default_collector_config :: collector_config where
  "default_collector_config = \<lparr>hc_flush_interval = seconds 5, hc_max_buffer = 2000\<rparr>"

record collector =
  hc_tokens :: "(string \<times> descriptor) list"
  hc_spot_token :: "string option"
  hc_buffer :: "hrow list"
  hc_last_flush :: instant
  hc_spot_price :: "real option"
  hc_spot_ms :: "int option"
  hc_ticks :: nat
  hc_rows :: nat
  hc_flushes :: nat
  hc_bid_ask_null :: nat
  hc_oi_null :: nat
  hc_parse_failures :: nat

definition new_collector :: "instant \<Rightarrow> collector" where
  "new_collector now =
     \<lparr>hc_tokens = [], hc_spot_token = None, hc_buffer = [], hc_last_flush = now, hc_spot_price = None, hc_spot_ms = None,
      hc_ticks = 0, hc_rows = 0, hc_flushes = 0, hc_bid_ask_null = 0, hc_oi_null = 0, hc_parse_failures = 0\<rparr>"

definition configure :: "descriptor list \<Rightarrow> (string \<Rightarrow> string) \<Rightarrow> string \<Rightarrow> string \<Rightarrow> collector \<Rightarrow> collector" where
  "configure chain token_lookup spot_token spot_symbol c =
     (let tokens = foldl (\<lambda>m d. if token_lookup (de_symbol d) = '''' then m else AList.update (token_lookup (de_symbol d)) d m) [] chain
      in c\<lparr>hc_tokens := AList.update spot_token \<lparr>de_symbol = spot_symbol, de_type = ''SPOT'', de_expiry = None, de_strike = None\<rparr> tokens,
           hc_spot_token := Some spot_token\<rparr>)"

text \<open>The subscription: exchange type and tokens of each group.\<close>

definition tokens_of_type :: "(string \<Rightarrow> bool) \<Rightarrow> collector \<Rightarrow> string list" where
  "tokens_of_type p c = map fst (filter (\<lambda>(_, d). p (de_type d)) (hc_tokens c))"

definition subscribe_message :: "int \<Rightarrow> int \<Rightarrow> collector \<Rightarrow> (int \<times> string list) list" where
  "subscribe_message exchange_type_option exchange_type_spot c =
     (let opts = tokens_of_type (\<lambda>t. t = ''CE'' \<or> t = ''PE'') c; spots = tokens_of_type (\<lambda>t. t = ''SPOT'') c
      in (if opts = [] then [] else [(exchange_type_option, opts)]) @ (if spots = [] then [] else [(exchange_type_spot, spots)]))"

text \<open>A write with a fault after \<open>k\<close> files keeps what was committed.\<close>

definition write_until :: "nat option \<Rightarrow> hrow list \<Rightarrow> history \<Rightarrow> bool \<times> history" where
  "write_until fault rows st =
     (case fault of
        None \<Rightarrow> (case write_rows rows st of Inl _ \<Rightarrow> (False, st) | Inr (_, st') \<Rightarrow> (True, st'))
      | Some k \<Rightarrow> (False, snd (fold write_file (take k (group_by month_of_row rows)) (0, st))))"

definition flush_buffer :: "instant \<Rightarrow> nat option \<Rightarrow> history \<Rightarrow> collector \<Rightarrow> nat \<times> history \<times> collector" where
  "flush_buffer now fault st c =
     (let pending = hc_buffer c; c = c\<lparr>hc_buffer := [], hc_last_flush := now\<rparr>
      in if pending = [] then (0, st, c)
         else case write_until fault pending st of
                (True, st') \<Rightarrow> (length pending, st', c\<lparr>hc_flushes := hc_flushes c + 1\<rparr>)
              | (False, st') \<Rightarrow> (0, st', c))"

definition current_spot_ref :: "int \<Rightarrow> collector \<Rightarrow> real option" where
  "current_spot_ref option_epoch_ms c =
     (case (hc_spot_price c, hc_spot_ms c) of
        (Some p, Some ms) \<Rightarrow> if 1 < real_of_int \<bar>option_epoch_ms - ms\<bar> / 1000 then None else Some p
      | _ \<Rightarrow> None)"

text \<open>The row of a parsed tick of a known contract.\<close>

definition take_tick :: "snapquote \<Rightarrow> descriptor \<Rightarrow> collector \<Rightarrow> hrow \<times> collector" where
  "take_tick q d c =
     (let c = c\<lparr>hc_ticks := hc_ticks c + 1\<rparr>
      in if de_type d = ''SPOT''
         then (to_canonical_row q (d\<lparr>de_expiry := None, de_strike := None\<rparr>) (Some (py_round 2 (sq_ltp q))),
               c\<lparr>hc_spot_price := Some (py_round 2 (sq_ltp q)), hc_spot_ms := Some (sq_time q)\<rparr>)
         else let row = to_canonical_row q d (current_spot_ref (sq_time q) c)
              in (row, c\<lparr>hc_bid_ask_null := hc_bid_ask_null c + (if hr_bid row = None \<or> hr_ask row = None then 1 else 0),
                         hc_oi_null := hc_oi_null c + (if hr_oi row = None then 1 else 0)\<rparr>))"

definition handle_binary ::
  "collector_config \<Rightarrow> instant \<Rightarrow> nat option \<Rightarrow> bytes \<Rightarrow> history \<times> collector \<Rightarrow> hrow option \<times> history \<times> collector" where
  "handle_binary cfg now fault data s =
     (case s of (st, c) \<Rightarrow>
       (case parse_snapquote data of
          None \<Rightarrow> (None, st, c\<lparr>hc_parse_failures := hc_parse_failures c + 1\<rparr>)
        | Some q \<Rightarrow>
            (case map_of (hc_tokens c) (sq_token q) of
               None \<Rightarrow> (None, st, c)
             | Some d \<Rightarrow>
                 (let (row, c) = take_tick q d c; c = c\<lparr>hc_buffer := hc_buffer c @ [row], hc_rows := hc_rows c + 1\<rparr>
                  in if hc_max_buffer cfg \<le> length (hc_buffer c) \<or> hc_flush_interval cfg \<le> now - hc_last_flush c
                     then (Some row, snd (flush_buffer now fault st c)) else (Some row, st, c)))))"

definition stop_collector :: "instant \<Rightarrow> nat option \<Rightarrow> history \<times> collector \<Rightarrow> history \<times> collector" where
  "stop_collector now fault s = snd (flush_buffer now fault (fst s) (snd s))"

section \<open>Time stamps\<close>

lemma parse_digits_add:
  "parse_digits (j + k) acc s = (case parse_digits j acc s of None \<Rightarrow> None | Some (a, r) \<Rightarrow> parse_digits k a r)"
  by (induction j acc s rule: parse_digits.induct) (auto split: option.split)

lemma digit_no_separator: "is_digit c \<Longrightarrow> \<not> py_space c \<and> c \<noteq> CHR ''T'' \<and> c \<noteq> CHR ''t''"
  by (auto simp: is_digit_def py_space_def Let_def)

lemma fraction_millis:
  assumes "x < 1000"
  shows "fraction_field (CHR ''.'' # padded 3 x) = Some (x * 1000)"
proof -
  have "parse_digits (3 + 3) 0 (padded 3 x @ ''000'') = parse_digits 3 x ''000''"
    unfolding parse_digits_add using parse_padded'[of x 3 "''000''"] assms by simp
  also have "\<dots> = Some (x * 1000, [])" by (simp add: eval_nat_numeral is_digit_def)
  finally have "parse_digits 6 0 (padded 3 x @ ''000'') = Some (x * 1000, [])" by simp
  moreover have "padded 3 x \<noteq> []" by (metis length_padded list.size(3) zero_neq_numeral)
  moreover have "replicate 3 CHR ''0'' = ''000''" by (simp add: numeral_3_eq_3)
  ultimately show ?thesis using padded_digits[of 3 x] by (simp add: fraction_field_def)
qed

lemma instant_parts: "t div 1000000 = date_of t * 86400 + hour_of t * 3600 + minute_of t * 60 + second_of t"
  using mult_div_mod_eq[of 60 "t div 1000000"] mult_div_mod_eq[of 60 "t div 1000000 div 60"]
    mult_div_mod_eq[of 24 "t div 1000000 div 60 div 60"]
  unfolding clock_parts second_of_def by linarith

lemma separator_digit: "is_digit c \<Longrightarrow> separator (CHR '' '' # c # s) = Some (c # s)"
  using digit_no_separator[of c] by (simp add: separator_def py_space_def)

text \<open>The time stamps the collector writes are read back as the millisecond of the exchange, in Indian time.\<close>

theorem collector_timestamp_round_trip:
  assumes "date_ok (date_of (epoch_instant ms))"
  shows "parse_ts (Some (epoch_ms_to_ist_string ms)) = Some (epoch_instant ms)"
proof -
  define t where "t = epoch_instant ms"
  define h m s x where "h = nat (hour_of t)" and "m = nat (minute_of t)" and "s = nat (second_of t)"
    and "x = nat (microsecond_of t div 1000)"
  have b: "h < 24" "m < 60" "s < 60" "x < 1000" "int h = hour_of t" "int m = minute_of t" "int s = second_of t"
    "int x = microsecond_of t div 1000"
    using hour_of_range[of t] minute_of_range[of t] by (auto simp: h_def m_def s_def x_def second_of_def microsecond_of_def)
  let ?clock = "padded 2 h @ CHR '':'' # padded 2 m @ CHR '':'' # padded 2 s @ CHR ''.'' # padded 3 x"
  have stamp: "epoch_ms_to_ist_string ms = isoformat (date_of t) @ CHR '' '' # ?clock"
    by (simp add: epoch_ms_to_ist_string_def Let_def db_text_def t_def[symmetric] h_def m_def s_def x_def)
  have two: "\<exists>c r. padded 2 h = c # r \<and> is_digit c" using padded_digits[of 2 h] length_padded[of 2 h] by (cases "padded 2 h") auto
  then have sep: "separator (CHR '' '' # ?clock) = Some ?clock" using separator_digit by (metis append_Cons)
  have n: "number 2 0 23 (padded 2 h @ r) = Some (h, r)" "number 2 0 59 (padded 2 m @ r) = Some (m, r)"
    "number 2 0 59 (padded 2 s @ r) = Some (s, r)" for r
    using b by (auto intro!: number_padded)
  have clock: "clock_field ?clock = Some (((int h * 60 + int m) * 60 + int s) * 1000000 + int (x * 1000))"
    by (simp add: clock_field_def n fraction_millis[OF b(4)])
  have "take 26 (isoformat (date_of t) @ CHR '' '' # ?clock) = isoformat (date_of t) @ CHR '' '' # ?clock" by simp
  then have "parse_ts (Some (epoch_ms_to_ist_string ms))
      = Some (date_of t * 86400000000 + (((int h * 60 + int m) * 60 + int s) * 1000000 + int (x * 1000)))"
    using date_field_isoformat[of "date_of t"] assms by (simp add: parse_ts_def stamp t_def[symmetric] sep clock)
  moreover have "date_of t * 86400000000 + (((int h * 60 + int m) * 60 + int s) * 1000000 + int (x * 1000)) = t"
  proof -
    have ms: "microsecond_of t mod 1000 = 0"
      by (simp add: microsecond_of_def t_def epoch_instant_def UNIX_ORDINAL_def minutes_def mod_mod_cancel)
    have "microsecond_of t div 1000 * 1000 = microsecond_of t" using ms by (simp add: mod_eq_0_iff_dvd)
    moreover have "t = t div 1000000 * 1000000 + microsecond_of t" by (simp add: microsecond_of_def)
    ultimately show ?thesis using instant_parts[of t] unfolding of_nat_mult b(5-8) by simp
  qed
  ultimately show ?thesis by (simp add: t_def)
qed

lemma sample_instant: "epoch_instant 1786679100500 = 63922382100500000" "date_of (epoch_instant 1786679100500) = 739842"
  by code_simp+

theorem collector_timestamp_round_trip_witness:
  "parse_ts (Some (epoch_ms_to_ist_string 1786679100500)) = Some 63922382100500000"
  using collector_timestamp_round_trip[of 1786679100500] sample_instant inverted_date(2) by simp

section \<open>The two readings of the depth\<close>

lemma py_round_paise [simp]: "py_round 2 (paise n) = paise n"
  by (simp add: py_round_def paise_def)

lemma packet_level: "packet_of (slice (20 * i) (20 * i + 20) block) = \<lparr>pk_flag = fst (level_of block i),
    pk_quantity = snd (snd (level_of block i)), pk_price = fst (snd (level_of block i)),
    pk_orders = unpack_H (slice 18 20 (slice (20 * i) (20 * i + 20) block))\<rparr>"
  by (simp add: packet_of_def level_of_def Let_def)

lemma sides_agree:
  assumes "200 \<le> length block"
  shows "map pk_price (filter (\<lambda>p. P (pk_flag p)) (filter (\<lambda>p. 0 < pk_price p \<and> 0 < pk_quantity p) (parse_best_5 block)))
       = map fst (map snd (filter (\<lambda>l. P (fst l)) (book_levels block)))"
proof -
  have "min (length block div 20) 10 = 10" using assms by simp
  then show ?thesis
    by (simp add: parse_best_5_def book_levels_def packet_level filter_map comp_def quoted_def del: upt_rec_numeral)
qed

lemma Max_level: "xs \<noteq> [] \<Longrightarrow> Max (set (map fst xs)) = fst (max_level xs)"
  using max_level_greatest[of xs] by (intro Max_eqI) auto

lemma Min_level: "xs \<noteq> [] \<Longrightarrow> Min (set (map fst xs)) = fst (min_level xs)"
  using min_level_least[of xs] by (intro Min_eqI) auto

lemma level_paise: "l \<in> set (book_levels block) \<Longrightarrow> \<exists>n. fst (snd l) = paise n"
  by (auto simp: book_levels_def level_of_def Let_def)

lemma crossed_None:
  assumes "fst (max_level xs) < fst (min_level ys)" "xs \<noteq> []" "ys \<noteq> []"
  shows "assignment price ys xs = None"
proof -
  have "fst (min_level xs) \<le> fst (max_level xs)" "fst (min_level ys) \<le> fst (max_level ys)"
    using max_level_greatest[of xs] min_level_least[of xs] max_level_greatest[of ys] min_level_least[of ys] assms(2,3) by blast+
  then show ?thesis using assms(1) by (simp add: assignment_def case_prod_beta)
qed

lemma choose_uncrossed:
  assumes "fst (max_level xs) < fst (min_level ys)" "xs \<noteq> []" "ys \<noteq> []"
  shows "\<exists>d. best_bid_price d = fst (max_level xs) \<and> best_ask_price d = fst (min_level ys)
    \<and> choose_book price xs ys = (if implausible price d then None else Some d)
    \<and> choose_book price ys xs = (if implausible price d then None else Some d)"
proof -
  let ?d = "\<lparr>best_bid_price = fst (max_level xs), best_ask_price = fst (min_level ys),
             best_bid_qty = snd (max_level xs), best_ask_qty = snd (min_level ys)\<rparr>"
  have "assignment price xs ys = Some (\<bar>(fst (max_level xs) + fst (min_level ys)) / 2 - price\<bar>, ?d)"
    using assms(1) by (simp add: assignment_Some)
  then show ?thesis using crossed_None[OF assms] assms(2,3) by (intro exI[of _ ?d]) (simp add: choose_book_def closer_def)
qed

text \<open>C40: When the collector derives a bid and an ask, the parser of the trading path reports exactly these, unless it finds the
  book implausible for the last price and reports none; the two never report different books.\<close>

theorem parsers_agree:
  assumes "200 \<le> length block" "derive_bid_ask (parse_best_5 block) = Some (b, a)"
  shows "b < a \<and> (\<exists>d. best_bid_price d = b \<and> best_ask_price d = a
           \<and> parse_best5 block price = (if implausible price d then None else Some d))"
proof -
  let ?A = "map snd (filter (\<lambda>l. fst l = 0) (book_levels block))"
  let ?B = "map snd (filter (\<lambda>l. fst l \<noteq> 0) (book_levels block))"
  have sides: "map pk_price (filter (\<lambda>p. pk_flag p = 0) (filter (\<lambda>p. 0 < pk_price p \<and> 0 < pk_quantity p) (parse_best_5 block))) = map fst ?A"
    "map pk_price (filter (\<lambda>p. pk_flag p \<noteq> 0) (filter (\<lambda>p. 0 < pk_price p \<and> 0 < pk_quantity p) (parse_best_5 block))) = map fst ?B"
    using sides_agree[OF assms(1), of "\<lambda>f. f = 0"] sides_agree[OF assms(1), of "\<lambda>f. f \<noteq> 0"] by simp_all
  have ne: "?A \<noteq> []" "?B \<noteq> []"
    using assms(2) unfolding derive_bid_ask_def Let_def sides by (auto split: if_splits)
  have ex: "py_round 2 (fst l) = fst l" if "l \<in> set ?A \<union> set ?B" for l
    using that level_paise[of _ block] by force
  have lv: "py_round 2 (fst (max_level xs)) = fst (max_level xs)" "py_round 2 (fst (min_level xs)) = fst (min_level xs)"
    if "xs = ?A \<or> xs = ?B" for xs
    using that ne max_level_greatest[of xs] min_level_least[of xs] ex by blast+
  have d: "derive_bid_ask (parse_best_5 block) =
      (if fst (max_level ?A) < fst (min_level ?B) then Some (fst (max_level ?A), fst (min_level ?B))
       else if fst (max_level ?B) < fst (min_level ?A) then Some (fst (max_level ?B), fst (min_level ?A)) else None)"
    unfolding derive_bid_ask_def Let_def sides using ne by (simp only: Max_level Min_level lv map_is_Nil_conv simp_thms if_False)
  have p: "parse_best5 block price = choose_book price ?A ?B" using assms(1) by (simp add: parse_best5_def Let_def)
  show ?thesis
  proof (cases "fst (max_level ?A) < fst (min_level ?B)")
    case True
    then have "b = fst (max_level ?A)" "a = fst (min_level ?B)" using d assms(2) by simp_all
    then show ?thesis using True choose_uncrossed[OF True ne, of price] p by auto
  next
    case False
    then have B: "fst (max_level ?B) < fst (min_level ?A)" using d assms(2) by (simp split: if_splits)
    then have "b = fst (max_level ?B)" "a = fst (min_level ?A)" using False d assms(2) by simp_all
    then show ?thesis using B choose_uncrossed[OF B ne(2,1), of price] p by auto
  qed
qed

text \<open>One bid and one ask, the other eight levels empty.\<close>

definition depth_packet :: "8 word \<Rightarrow> 8 word \<Rightarrow> bytes" where
  "depth_packet flag price = [flag, 0, 75, 0, 0, 0, 0, 0, 0, 0, price, 39, 0, 0, 0, 0, 0, 0, 1, 0]"

definition depth_block :: bytes where
  "depth_block = depth_packet 1 16 @ depth_packet 0 66 @ replicate 160 0"

lemma sample_derive: "derive_bid_ask (parse_best_5 depth_block) = Some (paise 10000, paise 10050)"
proof -
  have "parse_best_5 depth_block = \<lparr>pk_flag = 1, pk_quantity = 75, pk_price = paise 10000, pk_orders = 1\<rparr>
     # \<lparr>pk_flag = 0, pk_quantity = 75, pk_price = paise 10050, pk_orders = 1\<rparr>
     # replicate 8 \<lparr>pk_flag = 0, pk_quantity = 0, pk_price = 0, pk_orders = 0\<rparr>"
    by code_simp
  then show ?thesis by (simp add: derive_bid_ask_def paise_def py_round_def round_half_even_def eval_nat_numeral)
qed

theorem parsers_agree_witness:
  "paise 10000 < paise 10050 \<and> (\<exists>d. best_bid_price d = paise 10000 \<and> best_ask_price d = paise 10050
     \<and> parse_best5 depth_block 100 = (if implausible 100 d then None else Some d))"
  using parsers_agree[OF _ sample_derive, of 100] by (simp add: depth_block_def depth_packet_def)

section \<open>The collector and the gate\<close>

lemma nearest_spot_min:
  "ps \<noteq> [] \<Longrightarrow> \<exists>p. nearest_spot t ps = Some p \<and> p \<in> set ps \<and> (\<forall>q\<in>set ps. spot_distance t p \<le> spot_distance t q)"
proof (induction ps rule: rev_induct)
  case (snoc q ps)
  show ?case
  proof (cases "ps = []")
    case True
    then show ?thesis by (simp add: nearest_spot_def)
  next
    case False
    then obtain p where "nearest_spot t ps = Some p" "p \<in> set ps" "\<forall>q\<in>set ps. spot_distance t p \<le> spot_distance t q"
      using snoc.IH by blast
    moreover have "nearest_spot t (ps @ [q]) = (if spot_distance t q < spot_distance t p then Some q else Some p)"
      using calculation(1) by (simp add: nearest_spot_def)
    ultimately show ?thesis by (cases "spot_distance t q < spot_distance t p") force+
  qed
qed simp

lemma take_tick_rows:
  "hr_timestamp (fst (take_tick q d c)) = Some (epoch_ms_to_ist_string (sq_time q))"
  "hr_type (fst (take_tick q d c)) = Some (de_type d)" "hr_symbol (fst (take_tick q d c)) = Some (de_symbol d)"
  "hr_ltp (fst (take_tick q d c)) = Some (py_round 2 (sq_ltp q))"
  by (simp_all add: take_tick_def to_canonical_row_def Let_def)

text \<open>C22: An honest recording fails the gate. The collector stamps an option tick with the last spot price it has received; the
  gate compares it with the spot row nearest in time.  When the next spot tick arrives sooner after the option tick than
  the last one was before it, and the price has moved, the rows the collector makes of the three ticks do not pass.\<close>

theorem honest_recording_rejected:
  assumes "de_type spot = ''SPOT''" "de_type opt = ''CE'' \<or> de_type opt = ''PE''"
    and "take_tick q0 spot c = (r0, c0)" "take_tick q1 opt c0 = (r1, c1)" "take_tick q2 spot c1 = (r2, c2)"
    and "sq_time q0 \<le> sq_time q1" "sq_time q1 \<le> sq_time q2" "sq_time q2 - sq_time q1 < sq_time q1 - sq_time q0"
    and "sq_time q1 - sq_time q0 \<le> 1000" "1 / 100 < \<bar>py_round 2 (sq_ltp q2) - py_round 2 (sq_ltp q0)\<bar>"
    and "\<forall>q\<in>{q0, q1, q2}. date_of (epoch_instant (sq_time q)) = d" "date_ok d"
  shows "hr_spot_ref r1 = Some (py_round 2 (sq_ltp q0))
       \<and> (\<exists>v. check_spot_option_alignment SPOT_ALIGN_TOLERANCE_SEC [r0, r1, r2] = Inr v \<and> \<not> cr_passed v)"
proof -
  let ?t = "\<lambda>q. epoch_instant (sq_time q)"
  let ?p = "\<lambda>q. (?t q, Some (py_round 2 (sq_ltp q)))"
  have r: "r0 = fst (take_tick q0 spot c)" "r1 = fst (take_tick q1 opt c0)" "r2 = fst (take_tick q2 spot c1)"
    using assms(3-5) by simp_all
  have time: "row_time r0 = Some (?t q0)" "row_time r1 = Some (?t q1)" "row_time r2 = Some (?t q2)"
    using collector_timestamp_round_trip assms(11,12) by (simp_all add: r row_time_def take_tick_rows)
  have kind: "hr_type r0 = Some ''SPOT''" "hr_type r1 = Some (de_type opt)" "hr_type r2 = Some ''SPOT''"
    by (simp_all add: r take_tick_rows assms(1))
  have ref: "hr_spot_ref r1 = Some (py_round 2 (sq_ltp q0))"
    using assms(1-4,6,9) by (auto simp: take_tick_def to_canonical_row_def current_spot_ref_def)
  have points: "List.map_filter spot_point_of [r0, r1, r2] = [?p q0, ?p q2]"
    using assms(2) by (auto simp: map_filter_simps spot_point_of_def kind time) (simp_all add: r take_tick_rows)
  have set: "set (spot_points [r0, r1, r2] (isoformat d)) = {?p q0, ?p q2}"
    using assms(11) unfolding spot_points_def points by auto
  then have ne: "spot_points [r0, r1, r2] (isoformat d) \<noteq> []" by (metis insert_not_empty list.set(1))
  have dist: "spot_distance (?t q1) (?p q2) < spot_distance (?t q1) (?p q0)" "spot_distance (?t q1) (?p q2) \<le> 1"
    using assms(6-9) by (simp_all add: spot_distance_def total_seconds_def epoch_instant_def)
  then have near: "nearest_spot (?t q1) (spot_points [r0, r1, r2] (isoformat d)) = Some (?p q2)"
    using nearest_spot_min[OF ne, of "?t q1"] unfolding set by force
  have "alignment_issue SPOT_ALIGN_TOLERANCE_SEC [r0, r1, r2] r1 \<noteq> None"
    using assms(10,11) dist near by (simp add: alignment_issue_def ref time SPOT_ALIGN_TOLERANCE_SEC_def SPOT_ALIGN_PRICE_EPSILON_def)
  moreover have "\<not> incomparable (List.map_filter spot_point_of [r0, r1, r2])" unfolding points incomparable_def by simp
  ultimately show ?thesis
    using ref assms(2) by (auto simp: check_spot_option_alignment_def Let_def map_filter_Nil_iff is_option_def kind)
qed

definition spot_descriptor :: descriptor where
  "spot_descriptor = \<lparr>de_symbol = ''NIFTY'', de_type = ''SPOT'', de_expiry = None, de_strike = None\<rparr>"

definition call_descriptor :: descriptor where
  "call_descriptor = \<lparr>de_symbol = ''NIFTY14AUG2624000CE'', de_type = ''CE'', de_expiry = Some ''2026-08-14'', de_strike = Some 24000\<rparr>"

lemma sample_descriptors: "de_type spot_descriptor = ''SPOT''" "de_type call_descriptor = ''CE''"
  by (simp_all add: spot_descriptor_def call_descriptor_def)

definition quote_at :: "int \<Rightarrow> real \<Rightarrow> snapquote" where
  "quote_at t p = \<lparr>sq_mode = 3, sq_token = ''4711'', sq_time = t, sq_ltp = p, sq_volume = None, sq_oi = None, sq_bid = None, sq_ask = None\<rparr>"

lemma quote_at_sel [simp]: "sq_time (quote_at t p) = t" "sq_ltp (quote_at t p) = p"
  by (simp_all add: quote_at_def)

lemma quote_dates: "date_of (epoch_instant 1786679100000) = 739842" "date_of (epoch_instant 1786679100900) = 739842"
  "date_of (epoch_instant 1786679101000) = 739842"
  by code_simp+

theorem honest_recording_rejected_witness:
  "let (r0, c0) = take_tick (quote_at 1786679100000 24000) spot_descriptor (new_collector 0);
       (r1, c1) = take_tick (quote_at 1786679100900 100) call_descriptor c0;
       (r2, c2) = take_tick (quote_at 1786679101000 24001) spot_descriptor c1
   in \<exists>v. check_spot_option_alignment SPOT_ALIGN_TOLERANCE_SEC [r0, r1, r2] = Inr v \<and> \<not> cr_passed v"
proof -
  have round: "py_round 2 24000 = 24000" "py_round 2 24001 = 24001" by (simp_all add: py_round_def round_half_even_def)
  obtain r0 c0 where s0: "take_tick (quote_at 1786679100000 24000) spot_descriptor (new_collector 0) = (r0, c0)" by fastforce
  obtain r1 c1 where s1: "take_tick (quote_at 1786679100900 100) call_descriptor c0 = (r1, c1)" by fastforce
  obtain r2 c2 where s2: "take_tick (quote_at 1786679101000 24001) spot_descriptor c1 = (r2, c2)" by fastforce
  from honest_recording_rejected[OF _ _ s0 s1 s2, of 739842] show ?thesis
    by (simp add: s0 s1 s2 sample_descriptors quote_dates inverted_date(2) round)
qed

section \<open>What is collected is kept\<close>

text \<open>A session without faults of the database: frames with the time of their arrival, and the rows made of them so far.\<close>

type_synonym recording = "hrow list \<times> history \<times> collector"

definition collect_step :: "collector_config \<Rightarrow> recording \<Rightarrow> instant \<times> bytes \<Rightarrow> recording" where
  "collect_step cfg rc e =
     (let (row, s) = handle_binary cfg (fst e) None (snd e) (snd rc)
      in (fst rc @ (case row of None \<Rightarrow> [] | Some r \<Rightarrow> [r]), s))"

definition recording_kept :: "recording \<Rightarrow> bool" where
  "recording_kept rc \<longleftrightarrow>
     (case rc of (made, st, c) \<Rightarrow>
        store_ok st \<and> (\<forall>r\<in>set (hc_buffer c). row_complete r)
        \<and> (\<forall>r\<in>set made. r \<in> set (hc_buffer c) \<or> history_table st (row_key r) \<noteq> None))"

lemma add_rows_present: "r \<in> set rows \<Longrightarrow> row_complete r \<Longrightarrow> foldl add_row m rows (row_key r) \<noteq> None"
proof (induction rows arbitrary: m)
  case (Cons r' rows)
  show ?case
  proof (cases "r = r'")
    case True
    then obtain q where "add_row m r' (row_key r) = Some q" using Cons.prems by (cases "m (row_key r)") (auto simp: add_row_def)
    then show ?thesis using add_rows_keep[of "add_row m r'" "row_key r" q rows] by simp
  qed (use Cons in auto)
qed simp

lemma take_tick_complete: "row_complete (fst (take_tick q d c))"
  by (simp add: row_complete_def take_tick_rows)

lemma take_tick_buffer [simp]: "hc_buffer (snd (take_tick q d c)) = hc_buffer c"
  by (simp add: take_tick_def Let_def)

lemma flush_conv:
  assumes "\<forall>r\<in>set (hc_buffer c). row_complete r"
  shows "flush_buffer now None st c = (length (hc_buffer c), stored (hc_buffer c) st,
     c\<lparr>hc_buffer := [], hc_last_flush := now, hc_flushes := hc_flushes c + (if hc_buffer c = [] then 0 else 1)\<rparr>)"
proof (cases "hc_buffer c = []")
  case True
  then show ?thesis by (simp add: flush_buffer_def Let_def stored_conv group_by_def)
next
  case False
  obtain n st' where "write_rows (hc_buffer c) st = Inr (n, st')"
    using assms by (auto simp: write_rows_def list_ex_iff row_complete_def) fastforce
  then show ?thesis using False by (simp add: flush_buffer_def Let_def write_until_def stored_def)
qed

lemma recording_flush:
  assumes "recording_kept (made, st, c)" "flush_buffer now None st c = (n, st', c')"
  shows "recording_kept (made, st', c') \<and> hc_buffer c' = []"
proof -
  have k: "store_ok st" "\<forall>r\<in>set (hc_buffer c). row_complete r"
    "\<forall>r\<in>set made. r \<in> set (hc_buffer c) \<or> history_table st (row_key r) \<noteq> None"
    using assms(1) by (auto simp: recording_kept_def)
  have f: "st' = stored (hc_buffer c) st" "hc_buffer c' = []" using assms(2) flush_conv[OF k(2)] by auto
  have t: "history_table st' = foldl add_row (history_table st) (hc_buffer c)"
    unfolding f by (rule stored_refines) (use k(2) in \<open>auto simp: row_complete_def\<close>)
  have "history_table st' (row_key r) \<noteq> None" if "r \<in> set made" for r
    using k(2,3) that add_rows_present[of r "hc_buffer c"] add_rows_keep[of "history_table st" "row_key r" _ "hc_buffer c"]
    unfolding t by (cases "r \<in> set (hc_buffer c)") auto
  then show ?thesis using store_ok_stored[OF k(1)] f by (auto simp: recording_kept_def)
qed

lemma recording_step: "recording_kept rc \<Longrightarrow> recording_kept (collect_step cfg rc e)"
proof -
  assume k: "recording_kept rc"
  obtain made st c where rc: "rc = (made, st, c)" by (cases rc)
  show ?thesis
  proof (cases "parse_snapquote (snd e)")
    case None
    then show ?thesis using k by (simp add: rc collect_step_def handle_binary_def recording_kept_def)
  next
    case (Some q)
    show ?thesis
    proof (cases "map_of (hc_tokens c) (sq_token q)")
      case None
      then show ?thesis using k Some by (simp add: rc collect_step_def handle_binary_def recording_kept_def)
    next
      case d: (Some d)
      define row c1 where "row = fst (take_tick q d c)" and "c1 = snd (take_tick q d c)"
      define c2 where "c2 = c1\<lparr>hc_buffer := hc_buffer c1 @ [row], hc_rows := hc_rows c1 + 1\<rparr>"
      have k2: "recording_kept (made @ [row], st, c2)"
        using k take_tick_complete[of q d c] by (auto simp: rc recording_kept_def c2_def c1_def row_def)
      have "collect_step cfg rc e = (made @ [row], st, c2)
          \<or> collect_step cfg rc e = (made @ [row], snd (flush_buffer (fst e) None st c2))"
        by (simp add: rc collect_step_def handle_binary_def Some d case_prod_beta c2_def c1_def row_def Let_def)
      then show ?thesis
        using k2 recording_flush[OF k2, of "fst e"] by (metis prod.collapse)
    qed
  qed
qed

interpretation recording: invariant_system "collect_step cfg" recording_kept "\<lambda>_. True"
  by unfold_locales (rule recording_step)

text \<open>Without faults of the database no row is lost: after any frames and a stop, the store holds a row for the time stamp and
  symbol of every row that was made - the first one made with this key.\<close>

theorem collected_rows_are_stored:
  assumes "hc_buffer c = []" "foldl (collect_step cfg) ([], [], c) es = (made, st, c')"
  shows "list_all (\<lambda>r. history_table (fst (stop_collector now None (st, c'))) (row_key r) \<noteq> None) made"
proof -
  have "recording_kept ([], [], c)" using assms(1) by (simp add: recording_kept_def store_ok_def)
  then have k: "recording_kept (made, st, c')"
    using recording.inv_run[of "([], [], c)" es cfg] assms(2) by (simp add: list_all_iff)
  obtain n st' c2 where f: "flush_buffer now None st c' = (n, st', c2)" by (metis prod_cases3)
  from recording_flush[OF k f] show ?thesis
    by (auto simp: recording_kept_def stop_collector_def f list_all_iff)
qed

definition spot_recorder :: collector where
  "spot_recorder = configure [] (\<lambda>_. '''') '''' ''NIFTY'' (new_collector 0)"

definition sample_recording :: recording where
  "sample_recording = foldl (collect_step default_collector_config) ([], [], spot_recorder) [(5, replicate 51 0), (7, [])]"

lemma sample_recording_rows: "length (fst sample_recording) = 1"
proof -
  have "parse_snapquote (replicate 51 0) = Some \<lparr>sq_mode = 0, sq_token = '''', sq_time = 0, sq_ltp = 0, sq_volume = None, sq_oi = None,
      sq_bid = None, sq_ask = None\<rparr>"
    by code_simp
  moreover have "parse_snapquote [] = None" by code_simp
  ultimately show ?thesis
    by (simp add: sample_recording_def collect_step_def handle_binary_def spot_recorder_def configure_def new_collector_def
        case_prod_beta Let_def)
qed

theorem collected_rows_are_stored_witness:
  "length (fst sample_recording) = 1
     \<and> list_all (\<lambda>r. history_table (fst (stop_collector 9 None (snd sample_recording))) (row_key r) \<noteq> None) (fst sample_recording)"
proof -
  have "foldl (collect_step default_collector_config) ([], [], spot_recorder) [(5, replicate 51 0), (7, [])]
      = (fst sample_recording, fst (snd sample_recording), snd (snd sample_recording))"
    by (simp only: sample_recording_def prod.collapse)
  moreover have "hc_buffer spot_recorder = []" by (simp add: spot_recorder_def configure_def new_collector_def)
  ultimately show ?thesis
    using collected_rows_are_stored[of spot_recorder default_collector_config _ "fst sample_recording" _ _ 9] sample_recording_rows
    by (metis prod.collapse)
qed

text \<open>A fault before the first file is written loses the whole buffer: it is emptied before the write and not restored.\<close>

lemma faulty_flush_drops_buffer:
  "flush_buffer now (Some 0) st c = (0, st, c\<lparr>hc_buffer := [], hc_last_flush := now\<rparr>)"
  by (simp add: flush_buffer_def write_until_def Let_def)

end
