(* ===== verification/Backtester.thy ===== *)
theory Backtester
  imports Trading_State Position_Size Greeks Exit_Engine Sql_Table
begin

text \<open>
  The replay of historical candles (\<open>core/backtest.py\<close>).  The exit is the live exit engine of \<open>Exit_Engine\<close>, the size
  that of \<open>Position_Size\<close>; the strategy is an argument, a function from its state and the last ticks to its answer.
  Printing and the export to files are left out.
\<close>

section \<open>Data\<close>

text \<open>A candle dictionary; of its prices each may be absent.\<close>

record replay_candle =
  rc_timestamp :: instant
  rc_close :: "real option"
  rc_ltp :: "real option"
  rc_option_ltp :: "real option"
  rc_spot_price :: "real option"
  rc_volume :: "int option"

record backtest_trade =
  bt_trade_id :: nat
  bt_entry_time :: instant
  bt_exit_time :: instant
  bt_direction :: option_type
  bt_entry_price :: real
  bt_exit_price :: real
  bt_qty :: int
  bt_sl_price :: real
  bt_tp_price :: real
  bt_pnl :: real
  bt_exit_reason :: "exit_reason option"
  bt_mfe :: real
  bt_mae :: real

text \<open>\<open>bt_exit_reason\<close> is \<open>None\<close> for the forced close at the end of the data.\<close>

record backtest_config =
  bc_initial_capital :: real
  bc_lot_size :: int
  bc_max_trades_per_day :: nat
  bc_commission :: real
  bc_slippage_pct :: real
  bc_day_type :: day_type
  bc_default_iv :: real
  bc_default_tte_sec :: real
  bc_use_engine :: bool
  bc_risk_budget_pct :: real
  bc_sizing :: size_config
  bc_exit :: exit_config
  bc_hard_sl :: real
  bc_tp_points :: real
  bc_min_confidence :: int

definition default_backtest_config :: backtest_config where
  "default_backtest_config =
     \<lparr>bc_initial_capital = 30000, bc_lot_size = 65, bc_max_trades_per_day = 15, bc_commission = 40,
      bc_slippage_pct = 1/10, bc_day_type = NORMAL, bc_default_iv = 2/10, bc_default_tte_sec = 259200,
      bc_use_engine = False, bc_risk_budget_pct = 2/100, bc_sizing = DEFAULT_CONFIG, bc_exit = default_exit_config,
      bc_hard_sl = 7, bc_tp_points = 14, bc_min_confidence = 70\<rparr>"

record backtest =
  bk_capital :: real
  bk_trades :: "backtest_trade list"
  bk_current :: "(nat \<times> trade) option"
  bk_trade_count :: nat
  bk_daily_trades :: nat
  bk_date :: "int option"
  bk_equity :: "(instant \<times> real) list"
  bk_peak :: real
  bk_max_drawdown :: real
  bk_spot_reference :: "real option"

definition new_backtest :: "backtest_config \<Rightarrow> backtest" where
  "new_backtest cfg =
     \<lparr>bk_capital = bc_initial_capital cfg, bk_trades = [], bk_current = None, bk_trade_count = 0, bk_daily_trades = 0,
      bk_date = None, bk_equity = [], bk_peak = bc_initial_capital cfg, bk_max_drawdown = 0, bk_spot_reference = None\<rparr>"

text \<open>What the strategy answers: a direction for a signal, and the numbers the sizing reads from its details.\<close>

record backtest_signal =
  bs_direction :: "option_type option"
  bs_confidence :: int
  bs_weighted_score :: real
  bs_market_quality :: real
  bs_regime :: string

section \<open>Prices\<close>

definition commission_per_side :: "backtest_config \<Rightarrow> real" where
  "commission_per_side cfg = bc_commission cfg / 2"

definition slip :: "backtest_config \<Rightarrow> real \<Rightarrow> real" where
  "slip cfg price = 1/4 + price * (bc_slippage_pct cfg / 100)"

definition apply_slippage :: "backtest_config \<Rightarrow> real \<Rightarrow> side \<Rightarrow> real" where
  "apply_slippage cfg price sd = (if sd = BUY then price + slip cfg price else price - slip cfg price)"

definition or_value :: "real option \<Rightarrow> real \<Rightarrow> real" where
  "or_value v dflt = (if truthy v then get_or 0 v else dflt)"

text \<open>\<open>float(candle.get('close', candle.get('ltp', 100)) or 100)\<close>.\<close>

definition close_price :: "replay_candle \<Rightarrow> real" where
  "close_price c = or_value (case rc_close c of None \<Rightarrow> Some (get_or 100 (rc_ltp c)) | Some p \<Rightarrow> Some p) 100"

definition OPTION_REFERENCE_PRICE :: real where
  "OPTION_REFERENCE_PRICE = 180"

definition SPOT_TO_OPTION_DELTA :: real where
  "SPOT_TO_OPTION_DELTA = 8/100"

text \<open>The first spot price seen becomes the reference of the proxy.\<close>

definition resolve_option_price :: "replay_candle \<Rightarrow> backtest \<Rightarrow> real \<times> backtest" where
  "resolve_option_price c b =
     (case rc_option_ltp c of
        Some p \<Rightarrow> (max 5 p, b)
      | None \<Rightarrow>
          if close_price c \<le> 1500 then (max 5 (close_price c), b)
          else let spot = or_value (Some (get_or (close_price c) (rc_spot_price c))) (close_price c);
                   ref = get_or spot (bk_spot_reference b)
               in (max 5 (min 500 (OPTION_REFERENCE_PRICE + (spot - ref) * SPOT_TO_OPTION_DELTA)), b\<lparr>bk_spot_reference := Some ref\<rparr>))"

definition candle_spot :: "replay_candle \<Rightarrow> real \<Rightarrow> real" where
  "candle_spot c price = or_value (Some (get_or (get_or price (rc_close c)) (rc_spot_price c))) price"

section \<open>Exits\<close>

definition build_greeks :: "backtest_config \<Rightarrow> real \<Rightarrow> option_type \<Rightarrow> Exit_Engine.greeks" where
  "build_greeks cfg spot d =
     (if spot \<le> 0 then no_greeks
      else let g = calculate_greeks spot (of_int (round_half_even (spot / 50) * 50)) (bc_default_tte_sec cfg / (365.25 * 24 * 3600))
                     (bc_default_iv cfg) 0.05 d
           in \<lparr>g_delta = Some (gk_delta g), g_gamma = Some (gk_gamma g), g_theta = Some (gk_theta g), g_vega = Some (gk_vega g),
               g_theta_sec = Some (gk_theta_sec g)\<rparr>)"

text \<open>The synthetic tick of the exit check has no book, no volume and no source.\<close>

definition exit_tick :: "backtest_config \<Rightarrow> real \<Rightarrow> real \<Rightarrow> tick" where
  "exit_tick cfg price spot =
     \<lparr>ltp = price, bid = 0, ask = 0, tick_timestamp = 0, original_timestamp = None, tick_symbol = '''', spot_price = spot,
      tick_volume = None, data_source = '''', tick_spread_pct = None, tick_delta = None, tick_atr = None,
      tick_iv = Some (bc_default_iv cfg), tick_tte_sec = Some (bc_default_tte_sec cfg)\<rparr>"

definition check_exit ::
  "backtest_config \<Rightarrow> greeks_validator \<Rightarrow> instant \<Rightarrow> real \<Rightarrow> real \<Rightarrow> tick list \<Rightarrow> trade \<Rightarrow> (py_error + exit_reason option) \<times> trade" where
  "check_exit cfg validate now price spot history t =
     (case calculate_rsi 14 history of
        Inl e \<Rightarrow> (Inl e, t)
      | Inr rsi \<Rightarrow> check_exit_conditions (bc_exit cfg) validate now t (exit_tick cfg price spot) (build_greeks cfg spot (direction t))
                     (bc_day_type cfg) (Some rsi))"

definition trade_record :: "backtest_config \<Rightarrow> instant \<Rightarrow> real \<Rightarrow> exit_reason option \<Rightarrow> nat \<times> trade \<Rightarrow> backtest_trade" where
  "trade_record cfg now price reason it =
     (case it of (i, t) \<Rightarrow>
        let actual = apply_slippage cfg price SELL
        in \<lparr>bt_trade_id = i, bt_entry_time = entry_time t, bt_exit_time = now, bt_direction = direction t,
            bt_entry_price = entry_price t, bt_exit_price = actual, bt_qty = qty t, bt_sl_price = entry_price t - bc_hard_sl cfg,
            bt_tp_price = entry_price t + bc_tp_points cfg,
            bt_pnl = (actual - entry_price t) * of_int (qty t) - commission_per_side cfg, bt_exit_reason = reason,
            bt_mfe = get_or 0 (mfe_inr t), bt_mae = get_or 0 (mae_inr t)\<rparr>)"

definition exit_trade :: "backtest_config \<Rightarrow> instant \<Rightarrow> real \<Rightarrow> exit_reason option \<Rightarrow> backtest \<Rightarrow> backtest" where
  "exit_trade cfg now price reason b =
     (case bk_current b of
        None \<Rightarrow> b
      | Some it \<Rightarrow>
          (let r = trade_record cfg now price reason it; capital = bk_capital b + bt_pnl r; peak = max (bk_peak b) capital
           in b\<lparr>bk_capital := capital, bk_equity := bk_equity b @ [(now, capital)], bk_peak := peak,
                bk_max_drawdown := max (bk_max_drawdown b) (peak - capital), bk_trades := bk_trades b @ [r], bk_current := None\<rparr>))"

section \<open>Entries\<close>

definition sized_quantity :: "backtest_config \<Rightarrow> backtest_signal \<Rightarrow> real \<Rightarrow> int" where
  "sized_quantity cfg sg capital =
     (if bc_use_engine cfg
      then position_size (calculate (bc_sizing cfg)
             \<lparr>in_capital = capital,
              in_risk_budget = BudgetDict \<lparr>bd_remaining_risk_amount = Some (capital * max 0 (bc_risk_budget_pct cfg)),
                bd_remaining_risk_pct = None, bd_daily_risk_budget_pct = Some (bc_risk_budget_pct cfg),
                bd_daily_risk_budget_amount = None, bd_legacy_size_multiplier = None\<rparr>,
              in_weighted_score = bs_weighted_score sg, in_confidence = of_int (bs_confidence sg),
              in_market_quality = QualityNumber (bs_market_quality sg), in_regime = bs_regime sg,
              in_volatility = VolDict (Some 14) None, in_recovery_mode = RecoveryDict False None,
              in_daily_loss_state = LossDict (Some 0), in_sl_points = bc_hard_sl cfg, in_lot_size = bc_lot_size cfg\<rparr>)
      else bc_lot_size cfg)"

text \<open>The dictionary of the open trade has no order id, symbol, strike or target of its own.\<close>

definition enter_trade :: "backtest_config \<Rightarrow> instant \<Rightarrow> real \<Rightarrow> option_type \<Rightarrow> backtest_signal \<Rightarrow> backtest \<Rightarrow> backtest" where
  "enter_trade cfg now price d sg b =
     (let n = sized_quantity cfg sg (bk_capital b)
      in if bc_use_engine cfg \<and> n \<le> 0 then b
         else b\<lparr>bk_trade_count := bk_trade_count b + 1, bk_daily_trades := bk_daily_trades b + 1,
                bk_current := Some (bk_trade_count b + 1,
                  filled_trade '''' (apply_slippage cfg price BUY) None now n BUY d '''' 0 (bc_hard_sl cfg) (bc_tp_points cfg)),
                bk_capital := bk_capital b - commission_per_side cfg\<rparr>)"

section \<open>The loop\<close>

definition new_day :: "instant \<Rightarrow> backtest \<Rightarrow> backtest" where
  "new_day now b = (if bk_date b = Some (date_of now) then b else b\<lparr>bk_date := Some (date_of now), bk_daily_trades := 0\<rparr>)"

type_synonym 's strategy = "'s \<Rightarrow> tick list \<Rightarrow> backtest_signal \<times> 's"

definition look_for_entry ::
  "backtest_config \<Rightarrow> 's strategy \<Rightarrow> instant \<Rightarrow> real \<Rightarrow> tick list \<Rightarrow> backtest \<times> 's \<Rightarrow> backtest \<times> 's" where
  "look_for_entry cfg strat now price history bs =
     (case bs of (b, s) \<Rightarrow>
        if bk_current b = None \<and> bk_daily_trades b < bc_max_trades_per_day cfg
        then (case strat s history of
                (sg, s') \<Rightarrow>
                  (case bs_direction sg of
                     Some d \<Rightarrow> (if bc_min_confidence cfg \<le> bs_confidence sg then enter_trade cfg now price d sg b else b, s')
                   | None \<Rightarrow> (b, s')))
        else (b, s))"

definition process_candle ::
  "backtest_config \<Rightarrow> greeks_validator \<Rightarrow> 's strategy \<Rightarrow> replay_candle \<Rightarrow> tick list \<Rightarrow> backtest \<times> 's \<Rightarrow> py_error + backtest \<times> 's" where
  "process_candle cfg validate strat c history bs =
     (case bs of (b0, s) \<Rightarrow>
        let now = rc_timestamp c; (price, b) = resolve_option_price c (new_day now b0); spot = candle_spot c price
        in case bk_current b of
             None \<Rightarrow> Inr (look_for_entry cfg strat now price history (b, s))
           | Some (i, t) \<Rightarrow>
               (case check_exit cfg validate now price spot history t of
                  (Inl e, _) \<Rightarrow> Inl e
                | (Inr (Some r), t') \<Rightarrow> Inr (exit_trade cfg now price (Some r) (b\<lparr>bk_current := Some (i, t')\<rparr>), s)
                | (Inr None, t') \<Rightarrow> Inr (look_for_entry cfg strat now price history (b\<lparr>bk_current := Some (i, t')\<rparr>, s))))"

text \<open>The tick made of a candle, with a book of a tenth of a percent.\<close>

definition candle_history_tick :: "replay_candle \<Rightarrow> real \<Rightarrow> tick" where
  "candle_history_tick c price =
     (let spot = or_value (Some (get_or (get_or 100 (rc_close c)) (rc_spot_price c))) (get_or 100 (rc_close c));
          volume = get_or 10000 (rc_volume c); spread = max (1/10) (price * (1/1000));
          b = max (5/100) (price - spread / 2); a = price + spread / 2
      in \<lparr>ltp = price, bid = b, ask = a, tick_timestamp = rc_timestamp c, original_timestamp = None, tick_symbol = '''',
          spot_price = spot, tick_volume = Some (if volume \<le> 0 then 10000 else volume), data_source = '''',
          tick_spread_pct = Some (if 0 < b then (a - b) / b * 100 else 99), tick_delta = None, tick_atr = None,
          tick_iv = None, tick_tte_sec = None\<rparr>)"

definition push_history :: "tick \<Rightarrow> tick list \<Rightarrow> tick list" where
  "push_history t history = last_n 120 (history @ [t])"

fun replay ::
  "backtest_config \<Rightarrow> greeks_validator \<Rightarrow> 's strategy \<Rightarrow> tick list \<Rightarrow> replay_candle list \<Rightarrow> backtest \<times> 's \<Rightarrow> py_error + backtest \<times> 's" where
  "replay cfg validate strat history [] bs = Inr bs"
| "replay cfg validate strat history (c # cs) bs =
     (let (price, b) = resolve_option_price c (fst bs); history = push_history (candle_history_tick c price) history
      in case process_candle cfg validate strat c history (b, snd bs) of
           Inl e \<Rightarrow> Inl e
         | Inr bs' \<Rightarrow> replay cfg validate strat history cs bs')"


section \<open>Results\<close>

record backtest_result =
  br_start_date :: "int option"
  br_end_date :: "int option"
  br_first_trade_date :: "int option"
  br_last_trade_date :: "int option"
  br_initial_capital :: real
  br_final_capital :: real
  br_total_pnl :: real
  br_total_trades :: nat
  br_winning_trades :: nat
  br_losing_trades :: nat
  br_win_rate :: real
  br_profit_factor :: real
  br_max_drawdown :: real
  br_max_drawdown_pct :: real
  br_avg_win :: real
  br_avg_loss :: real
  br_sharpe_ratio :: real
  br_expectancy :: real
  br_trades :: "backtest_trade list"

definition winning_trades :: "backtest_trade list \<Rightarrow> backtest_trade list" where
  "winning_trades ts = filter (\<lambda>t. 0 < bt_pnl t) ts"

definition losing_trades :: "backtest_trade list \<Rightarrow> backtest_trade list" where
  "losing_trades ts = filter (\<lambda>t. bt_pnl t \<le> 0) ts"

definition total_profit :: "backtest_trade list \<Rightarrow> real" where
  "total_profit ts = (\<Sum>t\<leftarrow>winning_trades ts. bt_pnl t)"

definition total_loss :: "backtest_trade list \<Rightarrow> real" where
  "total_loss ts = \<bar>\<Sum>t\<leftarrow>losing_trades ts. bt_pnl t\<bar>"

definition win_rate :: "backtest_trade list \<Rightarrow> real" where
  "win_rate ts = (if ts = [] then 0 else of_nat (length (winning_trades ts)) / of_nat (length ts) * 100)"

text \<open>An infinite factor is reported as 999.99.\<close>

definition profit_factor :: "backtest_trade list \<Rightarrow> real" where
  "profit_factor ts = (if 0 < total_loss ts then total_profit ts / total_loss ts else 99999/100)"

definition avg_win :: "backtest_trade list \<Rightarrow> real" where
  "avg_win ts = (if winning_trades ts = [] then 0 else total_profit ts / of_nat (length (winning_trades ts)))"

definition avg_loss :: "backtest_trade list \<Rightarrow> real" where
  "avg_loss ts = (if losing_trades ts = [] then 0 else total_loss ts / of_nat (length (losing_trades ts)))"

definition expectancy :: "backtest_trade list \<Rightarrow> real" where
  "expectancy ts = (if ts = [] then 0 else win_rate ts / 100 * avg_win ts - (100 - win_rate ts) / 100 * avg_loss ts)"

definition equity_returns :: "real list \<Rightarrow> real list" where
  "equity_returns es = map (\<lambda>(p, c). (c - p) / p) (filter (\<lambda>(p, c). 0 < p) (zip es (tl es)))"

definition sharpe_ratio :: "real list \<Rightarrow> real" where
  "sharpe_ratio es =
     (let rs = equity_returns es; n = length rs; avg = sum_list rs / of_nat n;
          sd = sqrt ((\<Sum>r\<leftarrow>rs. (r - avg)\<^sup>2) / (of_nat n - 1))
      in if n \<le> 1 then 0 else if 0 < sd then avg / sd * sqrt 252 else 0)"

definition calculate_results :: "backtest_config \<Rightarrow> replay_candle list \<Rightarrow> backtest \<Rightarrow> backtest_result" where
  "calculate_results cfg data b =
     (let ts = bk_trades b
      in \<lparr>br_start_date = (if data = [] then None else Some (date_of (rc_timestamp (hd data)))),
          br_end_date = (if data = [] then None else Some (date_of (rc_timestamp (last data)))),
          br_first_trade_date = (if ts = [] then None else Some (date_of (bt_entry_time (hd ts)))),
          br_last_trade_date = (if ts = [] then None else Some (date_of (bt_exit_time (last ts)))),
          br_initial_capital = bc_initial_capital cfg, br_final_capital = bk_capital b,
          br_total_pnl = bk_capital b - bc_initial_capital cfg, br_total_trades = length ts,
          br_winning_trades = length (winning_trades ts), br_losing_trades = length (losing_trades ts),
          br_win_rate = win_rate ts, br_profit_factor = profit_factor ts, br_max_drawdown = bk_max_drawdown b,
          br_max_drawdown_pct = (if 0 < bk_peak b then bk_max_drawdown b / bk_peak b * 100 else 0),
          br_avg_win = avg_win ts, br_avg_loss = avg_loss ts, br_sharpe_ratio = sharpe_ratio (map snd (bk_equity b)),
          br_expectancy = expectancy ts, br_trades = ts\<rparr>)"

text \<open>A position left at the end is closed at the price of the last candle, for the reason \<open>'END\_OF\_DATA'\<close>.\<close>

definition force_close :: "backtest_config \<Rightarrow> replay_candle \<Rightarrow> backtest \<Rightarrow> backtest" where
  "force_close cfg c b =
     (case bk_current b of
        None \<Rightarrow> b
      | Some _ \<Rightarrow> (case resolve_option_price c b of (price, b') \<Rightarrow> exit_trade cfg (rc_timestamp c) price None b'))"

definition run_backtest ::
  "backtest_config \<Rightarrow> greeks_validator \<Rightarrow> 's strategy \<Rightarrow> 's \<Rightarrow> replay_candle list \<Rightarrow> py_error + backtest_result \<times> backtest" where
  "run_backtest cfg validate strat s data =
     (if data = [] then Inr (calculate_results cfg [] (new_backtest cfg), new_backtest cfg)
      else case replay cfg validate strat [] data (new_backtest cfg, s) of
             Inl e \<Rightarrow> Inl e
           | Inr (b, _) \<Rightarrow> (let b' = force_close cfg (last data) b in Inr (calculate_results cfg data b', b')))"

section \<open>Invariants of a run\<close>

lemma check_exit_entry_part:
  assumes "check_exit cfg validate t p spot h u = (a, u')" shows "entry_part u' = entry_part u"
proof -
  have "entry_part (snd (check_exit_conditions x validate t u tk g d r)) = entry_part u" for x tk g d r
    using stop_part_eqD(4)[OF check_exit_stop_part] check_hard_sl_facts(4)[OF prod.collapse[symmetric] refl] by metis
  from this[of "bc_exit cfg"] show ?thesis using assms by (auto simp: check_exit_def split: sum.splits) (metis snd_conv)
qed

text \<open>
  What holds of the state at some time and survives the five ways a candle changes it holds at the end of a run.
\<close>

locale replay_invariant =
  fixes cfg :: backtest_config
    and follows :: "instant \<Rightarrow> instant \<Rightarrow> bool"
    and inv :: "instant \<Rightarrow> backtest \<Rightarrow> bool"
  assumes inv_day: "inv t b \<Longrightarrow> follows t t' \<Longrightarrow> inv t' (new_day t' b)"
    and inv_reference: "inv t b \<Longrightarrow> inv t (b\<lparr>bk_spot_reference := r\<rparr>)"
    and inv_hold: "inv t b \<Longrightarrow> bk_current b = Some (i, u) \<Longrightarrow> entry_part u' = entry_part u \<Longrightarrow> inv t (b\<lparr>bk_current := Some (i, u')\<rparr>)"
    and inv_exit: "inv t b \<Longrightarrow> inv t (exit_trade cfg t p reason b)"
    and inv_enter: "inv t b \<Longrightarrow> bk_date b = Some (date_of t) \<Longrightarrow> bk_current b = None \<Longrightarrow> bk_daily_trades b < bc_max_trades_per_day cfg
      \<Longrightarrow> inv t (enter_trade cfg t p d sg b)"
begin

lemma resolve_keeps:
  assumes "resolve_option_price c b = (p, b')"
  shows "inv t b \<Longrightarrow> inv t b'" "bk_date b' = bk_date b"
  using assms by (auto simp: resolve_option_price_def Let_def inv_reference split: option.splits if_splits)

lemma look_keeps:
  assumes "inv t b" "bk_date b = Some (date_of t)"
  shows "inv t (fst (look_for_entry cfg strat t p h (b, s)))"
  using assms by (auto simp: look_for_entry_def split: prod.splits option.splits intro: inv_enter)

lemma process_keeps:
  assumes b: "inv t b" and f: "follows t (rc_timestamp c)" and run: "process_candle cfg validate strat c h (b, s) = Inr bs"
  shows "inv (rc_timestamp c) (fst bs)"
proof -
  let ?t = "rc_timestamp c"
  obtain p b' where rs: "resolve_option_price c (new_day ?t b) = (p, b')" by (metis surj_pair)
  have b': "inv ?t b'" "bk_date b' = Some (date_of ?t)"
    using resolve_keeps[OF rs] inv_day[OF b f] by (auto simp: new_day_def)
  show ?thesis
  proof (cases "bk_current b'")
    case None
    then show ?thesis using run look_keeps[OF b'] by (auto simp: process_candle_def rs Let_def)
  next
    case (Some iu)
    obtain i u where iu: "iu = (i, u)" by (cases iu)
    obtain a u' where ce: "check_exit cfg validate ?t p (candle_spot c p) h u = (a, u')" by (metis surj_pair)
    have hold: "inv ?t (b'\<lparr>bk_current := Some (i, u')\<rparr>)"
      using inv_hold[OF b'(1) Some[unfolded iu]] check_exit_entry_part[OF ce] by simp
    then show ?thesis
      using run look_keeps[OF hold] b'(2) by (auto simp: process_candle_def rs Let_def Some iu ce inv_exit split: sum.splits option.splits)
  qed
qed

lemma replay_keeps:
  "inv t b \<Longrightarrow> successively follows (t # map rc_timestamp cs) \<Longrightarrow> replay cfg validate strat h cs (b, s) = Inr bs
    \<Longrightarrow> inv (last (t # map rc_timestamp cs)) (fst bs)"
proof (induction cs arbitrary: t b s h)
  case (Cons c cs)
  obtain p b' where rs: "resolve_option_price c b = (p, b')" by (metis surj_pair)
  obtain b'' s'' where pc: "process_candle cfg validate strat c (push_history (candle_history_tick c p) h) (b', s) = Inr (b'', s'')"
    and rest: "replay cfg validate strat (push_history (candle_history_tick c p) h) cs (b'', s'') = Inr bs"
    using Cons.prems(3) by (auto simp: rs Let_def split: sum.splits)
  have "inv (rc_timestamp c) b''"
    using process_keeps[OF resolve_keeps(1)[OF rs Cons.prems(1)] _ pc] Cons.prems(2) by simp
  from Cons.IH[OF this _ rest] Cons.prems(2) show ?case by simp
qed auto

lemma run_keeps:
  assumes run: "run_backtest cfg validate strat s data = Inr (res, b)" and data: "data \<noteq> []"
    and start: "inv (rc_timestamp (hd data)) (new_backtest cfg)"
    and refl: "\<And>t. follows t t" and order: "successively follows (map rc_timestamp data)"
  shows "inv (rc_timestamp (last data)) b"
proof -
  obtain b1 s1 where rep: "replay cfg validate strat [] data (new_backtest cfg, s) = Inr (b1, s1)"
    and b: "b = force_close cfg (last data) b1"
    using run data by (auto simp: run_backtest_def Let_def split: sum.splits)
  have "successively follows (rc_timestamp (hd data) # map rc_timestamp data)"
    using order refl data by (cases data) auto
  from replay_keeps[OF start this rep] data have inv1: "inv (rc_timestamp (last data)) b1" by (simp add: last_map)
  then show ?thesis
    using resolve_keeps(1)[of "last data" b1] by (auto simp: b force_close_def inv_exit split: option.splits prod.splits)
qed

end


section \<open>The accounts of a run\<close>

definition accounts_ok :: "backtest_config \<Rightarrow> backtest \<Rightarrow> bool" where
  "accounts_ok cfg b \<longleftrightarrow>
     bk_trade_count b = length (bk_trades b) + (if bk_current b = None then 0 else 1) \<and>
     bk_capital b = bc_initial_capital cfg + (\<Sum>t\<leftarrow>bk_trades b. bt_pnl t) - commission_per_side cfg * of_nat (bk_trade_count b)"

interpretation accounts: replay_invariant cfg "\<lambda>_ _. True" "\<lambda>_. accounts_ok cfg" for cfg
  by unfold_locales (auto simp: accounts_ok_def new_day_def exit_trade_def enter_trade_def Let_def algebra_simps split: option.splits)

lemma successively_True: "successively (\<lambda>_ _. True) xs"
  by (induction xs rule: induct_list012) auto

lemma new_accounts: "accounts_ok cfg (new_backtest cfg)"
  by (simp add: accounts_ok_def new_backtest_def)

lemma exit_flat: "bk_current (exit_trade cfg t p r b) = None"
  by (simp add: exit_trade_def Let_def split: option.splits)

lemma run_result:
  assumes "run_backtest cfg validate strat s data = Inr (res, b)"
  shows "res = calculate_results cfg data b" "bk_current b = None"
  using assms
  by (auto simp: run_backtest_def Let_def new_backtest_def force_close_def exit_flat split: if_splits sum.splits option.splits prod.splits)

lemma run_accounts:
  assumes "run_backtest cfg validate strat s data = Inr (res, b)"
  shows "accounts_ok cfg b"
  using accounts.run_keeps[OF assms _ new_accounts _ successively_True] assms
  by (cases "data = []") (auto simp: run_backtest_def new_accounts)

lemma split_sum: "(\<Sum>t\<leftarrow>filter P ts. f t) + (\<Sum>t\<leftarrow>filter (\<lambda>t. \<not> P t) ts. f t) = (\<Sum>t\<leftarrow>ts. (f t :: real))"
  by (induction ts) auto

lemma split_count: "length (filter P ts) + length (filter (\<lambda>t. \<not> P t) ts) = length ts"
  by (induction ts) auto

lemma losing_not_winning: "losing_trades ts = filter (\<lambda>t. \<not> 0 < bt_pnl t) ts"
  by (simp add: losing_trades_def not_less)

lemma profit_minus_loss: "total_profit ts - total_loss ts = (\<Sum>t\<leftarrow>ts. bt_pnl t)"
proof -
  have "(\<Sum>t\<leftarrow>losing_trades ts. bt_pnl t) \<le> 0"
    by (intro sum_list_nonpos) (auto simp: losing_trades_def)
  then show ?thesis
    using split_sum[of bt_pnl "\<lambda>t. 0 < bt_pnl t" ts]
    by (simp add: total_profit_def total_loss_def losing_not_winning winning_trades_def)
qed

text \<open>The weighted averages collapse to the mean of the trade results.\<close>

lemma expectancy_mean:
  assumes "ts \<noteq> []" shows "expectancy ts = (\<Sum>t\<leftarrow>ts. bt_pnl t) / of_nat (length ts)"
proof -
  let ?n = "real (length ts)" and ?w = "real (length (winning_trades ts))" and ?l = "real (length (losing_trades ts))"
  have n: "?n = ?w + ?l" and pos: "0 < ?n"
    using split_count[of "\<lambda>t. 0 < bt_pnl t" ts] assms by (simp_all add: losing_not_winning winning_trades_def flip: of_nat_add)
  have won: "?w * avg_win ts = total_profit ts" by (simp add: avg_win_def total_profit_def)
  have lost: "?l * avg_loss ts = total_loss ts" by (simp add: avg_loss_def total_loss_def)
  have rest: "(100 - win_rate ts) / 100 = ?l / ?n"
    using pos assms n by (simp add: win_rate_def field_simps)
  have "expectancy ts = (?w * avg_win ts - ?l * avg_loss ts) / ?n"
    using assms rest by (simp add: expectancy_def win_rate_def diff_divide_distrib)
  then show ?thesis by (simp add: won lost profit_minus_loss)
qed

text \<open>C27: The reported expectancy and the trade results leave out the half of the costs charged at entry: the account of a
  completed run is the sum of the results less that half for each trade, and the expectancy exceeds what a trade earned
  the account by it.\<close>

theorem expectancy_omits_entry_cost:
  assumes "run_backtest cfg validate strat s data = Inr (res, b)"
  shows "br_total_pnl res = (\<Sum>t\<leftarrow>br_trades res. bt_pnl t) - commission_per_side cfg * of_nat (br_total_trades res) \<and>
    (0 < br_total_trades res \<longrightarrow>
       br_expectancy res = br_total_pnl res / of_nat (br_total_trades res) + commission_per_side cfg)"
proof -
  have sum: "bk_capital b - bc_initial_capital cfg = (\<Sum>t\<leftarrow>bk_trades b. bt_pnl t) - commission_per_side cfg * of_nat (length (bk_trades b))"
    using run_accounts[OF assms] run_result(2)[OF assms] by (simp add: accounts_ok_def)
  have "expectancy (bk_trades b) = (bk_capital b - bc_initial_capital cfg) / of_nat (length (bk_trades b)) + commission_per_side cfg"
    if "bk_trades b \<noteq> []"
    using that by (simp add: expectancy_mean sum diff_divide_distrib)
  then show ?thesis unfolding run_result(1)[OF assms] by (simp add: calculate_results_def Let_def sum)
qed

definition replay_sample_config :: backtest_config where
  "replay_sample_config = default_backtest_config\<lparr>bc_exit := default_exit_config\<lparr>EXIT_ONLY_SL_TP_TRAILING := True\<rparr>\<rparr>"

definition option_candle :: "instant \<Rightarrow> real \<Rightarrow> replay_candle" where
  "option_candle t p = \<lparr>rc_timestamp = t, rc_close = Some 25000, rc_ltp = None, rc_option_ltp = Some p, rc_spot_price = None, rc_volume = None\<rparr>"

definition always_call :: "unit strategy" where
  "always_call s ticks = (\<lparr>bs_direction = Some CE, bs_confidence = 80, bs_weighted_score = 80, bs_market_quality = 80, bs_regime = ''TRENDING''\<rparr>, s)"

definition replay_sample :: "replay_candle list" where
  "replay_sample = [option_candle (36000000000) 100, option_candle (36060000000) (1011/10)]"


lemma rsi_short: "length ticks < 15 \<Longrightarrow> calculate_rsi 14 ticks = Inr 50"
  using rsi_total_and_bounded[of ticks] by auto

text \<open>A fresh trade that gained less than a point is held while only the stop and the close of the market end trades.\<close>

lemma small_gain_held:
  assumes fresh: "highest_sl t = None" "max_profit_points t = None"
    and gain: "points_gained t (ltp tk) = 3/4" and hour: "hour_of now \<noteq> 15"
  shows "fst (check_exit_conditions (default_exit_config\<lparr>EXIT_ONLY_SL_TP_TRAILING := True\<rparr>) v now t tk g day rsi) = Inr None"
proof -
  let ?cfg = "default_exit_config\<lparr>EXIT_ONLY_SL_TP_TRAILING := True\<rparr>"
  define m where "m = mark_to_market t (3/4)"
  have m: "highest_sl m = None" "max_profit_points m = None"
    using fresh by (simp_all add: m_def mark_to_market_def Let_def)
  have "step_ladder (effective_levels ?cfg) (3/4) (- 7) = - 7"
    by (simp add: step_ladder_def effective_levels_def default_exit_config_def)
  then obtain u where "get_step_trailing_sl ?cfg m (3/4) = ((- 7, HardSL), u)"
    using m by (auto simp: get_step_trailing_sl_def default_exit_config_def Let_def get_or_def)
  then obtain w where "check_hard_sl ?cfg t tk = (None, w)"
    by (simp add: check_hard_sl_def gain Let_def flip: m_def) (simp add: default_exit_config_def)
  then show ?thesis
    using hour by (simp add: check_exit_conditions_def or_else_def time_exit_15min_def Let_def)
qed


lemma sample_enters:
  "process_candle replay_sample_config v always_call (option_candle (36000000000) 100) h (new_backtest replay_sample_config, ()) =
     Inr ((new_backtest replay_sample_config)\<lparr>bk_date := Some 0, bk_trade_count := 1, bk_daily_trades := 1, bk_capital := 29980,
       bk_current := Some (1, filled_trade '''' (2007/20) None (36000000000) 65 BUY CE '''' 0 7 14)\<rparr>, ())"
  by (simp add: process_candle_def option_candle_def resolve_option_price_def new_day_def new_backtest_def look_for_entry_def always_call_def
      enter_trade_def sized_quantity_def replay_sample_config_def default_backtest_config_def date_of_def apply_slippage_def slip_def
      commission_per_side_def Let_def)

lemma sample_trades:
  "\<exists>res b. run_backtest replay_sample_config v always_call () replay_sample = Inr (res, b) \<and> map bt_pnl (bk_trades b) = [59285/10000]"
proof -
  let ?t = "filled_trade '''' (2007/20) None (36000000000) 65 BUY CE '''' 0 7 14" and ?now = "36060000000"
  define c where "c = option_candle ?now (1011/10)"
  have c: "rc_timestamp c = ?now" "resolve_option_price c x = (1011/10, x)" for x
    by (simp_all add: c_def option_candle_def resolve_option_price_def)
  define h where "h = push_history (candle_history_tick c (1011/10)) (push_history (candle_history_tick (option_candle (36000000000) 100) 100) [])"
  have len: "length h < 15" by (simp add: h_def push_history_def last_n_def)
  define b where "b = (new_backtest replay_sample_config)\<lparr>bk_date := Some 0, bk_trade_count := 1, bk_daily_trades := 1, bk_capital := 29980,
       bk_current := Some (1, ?t)\<rparr>"
  have rs: "resolve_option_price (option_candle t p) x = (max 5 p, x)" for t p x
    by (simp add: resolve_option_price_def option_candle_def)
  obtain u where ce: "check_exit replay_sample_config v ?now (1011/10) (candle_spot c (1011/10)) h ?t = (Inr None, u)"
  proof -
    have "fst (check_exit replay_sample_config v ?now (1011/10) (candle_spot c (1011/10)) h ?t) = Inr None"
      by (simp add: check_exit_def rsi_short[OF len] replay_sample_config_def default_backtest_config_def small_gain_held
          filled_trade_def points_gained_def exit_tick_def hour_of_def Let_def)
    then show thesis using that by (metis prod.collapse)
  qed
  note u = check_exit_entry_part[OF ce]
  have "process_candle replay_sample_config v always_call c h (b, ()) = Inr (b\<lparr>bk_current := Some (1, u)\<rparr>, ())"
    using ce by (simp add: process_candle_def c Let_def new_day_def b_def look_for_entry_def date_of_def)
  then have "replay replay_sample_config v always_call [] replay_sample (new_backtest replay_sample_config, ()) = Inr (b\<lparr>bk_current := Some (1, u)\<rparr>, ())"
    by (simp add: replay_sample_def rs c Let_def sample_enters del: One_nat_def flip: h_def b_def c_def)
  then show ?thesis
    using u by (simp add: run_backtest_def Let_def force_close_def replay_sample_def option_candle_def resolve_option_price_def exit_trade_def trade_record_def entry_part_def
        filled_trade_def apply_slippage_def slip_def commission_per_side_def replay_sample_config_def default_backtest_config_def
        b_def new_backtest_def)
qed

theorem expectancy_omits_entry_cost_witness:
  "\<exists>res b. run_backtest replay_sample_config (\<lambda>_. None) always_call () replay_sample = Inr (res, b)
     \<and> br_total_trades res = 1 \<and> 0 < br_expectancy res \<and> br_total_pnl res < 0"
proof -
  obtain res b where run: "run_backtest replay_sample_config (\<lambda>_. None) always_call () replay_sample = Inr (res, b)"
    and ts: "map bt_pnl (bk_trades b) = [59285/10000]" using sample_trades[of "\<lambda>_. None"] by (elim exE conjE) (rule that)
  have res: "br_trades res = bk_trades b" "br_total_trades res = 1"
    using ts by (auto simp: run_result(1)[OF run] calculate_results_def Let_def)
  have "commission_per_side replay_sample_config = 20"
    by (simp add: commission_per_side_def replay_sample_config_def default_backtest_config_def)
  with expectancy_omits_entry_cost[OF run] ts run res show ?thesis by simp
qed


section \<open>The limit of a day\<close>

definition entered :: "backtest \<Rightarrow> instant list" where
  "entered b = map bt_entry_time (bk_trades b) @ (case bk_current b of None \<Rightarrow> [] | Some (_, u) \<Rightarrow> [entry_time u])"

definition entered_on :: "int \<Rightarrow> backtest \<Rightarrow> nat" where
  "entered_on d b = length (filter (\<lambda>t. date_of t = d) (entered b))"

definition day_ok :: "backtest_config \<Rightarrow> instant \<Rightarrow> backtest \<Rightarrow> bool" where
  "day_ok cfg now b \<longleftrightarrow>
     (\<forall>d. entered_on d b \<le> bc_max_trades_per_day cfg) \<and> (\<forall>t\<in>set (entered b). date_of t \<le> date_of now) \<and>
     (case bk_date b of None \<Rightarrow> entered b = [] | Some d \<Rightarrow> d = date_of now \<and> bk_daily_trades b = entered_on d b)"

lemma date_of_mono: "t \<le> t' \<Longrightarrow> date_of t \<le> date_of t'"
  by (simp add: date_of_def zdiv_mono1)

lemma entered_simps [simp]:
  "entered (b\<lparr>bk_spot_reference := r\<rparr>) = entered b" "entered (b\<lparr>bk_daily_trades := n\<rparr>) = entered b" "entered (b\<lparr>bk_date := x\<rparr>) = entered b"
  "entered (exit_trade cfg t p reason b) = entered b"
  by (auto simp: entered_def exit_trade_def trade_record_def Let_def split: option.splits)

lemma entered_on_cong: "entered b' = entered b \<Longrightarrow> entered_on d b' = entered_on d b"
  by (simp add: entered_on_def)

lemma exit_day [simp]: "bk_date (exit_trade cfg t p reason b) = bk_date b" "bk_daily_trades (exit_trade cfg t p reason b) = bk_daily_trades b"
  by (simp_all add: exit_trade_def Let_def split: option.splits)

lemma day_ok_cong:
  "day_ok cfg t b \<Longrightarrow> entered b' = entered b \<Longrightarrow> bk_date b' = bk_date b \<Longrightarrow> bk_daily_trades b' = bk_daily_trades b \<Longrightarrow> day_ok cfg t b'"
  by (simp add: day_ok_def entered_on_cong[of b' b] split: option.splits)

lemma entered_hold: "bk_current b = Some (i, u) \<Longrightarrow> entry_part u' = entry_part u \<Longrightarrow> entered (b\<lparr>bk_current := Some (i, u')\<rparr>) = entered b"
  by (simp add: entered_def entry_part_def)

lemma entered_enter:
  "bk_current b = None \<Longrightarrow> enter_trade cfg t p d sg b = b \<or>
     entered (enter_trade cfg t p d sg b) = entered b @ [t] \<and>
     bk_daily_trades (enter_trade cfg t p d sg b) = bk_daily_trades b + 1 \<and> bk_date (enter_trade cfg t p d sg b) = bk_date b"
  by (simp add: entered_def enter_trade_def Let_def filled_trade_def)

lemma day_ok_new_day:
  assumes ok: "day_ok cfg t b" and le: "t \<le> t'" shows "day_ok cfg t' (new_day t' b)"
proof (cases "bk_date b = Some (date_of t')")
  case True
  with ok show ?thesis by (auto simp: day_ok_def new_day_def)
next
  case False
  have before: "date_of x < date_of t'" if "x \<in> set (entered b)" for x
    using ok that False date_of_mono[OF le] by (fastforce simp: day_ok_def split: option.splits)
  then have "entered_on (date_of t') b = 0" by (force simp: entered_on_def filter_empty_conv)
  with ok before False show ?thesis
    by (auto simp: day_ok_def entered_on_def new_day_def less_imp_le split: option.splits)
qed

lemma day_ok_enter:
  assumes ok: "day_ok cfg t b" and date: "bk_date b = Some (date_of t)" and cur: "bk_current b = None"
    and room: "bk_daily_trades b < bc_max_trades_per_day cfg"
  shows "day_ok cfg t (enter_trade cfg t p d sg b)"
proof -
  consider "enter_trade cfg t p d sg b = b"
    | "entered (enter_trade cfg t p d sg b) = entered b @ [t]"
      "bk_daily_trades (enter_trade cfg t p d sg b) = bk_daily_trades b + 1" "bk_date (enter_trade cfg t p d sg b) = bk_date b"
    using entered_enter[OF cur] by blast
  then show ?thesis
  proof cases
    case 2
    with ok date room show ?thesis by (auto simp: day_ok_def entered_on_def)
  qed (simp add: ok)
qed

interpretation daily: replay_invariant cfg "(\<le>)" "day_ok cfg" for cfg
  by unfold_locales
    (auto intro: day_ok_new_day day_ok_enter day_ok_cong[of _ _ b "b\<lparr>bk_spot_reference := r\<rparr>" for b r]
      day_ok_cong[of _ _ b "exit_trade cfg t p reason b" for t p reason b] day_ok_cong[of _ _ b "b\<lparr>bk_current := c\<rparr>" for b c] simp: entered_hold)

text \<open>On candles in the order of time a run enters at most the configured number of trades on any one date.\<close>

theorem entries_per_day_bounded:
  assumes run: "run_backtest cfg validate strat s data = Inr (res, b)" and sorted: "sorted (map rc_timestamp data)"
  shows "length (filter (\<lambda>t. date_of (bt_entry_time t) = d) (br_trades res)) \<le> bc_max_trades_per_day cfg"
proof (cases "data = []")
  case True
  then show ?thesis using run by (auto simp: run_backtest_def calculate_results_def new_backtest_def)
next
  case False
  have "day_ok cfg (rc_timestamp (hd data)) (new_backtest cfg)"
    by (simp add: day_ok_def entered_on_def entered_def new_backtest_def)
  moreover have "successively (\<le>) (map rc_timestamp data)"
    using sorted by (simp add: successively_if_sorted_wrt)
  ultimately have "day_ok cfg (rc_timestamp (last data)) b"
    using daily.run_keeps[OF run False] by simp
  then have "entered_on d b \<le> bc_max_trades_per_day cfg" by (simp add: day_ok_def)
  then show ?thesis
    by (simp add: run_result(1)[OF run] calculate_results_def Let_def entered_on_def entered_def filter_map comp_def)
qed

theorem entries_per_day_bounded_witness:
  "\<exists>res b. run_backtest replay_sample_config (\<lambda>_. None) always_call () replay_sample = Inr (res, b)
     \<and> length (filter (\<lambda>t. date_of (bt_entry_time t) = 0) (br_trades res)) \<le> 15"
proof -
  obtain res b where run: "run_backtest replay_sample_config (\<lambda>_. None) always_call () replay_sample = Inr (res, b)"
    using sample_trades[of "\<lambda>_. None"] by (elim exE conjE) (rule that)
  have "sorted (map rc_timestamp replay_sample)" "bc_max_trades_per_day replay_sample_config = 15"
    by (simp_all add: replay_sample_def option_candle_def replay_sample_config_def default_backtest_config_def)
  with entries_per_day_bounded[OF run, of 0] run show ?thesis by auto
qed


section \<open>The drawdown\<close>

text \<open>\<open>d\<close> is the greatest fall from an earlier to a later value.\<close>

definition greatest_fall :: "real list \<Rightarrow> real \<Rightarrow> bool" where
  "greatest_fall xs d \<longleftrightarrow>
     (\<forall>i j. i \<le> j \<and> j < length xs \<longrightarrow> xs ! i - xs ! j \<le> d) \<and> (\<exists>i j. i \<le> j \<and> j < length xs \<and> xs ! i - xs ! j = d)"

definition equity_values :: "backtest_config \<Rightarrow> backtest \<Rightarrow> real list" where
  "equity_values cfg b = bc_initial_capital cfg # map snd (bk_equity b)"

definition fall_ok :: "backtest_config \<Rightarrow> backtest \<Rightarrow> bool" where
  "fall_ok cfg b \<longleftrightarrow>
     bk_peak b \<in> set (equity_values cfg b) \<and> (\<forall>x\<in>set (equity_values cfg b). x \<le> bk_peak b) \<and> greatest_fall (equity_values cfg b) (bk_max_drawdown b)"

lemma greatest_fall_snoc:
  assumes fall: "greatest_fall xs d" and peak: "p \<in> set xs" "\<forall>x\<in>set xs. x \<le> p"
  shows "greatest_fall (xs @ [c]) (max d (max p c - c))"
proof -
  have "(xs @ [c]) ! i - (xs @ [c]) ! j \<le> max d (max p c - c)" if "i \<le> j" "j < length (xs @ [c])" for i j
  proof (cases "j < length xs")
    case True
    then show ?thesis using fall that by (simp add: greatest_fall_def nth_append le_max_iff_disj)
  next
    case False
    then have j: "j = length xs" using that by simp
    have "(xs @ [c]) ! i \<le> max p c"
      using peak(2) by (cases "i < length xs") (use that j in \<open>auto simp: nth_append le_max_iff_disj\<close>)
    then show ?thesis by (simp add: j le_max_iff_disj)
  qed
  moreover have "\<exists>i j. i \<le> j \<and> j < length (xs @ [c]) \<and> (xs @ [c]) ! i - (xs @ [c]) ! j = max d (max p c - c)"
  proof (cases "d \<le> max p c - c")
    case True
    obtain i where i: "i < length xs" "xs ! i = p" using peak(1) by (auto simp: in_set_conv_nth)
    have "(xs @ [c]) ! (if c \<le> p then i else length xs) - (xs @ [c]) ! length xs = max d (max p c - c)"
      using True i by (simp add: nth_append)
    then show ?thesis using i(1) by (intro exI[of _ "if c \<le> p then i else length xs"] exI[of _ "length xs"]) simp
  next
    case False
    obtain i j where "i \<le> j" "j < length xs" "xs ! i - xs ! j = d" using fall by (auto simp: greatest_fall_def)
    then show ?thesis using False by (intro exI[of _ i] exI[of _ j]) (simp add: nth_append)
  qed
  ultimately show ?thesis by (simp add: greatest_fall_def)
qed

lemma exit_fall:
  assumes "fall_ok cfg b" shows "fall_ok cfg (exit_trade cfg t p reason b)"
proof (cases "bk_current b")
  case (Some it)
  define c where "c = bk_capital b + bt_pnl (trade_record cfg t p reason it)"
  have eq: "equity_values cfg (exit_trade cfg t p reason b) = equity_values cfg b @ [c]"
    "bk_peak (exit_trade cfg t p reason b) = max (bk_peak b) c"
    "bk_max_drawdown (exit_trade cfg t p reason b) = max (bk_max_drawdown b) (max (bk_peak b) c - c)"
    by (simp_all add: exit_trade_def Some equity_values_def c_def Let_def)
  show ?thesis
    using assms greatest_fall_snoc[of "equity_values cfg b" "bk_max_drawdown b" "bk_peak b" c]
    by (auto simp: fall_ok_def eq max_def)
qed (simp add: exit_trade_def assms)

lemma fall_ok_cong:
  "fall_ok cfg b \<Longrightarrow> bk_equity b' = bk_equity b \<Longrightarrow> bk_peak b' = bk_peak b \<Longrightarrow> bk_max_drawdown b' = bk_max_drawdown b \<Longrightarrow> fall_ok cfg b'"
  by (simp add: fall_ok_def equity_values_def)

interpretation falls: replay_invariant cfg "\<lambda>_ _. True" "\<lambda>_. fall_ok cfg" for cfg
  by unfold_locales (erule exit_fall | (erule fall_ok_cong; simp add: new_day_def enter_trade_def Let_def))+

text \<open>The running peak computes what it should: the drawdown reported by a run is the greatest fall of the equity, from
  the initial capital on, between any earlier and any later point.  The percentage relates it to the highest equity of the
  whole run, not to the equity at which that fall began.\<close>

theorem drawdown_is_greatest_fall:
  assumes run: "run_backtest cfg validate strat s data = Inr (res, b)"
  shows "greatest_fall (equity_values cfg b) (br_max_drawdown res) \<and>
    (0 < bc_initial_capital cfg \<longrightarrow>
      br_max_drawdown_pct res = br_max_drawdown res / Max (set (equity_values cfg b)) * 100)"
proof -
  have new: "fall_ok cfg (new_backtest cfg)"
    by (auto simp: fall_ok_def equity_values_def new_backtest_def greatest_fall_def)
  have "fall_ok cfg b"
    using falls.run_keeps[OF run _ new _ successively_True] run new by (cases "data = []") (auto simp: run_backtest_def)
  then have ok: "bk_peak b = Max (set (equity_values cfg b))" "bc_initial_capital cfg \<le> bk_peak b"
    "greatest_fall (equity_values cfg b) (bk_max_drawdown b)"
    by (auto simp: fall_ok_def equity_values_def intro!: Max_eqI[symmetric])
  then show ?thesis by (auto simp: run_result(1)[OF run] calculate_results_def Let_def)
qed

theorem drawdown_is_greatest_fall_witness:
  "\<exists>res b. run_backtest replay_sample_config (\<lambda>_. None) always_call () replay_sample = Inr (res, b)
     \<and> greatest_fall (equity_values replay_sample_config b) (br_max_drawdown res)"
proof -
  obtain res b where run: "run_backtest replay_sample_config (\<lambda>_. None) always_call () replay_sample = Inr (res, b)"
    using sample_trades[of "\<lambda>_. None"] by (elim exE conjE) (rule that)
  with drawdown_is_greatest_fall[OF run] show ?thesis by blast
qed

section \<open>A run returns\<close>

definition positive_candle :: "replay_candle \<Rightarrow> bool" where
  "positive_candle c \<longleftrightarrow> 0 \<le> get_or 0 (rc_spot_price c) \<and> 0 \<le> get_or 0 (rc_close c)"

lemma build_greeks_complete: "0 < spot \<Longrightarrow> complete_greeks (build_greeks cfg spot d)"
  by (simp add: build_greeks_def complete_greeks_def Let_def)

lemma or_else_total: "(\<And>t. \<exists>r t'. k t = (Inr r, t')) \<Longrightarrow> \<exists>r t'. or_else cfg m k = (Inr r, t')"
  by (cases m) (auto simp: or_else_def split: option.splits)

lemma rsi_and_time_total: "\<exists>r t'. rsi_and_time_exits cfg now rsi t = (Inr r, t')"
  unfolding rsi_and_time_exits_def by (auto split: option.splits intro!: or_else_total)

lemma check_exit_conditions_total:
  assumes "complete_greeks g" shows "\<exists>r t'. check_exit_conditions cfg v now t tk g day rsi = (Inr r, t')"
proof -
  have "\<exists>r. greek_exit cfg (validated_greeks_for_exit v g tk u) day = Inr r" for u
    using assms by (intro greek_exit_complete validated_complete)
  then show ?thesis
    unfolding check_exit_conditions_def
    by (auto intro!: or_else_total rsi_and_time_total split: sum.splits) (metis Inl_Inr_False)
qed

lemma candle_spot_pos: "positive_candle c \<Longrightarrow> 0 < p \<Longrightarrow> 0 < candle_spot c p"
  by (auto simp: positive_candle_def candle_spot_def or_value_def get_or_def split: option.splits if_splits)

lemma resolve_at_least: "resolve_option_price c b = (p, b') \<Longrightarrow> 5 \<le> p"
  by (auto simp: resolve_option_price_def Let_def split: option.splits if_splits)

lemma process_total:
  assumes "positive_candle c" shows "\<exists>bs. process_candle cfg validate strat c h (b, s) = Inr bs"
proof -
  obtain p b' where rs: "resolve_option_price c (new_day (rc_timestamp c) b) = (p, b')" by (metis surj_pair)
  have "0 < candle_spot c p" using candle_spot_pos[OF assms] resolve_at_least[OF rs] by simp
  then have "\<exists>r t'. check_exit cfg validate now p (candle_spot c p) h t = (Inr r, t')" for now t
    using rsi_total_and_bounded[of h] check_exit_conditions_total[OF build_greeks_complete] by (auto simp: check_exit_def)
  then have total: "\<exists>r t'. check_exit cfg validate (rc_timestamp c) p (candle_spot c p) h t = (Inr r, t')" for t by blast
  show ?thesis
  proof (cases "bk_current b'")
    case (Some it)
    obtain r t' where "check_exit cfg validate (rc_timestamp c) p (candle_spot c p) h (snd it) = (Inr r, t')" using total by blast
    then show ?thesis using Some by (cases it) (simp add: process_candle_def rs Let_def split: option.splits)
  qed (simp add: process_candle_def rs Let_def)
qed

lemma replay_total:
  "list_all positive_candle cs \<Longrightarrow> \<exists>bs. replay cfg validate strat h cs (b, s) = Inr bs"
proof (induction cs arbitrary: h b s)
  case (Cons c cs)
  obtain p b' where rs: "resolve_option_price c b = (p, b')" by (metis surj_pair)
  obtain b'' s'' where "process_candle cfg validate strat c (push_history (candle_history_tick c p) h) (b', s) = Inr (b'', s'')"
    using process_total[of c cfg validate strat "push_history (candle_history_tick c p) h" b' s] Cons.prems by auto
  with Cons show ?case by (simp add: rs Let_def)
qed simp

text \<open>No data makes a run fail whose prices, where recorded, are not negative: whatever the strategy, the broker's check of
  the greeks and the configuration, a result comes out, with every position closed.\<close>

theorem run_backtest_returns:
  assumes "list_all positive_candle data"
  shows "\<exists>res b. run_backtest cfg validate strat s data = Inr (res, b) \<and> bk_current b = None
    \<and> br_total_trades res = bk_trade_count b"
proof -
  obtain bs where "replay cfg validate strat [] data (new_backtest cfg, s) = Inr bs"
    using replay_total[OF assms, of cfg validate strat "[]" "new_backtest cfg" s] by blast
  then have "\<exists>res b. run_backtest cfg validate strat s data = Inr (res, b)"
    by (cases bs) (simp add: run_backtest_def Let_def)
  then obtain res b where run: "run_backtest cfg validate strat s data = Inr (res, b)" by blast
  with run_result[OF run] run_accounts[OF run] show ?thesis
    by (auto simp: calculate_results_def Let_def accounts_ok_def)
qed

theorem run_backtest_returns_witness:
  "\<exists>res b. run_backtest default_backtest_config (\<lambda>_. None) always_call () replay_sample = Inr (res, b) \<and> bk_current b = None"
proof -
  have "list_all positive_candle replay_sample"
    by (simp add: replay_sample_def positive_candle_def option_candle_def get_or_def)
  from run_backtest_returns[OF this] show ?thesis by fast
qed

section \<open>Puts on spot data\<close>

text \<open>A candle of an index file: a spot price and nothing of the option.\<close>

definition spot_candle :: "instant \<Rightarrow> real \<Rightarrow> replay_candle" where
  "spot_candle t p = \<lparr>rc_timestamp = t, rc_close = Some p, rc_ltp = None, rc_option_ltp = None, rc_spot_price = Some p, rc_volume = None\<rparr>"

lemma spot_price_proxy:
  assumes "bk_spot_reference b = Some ref" "1500 < p" "ref - 2000 \<le> p" "p \<le> ref + 4000"
  shows "resolve_option_price (spot_candle t p) b = (180 + (p - ref) * (8/100), b)"
  using assms
  by (simp add: resolve_option_price_def spot_candle_def close_price_def or_value_def get_or_def OPTION_REFERENCE_PRICE_def
      SPOT_TO_OPTION_DELTA_def Let_def max_def min_def field_simps)

definition proxy_premium :: "real \<Rightarrow> real \<Rightarrow> real" where
  "proxy_premium ref p = OPTION_REFERENCE_PRICE + (p - ref) * SPOT_TO_OPTION_DELTA"

text \<open>A position of direction \<open>d\<close> entered at one spot candle and left at another.\<close>

definition spot_trade :: "backtest_config \<Rightarrow> option_type \<Rightarrow> backtest_signal \<Rightarrow> real \<Rightarrow> real \<Rightarrow> exit_reason option \<Rightarrow> backtest \<Rightarrow> backtest" where
  "spot_trade cfg d sg p q reason b =
     (case resolve_option_price (spot_candle 0 p) b of
        (p1, b1) \<Rightarrow>
          (case resolve_option_price (spot_candle 60000000 q) (enter_trade cfg 0 p1 d sg b1) of
             (p2, b2) \<Rightarrow> exit_trade cfg 60000000 p2 reason b2))"

lemma spot_trade_capital:
  assumes ref: "bk_spot_reference b = Some ref" "3500 < ref" and near: "\<bar>p - ref\<bar> \<le> 2000" "\<bar>q - ref\<bar> \<le> 2000"
    and lots: "\<not> bc_use_engine cfg"
  shows "bk_capital (spot_trade cfg d sg p q reason b) = bk_capital b - bc_commission cfg
    + ((q - p) * (8/100) - slip cfg (proxy_premium ref p) - slip cfg (proxy_premium ref q)) * of_int (bc_lot_size cfg)"
proof -
  define p1 p2 where "p1 = proxy_premium ref p" and "p2 = proxy_premium ref q"
  define b2 where "b2 = enter_trade cfg 0 p1 d sg b"
  have b2: "bk_spot_reference b2 = Some ref" "bk_capital b2 = bk_capital b - commission_per_side cfg"
    "\<exists>i t. bk_current b2 = Some (i, t) \<and> entry_price t = p1 + slip cfg p1 \<and> qty t = bc_lot_size cfg"
    using ref lots by (simp_all add: b2_def enter_trade_def Let_def filled_trade_def sized_quantity_def apply_slippage_def)
  then obtain i tr where cur: "bk_current b2 = Some (i, tr)" "entry_price tr = p1 + slip cfg p1" "qty tr = bc_lot_size cfg" by blast
  have r: "resolve_option_price (spot_candle 0 p) b = (p1, b)" "resolve_option_price (spot_candle 60000000 q) b2 = (p2, b2)"
    using assms b2(1) by (simp_all add: p1_def p2_def proxy_premium_def OPTION_REFERENCE_PRICE_def SPOT_TO_OPTION_DELTA_def spot_price_proxy abs_le_iff)
  have "p2 - p1 = (q - p) * (8/100)"
    by (simp add: p1_def p2_def proxy_premium_def SPOT_TO_OPTION_DELTA_def field_simps)
  moreover have "bk_capital (spot_trade cfg d sg p q reason b) =
      bk_capital b - bc_commission cfg + ((p2 - p1) - slip cfg p1 - slip cfg p2) * of_int (bc_lot_size cfg)"
    using r cur b2(2)
    by (simp add: spot_trade_def exit_trade_def trade_record_def Let_def apply_slippage_def commission_per_side_def algebra_simps flip: b2_def)
  ultimately show ?thesis by (simp add: p1_def p2_def)
qed

text \<open>The premium derived from an index file rises with the index whatever is held: a put bought at one candle and sold at a
  later one earns exactly what a call would, more the further the index has risen.\<close>

theorem puts_earn_like_calls:
  assumes "bk_spot_reference b = Some ref" "3500 < ref" "\<bar>p - ref\<bar> \<le> 2000" "\<bar>q - ref\<bar> \<le> 2000" "\<not> bc_use_engine cfg"
  shows "bk_capital (spot_trade cfg PE sg p q reason b) = bk_capital (spot_trade cfg CE sg p q reason b) \<and>
    bk_capital (spot_trade cfg PE sg p q reason b) = bk_capital b - bc_commission cfg
      + ((q - p) * (8/100) - slip cfg (proxy_premium ref p) - slip cfg (proxy_premium ref q)) * of_int (bc_lot_size cfg)"
  by (simp add: spot_trade_capital[OF assms])

theorem puts_earn_like_calls_witness:
  "let b = (new_backtest default_backtest_config)\<lparr>bk_spot_reference := Some 25000\<rparr>
   in bk_capital b < bk_capital (spot_trade default_backtest_config PE (fst (always_call () [])) 25000 25100 None b)"
proof -
  let ?b = "(new_backtest default_backtest_config)\<lparr>bk_spot_reference := Some 25000\<rparr>"
  have "bk_spot_reference ?b = Some 25000" "\<not> bc_use_engine default_backtest_config" by (simp_all add: default_backtest_config_def)
  from puts_earn_like_calls[OF this(1) _ _ _ this(2), of 25000 25100 "fst (always_call () [])" None] show ?thesis
    by (simp add: Let_def proxy_premium_def slip_def OPTION_REFERENCE_PRICE_def SPOT_TO_OPTION_DELTA_def default_backtest_config_def)
qed

end
