(* ===== verification/Angel_Client.thy ===== *)
theory Angel_Client
  imports Stream
begin

text \<open>
  The REST client of the broker (\<open>brokers/angel_one\<close>: \<open>client.py\<close>, \<open>auth.py\<close>, \<open>market_data_rest.py\<close>): log-in and tokens, the rate
  limit every call goes through, the circuit breaker, prices with retries, the cache of symbol tokens.  What the broker's
  library answers to a call is an argument.  Times are seconds (\<open>time.time()\<close>); a sleep lasts as long as asked, a call takes no
  time.  An operation returns its answer or error, the time it returns at and the client.
\<close>

section \<open>State\<close>

text \<open>The library object: absent, new, or one whose \<open>generateSession\<close> was answered with a true status.\<close>

datatype api_object = No_Api | New_Api | Session_Api

record angel_client =
  ac_api :: api_object
  ac_auth_token :: "string option"
  ac_refresh_token :: "string option"
  ac_feed_token :: "string option"
  ac_logged_in :: bool
  ac_login_time :: "real option"
  ac_symbol_cache :: "string \<rightharpoonup> string"
  ac_symbol_ttl :: "string \<rightharpoonup> real"
  ac_last_call :: "string \<rightharpoonup> real"
  ac_error_count :: nat
  ac_cooldown_until :: real

definition new_client :: angel_client where
  "new_client = \<lparr>ac_api = No_Api, ac_auth_token = None, ac_refresh_token = None, ac_feed_token = None, ac_logged_in = False,
     ac_login_time = None, ac_symbol_cache = Map.empty, ac_symbol_ttl = Map.empty, ac_last_call = Map.empty, ac_error_count = 0,
     ac_cooldown_until = 0\<rparr>"

definition SYMBOL_CACHE_TTL :: real where
  "SYMBOL_CACHE_TTL = 86400"

definition API_COOLDOWN :: real where
  "API_COOLDOWN = 60"

definition API_ERROR_THRESHOLD :: nat where
  "API_ERROR_THRESHOLD = 5"

datatype client_error = LoginError | ApiError | OrderError | Escaped py_error

text \<open>An answer of the library: an exception with its text, nothing, something that is not a dictionary, or a dictionary with
  status, message and data.\<close>

datatype 'a api_reply = Raises string | NoReply | Bare string | Reply bool "string option" 'a

section \<open>Rate limits and retries\<close>

definition RATE_LIMITS :: "string \<rightharpoonup> real" where
  "RATE_LIMITS = map_of
     [(''login'', 1), (''generateTokens'', 1), (''getProfile'', 3), (''getRMS'', 2), (''placeOrder'', 9), (''modifyOrder'', 9),
      (''cancelOrder'', 9), (''getOrderBook'', 1), (''getLtpData'', 10), (''getPosition'', 1), (''getTradeBook'', 1), (''quote'', 10),
      (''optionGreek'', 1), (''getCandleData'', 3)]"

definition rate_limit :: "string \<Rightarrow> real \<Rightarrow> angel_client \<Rightarrow> real \<times> angel_client" where
  "rate_limit ep now c =
     (let now' = (case RATE_LIMITS ep of
                    None \<Rightarrow> now
                  | Some n \<Rightarrow> let elapsed = now - get_or 0 (ac_last_call c ep)
                             in if elapsed < 1 / n then now + (1 / n - elapsed) else now)
      in (now', c\<lparr>ac_last_call := (ac_last_call c)(ep \<mapsto> now')\<rparr>))"

text \<open>\<open>'Access denied' in str(message)\<close> of an answer, and the test on an exception's text.\<close>

definition access_denied :: "string option \<Rightarrow> bool" where
  "access_denied m \<longleftrightarrow> contains ''Access denied'' (get_or '''' m)"

definition rate_limited_text :: "string \<Rightarrow> bool" where
  "rate_limited_text m \<longleftrightarrow> contains ''Access denied'' m \<or> contains ''rate'' (map char_lower m)"

definition network_error :: "real \<Rightarrow> angel_client \<Rightarrow> angel_client" where
  "network_error now c =
     (let n = ac_error_count c + 1; c1 = c\<lparr>ac_error_count := n\<rparr>
      in if n = 1 then c1
         else if n = API_ERROR_THRESHOLD then c1\<lparr>ac_cooldown_until := now + API_COOLDOWN\<rparr>
         else c1)"

text \<open>What an attempt comes to: an answer with a change of the client, a wait and another attempt, or another attempt at once.\<close>

datatype 'a verdict = Done 'a "real \<Rightarrow> angel_client \<Rightarrow> angel_client" | Wait | Again

definition keep :: "real \<Rightarrow> angel_client \<Rightarrow> angel_client" where
  "keep now c = c"

fun attempts ::
  "nat \<Rightarrow> nat \<Rightarrow> string \<Rightarrow> (nat \<Rightarrow> 'r) \<Rightarrow> ('r \<Rightarrow> 'a verdict) \<Rightarrow> 'a \<Rightarrow> real \<Rightarrow> angel_client \<Rightarrow> (client_error + 'a) \<times> real \<times> angel_client" where
  "attempts 0 k ep replies verdict dflt now c = (Inr dflt, now, c)"
| "attempts (Suc n) k ep replies verdict dflt now c =
     (case rate_limit ep now c of
        (now1, c1) \<Rightarrow>
          if \<not> ac_logged_in c1 then (Inl ApiError, now1, c1)
          else case verdict (replies k) of
                 Done v upd \<Rightarrow> (Inr v, now1, upd now1 c1)
               | Wait \<Rightarrow> attempts n (Suc k) ep replies verdict dflt (now1 + 2 ^ k * 2) c1
               | Again \<Rightarrow> attempts n (Suc k) ep replies verdict dflt now1 c1)"

section \<open>Authentication\<close>

record login_data =
  ld_jwt :: "string option"
  ld_refresh :: "string option"

record refresh_data = login_data +
  rd_feed :: "string option option"

text \<open>The surroundings of a log-in: whether the library is installed, its object can be made and the one-time password computed,
  the answer, and the feed token (\<open>None\<close> when asking for it raises).\<close>

record login_env =
  le_installed :: bool
  le_connects :: bool
  le_totp :: bool
  le_session :: "login_data option api_reply"
  le_feed :: "string option option"

definition take_session :: "login_env \<Rightarrow> real \<Rightarrow> login_data option \<Rightarrow> angel_client \<Rightarrow> (client_error + bool) \<times> angel_client" where
  "take_session env now data c =
     (case data of None \<Rightarrow> (Inl LoginError, c) | Some d \<Rightarrow>
      (case ld_jwt d of None \<Rightarrow> (Inl LoginError, c) | Some j \<Rightarrow>
       (let c1 = c\<lparr>ac_auth_token := Some j\<rparr>
        in case ld_refresh d of None \<Rightarrow> (Inl LoginError, c1) | Some r \<Rightarrow>
           (let c2 = c1\<lparr>ac_refresh_token := Some r\<rparr>
            in case le_feed env of None \<Rightarrow> (Inl LoginError, c2)
               | Some f \<Rightarrow> (Inr True, c2\<lparr>ac_feed_token := f, ac_logged_in := True, ac_login_time := Some now\<rparr>)))))"

definition login :: "login_env \<Rightarrow> real \<Rightarrow> angel_client \<Rightarrow> (client_error + bool) \<times> real \<times> angel_client" where
  "login env now0 c0 =
     (if \<not> le_installed env then (Inl LoginError, now0, c0)
      else case rate_limit ''login'' now0 c0 of
        (now, c) \<Rightarrow>
          if \<not> le_connects env then (Inl LoginError, now, c)
          else let c1 = c\<lparr>ac_api := New_Api\<rparr>
               in if \<not> le_totp env then (Inl LoginError, now, c1)
                  else case le_session env of
                         Reply True _ data \<Rightarrow> (case take_session env now data (c1\<lparr>ac_api := Session_Api\<rparr>) of (r, c2) \<Rightarrow> (r, now, c2))
                       | _ \<Rightarrow> (Inl LoginError, now, c1))"

definition refresh_tokens :: "refresh_data option api_reply \<Rightarrow> real \<Rightarrow> angel_client \<Rightarrow> bool \<times> real \<times> angel_client" where
  "refresh_tokens reply now0 c0 =
     (case rate_limit ''generateTokens'' now0 c0 of
        (now, c) \<Rightarrow>
          if get_or '''' (ac_refresh_token c) = '''' \<or> ac_api c = No_Api then (False, now, c)
          else case reply of
                 Reply True _ (Some d) \<Rightarrow>
                   (case ld_jwt d of None \<Rightarrow> (False, now, c) | Some j \<Rightarrow>
                    (let c1 = c\<lparr>ac_auth_token := Some j\<rparr>
                     in case ld_refresh d of None \<Rightarrow> (False, now, c1)
                        | Some r \<Rightarrow> (True, now, c1\<lparr>ac_refresh_token := Some r, ac_feed_token := get_or (ac_feed_token c) (rd_feed d)\<rparr>)))
               | _ \<Rightarrow> (False, now, c))"

text \<open>Whether stopping the stream and ending the session raise is an argument; the stream itself is the part of \<open>Stream\<close>.\<close>

definition logout :: "bool \<Rightarrow> bool \<Rightarrow> angel_client \<Rightarrow> bool \<times> angel_client" where
  "logout stops ends c =
     (if \<not> stops \<or> (ac_api c \<noteq> No_Api \<and> ac_logged_in c \<and> \<not> ends) then (False, c)
      else (True, c\<lparr>ac_logged_in := False, ac_auth_token := None, ac_refresh_token := None, ac_feed_token := None\<rparr>))"

text \<open>Calls that raise when they fail: the profile and the funds.\<close>

definition raising_call :: "string \<Rightarrow> 'a option api_reply \<Rightarrow> real \<Rightarrow> angel_client \<Rightarrow> (client_error + 'a) \<times> real \<times> angel_client" where
  "raising_call ep reply now0 c0 =
     (case rate_limit ep now0 c0 of
        (now, c) \<Rightarrow>
          if \<not> ac_logged_in c then (Inl ApiError, now, c)
          else (case reply of Reply True _ (Some d) \<Rightarrow> Inr d | _ \<Rightarrow> Inl ApiError, now, c))"

definition get_profile :: "'a option api_reply \<Rightarrow> real \<Rightarrow> angel_client \<Rightarrow> (client_error + 'a) \<times> real \<times> angel_client" where
  "get_profile = raising_call ''getProfile''"

definition get_funds :: "'a option api_reply \<Rightarrow> real \<Rightarrow> angel_client \<Rightarrow> (client_error + 'a) \<times> real \<times> angel_client" where
  "get_funds = raising_call ''getRMS''"

text \<open>Calls that answer with an empty list when they fail.\<close>

definition list_call :: "string option \<Rightarrow> 'a list option api_reply \<Rightarrow> real \<Rightarrow> angel_client \<Rightarrow> (client_error + 'a list) \<times> real \<times> angel_client" where
  "list_call ep reply now0 c0 =
     (case (case ep of None \<Rightarrow> (now0, c0) | Some e \<Rightarrow> rate_limit e now0 c0) of
        (now, c) \<Rightarrow>
          if \<not> ac_logged_in c then (Inl ApiError, now, c)
          else (Inr (case reply of Reply True _ (Some xs) \<Rightarrow> xs | _ \<Rightarrow> []), now, c))"


section \<open>The cache of symbol tokens\<close>

definition is_symbol_cache_valid :: "real \<Rightarrow> string \<Rightarrow> angel_client \<Rightarrow> bool" where
  "is_symbol_cache_valid now key c = (case ac_symbol_ttl c key of None \<Rightarrow> False | Some u \<Rightarrow> now < u)"

definition get_cached_symbol_token :: "real \<Rightarrow> string \<Rightarrow> angel_client \<Rightarrow> (client_error + string option) \<times> angel_client" where
  "get_cached_symbol_token now key c =
     (if is_symbol_cache_valid now key c
      then (case ac_symbol_cache c key of None \<Rightarrow> (Inl (Escaped KeyError), c) | Some t \<Rightarrow> (Inr (Some t), c))
      else if ac_symbol_cache c key \<noteq> None
      then (let c1 = c\<lparr>ac_symbol_cache := (ac_symbol_cache c)(key := None)\<rparr>
            in if ac_symbol_ttl c key = None then (Inl (Escaped KeyError), c1)
               else (Inr None, c1\<lparr>ac_symbol_ttl := (ac_symbol_ttl c)(key := None)\<rparr>))
      else (Inr None, c))"

definition cache_symbol_token :: "real \<Rightarrow> string \<Rightarrow> string \<Rightarrow> angel_client \<Rightarrow> angel_client" where
  "cache_symbol_token now key t c =
     c\<lparr>ac_symbol_cache := (ac_symbol_cache c)(key \<mapsto> t), ac_symbol_ttl := (ac_symbol_ttl c)(key \<mapsto> now + SYMBOL_CACHE_TTL)\<rparr>"

definition clear_symbol_cache :: "angel_client \<Rightarrow> angel_client" where
  "clear_symbol_cache c = c\<lparr>ac_symbol_cache := Map.empty, ac_symbol_ttl := Map.empty\<rparr>"

record scrip =
  scr_tradingsymbol :: "string option"
  scr_symbol :: "string option"
  scr_symboltoken :: "string option"
  scr_token :: "string option"

definition scrip_token :: "string \<Rightarrow> scrip \<Rightarrow> string option" where
  "scrip_token nm s =
     (if scr_tradingsymbol s = Some nm \<or> scr_symbol s = Some nm
      then if get_or '''' (scr_symboltoken s) \<noteq> '''' then scr_symboltoken s
           else if get_or '''' (scr_token s) \<noteq> '''' then scr_token s else None
      else None)"

definition first_token :: "string \<Rightarrow> scrip list \<Rightarrow> string option" where
  "first_token nm ss = (case List.map_filter (scrip_token nm) ss of [] \<Rightarrow> None | t # _ \<Rightarrow> Some t)"

definition symbol_key :: "string \<Rightarrow> string \<Rightarrow> string" where
  "symbol_key xch nm = xch @ '':'' @ nm"

text \<open>The library is asked only past the cache and outside a cool-down; an answer without a known item changes nothing.\<close>

definition get_symbol_token ::
  "scrip list option api_reply \<Rightarrow> real \<Rightarrow> string \<Rightarrow> string \<Rightarrow> angel_client \<Rightarrow> (client_error + string option) \<times> angel_client" where
  "get_symbol_token reply now nm xch c0 =
     (case get_cached_symbol_token now (symbol_key xch nm) c0 of
        (Inl e, c) \<Rightarrow> (Inl e, c)
      | (Inr hit, c) \<Rightarrow>
          if get_or '''' hit \<noteq> '''' then (Inr hit, c)
          else if now < ac_cooldown_until c then (Inr None, c)
          else case reply of
                 Raises _ \<Rightarrow> (Inr None, network_error now c)
               | Bare _ \<Rightarrow> (Inr None, network_error now c)
               | Reply True _ (Some ss) \<Rightarrow>
                   (case first_token nm ss of
                      None \<Rightarrow> (Inr None, c)
                    | Some t \<Rightarrow> (Inr (Some t), (cache_symbol_token now (symbol_key xch nm) t c)\<lparr>ac_error_count := 0\<rparr>))
               | _ \<Rightarrow> (Inr None, c))"

definition search_symbol :: "'a list option api_reply \<Rightarrow> 'a list" where
  "search_symbol reply = (case reply of Reply True _ (Some xs) \<Rightarrow> xs | _ \<Rightarrow> [])"

section \<open>Prices\<close>

text \<open>The price in an answer: absent, null, or a number.\<close>

datatype price_field = NoPrice | NullPrice | Price real

definition ltp_verdict :: "price_field option api_reply \<Rightarrow> real option verdict" where
  "ltp_verdict reply =
     (case reply of
        Raises m \<Rightarrow> if rate_limited_text m then Wait else Done None network_error
      | Bare _ \<Rightarrow> Done None network_error
      | NoReply \<Rightarrow> Done None keep
      | Reply st m data \<Rightarrow>
          (case (st, data) of
             (True, Some NoPrice) \<Rightarrow> Done (Some 0) (\<lambda>_ c. c\<lparr>ac_error_count := 0\<rparr>)
           | (True, Some (Price p)) \<Rightarrow> Done (Some p) (\<lambda>_ c. c\<lparr>ac_error_count := 0\<rparr>)
           | (True, Some NullPrice) \<Rightarrow> Done None network_error
           | _ \<Rightarrow> if access_denied m then Wait else Done None keep))"

definition get_ltp ::
  "nat \<Rightarrow> (nat \<Rightarrow> price_field option api_reply) \<Rightarrow> real \<Rightarrow> angel_client \<Rightarrow> (client_error + real option) \<times> real \<times> angel_client" where
  "get_ltp retries replies now c =
     (if now < ac_cooldown_until c then (Inr None, now, c)
      else attempts retries 0 ''getLtpData'' replies ltp_verdict None now c)"

definition get_quote :: "'a option api_reply \<Rightarrow> 'a \<Rightarrow> real \<Rightarrow> angel_client \<Rightarrow> (client_error + 'a) \<times> real \<times> angel_client" where
  "get_quote reply dflt now0 c0 =
     (case rate_limit ''quote'' now0 c0 of
        (now, c) \<Rightarrow>
          if \<not> ac_logged_in c then (Inl ApiError, now, c)
          else (Inr (case reply of Reply True _ (Some d) \<Rightarrow> d | _ \<Rightarrow> dflt), now, c))"

definition greeks_verdict :: "'a list option api_reply \<Rightarrow> 'a list verdict" where
  "greeks_verdict reply =
     (case reply of
        Raises m \<Rightarrow> if rate_limited_text m then Wait else Done [] keep
      | Reply True _ data \<Rightarrow> Done (get_or [] data) keep
      | Reply False m _ \<Rightarrow> if access_denied m then Wait else Done [] keep
      | _ \<Rightarrow> Done [] keep)"

definition get_option_greeks ::
  "nat \<Rightarrow> (nat \<Rightarrow> 'a list option api_reply) \<Rightarrow> real \<Rightarrow> angel_client \<Rightarrow> (client_error + 'a list) \<times> real \<times> angel_client" where
  "get_option_greeks retries replies now c = attempts retries 0 ''optionGreek'' replies greeks_verdict [] now c"

definition get_candle_data :: "'a list option api_reply \<Rightarrow> real \<Rightarrow> angel_client \<Rightarrow> (client_error + 'a list) \<times> real \<times> angel_client" where
  "get_candle_data = list_call (Some ''getCandleData'')"

text \<open>The list of instruments, \<open>None\<close> when asking for it raises or answers no list.\<close>

definition get_instrument_list :: "'a list option \<Rightarrow> angel_client \<Rightarrow> client_error + 'a list" where
  "get_instrument_list answer c = (if \<not> ac_logged_in c then Inl ApiError else Inr (get_or [] answer))"

text \<open>A batch of prices.\<close>

datatype quote_mode = LTP | OHLC | FULL

record batch_item =
  bi_symbol :: "string option"
  bi_token :: "string option"

record token_data =
  td_ltp :: "real option"
  td_close :: "real option"

definition batch_price :: "quote_mode \<Rightarrow> token_data option \<Rightarrow> real option" where
  "batch_price mode d =
     (case d of
        None \<Rightarrow> None
      | Some t \<Rightarrow> (let p = (if mode = OHLC \<and> truthy (td_close t) then td_close t else td_ltp t) in if truthy p then p else None))"

definition batch_entry :: "quote_mode \<Rightarrow> (string \<rightharpoonup> token_data) \<Rightarrow> batch_item \<Rightarrow> (string \<rightharpoonup> real option) \<Rightarrow> (string \<rightharpoonup> real option)" where
  "batch_entry mode data item ltps =
     (case (bi_token item, bi_symbol item) of
        (Some t, Some s) \<Rightarrow> if t \<noteq> '''' \<and> s \<noteq> '''' then ltps(s \<mapsto> batch_price mode (data t)) else ltps
      | _ \<Rightarrow> ltps)"

text \<open>The data of an answer for one exchange, \<open>None\<close> when it is null; what a failed attempt leaves is the dictionary as it was.\<close>

definition batch_verdict ::
  "quote_mode \<Rightarrow> batch_item list \<Rightarrow> (string \<rightharpoonup> real option) \<Rightarrow> (string \<rightharpoonup> token_data) option api_reply \<Rightarrow> (string \<rightharpoonup> real option) verdict" where
  "batch_verdict mode batch ltps reply =
     (case reply of
        Raises m \<Rightarrow> if rate_limited_text m then Wait else Done ltps keep
      | Bare _ \<Rightarrow> Done ltps keep
      | NoReply \<Rightarrow> Again
      | Reply True _ None \<Rightarrow> Done ltps keep
      | Reply True _ (Some data) \<Rightarrow> Done (fold (batch_entry mode data) batch ltps) keep
      | Reply False m _ \<Rightarrow> if access_denied m then Wait else Again)"

fun batches :: "nat \<Rightarrow> 'a list \<Rightarrow> 'a list list" where
  "batches n [] = []"
| "batches n (x # xs) = (if n = 0 then [x # xs] else take n (x # xs) # batches n (drop (n - 1) xs))"

fun run_batches ::
  "nat \<Rightarrow> quote_mode \<Rightarrow> (nat \<Rightarrow> nat \<Rightarrow> (string \<rightharpoonup> token_data) option api_reply) \<Rightarrow> nat \<Rightarrow> batch_item list list \<Rightarrow> (string \<rightharpoonup> real option)
    \<Rightarrow> real \<Rightarrow> angel_client \<Rightarrow> (client_error + (string \<rightharpoonup> real option)) \<times> real \<times> angel_client" where
  "run_batches retries mode replies k [] ltps now c = (Inr ltps, now, c)"
| "run_batches retries mode replies k (b # bs) ltps now c =
     (if list_all (\<lambda>i. bi_token i = None) b then run_batches retries mode replies (Suc k) bs ltps now c
      else case attempts retries 0 ''quote'' (replies k) (batch_verdict mode b ltps) ltps now c of
             (Inl e, now1, c1) \<Rightarrow> (Inl e, now1, c1)
           | (Inr ltps1, now1, c1) \<Rightarrow> run_batches retries mode replies (Suc k) bs ltps1 now1 c1)"

definition get_ltp_batch ::
  "nat \<Rightarrow> quote_mode \<Rightarrow> (nat \<Rightarrow> nat \<Rightarrow> (string \<rightharpoonup> token_data) option api_reply) \<Rightarrow> batch_item list \<Rightarrow> real \<Rightarrow> angel_client
    \<Rightarrow> (client_error + (string \<rightharpoonup> real option)) \<times> real \<times> angel_client" where
  "get_ltp_batch retries mode replies items now c = run_batches retries mode replies 0 (batches 50 items) Map.empty now c"


section \<open>Calls are spaced\<close>

lemma rate_positive: "RATE_LIMITS ep = Some n \<Longrightarrow> 0 < n"
  by (auto simp: RATE_LIMITS_def split: if_splits)

lemma rate_limit_facts:
  assumes "rate_limit ep now c = (t, c')"
  shows "now \<le> t" "ac_last_call c' = (ac_last_call c)(ep \<mapsto> t)" "ac_logged_in c' = ac_logged_in c"
    "c' = c\<lparr>ac_last_call := (ac_last_call c)(ep \<mapsto> t)\<rparr>"
    "RATE_LIMITS ep = Some n \<Longrightarrow> ac_last_call c ep = Some u \<Longrightarrow> u + 1 / n \<le> t"
    "RATE_LIMITS ep = Some n \<Longrightarrow> get_or 0 (ac_last_call c ep) \<le> now \<Longrightarrow> t \<le> now + 1 / n"
  using assms rate_positive[of ep n] by (auto simp: rate_limit_def Let_def split: option.splits if_splits)

text \<open>A run of calls: the endpoint and the time that passes before the call is asked for; the result is when it is made.\<close>

fun rate_run :: "(string \<times> real) list \<Rightarrow> real \<Rightarrow> angel_client \<Rightarrow> (string \<times> real) list" where
  "rate_run [] now c = []"
| "rate_run ((ep, gap) # es) now c = (case rate_limit ep (now + gap) c of (t, c') \<Rightarrow> (ep, t) # rate_run es t c')"

lemma rate_run_after:
  assumes n: "RATE_LIMITS ep = Some n"
  shows "ac_last_call c ep = Some u \<Longrightarrow> (ep, t) \<in> set (rate_run es now c) \<Longrightarrow> u + 1 / n \<le> t"
proof (induction es arbitrary: now c u)
  case (Cons e es)
  obtain ep' gap where e: "e = (ep', gap)" by (cases e)
  obtain t' c' where rl: "rate_limit ep' (now + gap) c = (t', c')" by (metis surj_pair)
  note f = rate_limit_facts[OF rl]
  show ?case
  proof (cases "ep' = ep")
    case True
    then have first: "u + 1 / n \<le> t'" using f(5)[of n u] n Cons.prems(1) by simp
    have "t = t' \<or> t' + 1 / n \<le> t"
      using Cons.IH[of c' t' t'] Cons.prems(2) True by (auto simp: e rl[unfolded True] f(2))
    moreover have "0 < 1 / n" using rate_positive[OF n] by simp
    ultimately show ?thesis using first by linarith
  next
    case False
    then show ?thesis using Cons.IH[of c' u t'] Cons.prems by (auto simp: e rl f(2))
  qed
qed simp

lemma map_fst_rate_run: "map fst (rate_run es now c) = map fst es"
  by (induction es now c rule: rate_run.induct) (auto split: prod.splits)

lemma fst_rate_run: "i < length es \<Longrightarrow> fst (rate_run es now c ! i) = fst (es ! i)"
  using arg_cong[OF map_fst_rate_run[of es now c], of length] arg_cong[OF map_fst_rate_run[of es now c], of "\<lambda>xs. xs ! i"] by simp

lemma length_rate_run [simp]: "length (rate_run es now c) = length es"
  using arg_cong[OF map_fst_rate_run[of es now c], of length] by simp

text \<open>Whatever the calls and however they arrive, two calls of the same limited endpoint are never closer than its interval,
  so that no second holds more than its quota and one.\<close>

theorem calls_spaced:
  assumes n: "RATE_LIMITS ep = Some n" and ij: "i < j" "j < length (rate_run es now c)"
    and ep: "fst (rate_run es now c ! i) = ep" "fst (rate_run es now c ! j) = ep"
  shows "snd (rate_run es now c ! i) + 1 / n \<le> snd (rate_run es now c ! j)"
  using ij ep
proof (induction es arbitrary: now c i j)
  case (Cons e es)
  obtain ep' gap where e: "e = (ep', gap)" by (cases e)
  obtain t' c' where rl: "rate_limit ep' (now + gap) c = (t', c')" by (metis surj_pair)
  note f = rate_limit_facts[OF rl]
  obtain j' where j: "j = Suc j'" using Cons.prems(1) by (cases j) auto
  show ?case
  proof (cases i)
    case 0
    have "rate_run es t' c' ! j' \<in> set (rate_run es t' c')" using Cons.prems(2) by (simp add: e rl j)
    moreover have "fst (rate_run es t' c' ! j') = ep" using Cons.prems(4) by (simp add: e rl j)
    ultimately have "(ep, snd (rate_run es t' c' ! j')) \<in> set (rate_run es t' c')"
      by (metis prod.collapse)
    moreover have True: "ep' = ep" using Cons.prems(3) 0 by (simp add: e rl)
    ultimately show ?thesis using rate_run_after[OF n, of c' t'] by (simp add: e rl[unfolded True] j f(2) True 0)
  next
    case (Suc i')
    then show ?thesis using Cons by (simp add: e rl j)
  qed
qed simp

theorem calls_spaced_witness:
  "let r = rate_run [(''placeOrder'', 0), (''quote'', 0), (''placeOrder'', 0)] 100 new_client
   in snd (r ! 0) + 1 / 9 \<le> snd (r ! 2)"
proof -
  define es :: "(string \<times> real) list" where "es = [(''placeOrder'', 0), (''quote'', 0), (''placeOrder'', 0)]"
  have "RATE_LIMITS ''placeOrder'' = Some 9" by (simp add: RATE_LIMITS_def)
  moreover have "length es = 3" "fst (es ! 0) = ''placeOrder''" "fst (es ! 2) = ''placeOrder''" by (simp_all add: es_def)
  ultimately have "snd (rate_run es 100 new_client ! 0) + 1 / 9 \<le> snd (rate_run es 100 new_client ! 2)"
    by (intro calls_spaced[of "''placeOrder''" 9 0 2 es 100 new_client]) (simp_all add: fst_rate_run)
  then show ?thesis unfolding Let_def es_def .
qed

section \<open>Attempts end\<close>

text \<open>The longest a call with retries can take: the waits double, and each attempt may wait for its interval.\<close>

lemma attempts_time:
  assumes n: "RATE_LIMITS ep = Some n"
  shows "get_or 0 (ac_last_call c ep) \<le> now \<Longrightarrow>
    fst (snd (attempts r k ep replies verdict dflt now c)) \<le> now + of_nat r * (1 / n) + 2 ^ (k + 1) * (2 ^ r - 1)"
proof (induction r arbitrary: k now c)
  case (Suc r)
  obtain t c' where rl: "rate_limit ep now c = (t, c')" by (metis surj_pair)
  note f = rate_limit_facts[OF rl]
  have t: "t \<le> now + 1 / n" using f(6)[of n] n Suc.prems by simp
  have last: "get_or 0 (ac_last_call c' ep) = t" by (simp add: f(2))
  have pos: "0 < n" by (rule rate_positive[OF n])
  have "1 \<le> (2::real) ^ Suc r" by (rule one_le_power) simp
  then have "0 \<le> real r * (1 / n)" "0 \<le> (2::real) ^ (k + 1) * (2 ^ Suc r - 1)" using pos by (auto intro!: mult_nonneg_nonneg)
  then have slack: "now + 1 / n \<le> now + real (Suc r) * (1 / n) + 2 ^ (k + 1) * (2 ^ Suc r - 1)"
    unfolding of_nat_Suc distrib_right by linarith
  show ?case
  proof (cases "ac_logged_in c'")
    case True
    show ?thesis
    proof (cases "verdict (replies k)")
      case (Done v u)
      then show ?thesis using True t slack by (simp add: rl)
    next
      case Wait
      then show ?thesis
        using True t Suc.IH[of c' "t + 2 ^ k * 2" "Suc k"] last by (simp add: rl algebra_simps)
    next
      case Again
      define x y :: real where "x = 2 ^ k" and "y = real r * (1 / n)"
      have "fst (snd (attempts r (Suc k) ep replies verdict dflt t c')) \<le> t + y + 4 * x * (2 ^ r - 1)"
        using Suc.IH[of c' t "Suc k"] last by (simp add: x_def y_def)
      moreover have "0 \<le> x" by (simp add: x_def)
      ultimately have "fst (snd (attempts r (Suc k) ep replies verdict dflt t c')) \<le> now + (1 / n + y) + 2 * x * (2 ^ Suc r - 1)"
        using t by (simp add: algebra_simps)
      then show ?thesis using Again True by (simp add: rl x_def y_def algebra_simps)
    qed
  next
    case False
    then show ?thesis using t slack by (simp add: rl)
  qed
qed simp

text \<open>The waits of a price request: an answer, or \<open>None\<close>, comes within 14.3 seconds of the call.  That long can a denied
  request hold the caller, the last eight seconds after the last attempt.\<close>

theorem get_ltp_bounded:
  assumes "get_or 0 (ac_last_call c ''getLtpData'') \<le> now"
  shows "fst (snd (get_ltp 3 replies now c)) \<le> now + 143 / 10 \<and>
    (\<not> now < ac_cooldown_until c \<and> ac_logged_in c \<and> (\<forall>k. \<exists>d. replies k = Reply False (Some ''Access denied'') d) \<longrightarrow>
       fst (get_ltp 3 replies now c) = Inr None \<and> now + 14 \<le> fst (snd (get_ltp 3 replies now c)))"
proof -
  have n: "RATE_LIMITS ''getLtpData'' = Some 10" by (simp add: RATE_LIMITS_def)
  have denied: "ltp_verdict (replies k) = Wait" if "\<forall>k. \<exists>d. replies k = Reply False (Some ''Access denied'') d" for k
    using that[rule_format, of k] by (auto simp: ltp_verdict_def access_denied_def)
  have "fst (get_ltp 3 replies now c) = Inr None \<and> now + 14 \<le> fst (snd (get_ltp 3 replies now c))"
    if "\<not> now < ac_cooldown_until c" "ac_logged_in c" "\<forall>k. \<exists>d. replies k = Reply False (Some ''Access denied'') d"
  proof -
    obtain t1 c1 where r1: "rate_limit ''getLtpData'' now c = (t1, c1)" by (metis surj_pair)
    obtain t2 c2 where r2: "rate_limit ''getLtpData'' (t1 + 2) c1 = (t2, c2)" by (metis surj_pair)
    obtain t3 c3 where r3: "rate_limit ''getLtpData'' (t2 + 4) c2 = (t3, c3)" by (metis surj_pair)
    note f = rate_limit_facts(1,3)[OF r1] rate_limit_facts(1,3)[OF r2] rate_limit_facts(1,3)[OF r3]
    show ?thesis using that(1,2) denied[OF that(3)] f by (simp add: get_ltp_def numeral_3_eq_3 r1 r2 r3)
  qed
  moreover have "fst (snd (get_ltp 3 replies now c)) \<le> now + 143 / 10"
    using attempts_time[OF n assms, of 3 0 replies ltp_verdict None] by (auto simp: get_ltp_def)
  ultimately show ?thesis by blast
qed

theorem get_ltp_bounded_witness:
  "let c = new_client\<lparr>ac_logged_in := True\<rparr>
   in fst (snd (get_ltp 3 (\<lambda>_. Reply False (Some ''Access denied'') None) 100 c)) \<le> 100 + 143 / 10"
proof -
  have "get_or 0 (ac_last_call (new_client\<lparr>ac_logged_in := True\<rparr>) ''getLtpData'') \<le> 100" by (simp add: new_client_def)
  from get_ltp_bounded[OF this, of "\<lambda>_. Reply False (Some ''Access denied'') None"] show ?thesis unfolding Let_def by blast
qed

section \<open>The circuit breaker\<close>

text \<open>Requests one after the other, each answered by an exception that is not about the rate.\<close>

definition failing :: "string \<Rightarrow> bool" where
  "failing m \<longleftrightarrow> \<not> rate_limited_text m"

fun outage :: "string \<Rightarrow> real list \<Rightarrow> angel_client \<Rightarrow> angel_client" where
  "outage m [] c = c"
| "outage m (now # ts) c = outage m ts (snd (snd (get_ltp 3 (\<lambda>_. Raises m) now c)))"

lemma failed_request:
  assumes "failing m" "ac_logged_in c"
  shows "\<exists>t. snd (snd (get_ltp 3 (\<lambda>_. Raises m) now c)) =
    (if now < ac_cooldown_until c then c else network_error t (c\<lparr>ac_last_call := (ac_last_call c)(''getLtpData'' \<mapsto> t)\<rparr>))"
proof (cases "now < ac_cooldown_until c")
  case False
  obtain t c' where rl: "rate_limit ''getLtpData'' now c = (t, c')" by (metis surj_pair)
  show ?thesis using assms False rate_limit_facts(4)[OF rl]
    by (intro exI[of _ t]) (simp add: get_ltp_def numeral_3_eq_3 rl ltp_verdict_def failing_def)
qed (simp add: get_ltp_def)

lemma network_error_frame: "ac_logged_in (network_error t c) = ac_logged_in c" "ac_error_count (network_error t c) = Suc (ac_error_count c)"
  "API_ERROR_THRESHOLD \<le> ac_error_count c \<Longrightarrow> ac_cooldown_until (network_error t c) = ac_cooldown_until c"
  by (simp_all add: network_error_def Let_def API_ERROR_THRESHOLD_def)

text \<open>The breaker opens once in an outage: it opens when the count equals five, the count is not reset when the cool-down is
  over, and so every later request goes out to the failing service, however many fail.\<close>

theorem breaker_opens_once:
  assumes "failing m" "ac_logged_in c" "API_ERROR_THRESHOLD \<le> ac_error_count c" "\<forall>t\<in>set ts. ac_cooldown_until c \<le> t"
  shows "ac_cooldown_until (outage m ts c) = ac_cooldown_until c \<and> ac_error_count (outage m ts c) = ac_error_count c + length ts"
  using assms(2-)
proof (induction ts arbitrary: c)
  case (Cons now ts)
  obtain t where t: "snd (snd (get_ltp 3 (\<lambda>_. Raises m) now c)) = network_error t (c\<lparr>ac_last_call := (ac_last_call c)(''getLtpData'' \<mapsto> t)\<rparr>)"
    using failed_request[OF assms(1) Cons.prems(1), of now] Cons.prems(3) by auto
  show ?case using Cons.IH[of "snd (snd (get_ltp 3 (\<lambda>_. Raises m) now c))"] Cons.prems by (simp add: t network_error_frame)
qed simp

theorem breaker_opens_once_witness:
  "let c = new_client\<lparr>ac_logged_in := True, ac_error_count := 5, ac_cooldown_until := 160\<rparr>
   in ac_error_count (outage ''timed out'' [160, 161, 162, 163, 164, 165] c) = 11 \<and>
      ac_cooldown_until (outage ''timed out'' [160, 161, 162, 163, 164, 165] c) = 160"
proof -
  let ?c = "new_client\<lparr>ac_logged_in := True, ac_error_count := 5, ac_cooldown_until := 160\<rparr>"
  have "failing ''timed out''" by (simp add: failing_def rate_limited_text_def char_lower_def)
  from breaker_opens_once[OF this, of ?c "[160, 161, 162, 163, 164, 165]"] show ?thesis
    by (simp add: API_ERROR_THRESHOLD_def Let_def del: outage.simps)
qed


section \<open>Sessions\<close>

definition session_ok :: "angel_client \<Rightarrow> bool" where
  "session_ok c \<longleftrightarrow> (ac_logged_in c \<longrightarrow> ac_auth_token c \<noteq> None \<and> ac_refresh_token c \<noteq> None \<and> ac_login_time c \<noteq> None \<and> ac_api c \<noteq> No_Api)"

datatype session_event = Login login_env real | Refresh "refresh_data option api_reply" real | Logout bool bool

definition session_step :: "angel_client \<Rightarrow> session_event \<Rightarrow> angel_client" where
  "session_step c e =
     (case e of Login env now \<Rightarrow> snd (snd (login env now c)) | Refresh r now \<Rightarrow> snd (snd (refresh_tokens r now c)) | Logout s x \<Rightarrow> snd (logout s x c))"

lemma session_ok_rate:
  assumes "rate_limit ep now c = (t, c')" shows "session_ok c' = session_ok c" "ac_logged_in c' = ac_logged_in c"
  using rate_limit_facts(4)[OF assms] by (simp_all add: session_ok_def)

lemma session_ok_step:
  assumes "session_ok c" shows "session_ok (session_step c e)"
proof (cases e)
  case (Login env now)
  obtain t c' where rl: "rate_limit ''login'' now c = (t, c')" by (metis surj_pair)
  show ?thesis using assms session_ok_rate[OF rl]
    by (auto simp: Login session_step_def login_def rl take_session_def session_ok_def Let_def split: api_reply.splits bool.splits option.splits)
next
  case (Refresh r now)
  obtain t c' where rl: "rate_limit ''generateTokens'' now c = (t, c')" by (metis surj_pair)
  show ?thesis using assms session_ok_rate[OF rl]
    by (auto simp: Refresh session_step_def refresh_tokens_def rl session_ok_def Let_def split: api_reply.splits bool.splits option.splits)
next
  case (Logout s x)
  show ?thesis using assms by (auto simp: Logout session_step_def logout_def session_ok_def)
qed

interpretation sessions: invariant_system session_step session_ok "\<lambda>_. True"
  by unfold_locales (rule session_ok_step)

text \<open>The flag means what it says over any history of log-ins, refreshes and log-outs, failed ones included: a client that
  counts as logged in has tokens and an object of the library.  But not a session: a log-in that is refused replaces the
  library object and leaves the flag of the old session standing, so that calls go on, on an object that never had one.\<close>

theorem logged_in_has_tokens:
  shows "session_ok (foldl session_step new_client es) \<and>
    (ac_logged_in (foldl session_step new_client es) \<and> le_installed env \<and> le_connects env \<and> le_session env = Reply False msg d \<longrightarrow>
      (case login env now (foldl session_step new_client es) of
         (r, t, c) \<Rightarrow> r = Inl LoginError \<and> ac_logged_in c \<and> ac_api c = New_Api))"
proof -
  let ?c = "foldl session_step new_client es"
  have new: "session_ok new_client" by (simp add: session_ok_def new_client_def)
  obtain t c' where rl: "rate_limit ''login'' now ?c = (t, c')" by (metis surj_pair)
  show ?thesis
    using sessions.inv_run[OF new, of es] session_ok_rate(2)[OF rl] by (auto simp: list_all_iff login_def rl Let_def)
qed

section \<open>Symbol tokens\<close>

definition cache_ok :: "angel_client \<Rightarrow> bool" where
  "cache_ok c \<longleftrightarrow> dom (ac_symbol_cache c) = dom (ac_symbol_ttl c) \<and> (\<forall>k t. ac_symbol_cache c k = Some t \<longrightarrow> t \<noteq> '''')"

lemma cache_ok_network [simp]: "cache_ok (network_error t c) = cache_ok c" "ac_symbol_cache (network_error t c) = ac_symbol_cache c"
  "ac_symbol_ttl (network_error t c) = ac_symbol_ttl c"
  by (simp_all add: network_error_def cache_ok_def Let_def)

lemma scrip_token_some: "scrip_token nm s = Some t \<Longrightarrow> t \<noteq> ''''"
  by (auto simp: scrip_token_def get_or_def split: if_splits option.splits)

lemma first_token_simps:
  "first_token nm [] = None" "first_token nm (s # ss) = (case scrip_token nm s of None \<Rightarrow> first_token nm ss | Some t \<Rightarrow> Some t)"
  by (simp_all add: first_token_def map_filter_simps split: option.split)

lemma first_token_some: "first_token nm ss = Some t \<Longrightarrow> t \<noteq> ''''"
  by (induction ss) (auto simp: first_token_simps scrip_token_some split: option.splits)

lemma cached_lookup:
  assumes "cache_ok c"
  shows "get_cached_symbol_token now key c =
    (if is_symbol_cache_valid now key c then (Inr (ac_symbol_cache c key), c)
     else (Inr None, c\<lparr>ac_symbol_cache := (ac_symbol_cache c)(key := None), ac_symbol_ttl := (ac_symbol_ttl c)(key := None)\<rparr>))"
proof -
  have "ac_symbol_cache c key = None \<longleftrightarrow> ac_symbol_ttl c key = None"
    using assms by (metis cache_ok_def domIff)
  then show ?thesis
    by (auto simp: get_cached_symbol_token_def is_symbol_cache_valid_def Let_def fun_upd_idem split: option.splits)
qed

definition ttl_of :: "string \<Rightarrow> string \<Rightarrow> angel_client \<Rightarrow> real" where
  "ttl_of nm xch c = get_or 0 (ac_symbol_ttl c (symbol_key xch nm))"

text \<open>With caches of equal keys, which every operation keeps, a look-up raises no \<open>KeyError\<close>, and it is exact: before the
  expiry it answers with the cached token whatever the library would say, and what a search finds is cached for a day.\<close>

lemma symbol_token_cases:
  assumes "cache_ok c"
  shows "case get_symbol_token reply now nm xch c of
    (r, c') \<Rightarrow> cache_ok c' \<and>
      (now < ttl_of nm xch c \<and> ac_symbol_cache c (symbol_key xch nm) \<noteq> None \<longrightarrow> r = Inr (ac_symbol_cache c (symbol_key xch nm)) \<and> c' = c) \<and>
      (\<forall>t. r = Inr (Some t) \<longrightarrow> ac_symbol_cache c' (symbol_key xch nm) = Some t) \<and> (\<exists>v. r = Inr v)"
proof -
  let ?key = "symbol_key xch nm"
  have same: "ac_symbol_cache c ?key = None \<longleftrightarrow> ac_symbol_ttl c ?key = None"
    using assms by (metis cache_ok_def domIff)
  show ?thesis
  proof (cases "is_symbol_cache_valid now ?key c")
    case True
    then obtain t where t: "ac_symbol_cache c ?key = Some t" "t \<noteq> ''''"
      using same assms by (auto simp: is_symbol_cache_valid_def cache_ok_def split: option.splits)
    then show ?thesis using True assms by (simp add: get_symbol_token_def cached_lookup)
  next
    case False
    then have late: "\<not> (now < ttl_of nm xch c \<and> ac_symbol_cache c ?key \<noteq> None)"
      using same by (auto simp: ttl_of_def is_symbol_cache_valid_def get_or_def split: option.splits)
    define c1 where "c1 = c\<lparr>ac_symbol_cache := (ac_symbol_cache c)(?key := None), ac_symbol_ttl := (ac_symbol_ttl c)(?key := None)\<rparr>"
    have hit: "get_cached_symbol_token now ?key c = (Inr None, c1)" using False assms by (simp add: cached_lookup c1_def)
    have ok: "cache_ok c1" using assms by (auto simp: cache_ok_def c1_def)
    have stored: "cache_ok ((cache_symbol_token now ?key t c1)\<lparr>ac_error_count := 0\<rparr>)" if "t \<noteq> ''''" for t
      using ok that by (auto simp: cache_ok_def cache_symbol_token_def)
    show ?thesis using late ok stored first_token_some
      by (auto simp: get_symbol_token_def hit cache_symbol_token_def split: api_reply.split bool.split option.split)
  qed
qed

datatype symbol_event = Lookup "scrip list option api_reply" real string string | Clear_Cache

definition symbol_step :: "angel_client \<Rightarrow> symbol_event \<Rightarrow> angel_client" where
  "symbol_step c e = (case e of Lookup r now nm xch \<Rightarrow> snd (get_symbol_token r now nm xch c) | Clear_Cache \<Rightarrow> clear_symbol_cache c)"

interpretation symbols: invariant_system symbol_step cache_ok "\<lambda>_. True"
proof unfold_locales
  have "cache_ok (snd (get_symbol_token r now nm xch c))" if "cache_ok c" for r now nm xch c
    using symbol_token_cases[OF that, of now nm xch r] by (simp split: prod.splits)
  moreover have "cache_ok (clear_symbol_cache c)" for c by (simp add: cache_ok_def clear_symbol_cache_def)
  ultimately show "cache_ok (symbol_step c e)" if "cache_ok c" for c e
    using that by (cases e) (simp_all add: symbol_step_def)
qed

text \<open>After any history of look-ups and clearings, looking up a symbol raises no exception; a token found is cached, and as long
  as the entry lives a look-up answers from the cache, whatever the library would say.\<close>

theorem symbol_cache_exact:
  "case get_symbol_token reply now nm xch (foldl symbol_step new_client es) of
    (r, c) \<Rightarrow> (\<exists>v. r = Inr v) \<and>
      (\<forall>t later reply'. r = Inr (Some t) \<and> later < ttl_of nm xch c \<longrightarrow> fst (get_symbol_token reply' later nm xch c) = Inr (Some t))"
proof -
  have new: "cache_ok new_client" by (simp add: cache_ok_def new_client_def)
  then have ok: "cache_ok (foldl symbol_step new_client es)" by (simp add: symbols.inv_run list_all_iff)
  obtain r c where rc: "get_symbol_token reply now nm xch (foldl symbol_step new_client es) = (r, c)" by (metis surj_pair)
  have c: "cache_ok c" "\<exists>v. r = Inr v" "\<And>t. r = Inr (Some t) \<Longrightarrow> ac_symbol_cache c (symbol_key xch nm) = Some t"
    using symbol_token_cases[OF ok, of now nm xch reply] by (auto simp: rc)
  have "fst (get_symbol_token reply' later nm xch c) = Inr (Some t)" if "r = Inr (Some t)" "later < ttl_of nm xch c" for t later reply'
    using symbol_token_cases[OF c(1), of later nm xch reply'] c(3)[OF that(1)] that(2) by (auto split: prod.splits)
  with c(2) show ?thesis by (auto simp: rc)
qed

definition granted :: login_env where
  "granted = \<lparr>le_installed = True, le_connects = True, le_totp = True,
     le_session = Reply True None (Some \<lparr>ld_jwt = Some ''jwt'', ld_refresh = Some ''refresh''\<rparr>), le_feed = Some (Some ''feed'')\<rparr>"

theorem logged_in_has_tokens_witness:
  "let c = foldl session_step new_client [Login granted 100]
   in ac_logged_in c \<and> ac_logged_in (snd (snd (login (granted\<lparr>le_session := Reply False None None\<rparr>) 200 c)))"
proof -
  let ?c = "foldl session_step new_client [Login granted 100]"
  have "ac_logged_in ?c"
    by (simp add: session_step_def login_def granted_def take_session_def Let_def split: prod.split)
  moreover have "le_installed (granted\<lparr>le_session := Reply False None None\<rparr>)" "le_connects (granted\<lparr>le_session := Reply False None None\<rparr>)"
    "le_session (granted\<lparr>le_session := Reply False None None\<rparr>) = Reply False None None"
    by (simp_all add: granted_def)
  ultimately show ?thesis
    using logged_in_has_tokens[of "[Login granted 100]" "granted\<lparr>le_session := Reply False None None\<rparr>" None None 200]
    by (auto simp del: foldl.simps simp: Let_def split: prod.splits)
qed

theorem symbol_cache_exact_witness:
  "let c = snd (get_symbol_token (Reply True None (Some [\<lparr>scr_tradingsymbol = Some ''N'', scr_symbol = None, scr_symboltoken = Some ''7'', scr_token = None\<rparr>]))
      100 ''N'' ''NFO'' new_client)
   in fst (get_symbol_token (Raises ''down'') 86499 ''N'' ''NFO'' c) = Inr (Some ''7'')"
proof -
  let ?r = "Reply True None (Some [\<lparr>scr_tradingsymbol = Some ''N'', scr_symbol = None, scr_symboltoken = Some ''7'', scr_token = None\<rparr>])"
  define c where "c = snd (get_symbol_token ?r 100 ''N'' ''NFO'' new_client)"
  have r: "get_symbol_token ?r 100 ''N'' ''NFO'' new_client = (Inr (Some ''7''), c)" and u: "ttl_of ''N'' ''NFO'' c = 86500"
    by (simp_all add: c_def get_symbol_token_def get_cached_symbol_token_def is_symbol_cache_valid_def new_client_def first_token_simps scrip_token_def
        cache_symbol_token_def symbol_key_def ttl_of_def SYMBOL_CACHE_TTL_def get_or_def)
  show ?thesis
    using symbol_cache_exact[where now = 100 and nm = "''N''" and xch = "''NFO''" and reply = ?r and es = "[]"] u unfolding Let_def c_def[symmetric] by (simp add: r)
qed

end
