(* ===== verification/Angel_Orders.thy ===== *)
theory Angel_Orders
  imports Angel_Client
begin

text \<open>
  Orders and portfolio of the REST client (\<open>brokers/angel_one/orders.py\<close>).  The parameters of a call are a record of the values the
  code turns into texts; an optional one is absent when the code leaves it out.
\<close>

section \<open>Placing, changing and cancelling\<close>

record order_request =
  rq_symbol :: string
  rq_exchange :: string
  rq_transaction :: string
  rq_quantity :: int
  rq_order_type :: string
  rq_price :: real
  rq_trigger :: real
  rq_variety :: string
  rq_product :: string
  rq_duration :: string
  rq_disclosed :: int
  rq_tag :: string
  rq_squareoff :: real
  rq_stoploss :: real
  rq_trailing :: real
  rq_token :: "string option"

definition order_request_for :: "string \<Rightarrow> string \<Rightarrow> string \<Rightarrow> int \<Rightarrow> order_request" where
  "order_request_for nm xch tr q =
     \<lparr>rq_symbol = nm, rq_exchange = xch, rq_transaction = tr, rq_quantity = q, rq_order_type = ''MARKET'', rq_price = 0, rq_trigger = 0,
      rq_variety = ''NORMAL'', rq_product = ''INTRADAY'', rq_duration = ''DAY'', rq_disclosed = 0, rq_tag = '''', rq_squareoff = 0,
      rq_stoploss = 0, rq_trailing = 0, rq_token = None\<rparr>"

record order_params =
  pa_variety :: string
  pa_symbol :: string
  pa_token :: string
  pa_transaction :: string
  pa_exchange :: string
  pa_order_type :: string
  pa_product :: string
  pa_duration :: string
  pa_price :: real
  pa_squareoff :: real
  pa_stoploss :: real
  pa_quantity :: int
  pa_trigger :: "real option"
  pa_disclosed :: "int option"
  pa_tag :: "string option"
  pa_trailing :: "real option"

definition only_if :: "bool \<Rightarrow> 'a \<Rightarrow> 'a option" where
  "only_if b v = (if b then Some v else None)"

definition order_params_of :: "order_request \<Rightarrow> string \<Rightarrow> order_params" where
  "order_params_of r t =
     \<lparr>pa_variety = rq_variety r, pa_symbol = rq_symbol r, pa_token = t, pa_transaction = rq_transaction r, pa_exchange = rq_exchange r,
      pa_order_type = rq_order_type r, pa_product = rq_product r, pa_duration = rq_duration r, pa_price = rq_price r,
      pa_squareoff = rq_squareoff r, pa_stoploss = rq_stoploss r, pa_quantity = rq_quantity r,
      pa_trigger = only_if (0 < rq_trigger r) (rq_trigger r), pa_disclosed = only_if (0 < rq_disclosed r) (rq_disclosed r),
      pa_tag = only_if (rq_tag r \<noteq> '''') (take 20 (rq_tag r)), pa_trailing = only_if (0 < rq_trailing r) (rq_trailing r)\<rparr>"

record order_ack =
  ak_order_id :: "string option"

text \<open>The data of an answer: absent or null, or a dictionary.  \<open>place_order\<close> reads the order id out of it before it returns it.\<close>

definition order_answer :: "order_ack option api_reply \<Rightarrow> client_error + order_ack" where
  "order_answer reply = (case reply of Reply True _ (Some a) \<Rightarrow> Inr a | _ \<Rightarrow> Inl OrderError)"

text \<open>The calls made to the library.\<close>

datatype order_call =
    Place_Order order_params
  | Modify_Order string string "string option" "real option" "int option" "real option" "string option"
  | Cancel_Order string string

type_synonym order_result = "(client_error + order_ack) \<times> order_call list \<times> real \<times> angel_client"

definition place_order ::
  "order_request \<Rightarrow> scrip list option api_reply \<Rightarrow> order_ack option api_reply \<Rightarrow> real \<Rightarrow> angel_client \<Rightarrow> order_result" where
  "place_order r search reply now0 c0 =
     (case rate_limit ''placeOrder'' now0 c0 of
        (now, c) \<Rightarrow>
          if \<not> ac_logged_in c then (Inl ApiError, [], now, c)
          else case (if get_or '''' (rq_token r) \<noteq> '''' then (Inr (rq_token r), c) else get_symbol_token search now (rq_symbol r) (rq_exchange r) c) of
                 (Inl e, c1) \<Rightarrow> (Inl e, [], now, c1)
               | (Inr t, c1) \<Rightarrow>
                   if get_or '''' t = '''' then (Inl OrderError, [], now, c1)
                   else (order_answer reply, [Place_Order (order_params_of r (get_or '''' t))], now, c1))"

text \<open>Changing and cancelling return the data whatever they are; null data (\<open>Some None\<close>) are returned as they are.\<close>

definition change_answer :: "'a option api_reply \<Rightarrow> client_error + 'a" where
  "change_answer reply = (case reply of Reply True _ (Some a) \<Rightarrow> Inr a | _ \<Rightarrow> Inl OrderError)"

definition nonempty_text :: "string option \<Rightarrow> string option" where
  "nonempty_text v = (if get_or '''' v = '''' then None else v)"

definition modify_order ::
  "string \<Rightarrow> string \<Rightarrow> string option \<Rightarrow> real option \<Rightarrow> int option \<Rightarrow> real option \<Rightarrow> string option \<Rightarrow> 'a option api_reply \<Rightarrow> real \<Rightarrow> angel_client
    \<Rightarrow> (client_error + 'a) \<times> order_call list \<times> real \<times> angel_client" where
  "modify_order oid variety ty price q trigger duration reply now0 c0 =
     (case rate_limit ''modifyOrder'' now0 c0 of
        (now, c) \<Rightarrow>
          if \<not> ac_logged_in c then (Inl ApiError, [], now, c)
          else (change_answer reply, [Modify_Order oid variety (nonempty_text ty) price q trigger (nonempty_text duration)], now, c))"

definition cancel_order ::
  "string \<Rightarrow> string \<Rightarrow> 'a option api_reply \<Rightarrow> real \<Rightarrow> angel_client \<Rightarrow> (client_error + 'a) \<times> order_call list \<times> real \<times> angel_client" where
  "cancel_order oid variety reply now0 c0 =
     (case rate_limit ''cancelOrder'' now0 c0 of
        (now, c) \<Rightarrow> if \<not> ac_logged_in c then (Inl ApiError, [], now, c) else (change_answer reply, [Cancel_Order oid variety], now, c))"

section \<open>Books and positions\<close>

definition get_order_book :: "'a list option api_reply \<Rightarrow> real \<Rightarrow> angel_client \<Rightarrow> (client_error + 'a list) \<times> real \<times> angel_client" where
  "get_order_book = list_call (Some ''getOrderBook'')"

definition get_trade_book :: "'a list option api_reply \<Rightarrow> real \<Rightarrow> angel_client \<Rightarrow> (client_error + 'a list) \<times> real \<times> angel_client" where
  "get_trade_book = list_call (Some ''getTradeBook'')"

definition get_positions :: "'a list option api_reply \<Rightarrow> real \<Rightarrow> angel_client \<Rightarrow> (client_error + 'a list) \<times> real \<times> angel_client" where
  "get_positions = list_call (Some ''getPosition'')"

definition get_holdings :: "'a list option api_reply \<Rightarrow> real \<Rightarrow> angel_client \<Rightarrow> (client_error + 'a list) \<times> real \<times> angel_client" where
  "get_holdings = list_call None"

definition get_order_status :: "'a option api_reply \<Rightarrow> angel_client \<Rightarrow> client_error + 'a option" where
  "get_order_status reply c = (if \<not> ac_logged_in c then Inl ApiError else Inr (case reply of Reply True _ d \<Rightarrow> d | _ \<Rightarrow> None))"

definition get_all_holdings :: "'a \<Rightarrow> 'a option api_reply \<Rightarrow> angel_client \<Rightarrow> client_error + 'a" where
  "get_all_holdings dflt reply c = (if \<not> ac_logged_in c then Inl ApiError else Inr (case reply of Reply True _ (Some d) \<Rightarrow> d | _ \<Rightarrow> dflt))"

definition convert_position :: "'a api_reply \<Rightarrow> angel_client \<Rightarrow> client_error + bool" where
  "convert_position reply c = (if \<not> ac_logged_in c then Inl ApiError else Inr (case reply of Reply st _ _ \<Rightarrow> st | _ \<Rightarrow> False))"

section \<open>What an answer means\<close>

text \<open>C29: At most one order leaves the client in a call, made of the request's fields under a token that is not empty; an order
  is reported as placed exactly when one was sent and the library's answer is an acceptance with data.  Every other answer
  after sending - a refusal, an acceptance without data, a bare order id, no answer, an exception on the way back - is
  reported as an order error, and a call that sent nothing always fails.  So an error does not mean that no order is out: a
  caller who tries again after an accepted order without data, a bare id or an exception can hold two orders.\<close>

theorem place_order_reports:
  assumes "place_order r search reply now c = (res, calls, now', c')"
  shows "(calls = [] \<and> (\<exists>e. res = Inl e) \<or> (\<exists>tok. tok \<noteq> '''' \<and> calls = [Place_Order (order_params_of r tok)]))
    \<and> (\<forall>p. Place_Order p \<in> set calls \<longrightarrow> pa_symbol p = rq_symbol r \<and> pa_quantity p = rq_quantity r \<and> pa_token p \<noteq> '''')
    \<and> (\<forall>a. res = Inr a \<longleftrightarrow> length calls = 1 \<and> (\<exists>m. reply = Reply True m (Some a)))
    \<and> (length calls = 1 \<and> (\<forall>m a. reply \<noteq> Reply True m (Some a)) \<longrightarrow> res = Inl OrderError)"
proof -
  obtain t c1 where rl: "rate_limit ''placeOrder'' now c = (t, c1)" by (metis surj_pair)
  have "calls = [] \<and> (\<exists>e. res = Inl e)
      \<or> (\<exists>tok. tok \<noteq> '''' \<and> calls = [Place_Order (order_params_of r tok)] \<and> res = order_answer reply)"
    using assms by (auto simp: place_order_def rl split: if_splits prod.splits sum.splits)
  then show ?thesis
    by (auto simp: order_answer_def order_params_of_def split: api_reply.splits bool.splits option.splits)
qed

theorem place_order_reports_witness:
  "let c = new_client\<lparr>ac_logged_in := True\<rparr>;
       r = (order_request_for ''NIFTY25NOV25000CE'' ''NFO'' ''BUY'' 65)\<lparr>rq_token := Some ''49801''\<rparr>
   in case place_order r NoReply (Bare ''250101000123'') 100 c of
        (res, calls, _, _) \<Rightarrow> length calls = 1 \<and> res = Inl OrderError"
proof -
  let ?c = "new_client\<lparr>ac_logged_in := True\<rparr>"
  let ?r = "(order_request_for ''NIFTY25NOV25000CE'' ''NFO'' ''BUY'' 65)\<lparr>rq_token := Some ''49801''\<rparr>"
  obtain res calls t c' where p: "place_order ?r NoReply (Bare ''250101000123'') 100 ?c = (res, calls, t, c')" by (metis surj_pair)
  have "length calls = 1"
    using p by (auto simp: place_order_def order_request_for_def rate_limit_facts(3) new_client_def split: prod.splits if_splits dest: rate_limit_facts(3))
  with place_order_reports[OF p] show ?thesis by (simp add: p Let_def)
qed

text \<open>A failed request for the positions or the order book looks like an account without any.\<close>

lemma failed_books_empty:
  assumes "ac_logged_in c" "\<not> (\<exists>m xs. reply = Reply True m (Some xs))"
  shows "fst (get_positions reply now c) = Inr []" "fst (get_order_book reply now c) = Inr []" "fst (get_trade_book reply now c) = Inr []"
  using assms
  by (auto simp: get_positions_def get_order_book_def get_trade_book_def list_call_def dest: rate_limit_facts(3)
      split: prod.splits api_reply.splits bool.splits option.splits)

end
