(* ===== verification/Config_Validator.thy ===== *)
theory Config_Validator
  imports Trading_Calendar Stream "HOL-Library.AList"
begin

text \<open>
  The validator of the settings file (\<open>config/validator.py\<close>): reading \<open>.env\<close>, the checks, the automatic fixes and writing them back.
  A file is the list of its lines.  The lot size and freeze quantity of the instrument master are arguments (never 0).
\<close>

section \<open>Reading a line\<close>

fun cut_comment :: "string \<Rightarrow> string" where
  "cut_comment (c # d # r) = (if is_space c \<and> d = CHR ''#'' then [] else c # cut_comment (d # r))"
| "cut_comment s = s"

definition quoted :: "string \<Rightarrow> bool" where
  "quoted v \<longleftrightarrow> 1 < length v \<and> (hd v = CHR 0x22 \<or> hd v = CHR 0x27) \<and> last v = hd v"

definition strip_inline_comment :: "string \<Rightarrow> string" where
  "strip_inline_comment raw = (let v = strip raw in if quoted v then butlast (tl v) else strip (cut_comment v))"

definition parse_line :: "string \<Rightarrow> (string \<times> string) option" where
  "parse_line line =
     (let l = strip line
      in if l = [] \<or> hd l = CHR ''#'' \<or> CHR ''='' \<notin> set l then None
         else Some (strip (takeWhile (\<lambda>c. c \<noteq> CHR ''='') l), strip_inline_comment (tl (dropWhile (\<lambda>c. c \<noteq> CHR ''='') l))))"

section \<open>Numbers\<close>

text \<open>What \<open>float(text)\<close> can be; a real stands for the float nearest to it.\<close>

datatype py_number = Num real | PosInf | NegInf | NaN

fun digit_run :: "bool \<Rightarrow> string \<Rightarrow> nat list \<times> string" where
  "digit_run after [] = ([], [])"
| "digit_run after (c # r) =
     (if is_digit c then (case digit_run True r of (ds, s) \<Rightarrow> ((of_char c - 48) # ds, s))
      else if after \<and> c = CHR ''_'' \<and> r \<noteq> [] \<and> is_digit (hd r) then digit_run False r
      else ([], c # r))"

definition decimal_value :: "nat list \<Rightarrow> nat" where
  "decimal_value ds = foldl (\<lambda>n d. 10 * n + d) 0 ds"

definition split_sign :: "string \<Rightarrow> bool \<times> string" where
  "split_sign s = (case s of c # r \<Rightarrow> if c = CHR ''-'' then (True, r) else if c = CHR ''+'' then (False, r) else (False, s) | [] \<Rightarrow> (False, []))"

definition parse_exponent :: "string \<Rightarrow> int option" where
  "parse_exponent s =
     (case s of
        [] \<Rightarrow> Some 0
      | c # r \<Rightarrow>
          if char_lower c \<noteq> CHR ''e'' then None
          else case split_sign r of (neg, r1) \<Rightarrow>
                 (case digit_run False r1 of
                    (ds, rest) \<Rightarrow> if ds = [] \<or> rest \<noteq> [] then None
                                  else Some (if neg then - int (decimal_value ds) else int (decimal_value ds))))"

definition parse_float :: "string \<Rightarrow> py_number option" where
  "parse_float text0 =
     (case split_sign (strip text0) of
        (neg, s) \<Rightarrow>
          let low = map char_lower s
          in if low = ''inf'' \<or> low = ''infinity'' then Some (if neg then NegInf else PosInf)
             else if low = ''nan'' then Some NaN
             else case digit_run False s of
                    (ip, r1) \<Rightarrow>
                      (case (case r1 of c # r \<Rightarrow> if c = CHR ''.'' then digit_run False r else ([], r1) | [] \<Rightarrow> ([], [])) of
                         (fp, r2) \<Rightarrow>
                           if ip = [] \<and> fp = [] then None
                           else map_option (\<lambda>e. let m = real (decimal_value (ip @ fp)) / 10 ^ length fp;
                                                    v = (if 0 \<le> e then m * 10 ^ nat e else m / 10 ^ nat (- e))
                                                in Num (if neg then - v else v))
                                  (parse_exponent r2)))"

definition parse_int :: "string \<Rightarrow> int option" where
  "parse_int text0 =
     (case split_sign (strip text0) of
        (neg, s) \<Rightarrow> (case digit_run False s of
                        (ds, rest) \<Rightarrow> if ds = [] \<or> rest \<noteq> [] then None
                                      else Some (if neg then - int (decimal_value ds) else int (decimal_value ds))))"

fun num_less :: "py_number \<Rightarrow> py_number \<Rightarrow> bool" where
  "num_less (Num x) (Num y) \<longleftrightarrow> x < y"
| "num_less (Num x) PosInf \<longleftrightarrow> True"
| "num_less NegInf (Num y) \<longleftrightarrow> True"
| "num_less NegInf PosInf \<longleftrightarrow> True"
| "num_less _ _ \<longleftrightarrow> False"

definition num_le :: "py_number \<Rightarrow> py_number \<Rightarrow> bool" where
  "num_le a b \<longleftrightarrow> num_less a b \<or> (a = b \<and> a \<noteq> NaN)"

definition num_half :: "py_number \<Rightarrow> py_number" where
  "num_half a = (case a of Num x \<Rightarrow> Num (x * (1/2)) | _ \<Rightarrow> a)"

section \<open>State\<close>

datatype config_message =
    Missing_Required string | Missing_Recommended string
  | Low_Value string py_number | High_Value string py_number | Not_A_Number string string
  | No_Credentials | Risk_Reward py_number py_number | Loss_Share py_number py_number
  | Ceiling_Order py_number py_number py_number
  | Lot_Mismatch int int | Not_Lot_Multiple string int | Above_Freeze string int

datatype validator_error = Os_Error | Value_Error

record config_validator =
  cv_vars :: "(string \<times> string) list"
  cv_environ :: "string \<rightharpoonup> string"
  cv_errors :: "config_message list"
  cv_warnings :: "config_message list"
  cv_fixes :: "(string \<times> string) list"

definition new_validator :: "(string \<rightharpoonup> string) \<Rightarrow> config_validator" where
  "new_validator environ = \<lparr>cv_vars = [], cv_environ = environ, cv_errors = [], cv_warnings = [], cv_fixes = []\<rparr>"

definition assignments :: "string list \<Rightarrow> (string \<times> string) list" where
  "assignments file = List.map_filter parse_line file"

text \<open>A key that is empty cannot be put into the process environment.\<close>

definition load_env :: "string list option \<Rightarrow> config_validator \<Rightarrow> validator_error + config_validator" where
  "load_env file st =
     (case file of
        None \<Rightarrow> Inr st
      | Some ls \<Rightarrow>
          if list_ex (\<lambda>(k, v). k = '''') (assignments ls) then Inl Os_Error
          else Inr (st\<lparr>cv_vars := fold (\<lambda>(k, v). AList.update k v) (assignments ls) (cv_vars st),
                       cv_environ := fold (\<lambda>(k, v) e. e(k \<mapsto> v)) (assignments ls) (cv_environ st)\<rparr>))"

definition get_env_value :: "config_validator \<Rightarrow> string \<Rightarrow> string \<Rightarrow> string" where
  "get_env_value st key dflt = get_or (get_or dflt (cv_environ st key)) (map_of (cv_vars st) key)"

definition add_error :: "config_message \<Rightarrow> config_validator \<Rightarrow> config_validator" where
  "add_error m st = st\<lparr>cv_errors := cv_errors st @ [m]\<rparr>"

definition add_warning :: "config_message \<Rightarrow> config_validator \<Rightarrow> config_validator" where
  "add_warning m st = st\<lparr>cv_warnings := cv_warnings st @ [m]\<rparr>"

definition apply_fix :: "bool \<Rightarrow> string \<Rightarrow> string \<Rightarrow> config_validator \<Rightarrow> config_validator" where
  "apply_fix auto_fix key v st =
     (if auto_fix then st\<lparr>cv_vars := AList.update key v (cv_vars st), cv_fixes := cv_fixes st @ [(key, v)]\<rparr> else st)"

section \<open>The checks\<close>

definition REQUIRED_SETTINGS :: "string list" where
  "REQUIRED_SETTINGS = [''ANGEL_API_KEY'', ''ANGEL_CLIENT_ID'', ''ANGEL_PASSWORD'', ''ANGEL_TOTP_SECRET'']"

definition placeholders :: "string list" where
  "placeholders = ['''', ''your_api_key'', ''your_client_id'', ''your_password'', ''your_totp_secret'', ''your_api_key_here'', ''your_client_id_here'']"

definition RECOMMENDED_SETTINGS :: "(string \<times> string) list" where
  "RECOMMENDED_SETTINGS =
     [(''PAPER_TRADING'', ''true''), (''USE_LIVE_DATA'', ''true''), (''ENABLE_WEBSOCKET'', ''true''), (''TOTAL_CAPITAL'', ''30000''),
      (''SL_POINTS'', ''7''), (''TP_POINTS'', ''14''), (''MAX_TRADES_PER_DAY'', ''15''), (''MAX_TRADES_PER_HOUR'', ''10'')]"

text \<open>A setting with its bounds, as numbers and as the texts a fix writes.\<close>

definition VALUE_RANGES :: "(string \<times> (real \<times> string) \<times> (real \<times> string)) list" where
  "VALUE_RANGES =
     [(''TOTAL_CAPITAL'', (10000, ''10000''), (1000000, ''1000000'')), (''SL_POINTS'', (3, ''3''), (50, ''50'')),
      (''TP_POINTS'', (5, ''5''), (100, ''100'')), (''CE_QUANTITY'', (1, ''1''), (1000, ''1000'')),
      (''PE_QUANTITY'', (1, ''1''), (1000, ''1000'')), (''KILL_SWITCH_LATENCY_MS'', (100, ''100''), (1000, ''1000'')),
      (''SPREAD_LIMIT_PCT'', (1/10, ''0.1''), (5, ''5.0'')), (''MAX_DAILY_LOSS'', (1000, ''1000''), (100000, ''100000''))]"

definition is_paper :: "config_validator \<Rightarrow> bool" where
  "is_paper st \<longleftrightarrow> map char_lower (get_env_value st ''PAPER_TRADING'' ''true'') = ''true''"

definition validate_required :: "config_validator \<Rightarrow> config_validator" where
  "validate_required st =
     (if is_paper st then st
      else fold (\<lambda>key. if get_env_value st key '''' \<in> set placeholders then add_error (Missing_Required key) else id) REQUIRED_SETTINGS st)"

definition recommend :: "bool \<Rightarrow> string \<times> string \<Rightarrow> config_validator \<Rightarrow> config_validator" where
  "recommend auto_fix e st =
     (case e of (key, dflt) \<Rightarrow>
        if get_env_value st key '''' = '''' then apply_fix auto_fix key dflt (add_warning (Missing_Recommended key) st) else st)"

definition validate_recommended :: "bool \<Rightarrow> config_validator \<Rightarrow> config_validator" where
  "validate_recommended auto_fix = fold (recommend auto_fix) RECOMMENDED_SETTINGS"

definition check_range :: "bool \<Rightarrow> string \<times> (real \<times> string) \<times> (real \<times> string) \<Rightarrow> config_validator \<Rightarrow> config_validator" where
  "check_range auto_fix e st =
     (case e of (key, (lo, lo_text), (hi, hi_text)) \<Rightarrow>
        let v = get_env_value st key ''''
        in if v = '''' then st
           else case parse_float v of
                  None \<Rightarrow> add_warning (Not_A_Number key v) st
                | Some x \<Rightarrow> if num_less x (Num lo) then apply_fix auto_fix key lo_text (add_warning (Low_Value key x) st)
                            else if num_less (Num hi) x then apply_fix auto_fix key hi_text (add_warning (High_Value key x) st)
                            else st)"

definition validate_ranges :: "bool \<Rightarrow> config_validator \<Rightarrow> config_validator" where
  "validate_ranges auto_fix = fold (check_range auto_fix) VALUE_RANGES"

text \<open>\<open>float(get_env_value(key, d) or d)\<close>; not a number raises.\<close>

definition number_of :: "config_validator \<Rightarrow> string \<Rightarrow> string \<Rightarrow> py_number option" where
  "number_of st key dflt = (let v = get_env_value st key dflt in parse_float (if v = '''' then dflt else v))"

definition validate_consistency :: "config_validator \<Rightarrow> validator_error + config_validator" where
  "validate_consistency st0 =
     (let st1 = (if \<not> is_paper st0 \<and> get_env_value st0 ''ANGEL_API_KEY'' '''' = '''' then add_error No_Credentials st0 else st0)
      in case number_of st1 ''SL_POINTS'' ''7'' of None \<Rightarrow> Inl Value_Error | Some sl \<Rightarrow>
        (case number_of st1 ''TP_POINTS'' ''14'' of None \<Rightarrow> Inl Value_Error | Some tp \<Rightarrow>
        (let st2 = (if num_le tp sl then add_warning (Risk_Reward tp sl) st1 else st1)
         in case number_of st2 ''TOTAL_CAPITAL'' ''30000'' of None \<Rightarrow> Inl Value_Error | Some capital \<Rightarrow>
        (case number_of st2 ''MAX_DAILY_LOSS'' ''3000'' of None \<Rightarrow> Inl Value_Error | Some max_loss \<Rightarrow>
        (let st3 = (if num_less (num_half capital) max_loss then add_warning (Loss_Share max_loss capital) st2 else st2)
         in case number_of st3 ''KILL_SWITCH_LOSS'' ''3000'' of None \<Rightarrow> Inl Value_Error | Some kill \<Rightarrow>
        (case number_of st3 ''DAILY_LOSS_ALERT'' ''1500'' of None \<Rightarrow> Inl Value_Error | Some alert \<Rightarrow>
           Inr (if num_less alert max_loss \<and> num_le max_loss kill then st3 else add_error (Ceiling_Order alert max_loss kill) st3)))))))"

definition check_quantity :: "int \<Rightarrow> int option \<Rightarrow> string \<Rightarrow> config_validator \<Rightarrow> config_validator" where
  "check_quantity lot freeze key st =
     (case parse_int (get_env_value st key '''') of
        None \<Rightarrow> st
      | Some q \<Rightarrow>
          let st1 = (if q mod lot \<noteq> 0 then add_warning (Not_Lot_Multiple key q) st else st)
          in case freeze of
               None \<Rightarrow> st1
             | Some f \<Rightarrow> if f \<noteq> 0 \<and> f < q then add_warning (Above_Freeze key q) st1 else st1)"

definition validate_against_instrument_master :: "int option \<Rightarrow> int option \<Rightarrow> config_validator \<Rightarrow> config_validator" where
  "validate_against_instrument_master lot freeze st =
     (case lot of
        None \<Rightarrow> st
      | Some l \<Rightarrow>
          (case parse_int (get_env_value st ''LOT_SIZE'' '''') of
             None \<Rightarrow> st
           | Some n \<Rightarrow>
               let st1 = (if n \<noteq> l then add_warning (Lot_Mismatch n l) st else st)
               in check_quantity l freeze ''PE_QUANTITY'' (check_quantity l freeze ''CE_QUANTITY'' st1)))"

section \<open>Writing fixes\<close>

definition setting :: "string \<Rightarrow> string \<Rightarrow> string" where
  "setting k v = k @ ''='' @ v"

definition rewrite_line :: "(string \<times> string) list \<Rightarrow> string \<Rightarrow> string" where
  "rewrite_line vars line =
     (case parse_line line of
        None \<Rightarrow> line
      | Some (k, _) \<Rightarrow> (case map_of vars k of None \<Rightarrow> line | Some v \<Rightarrow> setting k v))"

text \<open>A key without a line is appended after an empty line.\<close>

definition write_fixes :: "(string \<times> string) list \<Rightarrow> string list \<Rightarrow> string list" where
  "write_fixes vars file =
     map (rewrite_line vars) file
     @ concat (map (\<lambda>(k, v). if k \<in> fst ` set (assignments file) then [] else ['''', setting k v]) vars)"

definition validate ::
  "bool \<Rightarrow> int option \<Rightarrow> int option \<Rightarrow> string list option \<Rightarrow> config_validator \<Rightarrow> validator_error + bool \<times> config_validator \<times> string list option" where
  "validate auto_fix lot freeze file st0 =
     (case load_env file (st0\<lparr>cv_errors := [], cv_warnings := [], cv_fixes := []\<rparr>) of
        Inl e \<Rightarrow> Inl e
      | Inr st1 \<Rightarrow>
          (case validate_consistency (validate_ranges auto_fix (validate_recommended auto_fix (validate_required st1))) of
             Inl e \<Rightarrow> Inl e
           | Inr st2 \<Rightarrow>
               let st3 = validate_against_instrument_master lot freeze st2
               in Inr (cv_errors st3 = [], st3,
                       if cv_fixes st3 \<noteq> [] \<and> auto_fix then map_option (write_fixes (cv_vars st3)) file else file)))"


section \<open>What the fixes touch\<close>

lemma value_set: "get_env_value st k '''' \<noteq> '''' \<Longrightarrow> get_env_value st k d = get_env_value st k ''''"
  by (auto simp: get_env_value_def get_or_def split: option.splits)

lemma value_frames [simp]:
  "get_env_value (add_error m st) k d = get_env_value st k d" "get_env_value (add_warning m st) k d = get_env_value st k d"
  by (simp_all add: get_env_value_def add_error_def add_warning_def)

lemma value_fix: "get_env_value (apply_fix af key v st) k d = (if af \<and> k = key then v else get_env_value st k d)"
  by (simp add: get_env_value_def apply_fix_def update_conv')

lemma value_recommend: "get_env_value (recommend af e st) k d =
    (if af \<and> k = fst e \<and> get_env_value st k '''' = '''' then snd e else get_env_value st k d)"
  by (cases e) (auto simp: recommend_def value_fix)

lemma value_recommend_fold: "get_env_value st k '''' \<noteq> '''' \<Longrightarrow> get_env_value (fold (recommend af) es st) k d = get_env_value st k d"
  by (induction es arbitrary: st) (simp_all add: value_recommend)

lemma value_recommend_other: "k \<notin> fst ` set es \<Longrightarrow> get_env_value (fold (recommend af) es st) k d = get_env_value st k d"
  by (induction es arbitrary: st) (auto simp: value_recommend)

lemma value_range_other: "k \<noteq> fst e \<Longrightarrow> get_env_value (check_range af e st) k d = get_env_value st k d"
  by (cases e) (auto simp: check_range_def value_fix Let_def split: option.splits)

lemma value_ranges_other: "k \<notin> fst ` set es \<Longrightarrow> get_env_value (fold (check_range af) es st) k d = get_env_value st k d"
  by (induction es arbitrary: st) (auto simp: value_range_other)

lemma value_range_text: "parse_float (get_env_value st k '''') = None \<Longrightarrow> get_env_value (check_range af e st) k d = get_env_value st k d"
  by (cases e) (auto simp: check_range_def value_fix Let_def split: option.splits)

lemma value_ranges_text: "parse_float (get_env_value st k '''') = None \<Longrightarrow> get_env_value (fold (check_range af) es st) k d = get_env_value st k d"
  by (induction es arbitrary: st) (auto simp: value_range_text)

lemma value_required [simp]: "get_env_value (validate_required st) k d = get_env_value st k d"
proof -
  have "get_env_value (fold (\<lambda>key. if P key then add_error (Missing_Required key) else id) ks s) k d = get_env_value s k d" for P ks s
    by (induction ks arbitrary: s) auto
  moreover have "(\<lambda>key. if get_env_value st key '''' \<in> set placeholders then add_error (Missing_Required key) else id) =
    (\<lambda>key. if (get_env_value st key '''' \<in> set placeholders) then add_error (Missing_Required key) else id)" ..
  ultimately show ?thesis by (simp add: validate_required_def)
qed

text \<open>A stop or a target that is not a number is written down as a warning that nobody gets to see: the later comparison of the
  two reads the text again without a guard, and the validator itself raises.\<close>

theorem bad_stop_crashes_validator:
  assumes "load_env file (st0\<lparr>cv_errors := [], cv_warnings := [], cv_fixes := []\<rparr>) = Inr st"
    and "get_env_value st ''SL_POINTS'' '''' \<noteq> ''''" "parse_float (get_env_value st ''SL_POINTS'' '''') = None"
  shows "validate af lot freeze file st0 = Inl Value_Error"
proof -
  define s where "s = validate_ranges af (validate_recommended af (validate_required st))"
  have rec: "get_env_value (validate_recommended af (validate_required st)) ''SL_POINTS'' d = get_env_value st ''SL_POINTS'' ''''" for d
    using assms(2) value_set[OF assms(2), of d] by (simp add: validate_recommended_def value_recommend_fold)
  have "get_env_value s ''SL_POINTS'' d = get_env_value st ''SL_POINTS'' ''''" for d
    using assms(3) by (simp add: s_def validate_ranges_def value_ranges_text rec)
  then have "number_of t ''SL_POINTS'' ''7'' = None" if "t = s \<or> t = add_error No_Credentials s" for t
    using assms(2,3) that by (auto simp: number_of_def Let_def)
  then have "validate_consistency s = Inl Value_Error" by (simp add: validate_consistency_def Let_def)
  then show ?thesis by (simp add: validate_def assms(1) flip: s_def)
qed

theorem bad_stop_crashes_validator_witness:
  "validate False None None (Some [''SL_POINTS=7pt'']) (new_validator Map.empty) = Inl Value_Error"
proof -
  let ?st = "(new_validator Map.empty)\<lparr>cv_vars := [(''SL_POINTS'', ''7pt'')], cv_environ := [''SL_POINTS'' \<mapsto> ''7pt'']\<rparr>"
  have "parse_line ''SL_POINTS=7pt'' = Some (''SL_POINTS'', ''7pt'')" by code_simp
  then have "load_env (Some [''SL_POINTS=7pt'']) ((new_validator Map.empty)\<lparr>cv_errors := [], cv_warnings := [], cv_fixes := []\<rparr>) = Inr ?st"
    by (simp add: load_env_def assignments_def map_filter_simps new_validator_def)
  moreover have "get_env_value ?st ''SL_POINTS'' '''' = ''7pt''" by (simp add: get_env_value_def)
  moreover have "parse_float ''7pt'' = None"
    by (simp add: parse_float_def strip_def is_space_def split_sign_def char_lower_def is_digit_def parse_exponent_def Let_def)
  ultimately show ?thesis using bad_stop_crashes_validator[of "Some [''SL_POINTS=7pt'']" "new_validator Map.empty" ?st False None None] by simp
qed

section \<open>What a valid file guarantees\<close>

lemma errors_frames [simp]:
  "cv_errors (add_warning m st) = cv_errors st" "cv_errors (apply_fix af k v st) = cv_errors st"
  "cv_errors (add_error m st) = cv_errors st @ [m]"
  by (simp_all add: add_warning_def apply_fix_def add_error_def)

lemma errors_recommended [simp]: "cv_errors (validate_recommended af st) = cv_errors st"
proof -
  have "cv_errors (fold (recommend af) es s) = cv_errors s" for es s
    by (induction es arbitrary: s) (auto simp: recommend_def)
  then show ?thesis by (simp add: validate_recommended_def)
qed

lemma errors_ranges [simp]: "cv_errors (validate_ranges af st) = cv_errors st"
proof -
  have "cv_errors (fold (check_range af) es s) = cv_errors s" for es s
    by (induction es arbitrary: s) (auto simp: check_range_def Let_def split: option.splits)
  then show ?thesis by (simp add: validate_ranges_def)
qed

lemma master_frames:
  "cv_errors (validate_against_instrument_master lot freeze st) = cv_errors st"
  "get_env_value (validate_against_instrument_master lot freeze st) k d = get_env_value st k d"
  by (simp_all add: validate_against_instrument_master_def check_quantity_def Let_def split: option.split)

lemma number_frames [simp]:
  "number_of (add_error m st) k d = number_of st k d" "number_of (add_warning m st) k d = number_of st k d"
  by (simp_all add: number_of_def)

lemma consistency_frames:
  assumes "validate_consistency st = Inr st'"
  shows "get_env_value st' k d = get_env_value st k d" "cv_errors st' = [] \<Longrightarrow> cv_errors st = []"
    "cv_errors st' = [] \<Longrightarrow> \<exists>alert max_loss kill. number_of st ''DAILY_LOSS_ALERT'' ''1500'' = Some alert \<and>
       number_of st ''MAX_DAILY_LOSS'' ''3000'' = Some max_loss \<and> number_of st ''KILL_SWITCH_LOSS'' ''3000'' = Some kill \<and>
       num_less alert max_loss \<and> num_le max_loss kill"
  using assms by (auto simp: validate_consistency_def Let_def split: option.splits if_splits)

lemma required_errors:
  assumes "cv_errors (validate_required st) = []" "\<not> is_paper st" "key \<in> set REQUIRED_SETTINGS"
  shows "get_env_value st key '''' \<notin> set placeholders"
proof -
  have grow: "cv_errors (fold (\<lambda>key. if P key then add_error (Missing_Required key) else id) ks s) = [] \<Longrightarrow>
      cv_errors s = [] \<and> (\<forall>k\<in>set ks. \<not> P k)" for P ks s
  proof (induction ks arbitrary: s)
    case (Cons k ks)
    show ?case
    proof (cases "P k")
      case True
      then have "cv_errors (fold (\<lambda>key. if P key then add_error (Missing_Required key) else id) ks (add_error (Missing_Required k) s)) = []"
        using Cons.prems by simp
      from Cons.IH[OF this] show ?thesis by simp
    next
      case False
      then have "cv_errors (fold (\<lambda>key. if P key then add_error (Missing_Required key) else id) ks s) = []"
        using Cons.prems by simp
      from Cons.IH[OF this] False show ?thesis by simp
    qed
  qed simp
  show ?thesis
    using assms grow[of "\<lambda>key. get_env_value st key '''' \<in> set placeholders" REQUIRED_SETTINGS st] by (auto simp: validate_required_def)
qed

lemma keys_apart:
  "set REQUIRED_SETTINGS \<inter> fst ` set RECOMMENDED_SETTINGS = {}" "set REQUIRED_SETTINGS \<inter> fst ` set VALUE_RANGES = {}"
  "''PAPER_TRADING'' \<notin> fst ` set VALUE_RANGES"
  by (simp_all add: REQUIRED_SETTINGS_def RECOMMENDED_SETTINGS_def VALUE_RANGES_def)

lemma paper_after_recommended: "is_paper st \<Longrightarrow> is_paper (validate_recommended af st)"
proof -
  have "is_paper (recommend af e s)" if "is_paper s" "fst e = ''PAPER_TRADING'' \<longrightarrow> snd e = ''true''" for e s
    using that by (auto simp: is_paper_def value_recommend char_lower_def)
  then have "is_paper s \<Longrightarrow> \<forall>e\<in>set es. fst e = ''PAPER_TRADING'' \<longrightarrow> snd e = ''true'' \<Longrightarrow> is_paper (fold (recommend af) es s)" for es s
    by (induction es arbitrary: s) auto
  moreover have "\<forall>e\<in>set RECOMMENDED_SETTINGS. fst e = ''PAPER_TRADING'' \<longrightarrow> snd e = ''true''" by (simp add: RECOMMENDED_SETTINGS_def)
  ultimately show "is_paper st \<Longrightarrow> ?thesis" unfolding validate_recommended_def by blast
qed

text \<open>C37: A validation that reports no error has read, in the settings as they stand after the fixes, an alert below the daily loss
  limit and a daily loss limit at most the kill switch's, all three numbers; and for live trading four credentials none of which
  is empty or a placeholder.\<close>

theorem valid_settings_ordered:
  assumes "validate af lot freeze file st0 = Inr (True, st, out)"
  shows "(\<exists>alert max_loss kill. number_of st ''DAILY_LOSS_ALERT'' ''1500'' = Some alert \<and>
       number_of st ''MAX_DAILY_LOSS'' ''3000'' = Some max_loss \<and> number_of st ''KILL_SWITCH_LOSS'' ''3000'' = Some kill \<and>
       num_less alert max_loss \<and> num_le max_loss kill) \<and>
    (is_paper st \<or> (\<forall>key\<in>set REQUIRED_SETTINGS. get_env_value st key '''' \<notin> set placeholders))"
proof -
  obtain s1 s2 where load: "load_env file (st0\<lparr>cv_errors := [], cv_warnings := [], cv_fixes := []\<rparr>) = Inr s1"
    and cons: "validate_consistency (validate_ranges af (validate_recommended af (validate_required s1))) = Inr s2"
    and st: "st = validate_against_instrument_master lot freeze s2" and ok: "cv_errors s2 = []"
    using assms by (auto simp: validate_def Let_def master_frames split: sum.splits)
  let ?s = "validate_ranges af (validate_recommended af (validate_required s1))"
  note frames = consistency_frames[OF cons]
  have same: "get_env_value st k d = get_env_value ?s k d" for k d by (simp add: st master_frames frames(1))
  have cred: "get_env_value st key '''' = get_env_value s1 key ''''" if "key \<in> set REQUIRED_SETTINGS" for key
    using keys_apart(1,2) that unfolding same
    by (auto simp: validate_ranges_def validate_recommended_def value_ranges_other value_recommend_other disjoint_iff)
  have "is_paper st" if "is_paper s1"
  proof -
    have "is_paper (validate_required s1)" using that by (simp add: is_paper_def)
    from paper_after_recommended[OF this, of af] show ?thesis
      using keys_apart(3) unfolding is_paper_def same by (simp add: validate_ranges_def value_ranges_other)
  qed
  moreover have "cv_errors (validate_required s1) = []" using frames(2)[OF ok] by simp
  ultimately show ?thesis
    using frames(3)[OF ok] required_errors[of s1] cred by (auto simp: number_of_def same)
qed


lemma parse_plain_number:
  "parse_float ''7'' = Some (Num 7)" "parse_float ''14'' = Some (Num 14)" "parse_float ''30000'' = Some (Num 30000)"
  "parse_float ''3000'' = Some (Num 3000)" "parse_float ''1500'' = Some (Num 1500)"
  by (simp_all add: parse_float_def strip_def is_space_def split_sign_def char_lower_def is_digit_def parse_exponent_def decimal_value_def Let_def)

theorem valid_settings_ordered_witness:
  "\<exists>st. validate False None None (Some []) (new_validator Map.empty) = Inr (True, st, Some [])
     \<and> number_of st ''MAX_DAILY_LOSS'' ''3000'' \<noteq> None"
proof -
  let ?st = "(new_validator Map.empty)\<lparr>cv_warnings := map (Missing_Recommended \<circ> fst) RECOMMENDED_SETTINGS\<rparr>"
  have none: "get_env_value (st\<lparr>cv_warnings := ws\<rparr>) k d = get_env_value st k d" for st k d ws
    by (simp add: get_env_value_def)
  have empty: "get_env_value (new_validator Map.empty) k d = d" for k d by (simp add: get_env_value_def new_validator_def)
  have rec: "validate_recommended False (new_validator Map.empty) = ?st"
    by (simp add: validate_recommended_def RECOMMENDED_SETTINGS_def recommend_def apply_fix_def add_warning_def get_env_value_def new_validator_def)
  have ranges: "validate_ranges False ?st = ?st"
    by (simp add: validate_ranges_def VALUE_RANGES_def check_range_def none empty)
  have required: "validate_required (new_validator Map.empty) = new_validator Map.empty"
    by (simp add: validate_required_def is_paper_def empty char_lower_def)
  have "validate_consistency ?st = Inr ?st"
    by (simp add: validate_consistency_def number_of_def is_paper_def none empty parse_plain_number char_lower_def num_le_def num_half_def Let_def)
  then have run: "validate False None None (Some []) (new_validator Map.empty) = Inr (True, ?st, Some [])"
    using rec ranges required
    by (simp add: validate_def load_env_def assignments_def map_filter_simps validate_against_instrument_master_def new_validator_def Let_def)
  with valid_settings_ordered[OF run] show ?thesis by auto
qed

section \<open>Writing and reading back\<close>

lemma strip_id: "strip s = s \<longleftrightarrow> s = [] \<or> \<not> is_space (hd s) \<and> \<not> is_space (last s)"
proof
  assume id: "strip s = s"
  have "length (strip s) \<le> length (dropWhile is_space s)" by (simp add: strip_def length_dropWhile_le[of _ "rev _", simplified])
  then have "length s \<le> length (dropWhile is_space s)" by (simp add: id)
  then have front: "dropWhile is_space s = s" using length_dropWhile_le[of is_space s]
    by (metis dropWhile_eq_drop drop_0 length_drop diff_diff_cancel le_antisym length_takeWhile_le diff_self_eq_0)
  then have "rev (dropWhile is_space (rev s)) = s" using id by (simp add: strip_def)
  then have "dropWhile is_space (rev s) = rev s" by (metis rev_rev_ident)
  with front show "s = [] \<or> \<not> is_space (hd s) \<and> \<not> is_space (last s)" by (auto simp: dropWhile_eq_self_iff hd_rev)
next
  assume ends: "s = [] \<or> \<not> is_space (hd s) \<and> \<not> is_space (last s)"
  then have "dropWhile is_space s = s" "dropWhile is_space (rev s) = rev s" by (auto simp: dropWhile_eq_self_iff hd_rev)
  then show "strip s = s" by (simp add: strip_def)
qed

definition plain_key :: "string \<Rightarrow> bool" where
  "plain_key k \<longleftrightarrow> k \<noteq> '''' \<and> strip k = k \<and> hd k \<noteq> CHR ''#'' \<and> CHR ''='' \<notin> set k"

definition plain_value :: "string \<Rightarrow> bool" where
  "plain_value v \<longleftrightarrow> strip v = v \<and> cut_comment v = v \<and> \<not> quoted v"

lemma equals_no_space: "\<not> is_space CHR ''=''" by (simp add: is_space_def)

lemma parse_setting_raw:
  assumes "plain_key k" "strip v = v"
  shows "parse_line (setting k v) = Some (k, strip_inline_comment v)"
proof -
  have k: "k \<noteq> []" "\<not> is_space (hd k)" "hd k \<noteq> CHR ''#''" "\<forall>c\<in>set k. c \<noteq> CHR ''=''" "strip k = k"
    using assms(1) strip_id[of k] by (auto simp: plain_key_def)
  have "\<not> is_space (last (setting k v))"
    using assms(2) strip_id[of v] equals_no_space by (auto simp: setting_def)
  then have "strip (setting k v) = setting k v"
    using k strip_id[of "setting k v"] by (simp add: setting_def)
  moreover have "takeWhile (\<lambda>c. c \<noteq> CHR ''='') (setting k v) = k" "tl (dropWhile (\<lambda>c. c \<noteq> CHR ''='') (setting k v)) = v"
    using k(4) by (simp_all add: setting_def)
  moreover have "setting k v \<noteq> []" "hd (setting k v) \<noteq> CHR ''#''" "CHR ''='' \<in> set (setting k v)"
    using k by (simp_all add: setting_def)
  ultimately show ?thesis using k(5) by (simp add: parse_line_def Let_def)
qed

lemma parse_setting: "plain_key k \<Longrightarrow> plain_value v \<Longrightarrow> parse_line (setting k v) = Some (k, v)"
  using parse_setting_raw[of k v] by (simp add: plain_value_def strip_inline_comment_def Let_def)

lemma map_of_load: "map_of (fold (\<lambda>(k, v). AList.update k v) kvs acc) = map_of acc ++ map_of (rev kvs)"
  by (induction kvs arbitrary: acc) (auto simp: update_conv' map_add_def fun_eq_iff split: option.splits)

lemma map_of_all: "\<forall>(k, v)\<in>set kvs. m k = Some v \<Longrightarrow> dom m \<subseteq> fst ` set kvs \<Longrightarrow> map_of kvs = m"
proof
  fix k
  assume all: "\<forall>(k, v)\<in>set kvs. m k = Some v" and dom: "dom m \<subseteq> fst ` set kvs"
  show "map_of kvs k = m k"
  proof (cases "map_of kvs k")
    case None
    then have "k \<notin> fst ` set kvs" by (simp add: map_of_eq_None_iff)
    then have "k \<notin> dom m" using dom by blast
    then show ?thesis by (simp add: None domIff)
  next
    case (Some v)
    then show ?thesis using all by (force dest: map_of_SomeD)
  qed
qed

lemma assignments_rewritten:
  assumes "\<forall>(k, v)\<in>set vars. plain_key k \<and> plain_value v" "fst ` set (assignments ls) \<subseteq> fst ` set vars"
  shows "assignments (map (rewrite_line vars) ls) = map (\<lambda>(k, _). (k, get_or '''' (map_of vars k))) (assignments ls)"
  using assms(2)
proof (induction ls)
  case (Cons l ls)
  show ?case
  proof (cases "parse_line l")
    case None
    then show ?thesis using Cons by (simp add: assignments_def map_filter_simps rewrite_line_def)
  next
    case (Some kv)
    obtain k w where kv: "kv = (k, w)" by (cases kv)
    then have "k \<in> fst ` set vars" using Cons.prems Some by (simp add: assignments_def map_filter_simps)
    then obtain v where v: "map_of vars k = Some v" by (metis map_of_eq_None_iff not_None_eq)
    then have "parse_line (setting k v) = Some (k, v)" using assms(1) map_of_SomeD[OF v] by (auto intro: parse_setting)
    then show ?thesis using Cons Some kv v by (simp add: assignments_def map_filter_simps rewrite_line_def)
  qed
qed (simp add: assignments_def map_filter_simps)

lemma assignments_append: "assignments (xs @ ys) = assignments xs @ assignments ys"
  by (induction xs) (auto simp: assignments_def map_filter_simps split: option.splits)

lemma assignments_new:
  assumes "\<forall>(k, v)\<in>set vars. plain_key k \<and> plain_value v"
  shows "assignments (concat (map (\<lambda>(k, v). if k \<in> K then [] else ['''', setting k v]) vars)) = filter (\<lambda>(k, v). k \<notin> K) vars"
  using assms
proof (induction vars)
  case (Cons kv vars)
  have "parse_line '''' = None" by (simp add: parse_line_def strip_def)
  with Cons show ?case
    by (cases kv) (simp add: assignments_append parse_setting assignments_def map_filter_simps)
qed (simp add: assignments_def map_filter_simps)

text \<open>C31: Settings written to the file are the settings read from it at the next start, for every file and whatever was fixed, as
  long as no value needs quotes: none has blanks at its ends, a comment inside, or quotes around it.\<close>

theorem fixes_read_back:
  assumes plain: "\<forall>(k, v)\<in>set vars. plain_key k \<and> plain_value v" and keys: "distinct (map fst vars)"
    and covered: "fst ` set (assignments file) \<subseteq> fst ` set vars"
  shows "\<exists>st. load_env (Some (write_fixes vars file)) (new_validator environ) = Inr st \<and> map_of (cv_vars st) = map_of vars"
proof -
  let ?K = "fst ` set (assignments file)"
  let ?as = "map (\<lambda>(k, _). (k, get_or '''' (map_of vars k))) (assignments file) @ filter (\<lambda>(k, v). k \<notin> ?K) vars"
  have as: "assignments (write_fixes vars file) = ?as"
    by (simp add: write_fixes_def assignments_append assignments_rewritten[OF plain covered] assignments_new[OF plain])
  have hit: "map_of vars k = Some (get_or '''' (map_of vars k))" if "k \<in> fst ` set vars" for k
    using that by (cases "map_of vars k") (auto simp: map_of_eq_None_iff)
  have all: "\<forall>(k, v)\<in>set (rev ?as). map_of vars k = Some v"
  proof (intro ballI, clarify)
    fix k v assume "(k, v) \<in> set (rev ?as)"
    then have "k \<in> ?K \<and> v = get_or '''' (map_of vars k) \<or> (k, v) \<in> set vars" by force
    then consider "k \<in> ?K" "v = get_or '''' (map_of vars k)" | "(k, v) \<in> set vars" by blast
    then show "map_of vars k = Some v"
    proof cases
      case 1
      then show ?thesis using hit[of k] covered by auto
    next
      case 2
      then show ?thesis using keys by simp
    qed
  qed
  have "fst ` set vars \<subseteq> fst ` set (rev ?as)"
  proof
    fix k assume k: "k \<in> fst ` set vars"
    show "k \<in> fst ` set (rev ?as)"
    proof (cases "k \<in> ?K")
      case True
      then have "(k, get_or '''' (map_of vars k)) \<in> set (map (\<lambda>(k, _). (k, get_or '''' (map_of vars k))) (assignments file))" by force
      then have "(k, get_or '''' (map_of vars k)) \<in> set (rev ?as)" by (simp only: set_rev set_append) blast
      then show ?thesis by (rule image_eqI[rotated]) simp
    next
      case False
      obtain v where "(k, v) \<in> set vars" using k by auto
      then have "(k, v) \<in> set (filter (\<lambda>(k, v). k \<notin> ?K) vars)" using False by simp
      then have "(k, v) \<in> set (rev ?as)" by (simp only: set_rev set_append) blast
      then show ?thesis by (rule image_eqI[rotated]) simp
    qed
  qed
  then have "dom (map_of vars) \<subseteq> fst ` set (rev ?as)" by (simp only: dom_map_of_conv_image_fst)
  with all have map: "map_of (rev ?as) = map_of vars" by (rule map_of_all)
  have named: "k \<noteq> ''''" if "(k, v) \<in> set ?as" for k v
  proof -
    have "(k, v) \<in> set (rev ?as)" using that by (simp only: set_rev)
    from bspec[OF all this] have "map_of vars k = Some v" by (simp only: case_prod_conv)
    then show ?thesis using plain map_of_SomeD[of vars k v] by (auto simp: plain_key_def)
  qed
  have "\<not> list_ex (\<lambda>(k, v). k = '''') ?as"
    unfolding list_ex_iff using named by blast
  moreover define kvs where "kvs = ?as"
  ultimately have "\<not> list_ex (\<lambda>(k, v). k = '''') kvs" "map_of (rev kvs) = map_of vars" "assignments (write_fixes vars file) = kvs"
    using map as by (simp_all only: kvs_def not_False_eq_True)
  then show ?thesis by (simp add: load_env_def new_validator_def map_of_load)
qed

theorem fixes_read_back_witness:
  "\<exists>st. load_env (Some (write_fixes [(''SL_POINTS'', ''3''), (''TP_POINTS'', ''14'')] [''# stops'', ''SL_POINTS=1''])) (new_validator Map.empty) = Inr st
     \<and> map_of (cv_vars st) = map_of [(''SL_POINTS'', ''3''), (''TP_POINTS'', ''14'')]"
proof -
  let ?vars = "[(''SL_POINTS'', ''3''), (''TP_POINTS'', ''14'')]"
  have "parse_line ''# stops'' = None" "parse_line ''SL_POINTS=1'' = Some (''SL_POINTS'', ''1'')"
    by (simp_all add: parse_line_def strip_def is_space_def strip_inline_comment_def quoted_def)
  then have "assignments [''# stops'', ''SL_POINTS=1''] = [(''SL_POINTS'', ''1'')]"
    by (simp add: assignments_def map_filter_simps)
  moreover have "\<forall>(k, v)\<in>set ?vars. plain_key k \<and> plain_value v"
    by (simp add: plain_key_def plain_value_def strip_def is_space_def quoted_def)
  ultimately show ?thesis by (intro fixes_read_back) simp_all
qed

lemma cut_comment_app:
  "cut_comment a = a \<Longrightarrow> cut_comment (a @ CHR '' '' # CHR ''#'' # b) = a"
proof (induction a rule: cut_comment.induct)
  case (1 c d r)
  then show ?case by (auto split: if_splits)
qed (simp_all add: is_space_def)

text \<open>A value that did need its quotes does not survive a fix: once anything is fixed, every line is written without quotes, and
  at the next start the value ends where the first blank and number sign stood in it.\<close>

theorem quoted_value_truncated:
  assumes k: "plain_key k" and a: "plain_value a" "a \<noteq> ''''" and v: "v = a @ '' #'' @ b" "strip v = v" "\<not> quoted v"
    and q: "q = CHR 0x22 \<or> q = CHR 0x27" and vars: "map_of vars k = Some v"
  shows "parse_line (setting k (q # v @ [q])) = Some (k, v) \<and>
    parse_line (rewrite_line vars (setting k (q # v @ [q]))) = Some (k, a)"
proof -
  have "strip (q # v @ [q]) = q # v @ [q]" using q by (auto simp: strip_id is_space_def)
  then have first: "parse_line (setting k (q # v @ [q])) = Some (k, v)"
    using parse_setting_raw[OF k, of "q # v @ [q]"] q by (simp add: strip_inline_comment_def quoted_def Let_def)
  have "cut_comment v = a" using a(1) by (simp add: v(1) cut_comment_app plain_value_def)
  then have "strip_inline_comment v = a"
    using v(2,3) a(1) by (simp add: strip_inline_comment_def Let_def plain_value_def)
  then have "parse_line (setting k v) = Some (k, a)" using parse_setting_raw[OF k v(2)] by simp
  with first show ?thesis by (simp add: rewrite_line_def vars)
qed

theorem quoted_value_truncated_witness:
  "parse_line (rewrite_line [(''ANGEL_PASSWORD'', ''ab #cd'')] (setting ''ANGEL_PASSWORD'' (CHR 0x22 # ''ab #cd'' @ [CHR 0x22]))) = Some (''ANGEL_PASSWORD'', ''ab'')"
proof -
  have "plain_key ''ANGEL_PASSWORD''" "plain_value ''ab''" "strip ''ab #cd'' = ''ab #cd''" "\<not> quoted ''ab #cd''"
    by (simp_all add: plain_key_def plain_value_def strip_def is_space_def quoted_def)
  then show ?thesis
    using quoted_value_truncated[of "''ANGEL_PASSWORD''" "''ab''" "''ab #cd''" "''cd''" "CHR 0x22" "[(''ANGEL_PASSWORD'', ''ab #cd'')]"]
    by simp
qed

section \<open>Ranges after a fix\<close>

lemma range_texts:
  "e \<in> set VALUE_RANGES \<Longrightarrow> parse_float (snd (fst (snd e))) = Some (Num (fst (fst (snd e))))"
  "e \<in> set VALUE_RANGES \<Longrightarrow> parse_float (snd (snd (snd e))) = Some (Num (fst (snd (snd e))))"
  "e \<in> set VALUE_RANGES \<Longrightarrow> fst (fst (snd e)) \<le> fst (snd (snd e))" "distinct (map fst VALUE_RANGES)"
  by (auto simp: VALUE_RANGES_def parse_float_def strip_def is_space_def split_sign_def char_lower_def is_digit_def parse_exponent_def
      decimal_value_def Let_def)

definition in_range :: "config_validator \<Rightarrow> string \<times> (real \<times> string) \<times> (real \<times> string) \<Rightarrow> bool" where
  "in_range st e = (case e of (key, (lo, _), (hi, _)) \<Rightarrow>
     (case parse_float (get_env_value st key '''') of Some x \<Rightarrow> \<not> num_less x (Num lo) \<and> \<not> num_less (Num hi) x | None \<Rightarrow> True))"

lemma parse_float_Nil: "parse_float '''' = None"
  by (simp add: parse_float_def strip_def split_sign_def Let_def)

lemma check_range_in_range: "e \<in> set VALUE_RANGES \<Longrightarrow> in_range (check_range True e st) e"
  using range_texts(1-3)[of e]
  by (cases e) (auto simp: in_range_def check_range_def value_fix Let_def parse_float_Nil split: option.splits)

text \<open>After the fixes every limited setting that is a number is within its limits - or is not a number to which they apply, \<open>nan\<close>,
  which passes every check.\<close>

theorem ranges_fixed:
  assumes "e \<in> set VALUE_RANGES" shows "in_range (validate_ranges True st) e"
proof -
  have keep: "in_range (fold (check_range True) es s) e" if "in_range s e" "fst e \<notin> fst ` set es" for es s
    using that by (cases e) (simp add: in_range_def value_ranges_other)
  have "in_range (fold (check_range True) es s) e" if "e \<in> set es" "set es \<subseteq> set VALUE_RANGES" "distinct (map fst es)" for es s
    using that
  proof (induction es arbitrary: s)
    case (Cons f es)
    show ?case
    proof (cases "f = e")
      case True
      then have "in_range (check_range True f s) e" using Cons.prems(2) by (simp add: check_range_in_range)
      then show ?thesis using True Cons.prems(3) keep[of "check_range True f s" es] by simp
    next
      case False
      then show ?thesis using Cons by simp
    qed
  qed simp
  from this[of VALUE_RANGES st] assms range_texts(4) show ?thesis by (simp add: validate_ranges_def)
qed


text \<open>The fixed values never reach the environment of the running process, which keeps the values as they were read.\<close>

lemma environ_frames [simp]:
  "cv_environ (add_error m st) = cv_environ st" "cv_environ (add_warning m st) = cv_environ st" "cv_environ (apply_fix af k v st) = cv_environ st"
  by (simp_all add: add_error_def add_warning_def apply_fix_def)

lemma environ_fold: "(\<And>e s. cv_environ (f e s) = cv_environ s) \<Longrightarrow> cv_environ (fold f es st) = cv_environ st"
  by (induction es arbitrary: st) auto

lemma fixes_stay_out_of_environ:
  assumes "validate af lot freeze file st0 = Inr (ok, st, out)"
    and "load_env file (st0\<lparr>cv_errors := [], cv_warnings := [], cv_fixes := []\<rparr>) = Inr s1"
  shows "cv_environ st = cv_environ s1"
proof -
  obtain s2 where cons: "validate_consistency (validate_ranges af (validate_recommended af (validate_required s1))) = Inr s2"
    and st: "st = validate_against_instrument_master lot freeze s2"
    using assms by (auto simp: validate_def Let_def split: sum.splits)
  have "cv_environ s2 = cv_environ (validate_ranges af (validate_recommended af (validate_required s1)))"
    using cons by (auto simp: validate_consistency_def Let_def split: option.splits if_splits)
  also have "\<dots> = cv_environ s1"
    by (simp add: validate_ranges_def validate_recommended_def validate_required_def environ_fold check_range_def recommend_def Let_def
        split: prod.split option.split)
  finally show ?thesis
    by (simp add: st validate_against_instrument_master_def check_quantity_def Let_def split: option.split)
qed


section \<open>What the bot reads\<close>

text \<open>The readers of \<open>config/configuration.py\<close>, on the environment of the bot's process.\<close>

definition env_bool :: "(string \<rightharpoonup> string) \<Rightarrow> string \<Rightarrow> bool \<Rightarrow> bool" where
  "env_bool env key dflt =
     (let v = get_or (if dflt then ''True'' else ''False'') (env key) in map char_lower v \<in> {''true'', ''1'', ''yes'', ''on''})"

definition env_int :: "(string \<rightharpoonup> string) \<Rightarrow> string \<Rightarrow> int \<Rightarrow> int" where
  "env_int env key dflt = (case env key of None \<Rightarrow> dflt | Some v \<Rightarrow> get_or dflt (parse_int v))"

definition env_float :: "(string \<rightharpoonup> string) \<Rightarrow> string \<Rightarrow> real \<Rightarrow> py_number" where
  "env_float env key dflt = (case env key of None \<Rightarrow> Num dflt | Some v \<Rightarrow> get_or (Num dflt) (parse_float v))"

definition env_str :: "(string \<rightharpoonup> string) \<Rightarrow> string \<Rightarrow> string \<Rightarrow> string" where
  "env_str env key dflt = get_or dflt (env key)"

text \<open>\<open>split(sep)\<close>.\<close>

fun split_on :: "char \<Rightarrow> string \<Rightarrow> string list" where
  "split_on sep [] = [[]]"
| "split_on sep (c # r) = (if c = sep then [] # split_on sep r else case split_on sep r of [] \<Rightarrow> [[c]] | w # ws \<Rightarrow> (c # w) # ws)"

definition tsl_level :: "string \<Rightarrow> (int \<times> int) option" where
  "tsl_level pair =
     (if CHR '':'' \<notin> set pair then None
      else let p = strip pair;
               profit = takeWhile (\<lambda>c. c \<noteq> CHR '':'') p; lock = tl (dropWhile (\<lambda>c. c \<noteq> CHR '':'') p)
           in case (parse_int profit, parse_int lock) of (Some a, Some b) \<Rightarrow> Some (a, b) | _ \<Rightarrow> None)"

definition parse_tsl_levels :: "string \<Rightarrow> (int \<times> int) list" where
  "parse_tsl_levels s =
     (if s = '''' then [(8, 4), (12, 7), (16, 11), (20, 15), (25, 20), (30, 25), (40, 35), (50, 45)]
      else let ls = List.map_filter tsl_level (split_on CHR '','' s) in if ls = [] then [(8, 4), (12, 7), (16, 11), (20, 15)] else ls)"

text \<open>The bot loads the file with \<open>override=False\<close>: a variable of the shell that starts it wins over the file.  The validator
  reads the file first.\<close>

definition bot_environ :: "(string \<rightharpoonup> string) \<Rightarrow> string list \<Rightarrow> (string \<rightharpoonup> string)" where
  "bot_environ shell file = map_of (fold (\<lambda>(k, v). AList.update k v) (assignments file) []) ++ shell"

lemma loaded_vars:
  "load_env (Some file) (new_validator shell) = Inr st \<Longrightarrow> map_of (cv_vars st) = map_of (fold (\<lambda>(k, v). AList.update k v) (assignments file) [])"
  by (auto simp: load_env_def new_validator_def split: if_splits)

text \<open>Where the two read the same text, a paper trading setting the validator accepts as one makes the bot trade on paper.  A
  variable of the shell breaks the agreement: the file says paper, no credentials are asked for, and the bot is live.\<close>

lemma paper_agrees:
  assumes "load_env (Some file) (new_validator shell) = Inr st" "is_paper st" "shell ''PAPER_TRADING'' = None"
  shows "env_bool (bot_environ shell file) ''PAPER_TRADING'' True"
proof (cases "map_of (cv_vars st) ''PAPER_TRADING''")
  case None
  then have "bot_environ shell file ''PAPER_TRADING'' = None"
    using assms(3) by (simp add: bot_environ_def map_add_def loaded_vars[OF assms(1)])
  moreover have "map char_lower ''True'' = ''true''" by code_simp
  ultimately show ?thesis by (simp add: env_bool_def)
next
  case (Some v)
  then have "map char_lower v = ''true''" using assms(2) unfolding is_paper_def get_env_value_def by (simp only: get_or_simps)
  moreover have "bot_environ shell file ''PAPER_TRADING'' = Some v"
    using Some assms(3) by (simp add: bot_environ_def map_add_def loaded_vars[OF assms(1)])
  ultimately show ?thesis unfolding env_bool_def Let_def by (simp only: get_or_simps insert_iff simp_thms)
qed

lemma shell_overrides_validated_paper:
  assumes "load_env (Some file) (new_validator shell) = Inr st" "map_of (cv_vars st) ''PAPER_TRADING'' = Some v" "map char_lower v = ''true''"
    and "shell ''PAPER_TRADING'' = Some w" "map char_lower w = ''false''"
  shows "validate_required st = st \<and> \<not> env_bool (bot_environ shell file) ''PAPER_TRADING'' True"
proof -
  have "is_paper st" using assms(2,3) unfolding is_paper_def get_env_value_def by (simp only: get_or_simps)
  moreover have "bot_environ shell file ''PAPER_TRADING'' = Some w" using assms(4) by (simp add: bot_environ_def)
  ultimately show ?thesis using assms(5) unfolding env_bool_def Let_def validate_required_def by (simp only: get_or_simps) simp
qed

text \<open>The validator takes a limit written with a decimal point for the number it is; the bot's \<open>env_int\<close> cannot read it and falls
  back to its default without a word, so that the limit that was judged is not the limit that is applied.\<close>

theorem decimal_limit_ignored:
  assumes load: "load_env (Some file) (new_validator shell) = Inr st" and v: "map_of (cv_vars st) key = Some v"
    and text_: "parse_float v = Some x" "parse_int v = None" and shell: "shell key = None"
  shows "number_of st key d = Some x \<and> env_int (bot_environ shell file) key n = n"
proof -
  have "parse_float '''' = None" by (simp add: parse_float_def strip_def split_sign_def Let_def)
  then have "v \<noteq> ''''" using text_(1) by auto
  then show ?thesis
    using v text_ shell unfolding loaded_vars[OF load]
    by (simp add: number_of_def get_env_value_def env_int_def bot_environ_def map_add_def loaded_vars[OF load])
qed

theorem decimal_limit_ignored_witness:
  "\<exists>st. load_env (Some [''MAX_DAILY_LOSS=2000.0'']) (new_validator Map.empty) = Inr st \<and> number_of st ''MAX_DAILY_LOSS'' ''3000'' = Some (Num 2000)
     \<and> env_int (bot_environ Map.empty [''MAX_DAILY_LOSS=2000.0'']) ''MAX_DAILY_LOSS'' 3000 = 3000"
proof -
  let ?file = "[''MAX_DAILY_LOSS=2000.0'']"
  have "parse_line ''MAX_DAILY_LOSS=2000.0'' = Some (''MAX_DAILY_LOSS'', ''2000.0'')"
    by (simp add: parse_line_def strip_def is_space_def strip_inline_comment_def quoted_def)
  then have load: "load_env (Some ?file) (new_validator Map.empty) =
      Inr ((new_validator Map.empty)\<lparr>cv_vars := [(''MAX_DAILY_LOSS'', ''2000.0'')], cv_environ := [''MAX_DAILY_LOSS'' \<mapsto> ''2000.0'']\<rparr>)"
    by (simp add: load_env_def assignments_def map_filter_simps new_validator_def)
  have "parse_float ''2000.0'' = Some (Num 2000)" "parse_int ''2000.0'' = None"
    by (simp_all add: parse_float_def parse_int_def strip_def is_space_def split_sign_def char_lower_def is_digit_def parse_exponent_def decimal_value_def Let_def)
  then show ?thesis using decimal_limit_ignored[OF load, of "''MAX_DAILY_LOSS''" "''2000.0''" "Num 2000" "''3000''" 3000] load by simp
qed

end
