(* ===== verification/Greeks_Fetcher.thy ===== *)
theory Greeks_Fetcher
  imports Greeks Instruments
begin

text \<open>
  The Greeks of the broker (\<open>core/risk/greeks_calc.py\<close>): a request every five seconds at most, a cache of a minute, and the model
  as fallback.  Times are seconds (\<open>time.time()\<close>); the broker's answer is an argument, \<open>None\<close> when asking for it raises.  The
  numbers of an answer are numbers, so reading them does not fail.
\<close>

section \<open>State\<close>

record api_greeks =
  ap_delta :: real
  ap_gamma :: real
  ap_theta :: real
  ap_vega :: real
  ap_theta_sec :: real
  ap_iv :: real

record api_item =
  ai_strike :: "real option"
  ai_type :: "string option"
  ai_delta :: "real option"
  ai_gamma :: "real option"
  ai_theta :: "real option"
  ai_vega :: "real option"
  ai_iv :: "real option"

type_synonym fetch_key = "string \<times> int"

record greeks_fetcher =
  gf_broker :: bool
  gf_cached :: "fetch_key \<rightharpoonup> api_greeks"
  gf_expiry :: "fetch_key \<rightharpoonup> real"
  gf_last_call :: real

definition new_fetcher :: "bool \<Rightarrow> greeks_fetcher" where
  "new_fetcher has_broker = \<lparr>gf_broker = has_broker, gf_cached = Map.empty, gf_expiry = Map.empty, gf_last_call = 0\<rparr>"

definition CACHE_DURATION :: real where
  "CACHE_DURATION = 60"

definition RATE_LIMIT_INTERVAL :: real where
  "RATE_LIMIT_INTERVAL = 5"

definition set_broker :: "bool \<Rightarrow> greeks_fetcher \<Rightarrow> greeks_fetcher" where
  "set_broker has_broker f = f\<lparr>gf_broker := has_broker\<rparr>"

section \<open>Fetching\<close>

definition parse_api_greeks :: "api_item \<Rightarrow> api_greeks" where
  "parse_api_greeks i =
     (let theta = get_or (- 50) (ai_theta i)
      in \<lparr>ap_delta = get_or 0.5 (ai_delta i), ap_gamma = get_or 0.001 (ai_gamma i), ap_theta = theta, ap_vega = get_or 5 (ai_vega i),
          ap_theta_sec = \<bar>theta\<bar> / (24 * 60 * 60), ap_iv = get_or 15 (ai_iv i)\<rparr>)"

definition matching_item :: "string \<Rightarrow> int \<Rightarrow> api_item \<Rightarrow> bool" where
  "matching_item ty strike i \<longleftrightarrow> strike \<noteq> 0 \<and> \<bar>get_or 0 (ai_strike i) - of_int strike\<bar> < 1 \<and> get_or '''' (ai_type i) = ty"

definition cache_hit :: "real \<Rightarrow> fetch_key \<Rightarrow> greeks_fetcher \<Rightarrow> api_greeks option" where
  "cache_hit now key f =
     (case gf_cached f key of None \<Rightarrow> None | Some g \<Rightarrow> if now < get_or 0 (gf_expiry f key) then Some g else None)"

definition store_greeks :: "real \<Rightarrow> fetch_key \<Rightarrow> api_greeks \<Rightarrow> greeks_fetcher \<Rightarrow> greeks_fetcher" where
  "store_greeks now key g f = f\<lparr>gf_cached := (gf_cached f)(key \<mapsto> g), gf_expiry := (gf_expiry f)(key \<mapsto> now + CACHE_DURATION)\<rparr>"

text \<open>\<open>use_api\<close> is the switch \<open>USE_API_GREEKS\<close>, \<open>ty\<close> the configured option type, \<open>has_expiry\<close> whether the instrument master knows a
  coming expiry.\<close>

definition asks_api :: "bool \<Rightarrow> real \<Rightarrow> greeks_fetcher \<Rightarrow> bool" where
  "asks_api use_api now f \<longleftrightarrow> use_api \<and> gf_broker f \<and> \<not> now - gf_last_call f < RATE_LIMIT_INTERVAL"

definition fetch_from_api ::
  "bool \<Rightarrow> string \<Rightarrow> bool \<Rightarrow> api_item list option \<Rightarrow> real \<Rightarrow> string \<Rightarrow> int \<Rightarrow> greeks_fetcher \<Rightarrow> api_greeks option \<times> greeks_fetcher" where
  "fetch_from_api use_api ty has_expiry reply now underlying strike f =
     (if \<not> use_api \<or> \<not> gf_broker f then (None, f)
      else if now - gf_last_call f < RATE_LIMIT_INTERVAL then (cache_hit now (underlying, strike) f, f)
      else let f1 = f\<lparr>gf_last_call := now\<rparr>
           in if \<not> has_expiry then (None, f1)
              else case find (matching_item ty strike) (get_or [] reply) of
                     None \<Rightarrow> (None, f1)
                   | Some i \<Rightarrow> (Some (parse_api_greeks i), store_greeks now (underlying, strike) (parse_api_greeks i) f1))"

text \<open>What the trading loop asks for: the broker's Greeks with the time to expiry, or the model's.\<close>

datatype greeks_source = Api_Greeks api_greeks real | Bsm_Greeks greeks

definition calculate_live_greeks ::
  "bool \<Rightarrow> bool \<Rightarrow> api_item list option \<Rightarrow> real \<Rightarrow> string \<Rightarrow> instant \<Rightarrow> tick \<Rightarrow> real \<Rightarrow> int \<Rightarrow> int \<Rightarrow> instant \<Rightarrow> option_type \<Rightarrow> string
    \<Rightarrow> greeks_fetcher \<Rightarrow> greeks_source \<times> greeks_fetcher" where
  "calculate_live_greeks use_api has_expiry reply now underlying clock t spot strike step expiry ty ty_name f =
     (let bsm = Bsm_Greeks (calculate_greeks_bsm clock t spot strike step expiry ty)
      in if gf_broker f
         then case fetch_from_api use_api ty_name has_expiry reply now underlying strike f of
                (Some g, f1) \<Rightarrow> (Api_Greeks g (max (time_to_expiry_seconds clock expiry) 3600), f1)
              | (None, f1) \<Rightarrow> (bsm, f1)
         else (bsm, f))"

text \<open>When the front contract expires: as the instrument master says, or at today's close.\<close>

definition resolve_expiry_time :: "instant option \<Rightarrow> int \<times> int \<Rightarrow> instant \<Rightarrow> instant" where
  "resolve_expiry_time master close now =
     (case master of
        Some e \<Rightarrow> e
      | None \<Rightarrow> (case close of (h, m) \<Rightarrow> date_of now * 86400000000 + h * 3600000000 + m * 60000000))"

section \<open>Requests and ages\<close>

text \<open>A run of fetches; of each the key, the time and the answer the broker would give.\<close>

record fetch_event =
  fe_key :: fetch_key
  fe_time :: real
  fe_reply :: "api_item list option"
  fe_expiry :: bool
  fe_type :: string

fun fetch_run :: "bool \<Rightarrow> fetch_event list \<Rightarrow> greeks_fetcher \<Rightarrow> (fetch_event \<times> bool \<times> api_greeks option) list" where
  "fetch_run use_api [] f = []"
| "fetch_run use_api (e # es) f =
     (case fetch_from_api use_api (fe_type e) (fe_expiry e) (fe_reply e) (fe_time e) (fst (fe_key e)) (snd (fe_key e)) f of
        (g, f1) \<Rightarrow> (e, asks_api use_api (fe_time e) f, g) # fetch_run use_api es f1)"

text \<open>The cache holds what a request of the last minute found: \<open>seen\<close> are the requests made so far, with what they found.\<close>

definition cache_from :: "(fetch_event \<times> bool \<times> api_greeks option) list \<Rightarrow> greeks_fetcher \<Rightarrow> bool" where
  "cache_from seen f \<longleftrightarrow>
     (\<forall>key g. gf_cached f key = Some g \<longrightarrow>
        (\<exists>e. (e, True, Some g) \<in> set seen \<and> fe_key e = key \<and> gf_expiry f key = Some (fe_time e + CACHE_DURATION)))"

lemma fetch_step:
  assumes "fetch_from_api u (fe_type e) (fe_expiry e) (fe_reply e) (fe_time e) (fst (fe_key e)) (snd (fe_key e)) f = (g, f1)" "cache_from seen f"
  shows "cache_from (seen @ [(e, asks_api u (fe_time e) f, g)]) f1"
    "\<forall>v. g = Some v \<longrightarrow> (\<exists>e'. (e', True, Some v) \<in> set (seen @ [(e, asks_api u (fe_time e) f, g)]) \<and> fe_key e' = fe_key e \<and> fe_time e < fe_time e' + CACHE_DURATION)"
    "gf_last_call f1 = (if asks_api u (fe_time e) f then fe_time e else gf_last_call f)" "gf_broker f1 = gf_broker f"
proof -
  obtain k s where k: "fe_key e = (k, s)" by (cases "fe_key e")
  show "cache_from (seen @ [(e, asks_api u (fe_time e) f, g)]) f1"
    using assms unfolding cache_from_def
    by (fastforce simp: fetch_from_api_def asks_api_def store_greeks_def k Let_def split: if_splits option.splits)
  show "\<forall>v. g = Some v \<longrightarrow> (\<exists>e'. (e', True, Some v) \<in> set (seen @ [(e, asks_api u (fe_time e) f, g)]) \<and> fe_key e' = fe_key e \<and> fe_time e < fe_time e' + CACHE_DURATION)"
    using assms unfolding cache_from_def
    by (fastforce simp: fetch_from_api_def asks_api_def cache_hit_def CACHE_DURATION_def k Let_def split: if_splits option.splits)
  show "gf_last_call f1 = (if asks_api u (fe_time e) f then fe_time e else gf_last_call f)" "gf_broker f1 = gf_broker f"
    using assms(1) by (auto simp: fetch_from_api_def asks_api_def store_greeks_def Let_def split: if_splits option.splits)
qed

lemma fetch_run_fresh:
  assumes "cache_from seen f" "(e, asked, Some g) \<in> set (fetch_run u es f)"
  shows "\<exists>e'. (e', True, Some g) \<in> set (seen @ fetch_run u es f) \<and> fe_key e' = fe_key e \<and> fe_time e < fe_time e' + CACHE_DURATION"
  using assms
proof (induction es arbitrary: seen f)
  case (Cons x es)
  obtain h f1 where fx: "fetch_from_api u (fe_type x) (fe_expiry x) (fe_reply x) (fe_time x) (fst (fe_key x)) (snd (fe_key x)) f = (h, f1)"
    by (metis surj_pair)
  note step = fetch_step[OF fx Cons.prems(1)]
  show ?case
  proof (cases "(e, asked, Some g) \<in> set (fetch_run u es f1)")
    case True
    from Cons.IH[OF step(1) this] show ?thesis by (simp add: fx)
  next
    case False
    then have "e = x" "h = Some g" using Cons.prems(2) by (auto simp: fx)
    with step(2) show ?thesis by (fastforce simp: fx)
  qed
qed simp

text \<open>Greeks the fetcher answers with at any time were found by a request for the same strike less than a minute before or are
  found by this very call; none comes from nowhere, and an answer outlives its cache entry for no one.\<close>

theorem fetched_greeks_fresh:
  assumes "(e, asked, Some g) \<in> set (fetch_run u es (new_fetcher broker))"
  shows "\<exists>e'. (e', True, Some g) \<in> set (fetch_run u es (new_fetcher broker)) \<and> fe_key e' = fe_key e \<and> fe_time e < fe_time e' + 60"
proof -
  have "cache_from [] (new_fetcher broker)" by (simp add: cache_from_def new_fetcher_def)
  from fetch_run_fresh[OF this assms] show ?thesis by (simp add: CACHE_DURATION_def)
qed

lemma fetch_run_after:
  assumes "\<forall>x\<in>set es. t \<le> fe_time x" "gf_last_call f = t" "(e, True, g) \<in> set (fetch_run u es f)" "sorted (map fe_time es)"
  shows "t + RATE_LIMIT_INTERVAL \<le> fe_time e"
  using assms
proof (induction es arbitrary: f)
  case (Cons x es)
  obtain h f1 where fx: "fetch_from_api u (fe_type x) (fe_expiry x) (fe_reply x) (fe_time x) (fst (fe_key x)) (snd (fe_key x)) f = (h, f1)"
    by (metis surj_pair)
  have last: "gf_last_call f1 = (if asks_api u (fe_time x) f then fe_time x else gf_last_call f)"
    using fx by (auto simp: fetch_from_api_def asks_api_def store_greeks_def Let_def split: if_splits option.splits)
  have late: "fe_time x \<le> fe_time e" if "(e, True, g) \<in> set (fetch_run u es f1)"
  proof -
    have "\<And>f. fst ` set (fetch_run u es f) \<subseteq> set es" by (induction es) (auto split: prod.splits)
    then have "e \<in> set es" using that by force
    then show ?thesis using Cons.prems(4) by auto
  qed
  show ?case
  proof (cases "asks_api u (fe_time x) f")
    case True
    then have "t + RATE_LIMIT_INTERVAL \<le> fe_time x" using Cons.prems(2) by (simp add: asks_api_def)
    then show ?thesis using Cons.prems(3) late by (auto simp: fx)
  next
    case False
    then have "(e, True, g) \<in> set (fetch_run u es f1)" using Cons.prems(3) by (simp add: fx)
    then show ?thesis using Cons.IH[of f1] Cons.prems False last by simp
  qed
qed simp

text \<open>The broker is asked for Greeks at most every five seconds, whatever comes back.\<close>

theorem greek_requests_spaced:
  assumes "sorted (map fe_time es)"
  shows "sorted_wrt (\<lambda>(e, asked, _) (e', asked', _). asked \<and> asked' \<longrightarrow> fe_time e + 5 \<le> fe_time e') (fetch_run u es f)"
  using assms
proof (induction es arbitrary: f)
  case (Cons x es)
  obtain h f1 where fx: "fetch_from_api u (fe_type x) (fe_expiry x) (fe_reply x) (fe_time x) (fst (fe_key x)) (snd (fe_key x)) f = (h, f1)"
    by (metis surj_pair)
  have "fe_time x + 5 \<le> fe_time e" if "asks_api u (fe_time x) f" "(e, True, g) \<in> set (fetch_run u es f1)" for e g
  proof -
    have "gf_last_call f1 = fe_time x"
      using fx that(1) by (auto simp: fetch_from_api_def asks_api_def store_greeks_def Let_def split: if_splits option.splits)
    then show ?thesis
      using fetch_run_after[of es "fe_time x" f1 e g u] that(2) Cons.prems by (simp add: RATE_LIMIT_INTERVAL_def)
  qed
  then show ?case using Cons by (auto simp: fx)
qed simp

text \<open>With the switch as it is shipped the broker is never asked, and the trading loop runs on the model alone.\<close>

theorem switched_off_is_model:
  "fst (calculate_live_greeks False has_expiry reply now underlying clock t spot strike step expiry ty ty_name f) =
     Bsm_Greeks (calculate_greeks_bsm clock t spot strike step expiry ty)"
  by (simp add: calculate_live_greeks_def fetch_from_api_def Let_def)

end
