(* ===== verification/Warm_Up.thy ===== *)
theory Warm_Up
  imports Angel_Client Runtime_State
begin

text \<open>
  The daily or five-minute candles a session starts from (\<open>core/trading/historical_candles.py\<close>): a request with retries over the
  REST client, the copy of the last answer in memory, the copy on disk that survives a restart.  Times are seconds; the random part of
  a wait is an argument, and so is whether the file can be written.  The times kept beside the candles are only logged.
\<close>

section \<open>Rows and caches\<close>

record warm_candle =
  wc_timestamp :: string
  wc_open :: real
  wc_high :: real
  wc_low :: real
  wc_close :: real
  wc_volume :: int

text \<open>A row of the broker: fewer than six fields, six that convert to numbers, or one whose conversion raises.\<close>

datatype raw_row = Short_Row | Good_Row warm_candle | Bad_Row

fun format_rows :: "raw_row list \<Rightarrow> warm_candle list option" where
  "format_rows [] = Some []"
| "format_rows (Short_Row # rs) = format_rows rs"
| "format_rows (Good_Row c # rs) = map_option ((#) c) (format_rows rs)"
| "format_rows (Bad_Row # rs) = None"

text \<open>A cache file: a document with candles and the time they were saved, or something that cannot be read.\<close>

datatype cache_blob = Unreadable | Candle_Blob "warm_candle list" real

record candle_caches =
  cc_memory :: "string \<rightharpoonup> warm_candle list \<times> real"
  cc_disk :: "string \<rightharpoonup> cache_blob"

definition cache_key :: "string \<Rightarrow> string \<Rightarrow> string \<Rightarrow> string" where
  "cache_key exchange token interval = exchange @ '':'' @ token @ '':'' @ interval"

definition candle_cache_path :: "string \<Rightarrow> string" where
  "candle_cache_path key = ''data/candle_cache/'' @ map (\<lambda>c. if c = CHR '':'' then CHR ''_'' else c) key @ ''.json''"

definition save_candle_cache :: "bool \<Rightarrow> string \<Rightarrow> warm_candle list \<Rightarrow> real \<Rightarrow> candle_caches \<Rightarrow> candle_caches" where
  "save_candle_cache writable key cs now k =
     (if writable then k\<lparr>cc_disk := (cc_disk k)(candle_cache_path key \<mapsto> Candle_Blob cs now)\<rparr> else k)"

definition load_candle_cache :: "string \<Rightarrow> candle_caches \<Rightarrow> (warm_candle list \<times> real) option" where
  "load_candle_cache key k =
     (case cc_disk k (candle_cache_path key) of
        Some (Candle_Blob cs saved) \<Rightarrow> if cs = [] then None else Some (cs, saved)
      | _ \<Rightarrow> None)"

section \<open>The request\<close>

definition backoff :: "(nat \<Rightarrow> real) \<Rightarrow> nat \<Rightarrow> real" where
  "backoff jitter k = min (2 * 2 ^ (k - 1)) 10 + jitter k"

text \<open>What an attempt comes to: rows, or \<open>None\<close> when something raised.\<close>

definition attempt_rows :: "(client_error + raw_row list) \<Rightarrow> warm_candle list option" where
  "attempt_rows r = (case r of Inl _ \<Rightarrow> None | Inr rows \<Rightarrow> format_rows rows)"

text \<open>The attempts from the k-th on, with n left.  The result is the candles (none when the attempts gave nothing), the time, the
  client, and the number of calls made.\<close>

fun fetch_attempts ::
  "nat \<Rightarrow> nat \<Rightarrow> (nat \<Rightarrow> raw_row list option api_reply) \<Rightarrow> (nat \<Rightarrow> real) \<Rightarrow> real \<Rightarrow> angel_client
    \<Rightarrow> warm_candle list \<times> real \<times> angel_client \<times> nat" where
  "fetch_attempts 0 k replies jitter now c = ([], now, c, 0)"
| "fetch_attempts (Suc n) k replies jitter now c =
     (case get_candle_data (replies k) now c of
        (r, now1, c1) \<Rightarrow>
          (case attempt_rows r of
             Some cs \<Rightarrow> (cs, now1, c1, 1)
           | None \<Rightarrow>
               if n = 0 then ([], now1, c1, 1)
               else (case fetch_attempts n (Suc k) replies jitter (now1 + backoff jitter k) c1 of
                       (cs, now2, c2, calls) \<Rightarrow> (cs, now2, c2, Suc calls))))"

definition fall_back :: "string \<Rightarrow> real \<Rightarrow> candle_caches \<Rightarrow> warm_candle list \<times> candle_caches" where
  "fall_back key now k =
     (case cc_memory k key of
        Some (c # cs, _) \<Rightarrow> (c # cs, k)
      | _ \<Rightarrow> (case load_candle_cache key k of
               Some (cs, _) \<Rightarrow> (cs, k\<lparr>cc_memory := (cc_memory k)(key \<mapsto> (cs, now))\<rparr>)
             | None \<Rightarrow> ([], k)))"

record warm_world =
  ww_client :: "angel_client option"
  ww_caches :: candle_caches

definition get_historical_candles ::
  "nat \<Rightarrow> bool \<Rightarrow> string \<Rightarrow> (nat \<Rightarrow> raw_row list option api_reply) \<Rightarrow> (nat \<Rightarrow> real) \<Rightarrow> real \<Rightarrow> warm_world
    \<Rightarrow> warm_candle list \<times> nat \<times> real \<times> warm_world" where
  "get_historical_candles max_retries writable key replies jitter now w =
     (case ww_client w of
        None \<Rightarrow> ([], 0, now, w)
      | Some c \<Rightarrow>
          (case fetch_attempts max_retries 1 replies jitter now c of
             (cs, now1, c1, calls) \<Rightarrow>
               let w1 = w\<lparr>ww_client := Some c1\<rparr>; k = ww_caches w
               in if cs \<noteq> []
                  then (cs, calls, now1, w1\<lparr>ww_caches := save_candle_cache writable key cs now (k\<lparr>cc_memory := (cc_memory k)(key \<mapsto> (cs, now))\<rparr>)\<rparr>)
                  else (case fall_back key now1 k of (cs', k') \<Rightarrow> (cs', calls, now1, w1\<lparr>ww_caches := k'\<rparr>))))"

definition MAX_RETRIES :: nat where
  "MAX_RETRIES = 3"

text \<open>The warm-up of \<open>main\<close>: the last hundred candles go to the runtime state.  \<open>label\<close> reads a time stamp.\<close>

definition to_runtime :: "(string \<Rightarrow> instant option) \<Rightarrow> warm_candle \<Rightarrow> instant option \<times> candle" where
  "to_runtime label c =
     (label (wc_timestamp c), \<lparr>cd_label = get_or 0 (label (wc_timestamp c)), cd_open = wc_open c, cd_high = wc_high c, cd_low = wc_low c,
        cd_close = wc_close c, cd_volume = wc_volume c, cd_live = False\<rparr>)"

definition warm_up :: "(string \<Rightarrow> instant option) \<Rightarrow> warm_candle list \<Rightarrow> runtime_state \<Rightarrow> runtime_state" where
  "warm_up label cs s = (if cs = [] then s else set_historical_candles (map (to_runtime label) (last_n 100 cs)) s)"

section \<open>Retries\<close>

lemma candle_call:
  "get_candle_data reply now c =
     (let (t, c1) = rate_limit ''getCandleData'' now c
      in if ac_logged_in c then (Inr (case reply of Reply True _ (Some rows) \<Rightarrow> rows | _ \<Rightarrow> []), t, c1) else (Inl ApiError, t, c1))"
  by (auto simp: get_candle_data_def list_call_def rate_limit_def Let_def split: option.splits)

lemma rate_limit_login: "rate_limit ep now c = (t, c1) \<Longrightarrow> ac_logged_in c1 = ac_logged_in c"
  by (auto simp: rate_limit_def Let_def)

lemma format_good: "Bad_Row \<notin> set rows \<Longrightarrow> format_rows rows \<noteq> None"
  by (induction rows rule: format_rows.induct) auto

text \<open>Answers none of whose rows raises in the conversion.\<close>

definition readable :: "raw_row list option api_reply \<Rightarrow> bool" where
  "readable r = (case r of Reply True _ (Some rows) \<Rightarrow> Bad_Row \<notin> set rows | _ \<Rightarrow> True)"

definition rows_of :: "raw_row list option api_reply \<Rightarrow> raw_row list" where
  "rows_of r = (case r of Reply True _ (Some rows) \<Rightarrow> rows | _ \<Rightarrow> [])"

lemma candle_call_in:
  assumes "ac_logged_in c"
  obtains t c1 where "get_candle_data reply now c = (Inr (rows_of reply), t, c1)" "ac_logged_in c1"
  using assms rate_limit_login[of "''getCandleData''" now c]
  by (cases "rate_limit ''getCandleData'' now c") (simp add: candle_call rows_of_def)

lemma candle_call_out:
  assumes "\<not> ac_logged_in c"
  obtains t c1 where "get_candle_data reply now c = (Inl ApiError, t, c1)" "\<not> ac_logged_in c1"
  using assms rate_limit_login[of "''getCandleData''" now c]
  by (cases "rate_limit ''getCandleData'' now c") (simp add: candle_call)

lemma attempts_in:
  assumes "ac_logged_in c" "format_rows (rows_of (replies k)) = Some cs"
  shows "fst (fetch_attempts (Suc n) k replies jitter now c) = cs" "snd (snd (snd (fetch_attempts (Suc n) k replies jitter now c))) = 1"
proof -
  obtain t c1 where "get_candle_data (replies k) now c = (Inr (rows_of (replies k)), t, c1)"
    using candle_call_in[OF assms(1)] by metis
  with assms(2) show "fst (fetch_attempts (Suc n) k replies jitter now c) = cs" "snd (snd (snd (fetch_attempts (Suc n) k replies jitter now c))) = 1"
    by (simp_all add: attempt_rows_def)
qed

lemma attempts_out: "\<not> ac_logged_in c \<Longrightarrow> fst (fetch_attempts n k replies jitter now c) = []"
proof (induction n arbitrary: k now c)
  case (Suc n)
  obtain t c1 where g: "get_candle_data (replies k) now c = (Inl ApiError, t, c1)" "\<not> ac_logged_in c1"
    using candle_call_out[OF Suc.prems] by metis
  show ?case using Suc.IH[OF g(2), of "Suc k" "t + backoff jitter k"] by (auto simp: g(1) attempt_rows_def split: prod.split)
qed simp

lemma readable_rows: "readable r \<Longrightarrow> \<exists>cs. format_rows (rows_of r) = Some cs"
  using format_good[of "rows_of r"] by (force simp: readable_def rows_of_def split: api_reply.splits option.splits bool.splits)

definition fell_back :: "string \<Rightarrow> candle_caches \<Rightarrow> warm_candle list" where
  "fell_back key k = fst (fall_back key 0 k)"

lemma fst_fall_back: "fst (fall_back key now k) = fell_back key k"
  by (simp add: fell_back_def fall_back_def split: option.split list.split prod.split)

lemma historical_result:
  "ww_client w = Some c \<Longrightarrow> fst (get_historical_candles n wr key replies jitter now w) =
     (let cs = fst (fetch_attempts n 1 replies jitter now c) in if cs \<noteq> [] then cs else fell_back key (ww_caches w))"
  by (simp add: get_historical_candles_def Let_def fst_fall_back case_prod_beta)

lemma historical_calls:
  "ww_client w = Some c \<Longrightarrow> fst (snd (get_historical_candles n wr key replies jitter now w)) = snd (snd (snd (fetch_attempts n 1 replies jitter now c)))"
  by (simp add: get_historical_candles_def Let_def split: prod.split)

text \<open>C30: The retries of the warm-up never change what it answers: unless a row fails to convert, any number of attempts gives the
  candles a single attempt gives.  The client answers a refused or failed request with an empty list, which ends the attempts after
  one call; and a client that is not logged in fails in each.\<close>

theorem retries_change_nothing:
  assumes "0 < n" "\<And>k. readable (replies k)"
  shows "fst (get_historical_candles n wr key replies jitter now w) = fst (get_historical_candles 1 wr key replies jitter now w)
    \<and> (\<forall>c. ww_client w = Some c \<and> ac_logged_in c \<longrightarrow> fst (snd (get_historical_candles n wr key replies jitter now w)) = 1)"
proof (cases "ww_client w")
  case None
  then show ?thesis by (simp add: get_historical_candles_def)
next
  case (Some c)
  obtain m where n: "n = Suc m" using assms(1) gr0_conv_Suc by auto
  obtain cs where cs: "format_rows (rows_of (replies 1)) = Some cs" using readable_rows[OF assms(2)] by blast
  show ?thesis
  proof (cases "ac_logged_in c")
    case True
    note a = attempts_in[of c replies 1 cs, OF True cs]
    show ?thesis using a[of m] a(1)[of 0]
      unfolding historical_result[OF Some] historical_calls[OF Some] n by (simp add: Some Let_def del: fetch_attempts.simps)
  next
    case False
    show ?thesis using attempts_out[OF False] unfolding historical_result[OF Some] by (simp add: Some False Let_def del: fetch_attempts.simps)
  qed
qed

section \<open>After a restart\<close>

lemma failed_attempts: "fst (fetch_attempts n k (\<lambda>_. Raises msg) jitter now c) = []"
proof (cases "ac_logged_in c")
  case True
  show ?thesis
    by (cases n) (simp_all add: attempts_in(1)[OF True, of "\<lambda>_. Raises msg" k "[]"] rows_of_def del: fetch_attempts.simps(2))
qed (rule attempts_out)

text \<open>Candles fetched once are what the next process starts from when the broker refuses it: with the file written, a start with
  nothing in memory whose requests all fail answers the very candles of the earlier process - however long ago that was.\<close>

theorem warm_up_survives_restart:
  assumes "ww_client w = Some c" "ac_logged_in c" "0 < n" "replies 1 = Reply True m (Some rows)" "format_rows rows = Some cs" "cs \<noteq> []"
    and "get_historical_candles n True key replies jitter now w = (cs1, calls, t, w1)"
  shows "cs1 = cs
    \<and> fst (get_historical_candles n2 wr key (\<lambda>_. Raises msg) jitter2 later
             \<lparr>ww_client = Some c2, ww_caches = \<lparr>cc_memory = Map.empty, cc_disk = cc_disk (ww_caches w1)\<rparr>\<rparr>) = cs"
proof -
  obtain m where n: "n = Suc m" using assms(3) gr0_conv_Suc by auto
  have "format_rows (rows_of (replies 1)) = Some cs" using assms(4,5) by (simp add: rows_of_def del: One_nat_def)
  from attempts_in(1)[of c replies 1 cs, OF assms(2) this, of m] have f: "fst (fetch_attempts n 1 replies jitter now c) = cs" by (simp add: n)
  with assms(1,6,7) have cs1: "cs1 = cs" and disk: "cc_disk (ww_caches w1) (candle_cache_path key) = Some (Candle_Blob cs now)"
    by (auto simp: get_historical_candles_def Let_def save_candle_cache_def split: prod.splits)
  have "fell_back key \<lparr>cc_memory = Map.empty, cc_disk = cc_disk (ww_caches w1)\<rparr> = cs"
    using disk assms(6) by (simp add: fell_back_def fall_back_def load_candle_cache_def)
  then show ?thesis using cs1 by (simp add: historical_result failed_attempts Let_def)
qed

section \<open>Where candles come from\<close>

datatype warm_event =
    Fetch nat bool string "nat \<Rightarrow> raw_row list option api_reply" "nat \<Rightarrow> real" real
  | Restart "angel_client option"

definition answered :: "warm_event \<Rightarrow> warm_world \<Rightarrow> (string \<times> warm_candle list) list" where
  "answered e w =
     (case e of
        Fetch n wr key replies jitter now \<Rightarrow>
          (case ww_client w of None \<Rightarrow> []
           | Some c \<Rightarrow> let cs = fst (fetch_attempts n 1 replies jitter now c) in if cs = [] then [] else [(key, cs)])
      | Restart c \<Rightarrow> [])"

definition warm_step :: "warm_world \<times> (string \<times> warm_candle list) list \<Rightarrow> warm_event \<Rightarrow> warm_world \<times> (string \<times> warm_candle list) list" where
  "warm_step s e =
     (case s of (w, seen) \<Rightarrow>
       (case e of
          Fetch n wr key replies jitter now \<Rightarrow> snd (snd (snd (get_historical_candles n wr key replies jitter now w)))
        | Restart c \<Rightarrow> \<lparr>ww_client = c, ww_caches = \<lparr>cc_memory = Map.empty, cc_disk = cc_disk (ww_caches w)\<rparr>\<rparr>,
        seen @ answered e w))"

definition known :: "(string \<times> warm_candle list) list \<Rightarrow> string \<Rightarrow> warm_candle list \<Rightarrow> bool" where
  "known seen path cs \<longleftrightarrow> (\<exists>key. (key, cs) \<in> set seen \<and> candle_cache_path key = path)"

definition caches_known :: "warm_world \<times> (string \<times> warm_candle list) list \<Rightarrow> bool" where
  "caches_known s =
     (case s of (w, seen) \<Rightarrow>
       (\<forall>key cs t. cc_memory (ww_caches w) key = Some (cs, t) \<longrightarrow> known seen (candle_cache_path key) cs)
       \<and> (\<forall>path cs t. cc_disk (ww_caches w) path = Some (Candle_Blob cs t) \<longrightarrow> known seen path cs))"

lemma known_more: "known seen p cs \<Longrightarrow> known (seen @ ys) p cs"
  by (auto simp: known_def)

lemma fall_back_known:
  assumes "caches_known (w, seen)" "fall_back key now (ww_caches w) = (cs, k)"
  shows "cs \<noteq> [] \<Longrightarrow> known seen (candle_cache_path key) cs" "caches_known (w\<lparr>ww_client := c, ww_caches := k\<rparr>, seen)"
  using assms
  by (auto simp: caches_known_def fall_back_def load_candle_cache_def split: option.splits list.splits cache_blob.splits if_splits)

lemma fetch_known:
  assumes "caches_known (w, seen)" "get_historical_candles n wr key replies jitter now w = (cs, calls, t, w1)"
  shows "cs \<noteq> [] \<Longrightarrow> known (seen @ answered (Fetch n wr key replies jitter now) w) (candle_cache_path key) cs"
    "caches_known (w1, seen @ answered (Fetch n wr key replies jitter now) w)"
proof -
  have "(cs \<noteq> [] \<longrightarrow> known (seen @ answered (Fetch n wr key replies jitter now) w) (candle_cache_path key) cs)
    \<and> caches_known (w1, seen @ answered (Fetch n wr key replies jitter now) w)"
  proof (cases "ww_client w")
    case None
    then show ?thesis using assms by (auto simp: get_historical_candles_def answered_def)
  next
    case (Some c)
    obtain fs t1 c1 m where f: "fetch_attempts n 1 replies jitter now c = (fs, t1, c1, m)" by (metis surj_pair)
    show ?thesis
    proof (cases "fs = []")
      case True
      obtain cs' k' where b: "fall_back key t1 (ww_caches w) = (cs', k')" by fastforce
      from True Some f b assms(2) have "cs = cs'" "w1 = w\<lparr>ww_client := Some c1, ww_caches := k'\<rparr>" "answered (Fetch n wr key replies jitter now) w = []"
        by (auto simp: get_historical_candles_def answered_def)
      with fall_back_known[OF assms(1) b] show ?thesis by simp
    next
      case False
      then have "cs = fs" and a: "answered (Fetch n wr key replies jitter now) w = [(key, fs)]"
        and w1: "w1 = w\<lparr>ww_client := Some c1, ww_caches := save_candle_cache wr key fs now ((ww_caches w)\<lparr>cc_memory := (cc_memory (ww_caches w))(key \<mapsto> (fs, now))\<rparr>)\<rparr>"
        using Some f assms(2) by (auto simp: get_historical_candles_def answered_def Let_def)
      then have "known (seen @ [(key, fs)]) (candle_cache_path key) cs" by (auto simp: known_def)
      moreover have "caches_known (w1, seen @ [(key, fs)])"
        using assms(1) known_more[of seen _ _ "[(key, fs)]"]
        unfolding caches_known_def w1 save_candle_cache_def by (auto simp: known_def split: if_splits)
      ultimately show ?thesis by (simp add: a)
    qed
  qed
  then show "cs \<noteq> [] \<Longrightarrow> known (seen @ answered (Fetch n wr key replies jitter now) w) (candle_cache_path key) cs"
    "caches_known (w1, seen @ answered (Fetch n wr key replies jitter now) w)" by blast+
qed

interpretation warm_caches: invariant_system warm_step caches_known "\<lambda>_. True"
proof
  fix s :: "warm_world \<times> (string \<times> warm_candle list) list" and e
  assume s: "caches_known s"
  obtain w seen where p: "s = (w, seen)" by fastforce
  show "caches_known (warm_step s e)"
  proof (cases e)
    case (Fetch n wr key replies jitter now)
    obtain cs calls t w1 where g: "get_historical_candles n wr key replies jitter now w = (cs, calls, t, w1)" by (metis surj_pair)
    from fetch_known(2)[OF s[unfolded p] g] show ?thesis by (simp add: warm_step_def p Fetch g)
  next
    case (Restart c)
    with s show ?thesis by (simp add: warm_step_def p caches_known_def answered_def)
  qed
qed

text \<open>A process that starts with no cached candles only ever answers candles a broker gave: whatever requests, refusals and restarts
  come in between, a non-empty answer is one earlier answer of the broker, whole, to a request with the same cache file.\<close>

theorem candles_come_from_broker:
  assumes "foldl warm_step (\<lparr>ww_client = c0, ww_caches = \<lparr>cc_memory = Map.empty, cc_disk = Map.empty\<rparr>\<rparr>, []) es = (w, seen)"
    and "get_historical_candles n wr key replies jitter now w = (cs, calls, t, w1)" "cs \<noteq> []"
  shows "\<exists>key'. (key', cs) \<in> set (seen @ answered (Fetch n wr key replies jitter now) w) \<and> candle_cache_path key' = candle_cache_path key"
proof -
  have "caches_known (\<lparr>ww_client = c0, ww_caches = \<lparr>cc_memory = Map.empty, cc_disk = Map.empty\<rparr>\<rparr>, [])" by (simp add: caches_known_def)
  from warm_caches.inv_run[OF this, of es] have "caches_known (w, seen)" by (simp add: assms(1) list.pred_True)
  from fetch_known(1)[OF this assms(2,3)] show ?thesis by (auto simp: known_def)
qed

section \<open>A session\<close>

definition sample_client :: angel_client where
  "sample_client = new_client\<lparr>ac_logged_in := True\<rparr>"

definition sample_warm :: warm_candle where
  "sample_warm = \<lparr>wc_timestamp = ''2026-09-07T09:15:00+05:30'', wc_open = 25000, wc_high = 25040, wc_low = 24990, wc_close = 25020, wc_volume = 0\<rparr>"

definition sample_reply :: "raw_row list option api_reply" where
  "sample_reply = Reply True None (Some [Good_Row sample_warm, Short_Row])"

definition sample_world :: warm_world where
  "sample_world = \<lparr>ww_client = Some sample_client, ww_caches = \<lparr>cc_memory = Map.empty, cc_disk = Map.empty\<rparr>\<rparr>"

lemma sample_facts:
  "ww_client sample_world = Some sample_client" "ac_logged_in sample_client" "format_rows [Good_Row sample_warm, Short_Row] = Some [sample_warm]"
  "rows_of sample_reply = [Good_Row sample_warm, Short_Row]"
  by (simp_all add: sample_world_def sample_client_def sample_reply_def rows_of_def)

text \<open>The broker refuses the first request for its rate and would answer the second; the second is never made.\<close>

theorem retries_change_nothing_witness:
  "(let replies = (\<lambda>k. if k = 1 then Raises ''exceeding access rate'' else sample_reply)
    in fst (get_historical_candles 3 True (cache_key ''NSE'' ''99926000'' ''FIVE_MINUTE'') replies (\<lambda>_. 1 / 2) 0 sample_world) = []
     \<and> fst (snd (get_historical_candles 3 True (cache_key ''NSE'' ''99926000'' ''FIVE_MINUTE'') replies (\<lambda>_. 1 / 2) 0 sample_world)) = 1)"
proof -
  define replies where "replies = (\<lambda>k::nat. if k = 1 then Raises ''exceeding access rate'' else sample_reply)"
  define key where "key = cache_key ''NSE'' ''99926000'' ''FIVE_MINUTE''"
  have r: "readable (replies k)" for k by (simp add: replies_def readable_def sample_reply_def)
  have "format_rows (rows_of (replies 1)) = Some []" by (simp add: replies_def rows_of_def)
  from attempts_in(1)[of sample_client replies 1, OF sample_facts(2) this, of 0 "\<lambda>_. 1 / 2" 0]
  have "fst (get_historical_candles 1 True key replies (\<lambda>_. 1 / 2) 0 sample_world) = []"
    using sample_facts(1) by (simp add: historical_result Let_def fell_back_def fall_back_def load_candle_cache_def sample_world_def)
  then show ?thesis
    using retries_change_nothing[of 3 replies True key "\<lambda>_. 1 / 2" 0 sample_world, OF _ r] sample_facts(1,2)
    unfolding Let_def replies_def[symmetric] key_def[symmetric] by simp
qed

definition sample_key :: string where
  "sample_key = cache_key ''NSE'' ''99926000'' ''FIVE_MINUTE''"

theorem warm_up_survives_restart_witness:
  "\<exists>w1 :: warm_world. fst (get_historical_candles 3 True sample_key (\<lambda>_. Raises ''Access denied'') (\<lambda>_. 1 / 2) 8640000
     \<lparr>ww_client = Some sample_client, ww_caches = \<lparr>cc_memory = Map.empty, cc_disk = cc_disk (ww_caches w1)\<rparr>\<rparr>) = [sample_warm]"
proof -
  obtain cs1 calls t w1 where g: "get_historical_candles 3 True sample_key (\<lambda>_. sample_reply) (\<lambda>_. 1 / 2) 0 sample_world = (cs1, calls, t, w1)"
    by (metis surj_pair)
  have "fst (get_historical_candles 3 True sample_key (\<lambda>_. Raises ''Access denied'') (\<lambda>_. 1 / 2) 8640000
     \<lparr>ww_client = Some sample_client, ww_caches = \<lparr>cc_memory = Map.empty, cc_disk = cc_disk (ww_caches w1)\<rparr>\<rparr>) = [sample_warm]"
  proof (rule conjunct2, rule warm_up_survives_restart)
    show "get_historical_candles 3 True sample_key (\<lambda>_. sample_reply) (\<lambda>_. 1 / 2) 0 sample_world = (cs1, calls, t, w1)" by (rule g)
    show "sample_reply = Reply True None (Some [Good_Row sample_warm, Short_Row])" by (simp add: sample_reply_def)
  qed (rule sample_facts | simp)+
  then show ?thesis by (rule exI[of _ w1])
qed

theorem candles_come_from_broker_witness:
  "\<exists>w seen. (sample_key, [sample_warm]) \<in> set (seen @ answered (Fetch 3 True sample_key (\<lambda>_. sample_reply) (\<lambda>_. 1 / 2) 0) w)"
proof -
  obtain cs calls t w1 where g: "get_historical_candles 3 True sample_key (\<lambda>_. sample_reply) (\<lambda>_. 1 / 2) 0 sample_world = (cs, calls, t, w1)"
    by (metis surj_pair)
  have "fst (fetch_attempts (Suc 2) 1 (\<lambda>_. sample_reply) (\<lambda>_. 1 / 2) 0 sample_client) = [sample_warm]"
    by (rule attempts_in(1)) (simp_all add: sample_facts)
  then have a: "fst (fetch_attempts 3 1 (\<lambda>_. sample_reply) (\<lambda>_. 1 / 2) 0 sample_client) = [sample_warm]" by (simp add: numeral_3_eq_3)
  have "fst (get_historical_candles 3 True sample_key (\<lambda>_. sample_reply) (\<lambda>_. 1 / 2) 0 sample_world) = [sample_warm]"
    unfolding historical_result[OF sample_facts(1)] a by simp
  then have cs: "cs = [sample_warm]" by (simp add: g)
  have "foldl warm_step (\<lparr>ww_client = Some sample_client, ww_caches = \<lparr>cc_memory = Map.empty, cc_disk = Map.empty\<rparr>\<rparr>, []) [] = (sample_world, [])"
    by (simp add: sample_world_def)
  note p = candles_come_from_broker[OF this g]
  have "answered (Fetch 3 True sample_key (\<lambda>_. sample_reply) (\<lambda>_. 1 / 2) 0) sample_world = [(sample_key, [sample_warm])]"
    by (simp add: answered_def sample_facts(1) a[unfolded One_nat_def] Let_def del: fetch_attempts.simps)
  with p cs have "(sample_key, [sample_warm]) \<in> set ([] @ answered (Fetch 3 True sample_key (\<lambda>_. sample_reply) (\<lambda>_. 1 / 2) 0) sample_world)" by auto
  then show ?thesis by blast
qed

end
