(* ===== verification/Scrip_Master.thy ===== *)
theory Scrip_Master
  imports Config_Validator Angel_Client
begin

text \<open>
  The instrument master: its download and its cache file (\<open>_load_scrip_master\<close> and \<open>_get_token\<close> of \<open>core/trading/broker.py\<close>), and
  the contracts \<open>utils/instruments.py\<close> reads from that file.  Dictionaries are association lists in insertion order.  The fields of a
  contract are texts, empty when absent; a text that stands for an infinite number or none (\<open>inf\<close>, \<open>nan\<close>) is not published.  The
  answer of the broker's web site is an argument, and so is what comes of writing the file.
\<close>

section \<open>The published list and the file\<close>

record contract_fields =
  cf_token :: string
  cf_expiry :: string
  cf_strike :: string
  cf_lotsize :: string
  cf_tick_size :: string
  cf_freeze_qty :: string
  cf_kind :: string

record master_item = contract_fields +
  mi_exch_seg :: string
  mi_name :: string
  mi_symbol :: string

text \<open>An element of a list that is not a dictionary is \<open>None\<close>; so is a value of the document that is not one.\<close>

datatype master_blob =
    Published "master_item option list"
  | Cached "(string \<times> string) list option" "(string \<times> contract_fields) list option"
  | Other_Json

datatype master_file = No_File | Garbled | Master_File real master_blob

datatype write_result = Written | Not_Opened | Cut_Short

record instrument_master =
  im_tokens :: "(string \<times> string) list"
  im_contracts :: "(string \<times> contract_fields) list"
  im_file :: master_file

definition new_process :: "master_file \<Rightarrow> instrument_master" where
  "new_process f = \<lparr>im_tokens = [], im_contracts = [], im_file = f\<rparr>"

section \<open>Loading\<close>

definition dict_update :: "('k \<times> 'v) list \<Rightarrow> ('k \<times> 'v) list \<Rightarrow> ('k \<times> 'v) list" where
  "dict_update new d = fold (\<lambda>(k, v). AList.update k v) new d"

text \<open>The cached copy, and whether it is enough.\<close>

definition read_master_cache :: "real \<Rightarrow> real \<Rightarrow> instrument_master \<Rightarrow> bool \<times> instrument_master" where
  "read_master_cache ttl now st =
     (case im_file st of
        Master_File mtime (Cached tm cs) \<Rightarrow>
          let st1 = st\<lparr>im_contracts := dict_update (get_or [] cs) (im_contracts st)\<rparr>
          in if get_or [] tm = [] then (False, st1)
             else (now - mtime \<le> ttl \<and> im_contracts st1 \<noteq> [],
                   st1\<lparr>im_tokens := dict_update (filter (\<lambda>(k, v). k \<noteq> '''' \<and> v \<noteq> '''') (get_or [] tm)) (im_tokens st1)\<rparr>)
      | _ \<Rightarrow> (False, st))"

definition nifty_option :: "master_item \<Rightarrow> bool" where
  "nifty_option i \<longleftrightarrow> mi_exch_seg i = ''NFO'' \<and> mi_name i = ''NIFTY'' \<and> mi_symbol i \<noteq> '''' \<and> cf_token i \<noteq> ''''"

definition take_item :: "master_item \<Rightarrow> instrument_master \<Rightarrow> instrument_master" where
  "take_item i st =
     (if nifty_option i
      then st\<lparr>im_tokens := AList.update (mi_symbol i) (cf_token i) (im_tokens st),
              im_contracts := AList.update (mi_symbol i) (contract_fields.truncate i) (im_contracts st)\<rparr>
      else st)"

text \<open>An element that is not a dictionary raises: what came before it is kept, and the file is not written.\<close>

fun take_items :: "master_item option list \<Rightarrow> instrument_master \<Rightarrow> bool \<times> instrument_master" where
  "take_items [] st = (True, st)"
| "take_items (None # is) st = (False, st)"
| "take_items (Some i # is) st = take_items is (take_item i st)"

definition save_master :: "real \<Rightarrow> write_result \<Rightarrow> instrument_master \<Rightarrow> instrument_master" where
  "save_master now r st =
     (case r of
        Written \<Rightarrow> st\<lparr>im_file := Master_File now (Cached (Some (im_tokens st)) (Some (im_contracts st)))\<rparr>
      | Not_Opened \<Rightarrow> st
      | Cut_Short \<Rightarrow> st\<lparr>im_file := Garbled\<rparr>)"

text \<open>The first component says whether the list was asked for.\<close>

definition load_scrip_master ::
  "real \<Rightarrow> real \<Rightarrow> master_item option list option \<Rightarrow> write_result \<Rightarrow> instrument_master \<Rightarrow> bool \<times> instrument_master" where
  "load_scrip_master ttl now download r st =
     (case read_master_cache ttl now st of
        (True, st1) \<Rightarrow> (False, st1)
      | (False, st1) \<Rightarrow>
          (True, case download of
                   None \<Rightarrow> st1
                 | Some is \<Rightarrow> (case take_items is st1 of (ok, st2) \<Rightarrow> if ok then save_master now r st2 else st2)))"

definition SCRIP_MASTER_CACHE_TTL :: real where
  "SCRIP_MASTER_CACHE_TTL = 6 * 60 * 60"

section \<open>Tokens\<close>

definition get_token ::
  "scrip list option api_reply \<Rightarrow> real \<Rightarrow> string \<Rightarrow> string \<Rightarrow> angel_client option \<times> instrument_master
    \<Rightarrow> string option \<times> angel_client option \<times> instrument_master" where
  "get_token reply now xch symbol s =
     (case s of (client, st) \<Rightarrow>
        let t = get_or '''' (map_of (im_tokens st) symbol)
        in if t \<noteq> '''' then (Some t, s)
           else case client of
                  None \<Rightarrow> (None, s)
                | Some c \<Rightarrow>
                    (case get_symbol_token reply now symbol xch c of
                       (Inl _, c1) \<Rightarrow> (None, Some c1, st)
                     | (Inr found, c1) \<Rightarrow>
                         (found, Some c1, if get_or '''' found \<noteq> '''' then st\<lparr>im_tokens := AList.update symbol (the found) (im_tokens st)\<rparr> else st)))"

section \<open>The contracts of the file\<close>

text \<open>\<open>strptime\<close> with \<open>%d%b%Y\<close>, then with \<open>%d%b%y\<close>.\<close>

definition MONTH_NAMES :: "string list" where
  "MONTH_NAMES = [''jan'', ''feb'', ''mar'', ''apr'', ''may'', ''jun'', ''jul'', ''aug'', ''sep'', ''oct'', ''nov'', ''dec'']"

definition day_part :: "string \<Rightarrow> (int \<times> string) option" where
  "day_part s =
     (case s of
        a # b # r \<Rightarrow>
          if is_digit a \<and> is_digit b then (case parse_digits 2 0 s of Some (d, r') \<Rightarrow> if 1 \<le> d \<and> d \<le> 31 then Some (int d, r') else None | None \<Rightarrow> None)
          else if is_digit a \<and> a \<noteq> CHR ''0'' then Some (int (of_char a) - 48, b # r)
          else if a = CHR '' '' \<and> is_digit b \<and> b \<noteq> CHR ''0'' then Some (int (of_char b) - 48, r)
          else None
      | _ \<Rightarrow> None)"

fun index_of :: "'a \<Rightarrow> 'a list \<Rightarrow> nat \<Rightarrow> nat option" where
  "index_of x [] n = None"
| "index_of x (y # ys) n = (if x = y then Some n else index_of x ys (Suc n))"

definition year_part :: "string \<Rightarrow> int option" where
  "year_part s =
     (case parse_digits 4 0 s of
        Some (y, []) \<Rightarrow> Some (int y)
      | _ \<Rightarrow> (case parse_digits 2 0 s of
               Some (y, []) \<Rightarrow> Some (if y \<le> 68 then 2000 + int y else 1900 + int y)
             | _ \<Rightarrow> None))"

definition parse_expiry :: "string \<Rightarrow> int option" where
  "parse_expiry s =
     (case day_part s of None \<Rightarrow> None
      | Some (d, r) \<Rightarrow>
          (case index_of (map char_lower (take 3 r)) MONTH_NAMES 1 of None \<Rightarrow> None
           | Some m \<Rightarrow>
               (case year_part (drop 3 r) of None \<Rightarrow> None
                | Some y \<Rightarrow> if valid_date y m d then Some (ordinal_of y m d) else None)))"

text \<open>\<open>NIFTY24MAR2523500CE\<close>: the expiry in the symbol.\<close>

definition is_upper :: "char \<Rightarrow> bool" where
  "is_upper c \<longleftrightarrow> 65 \<le> (of_char c :: nat) \<and> (of_char c :: nat) \<le> 90"

definition symbol_expiry :: "string \<Rightarrow> int option" where
  "symbol_expiry s0 =
     (let s = (if Instruments.ends_with [CHR 0x0A] s0 then butlast s0 else s0);
          day = take 7 (drop 5 s);
          tail = drop 12 s;
          strike = take (length tail - 2) tail
      in if Instruments.starts_with ''NIFTY'' s \<and> length day = 7 \<and> list_all is_digit (take 2 day) \<and> list_all is_upper (take 3 (drop 2 day))
            \<and> list_all is_digit (drop 5 day) \<and> strike \<noteq> [] \<and> list_all is_digit strike \<and> (Instruments.ends_with ''CE'' tail \<or> Instruments.ends_with ''PE'' tail)
         then parse_expiry day else None)"

definition num_of :: "string \<Rightarrow> real \<Rightarrow> real option" where
  "num_of s scale = (case parse_float s of Some (Num x) \<Rightarrow> Some (x / scale) | _ \<Rightarrow> None)"

definition whole_of :: "string \<Rightarrow> int option" where
  "whole_of s = (let n = py_int (get_or 0 (num_of s 1)) in if n = 0 then None else Some n)"

definition record_of :: "string \<Rightarrow> contract_fields \<Rightarrow> contract option" where
  "record_of symbol raw =
     (case (case (if cf_expiry raw = '''' then None else parse_expiry (cf_expiry raw)) of None \<Rightarrow> symbol_expiry symbol | e \<Rightarrow> e) of
        None \<Rightarrow> None
      | Some e \<Rightarrow> Some \<lparr>c_symbol = symbol, c_token = cf_token raw, c_expiry = e, c_strike = num_of (cf_strike raw) 100, c_lot_size = whole_of (cf_lotsize raw),
                        c_tick_size = num_of (cf_tick_size raw) 100, c_freeze_qty = whole_of (cf_freeze_qty raw), c_kind = cf_kind raw\<rparr>)"

definition only_token :: "string \<Rightarrow> contract_fields" where
  "only_token t = \<lparr>cf_token = t, cf_expiry = [], cf_strike = [], cf_lotsize = [], cf_tick_size = [], cf_freeze_qty = [], cf_kind = []\<rparr>"

definition rows_of_blob :: "master_blob \<Rightarrow> contract list" where
  "rows_of_blob b =
     (case b of
        Published is \<Rightarrow> List.map_filter (\<lambda>i. case i of None \<Rightarrow> None | Some x \<Rightarrow> record_of (mi_symbol x) (contract_fields.truncate x)) is
      | Cached tm cs \<Rightarrow>
          if get_or [] cs \<noteq> [] then List.map_filter (\<lambda>(k, raw). record_of k raw) (get_or [] cs)
          else List.map_filter (\<lambda>(k, t). record_of k (only_token t)) (get_or [] tm)
      | Other_Json \<Rightarrow> [])"

text \<open>\<open>contracts()\<close>; it is read again whenever the file changes.\<close>

definition contracts :: "master_file \<Rightarrow> contract list" where
  "contracts f = (case f of Master_File _ b \<Rightarrow> rows_of_blob b | _ \<Rightarrow> [])"

section \<open>What stays in the dictionaries\<close>

lemma map_of_dict_update: "map_of (dict_update new d) = map_of d ++ map_of (rev new)"
  unfolding dict_update_def by (rule map_of_load)

lemma distinct_dict_update: "distinct (map fst d) \<Longrightarrow> distinct (map fst (dict_update new d))"
  unfolding dict_update_def by (induction new arbitrary: d) (auto simp: distinct_update)

lemma keys_dict_update: "fst ` set (dict_update new d) = fst ` set d \<union> fst ` set new"
  by (metis (no_types, lifting) map_of_dict_update dom_map_add dom_map_of_conv_image_fst set_rev sup_commute)

lemma update_new: "k \<notin> fst ` set d \<Longrightarrow> AList.update k v d = d @ [(k, v)]"
  by (induction d) auto

lemma dict_update_new: "distinct (map fst new) \<Longrightarrow> fst ` set new \<inter> fst ` set d = {} \<Longrightarrow> dict_update new d = d @ new"
  unfolding dict_update_def by (induction new arbitrary: d) (auto simp: update_new image_iff)

lemma take_item_keys: "fst ` set (im_contracts st) \<subseteq> fst ` set (im_contracts (take_item i st))"
  by (auto simp: take_item_def update_conv' dom_map_of_conv_image_fst[symmetric])

lemma take_items_keys: "take_items is st = (ok, st') \<Longrightarrow> fst ` set (im_contracts st) \<subseteq> fst ` set (im_contracts st')"
proof (induction "is" st rule: take_items.induct)
  case (3 i "is" st)
  with take_item_keys[of st i] show ?case by (auto dest: order_trans)
qed auto

lemma take_items_file: "take_items is st = (ok, st') \<Longrightarrow> im_file st' = im_file st"
  by (induction "is" st rule: take_items.induct) (auto simp: take_item_def split: if_splits)

text \<open>The symbols of the contracts a file names.\<close>

definition listed :: "master_file \<Rightarrow> string set" where
  "listed f = (case f of Master_File _ (Cached _ cs) \<Rightarrow> fst ` set (get_or [] cs) | _ \<Rightarrow> {})"

lemma read_cache_facts:
  assumes "read_master_cache ttl now st = (hit, st1)"
  shows "im_file st1 = im_file st" "listed (im_file st) \<subseteq> fst ` set (im_contracts st1)" "fst ` set (im_contracts st) \<subseteq> fst ` set (im_contracts st1)"
proof -
  let ?cs = "case im_file st of Master_File _ (Cached _ cs) \<Rightarrow> get_or [] cs | _ \<Rightarrow> []"
  have "im_file st1 = im_file st \<and> im_contracts st1 = dict_update ?cs (im_contracts st)"
    using assms by (auto simp: read_master_cache_def Let_def dict_update_def split: master_file.splits master_blob.splits if_splits)
  moreover have "listed (im_file st) = fst ` set ?cs" by (simp add: listed_def split: master_file.split master_blob.split)
  ultimately show "im_file st1 = im_file st" "listed (im_file st) \<subseteq> fst ` set (im_contracts st1)" "fst ` set (im_contracts st) \<subseteq> fst ` set (im_contracts st1)"
    by (auto simp only: keys_dict_update)
qed

lemma load_keeps_listed:
  assumes "r \<noteq> Cut_Short"
  shows "listed (im_file st) \<subseteq> listed (im_file (snd (load_scrip_master ttl now download r st)))"
proof -
  obtain hit st1 where c: "read_master_cache ttl now st = (hit, st1)" by fastforce
  note f = read_cache_facts[OF c]
  show ?thesis
  proof (cases "hit \<or> download = None")
    case True
    then show ?thesis using f(1) by (auto simp: load_scrip_master_def c split: bool.split)
  next
    case False
    then obtain "is" where d: "download = Some is" "\<not> hit" by auto
    obtain ok st2 where t: "take_items is st1 = (ok, st2)" by fastforce
    show ?thesis using d f take_items_keys[OF t] take_items_file[OF t] assms
      by (cases r) (auto simp: load_scrip_master_def c t save_master_def listed_def)
  qed
qed

text \<open>A start of the bot: a new process on the file the last one left.\<close>

record master_start =
  start_now :: real
  start_download :: "master_item option list option"
  start_written :: write_result

definition master_step :: "master_file \<Rightarrow> master_start \<Rightarrow> master_file" where
  "master_step f e = im_file (snd (load_scrip_master SCRIP_MASTER_CACHE_TTL (start_now e) (start_download e) (start_written e) (new_process f)))"

interpretation listings: invariant_system master_step "\<lambda>f. symbol \<in> listed f" "\<lambda>e :: master_start. start_written e \<noteq> Cut_Short" for symbol
proof
  fix f and e :: master_start
  assume "symbol \<in> listed f" "start_written e \<noteq> Cut_Short"
  then show "symbol \<in> listed (master_step f e)"
    using load_keeps_listed[of "start_written e" "new_process f" SCRIP_MASTER_CACHE_TTL "start_now e" "start_download e"]
    by (auto simp: master_step_def new_process_def)
qed

text \<open>A contract in the cache file is never dropped from it: whatever the exchange lists at later starts, days or months on, the
  file still names it.\<close>

theorem delisted_contracts_stay:
  assumes "symbol \<in> listed f" "list_all (\<lambda>e :: master_start. start_written e \<noteq> Cut_Short) es"
  shows "symbol \<in> listed (foldl master_step f es)"
  by (rule listings.inv_run[OF assms])

section \<open>The lot of the file\<close>

lemma count_replicate: "count_list (replicate n x) y = (if x = y then n else 0)"
  by (induction n) auto

lemma most_common_keeps: "\<forall>z\<in>set xs. count_list vals z \<le> count_list vals b \<Longrightarrow> most_common_from vals xs (Some b) = Some b"
  by (induction xs) auto

lemma most_common_majority:
  assumes "n \<le> m" "0 < m"
  shows "most_common (replicate m x @ replicate n y) = Some x"
proof -
  obtain k where "m = Suc k" using assms(2) gr0_conv_Suc by auto
  then show ?thesis using assms(1)
    by (simp add: most_common_def most_common_keeps count_replicate del: count_list.simps) (auto intro!: most_common_keeps simp: count_replicate)
qed

text \<open>An entry of the file that reads as an option with a lot of L.\<close>

definition option_of_lot :: "int \<Rightarrow> string \<times> contract_fields \<Rightarrow> bool" where
  "option_of_lot L e = (case e of (k, raw) \<Rightarrow> whole_of (cf_lotsize raw) = Some L \<and> Instruments.starts_with ''OPT'' (cf_kind raw) \<and> record_of k raw \<noteq> None)"

lemma map_filter_append: "List.map_filter f (xs @ ys) = List.map_filter f xs @ List.map_filter f ys"
  by (simp add: map_filter_def)

lemma option_rows:
  assumes "list_all (option_of_lot L) es"
  shows "map c_lot_size (List.map_filter (\<lambda>(k, raw). record_of k raw) es) = replicate (length es) (Some L)"
    "list_all (\<lambda>r. Instruments.starts_with ''OPT'' (c_kind r)) (List.map_filter (\<lambda>(k, raw). record_of k raw) es)"
  using assms
  by (induction es) (auto simp: map_filter_simps option_of_lot_def record_of_def split: option.splits if_splits)

lemma take_items_new:
  assumes "list_all nifty_option is" "distinct (map mi_symbol is)" "fst ` set (im_contracts st) \<inter> mi_symbol ` set is = {}"
  shows "\<exists>tk. take_items (map Some is) st = (True, st\<lparr>im_tokens := tk, im_contracts := im_contracts st @ map (\<lambda>i. (mi_symbol i, contract_fields.truncate i)) is\<rparr>)"
  using assms
proof (induction "is" arbitrary: st)
  case (Cons i "is")
  then have "im_contracts (take_item i st) = im_contracts st @ [(mi_symbol i, contract_fields.truncate i)]"
    by (simp add: take_item_def update_new)
  with Cons.prems Cons.IH[of "take_item i st"] show ?case by (force simp: take_item_def)
next
  case Nil
  show ?case by (simp, rule exI[of _ "im_tokens st"]) simp
qed

text \<open>C25: The contracts left over from earlier downloads vote on the lot size: when the exchange lists new contracts with a new lot, the
  bot goes on reading the old one from the file as long as the contracts left in it are not outnumbered.\<close>

theorem stale_lot_outvotes:
  assumes "distinct (map fst old)" "list_all (option_of_lot L) old" "L \<noteq> 0" "old \<noteq> []"
    and "list_all nifty_option items" "list_all (\<lambda>i. option_of_lot L' (mi_symbol i, contract_fields.truncate i)) items" "L' \<noteq> 0"
    and "distinct (map mi_symbol items)" "fst ` set old \<inter> mi_symbol ` set items = {}" "length items \<le> length old"
    and "ttl < now - saved"
  shows "lot_size (contracts (im_file (snd (load_scrip_master ttl now (Some (map Some items)) Written
            (new_process (Master_File saved (Cached tm (Some old)))))))) = Some L"
proof -
  let ?new = "map (\<lambda>i. (mi_symbol i, contract_fields.truncate i)) items"
  define st0 where "st0 = new_process (Master_File saved (Cached tm (Some old)))"
  obtain st1 where c: "read_master_cache ttl now st0 = (False, st1)"
  proof (cases "read_master_cache ttl now st0")
    case (Pair hit st1)
    then show ?thesis using that assms(11) by (cases hit) (auto simp: read_master_cache_def st0_def new_process_def Let_def split: if_splits)
  qed
  then have con: "im_contracts st1 = old"
    using assms(1) dict_update_new[of old "[]"] by (auto simp: read_master_cache_def st0_def new_process_def Let_def split: if_splits)
  obtain tk where t: "take_items (map Some items) st1 = (True, st1\<lparr>im_tokens := tk, im_contracts := old @ ?new\<rparr>)"
    using take_items_new[of items st1] assms(5,8,9) con by auto
  let ?rows = "List.map_filter (\<lambda>(k, raw). record_of k raw) (old @ ?new)"
  have rows: "contracts (im_file (snd (load_scrip_master ttl now (Some (map Some items)) Written
            (new_process (Master_File saved (Cached tm (Some old))))))) = ?rows"
    unfolding st0_def[symmetric] using assms(4) by (simp add: load_scrip_master_def c t save_master_def contracts_def rows_of_blob_def)
  have all: "list_all (option_of_lot L') ?new" using assms(6) by (simp add: list_all_iff)
  have lots: "map c_lot_size ?rows = replicate (length old) (Some L) @ replicate (length items) (Some L')"
    using option_rows(1)[OF assms(2)] option_rows(1)[OF all] by (simp add: map_filter_append)
  have "list_all (\<lambda>r. Instruments.starts_with ''OPT'' (c_kind r)) ?rows"
    using option_rows(2)[OF assms(2)] option_rows(2)[OF all] by (simp add: map_filter_append)
  then have typed: "filter (\<lambda>r. Instruments.starts_with ''OPT'' (c_kind r)) ?rows = ?rows" by (simp add: list_all_iff)
  have "?rows \<noteq> []" using lots assms(4) by fastforce
  then have "lot_size ?rows = modal (replicate (length old) (Some L) @ replicate (length items) (Some L'))"
    by (simp add: lot_size_def options_of_def typed lots Let_def)
  also have "\<dots> = Some L"
    using assms(3,4,7,10) by (simp add: modal_def map_filter_append map_filter_def filter_replicate most_common_majority)
  finally show ?thesis by (simp only: rows)
qed

section \<open>The next start\<close>

definition tidy :: "instrument_master \<Rightarrow> bool" where
  "tidy st \<longleftrightarrow> distinct (map fst (im_tokens st)) \<and> distinct (map fst (im_contracts st)) \<and> (\<forall>(k, v)\<in>set (im_tokens st). k \<noteq> '''' \<and> v \<noteq> '''')"

lemma set_update: "set (AList.update k v d) \<subseteq> insert (k, v) (set d)"
  by (induction d) auto

lemma set_dict_update: "set (dict_update new d) \<subseteq> set d \<union> set new"
  unfolding dict_update_def by (induction new arbitrary: d) (auto dest!: subsetD[OF set_update] subsetD)

lemma tidy_cache: "read_master_cache ttl now (new_process f) = (hit, st) \<Longrightarrow> tidy st"
  using set_dict_update by (fastforce simp: read_master_cache_def new_process_def tidy_def Let_def distinct_dict_update
    split: master_file.splits master_blob.splits if_splits)

lemma tidy_take: "tidy st \<Longrightarrow> tidy (take_item i st)"
  by (auto simp: tidy_def take_item_def nifty_option_def distinct_update dest!: subsetD[OF set_update])

lemma tidy_items: "take_items is st = (ok, st') \<Longrightarrow> tidy st \<Longrightarrow> tidy st'"
  by (induction "is" st rule: take_items.induct) (auto simp: tidy_take)

text \<open>A start within six hours of a complete download needs none: it takes from the file exactly the tokens and contracts the
  earlier process had, in the same order.\<close>

theorem restart_reuses_master:
  assumes "load_scrip_master ttl now (Some items) Written (new_process f) = (True, st)" "None \<notin> set items"
    and "im_tokens st \<noteq> []" "im_contracts st \<noteq> []" "later - now \<le> ttl"
  shows "load_scrip_master ttl later download r (new_process (im_file st)) = (False, st)"
proof -
  obtain st1 where c: "read_master_cache ttl now (new_process f) = (False, st1)"
    using assms(1) by (auto simp: load_scrip_master_def split: prod.splits bool.splits)
  obtain ok st2 where t: "take_items items st1 = (ok, st2)" by fastforce
  have ok using assms(2) t by (induction items st1 rule: take_items.induct) auto
  with assms(1) c t have st: "st = save_master now Written st2" by (simp add: load_scrip_master_def)
  have "tidy st2" by (rule tidy_items[OF t tidy_cache[OF c]])
  then have tidy: "distinct (map fst (im_tokens st))" "distinct (map fst (im_contracts st))" "\<forall>(k, v)\<in>set (im_tokens st). k \<noteq> '''' \<and> v \<noteq> ''''"
    by (simp_all add: st save_master_def tidy_def)
  have kept: "im_file st = Master_File now (Cached (Some (im_tokens st)) (Some (im_contracts st)))" by (simp add: st save_master_def)
  have "filter (\<lambda>(k, v). k \<noteq> '''' \<and> v \<noteq> '''') (im_tokens st) = im_tokens st" using tidy(3) by (auto intro: filter_True)
  then show ?thesis
    using assms(3-5) tidy dict_update_new[of "im_tokens st" "[]"] dict_update_new[of "im_contracts st" "[]"]
    by (simp add: load_scrip_master_def read_master_cache_def kept new_process_def Let_def)
qed

section \<open>Looking tokens up\<close>

record token_query =
  tq_reply :: "scrip list option api_reply"
  tq_now :: real
  tq_exchange :: string
  tq_symbol :: string

definition token_step :: "angel_client option \<times> instrument_master \<Rightarrow> token_query \<Rightarrow> angel_client option \<times> instrument_master" where
  "token_step s q = snd (get_token (tq_reply q) (tq_now q) (tq_exchange q) (tq_symbol q) s)"

definition has_token :: "string \<Rightarrow> string \<Rightarrow> angel_client option \<times> instrument_master \<Rightarrow> bool" where
  "has_token symbol t s \<longleftrightarrow> map_of (im_tokens (snd s)) symbol = Some t"

lemma get_token_keeps:
  assumes "has_token symbol t s" "t \<noteq> ''''"
  shows "has_token symbol t (snd (get_token reply now xch k s))"
  using assms
  by (cases s) (auto simp: has_token_def get_token_def Let_def update_conv split: option.split prod.split sum.split)

interpretation tokens: invariant_system token_step "\<lambda>s. t \<noteq> '''' \<and> has_token symbol t s" "\<lambda>_. True" for symbol t
  by unfold_locales (auto simp: token_step_def get_token_keeps)

text \<open>A token once found is the answer for the rest of the session: whatever is looked up in between, the symbol is answered
  from the dictionary, without a call of the client.\<close>

theorem token_asked_once:
  assumes "get_token reply now xch symbol s = (Some t, s1)" "t \<noteq> ''''"
  shows "get_token reply2 now2 xch2 symbol (foldl token_step s1 qs) = (Some t, foldl token_step s1 qs)"
proof -
  have "has_token symbol t s1"
    using assms by (cases s) (auto simp: get_token_def has_token_def Let_def update_conv get_or_def split: option.splits prod.splits sum.splits if_splits)
  with tokens.inv_run[of t symbol s1 qs] assms(2) have "has_token symbol t (foldl token_step s1 qs)" by (simp add: list.pred_True)
  then show ?thesis using assms(2) by (cases "foldl token_step s1 qs") (simp add: get_token_def has_token_def Let_def)
qed

section \<open>Two downloads\<close>

definition sample_item :: "string \<Rightarrow> string \<Rightarrow> string \<Rightarrow> string \<Rightarrow> master_item" where
  "sample_item symbol token expiry lot =
     \<lparr>cf_token = token, cf_expiry = expiry, cf_strike = ''2350000.000000'', cf_lotsize = lot, cf_tick_size = ''5.000000'', cf_freeze_qty = ''1800'',
      cf_kind = ''OPTIDX'', mi_exch_seg = ''NFO'', mi_name = ''NIFTY'', mi_symbol = symbol\<rparr>"

definition last_years :: "(string \<times> contract_fields) list" where
  "last_years = map (\<lambda>s. (s, contract_fields.truncate (sample_item s ''41000'' ''30DEC2025'' ''75'')))
     [''NIFTY30DEC2525900CE'', ''NIFTY30DEC2525950CE'']"

definition this_years :: "master_item list" where
  "this_years = [sample_item ''NIFTY06JAN2625900CE'' ''51000'' ''06JAN2026'' ''65'', sample_item ''NIFTY06JAN2625900PE'' ''51001'' ''06JAN2026'' ''65'']"

lemma sample_expiries: "parse_expiry ''30DEC2025'' \<noteq> None" "parse_expiry ''06JAN2026'' \<noteq> None"
  by code_simp+

lemma sample_lots: "whole_of ''75'' = Some 75" "whole_of ''65'' = Some 65"
proof -
  have "parse_float ''75'' = Some (Num 75)" "parse_float ''65'' = Some (Num 65)"
    by (simp_all add: parse_float_def strip_def is_space_def split_sign_def char_lower_def is_digit_def parse_exponent_def decimal_value_def Let_def)
  then show "whole_of ''75'' = Some 75" "whole_of ''65'' = Some 65" by (simp_all add: whole_of_def num_of_def py_int_def)
qed

lemma sample_options: "list_all (option_of_lot 75) last_years" "list_all (\<lambda>i. option_of_lot 65 (mi_symbol i, contract_fields.truncate i)) this_years"
  using sample_expiries
  by (auto simp: last_years_def this_years_def sample_item_def option_of_lot_def sample_lots contract_fields.defs Instruments.starts_with_def record_of_def)

theorem stale_lot_outvotes_witness:
  "lot_size (contracts (im_file (snd (load_scrip_master 21600 86400 (Some (map Some this_years)) Written
     (new_process (Master_File 0 (Cached None (Some last_years)))))))) = Some 75"
  by (rule stale_lot_outvotes[where L' = 65])
    (simp_all add: sample_options, simp_all add: last_years_def this_years_def sample_item_def nifty_option_def)

theorem delisted_contracts_stay_witness:
  "''NIFTY30DEC2525900CE'' \<in> listed (foldl master_step (Master_File 0 (Cached None (Some last_years)))
     [\<lparr>start_now = 86400, start_download = Some (map Some this_years), start_written = Written\<rparr>])"
  by (rule delisted_contracts_stay) (simp_all add: listed_def last_years_def)

theorem restart_reuses_master_witness:
  "\<exists>st. load_scrip_master 21600 100 (Some (map Some this_years)) Written (new_process No_File) = (True, st)
     \<and> load_scrip_master 21600 3700 None Not_Opened (new_process (im_file st)) = (False, st)"
proof -
  obtain st where l: "load_scrip_master 21600 100 (Some (map Some this_years)) Written (new_process No_File) = (True, st)"
      "im_tokens st \<noteq> []" "im_contracts st \<noteq> []"
    by (simp add: load_scrip_master_def read_master_cache_def new_process_def this_years_def take_item_def sample_item_def nifty_option_def save_master_def)
  from restart_reuses_master[OF l(1) _ l(2,3), of 3700 None Not_Opened] l(1) show ?thesis by auto
qed

theorem token_asked_once_witness:
  "\<exists>s. fst (get_token (Raises ''timed out'') 5 ''NFO'' ''N'' s) = Some ''7'' \<and> im_contracts (snd s) = []"
proof -
  let ?r = "Reply True None (Some [\<lparr>scr_tradingsymbol = Some ''N'', scr_symbol = None, scr_symboltoken = Some ''7'', scr_token = None\<rparr>])"
  obtain c where "get_symbol_token ?r 1 ''N'' ''NFO'' new_client = (Inr (Some ''7''), c)"
    by (simp add: get_symbol_token_def get_cached_symbol_token_def is_symbol_cache_valid_def new_client_def first_token_simps scrip_token_def get_or_def)
  then have g: "get_token ?r 1 ''NFO'' ''N'' (Some new_client, new_process No_File) = (Some ''7'', Some c, (new_process No_File)\<lparr>im_tokens := [(''N'', ''7'')]\<rparr>)"
    by (simp add: get_token_def new_process_def)
  from token_asked_once[OF g, of "Raises ''timed out''" 5 "''NFO''" "[]"] show ?thesis
    by (intro exI[of _ "(Some c, (new_process No_File)\<lparr>im_tokens := [(''N'', ''7'')]\<rparr>)"]) (simp add: new_process_def)
qed

end
