(* ===== verification/Broker_Start.thy ===== *)
theory Broker_Start
  imports Scrip_Master Tick_Feed
begin

text \<open>
  Connecting to the broker (\<open>connect\<close> of \<open>core/trading/broker.py\<close>): log-in over \<open>Angel_Client\<close>, the instrument master of
  \<open>Scrip_Master\<close>, the spot and the contract of \<open>Tick_Feed\<close>, the stream of \<open>Stream\<close>.  In paper mode every failure falls back to the
  simulator.  What the broker answers on the way is an argument.
\<close>

record broker_session =
  bs_rest :: "angel_client option"
  bs_master :: instrument_master
  bs_sim :: sim_state
  bs_feed :: broker

record connect_env =
  ce_configured :: bool
  ce_creates :: bool
  ce_login :: login_env
  ce_download :: "master_item option list option"
  ce_written :: write_result
  ce_spot :: ltp_reply
  ce_view :: market_view
  ce_option :: rest_reply
  ce_socket :: start_env
  ce_profile :: "string option api_reply"

text \<open>The simulator takes its base price from the spot when it makes its first tick.\<close>

definition first_values :: "broker_session \<Rightarrow> broker_session" where
  "first_values s =
     s\<lparr>bs_feed := (bs_feed s)\<lparr>br_shutdown := False, br_heartbeat_stop := False, br_strike := 25200, br_spot_price := 25200\<rparr>,
       bs_sim := (if sm_premium (bs_sim s) = None then (bs_sim s)\<lparr>sm_base_price := 25200\<rparr> else bs_sim s)\<rparr>"

text \<open>A client whose log-in fails stays in place. \<open>now\<close> is the time of the feed, \<open>clock\<close> the same in seconds.\<close>

definition connect :: "feed_config \<Rightarrow> instant \<Rightarrow> real \<Rightarrow> connect_env \<Rightarrow> broker_session \<Rightarrow> bool \<times> broker_session" where
  "connect cfg now clock env s0 =
     (let paper = fc_paper_trading cfg; s = first_values s0
      in if \<not> ce_configured env \<or> \<not> ce_creates env then (paper, s)
         else case login (ce_login env) clock new_client of
                (r, t, c) \<Rightarrow>
                  let s1 = s\<lparr>bs_rest := Some c, bs_feed := (bs_feed s)\<lparr>br_client := Some new_ws_client\<rparr>\<rparr>
                  in if r \<noteq> Inr True then (paper, s1)
                     else let s2 = s1\<lparr>bs_master := snd (load_scrip_master SCRIP_MASTER_CACHE_TTL t (ce_download env) (ce_written env) (bs_master s1))\<rparr>
                          in case setup_market_data cfg now (ce_view env) (ce_spot env) (ce_option env) (bs_sim s2) (bs_feed s2) of
                               (ok, sim, br) \<Rightarrow>
                                 let s3 = s2\<lparr>bs_sim := sim, bs_feed := br\<rparr>
                                 in if \<not> ok then (paper, s3)
                                    else let s4 = (if fc_use_live_data cfg \<and> fc_enable_websocket cfg
                                                   then s3\<lparr>bs_feed := start_websocket cfg now (ce_socket env) (bs_feed s3)\<rparr> else s3)
                                         in (True, if paper then s4
                                                   else s4\<lparr>bs_rest := Some (snd (snd (get_profile (ce_profile env) t c)))\<rparr>))"

section \<open>What a connected session has\<close>

lemma setup_result: "fst (setup_market_data cfg now mv spot reply s br) \<longleftrightarrow> spot \<noteq> LtpRaises"
  by (cases spot) (simp_all add: setup_market_data_def Let_def)

lemma login_client: "login env now c0 = (Inr True, t, c) \<Longrightarrow> ac_logged_in c \<and> ac_auth_token c \<noteq> None"
  by (auto simp: login_def take_session_def Let_def split: if_splits prod.splits api_reply.splits bool.splits option.splits)

lemma login_answer: "\<exists>e. fst (login env now c0) = Inl e \<or> fst (login env now c0) = Inr True"
  by (auto simp: login_def take_session_def Let_def split: prod.splits api_reply.splits bool.splits option.splits)

lemma profile_keeps: "ac_logged_in (snd (snd (get_profile reply t c))) = ac_logged_in c" "ac_auth_token (snd (snd (get_profile reply t c))) = ac_auth_token c"
  by (simp_all add: get_profile_def raising_call_def rate_limit_def Let_def split: option.split api_reply.split bool.split)

text \<open>Paper trading always connects.  Live trading connects exactly when the credentials are there, the client can be made, the
  broker accepts the log-in and asking it for the spot does not raise; the client is then logged in.\<close>

theorem connect_exact:
  "(fst (connect cfg now clock env s) \<longleftrightarrow>
      fc_paper_trading cfg
      \<or> ce_configured env \<and> ce_creates env \<and> fst (login (ce_login env) clock new_client) = Inr True \<and> ce_spot env \<noteq> LtpRaises)
   \<and> (\<not> fc_paper_trading cfg \<and> fst (connect cfg now clock env s) \<longrightarrow>
      (\<exists>c. bs_rest (snd (connect cfg now clock env s)) = Some c \<and> ac_logged_in c \<and> ac_auth_token c \<noteq> None))"
proof -
  obtain r t c where l: "login (ce_login env) clock new_client = (r, t, c)" by (metis surj_pair)
  have "r = Inr True \<Longrightarrow> ac_logged_in c \<and> ac_auth_token c \<noteq> None" using login_client l by blast
  then show ?thesis
    by (auto simp: connect_def Let_def case_prod_beta l setup_result profile_keeps)
qed

lemma subscribe_spot_price: "br_spot_price (snd (subscribe_with_retry cfg now tokens es b)) = br_spot_price b"
proof -
  have request: "br_spot_price (snd (with_request cfg now req b)) = br_spot_price b" for req b
    by (simp add: with_request_def on_ws_disconnect_def trigger_reconnect_def Let_def split: option.split)
  have "br_spot_price (snd (unsubscribe_with_verify cfg now tokens us b)) = br_spot_price b" for us b
    using request by (induction us arbitrary: b) (auto simp: case_prod_beta)
  with request show ?thesis
    by (induction es arbitrary: b) (auto simp: case_prod_beta clear_rest_cache_def)
qed

lemma websocket_spot_price: "br_spot_price (start_websocket cfg now e br) = br_spot_price br"
  by (simp add: start_websocket_def Let_def create_writer_def trigger_reconnect_def subscribe_all_def start_heartbeat_def mark_connected_def
      case_prod_beta subscribe_spot_price split: option.split)

lemma rest_spot_price: "br_spot_price (snd (fetch_option_tick_rest cfg now reply br)) = br_spot_price br"
  by (simp add: fetch_option_tick_rest_def request_rest_tick_def Let_def split: option.split rest_reply.split)

text \<open>The broker's refusal of a spot price is not a failure: live trading starts all the same, on a NIFTY spot of 25200 written in the
  code, and picks its contract by it.\<close>

theorem live_starts_on_invented_spot:
  assumes "ce_configured env" "ce_creates env" "fst (login (ce_login env) clock new_client) = Inr True" "ce_spot env = LtpNone"
  shows "fst (connect cfg now clock env s) \<and> br_spot_price (bs_feed (snd (connect cfg now clock env s))) = 25200"
proof -
  obtain t c where "login (ce_login env) clock new_client = (Inr True, t, c)" using assms(3) by (metis prod.collapse)
  then show ?thesis
    by (simp add: connect_def Let_def case_prod_beta assms websocket_spot_price setup_market_data_def rest_spot_price switch_contract_def first_values_def)
qed

definition good_login :: login_env where
  "good_login = \<lparr>le_installed = True, le_connects = True, le_totp = True,
     le_session = Reply True None (Some \<lparr>ld_jwt = Some ''j'', ld_refresh = Some ''r''\<rparr>), le_feed = Some (Some ''f'')\<rparr>"

definition silent_spot :: connect_env where
  "silent_spot = \<lparr>ce_configured = True, ce_creates = True, ce_login = good_login, ce_download = None, ce_written = Written, ce_spot = LtpNone,
     ce_view = \<lparr>mv_expiry = ''06JAN26'', mv_token = (\<lambda>_. ''''), mv_ltp = (\<lambda>_ _. LtpNone)\<rparr>, ce_option = RestNothing,
     ce_socket = \<lparr>se_raises = False, se_opens = True, se_spot = [], se_option = []\<rparr>, ce_profile = NoReply\<rparr>"

theorem live_starts_on_invented_spot_witness:
  "br_spot_price (bs_feed (snd (connect (default_feed_config\<lparr>fc_paper_trading := False\<rparr>) 0 0 silent_spot
     \<lparr>bs_rest = None, bs_master = new_process No_File,
      bs_sim = \<lparr>sm_premium = None, sm_base_price = 0, sm_amplitude = 20, sm_random_walk = 0, sm_trend = 0, sm_strike_known = False\<rparr>,
      bs_feed = new_broker\<rparr>))) = 25200"
proof -
  have l: "fst (login good_login 0 new_client) = Inr True"
    by (simp add: login_def good_login_def rate_limit_def RATE_LIMITS_def new_client_def take_session_def Let_def)
  show ?thesis
    using live_starts_on_invented_spot[of silent_spot 0] by (simp add: silent_spot_def l)
qed

end
