(* ===== verification/Supervisor.thy ===== *)
theory Supervisor
  imports Broker_Start
begin

text \<open>
  The process around the trading day (\<open>run_with_auto_reconnect\<close> of \<open>core/main.py\<close>): sessions of \<open>main\<close> one after another, with waits
  for the network in between.  What the three name servers answer, and how a session ends and how long it takes, are arguments; times
  are microseconds.  An interrupt from the keyboard arrives while a session runs.
\<close>

section \<open>The network\<close>

text \<open>A probe of one of the servers at a time: whether it answers, and how long that takes.\<close>

type_synonym probes = "nat \<Rightarrow> instant \<Rightarrow> bool \<times> nat"

fun try_servers :: "probes \<Rightarrow> nat list \<Rightarrow> instant \<Rightarrow> bool \<times> instant" where
  "try_servers probe [] now = (False, now)"
| "try_servers probe (s # ss) now =
     (case probe s now of (ok, d) \<Rightarrow> if ok then (True, now + int d) else try_servers probe ss (now + int d))"

definition check_internet_connection :: "probes \<Rightarrow> instant \<Rightarrow> bool \<times> instant" where
  "check_internet_connection probe now = try_servers probe [0, 1, 2] now"

lemma try_servers_later: "now \<le> snd (try_servers probe ss now)"
proof (induction ss arbitrary: now)
  case (Cons s ss)
  then show ?case by (cases "probe s now") (auto intro: order_trans[of now "now + int (snd (probe s now))"])
qed simp

lemma check_later: "check_internet_connection probe now = (ok, t) \<Longrightarrow> now \<le> t"
  using try_servers_later[of now probe "[0, 1, 2]"] by (simp add: check_internet_connection_def)

function wait_until :: "probes \<Rightarrow> instant \<Rightarrow> instant \<Rightarrow> bool \<times> instant" where
  "wait_until probe deadline now =
     (if now < deadline
      then case check_internet_connection probe now of
             (ok, t) \<Rightarrow> if ok then (True, t) else wait_until probe deadline (t + 5000000)
      else (False, now))"
  by auto
termination
  by (relation "measure (\<lambda>(probe, deadline, now). nat (deadline - now))") (auto dest!: check_later[OF sym])

declare wait_until.simps [simp del]

definition wait_for_internet :: "probes \<Rightarrow> int \<Rightarrow> instant \<Rightarrow> bool \<times> instant" where
  "wait_for_internet probe mins now = wait_until probe (now + mins * 60000000) now"

section \<open>Sessions\<close>

datatype session_end =
    Shutdown | Completed | Reconnect | Fatal | Startup_Blocked | No_Result
  | Interrupted | System_Exit | Raised string

text \<open>How \<open>main\<close> gets to its end: the settings are checked, the broker is connected, the day runs.\<close>

record main_run =
  mr_valid :: bool
  mr_connected :: bool
  mr_day :: session_end

definition main_end :: "main_run \<Rightarrow> session_end" where
  "main_end r = (if \<not> mr_valid r then System_Exit else if \<not> mr_connected r then No_Result else mr_day r)"

text \<open>What the exceptions of the loop come to, with the state of the trade left to the caller's handler.\<close>

datatype loop_exception = Keyboard_Interrupt | Os_Exception string | Other_Exception string

definition NETWORK_WORDS :: "string list" where
  "NETWORK_WORDS = [''name resolution'', ''connection'', ''network'', ''timeout'']"

definition mentions :: "string list \<Rightarrow> string \<Rightarrow> bool" where
  "mentions ws m \<longleftrightarrow> list_ex (\<lambda>w. contains w (map char_lower m)) ws"

text \<open>The end of a day the loop raised in, and whether an open trade is closed first.\<close>

definition loop_end :: "loop_exception \<Rightarrow> session_end \<times> bool" where
  "loop_end e =
     (case e of
        Keyboard_Interrupt \<Rightarrow> (Shutdown, True)
      | Os_Exception _ \<Rightarrow> (Reconnect, False)
      | Other_Exception m \<Rightarrow> if mentions (NETWORK_WORDS @ [''unreachable'']) m then (Reconnect, False) else (Fatal, True))"

record outside =
  os_probe :: probes
  os_main :: "nat \<Rightarrow> instant \<Rightarrow> main_run \<times> nat"

datatype stop_reason = Attempts_Used | No_Internet | Ended | Exited

record session =
  sn_start :: instant
  sn_stop :: instant
  sn_end :: session_end
  sn_cleared :: bool

definition retried :: "session_end \<Rightarrow> bool" where
  "retried e = (case e of Reconnect \<Rightarrow> True | Raised m \<Rightarrow> mentions NETWORK_WORDS m | _ \<Rightarrow> False)"

definition MAX_RECONNECT_ATTEMPTS :: nat where
  "MAX_RECONNECT_ATTEMPTS = 10"

definition RECONNECT_WAIT :: int where
  "RECONNECT_WAIT = 30000000"

text \<open>Before a session: the network is up, or comes back within half an hour.\<close>

definition before_session :: "probes \<Rightarrow> instant \<Rightarrow> bool \<times> instant" where
  "before_session probe now =
     (case check_internet_connection probe now of
        (True, t) \<Rightarrow> (True, t)
      | (False, t) \<Rightarrow> (case wait_for_internet probe 30 t of (True, t1) \<Rightarrow> (True, t1 + 2000000) | (False, t1) \<Rightarrow> (False, t1)))"

text \<open>After a session that is to be repeated.\<close>

definition after_session :: "probes \<Rightarrow> session_end \<Rightarrow> instant \<Rightarrow> instant" where
  "after_session probe e now =
     (case wait_for_internet probe 15 now of (ok, t) \<Rightarrow> if ok \<or> e = Reconnect then t + RECONNECT_WAIT else t)"

fun supervise :: "outside \<Rightarrow> nat \<Rightarrow> nat \<Rightarrow> instant \<Rightarrow> session list \<times> stop_reason \<times> instant" where
  "supervise out 0 k now = ([], Attempts_Used, now)"
| "supervise out (Suc n) k now =
     (case before_session (os_probe out) now of
        (False, t) \<Rightarrow> ([], No_Internet, t)
      | (True, t) \<Rightarrow>
          (case os_main out k t of
             (run, d) \<Rightarrow>
               let e = main_end run; t1 = t + int d; s = \<lparr>sn_start = t, sn_stop = t1, sn_end = e, sn_cleared = (e = Reconnect)\<rparr>
               in if e = System_Exit then ([s], Exited, t1)
                  else if retried e
                  then (case supervise out n (Suc k) (after_session (os_probe out) e t1) of (ss, r, t2) \<Rightarrow> (s # ss, r, t2))
                  else ([s], Ended, t1)))"

definition run_with_auto_reconnect :: "outside \<Rightarrow> instant \<Rightarrow> session list \<times> stop_reason \<times> instant" where
  "run_with_auto_reconnect out now = supervise out MAX_RECONNECT_ATTEMPTS 0 now"

section \<open>How long the network is waited for\<close>

definition answers_within :: "nat \<Rightarrow> probes \<Rightarrow> bool" where
  "answers_within p probe \<longleftrightarrow> (\<forall>s t. snd (probe s t) \<le> p)"

lemma try_servers_time: "answers_within p probe \<Longrightarrow> snd (try_servers probe ss now) \<le> now + int (length ss * p)"
proof (induction ss arbitrary: now)
  case (Cons s ss)
  obtain ok d where d: "probe s now = (ok, d)" by fastforce
  then have "d \<le> p" using Cons.prems by (metis answers_within_def snd_conv)
  moreover note Cons.IH[OF Cons.prems, of "now + int d"]
  moreover have "0 \<le> int p * int (length ss)" by simp
  moreover have "int d \<le> int p" using \<open>d \<le> p\<close> by simp
  ultimately have "int d \<le> int p + int p * int (length ss)" "snd (try_servers probe ss (now + int d)) \<le> now + (int p + int p * int (length ss))"
    by (linarith, simp add: algebra_simps)
  then show ?case by (simp add: d algebra_simps)
qed simp

lemma check_time: "answers_within p probe \<Longrightarrow> check_internet_connection probe now = (ok, t) \<Longrightarrow> t \<le> now + 3 * int p"
  using try_servers_time[of p probe "[0, 1, 2]" now] by (simp add: check_internet_connection_def)

lemma wait_time:
  "answers_within p probe \<Longrightarrow> wait_until probe deadline now = (ok, t) \<Longrightarrow> now \<le> deadline
     \<Longrightarrow> now \<le> t \<and> t \<le> deadline + 3 * int p + 5000000"
proof (induction probe deadline now arbitrary: ok t rule: wait_until.induct)
  case (1 probe deadline now)
  show ?case
  proof (cases "now < deadline")
    case False
    then have "wait_until probe deadline now = (False, now)" by (subst wait_until.simps) simp
    then show ?thesis using 1(3,4) by simp
  next
    case True
    obtain up u where c: "check_internet_connection probe now = (up, u)" by fastforce
    have u: "now \<le> u" "u \<le> now + 3 * int p" using check_later[OF c] check_time[OF 1(2) c] .
    show ?thesis
    proof (cases up)
      case True
      then show ?thesis using 1(3) c u \<open>now < deadline\<close> by (simp add: wait_until.simps[of probe deadline now])
    next
      case False
      then have w: "wait_until probe deadline (u + 5000000) = (ok, t)"
        using 1(3) c \<open>now < deadline\<close> by (simp add: wait_until.simps[of probe deadline now])
      show ?thesis
      proof (cases "u + 5000000 \<le> deadline")
        case True
        from 1(1)[OF \<open>now < deadline\<close> c[symmetric] False 1(2) w True] u show ?thesis by simp
      next
        case late: False
        with w u \<open>now < deadline\<close> show ?thesis by (simp add: wait_until.simps[of probe deadline "u + 5000000"])
      qed
    qed
  qed
qed

lemma wait_for_time:
  assumes "answers_within p probe" "wait_for_internet probe mins now = (ok, t)" "0 \<le> mins"
  shows "now \<le> t" "t \<le> now + mins * 60000000 + 3 * int p + 5000000"
  using wait_time[OF assms(1), of "now + mins * 60000000" now ok t] assms(2,3) by (simp_all add: wait_for_internet_def)

lemma before_time:
  assumes "answers_within p probe" "before_session probe now = (ok, t)"
  shows "now \<le> t" "t \<le> now + 1807000000 + 6 * int p"
proof -
  obtain up u where c: "check_internet_connection probe now = (up, u)" by fastforce
  obtain w v where w: "wait_for_internet probe 30 u = (w, v)" by fastforce
  note check_later[OF c] check_time[OF assms(1) c] wait_for_time[OF assms(1) w]
  then show "now \<le> t" "t \<le> now + 1807000000 + 6 * int p"
    using assms(2) by (auto simp: before_session_def c w split: bool.splits if_splits)
qed

lemma after_time:
  assumes "answers_within p probe"
  shows "now \<le> after_session probe e now" "after_session probe e now \<le> now + 935000000 + 3 * int p"
proof -
  obtain w v where w: "wait_for_internet probe 15 now = (w, v)" by fastforce
  from wait_for_time[OF assms w] show "now \<le> after_session probe e now" "after_session probe e now \<le> now + 935000000 + 3 * int p"
    by (simp_all add: after_session_def w RECONNECT_WAIT_def)
qed

section \<open>Runs\<close>

text \<open>The state of a supervised process between sessions, as consecutive sessions see it.\<close>

lemma supervise_first:
  assumes "answers_within p (os_probe out)" "supervise out n k now = (s # ss, r, t)"
  shows "now \<le> sn_start s" "sn_start s \<le> now + 1807000000 + 6 * int p"
proof -
  obtain m where n: "n = Suc m" using assms(2) by (cases n) auto
  obtain ok u where b: "before_session (os_probe out) now = (ok, u)" by fastforce
  with assms(2) n have "sn_start s = u" by (auto simp: Let_def split: bool.splits prod.splits if_splits)
  with before_time[OF assms(1) b] show "now \<le> sn_start s" "sn_start s \<le> now + 1807000000 + 6 * int p" by simp_all
qed

definition follows :: "nat \<Rightarrow> session \<Rightarrow> session \<Rightarrow> bool" where
  "follows p a b \<longleftrightarrow> sn_stop a \<le> sn_start b \<and> sn_start b \<le> sn_stop a + 2742000000 + 9 * int p"

lemma supervise_run:
  assumes "answers_within p (os_probe out)" "supervise out n k now = (ss, r, t)"
  shows "length ss \<le> n" "successively (follows p) ss" "list_all (retried \<circ> sn_end) (butlast ss)"
    "r = Attempts_Used \<longleftrightarrow> length ss = n \<and> list_all (retried \<circ> sn_end) ss"
proof -
  have "length ss \<le> n \<and> successively (follows p) ss \<and> list_all (retried \<circ> sn_end) (butlast ss)
    \<and> (r = Attempts_Used \<longleftrightarrow> length ss = n \<and> list_all (retried \<circ> sn_end) ss)"
    using assms(2)
  proof (induction n arbitrary: k now ss r t)
    case (Suc n)
    obtain ok u where b: "before_session (os_probe out) now = (ok, u)" by fastforce
    obtain run d where m: "os_main out k u = (run, d)" by fastforce
    define s where "s = \<lparr>sn_start = u, sn_stop = u + int d, sn_end = main_end run, sn_cleared = (main_end run = Reconnect)\<rparr>"
    show ?case
    proof (cases "ok \<and> main_end run \<noteq> System_Exit \<and> retried (main_end run)")
      case False
      then show ?thesis using Suc.prems by (auto simp: b m Let_def retried_def split: bool.splits if_splits)
    next
      case True
      define v where "v = after_session (os_probe out) (main_end run) (u + int d)"
      obtain ss1 r1 t1 where rest: "supervise out n (Suc k) v = (ss1, r1, t1)" by (metis surj_pair)
      have ss: "ss = s # ss1" "r = r1" using Suc.prems True rest by (auto simp: b m Let_def s_def v_def)
      have "follows p s (hd ss1)" if "ss1 \<noteq> []"
        using that supervise_first[OF assms(1), of n "Suc k" v "hd ss1" "tl ss1" r1 t1] rest
          after_time[OF assms(1), where now = "u + int d" and e = "main_end run"]
        by (cases ss1) (auto simp: follows_def s_def v_def)
      moreover have "retried (sn_end s)" using True by (simp add: s_def)
      ultimately show ?thesis using Suc.IH[OF rest] by (cases ss1) (auto simp: ss)
    qed
  qed auto
  then show "length ss \<le> n" "successively (follows p) ss" "list_all (retried \<circ> sn_end) (butlast ss)"
    "r = Attempts_Used \<longleftrightarrow> length ss = n \<and> list_all (retried \<circ> sn_end) ss" by blast+
qed

text \<open>C24: The supervised process always comes to an end, after at most ten sessions; it gives up exactly after ten that all broke off for the
  network.  Between two sessions it waits for at most 46 minutes and nine seconds when a name server answers or fails in three.\<close>

theorem supervision_bounded:
  assumes "answers_within 3000000 (os_probe out)" "run_with_auto_reconnect out now = (ss, r, t)"
  shows "length ss \<le> 10 \<and> (r = Attempts_Used \<longleftrightarrow> length ss = 10 \<and> list_all (retried \<circ> sn_end) ss)
    \<and> list_all (retried \<circ> sn_end) (butlast ss)
    \<and> successively (\<lambda>a b. sn_stop a \<le> sn_start b \<and> sn_start b \<le> sn_stop a + 2769000000) ss"
proof -
  note run = supervise_run[OF assms(1) assms(2)[unfolded run_with_auto_reconnect_def MAX_RECONNECT_ATTEMPTS_def]]
  have "successively (\<lambda>a b. sn_stop a \<le> sn_start b \<and> sn_start b \<le> sn_stop a + 2769000000) ss"
    using run(2) by (rule successively_mono) (simp add: follows_def)
  with run show ?thesis by simp
qed

text \<open>C23: A log-in the broker refuses after a reconnect ends the process: the network may be back and nine attempts left, in live trading
  a session whose connection fails returns nothing, and the supervisor takes that for the end of the day.\<close>

theorem refused_login_ends_bot:
  assumes "os_main out k (now + int d) = (\<lparr>mr_valid = True, mr_connected = fst (connect cfg (now + int d) clock env s), mr_day = day\<rparr>, dur)"
    and "os_probe out 0 now = (True, d)" "\<not> fc_paper_trading cfg" "fst (login (ce_login env) clock new_client) = Inl err"
  shows "\<exists>sn t. supervise out (Suc n) k now = ([sn], Ended, t) \<and> sn_end sn = No_Result"
proof -
  have c: "\<not> fst (connect cfg (now + int d) clock env s)"
    using assms(3,4) by (auto simp: connect_def Let_def case_prod_beta)
  have "before_session (os_probe out) now = (True, now + int d)"
    using assms(2) by (simp add: before_session_def check_internet_connection_def)
  with c assms(1) show ?thesis by (simp add: main_end_def retried_def Let_def)
qed

text \<open>The network is up; the first session breaks off for it, the second finds the log-in refused.\<close>

definition refused_env :: connect_env where
  "refused_env = silent_spot\<lparr>ce_login := good_login\<lparr>le_session := Reply False (Some ''Invalid totp'') None\<rparr>\<rparr>"

definition idle_session :: broker_session where
  "idle_session = \<lparr>bs_rest = None, bs_master = new_process No_File,
     bs_sim = \<lparr>sm_premium = None, sm_base_price = 0, sm_amplitude = 20, sm_random_walk = 0, sm_trend = 0, sm_strike_known = False\<rparr>,
     bs_feed = new_broker\<rparr>"

definition live_config :: feed_config where
  "live_config = default_feed_config\<lparr>fc_paper_trading := False\<rparr>"

definition outage_day :: outside where
  "outage_day = \<lparr>os_probe = (\<lambda>_ _. (True, 0)),
     os_main = (\<lambda>k t. if k = 0 then (\<lparr>mr_valid = True, mr_connected = True, mr_day = Reconnect\<rparr>, 3600000000)
                       else (\<lparr>mr_valid = True, mr_connected = fst (connect live_config t 0 refused_env idle_session), mr_day = Completed\<rparr>, 0))\<rparr>"

lemma refused_login: "fst (login (ce_login refused_env) 0 new_client) = Inl LoginError"
  by (simp add: refused_env_def silent_spot_def good_login_def login_def rate_limit_def RATE_LIMITS_def new_client_def Let_def)

theorem refused_login_ends_bot_witness:
  "\<exists>sn t. supervise outage_day 9 1 3630000000 = ([sn], Ended, t) \<and> sn_end sn = No_Result"
proof -
  have "\<exists>sn t. supervise outage_day (Suc 8) 1 3630000000 = ([sn], Ended, t) \<and> sn_end sn = No_Result"
    by (rule refused_login_ends_bot[OF _ _ _ refused_login, where d = 0 and cfg = live_config and s = idle_session])
      (simp_all add: outage_day_def live_config_def)
  then show ?thesis by simp
qed

theorem supervision_bounded_witness:
  "\<exists>ss r t. run_with_auto_reconnect outage_day 0 = (ss, r, t) \<and> length ss \<le> 10 \<and> list_all (retried \<circ> sn_end) (butlast ss)"
proof -
  obtain ss r t where run: "run_with_auto_reconnect outage_day 0 = (ss, r, t)" by (metis surj_pair)
  have "answers_within 3000000 (os_probe outage_day)" by (simp add: answers_within_def outage_day_def)
  from supervision_bounded[OF this run] run show ?thesis by blast
qed

end
