(* ===== verification/Spec2Isabelle.thy ===== *)
theory Spec2Isabelle
  imports Main_Loop Kill_Switch Costs Instruments Trading_State Entry_Engine Feed_Outage Stream Strikes Tick_Store Candles
    Trading_Calendar Vix Paper_Executor History_Collector Backtester Angel_Orders Config_Validator Greeks_Fetcher
    Warm_Up Supervisor
begin

text \<open>
  A verification development for the PTQ scalping bot, a Python program that scalps NIFTY index
  options through a retail broker, on paper or with real money.

  \<^bold>\<open>The program.\<close>  \<open>core/main.py\<close> runs one loop, twice a second.  Each pass fetches a tick from the
  broker session, checks that the feed is alive and the tick valid, consults the emergency check of
  \<open>core/risk/kill_switch.py\<close> and the operator's stop flag, and then runs one handler of the state
  machine in \<open>core/engines/state_machine.py\<close>: IDLE waits for the strategy's signal, ENTRY\_READY asks
  the risk manager (\<open>core/risk/risk_manager.py\<close>) for leave and a budget, has the position sized
  (\<open>core/engines/position_size_engine.py\<close>) and places the order (\<open>core/trading/order_execution.py\<close>),
  IN\_TRADE runs the exit engine (\<open>core/engines/exit_engine.py\<close>) on every tick and closes the trade
  when it says so, COOLDOWN waits.  The result of a trade goes to the counters of the trading state and,
  net of costs (\<open>research/costs.py\<close>), to the risk manager, whose limits decide about the next entry.
  The signal comes from \<open>core/engines/entry_engine.py\<close>, which runs the strategy
  (\<open>strategies/smart_scalp_v3.py\<close>) on the candles of \<open>core/runtime/state.py\<close> and puts its answer through
  filters on the contract that would be bought.  Ticks arrive over a WebSocket: bytes are parsed in
  \<open>brokers/angel_one\<close>, checked and stored by \<open>core/market_data\<close>, handed to the broker session by
  \<open>core/trading/tick_feed.py\<close> and kept alive by \<open>core/trading/reconnect_manager.py\<close>; REST polling and a
  simulator are the fallbacks.  Contract facts come from the instrument master (\<open>utils/instruments.py\<close>)
  and \<open>core/trading/strike_selector.py\<close>.  The database (\<open>core/services/database.py\<close>) keeps the trades, the
  open positions a restart recovers, and the virtual trades of \<open>core/validation/paper_executor.py\<close>.  All calls to the
  broker but the stream go through the REST client of \<open>brokers/angel_one\<close>.  Beside the trading path, \<open>core/historical\<close> records the
  feed into monthly files and decides whether they are fit for a backtest, \<open>core/backtest.py\<close> replays candles through the
  live exit engine, and \<open>config/validator.py\<close> checks and repairs the settings file.  \<open>run_with_auto_reconnect\<close> runs one day's \<open>main\<close>
  after another while the network breaks off; each begins with \<open>connect\<close> of \<open>core/trading/broker.py\<close>, which logs in, loads the
  instrument master and warms the candles up.

  \<^bold>\<open>The theories.\<close>  Each models one part; a definition has the name of the function it translates, and
  a record the fields of the object or dictionary.
  \<^item> Shared: \<open>Prelude\<close> (Python's truncation, rounding and truth values, clocks in microseconds, and the
    interfaces as locales \<open>invariant_system\<close>, \<open>ratchet\<close>, \<open>bounded_buffer\<close>, \<open>timed_gate\<close>), \<open>Py_Dict\<close>
    (dictionaries that keep insertion order), \<open>Civil_Date\<close> (the month of a day number), \<open>Market_Tick\<close>
    (the tick dictionary and the helpers of \<open>utils/helpers.py\<close> on it).
  \<^item> Trading: \<open>Main_Loop\<close>, \<open>State_Machine\<close>, \<open>Trading_State\<close>, \<open>Trade\<close>, \<open>Exit_Engine\<close>, \<open>Orders\<close>.
  \<^item> Risk: \<open>Risk_Manager\<close>, \<open>Position_Size\<close>, \<open>Kill_Switch\<close>, \<open>Costs\<close>, \<open>Validators\<close> (the data hygiene check,
    the validators of the three factors, VWAP and candle quality), \<open>Mode_Switch\<close> (AGGRESSIVE, SAFE,
    LOCKDOWN), \<open>Session_Trend\<close>.
  \<^item> Signals: \<open>Runtime_State\<close> (tick buffer and canonical candles), \<open>Indicators\<close>, \<open>Scoring\<close> (weighted score,
    adaptive confidence, position in the range), \<open>Market_Quality\<close>, \<open>Greeks\<close>, \<open>Greeks_Fetcher\<close> (the broker's
    Greeks, their cache and the fallback), \<open>Pullback\<close> (with the chop gate and the selector), \<open>Smart_Scalp\<close>, \<open>Entry_Engine\<close>.
  \<^item> Market data: \<open>Wire_Format\<close> (the binary packet), \<open>Tick_Pipeline\<close> (sequence tracking, validation,
    enrichment, cache, router), \<open>Candles\<close>, \<open>Tick_Store\<close> (monthly databases and the batched writer).
  \<^item> Connection: \<open>WS_Client\<close> (subscriptions of the WebSocket client), \<open>Broker_Feed\<close> (state of the session and
    what an arriving tick does to it), \<open>Stream\<close> (disconnects, the reconnect worker and its breaker, the
    heartbeat), \<open>Tick_Feed\<close> (REST, simulator, \<open>get_tick\<close>), \<open>Feed_Quality\<close> (which ticks reach the loop when
    \<open>get_tick\<close> and the hygiene check are composed), \<open>Feed_Outage\<close> (the loop's outage pass on the answers of
    \<open>get_tick\<close>), \<open>Instruments\<close>, \<open>Strikes\<close> (symbols, strike search,
    rotation of the subscription), \<open>Vix\<close> (the cached volatility index and its fallback estimate).
  \<^item> Calendar: \<open>Iso_Date\<close> (civil dates of day numbers, \<open>isoformat\<close> and \<open>fromisoformat\<close>), \<open>Trading_Calendar\<close>
    (the holiday file, its refresh from the exchange, the session hours, the waiting loops).
  \<^item> Storage: \<open>Sql_Table\<close> (the part of SQLite the program uses: rows with automatic keys, select, update,
    delete, text comparison), \<open>Db_Schema\<close> (columns, start-up of a database, retries on a locked file),
    \<open>Trade_Database\<close> (the operations of \<open>DatabaseManager\<close>), \<open>Paper_Executor\<close> (virtual trades, the observer
    after the exit, the sweep of stale trades).
  \<^item> Broker: \<open>Angel_Client\<close> (log-in and tokens, rate limits, circuit breaker, prices with retries, the cache of
    symbol tokens), \<open>Angel_Orders\<close> (placing, changing and cancelling orders, books and positions).
  \<^item> Start: \<open>Supervisor\<close> (the sessions of a process and the waits for the network), \<open>Broker_Start\<close> (connecting),
    \<open>Scrip_Master\<close> (download, cache file and parsing of the instrument master, token look-up), \<open>Warm_Up\<close> (the candles a
    session starts from).
  \<^item> History: \<open>History_Row\<close> (the canonical row and its time stamps), \<open>History_Store\<close> (the monthly store and the
    data source of a backtest), \<open>Data_Quality\<close> (the eleven checks), \<open>Backtest_Gate\<close> (the decision over a range of
    dates), \<open>History_Collector\<close> (the packet parser and the buffer of the recorder), \<open>Backtester\<close> (the replay and its
    results).
  \<^item> Settings: \<open>Config_Validator\<close> (reading, checks, fixes and writing of the settings file; the readers of the bot).

  \<^bold>\<open>How the code is read.\<close>  A method that changes an object is a function to the changed record; a
  handler returns the next machine state and the bot.  Exceptions are the \<open>py_error\<close> side of a sum,
  block and exit messages are constructors, optional dictionary keys are options read with their
  default.  Module settings are one configuration record per component, with the shipped defaults as
  \<open>default_*\<close> constants.  Python floats are read as real numbers, so rounding errors of floating point
  are not modelled, but every explicit \<open>round\<close>, \<open>int\<close> and floor is; Python integers are unbounded \<open>int\<close>, the
  fields of the wire packet are read at their width from bytes.  The clock is an argument: a function
  reads it once per call.  The order gateway is a pair of functions from the calls made so far to the next
  reply, without any assumption about the replies.  Sockets, REST replies and the random draws of the
  simulator are inputs of the step that reads them.  Threads are state: a worker is its program counter,
  and a run interleaves its steps with callbacks in any order.  \<open>Main_Loop\<close> takes ticks, their validity,
  greeks, the VIX, the strategy's signal and the mode's permission as inputs of a pass; the theories of
  those parts model where they come from.  \<open>Backtester\<close> takes the strategy as a function, \<open>Angel_Client\<close> the answers of the
  broker's library, which has no source here.  A file of settings is the list of its lines.

  \<^bold>\<open>Bounds and recursion.\<close>  Every loop of the order code is bounded there: the limit loop by the number
  of attempts, verification by five looks, the exit by three placements, the ladder by its table; the waits
  of the stream by their number of looks.  They are structural recursions on that bound.  The loop of the
  reconnect worker has no bound of its own: it is a step function, and its termination is a theorem with an
  explicit number of steps.  The waiting loops of the calendar and the batched delete of the database
  are functions with a termination proof: the clock moves past the target, the table shrinks; so is the lenient
  decoding of text in the recorder, which consumes at least a byte in each step.  The retries of the REST client are bounded by
  their number, with a theorem on the time they take; the wait for the network ends because each round moves the clock, the
  sessions of a process because their number is fixed; the gate visits the months it computes from its range; the
  replay is a recursion on the candles, and that it returns is a theorem.  Runs are
  folds over a finite list of events of any length.

  \<^bold>\<open>What the lemmas show.\<close>
  \<^item> \<open>Main_Loop\<close>: over all runs, a held trade is only ever exited or carried on with its stop no looser,
    the machine state and the position agree, the operator's stop holds, an emergency flattens; and the
    case in which an exit that cannot be priced strands a position.  \<open>Feed_Outage\<close>: an outage in the middle of a trade
    sells the position at the simulator's price.
  \<^item> \<open>Exit_Engine\<close>: the stop is a ratchet, a rung once reached locks its profit, results are capped,
    and the close of the market always exits; \<open>State_Machine\<close> shows the tick on which none of this runs.
  \<^item> \<open>Risk_Manager\<close>, \<open>Position_Size\<close>: what leave to trade implies, the equity accounting over any run,
    when a halt can lift, that the budget keeps the day within its ceiling and the lots within every cap,
    what a restart restores and what a reconnect loses.
  \<^item> \<open>Orders\<close>: how many orders can reach the broker, for what, and when a fill counts as confirmed; and
    the answers of a broker on which orders are doubled or left working.
  \<^item> \<open>Kill_Switch\<close>, \<open>Trading_State\<close>, \<open>Instruments\<close>: the timing of every pause, the consistency of the
    counters, what restored counters have in common with the live ones, expiries and tick rounding.
  \<^item> \<open>Entry_Engine\<close>, \<open>Smart_Scalp\<close>, \<open>Market_Quality\<close>: what an accepted signal implies - every gate of the
    strategy and every filter on the traded contract - and which of the gates can never refuse;
    \<open>Indicators\<close>, \<open>Scoring\<close>, \<open>Pullback\<close>: ranges of the values, and the defects of the MACD, the ATR and
    the candle highs and what they do to the scores.
  \<^item> \<open>Candles\<close> and \<open>Runtime_State\<close>: both aggregations refine the grouping of ticks into buckets;
    \<open>Wire_Format\<close> and \<open>Tick_Store\<close>: round trips through bytes and through the monthly databases, and the
    conservation of ticks by the writer.
  \<^item> \<open>Stream\<close>: at most one reconnect worker under any interleaving, termination of the worker, and the
    sequences after which the stream stays down; \<open>Feed_Quality\<close>: the stale, simulated or foreign ticks
    that pass as live ones.
  \<^item> \<open>Validators\<close>, \<open>Mode_Switch\<close>, \<open>Session_Trend\<close>, \<open>Strikes\<close>, \<open>Greeks\<close>: exact acceptance conditions, the
    permanence of the lockdown, the session gate on the data it is really fed, optimality of the strike
    search, exactness of the Greeks cache; \<open>Greeks_Fetcher\<close>: the spacing of the requests and the age of the answers.
  \<^item> \<open>Trade_Database\<close>, \<open>Paper_Executor\<close>: the positions a restart recovers are those saved and not closed,
    pruning removes exactly what is old, a logged trade reads back, one virtual trade is open at a time,
    and the sign error in the score of virtual puts.
  \<^item> \<open>Trading_Calendar\<close>, \<open>Iso_Date\<close>, \<open>Vix\<close>: round trips of dates and of the holiday file, the day on which a
    waiting loop wakes, the spacing of the requests for the index and the range of its value.
  \<^item> \<open>Angel_Client\<close>, \<open>Angel_Orders\<close>: calls keep the broker's rate, the symbol cache is exact, what an answer to an order
    means and what of it is reported, and the outage in which the circuit breaker opens only once.
  \<^item> \<open>History_Store\<close>, \<open>Data_Quality\<close>, \<open>Backtest_Gate\<close>, \<open>History_Collector\<close>: the monthly files read as one table, real data are
    never substituted, single checks are exact, the gate refuses flawed data, the two packet parsers agree, every recorded
    row is stored; and the honest recordings the gate rejects.
  \<^item> \<open>Backtester\<close>: a run returns and ends flat, its drawdown is the greatest fall of the equity, the limit of a day holds; and
    the costs missing from its expectancy and the sign of its puts on index data.
  \<^item> \<open>Config_Validator\<close>: what a valid file guarantees, written fixes read back, ranges hold after a fix; and where the validator
    and the bot read different values.
  \<^item> \<open>Supervisor\<close>, \<open>Broker_Start\<close>: a process ends after ten sessions at most and bounded waits, what a connected live session has;
    and the refused log-in that ends it early.  \<open>Scrip_Master\<close>: the next start reads back what the last one had; and the
    expired contracts that stay in the file and outvote the new lot.  \<open>Warm_Up\<close>: where candles come from, that they survive a
    restart, and that the retries of the request change nothing.
  The interfaces are interpreted where the model provides them: the pauses (spread cooldown, loss streak,
  direction block, spike) as \<open>timed_gate\<close>; the trailing stop and the peak equity as \<open>ratchet\<close>; the windows of
  the spot, the mode switch and the tick buffer as \<open>bounded_buffer\<close>; the loop, the stream, the caches of the client, the trackers, the
  mode, the Greeks cache of the entry engine, the recovery table, the virtual trades, the observer, the
  volatility index, the historical files and their data source, the recording, the sessions and the symbol cache of the REST client,
  the warm-up candles, the instrument master and its tokens
  as \<open>invariant_system\<close>.  \<open>Backtester\<close> has an interface of its own, \<open>replay_invariant\<close>, for what survives the ways a candle changes
  a run; the accounts, the limit of a day and the drawdown are its interpretations.

  \<^bold>\<open>What is not modelled.\<close>  Files, logs, metrics and Telegram messages (no decision of the modelled parts
  reads them back, except the day file and the risk state file, which are records); an exception out of the strike rotation
  after an exit; a tick that names another \<open>option_type\<close> than CE for the delta filter; SQLite's column affinity; labels of
  historical candles in another text form than the two the code knows (each said where it belongs); the readiness
  checks of the start-up; the names under which the constants are read from the settings; the socket of the recorder;
  the reports over stored trades, and the offline research under \<open>research\<close> and \<open>claude_code\<close>.
\<close>

end
